(* ===== verification/Prelude.thy ===== *)
theory Prelude
  imports "HOL-Library.Finite_Map" "HOL-Library.Monad_Syntax"
begin

text \<open>
  What every component of the development shares.

  \<^item> Go maps are finite maps (\<open>fmap\<close>): \<open>len m\<close> is the size of the domain, \<open>m[k]\<close> is
    \<open>fmlookup\<close>, an assignment is \<open>fmupd\<close>, \<open>delete(m, k)\<close> is \<open>fmdrop\<close>. The order in which
    \<open>range m\<close> visits the keys is chosen by the Go runtime, so a definition that ranges over a
    map takes the order as an argument, and \<open>enumerates\<close> says that it is a legal one.
  \<^item> Go's \<open>error\<close> values are the type \<open>error\<close>; a function that returns \<open>(T, error)\<close> returns
    \<open>error + T\<close>.
  \<^item> A run-time panic (nil dereference, index out of range) is \<open>None\<close> of an \<open>option\<close> result.
  \<^item> The locale \<open>keyed_store\<close> is the contract of the in-memory caches of the repository: the
    volume cache of the local provisioner and the two worlds of the snapshot controller.
\<close>

section \<open>Errors\<close>

text \<open>
  \<open>Errorf\<close> is \<open>fmt.Errorf\<close> with its format and its string arguments, \<open>Wrapf\<close> the same with an
  error as last argument, \<open>NotFound\<close> and \<open>AlreadyExists\<close> are the API errors the code tells
  apart, \<open>IgnoredError\<close> the provisioning library's marker, \<open>Aggregate\<close> a list of errors joined
  into one and \<open>ExtErr\<close> an error made outside the repository.
\<close>

datatype error =
    Errorf string "string list"
  | Wrapf string "string list" error
  | NotFound string
  | AlreadyExists string
  | IgnoredError string "string list"
  | Aggregate "error list"
  | ExtErr string

type_synonym 'a result = "error + 'a"
type_synonym 'v gomap = "(string, 'v) fmap"

fun IsNotFound :: "error \<Rightarrow> bool" where
  "IsNotFound (NotFound _) = True"
| "IsNotFound _ = False"

fun IsAlreadyExists :: "error \<Rightarrow> bool" where
  "IsAlreadyExists (AlreadyExists _) = True"
| "IsAlreadyExists _ = False"

named_theorems go_defs \<open>definitions of handlers, to unfold in case analyses\<close>
named_theorems frame_simps \<open>what an operation leaves unchanged\<close>

section \<open>Ranging over a map\<close>

definition enumerates :: "'k list \<Rightarrow> ('k, 'v) fmap \<Rightarrow> bool" where
  "enumerates ks m \<longleftrightarrow> distinct ks \<and> fset_of_list ks = fmdom m"

definition map_values :: "'k list \<Rightarrow> ('k, 'v) fmap \<Rightarrow> 'v list" where
  "map_values ks m = List.map_filter (fmlookup m) ks"

definition map_len :: "('k, 'v) fmap \<Rightarrow> nat" where
  "map_len m = fcard (fmdom m)"

lemma map_values_Nil [simp]: "map_values [] m = []"
  by (simp add: map_values_def map_filter_def)

lemma map_values_Cons [simp]:
  "map_values (k # ks) m =
     (case fmlookup m k of None \<Rightarrow> map_values ks m | Some v \<Rightarrow> v # map_values ks m)"
  by (simp add: map_values_def map_filter_def split: option.splits)

lemma set_map_values: "set (map_values ks m) = {v. \<exists>k \<in> set ks. fmlookup m k = Some v}"
  by (induction ks) (auto split: option.splits)

lemma enumerates_lookup:
  "enumerates ks m \<Longrightarrow> fmlookup m k = Some v \<Longrightarrow> k \<in> set ks"
  unfolding enumerates_def
  by (metis fmdomI fset_of_list_elem)

lemma enumerates_None:
  "enumerates ks m \<Longrightarrow> k \<notin> set ks \<Longrightarrow> fmlookup m k = None"
  using enumerates_lookup by fastforce

lemma set_map_values_enumerates:
  "enumerates ks m \<Longrightarrow> set (map_values ks m) = {v. \<exists>k. fmlookup m k = Some v}"
  by (auto simp: set_map_values dest: enumerates_lookup)

lemma enumerates_empty [simp]: "enumerates [] fmempty"
  by (simp add: enumerates_def)

lemma map_len_empty [simp]: "map_len fmempty = 0"
  by (simp add: map_len_def)

lemma map_len_upd:
  "map_len (fmupd k v m) = (if fmlookup m k = None then Suc (map_len m) else map_len m)"
  by (auto simp: map_len_def fcard_finsert_if fmlookup_dom_iff)

lemma map_len_0_iff: "map_len m = 0 \<longleftrightarrow> m = fmempty"
  by (metis fcard_0_eq fmdom_empty fmrestrict_fset_dom fmrestrict_fset_null map_len_def)

section \<open>Lists\<close>

lemma fold_invariant:
  assumes "P s" and "\<And>x s. x \<in> set xs \<Longrightarrow> P s \<Longrightarrow> P (f x s)"
  shows "P (fold f xs s)"
  using assms by (induction xs arbitrary: s) auto

lemma filter_singleton_distinct:
  "distinct xs \<Longrightarrow> x \<in> set xs \<Longrightarrow> filter (\<lambda>y. y = x) xs = [x]"
  by (induction xs) (auto simp: filter_empty_conv)

section \<open>The contract of an in-memory cache\<close>

text \<open>
  A cache holds values under a key computed from the value. The clients (populators,
  reconcilers) rely on three laws only; what they do with the cache is expressed by
  the loops \<open>purge\<close> (drop the entries a predicate rejects) and \<open>fill\<close> (add the values
  whose key is missing).
\<close>

locale keyed_store =
  fixes lookup :: "'s \<Rightarrow> string \<Rightarrow> 'v option"
    and add :: "'v \<Rightarrow> 's \<Rightarrow> 's"
    and remove :: "string \<Rightarrow> 's \<Rightarrow> 's"
    and key :: "'v \<Rightarrow> string"
    and empty :: "'s"
  assumes lookup_empty: "lookup empty k = None"
    and lookup_add: "lookup (add v s) k = (if k = key v then Some v else lookup s k)"
    and lookup_remove: "lookup (remove k' s) k = (if k = k' then None else lookup s k)"
begin

definition well_keyed :: "'s \<Rightarrow> bool" where
  "well_keyed s \<longleftrightarrow> (\<forall>k v. lookup s k = Some v \<longrightarrow> key v = k)"

definition purge :: "(string \<Rightarrow> bool) \<Rightarrow> string list \<Rightarrow> 's \<Rightarrow> 's" where
  "purge keep ks s = fold (\<lambda>k s. if keep k then s else remove k s) ks s"

definition fill :: "'v list \<Rightarrow> 's \<Rightarrow> 's" where
  "fill vs s = fold (\<lambda>v s. if lookup s (key v) = None then add v s else s) vs s"

lemma well_keyed_empty: "well_keyed empty"
  by (simp add: well_keyed_def lookup_empty)

lemma well_keyed_add: "well_keyed s \<Longrightarrow> well_keyed (add v s)"
  by (simp add: well_keyed_def lookup_add)

lemma well_keyed_remove: "well_keyed s \<Longrightarrow> well_keyed (remove k s)"
  by (simp add: well_keyed_def lookup_remove)

lemma well_keyed_purge: "well_keyed s \<Longrightarrow> well_keyed (purge keep ks s)"
  unfolding purge_def
  by (rule fold_invariant) (auto intro: well_keyed_remove)

lemma well_keyed_fill: "well_keyed s \<Longrightarrow> well_keyed (fill vs s)"
  unfolding fill_def
  by (rule fold_invariant) (auto intro: well_keyed_add)

lemma lookup_purge:
  "lookup (purge keep ks s) k = (if k \<in> set ks \<and> \<not> keep k then None else lookup s k)"
  unfolding purge_def by (induction ks arbitrary: s) (auto simp: lookup_remove)

lemma lookup_fill_present: "lookup s k = Some v \<Longrightarrow> lookup (fill vs s) k = Some v"
  unfolding fill_def
proof (induction vs arbitrary: s)
  case (Cons w ws)
  have "lookup (if lookup s (key w) = None then add w s else s) k = Some v"
    using Cons.prems by (auto simp: lookup_add)
  then show ?case using Cons.IH by simp
qed simp

lemma lookup_fill_absent:
  "lookup s k = None \<Longrightarrow> lookup (fill vs s) k = List.find (\<lambda>v. key v = k) vs"
proof (induction vs arbitrary: s)
  case Nil
  then show ?case by (simp add: fill_def)
next
  case (Cons v vs)
  have step: "fill (v # vs) s = fill vs (if lookup s (key v) = None then add v s else s)"
    by (simp add: fill_def)
  show ?case
  proof (cases "key v = k")
    case True
    then have "lookup (fill vs (add v s)) k = Some v"
      by (intro lookup_fill_present) (simp add: lookup_add)
    with True Cons.prems show ?thesis by (simp add: step)
  next
    case False
    with Cons show ?thesis by (auto simp: step lookup_add)
  qed
qed

lemma lookup_fill_dom:
  "lookup (fill vs s) k \<noteq> None \<longleftrightarrow> lookup s k \<noteq> None \<or> k \<in> key ` set vs"
proof (cases "lookup s k")
  case None
  then show ?thesis by (auto simp: lookup_fill_absent find_None_iff find_Some_iff)
next
  case (Some v)
  then show ?thesis by (simp add: lookup_fill_present)
qed

text \<open>
  The two loops together bring the cache's keys to those of a list of values: entries
  without a value of that key go, values without an entry come.
\<close>

lemma sync_dom:
  assumes "\<And>k. lookup s k \<noteq> None \<Longrightarrow> k \<in> set ks"
    and "\<And>k. k \<in> set ks \<Longrightarrow> keep k \<longleftrightarrow> k \<in> key ` set vs"
  shows "lookup (fill vs (purge keep ks s)) k \<noteq> None \<longleftrightarrow> k \<in> key ` set vs"
  unfolding lookup_fill_dom using assms by (auto simp: lookup_purge)

end

end
