(* ===== verification/ProcTable.thy ===== *)
theory ProcTable
  imports Prelude
begin

text \<open>
  \<open>local-volume/provisioner/pkg/deleter/proctable.go\<close> (and \<open>CleanupState\<close> of
  \<open>deleter.go\<close>): the table of cleaning processes, by PV name. Every method holds the mutex for
  its whole body. The interface is a record of functions; \<open>ProcTableImpl\<close> implements it,
  and \<open>FakeProcTableImpl\<close> wraps an implementation and counts the calls.
\<close>

section \<open>CleanupState\<close>

datatype CleanupState = CSUnknown | CSNotFound | CSRunning | CSFailed | CSSucceeded

text \<open>The Go constants count from one (\<open>iota + 1\<close>); the order of the constants is theirs.\<close>

fun state_number :: "CleanupState \<Rightarrow> nat" where
  "state_number CSUnknown = 1"
| "state_number CSNotFound = 2"
| "state_number CSRunning = 3"
| "state_number CSFailed = 4"
| "state_number CSSucceeded = 5"

lemma state_number_inject: "state_number a = state_number b \<longleftrightarrow> a = b"
  by (cases a; cases b) simp_all

instantiation CleanupState :: linorder
begin

definition less_eq_CleanupState :: "CleanupState \<Rightarrow> CleanupState \<Rightarrow> bool" where
  "less_eq_CleanupState a b \<longleftrightarrow> state_number a \<le> state_number b"

definition less_CleanupState :: "CleanupState \<Rightarrow> CleanupState \<Rightarrow> bool" where
  "less_CleanupState a b \<longleftrightarrow> state_number a < state_number b"

instance
  by standard
    (auto simp: less_eq_CleanupState_def less_CleanupState_def state_number_inject
      dest: antisym simp flip: state_number_inject)

end

section \<open>The interface\<close>

record ProcTableStats =
  Running :: nat
  Succeeded :: nat
  Failed :: nat

record ProcEntry =
  StartTime :: int
  Status :: CleanupState

text \<open>The result of \<open>RemoveEntry\<close>: the state, the start time and the error.\<close>

type_synonym removed = "CleanupState \<times> int option \<times> error option"

text \<open>
  \<open>MarkRunning\<close> reads the clock: the current time is its first argument. \<open>Stats\<close> ranges over the
  table in the order it is given.
\<close>

record 't ProcTable =
  pt_IsRunning :: "string \<Rightarrow> 't \<Rightarrow> bool \<times> 't"
  pt_IsEmpty :: "'t \<Rightarrow> bool"
  pt_MarkRunning :: "int \<Rightarrow> string \<Rightarrow> 't \<Rightarrow> error option \<times> 't"
  pt_MarkFailed :: "string \<Rightarrow> 't \<Rightarrow> error option \<times> 't"
  pt_MarkSucceeded :: "string \<Rightarrow> 't \<Rightarrow> error option \<times> 't"
  pt_RemoveEntry :: "string \<Rightarrow> 't \<Rightarrow> removed \<times> 't"
  pt_Stats :: "string list \<Rightarrow> 't \<Rightarrow> ProcTableStats \<times> 't"

section \<open>ProcTableImpl\<close>

record ProcTableImpl =
  procTable :: "ProcEntry gomap"
  succeeded :: nat
  failed :: nat

definition NewProcTable :: ProcTableImpl where
  "NewProcTable = \<lparr>procTable = fmempty, succeeded = 0, failed = 0\<rparr>"

definition IsRunning :: "string \<Rightarrow> ProcTableImpl \<Rightarrow> bool" where
  "IsRunning pvName v =
     (case fmlookup (procTable v) pvName of None \<Rightarrow> False | Some e \<Rightarrow> Status e = CSRunning)"

definition IsEmpty :: "ProcTableImpl \<Rightarrow> bool" where
  "IsEmpty v \<longleftrightarrow> map_len (procTable v) = 0"

definition MarkRunning :: "int \<Rightarrow> string \<Rightarrow> ProcTableImpl \<Rightarrow> error option \<times> ProcTableImpl" where
  "MarkRunning now pvName v =
     (case fmlookup (procTable v) pvName of
        Some _ \<Rightarrow>
          (Some (Errorf ''Failed to mark running of %q as it is already running, should never happen''
                   [pvName]), v)
      | None \<Rightarrow>
          (None, v\<lparr>procTable :=
                     fmupd pvName \<lparr>StartTime = now, Status = CSRunning\<rparr> (procTable v)\<rparr>))"

text \<open>The deferred function of \<open>markStatus\<close>: it counts on the error return, too.\<close>

definition countStatus :: "CleanupState \<Rightarrow> ProcTableImpl \<Rightarrow> ProcTableImpl" where
  "countStatus status v =
     (if status = CSSucceeded then v\<lparr>succeeded := Suc (succeeded v)\<rparr>
      else if status = CSFailed then v\<lparr>failed := Suc (failed v)\<rparr>
      else v)"

definition markStatus :: "string \<Rightarrow> CleanupState \<Rightarrow> ProcTableImpl \<Rightarrow> error option \<times> ProcTableImpl" where
  "markStatus pvName status v =
     (case fmlookup (procTable v) pvName of
        None \<Rightarrow>
          (Some (Errorf ''failed to mark status %d for pv %q as it is not present in proctable''
                   [pvName]), countStatus status v)
      | Some entry \<Rightarrow>
          (None, countStatus status
                   (v\<lparr>procTable := fmupd pvName (entry\<lparr>Status := status\<rparr>) (procTable v)\<rparr>)))"

definition MarkFailed :: "string \<Rightarrow> ProcTableImpl \<Rightarrow> error option \<times> ProcTableImpl" where
  "MarkFailed pvName v = markStatus pvName CSFailed v"

definition MarkSucceeded :: "string \<Rightarrow> ProcTableImpl \<Rightarrow> error option \<times> ProcTableImpl" where
  "MarkSucceeded pvName v = markStatus pvName CSSucceeded v"

definition RemoveEntry :: "string \<Rightarrow> ProcTableImpl \<Rightarrow> removed \<times> ProcTableImpl" where
  "RemoveEntry pvName v =
     (case fmlookup (procTable v) pvName of
        None \<Rightarrow> ((CSNotFound, None, None), v)
      | Some entry \<Rightarrow>
          if Status entry = CSRunning
          then ((CSUnknown, None,
                 Some (Errorf ''cannot remove proctable entry for %q when it is still running''
                         [pvName])), v)
          else if Status entry = CSUnknown
          then ((CSUnknown, None,
                 Some (Errorf ''proctable entry for %q in unexpected unknown state'' [pvName])), v)
          else ((Status entry, Some (StartTime entry), None),
                v\<lparr>procTable := fmdrop pvName (procTable v)\<rparr>))"

definition Stats :: "string list \<Rightarrow> ProcTableImpl \<Rightarrow> ProcTableStats" where
  "Stats order v =
     \<lparr>Running = fold (\<lambda>entry n. if Status entry = CSRunning then Suc n else n)
                  (map_values order (procTable v)) 0,
      Succeeded = succeeded v, Failed = failed v\<rparr>"

definition ProcTableImpl_ops :: "ProcTableImpl ProcTable" where
  "ProcTableImpl_ops =
     \<lparr>pt_IsRunning = (\<lambda>n v. (IsRunning n v, v)), pt_IsEmpty = IsEmpty, pt_MarkRunning = MarkRunning,
      pt_MarkFailed = MarkFailed, pt_MarkSucceeded = MarkSucceeded, pt_RemoveEntry = RemoveEntry,
      pt_Stats = (\<lambda>order v. (Stats order v, v))\<rparr>"

section \<open>FakeProcTableImpl\<close>

record FakeProcTableImpl =
  realTable :: ProcTableImpl
  IsRunningCount :: nat
  MarkRunningCount :: nat
  MarkDoneCount :: nat
  RemoveCount :: nat
  StatsCount :: nat

definition NewFakeProcTable :: FakeProcTableImpl where
  "NewFakeProcTable =
     \<lparr>realTable = NewProcTable, IsRunningCount = 0, MarkRunningCount = 0, MarkDoneCount = 0,
      RemoveCount = 0, StatsCount = 0\<rparr>"

definition Fake_IsRunning :: "string \<Rightarrow> FakeProcTableImpl \<Rightarrow> bool \<times> FakeProcTableImpl" where
  "Fake_IsRunning pvName f =
     (IsRunning pvName (realTable f), f\<lparr>IsRunningCount := Suc (IsRunningCount f)\<rparr>)"

definition Fake_IsEmpty :: "FakeProcTableImpl \<Rightarrow> bool" where
  "Fake_IsEmpty f = IsEmpty (realTable f)"

definition Fake_MarkRunning ::
  "int \<Rightarrow> string \<Rightarrow> FakeProcTableImpl \<Rightarrow> error option \<times> FakeProcTableImpl" where
  "Fake_MarkRunning now pvName f =
     (let (err, t) = MarkRunning now pvName (realTable f)
      in (err, f\<lparr>MarkRunningCount := Suc (MarkRunningCount f), realTable := t\<rparr>))"

definition Fake_MarkFailed ::
  "string \<Rightarrow> FakeProcTableImpl \<Rightarrow> error option \<times> FakeProcTableImpl" where
  "Fake_MarkFailed pvName f =
     (let (err, t) = MarkFailed pvName (realTable f)
      in (err, f\<lparr>MarkDoneCount := Suc (MarkDoneCount f), realTable := t\<rparr>))"

definition Fake_MarkSucceeded ::
  "string \<Rightarrow> FakeProcTableImpl \<Rightarrow> error option \<times> FakeProcTableImpl" where
  "Fake_MarkSucceeded pvName f =
     (let (err, t) = MarkSucceeded pvName (realTable f)
      in (err, f\<lparr>MarkDoneCount := Suc (MarkDoneCount f), realTable := t\<rparr>))"

definition Fake_RemoveEntry :: "string \<Rightarrow> FakeProcTableImpl \<Rightarrow> removed \<times> FakeProcTableImpl" where
  "Fake_RemoveEntry pvName f =
     (let (r, t) = RemoveEntry pvName (realTable f)
      in (r, f\<lparr>RemoveCount := Suc (RemoveCount f), realTable := t\<rparr>))"

definition Fake_Stats ::
  "string list \<Rightarrow> FakeProcTableImpl \<Rightarrow> ProcTableStats \<times> FakeProcTableImpl" where
  "Fake_Stats order f = (Stats order (realTable f), f\<lparr>StatsCount := Suc (StatsCount f)\<rparr>)"

definition FakeProcTable_ops :: "FakeProcTableImpl ProcTable" where
  "FakeProcTable_ops =
     \<lparr>pt_IsRunning = Fake_IsRunning, pt_IsEmpty = Fake_IsEmpty, pt_MarkRunning = Fake_MarkRunning,
      pt_MarkFailed = Fake_MarkFailed, pt_MarkSucceeded = Fake_MarkSucceeded,
      pt_RemoveEntry = Fake_RemoveEntry, pt_Stats = Fake_Stats\<rparr>"

section \<open>The contract of ProcTable\<close>

text \<open>
  A process table is a map from PV names to entries, read through \<open>entries\<close>. The deleter and
  the discoverer use the operations through these laws only.
\<close>

locale proc_table =
  fixes pt :: "'t ProcTable" and entries :: "'t \<Rightarrow> ProcEntry gomap"
  assumes IsRunning_iff:
      "fst (pt_IsRunning pt n t) \<longleftrightarrow> (\<exists>e. fmlookup (entries t) n = Some e \<and> Status e = CSRunning)"
    and IsRunning_frame: "entries (snd (pt_IsRunning pt n t)) = entries t"
    and IsEmpty_iff: "pt_IsEmpty pt t \<longleftrightarrow> entries t = fmempty"
    and MarkRunning_new:
      "fmlookup (entries t) n = None \<Longrightarrow>
         fst (pt_MarkRunning pt now n t) = None
       \<and> entries (snd (pt_MarkRunning pt now n t)) =
           fmupd n \<lparr>StartTime = now, Status = CSRunning\<rparr> (entries t)"
    and MarkRunning_present:
      "fmlookup (entries t) n = Some e \<Longrightarrow>
         fst (pt_MarkRunning pt now n t) \<noteq> None
       \<and> entries (snd (pt_MarkRunning pt now n t)) = entries t"
    and MarkFailed_present:
      "fmlookup (entries t) n = Some e \<Longrightarrow>
         fst (pt_MarkFailed pt n t) = None
       \<and> entries (snd (pt_MarkFailed pt n t)) = fmupd n (e\<lparr>Status := CSFailed\<rparr>) (entries t)"
    and MarkFailed_absent:
      "fmlookup (entries t) n = None \<Longrightarrow>
         fst (pt_MarkFailed pt n t) \<noteq> None \<and> entries (snd (pt_MarkFailed pt n t)) = entries t"
    and MarkSucceeded_present:
      "fmlookup (entries t) n = Some e \<Longrightarrow>
         fst (pt_MarkSucceeded pt n t) = None
       \<and> entries (snd (pt_MarkSucceeded pt n t)) = fmupd n (e\<lparr>Status := CSSucceeded\<rparr>) (entries t)"
    and MarkSucceeded_absent:
      "fmlookup (entries t) n = None \<Longrightarrow>
         fst (pt_MarkSucceeded pt n t) \<noteq> None \<and> entries (snd (pt_MarkSucceeded pt n t)) = entries t"
    and RemoveEntry_absent:
      "fmlookup (entries t) n = None \<Longrightarrow>
         fst (pt_RemoveEntry pt n t) = (CSNotFound, None, None)
       \<and> entries (snd (pt_RemoveEntry pt n t)) = entries t"
    and RemoveEntry_busy:
      "fmlookup (entries t) n = Some e \<Longrightarrow> Status e = CSRunning \<or> Status e = CSUnknown \<Longrightarrow>
         (\<exists>err. fst (pt_RemoveEntry pt n t) = (CSUnknown, None, Some err))
       \<and> entries (snd (pt_RemoveEntry pt n t)) = entries t"
    and RemoveEntry_done:
      "fmlookup (entries t) n = Some e \<Longrightarrow> Status e \<noteq> CSRunning \<Longrightarrow> Status e \<noteq> CSUnknown \<Longrightarrow>
         fst (pt_RemoveEntry pt n t) = (Status e, Some (StartTime e), None)
       \<and> entries (snd (pt_RemoveEntry pt n t)) = fmdrop n (entries t)"
begin

definition running :: "'t \<Rightarrow> string \<Rightarrow> bool" where
  "running t n \<longleftrightarrow> (\<exists>e. fmlookup (entries t) n = Some e \<and> Status e = CSRunning)"

text \<open>The states an entry of a table that is only used through the interface can have.\<close>

definition sane :: "'t \<Rightarrow> bool" where
  "sane t \<longleftrightarrow>
     (\<forall>n e. fmlookup (entries t) n = Some e \<longrightarrow> Status e \<in> {CSRunning, CSFailed, CSSucceeded})"

lemma sane_MarkRunning: "sane t \<Longrightarrow> sane (snd (pt_MarkRunning pt now n t))"
  by (cases "fmlookup (entries t) n") (auto simp: sane_def MarkRunning_new MarkRunning_present)

lemma sane_MarkFailed: "sane t \<Longrightarrow> sane (snd (pt_MarkFailed pt n t))"
  by (cases "fmlookup (entries t) n") (auto simp: sane_def MarkFailed_absent MarkFailed_present)

lemma sane_MarkSucceeded: "sane t \<Longrightarrow> sane (snd (pt_MarkSucceeded pt n t))"
  by (cases "fmlookup (entries t) n") (auto simp: sane_def MarkSucceeded_absent MarkSucceeded_present)

lemma entries_RemoveEntry:
  "entries (snd (pt_RemoveEntry pt n t)) = entries t
     \<or> entries (snd (pt_RemoveEntry pt n t)) = fmdrop n (entries t)"
  by (cases "fmlookup (entries t) n") (use RemoveEntry_absent RemoveEntry_busy RemoveEntry_done in blast)+

lemma sane_RemoveEntry: "sane t \<Longrightarrow> sane (snd (pt_RemoveEntry pt n t))"
  unfolding sane_def using entries_RemoveEntry [of n t] by (metis fmlookup_drop option.distinct(1))

text \<open>The whole life of a cleaning process in one table.\<close>

lemma start_iff: "fst (pt_MarkRunning pt now n t) = None \<longleftrightarrow> fmlookup (entries t) n = None"
  by (cases "fmlookup (entries t) n") (auto simp: MarkRunning_new MarkRunning_present)

lemma no_second_start:
  assumes "fst (pt_MarkRunning pt now n t) = None"
  shows "fst (pt_MarkRunning pt now' n (snd (pt_MarkRunning pt now n t))) \<noteq> None"
proof -
  have "fmlookup (entries t) n = None" using assms by (simp add: start_iff)
  then show ?thesis by (simp add: start_iff MarkRunning_new)
qed

lemma running_other:
  assumes "m \<noteq> n"
  shows "running (snd (pt_MarkRunning pt now n t)) m = running t m"
    and "running (snd (pt_MarkFailed pt n t)) m = running t m"
    and "running (snd (pt_MarkSucceeded pt n t)) m = running t m"
    and "running (snd (pt_RemoveEntry pt n t)) m = running t m"
proof -
  show "running (snd (pt_MarkRunning pt now n t)) m = running t m"
    using assms by (cases "fmlookup (entries t) n")
      (auto simp: running_def MarkRunning_new MarkRunning_present)
  show "running (snd (pt_MarkFailed pt n t)) m = running t m"
    using assms by (cases "fmlookup (entries t) n")
      (auto simp: running_def MarkFailed_absent MarkFailed_present)
  show "running (snd (pt_MarkSucceeded pt n t)) m = running t m"
    using assms by (cases "fmlookup (entries t) n")
      (auto simp: running_def MarkSucceeded_absent MarkSucceeded_present)
  show "running (snd (pt_RemoveEntry pt n t)) m = running t m"
    using entries_RemoveEntry [of n t] assms by (auto simp: running_def)
qed

text \<open>Only a finished process leaves the table, and with the state it finished in.\<close>

lemma RemoveEntry_state:
  assumes "sane t" and "fst (pt_RemoveEntry pt n t) = (st, tm, err)"
  shows "st = CSNotFound \<and> fmlookup (entries t) n = None \<and> err = None
       \<or> st = CSUnknown \<and> running t n \<and> err \<noteq> None
       \<or> (st = CSFailed \<or> st = CSSucceeded) \<and> err = None
         \<and> (\<exists>e. fmlookup (entries t) n = Some e \<and> Status e = st \<and> tm = Some (StartTime e))"
proof (cases "fmlookup (entries t) n")
  case None
  with RemoveEntry_absent assms(2) show ?thesis by auto
next
  case (Some e)
  then have st: "Status e \<in> {CSRunning, CSFailed, CSSucceeded}"
    using assms(1) by (auto simp: sane_def)
  show ?thesis
  proof (cases "Status e = CSRunning")
    case True
    with RemoveEntry_busy [OF Some] assms(2) Some show ?thesis by (auto simp: running_def)
  next
    case False
    with st RemoveEntry_done [OF Some] assms(2) Some show ?thesis by auto
  qed
qed

end

interpretation impl_table: proc_table ProcTableImpl_ops procTable
  by unfold_locales
    (auto simp: ProcTableImpl_ops_def IsRunning_def IsEmpty_def map_len_0_iff MarkRunning_def
      MarkFailed_def MarkSucceeded_def markStatus_def countStatus_def RemoveEntry_def
      split: option.splits)

interpretation fake_table: proc_table FakeProcTable_ops "\<lambda>f. procTable (realTable f)"
  by unfold_locales
    (auto simp: FakeProcTable_ops_def Fake_IsRunning_def Fake_IsEmpty_def Fake_MarkRunning_def
      Fake_MarkFailed_def Fake_MarkSucceeded_def Fake_RemoveEntry_def IsRunning_def IsEmpty_def
      map_len_0_iff MarkRunning_def MarkFailed_def MarkSucceeded_def markStatus_def countStatus_def
      RemoveEntry_def split: option.splits)

section \<open>Counting\<close>

definition running_set :: "ProcTableImpl \<Rightarrow> string set" where
  "running_set v = {n. IsRunning n v}"

lemma finite_running_set [simp]: "finite (running_set v)"
proof (rule finite_subset)
  show "running_set v \<subseteq> fset (fmdom (procTable v))"
    by (auto simp: running_set_def IsRunning_def intro: fmdomI split: option.splits)
qed simp

lemma fold_count: "fold (\<lambda>x n. if P x then Suc n else n) xs k = k + length (filter P xs)"
  by (induction xs arbitrary: k) auto

lemma count_map_values:
  "distinct ks \<Longrightarrow>
     length (filter P (map_values ks m)) = card {k \<in> set ks. \<exists>e. fmlookup m k = Some e \<and> P e}"
proof (induction ks)
  case (Cons k ks)
  let ?S = "\<lambda>ks. {k \<in> set ks. \<exists>e. fmlookup m k = Some e \<and> P e}"
  have "?S (k # ks) =
      (if \<exists>e. fmlookup m k = Some e \<and> P e then insert k (?S ks) else ?S ks)"
    by auto
  with Cons show ?case by (auto split: option.splits)
qed simp

lemma Stats_Running:
  assumes "enumerates order (procTable v)"
  shows "Running (Stats order v) = card (running_set v)"
proof -
  have "{k \<in> set order. \<exists>e. fmlookup (procTable v) k = Some e \<and> Status e = CSRunning} = running_set v"
    using enumerates_lookup [OF assms] by (auto simp: running_set_def IsRunning_def split: option.splits)
  then show ?thesis
    using assms count_map_values [of order "\<lambda>e. Status e = CSRunning" "procTable v"]
    by (simp add: Stats_def fold_count enumerates_def)
qed

text \<open>
  The table under the use the deleter makes of it: a process is started, a running process
  finishes once, and finished entries are removed. The second component counts the starts.
\<close>

inductive proc_step :: "ProcTableImpl \<times> nat \<Rightarrow> ProcTableImpl \<times> nat \<Rightarrow> bool" where
  start: "MarkRunning now n v = (None, v') \<Longrightarrow> proc_step (v, k) (v', Suc k)"
| busy: "MarkRunning now n v = (Some e, v') \<Longrightarrow> proc_step (v, k) (v', k)"
| fail: "IsRunning n v \<Longrightarrow> proc_step (v, k) (snd (MarkFailed n v), k)"
| succeed: "IsRunning n v \<Longrightarrow> proc_step (v, k) (snd (MarkSucceeded n v), k)"
| remove: "proc_step (v, k) (snd (RemoveEntry n v), k)"

inductive_simps proc_step_simps: "proc_step (v, k) (v', k')"

definition counted :: "ProcTableImpl \<times> nat \<Rightarrow> bool" where
  "counted s \<longleftrightarrow> snd s = card (running_set (fst s)) + succeeded (fst s) + failed (fst s)"

lemma running_set_MarkRunning:
  "MarkRunning now n v = (None, v') \<Longrightarrow> running_set v' = insert n (running_set v) \<and> n \<notin> running_set v"
  by (auto simp: MarkRunning_def running_set_def IsRunning_def split: option.splits if_splits)

lemma running_set_markStatus:
  "status \<noteq> CSRunning \<Longrightarrow> running_set (snd (markStatus n status v)) = running_set v - {n}"
  by (auto simp: markStatus_def countStatus_def running_set_def IsRunning_def
      split: option.splits if_splits)

lemma running_set_RemoveEntry: "running_set (snd (RemoveEntry n v)) = running_set v"
  by (auto simp: RemoveEntry_def running_set_def IsRunning_def split: option.splits if_splits)

lemma counters_frame [frame_simps]:
  "MarkRunning now n v = (e, v') \<Longrightarrow> succeeded v' = succeeded v \<and> failed v' = failed v"
  "succeeded (snd (RemoveEntry n v)) = succeeded v"
  "failed (snd (RemoveEntry n v)) = failed v"
  by (auto simp: MarkRunning_def RemoveEntry_def split: option.splits)

lemma counters_mark:
  "succeeded (snd (markStatus n CSSucceeded v)) = Suc (succeeded v)"
  "failed (snd (markStatus n CSSucceeded v)) = failed v"
  "succeeded (snd (markStatus n CSFailed v)) = succeeded v"
  "failed (snd (markStatus n CSFailed v)) = Suc (failed v)"
  by (simp_all add: markStatus_def countStatus_def split: option.splits)

lemma MarkRunning_busy: "MarkRunning now n v = (Some e, v') \<Longrightarrow> v' = v"
  by (auto simp: MarkRunning_def split: option.splits)

lemma counted_step: "proc_step s s' \<Longrightarrow> counted s \<Longrightarrow> counted s'"
proof (induction rule: proc_step.induct)
  case (start now n v v' k)
  then show ?case
    using running_set_MarkRunning [OF start.hyps] counters_frame(1) [OF start.hyps]
    by (simp add: counted_def)
next
  case (busy now n v e v' k)
  then show ?case using MarkRunning_busy [OF busy.hyps] by simp
next
  case (fail n v k)
  then have "card (running_set v) = Suc (card (running_set v - {n}))"
    by (intro card.remove) (simp, simp add: running_set_def)
  with fail show ?case
    by (simp add: counted_def MarkFailed_def running_set_markStatus counters_mark)
next
  case (succeed n v k)
  then have "card (running_set v) = Suc (card (running_set v - {n}))"
    by (intro card.remove) (simp, simp add: running_set_def)
  with succeed show ?case
    by (simp add: counted_def MarkSucceeded_def running_set_markStatus counters_mark)
next
  case (remove v k n)
  then show ?case by (simp add: counted_def running_set_RemoveEntry frame_simps)
qed

section \<open>Properties\<close>

text \<open>
  No cleaning process is lost or counted twice: in every table reached from the empty one
  by starting processes, finishing running ones and removing finished ones, the processes
  started are those \<open>Stats\<close> reports as running, succeeded and failed.
\<close>

theorem Stats_conservation:
  assumes "proc_step\<^sup>*\<^sup>* (NewProcTable, 0) (v, k)" and "enumerates order (procTable v)"
  shows "k = Running (Stats order v) + Succeeded (Stats order v) + Failed (Stats order v)"
proof -
  have "counted (v, k)"
    using assms(1)
  proof (induction "(v, k)" arbitrary: v k rule: rtranclp_induct)
    case base
    then show ?case by (simp add: counted_def NewProcTable_def running_set_def IsRunning_def)
  next
    case (step s)
    then show ?case using counted_step by (cases s) blast
  qed
  then show ?thesis
    by (simp add: counted_def Stats_Running [OF assms(2)]) (simp add: Stats_def)
qed

theorem Stats_conservation_witness:
  "(1::nat) = Running (Stats [''pv''] (snd (MarkRunning 5 ''pv'' NewProcTable)))
     + Succeeded (Stats [''pv''] (snd (MarkRunning 5 ''pv'' NewProcTable)))
     + Failed (Stats [''pv''] (snd (MarkRunning 5 ''pv'' NewProcTable)))"
proof (rule Stats_conservation)
  have "proc_step (NewProcTable, 0) (snd (MarkRunning 5 ''pv'' NewProcTable), Suc 0)"
    by (rule proc_step.start [where now = 5 and n = "''pv''"]) (simp add: MarkRunning_def NewProcTable_def)
  then show "proc_step\<^sup>*\<^sup>* (NewProcTable, 0) (snd (MarkRunning 5 ''pv'' NewProcTable), 1)" by simp
  show "enumerates [''pv''] (procTable (snd (MarkRunning 5 ''pv'' NewProcTable)))"
    by (simp add: MarkRunning_def NewProcTable_def enumerates_def)
qed

text \<open>
  The life of a cleaning process: started, it is running and cannot be removed or started
  again; once it has succeeded it is removed exactly once, with its start time, and the
  table is as before.
\<close>

theorem process_lifecycle:
  assumes "fmlookup (procTable v) n = None"
  shows "\<exists>v1 v2 v3. MarkRunning now n v = (None, v1) \<and> IsRunning n v1
           \<and> fst (MarkRunning now' n v1) \<noteq> None
           \<and> (\<exists>e. RemoveEntry n v1 = ((CSUnknown, None, Some e), v1))
           \<and> MarkSucceeded n v1 = (None, v2) \<and> \<not> IsRunning n v2
           \<and> RemoveEntry n v2 = ((CSSucceeded, Some now, None), v3)
           \<and> RemoveEntry n v3 = ((CSNotFound, None, None), v3)
           \<and> procTable v3 = procTable v"
proof -
  have "fmdrop n (fmupd n b (fmupd n a (procTable v))) = procTable v" for a b
    using assms by (intro fmap_ext) auto
  with assms show ?thesis
    by (simp add: MarkRunning_def IsRunning_def RemoveEntry_def MarkSucceeded_def markStatus_def
        countStatus_def)
qed

theorem process_lifecycle_witness:
  "\<exists>v1 v2 v3. MarkRunning 7 ''pv'' NewProcTable = (None, v1)
     \<and> MarkSucceeded ''pv'' v1 = (None, v2)
     \<and> RemoveEntry ''pv'' v2 = ((CSSucceeded, Some 7, None), v3)
     \<and> procTable v3 = procTable NewProcTable"
  using process_lifecycle [of NewProcTable "''pv''" 7 8] by (auto simp: NewProcTable_def)

end
