(* ===== verification/GoStd.thy ===== *)
theory GoStd
  imports Prelude "HOL-Library.Word" "HOL-Library.Sublist"
begin

text \<open>
  The part of Go's standard library the modelled code calls, on byte strings: \<open>strings\<close>
  (HasPrefix, Contains, Split, Join, Replace with an empty replacement, ToLower, TrimSpace,
  Fields), \<open>strconv\<close> (FormatUint, ParseUint, ParseBool), \<open>hash/fnv\<close> (New32a) and
  \<open>path/filepath\<close> (Clean, Join, Rel). Letters and white space are the ASCII ones.
\<close>

unbundle bit_operations_syntax

section \<open>strings\<close>

definition HasPrefix :: "string \<Rightarrow> string \<Rightarrow> bool" where
  "HasPrefix s p \<longleftrightarrow> take (length p) s = p"

lemma HasPrefix_iff: "HasPrefix s p \<longleftrightarrow> (\<exists>r. s = p @ r)"
  by (metis HasPrefix_def append_eq_conv_conj append_take_drop_id)

lemma HasPrefix_append [simp]: "HasPrefix (p @ r) p"
  by (simp add: HasPrefix_def)

lemma HasPrefix_Nil [simp]: "HasPrefix s []"
  by (simp add: HasPrefix_def)

fun Contains :: "string \<Rightarrow> string \<Rightarrow> bool" where
  "Contains [] t = (t = [])"
| "Contains (c # s) t = (HasPrefix (c # s) t \<or> Contains s t)"

lemma Contains_iff: "Contains s t \<longleftrightarrow> (\<exists>a b. s = a @ t @ b)"
proof (induction s)
  case (Cons c s)
  have "(\<exists>a b. c # s = a @ t @ b) \<longleftrightarrow> HasPrefix (c # s) t \<or> (\<exists>a b. s = a @ t @ b)"
    by (metis Cons_eq_append_conv HasPrefix_iff append_Cons append_Nil)
  with Cons show ?case by simp
qed simp

text \<open>\<open>strings.Split\<close> with a separator of one byte, and \<open>strings.Join\<close>.\<close>

fun split_on :: "char \<Rightarrow> string \<Rightarrow> string list" where
  "split_on c [] = [[]]"
| "split_on c (x # xs) =
     (if x = c then [] # split_on c xs
      else (case split_on c xs of [] \<Rightarrow> [[x]] | y # ys \<Rightarrow> (x # y) # ys))"

fun join_with :: "string \<Rightarrow> string list \<Rightarrow> string" where
  "join_with sep [] = []"
| "join_with sep [x] = x"
| "join_with sep (x # y # ys) = x @ sep @ join_with sep (y # ys)"

lemma split_on_not_Nil [simp]: "split_on c s \<noteq> []"
  by (induction s) (auto split: list.splits)

lemma split_on_no_sep: "x \<in> set (split_on c s) \<Longrightarrow> c \<notin> set x"
  by (induction s arbitrary: x) (auto split: list.splits if_splits)

lemma split_on_append_sep:
  "c \<notin> set x \<Longrightarrow> split_on c (x @ c # s) = x # split_on c s"
  by (induction x) auto

lemma split_on_plain: "c \<notin> set x \<Longrightarrow> split_on c x = [x]"
  by (induction x) auto

lemma split_on_join:
  "xs \<noteq> [] \<Longrightarrow> (\<forall>x \<in> set xs. c \<notin> set x) \<Longrightarrow> split_on c (join_with [c] xs) = xs"
  by (induction "[c]" xs rule: join_with.induct) (auto simp: split_on_append_sep split_on_plain)

lemma join_split_on: "join_with [c] (split_on c s) = s"
proof (induction s)
  case (Cons x s)
  obtain y ys where "split_on c s = y # ys"
    by (cases "split_on c s") auto
  with Cons show ?case by (cases ys) auto
qed simp

text \<open>\<open>strings.Replace(s, old, "", -1)\<close>; nothing changes when \<open>old\<close> is empty.\<close>

function remove_all :: "string \<Rightarrow> string \<Rightarrow> string" where
  "remove_all old s =
     (if old = [] then s
      else if HasPrefix s old then remove_all old (drop (length old) s)
      else (case s of [] \<Rightarrow> [] | c # s' \<Rightarrow> c # remove_all old s'))"
  by pat_completeness auto
termination
  by (relation "measure (\<lambda>(old, s). length s)") (auto simp: HasPrefix_iff)

declare remove_all.simps [simp del]

lemma remove_all_empty [simp]: "remove_all [] s = s"
  by (simp add: remove_all.simps)

lemma remove_all_absent: "\<not> Contains s old \<Longrightarrow> remove_all old s = s"
proof (induction s)
  case Nil
  then show ?case by (simp add: remove_all.simps [of old "[]"] HasPrefix_def)
next
  case (Cons c s)
  then show ?case by (simp add: remove_all.simps [of old "c # s"])
qed

lemma remove_all_hit: "old \<noteq> [] \<Longrightarrow> remove_all old (old @ s) = remove_all old s"
  by (simp add: remove_all.simps [of old "old @ s"])

text \<open>A block is removed where it first starts, and what stands before that place stays.\<close>

lemma remove_all_middle:
  assumes "old \<noteq> []"
    and "\<And>i. i < length a \<Longrightarrow> \<not> HasPrefix (drop i (a @ old @ b)) old"
  shows "remove_all old (a @ old @ b) = a @ remove_all old b"
  using assms(2)
proof (induction a)
  case Nil
  then show ?case using assms(1) by (simp add: remove_all_hit)
next
  case (Cons x a)
  have "\<not> HasPrefix ((x # a) @ old @ b) old"
    using Cons.prems [of 0] by simp
  moreover have "remove_all old (a @ old @ b) = a @ remove_all old b"
  proof (rule Cons.IH)
    fix i assume "i < length a"
    then show "\<not> HasPrefix (drop i (a @ old @ b)) old"
      using Cons.prems [of "Suc i"] by simp
  qed
  ultimately show ?case
    using assms(1) by (simp add: remove_all.simps [of old "x # (a @ old @ b)"])
qed

definition ascii_lower :: "char \<Rightarrow> char" where
  "ascii_lower c =
     (let n = of_char c :: nat in if 65 \<le> n \<and> n \<le> 90 then char_of (n + 32) else c)"

definition ToLower :: "string \<Rightarrow> string" where
  "ToLower s = map ascii_lower s"

definition is_space :: "char \<Rightarrow> bool" where
  "is_space c = (c \<in> {CHR 0x09, CHR 0x0A, CHR 0x0B, CHR 0x0C, CHR 0x0D, CHR '' ''})"

definition TrimSpace :: "string \<Rightarrow> string" where
  "TrimSpace s = rev (dropWhile is_space (rev (dropWhile is_space s)))"

text \<open>\<open>strings.Fields\<close>: the maximal runs of bytes that are not white space.\<close>

fun fields_acc :: "string \<Rightarrow> string \<Rightarrow> string list" where
  "fields_acc w [] = (if w = [] then [] else [w])"
| "fields_acc w (c # s) =
     (if is_space c then (if w = [] then fields_acc [] s else w # fields_acc [] s)
      else fields_acc (w @ [c]) s)"

definition Fields :: "string \<Rightarrow> string list" where
  "Fields s = fields_acc [] s"

section \<open>strconv\<close>

definition digit_char :: "nat \<Rightarrow> char" where
  "digit_char d = char_of (if d < 10 then 48 + d else 87 + d)"

text \<open>\<open>strconv.FormatUint(n, b)\<close> for a base \<open>b\<close> of 2 to 16.\<close>

fun format_base :: "nat \<Rightarrow> nat \<Rightarrow> string" where
  "format_base b n =
     (if b < 2 \<or> n < b then [digit_char n]
      else format_base b (n div b) @ [digit_char (n mod b)])"

declare format_base.simps [simp del]

definition FormatUint :: "nat \<Rightarrow> string" where
  "FormatUint n = format_base 10 n"

definition FormatInt :: "int \<Rightarrow> string" where
  "FormatInt i = (if i < 0 then CHR ''-'' # FormatUint (nat (- i)) else FormatUint (nat i))"

datatype parse_error = ErrSyntax | ErrRange

text \<open>
  \<open>strconv.ParseUint(s, 10, bits)\<close> returns a value even when it fails: 0 with a syntax
  error, the largest value of the width with a range error.
\<close>

fun parse_digits :: "nat \<Rightarrow> nat \<Rightarrow> string \<Rightarrow> nat \<times> parse_error option" where
  "parse_digits mx n [] = (n, None)"
| "parse_digits mx n (c # s) =
     (let k = of_char c :: nat in
      if k < 48 \<or> 57 < k then (0, Some ErrSyntax)
      else if mx < 10 * n + (k - 48) then (mx, Some ErrRange)
      else parse_digits mx (10 * n + (k - 48)) s)"

definition ParseUint :: "nat \<Rightarrow> string \<Rightarrow> nat \<times> parse_error option" where
  "ParseUint bits s =
     (if s = [] then (0, Some ErrSyntax) else parse_digits (2 ^ bits - 1) 0 s)"

definition ParseBool :: "string \<Rightarrow> bool option" where
  "ParseBool s =
     (if s \<in> {''1'', ''t'', ''T'', ''true'', ''TRUE'', ''True''} then Some True
      else if s \<in> {''0'', ''f'', ''F'', ''false'', ''FALSE'', ''False''} then Some False
      else None)"

text \<open>
  \<open>strconv.ParseInt(s, 10, bits)\<close> and \<open>strconv.Atoi\<close> (64 bits): a sign, then digits in the range of
  the signed type; \<open>None\<close> is an error.
\<close>

definition ParseInt :: "nat \<Rightarrow> string \<Rightarrow> int option" where
  "ParseInt bits s =
     (let neg = HasPrefix s ''-'';
          digits = (if neg \<or> HasPrefix s ''+'' then drop 1 s else s)
      in (case ParseUint bits digits of
            (_, Some err) \<Rightarrow> None
          | (n, None) \<Rightarrow>
              if \<not> neg \<and> n \<ge> 2 ^ (bits - 1) then None
              else if neg \<and> n > 2 ^ (bits - 1) then None
              else Some (if neg then - int n else int n)))"

definition Atoi :: "string \<Rightarrow> int option" where
  "Atoi s = ParseInt 64 s"

lemma of_char_digit [simp]: "d < 10 \<Longrightarrow> (of_char (digit_char d) :: nat) = 48 + d"
  by (simp add: digit_char_def)

lemma format_base_small: "n < b \<Longrightarrow> format_base b n = [digit_char n]"
  by (simp add: format_base.simps)

lemma format_base_step:
  "\<lbrakk>2 \<le> b; b \<le> n\<rbrakk> \<Longrightarrow> format_base b n = format_base b (n div b) @ [digit_char (n mod b)]"
  by (subst format_base.simps) simp

lemma format_base_not_Nil [simp]: "format_base b n \<noteq> []"
  by (subst format_base.simps) simp

lemma parse_digits_append:
  "parse_digits mx n s = (m, None) \<Longrightarrow> parse_digits mx n (s @ t) = parse_digits mx m t"
  by (induction mx n s arbitrary: m rule: parse_digits.induct) (auto simp: Let_def split: if_splits)

lemma parse_format: "n \<le> mx \<Longrightarrow> parse_digits mx 0 (FormatUint n) = (n, None)"
  unfolding FormatUint_def
proof (induction n rule: less_induct)
  case (less n)
  show ?case
  proof (cases "n < 10")
    case True
    with less.prems show ?thesis by (simp add: format_base_small)
  next
    case False
    then have "parse_digits mx 0 (format_base 10 (n div 10)) = (n div 10, None)"
      using less by simp
    moreover have "10 * (n div 10) + n mod 10 = n" by simp
    ultimately show ?thesis
      using False less.prems
      by (simp add: format_base_step parse_digits_append Let_def)
  qed
qed

lemma ParseUint_FormatUint: "n < 2 ^ bits \<Longrightarrow> ParseUint bits (FormatUint n) = (n, None)"
  by (simp add: ParseUint_def parse_format) (simp add: FormatUint_def)

lemma FormatUint_inject: "FormatUint m = FormatUint n \<longleftrightarrow> m = n"
  by (metis Pair_inject max.cobounded1 max.cobounded2 parse_format)

lemma FormatUint_digits: "c \<in> set (FormatUint n) \<Longrightarrow> \<exists>d < 10. c = digit_char d"
  unfolding FormatUint_def
proof (induction n rule: less_induct)
  case (less n)
  show ?case
  proof (cases "n < 10")
    case True
    with less.prems show ?thesis by (auto simp: format_base_small)
  next
    case False
    then have "c \<in> set (format_base 10 (n div 10)) \<or> c = digit_char (n mod 10)"
      using less.prems by (auto simp: format_base_step)
    with False show ?thesis
      using less.IH [of "n div 10"] by (auto intro: exI [of _ "n mod 10"])
  qed
qed

section \<open>hash/fnv: FNV-1a, 32 bits\<close>

definition fnv32a_step :: "32 word \<Rightarrow> char \<Rightarrow> 32 word" where
  "fnv32a_step h c = (h XOR word_of_nat (of_char c)) * 16777619"

definition fnv32a_write :: "32 word \<Rightarrow> string \<Rightarrow> 32 word" where
  "fnv32a_write h s = foldl fnv32a_step h s"

definition New32a :: "32 word" where
  "New32a = 2166136261"

lemma fnv32a_write_append: "fnv32a_write (fnv32a_write h a) b = fnv32a_write h (a @ b)"
  by (simp add: fnv32a_write_def)

text \<open>The verb \<open>%x\<close> of \<open>fmt\<close> on a 32-bit hash.\<close>

definition hex32 :: "32 word \<Rightarrow> string" where
  "hex32 w = format_base 16 (unat w)"

section \<open>Cutting at a byte\<close>

text \<open>
  Slices around \<open>strings.LastIndex(s, c)\<close>: \<open>after_last\<close> is what stands after the last \<open>c\<close>, or
  everything when there is none; \<open>before_last\<close> is what stands before it. \<open>trim_char\<close> is
  \<open>strings.Trim\<close> with a cutset of one byte, \<open>TrimPrefix\<close> as in Go.
\<close>

definition after_last :: "char \<Rightarrow> string \<Rightarrow> string" where
  "after_last c s = rev (takeWhile (\<lambda>x. x \<noteq> c) (rev s))"

definition before_last :: "char \<Rightarrow> string \<Rightarrow> string" where
  "before_last c s = rev (drop 1 (dropWhile (\<lambda>x. x \<noteq> c) (rev s)))"

definition trim_char :: "char \<Rightarrow> string \<Rightarrow> string" where
  "trim_char c s = rev (dropWhile (\<lambda>x. x = c) (rev (dropWhile (\<lambda>x. x = c) s)))"

definition TrimPrefix :: "string \<Rightarrow> string \<Rightarrow> string" where
  "TrimPrefix s p = (if HasPrefix s p then drop (length p) s else s)"

lemma after_last_no_sep [simp]: "c \<notin> set (after_last c s)"
  by (auto simp: after_last_def dest: set_takeWhileD)

lemma split_last: "c \<in> set s \<Longrightarrow> s = before_last c s @ c # after_last c s"
proof -
  assume "c \<in> set s"
  then have "dropWhile (\<lambda>x. x \<noteq> c) (rev s) \<noteq> []" by auto
  then obtain r where r: "dropWhile (\<lambda>x. x \<noteq> c) (rev s) = c # r"
    by (metis (mono_tags, lifting) hd_dropWhile list.collapse)
  have "rev s = takeWhile (\<lambda>x. x \<noteq> c) (rev s) @ c # r"
    by (metis r takeWhile_dropWhile_id)
  then have "s = rev r @ c # rev (takeWhile (\<lambda>x. x \<noteq> c) (rev s))"
    by (metis append.assoc append_Cons append_Nil rev.simps(2) rev_append rev_swap)
  with r show ?thesis by (simp add: before_last_def after_last_def)
qed

lemma before_last_append [simp]: "c \<notin> set t \<Longrightarrow> before_last c (s @ c # t) = s"
proof -
  assume "c \<notin> set t"
  then have "dropWhile (\<lambda>x. x \<noteq> c) (rev t @ c # rev s) = c # rev s"
    by (subst dropWhile_append2) auto
  then show ?thesis by (simp add: before_last_def)
qed

lemma after_last_append [simp]: "c \<notin> set t \<Longrightarrow> after_last c (s @ c # t) = t"
proof -
  assume "c \<notin> set t"
  then have "takeWhile (\<lambda>x. x \<noteq> c) (rev t @ c # rev s) = rev t"
    by (subst takeWhile_append2) auto
  then show ?thesis by (simp add: after_last_def)
qed

lemma TrimPrefix_append [simp]: "TrimPrefix (p @ s) p = s"
  by (simp add: TrimPrefix_def)

lemma trim_char_outside: "hd s \<noteq> c \<Longrightarrow> last s \<noteq> c \<Longrightarrow> trim_char c s = s"
proof -
  assume "hd s \<noteq> c" "last s \<noteq> c"
  then have "dropWhile (\<lambda>x. x = c) s = s" "dropWhile (\<lambda>x. x = c) (rev s) = rev s"
    by (auto simp: dropWhile_eq_self_iff hd_rev)
  then show ?thesis by (simp add: trim_char_def)
qed

end
