(* ===== verification/K8sTypes.thy ===== *)
theory K8sTypes
  imports GoStd
begin

text \<open>
  The Kubernetes API objects the programs exchange, with the fields the programs read or
  write. String-typed enumerations of the API (phases, reclaim policies, volume modes) stay
  strings, since the code also handles values outside the enumeration. A nil map reads
  like the empty one; it is told apart (\<open>option\<close>) only where the code tests for nil. A
  \<open>resource.Quantity\<close> is its value in bytes, a time is an \<open>int\<close> (nanoseconds).
\<close>

record LocalVolumeSource =
  lvs_Path :: string
  lvs_FSType :: "string option"

record NFSVolumeSource =
  nfs_Server :: string
  nfs_Path :: string
  nfs_ReadOnly :: bool

record NodeSelectorRequirement =
  nsr_Key :: string
  nsr_Operator :: string
  nsr_Values :: "string list"

record NodeSelectorTerm =
  nst_MatchExpressions :: "NodeSelectorRequirement list"

record NodeSelector =
  ns_NodeSelectorTerms :: "NodeSelectorTerm list"

record VolumeNodeAffinity =
  vna_Required :: "NodeSelector option"

record NodeAffinity =
  na_Required :: "NodeSelector option"

record SecretReference =
  sr_Name :: string
  sr_Namespace :: string

record CephFSVolumeSource =
  cephfs_Monitors :: "string list"
  cephfs_Path :: string
  cephfs_SecretRef :: "SecretReference option"
  cephfs_User :: string

record RBDVolumeSource =
  rbd_CephMonitors :: "string list"
  rbd_RBDImage :: string
  rbd_RBDPool :: string
  rbd_FSType :: string
  rbd_SecretRef :: "SecretReference option"
  rbd_RadosUser :: string

record AWSElasticBlockStoreVolumeSource =
  ebs_VolumeID :: string
  ebs_FSType :: string
  ebs_Partition :: int
  ebs_ReadOnly :: bool

record GCEPersistentDiskVolumeSource =
  gce_PDName :: string
  gce_FSType :: string
  gce_Partition :: int
  gce_ReadOnly :: bool

record CinderVolumeSource =
  cinder_VolumeID :: string
  cinder_FSType :: string
  cinder_ReadOnly :: bool

record GlusterfsVolumeSource =
  glfs_EndpointsName :: string
  glfs_Path :: string
  glfs_ReadOnly :: bool

record ISCSIVolumeSource =
  iscsi_TargetPortal :: string
  iscsi_Portals :: "string list"
  iscsi_IQN :: string
  iscsi_Lun :: int
  iscsi_FSType :: string
  iscsi_ReadOnly :: bool
  iscsi_SessionCHAPAuth :: bool
  iscsi_SecretRef :: "SecretReference option"

text \<open>
  A persistent volume. Its source is the group of fields from \<open>pv_Local\<close> on; the reference to the
  claim is the namespace and the name of the claim.
\<close>

record PersistentVolume =
  pv_Name :: string
  pv_UID :: string
  pv_Labels :: "string gomap"
  pv_Annotations :: "string gomap"
  pv_Phase :: string
  pv_ReclaimPolicy :: string
  pv_Capacity :: "int option"
  pv_AccessModes :: "string list"
  pv_StorageClassName :: string
  pv_VolumeMode :: "string option"
  pv_MountOptions :: "string list"
  pv_NodeAffinity :: "VolumeNodeAffinity option"
  pv_Local :: "LocalVolumeSource option"
  pv_NFS :: "NFSVolumeSource option"
  pv_HostPath :: "string option"
  pv_AWSElasticBlockStore :: "AWSElasticBlockStoreVolumeSource option"
  pv_GCEPersistentDisk :: "GCEPersistentDiskVolumeSource option"
  pv_Cinder :: "CinderVolumeSource option"
  pv_Glusterfs :: "GlusterfsVolumeSource option"
  pv_CephFS :: "CephFSVolumeSource option"
  pv_RBD :: "RBDVolumeSource option"
  pv_ISCSI :: "ISCSIVolumeSource option"
  pv_ClaimRef :: "(string \<times> string) option"

text \<open>The zero value of the struct.\<close>

definition zero_PV :: PersistentVolume where
  "zero_PV =
     \<lparr>pv_Name = '''', pv_UID = '''', pv_Labels = fmempty, pv_Annotations = fmempty,
      pv_Phase = '''', pv_ReclaimPolicy = '''', pv_Capacity = None, pv_AccessModes = [],
      pv_StorageClassName = '''', pv_VolumeMode = None, pv_MountOptions = [],
      pv_NodeAffinity = None, pv_Local = None, pv_NFS = None, pv_HostPath = None,
      pv_AWSElasticBlockStore = None, pv_GCEPersistentDisk = None, pv_Cinder = None,
      pv_Glusterfs = None, pv_CephFS = None, pv_RBD = None, pv_ISCSI = None,
      pv_ClaimRef = None\<rparr>"

record Node =
  node_Name :: string
  node_UID :: string
  node_Labels :: "string gomap option"
  node_Addresses :: "(string \<times> string) list"

record StorageClass =
  sc_ReclaimPolicy :: "string option"
  sc_MountOptions :: "string list"

record Container =
  ctr_Name :: string
  ctr_Image :: string
  ctr_Privileged :: "bool option"
  ctr_Command :: "string list"
  ctr_Env :: "(string \<times> string) list"
  ctr_VolumeMounts :: "(string \<times> string) list"

record Job =
  job_Name :: string
  job_Namespace :: string
  job_Labels :: "string gomap"
  job_Annotations :: "string gomap"
  job_DeletionTimestamp :: "int option"
  job_Succeeded :: int
  job_Containers :: "Container list"
  job_Volumes :: "(string \<times> string) list"
  job_NodeSelector :: "string gomap"
  job_RestartPolicy :: string

abbreviation VolumeReleased :: string where
  "VolumeReleased \<equiv> ''Released''"

abbreviation ReclaimRetain :: string where
  "ReclaimRetain \<equiv> ''Retain''"

abbreviation ReclaimRecycle :: string where
  "ReclaimRecycle \<equiv> ''Recycle''"

abbreviation ReclaimDelete :: string where
  "ReclaimDelete \<equiv> ''Delete''"

abbreviation ModeBlock :: string where
  "ModeBlock \<equiv> ''Block''"

abbreviation ModeFilesystem :: string where
  "ModeFilesystem \<equiv> ''Filesystem''"

text \<open>An event sent through \<open>record.EventRecorder\<close>, without its message.\<close>

record Event =
  ev_Object :: string
  ev_Type :: string
  ev_Reason :: string

end
