(* ===== verification/GoPath.thy ===== *)
theory GoPath
  imports GoStd
begin

text \<open>
  Go's \<open>path/filepath\<close> on Unix, lexically: a path is rooted or not and has a list of
  components; \<open>Clean\<close> folds the components over a stack, \<open>Join\<close> cleans the joined elements
  and \<open>Rel\<close> goes up from the base and down to the target.
\<close>

abbreviation slash :: char where
  "slash \<equiv> CHR ''/''"

definition rooted :: "string \<Rightarrow> bool" where
  "rooted p \<longleftrightarrow> HasPrefix p ''/''"

definition clean_step :: "bool \<Rightarrow> string \<Rightarrow> string list \<Rightarrow> string list" where
  "clean_step r c st =
     (if c = '''' \<or> c = ''.'' then st
      else if c = ''..'' then
        (case st of
           [] \<Rightarrow> (if r then [] else [''..''])
         | d # rest \<Rightarrow> (if d = ''..'' then ''..'' # st else rest))
      else c # st)"

definition clean_comps :: "bool \<Rightarrow> string list \<Rightarrow> string list" where
  "clean_comps r cs = rev (fold (clean_step r) cs [])"

definition comps :: "string \<Rightarrow> string list" where
  "comps p = clean_comps (rooted p) (split_on slash p)"

definition render :: "bool \<Rightarrow> string list \<Rightarrow> string" where
  "render r cs =
     (if r then ''/'' @ join_with ''/'' cs
      else if cs = [] then ''.'' else join_with ''/'' cs)"

definition Clean :: "string \<Rightarrow> string" where
  "Clean p = render (rooted p) (comps p)"

definition Join :: "string list \<Rightarrow> string" where
  "Join es =
     (case dropWhile (\<lambda>e. e = '''') es of
        [] \<Rightarrow> ''''
      | es' \<Rightarrow> Clean (join_with ''/'' es'))"

text \<open>\<open>filepath.Split\<close>: the directory with its final slash, and the last element.\<close>

definition Split :: "string \<Rightarrow> string \<times> string" where
  "Split p =
     (let f = takeWhile (\<lambda>c. c \<noteq> slash) (rev p) in (take (length p - length f) p, rev f))"

fun strip_common :: "'a list \<Rightarrow> 'a list \<Rightarrow> 'a list \<times> 'a list" where
  "strip_common (x # xs) (y # ys) = (if x = y then strip_common xs ys else (x # xs, y # ys))"
| "strip_common xs ys = (xs, ys)"

text \<open>\<open>filepath.Rel\<close>; \<open>None\<close> is its error (no lexical answer).\<close>

definition Rel :: "string \<Rightarrow> string \<Rightarrow> string option" where
  "Rel base targ =
     (let (b, t) = strip_common (comps base) (comps targ) in
      if rooted base \<noteq> rooted targ then None
      else if b = [] \<and> t = [] then Some ''.''
      else if b \<noteq> [] \<and> hd b = ''..'' then None
      else Some (join_with ''/'' (replicate (length b) ''..'' @ t)))"

text \<open>A name as a directory listing returns it, and lexical containment.\<close>

definition plain_name :: "string \<Rightarrow> bool" where
  "plain_name f \<longleftrightarrow> f \<noteq> '''' \<and> f \<noteq> ''.'' \<and> f \<noteq> ''..'' \<and> slash \<notin> set f"

definition inside :: "string \<Rightarrow> string \<Rightarrow> bool" where
  "inside dir p \<longleftrightarrow> rooted dir = rooted p \<and> prefix (comps dir) (comps p)"

section \<open>Components\<close>

lemma split_on_append: "split_on c (a @ c # b) = split_on c a @ split_on c b"
  by (induction a) (auto split: list.splits)

lemma clean_step_plain [simp]: "plain_name c \<Longrightarrow> clean_step r c st = c # st"
  by (simp add: plain_name_def clean_step_def)

lemma clean_step_skip [simp]: "clean_step r [] st = st"
  by (simp add: clean_step_def)

lemma clean_step_up [simp]: "plain_name t \<Longrightarrow> clean_step r ''..'' (t # st) = st"
  by (simp add: clean_step_def plain_name_def)

lemma fold_clean_plain:
  "\<forall>c \<in> set cs. plain_name c \<Longrightarrow> fold (clean_step r) cs st = rev cs @ st"
  by (induction cs arbitrary: st) auto

lemma fold_clean_up:
  "\<forall>c \<in> set ts. plain_name c \<Longrightarrow>
     fold (clean_step r) (replicate (length ts) ''..'') (ts @ st) = st"
  by (induction ts) auto

lemma plain_name_simps [simp]:
  "\<not> plain_name []" "\<not> plain_name ''.''" "\<not> plain_name ''..''"
  by (simp_all add: plain_name_def)

lemma plain_name_no_slash: "plain_name c \<Longrightarrow> slash \<notin> set c"
  by (simp add: plain_name_def)

lemma clean_step_rooted_cases:
  assumes "slash \<notin> set c" and "\<forall>d \<in> set st. plain_name d"
  obtains "clean_step True c st = st" | "clean_step True c st = tl st"
    | "plain_name c" "clean_step True c st = c # st"
proof (cases "plain_name c")
  case True
  then show thesis using that(3) by simp
next
  case False
  then consider "c = ''''" | "c = ''.''" | "c = ''..''"
    using assms(1) unfolding plain_name_def by blast
  then show thesis
  proof cases
    case 3
    show thesis
    proof (cases st)
      case Nil
      then show thesis using 3 that(1) by (simp add: clean_step_def)
    next
      case (Cons d ds)
      then have "plain_name d" using assms(2) by simp
      then show thesis using Cons 3 that(2) by simp
    qed
  qed (use that(1) in \<open>simp_all add: clean_step_def\<close>)
qed

lemma clean_step_plain_inv:
  assumes "\<forall>c \<in> set st. plain_name c" and "slash \<notin> set c"
  shows "\<forall>d \<in> set (clean_step True c st). plain_name d"
  using assms(2,1)
proof (cases rule: clean_step_rooted_cases)
  case 2
  then show ?thesis using assms(1) by (cases st) auto
qed (use assms(1) in auto)

lemma fold_clean_plain_inv:
  assumes "\<forall>c \<in> set cs. slash \<notin> set c" and "\<forall>c \<in> set st. plain_name c"
  shows "\<forall>d \<in> set (fold (clean_step True) cs st). plain_name d"
  using assms
proof (induction cs arbitrary: st)
  case (Cons c cs)
  have "\<forall>d \<in> set (clean_step True c st). plain_name d"
    using Cons.prems by (intro clean_step_plain_inv) simp_all
  moreover have "\<forall>c \<in> set cs. slash \<notin> set c" using Cons.prems(1) by simp
  ultimately have "\<forall>d \<in> set (fold (clean_step True) cs (clean_step True c st)). plain_name d"
    by (intro Cons.IH)
  then show ?case by simp
qed simp

lemma comps_plain: "rooted p \<Longrightarrow> c \<in> set (comps p) \<Longrightarrow> plain_name c"
proof -
  assume p: "rooted p" and c: "c \<in> set (comps p)"
  have "\<forall>d \<in> set (fold (clean_step True) (split_on slash p) []). plain_name d"
    by (rule fold_clean_plain_inv) (simp_all add: split_on_no_sep)
  with p c show "plain_name c"
    by (simp add: comps_def clean_comps_def)
qed

lemma rooted_append [simp]: "rooted p \<Longrightarrow> rooted (p @ q)"
  by (auto simp: rooted_def HasPrefix_iff)

lemma rooted_slash [simp]: "rooted (slash # p)"
  by (simp add: rooted_def HasPrefix_def)

lemma rooted_not_Nil: "rooted p \<Longrightarrow> p \<noteq> []"
  by (auto simp: rooted_def HasPrefix_def)

lemma comps_append:
  "a \<noteq> [] \<Longrightarrow>
   comps (a @ slash # b) = rev (fold (clean_step (rooted a)) (split_on slash b) (rev (comps a)))"
proof -
  assume "a \<noteq> []"
  then have "rooted (a @ slash # b) = rooted a"
    by (cases a) (simp_all add: rooted_def HasPrefix_def)
  then show ?thesis
    by (simp add: comps_def clean_comps_def split_on_append)
qed

lemma comps_append_plain: "a \<noteq> [] \<Longrightarrow> plain_name f \<Longrightarrow> comps (a @ slash # f) = comps a @ [f]"
  by (simp add: comps_append split_on_plain plain_name_no_slash)

section \<open>Clean\<close>

lemma comps_render_rooted:
  assumes "\<forall>c \<in> set cs. plain_name c"
  shows "comps (render True cs) = cs"
proof (cases cs)
  case Nil
  then show ?thesis
    by (simp add: render_def comps_def clean_comps_def)
next
  case (Cons c cs')
  then have "split_on slash (render True cs) = [] # cs"
    using assms split_on_join [of cs slash] plain_name_no_slash by (simp add: render_def)
  then show ?thesis
    using assms by (simp add: comps_def clean_comps_def render_def fold_clean_plain)
qed

lemma rooted_render [simp]: "rooted (render True cs)"
  by (simp add: render_def)

lemma rooted_Clean [simp]: "rooted p \<Longrightarrow> rooted (Clean p)"
  by (simp add: Clean_def)

lemma comps_Clean: "rooted p \<Longrightarrow> comps (Clean p) = comps p"
  unfolding Clean_def using comps_render_rooted comps_plain by auto

lemma Clean_idem: "rooted p \<Longrightarrow> Clean (Clean p) = Clean p"
  by (simp add: Clean_def [of "Clean p"] comps_Clean) (simp add: Clean_def)

section \<open>Join\<close>

lemma Join2: "a \<noteq> [] \<Longrightarrow> Join [a, b] = Clean (a @ slash # b)"
  by (simp add: Join_def)

lemma rooted_Join [simp]: "rooted a \<Longrightarrow> rooted (Join [a, b])"
  by (auto simp: Join2 rooted_not_Nil)

lemma comps_Join:
  "rooted a \<Longrightarrow>
   comps (Join [a, b]) = rev (fold (clean_step True) (split_on slash b) (rev (comps a)))"
  by (simp add: Join2 rooted_not_Nil comps_Clean comps_append)

lemma comps_Join_plain: "rooted a \<Longrightarrow> plain_name f \<Longrightarrow> comps (Join [a, f]) = comps a @ [f]"
  by (simp add: Join2 rooted_not_Nil comps_Clean comps_append_plain)

lemma Join_plain: "rooted a \<Longrightarrow> plain_name f \<Longrightarrow> Join [a, f] = render True (comps a @ [f])"
  by (simp add: Join2 rooted_not_Nil Clean_def comps_append_plain)

lemma Join_eq_iff_comps:
  "rooted a \<Longrightarrow> rooted b \<Longrightarrow> comps (Join [a, x]) = comps (Join [b, y]) \<Longrightarrow> Join [a, x] = Join [b, y]"
  using comps_Clean [of "a @ slash # x"] comps_Clean [of "b @ slash # y"]
  by (simp add: Join2 rooted_not_Nil) (simp add: Clean_def)

lemma inside_Join: "rooted d \<Longrightarrow> plain_name f \<Longrightarrow> inside d (Join [d, f])"
  by (simp add: inside_def comps_Join_plain)

lemma join_with_append:
  "xs \<noteq> [] \<Longrightarrow> ys \<noteq> [] \<Longrightarrow> join_with sep (xs @ ys) = join_with sep xs @ sep @ join_with sep ys"
  by (induction sep xs rule: join_with.induct) (auto simp: neq_Nil_conv)

section \<open>Rel\<close>

lemma strip_common_decomp:
  "strip_common xs ys = (b, t) \<Longrightarrow>
     \<exists>pre. xs = pre @ b \<and> ys = pre @ t \<and> (b = [] \<or> t = [] \<or> hd b \<noteq> hd t)"
proof (induction xs ys arbitrary: b t rule: strip_common.induct)
  case (1 x xs y ys)
  show ?case
  proof (cases "x = y")
    case True
    then obtain pre where "xs = pre @ b" "ys = pre @ t" "b = [] \<or> t = [] \<or> hd b \<noteq> hd t"
      using 1 by auto
    with True show ?thesis by (intro exI [of _ "x # pre"]) simp
  next
    case False
    with 1 show ?thesis by auto
  qed
qed auto

lemma strip_common_prefix: "strip_common xs (xs @ ys) = ([], ys)"
  by (induction xs) (cases ys; simp)+

text \<open>The documented law of \<open>Rel\<close>: joining the base and the result names the target.\<close>

lemma comps_Join_Rel:
  assumes "Rel base targ = Some r" and "rooted base"
  shows "comps (Join [base, r]) = comps targ"
proof -
  obtain b t where bt: "strip_common (comps base) (comps targ) = (b, t)"
    by fastforce
  then obtain pre where pre: "comps base = pre @ b" "comps targ = pre @ t"
    using strip_common_decomp by blast
  from assms bt have rt: "rooted targ"
    by (auto simp: Rel_def split: if_splits)
  have plain: "\<forall>c \<in> set (comps base). plain_name c" "\<forall>c \<in> set (comps targ). plain_name c"
    using comps_plain assms(2) rt by auto
  show ?thesis
  proof (cases "b = [] \<and> t = []")
    case True
    then have "r = ''.''" using assms bt by (auto simp: Rel_def split: if_splits)
    with True pre assms(2) show ?thesis
      by (simp add: comps_Join clean_step_def)
  next
    case False
    then have r: "r = join_with ''/'' (replicate (length b) ''..'' @ t)"
      using assms bt by (auto simp: Rel_def split: if_splits)
    have "split_on slash r = replicate (length b) ''..'' @ t"
      unfolding r using False plain pre
      by (intro split_on_join) (auto dest: plain_name_no_slash)
    moreover have "fold (clean_step True) (replicate (length (rev b)) ''..'') (rev b @ rev pre) = rev pre"
      using plain pre by (intro fold_clean_up) auto
    ultimately show ?thesis
      using plain pre assms(2) by (simp add: comps_Join fold_clean_plain)
  qed
qed

lemma Rel_inside:
  assumes "rooted base" and "inside base targ"
  obtains rest where "comps targ = comps base @ rest"
    and "Rel base targ = Some (if rest = [] then ''.'' else join_with ''/'' rest)"
    and "\<forall>c \<in> set rest. plain_name c"
proof -
  from assms obtain rest where rest: "comps targ = comps base @ rest" "rooted targ"
    by (auto simp: inside_def prefix_def)
  then have "\<forall>c \<in> set rest. plain_name c" using comps_plain by auto
  with rest assms(1) show thesis
    by (intro that) (auto simp: Rel_def strip_common_prefix)
qed

lemma Rel_Join_plain:
  assumes "rooted d" and "plain_name f"
  shows "Rel d (Join [d, f]) = Some f"
  using assms by (simp add: Rel_def comps_Join_plain strip_common_prefix)

end
