(* ===== verification/VolumeUtil.thy ===== *)
theory VolumeUtil
  imports K8sTypes GoPath
begin

text \<open>
  \<open>local-volume/provisioner/pkg/util/volume_util.go\<close> and \<open>volume_util_linux.go\<close>: the
  interface \<open>VolumeUtil\<close> is a record of functions over a file-system state, the real
  \<open>volumeUtil\<close> is that record built from the operating system's calls (a parameter), and
  \<open>FakeVolumeUtil\<close> the one built from a table of directory entries.
\<close>

record 'f VolumeUtil =
  vu_IsDir :: "string \<Rightarrow> 'f \<Rightarrow> bool \<times> error option"
  vu_IsBlock :: "string \<Rightarrow> 'f \<Rightarrow> bool \<times> error option"
  vu_ReadDir :: "string \<Rightarrow> 'f \<Rightarrow> string list result"
  vu_DeleteContents :: "string \<Rightarrow> 'f \<Rightarrow> error option \<times> 'f"
  vu_GetFsCapacityByte :: "string \<Rightarrow> 'f \<Rightarrow> int \<times> error option"
  vu_GetBlockCapacityByte :: "string \<Rightarrow> 'f \<Rightarrow> int \<times> error option"

section \<open>volumeUtil\<close>

text \<open>The calls into the operating system and the libraries, on a file-system state.\<close>

record 'f os_calls =
  os_Open :: "string \<Rightarrow> 'f \<Rightarrow> error option"
  os_FileIsDir :: "string \<Rightarrow> 'f \<Rightarrow> bool result"
  os_Readdirnames :: "string \<Rightarrow> 'f \<Rightarrow> string list result"
  os_RemoveAll :: "string \<Rightarrow> 'f \<Rightarrow> error option \<times> 'f"
  os_StatIsBlk :: "string \<Rightarrow> 'f \<Rightarrow> bool result"
  os_FsCapacity :: "string \<Rightarrow> 'f \<Rightarrow> int \<times> error option"
  os_BlkGetSize64 :: "string \<Rightarrow> 'f \<Rightarrow> int result"
  lib_NewAggregate :: "error list \<Rightarrow> error option"

definition volumeUtil_IsDir :: "'f os_calls \<Rightarrow> string \<Rightarrow> 'f \<Rightarrow> bool \<times> error option" where
  "volumeUtil_IsDir os fullPath fs =
     (case os_Open os fullPath fs of
        Some e \<Rightarrow> (False, Some e)
      | None \<Rightarrow>
          (case os_FileIsDir os fullPath fs of
             Inl e \<Rightarrow> (False, Some e)
           | Inr b \<Rightarrow> (b, None)))"

definition volumeUtil_IsBlock :: "'f os_calls \<Rightarrow> string \<Rightarrow> 'f \<Rightarrow> bool \<times> error option" where
  "volumeUtil_IsBlock os fullPath fs =
     (case os_StatIsBlk os fullPath fs of Inl e \<Rightarrow> (False, Some e) | Inr b \<Rightarrow> (b, None))"

definition volumeUtil_ReadDir :: "'f os_calls \<Rightarrow> string \<Rightarrow> 'f \<Rightarrow> string list result" where
  "volumeUtil_ReadDir os fullPath fs =
     (case os_Open os fullPath fs of
        Some e \<Rightarrow> Inl e
      | None \<Rightarrow> os_Readdirnames os fullPath fs)"

text \<open>The loop of \<open>DeleteContents\<close>: an entry that cannot be removed is noted and the next tried.\<close>

fun removeEntries :: "'f os_calls \<Rightarrow> string \<Rightarrow> string list \<Rightarrow> error list \<Rightarrow> 'f \<Rightarrow> error list \<times> 'f"
where
  "removeEntries os dir [] errList fs = (errList, fs)"
| "removeEntries os dir (file # files) errList fs =
     (case os_RemoveAll os (Join [dir, file]) fs of
        (None, fs') \<Rightarrow> removeEntries os dir files errList fs'
      | (Some e, fs') \<Rightarrow> removeEntries os dir files (errList @ [e]) fs')"

definition volumeUtil_DeleteContents :: "'f os_calls \<Rightarrow> string \<Rightarrow> 'f \<Rightarrow> error option \<times> 'f" where
  "volumeUtil_DeleteContents os fullPath fs =
     (case os_Open os fullPath fs of
        Some e \<Rightarrow> (Some e, fs)
      | None \<Rightarrow>
          (case os_Readdirnames os fullPath fs of
             Inl e \<Rightarrow> (Some e, fs)
           | Inr files \<Rightarrow>
               (let (errList, fs') = removeEntries os fullPath files [] fs
                in (lib_NewAggregate os errList, fs'))))"

definition volumeUtil_GetFsCapacityByte :: "'f os_calls \<Rightarrow> string \<Rightarrow> 'f \<Rightarrow> int \<times> error option" where
  "volumeUtil_GetFsCapacityByte os fullPath fs = os_FsCapacity os fullPath fs"

definition volumeUtil_GetBlockCapacityByte :: "'f os_calls \<Rightarrow> string \<Rightarrow> 'f \<Rightarrow> int \<times> error option" where
  "volumeUtil_GetBlockCapacityByte os fullPath fs =
     (case os_Open os fullPath fs of
        Some e \<Rightarrow> (0, Some e)
      | None \<Rightarrow>
          (case os_BlkGetSize64 os fullPath fs of
             Inl e \<Rightarrow> (0, Some e)
           | Inr sz \<Rightarrow> (sz, None)))"

definition NewVolumeUtil :: "'f os_calls \<Rightarrow> 'f VolumeUtil" where
  "NewVolumeUtil os =
     \<lparr>vu_IsDir = volumeUtil_IsDir os, vu_IsBlock = volumeUtil_IsBlock os,
      vu_ReadDir = volumeUtil_ReadDir os, vu_DeleteContents = volumeUtil_DeleteContents os,
      vu_GetFsCapacityByte = volumeUtil_GetFsCapacityByte os,
      vu_GetBlockCapacityByte = volumeUtil_GetBlockCapacityByte os\<rparr>"

text \<open>The file systems and answers the loop of \<open>DeleteContents\<close> runs through.\<close>

fun removeTrace :: "'f os_calls \<Rightarrow> string \<Rightarrow> string list \<Rightarrow> 'f \<Rightarrow> (string \<times> error option) list" where
  "removeTrace os dir [] fs = []"
| "removeTrace os dir (file # files) fs =
     (let (e, fs') = os_RemoveAll os (Join [dir, file]) fs
      in (Join [dir, file], e) # removeTrace os dir files fs')"

lemma removeEntries_errors:
  "fst (removeEntries os dir files errList fs) =
     errList @ List.map_filter snd (removeTrace os dir files fs)"
  by (induction os dir files errList fs rule: removeEntries.induct)
    (auto simp: map_filter_simps Let_def split: prod.splits option.splits)

lemma removeTrace_paths: "map fst (removeTrace os dir files fs) = map (\<lambda>f. Join [dir, f]) files"
  by (induction os dir files fs rule: removeTrace.induct) (auto simp: Let_def split: prod.splits)

section \<open>FakeVolumeUtil\<close>

record FakeDirEntry =
  fde_Name :: string
  fde_VolumeType :: string
  fde_Hash :: int
  fde_Capacity :: int

record FakeVolumeUtil =
  directoryFiles :: "FakeDirEntry list gomap"
  deleteShouldFail :: bool

definition NewFakeVolumeUtil :: "bool \<Rightarrow> FakeDirEntry list gomap \<Rightarrow> FakeVolumeUtil" where
  "NewFakeVolumeUtil shouldFail dirFiles =
     \<lparr>directoryFiles = dirFiles, deleteShouldFail = shouldFail\<rparr>"

text \<open>The lookup that \<open>IsDir\<close>, \<open>IsBlock\<close> and \<open>getDirEntryCapacity\<close> start with.\<close>

definition fakeEntry :: "FakeVolumeUtil \<Rightarrow> string \<Rightarrow> FakeDirEntry result" where
  "fakeEntry u fullPath =
     (let (dir0, file) = Split fullPath; dir = Clean dir0 in
      case fmlookup (directoryFiles u) dir of
        None \<Rightarrow> Inl (Errorf ''Directory %q not found'' [dir])
      | Some files \<Rightarrow>
          (case List.find (\<lambda>f. file = fde_Name f) files of
             None \<Rightarrow> Inl (Errorf ''Directory entry %q not found'' [fullPath])
           | Some f \<Rightarrow> Inr f))"

definition Fake_IsDir :: "string \<Rightarrow> FakeVolumeUtil \<Rightarrow> bool \<times> error option" where
  "Fake_IsDir fullPath u =
     (case fakeEntry u fullPath of
        Inl e \<Rightarrow> (False, Some e)
      | Inr f \<Rightarrow>
          if fde_VolumeType f \<noteq> ''file''
          then (False, Some (Errorf ''%q not a file or directory'' [fullPath]))
          else (True, None))"

definition Fake_IsBlock :: "string \<Rightarrow> FakeVolumeUtil \<Rightarrow> bool \<times> error option" where
  "Fake_IsBlock fullPath u =
     (case fakeEntry u fullPath of
        Inl e \<Rightarrow> (False, Some e)
      | Inr f \<Rightarrow> (fde_VolumeType f = ''block'', None))"

definition Fake_ReadDir :: "string \<Rightarrow> FakeVolumeUtil \<Rightarrow> string list result" where
  "Fake_ReadDir fullPath u =
     (case fmlookup (directoryFiles u) fullPath of
        None \<Rightarrow> Inl (Errorf ''Directory %q not found'' [fullPath])
      | Some files \<Rightarrow> Inr (map fde_Name files))"

definition Fake_DeleteContents :: "string \<Rightarrow> FakeVolumeUtil \<Rightarrow> error option \<times> FakeVolumeUtil" where
  "Fake_DeleteContents fullPath u =
     (if deleteShouldFail u then (Some (Errorf ''Fake delete contents failed'' []), u)
      else (None, u))"

definition getDirEntryCapacity ::
  "string \<Rightarrow> string \<Rightarrow> FakeVolumeUtil \<Rightarrow> int \<times> error option" where
  "getDirEntryCapacity entryType fullPath u =
     (case fakeEntry u fullPath of
        Inl e \<Rightarrow> (0, Some e)
      | Inr f \<Rightarrow>
          if fde_VolumeType f \<noteq> entryType
          then (0, Some (Errorf ''Directory entry %q is not a %q'' [fde_Name f, entryType]))
          else (fde_Capacity f, None))"

definition Fake_AddNewDirEntries ::
  "string list \<Rightarrow> string \<Rightarrow> FakeDirEntry list gomap \<Rightarrow> FakeVolumeUtil \<Rightarrow> FakeVolumeUtil" where
  "Fake_AddNewDirEntries order mountDir dirFiles u =
     fold (\<lambda>dir u.
             case fmlookup dirFiles dir of
               None \<Rightarrow> u
             | Some files \<Rightarrow>
                 (let mountedPath = Join [mountDir, dir];
                      curFiles = (case fmlookup (directoryFiles u) mountedPath of
                                    None \<Rightarrow> [] | Some fs \<Rightarrow> fs)
                  in u\<lparr>directoryFiles := fmupd mountedPath (curFiles @ files) (directoryFiles u)\<rparr>))
          order u"

definition FakeVolumeUtil_ops :: "FakeVolumeUtil VolumeUtil" where
  "FakeVolumeUtil_ops =
     \<lparr>vu_IsDir = Fake_IsDir, vu_IsBlock = Fake_IsBlock, vu_ReadDir = Fake_ReadDir,
      vu_DeleteContents = Fake_DeleteContents,
      vu_GetFsCapacityByte = getDirEntryCapacity ''file'',
      vu_GetBlockCapacityByte = getDirEntryCapacity ''block''\<rparr>"

section \<open>The contract of VolumeUtil\<close>

text \<open>
  What the provisioner relies on: no path is both a directory and a block device. The type
  checks of the real and of the fake utility both give it, the real one from what
  \<open>stat\<close> says of a file's type.
\<close>

locale volume_util =
  fixes vu :: "'f VolumeUtil" and ok :: "'f \<Rightarrow> bool"
  assumes exclusive: "ok fs \<Longrightarrow> fst (vu_IsDir vu p fs) \<Longrightarrow> \<not> fst (vu_IsBlock vu p fs)"

interpretation fake_vu: volume_util FakeVolumeUtil_ops "\<lambda>_. True"
  by unfold_locales
    (auto simp: FakeVolumeUtil_ops_def Fake_IsDir_def Fake_IsBlock_def split: sum.splits if_splits)

text \<open>On the real one, in file systems whose answers about one path agree with each other.\<close>

interpretation real_vu: volume_util "NewVolumeUtil os"
  "\<lambda>fs. \<forall>p. os_FileIsDir os p fs = Inr True \<longrightarrow> os_StatIsBlk os p fs \<noteq> Inr True" for os
  by unfold_locales
    (auto simp: NewVolumeUtil_def volumeUtil_IsDir_def volumeUtil_IsBlock_def
      split: option.splits sum.splits)

text \<open>
  \<open>DeleteContents\<close> tries every entry of the directory once, in listing order, whatever the
  earlier removals answered, and reports exactly the removals that failed.
\<close>

lemma DeleteContents_spec:
  assumes "os_Open os dir fs = None" and "os_Readdirnames os dir fs = Inr files"
  shows "\<exists>tr. map fst tr = map (\<lambda>f. Join [dir, f]) files
           \<and> tr = removeTrace os dir files fs
           \<and> fst (volumeUtil_DeleteContents os dir fs) = lib_NewAggregate os (List.map_filter snd tr)"
  using assms removeEntries_errors [of os dir files "[]" fs]
  by (auto simp: volumeUtil_DeleteContents_def removeTrace_paths split: prod.splits)

end
