(* ===== verification/LVCommon.thy ===== *)
theory LVCommon
  imports VolumeUtil
begin

text \<open>
  \<open>local-volume/provisioner/pkg/common/common.go\<close>: the configuration types, the shape of
  the PVs the provisioner creates, the translation between host paths and paths in the
  provisioner's container, the loading and validation of the configuration, and the volume mode
  of a path. The YAML library is a parameter; the orders in which the code ranges over maps are
  arguments.
\<close>

section \<open>Constants\<close>

abbreviation AnnProvisionedBy :: string where
  "AnnProvisionedBy \<equiv> ''pv.kubernetes.io/provisioned-by''"

abbreviation NodeLabelKey :: string where
  "NodeLabelKey \<equiv> ''kubernetes.io/hostname''"

abbreviation NodeNameLabel :: string where
  "NodeNameLabel \<equiv> ''kubernetes.io/hostname''"

abbreviation DefaultBlockCleanerCommand :: string where
  "DefaultBlockCleanerCommand \<equiv> ''/scripts/quick_reset.sh''"

abbreviation EventVolumeFailedDelete :: string where
  "EventVolumeFailedDelete \<equiv> ''VolumeFailedDelete''"

abbreviation VolumeDelete :: string where
  "VolumeDelete \<equiv> ''VolumeDelete''"

abbreviation ProvisonerStorageClassConfig :: string where
  "ProvisonerStorageClassConfig \<equiv> ''storageClassMap''"

abbreviation ProvisionerNodeLabelsForPV :: string where
  "ProvisionerNodeLabelsForPV \<equiv> ''nodeLabelsForPV''"

abbreviation ProvisionerUseAlphaAPI :: string where
  "ProvisionerUseAlphaAPI \<equiv> ''useAlphaAPI''"

abbreviation AlphaStorageNodeAffinityAnnotation :: string where
  "AlphaStorageNodeAffinityAnnotation \<equiv> ''volume.alpha.kubernetes.io/node-affinity''"

abbreviation LocalPVEnv :: string where
  "LocalPVEnv \<equiv> ''LOCAL_PV_BLKDEVICE''"

abbreviation LocalFilesystemEnv :: string where
  "LocalFilesystemEnv \<equiv> ''LOCAL_PV_FILESYSTEM''"

abbreviation DefaultVolumeMode :: string where
  "DefaultVolumeMode \<equiv> ''Filesystem''"

section \<open>Configuration\<close>

text \<open>\<open>BlockCleanerCommand\<close> is \<open>None\<close> when the slice is nil: validation tells nil from empty.\<close>

record MountConfig =
  mc_HostDir :: string
  mc_MountDir :: string
  mc_BlockCleanerCommand :: "string list option"
  mc_VolumeMode :: string
  mc_FsType :: string

record UserConfig =
  uc_Node :: Node
  uc_DiscoveryMap :: "MountConfig gomap"
  uc_NodeLabelsForPV :: "string list"
  uc_UseAlphaAPI :: bool
  uc_UseJobForCleaning :: bool
  uc_Namespace :: string
  uc_JobContainerImage :: string
  uc_MinResyncPeriod :: int
  uc_UseNodeNameOnly :: bool

text \<open>
  \<open>RuntimeConfig\<close> embeds \<open>UserConfig\<close>. Its mutable members (cache, API, volume utility,
  recorder, mounter) are parts of the state that the operations thread.
\<close>

record RuntimeConfig = UserConfig +
  rc_Name :: string
  rc_BlockDisabled :: bool

record LocalPVConfig =
  lpc_Name :: string
  lpc_HostPath :: string
  lpc_Capacity :: int
  lpc_StorageClass :: string
  lpc_ReclaimPolicy :: string
  lpc_ProvisionerName :: string
  lpc_UseAlphaAPI :: bool
  lpc_AffinityAnn :: string
  lpc_NodeAffinity :: "VolumeNodeAffinity option"
  lpc_VolumeMode :: string
  lpc_MountOptions :: "string list"
  lpc_FsType :: "string option"
  lpc_Labels :: "string gomap"

record ProvisionerConfiguration =
  pc_StorageClassConfig :: "MountConfig gomap"
  pc_NodeLabelsForPV :: "string list"
  pc_UseAlphaAPI :: bool
  pc_UseJobForCleaning :: bool
  pc_MinResyncPeriod :: int
  pc_UseNodeNameOnly :: bool

section \<open>The PVs the provisioner creates\<close>

definition CreateLocalPVSpec :: "LocalPVConfig \<Rightarrow> PersistentVolume" where
  "CreateLocalPVSpec config =
     (let pv = zero_PV
        \<lparr>pv_Name := lpc_Name config,
         pv_Labels := lpc_Labels config,
         pv_Annotations := fmupd AnnProvisionedBy (lpc_ProvisionerName config) fmempty,
         pv_ReclaimPolicy := lpc_ReclaimPolicy config,
         pv_Capacity := Some (lpc_Capacity config),
         pv_Local := Some \<lparr>lvs_Path = lpc_HostPath config, lvs_FSType = lpc_FsType config\<rparr>,
         pv_AccessModes := [''ReadWriteOnce''],
         pv_StorageClassName := lpc_StorageClass config,
         pv_VolumeMode := Some (lpc_VolumeMode config),
         pv_MountOptions := lpc_MountOptions config\<rparr> in
      if lpc_UseAlphaAPI config
      then pv\<lparr>pv_Annotations :=
                fmupd AlphaStorageNodeAffinityAnnotation (lpc_AffinityAnn config) (pv_Annotations pv)\<rparr>
      else pv\<lparr>pv_NodeAffinity := lpc_NodeAffinity config\<rparr>)"

lemma CreateLocalPVSpec_simps [simp]:
  "pv_Name (CreateLocalPVSpec c) = lpc_Name c"
  "pv_Labels (CreateLocalPVSpec c) = lpc_Labels c"
  "pv_Local (CreateLocalPVSpec c) = Some \<lparr>lvs_Path = lpc_HostPath c, lvs_FSType = lpc_FsType c\<rparr>"
  "pv_Capacity (CreateLocalPVSpec c) = Some (lpc_Capacity c)"
  "pv_VolumeMode (CreateLocalPVSpec c) = Some (lpc_VolumeMode c)"
  "pv_StorageClassName (CreateLocalPVSpec c) = lpc_StorageClass c"
  "pv_ReclaimPolicy (CreateLocalPVSpec c) = lpc_ReclaimPolicy c"
  "pv_MountOptions (CreateLocalPVSpec c) = lpc_MountOptions c"
  "fmlookup (pv_Annotations (CreateLocalPVSpec c)) AnnProvisionedBy = Some (lpc_ProvisionerName c)"
  by (simp_all add: CreateLocalPVSpec_def Let_def zero_PV_def)

text \<open>
  \<open>GetContainerPath\<close> dereferences \<open>pv.Spec.Local\<close>: a PV of another volume type makes it
  panic (\<open>None\<close>).
\<close>

definition GetContainerPath :: "PersistentVolume \<Rightarrow> MountConfig \<Rightarrow> (string result) option" where
  "GetContainerPath pv config =
     (case pv_Local pv of
        None \<Rightarrow> None
      | Some l \<Rightarrow>
          (case Rel (mc_HostDir config) (lvs_Path l) of
             None \<Rightarrow> Some (Inl (Errorf ''Could not get relative path for pv %q'' [pv_Name pv]))
           | Some relativePath \<Rightarrow> Some (Inr (Join [mc_MountDir config, relativePath]))))"

section \<open>Configuration maps\<close>

text \<open>
  \<open>yaml.Marshal\<close> of the three values the code marshals, and \<open>yaml.Unmarshal\<close> into a
  configuration: an error and the configuration as the library leaves it.
\<close>

record yaml_lib =
  yaml_MarshalClasses :: "MountConfig gomap \<Rightarrow> string result"
  yaml_MarshalStrings :: "string list \<Rightarrow> string result"
  yaml_MarshalBool :: "bool \<Rightarrow> string result"
  yaml_Unmarshal :: "string \<Rightarrow> ProvisionerConfiguration \<Rightarrow> error option \<times> ProvisionerConfiguration"

definition VolumeConfigToConfigMapData ::
  "yaml_lib \<Rightarrow> ProvisionerConfiguration \<Rightarrow> (string gomap) result" where
  "VolumeConfigToConfigMapData yaml config =
     (case yaml_MarshalClasses yaml (pc_StorageClassConfig config) of
        Inl err \<Rightarrow> Inl (Wrapf ''unable to Marshal volume config: %v'' [] err)
      | Inr val \<Rightarrow>
          (let data = fmupd ProvisonerStorageClassConfig val fmempty;
               labels = (if 0 < length (pc_NodeLabelsForPV config)
                         then (case yaml_MarshalStrings yaml (pc_NodeLabelsForPV config) of
                                 Inl err \<Rightarrow> Inl (Wrapf ''unable to Marshal node label: %v'' [] err)
                               | Inr nl \<Rightarrow> Inr (fmupd ProvisionerNodeLabelsForPV nl data))
                         else Inr data)
           in case labels of
                Inl err \<Rightarrow> Inl err
              | Inr data' \<Rightarrow>
                  (case yaml_MarshalBool yaml (pc_UseAlphaAPI config) of
                     Inl err \<Rightarrow> Inl (Wrapf ''unable to Marshal API version config: %v'' [] err)
                   | Inr ver \<Rightarrow> Inr (fmupd ProvisionerUseAlphaAPI ver data'))))"

abbreviation newline :: char where
  "newline \<equiv> CHR 0x0A"

definition insertSpaces :: "string \<Rightarrow> string" where
  "insertSpaces original =
     concat (map (\<lambda>line. ''   '' @ line @ [newline]) (split_on newline original))"

definition rawYaml :: "string list \<Rightarrow> string gomap \<Rightarrow> string" where
  "rawYaml order data =
     fold (\<lambda>key raw.
             case fmlookup data key of
               None \<Rightarrow> raw
             | Some val \<Rightarrow> raw @ key @ '': '' @ [newline] @ insertSpaces val)
          order ''''"

text \<open>The body of the validation loop: the class's configuration with the defaults filled in.\<close>

definition configureClass :: "string \<Rightarrow> MountConfig \<Rightarrow> MountConfig result" where
  "configureClass class config =
     (case (case mc_BlockCleanerCommand config of
              None \<Rightarrow> Inr (config\<lparr>mc_BlockCleanerCommand := Some [DefaultBlockCleanerCommand]\<rparr>)
            | Some cmd \<Rightarrow>
                if length cmd < 1
                then Inl (Errorf ''Invalid empty block cleaner command for class %v'' [class])
                else Inr config) of
        Inl err \<Rightarrow> Inl err
      | Inr config \<Rightarrow>
          if mc_MountDir config = '''' \<or> mc_HostDir config = ''''
          then Inl (Errorf ''Storage Class %v is misconfigured, missing HostDir or MountDir parameter''
                      [class])
          else
            (let config = (if mc_VolumeMode config = ''''
                           then config\<lparr>mc_VolumeMode := DefaultVolumeMode\<rparr> else config) in
             if mc_VolumeMode config \<noteq> ModeBlock \<and> mc_VolumeMode config \<noteq> ModeFilesystem
             then Inl (Errorf ''unsupported volume mode %s'' [mc_VolumeMode config])
             else Inr config))"

fun configureClasses ::
  "string list \<Rightarrow> ProvisionerConfiguration \<Rightarrow> error option \<times> ProvisionerConfiguration" where
  "configureClasses [] pc = (None, pc)"
| "configureClasses (class # order) pc =
     (case fmlookup (pc_StorageClassConfig pc) class of
        None \<Rightarrow> configureClasses order pc
      | Some config \<Rightarrow>
          (case configureClass class config of
             Inl err \<Rightarrow> (Some err, pc)
           | Inr config' \<Rightarrow>
               configureClasses order
                 (pc\<lparr>pc_StorageClassConfig := fmupd class config' (pc_StorageClassConfig pc)\<rparr>)))"

text \<open>\<open>order\<close> ranges over the data, \<open>classes\<close> gives the order over the unmarshalled classes.\<close>

definition ConfigMapDataToVolumeConfig ::
  "yaml_lib \<Rightarrow> string list \<Rightarrow> (MountConfig gomap \<Rightarrow> string list) \<Rightarrow> string gomap \<Rightarrow>
     ProvisionerConfiguration \<Rightarrow> error option \<times> ProvisionerConfiguration" where
  "ConfigMapDataToVolumeConfig yaml order classes data pc =
     (case yaml_Unmarshal yaml (rawYaml order data) pc of
        (Some err, pc') \<Rightarrow> (Some (Wrapf ''fail to Unmarshal yaml due to: %#v'' [] err), pc')
      | (None, pc') \<Rightarrow> configureClasses (classes (pc_StorageClassConfig pc')) pc')"

definition GetVolumeConfigFromConfigMap ::
  "yaml_lib \<Rightarrow> string list \<Rightarrow> (MountConfig gomap \<Rightarrow> string list) \<Rightarrow>
     (string \<Rightarrow> string \<Rightarrow> (string gomap) result) \<Rightarrow> string \<Rightarrow> string \<Rightarrow>
     ProvisionerConfiguration \<Rightarrow> error option \<times> ProvisionerConfiguration" where
  "GetVolumeConfigFromConfigMap yaml order classes getConfigMap namespace name pc =
     (case getConfigMap namespace name of
        Inl err \<Rightarrow> (Some err, pc)
      | Inr data \<Rightarrow> ConfigMapDataToVolumeConfig yaml order classes data pc)"

text \<open>
  \<open>LoadProvisionerConfigs\<close>: the files of the directory (name, is it a directory) in listing
  order, their contents read one by one; the first unreadable file ends the load.
\<close>

fun readConfigFiles ::
  "(string \<Rightarrow> string result) \<Rightarrow> string \<Rightarrow> (string \<times> bool) list \<Rightarrow> string gomap \<Rightarrow> (string gomap) result"
where
  "readConfigFiles ReadFile configPath [] data = Inr data"
| "readConfigFiles ReadFile configPath ((name, isDir) # files) data =
     (if \<not> isDir \<and> name \<noteq> ''..data''
      then (case ReadFile (Join [configPath, name]) of
              Inl err \<Rightarrow> Inl err
            | Inr contents \<Rightarrow>
                readConfigFiles ReadFile configPath files (fmupd name contents data))
      else readConfigFiles ReadFile configPath files data)"

definition LoadProvisionerConfigs ::
  "yaml_lib \<Rightarrow> (string gomap \<Rightarrow> string list) \<Rightarrow> (MountConfig gomap \<Rightarrow> string list) \<Rightarrow>
     (string \<Rightarrow> (string \<times> bool) list result) \<Rightarrow> (string \<Rightarrow> string result) \<Rightarrow> string \<Rightarrow>
     ProvisionerConfiguration \<Rightarrow> error option \<times> ProvisionerConfiguration" where
  "LoadProvisionerConfigs yaml order classes ReadDir ReadFile configPath pc =
     (case ReadDir configPath of
        Inl err \<Rightarrow> (Some err, pc)
      | Inr files \<Rightarrow>
          (case readConfigFiles ReadFile configPath files fmempty of
             Inl err \<Rightarrow> (Some err, pc)
           | Inr data \<Rightarrow> ConfigMapDataToVolumeConfig yaml (order data) classes data pc))"

section \<open>Names and modes\<close>

definition GenerateMountName :: "MountConfig \<Rightarrow> string" where
  "GenerateMountName mount =
     (let h = New32a;
          h = fnv32a_write h (mc_HostDir mount);
          h = fnv32a_write h (mc_MountDir mount)
      in ''mount-'' @ hex32 h)"

text \<open>The mode of a path: a directory first, then a block device, then the errors in that order.\<close>

definition GetVolumeMode :: "'f VolumeUtil \<Rightarrow> string \<Rightarrow> 'f \<Rightarrow> string result" where
  "GetVolumeMode volUtil fullPath fs =
     (let (isdir, errdir) = vu_IsDir volUtil fullPath fs in
      if isdir then Inr ModeFilesystem
      else
        (let (isblk, errblk) = vu_IsBlock volUtil fullPath fs in
         if isblk then Inr ModeBlock
         else if errdir = None \<and> errblk = None
         then Inl (Errorf ''Skipping file %q: not a directory nor block device'' [fullPath])
         else (case errdir of
                 Some e \<Rightarrow> Inl (Wrapf ''Directory check for %q failed: %s'' [fullPath] e)
               | None \<Rightarrow> Inl (Wrapf ''Block device check for %q failed: %s'' [fullPath] (the errblk)))))"

lemma GetVolumeMode_cases:
  "GetVolumeMode vu p fs = Inr m \<Longrightarrow>
     m = ModeFilesystem \<and> fst (vu_IsDir vu p fs)
   \<or> m = ModeBlock \<and> \<not> fst (vu_IsDir vu p fs) \<and> fst (vu_IsBlock vu p fs)"
  by (auto simp: GetVolumeMode_def split: prod.splits if_splits option.splits)

context volume_util
begin

text \<open>The order of the two checks does not matter where the utility keeps its contract.\<close>

lemma mode_block_iff:
  "ok fs \<Longrightarrow> GetVolumeMode vu p fs = Inr ModeBlock \<longleftrightarrow> fst (vu_IsBlock vu p fs)"
  using exclusive [of fs p]
  by (auto simp: GetVolumeMode_def split: prod.splits if_splits option.splits)

lemma mode_fs_iff:
  "ok fs \<Longrightarrow> GetVolumeMode vu p fs = Inr ModeFilesystem \<longleftrightarrow> fst (vu_IsDir vu p fs)"
  by (auto simp: GetVolumeMode_def split: prod.splits if_splits option.splits)

end

section \<open>Validation of the classes\<close>

text \<open>What the rest of the provisioner relies on of a class's configuration.\<close>

definition valid_class :: "MountConfig \<Rightarrow> bool" where
  "valid_class c \<longleftrightarrow>
     mc_BlockCleanerCommand c \<noteq> None \<and> mc_BlockCleanerCommand c \<noteq> Some []
   \<and> mc_HostDir c \<noteq> '''' \<and> mc_MountDir c \<noteq> ''''
   \<and> (mc_VolumeMode c = ModeBlock \<or> mc_VolumeMode c = ModeFilesystem)"

definition same_place :: "MountConfig \<Rightarrow> MountConfig \<Rightarrow> bool" where
  "same_place c c' \<longleftrightarrow>
     mc_HostDir c' = mc_HostDir c \<and> mc_MountDir c' = mc_MountDir c \<and> mc_FsType c' = mc_FsType c"

lemma configureClass_valid:
  "configureClass k c = Inr c' \<Longrightarrow> valid_class c' \<and> same_place c c'"
  by (auto simp: configureClass_def valid_class_def same_place_def Let_def
      split: option.splits if_splits)

lemma configureClass_id: "valid_class c \<Longrightarrow> configureClass k c = Inr c"
  by (auto simp: configureClass_def valid_class_def neq_Nil_conv)

text \<open>The loop as one map: it succeeds when every class does, whatever the order.\<close>

definition configured :: "MountConfig gomap \<Rightarrow> MountConfig gomap" where
  "configured m =
     fmmap_keys (\<lambda>k c. case configureClass k c of Inl _ \<Rightarrow> c | Inr c' \<Rightarrow> c') m"

lemma configureClasses_success:
  assumes "distinct order"
  shows "fst (configureClasses order pc) = None \<longleftrightarrow>
           (\<forall>k \<in> set order. \<forall>c. fmlookup (pc_StorageClassConfig pc) k = Some c \<longrightarrow>
              \<not> isl (configureClass k c))"
  using assms
proof (induction order pc rule: configureClasses.induct)
  case (2 k order pc)
  show ?case
  proof (cases "fmlookup (pc_StorageClassConfig pc) k")
    case None
    with 2 show ?thesis by simp
  next
    case (Some c)
    show ?thesis
    proof (cases "configureClass k c")
      case (Inl e)
      with Some show ?thesis by auto
    next
      case (Inr c')
      with Some 2 show ?thesis by auto
    qed
  qed
qed simp

lemma configureClasses_lookup:
  assumes "distinct order" and "configureClasses order pc = (None, pc')"
  shows "fmlookup (pc_StorageClassConfig pc') k =
           (if k \<in> set order then fmlookup (configured (pc_StorageClassConfig pc)) k
            else fmlookup (pc_StorageClassConfig pc) k)"
  using assms
proof (induction order pc rule: configureClasses.induct)
  case (2 k' order pc)
  then show ?case
    by (cases "fmlookup (pc_StorageClassConfig pc) k'")
      (auto simp: configured_def split: sum.splits)
qed (simp add: configured_def)

lemma configureClasses_frame_ex:
  "\<exists>m. snd (configureClasses order pc) = pc\<lparr>pc_StorageClassConfig := m\<rparr>"
proof (induction order pc rule: configureClasses.induct)
  case (1 pc)
  show ?case by (intro exI [of _ "pc_StorageClassConfig pc"]) simp
next
  case (2 k order pc)
  show ?case
  proof (cases "fmlookup (pc_StorageClassConfig pc) k")
    case None
    with 2 show ?thesis by simp
  next
    case (Some c)
    show ?thesis
    proof (cases "configureClass k c")
      case (Inl e)
      with Some show ?thesis by (intro exI [of _ "pc_StorageClassConfig pc"]) simp
    next
      case (Inr c')
      from 2(2) [OF Some Inr] show ?thesis by (simp add: Some Inr)
    qed
  qed
qed

lemma configureClasses_frame:
  "configureClasses order pc = (e, pc') \<Longrightarrow>
     pc' = pc\<lparr>pc_StorageClassConfig := pc_StorageClassConfig pc'\<rparr>"
  using configureClasses_frame_ex [of order pc] by auto

lemma configureClasses_enumerates:
  assumes "enumerates order (pc_StorageClassConfig pc)"
    and "configureClasses order pc = (None, pc')"
  shows "pc' = pc\<lparr>pc_StorageClassConfig := configured (pc_StorageClassConfig pc)\<rparr>"
proof -
  have "distinct order" using assms(1) by (simp add: enumerates_def)
  then have "pc_StorageClassConfig pc' = configured (pc_StorageClassConfig pc)"
    using configureClasses_lookup [OF _ assms(2)] enumerates_None [OF assms(1)]
    by (intro fmap_ext) (auto simp: configured_def)
  with configureClasses_frame [OF assms(2)] show ?thesis by simp
qed

lemma configured_valid:
  assumes "enumerates order (pc_StorageClassConfig pc)"
    and "fst (configureClasses order pc) = None"
    and "fmlookup (configured (pc_StorageClassConfig pc)) k = Some c'"
  obtains c where "fmlookup (pc_StorageClassConfig pc) k = Some c"
    and "configureClass k c = Inr c'"
proof -
  from assms(3) obtain c where c: "fmlookup (pc_StorageClassConfig pc) k = Some c"
    and c': "c' = (case configureClass k c of Inl _ \<Rightarrow> c | Inr c'' \<Rightarrow> c'')"
    by (auto simp: configured_def)
  have "k \<in> set order" using enumerates_lookup [OF assms(1) c] .
  then have "\<not> isl (configureClass k c)"
    using assms(1,2) c by (simp add: configureClasses_success enumerates_def)
  with c c' show thesis by (intro that) (cases "configureClass k c"; simp)+
qed

section \<open>Properties\<close>

text \<open>
  C39. A configuration that loads without an error is fit for use: every storage class has a
  non-empty cleaner command, both directories and one of the two volume modes, and its
  directories and file-system type are those of the unmarshalled configuration.
\<close>

theorem ConfigMapDataToVolumeConfig_valid:
  assumes "yaml_Unmarshal yaml (rawYaml order data) pc = (None, raw)"
    and "enumerates (classes (pc_StorageClassConfig raw)) (pc_StorageClassConfig raw)"
    and "ConfigMapDataToVolumeConfig yaml order classes data pc = (None, pc')"
    and "fmlookup (pc_StorageClassConfig pc') k = Some c'"
  shows "valid_class c' \<and> (\<exists>c. fmlookup (pc_StorageClassConfig raw) k = Some c \<and> same_place c c')"
proof -
  let ?ks = "classes (pc_StorageClassConfig raw)"
  have run: "configureClasses ?ks raw = (None, pc')"
    using assms(1,3) by (simp add: ConfigMapDataToVolumeConfig_def)
  have "fmlookup (configured (pc_StorageClassConfig raw)) k = Some c'"
    using assms(4) configureClasses_enumerates [OF assms(2) run] by simp
  with assms(2) run obtain c where "fmlookup (pc_StorageClassConfig raw) k = Some c"
    "configureClass k c = Inr c'"
    using configured_valid [of ?ks raw k c'] by auto
  with configureClass_valid [of k c c'] show ?thesis by blast
qed

definition demo_class :: MountConfig where
  "demo_class =
     \<lparr>mc_HostDir = ''/mnt/disks'', mc_MountDir = ''/media'', mc_BlockCleanerCommand = None,
      mc_VolumeMode = '''', mc_FsType = ''''\<rparr>"

definition demo_config :: ProvisionerConfiguration where
  "demo_config =
     \<lparr>pc_StorageClassConfig = fmupd ''fast'' demo_class fmempty, pc_NodeLabelsForPV = [],
      pc_UseAlphaAPI = False, pc_UseJobForCleaning = False, pc_MinResyncPeriod = 0,
      pc_UseNodeNameOnly = False\<rparr>"

definition demo_yaml :: yaml_lib where
  "demo_yaml =
     \<lparr>yaml_MarshalClasses = (\<lambda>_. Inr ''x''), yaml_MarshalStrings = (\<lambda>_. Inr ''x''),
      yaml_MarshalBool = (\<lambda>_. Inr ''x''), yaml_Unmarshal = (\<lambda>_ _. (None, demo_config))\<rparr>"

definition demo_configured :: ProvisionerConfiguration where
  "demo_configured =
     demo_config\<lparr>pc_StorageClassConfig :=
       fmupd ''fast'' (demo_class\<lparr>mc_BlockCleanerCommand := Some [DefaultBlockCleanerCommand],
                               mc_VolumeMode := DefaultVolumeMode\<rparr>)
         (fmupd ''fast'' demo_class fmempty)\<rparr>"

lemma demo_load:
  "ConfigMapDataToVolumeConfig demo_yaml [] (\<lambda>_. [''fast'']) fmempty demo_config
     = (None, demo_configured)"
  by (simp add: ConfigMapDataToVolumeConfig_def demo_yaml_def demo_configured_def demo_config_def
      demo_class_def configureClass_def)

theorem ConfigMapDataToVolumeConfig_valid_witness:
  "valid_class (demo_class\<lparr>mc_BlockCleanerCommand := Some [DefaultBlockCleanerCommand],
                          mc_VolumeMode := DefaultVolumeMode\<rparr>)"
  using ConfigMapDataToVolumeConfig_valid
    [of demo_yaml "[]" fmempty demo_config demo_config "\<lambda>_. [''fast'']" demo_configured "''fast''"
        "demo_class\<lparr>mc_BlockCleanerCommand := Some [DefaultBlockCleanerCommand],
                    mc_VolumeMode := DefaultVolumeMode\<rparr>", OF _ _ demo_load]
  by (simp add: demo_yaml_def demo_configured_def demo_config_def enumerates_def)

text \<open>
  The order in which the runtime ranges over the classes decides neither whether the
  configuration is accepted nor what it becomes.
\<close>

theorem configureClasses_order_irrelevant:
  assumes "enumerates order (pc_StorageClassConfig pc)"
    and "enumerates order' (pc_StorageClassConfig pc)"
  shows "(fst (configureClasses order pc) = None \<longleftrightarrow> fst (configureClasses order' pc) = None)
       \<and> (fst (configureClasses order pc) = None \<longrightarrow>
            configureClasses order pc = configureClasses order' pc)"
proof -
  have ks: "distinct order" "distinct order'" "set order = set order'"
    using assms by (auto simp: enumerates_def fset_of_list_elem dest: arg_cong [where f = fset]
        simp flip: fset_of_list.rep_eq)
  then have iff: "fst (configureClasses order pc) = None \<longleftrightarrow> fst (configureClasses order' pc) = None"
    by (simp add: configureClasses_success)
  show ?thesis
  proof (cases "fst (configureClasses order pc) = None")
    case True
    then obtain a b where "configureClasses order pc = (None, a)" "configureClasses order' pc = (None, b)"
      using iff by (metis prod.collapse)
    with configureClasses_enumerates [OF assms(1), of a] configureClasses_enumerates [OF assms(2), of b]
    show ?thesis by simp
  next
    case False
    with iff show ?thesis by blast
  qed
qed

theorem configureClasses_order_irrelevant_witness:
  "configureClasses [''a'', ''b'']
     (demo_config\<lparr>pc_StorageClassConfig := fmupd ''a'' demo_class (fmupd ''b'' demo_class fmempty)\<rparr>)
   = configureClasses [''b'', ''a'']
     (demo_config\<lparr>pc_StorageClassConfig := fmupd ''a'' demo_class (fmupd ''b'' demo_class fmempty)\<rparr>)"
  using configureClasses_order_irrelevant
    [of "[''a'', ''b'']"
        "demo_config\<lparr>pc_StorageClassConfig := fmupd ''a'' demo_class (fmupd ''b'' demo_class fmempty)\<rparr>"
        "[''b'', ''a'']"]
  by (auto simp: enumerates_def configureClass_def demo_class_def)

end
