(* ===== verification/VolumeCache.thy ===== *)
theory VolumeCache
  imports K8sTypes
begin

text \<open>
  \<open>local-volume/provisioner/pkg/cache/cache.go\<close>: the PVs this provisioner created, by name.
  Every method holds the mutex for its whole body, so each is one atomic step.
\<close>

record VolumeCache =
  vc_pvs :: "PersistentVolume gomap"

definition NewVolumeCache :: VolumeCache where
  "NewVolumeCache = \<lparr>vc_pvs = fmempty\<rparr>"

definition Cache_GetPV :: "VolumeCache \<Rightarrow> string \<Rightarrow> PersistentVolume option" where
  "Cache_GetPV c pvName = fmlookup (vc_pvs c) pvName"

definition Cache_AddPV :: "PersistentVolume \<Rightarrow> VolumeCache \<Rightarrow> VolumeCache" where
  "Cache_AddPV pv c = c\<lparr>vc_pvs := fmupd (pv_Name pv) pv (vc_pvs c)\<rparr>"

definition Cache_UpdatePV :: "PersistentVolume \<Rightarrow> VolumeCache \<Rightarrow> VolumeCache" where
  "Cache_UpdatePV pv c = c\<lparr>vc_pvs := fmupd (pv_Name pv) pv (vc_pvs c)\<rparr>"

definition Cache_DeletePV :: "string \<Rightarrow> VolumeCache \<Rightarrow> VolumeCache" where
  "Cache_DeletePV pvName c = c\<lparr>vc_pvs := fmdrop pvName (vc_pvs c)\<rparr>"

text \<open>\<open>ListPVs\<close> copies the values in the order the runtime ranges over the map.\<close>

definition Cache_ListPVs :: "string list \<Rightarrow> VolumeCache \<Rightarrow> PersistentVolume list" where
  "Cache_ListPVs order c = map_values order (vc_pvs c)"

interpretation vcache: keyed_store Cache_GetPV Cache_AddPV Cache_DeletePV pv_Name NewVolumeCache
  by unfold_locales
    (simp_all add: Cache_GetPV_def Cache_AddPV_def Cache_DeletePV_def NewVolumeCache_def)

lemma Cache_UpdatePV_eq_Add: "Cache_UpdatePV = Cache_AddPV"
  by (simp add: fun_eq_iff Cache_UpdatePV_def Cache_AddPV_def)

lemmas cache_simps [simp] = vcache.lookup_add vcache.lookup_remove vcache.lookup_empty

lemma Cache_GetPV_UpdatePV [simp]:
  "Cache_GetPV (Cache_UpdatePV pv c) k = (if k = pv_Name pv then Some pv else Cache_GetPV c k)"
  by (simp add: Cache_UpdatePV_eq_Add)

lemma set_Cache_ListPVs:
  "enumerates order (vc_pvs c) \<Longrightarrow>
     set (Cache_ListPVs order c) = {pv. \<exists>k. Cache_GetPV c k = Some pv}"
  by (simp add: Cache_ListPVs_def Cache_GetPV_def set_map_values_enumerates)

lemma distinct_names_map_values:
  "distinct ks \<Longrightarrow> (\<And>k v. fmlookup m k = Some v \<Longrightarrow> key v = k) \<Longrightarrow>
     distinct (map key (map_values ks m))"
  by (induction ks) (auto simp: set_map_values split: option.splits)

text \<open>A listing of a well-keyed cache has one PV per name.\<close>

lemma distinct_Cache_ListPVs:
  assumes "enumerates order (vc_pvs c)" and "vcache.well_keyed c"
  shows "distinct (map pv_Name (Cache_ListPVs order c))"
  unfolding Cache_ListPVs_def
  by (rule distinct_names_map_values)
    (use assms in \<open>auto simp: enumerates_def vcache.well_keyed_def Cache_GetPV_def\<close>)

end
