(* ===== verification/APIUtil.thy ===== *)
theory APIUtil
  imports VolumeCache
begin

text \<open>
  \<open>local-volume/provisioner/pkg/util/api_util.go\<close>: the interface \<open>APIUtil\<close> as a record of
  functions. Its state is a pair: the utility's own state and the volume cache, which
  the fake utility updates itself and the real one leaves to the informer's handlers.
\<close>

record 'a APIUtil =
  au_CreatePV :: "PersistentVolume \<Rightarrow> 'a \<times> VolumeCache \<Rightarrow> PersistentVolume result \<times> 'a \<times> VolumeCache"
  au_DeletePV :: "string \<Rightarrow> 'a \<times> VolumeCache \<Rightarrow> error option \<times> 'a \<times> VolumeCache"
  au_CreateJob :: "Job \<Rightarrow> 'a \<times> VolumeCache \<Rightarrow> error option \<times> 'a \<times> VolumeCache"
  au_DeleteJob :: "string \<Rightarrow> string \<Rightarrow> 'a \<times> VolumeCache \<Rightarrow> error option \<times> 'a \<times> VolumeCache"

section \<open>apiUtil\<close>

text \<open>The calls of the Kubernetes client the utility makes, on the API server's state.\<close>

record 's kube_client =
  kc_CreatePV :: "PersistentVolume \<Rightarrow> 's \<Rightarrow> PersistentVolume result \<times> 's"
  kc_DeletePV :: "string \<Rightarrow> 's \<Rightarrow> error option \<times> 's"
  kc_CreateJob :: "string \<Rightarrow> Job \<Rightarrow> 's \<Rightarrow> Job result \<times> 's"
  kc_DeleteJob :: "string \<Rightarrow> string \<Rightarrow> 's \<Rightarrow> error option \<times> 's"

text \<open>The metrics \<open>APIServerRequestsTotal\<close> and \<open>APIServerRequestsFailedTotal\<close>, by request.\<close>

record 's apiState =
  as_server :: 's
  as_RequestsTotal :: "nat gomap"
  as_RequestsFailedTotal :: "nat gomap"

abbreviation APIServerRequestCreate :: string where
  "APIServerRequestCreate \<equiv> ''create''"

abbreviation APIServerRequestDelete :: string where
  "APIServerRequestDelete \<equiv> ''delete''"

definition count_of :: "nat gomap \<Rightarrow> string \<Rightarrow> nat" where
  "count_of m k = (case fmlookup m k of None \<Rightarrow> 0 | Some n \<Rightarrow> n)"

definition Inc :: "string \<Rightarrow> nat gomap \<Rightarrow> nat gomap" where
  "Inc k m = fmupd k (Suc (count_of m k)) m"

lemma count_of_Inc [simp]: "count_of (Inc k m) j = (if j = k then Suc (count_of m k) else count_of m j)"
  by (simp add: count_of_def Inc_def)

definition apiUtil_CreatePV ::
  "'s kube_client \<Rightarrow> PersistentVolume \<Rightarrow> 's apiState \<times> VolumeCache \<Rightarrow>
     PersistentVolume result \<times> 's apiState \<times> VolumeCache" where
  "apiUtil_CreatePV client pv = (\<lambda>(u, c).
     (let u = u\<lparr>as_RequestsTotal := Inc APIServerRequestCreate (as_RequestsTotal u)\<rparr>;
          (r, srv) = kc_CreatePV client pv (as_server u);
          u = u\<lparr>as_server := srv\<rparr>
      in case r of
           Inl err \<Rightarrow>
             (Inl err,
              u\<lparr>as_RequestsFailedTotal := Inc APIServerRequestCreate (as_RequestsFailedTotal u)\<rparr>, c)
         | Inr pv' \<Rightarrow> (Inr pv', u, c)))"

definition apiUtil_DeletePV ::
  "'s kube_client \<Rightarrow> string \<Rightarrow> 's apiState \<times> VolumeCache \<Rightarrow>
     error option \<times> 's apiState \<times> VolumeCache" where
  "apiUtil_DeletePV client pvName = (\<lambda>(u, c).
     (let u = u\<lparr>as_RequestsTotal := Inc APIServerRequestDelete (as_RequestsTotal u)\<rparr>;
          (err, srv) = kc_DeletePV client pvName (as_server u);
          u = u\<lparr>as_server := srv\<rparr>
      in (err,
          if err \<noteq> None
          then u\<lparr>as_RequestsFailedTotal := Inc APIServerRequestDelete (as_RequestsFailedTotal u)\<rparr>
          else u,
          c)))"

definition apiUtil_CreateJob ::
  "'s kube_client \<Rightarrow> Job \<Rightarrow> 's apiState \<times> VolumeCache \<Rightarrow>
     error option \<times> 's apiState \<times> VolumeCache" where
  "apiUtil_CreateJob client job = (\<lambda>(u, c).
     (let (r, srv) = kc_CreateJob client (job_Namespace job) job (as_server u);
          u = u\<lparr>as_server := srv\<rparr>
      in case r of Inl err \<Rightarrow> (Some err, u, c) | Inr _ \<Rightarrow> (None, u, c)))"

definition apiUtil_DeleteJob ::
  "'s kube_client \<Rightarrow> string \<Rightarrow> string \<Rightarrow> 's apiState \<times> VolumeCache \<Rightarrow>
     error option \<times> 's apiState \<times> VolumeCache" where
  "apiUtil_DeleteJob client jobName namespace = (\<lambda>(u, c).
     (let (err, srv) = kc_DeleteJob client namespace jobName (as_server u)
      in (err, u\<lparr>as_server := srv\<rparr>, c)))"

definition NewAPIUtil :: "'s kube_client \<Rightarrow> 's apiState APIUtil" where
  "NewAPIUtil client =
     \<lparr>au_CreatePV = apiUtil_CreatePV client, au_DeletePV = apiUtil_DeletePV client,
      au_CreateJob = apiUtil_CreateJob client, au_DeleteJob = apiUtil_DeleteJob client\<rparr>"

section \<open>FakeAPIUtil\<close>

record FakeAPIUtil =
  createdPVs :: "PersistentVolume gomap"
  deletedPVs :: "PersistentVolume gomap"
  CreatedJobs :: "Job gomap"
  DeletedJobs :: "string gomap"
  shouldFail :: bool

definition NewFakeAPIUtil :: "bool \<Rightarrow> FakeAPIUtil" where
  "NewFakeAPIUtil sf =
     \<lparr>createdPVs = fmempty, deletedPVs = fmempty, CreatedJobs = fmempty, DeletedJobs = fmempty,
      shouldFail = sf\<rparr>"

definition FakeAPI_CreatePV ::
  "PersistentVolume \<Rightarrow> FakeAPIUtil \<times> VolumeCache \<Rightarrow>
     PersistentVolume result \<times> FakeAPIUtil \<times> VolumeCache" where
  "FakeAPI_CreatePV pv = (\<lambda>(u, c).
     if shouldFail u then (Inl (Errorf ''API failed'' []), u, c)
     else (Inr pv, u\<lparr>createdPVs := fmupd (pv_Name pv) pv (createdPVs u)\<rparr>, Cache_AddPV pv c))"

definition FakeAPI_DeletePV ::
  "string \<Rightarrow> FakeAPIUtil \<times> VolumeCache \<Rightarrow> error option \<times> FakeAPIUtil \<times> VolumeCache" where
  "FakeAPI_DeletePV pvName = (\<lambda>(u, c).
     if shouldFail u then (Some (Errorf ''API failed'' []), u, c)
     else (case Cache_GetPV c pvName of
             Some pv \<Rightarrow>
               (None,
                u\<lparr>deletedPVs := fmupd pvName pv (deletedPVs u),
                  createdPVs := fmdrop pvName (createdPVs u)\<rparr>,
                Cache_DeletePV pvName c)
           | None \<Rightarrow> (Some (NotFound pvName), u, c)))"

definition GetAndResetCreatedPVs :: "FakeAPIUtil \<Rightarrow> PersistentVolume gomap \<times> FakeAPIUtil" where
  "GetAndResetCreatedPVs u = (createdPVs u, u\<lparr>createdPVs := fmempty\<rparr>)"

definition GetAndResetDeletedPVs :: "FakeAPIUtil \<Rightarrow> PersistentVolume gomap \<times> FakeAPIUtil" where
  "GetAndResetDeletedPVs u = (deletedPVs u, u\<lparr>deletedPVs := fmempty\<rparr>)"

definition FakeAPI_CreateJob ::
  "Job \<Rightarrow> FakeAPIUtil \<times> VolumeCache \<Rightarrow> error option \<times> FakeAPIUtil \<times> VolumeCache" where
  "FakeAPI_CreateJob job = (\<lambda>(u, c).
     (None, u\<lparr>CreatedJobs := fmupd (job_Namespace job @ ''/'' @ job_Name job) job (CreatedJobs u)\<rparr>, c))"

definition FakeAPI_DeleteJob ::
  "string \<Rightarrow> string \<Rightarrow> FakeAPIUtil \<times> VolumeCache \<Rightarrow>
     error option \<times> FakeAPIUtil \<times> VolumeCache" where
  "FakeAPI_DeleteJob jobName namespace = (\<lambda>(u, c).
     (None, u\<lparr>DeletedJobs := fmupd (namespace @ ''/'' @ jobName) jobName (DeletedJobs u)\<rparr>, c))"

definition FakeAPIUtil_ops :: "FakeAPIUtil APIUtil" where
  "FakeAPIUtil_ops =
     \<lparr>au_CreatePV = FakeAPI_CreatePV, au_DeletePV = FakeAPI_DeletePV,
      au_CreateJob = FakeAPI_CreateJob, au_DeleteJob = FakeAPI_DeleteJob\<rparr>"

section \<open>The contract of APIUtil\<close>

text \<open>
  What the deleter and the discoverer rely on: an operation that fails leaves the cache as it
  was, the job operations never touch it, a successful creation at most adds the created
  PV, and a deletion at most removes the PV it names.
\<close>

locale api_util =
  fixes api :: "'a APIUtil"
  assumes create_cache:
      "au_CreatePV api pv (u, c) = (r, u', c') \<Longrightarrow>
         c' = c \<or> (\<exists>pv'. r = Inr pv' \<and> c' = Cache_AddPV pv c)"
    and delete_cache:
      "au_DeletePV api n (u, c) = (e, u', c') \<Longrightarrow> c' = c \<or> (e = None \<and> c' = Cache_DeletePV n c)"
    and create_job_cache: "au_CreateJob api j (u, c) = (e, u', c') \<Longrightarrow> c' = c"
    and delete_job_cache: "au_DeleteJob api jn ns (u, c) = (e, u', c') \<Longrightarrow> c' = c"
begin

lemma create_lookup:
  "au_CreatePV api pv (u, c) = (r, u', c') \<Longrightarrow> k \<noteq> pv_Name pv \<Longrightarrow> Cache_GetPV c' k = Cache_GetPV c k"
  using create_cache by fastforce

lemma delete_lookup:
  "au_DeletePV api n (u, c) = (e, u', c') \<Longrightarrow> k \<noteq> n \<Longrightarrow> Cache_GetPV c' k = Cache_GetPV c k"
  using delete_cache by fastforce

lemma create_well_keyed:
  "vcache.well_keyed c \<Longrightarrow> au_CreatePV api pv (u, c) = (r, u', c') \<Longrightarrow> vcache.well_keyed c'"
  using create_cache vcache.well_keyed_add by blast

lemma delete_well_keyed:
  "vcache.well_keyed c \<Longrightarrow> au_DeletePV api n (u, c) = (e, u', c') \<Longrightarrow> vcache.well_keyed c'"
  using delete_cache vcache.well_keyed_remove by blast

end

text \<open>
  The fake utility promises more: success shows in the cache at once, which is what makes two
  discoveries in a row create nothing twice.
\<close>

locale caching_api_util = api_util +
  assumes create_caches: "au_CreatePV api pv (u, c) = (Inr pv', u', c') \<Longrightarrow> c' = Cache_AddPV pv c"
    and delete_uncaches: "au_DeletePV api n (u, c) = (None, u', c') \<Longrightarrow> c' = Cache_DeletePV n c"
begin

lemma created_present:
  "au_CreatePV api pv (u, c) = (Inr pv', u', c') \<Longrightarrow> Cache_GetPV c' (pv_Name pv) = Some pv"
  using create_caches by fastforce

lemma deleted_absent:
  "au_DeletePV api n (u, c) = (None, u', c') \<Longrightarrow> Cache_GetPV c' n = None"
  using delete_uncaches by fastforce

end

interpretation real_api: api_util "NewAPIUtil client" for client
  by unfold_locales
    (auto simp: NewAPIUtil_def apiUtil_CreatePV_def apiUtil_DeletePV_def apiUtil_CreateJob_def
      apiUtil_DeleteJob_def Let_def split: prod.splits sum.splits)

interpretation fake_api: caching_api_util FakeAPIUtil_ops
  by unfold_locales
    (auto simp: FakeAPIUtil_ops_def FakeAPI_CreatePV_def FakeAPI_DeletePV_def FakeAPI_CreateJob_def
      FakeAPI_DeleteJob_def split: if_splits option.splits)

section \<open>Properties\<close>

text \<open>
  In the fake utility a created PV that is deleted again leaves no trace but the record of
  its deletion: the cache is as before where it had no PV of that name.
\<close>

theorem FakeAPI_create_delete:
  assumes "\<not> shouldFail u" and "Cache_GetPV c (pv_Name pv) = None"
  shows "\<exists>u1 c1 u2 c2. FakeAPI_CreatePV pv (u, c) = (Inr pv, u1, c1)
           \<and> FakeAPI_DeletePV (pv_Name pv) (u1, c1) = (None, u2, c2)
           \<and> c2 = c \<and> createdPVs u2 = fmdrop (pv_Name pv) (createdPVs u)
           \<and> fmlookup (deletedPVs u2) (pv_Name pv) = Some pv"
proof -
  have absent: "fmdrop (pv_Name pv) (fmupd (pv_Name pv) pv (vc_pvs c)) = vc_pvs c"
    using assms(2) by (intro fmap_ext) (auto simp: Cache_GetPV_def)
  have created: "fmdrop (pv_Name pv) (fmupd (pv_Name pv) pv (createdPVs u)) =
      fmdrop (pv_Name pv) (createdPVs u)"
    by (intro fmap_ext) auto
  show ?thesis
    using assms by (simp add: FakeAPI_CreatePV_def FakeAPI_DeletePV_def Cache_AddPV_def
        Cache_DeletePV_def Cache_GetPV_def absent created)
qed

theorem FakeAPI_create_delete_witness:
  "\<exists>u1 c1 u2 c2.
      FakeAPI_CreatePV (zero_PV\<lparr>pv_Name := ''pv''\<rparr>) (NewFakeAPIUtil False, NewVolumeCache)
        = (Inr (zero_PV\<lparr>pv_Name := ''pv''\<rparr>), u1, c1)
    \<and> FakeAPI_DeletePV ''pv'' (u1, c1) = (None, u2, c2) \<and> c2 = NewVolumeCache"
  using FakeAPI_create_delete
    [of "NewFakeAPIUtil False" NewVolumeCache "zero_PV\<lparr>pv_Name := ''pv''\<rparr>"]
  by (auto simp: NewFakeAPIUtil_def)

end
