(* ===== verification/JobController.thy ===== *)
theory JobController
  imports ProcTable LVCommon APIUtil
begin

text \<open>
  \<open>local-volume/provisioner/pkg/deleter/jobcontroller.go\<close>: the jobs that clean block devices.
  The interface \<open>JobController\<close> is a record of functions on the controller's state and the API
  (removing a job is an API call). The real controller reads jobs through a lister (a
  parameter) and works a rate-limited queue (a parameter); \<open>FakeJobController\<close> keeps a table.
\<close>

abbreviation maxRetries :: nat where
  "maxRetries \<equiv> 10"

abbreviation JobContainerName :: string where
  "JobContainerName \<equiv> ''cleaner''"

abbreviation JobNamePrefix :: string where
  "JobNamePrefix \<equiv> ''cleanup-''"

abbreviation PVLabel :: string where
  "PVLabel \<equiv> ''pv''"

abbreviation PVUuidLabel :: string where
  "PVUuidLabel \<equiv> ''pvuuid''"

abbreviation DeviceAnnotation :: string where
  "DeviceAnnotation \<equiv> ''device''"

abbreviation StartTimeAnnotation :: string where
  "StartTimeAnnotation \<equiv> ''start-time''"

record ('j, 'a) JobController =
  jc_IsCleaningJobRunning :: "string \<Rightarrow> 'j \<Rightarrow> bool \<times> 'j"
  jc_RemoveJob :: "string \<Rightarrow> 'j \<Rightarrow> 'a \<times> VolumeCache \<Rightarrow> removed \<times> 'j \<times> 'a \<times> VolumeCache"

section \<open>jobController\<close>

definition generateCleaningJobName :: "string \<Rightarrow> string" where
  "generateCleaningJobName pvName = JobNamePrefix @ pvName"

text \<open>
  The controller's state: its namespace and the informer's index, which the lister reads.
  \<open>parseTime\<close> is \<open>time.Parse(time.RFC3339Nano, _)\<close>.
\<close>

record 'l jobController =
  jctl_namespace :: string
  jctl_index :: 'l

type_synonym 'l jobLister = "'l \<Rightarrow> string \<Rightarrow> string \<Rightarrow> Job result"

definition IsCleaningJobRunning :: "'l jobLister \<Rightarrow> string \<Rightarrow> 'l jobController \<Rightarrow> bool" where
  "IsCleaningJobRunning lister pvName c =
     (case lister (jctl_index c) (jctl_namespace c) (generateCleaningJobName pvName) of
        Inl err \<Rightarrow> if IsNotFound err then False else True
      | Inr job \<Rightarrow> job_Succeeded job \<le> 0)"

definition jobStartTime :: "(string \<Rightarrow> int result) \<Rightarrow> Job \<Rightarrow> int option" where
  "jobStartTime parseTime job =
     (case fmlookup (job_Annotations job) StartTimeAnnotation of
        None \<Rightarrow> None
      | Some s \<Rightarrow> (case parseTime s of Inl _ \<Rightarrow> None | Inr t \<Rightarrow> Some t))"

definition RemoveJob ::
  "'l jobLister \<Rightarrow> (string \<Rightarrow> int result) \<Rightarrow> 'a APIUtil \<Rightarrow> string \<Rightarrow> 'l jobController \<Rightarrow>
     'a \<times> VolumeCache \<Rightarrow> removed \<times> 'l jobController \<times> 'a \<times> VolumeCache" where
  "RemoveJob lister parseTime api pvName c a =
     (case lister (jctl_index c) (jctl_namespace c) (generateCleaningJobName pvName) of
        Inl err \<Rightarrow>
          if IsNotFound err then ((CSNotFound, None, None), c, a)
          else ((CSUnknown, None,
                 Some (Wrapf ''Failed to check whether job %s has succeeded. Error - %s''
                         [generateCleaningJobName pvName] err)), c, a)
      | Inr job \<Rightarrow>
          (let startTime = jobStartTime parseTime job in
           if job_Succeeded job = 0
           then ((CSUnknown, None,
                  Some (Errorf ''Error deleting Job %q: Cannot remove job that has not succeeded''
                          [job_Name job])), c, a)
           else
             (case au_DeleteJob api (job_Name job) (jctl_namespace c) a of
                (Some err, a') \<Rightarrow>
                  ((CSUnknown, None, Some (Wrapf ''Error deleting Job %q: %s'' [job_Name job] err)),
                   c, a')
              | (None, a') \<Rightarrow> ((CSSucceeded, startTime, None), c, a'))))"

definition NewJobController ::
  "'l jobLister \<Rightarrow> (string \<Rightarrow> int result) \<Rightarrow> 'a APIUtil \<Rightarrow> ('l jobController, 'a) JobController" where
  "NewJobController lister parseTime api =
     \<lparr>jc_IsCleaningJobRunning = (\<lambda>n c. (IsCleaningJobRunning lister n c, c)),
      jc_RemoveJob = RemoveJob lister parseTime api\<rparr>"

subsection \<open>The work queue\<close>

record 'q workqueue =
  wq_Add :: "string \<Rightarrow> 'q \<Rightarrow> 'q"
  wq_Get :: "'q \<Rightarrow> string \<times> bool \<times> 'q"
  wq_Done :: "string \<Rightarrow> 'q \<Rightarrow> 'q"
  wq_Forget :: "string \<Rightarrow> 'q \<Rightarrow> 'q"
  wq_NumRequeues :: "string \<Rightarrow> 'q \<Rightarrow> nat"
  wq_AddRateLimited :: "string \<Rightarrow> 'q \<Rightarrow> 'q"

text \<open>
  The three event handlers: the object's key, as the cache library computes it (one function for
  added and updated objects, one that also takes tombstones), is queued unless it fails.
\<close>

definition onJobEvent :: "'q workqueue \<Rightarrow> ('o \<Rightarrow> string result) \<Rightarrow> 'o \<Rightarrow> 'q \<Rightarrow> 'q" where
  "onJobEvent queue keyFunc obj q =
     (case keyFunc obj of Inl _ \<Rightarrow> q | Inr key \<Rightarrow> wq_Add queue key q)"

definition processItem ::
  "(string \<Rightarrow> (string \<times> string) result) \<Rightarrow> 'l jobLister \<Rightarrow> 'l jobController \<Rightarrow> string \<Rightarrow> error option" where
  "processItem splitKey lister c key =
     (case splitKey key of
        Inl err \<Rightarrow> Some err
      | Inr (namespace, name) \<Rightarrow>
          (case lister (jctl_index c) namespace name of
             Inl err \<Rightarrow>
               if IsNotFound err then None
               else Some (Wrapf ''Error fetching object with key %s from store: %v'' [key] err)
           | Inr job \<Rightarrow>
               if job_DeletionTimestamp job \<noteq> None then None
               else if job_Succeeded job = 0 then None
               else None))"

definition processNextItem ::
  "'q workqueue \<Rightarrow> (string \<Rightarrow> error option) \<Rightarrow> 'q \<Rightarrow> bool \<times> 'q" where
  "processNextItem queue process q =
     (let (key, quit, q) = wq_Get queue q in
      if quit then (False, q)
      else
        (let q = (case process key of
                    None \<Rightarrow> wq_Forget queue key q
                  | Some err \<Rightarrow>
                      if wq_NumRequeues queue key q < maxRetries
                      then wq_AddRateLimited queue key q
                      else wq_Forget queue key q)
         in (True, wq_Done queue key q)))"

text \<open>\<open>runWorker\<close>, at most \<open>n\<close> items of it: the loop ends when the queue is shut down.\<close>

fun runWorker :: "nat \<Rightarrow> 'q workqueue \<Rightarrow> (string \<Rightarrow> error option) \<Rightarrow> 'q \<Rightarrow> bool \<times> 'q" where
  "runWorker 0 queue process q = (True, q)"
| "runWorker (Suc n) queue process q =
     (case processNextItem queue process q of
        (False, q') \<Rightarrow> (False, q')
      | (True, q') \<Rightarrow> runWorker n queue process q')"

subsection \<open>The manifest of a cleaning job\<close>

text \<open>\<open>startTime\<close> is the formatted current time.\<close>

definition NewCleanupJob ::
  "PersistentVolume \<Rightarrow> string \<Rightarrow> string \<Rightarrow> string \<Rightarrow> string \<Rightarrow> string \<Rightarrow> MountConfig \<Rightarrow> string \<Rightarrow>
     Job result" where
  "NewCleanupJob pv volMode imageName nodeName namespace mountPath config startTime =
     (let cleaner = (if volMode = ModeBlock
                     then Inr (case mc_BlockCleanerCommand config of None \<Rightarrow> [] | Some cmd \<Rightarrow> cmd,
                               [(LocalPVEnv, mountPath)])
                     else if volMode = ModeFilesystem
                     then Inr ([''/scripts/fsclean.sh''], [(LocalFilesystemEnv, mountPath)])
                     else Inl (Errorf ''unknown PersistentVolume mode: %v'' [volMode]))
      in case cleaner of
           Inl err \<Rightarrow> Inl err
         | Inr (command, env) \<Rightarrow>
             (let mountName = GenerateMountName config;
                  jobContainer =
                    \<lparr>ctr_Name = JobContainerName, ctr_Image = imageName, ctr_Privileged = Some True,
                     ctr_Command = command, ctr_Env = env,
                     ctr_VolumeMounts = [(mountName, mc_MountDir config)]\<rparr>
              in Inr
                   \<lparr>job_Name = generateCleaningJobName (pv_Name pv), job_Namespace = namespace,
                    job_Labels =
                      fmupd PVUuidLabel (pv_UID pv)
                        (fmupd PVLabel (pv_Name pv) (fmupd NodeNameLabel nodeName fmempty)),
                    job_Annotations =
                      fmupd StartTimeAnnotation startTime (fmupd DeviceAnnotation mountPath fmempty),
                    job_DeletionTimestamp = None, job_Succeeded = 0,
                    job_Containers = [jobContainer],
                    job_Volumes = [(mountName, mc_HostDir config)],
                    job_NodeSelector = fmupd NodeNameLabel nodeName fmempty,
                    job_RestartPolicy = ''OnFailure''\<rparr>))"

section \<open>FakeJobController\<close>

record FakeJobController =
  pvCleanupRunning :: "CleanupState gomap"
  fj_IsRunningCount :: nat
  fj_RemoveCompletedCount :: nat

definition NewFakeJobController :: FakeJobController where
  "NewFakeJobController =
     \<lparr>pvCleanupRunning = fmempty, fj_IsRunningCount = 0, fj_RemoveCompletedCount = 0\<rparr>"

definition FakeJob_MarkRunning :: "string \<Rightarrow> FakeJobController \<Rightarrow> FakeJobController" where
  "FakeJob_MarkRunning pvName c =
     c\<lparr>pvCleanupRunning := fmupd pvName CSRunning (pvCleanupRunning c)\<rparr>"

definition FakeJob_MarkSucceeded :: "string \<Rightarrow> FakeJobController \<Rightarrow> FakeJobController" where
  "FakeJob_MarkSucceeded pvName c =
     c\<lparr>pvCleanupRunning := fmupd pvName CSSucceeded (pvCleanupRunning c)\<rparr>"

definition FakeJob_IsCleaningJobRunning ::
  "string \<Rightarrow> FakeJobController \<Rightarrow> bool \<times> FakeJobController" where
  "FakeJob_IsCleaningJobRunning pvName c =
     (fmlookup (pvCleanupRunning c) pvName \<noteq> None,
      c\<lparr>fj_IsRunningCount := Suc (fj_IsRunningCount c)\<rparr>)"

definition FakeJob_RemoveJob ::
  "string \<Rightarrow> FakeJobController \<Rightarrow> 'a \<times> VolumeCache \<Rightarrow> removed \<times> FakeJobController \<times> 'a \<times> VolumeCache"
where
  "FakeJob_RemoveJob pvName c a =
     (let c = c\<lparr>fj_RemoveCompletedCount := Suc (fj_RemoveCompletedCount c)\<rparr> in
      case fmlookup (pvCleanupRunning c) pvName of
        None \<Rightarrow> ((CSNotFound, None, None), c, a)
      | Some status \<Rightarrow>
          if status \<noteq> CSSucceeded
          then ((CSUnknown, None,
                 Some (Errorf ''cannot remove job that has not yet completed %s status %d''
                         [pvName])), c, a)
          else ((CSSucceeded, None, None), c, a))"

definition FakeJobController_ops :: "(FakeJobController, 'a) JobController" where
  "FakeJobController_ops =
     \<lparr>jc_IsCleaningJobRunning = FakeJob_IsCleaningJobRunning, jc_RemoveJob = FakeJob_RemoveJob\<rparr>"

section \<open>The contract of JobController\<close>

text \<open>
  \<open>jobs\<close> is what the controller knows of a PV's cleaning job: none, running, succeeded, or
  unknown when it cannot say. A running or unknown job is reported as running, and only a
  succeeded one is removed.
\<close>

locale job_controller =
  fixes jc :: "('j, 'a) JobController" and jobs :: "'j \<Rightarrow> string \<Rightarrow> CleanupState option"
  assumes running_reported:
      "jobs j n = Some CSRunning \<or> jobs j n = Some CSUnknown \<Longrightarrow> fst (jc_IsCleaningJobRunning jc n j)"
    and none_not_running: "jobs j n = None \<Longrightarrow> \<not> fst (jc_IsCleaningJobRunning jc n j)"
    and IsRunning_jobs: "jobs (snd (jc_IsCleaningJobRunning jc n j)) = jobs j"
    and Remove_cases:
      "jc_RemoveJob jc n j (u, c) = ((st, tm, err), j', u', c') \<Longrightarrow>
         (st = CSNotFound \<and> jobs j n = None \<and> err = None \<and> u' = u \<and> c' = c)
       \<or> (st = CSUnknown \<and> err \<noteq> None \<and> jobs j n \<noteq> None)
       \<or> (st = CSSucceeded \<and> jobs j n = Some CSSucceeded \<and> err = None)"
    and Remove_unfinished:
      "jobs j n \<noteq> Some CSSucceeded \<Longrightarrow> jc_RemoveJob jc n j (u, c) = (r, j', u', c') \<Longrightarrow>
         u' = u \<and> c' = c"
    and Remove_cache: "jc_RemoveJob jc n j (u, c) = (r, j', u', c') \<Longrightarrow> c' = c"
begin

lemma Remove_succeeded:
  assumes "jc_RemoveJob jc n j (u, c) = ((CSSucceeded, tm, err), j', u', c')"
  shows "jobs j n = Some CSSucceeded"
  using Remove_cases [OF assms] by simp

lemma Remove_ok:
  assumes "jc_RemoveJob jc n j (u, c) = ((st, tm, None), j', u', c')"
  shows "st = CSNotFound \<or> st = CSSucceeded"
  using Remove_cases [OF assms] by auto

end

definition jobs_of :: "'l jobLister \<Rightarrow> 'l jobController \<Rightarrow> string \<Rightarrow> CleanupState option" where
  "jobs_of lister c pvName =
     (case lister (jctl_index c) (jctl_namespace c) (generateCleaningJobName pvName) of
        Inl err \<Rightarrow> if IsNotFound err then None else Some CSUnknown
      | Inr job \<Rightarrow> Some (if job_Succeeded job = 0 then CSRunning else CSSucceeded))"

interpretation real_jobs: job_controller "NewJobController lister parseTime (NewAPIUtil client)"
  "jobs_of lister" for lister parseTime client
  by unfold_locales
    (auto simp: NewJobController_def jobs_of_def IsCleaningJobRunning_def RemoveJob_def Let_def
      dest: real_api.delete_job_cache split: sum.splits if_splits option.splits prod.splits)

interpretation fake_jobs: job_controller FakeJobController_ops "\<lambda>c n. fmlookup (pvCleanupRunning c) n"
  by unfold_locales
    (auto simp: FakeJobController_ops_def FakeJob_IsCleaningJobRunning_def FakeJob_RemoveJob_def
      Let_def split: option.splits if_splits)

section \<open>Properties\<close>

text \<open>
  Cleaning jobs are named by their PV alone, so two jobs of the same PV collide and two of
  different PVs never do; the job mounts the class's host directory at its mount directory and
  its container is told the path to clean; an unknown volume mode is an error.
\<close>

theorem NewCleanupJob_spec:
  assumes "NewCleanupJob pv m img node ns path config st = Inr job"
    and "NewCleanupJob pv' m' img' node' ns' path' config' st' = Inr job'"
  shows "(job_Name job = job_Name job' \<longleftrightarrow> pv_Name pv = pv_Name pv')
       \<and> (m = ModeBlock \<or> m = ModeFilesystem)
       \<and> (\<exists>ctr v. job_Containers job = [ctr] \<and> job_Volumes job = [(v, mc_HostDir config)]
            \<and> ctr_VolumeMounts ctr = [(v, mc_MountDir config)]
            \<and> (m = ModeBlock \<longrightarrow> ctr_Env ctr = [(LocalPVEnv, path)]
                 \<and> mc_BlockCleanerCommand config \<in> {None, Some (ctr_Command ctr)})
            \<and> (m = ModeFilesystem \<longrightarrow> ctr_Env ctr = [(LocalFilesystemEnv, path)]))"
  using assms
  by (auto simp: NewCleanupJob_def Let_def generateCleaningJobName_def split: if_splits option.splits)

definition demo_mount :: MountConfig where
  "demo_mount =
     \<lparr>mc_HostDir = ''/mnt/disks'', mc_MountDir = ''/media'', mc_BlockCleanerCommand = Some [''clean''],
      mc_VolumeMode = ModeBlock, mc_FsType = ''''\<rparr>"

theorem NewCleanupJob_spec_witness:
  "\<exists>job. NewCleanupJob (zero_PV\<lparr>pv_Name := ''a''\<rparr>) ModeBlock ''i'' ''n'' ''ns'' ''/media/x'' demo_mount ''t''
           = Inr job \<and> job_Name job \<noteq> ''cleanup-b''"
proof -
  obtain job where job: "NewCleanupJob (zero_PV\<lparr>pv_Name := ''a''\<rparr>) ModeBlock ''i'' ''n'' ''ns'' ''/media/x''
      demo_mount ''t'' = Inr job"
    by (simp add: NewCleanupJob_def Let_def)
  obtain job' where job': "NewCleanupJob (zero_PV\<lparr>pv_Name := ''b''\<rparr>) ModeBlock ''i'' ''n'' ''ns'' ''/media/x''
      demo_mount ''t'' = Inr job'"
    by (simp add: NewCleanupJob_def Let_def)
  have "job_Name job' = ''cleanup-b''"
    using job' by (auto simp: NewCleanupJob_def Let_def generateCleaningJobName_def)
  with NewCleanupJob_spec [OF job job'] job show ?thesis by auto
qed

text \<open>
  Retries are bounded: where the queue counts requeues as documented (one more per
  rate-limited add, none after a forget, untouched by get, done and other keys), no key is ever
  requeued more than \<open>maxRetries\<close> times in a row, whatever the processing answers.
\<close>

theorem runWorker_retries_bounded:
  assumes "\<And>k q. wq_NumRequeues queue k (wq_AddRateLimited queue k q) = Suc (wq_NumRequeues queue k q)"
    and "\<And>k q. wq_NumRequeues queue k (wq_Forget queue k q) = 0"
    and "\<And>j k q. j \<noteq> k \<Longrightarrow>
           wq_NumRequeues queue j (wq_AddRateLimited queue k q) = wq_NumRequeues queue j q
         \<and> wq_NumRequeues queue j (wq_Forget queue k q) = wq_NumRequeues queue j q"
    and "\<And>j k q. wq_NumRequeues queue j (wq_Done queue k q) = wq_NumRequeues queue j q"
    and "\<And>j q. wq_NumRequeues queue j (snd (snd (wq_Get queue q))) = wq_NumRequeues queue j q"
    and "\<forall>j. wq_NumRequeues queue j q \<le> maxRetries"
  shows "\<forall>j. wq_NumRequeues queue j (snd (runWorker n queue process q)) \<le> maxRetries"
  using assms(6)
proof (induction n arbitrary: q)
  case (Suc n)
  obtain key quit q1 where get: "wq_Get queue q = (key, quit, q1)" by (cases "wq_Get queue q")
  have q1: "\<forall>j. wq_NumRequeues queue j q1 \<le> maxRetries"
    using assms(5) [of _ q] Suc.prems get by simp
  obtain b q2 where next': "processNextItem queue process q = (b, q2)" by fastforce
  have "wq_NumRequeues queue j q2 \<le> maxRetries" for j
    using next' get q1 assms(1) [of key q1] assms(2) [of key q1] assms(3) [of j key q1] assms(4) [of j key]
    by (cases "j = key")
      (auto simp: processNextItem_def Let_def split: if_splits option.splits)
  with Suc.IH next' show ?case by (cases b) simp_all
qed simp

text \<open>A queue that keeps the documented counts: the pending keys and the number of requeues.\<close>

definition demo_queue :: "(string list \<times> (string \<Rightarrow> nat)) workqueue" where
  "demo_queue =
     \<lparr>wq_Add = (\<lambda>k (ks, f). (ks @ [k], f)),
      wq_Get = (\<lambda>(ks, f). case ks of [] \<Rightarrow> ('''', True, ([], f)) | k # ks \<Rightarrow> (k, False, (ks, f))),
      wq_Done = (\<lambda>_ q. q),
      wq_Forget = (\<lambda>k (ks, f). (ks, f(k := 0))),
      wq_NumRequeues = (\<lambda>k (ks, f). f k),
      wq_AddRateLimited = (\<lambda>k (ks, f). (ks @ [k], f(k := Suc (f k))))\<rparr>"

theorem runWorker_retries_bounded_witness:
  "\<forall>j. wq_NumRequeues demo_queue j
         (snd (runWorker 25 demo_queue (\<lambda>_. Some (ExtErr ''down'')) ([''ns/job''], \<lambda>_. 0))) \<le> maxRetries"
  by (rule runWorker_retries_bounded)
    (auto simp: demo_queue_def split: prod.splits list.splits)

text \<open>
  The controller never removes a cleaning job that has not succeeded: where the lister shows
  no succeeded job for the PV, \<open>RemoveJob\<close> makes no API call, and where it answers \<open>CSSucceeded\<close>
  the lister showed a succeeded job and the API accepted the deletion of that job.
\<close>

theorem RemoveJob_only_succeeded:
  assumes "RemoveJob lister parseTime api n c (u, ca) = ((st, tm, err), c', u', ca')"
  shows "(jobs_of lister c n \<noteq> Some CSSucceeded \<longrightarrow> u' = u \<and> ca' = ca \<and> st \<noteq> CSSucceeded)
       \<and> (st = CSSucceeded \<longrightarrow>
            (\<exists>job. lister (jctl_index c) (jctl_namespace c) (generateCleaningJobName n) = Inr job
               \<and> job_Succeeded job \<noteq> 0
               \<and> au_DeleteJob api (job_Name job) (jctl_namespace c) (u, ca) = (None, u', ca')))
       \<and> (st = CSNotFound \<longleftrightarrow> jobs_of lister c n = None)"
  using assms
  by (auto simp: RemoveJob_def jobs_of_def Let_def split: sum.splits if_splits prod.splits option.splits)

theorem RemoveJob_only_succeeded_witness:
  "jobs_of (\<lambda>_ _ _. Inl (NotFound ''cleanup-pv'')) \<lparr>jctl_namespace = ''ns'', jctl_index = ()\<rparr> ''pv'' = None"
proof -
  have "RemoveJob (\<lambda>_ _ _. Inl (NotFound ''cleanup-pv'')) (\<lambda>_. Inr 0) FakeAPIUtil_ops ''pv''
          \<lparr>jctl_namespace = ''ns'', jctl_index = ()\<rparr> (NewFakeAPIUtil False, NewVolumeCache)
        = ((CSNotFound, None, None), \<lparr>jctl_namespace = ''ns'', jctl_index = ()\<rparr>,
           NewFakeAPIUtil False, NewVolumeCache)"
    by (simp add: RemoveJob_def)
  from RemoveJob_only_succeeded [OF this] show ?thesis by simp
qed

end
