(* ===== verification/Deleter.thy ===== *)
theory Deleter
  imports JobController
begin

text \<open>
  \<open>local-volume/provisioner/pkg/deleter/deleter.go\<close>: the cleaning and deletion of released
  PVs. \<open>env\<close> holds what stays fixed while the provisioner runs (configuration and the
  implementations of the interfaces), \<open>world\<close> what the operations change. A goroutine that is
  started is a task of the world, run by a later step of its own. The clock \<open>w_now\<close> does not
  move during an operation. Panics are \<open>None\<close>.
\<close>

section \<open>Environment and world\<close>

record command =
  cmd_Path :: string
  cmd_Args :: "string list"
  cmd_Env :: "string list"

record 'f exec_lib =
  ex_Environ :: "string list"
  ex_StdoutPipe :: "command \<Rightarrow> error option"
  ex_StderrPipe :: "command \<Rightarrow> error option"
  ex_Start :: "command \<Rightarrow> 'f \<Rightarrow> error option \<times> 'f"
  ex_Wait :: "command \<Rightarrow> 'f \<Rightarrow> error option \<times> 'f"

record ('t, 'j, 'a, 'f) env =
  e_config :: RuntimeConfig
  e_pt :: "'t ProcTable"
  e_jc :: "('j, 'a) JobController option"
  e_api :: "'a APIUtil"
  e_vu :: "'f VolumeUtil"
  e_exec :: "'f exec_lib"
  e_CapacityBreakDown :: "int \<Rightarrow> string"
  e_FormatTime :: "int \<Rightarrow> string"

datatype metric =
    DeleteTotal string string
  | DeleteFailedTotal string string
  | DeleteDuration string string string string int
  | DiscoveryTotal string
  | DiscoveryDuration string int

record task =
  tk_pv :: PersistentVolume
  tk_volMode :: string
  tk_mountPath :: string
  tk_config :: MountConfig

record ('t, 'j, 'a, 'f) world =
  w_ptable :: 't
  w_job :: 'j
  w_api :: 'a
  w_cache :: VolumeCache
  w_fs :: 'f
  w_now :: int
  w_events :: "Event list"
  w_metrics :: "metric list"
  w_tasks :: "task list"

definition Eventf :: "PersistentVolume \<Rightarrow> string \<Rightarrow> string \<Rightarrow>
    ('t, 'j, 'a, 'f) world \<Rightarrow> ('t, 'j, 'a, 'f) world" where
  "Eventf pv type reason w =
     w\<lparr>w_events := w_events w @ [\<lparr>ev_Object = pv_Name pv, ev_Type = type, ev_Reason = reason\<rparr>]\<rparr>"

definition Observe :: "metric \<Rightarrow> ('t, 'j, 'a, 'f) world \<Rightarrow> ('t, 'j, 'a, 'f) world" where
  "Observe m w = w\<lparr>w_metrics := w_metrics w @ [m]\<rparr>"

section \<open>CleanupStatusTracker\<close>

definition InProgress ::
  "('t, 'j, 'a, 'f) env \<Rightarrow> string \<Rightarrow> bool \<Rightarrow> ('t, 'j, 'a, 'f) world \<Rightarrow>
     (bool \<times> ('t, 'j, 'a, 'f) world) option" where
  "InProgress d pvName isJob w =
     (if isJob
      then (case e_jc d of
              None \<Rightarrow> None
            | Some jc \<Rightarrow>
                (let (b, j) = jc_IsCleaningJobRunning jc pvName (w_job w) in Some (b, w\<lparr>w_job := j\<rparr>)))
      else (let (b, t) = pt_IsRunning (e_pt d) pvName (w_ptable w) in Some (b, w\<lparr>w_ptable := t\<rparr>)))"

definition RemoveStatus ::
  "('t, 'j, 'a, 'f) env \<Rightarrow> string \<Rightarrow> bool \<Rightarrow> ('t, 'j, 'a, 'f) world \<Rightarrow>
     (removed \<times> ('t, 'j, 'a, 'f) world) option" where
  "RemoveStatus d pvName isJob w =
     (if isJob
      then (case e_jc d of
              None \<Rightarrow> None
            | Some jc \<Rightarrow>
                (let (r, j, u, c) = jc_RemoveJob jc pvName (w_job w) (w_api w, w_cache w)
                 in Some (r, w\<lparr>w_job := j, w_api := u, w_cache := c\<rparr>)))
      else (let (r, t) = pt_RemoveEntry (e_pt d) pvName (w_ptable w) in Some (r, w\<lparr>w_ptable := t\<rparr>)))"

section \<open>deletePV\<close>

definition getVolMode ::
  "('t, 'j, 'a, 'f) env \<Rightarrow> PersistentVolume \<Rightarrow> ('t, 'j, 'a, 'f) world \<Rightarrow> (string result) option" where
  "getVolMode d pv w =
     (case fmlookup (uc_DiscoveryMap (e_config d)) (pv_StorageClassName pv) of
        None \<Rightarrow> Some (Inl (Errorf ''Unknown storage class name %s'' [pv_StorageClassName pv]))
      | Some config \<Rightarrow>
          (case GetContainerPath pv config of
             None \<Rightarrow> None
           | Some (Inl err) \<Rightarrow> Some (Inl err)
           | Some (Inr mountPath) \<Rightarrow> Some (GetVolumeMode (e_vu d) mountPath (w_fs w))))"

definition shouldRunJob :: "('t, 'j, 'a, 'f) env \<Rightarrow> string \<Rightarrow> bool" where
  "shouldRunJob d mode \<longleftrightarrow> mode = ModeBlock \<and> uc_UseJobForCleaning (e_config d)"

definition deleteType :: "bool \<Rightarrow> string" where
  "deleteType runjob = (if runjob then ''job'' else ''process'')"


text \<open>The branch of a completed cleaning: the metrics, and the deletion of the PV object.\<close>

definition countDeleted ::
  "('t, 'j, 'a, 'f) env \<Rightarrow> PersistentVolume \<Rightarrow> MountConfig \<Rightarrow> string \<Rightarrow> bool \<Rightarrow> int option \<Rightarrow>
     ('t, 'j, 'a, 'f) world \<Rightarrow> ('t, 'j, 'a, 'f) world" where
  "countDeleted d pv config mode runjob startTime w =
     (let w = Observe (DeleteTotal mode (deleteType runjob)) w in
      case startTime of
        None \<Rightarrow> w
      | Some st \<Rightarrow>
          (let capacityBytes = (case pv_Capacity pv of None \<Rightarrow> 0 | Some q \<Rightarrow> q);
               cleanupCommand =
                 (case mc_BlockCleanerCommand config of Some (cmd # _) \<Rightarrow> cmd | _ \<Rightarrow> '''')
           in Observe (DeleteDuration mode (deleteType runjob)
                         (e_CapacityBreakDown d capacityBytes) cleanupCommand (w_now w - st)) w))"

definition deleteCleaned ::
  "('t, 'j, 'a, 'f) env \<Rightarrow> PersistentVolume \<Rightarrow> MountConfig \<Rightarrow> string \<Rightarrow> bool \<Rightarrow> int option \<Rightarrow>
     ('t, 'j, 'a, 'f) world \<Rightarrow> error option \<times> ('t, 'j, 'a, 'f) world" where
  "deleteCleaned d pv config volMode runjob startTime w =
     (let (err, u, c) = au_DeletePV (e_api d) (pv_Name pv) (w_api w, w_cache w);
          w = w\<lparr>w_api := u, w_cache := c\<rparr> in
      case err of
        Some e \<Rightarrow>
          if \<not> IsNotFound e
          then (Some (Wrapf ''Error deleting PV %q: %v'' [pv_Name pv] e),
                Eventf pv ''Warning'' EventVolumeFailedDelete w)
          else (None, countDeleted d pv config volMode runjob startTime w)
      | None \<Rightarrow> (None, countDeleted d pv config volMode runjob startTime w))"

definition runProcess ::
  "('t, 'j, 'a, 'f) env \<Rightarrow> PersistentVolume \<Rightarrow> string \<Rightarrow> string \<Rightarrow> MountConfig \<Rightarrow>
     ('t, 'j, 'a, 'f) world \<Rightarrow> error option \<times> ('t, 'j, 'a, 'f) world" where
  "runProcess d pv volMode mountPath config w =
     (let (err, t) = pt_MarkRunning (e_pt d) (w_now w) (pv_Name pv) (w_ptable w);
          w = w\<lparr>w_ptable := t\<rparr> in
      case err of
        Some e \<Rightarrow> (Some e, w)
      | None \<Rightarrow>
          (None, w\<lparr>w_tasks := w_tasks w @
                     [\<lparr>tk_pv = pv, tk_volMode = volMode, tk_mountPath = mountPath,
                       tk_config = config\<rparr>]\<rparr>))"

definition runJob ::
  "('t, 'j, 'a, 'f) env \<Rightarrow> PersistentVolume \<Rightarrow> string \<Rightarrow> string \<Rightarrow> MountConfig \<Rightarrow>
     ('t, 'j, 'a, 'f) world \<Rightarrow> error option \<times> ('t, 'j, 'a, 'f) world" where
  "runJob d pv volMode mountPath config w =
     (let cfg = e_config d in
      if uc_JobContainerImage cfg = ''''
      then (Some (Errorf ''cannot run cleanup job without specifying job image name in the environment variable'' []), w)
      else
        (case NewCleanupJob pv volMode (uc_JobContainerImage cfg) (node_Name (uc_Node cfg))
                (uc_Namespace cfg) mountPath config (e_FormatTime d (w_now w)) of
           Inl err \<Rightarrow> (Some err, w)
         | Inr job \<Rightarrow>
             (let (err, u, c) = au_CreateJob (e_api d) job (w_api w, w_cache w)
              in (err, w\<lparr>w_api := u, w_cache := c\<rparr>))))"

text \<open>The rest of \<open>deletePV\<close> once the state of an earlier cleaning is known.\<close>

definition actOnState ::
  "('t, 'j, 'a, 'f) env \<Rightarrow> PersistentVolume \<Rightarrow> MountConfig \<Rightarrow> string \<Rightarrow> string \<Rightarrow> bool \<Rightarrow>
     CleanupState \<Rightarrow> int option \<Rightarrow> ('t, 'j, 'a, 'f) world \<Rightarrow> error option \<times> ('t, 'j, 'a, 'f) world"
where
  "actOnState d pv config volMode mountPath runjob state startTime w =
     (if state = CSSucceeded then deleteCleaned d pv config volMode runjob startTime w
      else if state = CSFailed \<or> state = CSNotFound
      then
        (if volMode = ModeBlock \<and>
            length (case mc_BlockCleanerCommand config of None \<Rightarrow> [] | Some cmd \<Rightarrow> cmd) < 1
         then (Some (Errorf ''Blockcleaner command was empty for pv %q mountPath %s but mount dir is %s''
                       [pv_Name pv, mountPath, mc_MountDir config]), w)
         else if runjob then runJob d pv volMode mountPath config w
         else runProcess d pv volMode mountPath config w)
      else (Some (Errorf ''Unexpected state %d for pv %s'' [pv_Name pv]), w))"

definition deletePV ::
  "('t, 'j, 'a, 'f) env \<Rightarrow> PersistentVolume \<Rightarrow> ('t, 'j, 'a, 'f) world \<Rightarrow>
     (error option \<times> ('t, 'j, 'a, 'f) world) option" where
  "deletePV d pv w =
     (case pv_Local pv of
        None \<Rightarrow> Some (Some (Errorf ''Unsupported volume type'' []), w)
      | Some _ \<Rightarrow>
          (case fmlookup (uc_DiscoveryMap (e_config d)) (pv_StorageClassName pv) of
             None \<Rightarrow>
               Some (Some (Errorf ''Unknown storage class name %s'' [pv_StorageClassName pv]), w)
           | Some config \<Rightarrow> do {
               path \<leftarrow> GetContainerPath pv config;
               case path of
                 Inl err \<Rightarrow> Some (Some err, w)
               | Inr mountPath \<Rightarrow> do {
                   mode \<leftarrow> getVolMode d pv w;
                   case mode of
                     Inl err \<Rightarrow>
                       Some (Some (Wrapf ''failed to get volume mode of path %q: %v'' [mountPath] err), w)
                   | Inr volMode \<Rightarrow> do {
                       let runjob = shouldRunJob d volMode;
                       (busy, w) \<leftarrow> InProgress d (pv_Name pv) runjob w;
                       if busy then Some (None, w)
                       else do {
                         ((state, startTime, err), w) \<leftarrow> RemoveStatus d (pv_Name pv) runjob w;
                         if err \<noteq> None then Some (err, w)
                         else Some (actOnState d pv config volMode mountPath runjob state startTime w)
                       }
                     }
                 }
             }))"

section \<open>Cleaning\<close>

definition execScript ::
  "('t, 'j, 'a, 'f) env \<Rightarrow> string \<Rightarrow> string \<Rightarrow> string list \<Rightarrow> 'f \<Rightarrow> error option \<times> 'f" where
  "execScript d blkdevPath exe exeArgs fs =
     (let cmd = \<lparr>cmd_Path = exe, cmd_Args = exeArgs,
                 cmd_Env = ex_Environ (e_exec d) @ [LocalPVEnv @ ''='' @ blkdevPath]\<rparr> in
      case ex_StdoutPipe (e_exec d) cmd of
        Some err \<Rightarrow> (Some err, fs)
      | None \<Rightarrow>
          (case ex_StderrPipe (e_exec d) cmd of
             Some err \<Rightarrow> (Some err, fs)
           | None \<Rightarrow>
               (case ex_Start (e_exec d) cmd fs of
                  (Some err, fs) \<Rightarrow> (Some err, fs)
                | (None, fs) \<Rightarrow> ex_Wait (e_exec d) cmd fs)))"

definition cleanFilePV ::
  "('t, 'j, 'a, 'f) env \<Rightarrow> PersistentVolume \<Rightarrow> string \<Rightarrow> ('t, 'j, 'a, 'f) world \<Rightarrow>
     (error option \<times> ('t, 'j, 'a, 'f) world) option" where
  "cleanFilePV d pv mountPath w =
     (case pv_Local pv of
        None \<Rightarrow> None
      | Some _ \<Rightarrow>
          (let (err, fs) = vu_DeleteContents (e_vu d) mountPath (w_fs w)
           in Some (err, w\<lparr>w_fs := fs\<rparr>)))"

definition cleanBlockPV ::
  "('t, 'j, 'a, 'f) env \<Rightarrow> PersistentVolume \<Rightarrow> string \<Rightarrow> MountConfig \<Rightarrow> ('t, 'j, 'a, 'f) world \<Rightarrow>
     (error option \<times> ('t, 'j, 'a, 'f) world) option" where
  "cleanBlockPV d pv blkdevPath config w =
     (let w = Eventf pv ''Normal'' VolumeDelete w in
      case (pv_Local pv, mc_BlockCleanerCommand config) of
        (Some _, Some (exe # exeArgs)) \<Rightarrow>
          (let (err, fs) = execScript d blkdevPath exe exeArgs (w_fs w) in Some (err, w\<lparr>w_fs := fs\<rparr>))
      | _ \<Rightarrow> None)"

definition cleanPV ::
  "('t, 'j, 'a, 'f) env \<Rightarrow> PersistentVolume \<Rightarrow> string \<Rightarrow> string \<Rightarrow> MountConfig \<Rightarrow>
     ('t, 'j, 'a, 'f) world \<Rightarrow> (error option \<times> ('t, 'j, 'a, 'f) world) option" where
  "cleanPV d pv volMode mountPath config w =
     (if \<not> HasPrefix mountPath (mc_MountDir config)
      then Some (Some (Errorf ''Unexpected error pv %q mountPath %s but mount dir is %s''
                         [pv_Name pv, mountPath, mc_MountDir config]), w)
      else if volMode = ModeFilesystem then cleanFilePV d pv mountPath w
      else if volMode = ModeBlock then cleanBlockPV d pv mountPath config w
      else
        (case pv_Local pv of
           None \<Rightarrow> None
         | Some l \<Rightarrow>
             Some (Some (Errorf ''Unexpected volume mode %q for deleting path %q''
                           [volMode, lvs_Path l]), w)))"

text \<open>The body of the goroutine; the errors of the last two calls are only logged.\<close>

definition asyncCleanPV ::
  "('t, 'j, 'a, 'f) env \<Rightarrow> task \<Rightarrow> ('t, 'j, 'a, 'f) world \<Rightarrow> ('t, 'j, 'a, 'f) world option" where
  "asyncCleanPV d tk w = do {
     (err, w) \<leftarrow> cleanPV d (tk_pv tk) (tk_volMode tk) (tk_mountPath tk) (tk_config tk) w;
     if err \<noteq> None
     then Some (w\<lparr>w_ptable := snd (pt_MarkFailed (e_pt d) (pv_Name (tk_pv tk)) (w_ptable w))\<rparr>)
     else Some (w\<lparr>w_ptable := snd (pt_MarkSucceeded (e_pt d) (pv_Name (tk_pv tk)) (w_ptable w))\<rparr>)
   }"

section \<open>DeletePVs\<close>

text \<open>What \<open>DeletePVs\<close> does when \<open>deletePV\<close> answers an error.\<close>

definition deleteFailed ::
  "('t, 'j, 'a, 'f) env \<Rightarrow> PersistentVolume \<Rightarrow> ('t, 'j, 'a, 'f) world \<Rightarrow>
     ('t, 'j, 'a, 'f) world option" where
  "deleteFailed d pv w = do {
     m \<leftarrow> getVolMode d pv w;
     let mode = (case m of Inl _ \<Rightarrow> ''unknown'' | Inr mode \<Rightarrow> mode);
     Some (Eventf pv ''Warning'' EventVolumeFailedDelete
             (Observe (DeleteFailedTotal mode (deleteType (shouldRunJob d mode))) w))
   }"

definition reclaimVolume ::
  "('t, 'j, 'a, 'f) env \<Rightarrow> PersistentVolume \<Rightarrow> ('t, 'j, 'a, 'f) world \<Rightarrow>
     ('t, 'j, 'a, 'f) world option" where
  "reclaimVolume d pv w =
     (if pv_Phase pv \<noteq> VolumeReleased then Some w
      else if pv_ReclaimPolicy pv = ReclaimRetain then Some w
      else if pv_ReclaimPolicy pv = ReclaimRecycle
      then Some (Eventf pv ''Warning'' ''VolumeUnsupportedReclaimPolicy'' w)
      else if pv_ReclaimPolicy pv = ReclaimDelete
      then do {
        (err, w) \<leftarrow> deletePV d pv w;
        case err of None \<Rightarrow> Some w | Some _ \<Rightarrow> deleteFailed d pv w
      }
      else Some (Eventf pv ''Warning'' ''VolumeUnknownReclaimPolicy'' w))"

fun reclaimVolumes ::
  "('t, 'j, 'a, 'f) env \<Rightarrow> PersistentVolume list \<Rightarrow> ('t, 'j, 'a, 'f) world \<Rightarrow>
     ('t, 'j, 'a, 'f) world option" where
  "reclaimVolumes d [] w = Some w"
| "reclaimVolumes d (pv # pvs) w = do { w \<leftarrow> reclaimVolume d pv w; reclaimVolumes d pvs w }"

text \<open>\<open>ListPVs\<close> copies the cache (in the order \<open>order\<close>) before the loop starts.\<close>

definition DeletePVs ::
  "('t, 'j, 'a, 'f) env \<Rightarrow> string list \<Rightarrow> ('t, 'j, 'a, 'f) world \<Rightarrow> ('t, 'j, 'a, 'f) world option" where
  "DeletePVs d order w = reclaimVolumes d (Cache_ListPVs order (w_cache w)) w"

section \<open>What deletePV can do\<close>

lemma bind_Some_iff: "Option.bind m f = Some r \<longleftrightarrow> (\<exists>x. m = Some x \<and> f x = Some r)"
  by (cases m) auto

lemma bind_None_iff: "Option.bind m f = None \<longleftrightarrow> m = None \<or> (\<exists>x. m = Some x \<and> f x = None)"
  by (cases m) auto

lemma deletePV_elim:
  assumes "deletePV d pv w = Some (e, w')"
  obtains (refused) err where "w' = w" and "e = Some err"
  | (busy) config mountPath volMode where
      "fmlookup (uc_DiscoveryMap (e_config d)) (pv_StorageClassName pv) = Some config"
      "GetContainerPath pv config = Some (Inr mountPath)"
      "GetVolumeMode (e_vu d) mountPath (w_fs w) = Inr volMode"
      "InProgress d (pv_Name pv) (shouldRunJob d volMode) w = Some (True, w')" and "e = None"
  | (status) config mountPath volMode w1 w2 st tm err where
      "fmlookup (uc_DiscoveryMap (e_config d)) (pv_StorageClassName pv) = Some config"
      "GetContainerPath pv config = Some (Inr mountPath)"
      "GetVolumeMode (e_vu d) mountPath (w_fs w) = Inr volMode"
      "InProgress d (pv_Name pv) (shouldRunJob d volMode) w = Some (False, w1)"
      "RemoveStatus d (pv_Name pv) (shouldRunJob d volMode) w1 = Some ((st, tm, err), w2)"
      "err \<noteq> None \<and> e = err \<and> w' = w2
       \<or> err = None \<and> actOnState d pv config volMode mountPath (shouldRunJob d volMode) st tm w2 = (e, w')"
proof (cases "pv_Local pv")
  case None
  with assms refused show thesis by (auto simp: deletePV_def)
next
  case Some: (Some l)
  show thesis
  proof (cases "fmlookup (uc_DiscoveryMap (e_config d)) (pv_StorageClassName pv)")
    case None
    with assms Some refused show thesis by (auto simp: deletePV_def)
  next
    case cfg: (Some config)
    obtain path where path: "GetContainerPath pv config = Some path"
      using assms Some cfg by (auto simp: deletePV_def bind_Some_iff)
    show thesis
    proof (cases path)
      case (Inl err)
      with assms Some cfg path refused show thesis by (auto simp: deletePV_def)
    next
      case (Inr mountPath)
      have mode: "getVolMode d pv w = Some (GetVolumeMode (e_vu d) mountPath (w_fs w))"
        using cfg path Inr by (simp add: getVolMode_def)
      show thesis
      proof (cases "GetVolumeMode (e_vu d) mountPath (w_fs w)")
        case (Inl err)
        with assms Some cfg path Inr mode refused show thesis by (auto simp: deletePV_def)
      next
        case vm: (Inr volMode)
        obtain b w1 where ip: "InProgress d (pv_Name pv) (shouldRunJob d volMode) w = Some (b, w1)"
          using assms Some cfg path Inr mode vm by (auto simp: deletePV_def bind_Some_iff Let_def)
        show thesis
        proof (cases b)
          case True
          with assms Some cfg path Inr mode vm ip show thesis
            by (intro busy [OF cfg path [unfolded Inr] vm]) (auto simp: deletePV_def Let_def)
        next
          case False
          obtain st tm err w2 where
            rs: "RemoveStatus d (pv_Name pv) (shouldRunJob d volMode) w1 = Some ((st, tm, err), w2)"
            using assms Some cfg path Inr mode vm ip False
            by (auto simp: deletePV_def bind_Some_iff Let_def)
          from assms Some cfg path Inr mode vm ip False rs show thesis
            by (intro status [OF cfg path [unfolded Inr] vm, of w1 st tm err w2])
              (auto simp: deletePV_def Let_def split: if_splits)
        qed
      qed
    qed
  qed
qed

text \<open>
  The deleter with its interfaces: a process table, an API utility and, when jobs are used,
  a job controller, each known by its contract only.
\<close>

locale deleter = tab: proc_table "e_pt d" entries + api: api_util "e_api d"
  for d :: "('t, 'j, 'a, 'f) env" and entries :: "'t \<Rightarrow> ProcEntry gomap" +
  fixes jobs :: "'j \<Rightarrow> string \<Rightarrow> CleanupState option"
  assumes job_contract: "e_jc d = Some jc \<Longrightarrow> job_controller jc jobs"
begin

definition status_of :: "string \<Rightarrow> ('t, 'j, 'a, 'f) world \<Rightarrow> CleanupState option" where
  "status_of n w = map_option Status (fmlookup (entries (w_ptable w)) n)"

text \<open>The cleaning of the PV has ended well, in the place where its mode makes the deleter look.\<close>

definition cleaned :: "string \<Rightarrow> bool \<Rightarrow> ('t, 'j, 'a, 'f) world \<Rightarrow> bool" where
  "cleaned n isJob w \<longleftrightarrow>
     (if isJob then jobs (w_job w) n = Some CSSucceeded else status_of n w = Some CSSucceeded)"

lemma InProgress_spec:
  assumes "InProgress d n isJob w = Some (b, w')"
  shows "entries (w_ptable w') = entries (w_ptable w)" and "jobs (w_job w') = jobs (w_job w)"
    and "w_api w' = w_api w" and "w_cache w' = w_cache w" and "w_fs w' = w_fs w"
    and "w_tasks w' = w_tasks w" and "w_now w' = w_now w" and "w_events w' = w_events w"
    and "w_metrics w' = w_metrics w"
    and "\<not> isJob \<Longrightarrow> b \<longleftrightarrow> status_of n w = Some CSRunning"
  using assms tab.IsRunning_frame [of n "w_ptable w"] tab.IsRunning_iff [of n "w_ptable w"]
    job_controller.IsRunning_jobs [OF job_contract, of _ n "w_job w"]
  by (auto simp: InProgress_def status_of_def split: if_splits option.splits prod.splits)

lemma RemoveStatus_frame:
  assumes "RemoveStatus d n isJob w = Some ((st, tm, err), w')"
  shows "w_fs w' = w_fs w" and "w_tasks w' = w_tasks w" and "w_now w' = w_now w"
    and "w_events w' = w_events w" and "w_metrics w' = w_metrics w"
    and "isJob \<Longrightarrow> w_ptable w' = w_ptable w"
    and "\<not> isJob \<Longrightarrow> w_api w' = w_api w \<and> w_cache w' = w_cache w \<and> w_job w' = w_job w"
  using assms by (auto simp: RemoveStatus_def split: if_splits option.splits prod.splits)

lemma RemoveStatus_process:
  assumes "RemoveStatus d n False w = Some ((st, tm, err), w')" and "tab.sane (w_ptable w)"
  shows "st = CSNotFound \<and> status_of n w = None \<and> err = None
       \<or> st = CSUnknown \<and> status_of n w = Some CSRunning \<and> err \<noteq> None
       \<or> (st = CSFailed \<or> st = CSSucceeded) \<and> status_of n w = Some st \<and> err = None"
  using tab.RemoveEntry_state [OF assms(2), of n st tm err] assms(1)
  by (auto simp: RemoveStatus_def status_of_def tab.running_def split: prod.splits)

lemma RemoveStatus_succeeded:
  assumes "RemoveStatus d n isJob w = Some ((CSSucceeded, tm, None), w')" and "tab.sane (w_ptable w)"
  shows "cleaned n isJob w"
proof (cases isJob)
  case True
  then obtain jc where jc: "e_jc d = Some jc"
    using assms(1) by (auto simp: RemoveStatus_def split: option.splits)
  show ?thesis
    using assms(1) True jc job_controller.Remove_succeeded [OF job_contract [OF jc], of n "w_job w"]
    by (auto simp: RemoveStatus_def cleaned_def split: prod.splits)
next
  case False
  with RemoveStatus_process [of n w CSSucceeded tm None w'] assms show ?thesis
    by (auto simp: cleaned_def)
qed

lemma deleteCleaned_frame:
  assumes "deleteCleaned d pv config volMode rj tm w = (e, w')"
  shows "w_ptable w' = w_ptable w" and "w_tasks w' = w_tasks w" and "w_fs w' = w_fs w"
    and "w_job w' = w_job w" and "w_now w' = w_now w"
    and "w_cache w' = w_cache w \<or> w_cache w' = Cache_DeletePV (pv_Name pv) (w_cache w)"
proof -
  obtain err u c where del: "au_DeletePV (e_api d) (pv_Name pv) (w_api w, w_cache w) = (err, u, c)"
    by (metis prod.collapse)
  have w': "w' = w'\<lparr>w_ptable := w_ptable w, w_tasks := w_tasks w, w_fs := w_fs w, w_job := w_job w,
      w_now := w_now w, w_cache := c\<rparr>"
    using assms del by (auto simp: deleteCleaned_def countDeleted_def Eventf_def Observe_def Let_def
        split: option.splits if_splits)
  have eqs: "w_ptable w' = w_ptable w" "w_tasks w' = w_tasks w" "w_fs w' = w_fs w"
    "w_job w' = w_job w" "w_now w' = w_now w" "w_cache w' = c"
    by (subst w', simp)+
  show "w_ptable w' = w_ptable w" "w_tasks w' = w_tasks w" "w_fs w' = w_fs w"
    "w_job w' = w_job w" "w_now w' = w_now w"
    by (fact eqs)+
  show "w_cache w' = w_cache w \<or> w_cache w' = Cache_DeletePV (pv_Name pv) (w_cache w)"
    using api.delete_cache [OF del] eqs(6) by auto
qed

definition task_for :: "PersistentVolume \<Rightarrow> string \<Rightarrow> string \<Rightarrow> MountConfig \<Rightarrow> task" where
  "task_for pv volMode mountPath config =
     \<lparr>tk_pv = pv, tk_volMode = volMode, tk_mountPath = mountPath, tk_config = config\<rparr>"

lemma runProcess_cases:
  assumes "runProcess d pv volMode mountPath config w = (e, w')"
  obtains (started) t where
      "w' = w\<lparr>w_ptable := t, w_tasks := w_tasks w @ [task_for pv volMode mountPath config]\<rparr>"
      "fmlookup (entries (w_ptable w)) (pv_Name pv) = None"
      "entries t = fmupd (pv_Name pv) \<lparr>StartTime = w_now w, Status = CSRunning\<rparr> (entries (w_ptable w))"
      "e = None"
  | (refused) t where "w' = w\<lparr>w_ptable := t\<rparr>" "entries t = entries (w_ptable w)" "e \<noteq> None"
proof (cases "fmlookup (entries (w_ptable w)) (pv_Name pv)")
  case None
  with tab.MarkRunning_new [OF None, of "w_now w"] assms show thesis
    by (auto simp: runProcess_def task_for_def split: prod.splits intro: started)
next
  case (Some en)
  with tab.MarkRunning_present [OF Some, of "w_now w"] assms show thesis
    by (auto simp: runProcess_def split: prod.splits option.splits intro: refused)
qed

lemma runJob_cases:
  assumes "runJob d pv volMode mountPath config w = (e, w')"
  obtains (refused) "w' = w" and "e \<noteq> None"
  | (created) job u where
      "NewCleanupJob pv volMode (uc_JobContainerImage (e_config d)) (node_Name (uc_Node (e_config d)))
         (uc_Namespace (e_config d)) mountPath config (e_FormatTime d (w_now w)) = Inr job"
      "au_CreateJob (e_api d) job (w_api w, w_cache w) = (e, u, w_cache w)"
      "w' = w\<lparr>w_api := u\<rparr>"
proof (cases "uc_JobContainerImage (e_config d) = ''''")
  case True
  with assms refused show thesis by (auto simp: runJob_def)
next
  case False
  show thesis
  proof (cases "NewCleanupJob pv volMode (uc_JobContainerImage (e_config d))
      (node_Name (uc_Node (e_config d))) (uc_Namespace (e_config d)) mountPath config
      (e_FormatTime d (w_now w))")
    case (Inl err)
    with False assms refused show thesis by (auto simp: runJob_def Let_def)
  next
    case (Inr job)
    obtain err u c where cj: "au_CreateJob (e_api d) job (w_api w, w_cache w) = (err, u, c)"
      by (metis prod.collapse)
    with api.create_job_cache have "c = w_cache w" by blast
    with False assms Inr cj show thesis
      by (intro created [OF Inr, of u]) (auto simp: runJob_def Let_def)
  qed
qed

lemma actOnState_cases:
  assumes "actOnState d pv config volMode mountPath rj st tm w = (e, w')"
  obtains (deleted) "st = CSSucceeded" and "deleteCleaned d pv config volMode rj tm w = (e, w')"
  | (process) "st = CSFailed \<or> st = CSNotFound" and "\<not> rj"
      and "runProcess d pv volMode mountPath config w = (e, w')"
  | (job) "st = CSFailed \<or> st = CSNotFound" and rj
      and "runJob d pv volMode mountPath config w = (e, w')"
  | (refused) "st \<noteq> CSSucceeded" and "w' = w" and "e \<noteq> None"
  using assms by (auto simp: actOnState_def split: if_splits)

text \<open>
  The effect of \<open>deletePV\<close> on the parts of the world other components share, in one lemma:
  the process table and the pending tasks stay in step, other PVs are untouched.
\<close>

definition tasks_in_step :: "('t, 'j, 'a, 'f) world \<Rightarrow> bool" where
  "tasks_in_step w \<longleftrightarrow>
     distinct (map (\<lambda>tk. pv_Name (tk_pv tk)) (w_tasks w))
   \<and> (\<forall>n. n \<in> (\<lambda>tk. pv_Name (tk_pv tk)) ` set (w_tasks w) \<longleftrightarrow> status_of n w = Some CSRunning)"

definition others_same :: "string \<Rightarrow> ('t, 'j, 'a, 'f) world \<Rightarrow> ('t, 'j, 'a, 'f) world \<Rightarrow> bool" where
  "others_same n w w' \<longleftrightarrow>
     (\<forall>k. k \<noteq> n \<longrightarrow> fmlookup (entries (w_ptable w')) k = fmlookup (entries (w_ptable w)) k
                  \<and> Cache_GetPV (w_cache w') k = Cache_GetPV (w_cache w) k)
   \<and> w_fs w' = w_fs w \<and> w_now w' = w_now w
   \<and> (w_tasks w' = w_tasks w \<or> (\<exists>tk. w_tasks w' = w_tasks w @ [tk] \<and> pv_Name (tk_pv tk) = n))"

lemma RemoveStatus_others:
  assumes "RemoveStatus d n isJob w = Some ((st, tm, err), w')"
  shows "fmlookup (entries (w_ptable w')) k = fmlookup (entries (w_ptable w)) k \<or> k = n"
    and "w_cache w' = w_cache w"
  using assms tab.entries_RemoveEntry [of n "w_ptable w"]
    job_controller.Remove_cache [OF job_contract, of _ n "w_job w"]
  by (auto simp: RemoveStatus_def split: if_splits option.splits prod.splits)

lemma RemoveStatus_entries:
  assumes "RemoveStatus d n isJob w = Some ((st, tm, err), w')"
  shows "entries (w_ptable w') = entries (w_ptable w)
       \<or> \<not> isJob \<and> entries (w_ptable w') = fmdrop n (entries (w_ptable w))
         \<and> fmlookup (entries (w_ptable w)) n \<noteq> None \<and> status_of n w \<noteq> Some CSRunning \<and> err = None"
proof (cases isJob)
  case True
  with RemoveStatus_frame(6) [OF assms] show ?thesis by simp
next
  case False
  then obtain r where r: "pt_RemoveEntry (e_pt d) n (w_ptable w) = ((st, tm, err), r)"
    and w': "w' = w\<lparr>w_ptable := r\<rparr>"
    using assms by (auto simp: RemoveStatus_def split: prod.splits)
  show ?thesis
  proof (cases "fmlookup (entries (w_ptable w)) n")
    case None
    with tab.RemoveEntry_absent [OF None] r w' show ?thesis by simp
  next
    case (Some e)
    show ?thesis
    proof (cases "Status e = CSRunning \<or> Status e = CSUnknown")
      case True
      with tab.RemoveEntry_busy [OF Some] r w' show ?thesis by simp
    next
      case f: False
      with tab.RemoveEntry_done [OF Some] r w' False Some show ?thesis by (auto simp: status_of_def)
    qed
  qed
qed

lemma others_same_refl: "others_same n w w"
  by (simp add: others_same_def)

text \<open>The table's part of the world, on which the steps of \<open>deletePV\<close> build.\<close>

lemma actOnState_others:
  assumes "actOnState d pv config volMode mountPath rj st tm w = (e, w')"
  shows "others_same (pv_Name pv) w w'"
  using assms
proof (cases rule: actOnState_cases)
  case deleted
  note f = deleteCleaned_frame [OF deleted(2)]
  from f show ?thesis by (auto simp: others_same_def)
next
  case process
  from process(3) show ?thesis
    by (cases rule: runProcess_cases) (auto simp: others_same_def task_for_def)
next
  case job
  from job(3) show ?thesis
    by (cases rule: runJob_cases) (auto simp: others_same_def)
next
  case refused
  then show ?thesis by (simp add: others_same_refl)
qed

lemma deletePV_others:
  assumes "deletePV d pv w = Some (e, w')"
  shows "others_same (pv_Name pv) w w'"
  using assms
proof (cases rule: deletePV_elim)
  case (refused err)
  then show ?thesis by (simp add: others_same_refl)
next
  case (busy config mountPath volMode)
  from InProgress_spec [OF busy(4)] show ?thesis by (simp add: others_same_def)
next
  case (status config mountPath volMode w1 w2 st tm err)
  note ip = InProgress_spec [OF status(4)]
  note rs = RemoveStatus_frame [OF status(5)]
  note ro = RemoveStatus_others [OF status(5)]
  have two: "others_same (pv_Name pv) w w2"
    using ip rs(1-3) ro by (auto simp: others_same_def)
  from status(6) show ?thesis
  proof
    assume "err \<noteq> None \<and> e = err \<and> w' = w2"
    with two show ?thesis by simp
  next
    assume "err = None \<and> actOnState d pv config volMode mountPath (shouldRunJob d volMode) st tm w2 = (e, w')"
    then have "others_same (pv_Name pv) w2 w'" using actOnState_others by blast
    with two ip rs show ?thesis by (auto simp: others_same_def)
  qed
qed

lemma tasks_in_step_cong:
  assumes "w_tasks w' = w_tasks w" and "\<And>n. status_of n w' = Some CSRunning \<longleftrightarrow> status_of n w = Some CSRunning"
  shows "tasks_in_step w' \<longleftrightarrow> tasks_in_step w"
  using assms by (simp add: tasks_in_step_def)

lemma actOnState_tasks:
  assumes "actOnState d pv config volMode mountPath rj st tm w = (e, w')" and "tasks_in_step w"
  shows "tasks_in_step w'"
  using assms(1)
proof (cases rule: actOnState_cases)
  case deleted
  note f = deleteCleaned_frame [OF deleted(2)]
  from f assms(2) show ?thesis by (simp add: tasks_in_step_def status_of_def)
next
  case process
  from process(3) show ?thesis
  proof (cases rule: runProcess_cases)
    case (started t)
    have "pv_Name pv \<notin> (\<lambda>tk. pv_Name (tk_pv tk)) ` set (w_tasks w)"
      using started(2) assms(2) unfolding tasks_in_step_def status_of_def
      by (metis option.distinct(1) option.simps(8))
    with started assms(2) show ?thesis
      by (auto simp: tasks_in_step_def status_of_def task_for_def)
  next
    case (refused t)
    with assms(2) show ?thesis by (simp add: tasks_in_step_def status_of_def)
  qed
next
  case job
  from job(3) show ?thesis
    by (cases rule: runJob_cases) (use assms(2) in \<open>auto simp: tasks_in_step_def status_of_def\<close>)
next
  case refused
  with assms(2) show ?thesis by simp
qed

lemma deletePV_tasks:
  assumes "deletePV d pv w = Some (e, w')" and "tasks_in_step w"
  shows "tasks_in_step w'"
  using assms(1)
proof (cases rule: deletePV_elim)
  case (refused err)
  with assms(2) show ?thesis by simp
next
  case (busy config mountPath volMode)
  from InProgress_spec [OF busy(4)] assms(2) show ?thesis
    by (simp add: tasks_in_step_def status_of_def)
next
  case (status config mountPath volMode w1 w2 st tm err)
  note ip = InProgress_spec [OF status(4)]
  have one: "tasks_in_step w1" using ip assms(2) by (simp add: tasks_in_step_def status_of_def)
  have "tasks_in_step w2 \<longleftrightarrow> tasks_in_step w1"
  proof (rule tasks_in_step_cong)
    show "w_tasks w2 = w_tasks w1" using RemoveStatus_frame(2) [OF status(5)] .
    show "status_of n w2 = Some CSRunning \<longleftrightarrow> status_of n w1 = Some CSRunning" for n
      using RemoveStatus_entries [OF status(5)]
      by (cases "n = pv_Name pv") (auto simp: status_of_def)
  qed
  with one have two: "tasks_in_step w2" by simp
  from status(6) show ?thesis
  proof
    assume "err \<noteq> None \<and> e = err \<and> w' = w2"
    with two show ?thesis by simp
  next
    assume "err = None \<and> actOnState d pv config volMode mountPath (shouldRunJob d volMode) st tm w2 = (e, w')"
    with two show ?thesis using actOnState_tasks by blast
  qed
qed

lemma sane_same: "entries t' = entries t \<Longrightarrow> tab.sane t \<Longrightarrow> tab.sane t'"
  by (simp add: tab.sane_def)

lemma RemoveStatus_sane:
  assumes "RemoveStatus d n isJob w = Some (r, w')" and "tab.sane (w_ptable w)"
  shows "tab.sane (w_ptable w')"
  using assms tab.sane_RemoveEntry [OF assms(2), of n]
  by (auto simp: RemoveStatus_def split: if_splits option.splits prod.splits)

lemma actOnState_sane:
  assumes "actOnState d pv config volMode mountPath rj st tm w = (e, w')" and "tab.sane (w_ptable w)"
  shows "tab.sane (w_ptable w')"
  using assms(1)
proof (cases rule: actOnState_cases)
  case deleted
  from deleteCleaned_frame(1) [OF deleted(2)] assms(2) show ?thesis by simp
next
  case process
  then have "w_ptable w' = snd (pt_MarkRunning (e_pt d) (w_now w) (pv_Name pv) (w_ptable w))"
    by (auto simp: runProcess_def Let_def split: prod.splits option.splits)
  with tab.sane_MarkRunning [OF assms(2)] show ?thesis by simp
next
  case job
  from job(3) show ?thesis by (cases rule: runJob_cases) (use assms(2) in auto)
next
  case refused
  with assms(2) show ?thesis by simp
qed

lemma deletePV_sane:
  assumes "deletePV d pv w = Some (e, w')" and "tab.sane (w_ptable w)"
  shows "tab.sane (w_ptable w')"
  using assms(1)
proof (cases rule: deletePV_elim)
  case (refused err)
  with assms(2) show ?thesis by simp
next
  case (busy config mountPath volMode)
  from InProgress_spec(1) [OF busy(4)] assms(2) show ?thesis by (rule sane_same)
next
  case (status config mountPath volMode w1 w2 st tm err)
  have "tab.sane (w_ptable w1)"
    using InProgress_spec(1) [OF status(4)] assms(2) by (rule sane_same)
  then have "tab.sane (w_ptable w2)" using RemoveStatus_sane [OF status(5)] by simp
  with status(6) show ?thesis using actOnState_sane by metis
qed

text \<open>The API object goes only when the cleaning of this PV has succeeded.\<close>

lemma deletePV_api:
  assumes "deletePV d pv w = Some (e, w')" and "tab.sane (w_ptable w)"
    and "GetContainerPath pv config = Some (Inr mountPath)"
    and "fmlookup (uc_DiscoveryMap (e_config d)) (pv_StorageClassName pv) = Some config"
    and "GetVolumeMode (e_vu d) mountPath (w_fs w) = Inr volMode"
    and not_cleaned: "\<not> cleaned (pv_Name pv) (shouldRunJob d volMode) w"
  shows "w_cache w' = w_cache w
       \<and> (w_api w' = w_api w
          \<or> shouldRunJob d volMode
            \<and> (\<exists>job. au_CreateJob (e_api d) job (w_api w, w_cache w) = (e, w_api w', w_cache w')))"
  using assms(1)
proof (cases rule: deletePV_elim)
  case (refused err)
  then show ?thesis by simp
next
  case (busy config' mountPath' volMode')
  from InProgress_spec [OF busy(4)] show ?thesis by simp
next
  case (status config' mountPath' volMode' w1 w2 st tm err)
  with assms(3-5) have same: "config' = config" "mountPath' = mountPath" "volMode' = volMode" by auto
  note ip = InProgress_spec [OF status(4)]
  note rs = status(5) [unfolded same]
  have nc: "\<not> cleaned (pv_Name pv) (shouldRunJob d volMode) w1"
    using not_cleaned ip(1,2) by (auto simp: cleaned_def status_of_def split: if_splits)
  have api2: "w_api w2 = w_api w \<and> w_cache w2 = w_cache w"
  proof (cases "shouldRunJob d volMode")
    case True
    with rs obtain jc where jc: "e_jc d = Some jc"
      by (auto simp: RemoveStatus_def split: option.splits)
    from True nc job_controller.Remove_unfinished [OF job_contract [OF jc]] rs jc ip(3,4)
    show ?thesis by (auto simp: RemoveStatus_def cleaned_def split: prod.splits)
  next
    case False
    with RemoveStatus_frame(7) [OF rs] ip(3,4) show ?thesis by simp
  qed
  from status(6) show ?thesis
  proof
    assume "err \<noteq> None \<and> e = err \<and> w' = w2"
    with api2 show ?thesis by simp
  next
    assume act: "err = None \<and>
      actOnState d pv config' volMode' mountPath' (shouldRunJob d volMode') st tm w2 = (e, w')"
    then have "st \<noteq> CSSucceeded"
      using RemoveStatus_succeeded [of "pv_Name pv" "shouldRunJob d volMode" w1 tm w2] rs nc
        sane_same [OF ip(1) assms(2)] by auto
    from act have "actOnState d pv config volMode mountPath (shouldRunJob d volMode) st tm w2 = (e, w')"
      by (simp add: same)
    then show ?thesis
    proof (cases rule: actOnState_cases)
      case deleted
      with \<open>st \<noteq> CSSucceeded\<close> show ?thesis by simp
    next
      case process
      from process(3) api2 show ?thesis by (cases rule: runProcess_cases) auto
    next
      case job
      from job(3) show ?thesis
        by (cases rule: runJob_cases) (use api2 job(2) in auto)
    next
      case refused
      with api2 show ?thesis by simp
    qed
  qed
qed

lemma cleanPV_frame:
  assumes "cleanPV d pv volMode mountPath config w = Some (e, w')"
  shows "w_ptable w' = w_ptable w" and "w_tasks w' = w_tasks w" and "w_cache w' = w_cache w"
    and "w_api w' = w_api w" and "w_job w' = w_job w" and "w_now w' = w_now w"
  using assms
  by (auto simp: cleanPV_def cleanFilePV_def cleanBlockPV_def Eventf_def Let_def
      split: if_splits option.splits prod.splits list.splits)

lemma asyncCleanPV_cases:
  assumes "asyncCleanPV d tk w = Some w'"
    and "fmlookup (entries (w_ptable w)) (pv_Name (tk_pv tk)) = Some en"
  obtains st where "st = CSFailed \<or> st = CSSucceeded"
    and "entries (w_ptable w') = fmupd (pv_Name (tk_pv tk)) (en\<lparr>Status := st\<rparr>) (entries (w_ptable w))"
    and "w_tasks w' = w_tasks w" and "w_cache w' = w_cache w" and "w_api w' = w_api w"
    and "w_job w' = w_job w"
    and "st = CSSucceeded \<longleftrightarrow>
           (\<exists>w1. cleanPV d (tk_pv tk) (tk_volMode tk) (tk_mountPath tk) (tk_config tk) w = Some (None, w1))"
proof -
  obtain e w1 where c: "cleanPV d (tk_pv tk) (tk_volMode tk) (tk_mountPath tk) (tk_config tk) w = Some (e, w1)"
    using assms(1) by (auto simp: asyncCleanPV_def bind_Some_iff)
  note f = cleanPV_frame [OF c]
  have en1: "fmlookup (entries (w_ptable w1)) (pv_Name (tk_pv tk)) = Some en" using assms(2) f by simp
  show thesis
  proof (cases e)
    case None
    with assms(1) c tab.MarkSucceeded_present [OF en1] f show thesis
      by (intro that [of CSSucceeded]) (auto simp: asyncCleanPV_def)
  next
    case (Some err)
    with assms(1) c tab.MarkFailed_present [OF en1] f show thesis
      by (intro that [of CSFailed]) (auto simp: asyncCleanPV_def)
  qed
qed

text \<open>A finished goroutine leaves the list of pending tasks and its entry stops running.\<close>

lemma asyncCleanPV_tasks:
  assumes "tasks_in_step w" and "w_tasks w = ts @ tk # us"
    and "asyncCleanPV d tk (w\<lparr>w_tasks := ts @ us\<rparr>) = Some w'"
  shows "tasks_in_step w'" and "w_tasks w' = ts @ us"
proof -
  let ?n = "pv_Name (tk_pv tk)"
  have "status_of ?n w = Some CSRunning"
    using assms(1,2) by (auto simp: tasks_in_step_def)
  then obtain en where en: "fmlookup (entries (w_ptable w)) ?n = Some en" "Status en = CSRunning"
    by (auto simp: status_of_def)
  from assms(3) obtain st where st: "st = CSFailed \<or> st = CSSucceeded"
    and ent: "entries (w_ptable w') = fmupd ?n (en\<lparr>Status := st\<rparr>) (entries (w_ptable w))"
    and tasks: "w_tasks w' = ts @ us"
    using en(1) by (elim asyncCleanPV_cases [of tk _ w' en]) auto
  show "w_tasks w' = ts @ us" by (fact tasks)
  have "status_of n w' = Some CSRunning \<longleftrightarrow> n \<noteq> ?n \<and> status_of n w = Some CSRunning" for n
    using ent st by (auto simp: status_of_def)
  moreover have "?n \<notin> (\<lambda>tk. pv_Name (tk_pv tk)) ` set (ts @ us)"
    using assms(1,2) by (simp add: tasks_in_step_def image_Un)
  moreover have "(\<lambda>tk. pv_Name (tk_pv tk)) ` set (w_tasks w) =
      insert ?n ((\<lambda>tk. pv_Name (tk_pv tk)) ` set (ts @ us))"
    by (simp add: assms(2))
  moreover have "distinct (map (\<lambda>tk. pv_Name (tk_pv tk)) (ts @ us))"
    using assms(1,2) by (simp add: tasks_in_step_def)
  ultimately show "tasks_in_step w'"
    using assms(1) tasks unfolding tasks_in_step_def by (metis (no_types, lifting) insert_iff)
qed

lemma asyncCleanPV_sane:
  assumes "tab.sane (w_ptable w)" and "asyncCleanPV d tk w = Some w'"
  shows "tab.sane (w_ptable w')"
proof -
  obtain e w1 where c: "cleanPV d (tk_pv tk) (tk_volMode tk) (tk_mountPath tk) (tk_config tk) w = Some (e, w1)"
    using assms(2) by (auto simp: asyncCleanPV_def bind_Some_iff)
  have "tab.sane (w_ptable w1)" using assms(1) cleanPV_frame(1) [OF c] by simp
  with assms(2) c tab.sane_MarkFailed tab.sane_MarkSucceeded show ?thesis
    by (auto simp: asyncCleanPV_def split: if_splits)
qed

text \<open>The loops over the PVs.\<close>

lemma deleteFailed_frame:
  assumes "deleteFailed d pv w = Some w'"
  shows "w_ptable w' = w_ptable w" and "w_tasks w' = w_tasks w" and "w_cache w' = w_cache w"
    and "w_api w' = w_api w" and "w_job w' = w_job w" and "w_fs w' = w_fs w" and "w_now w' = w_now w"
  using assms by (auto simp: deleteFailed_def bind_Some_iff Eventf_def Observe_def Let_def)

lemma reclaimVolume_cases:
  assumes "reclaimVolume d pv w = Some w'"
  obtains (none) "w' = w"
  | (event) r where "w' = Eventf pv ''Warning'' r w"
  | (deleted) w1 where "pv_Phase pv = VolumeReleased" and "pv_ReclaimPolicy pv = ReclaimDelete"
      and "deletePV d pv w = Some (None, w1)" and "w' = w1"
  | (failed) err w1 where "pv_Phase pv = VolumeReleased" and "pv_ReclaimPolicy pv = ReclaimDelete"
      and "deletePV d pv w = Some (Some err, w1)" and "deleteFailed d pv w1 = Some w'"
proof (cases "pv_Phase pv = VolumeReleased \<and> pv_ReclaimPolicy pv = ReclaimDelete")
  case True
  then obtain e w1 where del: "deletePV d pv w = Some (e, w1)"
    using assms by (auto simp: reclaimVolume_def bind_Some_iff)
  show thesis
  proof (cases e)
    case None
    with True del assms show thesis by (intro deleted [of w1]) (auto simp: reclaimVolume_def)
  next
    case (Some err)
    with True del assms show thesis by (intro failed [of err w1]) (auto simp: reclaimVolume_def)
  qed
next
  case False
  with assms none event show thesis by (auto simp: reclaimVolume_def split: if_splits)
qed

lemma Eventf_frame [simp, frame_simps]:
  "w_ptable (Eventf pv t r w) = w_ptable w" "w_tasks (Eventf pv t r w) = w_tasks w"
  "w_cache (Eventf pv t r w) = w_cache w" "w_api (Eventf pv t r w) = w_api w"
  "w_job (Eventf pv t r w) = w_job w" "w_fs (Eventf pv t r w) = w_fs w"
  "w_now (Eventf pv t r w) = w_now w"
  by (simp_all add: Eventf_def)

lemma tasks_in_step_same:
  assumes "w_tasks w' = w_tasks w" and "w_ptable w' = w_ptable w" and "tasks_in_step w"
  shows "tasks_in_step w'"
  using assms by (simp add: tasks_in_step_def status_of_def)

lemma others_same_trans:
  assumes "others_same n w w1" and "w_ptable w' = w_ptable w1" and "w_tasks w' = w_tasks w1"
    and "w_cache w' = w_cache w1" and "w_fs w' = w_fs w1" and "w_now w' = w_now w1"
  shows "others_same n w w'"
  using assms by (simp add: others_same_def)

lemma reclaimVolume_invs:
  assumes "reclaimVolume d pv w = Some w'"
  shows "tasks_in_step w \<Longrightarrow> tasks_in_step w'"
    and "tab.sane (w_ptable w) \<Longrightarrow> tab.sane (w_ptable w')"
    and "others_same (pv_Name pv) w w'"
    and "pv_Phase pv \<noteq> VolumeReleased \<or> pv_ReclaimPolicy pv \<noteq> ReclaimDelete \<Longrightarrow>
           w_ptable w' = w_ptable w \<and> w_cache w' = w_cache w \<and> w_api w' = w_api w
         \<and> w_tasks w' = w_tasks w \<and> w_job w' = w_job w \<and> w_fs w' = w_fs w"
proof -
  have "(tasks_in_step w \<longrightarrow> tasks_in_step w') \<and> (tab.sane (w_ptable w) \<longrightarrow> tab.sane (w_ptable w'))
      \<and> others_same (pv_Name pv) w w'"
    using assms
  proof (cases rule: reclaimVolume_cases)
    case none
    then show ?thesis by (simp add: others_same_refl)
  next
    case (event r)
    then show ?thesis
      using tasks_in_step_same [of w' w] others_same_trans [OF others_same_refl, of w' w] by simp
  next
    case (deleted w1)
    then show ?thesis
      using deletePV_tasks deletePV_sane deletePV_others by blast
  next
    case (failed err w1)
    note f = deleteFailed_frame [OF failed(4)]
    from failed(3) have "tasks_in_step w \<Longrightarrow> tasks_in_step w1"
      and "tab.sane (w_ptable w) \<Longrightarrow> tab.sane (w_ptable w1)" and "others_same (pv_Name pv) w w1"
      using deletePV_tasks deletePV_sane deletePV_others by blast+
    then show ?thesis
      using tasks_in_step_same [OF f(2,1)] others_same_trans [OF _ f(1-3,6-7)] f(1) by simp
  qed
  then show "tasks_in_step w \<Longrightarrow> tasks_in_step w'"
    and "tab.sane (w_ptable w) \<Longrightarrow> tab.sane (w_ptable w')" and "others_same (pv_Name pv) w w'"
    by simp_all
  show "w_ptable w' = w_ptable w \<and> w_cache w' = w_cache w \<and> w_api w' = w_api w
      \<and> w_tasks w' = w_tasks w \<and> w_job w' = w_job w \<and> w_fs w' = w_fs w"
    if "pv_Phase pv \<noteq> VolumeReleased \<or> pv_ReclaimPolicy pv \<noteq> ReclaimDelete"
    using assms that by (cases rule: reclaimVolume_cases) simp_all
qed

definition delete_candidate :: "PersistentVolume \<Rightarrow> bool" where
  "delete_candidate pv \<longleftrightarrow> pv_Phase pv = VolumeReleased \<and> pv_ReclaimPolicy pv = ReclaimDelete"

lemma reclaimVolume_other:
  assumes "reclaimVolume d pv w = Some w'" and "pv_Name pv \<noteq> k \<or> \<not> delete_candidate pv"
  shows "fmlookup (entries (w_ptable w')) k = fmlookup (entries (w_ptable w)) k
       \<and> Cache_GetPV (w_cache w') k = Cache_GetPV (w_cache w) k"
  using reclaimVolume_invs(3,4) [OF assms(1)] assms(2)
  by (auto simp: others_same_def delete_candidate_def)

lemma reclaimVolumes_invs:
  assumes "reclaimVolumes d pvs w = Some w'"
  shows "(tasks_in_step w \<longrightarrow> tasks_in_step w') \<and> (tab.sane (w_ptable w) \<longrightarrow> tab.sane (w_ptable w'))
       \<and> w_fs w' = w_fs w"
  using assms
proof (induction pvs arbitrary: w)
  case (Cons pv pvs)
  then obtain w1 where one: "reclaimVolume d pv w = Some w1" and rest: "reclaimVolumes d pvs w1 = Some w'"
    by (auto simp: bind_Some_iff)
  have "w_fs w1 = w_fs w" using reclaimVolume_invs(3) [OF one] by (simp add: others_same_def)
  with Cons.IH [OF rest] reclaimVolume_invs(1,2) [OF one] show ?case by auto
qed simp

lemma reclaimVolumes_other:
  assumes "reclaimVolumes d pvs w = Some w'"
    and "\<forall>pv \<in> set pvs. pv_Name pv = k \<longrightarrow> \<not> delete_candidate pv"
  shows "fmlookup (entries (w_ptable w')) k = fmlookup (entries (w_ptable w)) k
       \<and> Cache_GetPV (w_cache w') k = Cache_GetPV (w_cache w) k"
  using assms
proof (induction pvs arbitrary: w)
  case (Cons pv pvs)
  then obtain w1 where one: "reclaimVolume d pv w = Some w1" and rest: "reclaimVolumes d pvs w1 = Some w'"
    by (auto simp: bind_Some_iff)
  from Cons.prems(2) have k: "pv_Name pv \<noteq> k \<or> \<not> delete_candidate pv"
    and ks: "\<forall>pv \<in> set pvs. pv_Name pv = k \<longrightarrow> \<not> delete_candidate pv" by auto
  show ?case
    using Cons.IH [OF rest ks] reclaimVolume_other [OF one k] by simp
qed simp

end

section \<open>Panics\<close>

text \<open>A job controller is there whenever jobs are used: the wiring of \<open>StartLocalController\<close>.\<close>

definition jobs_wired :: "('t, 'j, 'a, 'f) env \<Rightarrow> bool" where
  "jobs_wired d \<longleftrightarrow> (uc_UseJobForCleaning (e_config d) \<longrightarrow> e_jc d \<noteq> None)"

lemma InProgress_defined: "jobs_wired d \<Longrightarrow> InProgress d n (shouldRunJob d m) w \<noteq> None"
  by (auto simp: jobs_wired_def InProgress_def shouldRunJob_def Let_def split: prod.splits option.splits)

lemma RemoveStatus_defined: "jobs_wired d \<Longrightarrow> RemoveStatus d n (shouldRunJob d m) w \<noteq> None"
  by (auto simp: jobs_wired_def RemoveStatus_def shouldRunJob_def Let_def split: prod.splits option.splits)

lemma GetContainerPath_None: "GetContainerPath pv config = None \<longleftrightarrow> pv_Local pv = None"
  by (auto simp: GetContainerPath_def split: option.splits)

lemma getVolMode_None:
  "getVolMode d pv w = None \<longleftrightarrow>
     pv_Local pv = None \<and> fmlookup (uc_DiscoveryMap (e_config d)) (pv_StorageClassName pv) \<noteq> None"
  by (auto simp: getVolMode_def GetContainerPath_def split: option.splits sum.splits)

lemma deletePV_defined:
  assumes "jobs_wired d"
  shows "deletePV d pv w \<noteq> None"
proof (cases "pv_Local pv")
  case None
  then show ?thesis by (simp add: deletePV_def)
next
  case (Some l)
  show ?thesis
  proof (cases "fmlookup (uc_DiscoveryMap (e_config d)) (pv_StorageClassName pv)")
    case None
    with Some show ?thesis by (simp add: deletePV_def)
  next
    case cfg: (Some config)
    obtain path where path: "GetContainerPath pv config = Some path"
      using Some GetContainerPath_None [of pv config] by auto
    obtain mode where mode: "getVolMode d pv w = Some mode"
      using Some getVolMode_None [of d pv w] by auto
    show ?thesis
    proof
      assume "deletePV d pv w = None"
      with Some cfg path mode InProgress_defined [OF assms] RemoveStatus_defined [OF assms] show False
        by (cases path; cases mode)
          (simp_all add: deletePV_def bind_None_iff Let_def split: if_splits prod.splits)
    qed
  qed
qed

lemma reclaimVolume_None:
  assumes "jobs_wired d"
  shows "reclaimVolume d pv w = None \<longleftrightarrow>
           pv_Phase pv = VolumeReleased \<and> pv_ReclaimPolicy pv = ReclaimDelete \<and> pv_Local pv = None
         \<and> fmlookup (uc_DiscoveryMap (e_config d)) (pv_StorageClassName pv) \<noteq> None"
proof -
  obtain e w1 where del: "deletePV d pv w = Some (e, w1)"
    using deletePV_defined [OF assms, of pv w] by auto
  have "pv_Local pv = None \<Longrightarrow> e \<noteq> None" using del by (auto simp: deletePV_def)
  then show ?thesis
    using del getVolMode_None [of d pv w1]
    by (auto simp: reclaimVolume_def deleteFailed_def bind_None_iff Let_def split: option.splits)
qed

lemma reclaimVolumes_None:
  assumes "jobs_wired d"
  shows "reclaimVolumes d pvs w = None \<longleftrightarrow> (\<exists>pv \<in> set pvs. reclaimVolume d pv w = None)"
proof (induction pvs arbitrary: w)
  case (Cons pv pvs)
  have "reclaimVolume d p w1 = None \<longleftrightarrow> reclaimVolume d p w2 = None" for p w1 w2
    by (simp add: reclaimVolume_None [OF assms])
  with Cons show ?case by (auto simp: bind_None_iff) (metis not_Some_eq)+
qed simp

section \<open>The wiring\<close>

text \<open>
  \<open>StartLocalController\<close> (\<open>controller.go\<close>) builds the provisioner from the real implementations;
  the job controller only when the configuration asks for jobs.
\<close>

definition localEnv ::
  "RuntimeConfig \<Rightarrow> 'l jobLister \<Rightarrow> (string \<Rightarrow> int result) \<Rightarrow> 's kube_client \<Rightarrow> 'f os_calls \<Rightarrow>
     'f exec_lib \<Rightarrow> (int \<Rightarrow> string) \<Rightarrow> (int \<Rightarrow> string) \<Rightarrow>
     (ProcTableImpl, 'l jobController, 's apiState, 'f) env" where
  "localEnv cfg lister parseTime client os ex capacityBreakDown formatTime =
     \<lparr>e_config = cfg, e_pt = ProcTableImpl_ops,
      e_jc = (if uc_UseJobForCleaning cfg
              then Some (NewJobController lister parseTime (NewAPIUtil client)) else None),
      e_api = NewAPIUtil client, e_vu = NewVolumeUtil os, e_exec = ex,
      e_CapacityBreakDown = capacityBreakDown, e_FormatTime = formatTime\<rparr>"

interpretation real: deleter "localEnv cfg lister parseTime client os ex cap fmt" procTable "jobs_of lister"
  for cfg lister parseTime client os ex cap fmt
proof -
  have "proc_table (e_pt (localEnv cfg lister parseTime client os ex cap fmt)) procTable"
    by (simp add: localEnv_def impl_table.proc_table_axioms)
  moreover have "api_util (e_api (localEnv cfg lister parseTime client os ex cap fmt))"
    by (simp add: localEnv_def real_api.api_util_axioms)
  ultimately show "deleter (localEnv cfg lister parseTime client os ex cap fmt) procTable (jobs_of lister)"
    by (intro deleter.intro deleter_axioms.intro)
      (auto simp: localEnv_def real_jobs.job_controller_axioms split: if_splits)
qed

text \<open>The wiring of the package's tests: the fakes.\<close>

definition fakeEnv ::
  "RuntimeConfig \<Rightarrow> FakeVolumeUtil exec_lib \<Rightarrow> (int \<Rightarrow> string) \<Rightarrow> (int \<Rightarrow> string) \<Rightarrow>
     (FakeProcTableImpl, FakeJobController, FakeAPIUtil, FakeVolumeUtil) env" where
  "fakeEnv cfg ex capacityBreakDown formatTime =
     \<lparr>e_config = cfg, e_pt = FakeProcTable_ops, e_jc = Some FakeJobController_ops,
      e_api = FakeAPIUtil_ops, e_vu = FakeVolumeUtil_ops, e_exec = ex,
      e_CapacityBreakDown = capacityBreakDown, e_FormatTime = formatTime\<rparr>"

interpretation fake: deleter "fakeEnv cfg ex cap fmt" "\<lambda>f. procTable (realTable f)"
  "\<lambda>c n. fmlookup (pvCleanupRunning c) n" for cfg ex cap fmt
proof -
  have "proc_table (e_pt (fakeEnv cfg ex cap fmt)) (\<lambda>f. procTable (realTable f))"
    by (simp add: fakeEnv_def fake_table.proc_table_axioms)
  moreover have "api_util (e_api (fakeEnv cfg ex cap fmt))"
    by (simp add: fakeEnv_def fake_api.api_util_axioms)
  ultimately show "deleter (fakeEnv cfg ex cap fmt) (\<lambda>f. procTable (realTable f))
      (\<lambda>c n. fmlookup (pvCleanupRunning c) n)"
    by (intro deleter.intro deleter_axioms.intro)
      (auto simp: fakeEnv_def fake_jobs.job_controller_axioms)
qed

lemma localEnv_simps [simp]:
  "e_config (localEnv cfg lister parseTime client os ex cap fmt) = cfg"
  "e_pt (localEnv cfg lister parseTime client os ex cap fmt) = ProcTableImpl_ops"
  "e_api (localEnv cfg lister parseTime client os ex cap fmt) = NewAPIUtil client"
  "e_vu (localEnv cfg lister parseTime client os ex cap fmt) = NewVolumeUtil os"
  "e_exec (localEnv cfg lister parseTime client os ex cap fmt) = ex"
  "jobs_wired (localEnv cfg lister parseTime client os ex cap fmt)"
  by (simp_all add: localEnv_def jobs_wired_def)

section \<open>Paths\<close>

lemma render_prefix: "HasPrefix (render True (cs @ ds)) (render True cs)"
proof (cases "cs = [] \<or> ds = []")
  case True
  then show ?thesis by (auto simp: render_def HasPrefix_def)
next
  case False
  then show ?thesis by (simp add: render_def join_with_append HasPrefix_iff)
qed

text \<open>
  A PV whose host path lies inside the class's host directory is cleaned inside the class's
  mount directory: its container path is the mount directory followed by the same relative path,
  and where the mount directory is written in clean form the deleter's own check accepts it.
\<close>

theorem GetContainerPath_inside:
  assumes "rooted (mc_HostDir config)" and "rooted (mc_MountDir config)"
    and "pv_Local pv = Some l" and "inside (mc_HostDir config) (lvs_Path l)"
  shows "\<exists>p. GetContainerPath pv config = Some (Inr p) \<and> inside (mc_MountDir config) p
           \<and> comps p = comps (mc_MountDir config) @ drop (length (comps (mc_HostDir config))) (comps (lvs_Path l))
           \<and> (Clean (mc_MountDir config) = mc_MountDir config \<longrightarrow> HasPrefix p (mc_MountDir config))"
proof -
  obtain rest where rest: "comps (lvs_Path l) = comps (mc_HostDir config) @ rest"
    and rel: "Rel (mc_HostDir config) (lvs_Path l) = Some (if rest = [] then ''.'' else join_with ''/'' rest)"
    and plain: "\<forall>c \<in> set rest. plain_name c"
    using Rel_inside [OF assms(1,4)] by blast
  let ?p = "Join [mc_MountDir config, if rest = [] then ''.'' else join_with ''/'' rest]"
  have c: "comps ?p = comps (mc_MountDir config) @ rest"
  proof (cases "rest = []")
    case True
    then show ?thesis using assms(2) by (simp add: comps_Join clean_step_def)
  next
    case False
    have no_slash: "\<forall>x \<in> set rest. slash \<notin> set x" using plain plain_name_no_slash by blast
    have "split_on slash (join_with ''/'' rest) = rest"
      by (rule split_on_join [OF False no_slash])
    then show ?thesis
      using assms(2) plain False by (simp add: comps_Join fold_clean_plain)
  qed
  have "HasPrefix ?p (mc_MountDir config)" if "Clean (mc_MountDir config) = mc_MountDir config"
  proof -
    let ?q = "mc_MountDir config @ slash # (if rest = [] then ''.'' else join_with ''/'' rest)"
    have p: "?p = Clean ?q" using assms(2) by (intro Join2 rooted_not_Nil)
    have q: "rooted ?q" using assms(2) by (rule rooted_append)
    then have "comps ?q = comps (mc_MountDir config) @ rest"
      using c by (simp only: p comps_Clean)
    then have "?p = render True (comps (mc_MountDir config) @ rest)"
      using q by (simp only: p Clean_def)
    moreover have "mc_MountDir config = render True (comps (mc_MountDir config))"
      using that assms(2) by (simp add: Clean_def)
    ultimately show ?thesis by (metis render_prefix)
  qed
  with assms(2,3) rest rel c show ?thesis
    by (auto simp: GetContainerPath_def inside_def)
qed

theorem GetContainerPath_inside_witness:
  "\<exists>p. GetContainerPath
         (zero_PV\<lparr>pv_Local := Some \<lparr>lvs_Path = ''/mnt/disks/vol1'', lvs_FSType = None\<rparr>\<rparr>)
         \<lparr>mc_HostDir = ''/mnt/disks'', mc_MountDir = ''/media'', mc_BlockCleanerCommand = None,
          mc_VolumeMode = '''', mc_FsType = ''''\<rparr> = Some (Inr p)
     \<and> inside ''/media'' p"
  using GetContainerPath_inside
    [of "\<lparr>mc_HostDir = ''/mnt/disks'', mc_MountDir = ''/media'', mc_BlockCleanerCommand = None,
         mc_VolumeMode = '''', mc_FsType = ''''\<rparr>"
        "zero_PV\<lparr>pv_Local := Some \<lparr>lvs_Path = ''/mnt/disks/vol1'', lvs_FSType = None\<rparr>\<rparr>"
        "\<lparr>lvs_Path = ''/mnt/disks/vol1'', lvs_FSType = None\<rparr>"]
  by (auto simp: rooted_def HasPrefix_def inside_def comps_def clean_comps_def clean_step_def)

text \<open>
  The check in \<open>cleanPV\<close> is a check of string prefixes, not of directories: with host
  directory \<open>/h/d\<close> and mount directory \<open>/mnt/d\<close>, a file-system PV at \<open>/h/d2/x\<close> is translated to
  \<open>/mnt/d2/x\<close>, outside the mount directory, and its contents are deleted.
\<close>

theorem cleanPV_prefix_gap:
  "let config = \<lparr>mc_HostDir = ''/h/d'', mc_MountDir = ''/mnt/d'', mc_BlockCleanerCommand = None,
                 mc_VolumeMode = ModeFilesystem, mc_FsType = ''''\<rparr>;
       pv = zero_PV\<lparr>pv_Local := Some \<lparr>lvs_Path = ''/h/d2/x'', lvs_FSType = None\<rparr>\<rparr>
   in GetContainerPath pv config = Some (Inr ''/mnt/d2/x'')
    \<and> \<not> inside (mc_MountDir config) ''/mnt/d2/x''
    \<and> cleanPV d pv ModeFilesystem ''/mnt/d2/x'' config w
        = Some (fst (vu_DeleteContents (e_vu d) ''/mnt/d2/x'' (w_fs w)),
                w\<lparr>w_fs := snd (vu_DeleteContents (e_vu d) ''/mnt/d2/x'' (w_fs w))\<rparr>)"
proof -
  have "Rel ''/h/d'' ''/h/d2/x'' = Some ''../d2/x''" and "Join [''/mnt/d'', ''../d2/x''] = ''/mnt/d2/x''"
    and "\<not> inside ''/mnt/d'' ''/mnt/d2/x''" and "HasPrefix ''/mnt/d2/x'' ''/mnt/d''"
    by code_simp+
  then show ?thesis
    by (simp add: GetContainerPath_def cleanPV_def cleanFilePV_def split: prod.splits)
qed

section \<open>Cleaning comes before deletion\<close>

text \<open>The state of the PV's cleaning is \<open>CSSucceeded\<close> where \<open>deletePV\<close> will look for it.\<close>

definition cleanup_succeeded ::
  "(ProcTableImpl, 'l jobController, 'a, 'f) env \<Rightarrow> 'l jobLister \<Rightarrow> PersistentVolume \<Rightarrow>
     (ProcTableImpl, 'l jobController, 'a, 'f) world \<Rightarrow> bool" where
  "cleanup_succeeded d lister pv w \<longleftrightarrow>
     (case getVolMode d pv w of
        Some (Inr m) \<Rightarrow>
          if shouldRunJob d m then jobs_of lister (w_job w) (pv_Name pv) = Some CSSucceeded
          else map_option Status (fmlookup (procTable (w_ptable w)) (pv_Name pv)) = Some CSSucceeded
      | _ \<Rightarrow> False)"

text \<open>
  C1. The deleter deletes a PV object only after the PV has been cleaned: unless the process table
  (or, for a block device cleaned by a job, the job lister) shows a succeeded cleaning of this
  PV, \<open>deletePV\<close> makes no API call but the creation of a cleaning job, and the cache stays.
\<close>

theorem deletePV_only_after_cleanup:
  assumes "deletePV (localEnv cfg lister parseTime client os ex cap fmt) pv w = Some (e, w')"
    and "\<forall>n en. fmlookup (procTable (w_ptable w)) n = Some en \<longrightarrow>
           Status en \<in> {CSRunning, CSFailed, CSSucceeded}"
    and "\<not> cleanup_succeeded (localEnv cfg lister parseTime client os ex cap fmt) lister pv w"
  shows "w_cache w' = w_cache w
       \<and> (w_api w' = w_api w
          \<or> uc_UseJobForCleaning cfg
            \<and> (\<exists>job. apiUtil_CreateJob client job (w_api w, w_cache w) = (e, w_api w', w_cache w')))"
  using assms(1)
proof (cases rule: deletePV_elim)
  case (refused err)
  then show ?thesis by simp
next
  case (busy config p m)
  then show ?thesis using real.InProgress_spec [OF busy(4)] by simp
next
  case (status config p m w1 w2 st tm err)
  let ?d = "localEnv cfg lister parseTime client os ex cap fmt"
  have mode: "getVolMode ?d pv w = Some (Inr m)"
    using status(1-3) by (simp add: getVolMode_def)
  have "\<not> real.cleaned lister (pv_Name pv) (shouldRunJob ?d m) w"
    using assms(3)
    by (auto simp: cleanup_succeeded_def mode real.cleaned_def real.status_of_def split: if_splits)
  from real.deletePV_api [OF assms(1) _ status(2,1,3) this] assms(2) show ?thesis
    by (auto simp: impl_table.sane_def shouldRunJob_def NewAPIUtil_def)
qed

text \<open>
  \<open>DeletePVs\<close> cleans nothing itself and touches only the PVs it is meant to: the
  file system stays as it is, and the process entry and the cached object of a name stay unless
  a cached PV of that name is released and has the reclaim policy \<open>Delete\<close>.
\<close>

theorem DeletePVs_frame:
  assumes "DeletePVs (localEnv cfg lister parseTime client os ex cap fmt) order w = Some w'"
    and "\<forall>pv \<in> set (Cache_ListPVs order (w_cache w)). pv_Name pv = k \<longrightarrow>
           pv_Phase pv \<noteq> VolumeReleased \<or> pv_ReclaimPolicy pv \<noteq> ReclaimDelete"
  shows "w_fs w' = w_fs w
       \<and> fmlookup (procTable (w_ptable w')) k = fmlookup (procTable (w_ptable w)) k
       \<and> Cache_GetPV (w_cache w') k = Cache_GetPV (w_cache w) k"
  using real.reclaimVolumes_invs [OF assms(1) [unfolded DeletePVs_def]]
    real.reclaimVolumes_other [OF assms(1) [unfolded DeletePVs_def], of k] assms(2)
  by (auto simp: real.delete_candidate_def)

text \<open>
  The loop panics on exactly one kind of PV: a released one with reclaim policy \<open>Delete\<close> that
  is not a local volume although its storage class is configured (the error handler
  dereferences the missing \<open>Local\<close> source that \<open>deletePV\<close> has just reported).
\<close>

theorem DeletePVs_panics_iff:
  assumes "jobs_wired d"
  shows "DeletePVs d order w = None \<longleftrightarrow>
           (\<exists>pv \<in> set (Cache_ListPVs order (w_cache w)).
              pv_Phase pv = VolumeReleased \<and> pv_ReclaimPolicy pv = ReclaimDelete \<and> pv_Local pv = None
            \<and> fmlookup (uc_DiscoveryMap (e_config d)) (pv_StorageClassName pv) \<noteq> None)"
  by (simp add: DeletePVs_def reclaimVolumes_None [OF assms] reclaimVolume_None [OF assms])

text \<open>
  C18. A released local volume is cleaned and then deleted: \<open>deletePV\<close> starts one cleaning task,
  the task deletes the contents of the volume, and the next \<open>deletePV\<close> sends the deletion of the
  PV object to the API and forgets the cleaning.
\<close>

theorem clean_then_delete:
  assumes "d = localEnv cfg lister parseTime client os ex cap fmt"
    and "pv_Local pv = Some l"
    and "fmlookup (uc_DiscoveryMap cfg) (pv_StorageClassName pv) = Some config"
    and "GetContainerPath pv config = Some (Inr p)" and "HasPrefix p (mc_MountDir config)"
    and "GetVolumeMode (NewVolumeUtil os) p (w_fs w) = Inr ModeFilesystem"
    and "volumeUtil_DeleteContents os p (w_fs w) = (None, fs')"
    and "GetVolumeMode (NewVolumeUtil os) p fs' = Inr ModeFilesystem"
    and "fmlookup (procTable (w_ptable w)) (pv_Name pv) = None" and "w_tasks w = []"
    and "apiUtil_DeletePV client (pv_Name pv) (w_api w, w_cache w) = (None, u, c)"
  shows "\<exists>w1 tk w2 w3. deletePV d pv w = Some (None, w1) \<and> w_tasks w1 = [tk]
           \<and> asyncCleanPV d tk (w1\<lparr>w_tasks := []\<rparr>) = Some w2 \<and> w_fs w2 = fs'
           \<and> deletePV d pv w2 = Some (None, w3) \<and> w_api w3 = u \<and> w_cache w3 = c
           \<and> procTable (w_ptable w3) = procTable (w_ptable w)"
proof -
  let ?e = "\<lparr>StartTime = w_now w, Status = CSRunning\<rparr>"
  have drop: "fmdrop (pv_Name pv) (fmupd (pv_Name pv) b (procTable (w_ptable w)))
      = procTable (w_ptable w)" for b
    using assms(9) by (intro fmap_ext) auto
  let ?tk = "\<lparr>tk_pv = pv, tk_volMode = ModeFilesystem, tk_mountPath = p, tk_config = config\<rparr>"
  let ?w1 = "w\<lparr>w_ptable := (w_ptable w)\<lparr>procTable := fmupd (pv_Name pv) ?e (procTable (w_ptable w))\<rparr>,
               w_tasks := [?tk]\<rparr>"
  have start: "deletePV d pv w = Some (None, ?w1)"
    using assms(1-6,9,10)
    by (simp add: deletePV_def getVolMode_def shouldRunJob_def InProgress_def RemoveStatus_def
        ProcTableImpl_ops_def IsRunning_def RemoveEntry_def actOnState_def runProcess_def MarkRunning_def)
  let ?w2 = "?w1\<lparr>w_tasks := [], w_fs := fs',
                w_ptable := snd (MarkSucceeded (pv_Name pv) (w_ptable ?w1))\<rparr>"
  have clean: "asyncCleanPV d ?tk (?w1\<lparr>w_tasks := []\<rparr>) = Some ?w2"
    using assms(1,2,5,7)
    by (simp add: asyncCleanPV_def cleanPV_def cleanFilePV_def NewVolumeUtil_def ProcTableImpl_ops_def)
  obtain w3 where del: "deletePV d pv ?w2 = Some (None, w3)" "w_api w3 = u" "w_cache w3 = c"
    "procTable (w_ptable w3) = procTable (w_ptable w)"
    using assms(1-6,8,11)
    by (simp add: deletePV_def getVolMode_def shouldRunJob_def InProgress_def RemoveStatus_def
        ProcTableImpl_ops_def IsRunning_def RemoveEntry_def MarkSucceeded_def markStatus_def
        countStatus_def actOnState_def deleteCleaned_def countDeleted_def NewAPIUtil_def Observe_def
        Let_def drop)
  have "w_tasks ?w1 = [?tk]" "w_fs ?w2 = fs'" by simp_all
  with start clean del show ?thesis by blast
qed

subsection \<open>Witnesses\<close>

text \<open>A provisioner with one class, whose volumes are empty directories.\<close>

definition demo_os :: "unit os_calls" where
  "demo_os =
     \<lparr>os_Open = (\<lambda>_ _. None), os_FileIsDir = (\<lambda>_ _. Inr True), os_Readdirnames = (\<lambda>_ _. Inr []),
      os_RemoveAll = (\<lambda>_ _. (None, ())), os_StatIsBlk = (\<lambda>_ _. Inr False),
      os_FsCapacity = (\<lambda>_ _. (0, None)), os_BlkGetSize64 = (\<lambda>_ _. Inr 0),
      lib_NewAggregate = (\<lambda>_. None)\<rparr>"

definition demo_client :: "unit kube_client" where
  "demo_client =
     \<lparr>kc_CreatePV = (\<lambda>pv _. (Inr pv, ())), kc_DeletePV = (\<lambda>_ _. (None, ())),
      kc_CreateJob = (\<lambda>_ job _. (Inr job, ())), kc_DeleteJob = (\<lambda>_ _ _. (None, ()))\<rparr>"

definition demo_exec :: "unit exec_lib" where
  "demo_exec =
     \<lparr>ex_Environ = [], ex_StdoutPipe = (\<lambda>_. None), ex_StderrPipe = (\<lambda>_. None),
      ex_Start = (\<lambda>_ _. (None, ())), ex_Wait = (\<lambda>_ _. (None, ()))\<rparr>"

definition demo_cfg :: RuntimeConfig where
  "demo_cfg =
     \<lparr>uc_Node = \<lparr>node_Name = ''n'', node_UID = ''u'', node_Labels = None, node_Addresses = []\<rparr>,
      uc_DiscoveryMap = fmupd ''fast'' (demo_class\<lparr>mc_VolumeMode := ModeFilesystem\<rparr>) fmempty,
      uc_NodeLabelsForPV = [], uc_UseAlphaAPI = False, uc_UseJobForCleaning = False,
      uc_Namespace = ''default'', uc_JobContainerImage = '''', uc_MinResyncPeriod = 0,
      uc_UseNodeNameOnly = False, rc_Name = ''p'', rc_BlockDisabled = False\<rparr>"

abbreviation demo_d :: "(ProcTableImpl, unit jobController, unit apiState, unit) env" where
  "demo_d \<equiv> localEnv demo_cfg (\<lambda>_ _ _. Inl (NotFound '''')) (\<lambda>_. Inr 0) demo_client demo_os demo_exec
               (\<lambda>_. ''0G'') (\<lambda>_. ''t'')"

definition demo_pv :: PersistentVolume where
  "demo_pv = zero_PV\<lparr>pv_Name := ''pv'', pv_Phase := VolumeReleased, pv_ReclaimPolicy := ReclaimDelete,
     pv_StorageClassName := ''fast'',
     pv_Local := Some \<lparr>lvs_Path = ''/mnt/disks/v'', lvs_FSType = None\<rparr>\<rparr>"

definition demo_world :: "(ProcTableImpl, unit jobController, unit apiState, unit) world" where
  "demo_world =
     \<lparr>w_ptable = NewProcTable, w_job = \<lparr>jctl_namespace = ''default'', jctl_index = ()\<rparr>,
      w_api = \<lparr>as_server = (), as_RequestsTotal = fmempty, as_RequestsFailedTotal = fmempty\<rparr>,
      w_cache = Cache_AddPV demo_pv NewVolumeCache, w_fs = (), w_now = 9, w_events = [],
      w_metrics = [], w_tasks = []\<rparr>"

lemma demo_path: "GetContainerPath demo_pv (demo_class\<lparr>mc_VolumeMode := ModeFilesystem\<rparr>)
    = Some (Inr ''/media/v'')"
proof -
  have "Rel ''/mnt/disks'' ''/mnt/disks/v'' = Some ''v''" and "Join [''/media'', ''v''] = ''/media/v''"
    by code_simp+
  then show ?thesis by (simp add: GetContainerPath_def demo_pv_def demo_class_def)
qed

lemma demo_mode: "GetVolumeMode (NewVolumeUtil demo_os) p fs = Inr ModeFilesystem"
  by (simp add: GetVolumeMode_def NewVolumeUtil_def volumeUtil_IsDir_def demo_os_def)

theorem clean_then_delete_witness:
  "\<exists>w1 tk w2 w3. deletePV demo_d demo_pv demo_world = Some (None, w1) \<and> w_tasks w1 = [tk]
     \<and> asyncCleanPV demo_d tk (w1\<lparr>w_tasks := []\<rparr>) = Some w2
     \<and> deletePV demo_d demo_pv w2 = Some (None, w3)
     \<and> w_cache w3 = w_cache demo_world"
proof -
  obtain u where u: "apiUtil_DeletePV demo_client (pv_Name demo_pv) (w_api demo_world, w_cache demo_world)
      = (None, u, w_cache demo_world)"
    by (simp add: apiUtil_DeletePV_def demo_client_def)
  have c: "HasPrefix ''/media/v'' ''/media''" by (simp add: HasPrefix_def)
  have e: "volumeUtil_DeleteContents demo_os ''/media/v'' (w_fs demo_world) = (None, ())"
    by (simp add: volumeUtil_DeleteContents_def demo_os_def)
  have "\<exists>w1 tk w2 w3. deletePV demo_d demo_pv demo_world = Some (None, w1) \<and> w_tasks w1 = [tk]
      \<and> asyncCleanPV demo_d tk (w1\<lparr>w_tasks := []\<rparr>) = Some w2 \<and> w_fs w2 = ()
      \<and> deletePV demo_d demo_pv w2 = Some (None, w3) \<and> w_api w3 = u
      \<and> w_cache w3 = w_cache demo_world
      \<and> procTable (w_ptable w3) = procTable (w_ptable demo_world)"
    by (rule clean_then_delete [where l = "\<lparr>lvs_Path = ''/mnt/disks/v'', lvs_FSType = None\<rparr>",
          OF refl _ _ demo_path _ demo_mode e demo_mode _ _ u])
      (use c in \<open>simp_all add: demo_pv_def demo_cfg_def demo_class_def demo_world_def NewProcTable_def\<close>)
  then show ?thesis by blast
qed

lemma demo_start: "\<exists>e w'. deletePV demo_d demo_pv demo_world = Some (e, w')"
  using deletePV_defined [of demo_d demo_pv demo_world] by auto

theorem deletePV_only_after_cleanup_witness:
  "\<exists>e w'. deletePV demo_d demo_pv demo_world = Some (e, w') \<and> w_cache w' = w_cache demo_world"
proof -
  obtain e w' where d: "deletePV demo_d demo_pv demo_world = Some (e, w')" using demo_start by blast
  have "\<not> cleanup_succeeded demo_d (\<lambda>_ _ _. Inl (NotFound '''')) demo_pv demo_world"
    using demo_path
    by (auto simp: cleanup_succeeded_def getVolMode_def demo_cfg_def demo_mode shouldRunJob_def
        demo_world_def NewProcTable_def demo_pv_def split: option.splits sum.splits)
  with deletePV_only_after_cleanup [OF d] d show ?thesis
    by (auto simp: demo_world_def NewProcTable_def)
qed

theorem DeletePVs_frame_witness:
  "\<exists>w'. DeletePVs demo_d [''pv''] demo_world = Some w' \<and> Cache_GetPV (w_cache w') ''other'' = None"
proof -
  have listed: "Cache_ListPVs [''pv''] (w_cache demo_world) = [demo_pv]"
    by (simp add: Cache_ListPVs_def demo_world_def Cache_AddPV_def NewVolumeCache_def demo_pv_def)
  have "jobs_wired demo_d" by simp
  moreover have "pv_Local demo_pv \<noteq> None" by (simp add: demo_pv_def)
  ultimately have "DeletePVs demo_d [''pv''] demo_world \<noteq> None"
    unfolding DeletePVs_def listed
    by (simp only: reclaimVolumes_None reclaimVolume_None list.set) blast
  then obtain w' where w': "DeletePVs demo_d [''pv''] demo_world = Some w'" by blast
  from DeletePVs_frame [OF w', of "''other''"] listed w' show ?thesis
    by (auto simp: demo_pv_def demo_world_def)
qed

theorem DeletePVs_panics_iff_witness:
  "DeletePVs demo_d [''pv'']
     (demo_world\<lparr>w_cache := Cache_AddPV (demo_pv\<lparr>pv_Local := None\<rparr>) NewVolumeCache\<rparr>) = None"
  using DeletePVs_panics_iff [of demo_d "[''pv'']"
      "demo_world\<lparr>w_cache := Cache_AddPV (demo_pv\<lparr>pv_Local := None\<rparr>) NewVolumeCache\<rparr>"]
  by (simp add: Cache_ListPVs_def Cache_AddPV_def NewVolumeCache_def demo_pv_def demo_cfg_def)

end
