(* ===== verification/Discovery.thy ===== *)
theory Discovery
  imports Deleter "HOL-Library.Signed_Division"
begin

text \<open>
  \<open>local-volume/provisioner/pkg/discovery/discovery.go\<close>: the scan of the configured directories
  and the creation of a PV for every new volume. The storage class lister, the mounter, the JSON
  library and the unit constants of the provisioning library are parameters; the world and
  the environment are the deleter's.
\<close>

section \<open>The discoverer\<close>

record Discoverer =
  di_Labels :: "string gomap"
  di_nodeAffinityAnn :: string
  di_nodeAffinity :: "VolumeNodeAffinity option"

record json_lib =
  json_Marshal :: "NodeAffinity \<Rightarrow> string result"
  json_Unmarshal :: "string \<Rightarrow> NodeAffinity result"

definition hostnameSelector :: "string \<Rightarrow> NodeSelector" where
  "hostnameSelector nodeValue =
     \<lparr>ns_NodeSelectorTerms =
        [\<lparr>nst_MatchExpressions =
            [\<lparr>nsr_Key = NodeLabelKey, nsr_Operator = ''In'', nsr_Values = [nodeValue]\<rparr>]\<rparr>]\<rparr>"

definition generateNodeAffinity :: "Node \<Rightarrow> NodeAffinity result" where
  "generateNodeAffinity node =
     (case node_Labels node of
        None \<Rightarrow> Inl (Errorf ''Node does not have labels'' [])
      | Some labels \<Rightarrow>
          (case fmlookup labels NodeLabelKey of
             None \<Rightarrow> Inl (Errorf ''Node does not have expected label %s'' [NodeLabelKey])
           | Some nodeValue \<Rightarrow> Inr \<lparr>na_Required = Some (hostnameSelector nodeValue)\<rparr>))"

definition generateVolumeNodeAffinity :: "Node \<Rightarrow> VolumeNodeAffinity result" where
  "generateVolumeNodeAffinity node =
     (case node_Labels node of
        None \<Rightarrow> Inl (Errorf ''Node does not have labels'' [])
      | Some labels \<Rightarrow>
          (case fmlookup labels NodeLabelKey of
             None \<Rightarrow> Inl (Errorf ''Node does not have expected label %s'' [NodeLabelKey])
           | Some nodeValue \<Rightarrow> Inr \<lparr>vna_Required = Some (hostnameSelector nodeValue)\<rparr>))"

definition StorageNodeAffinityToAlphaAnnotation ::
  "json_lib \<Rightarrow> string gomap \<Rightarrow> NodeAffinity option \<Rightarrow> error option \<times> string gomap" where
  "StorageNodeAffinityToAlphaAnnotation json annotations affinity =
     (case affinity of
        None \<Rightarrow> (None, annotations)
      | Some a \<Rightarrow>
          (case json_Marshal json a of
             Inl err \<Rightarrow> (Some err, annotations)
           | Inr s \<Rightarrow> (None, fmupd AlphaStorageNodeAffinityAnnotation s annotations)))"

definition annotation :: "string gomap \<Rightarrow> string \<Rightarrow> string" where
  "annotation m k = (case fmlookup m k of None \<Rightarrow> '''' | Some v \<Rightarrow> v)"

definition GetStorageNodeAffinityFromAnnotation ::
  "json_lib \<Rightarrow> string gomap \<Rightarrow> (NodeAffinity option) result" where
  "GetStorageNodeAffinityFromAnnotation json annotations =
     (if 0 < map_len annotations \<and> annotation annotations AlphaStorageNodeAffinityAnnotation \<noteq> ''''
      then (case json_Unmarshal json (annotation annotations AlphaStorageNodeAffinityAnnotation) of
              Inl err \<Rightarrow> Inl err
            | Inr affinity \<Rightarrow> Inr (Some affinity))
      else Inr None)"

definition nodeLabels :: "RuntimeConfig \<Rightarrow> string gomap" where
  "nodeLabels cfg =
     fold (\<lambda>labelName m.
             case node_Labels (uc_Node cfg) of
               None \<Rightarrow> m
             | Some labels \<Rightarrow>
                 (case fmlookup labels labelName of
                    None \<Rightarrow> m
                  | Some labelVal \<Rightarrow> fmupd labelName labelVal m))
          (uc_NodeLabelsForPV cfg) fmempty"

definition NewDiscoverer :: "json_lib \<Rightarrow> RuntimeConfig \<Rightarrow> Discoverer result" where
  "NewDiscoverer json cfg =
     (let labelMap = nodeLabels cfg in
      if uc_UseAlphaAPI cfg
      then
        (case generateNodeAffinity (uc_Node cfg) of
           Inl err \<Rightarrow> Inl (Wrapf ''Failed to generate node affinity: %v'' [] err)
         | Inr nodeAffinity \<Rightarrow>
             (case StorageNodeAffinityToAlphaAnnotation json fmempty (Some nodeAffinity) of
                (Some err, _) \<Rightarrow>
                  Inl (Wrapf ''Failed to convert node affinity to alpha annotation: %v'' [] err)
              | (None, tmpAnnotations) \<Rightarrow>
                  Inr \<lparr>di_Labels = labelMap,
                       di_nodeAffinityAnn =
                         annotation tmpAnnotations AlphaStorageNodeAffinityAnnotation,
                       di_nodeAffinity = None\<rparr>))
      else
        (case generateVolumeNodeAffinity (uc_Node cfg) of
           Inl err \<Rightarrow> Inl (Wrapf ''Failed to generate volume node affinity: %v'' [] err)
         | Inr volumeNodeAffinity \<Rightarrow>
             Inr \<lparr>di_Labels = labelMap, di_nodeAffinityAnn = '''',
                  di_nodeAffinity = Some volumeNodeAffinity\<rparr>))"

section \<open>Capacity and names\<close>

text \<open>\<open>units\<close> are the easy to read units, largest first: GiB and MiB in the program.\<close>

fun roundDownCapacityPretty :: "int list \<Rightarrow> int \<Rightarrow> int" where
  "roundDownCapacityPretty [] capacityBytes = capacityBytes"
| "roundDownCapacityPretty (unit # units) capacityBytes =
     (let sz = capacityBytes sdiv unit in
      if 10 \<le> sz then sz * unit else roundDownCapacityPretty units capacityBytes)"

definition generatePVName :: "string \<Rightarrow> string \<Rightarrow> string \<Rightarrow> string" where
  "generatePVName file node class =
     (let h = New32a;
          h = fnv32a_write h file;
          h = fnv32a_write h node;
          h = fnv32a_write h class
      in ''local-pv-'' @ hex32 h)"

section \<open>Creation\<close>

definition localPVConfig ::
  "RuntimeConfig \<Rightarrow> Discoverer \<Rightarrow> int list \<Rightarrow> string \<Rightarrow> string \<Rightarrow> string \<Rightarrow> string list \<Rightarrow> MountConfig \<Rightarrow>
     int \<Rightarrow> string \<Rightarrow> LocalPVConfig" where
  "localPVConfig cfg dv units file class reclaimPolicy mountOptions config capacityByte volMode =
     \<lparr>lpc_Name = generatePVName file (node_Name (uc_Node cfg)) class,
      lpc_HostPath = Join [mc_HostDir config, file],
      lpc_Capacity = roundDownCapacityPretty units capacityByte,
      lpc_StorageClass = class,
      lpc_ReclaimPolicy = reclaimPolicy,
      lpc_ProvisionerName = rc_Name cfg,
      lpc_UseAlphaAPI = uc_UseAlphaAPI cfg,
      lpc_AffinityAnn = (if uc_UseAlphaAPI cfg then di_nodeAffinityAnn dv else ''''),
      lpc_NodeAffinity = (if uc_UseAlphaAPI cfg then None else di_nodeAffinity dv),
      lpc_VolumeMode = volMode,
      lpc_MountOptions = mountOptions,
      lpc_FsType = (if mc_FsType config \<noteq> '''' then Some (mc_FsType config) else None),
      lpc_Labels = di_Labels dv\<rparr>"

definition createPV ::
  "('t, 'j, 'a, 'f) env \<Rightarrow> Discoverer \<Rightarrow> int list \<Rightarrow> string \<Rightarrow> string \<Rightarrow> string \<Rightarrow> string list \<Rightarrow>
     MountConfig \<Rightarrow> int \<Rightarrow> string \<Rightarrow> int \<Rightarrow> ('t, 'j, 'a, 'f) world \<Rightarrow> ('t, 'j, 'a, 'f) world" where
  "createPV d dv units file class reclaimPolicy mountOptions config capacityByte volMode startTime w =
     (let pvSpec = CreateLocalPVSpec (localPVConfig (e_config d) dv units file class reclaimPolicy
                                        mountOptions config capacityByte volMode);
          (r, u, c) = au_CreatePV (e_api d) pvSpec (w_api w, w_cache w);
          w = w\<lparr>w_api := u, w_cache := c\<rparr> in
      case r of
        Inl err \<Rightarrow> w
      | Inr _ \<Rightarrow> Observe (DiscoveryDuration volMode (w_now w - startTime))
                   (Observe (DiscoveryTotal volMode) w))"

section \<open>Discovery\<close>

type_synonym classLister = "string \<Rightarrow> StorageClass result"

definition getReclaimPolicyFromStorageClass :: "classLister \<Rightarrow> string \<Rightarrow> string result" where
  "getReclaimPolicyFromStorageClass lister name =
     (case lister name of
        Inl err \<Rightarrow> Inl err
      | Inr class \<Rightarrow>
          (case sc_ReclaimPolicy class of Some p \<Rightarrow> Inr p | None \<Rightarrow> Inr ReclaimDelete))"

definition getMountOptionsFromStorageClass :: "classLister \<Rightarrow> string \<Rightarrow> string list result" where
  "getMountOptionsFromStorageClass lister name =
     (case lister name of Inl err \<Rightarrow> Inl err | Inr class \<Rightarrow> Inr (sc_MountOptions class))"

text \<open>The switch on the volume mode: the capacity to create the PV with, or nothing.\<close>

definition volumeCapacity ::
  "'f VolumeUtil \<Rightarrow> MountConfig \<Rightarrow> string list \<Rightarrow> string \<Rightarrow> string \<Rightarrow> 'f \<Rightarrow> int option" where
  "volumeCapacity vu config mountPoints filePath volMode fs =
     (if volMode = ModeBlock
      then (case vu_GetBlockCapacityByte vu filePath fs of
              (_, Some err) \<Rightarrow> None
            | (capacityByte, None) \<Rightarrow> Some capacityByte)
      else if volMode = ModeFilesystem
      then (if mc_VolumeMode config = ModeBlock then None
            else if filePath \<notin> set mountPoints then None
            else (case vu_GetFsCapacityByte vu filePath fs of
                    (_, Some err) \<Rightarrow> None
                  | (capacityByte, None) \<Rightarrow> Some capacityByte))
      else None)"

text \<open>The body of the loop over the files of a directory.\<close>

definition discoverFile ::
  "('t, 'j, 'a, 'f) env \<Rightarrow> Discoverer \<Rightarrow> classLister \<Rightarrow> int list \<Rightarrow> string \<Rightarrow> MountConfig \<Rightarrow> string \<Rightarrow>
     string list \<Rightarrow> string \<Rightarrow> ('t, 'j, 'a, 'f) world \<Rightarrow> ('t, 'j, 'a, 'f) world option" where
  "discoverFile d dv lister units class config reclaimPolicy mountPoints file w =
     (let startTime = w_now w; filePath = Join [mc_MountDir config, file] in
      case GetVolumeMode (e_vu d) filePath (w_fs w) of
        Inl err \<Rightarrow> Some w
      | Inr volMode \<Rightarrow>
          (let pvName = generatePVName file (node_Name (uc_Node (e_config d))) class in
           case Cache_GetPV (w_cache w) pvName of
             Some pv \<Rightarrow>
               if pv_VolumeMode pv = Some ModeBlock \<and> volMode = ModeFilesystem
               then Some (Eventf pv ''Warning'' EventVolumeFailedDelete w)
               else Some w
           | None \<Rightarrow> do {
               let usejob = (if volMode = ModeBlock then uc_UseJobForCleaning (e_config d) else False);
               (busy, w) \<leftarrow> InProgress d pvName usejob w;
               if busy then Some w
               else
                 (case getMountOptionsFromStorageClass lister class of
                    Inl err \<Rightarrow> Some w
                  | Inr mountOptions \<Rightarrow>
                      (case volumeCapacity (e_vu d) config mountPoints filePath volMode (w_fs w) of
                         None \<Rightarrow> Some w
                       | Some capacityByte \<Rightarrow>
                           Some (createPV d dv units file class reclaimPolicy mountOptions config
                                   capacityByte (mc_VolumeMode config) startTime w)))
             }))"

fun discoverFiles ::
  "('t, 'j, 'a, 'f) env \<Rightarrow> Discoverer \<Rightarrow> classLister \<Rightarrow> int list \<Rightarrow> string \<Rightarrow> MountConfig \<Rightarrow> string \<Rightarrow>
     string list \<Rightarrow> string list \<Rightarrow> ('t, 'j, 'a, 'f) world \<Rightarrow> ('t, 'j, 'a, 'f) world option" where
  "discoverFiles d dv lister units class config reclaimPolicy mountPoints [] w = Some w"
| "discoverFiles d dv lister units class config reclaimPolicy mountPoints (file # files) w = do {
     w \<leftarrow> discoverFile d dv lister units class config reclaimPolicy mountPoints file w;
     discoverFiles d dv lister units class config reclaimPolicy mountPoints files w
   }"

definition discoverVolumesAtPath ::
  "('t, 'j, 'a, 'f) env \<Rightarrow> Discoverer \<Rightarrow> classLister \<Rightarrow> ('f \<Rightarrow> string list result) \<Rightarrow> int list \<Rightarrow>
     string \<Rightarrow> MountConfig \<Rightarrow> ('t, 'j, 'a, 'f) world \<Rightarrow> ('t, 'j, 'a, 'f) world option" where
  "discoverVolumesAtPath d dv lister mounterList units class config w =
     (case getReclaimPolicyFromStorageClass lister class of
        Inl err \<Rightarrow> Some w
      | Inr reclaimPolicy \<Rightarrow>
          if reclaimPolicy \<noteq> ReclaimRetain \<and> reclaimPolicy \<noteq> ReclaimDelete then Some w
          else
            (case vu_ReadDir (e_vu d) (mc_MountDir config) (w_fs w) of
               Inl err \<Rightarrow> Some w
             | Inr files \<Rightarrow>
                 (case mounterList (w_fs w) of
                    Inl mountPointsErr \<Rightarrow> Some w
                  | Inr mountPoints \<Rightarrow>
                      discoverFiles d dv lister units class config reclaimPolicy mountPoints files w)))"

fun discoverClasses ::
  "('t, 'j, 'a, 'f) env \<Rightarrow> Discoverer \<Rightarrow> classLister \<Rightarrow> ('f \<Rightarrow> string list result) \<Rightarrow> int list \<Rightarrow>
     string list \<Rightarrow> ('t, 'j, 'a, 'f) world \<Rightarrow> ('t, 'j, 'a, 'f) world option" where
  "discoverClasses d dv lister mounterList units [] w = Some w"
| "discoverClasses d dv lister mounterList units (class # order) w =
     (case fmlookup (uc_DiscoveryMap (e_config d)) class of
        None \<Rightarrow> discoverClasses d dv lister mounterList units order w
      | Some config \<Rightarrow> do {
          w \<leftarrow> discoverVolumesAtPath d dv lister mounterList units class config w;
          discoverClasses d dv lister mounterList units order w
        })"

definition DiscoverLocalVolumes ::
  "('t, 'j, 'a, 'f) env \<Rightarrow> Discoverer \<Rightarrow> classLister \<Rightarrow> ('f \<Rightarrow> string list result) \<Rightarrow> int list \<Rightarrow>
     string list \<Rightarrow> ('t, 'j, 'a, 'f) world \<Rightarrow> ('t, 'j, 'a, 'f) world option" where
  "DiscoverLocalVolumes d dv lister mounterList units order w =
     discoverClasses d dv lister mounterList units order w"

section \<open>What discovery does\<close>

text \<open>The conditions under which a file gets a PV, with the volume mode and the capacity.\<close>

definition wanted ::
  "('t, 'j, 'a, 'f) env \<Rightarrow> classLister \<Rightarrow> string \<Rightarrow> MountConfig \<Rightarrow> string list \<Rightarrow> string \<Rightarrow>
     ('t, 'j, 'a, 'f) world \<Rightarrow> string \<Rightarrow> string list \<Rightarrow> int \<Rightarrow> bool" where
  "wanted d lister class config mountPoints file w volMode mountOptions capacityByte \<longleftrightarrow>
     GetVolumeMode (e_vu d) (Join [mc_MountDir config, file]) (w_fs w) = Inr volMode
   \<and> Cache_GetPV (w_cache w) (generatePVName file (node_Name (uc_Node (e_config d))) class) = None
   \<and> getMountOptionsFromStorageClass lister class = Inr mountOptions
   \<and> volumeCapacity (e_vu d) config mountPoints (Join [mc_MountDir config, file]) volMode (w_fs w)
       = Some capacityByte"

lemma createPV_frame [frame_simps]:
  "w_ptable (createPV d dv units file class rp mo config cap vm st w) = w_ptable w"
  "w_job (createPV d dv units file class rp mo config cap vm st w) = w_job w"
  "w_fs (createPV d dv units file class rp mo config cap vm st w) = w_fs w"
  "w_tasks (createPV d dv units file class rp mo config cap vm st w) = w_tasks w"
  "w_now (createPV d dv units file class rp mo config cap vm st w) = w_now w"
  "w_events (createPV d dv units file class rp mo config cap vm st w) = w_events w"
  by (simp_all add: createPV_def Observe_def Let_def split: prod.splits sum.splits)

lemma createPV_api:
  "(w_api (createPV d dv units file class rp mo config cap vm st w),
    w_cache (createPV d dv units file class rp mo config cap vm st w))
   = snd (au_CreatePV (e_api d)
       (CreateLocalPVSpec (localPVConfig (e_config d) dv units file class rp mo config cap vm))
       (w_api w, w_cache w))"
  by (simp add: createPV_def Observe_def Let_def split: prod.splits sum.splits)

lemma volumeCapacity_cases:
  "volumeCapacity vu config mountPoints p volMode fs = Some cap \<Longrightarrow>
     volMode = ModeBlock
   \<or> volMode = ModeFilesystem \<and> p \<in> set mountPoints \<and> mc_VolumeMode config \<noteq> ModeBlock"
  by (auto simp: volumeCapacity_def split: if_splits)

lemma usejob:
  "(if m = ModeBlock then uc_UseJobForCleaning (e_config d) else False) = shouldRunJob d m"
  by (auto simp: shouldRunJob_def)

lemma discoverFile_elim:
  assumes "discoverFile d dv lister units class config rp mountPoints file w = Some w'"
  obtains (idle) "w' = w"
  | (event) pv where "w' = Eventf pv ''Warning'' EventVolumeFailedDelete w"
  | (skipped) volMode b where
      "GetVolumeMode (e_vu d) (Join [mc_MountDir config, file]) (w_fs w) = Inr volMode"
      "InProgress d (generatePVName file (node_Name (uc_Node (e_config d))) class)
         (shouldRunJob d volMode) w = Some (b, w')"
      "b \<or> (\<nexists>mo cap. wanted d lister class config mountPoints file w volMode mo cap)"
  | (created) volMode mo cap w1 where
      "wanted d lister class config mountPoints file w volMode mo cap"
      "InProgress d (generatePVName file (node_Name (uc_Node (e_config d))) class)
         (shouldRunJob d volMode) w = Some (False, w1)"
      "w' = createPV d dv units file class rp mo config cap (mc_VolumeMode config) (w_now w) w1"
proof (cases "GetVolumeMode (e_vu d) (Join [mc_MountDir config, file]) (w_fs w)")
  case (Inl err)
  show thesis by (rule idle) (use assms Inl in \<open>simp add: discoverFile_def\<close>)
next
  case mode: (Inr volMode)
  let ?n = "generatePVName file (node_Name (uc_Node (e_config d))) class"
  show thesis
  proof (cases "Cache_GetPV (w_cache w) ?n")
    case (Some pv)
    with assms mode have "w' = w \<or> w' = Eventf pv ''Warning'' EventVolumeFailedDelete w"
      by (auto simp: discoverFile_def split: if_splits)
    then show thesis using idle event by blast
  next
    case None
    obtain b w1 where ip: "InProgress d ?n (shouldRunJob d volMode) w = Some (b, w1)"
      using assms mode None unfolding discoverFile_def usejob by (auto simp: bind_Some_iff Let_def)
    have fs: "w_fs w1 = w_fs w"
      using ip by (auto simp: InProgress_def split: if_splits option.splits prod.splits)
    have skip: "w' = w1 \<Longrightarrow> b \<or> (\<nexists>mo cap. wanted d lister class config mountPoints file w volMode mo cap)
        \<Longrightarrow> thesis"
      using skipped [OF mode] ip by blast
    show thesis
    proof (cases b)
      case True
      with assms mode None ip skip show thesis unfolding discoverFile_def usejob by simp
    next
      case False
      show thesis
      proof (cases "getMountOptionsFromStorageClass lister class")
        case (Inl err)
        with assms mode None ip skip False show thesis
          unfolding discoverFile_def usejob by (simp add: wanted_def)
      next
        case mo: (Inr mo)
        show thesis
        proof (cases "volumeCapacity (e_vu d) config mountPoints (Join [mc_MountDir config, file])
            volMode (w_fs w)")
          case None': None
          with assms mode None ip skip False mo fs show thesis
            unfolding discoverFile_def usejob by (simp add: wanted_def)
        next
          case (Some cap)
          then have "wanted d lister class config mountPoints file w volMode mo cap"
            using mode None mo by (simp add: wanted_def)
          moreover have "w' = createPV d dv units file class rp mo config cap (mc_VolumeMode config)
              (w_now w) w1"
            using assms mode None ip False mo Some fs unfolding discoverFile_def usejob by simp
          ultimately show thesis using ip False by (intro created) auto
        qed
      qed
    qed
  qed
qed

context deleter
begin

text \<open>Discovery leaves the table, the tasks and the file system as they are.\<close>

lemma discoverFile_frame:
  assumes "discoverFile d dv lister units class config rp mountPoints file w = Some w'"
  shows "entries (w_ptable w') = entries (w_ptable w) \<and> jobs (w_job w') = jobs (w_job w)
       \<and> w_fs w' = w_fs w \<and> w_tasks w' = w_tasks w \<and> w_now w' = w_now w"
  using assms
proof (cases rule: discoverFile_elim)
  case (skipped volMode b)
  from InProgress_spec [OF skipped(2)] show ?thesis by simp
next
  case (created volMode mo cap w1)
  from InProgress_spec [OF created(2)] created(3) show ?thesis by (simp add: frame_simps)
qed auto

text \<open>A cached PV stays as it is: discovery only adds PVs under names the cache did not have.\<close>

lemma discoverFile_cache:
  assumes "discoverFile d dv lister units class config rp mountPoints file w = Some w'"
    and "Cache_GetPV (w_cache w) k = Some pv"
  shows "Cache_GetPV (w_cache w') k = Some pv"
  using assms(1)
proof (cases rule: discoverFile_elim)
  case (skipped volMode b)
  from InProgress_spec(4) [OF skipped(2)] assms(2) show ?thesis by simp
next
  case (created volMode mo cap w1)
  let ?pv = "CreateLocalPVSpec (localPVConfig (e_config d) dv units file class rp mo config cap
      (mc_VolumeMode config))"
  have "k \<noteq> pv_Name ?pv"
    using created(1) assms(2) by (auto simp: wanted_def localPVConfig_def)
  moreover obtain r u c where call: "au_CreatePV (e_api d) ?pv (w_api w1, w_cache w1) = (r, u, c)"
    by (metis prod.collapse)
  ultimately have "Cache_GetPV c k = Cache_GetPV (w_cache w1) k" using api.create_lookup by blast
  moreover have "w_cache w' = c"
    using createPV_api [of d dv units "file" "class" rp mo config cap "mc_VolumeMode config" "w_now w" w1]
      call created(3) by simp
  ultimately show ?thesis
    using InProgress_spec(4) [OF created(2)] assms(2) by simp
qed (use assms(2) in auto)

lemma discoverFiles_frame:
  assumes "discoverFiles d dv lister units class config rp mountPoints files w = Some w'"
  shows "entries (w_ptable w') = entries (w_ptable w) \<and> jobs (w_job w') = jobs (w_job w)
       \<and> w_fs w' = w_fs w \<and> w_tasks w' = w_tasks w \<and> w_now w' = w_now w
       \<and> (\<forall>k pv. Cache_GetPV (w_cache w) k = Some pv \<longrightarrow> Cache_GetPV (w_cache w') k = Some pv)"
  using assms
proof (induction files arbitrary: w)
  case (Cons f files)
  then obtain w1 where one: "discoverFile d dv lister units class config rp mountPoints f w = Some w1"
    and rest: "discoverFiles d dv lister units class config rp mountPoints files w1 = Some w'"
    by (auto simp: bind_Some_iff)
  from Cons.IH [OF rest] discoverFile_frame [OF one] discoverFile_cache [OF one] show ?case by simp
qed simp

lemma discoverClasses_frame:
  assumes "discoverClasses d dv lister mounterList units order w = Some w'"
  shows "entries (w_ptable w') = entries (w_ptable w) \<and> jobs (w_job w') = jobs (w_job w)
       \<and> w_fs w' = w_fs w \<and> w_tasks w' = w_tasks w \<and> w_now w' = w_now w
       \<and> (\<forall>k pv. Cache_GetPV (w_cache w) k = Some pv \<longrightarrow> Cache_GetPV (w_cache w') k = Some pv)"
  using assms
proof (induction order arbitrary: w)
  case (Cons k order)
  show ?case
  proof (cases "fmlookup (uc_DiscoveryMap (e_config d)) k")
    case None
    with Cons show ?thesis by simp
  next
    case (Some config)
    then obtain w1 where one: "discoverVolumesAtPath d dv lister mounterList units k config w = Some w1"
      and rest: "discoverClasses d dv lister mounterList units order w1 = Some w'"
      using Cons.prems by (auto simp: bind_Some_iff)
    from one have "w1 = w \<or> (\<exists>rp mps files.
        discoverFiles d dv lister units k config rp mps files w = Some w1)"
      by (auto simp: discoverVolumesAtPath_def split: sum.splits if_splits)
    with Cons.IH [OF rest] discoverFiles_frame show ?thesis by auto
  qed
qed simp

lemma tasks_in_step_entries:
  assumes "w_tasks w' = w_tasks w" and "entries (w_ptable w') = entries (w_ptable w)"
    and "tasks_in_step w"
  shows "tasks_in_step w'"
  using assms by (simp add: tasks_in_step_def status_of_def)

lemma discover_invs:
  assumes "DiscoverLocalVolumes d dv lister mounterList units order w = Some w'"
  shows "tasks_in_step w \<Longrightarrow> tasks_in_step w'" and "tab.sane (w_ptable w) \<Longrightarrow> tab.sane (w_ptable w')"
  using discoverClasses_frame [OF assms [unfolded DiscoverLocalVolumes_def]]
    tasks_in_step_entries [of w' w] sane_same [of "w_ptable w'" "w_ptable w"] by auto

end

section \<open>Capacity\<close>

lemma roundDown_bounds:
  assumes "\<forall>u \<in> set units. 0 < u" and "0 \<le> c"
  shows "roundDownCapacityPretty units c \<le> c
       \<and> (roundDownCapacityPretty units c = c \<or> 10 * (c - roundDownCapacityPretty units c) < c)"
  using assms
proof (induction units)
  case (Cons u us)
  then have u: "0 < u" by simp
  have sz: "c sdiv u = c div u"
    using u Cons.prems(2) by (cases "c = 0") (simp_all add: signed_divide_int_def)
  show ?case
  proof (cases "10 \<le> c sdiv u")
    case True
    have le: "(c div u) * u \<le> c" using u by (simp add: pos_imp_zdiv_nonneg_iff mult.commute flip: minus_mod_eq_mult_div)
    have lt: "c - (c div u) * u < u" using u by (simp add: minus_div_mult_eq_mod)
    have "10 * u \<le> (c div u) * u" using True u sz by (simp add: mult_right_mono)
    then have "10 * (c - c div u * u) < c"
      using le mult_strict_left_mono [OF lt, of 10] by (meson le_less_trans less_le_trans zero_less_numeral)
    with le True sz show ?thesis by (simp add: Let_def)
  next
    case False
    with Cons show ?thesis by (simp add: Let_def)
  qed
qed simp

section \<open>A second scan\<close>

text \<open>
  Two scans in a row with the fakes: everything the decision for a file depends on but the cache
  stays the same, and the cache only grows.
\<close>

type_synonym fake_world = "(FakeProcTableImpl, FakeJobController, FakeAPIUtil, FakeVolumeUtil) world"

definition same_view :: "fake_world \<Rightarrow> fake_world \<Rightarrow> bool" where
  "same_view w w' \<longleftrightarrow>
     w_fs w' = w_fs w \<and> realTable (w_ptable w') = realTable (w_ptable w)
   \<and> pvCleanupRunning (w_job w') = pvCleanupRunning (w_job w)
   \<and> shouldFail (w_api w') = shouldFail (w_api w)
   \<and> (\<forall>k. Cache_GetPV (w_cache w) k \<noteq> None \<longrightarrow> Cache_GetPV (w_cache w') k \<noteq> None)"

lemma same_view_refl [simp]: "same_view w w"
  by (simp add: same_view_def)

lemma same_view_trans: "same_view w w1 \<Longrightarrow> same_view w1 w2 \<Longrightarrow> same_view w w2"
  by (simp add: same_view_def)

lemma same_view_Eventf [simp]: "same_view w (Eventf pv t r w)"
  by (simp add: same_view_def)

definition busy :: "RuntimeConfig \<Rightarrow> string \<Rightarrow> string \<Rightarrow> fake_world \<Rightarrow> bool" where
  "busy cfg n volMode w \<longleftrightarrow>
     (if volMode = ModeBlock \<and> uc_UseJobForCleaning cfg
      then fmlookup (pvCleanupRunning (w_job w)) n \<noteq> None
      else IsRunning n (realTable (w_ptable w)))"

lemma fake_InProgress:
  "\<exists>w1. InProgress (fakeEnv cfg ex cap fmt) n (shouldRunJob (fakeEnv cfg ex cap fmt) m) w
         = Some (busy cfg n m w, w1)
     \<and> same_view w w1 \<and> w_api w1 = w_api w \<and> w_cache w1 = w_cache w \<and> w_now w1 = w_now w"
  by (auto simp: InProgress_def fakeEnv_def shouldRunJob_def busy_def FakeJobController_ops_def
      FakeJob_IsCleaningJobRunning_def FakeProcTable_ops_def Fake_IsRunning_def same_view_def)

text \<open>The file would get a PV now.\<close>

definition pending :: "RuntimeConfig \<Rightarrow> classLister \<Rightarrow> string \<Rightarrow> MountConfig \<Rightarrow> string list \<Rightarrow> string \<Rightarrow>
    fake_world \<Rightarrow> bool" where
  "pending cfg lister class config mps file w \<longleftrightarrow>
     (\<exists>m mo cap. GetVolumeMode FakeVolumeUtil_ops (Join [mc_MountDir config, file]) (w_fs w) = Inr m
        \<and> Cache_GetPV (w_cache w) (generatePVName file (node_Name (uc_Node cfg)) class) = None
        \<and> getMountOptionsFromStorageClass lister class = Inr mo
        \<and> volumeCapacity FakeVolumeUtil_ops config mps (Join [mc_MountDir config, file]) m (w_fs w) = Some cap
        \<and> \<not> busy cfg (generatePVName file (node_Name (uc_Node cfg)) class) m w)"

lemma pending_mono:
  assumes "same_view w w'" and "pending cfg lister class config mps f w'"
  shows "pending cfg lister class config mps f w"
proof -
  have fs: "w_fs w' = w_fs w" and b: "busy cfg n m w' = busy cfg n m w" for n m
    using assms(1) by (simp_all add: same_view_def busy_def)
  have "Cache_GetPV (w_cache w') k = None \<Longrightarrow> Cache_GetPV (w_cache w) k = None" for k
    using assms(1) unfolding same_view_def by metis
  with assms(2) show ?thesis unfolding pending_def fs b by blast
qed

lemma FakeAPI_create_cases:
  "au_CreatePV FakeAPIUtil_ops pv (u, c) =
     (if shouldFail u then (Inl (Errorf ''API failed'' []), u, c)
      else (Inr pv, u\<lparr>createdPVs := fmupd (pv_Name pv) pv (createdPVs u)\<rparr>, Cache_AddPV pv c))"
  by (simp add: FakeAPIUtil_ops_def FakeAPI_CreatePV_def)

lemma fake_createPV:
  fixes w :: fake_world
  assumes "w' = createPV (fakeEnv cfg ex cap' fmt) dv units f class rp mo config cap vm st w"
  shows "same_view w w'"
    and "shouldFail (w_api w) \<Longrightarrow> w_api w' = w_api w \<and> w_cache w' = w_cache w"
    and "\<not> shouldFail (w_api w) \<Longrightarrow>
           Cache_GetPV (w_cache w') (generatePVName f (node_Name (uc_Node cfg)) class) \<noteq> None"
proof -
  let ?d = "fakeEnv cfg ex cap' fmt"
  let ?pv = "CreateLocalPVSpec (localPVConfig cfg dv units f class rp mo config cap vm)"
  have n: "lpc_Name (localPVConfig cfg dv units f class rp mo config cap vm)
      = generatePVName f (node_Name (uc_Node cfg)) class"
    by (simp add: localPVConfig_def)
  have api: "(w_api w', w_cache w') = snd (au_CreatePV FakeAPIUtil_ops ?pv (w_api w, w_cache w))"
    using createPV_api [of ?d] assms by (simp add: fakeEnv_def)
  show "same_view w w'"
    using api assms by (auto simp: same_view_def FakeAPI_create_cases frame_simps split: if_splits)
  show "shouldFail (w_api w) \<Longrightarrow> w_api w' = w_api w \<and> w_cache w' = w_cache w"
    using api by (simp add: FakeAPI_create_cases)
  show "Cache_GetPV (w_cache w') (generatePVName f (node_Name (uc_Node cfg)) class) \<noteq> None"
    if "\<not> shouldFail (w_api w)"
    using api that by (simp add: FakeAPI_create_cases n)
qed

lemma fake_discoverFile:
  fixes w :: fake_world
  assumes "discoverFile (fakeEnv cfg ex cap fmt) dv lister units class config rp mps f w = Some w'"
  shows "same_view w w'"
    and "\<not> pending cfg lister class config mps f w \<or> shouldFail (w_api w) \<Longrightarrow>
           w_api w' = w_api w \<and> w_cache w' = w_cache w"
    and "\<not> shouldFail (w_api w) \<Longrightarrow> \<not> pending cfg lister class config mps f w'"
proof -
  let ?d = "fakeEnv cfg ex cap fmt" and ?n = "generatePVName f (node_Name (uc_Node cfg)) class"
  have e: "e_config ?d = cfg" "e_vu ?d = FakeVolumeUtil_ops" by (simp_all add: fakeEnv_def)
  have "same_view w w'
      \<and> (\<not> pending cfg lister class config mps f w \<or> shouldFail (w_api w) \<longrightarrow>
           w_api w' = w_api w \<and> w_cache w' = w_cache w)
      \<and> (\<not> shouldFail (w_api w) \<longrightarrow> \<not> pending cfg lister class config mps f w')"
  proof (cases "pending cfg lister class config mps f w")
    case True
    then obtain m mo cp where p: "GetVolumeMode FakeVolumeUtil_ops (Join [mc_MountDir config, f]) (w_fs w) = Inr m"
      "Cache_GetPV (w_cache w) ?n = None" "getMountOptionsFromStorageClass lister class = Inr mo"
      "volumeCapacity FakeVolumeUtil_ops config mps (Join [mc_MountDir config, f]) m (w_fs w) = Some cp"
      "\<not> busy cfg ?n m w"
      by (auto simp: pending_def)
    obtain w1 where ip: "InProgress ?d ?n (shouldRunJob ?d m) w = Some (False, w1)"
      and w1: "same_view w w1" "w_api w1 = w_api w" "w_cache w1 = w_cache w"
      using fake_InProgress [of cfg ex cap fmt ?n m w] p(5) by auto
    have "w_fs w1 = w_fs w" using w1(1) by (simp add: same_view_def)
    then have w': "w' = createPV ?d dv units f class rp mo config cp (mc_VolumeMode config) (w_now w) w1"
      using assms p(1-4) ip unfolding discoverFile_def usejob by (simp add: e)
    note c = fake_createPV [OF w']
    have "same_view w w'" using c(1) w1(1) same_view_trans by blast
    moreover have "\<not> pending cfg lister class config mps f w'" if "\<not> shouldFail (w_api w)"
      using c(3) that w1(2) by (auto simp: pending_def)
    ultimately show ?thesis using c(2) w1 True by auto
  next
    case False
    have "same_view w w' \<and> w_api w' = w_api w \<and> w_cache w' = w_cache w"
      using assms
    proof (cases rule: discoverFile_elim)
      case (skipped m b)
      with fake_InProgress [of cfg ex cap fmt ?n m w] show ?thesis by (auto simp: e)
    next
      case (created m mo cp w1)
      with False fake_InProgress [of cfg ex cap fmt ?n m w] show ?thesis
        by (auto simp: e pending_def wanted_def)
    qed auto
    with False pending_mono show ?thesis by blast
  qed
  then show "same_view w w'"
    and "\<not> pending cfg lister class config mps f w \<or> shouldFail (w_api w) \<Longrightarrow>
           w_api w' = w_api w \<and> w_cache w' = w_cache w"
    and "\<not> shouldFail (w_api w) \<Longrightarrow> \<not> pending cfg lister class config mps f w'"
    by simp_all
qed

lemma fake_discoverFiles:
  fixes w :: fake_world
  assumes "discoverFiles (fakeEnv cfg ex cap fmt) dv lister units class config rp mps files w = Some w'"
  shows "same_view w w'
    \<and> ((\<forall>f \<in> set files. \<not> pending cfg lister class config mps f w) \<or> shouldFail (w_api w) \<longrightarrow>
         w_api w' = w_api w \<and> w_cache w' = w_cache w)
    \<and> (\<not> shouldFail (w_api w) \<longrightarrow> (\<forall>f \<in> set files. \<not> pending cfg lister class config mps f w'))"
  using assms
proof (induction files arbitrary: w)
  case (Cons f files)
  then obtain w1 where one: "discoverFile (fakeEnv cfg ex cap fmt) dv lister units class config rp mps f w = Some w1"
    and rest: "discoverFiles (fakeEnv cfg ex cap fmt) dv lister units class config rp mps files w1 = Some w'"
    by (auto simp: bind_Some_iff)
  note o = fake_discoverFile [OF one]
  note r = Cons.IH [OF rest]
  have sf: "shouldFail (w_api w1) = shouldFail (w_api w)" using o(1) by (simp add: same_view_def)
  have "same_view w w'" using o(1) r same_view_trans by blast
  moreover have "w_api w' = w_api w \<and> w_cache w' = w_cache w"
    if "(\<forall>f \<in> set (f # files). \<not> pending cfg lister class config mps f w) \<or> shouldFail (w_api w)"
    using o(2) r that sf pending_mono [OF o(1)] by auto
  moreover have "\<forall>f \<in> set (f # files). \<not> pending cfg lister class config mps f w'"
    if "\<not> shouldFail (w_api w)"
    using o(3) r that sf pending_mono [of w1 w'] by auto
  ultimately show ?case by blast
qed simp

text \<open>Nothing a class's scan can see makes it create a PV, now or later in the same view.\<close>

definition quiet ::
  "(FakeProcTableImpl, FakeJobController, FakeAPIUtil, FakeVolumeUtil) env \<Rightarrow> Discoverer \<Rightarrow> classLister \<Rightarrow>
     (FakeVolumeUtil \<Rightarrow> string list result) \<Rightarrow> int list \<Rightarrow> string \<Rightarrow> MountConfig \<Rightarrow> fake_world \<Rightarrow> bool"
where
  "quiet d dv lister mounterList units class config w \<longleftrightarrow>
     (\<forall>w1 w2. same_view w w1 \<longrightarrow>
        discoverVolumesAtPath d dv lister mounterList units class config w1 = Some w2 \<longrightarrow>
        w_api w2 = w_api w1 \<and> w_cache w2 = w_cache w1)"

lemma quiet_mono:
  "same_view w w' \<Longrightarrow> quiet d dv lister mounterList units class config w \<Longrightarrow>
     quiet d dv lister mounterList units class config w'"
  unfolding quiet_def using same_view_trans by blast

lemma fake_discoverVolumes:
  fixes w :: fake_world
  assumes run: "discoverVolumesAtPath (fakeEnv cfg ex cap fmt) dv lister mounterList units class config w = Some w'"
  shows "same_view w w' \<and> quiet (fakeEnv cfg ex cap fmt) dv lister mounterList units class config w'"
proof -
  let ?d = "fakeEnv cfg ex cap fmt"
  have rd: "vu_ReadDir (e_vu ?d) = Fake_ReadDir"
    by (simp add: fakeEnv_def FakeVolumeUtil_ops_def)
  show ?thesis
  proof (cases "\<exists>rp files mps. getReclaimPolicyFromStorageClass lister class = Inr rp
      \<and> (rp = ReclaimRetain \<or> rp = ReclaimDelete) \<and> Fake_ReadDir (mc_MountDir config) (w_fs w) = Inr files
      \<and> mounterList (w_fs w) = Inr mps")
    case True
    then obtain rp files mps where c: "getReclaimPolicyFromStorageClass lister class = Inr rp"
      "rp = ReclaimRetain \<or> rp = ReclaimDelete" "Fake_ReadDir (mc_MountDir config) (w_fs w) = Inr files"
      "mounterList (w_fs w) = Inr mps" by blast
    then have step: "w_fs w1 = w_fs w \<Longrightarrow>
        discoverVolumesAtPath ?d dv lister mounterList units class config w1 =
          discoverFiles ?d dv lister units class config rp mps files w1" for w1
      by (auto simp: discoverVolumesAtPath_def rd)
    note r = fake_discoverFiles [OF run [unfolded step [OF refl]]]
    have "w_api w2 = w_api w1 \<and> w_cache w2 = w_cache w1"
      if v: "same_view w' w1" and run2: "discoverVolumesAtPath ?d dv lister mounterList units class config w1 = Some w2"
      for w1 w2
    proof -
      have fs: "w_fs w1 = w_fs w" and sf: "shouldFail (w_api w1) = shouldFail (w_api w)"
        using r v by (simp_all add: same_view_def)
      have "(\<forall>f \<in> set files. \<not> pending cfg lister class config mps f w1) \<or> shouldFail (w_api w1)"
        using r sf pending_mono [OF v] by blast
      then show ?thesis using fake_discoverFiles [OF run2 [unfolded step [OF fs]]] by blast
    qed
    with r show ?thesis by (auto simp: quiet_def)
  next
    case False
    then have same: "discoverVolumesAtPath ?d dv lister mounterList units class config w1 = Some w1"
      if "w_fs w1 = w_fs w" for w1
      using that by (auto simp: discoverVolumesAtPath_def rd split: sum.splits)
    from same [OF refl] run have "w' = w" by simp
    with same show ?thesis by (auto simp: quiet_def same_view_def)
  qed
qed

lemma fake_discoverClasses:
  fixes w :: fake_world
  assumes "discoverClasses (fakeEnv cfg ex cap fmt) dv lister mounterList units order w = Some w'"
  shows "same_view w w'
    \<and> (\<forall>k \<in> set order. \<forall>config. fmlookup (uc_DiscoveryMap cfg) k = Some config \<longrightarrow>
         quiet (fakeEnv cfg ex cap fmt) dv lister mounterList units k config w')
    \<and> ((\<forall>k \<in> set order. \<forall>config. fmlookup (uc_DiscoveryMap cfg) k = Some config \<longrightarrow>
         quiet (fakeEnv cfg ex cap fmt) dv lister mounterList units k config w) \<longrightarrow>
       w_api w' = w_api w \<and> w_cache w' = w_cache w)"
  using assms
proof (induction order arbitrary: w)
  case (Cons k order)
  have e: "e_config (fakeEnv cfg ex cap fmt) = cfg" by (simp add: fakeEnv_def)
  show ?case
  proof (cases "fmlookup (uc_DiscoveryMap cfg) k")
    case None
    with Cons show ?thesis by (simp add: e)
  next
    case (Some config)
    then obtain w1 where one: "discoverVolumesAtPath (fakeEnv cfg ex cap fmt) dv lister mounterList units k config w = Some w1"
      and rest: "discoverClasses (fakeEnv cfg ex cap fmt) dv lister mounterList units order w1 = Some w'"
      using Cons.prems by (auto simp: bind_Some_iff e)
    note o = fake_discoverVolumes [OF one] and r = Cons.IH [OF rest]
    have "same_view w w'" using o r same_view_trans by blast
    moreover have "quiet (fakeEnv cfg ex cap fmt) dv lister mounterList units k config w'"
      using o r quiet_mono by blast
    moreover have "w_api w' = w_api w \<and> w_cache w' = w_cache w"
      if "\<forall>k' \<in> set (k # order). \<forall>config. fmlookup (uc_DiscoveryMap cfg) k' = Some config \<longrightarrow>
            quiet (fakeEnv cfg ex cap fmt) dv lister mounterList units k' config w"
    proof -
      have "w_api w1 = w_api w \<and> w_cache w1 = w_cache w"
        using that Some one by (auto simp: quiet_def)
      moreover have "\<forall>k' \<in> set order. \<forall>config. fmlookup (uc_DiscoveryMap cfg) k' = Some config \<longrightarrow>
          quiet (fakeEnv cfg ex cap fmt) dv lister mounterList units k' config w1"
        using that o quiet_mono by auto
      ultimately show ?thesis using r by simp
    qed
    ultimately show ?thesis using r Some by auto
  qed
qed simp

section \<open>Discovery does not panic\<close>

lemma discoverFile_defined:
  assumes "jobs_wired d"
  shows "discoverFile d dv lister units class config rp mps f w \<noteq> None"
proof (cases "GetVolumeMode (e_vu d) (Join [mc_MountDir config, f]) (w_fs w)")
  case (Inl err)
  then show ?thesis by (simp add: discoverFile_def)
next
  case mode: (Inr m)
  let ?n = "generatePVName f (node_Name (uc_Node (e_config d))) class"
  obtain b w1 where ip: "InProgress d ?n (shouldRunJob d m) w = Some (b, w1)"
    using InProgress_defined [OF assms, of ?n m w] by auto
  show ?thesis
  proof (cases "Cache_GetPV (w_cache w) ?n")
    case None
    with mode ip show ?thesis
      unfolding discoverFile_def usejob by (simp split: sum.splits option.splits)
  next
    case (Some pv)
    with mode show ?thesis by (simp add: discoverFile_def)
  qed
qed

lemma discoverFiles_defined:
  assumes "jobs_wired d"
  shows "discoverFiles d dv lister units class config rp mps files w \<noteq> None"
proof (induction files arbitrary: w)
  case (Cons f files)
  then show ?case using discoverFile_defined [OF assms]
    by (simp only: discoverFiles.simps bind_None_iff) blast
qed simp

lemma discoverVolumesAtPath_defined:
  "jobs_wired d \<Longrightarrow> discoverVolumesAtPath d dv lister mounterList units class config w \<noteq> None"
  using discoverFiles_defined [of d] by (simp add: discoverVolumesAtPath_def split: sum.splits)

lemma discoverClasses_defined:
  assumes "jobs_wired d"
  shows "discoverClasses d dv lister mounterList units order w \<noteq> None"
proof (induction order arbitrary: w)
  case (Cons k order)
  show ?case
  proof (cases "fmlookup (uc_DiscoveryMap (e_config d)) k")
    case None
    with Cons show ?thesis by simp
  next
    case (Some config)
    obtain w1 where "discoverVolumesAtPath d dv lister mounterList units k config w = Some w1"
      using discoverVolumesAtPath_defined [OF assms, of dv lister mounterList units k config w] by auto
    with Some Cons show ?thesis by simp
  qed
qed simp

section \<open>Properties\<close>

text \<open>
  C8. The path translation is inverted by discovery: the container path of the PV that
  discovery creates for a file of the class's mount directory is the path at which the file was
  found, so the deleter cleans the volume that was discovered and nothing else.
\<close>

theorem createdPV_container_path:
  assumes "rooted (mc_HostDir config)" and "plain_name file"
  shows "GetContainerPath
           (CreateLocalPVSpec (localPVConfig cfg dv units file class rp mo config cap mode)) config
         = Some (Inr (Join [mc_MountDir config, file]))"
  using assms by (simp add: GetContainerPath_def localPVConfig_def Rel_Join_plain)

theorem createdPV_container_path_witness:
  "GetContainerPath
     (CreateLocalPVSpec (localPVConfig demo_cfg
        \<lparr>di_Labels = fmempty, di_nodeAffinityAnn = '''', di_nodeAffinity = None\<rparr> [] ''vol1'' ''fast''
        ReclaimDelete [] demo_mount 7 ModeFilesystem)) demo_mount
   = Some (Inr (Join [''/media'', ''vol1'']))"
  using createdPV_container_path [of demo_mount "''vol1''"]
  by (simp add: demo_mount_def rooted_def HasPrefix_def plain_name_def)


text \<open>
  When discovery calls the API for a file, the name was not cached, no cleaning of that name
  is running (in the process table or, for a block device cleaned by jobs, as a job), a
  file-system path is a mount point and is not meant for block volumes, and the call
  creates exactly the PV of that file.
\<close>

theorem discoverFile_creates:
  assumes "discoverFile (localEnv cfg jobLister parseTime client os ex cap fmt) dv lister units class
             config rp mps file w = Some w'"
    and "w_api w' \<noteq> w_api w"
  shows "\<exists>m mo cp. GetVolumeMode (NewVolumeUtil os) (Join [mc_MountDir config, file]) (w_fs w) = Inr m
       \<and> Cache_GetPV (w_cache w) (generatePVName file (node_Name (uc_Node cfg)) class) = None
       \<and> (m = ModeFilesystem \<longrightarrow>
            Join [mc_MountDir config, file] \<in> set mps \<and> mc_VolumeMode config \<noteq> ModeBlock)
       \<and> (if m = ModeBlock \<and> uc_UseJobForCleaning cfg
          then jobs_of jobLister (w_job w) (generatePVName file (node_Name (uc_Node cfg)) class)
                 \<notin> {Some CSRunning, Some CSUnknown}
          else \<not> IsRunning (generatePVName file (node_Name (uc_Node cfg)) class) (w_ptable w))
       \<and> (w_api w', w_cache w') =
           snd (apiUtil_CreatePV client
             (CreateLocalPVSpec (localPVConfig cfg dv units file class rp mo config cp (mc_VolumeMode config)))
             (w_api w, w_cache w))"
  using assms(1)
proof (cases rule: discoverFile_elim)
  case idle
  with assms(2) show ?thesis by simp
next
  case (event pv)
  with assms(2) show ?thesis by simp
next
  case (skipped m b)
  with real.InProgress_spec(3) [OF skipped(2)] assms(2) show ?thesis by simp
next
  case (created m mo cp w1)
  let ?n = "generatePVName file (node_Name (uc_Node cfg)) class"
  note ip = real.InProgress_spec [OF created(2)]
  have wn: "GetVolumeMode (NewVolumeUtil os) (Join [mc_MountDir config, file]) (w_fs w) = Inr m"
    "Cache_GetPV (w_cache w) ?n = None"
    "volumeCapacity (NewVolumeUtil os) config mps (Join [mc_MountDir config, file]) m (w_fs w) = Some cp"
    using created(1) by (simp_all add: wanted_def)
  have call: "(w_api w', w_cache w') = snd (apiUtil_CreatePV client
      (CreateLocalPVSpec (localPVConfig cfg dv units file class rp mo config cp (mc_VolumeMode config)))
      (w_api w, w_cache w))"
    using createPV_api [of "localEnv cfg jobLister parseTime client os ex cap fmt"] created(3) ip(3,4)
    by (simp add: NewAPIUtil_def)
  have idle: "if m = ModeBlock \<and> uc_UseJobForCleaning cfg
      then jobs_of jobLister (w_job w) ?n \<notin> {Some CSRunning, Some CSUnknown}
      else \<not> IsRunning ?n (w_ptable w)"
  proof (cases "m = ModeBlock \<and> uc_UseJobForCleaning cfg")
    case True
    then have "\<not> IsCleaningJobRunning jobLister ?n (w_job w)"
      using created(2) by (auto simp: InProgress_def shouldRunJob_def localEnv_def NewJobController_def)
    with real_jobs.running_reported [of jobLister "w_job w" ?n] True show ?thesis
      by (auto simp: NewJobController_def)
  next
    case False
    then have "\<not> IsRunning ?n (w_ptable w)"
      using created(2) by (auto simp: InProgress_def shouldRunJob_def ProcTableImpl_ops_def)
    with False show ?thesis by (simp only: if_False simp_thms)
  qed
  from wn volumeCapacity_cases [OF wn(3)] idle call show ?thesis by blast
qed

theorem discoverFile_creates_witness:
  "\<exists>w'. discoverFile demo_d \<lparr>di_Labels = fmempty, di_nodeAffinityAnn = '''', di_nodeAffinity = None\<rparr>
          (\<lambda>_. Inr \<lparr>sc_ReclaimPolicy = None, sc_MountOptions = []\<rparr>) [] ''fast''
          (demo_class\<lparr>mc_VolumeMode := ModeFilesystem\<rparr>) ReclaimDelete [''/media/v''] ''v''
          (demo_world\<lparr>w_cache := NewVolumeCache\<rparr>) = Some w'
      \<and> (\<exists>mo cp. w_api w' = fst (snd (apiUtil_CreatePV demo_client
            (CreateLocalPVSpec (localPVConfig demo_cfg
               \<lparr>di_Labels = fmempty, di_nodeAffinityAnn = '''', di_nodeAffinity = None\<rparr> [] ''v'' ''fast''
               ReclaimDelete mo (demo_class\<lparr>mc_VolumeMode := ModeFilesystem\<rparr>) cp ModeFilesystem))
            (w_api demo_world, NewVolumeCache))))"
proof -
  let ?dv = "\<lparr>di_Labels = fmempty, di_nodeAffinityAnn = '''', di_nodeAffinity = None\<rparr>"
  let ?l = "\<lambda>_. Inr \<lparr>sc_ReclaimPolicy = None, sc_MountOptions = []\<rparr>"
  let ?c = "demo_class\<lparr>mc_VolumeMode := ModeFilesystem\<rparr>"
  let ?w = "demo_world\<lparr>w_cache := NewVolumeCache\<rparr>"
  have p: "Join [mc_MountDir demo_class, ''v''] = ''/media/v''"
    unfolding demo_class_def MountConfig.simps by code_simp
  have cap: "volumeCapacity (NewVolumeUtil demo_os) ?c [''/media/v''] ''/media/v'' ModeFilesystem fs = Some 0"
    for fs
    by (simp add: volumeCapacity_def NewVolumeUtil_def volumeUtil_GetFsCapacityByte_def demo_os_def)
  have ip: "InProgress demo_d n False ?w = Some (False, ?w)" for n
    by (simp add: InProgress_def ProcTableImpl_ops_def IsRunning_def demo_world_def NewProcTable_def)
  have none: "Cache_GetPV (w_cache ?w) n = None" for n by simp
  obtain w' where w': "discoverFile demo_d ?dv ?l [] ''fast'' ?c ReclaimDelete [''/media/v''] ''v'' ?w = Some w'"
    using discoverFile_defined [of demo_d ?dv ?l "[]" "''fast''" ?c ReclaimDelete "[''/media/v'']" "''v''" ?w]
    by auto
  have "w' = createPV demo_d ?dv [] ''v'' ''fast'' ReclaimDelete [] ?c 0 ModeFilesystem (w_now ?w) ?w"
    using w' by (simp add: discoverFile_def p demo_mode none ip cap getMountOptionsFromStorageClass_def)
  then have api: "w_api w' = fst (snd (apiUtil_CreatePV demo_client
      (CreateLocalPVSpec (localPVConfig demo_cfg ?dv [] ''v'' ''fast'' ReclaimDelete [] ?c 0 ModeFilesystem))
      (w_api ?w, w_cache ?w)))"
    using createPV_api [of demo_d ?dv "[]" "''v''" "''fast''" ReclaimDelete "[]" ?c 0 ModeFilesystem "w_now ?w" ?w]
    by (simp add: NewAPIUtil_def prod_eq_iff)
  have "count_of (as_RequestsTotal (w_api w')) APIServerRequestCreate = 1"
    by (simp add: api apiUtil_CreatePV_def demo_client_def demo_world_def count_of_def Inc_def)
  moreover have "count_of (as_RequestsTotal (w_api ?w)) APIServerRequestCreate = 0"
    by (simp add: demo_world_def count_of_def)
  ultimately have ne: "w_api w' \<noteq> w_api ?w" by auto
  obtain mo cp where call: "(w_api w', w_cache w') = snd (apiUtil_CreatePV demo_client
      (CreateLocalPVSpec (localPVConfig demo_cfg ?dv [] ''v'' ''fast'' ReclaimDelete mo ?c cp (mc_VolumeMode ?c)))
      (w_api ?w, w_cache ?w))"
    using discoverFile_creates [OF w' ne] by blast
  show ?thesis
    using w' call by (force simp: demo_world_def prod_eq_iff)
qed

text \<open>
  The capacity announced is at most the real one and loses less than a tenth of it.
\<close>

theorem roundDownCapacityPretty_bounds:
  assumes "\<forall>u \<in> set units. 0 < u" and "0 \<le> c"
  shows "roundDownCapacityPretty units c \<le> c
       \<and> (roundDownCapacityPretty units c = c \<or> 10 * (c - roundDownCapacityPretty units c) < c)"
  by (rule roundDown_bounds [OF assms])

theorem roundDownCapacityPretty_bounds_witness:
  "roundDownCapacityPretty [1073741824, 1048576] 10737418245 \<le> 10737418245"
  using roundDownCapacityPretty_bounds [of "[1073741824, 1048576]" 10737418245] by simp

text \<open>
  Every PV is pinned to its node: with the beta API by the node affinity of the PV, with the
  alpha API by an annotation that, decoded again, is the same selector for the node's hostname
  label (where the JSON library decodes what it encodes).
\<close>

theorem createdPV_pinned:
  assumes "NewDiscoverer json cfg = Inr dv"
    and "\<And>a s. json_Marshal json a = Inr s \<Longrightarrow> s \<noteq> '''' \<and> json_Unmarshal json s = Inr a"
    and "pv = CreateLocalPVSpec (localPVConfig cfg dv units file class rp mo config cp mode)"
  shows "\<exists>labels host. node_Labels (uc_Node cfg) = Some labels
           \<and> fmlookup labels NodeLabelKey = Some host
           \<and> (if uc_UseAlphaAPI cfg
              then GetStorageNodeAffinityFromAnnotation json (pv_Annotations pv)
                     = Inr (Some \<lparr>na_Required = Some (hostnameSelector host)\<rparr>)
              else pv_NodeAffinity pv = Some \<lparr>vna_Required = Some (hostnameSelector host)\<rparr>)"
proof (cases "uc_UseAlphaAPI cfg")
  case True
  then obtain na where na: "generateNodeAffinity (uc_Node cfg) = Inr na"
    using assms(1) by (auto simp: NewDiscoverer_def Let_def split: sum.splits)
  then obtain labels host where host: "node_Labels (uc_Node cfg) = Some labels"
    "fmlookup labels NodeLabelKey = Some host" "na = \<lparr>na_Required = Some (hostnameSelector host)\<rparr>"
    by (auto simp: generateNodeAffinity_def split: option.splits)
  obtain s where s: "json_Marshal json na = Inr s" "di_nodeAffinityAnn dv = s"
    using assms(1) True na
    by (auto simp: NewDiscoverer_def StorageNodeAffinityToAlphaAnnotation_def annotation_def Let_def
        split: sum.splits)
  have ann: "fmlookup (pv_Annotations pv) AlphaStorageNodeAffinityAnnotation = Some s"
    using True s(2) by (simp add: assms(3) CreateLocalPVSpec_def localPVConfig_def Let_def)
  then have "map_len (pv_Annotations pv) \<noteq> 0" by (auto simp: map_len_0_iff)
  with ann assms(2) [OF s(1)] True host show ?thesis
    by (simp add: GetStorageNodeAffinityFromAnnotation_def annotation_def)
next
  case False
  with assms(1) show ?thesis
    by (auto simp: NewDiscoverer_def generateVolumeNodeAffinity_def CreateLocalPVSpec_def
        localPVConfig_def assms(3) Let_def split: sum.splits option.splits)
qed

definition demo_node_cfg :: RuntimeConfig where
  "demo_node_cfg = demo_cfg\<lparr>uc_Node :=
     \<lparr>node_Name = ''n'', node_UID = ''u'', node_Labels = Some (fmupd NodeLabelKey ''host1'' fmempty),
      node_Addresses = []\<rparr>\<rparr>"

theorem createdPV_pinned_witness:
  "\<exists>dv. NewDiscoverer \<lparr>json_Marshal = (\<lambda>_. Inl (ExtErr ''x'')), json_Unmarshal = (\<lambda>_. Inl (ExtErr ''x''))\<rparr>
           demo_node_cfg = Inr dv
     \<and> pv_NodeAffinity (CreateLocalPVSpec (localPVConfig demo_node_cfg dv [] ''f'' ''fast'' '''' []
           demo_mount 1 ModeFilesystem)) = Some \<lparr>vna_Required = Some (hostnameSelector ''host1'')\<rparr>"
proof -
  let ?j = "\<lparr>json_Marshal = (\<lambda>_. Inl (ExtErr ''x'')), json_Unmarshal = (\<lambda>_. Inl (ExtErr ''x''))\<rparr>"
  obtain dv where dv: "NewDiscoverer ?j demo_node_cfg = Inr dv"
    by (simp add: NewDiscoverer_def demo_node_cfg_def demo_cfg_def generateVolumeNodeAffinity_def)
  from createdPV_pinned [OF dv _ refl, of "[]" "''f''" "''fast''" "''''" "[]" demo_mount 1 ModeFilesystem] dv
  show ?thesis by (simp add: demo_node_cfg_def demo_cfg_def)
qed

text \<open>
  The name of a PV is a hash of the file, node and class names run together, so different
  volumes can get the same name whatever the hash: on node \<open>n\<close>, the file \<open>f\<close> of class \<open>nc\<close>
  and the file \<open>fn\<close> of class \<open>c\<close> do. The second one is then taken for already discovered.
\<close>

theorem generatePVName_collision:
  "generatePVName (f @ n) n c = generatePVName f n (n @ c)
 \<and> generatePVName f n c = generatePVName f' n' c'
     = (hex32 (fnv32a_write New32a (f @ n @ c)) = hex32 (fnv32a_write New32a (f' @ n' @ c')))"
  by (simp add: generatePVName_def fnv32a_write_append Let_def)

end
