(* ===== verification/LVController.thy ===== *)
theory LVController
  imports Discovery
begin

text \<open>
  \<open>local-volume/provisioner\<close>: \<open>pkg/populator/populator.go\<close>, \<open>pkg/controller/controller.go\<close> and
  \<open>cmd/main.go\<close>. The informer's handlers, the wiring of the provisioner, one round of its loop,
  and the provisioner as a state machine in which the loop, the cleaning goroutines, the
  informer and the outside world take turns.
\<close>

section \<open>The populator\<close>

definition handlePVUpdate :: "string \<Rightarrow> PersistentVolume \<Rightarrow> VolumeCache \<Rightarrow> VolumeCache" where
  "handlePVUpdate name pv c =
     (case Cache_GetPV c (pv_Name pv) of
        Some _ \<Rightarrow> Cache_UpdatePV pv c
      | None \<Rightarrow>
          (case fmlookup (pv_Annotations pv) AnnProvisionedBy of
             None \<Rightarrow> c
           | Some provisioner \<Rightarrow> if provisioner = name then Cache_AddPV pv c else c))"

definition handlePVDelete :: "PersistentVolume \<Rightarrow> VolumeCache \<Rightarrow> VolumeCache" where
  "handlePVDelete pv c =
     (case Cache_GetPV c (pv_Name pv) of
        Some _ \<Rightarrow> Cache_DeletePV (pv_Name pv) c
      | None \<Rightarrow> c)"

text \<open>The informer's handlers; an object of another type (\<open>None\<close>) is only logged.\<close>

datatype pv_event =
    Added "PersistentVolume option"
  | Updated "PersistentVolume option"
  | Deleted "PersistentVolume option"

fun onPVEvent :: "string \<Rightarrow> pv_event \<Rightarrow> VolumeCache \<Rightarrow> VolumeCache" where
  "onPVEvent name (Added (Some pv)) c = handlePVUpdate name pv c"
| "onPVEvent name (Updated (Some pv)) c = handlePVUpdate name pv c"
| "onPVEvent name (Deleted (Some pv)) c = handlePVDelete pv c"
| "onPVEvent name (Added None) c = c"
| "onPVEvent name (Updated None) c = c"
| "onPVEvent name (Deleted None) c = c"

lemma onPVEvent_well_keyed: "vcache.well_keyed c \<Longrightarrow> vcache.well_keyed (onPVEvent name ev c)"
  by (cases "(name, ev, c)" rule: onPVEvent.cases)
    (auto simp: handlePVUpdate_def handlePVDelete_def Cache_UpdatePV_eq_Add
      intro: vcache.well_keyed_add vcache.well_keyed_remove split: option.splits)

section \<open>Wiring\<close>

definition provisionerName :: "'a UserConfig_scheme \<Rightarrow> string" where
  "provisionerName config =
     (if uc_UseNodeNameOnly config
      then ''local-volume-provisioner-'' @ node_Name (uc_Node config)
      else ''local-volume-provisioner-'' @ node_Name (uc_Node config) @ ''-'' @ node_UID (uc_Node config))"

definition runtimeConfig :: "UserConfig \<Rightarrow> RuntimeConfig" where
  "runtimeConfig config =
     UserConfig.extend config \<lparr>rc_Name = provisionerName config, rc_BlockDisabled = False\<rparr>"

text \<open>
  \<open>main\<close> up to the start of the controller: the configuration files, the environment variables
  and the node. A \<open>glog.Fatalf\<close> ends the process (\<open>None\<close>).
\<close>

definition initialConfiguration :: ProvisionerConfiguration where
  "initialConfiguration =
     \<lparr>pc_StorageClassConfig = fmempty, pc_NodeLabelsForPV = [], pc_UseAlphaAPI = False,
      pc_UseJobForCleaning = False, pc_MinResyncPeriod = 5 * 60 * 1000000000, pc_UseNodeNameOnly = False\<rparr>"

definition main_config ::
  "(ProvisionerConfiguration \<Rightarrow> error option \<times> ProvisionerConfiguration) \<Rightarrow> (string \<Rightarrow> string) \<Rightarrow>
     (string \<Rightarrow> Node result) \<Rightarrow> UserConfig option" where
  "main_config load Getenv getNode =
     (case load initialConfiguration of
        (Some err, _) \<Rightarrow> None
      | (None, pc) \<Rightarrow>
          (let nodeName = Getenv ''MY_NODE_NAME'' in
           if nodeName = '''' then None
           else
             (let namespace = (if Getenv ''MY_NAMESPACE'' = '''' then ''default''
                               else Getenv ''MY_NAMESPACE'') in
              case getNode nodeName of
                Inl err \<Rightarrow> None
              | Inr node \<Rightarrow>
                  Some \<lparr>uc_Node = node, uc_DiscoveryMap = pc_StorageClassConfig pc,
                        uc_NodeLabelsForPV = pc_NodeLabelsForPV pc,
                        uc_UseAlphaAPI = pc_UseAlphaAPI pc,
                        uc_UseJobForCleaning = pc_UseJobForCleaning pc,
                        uc_Namespace = namespace,
                        uc_JobContainerImage = Getenv ''JOB_CONTAINER_IMAGE'',
                        uc_MinResyncPeriod = pc_MinResyncPeriod pc,
                        uc_UseNodeNameOnly = pc_UseNodeNameOnly pc\<rparr>)))"

text \<open>The state in which the loop starts, and one round of it.\<close>

definition initialWorld ::
  "RuntimeConfig \<Rightarrow> 'l \<Rightarrow> 's \<Rightarrow> 'f \<Rightarrow> int \<Rightarrow> (ProcTableImpl, 'l jobController, 's apiState, 'f) world" where
  "initialWorld cfg index srv fs now =
     \<lparr>w_ptable = NewProcTable,
      w_job = \<lparr>jctl_namespace = uc_Namespace cfg, jctl_index = index\<rparr>,
      w_api = \<lparr>as_server = srv, as_RequestsTotal = fmempty, as_RequestsFailedTotal = fmempty\<rparr>,
      w_cache = NewVolumeCache, w_fs = fs, w_now = now, w_events = [], w_metrics = [], w_tasks = []\<rparr>"

definition controllerRound ::
  "('t, 'j, 'a, 'f) env \<Rightarrow> Discoverer \<Rightarrow> classLister \<Rightarrow> ('f \<Rightarrow> string list result) \<Rightarrow> int list \<Rightarrow>
     string list \<Rightarrow> string list \<Rightarrow> ('t, 'j, 'a, 'f) world \<Rightarrow> ('t, 'j, 'a, 'f) world option" where
  "controllerRound d dv lister mounterList units pvOrder classOrder w = do {
     w \<leftarrow> DeletePVs d pvOrder w;
     DiscoverLocalVolumes d dv lister mounterList units classOrder w
   }"

section \<open>The provisioner as a state machine\<close>

text \<open>
  The steps are smaller than a round, since goroutines and informer events run between them: the
  loop handles one PV (from a listing that may be out of date) or one file; a cleaning goroutine
  finishes; an event arrives; the clock, the file system and the job informer's index change.
\<close>

inductive lv_step ::
  "('t, 'j, 'a, 'f) env \<Rightarrow> ('t, 'j, 'a, 'f) world \<Rightarrow> ('t, 'j, 'a, 'f) world \<Rightarrow> bool"
  for d :: "('t, 'j, 'a, 'f) env" where
  reclaim: "reclaimVolume d pv w = Some w' \<Longrightarrow> lv_step d w w'"
| scan: "discoverFile d dv lister units class config rp mps file w = Some w' \<Longrightarrow> lv_step d w w'"
| finish: "w_tasks w = ts @ tk # us \<Longrightarrow> asyncCleanPV d tk (w\<lparr>w_tasks := ts @ us\<rparr>) = Some w' \<Longrightarrow>
     lv_step d w w'"
| event: "lv_step d w (w\<lparr>w_cache := onPVEvent (rc_Name (e_config d)) ev (w_cache w)\<rparr>)"
| outside: "w_now w \<le> now \<Longrightarrow> lv_step d w (w\<lparr>w_fs := fs, w_job := j, w_now := now\<rparr>)"

inductive_cases lv_stepE: "lv_step d w w'"

text \<open>A round of the loop is a sequence of such steps.\<close>

lemma reclaimVolumes_steps: "reclaimVolumes d pvs w = Some w' \<Longrightarrow> (lv_step d)\<^sup>*\<^sup>* w w'"
proof (induction pvs arbitrary: w)
  case (Cons pv pvs)
  then obtain w1 where one: "reclaimVolume d pv w = Some w1" and rest: "reclaimVolumes d pvs w1 = Some w'"
    by (auto simp: bind_Some_iff)
  from Cons.IH [OF rest] lv_step.reclaim [OF one] show ?case by simp
qed simp

lemma discoverFiles_steps:
  "discoverFiles d dv lister units class config rp mps files w = Some w' \<Longrightarrow> (lv_step d)\<^sup>*\<^sup>* w w'"
proof (induction files arbitrary: w)
  case (Cons f files)
  then obtain w1 where one: "discoverFile d dv lister units class config rp mps f w = Some w1"
    and rest: "discoverFiles d dv lister units class config rp mps files w1 = Some w'"
    by (auto simp: bind_Some_iff)
  from Cons.IH [OF rest] lv_step.scan [OF one] show ?case by simp
qed simp

lemma discoverClasses_steps:
  "discoverClasses d dv lister mounterList units order w = Some w' \<Longrightarrow> (lv_step d)\<^sup>*\<^sup>* w w'"
proof (induction order arbitrary: w)
  case (Cons k order)
  show ?case
  proof (cases "fmlookup (uc_DiscoveryMap (e_config d)) k")
    case None
    with Cons show ?thesis by simp
  next
    case (Some config)
    then obtain w1 where one: "discoverVolumesAtPath d dv lister mounterList units k config w = Some w1"
      and rest: "discoverClasses d dv lister mounterList units order w1 = Some w'"
      using Cons.prems by (auto simp: bind_Some_iff)
    have "(lv_step d)\<^sup>*\<^sup>* w w1"
      using one discoverFiles_steps
      by (auto simp: discoverVolumesAtPath_def split: sum.splits if_splits)
    with Cons.IH [OF rest] show ?thesis by simp
  qed
qed simp

section \<open>Invariants\<close>

context deleter
begin

definition lv_inv :: "('t, 'j, 'a, 'f) world \<Rightarrow> bool" where
  "lv_inv w \<longleftrightarrow> tasks_in_step w \<and> tab.sane (w_ptable w) \<and> vcache.well_keyed (w_cache w)"

lemma deletePV_well_keyed:
  assumes "deletePV d pv w = Some (e, w')" and "vcache.well_keyed (w_cache w)"
  shows "vcache.well_keyed (w_cache w')"
  using assms(1)
proof (cases rule: deletePV_elim)
  case (refused err)
  with assms(2) show ?thesis by simp
next
  case (busy config p m)
  from InProgress_spec(4) [OF busy(4)] assms(2) show ?thesis by simp
next
  case (status config p m w1 w2 st tm err)
  have c2: "w_cache w2 = w_cache w"
    using InProgress_spec(4) [OF status(4)] RemoveStatus_others(2) [OF status(5)] by simp
  from status(6) show ?thesis
  proof
    assume "err \<noteq> None \<and> e = err \<and> w' = w2"
    with c2 assms(2) show ?thesis by simp
  next
    assume "err = None \<and> actOnState d pv config m p (shouldRunJob d m) st tm w2 = (e, w')"
    then have "actOnState d pv config m p (shouldRunJob d m) st tm w2 = (e, w')" by simp
    then show ?thesis
    proof (cases rule: actOnState_cases)
      case deleted
      from deleteCleaned_frame(6) [OF deleted(2)] c2 assms(2) show ?thesis
        using vcache.well_keyed_remove by auto
    next
      case process
      from process(3) show ?thesis by (cases rule: runProcess_cases) (use c2 assms(2) in auto)
    next
      case job
      from job(3) show ?thesis by (cases rule: runJob_cases) (use c2 assms(2) in auto)
    next
      case refused
      with c2 assms(2) show ?thesis by simp
    qed
  qed
qed

lemma reclaimVolume_well_keyed:
  assumes "reclaimVolume d pv w = Some w'" and "vcache.well_keyed (w_cache w)"
  shows "vcache.well_keyed (w_cache w')"
  using assms(1)
proof (cases rule: reclaimVolume_cases)
  case none
  with assms(2) show ?thesis by simp
next
  case (event r)
  with assms(2) show ?thesis by simp
next
  case (deleted w1)
  with deletePV_well_keyed assms(2) show ?thesis by simp
next
  case (failed err w1)
  with deletePV_well_keyed [OF failed(3) assms(2)] deleteFailed_frame(3) [OF failed(4)] show ?thesis
    by simp
qed

lemma discoverFile_well_keyed:
  assumes "discoverFile d dv lister units class config rp mps f w = Some w'"
    and "vcache.well_keyed (w_cache w)"
  shows "vcache.well_keyed (w_cache w')"
  using assms(1)
proof (cases rule: discoverFile_elim)
  case idle
  with assms(2) show ?thesis by simp
next
  case (event pv)
  with assms(2) show ?thesis by simp
next
  case (skipped m b)
  with InProgress_spec(4) [OF skipped(2)] assms(2) show ?thesis by simp
next
  case (created m mo cp w1)
  let ?pv = "CreateLocalPVSpec (localPVConfig (e_config d) dv units f class rp mo config cp (mc_VolumeMode config))"
  obtain r u c where call: "au_CreatePV (e_api d) ?pv (w_api w1, w_cache w1) = (r, u, c)"
    by (metis prod.collapse)
  have "w_cache w1 = w_cache w" using InProgress_spec(4) [OF created(2)] .
  with api.create_well_keyed [OF _ call] assms(2) have "vcache.well_keyed c" by simp
  moreover have "(w_api w', w_cache w') = (u, c)"
    using createPV_api [of d] call created(3) by simp
  ultimately show ?thesis by simp
qed

lemma lv_inv_step: "lv_step d w w' \<Longrightarrow> lv_inv w \<Longrightarrow> lv_inv w'"
proof (induction rule: lv_step.induct)
  case (reclaim pv w w')
  with reclaimVolume_invs(1,2) [OF reclaim.hyps] reclaimVolume_well_keyed [OF reclaim.hyps]
  show ?case by (simp add: lv_inv_def)
next
  case (scan dv lister units k config rp mps f w w')
  note f = discoverFile_frame [OF scan.hyps]
  have "tasks_in_step w'"
    using tasks_in_step_entries [of w' w] f scan.prems by (simp add: lv_inv_def)
  moreover have "tab.sane (w_ptable w')"
    using sane_same [of "w_ptable w'" "w_ptable w"] f scan.prems by (simp add: lv_inv_def)
  ultimately show ?case
    using discoverFile_well_keyed [OF scan.hyps] scan.prems by (simp add: lv_inv_def)
next
  case (finish w ts tk us w')
  have "tasks_in_step w'"
    using asyncCleanPV_tasks(1) [OF _ finish.hyps] finish.prems by (simp add: lv_inv_def)
  moreover have "tab.sane (w_ptable w')"
    using asyncCleanPV_sane [OF _ finish.hyps(2)] finish.prems by (simp add: lv_inv_def)
  moreover have "w_cache w' = w_cache w"
    using finish.hyps(2) cleanPV_frame(3) by (fastforce simp: asyncCleanPV_def bind_Some_iff split: if_splits)
  ultimately show ?case using finish.prems by (simp add: lv_inv_def)
next
  case (event w ev)
  with onPVEvent_well_keyed show ?case
    by (simp add: lv_inv_def tasks_in_step_def status_of_def)
next
  case (outside w now fs j)
  then show ?case by (simp add: lv_inv_def tasks_in_step_def status_of_def)
qed

lemma lv_inv_steps: "(lv_step d)\<^sup>*\<^sup>* w w' \<Longrightarrow> lv_inv w \<Longrightarrow> lv_inv w'"
  by (induction rule: rtranclp_induct) (auto intro: lv_inv_step)

end

section \<open>Properties\<close>

lemma lv_inv_initial: "real.lv_inv (initialWorld cfg index srv fs now)"
  by (simp add: real.lv_inv_def initialWorld_def real.tasks_in_step_def real.status_of_def
      impl_table.sane_def NewProcTable_def vcache.well_keyed_empty)

lemma status_running: "real.status_of n w = Some CSRunning \<longleftrightarrow> IsRunning n (w_ptable w)"
  by (auto simp: real.status_of_def IsRunning_def split: option.splits)

text \<open>
  C2. In every reachable state of the provisioner, whatever the interleaving of loop, goroutines,
  informer and outside world, a PV has at most one cleaning goroutine, the PVs with a
  goroutine are exactly those the process table shows as running, every entry of the table is
  running, failed or succeeded, and the cache files every PV under its own name.
\<close>

theorem one_cleaning_per_PV:
  assumes "(lv_step (localEnv cfg lister parseTime client os ex cap fmt))\<^sup>*\<^sup>*
             (initialWorld cfg index srv fs now) w"
  shows "distinct (map (\<lambda>tk. pv_Name (tk_pv tk)) (w_tasks w))
       \<and> (\<forall>n. (\<exists>tk \<in> set (w_tasks w). pv_Name (tk_pv tk) = n) \<longleftrightarrow> IsRunning n (w_ptable w))
       \<and> (\<forall>n e. fmlookup (procTable (w_ptable w)) n = Some e \<longrightarrow>
            Status e \<in> {CSRunning, CSFailed, CSSucceeded})
       \<and> (\<forall>k pv. Cache_GetPV (w_cache w) k = Some pv \<longrightarrow> pv_Name pv = k)"
proof -
  have "real.lv_inv w" using real.lv_inv_steps [OF assms lv_inv_initial] .
  then have inv: "real.tasks_in_step w" "impl_table.sane (w_ptable w)" "vcache.well_keyed (w_cache w)"
    by (simp_all add: real.lv_inv_def)
  have "(\<exists>tk \<in> set (w_tasks w). pv_Name (tk_pv tk) = n) \<longleftrightarrow> IsRunning n (w_ptable w)" for n
  proof -
    have "n \<in> (\<lambda>tk. pv_Name (tk_pv tk)) ` set (w_tasks w) \<longleftrightarrow>
        (\<exists>tk \<in> set (w_tasks w). pv_Name (tk_pv tk) = n)" by auto
    with inv(1) show ?thesis unfolding real.tasks_in_step_def status_running by simp
  qed
  with inv show ?thesis
    by (auto simp: real.tasks_in_step_def impl_table.sane_def vcache.well_keyed_def)
qed

text \<open>The cleaning of the demonstration PV has started.\<close>

lemma demo_reach:
  "\<exists>w. (lv_step demo_d)\<^sup>*\<^sup>* (initialWorld demo_cfg () () () 0) w
     \<and> reclaimVolume demo_d demo_pv (initialWorld demo_cfg () () () 0) = Some w"
proof -
  have "jobs_wired demo_d" by simp
  moreover have "pv_Local demo_pv \<noteq> None" by (simp add: demo_pv_def)
  ultimately have "reclaimVolume demo_d demo_pv (initialWorld demo_cfg () () () 0) \<noteq> None"
    using reclaimVolume_None [of demo_d demo_pv "initialWorld demo_cfg () () () 0"] by simp
  then obtain w where w: "reclaimVolume demo_d demo_pv (initialWorld demo_cfg () () () 0) = Some w"
    by blast
  with lv_step.reclaim [OF w] show ?thesis by blast
qed

theorem one_cleaning_per_PV_witness:
  "\<exists>w. reclaimVolume demo_d demo_pv (initialWorld demo_cfg () () () 0) = Some w
     \<and> distinct (map (\<lambda>tk. pv_Name (tk_pv tk)) (w_tasks w))"
proof -
  obtain w where w: "(lv_step demo_d)\<^sup>*\<^sup>* (initialWorld demo_cfg () () () 0) w"
    "reclaimVolume demo_d demo_pv (initialWorld demo_cfg () () () 0) = Some w"
    using demo_reach by blast
  from one_cleaning_per_PV [OF w(1)] w(2) show ?thesis by blast
qed

text \<open>
  C3. While a volume is being cleaned its PV is not created again: in every reachable state (with
  process-based cleaning), a scan of a file whose PV name has a cleaning goroutine makes no
  API call.
\<close>

theorem no_PV_while_cleaning:
  assumes "(lv_step (localEnv cfg jobLister parseTime client os ex cap fmt))\<^sup>*\<^sup>*
             (initialWorld cfg index srv fs now) w"
    and "\<not> uc_UseJobForCleaning cfg"
    and "tk \<in> set (w_tasks w)"
    and "pv_Name (tk_pv tk) = generatePVName file (node_Name (uc_Node cfg)) class"
    and "discoverFile (localEnv cfg jobLister parseTime client os ex cap fmt) dv lister units class
           config rp mps file w = Some w'"
  shows "w_api w' = w_api w \<and> w_cache w' = w_cache w"
  using assms(5)
proof (cases rule: discoverFile_elim)
  case (skipped m b)
  from real.InProgress_spec [OF skipped(2)] show ?thesis by simp
next
  case (created m mo cp w1)
  let ?n = "generatePVName file (node_Name (uc_Node cfg)) class"
  have "real.tasks_in_step w"
    using real.lv_inv_steps [OF assms(1) lv_inv_initial] by (simp add: real.lv_inv_def)
  then have "real.status_of ?n w = Some CSRunning"
    using assms(3,4) unfolding real.tasks_in_step_def by (metis image_eqI)
  moreover have "\<not> shouldRunJob (localEnv cfg jobLister parseTime client os ex cap fmt) m"
    using assms(2) by (simp add: shouldRunJob_def)
  ultimately show ?thesis
    using real.InProgress_spec(10) [OF created(2)] by simp
qed simp_all

theorem no_PV_while_cleaning_witness:
  "\<exists>w tk. reclaimVolume demo_d (demo_pv\<lparr>pv_Name := generatePVName ''v'' ''n'' ''fast''\<rparr>)
         (initialWorld demo_cfg () () () 0) = Some w
     \<and> w_tasks w = [tk]
     \<and> (\<forall>dv lister units config rp mps w'.
          discoverFile demo_d dv lister units ''fast'' config rp mps ''v'' w = Some w' \<longrightarrow>
          w_api w' = w_api w)"
proof -
  let ?pv = "demo_pv\<lparr>pv_Name := generatePVName ''v'' ''n'' ''fast''\<rparr>"
  let ?tk = "\<lparr>tk_pv = ?pv, tk_volMode = ModeFilesystem, tk_mountPath = ''/media/v'',
              tk_config = demo_class\<lparr>mc_VolumeMode := ModeFilesystem\<rparr>\<rparr>"
  have path: "GetContainerPath ?pv (demo_class\<lparr>mc_VolumeMode := ModeFilesystem\<rparr>) = Some (Inr ''/media/v'')"
    using demo_path by (auto simp: GetContainerPath_def split: option.splits)
  have pv: "pv_Phase ?pv = VolumeReleased" "pv_ReclaimPolicy ?pv = ReclaimDelete"
    "pv_StorageClassName ?pv = ''fast''" "\<exists>l. pv_Local ?pv = Some l"
    by (simp_all add: demo_pv_def)
  obtain w where w: "reclaimVolume demo_d ?pv (initialWorld demo_cfg () () () 0) = Some w"
    and tk: "w_tasks w = [?tk]"
    using pv path demo_mode
    by (auto simp: reclaimVolume_def deletePV_def getVolMode_def demo_cfg_def shouldRunJob_def
        InProgress_def RemoveStatus_def ProcTableImpl_ops_def IsRunning_def RemoveEntry_def
        initialWorld_def NewProcTable_def actOnState_def runProcess_def MarkRunning_def)
  have "(lv_step demo_d)\<^sup>*\<^sup>* (initialWorld demo_cfg () () () 0) w"
    using lv_step.reclaim [OF w] by simp
  from no_PV_while_cleaning [OF this, of ?tk "''v''" "''fast''"] w tk show ?thesis
    by (auto simp: demo_cfg_def)
qed

text \<open>
  A round of the loop always comes to an end without a panic where every cached PV is a
  local volume, and it is made of the machine's steps, so the invariants hold throughout.
\<close>

theorem controllerRound_runs:
  assumes "\<forall>pv \<in> set (Cache_ListPVs pvOrder (w_cache w)). pv_Local pv \<noteq> None"
    and "d = localEnv cfg jobLister parseTime client os ex cap fmt"
  shows "\<exists>w'. controllerRound d dv lister mounterList units pvOrder classOrder w = Some w'
            \<and> (lv_step d)\<^sup>*\<^sup>* w w'"
proof -
  have wired: "jobs_wired d" by (simp add: assms(2))
  have "reclaimVolumes d (Cache_ListPVs pvOrder (w_cache w)) w \<noteq> None"
    using assms(1) reclaimVolumes_None [OF wired, of "Cache_ListPVs pvOrder (w_cache w)" w]
      reclaimVolume_None [OF wired] by blast
  then obtain w1 where w1: "reclaimVolumes d (Cache_ListPVs pvOrder (w_cache w)) w = Some w1"
    by blast
  obtain w2 where w2: "discoverClasses d dv lister mounterList units classOrder w1 = Some w2"
    using discoverClasses_defined [OF wired] by blast
  from reclaimVolumes_steps [OF w1] discoverClasses_steps [OF w2] have "(lv_step d)\<^sup>*\<^sup>* w w2" by simp
  with w1 w2 show ?thesis
    by (auto simp: controllerRound_def DeletePVs_def DiscoverLocalVolumes_def)
qed

theorem controllerRound_runs_witness:
  "\<exists>w'. controllerRound demo_d \<lparr>di_Labels = fmempty, di_nodeAffinityAnn = '''', di_nodeAffinity = None\<rparr>
          (\<lambda>_. Inl (NotFound ''c'')) (\<lambda>_. Inr []) [] [] [''fast''] (initialWorld demo_cfg () () () 0)
        = Some w'"
proof -
  have "\<forall>pv \<in> set (Cache_ListPVs [] (w_cache (initialWorld demo_cfg () () () 0))). pv_Local pv \<noteq> None"
    by (simp add: Cache_ListPVs_def)
  from controllerRound_runs [OF this refl] show ?thesis by blast
qed

text \<open>
  The cache holds only this provisioner's PVs: whatever the informer reports, in whatever
  order, a PV is cached under a name only if some reported PV of that name carried this
  provisioner's annotation, and not after the last report on that name was a deletion.
\<close>

theorem populator_owns_cache:
  "(Cache_GetPV (fold (onPVEvent name) evs NewVolumeCache) k \<noteq> None \<longrightarrow>
      (\<exists>pv. (Added (Some pv) \<in> set evs \<or> Updated (Some pv) \<in> set evs) \<and> pv_Name pv = k
          \<and> fmlookup (pv_Annotations pv) AnnProvisionedBy = Some name))
 \<and> (pv_Name pv' = k \<longrightarrow> Cache_GetPV (fold (onPVEvent name) (evs @ [Deleted (Some pv')]) NewVolumeCache) k = None)"
proof -
  have step: "Cache_GetPV (onPVEvent name ev c) k \<noteq> None \<Longrightarrow> Cache_GetPV c k \<noteq> None
      \<or> (\<exists>pv. (ev = Added (Some pv) \<or> ev = Updated (Some pv)) \<and> pv_Name pv = k
           \<and> fmlookup (pv_Annotations pv) AnnProvisionedBy = Some name)" for ev c
    by (cases "(name, ev, c)" rule: onPVEvent.cases)
      (auto simp: handlePVUpdate_def handlePVDelete_def split: option.splits if_splits)
  have "Cache_GetPV (fold (onPVEvent name) evs c) k \<noteq> None \<Longrightarrow> Cache_GetPV c k \<noteq> None
      \<or> (\<exists>pv. (Added (Some pv) \<in> set evs \<or> Updated (Some pv) \<in> set evs) \<and> pv_Name pv = k
           \<and> fmlookup (pv_Annotations pv) AnnProvisionedBy = Some name)" for c
  proof (induction evs arbitrary: c)
    case (Cons ev evs)
    then show ?case using step [of ev c] by (simp del: not_None_eq) blast
  qed simp
  from this [of NewVolumeCache] show ?thesis
    by (auto simp: handlePVDelete_def split: option.splits)
qed

theorem populator_owns_cache_witness:
  "Cache_GetPV (fold (onPVEvent ''me'') [Added (Some (zero_PV\<lparr>pv_Name := ''pv''\<rparr>))] NewVolumeCache) ''pv''
     = None"
  using populator_owns_cache [of "''me''" "[Added (Some (zero_PV\<lparr>pv_Name := ''pv''\<rparr>))]" "''pv''" zero_PV]
  by (auto simp: zero_PV_def)

end
