(* ===== verification/SnapTypes.thy ===== *)
theory SnapTypes
  imports K8sTypes
begin

text \<open>
  \<open>snapshot/pkg/apis/crd/v1/types.go\<close>: the resources of the snapshot controller. Times are
  integers (nanoseconds), 0 is the zero time; the metadata are the fields the controller uses.
  A nil map of labels is told apart, since the code tests for it.
\<close>

record SnapshotCondition =
  cond_Type :: string
  cond_Status :: string
  cond_LastTransitionTime :: int
  cond_Reason :: string
  cond_Message :: string

abbreviation ConditionPending :: string where
  "ConditionPending \<equiv> ''Pending''"

abbreviation ConditionReady :: string where
  "ConditionReady \<equiv> ''Ready''"

abbreviation ConditionError :: string where
  "ConditionError \<equiv> ''Error''"

abbreviation ConditionTrue :: string where
  "ConditionTrue \<equiv> ''True''"

abbreviation ConditionUnknown :: string where
  "ConditionUnknown \<equiv> ''Unknown''"

text \<open>The Go package has two condition types with the same fields, one per resource.\<close>

type_synonym VolumeSnapshotCondition = SnapshotCondition
type_synonym VolumeSnapshotDataCondition = SnapshotCondition

record VolumeSnapshot =
  vs_Namespace :: string
  vs_Name :: string
  vs_UID :: string
  vs_Labels :: "(string gomap) option"
  vs_PersistentVolumeClaimName :: string
  vs_SnapshotDataName :: string
  vs_CreationTimestamp :: int
  vs_Conditions :: "VolumeSnapshotCondition list"

record ObjectReference =
  ref_Kind :: string
  ref_Namespace :: string
  ref_Name :: string

record AWSElasticBlockStoreVolumeSnapshotSource =
  ebss_SnapshotID :: string
  ebss_FSType :: string

record VolumeSnapshotDataSource =
  src_HostPath :: "string option"
  src_GlusterSnapshotVolume :: "string option"
  src_AWSElasticBlockStore :: "AWSElasticBlockStoreVolumeSnapshotSource option"
  src_GCEPersistentDiskSnapshot :: "string option"
  src_CinderSnapshot :: "string option"

record VolumeSnapshotDataSpec =
  spec_Source :: VolumeSnapshotDataSource
  spec_VolumeSnapshotRef :: "ObjectReference option"
  spec_PersistentVolumeRef :: "ObjectReference option"

record VolumeSnapshotData =
  vsd_Name :: string
  vsd_Spec :: VolumeSnapshotDataSpec
  vsd_CreationTimestamp :: int
  vsd_Conditions :: "VolumeSnapshotDataCondition list"

definition GetSupportedVolumeFromPVSpec :: "PersistentVolume \<Rightarrow> string" where
  "GetSupportedVolumeFromPVSpec spec =
     (if pv_HostPath spec \<noteq> None then ''hostPath''
      else if pv_AWSElasticBlockStore spec \<noteq> None then ''aws_ebs''
      else if pv_GCEPersistentDisk spec \<noteq> None then ''gce-pd''
      else if pv_Cinder spec \<noteq> None then ''cinder''
      else if pv_Glusterfs spec \<noteq> None then ''glusterfs''
      else '''')"

definition GetSupportedVolumeFromSnapshotDataSpec :: "VolumeSnapshotDataSpec \<Rightarrow> string" where
  "GetSupportedVolumeFromSnapshotDataSpec spec =
     (let src = spec_Source spec in
      if src_HostPath src \<noteq> None then ''hostPath''
      else if src_AWSElasticBlockStore src \<noteq> None then ''aws_ebs''
      else if src_GCEPersistentDiskSnapshot src \<noteq> None then ''gce-pd''
      else if src_CinderSnapshot src \<noteq> None then ''cinder''
      else if src_GlusterSnapshotVolume src \<noteq> None then ''glusterfs''
      else '''')"

text \<open>
  The four \<open>UnmarshalJSON\<close> methods decode into a fresh copy of the type and assign it when
  decoding succeeds; \<open>decode\<close> is the library's decoder of that type.
\<close>

definition UnmarshalJSON :: "('b \<Rightarrow> 'v result) \<Rightarrow> 'b \<Rightarrow> 'v \<Rightarrow> error option \<times> 'v" where
  "UnmarshalJSON decode data v =
     (case decode data of Inl err \<Rightarrow> (Some err, v) | Inr tmp \<Rightarrow> (None, tmp))"

text \<open>Names of the supported volume types: the two functions answer from the same list.\<close>

lemma GetSupportedVolume_names:
  "GetSupportedVolumeFromPVSpec pv \<in> {'''', ''hostPath'', ''aws_ebs'', ''gce-pd'', ''cinder'', ''glusterfs''}"
  "GetSupportedVolumeFromSnapshotDataSpec sp
     \<in> {'''', ''hostPath'', ''aws_ebs'', ''gce-pd'', ''cinder'', ''glusterfs''}"
  by (simp_all add: GetSupportedVolumeFromPVSpec_def GetSupportedVolumeFromSnapshotDataSpec_def Let_def)

end
