(* ===== verification/SnapCache.thy ===== *)
theory SnapCache
  imports SnapTypes
begin

text \<open>
  \<open>snapshot/pkg/controller/cache\<close> and \<open>snapshot/pkg/controller/populator\<close>: the actual and the
  desired state of the world, and the loop that keeps the desired one in step with the
  informer's store. The two worlds have the same representation and differ in what they do with
  a nil snapshot: the desired world answers an error, the actual one panics (\<open>None\<close>).
\<close>

definition MakeSnapshotName :: "VolumeSnapshot \<Rightarrow> string" where
  "MakeSnapshotName snapshot = vs_Namespace snapshot @ ''/'' @ vs_Name snapshot @ ''-'' @ vs_UID snapshot"

section \<open>The actual state of the world\<close>

record actualStateOfWorld =
  asw_snapshots :: "VolumeSnapshot gomap"

definition NewActualStateOfWorld :: actualStateOfWorld where
  "NewActualStateOfWorld = \<lparr>asw_snapshots = fmempty\<rparr>"

definition asw_Add :: "VolumeSnapshot \<Rightarrow> actualStateOfWorld \<Rightarrow> actualStateOfWorld" where
  "asw_Add snapshot asw =
     asw\<lparr>asw_snapshots := fmupd (MakeSnapshotName snapshot) snapshot (asw_snapshots asw)\<rparr>"

definition asw_AddSnapshot :: "VolumeSnapshot option \<Rightarrow> actualStateOfWorld \<Rightarrow> actualStateOfWorld option"
where
  "asw_AddSnapshot snapshot asw = map_option (\<lambda>s. asw_Add s asw) snapshot"

definition asw_DeleteSnapshot :: "string \<Rightarrow> actualStateOfWorld \<Rightarrow> actualStateOfWorld" where
  "asw_DeleteSnapshot snapshotName asw =
     asw\<lparr>asw_snapshots := fmdrop snapshotName (asw_snapshots asw)\<rparr>"

text \<open>A copy of the map, as the pairs its range visits in the order \<open>order\<close>.\<close>

definition pairs_of :: "string list \<Rightarrow> 'v gomap \<Rightarrow> (string \<times> 'v) list" where
  "pairs_of order m = List.map_filter (\<lambda>k. map_option (Pair k) (fmlookup m k)) order"

definition asw_GetSnapshots :: "string list \<Rightarrow> actualStateOfWorld \<Rightarrow> (string \<times> VolumeSnapshot) list" where
  "asw_GetSnapshots order asw = pairs_of order (asw_snapshots asw)"

definition asw_GetSnapshot :: "actualStateOfWorld \<Rightarrow> string \<Rightarrow> VolumeSnapshot option" where
  "asw_GetSnapshot asw snapshotName = fmlookup (asw_snapshots asw) snapshotName"

definition asw_SnapshotExists :: "actualStateOfWorld \<Rightarrow> string \<Rightarrow> bool" where
  "asw_SnapshotExists asw snapshotName \<longleftrightarrow> fmlookup (asw_snapshots asw) snapshotName \<noteq> None"

interpretation asw: keyed_store asw_GetSnapshot asw_Add asw_DeleteSnapshot MakeSnapshotName
  NewActualStateOfWorld
  by unfold_locales
    (simp_all add: asw_GetSnapshot_def asw_Add_def asw_DeleteSnapshot_def NewActualStateOfWorld_def)

section \<open>The desired state of the world\<close>

record desiredStateOfWorld =
  dsw_snapshots :: "VolumeSnapshot gomap"

definition NewDesiredStateOfWorld :: desiredStateOfWorld where
  "NewDesiredStateOfWorld = \<lparr>dsw_snapshots = fmempty\<rparr>"

definition dsw_Add :: "VolumeSnapshot \<Rightarrow> desiredStateOfWorld \<Rightarrow> desiredStateOfWorld" where
  "dsw_Add snapshot dsw =
     dsw\<lparr>dsw_snapshots := fmupd (MakeSnapshotName snapshot) snapshot (dsw_snapshots dsw)\<rparr>"

definition dsw_AddSnapshot ::
  "VolumeSnapshot option \<Rightarrow> desiredStateOfWorld \<Rightarrow> error option \<times> desiredStateOfWorld" where
  "dsw_AddSnapshot snapshot dsw =
     (case snapshot of
        None \<Rightarrow> (Some (Errorf ''nil snapshot spec'' []), dsw)
      | Some s \<Rightarrow> (None, dsw_Add s dsw))"

definition dsw_DeleteSnapshot :: "string \<Rightarrow> desiredStateOfWorld \<Rightarrow> desiredStateOfWorld" where
  "dsw_DeleteSnapshot snapshotName dsw =
     dsw\<lparr>dsw_snapshots := fmdrop snapshotName (dsw_snapshots dsw)\<rparr>"

definition dsw_GetSnapshots :: "string list \<Rightarrow> desiredStateOfWorld \<Rightarrow> (string \<times> VolumeSnapshot) list" where
  "dsw_GetSnapshots order dsw = pairs_of order (dsw_snapshots dsw)"

definition dsw_lookup :: "desiredStateOfWorld \<Rightarrow> string \<Rightarrow> VolumeSnapshot option" where
  "dsw_lookup dsw snapshotName = fmlookup (dsw_snapshots dsw) snapshotName"

definition dsw_SnapshotExists :: "desiredStateOfWorld \<Rightarrow> string \<Rightarrow> bool" where
  "dsw_SnapshotExists dsw snapshotName \<longleftrightarrow> fmlookup (dsw_snapshots dsw) snapshotName \<noteq> None"

interpretation dsw: keyed_store dsw_lookup dsw_Add dsw_DeleteSnapshot MakeSnapshotName
  NewDesiredStateOfWorld
  by unfold_locales
    (simp_all add: dsw_lookup_def dsw_Add_def dsw_DeleteSnapshot_def NewDesiredStateOfWorld_def)

lemma dsw_SnapshotExists_lookup: "dsw_SnapshotExists dsw k \<longleftrightarrow> dsw_lookup dsw k \<noteq> None"
  by (simp add: dsw_SnapshotExists_def dsw_lookup_def)

lemma asw_SnapshotExists_lookup: "asw_SnapshotExists asw k \<longleftrightarrow> asw_GetSnapshot asw k \<noteq> None"
  by (simp add: asw_SnapshotExists_def asw_GetSnapshot_def)

section \<open>The populator\<close>

text \<open>
  The informer's store: \<open>st_Get\<close> answers whether an object with the key of the given one is
  stored, or an error; \<open>st_List\<close> lists the stored objects.
\<close>

record 's store =
  st_Get :: "VolumeSnapshot \<Rightarrow> 's \<Rightarrow> bool result"
  st_List :: "'s \<Rightarrow> VolumeSnapshot list"

record desiredStateOfWorldPopulator =
  dswp_listSnapshotsRetryDuration :: int
  dswp_timeOfLastListSnapshots :: int

definition findAndRemoveDeletedSnapshots ::
  "'s store \<Rightarrow> 's \<Rightarrow> string list \<Rightarrow> desiredStateOfWorld \<Rightarrow> desiredStateOfWorld" where
  "findAndRemoveDeletedSnapshots store s order dsw =
     fold (\<lambda>(snapshotUID, snapshot) dsw.
             case st_Get store snapshot s of
               Inl err \<Rightarrow> dsw
             | Inr exists \<Rightarrow>
                 if \<not> exists then dsw_DeleteSnapshot (MakeSnapshotName snapshot) dsw else dsw)
          (dsw_GetSnapshots order dsw) dsw"

definition findAndAddActiveSnapshots :: "'s store \<Rightarrow> 's \<Rightarrow> desiredStateOfWorld \<Rightarrow> desiredStateOfWorld"
where
  "findAndAddActiveSnapshots store s dsw =
     fold (\<lambda>snapshot dsw.
             if \<not> dsw_SnapshotExists dsw (MakeSnapshotName snapshot)
             then snd (dsw_AddSnapshot (Some snapshot) dsw) else dsw)
          (st_List store s) dsw"

text \<open>\<open>now\<close> is the current time; the time of the last listing is never written by the code.\<close>

definition populatorLoopFunc ::
  "desiredStateOfWorldPopulator \<Rightarrow> 's store \<Rightarrow> int \<Rightarrow> 's \<Rightarrow> string list \<Rightarrow> desiredStateOfWorld \<Rightarrow>
     desiredStateOfWorld" where
  "populatorLoopFunc p store now s order dsw =
     (let dsw = findAndRemoveDeletedSnapshots store s order dsw in
      if now - dswp_timeOfLastListSnapshots p < dswp_listSnapshotsRetryDuration p then dsw
      else findAndAddActiveSnapshots store s dsw)"

subsection \<open>The loops as purge and fill\<close>

lemma pairs_of_Nil [simp]: "pairs_of [] m = []"
  by (simp add: pairs_of_def map_filter_simps)

lemma pairs_of_Cons [simp]:
  "pairs_of (k # ks) m =
     (case fmlookup m k of None \<Rightarrow> pairs_of ks m | Some v \<Rightarrow> (k, v) # pairs_of ks m)"
  by (simp add: pairs_of_def map_filter_simps split: option.splits)

lemma set_pairs_of: "set (pairs_of order m) = {(k, v). k \<in> set order \<and> fmlookup m k = Some v}"
  by (induction order) (auto split: option.splits)

text \<open>The store knows a snapshot of this name in the desired world, or cannot say.\<close>

definition store_keeps :: "'s store \<Rightarrow> 's \<Rightarrow> desiredStateOfWorld \<Rightarrow> string \<Rightarrow> bool" where
  "store_keeps store s dsw k \<longleftrightarrow>
     (case dsw_lookup dsw k of None \<Rightarrow> False | Some snap \<Rightarrow> st_Get store snap s \<noteq> Inr False)"

lemma fold_remove_purge:
  assumes "\<And>k v. (k, v) \<in> set ps \<Longrightarrow> MakeSnapshotName v = k \<and> (keep k \<longleftrightarrow> st_Get store v s \<noteq> Inr False)"
  shows "fold (\<lambda>(u, snapshot) dsw.
             case st_Get store snapshot s of
               Inl err \<Rightarrow> dsw
             | Inr exists \<Rightarrow>
                 if \<not> exists then dsw_DeleteSnapshot (MakeSnapshotName snapshot) dsw else dsw) ps d
       = dsw.purge keep (map fst ps) d"
  using assms
proof (induction ps arbitrary: d)
  case Nil
  show ?case by (simp add: dsw.purge_def)
next
  case (Cons p ps)
  obtain k v where p: "p = (k, v)" by fastforce
  then have kv: "MakeSnapshotName v = k \<and> (keep k \<longleftrightarrow> st_Get store v s \<noteq> Inr False)"
    using Cons.prems [of k v] by simp
  have ih: "fold (\<lambda>(u, snapshot) dsw.
             case st_Get store snapshot s of
               Inl err \<Rightarrow> dsw
             | Inr exists \<Rightarrow>
                 if \<not> exists then dsw_DeleteSnapshot (MakeSnapshotName snapshot) dsw else dsw) ps d'
       = dsw.purge keep (map fst ps) d'" for d'
    by (rule Cons.IH) (use Cons.prems in auto)
  show ?case
    using kv by (cases "st_Get store v s") (simp_all add: p ih dsw.purge_def)
qed

lemma map_fst_pairs_of: "set (map fst (pairs_of order m)) = {k \<in> set order. fmlookup m k \<noteq> None}"
  by (induction order) (auto split: option.splits)

lemma findAndRemove_purge:
  assumes "dsw.well_keyed dsw"
  shows "findAndRemoveDeletedSnapshots store s order dsw =
           dsw.purge (store_keeps store s dsw) (map fst (dsw_GetSnapshots order dsw)) dsw"
  unfolding findAndRemoveDeletedSnapshots_def
proof (rule fold_remove_purge)
  fix k v assume "(k, v) \<in> set (dsw_GetSnapshots order dsw)"
  then have "dsw_lookup dsw k = Some v"
    by (auto simp: dsw_GetSnapshots_def set_pairs_of dsw_lookup_def)
  with assms show "MakeSnapshotName v = k \<and> (store_keeps store s dsw k \<longleftrightarrow> st_Get store v s \<noteq> Inr False)"
    by (simp add: dsw.well_keyed_def store_keeps_def)
qed

lemma findAndAdd_fill: "findAndAddActiveSnapshots store s dsw = dsw.fill (st_List store s) dsw"
proof -
  have "fold (\<lambda>snapshot dsw.
             if \<not> dsw_SnapshotExists dsw (MakeSnapshotName snapshot)
             then snd (dsw_AddSnapshot (Some snapshot) dsw) else dsw) vs d = dsw.fill vs d" for vs d
    by (induction vs arbitrary: d)
      (simp_all add: dsw.fill_def dsw_SnapshotExists_lookup dsw_AddSnapshot_def)
  then show ?thesis by (simp add: findAndAddActiveSnapshots_def)
qed

section \<open>Properties\<close>


definition demo_snap :: VolumeSnapshot where
  "demo_snap =
     \<lparr>vs_Namespace = ''ns'', vs_Name = ''s'', vs_UID = ''1'', vs_Labels = None,
      vs_PersistentVolumeClaimName = ''pvc'', vs_SnapshotDataName = '''', vs_CreationTimestamp = 0,
      vs_Conditions = []\<rparr>"

definition demo_store :: "VolumeSnapshot list store" where
  "demo_store =
     \<lparr>st_Get = (\<lambda>v l. Inr (MakeSnapshotName v \<in> MakeSnapshotName ` set l)), st_List = (\<lambda>l. l)\<rparr>"


end
