(* ===== verification/Snapshotter.thy ===== *)
theory Snapshotter
  imports SnapCache
begin

text \<open>
  \<open>snapshot/pkg/controller/snapshotter/snapshotter.go\<close>: the part that talks to the API server
  and to the volume plugins. The API server, the plugins, the clock and the UUID generator are a
  record of functions (\<open>env\<close>) on a cluster state \<open>'c\<close> chosen by the caller, so that a call may
  fail or change anything outside the controller. The state of an operation is that cluster
  together with the actual world. A panic (nil dereference, index out of range) is \<open>None\<close>.
  Pointers that the code tests or may find nil are options; \<open>*[]Condition\<close> is a list option.
\<close>

abbreviation snapshotMetadataTimeStamp :: string where
  "snapshotMetadataTimeStamp \<equiv> ''SnapshotMetadata-Timestamp''"

abbreviation snapshotMetadataPVName :: string where
  "snapshotMetadataPVName \<equiv> ''SnapshotMetadata-PVName''"

abbreviation snapshotDataNamePrefix :: string where
  "snapshotDataNamePrefix \<equiv> ''k8s-volume-snapshot''"

abbreviation pvNameLabel :: string where
  "pvNameLabel \<equiv> ''pvName''"

abbreviation volumeSnapshotSteps :: nat where
  "volumeSnapshotSteps \<equiv> 20"

abbreviation NamespaceTag :: string where
  "NamespaceTag \<equiv> ''kubernetes.io/created-for/snapshot/namespace''"

abbreviation NameTag :: string where
  "NameTag \<equiv> ''kubernetes.io/created-for/snapshot/name''"

abbreviation UIDTag :: string where
  "UIDTag \<equiv> ''kubernetes.io/created-for/snapshot/uid''"

abbreviation TimestampTag :: string where
  "TimestampTag \<equiv> ''kubernetes.io/created-for/snapshot/timestamp''"

abbreviation statusReady :: string where
  "statusReady \<equiv> ''ready''"

abbreviation statusError :: string where
  "statusError \<equiv> ''error''"

abbreviation statusPending :: string where
  "statusPending \<equiv> ''pending''"

abbreviation statusNew :: string where
  "statusNew \<equiv> ''new''"

section \<open>The environment\<close>

record PersistentVolumeClaim =
  pvc_Phase :: string
  pvc_VolumeName :: string

text \<open>
  The interface \<open>volume.Plugin\<close>, as far as the snapshotter uses it. A plugin may return nil
  pointers without an error.
\<close>

record 'c Plugin =
  pl_SnapshotCreate :: "VolumeSnapshot \<Rightarrow> PersistentVolume \<Rightarrow> string gomap option \<Rightarrow> 'c \<Rightarrow>
    (VolumeSnapshotDataSource option \<times> VolumeSnapshotCondition list option) result \<times> 'c"
  pl_SnapshotDelete :: "VolumeSnapshotDataSource \<Rightarrow> PersistentVolume \<Rightarrow> 'c \<Rightarrow> unit result \<times> 'c"
  pl_DescribeSnapshot :: "VolumeSnapshotData \<Rightarrow> 'c \<Rightarrow> (VolumeSnapshotCondition list option \<times> bool) result \<times> 'c"
  pl_FindSnapshot :: "string gomap option \<Rightarrow> 'c \<Rightarrow>
    (VolumeSnapshotDataSource option \<times> VolumeSnapshotCondition list option) result \<times> 'c"

record 'c snapState =
  sn_cluster :: 'c
  sn_asw :: actualStateOfWorld

text \<open>
  The REST client by resource and verb, the core client, \<open>metav1.Now\<close>, \<open>uuid.NewUUID\<close>, the
  plugins by volume type, and \<open>wait.ExponentialBackoff\<close> (given the number of steps) at the two
  types of closure state the code uses it with. \<open>PersistentVolumes().Get\<close> of the client
  returns a volume also when it fails (an empty one).
\<close>

type_synonym 's condition_func = "'s \<Rightarrow> ((bool \<times> error option) \<times> 's) option"
type_synonym 's backoff_func = "nat \<Rightarrow> 's condition_func \<Rightarrow> 's \<Rightarrow> (error option \<times> 's) option"

record 'c env =
  e_GetSnapshot :: "string \<Rightarrow> string \<Rightarrow> 'c \<Rightarrow> VolumeSnapshot result \<times> 'c"
  e_PutSnapshot :: "string \<Rightarrow> string \<Rightarrow> VolumeSnapshot \<Rightarrow> 'c \<Rightarrow> VolumeSnapshot result \<times> 'c"
  e_ListData :: "'c \<Rightarrow> VolumeSnapshotData list result \<times> 'c"
  e_GetData :: "string \<Rightarrow> 'c \<Rightarrow> VolumeSnapshotData result \<times> 'c"
  e_PutData :: "string \<Rightarrow> VolumeSnapshotData \<Rightarrow> 'c \<Rightarrow> VolumeSnapshotData result \<times> 'c"
  e_PostData :: "VolumeSnapshotData \<Rightarrow> 'c \<Rightarrow> VolumeSnapshotData result \<times> 'c"
  e_DeleteData :: "string \<Rightarrow> 'c \<Rightarrow> unit result \<times> 'c"
  e_GetPVC :: "string \<Rightarrow> string \<Rightarrow> 'c \<Rightarrow> PersistentVolumeClaim result \<times> 'c"
  e_GetPV :: "string \<Rightarrow> 'c \<Rightarrow> (PersistentVolume \<times> error option) \<times> 'c"
  e_Now :: "'c \<Rightarrow> int \<times> 'c"
  e_NewUUID :: "'c \<Rightarrow> string \<times> 'c"
  e_volumePlugins :: "string \<Rightarrow> 'c Plugin option"
  e_Backoff :: "'c snapState backoff_func"
  e_BackoffPost :: "('c \<times> VolumeSnapshotData) backoff_func"

text \<open>
  What \<open>wait.ExponentialBackoff\<close> documents: it checks the condition up to the given number of
  times, an error or success of the condition ends it, and it answers a timeout when the
  condition never became true. It is used as a hypothesis on the two fields.
\<close>

fun polls :: "'s backoff_func" where
  "polls 0 cond s = Some (Some (ExtErr ''timed out waiting for the condition''), s)"
| "polls (Suc n) cond s =
     (case cond s of
        None \<Rightarrow> None
      | Some ((done, err), s') \<Rightarrow> if err \<noteq> None \<or> done then Some (err, s') else polls n cond s')"

definition zero_Snapshot :: VolumeSnapshot where
  "zero_Snapshot =
     \<lparr>vs_Namespace = '''', vs_Name = '''', vs_UID = '''', vs_Labels = None,
      vs_PersistentVolumeClaimName = '''', vs_SnapshotDataName = '''', vs_CreationTimestamp = 0,
      vs_Conditions = []\<rparr>"

definition zero_Condition :: SnapshotCondition where
  "zero_Condition =
     \<lparr>cond_Type = '''', cond_Status = '''', cond_LastTransitionTime = 0, cond_Reason = '''',
      cond_Message = ''''\<rparr>"

definition zero_SnapshotData :: VolumeSnapshotData where
  "zero_SnapshotData =
     \<lparr>vsd_Name = '''',
      vsd_Spec = \<lparr>spec_Source = \<lparr>src_HostPath = None, src_GlusterSnapshotVolume = None,
                   src_AWSElasticBlockStore = None, src_GCEPersistentDiskSnapshot = None,
                   src_CinderSnapshot = None\<rparr>,
                  spec_VolumeSnapshotRef = None, spec_PersistentVolumeRef = None\<rparr>,
      vsd_CreationTimestamp = 0, vsd_Conditions = []\<rparr>"

section \<open>Looking things up\<close>

definition getPVFromVolumeSnapshot ::
  "'c env \<Rightarrow> string \<Rightarrow> VolumeSnapshot \<Rightarrow> 'c \<Rightarrow> PersistentVolume result \<times> 'c" where
  "getPVFromVolumeSnapshot env uniqueSnapshotName snapshot c =
     (let pvcName = vs_PersistentVolumeClaimName snapshot in
      if pvcName = '''' then
        (Inl (Errorf ''The PVC name is not specified in snapshot %s'' [uniqueSnapshotName]), c)
      else
        (case e_GetPVC env (vs_Namespace snapshot) pvcName c of
           (Inl err, c) \<Rightarrow> (Inl (Wrapf ''Failed to retrieve PVC %s from the API server: %q'' [pvcName] err), c)
         | (Inr pvc, c) \<Rightarrow>
             if pvc_Phase pvc \<noteq> ''Bound'' then
               (Inl (Errorf ''The PVC %s not yet bound to a PV, will not attempt to take a snapshot yet''
                       [pvcName]), c)
             else
               (case e_GetPV env (pvc_VolumeName pvc) c of
                  ((pv, Some err), c) \<Rightarrow>
                    (Inl (Wrapf ''Failed to retrieve PV %s from the API server: %q''
                            [pvc_VolumeName pvc] err), c)
                | ((pv, None), c) \<Rightarrow> (Inr pv, c))))"

text \<open>A data object refers to a snapshot by its name, with or without the namespace.\<close>

definition refersTo :: "string \<Rightarrow> VolumeSnapshotData \<Rightarrow> bool" where
  "refersTo uniqueSnapshotName snapData =
     (case spec_VolumeSnapshotRef (vsd_Spec snapData) of
        None \<Rightarrow> False
      | Some r \<Rightarrow> ref_Namespace r @ ''/'' @ ref_Name r = uniqueSnapshotName \<or> ref_Name r = uniqueSnapshotName)"

definition getSnapshotDataFromSnapshotName :: "'c env \<Rightarrow> string \<Rightarrow> 'c \<Rightarrow> VolumeSnapshotData option \<times> 'c"
where
  "getSnapshotDataFromSnapshotName env uniqueSnapshotName c =
     (case e_ListData env c of
        (Inl err, c) \<Rightarrow> (None, c)
      | (Inr items, c) \<Rightarrow> (List.find (refersTo uniqueSnapshotName) items, c))"

definition getSnapshotDataFromSnapshot ::
  "'c env \<Rightarrow> VolumeSnapshot \<Rightarrow> 'c \<Rightarrow> VolumeSnapshotData result \<times> 'c" where
  "getSnapshotDataFromSnapshot env snapshot c =
     (let snapshotDataName = vs_SnapshotDataName snapshot in
      if snapshotDataName = '''' then
        (Inl (Errorf ''Could not find snapshot data object: SnapshotDataName in snapshot spec is empty'' []), c)
      else
        (case e_GetData env snapshotDataName c of
           (Inl err, c) \<Rightarrow> (Inl (Wrapf ''Could not get snapshot data object %s: %v'' [snapshotDataName] err), c)
         | (Inr d, c) \<Rightarrow> (Inr d, c)))"

text \<open>The plugin for a volume type; \<open>kind\<close> is the word the message uses for the object.\<close>

definition pluginFor :: "'c env \<Rightarrow> string \<Rightarrow> string \<Rightarrow> 'c Plugin result" where
  "pluginFor env unsupported volumeType =
     (if length volumeType = 0 then Inl (Errorf unsupported [])
      else (case e_volumePlugins env volumeType of
              None \<Rightarrow> Inl (Errorf ''%s is not supported volume for %#v'' [volumeType])
            | Some plugin \<Rightarrow> Inr plugin))"

definition getPlugin :: "'c env \<Rightarrow> string \<Rightarrow> VolumeSnapshot \<Rightarrow> 'c \<Rightarrow> 'c Plugin result \<times> 'c" where
  "getPlugin env uniqueSnapshotName snapshot c =
     (case getPVFromVolumeSnapshot env uniqueSnapshotName snapshot c of
        (Inl err, c) \<Rightarrow> (Inl err, c)
      | (Inr pv, c) \<Rightarrow>
          (pluginFor env ''Unsupported volume type found in PV %#v'' (GetSupportedVolumeFromPVSpec pv), c))"

definition getSimplifiedSnapshotStatus :: "VolumeSnapshotCondition list \<Rightarrow> string" where
  "getSimplifiedSnapshotStatus conditions =
     (if length conditions = 0 then statusNew
      else
        let lastCondition = conditions ! (length conditions - 1) in
        if cond_Type lastCondition = ConditionReady \<and> cond_Status lastCondition = ConditionTrue then statusReady
        else if cond_Type lastCondition = ConditionError then statusError
        else if cond_Type lastCondition = ConditionPending \<and>
                (cond_Status lastCondition = ConditionTrue \<or> cond_Status lastCondition = ConditionUnknown)
        then statusPending
        else statusNew)"

text \<open>
  The function returns the address of its local map: the outer option is the pointer, which is
  never nil, the inner one the map, which is nil when the snapshot has no time stamp label.
\<close>

definition cloudTags :: "string \<Rightarrow> string \<Rightarrow> string \<Rightarrow> string \<Rightarrow> string gomap" where
  "cloudTags ns name uid timestamp =
     fmupd TimestampTag timestamp (fmupd UIDTag uid (fmupd NameTag name (fmupd NamespaceTag ns fmempty)))"

definition findVolumeSnapshotMetadata :: "VolumeSnapshot \<Rightarrow> string gomap option option" where
  "findVolumeSnapshotMetadata snapshot =
     Some (if vs_Name snapshot \<noteq> '''' \<and> vs_Namespace snapshot \<noteq> '''' \<and> vs_UID snapshot \<noteq> '''' then
             (case vs_Labels snapshot of
                None \<Rightarrow> None
              | Some labels \<Rightarrow>
                  (case fmlookup labels snapshotMetadataTimeStamp of
                     None \<Rightarrow> None
                   | Some timestamp \<Rightarrow>
                       Some (cloudTags (vs_Namespace snapshot) (vs_Name snapshot) (vs_UID snapshot) timestamp)))
           else None)"

definition findSnapshotByTags :: "'c env \<Rightarrow> string \<Rightarrow> VolumeSnapshot \<Rightarrow> 'c \<Rightarrow>
    (VolumeSnapshotDataSource option \<times> VolumeSnapshotCondition list option) result \<times> 'c" where
  "findSnapshotByTags env uniqueSnapshotName snapshot c =
     (case findVolumeSnapshotMetadata snapshot of
        None \<Rightarrow> (Inl (Errorf ''No metadata found in snapshot %s'' [uniqueSnapshotName]), c)
      | Some tags \<Rightarrow>
          (case getPlugin env uniqueSnapshotName snapshot c of
             (Inl err, c) \<Rightarrow>
               (Inl (Errorf ''Failed to get volume plugin to create snapshot %s'' [uniqueSnapshotName]), c)
           | (Inr plugin, c) \<Rightarrow> pl_FindSnapshot plugin tags c))"

section \<open>Writing status, metadata and binding\<close>

text \<open>
  Both status updates merge one condition into the history in the same way: a condition of
  another type is appended, one of the type of the last condition replaces it and keeps its
  transition time when the status did not change. The result is the condition as written, the
  new history and whether nothing changed.
\<close>

definition mergeCondition ::
  "SnapshotCondition \<Rightarrow> SnapshotCondition list \<Rightarrow> SnapshotCondition \<times> SnapshotCondition list \<times> bool" where
  "mergeCondition newCondition conditions =
     (if length conditions = 0 \<or> cond_Type newCondition \<noteq> cond_Type (conditions ! (length conditions - 1)) then
        (newCondition, conditions @ [newCondition], False)
      else
        let oldCondition = conditions ! (length conditions - 1);
            newCondition =
              (if cond_Status newCondition = cond_Status oldCondition
               then newCondition\<lparr>cond_LastTransitionTime := cond_LastTransitionTime oldCondition\<rparr>
               else newCondition)
        in (newCondition, conditions[length conditions - 1 := newCondition],
            cond_Type newCondition = cond_Type oldCondition \<and>
            cond_Status newCondition = cond_Status oldCondition \<and>
            cond_Reason newCondition = cond_Reason oldCondition \<and>
            cond_Message newCondition = cond_Message oldCondition \<and>
            cond_LastTransitionTime newCondition = cond_LastTransitionTime oldCondition))"

definition propagateVolumeSnapshotCondition ::
  "'c env \<Rightarrow> string \<Rightarrow> VolumeSnapshotCondition \<Rightarrow> 'c \<Rightarrow> error option \<times> 'c" where
  "propagateVolumeSnapshotCondition env snapshotDataName condition c =
     (case e_GetData env snapshotDataName c of
        (Inl err, c) \<Rightarrow> (Some err, c)
      | (Inr snapshotDataObj, c) \<Rightarrow>
          let (newCondition, conditions, isEqual) =
                mergeCondition (condition\<lparr>cond_Reason := ''''\<rparr>) (vsd_Conditions snapshotDataObj)
          in if \<not> isEqual then
               let snapshotDataObj = snapshotDataObj\<lparr>vsd_Conditions := conditions\<rparr>;
                   snapshotDataObj =
                     (if vsd_CreationTimestamp snapshotDataObj = 0 \<and> cond_Type newCondition = ConditionReady
                      then snapshotDataObj\<lparr>vsd_CreationTimestamp := cond_LastTransitionTime newCondition\<rparr>
                      else snapshotDataObj)
               in (case e_PutData env snapshotDataName snapshotDataObj c of
                     (Inl err, c) \<Rightarrow> (Some err, c)
                   | (Inr r, c) \<Rightarrow> (None, c))
             else (None, c))"

definition UpdateVolumeSnapshotStatus ::
  "'c env \<Rightarrow> VolumeSnapshot \<Rightarrow> VolumeSnapshotCondition \<Rightarrow> 'c \<Rightarrow> VolumeSnapshot result \<times> 'c" where
  "UpdateVolumeSnapshotStatus env snapshot condition c =
     (case e_GetSnapshot env (vs_Namespace snapshot) (vs_Name snapshot) c of
        (Inl err, c) \<Rightarrow> (Inl err, c)
      | (Inr snapshotObj, c) \<Rightarrow>
          let (newCondition, conditions, isEqual) = mergeCondition condition (vs_Conditions snapshotObj)
          in if \<not> isEqual then
               let snapshotObj = snapshotObj\<lparr>vs_Conditions := conditions\<rparr>
               in (case e_PutSnapshot env (vs_Namespace snapshot) (vs_Name snapshot) snapshotObj c of
                     (Inl err, c) \<Rightarrow> (Inl err, c)
                   | (Inr newSnapshotObj, c) \<Rightarrow>
                       (case propagateVolumeSnapshotCondition env (vs_SnapshotDataName snapshotObj)
                               (vs_Conditions snapshotObj ! (length (vs_Conditions snapshotObj) - 1)) c of
                          (Some err, c) \<Rightarrow> (Inl err, c)
                        | (None, c) \<Rightarrow> (Inr newSnapshotObj, c)))
             else (Inr snapshot, c))"

text \<open>The error of the read is overwritten by that of the write and never looked at.\<close>

definition bindandUpdateVolumeSnapshot ::
  "'c env \<Rightarrow> VolumeSnapshot \<Rightarrow> string \<Rightarrow> VolumeSnapshotCondition list option \<Rightarrow> 'c \<Rightarrow>
     VolumeSnapshot result \<times> 'c" where
  "bindandUpdateVolumeSnapshot env snapshot snapshotDataName status c =
     (let (got, c) = e_GetSnapshot env (vs_Namespace snapshot) (vs_Name snapshot) c;
          snapshotObj = (case got of Inl err \<Rightarrow> zero_Snapshot | Inr s \<Rightarrow> s);
          uniqueSnapshotName = MakeSnapshotName snapshot;
          snapshotCopy = snapshotObj\<lparr>vs_SnapshotDataName := snapshotDataName\<rparr>;
          snapshotCopy = (case status of None \<Rightarrow> snapshotCopy
                          | Some conditions \<Rightarrow> snapshotCopy\<lparr>vs_Conditions := conditions\<rparr>)
      in (case e_PutSnapshot env (vs_Namespace snapshot) (vs_Name snapshot) snapshotCopy c of
            (Inl err, c) \<Rightarrow>
              (Inl (Wrapf ''Error updating snapshot object %s on the API server: %v'' [uniqueSnapshotName] err), c)
          | (Inr result, c) \<Rightarrow> (Inr result, c)))"

definition labelOf :: "string \<Rightarrow> string gomap option \<Rightarrow> string" where
  "labelOf k labels =
     (case labels of None \<Rightarrow> '''' | Some m \<Rightarrow> (case fmlookup m k of None \<Rightarrow> '''' | Some v \<Rightarrow> v))"

definition updateVolumeSnapshotMetadata ::
  "'c env \<Rightarrow> VolumeSnapshot \<Rightarrow> string \<Rightarrow> 'c \<Rightarrow> string gomap result \<times> 'c" where
  "updateVolumeSnapshotMetadata env snapshot pvName c =
     (case e_GetSnapshot env (vs_Namespace snapshot) (vs_Name snapshot) c of
        (Inl err, c) \<Rightarrow>
          (Inl (Wrapf ''Error retrieving VolumeSnapshot %s from API server: %v'' [vs_Name snapshot] err), c)
      | (Inr snapshotObj, c) \<Rightarrow>
          let labels = (case vs_Labels snapshotObj of None \<Rightarrow> fmempty | Some m \<Rightarrow> m);
              (now, c) = e_Now env c;
              labels = fmupd snapshotMetadataTimeStamp (FormatInt now) labels;
              labels = fmupd snapshotMetadataPVName pvName labels;
              snapshotCopy = snapshotObj\<lparr>vs_Labels := Some labels\<rparr>
          in (case e_PutSnapshot env (vs_Namespace snapshot) (vs_Name snapshot) snapshotCopy c of
                (Inl err, c) \<Rightarrow>
                  (Inl (Wrapf ''Error updating snapshot object %s/%s on the API server: %v''
                          [vs_Namespace snapshot, vs_Name snapshot] err), c)
              | (Inr result, c) \<Rightarrow>
                  (Inr (cloudTags (vs_Namespace result) (vs_Name result) (vs_UID result)
                          (labelOf snapshotMetadataTimeStamp (vs_Labels result))), c)))"

section \<open>Taking, recording and deleting a snapshot\<close>

text \<open>An error of the plugin is logged and answered as nil pointers without an error.\<close>

definition takeSnapshot :: "'c env \<Rightarrow> VolumeSnapshot \<Rightarrow> PersistentVolume \<Rightarrow> string gomap option \<Rightarrow> 'c \<Rightarrow>
    (VolumeSnapshotDataSource option \<times> VolumeSnapshotCondition list option) result \<times> 'c" where
  "takeSnapshot env snapshot pv tags c =
     (case pluginFor env ''unsupported volume type found in PV %#v'' (GetSupportedVolumeFromPVSpec pv) of
        Inl err \<Rightarrow> (Inl err, c)
      | Inr plugin \<Rightarrow>
          (case pl_SnapshotCreate plugin snapshot pv tags c of
             (Inl err, c) \<Rightarrow> (Inr (None, None), c)
           | (Inr r, c) \<Rightarrow> (Inr r, c)))"

definition deleteSnapshot :: "'c env \<Rightarrow> VolumeSnapshotDataSpec \<Rightarrow> 'c \<Rightarrow> (error option \<times> 'c) option" where
  "deleteSnapshot env spec c =
     (case pluginFor env ''unsupported volume type found in VolumeSnapshotData %#v''
             (GetSupportedVolumeFromSnapshotDataSpec spec) of
        Inl err \<Rightarrow> Some (Some err, c)
      | Inr plugin \<Rightarrow>
          (case spec_PersistentVolumeRef spec of
             None \<Rightarrow> None
           | Some r \<Rightarrow>
               let ((pv, err), c) = e_GetPV env (ref_Name r) c
               in (case pl_SnapshotDelete plugin (spec_Source spec) pv c of
                     (Inl err, c) \<Rightarrow> Some (Some (Wrapf ''failed to delete snapshot %#v, err: %v'' [] err), c)
                   | (Inr _, c) \<Rightarrow> Some (None, c))))"

definition lastDataCondition :: "int \<Rightarrow> VolumeSnapshotCondition list option \<Rightarrow> VolumeSnapshotDataCondition" where
  "lastDataCondition now snapStatus =
     (case snapStatus of
        None \<Rightarrow> zero_Condition
      | Some conditions \<Rightarrow>
          if length conditions > 0 then
            let last = conditions ! (length conditions - 1)
            in \<lparr>cond_Type = cond_Type last, cond_Status = cond_Status last, cond_LastTransitionTime = now,
                cond_Reason = '''', cond_Message = cond_Message last\<rparr>
          else zero_Condition)"

definition newSnapshotData ::
  "string \<Rightarrow> string \<Rightarrow> string \<Rightarrow> VolumeSnapshotDataSource \<Rightarrow> VolumeSnapshotDataCondition \<Rightarrow> VolumeSnapshotData"
where
  "newSnapshotData snapDataName uniqueSnapshotName pvName source lastCondition =
     \<lparr>vsd_Name = snapDataName,
      vsd_Spec = \<lparr>spec_Source = source,
                  spec_VolumeSnapshotRef =
                    Some \<lparr>ref_Kind = ''VolumeSnapshot'', ref_Namespace = '''', ref_Name = uniqueSnapshotName\<rparr>,
                  spec_PersistentVolumeRef =
                    Some \<lparr>ref_Kind = ''PersistentVolume'', ref_Namespace = '''', ref_Name = pvName\<rparr>\<rparr>,
      vsd_CreationTimestamp = 0, vsd_Conditions = [lastCondition]\<rparr>"

text \<open>The closure given to the back-off; its state is the cluster and the variable \<open>result\<close>.\<close>

definition postData :: "'c env \<Rightarrow> VolumeSnapshotData \<Rightarrow> ('c \<times> VolumeSnapshotData) condition_func" where
  "postData env snapshotData = (\<lambda>(c, result).
     case e_PostData env snapshotData c of
       (Inl err, c) \<Rightarrow> Some ((False, Some err), (c, result))
     | (Inr r, c) \<Rightarrow> Some ((True, None), (c, r)))"

text \<open>
  A nil source is dereferenced when the object is built. The time is read when there is a
  condition to stamp.
\<close>

definition createVolumeSnapshotData ::
  "'c env \<Rightarrow> string \<Rightarrow> string \<Rightarrow> VolumeSnapshotDataSource option \<Rightarrow> VolumeSnapshotCondition list option \<Rightarrow> 'c \<Rightarrow>
     (VolumeSnapshotData result \<times> 'c) option" where
  "createVolumeSnapshotData env uniqueSnapshotName pvName snapshotDataSource snapStatus c =
     (let (now, c) = (if snapStatus = None \<or> snapStatus = Some [] then (0, c) else e_Now env c);
          lastCondition = lastDataCondition now snapStatus;
          (uuid, c) = e_NewUUID env c;
          snapDataName = snapshotDataNamePrefix @ ''-'' @ uuid
      in (case snapshotDataSource of
            None \<Rightarrow> None
          | Some source \<Rightarrow>
              (case e_BackoffPost env volumeSnapshotSteps
                      (postData env (newSnapshotData snapDataName uniqueSnapshotName pvName source lastCondition))
                      (c, zero_SnapshotData) of
                 None \<Rightarrow> None
               | Some (Some err, (c, result)) \<Rightarrow>
                   Some (Inl (Errorf ''Failed to create the VolumeSnapshotData %s for snapshot %s''
                                [snapDataName, uniqueSnapshotName]), c)
               | Some (None, (c, result)) \<Rightarrow> Some (Inr result, c))))"

section \<open>Waiting for the backend\<close>

definition pollSnapshot ::
  "'c env \<Rightarrow> 'c Plugin \<Rightarrow> string \<Rightarrow> VolumeSnapshot \<Rightarrow> VolumeSnapshotData \<Rightarrow> 'c snapState condition_func" where
  "pollSnapshot env plugin uniqueSnapshotName snapshotObj snapshotDataObj = (\<lambda>s.
     case pl_DescribeSnapshot plugin snapshotDataObj (sn_cluster s) of
       (Inl err, c) \<Rightarrow> Some ((False, None), s\<lparr>sn_cluster := c\<rparr>)
     | (Inr (None, isCompleted), c) \<Rightarrow> None
     | (Inr (Some conditions, isCompleted), c) \<Rightarrow>
         let newstatus = getSimplifiedSnapshotStatus conditions
         in if length conditions = 0 then None
            else
              let lastCondition = conditions ! (length conditions - 1);
                  (updated, c) = UpdateVolumeSnapshotStatus env snapshotObj lastCondition c;
                  newSnapshot = (case updated of Inl err \<Rightarrow> None | Inr n \<Rightarrow> Some n);
                  s = s\<lparr>sn_cluster := c\<rparr>
              in if newstatus = statusReady then
                   (case asw_AddSnapshot newSnapshot (sn_asw s) of
                      None \<Rightarrow> None
                    | Some asw \<Rightarrow> Some ((True, None), s\<lparr>sn_asw := asw\<rparr>))
                 else if newstatus = statusError then
                   Some ((True, Some (Errorf ''Failed to create snapshot %s'' [uniqueSnapshotName])), s)
                 else Some ((False, None), s))"

definition waitForSnapshot ::
  "'c env \<Rightarrow> string \<Rightarrow> VolumeSnapshot \<Rightarrow> VolumeSnapshotData option \<Rightarrow> 'c snapState \<Rightarrow>
     (error option \<times> 'c snapState) option" where
  "waitForSnapshot env uniqueSnapshotName snapshotObj snapshotDataPtr s =
     (case snapshotDataPtr of
        None \<Rightarrow> Some (Some (Errorf ''Failed to update VolumeSnapshot for snapshot %s: no VolumeSnapshotData''
                              [uniqueSnapshotName]), s)
      | Some snapshotDataObj \<Rightarrow>
          (case pluginFor env ''unsupported volume type found in snapshot %#v''
                  (GetSupportedVolumeFromSnapshotDataSpec (vsd_Spec snapshotDataObj)) of
             Inl err \<Rightarrow> Some (Some err, s)
           | Inr plugin \<Rightarrow>
               e_Backoff env volumeSnapshotSteps
                 (pollSnapshot env plugin uniqueSnapshotName snapshotObj snapshotDataObj) s))"

section \<open>Creating\<close>

definition createSnapshot ::
  "'c env \<Rightarrow> string \<Rightarrow> VolumeSnapshot \<Rightarrow> 'c snapState \<Rightarrow> (error option \<times> 'c snapState) option" where
  "createSnapshot env uniqueSnapshotName snapshot s =
     (case getPVFromVolumeSnapshot env uniqueSnapshotName snapshot (sn_cluster s) of
        (Inl err, c) \<Rightarrow> Some (Some err, s\<lparr>sn_cluster := c\<rparr>)
      | (Inr pv, c) \<Rightarrow>
     (case updateVolumeSnapshotMetadata env snapshot (pv_Name pv) c of
        (Inl err, c) \<Rightarrow>
          Some (Some (Wrapf ''Failed to update metadata for volume snapshot %s: %q'' [uniqueSnapshotName] err),
                s\<lparr>sn_cluster := c\<rparr>)
      | (Inr tags, c) \<Rightarrow>
     (case takeSnapshot env snapshot pv (Some tags) c of
        (Inl err, c) \<Rightarrow>
          Some (Some (Wrapf ''Failed to take snapshot of the volume %s: %q'' [pv_Name pv] err), s\<lparr>sn_cluster := c\<rparr>)
      | (Inr (None, snapStatus), c) \<Rightarrow>
          Some (Some (Errorf ''Failed to take snapshot of the volume %s: %q'' [pv_Name pv]), s\<lparr>sn_cluster := c\<rparr>)
      | (Inr (Some source, snapStatus), c) \<Rightarrow>
     (case createVolumeSnapshotData env uniqueSnapshotName (pv_Name pv) (Some source) snapStatus c of
        None \<Rightarrow> None
      | Some (Inl err, c) \<Rightarrow> Some (Some err, s\<lparr>sn_cluster := c\<rparr>)
      | Some (Inr snapshotDataObj, c) \<Rightarrow>
     (case bindandUpdateVolumeSnapshot env snapshot (vsd_Name snapshotDataObj) snapStatus c of
        (Inl err, c) \<Rightarrow>
          Some (Some (Errorf ''Failed to update VolumeSnapshot for snapshot %s'' [uniqueSnapshotName]),
                s\<lparr>sn_cluster := c\<rparr>)
      | (Inr snapshotObj, c) \<Rightarrow>
     (case waitForSnapshot env uniqueSnapshotName snapshotObj (Some snapshotDataObj) (s\<lparr>sn_cluster := c\<rparr>) of
        None \<Rightarrow> None
      | Some (Some err, s) \<Rightarrow>
          Some (Some (Wrapf ''Failed to create snapshot %s with error %v'' [uniqueSnapshotName] err), s)
      | Some (None, s) \<Rightarrow> Some (None, s)))))))"

text \<open>The answer is the status, the snapshot to go on with (may be nil) and the error.\<close>

definition updateSnapshotIfExists ::
  "'c env \<Rightarrow> string \<Rightarrow> VolumeSnapshot \<Rightarrow> 'c \<Rightarrow> ((string \<times> VolumeSnapshot option \<times> error option) \<times> 'c) option"
where
  "updateSnapshotIfExists env uniqueSnapshotName snapshot c =
     (let snapshotName = vs_Name snapshot in
      if findVolumeSnapshotMetadata snapshot = None then Some ((statusNew, Some snapshot, None), c)
      else
        (case getSnapshotDataFromSnapshotName env uniqueSnapshotName c of
           (Some snapshotDataObj, c) \<Rightarrow>
             (case bindandUpdateVolumeSnapshot env snapshot (vsd_Name snapshotDataObj) None c of
                (Inl err, c) \<Rightarrow> Some ((statusError, Some snapshot, Some err), c)
              | (Inr snapshotObj, c) \<Rightarrow> Some ((statusPending, Some snapshotObj, None), c))
         | (None, c) \<Rightarrow>
        (case findSnapshotByTags env snapshotName snapshot c of
           (Inl err, c) \<Rightarrow> Some ((statusNew, Some snapshot, None), c)
         | (Inr (snapshotDataSource, conditions), c) \<Rightarrow>
        (case (case vs_Labels snapshot of None \<Rightarrow> None | Some labels \<Rightarrow> fmlookup labels pvNameLabel) of
           None \<Rightarrow>
             Some ((statusError, Some snapshot,
                    Some (Errorf ''Could not find pv name from snapshot, this should not happen.'' [])), c)
         | Some pvName \<Rightarrow>
        (case createVolumeSnapshotData env snapshotName pvName snapshotDataSource conditions c of
           None \<Rightarrow> None
         | Some (Inl err, c) \<Rightarrow> Some ((statusError, Some snapshot, Some err), c)
         | Some (Inr snapshotDataObj, c) \<Rightarrow>
        (case bindandUpdateVolumeSnapshot env snapshot (vsd_Name snapshotDataObj) conditions c of
           (Inl err, c) \<Rightarrow> Some ((statusError, None, Some err), c)
         | (Inr snapshotObj, c) \<Rightarrow> Some ((statusPending, Some snapshotObj, None), c)))))))"

text \<open>
  \<open>snapshotObj\<close> is dereferenced in the cases pending and new; it is nil only with the status
  error. The ready case adds the snapshot the operation was started with.
\<close>

definition actOnStatus ::
  "'c env \<Rightarrow> string \<Rightarrow> VolumeSnapshot \<Rightarrow> string \<Rightarrow> VolumeSnapshot option \<Rightarrow> 'c snapState \<Rightarrow>
     (error option \<times> 'c snapState) option" where
  "actOnStatus env uniqueSnapshotName snapshot status snapshotPtr s =
     (if status = statusReady then
        (case asw_AddSnapshot (Some snapshot) (sn_asw s) of
           None \<Rightarrow> None
         | Some asw \<Rightarrow> Some (None, s\<lparr>sn_asw := asw\<rparr>))
      else if status = statusError then
        Some (Some (Errorf ''Error creating snapshot %s'' [uniqueSnapshotName]), s)
      else if status = statusPending then
        (case snapshotPtr of
           None \<Rightarrow> None
         | Some snapshotObj \<Rightarrow>
             (case getSnapshotDataFromSnapshot env snapshotObj (sn_cluster s) of
                (Inl err, c) \<Rightarrow> Some (Some (Wrapf ''Failed to find snapshot %v'' [] err), s\<lparr>sn_cluster := c\<rparr>)
              | (Inr snapshotDataObj, c) \<Rightarrow>
                  (case waitForSnapshot env uniqueSnapshotName snapshotObj (Some snapshotDataObj)
                          (s\<lparr>sn_cluster := c\<rparr>) of
                     None \<Rightarrow> None
                   | Some (Some err, s) \<Rightarrow>
                       Some (Some (Wrapf ''Failed to check snapshot state %s with error %v''
                                     [uniqueSnapshotName] err), s)
                   | Some (None, s) \<Rightarrow> Some (None, s))))
      else if status = statusNew then
        (case snapshotPtr of
           None \<Rightarrow> None
         | Some snapshotObj \<Rightarrow> createSnapshot env uniqueSnapshotName snapshotObj s)
      else
        Some (Some (Errorf ''Error occurred when creating snapshot %s, unknown status %s''
                      [uniqueSnapshotName, status]), s))"

definition syncSnapshot ::
  "'c env \<Rightarrow> string \<Rightarrow> VolumeSnapshot \<Rightarrow> 'c snapState \<Rightarrow> (error option \<times> 'c snapState) option" where
  "syncSnapshot env uniqueSnapshotName snapshot s =
     (let status = getSimplifiedSnapshotStatus (vs_Conditions snapshot) in
      if status = statusNew then
        (case updateSnapshotIfExists env uniqueSnapshotName snapshot (sn_cluster s) of
           None \<Rightarrow> None
         | Some ((status, snapshotPtr, err), c) \<Rightarrow>
             actOnStatus env uniqueSnapshotName snapshot status snapshotPtr (s\<lparr>sn_cluster := c\<rparr>))
      else actOnStatus env uniqueSnapshotName snapshot status (Some snapshot) s)"

section \<open>Deleting, and the operations\<close>

definition getSnapshotDeleteFunc ::
  "'c env \<Rightarrow> string \<Rightarrow> VolumeSnapshot \<Rightarrow> 'c snapState \<Rightarrow> (error option \<times> 'c snapState) option" where
  "getSnapshotDeleteFunc env uniqueSnapshotName snapshot s =
     (case getSnapshotDataFromSnapshot env snapshot (sn_cluster s) of
        (Inl err, c) \<Rightarrow>
          Some (Some (Wrapf ''Error getting VolumeSnapshotData for VolumeSnapshot %s with error %v''
                        [uniqueSnapshotName] err), s\<lparr>sn_cluster := c\<rparr>)
      | (Inr snapshotDataObj, c) \<Rightarrow>
     (case deleteSnapshot env (vsd_Spec snapshotDataObj) c of
        None \<Rightarrow> None
      | Some (Some err, c) \<Rightarrow>
          Some (Some (Wrapf ''Failed to delete snapshot %s: %q'' [uniqueSnapshotName] err), s\<lparr>sn_cluster := c\<rparr>)
      | Some (None, c) \<Rightarrow>
     (case e_DeleteData env (vsd_Name snapshotDataObj) c of
        (Inl err, c) \<Rightarrow>
          Some (Some (Wrapf ''Failed to delete VolumeSnapshotData %s from API server: %q''
                        [vsd_Name snapshotDataObj] err), s\<lparr>sn_cluster := c\<rparr>)
      | (Inr _, c) \<Rightarrow>
          Some (None, s\<lparr>sn_cluster := c, sn_asw := asw_DeleteSnapshot uniqueSnapshotName (sn_asw s)\<rparr>))))"

definition getSnapshotPromoteFunc ::
  "string \<Rightarrow> VolumeSnapshot \<Rightarrow> 'c snapState \<Rightarrow> (error option \<times> 'c snapState) option" where
  "getSnapshotPromoteFunc uniqueSnapshotName snapshot s = Some (None, s)"

text \<open>The closures handed to the goroutine map, as data; \<open>runOperation\<close> runs one.\<close>

datatype operation =
    SyncSnapshot string VolumeSnapshot
  | SnapshotDelete string VolumeSnapshot
  | SnapshotPromote string VolumeSnapshot

fun runOperation :: "'c env \<Rightarrow> operation \<Rightarrow> 'c snapState \<Rightarrow> (error option \<times> 'c snapState) option" where
  "runOperation env (SyncSnapshot n snapshot) s = syncSnapshot env n snapshot s"
| "runOperation env (SnapshotDelete n snapshot) s = getSnapshotDeleteFunc env n snapshot s"
| "runOperation env (SnapshotPromote n snapshot) s = getSnapshotPromoteFunc n snapshot s"

text \<open>
  \<open>Run\<close> is \<open>goroutinemap.Run\<close> on the map's own state: it starts the operation in a goroutine or
  refuses it with an error, which the callers only log.
\<close>

type_synonym 'g goroutine_run = "string \<Rightarrow> operation \<Rightarrow> 'g \<Rightarrow> error option \<times> 'g"

definition CreateVolumeSnapshot :: "'g goroutine_run \<Rightarrow> VolumeSnapshot \<Rightarrow> 'g \<Rightarrow> 'g" where
  "CreateVolumeSnapshot Run snapshot g =
     (let snapshotName = MakeSnapshotName snapshot;
          operationName = ''create'' @ snapshotName @ vs_PersistentVolumeClaimName snapshot
      in snd (Run operationName (SyncSnapshot snapshotName snapshot) g))"

definition DeleteVolumeSnapshot :: "'g goroutine_run \<Rightarrow> VolumeSnapshot \<Rightarrow> 'g \<Rightarrow> 'g" where
  "DeleteVolumeSnapshot Run snapshot g =
     (let snapshotName = MakeSnapshotName snapshot;
          operationName = ''delete'' @ snapshotName @ vs_PersistentVolumeClaimName snapshot
      in snd (Run operationName (SnapshotDelete snapshotName snapshot) g))"

definition PromoteVolumeSnapshotToPV :: "'g goroutine_run \<Rightarrow> VolumeSnapshot \<Rightarrow> 'g \<Rightarrow> 'g" where
  "PromoteVolumeSnapshotToPV Run snapshot g =
     (let snapshotName = MakeSnapshotName snapshot;
          operationName = ''promote'' @ snapshotName @ vs_PersistentVolumeClaimName snapshot
      in snd (Run operationName (SnapshotPromote snapshotName snapshot) g))"

section \<open>What an operation does to the actual world\<close>

text \<open>
  The last thing that happened was that a plugin described the snapshot as ready; the status
  was then written, and the snapshot that write answered is the one filed.
\<close>

definition ready_reported :: "'c env \<Rightarrow> 'c snapState \<Rightarrow> 'c snapState \<Rightarrow> bool" where
  "ready_reported env s s' \<longleftrightarrow>
     (\<exists>ty plugin snapshot data c conds completed c' w.
        e_volumePlugins env ty = Some plugin \<and>
        pl_DescribeSnapshot plugin data c = (Inr (Some conds, completed), c') \<and>
        getSimplifiedSnapshotStatus conds = statusReady \<and>
        UpdateVolumeSnapshotStatus env snapshot (conds ! (length conds - 1)) c' = (Inr w, sn_cluster s') \<and>
        sn_asw s' = asw_Add w (sn_asw s))"

lemma ready_reportedI:
  assumes "e_volumePlugins env ty = Some plugin"
    and "pl_DescribeSnapshot plugin data c = (Inr (Some conds, completed), c')"
    and "getSimplifiedSnapshotStatus conds = statusReady"
    and "UpdateVolumeSnapshotStatus env snapshot (conds ! (length conds - Suc 0)) c' = (Inr w, sn_cluster s')"
    and "sn_asw s' = asw_Add w (sn_asw s)"
  shows "ready_reported env s s'"
  unfolding ready_reported_def using assms by (metis One_nat_def)

lemma ready_reported_cluster [simp]:
  "ready_reported env (s\<lparr>sn_cluster := c\<rparr>) s' = ready_reported env s s'"
  by (simp add: ready_reported_def)

lemma ready_reported_asw: "sn_asw t = sn_asw s \<Longrightarrow> ready_reported env t s' = ready_reported env s s'"
  by (simp add: ready_reported_def)

lemma polls_result:
  assumes "polls n cond s = Some (err, s')" and "P s"
    and "\<And>t t'. P t \<Longrightarrow> cond t = Some ((False, None), t') \<Longrightarrow> P t'"
  shows "(err \<noteq> None \<and> P s') \<or>
         (\<exists>t finished. P t \<and> cond t = Some ((finished, err), s') \<and> (err \<noteq> None \<or> finished))"
  using assms(1,2)
proof (induction n arbitrary: s)
  case 0
  then show ?case by auto
next
  case (Suc n)
  obtain finished e t where c: "cond s = Some ((finished, e), t)"
    using Suc.prems(1) by (auto split: option.splits)
  show ?case
  proof (cases "e \<noteq> None \<or> finished")
    case True
    with Suc.prems c show ?thesis by auto
  next
    case False
    with Suc.prems(1) c have "polls n cond t = Some (err, s')" by simp
    moreover have "P t" using False c assms(3) Suc.prems(2) by simp
    ultimately show ?thesis by (rule Suc.IH)
  qed
qed

lemma pollSnapshot_result:
  assumes "pollSnapshot env plugin n snapshot data s = Some ((finished, err), s')"
    and "e_volumePlugins env ty = Some plugin"
  shows "(if finished \<and> err = None then ready_reported env s s' else sn_asw s' = sn_asw s)"
  using assms
  by (auto simp: pollSnapshot_def Let_def asw_AddSnapshot_def intro!: ready_reportedI
      split: prod.splits sum.splits option.splits if_splits)

lemma pluginFor_Inr: "pluginFor env msg ty = Inr plugin \<Longrightarrow> e_volumePlugins env ty = Some plugin"
  by (simp add: pluginFor_def split: if_splits option.splits)

lemma waitForSnapshot_result:
  assumes "waitForSnapshot env n snapshot dataPtr s = Some (err, s')"
    and "\<And>n cond s. e_Backoff env n cond s = polls n cond s"
  shows "(if err = None then ready_reported env s s' else sn_asw s' = sn_asw s)"
proof (cases dataPtr)
  case None
  with assms(1) show ?thesis by (auto simp: waitForSnapshot_def)
next
  case (Some data)
  show ?thesis
  proof (cases "pluginFor env ''unsupported volume type found in snapshot %#v''
                  (GetSupportedVolumeFromSnapshotDataSpec (vsd_Spec data))")
    case (Inl e)
    with Some assms(1) show ?thesis by (auto simp: waitForSnapshot_def)
  next
    case (Inr plugin)
    let ?cond = "pollSnapshot env plugin n snapshot data"
    note step = pollSnapshot_result [OF _ pluginFor_Inr [OF Inr]]
    have "polls volumeSnapshotSteps ?cond s = Some (err, s')"
      using Some Inr assms by (simp add: waitForSnapshot_def)
    then have "(err \<noteq> None \<and> sn_asw s' = sn_asw s) \<or>
         (\<exists>t finished. sn_asw t = sn_asw s \<and> ?cond t = Some ((finished, err), s') \<and> (err \<noteq> None \<or> finished))"
      by (rule polls_result [where P = "\<lambda>t. sn_asw t = sn_asw s"]) (use step in fastforce)+
    then show ?thesis
    proof
      assume "err \<noteq> None \<and> sn_asw s' = sn_asw s"
      then show ?thesis by auto
    next
      assume "\<exists>t finished. sn_asw t = sn_asw s \<and> ?cond t = Some ((finished, err), s') \<and> (err \<noteq> None \<or> finished)"
      then obtain t finished where t: "sn_asw t = sn_asw s" "err \<noteq> None \<or> finished"
        "?cond t = Some ((finished, err), s')" by blast
      show ?thesis
        using step [OF t(3)] t(1,2) ready_reported_asw [OF t(1)] by (cases err) (auto split: if_splits)
    qed
  qed
qed

lemma createSnapshot_result:
  assumes "createSnapshot env n snapshot s = Some (err, s')"
    and backoff: "\<And>n cond s. e_Backoff env n cond s = polls n cond s"
  shows "(if err = None then ready_reported env s s' else sn_asw s' = sn_asw s)"
proof -
  note wait = waitForSnapshot_result [OF _ backoff]
  show ?thesis
    using assms(1)
    by (auto simp: createSnapshot_def dest!: wait
        split: prod.splits sum.splits option.splits if_splits)
qed

lemma actOnStatus_result:
  assumes "actOnStatus env n snapshot status ptr s = Some (err, s')"
    and backoff: "\<And>n cond s. e_Backoff env n cond s = polls n cond s"
  shows "(if err = None
          then (status = statusReady \<and> sn_asw s' = asw_Add snapshot (sn_asw s)) \<or> ready_reported env s s'
          else sn_asw s' = sn_asw s)"
proof -
  note wait = waitForSnapshot_result [OF _ backoff]
  note create = createSnapshot_result [OF _ backoff]
  show ?thesis
    using assms(1)
    by (auto simp: actOnStatus_def asw_AddSnapshot_def dest!: wait create
        split: prod.splits sum.splits option.splits if_splits)
qed

lemma updateSnapshotIfExists_status:
  "updateSnapshotIfExists env n snapshot c = Some ((status, ptr, err), c') \<Longrightarrow> status \<noteq> statusReady"
  by (auto simp: updateSnapshotIfExists_def Let_def split: prod.splits sum.splits option.splits if_splits)

lemma syncSnapshot_result:
  assumes "syncSnapshot env n snapshot s = Some (err, s')"
    and backoff: "\<And>n cond s. e_Backoff env n cond s = polls n cond s"
  shows "(if err = None
          then (getSimplifiedSnapshotStatus (vs_Conditions snapshot) = statusReady \<and>
                sn_asw s' = asw_Add snapshot (sn_asw s)) \<or> ready_reported env s s'
          else sn_asw s' = sn_asw s)"
proof -
  note act = actOnStatus_result [OF _ backoff]
  show ?thesis
    using assms(1) unfolding syncSnapshot_def
    by (auto simp: Let_def dest!: act dest: updateSnapshotIfExists_status
        split: prod.splits option.splits if_splits)
qed

text \<open>
  C4. A snapshot enters the actual world only when it is ready: an operation that creates a
  snapshot and ends without an error filed exactly one snapshot, either the one it was started
  with, whose own last condition says ready, or the answer of the status update made right after
  a plugin described the on-disk snapshot as ready; an operation that ends with an error has
  left the actual world as it was. (The back-off library is assumed to do what it documents.)
\<close>

theorem syncSnapshot_files_ready:
  assumes "syncSnapshot env n snapshot s = Some (err, s')"
    and "\<And>n cond s. e_Backoff env n cond s = polls n cond s"
  shows "(if err = None
          then (getSimplifiedSnapshotStatus (vs_Conditions snapshot) = statusReady \<and>
                sn_asw s' = asw_Add snapshot (sn_asw s)) \<or> ready_reported env s s'
          else sn_asw s' = sn_asw s)"
  using assms by (rule syncSnapshot_result)


text \<open>A small cluster with one snapshot, one claim and a plugin whose snapshots are ready at once.\<close>

record demo_cluster =
  dc_snap :: VolumeSnapshot
  dc_data :: "VolumeSnapshotData list"

definition demo_ready :: VolumeSnapshotCondition where
  "demo_ready = zero_Condition\<lparr>cond_Type := ConditionReady, cond_Status := ConditionTrue\<rparr>"

definition demo_source :: VolumeSnapshotDataSource where
  "demo_source = (spec_Source (vsd_Spec zero_SnapshotData))\<lparr>src_HostPath := Some ''/tmp/1.tgz''\<rparr>"

definition demo_plugin :: "demo_cluster Plugin" where
  "demo_plugin =
     \<lparr>pl_SnapshotCreate = (\<lambda>_ _ _ c. (Inr (Some demo_source, Some [demo_ready]), c)),
      pl_SnapshotDelete = (\<lambda>_ _ c. (Inr (), c)),
      pl_DescribeSnapshot = (\<lambda>_ c. (Inr (Some [demo_ready], True), c)),
      pl_FindSnapshot = (\<lambda>tags c.
        (if tags = None then Inl (ExtErr ''not found'') else Inr (Some demo_source, Some [demo_ready]), c))\<rparr>"

definition demo_env :: "demo_cluster env" where
  "demo_env =
     \<lparr>e_GetSnapshot = (\<lambda>ns n c. (if n = vs_Name (dc_snap c) then Inr (dc_snap c) else Inl (NotFound n), c)),
      e_PutSnapshot = (\<lambda>ns n v c. (Inr v, c\<lparr>dc_snap := v\<rparr>)),
      e_ListData = (\<lambda>c. (Inr (dc_data c), c)),
      e_GetData = (\<lambda>n c. (case List.find (\<lambda>d. vsd_Name d = n) (dc_data c) of
                              None \<Rightarrow> Inl (NotFound n) | Some d \<Rightarrow> Inr d, c)),
      e_PutData = (\<lambda>n d c. (Inr d, c\<lparr>dc_data := [d]\<rparr>)),
      e_PostData = (\<lambda>d c. (Inr d, c\<lparr>dc_data := d # dc_data c\<rparr>)),
      e_DeleteData = (\<lambda>n c. (Inr (), c\<lparr>dc_data := filter (\<lambda>d. vsd_Name d \<noteq> n) (dc_data c)\<rparr>)),
      e_GetPVC = (\<lambda>ns n c. (Inr \<lparr>pvc_Phase = ''Bound'', pvc_VolumeName = ''pv1''\<rparr>, c)),
      e_GetPV = (\<lambda>n c. ((zero_PV\<lparr>pv_Name := n, pv_HostPath := Some ''/tmp''\<rparr>, None), c)),
      e_Now = (\<lambda>c. (7, c)), e_NewUUID = (\<lambda>c. (''u'', c)),
      e_volumePlugins = (\<lambda>ty. if ty = ''hostPath'' then Some demo_plugin else None),
      e_Backoff = polls, e_BackoffPost = polls\<rparr>"

definition demo_state :: "VolumeSnapshot \<Rightarrow> demo_cluster snapState" where
  "demo_state v =
     \<lparr>sn_cluster = \<lparr>dc_snap = v, dc_data = []\<rparr>, sn_asw = NewActualStateOfWorld\<rparr>"

theorem syncSnapshot_files_ready_witness:
  "\<exists>s'. syncSnapshot demo_env ''ns/s-1'' demo_snap (demo_state demo_snap) = Some (None, s') \<and>
        ready_reported demo_env (demo_state demo_snap) s'"
proof -
  have "map_option fst (syncSnapshot demo_env ''ns/s-1'' demo_snap (demo_state demo_snap)) = Some None"
    by code_simp
  then obtain s' where s': "syncSnapshot demo_env ''ns/s-1'' demo_snap (demo_state demo_snap) = Some (None, s')"
    by auto
  moreover have "getSimplifiedSnapshotStatus (vs_Conditions demo_snap) \<noteq> statusReady"
    by code_simp
  ultimately show ?thesis
    using syncSnapshot_files_ready [OF s'] by (simp add: demo_env_def)
qed

lemma deleteSnapshot_ok:
  assumes "deleteSnapshot env spec c = Some (None, c')"
  obtains plugin pv c2 where
    "e_volumePlugins env (GetSupportedVolumeFromSnapshotDataSpec spec) = Some plugin"
    "pl_SnapshotDelete plugin (spec_Source spec) pv c2 = (Inr (), c')"
  using assms
  by (auto simp: deleteSnapshot_def Let_def dest!: pluginFor_Inr
      split: prod.splits sum.splits option.splits)



section \<open>Conditions\<close>

lemma distinct_adj_snoc:
  "distinct_adj (xs @ [x]) \<longleftrightarrow> distinct_adj xs \<and> (xs = [] \<or> last xs \<noteq> x)"
  by (induction xs) (auto simp: distinct_adj_Cons neq_Nil_conv)

lemma condition_eq_iff:
  fixes c d :: SnapshotCondition
  shows "c = d \<longleftrightarrow>
     cond_Type c = cond_Type d \<and> cond_Status c = cond_Status d \<and> cond_Reason c = cond_Reason d \<and>
     cond_Message c = cond_Message d \<and> cond_LastTransitionTime c = cond_LastTransitionTime d"
  by (cases c; cases d) auto

lemma mergeCondition_snoc:
  "mergeCondition c (cs @ [old]) =
     (if cond_Type c \<noteq> cond_Type old then (c, cs @ [old, c], False)
      else let c' = (if cond_Status c = cond_Status old
                     then c\<lparr>cond_LastTransitionTime := cond_LastTransitionTime old\<rparr> else c)
           in (c', cs @ [c'], c' = old))"
  by (simp add: mergeCondition_def Let_def nth_append condition_eq_iff)

lemma mergeCondition_Nil: "mergeCondition c [] = (c, [c], False)"
  by (simp add: mergeCondition_def)

text \<open>Merging again, after the first merge wrote \<open>c\<close> or kept the old transition time.\<close>

lemma mergeCondition_again:
  "mergeCondition c (cs @ [c]) = (c, cs @ [c], True)"
  "mergeCondition c (cs @ [c\<lparr>cond_LastTransitionTime := t\<rparr>]) =
     (c\<lparr>cond_LastTransitionTime := t\<rparr>, cs @ [c\<lparr>cond_LastTransitionTime := t\<rparr>], True)"
  by (simp_all add: mergeCondition_snoc Let_def)

text \<open>
  The condition history of a snapshot (and of its data object) never holds two neighbours of
  the same type: merging a condition into a history without such neighbours gives one again that
  ends in the condition as written and only touches the last entry; the code's equality
  test, which decides whether the object is written, is exact, so that merging the same condition
  again changes nothing and causes no write.
\<close>

theorem mergeCondition_history:
  assumes "distinct_adj (map cond_Type conds)"
    and "mergeCondition c conds = (c', conds', same)"
  shows "distinct_adj (map cond_Type conds') \<and> conds' \<noteq> [] \<and> last conds' = c' \<and>
         (\<exists>rest. conds' = butlast conds @ rest) \<and>
         (same \<longleftrightarrow> conds' = conds) \<and>
         cond_Type c' = cond_Type c \<and> cond_Status c' = cond_Status c \<and>
         mergeCondition c conds' = (c', conds', True)"
proof (cases conds rule: rev_cases)
  case Nil
  then have "c' = c" "conds' = [c]" "same = False" using assms(2) by (auto simp: mergeCondition_Nil)
  then show ?thesis using Nil mergeCondition_again(1) [of c "[]"] by simp
next
  case (snoc cs old)
  show ?thesis
  proof (cases "cond_Type c = cond_Type old")
    case False
    then have "c' = c" "conds' = (cs @ [old]) @ [c]" "same = False"
      using assms(2) snoc by (auto simp: mergeCondition_snoc)
    moreover have "distinct_adj (map cond_Type ((cs @ [old]) @ [c]))"
      using assms(1) [unfolded snoc] False unfolding map_append list.map distinct_adj_snoc by auto
    ultimately show ?thesis
      using snoc mergeCondition_again(1) [of c "cs @ [old]"] by (auto simp: butlast_append)
  next
    case True
    let ?c = "if cond_Status c = cond_Status old
              then c\<lparr>cond_LastTransitionTime := cond_LastTransitionTime old\<rparr> else c"
    have eqs: "c' = ?c" "conds' = cs @ [?c]" "same = (?c = old)"
      using assms(2) [unfolded snoc mergeCondition_snoc Let_def] True by (auto split: if_splits)
    have "distinct_adj (map cond_Type (cs @ [?c]))"
      using assms(1) snoc True by (simp add: distinct_adj_snoc)
    moreover have "mergeCondition c (cs @ [?c]) = (?c, cs @ [?c], True)"
      using mergeCondition_again by simp
    ultimately show ?thesis using eqs snoc by simp
  qed
qed

theorem mergeCondition_history_witness:
  "\<exists>conds'. mergeCondition demo_ready [zero_Condition\<lparr>cond_Type := ConditionPending\<rparr>] = (demo_ready, conds', False) \<and>
     distinct_adj (map cond_Type conds') \<and> mergeCondition demo_ready conds' = (demo_ready, conds', True)"
proof -
  let ?p = "zero_Condition\<lparr>cond_Type := ConditionPending\<rparr>"
  have m: "mergeCondition demo_ready [?p] = (demo_ready, [?p, demo_ready], False)"
    by (simp add: mergeCondition_def demo_ready_def zero_Condition_def)
  have "distinct_adj (map cond_Type [?p])" by simp
  from mergeCondition_history [OF this m] m show ?thesis by blast
qed

text \<open>
  When the waiting code panics: the plugin answered a nil or an empty list of conditions, or
  it reported the snapshot ready and writing that status failed, in which case the nil snapshot of
  the failed update is added to the actual world.
\<close>

theorem pollSnapshot_panics_iff:
  "pollSnapshot env plugin n snapshot data s = None \<longleftrightarrow>
     (\<exists>conds completed c. pl_DescribeSnapshot plugin data (sn_cluster s) = (Inr (conds, completed), c) \<and>
        (conds = None \<or> conds = Some [] \<or>
         (\<exists>cs e c'. conds = Some cs \<and> getSimplifiedSnapshotStatus cs = statusReady \<and>
            UpdateVolumeSnapshotStatus env snapshot (cs ! (length cs - 1)) c = (Inl e, c'))))"
proof (cases "pl_DescribeSnapshot plugin data (sn_cluster s)")
  case (Pair r c)
  show ?thesis
  proof (cases r)
    case (Inr a)
    obtain conds completed where a: "a = (conds, completed)" by fastforce
    show ?thesis
    proof (cases "conds = None \<or> conds = Some []")
      case True
      with Pair Inr a show ?thesis by (auto simp: pollSnapshot_def)
    next
      case False
      then obtain cs where "conds = Some cs" "cs \<noteq> []" by auto
      with Pair Inr a show ?thesis
        by (cases "UpdateVolumeSnapshotStatus env snapshot (cs ! (length cs - 1)) c"; cases "fst (UpdateVolumeSnapshotStatus env snapshot (cs ! (length cs - 1)) c)")
          (auto simp: pollSnapshot_def asw_AddSnapshot_def Let_def)
    qed
  qed (simp add: pollSnapshot_def Pair)
qed

section \<open>Finding a snapshot again\<close>

text \<open>
  A data object created for a snapshot refers to it only under the name it was created
  with: created under the unique name (as \<open>createSnapshot\<close> does) the look-up by unique name
  recognises it, created under the object's short name (as \<open>updateSnapshotIfExists\<close> does) the
  look-up does not.
\<close>

theorem data_found_by_unique_name:
  "refersTo (MakeSnapshotName v) (newSnapshotData d (MakeSnapshotName v) pv src c) \<and>
   \<not> refersTo (MakeSnapshotName v) (newSnapshotData d (vs_Name v) pv src c)"
proof -
  have len: "length (MakeSnapshotName v) = length (vs_Namespace v) + length (vs_Name v) + length (vs_UID v) + 2"
    by (simp add: MakeSnapshotName_def)
  have "''/'' @ vs_Name v \<noteq> MakeSnapshotName v"
  proof
    assume "''/'' @ vs_Name v = MakeSnapshotName v"
    then have "length (''/'' @ vs_Name v) = length (MakeSnapshotName v)" by simp
    with len show False by simp
  qed
  moreover have "vs_Name v \<noteq> MakeSnapshotName v"
  proof
    assume "vs_Name v = MakeSnapshotName v"
    then have "length (vs_Name v) = length (MakeSnapshotName v)" by simp
    with len show False by simp
  qed
  ultimately show ?thesis by (simp add: refersTo_def newSnapshotData_def)
qed

text \<open>
  The recovery path for a snapshot that the backend already holds never succeeds: the
  metadata update labels a snapshot with \<open>SnapshotMetadata-PVName\<close>, the recovery reads the
  label \<open>pvName\<close>, so for a snapshot labelled by that update, without a data object, that the
  plugin finds by its tags, the operation ends with an error and no data object is made.
\<close>

theorem found_by_tags_fails:
  assumes "vs_Labels snapshot =
             Some (fmupd snapshotMetadataPVName pv (fmupd snapshotMetadataTimeStamp t labels))"
    and "fmlookup labels pvNameLabel = None"
    and "getSimplifiedSnapshotStatus (vs_Conditions snapshot) = statusNew"
    and "getSnapshotDataFromSnapshotName env n (sn_cluster s) = (None, c1)"
    and "findSnapshotByTags env (vs_Name snapshot) snapshot c1 = (Inr found, c2)"
  shows "syncSnapshot env n snapshot s =
           Some (Some (Errorf ''Error creating snapshot %s'' [n]), s\<lparr>sn_cluster := c2\<rparr>)"
  using assms
  by (cases found) (simp add: syncSnapshot_def updateSnapshotIfExists_def findVolumeSnapshotMetadata_def
      actOnStatus_def)

definition demo_labelled :: VolumeSnapshot where
  "demo_labelled = demo_snap\<lparr>vs_Labels :=
     Some (fmupd snapshotMetadataPVName ''pv1'' (fmupd snapshotMetadataTimeStamp ''7'' fmempty))\<rparr>"

theorem found_by_tags_fails_witness:
  "syncSnapshot demo_env ''ns/s-1'' demo_labelled (demo_state demo_labelled) =
     Some (Some (Errorf ''Error creating snapshot %s'' [''ns/s-1'']), demo_state demo_labelled)"
proof -
  let ?c = "sn_cluster (demo_state demo_labelled)"
  have a: "vs_Labels demo_labelled =
      Some (fmupd snapshotMetadataPVName ''pv1'' (fmupd snapshotMetadataTimeStamp ''7'' fmempty))"
    by (simp add: demo_labelled_def)
  have b: "getSimplifiedSnapshotStatus (vs_Conditions demo_labelled) = statusNew" by code_simp
  have c: "getSnapshotDataFromSnapshotName demo_env ''ns/s-1'' ?c = (None, ?c)"
    by (simp add: getSnapshotDataFromSnapshotName_def demo_env_def demo_state_def)
  have d: "findSnapshotByTags demo_env (vs_Name demo_labelled) demo_labelled ?c =
      (Inr (Some demo_source, Some [demo_ready]), ?c)"
    by (simp add: findSnapshotByTags_def findVolumeSnapshotMetadata_def getPlugin_def pluginFor_def
        getPVFromVolumeSnapshot_def GetSupportedVolumeFromPVSpec_def demo_env_def demo_plugin_def
        demo_labelled_def demo_snap_def)
  show ?thesis
    using found_by_tags_fails [OF a _ b c d] by (simp add: demo_state_def)
qed

text \<open>
  Binding a snapshot to its data ignores the error of reading it: when the read fails, the
  object written in its place is a blank one that carries only the data name and the status.
\<close>

theorem bind_after_failed_read:
  assumes "e_GetSnapshot env (vs_Namespace snapshot) (vs_Name snapshot) c = (Inl err, c1)"
    and "e_PutSnapshot env (vs_Namespace snapshot) (vs_Name snapshot)
           (zero_Snapshot\<lparr>vs_SnapshotDataName := d, vs_Conditions := conds\<rparr>) c1 = (Inr r, c2)"
  shows "bindandUpdateVolumeSnapshot env snapshot d (Some conds) c = (Inr r, c2)"
  using assms by (simp add: bindandUpdateVolumeSnapshot_def)

theorem bind_after_failed_read_witness:
  "fst (bindandUpdateVolumeSnapshot demo_env (demo_snap\<lparr>vs_Name := ''gone''\<rparr>) ''d'' (Some [])
      (sn_cluster (demo_state demo_snap))) = Inr (zero_Snapshot\<lparr>vs_SnapshotDataName := ''d''\<rparr>)"
proof -
  let ?v = "demo_snap\<lparr>vs_Name := ''gone''\<rparr>" and ?c = "sn_cluster (demo_state demo_snap)"
  have a: "e_GetSnapshot demo_env (vs_Namespace ?v) (vs_Name ?v) ?c = (Inl (NotFound ''gone''), ?c)"
    by (simp add: demo_env_def demo_state_def demo_snap_def)
  have b: "e_PutSnapshot demo_env (vs_Namespace ?v) (vs_Name ?v)
        (zero_Snapshot\<lparr>vs_SnapshotDataName := ''d'', vs_Conditions := []\<rparr>) ?c =
      (Inr (zero_Snapshot\<lparr>vs_SnapshotDataName := ''d''\<rparr>),
       ?c\<lparr>dc_snap := zero_Snapshot\<lparr>vs_SnapshotDataName := ''d''\<rparr>\<rparr>)"
    by (simp add: demo_env_def zero_Snapshot_def)
  from bind_after_failed_read [OF a b] show ?thesis by simp
qed

end
