(* ===== verification/SnapReconciler.thy ===== *)
theory SnapReconciler
  imports Snapshotter
begin

text \<open>
  \<open>snapshot/pkg/controller/reconciler/reconciler.go\<close> and
  \<open>snapshot/pkg/controller/snapshot-controller/snapshot-controller.go\<close>: the loop that compares
  the two worlds, the informer's handlers, and the whole controller as a state machine whose
  steps are the handlers, a pass of each loop and the end of an operation. A pass reads both
  worlds as they are at its start: operations run in goroutines of their own.
\<close>

section \<open>The reconciler\<close>

record reconciler =
  rc_syncDuration :: int
  rc_timeOfLastSync :: int
  rc_disableReconciliationSync :: bool

definition NewReconciler :: "int \<Rightarrow> bool \<Rightarrow> int \<Rightarrow> reconciler" where
  "NewReconciler syncDuration disableReconciliationSync now =
     \<lparr>rc_syncDuration = syncDuration, rc_timeOfLastSync = now,
      rc_disableReconciliationSync = disableReconciliationSync\<rparr>"

definition syncStates :: "actualStateOfWorld \<Rightarrow> actualStateOfWorld" where
  "syncStates asw = asw"

definition updateSyncTime :: "int \<Rightarrow> reconciler \<Rightarrow> reconciler" where
  "updateSyncTime now rc = rc\<lparr>rc_timeOfLastSync := now\<rparr>"

definition sync :: "int \<Rightarrow> reconciler \<times> actualStateOfWorld \<Rightarrow> reconciler \<times> actualStateOfWorld" where
  "sync now = (\<lambda>(rc, asw). (updateSyncTime now rc, syncStates asw))"

text \<open>\<open>aorder\<close> and \<open>dorder\<close> are the orders in which the two ranges visit their maps.\<close>

definition reconcile ::
  "'g goroutine_run \<Rightarrow> string list \<Rightarrow> string list \<Rightarrow> desiredStateOfWorld \<Rightarrow> actualStateOfWorld \<Rightarrow> 'g \<Rightarrow> 'g"
where
  "reconcile Run aorder dorder dsw asw g =
     (let g = fold (\<lambda>(name, snapshot) g.
                      if \<not> dsw_SnapshotExists dsw name then DeleteVolumeSnapshot Run snapshot g else g)
                   (asw_GetSnapshots aorder asw) g
      in fold (\<lambda>(name, snapshot) g.
                 if \<not> asw_SnapshotExists asw name then CreateVolumeSnapshot Run snapshot g else g)
              (dsw_GetSnapshots dorder dsw) g)"

text \<open>\<open>t1\<close> and \<open>t2\<close> are the clock readings of \<open>time.Since\<close> and \<open>time.Now\<close>; a second is 1000000000.\<close>

definition reconciliationLoopFunc ::
  "'g goroutine_run \<Rightarrow> string list \<Rightarrow> string list \<Rightarrow> int \<Rightarrow> int \<Rightarrow> desiredStateOfWorld \<Rightarrow>
     reconciler \<times> actualStateOfWorld \<times> 'g \<Rightarrow> reconciler \<times> actualStateOfWorld \<times> 'g" where
  "reconciliationLoopFunc Run aorder dorder t1 t2 dsw = (\<lambda>(rc, asw, g).
     let g = reconcile Run aorder dorder dsw asw g in
     if rc_disableReconciliationSync rc then (rc, asw, g)
     else if rc_syncDuration rc < 1000000000 then (rc, asw, g)
     else if t1 - rc_timeOfLastSync rc > rc_syncDuration rc then
       (let (rc, asw) = sync t2 (rc, asw) in (rc, asw, g))
     else (rc, asw, g))"

section \<open>The informer's handlers\<close>

text \<open>
  What an informer may hand to a handler: a snapshot, the marker for a missed deletion with the
  last known object, or something else. The update handler asserts its type without a check
  (\<open>None\<close>). The snapshots are copied before they are stored.
\<close>

datatype object =
    SnapshotObj VolumeSnapshot
  | DeletedFinalStateUnknown object
  | OtherObj

definition onSnapshotAdd :: "object \<Rightarrow> desiredStateOfWorld \<Rightarrow> desiredStateOfWorld" where
  "onSnapshotAdd obj dsw =
     (case obj of SnapshotObj snapshot \<Rightarrow> snd (dsw_AddSnapshot (Some snapshot) dsw) | _ \<Rightarrow> dsw)"

definition onSnapshotUpdate :: "object \<Rightarrow> object \<Rightarrow> desiredStateOfWorld \<Rightarrow> desiredStateOfWorld option" where
  "onSnapshotUpdate oldObj newObj dsw =
     (case (oldObj, newObj) of
        (SnapshotObj oldSnapshot, SnapshotObj newSnapshot) \<Rightarrow>
          if vs_SnapshotDataName oldSnapshot \<noteq> vs_SnapshotDataName newSnapshot
          then Some (snd (dsw_AddSnapshot (Some newSnapshot) dsw)) else Some dsw
      | _ \<Rightarrow> None)"

fun onSnapshotDelete :: "object \<Rightarrow> desiredStateOfWorld \<Rightarrow> desiredStateOfWorld" where
  "onSnapshotDelete (SnapshotObj deletedSnapshot) dsw =
     dsw_DeleteSnapshot (MakeSnapshotName deletedSnapshot) dsw"
| "onSnapshotDelete (DeletedFinalStateUnknown (SnapshotObj deletedSnapshot)) dsw =
     dsw_DeleteSnapshot (MakeSnapshotName deletedSnapshot) dsw"
| "onSnapshotDelete _ dsw = dsw"

section \<open>The controller as a state machine\<close>

text \<open>
  The names under which the snapshotter starts operations. \<open>starts Run\<close> is what
  \<open>goroutinemap.Run\<close> documents, on the list of the operations in progress: it refuses a name that
  is in progress, and otherwise either refuses or starts the operation.
\<close>

fun operationName :: "operation \<Rightarrow> string" where
  "operationName (SyncSnapshot n v) = ''create'' @ n @ vs_PersistentVolumeClaimName v"
| "operationName (SnapshotDelete n v) = ''delete'' @ n @ vs_PersistentVolumeClaimName v"
| "operationName (SnapshotPromote n v) = ''promote'' @ n @ vs_PersistentVolumeClaimName v"

fun operationSnapshot :: "operation \<Rightarrow> string \<times> VolumeSnapshot" where
  "operationSnapshot (SyncSnapshot n v) = (n, v)"
| "operationSnapshot (SnapshotDelete n v) = (n, v)"
| "operationSnapshot (SnapshotPromote n v) = (n, v)"

type_synonym running = "(string \<times> operation) list"

definition starts :: "running goroutine_run \<Rightarrow> bool" where
  "starts Run \<longleftrightarrow>
     (\<forall>name op g. snd (Run name op g) = g \<or>
        (name \<notin> fst ` set g \<and> snd (Run name op g) = g @ [(name, op)]))"

record 'c controller =
  co_dsw :: desiredStateOfWorld
  co_rc :: reconciler
  co_state :: "'c snapState"
  co_running :: running

inductive controller_step ::
  "'c env \<Rightarrow> 's store \<Rightarrow> desiredStateOfWorldPopulator \<Rightarrow> 'c controller \<Rightarrow> 'c controller \<Rightarrow> bool"
for env store p where
  add: "controller_step env store p c (c\<lparr>co_dsw := onSnapshotAdd obj (co_dsw c)\<rparr>)"
| update: "onSnapshotUpdate old new (co_dsw c) = Some dsw \<Longrightarrow>
     controller_step env store p c (c\<lparr>co_dsw := dsw\<rparr>)"
| delete: "controller_step env store p c (c\<lparr>co_dsw := onSnapshotDelete obj (co_dsw c)\<rparr>)"
| populate: "controller_step env store p c
     (c\<lparr>co_dsw := populatorLoopFunc p store now s order (co_dsw c)\<rparr>)"
| reconcile: "starts Run \<Longrightarrow>
     reconciliationLoopFunc Run aorder dorder t1 t2 (co_dsw c) (co_rc c, sn_asw (co_state c), co_running c)
       = (rc, asw, g) \<Longrightarrow>
     controller_step env store p c (c\<lparr>co_rc := rc, co_state := (co_state c)\<lparr>sn_asw := asw\<rparr>, co_running := g\<rparr>)"
| finish: "(name, op) \<in> set (co_running c) \<Longrightarrow> runOperation env op (co_state c) = Some (err, st) \<Longrightarrow>
     controller_step env store p c
       (c\<lparr>co_state := st, co_running := filter (\<lambda>r. fst r \<noteq> name) (co_running c)\<rparr>)"
| environment: "controller_step env store p c (c\<lparr>co_state := (co_state c)\<lparr>sn_cluster := cl\<rparr>\<rparr>)"

definition NewSnapshotController :: "'c \<Rightarrow> int \<Rightarrow> int \<Rightarrow> 'c controller" where
  "NewSnapshotController cl syncDuration now =
     \<lparr>co_dsw = NewDesiredStateOfWorld, co_rc = NewReconciler syncDuration False now,
      co_state = \<lparr>sn_cluster = cl, sn_asw = NewActualStateOfWorld\<rparr>, co_running = []\<rparr>"

inductive controller_reachable ::
  "'c env \<Rightarrow> 's store \<Rightarrow> desiredStateOfWorldPopulator \<Rightarrow> 'c controller \<Rightarrow> bool"
for env store p where
  initially: "controller_reachable env store p (NewSnapshotController cl syncDuration now)"
| step: "controller_reachable env store p c \<Longrightarrow> controller_step env store p c c' \<Longrightarrow>
     controller_reachable env store p c'"

section \<open>The requests of a pass\<close>

definition requestOf :: "operation \<Rightarrow> 'g goroutine_run \<Rightarrow> 'g \<Rightarrow> 'g" where
  "requestOf op Run = (\<lambda>g. snd (Run (operationName op) op g))"

definition requests :: "string list \<Rightarrow> string list \<Rightarrow> desiredStateOfWorld \<Rightarrow> actualStateOfWorld \<Rightarrow> operation list"
where
  "requests aorder dorder dsw asw =
     map (\<lambda>(k, v). SnapshotDelete (MakeSnapshotName v) v)
         (filter (\<lambda>(k, v). \<not> dsw_SnapshotExists dsw k) (asw_GetSnapshots aorder asw)) @
     map (\<lambda>(k, v). SyncSnapshot (MakeSnapshotName v) v)
         (filter (\<lambda>(k, v). \<not> asw_SnapshotExists asw k) (dsw_GetSnapshots dorder dsw))"

lemma fold_filter_map:
  "fold (\<lambda>(k, v) g. if P k then f v g else g) ps g = fold (\<lambda>op. h op) (map (\<lambda>(k, v). q v) (filter (\<lambda>(k, v). P k) ps)) g"
  if "\<And>v g. f v g = h (q v) g"
  by (induction ps arbitrary: g) (auto simp: that)

lemma reconcile_as_requests:
  "reconcile Run aorder dorder dsw asw g =
     fold (\<lambda>op. requestOf op Run) (requests aorder dorder dsw asw) g"
proof -
  have "fold (\<lambda>(k, v) g. if \<not> dsw_SnapshotExists dsw k then DeleteVolumeSnapshot Run v g else g)
          (asw_GetSnapshots aorder asw) g =
        fold (\<lambda>op. requestOf op Run) (map (\<lambda>(k, v). SnapshotDelete (MakeSnapshotName v) v)
          (filter (\<lambda>(k, v). \<not> dsw_SnapshotExists dsw k) (asw_GetSnapshots aorder asw))) g" for g
    by (rule fold_filter_map) (simp add: DeleteVolumeSnapshot_def requestOf_def Let_def)
  moreover have "fold (\<lambda>(k, v) g. if \<not> asw_SnapshotExists asw k then CreateVolumeSnapshot Run v g else g)
          (dsw_GetSnapshots dorder dsw) g =
        fold (\<lambda>op. requestOf op Run) (map (\<lambda>(k, v). SyncSnapshot (MakeSnapshotName v) v)
          (filter (\<lambda>(k, v). \<not> asw_SnapshotExists asw k) (dsw_GetSnapshots dorder dsw))) g" for g
    by (rule fold_filter_map) (simp add: CreateVolumeSnapshot_def requestOf_def Let_def)
  ultimately show ?thesis by (simp add: reconcile_def requests_def)
qed

lemma set_asw_GetSnapshots:
  "enumerates order (asw_snapshots asw) \<Longrightarrow> (k, v) \<in> set (asw_GetSnapshots order asw) \<longleftrightarrow> asw_GetSnapshot asw k = Some v"
  by (auto simp: asw_GetSnapshots_def set_pairs_of asw_GetSnapshot_def dest: enumerates_lookup)

lemma set_dsw_GetSnapshots:
  "enumerates order (dsw_snapshots dsw) \<Longrightarrow> (k, v) \<in> set (dsw_GetSnapshots order dsw) \<longleftrightarrow> dsw_lookup dsw k = Some v"
  by (auto simp: dsw_GetSnapshots_def set_pairs_of dsw_lookup_def dest: enumerates_lookup)

lemma distinct_pairs_of: "distinct order \<Longrightarrow> distinct (pairs_of order m)"
  by (induction order) (auto simp: set_pairs_of split: option.splits)

lemma set_requests:
  assumes "enumerates aorder (asw_snapshots asw)" and "enumerates dorder (dsw_snapshots dsw)"
    and "asw.well_keyed asw" and "dsw.well_keyed dsw"
  shows "SnapshotDelete n v \<in> set (requests aorder dorder dsw asw) \<longleftrightarrow>
           asw_GetSnapshot asw n = Some v \<and> \<not> dsw_SnapshotExists dsw n"
    and "SyncSnapshot n v \<in> set (requests aorder dorder dsw asw) \<longleftrightarrow>
           dsw_lookup dsw n = Some v \<and> \<not> asw_SnapshotExists asw n"
  using assms(3,4)
  by (auto simp: requests_def set_asw_GetSnapshots [OF assms(1)] set_dsw_GetSnapshots [OF assms(2)]
      asw.well_keyed_def dsw.well_keyed_def image_iff split: prod.splits)

text \<open>
  C20. A pass of the reconciler asks for exactly what is missing: on well-keyed worlds it goes
  through a list of requests, the deletions before the creations, in which a deletion is asked
  for exactly the snapshots of the actual world that nobody desires, and a creation for exactly
  the desired ones that do not exist, each under the unique name it is filed under; no request
  occurs twice and none is a promotion.
\<close>

theorem reconcile_requests:
  assumes "enumerates aorder (asw_snapshots asw)" and "enumerates dorder (dsw_snapshots dsw)"
    and "\<And>k v. asw_GetSnapshot asw k = Some v \<Longrightarrow> MakeSnapshotName v = k"
    and "\<And>k v. dsw_lookup dsw k = Some v \<Longrightarrow> MakeSnapshotName v = k"
  shows "\<exists>dels news.
           reconcile Run aorder dorder dsw asw g =
             fold (\<lambda>op g. snd (Run (operationName op) op g)) (dels @ news) g \<and>
           distinct (dels @ news) \<and>
           set dels = {SnapshotDelete n v | n v. asw_GetSnapshot asw n = Some v \<and> \<not> dsw_SnapshotExists dsw n} \<and>
           set news = {SyncSnapshot n v | n v. dsw_lookup dsw n = Some v \<and> \<not> asw_SnapshotExists asw n}"
proof -
  let ?ad = "filter (\<lambda>(k, v). \<not> dsw_SnapshotExists dsw k) (asw_GetSnapshots aorder asw)"
  let ?da = "filter (\<lambda>(k, v). \<not> asw_SnapshotExists asw k) (dsw_GetSnapshots dorder dsw)"
  let ?dels = "map (\<lambda>(k, v). SnapshotDelete (MakeSnapshotName v) v) ?ad"
  let ?news = "map (\<lambda>(k, v). SyncSnapshot (MakeSnapshotName v) v) ?da"
  have keyed: "MakeSnapshotName v = k" if "(k, v) \<in> set ?ad \<or> (k, v) \<in> set ?da" for k v
    using that assms(3,4) by (auto simp: set_asw_GetSnapshots [OF assms(1)] set_dsw_GetSnapshots [OF assms(2)])
  have "set ?dels = {SnapshotDelete n v | n v. asw_GetSnapshot asw n = Some v \<and> \<not> dsw_SnapshotExists dsw n}"
    using keyed by (force simp: set_asw_GetSnapshots [OF assms(1)] image_iff)
  moreover have "set ?news = {SyncSnapshot n v | n v. dsw_lookup dsw n = Some v \<and> \<not> asw_SnapshotExists asw n}"
    using keyed by (force simp: set_dsw_GetSnapshots [OF assms(2)] image_iff)
  moreover have "distinct ?dels"
    unfolding distinct_map
  proof
    show "distinct ?ad"
      using assms(1) by (simp add: asw_GetSnapshots_def enumerates_def distinct_pairs_of)
    show "inj_on (\<lambda>(k, v). SnapshotDelete (MakeSnapshotName v) v) (set ?ad)"
      by (rule inj_onI) (metis (mono_tags, lifting) case_prod_conv keyed operation.inject(2) surj_pair)
  qed
  moreover have "distinct ?news"
    unfolding distinct_map
  proof
    show "distinct ?da"
      using assms(2) by (simp add: dsw_GetSnapshots_def enumerates_def distinct_pairs_of)
    show "inj_on (\<lambda>(k, v). SyncSnapshot (MakeSnapshotName v) v) (set ?da)"
      by (rule inj_onI) (metis (mono_tags, lifting) case_prod_conv keyed operation.inject(1) surj_pair)
  qed
  moreover have "reconcile Run aorder dorder dsw asw g =
             fold (\<lambda>op g. snd (Run (operationName op) op g)) (?dels @ ?news) g"
    unfolding reconcile_as_requests requests_def requestOf_def ..
  moreover have "set ?dels \<inter> set ?news = {}" by auto
  ultimately show ?thesis by (intro exI [of _ ?dels] exI [of _ ?news]) simp
qed

theorem reconcile_requests_witness:
  "\<exists>dels news. reconcile (\<lambda>name op g. (None, g @ [(name, op)])) [] [''ns/s-1'']
       (dsw_Add demo_snap NewDesiredStateOfWorld) NewActualStateOfWorld [] =
     fold (\<lambda>op g. g @ [(operationName op, op)]) (dels @ news) [] \<and>
     set news = {SyncSnapshot n v | n v. dsw_lookup (dsw_Add demo_snap NewDesiredStateOfWorld) n = Some v}"
proof -
  let ?d = "dsw_Add demo_snap NewDesiredStateOfWorld"
  have a: "enumerates [] (asw_snapshots NewActualStateOfWorld)" by (simp add: NewActualStateOfWorld_def)
  have d: "enumerates [''ns/s-1''] (dsw_snapshots ?d)"
    by (simp add: enumerates_def dsw_Add_def NewDesiredStateOfWorld_def MakeSnapshotName_def demo_snap_def)
  have ka: "MakeSnapshotName v = k" if "asw_GetSnapshot NewActualStateOfWorld k = Some v" for k v
    using that by (simp add: asw.lookup_empty)
  have kd: "MakeSnapshotName v = k" if "dsw_lookup ?d k = Some v" for k v
    using that by (simp add: dsw.lookup_add dsw.lookup_empty split: if_splits)
  obtain dels news where r: "reconcile (\<lambda>name op g. (None, g @ [(name, op)])) [] [''ns/s-1''] ?d
      NewActualStateOfWorld [] = fold (\<lambda>op g. snd (None :: error option, g @ [(operationName op, op)])) (dels @ news) []"
    and n: "set news = {SyncSnapshot n v | n v. dsw_lookup ?d n = Some v \<and>
      \<not> asw_SnapshotExists NewActualStateOfWorld n}"
    using reconcile_requests [OF a d ka kd, of "\<lambda>name op g. (None, g @ [(name, op)])" "[]"] by blast
  from n have "set news = {SyncSnapshot n v | n v. dsw_lookup ?d n = Some v}"
    by (simp add: asw_SnapshotExists_lookup asw.lookup_empty)
  with r show ?thesis unfolding snd_conv by blast
qed

section \<open>The controller's invariant\<close>

definition running_ok :: "running \<Rightarrow> bool" where
  "running_ok g \<longleftrightarrow> distinct (map fst g) \<and>
     (\<forall>(name, op) \<in> set g. name = operationName op \<and>
        fst (operationSnapshot op) = MakeSnapshotName (snd (operationSnapshot op)))"

definition controller_ok :: "'c controller \<Rightarrow> bool" where
  "controller_ok c \<longleftrightarrow>
     dsw.well_keyed (co_dsw c) \<and> asw.well_keyed (sn_asw (co_state c)) \<and> running_ok (co_running c)"

lemma running_ok_request:
  assumes "running_ok g" and "starts Run"
    and "fst (operationSnapshot op) = MakeSnapshotName (snd (operationSnapshot op))"
  shows "running_ok (requestOf op Run g)"
proof -
  have "snd (Run (operationName op) op g) = g \<or>
        (operationName op \<notin> fst ` set g \<and> snd (Run (operationName op) op g) = g @ [(operationName op, op)])"
    using assms(2) by (simp add: starts_def)
  with assms(1,3) show ?thesis by (auto simp: running_ok_def requestOf_def)
qed

lemma running_ok_reconcile:
  assumes "running_ok g" and "starts Run"
  shows "running_ok (reconcile Run aorder dorder dsw asw g)"
  unfolding reconcile_as_requests
proof (rule fold_invariant [where P = running_ok])
  show "running_ok g" by (rule assms(1))
next
  fix op g assume "op \<in> set (requests aorder dorder dsw asw)" "running_ok g"
  then show "running_ok (requestOf op Run g)"
    by (intro running_ok_request assms(2)) (auto simp: requests_def)
qed

lemma reconciliationLoopFunc_asw:
  "reconciliationLoopFunc Run aorder dorder t1 t2 dsw (rc, asw, g) = (rc', asw', g') \<Longrightarrow>
     asw' = asw \<and> g' = reconcile Run aorder dorder dsw asw g"
  by (auto simp: reconciliationLoopFunc_def sync_def syncStates_def Let_def split: if_splits)

lemma running_ok_filter: "running_ok g \<Longrightarrow> running_ok (filter P g)"
  by (auto simp: running_ok_def distinct_map_filter)

lemma well_keyed_operation:
  assumes "asw.well_keyed (sn_asw s)" and "runOperation env op s = Some (err, s')"
    and backoff: "\<And>n cond s. e_Backoff env n cond s = polls n cond s"
  shows "asw.well_keyed (sn_asw s')"
proof (cases op)
  case (SyncSnapshot n v)
  with assms(2) have "syncSnapshot env n v s = Some (err, s')" by simp
  from syncSnapshot_result [OF this backoff] assms(1) show ?thesis
    by (auto simp: ready_reported_def intro: asw.well_keyed_add split: if_splits)
next
  case (SnapshotDelete n v)
  with assms(2) have "sn_asw s' = sn_asw s \<or> sn_asw s' = asw_DeleteSnapshot n (sn_asw s)"
    by (auto simp: getSnapshotDeleteFunc_def split: prod.splits sum.splits option.splits)
  with assms(1) show ?thesis by (auto intro: asw.well_keyed_remove)
next
  case (SnapshotPromote n v)
  with assms show ?thesis by (simp add: getSnapshotPromoteFunc_def)
qed

lemma well_keyed_dsw_handlers:
  assumes "dsw.well_keyed dsw"
  shows "dsw.well_keyed (onSnapshotAdd obj dsw)"
    and "onSnapshotUpdate old new dsw = Some dsw' \<Longrightarrow> dsw.well_keyed dsw'"
    and "dsw.well_keyed (onSnapshotDelete obj dsw)"
    and "dsw.well_keyed (populatorLoopFunc p store now s order dsw)"
proof -
  show "dsw.well_keyed (onSnapshotAdd obj dsw)"
    using assms by (auto simp: onSnapshotAdd_def dsw_AddSnapshot_def dsw.well_keyed_add split: object.splits)
  show "onSnapshotUpdate old new dsw = Some dsw' \<Longrightarrow> dsw.well_keyed dsw'"
    using assms by (auto simp: onSnapshotUpdate_def dsw_AddSnapshot_def dsw.well_keyed_add
        split: object.splits if_splits)
  show "dsw.well_keyed (onSnapshotDelete obj dsw)"
    using assms by (induction obj dsw rule: onSnapshotDelete.induct) (auto simp: dsw.well_keyed_remove)
  show "dsw.well_keyed (populatorLoopFunc p store now s order dsw)"
    using assms by (auto simp: populatorLoopFunc_def Let_def findAndRemove_purge findAndAdd_fill
        intro!: dsw.well_keyed_fill dsw.well_keyed_purge)
qed

lemma controller_ok_step:
  assumes "controller_step env store p c c'" and "controller_ok c"
    and backoff: "\<And>n cond s. e_Backoff env n cond s = polls n cond s"
  shows "controller_ok c'"
  using assms(1,2)
proof (induction rule: controller_step.induct)
  case (reconcile Run aorder dorder t1 t2 c rc asw g)
  from reconciliationLoopFunc_asw [OF reconcile(2)] reconcile(1,3) show ?case
    by (auto simp: controller_ok_def intro: running_ok_reconcile)
next
  case (finish name op c err st)
  from finish(2,3) well_keyed_operation [OF _ finish(2) backoff] show ?case
    by (auto simp: controller_ok_def intro: running_ok_filter)
qed (auto simp: controller_ok_def intro: well_keyed_dsw_handlers)

lemma controller_ok_reachable:
  assumes "controller_reachable env store p c"
    and backoff: "\<And>n cond s. e_Backoff env n cond s = polls n cond s"
  shows "controller_ok c"
  using assms(1)
proof (induction rule: controller_reachable.induct)
  case (initially cl syncDuration now)
  show ?case
    by (simp add: controller_ok_def NewSnapshotController_def running_ok_def asw.well_keyed_empty
        dsw.well_keyed_empty)
next
  case (step c c')
  then show ?case using controller_ok_step backoff by blast
qed


definition demo_reconciled :: "demo_cluster controller" where
  "demo_reconciled =
     (let c = NewSnapshotController (sn_cluster (demo_state demo_snap)) 0 0;
          c = c\<lparr>co_dsw := onSnapshotAdd (SnapshotObj demo_snap) (co_dsw c)\<rparr>
      in c\<lparr>co_running := [(''createns/s-1pvc'', SyncSnapshot ''ns/s-1'' demo_snap)]\<rparr>)"

lemma demo_reconciled_reachable: "controller_reachable demo_env demo_store p demo_reconciled"
proof -
  let ?c0 = "NewSnapshotController (sn_cluster (demo_state demo_snap)) 0 0"
  let ?c1 = "?c0\<lparr>co_dsw := onSnapshotAdd (SnapshotObj demo_snap) (co_dsw ?c0)\<rparr>"
  let ?Run = "\<lambda>name op g. if name \<in> fst ` set g then (Some (ExtErr ''exists''), g)
                          else (None :: error option, g @ [(name, op :: operation)])"
  have run: "starts ?Run" by (auto simp: starts_def)
  have "controller_reachable demo_env demo_store p ?c1"
    by (rule controller_reachable.step [OF controller_reachable.initially controller_step.add])
  moreover have "controller_step demo_env demo_store p ?c1
      (?c1\<lparr>co_rc := co_rc ?c1, co_state := (co_state ?c1)\<lparr>sn_asw := sn_asw (co_state ?c1)\<rparr>,
           co_running := co_running demo_reconciled\<rparr>)"
    by (rule controller_step.reconcile [OF run, where aorder = "[]" and dorder = "[''ns/s-1'']" and ?t1.0 = 0 and ?t2.0 = 0])
      (simp add: reconciliationLoopFunc_def reconcile_def NewSnapshotController_def NewReconciler_def
        demo_reconciled_def asw_GetSnapshots_def dsw_GetSnapshots_def onSnapshotAdd_def dsw_AddSnapshot_def
        dsw_Add_def NewDesiredStateOfWorld_def NewActualStateOfWorld_def MakeSnapshotName_def demo_snap_def
        asw_SnapshotExists_def CreateVolumeSnapshot_def demo_state_def Let_def)
  ultimately have "controller_reachable demo_env demo_store p
      (?c1\<lparr>co_rc := co_rc ?c1, co_state := (co_state ?c1)\<lparr>sn_asw := sn_asw (co_state ?c1)\<rparr>,
           co_running := co_running demo_reconciled\<rparr>)"
    by (rule controller_reachable.step)
  then show ?thesis by (simp add: demo_reconciled_def Let_def)
qed


section \<open>Convergence\<close>

text \<open>
  Running operations one after the other, all of them successful, where a creation files a
  snapshot under the name it was started with (the API server keeps the name of an object).
\<close>

fun run_all :: "'c env \<Rightarrow> operation list \<Rightarrow> 'c snapState \<Rightarrow> 'c snapState option" where
  "run_all env [] s = Some s"
| "run_all env (op # ops) s =
     (case runOperation env op s of
        Some (None, s') \<Rightarrow>
          (case op of
             SyncSnapshot n v \<Rightarrow>
               if \<not> asw_SnapshotExists (sn_asw s) n \<and> asw_SnapshotExists (sn_asw s') n
               then run_all env ops s' else None
           | _ \<Rightarrow> run_all env ops s')
      | _ \<Rightarrow> None)"

lemma sync_filed:
  assumes "syncSnapshot env n v s = Some (None, s')"
    and backoff: "\<And>n cond s. e_Backoff env n cond s = polls n cond s"
    and "\<not> asw_SnapshotExists (sn_asw s) n" and "asw_SnapshotExists (sn_asw s') n"
  shows "asw_SnapshotExists (sn_asw s') k \<longleftrightarrow> k = n \<or> asw_SnapshotExists (sn_asw s) k"
proof -
  from syncSnapshot_result [OF assms(1) backoff] obtain w where "sn_asw s' = asw_Add w (sn_asw s)"
    by (auto simp: ready_reported_def)
  with assms(3,4) show ?thesis
    by (auto simp: asw_SnapshotExists_lookup asw.lookup_add split: if_splits)
qed

lemma delete_filed:
  assumes "getSnapshotDeleteFunc env n v s = Some (None, s')"
  shows "asw_SnapshotExists (sn_asw s') k \<longleftrightarrow> k \<noteq> n \<and> asw_SnapshotExists (sn_asw s) k"
proof -
  have "sn_asw s' = asw_DeleteSnapshot n (sn_asw s)"
    using assms by (auto simp: getSnapshotDeleteFunc_def split: prod.splits sum.splits option.splits)
  then show ?thesis by (simp add: asw_SnapshotExists_lookup asw.lookup_remove)
qed

definition creates :: "operation list \<Rightarrow> string \<Rightarrow> bool" where
  "creates ops k \<longleftrightarrow> (\<exists>v. SyncSnapshot k v \<in> set ops)"

definition deletes :: "operation list \<Rightarrow> string \<Rightarrow> bool" where
  "deletes ops k \<longleftrightarrow> (\<exists>v. SnapshotDelete k v \<in> set ops)"

lemma run_all_names:
  assumes "run_all env ops s = Some s'" and "\<not> (creates ops k \<and> deletes ops k)"
    and backoff: "\<And>n cond s. e_Backoff env n cond s = polls n cond s"
  shows "asw_SnapshotExists (sn_asw s') k \<longleftrightarrow>
           creates ops k \<or> (asw_SnapshotExists (sn_asw s) k \<and> \<not> deletes ops k)"
  using assms(1,2)
proof (induction ops arbitrary: s)
  case Nil
  then show ?case by (simp add: creates_def deletes_def)
next
  case (Cons op ops)
  from Cons.prems(1) obtain m where m: "runOperation env op s = Some (None, m)" "run_all env ops m = Some s'"
    by (auto split: option.splits prod.splits operation.splits if_splits)
  have "\<not> (creates ops k \<and> deletes ops k)"
    using Cons.prems(2) by (auto simp: creates_def deletes_def)
  from Cons.IH [OF m(2) this] have ih: "asw_SnapshotExists (sn_asw s') k \<longleftrightarrow>
      creates ops k \<or> (asw_SnapshotExists (sn_asw m) k \<and> \<not> deletes ops k)" .
  show ?case
  proof (cases op)
    case (SyncSnapshot n v)
    with m(1) have sync: "syncSnapshot env n v s = Some (None, m)" by simp
    moreover have "\<not> asw_SnapshotExists (sn_asw s) n" "asw_SnapshotExists (sn_asw m) n"
      using Cons.prems(1) SyncSnapshot m(1) by (auto split: if_splits)
    ultimately have "asw_SnapshotExists (sn_asw m) k \<longleftrightarrow> k = n \<or> asw_SnapshotExists (sn_asw s) k"
      by (rule sync_filed [OF _ backoff])
    then show ?thesis
      using ih Cons.prems(2) SyncSnapshot by (auto simp: creates_def deletes_def)
  next
    case (SnapshotDelete n v)
    with m(1) have "getSnapshotDeleteFunc env n v s = Some (None, m)" by simp
    from delete_filed [OF this, of k] show ?thesis
      using ih Cons.prems(2) SnapshotDelete by (auto simp: creates_def deletes_def)
  next
    case (SnapshotPromote n v)
    with m(1) have "m = s" by (simp add: getSnapshotPromoteFunc_def)
    then show ?thesis
      using ih SnapshotPromote by (auto simp: creates_def deletes_def)
  qed
qed



end
