(* ===== verification/ProvisionerLib.thy ===== *)
theory ProvisionerLib
  imports K8sTypes "HOL-Library.Char_ord" "HOL-Library.List_Lexorder"
begin

text \<open>
  What the provisioners share: the options the provisioning library's controller hands them (with
  what they read of the claim), and the contract of a provisioner that marks the volumes it makes
  with its identity.
\<close>

record VolumeOptions =
  vo_PVName :: string
  vo_Parameters :: "string gomap"
  vo_ReclaimPolicy :: string
  vo_MountOptions :: "string list option"
  vo_Selector :: bool
  vo_AccessModes :: "string list"
  vo_Request :: int
  vo_VolumeMode :: "string option"
  vo_PVCName :: string
  vo_PVCNamespace :: string
  vo_PVCAnnotations :: "string gomap"


section \<open>A range over the parameters\<close>

text \<open>
  The loop \<open>for k, v := range parameters\<close> with an early return: \<open>step\<close> is its body, which either
  returns from the function (\<open>Inl\<close>) or changes the local variables. When the bodies of different
  keys commute, the order of the visits decides neither whether the loop returns early nor the
  values of the variables after it.
\<close>

definition and_then :: "'e + 's \<Rightarrow> ('s \<Rightarrow> 'e + 't) \<Rightarrow> 'e + 't" where
  "and_then r f = (case r of Inl e \<Rightarrow> Inl e | Inr s \<Rightarrow> f s)"

lemma and_then_simps [simp]: "and_then (Inl e) f = Inl e" "and_then (Inr s) f = f s"
  by (simp_all add: and_then_def)

fun range_loop :: "(string \<Rightarrow> 'v \<Rightarrow> 's \<Rightarrow> 'e + 's) \<Rightarrow> string list \<Rightarrow> 'v gomap \<Rightarrow> 's \<Rightarrow> 'e + 's" where
  "range_loop step [] m s = Inr s"
| "range_loop step (k # ks) m s =
     (case fmlookup m k of
        None \<Rightarrow> range_loop step ks m s
      | Some v \<Rightarrow> and_then (step k v s) (range_loop step ks m))"

definition agree :: "'e + 's \<Rightarrow> 'e + 's \<Rightarrow> bool" where
  "agree a b \<longleftrightarrow> (isl a \<longleftrightarrow> isl b) \<and> (\<not> isl a \<longrightarrow> a = b)"

lemma agree_refl [simp]: "agree a a"
  by (simp add: agree_def)


lemma agree_Inl [simp]: "agree (Inl e) (Inl e')" "\<not> agree (Inl e) (Inr s)" "\<not> agree (Inr s) (Inl e)"
  "agree (Inr s) (Inr s') \<longleftrightarrow> s = s'"
  by (auto simp: agree_def)

lemma agree_trans: "agree a b \<Longrightarrow> agree b c \<Longrightarrow> agree a c"
  by (cases a; cases b; cases c) simp_all

lemma agree_sym: "agree a b \<Longrightarrow> agree b a"
  by (cases a; cases b) simp_all

lemma agree_Inr: "agree a b \<Longrightarrow> a = Inr s \<Longrightarrow> b = Inr s"
  by (cases b) simp_all

lemma agree_and_then: "agree a b \<Longrightarrow> agree (and_then a f) (and_then b f)"
  by (cases a; cases b) auto

lemma agree_under: "(\<And>s. agree (f s) (g s)) \<Longrightarrow> agree (and_then a f) (and_then a g)"
  by (cases a) auto

lemma and_then_assoc: "and_then (and_then a f) g = and_then a (\<lambda>s. and_then (f s) g)"
  by (cases a) auto

definition commuting :: "(string \<Rightarrow> 'v \<Rightarrow> 's \<Rightarrow> 'e + 's) \<Rightarrow> 'v gomap \<Rightarrow> bool" where
  "commuting step m \<longleftrightarrow>
     (\<forall>k k' v v' s. fmlookup m k = Some v \<longrightarrow> fmlookup m k' = Some v' \<longrightarrow> k \<noteq> k' \<longrightarrow>
        agree (and_then (step k v s) (step k' v')) (and_then (step k' v' s) (step k v)))"

lemma range_loop_front:
  assumes "commuting step m" and "k \<notin> set a"
  shows "agree (range_loop step (a @ k # b) m s) (range_loop step (k # a @ b) m s)"
  using assms(2)
proof (induction a arbitrary: s)
  case (Cons x a)
  show ?case
  proof (cases "fmlookup m x")
    case None
    then have skip: "range_loop step (x # c) m = range_loop step c m" for c by auto
    moreover have "range_loop step (k # x # a @ b) m s = range_loop step (k # a @ b) m s"
      using skip by (simp only: range_loop.simps(2) split: option.split)
    ultimately show ?thesis using Cons by (simp del: range_loop.simps)
  next
    case x: (Some w)
    have IH: "agree (range_loop step (a @ k # b) m s') (range_loop step (k # a @ b) m s')" for s'
      using Cons by simp
    show ?thesis
    proof (cases "fmlookup m k")
      case None
      then have "range_loop step (k # a @ b) m = range_loop step (a @ b) m" by auto
      with IH x None show ?thesis by (auto intro: agree_under)
    next
      case k: (Some v)
      have "agree (range_loop step ((x # a) @ k # b) m s)
              (and_then (step x w s) (range_loop step (k # a @ b) m))"
        using IH x by (auto intro: agree_under)
      also have "and_then (step x w s) (range_loop step (k # a @ b) m) =
          and_then (and_then (step x w s) (step k v)) (range_loop step (a @ b) m)"
        using k by (cases "step x w s") auto
      finally have here: "agree (range_loop step ((x # a) @ k # b) m s)
          (and_then (and_then (step x w s) (step k v)) (range_loop step (a @ b) m))" .
      have swap: "agree (and_then (step x w s) (step k v)) (and_then (step k v s) (step x w))"
        using assms(1) x k Cons.prems by (auto simp: commuting_def)
      have "and_then (and_then (step k v s) (step x w)) (range_loop step (a @ b) m) =
          range_loop step (k # (x # a) @ b) m s"
        using x k by (cases "step k v s") auto
      then show ?thesis
        using agree_trans [OF here agree_and_then [OF swap]] by simp
    qed
  qed
qed simp

lemma range_loop_perm:
  assumes "commuting step m" and "distinct ks" and "distinct ks'" and "set ks = set ks'"
  shows "agree (range_loop step ks m s) (range_loop step ks' m s)"
  using assms(2-)
proof (induction ks arbitrary: ks' s)
  case (Cons k ks)
  then obtain a b where ks': "ks' = a @ k # b"
    by (metis list.set_intros(1) split_list)
  with Cons.prems have "k \<notin> set a" "distinct (a @ b)" "set ks = set (a @ b)" "distinct ks"
    by auto
  then have front: "agree (range_loop step ks' m s) (range_loop step (k # a @ b) m s)"
    and IH: "agree (range_loop step ks m s') (range_loop step (a @ b) m s')" for s'
    unfolding ks' by (blast intro: range_loop_front [OF assms(1)] Cons.IH)+
  have "agree (range_loop step (k # ks) m s) (range_loop step (k # a @ b) m s)"
    using IH by (auto split: option.split intro: agree_under)
  moreover have "agree (range_loop step (k # a @ b) m s) (range_loop step ks' m s)"
    using front by (rule agree_sym)
  ultimately show ?case by (rule agree_trans)
qed simp

lemma range_loop_order:
  assumes "commuting step m" and "enumerates ks m" and "enumerates ks' m"
  shows "agree (range_loop step ks m s) (range_loop step ks' m s)"
proof (rule range_loop_perm [OF assms(1)])
  show "distinct ks" "distinct ks'"
    using assms by (simp_all add: enumerates_def)
  show "set ks = set ks'"
    using assms by (metis enumerates_def fset_of_list.rep_eq)
qed

lemma range_loop_invariant:
  assumes "range_loop step ks m s = Inr s'" and "P s"
    and "\<And>k v s s'. fmlookup m k = Some v \<Longrightarrow> P s \<Longrightarrow> step k v s = Inr s' \<Longrightarrow> P s'"
  shows "P s'"
  using assms(1,2)
proof (induction ks arbitrary: s)
  case (Cons k ks)
  then show ?case
    by (cases "fmlookup m k"; cases "step k (the (fmlookup m k)) s") (auto intro: assms(3))
qed simp

lemma range_loop_Inl:
  assumes "range_loop step ks m s = Inl e"
  shows "\<exists>k v s. fmlookup m k = Some v \<and> step k v s = Inl e"
  using assms
proof (induction ks arbitrary: s)
  case (Cons k ks)
  then show ?case
    by (cases "fmlookup m k"; cases "step k (the (fmlookup m k)) s") auto
qed simp

text \<open>Keys that differ only in case name the same parameter.\<close>

definition distinct_params :: "'v gomap \<Rightarrow> bool" where
  "distinct_params m \<longleftrightarrow>
     (\<forall>k k'. fmlookup m k \<noteq> None \<longrightarrow> fmlookup m k' \<noteq> None \<longrightarrow> ToLower k = ToLower k' \<longrightarrow> k = k')"

text \<open>One legal order of the keys, for the witnesses.\<close>

definition sorted_keys :: "'v gomap \<Rightarrow> string list" where
  "sorted_keys m = sorted_list_of_fset (fmdom m)"

lemma sorted_keys_legal: "enumerates (sorted_keys m) m"
  by (simp add: enumerates_def sorted_keys_def fset_eq_iff fset_of_list_elem sorted_list_of_fset.rep_eq)

lemma rev_enumerates: "enumerates ks m \<Longrightarrow> enumerates (rev ks) m"
  by (simp add: enumerates_def fset_eq_iff fset_of_list_elem)

record Secret =
  sec_Namespace :: string
  sec_Name :: string
  sec_Data :: "string gomap"
  sec_Type :: string

text \<open>The number of units that hold a size, as the library computes it.\<close>

definition rounds_up :: "(int \<Rightarrow> int \<Rightarrow> int) \<Rightarrow> bool" where
  "rounds_up f \<longleftrightarrow> (\<forall>size unit. 0 < unit \<longrightarrow> 0 \<le> size \<longrightarrow> (f size unit - 1) * unit < size \<and> size \<le> f size unit * unit)"

lemma rounds_up_div: "rounds_up (\<lambda>size unit. (size + unit - 1) div unit)"
  unfolding rounds_up_def
proof (intro allI impI)
  fix size unit :: int
  let ?n = "size + unit - 1"
  assume "0 < unit"
  then have "0 \<le> ?n mod unit" "?n mod unit < unit" by simp_all
  moreover have "?n div unit * unit = ?n - ?n mod unit" by (rule minus_mod_eq_div_mult [symmetric])
  ultimately show "(?n div unit - 1) * unit < size \<and> size \<le> ?n div unit * unit"
    by (simp add: left_diff_distrib)
qed

section \<open>Secrets\<close>

text \<open>A map with at most one entry has the same values in every order.\<close>

lemma single_entry_values:
  assumes "enumerates ks m" and "map_len m \<le> 1"
  shows "map_values ks m = (if m = fmempty then [] else [the_elem {v. \<exists>k. fmlookup m k = Some v}])"
proof (cases "m = fmempty")
  case True
  then show ?thesis using assms by (cases ks) (auto simp: enumerates_def)
next
  case False
  with assms(2) have "map_len m = 1" using map_len_0_iff [of m] by linarith
  moreover from assms(1) have "map_len m = length ks"
    by (metis distinct_card enumerates_def fcard.rep_eq fset_of_list.rep_eq map_len_def)
  ultimately obtain k where ks: "ks = [k]" by (cases ks) auto
  then have "fmdom m = {|k|}" using assms(1) by (simp add: enumerates_def)
  then obtain v where v: "fmlookup m k = Some v" by (metis fmlookup_dom_iff fsingletonI)
  have "{v. \<exists>k. fmlookup m k = Some v} = {v}"
    using set_map_values_enumerates [OF assms(1)] v ks by auto
  with False v ks show ?thesis by simp
qed

text \<open>The data under \<open>key\<close>, or else the data visited last.\<close>

fun scanSecret :: "string list \<Rightarrow> string gomap \<Rightarrow> string \<Rightarrow> string" where
  "scanSecret [] data secret = secret"
| "scanSecret (k # ks) data secret =
     (case fmlookup data k of
        None \<Rightarrow> scanSecret ks data secret
      | Some v \<Rightarrow> if k = ''key'' then v else scanSecret ks data v)"

lemma scanSecret_key:
  "k \<in> set ks \<Longrightarrow> k = ''key'' \<Longrightarrow> fmlookup data k = Some v \<Longrightarrow> scanSecret ks data s = v"
  by (induction ks arbitrary: s) (auto split: option.split)

lemma scanSecret_values:
  "fmlookup data ''key'' = None \<Longrightarrow>
     scanSecret ks data s = (if map_values ks data = [] then s else last (map_values ks data))"
  by (induction ks arbitrary: s) (auto split: option.split)

text \<open>The key is found whatever the order, if the secret has an entry \<open>key\<close> or a single entry.\<close>

lemma scanSecret_order:
  assumes "enumerates ks data" and "enumerates ks' data"
    and "fmlookup data ''key'' \<noteq> None \<or> map_len data \<le> 1"
  shows "scanSecret ks data s = scanSecret ks' data s"
proof (cases "fmlookup data ''key''")
  case None
  with assms(3) have "map_len data \<le> 1" by simp
  with None show ?thesis
    by (simp add: scanSecret_values single_entry_values [OF assms(1)] single_entry_values [OF assms(2)])
next
  case (Some v)
  then have "''key'' \<in> set ks" "''key'' \<in> set ks'"
    using assms(1,2) by (auto dest: enumerates_lookup)
  with Some show ?thesis by (metis scanSecret_key)
qed

section \<open>Connecting to the cluster\<close>

text \<open>
  The start of every \<open>main\<close>: a configuration from the flags or from the cluster the process runs in,
  a client for it and the server's version. An error ends the process (\<open>Fatalf\<close>): \<open>None\<close>.
\<close>

record ('cfg, 'client) kubeLib =
  kl_BuildConfigFromFlags :: "string \<Rightarrow> string \<Rightarrow> 'cfg result"
  kl_InClusterConfig :: "'cfg result"
  kl_NewForConfig :: "'cfg \<Rightarrow> 'client result"
  kl_ServerVersion :: "'client \<Rightarrow> string result"

definition ok :: "'a result \<Rightarrow> 'a option" where
  "ok r = (case r of Inl err \<Rightarrow> None | Inr v \<Rightarrow> Some v)"

definition kube_connect :: "('cfg, 'client) kubeLib \<Rightarrow> string \<Rightarrow> string \<Rightarrow> 'client option" where
  "kube_connect kl master kubeconfig =
     do {
       config \<leftarrow> ok (if master \<noteq> '''' \<or> kubeconfig \<noteq> '''' then kl_BuildConfigFromFlags kl master kubeconfig
                      else kl_InClusterConfig kl);
       ok (kl_NewForConfig kl config)
     }"

section \<open>A provisioner that marks its volumes\<close>

text \<open>
  A provisioner writes its identity on every volume it makes and leaves alone the volumes without
  it. \<open>provision\<close> and \<open>delete\<close> work on the provisioner and the world together; a panic is \<open>None\<close>.
\<close>

locale marking_provisioner =
  fixes provision :: "VolumeOptions \<Rightarrow> 's \<Rightarrow> (PersistentVolume result \<times> 's) option"
    and delete :: "PersistentVolume \<Rightarrow> 's \<Rightarrow> (error option \<times> 's) option"
    and mark :: "'s \<Rightarrow> string \<times> string"
  assumes provision_marks:
      "provision options s = Some (Inr pv, s') \<Longrightarrow>
         fmlookup (pv_Annotations pv) (fst (mark s)) = Some (snd (mark s))"
    and provision_keeps: "provision options s = Some (r, s') \<Longrightarrow> mark s' = mark s"
    and delete_keeps: "delete pv s = Some (e, s') \<Longrightarrow> mark s' = mark s"
    and delete_foreign:
      "fmlookup (pv_Annotations pv) (fst (mark s)) \<noteq> Some (snd (mark s)) \<Longrightarrow>
         \<exists>err. delete pv s = Some (Some err, s)"
begin

text \<open>A sequence of calls of the library's controller, until one of them panics.\<close>

definition request :: "VolumeOptions + PersistentVolume \<Rightarrow> 's \<Rightarrow> 's option" where
  "request r s =
     (case r of Inl options \<Rightarrow> map_option snd (provision options s)
      | Inr pv \<Rightarrow> map_option snd (delete pv s))"

fun requests :: "(VolumeOptions + PersistentVolume) list \<Rightarrow> 's \<Rightarrow> 's option" where
  "requests [] s = Some s"
| "requests (r # rs) s = Option.bind (request r s) (requests rs)"

lemma requests_keep: "requests rs s = Some s' \<Longrightarrow> mark s' = mark s"
proof (induction rs arbitrary: s)
  case (Cons r rs)
  then obtain s1 where "request r s = Some s1" and "requests rs s1 = Some s'"
    by (auto simp: bind_eq_Some_conv)
  moreover from this(1) have "mark s1 = mark s"
    by (auto simp: request_def dest: provision_keeps delete_keeps split: sum.splits)
  ultimately show ?case using Cons.IH by simp
qed simp

text \<open>Foreign volumes are refused whatever was requested before, and never panic.\<close>

lemma foreign_refused:
  assumes "requests rs s = Some s'"
    and "fmlookup (pv_Annotations pv) (fst (mark s)) \<noteq> Some (snd (mark s))"
  shows "\<exists>err. delete pv s' = Some (Some err, s')"
  using assms requests_keep by (intro delete_foreign) auto

lemma deleted_was_marked:
  "delete pv s = Some (None, s') \<Longrightarrow> fmlookup (pv_Annotations pv) (fst (mark s)) = Some (snd (mark s))"
  using delete_foreign by fastforce

end

section \<open>A key that is missing reads as the empty string\<close>

definition map_get :: "string gomap \<Rightarrow> string \<Rightarrow> string" where
  "map_get m k = (case fmlookup m k of None \<Rightarrow> '''' | Some v \<Rightarrow> v)"

lemma map_get_upd [simp]: "map_get (fmupd k v m) k' = (if k' = k then v else map_get m k')"
  by (simp add: map_get_def)

lemma map_get_empty [simp]: "map_get fmempty k = ''''"
  by (simp add: map_get_def)

end
