(* ===== verification/SnapPlugins.thy ===== *)
theory SnapPlugins
  imports Snapshotter ProvisionerLib
begin

text \<open>
  The interface \<open>volume.Plugin\<close> in full and the two plugins without a cloud:
  \<open>snapshot/pkg/volume/hostpath/processor.go\<close> and \<open>snapshot/pkg/volume/gluster/snapshot.go\<close>.
  A plugin works on the cluster's state \<open>'c\<close> through the operating system's calls (\<open>pluginOS\<close>).
  The first four operations are the ones the snapshotter uses (record \<open>Plugin\<close>); restoring a
  snapshot and deleting a volume are used by the provisioner of volumes from snapshots. The
  pointers the callers pass are never nil: \<open>tags\<close> is the address of a local variable.
\<close>

text \<open>\<open>v1.PersistentVolumeSource\<close>, for the types of volume that can be restored.\<close>

datatype PersistentVolumeSource =
    SrcHostPath string
  | SrcEBS AWSElasticBlockStoreVolumeSource
  | SrcGCE GCEPersistentDiskVolumeSource
  | SrcCinder CinderVolumeSource
  | SrcGlusterfs GlusterfsVolumeSource

fun with_source :: "PersistentVolumeSource \<Rightarrow> PersistentVolume \<Rightarrow> PersistentVolume" where
  "with_source (SrcHostPath path) pv = pv\<lparr>pv_HostPath := Some path\<rparr>"
| "with_source (SrcEBS s) pv = pv\<lparr>pv_AWSElasticBlockStore := Some s\<rparr>"
| "with_source (SrcGCE s) pv = pv\<lparr>pv_GCEPersistentDisk := Some s\<rparr>"
| "with_source (SrcCinder s) pv = pv\<lparr>pv_Cinder := Some s\<rparr>"
| "with_source (SrcGlusterfs s) pv = pv\<lparr>pv_Glusterfs := Some s\<rparr>"

text \<open>What a plugin reads of the claim it restores a snapshot for.\<close>

record restoreClaim =
  rc_Name :: string
  rc_Request :: int
  rc_Selector :: bool

text \<open>The labels of a restored volume are a map or nil.\<close>

record 'c volumePlugin = "'c Plugin" +
  pl_SnapshotRestore :: "VolumeSnapshotData \<Rightarrow> restoreClaim option \<Rightarrow> string \<Rightarrow> string gomap \<Rightarrow> 'c \<Rightarrow>
    (PersistentVolumeSource \<times> string gomap option) result \<times> 'c"
  pl_VolumeDelete :: "PersistentVolume \<Rightarrow> 'c \<Rightarrow> unit result \<times> 'c"

record 'c pluginOS =
  xo_exec :: "string list \<Rightarrow> 'c \<Rightarrow> (string \<times> error option) \<times> 'c"
  xo_Remove :: "string \<Rightarrow> 'c \<Rightarrow> error option \<times> 'c"
  xo_Stat :: "string \<Rightarrow> 'c \<Rightarrow> error option"
  xo_MkdirAll :: "string \<Rightarrow> nat \<Rightarrow> 'c \<Rightarrow> error option \<times> 'c"
  xo_RemoveAll :: "string \<Rightarrow> 'c \<Rightarrow> error option \<times> 'c"
  xo_NewUUID :: "'c \<Rightarrow> string \<times> 'c"
  xo_Now :: "'c \<Rightarrow> int \<times> 'c"

definition unit_result :: "error option \<Rightarrow> unit result" where
  "unit_result e = (case e of Some err \<Rightarrow> Inl err | None \<Rightarrow> Inr ())"

definition emptySource :: VolumeSnapshotDataSource where
  "emptySource =
     \<lparr>src_HostPath = None, src_GlusterSnapshotVolume = None, src_AWSElasticBlockStore = None,
      src_GCEPersistentDiskSnapshot = None, src_CinderSnapshot = None\<rparr>"

definition newCondition :: "string \<Rightarrow> string \<Rightarrow> string \<Rightarrow> int \<Rightarrow> VolumeSnapshotCondition" where
  "newCondition ty status message now =
     \<lparr>cond_Type = ty, cond_Status = status, cond_LastTransitionTime = now, cond_Reason = '''', cond_Message = message\<rparr>"

text \<open>
  Both plugins describe a snapshot by the last condition of its \<open>VolumeSnapshotData\<close>.
\<close>

definition describedCondition :: "VolumeSnapshotData \<Rightarrow> VolumeSnapshotCondition" where
  "describedCondition snapshotData =
     (let lastCond = vsd_Conditions snapshotData ! (length (vsd_Conditions snapshotData) - 1);
          retCondType = (if cond_Type lastCond = ConditionReady then ConditionReady
                         else if cond_Type lastCond = ConditionPending then ConditionPending
                         else ConditionError)
      in \<lparr>cond_Type = retCondType, cond_Status = cond_Status lastCond,
          cond_LastTransitionTime = cond_LastTransitionTime lastCond, cond_Reason = '''',
          cond_Message = cond_Message lastCond\<rparr>)"

section \<open>Host paths\<close>

abbreviation hp_depot :: string where
  "hp_depot \<equiv> ''/tmp/''"

abbreviation hp_restorePoint :: string where
  "hp_restorePoint \<equiv> ''/tmp/restore/''"

definition hp_SnapshotCreate ::
  "'c pluginOS \<Rightarrow> VolumeSnapshot \<Rightarrow> PersistentVolume \<Rightarrow> string gomap option \<Rightarrow> 'c \<Rightarrow>
     (VolumeSnapshotDataSource option \<times> VolumeSnapshotCondition list option) result \<times> 'c" where
  "hp_SnapshotCreate os snapshot pv tags c =
     (case pv_HostPath pv of
        None \<Rightarrow> (Inl (Errorf ''invalid PV spec %v'' []), c)
      | Some path \<Rightarrow>
          let (u, c) = xo_NewUUID os c; file = hp_depot @ u @ ''.tgz''
          in (case xo_exec os [''tar'', ''czf'', file, ''-C'', path, ''.''] c of
                ((out, None), c) \<Rightarrow>
                  let (now, c) = xo_Now os c
                  in (Inr (Some (emptySource\<lparr>src_HostPath := Some file\<rparr>),
                           Some [newCondition ConditionReady ConditionTrue ''Snapshot created successfully'' now]), c)
              | ((out, Some err), c) \<Rightarrow> (Inl err, snd (xo_Now os c))))"

definition hp_SnapshotDelete ::
  "'c pluginOS \<Rightarrow> VolumeSnapshotDataSource \<Rightarrow> PersistentVolume \<Rightarrow> 'c \<Rightarrow> unit result \<times> 'c" where
  "hp_SnapshotDelete os src pv c =
     (case src_HostPath src of
        None \<Rightarrow> (Inl (Errorf ''invalid VolumeSnapshotDataSource: %v'' []), c)
      | Some path \<Rightarrow> (case xo_Remove os path c of (err, c) \<Rightarrow> (unit_result err, c)))"

definition hp_DescribeSnapshot ::
  "'c pluginOS \<Rightarrow> VolumeSnapshotData \<Rightarrow> 'c \<Rightarrow> (VolumeSnapshotCondition list option \<times> bool) result \<times> 'c" where
  "hp_DescribeSnapshot os snapshotData c =
     (case src_HostPath (spec_Source (vsd_Spec snapshotData)) of
        None \<Rightarrow> (Inl (Errorf ''failed to retrieve Snapshot spec'' []), c)
      | Some path \<Rightarrow>
          (case xo_Stat os path c of
             Some err \<Rightarrow> (Inl err, c)
           | None \<Rightarrow>
               if length (vsd_Conditions snapshotData) = 0 then
                 (Inl (Errorf ''No status condtions in VoluemSnapshotData for hostpath snapshot type'' []), c)
               else (Inr (Some [describedCondition snapshotData], True), c)))"

definition noFindSnapshot ::
  "string gomap option \<Rightarrow> 'c \<Rightarrow> (VolumeSnapshotDataSource option \<times> VolumeSnapshotCondition list option) result \<times> 'c" where
  "noFindSnapshot tags c = (Inl (Errorf ''Snapshot not found'' []), c)"

definition hp_SnapshotRestore ::
  "'c pluginOS \<Rightarrow> VolumeSnapshotData \<Rightarrow> restoreClaim option \<Rightarrow> string \<Rightarrow> string gomap \<Rightarrow> 'c \<Rightarrow>
     (PersistentVolumeSource \<times> string gomap option) result \<times> 'c" where
  "hp_SnapshotRestore os snapshotData pvc pvName parameters c =
     (case src_HostPath (spec_Source (vsd_Spec snapshotData)) of
        None \<Rightarrow> (Inl (Errorf ''failed to retrieve Snapshot spec'' []), c)
      | Some snapID \<Rightarrow>
          let (u, c) = xo_NewUUID os c; dir = hp_restorePoint @ u; (_, c) = xo_MkdirAll os dir 488 c
          in (case xo_exec os [''tar'', ''xzf'', snapID, ''-C'', dir, ''--strip-components=1''] c of
                ((out, Some err), c) \<Rightarrow> (Inl (Wrapf ''failed to restore %s to %s: %v'' [snapID, dir] err), c)
              | ((out, None), c) \<Rightarrow> (Inr (SrcHostPath dir, None), c)))"

definition hp_VolumeDelete :: "'c pluginOS \<Rightarrow> PersistentVolume \<Rightarrow> 'c \<Rightarrow> unit result \<times> 'c" where
  "hp_VolumeDelete os pv c =
     (case pv_HostPath pv of
        None \<Rightarrow> (Inl (Errorf ''invalid VolumeSnapshotDataSource: %v'' []), c)
      | Some path \<Rightarrow> (case xo_RemoveAll os path c of (err, c) \<Rightarrow> (unit_result err, c)))"

definition hostPathPlugin :: "'c pluginOS \<Rightarrow> 'c volumePlugin" where
  "hostPathPlugin os =
     \<lparr>pl_SnapshotCreate = hp_SnapshotCreate os, pl_SnapshotDelete = hp_SnapshotDelete os,
      pl_DescribeSnapshot = hp_DescribeSnapshot os, pl_FindSnapshot = noFindSnapshot,
      pl_SnapshotRestore = hp_SnapshotRestore os, pl_VolumeDelete = hp_VolumeDelete os\<rparr>"

section \<open>Gluster\<close>

abbreviation glusterfsEp :: string where
  "glusterfsEp \<equiv> ''glusterfs-cluster''"

text \<open>The error of creating the snapshot is overwritten by the error of activating it.\<close>

definition gl_SnapshotCreate ::
  "'c pluginOS \<Rightarrow> VolumeSnapshot \<Rightarrow> PersistentVolume \<Rightarrow> string gomap option \<Rightarrow> 'c \<Rightarrow>
     (VolumeSnapshotDataSource option \<times> VolumeSnapshotCondition list option) result \<times> 'c" where
  "gl_SnapshotCreate os snapshot pv tags c =
     (case pv_Glusterfs pv of
        None \<Rightarrow> (Inl (Errorf ''invalid PV spec %v'' []), c)
      | Some glusterfs \<Rightarrow>
          let volumePath = glfs_Path glusterfs;
              (u, c) = xo_NewUUID os c;
              snapshotName = volumePath @ ''_'' @ u;
              ((out, err), c) = xo_exec os [''gluster'', ''snapshot'', ''create'', snapshotName, volumePath, ''no-timestamp''] c;
              ((_, err), c) = xo_exec os [''gluster'', ''snapshot'', ''activate'', snapshotName] c;
              (now, c) = xo_Now os c
          in (case err of
                None \<Rightarrow>
                  (Inr (Some (emptySource\<lparr>src_GlusterSnapshotVolume := Some snapshotName\<rparr>),
                        Some [newCondition ConditionReady ConditionTrue ''Snapshot created successfully'' now]), c)
              | Some e \<Rightarrow> (Inl e, c)))"

definition gl_SnapshotDelete ::
  "'c pluginOS \<Rightarrow> VolumeSnapshotDataSource \<Rightarrow> PersistentVolume \<Rightarrow> 'c \<Rightarrow> unit result \<times> 'c" where
  "gl_SnapshotDelete os src pv c =
     (case src_GlusterSnapshotVolume src of
        None \<Rightarrow> (Inl (Errorf ''invalid VolumeSnapshotDataSource: %v'' []), c)
      | Some snapshotID \<Rightarrow>
          (case xo_exec os [''gluster'', ''--mode=script'', ''snapshot'', ''delete'', snapshotID] c of
             ((output, err), c) \<Rightarrow> (unit_result err, c)))"

text \<open>A failing \<open>gluster snapshot info\<close> is only logged.\<close>

definition gl_DescribeSnapshot ::
  "'c pluginOS \<Rightarrow> VolumeSnapshotData \<Rightarrow> 'c \<Rightarrow> (VolumeSnapshotCondition list option \<times> bool) result \<times> 'c" where
  "gl_DescribeSnapshot os snapshotData c =
     (case src_GlusterSnapshotVolume (spec_Source (vsd_Spec snapshotData)) of
        None \<Rightarrow> (Inl (Errorf ''failed to retrieve Snapshot spec'' []), c)
      | Some snapshotID \<Rightarrow>
          (case xo_exec os [''gluster'', ''snapshot'', ''info'', snapshotID] c of
             ((output, err), c) \<Rightarrow>
               if length (vsd_Conditions snapshotData) = 0 then
                 (Inl (Errorf ''No status condtions in VoluemSnapshotData for gluster snapshot type'' []), c)
               else (Inr (Some [describedCondition snapshotData], True), c)))"

definition gl_SnapshotRestore ::
  "'c pluginOS \<Rightarrow> VolumeSnapshotData \<Rightarrow> restoreClaim option \<Rightarrow> string \<Rightarrow> string gomap \<Rightarrow> 'c \<Rightarrow>
     (PersistentVolumeSource \<times> string gomap option) result \<times> 'c" where
  "gl_SnapshotRestore os snapshotData pvc pvName parameters c =
     (case src_GlusterSnapshotVolume (spec_Source (vsd_Spec snapshotData)) of
        None \<Rightarrow> (Inl (Errorf ''failed to retrieve Snapshot spec'' []), c)
      | Some snapID \<Rightarrow>
          let newSnapPV = snapID
          in (case xo_exec os [''gluster'', ''snapshot'', ''clone'', newSnapPV, snapID] c of
                ((out, Some err), c) \<Rightarrow> (Inl (Wrapf ''failed to restore %s, out: %v, err: %v'' [snapID, out] err), c)
              | ((out, None), c) \<Rightarrow>
                  (Inr (SrcGlusterfs \<lparr>glfs_EndpointsName = glusterfsEp, glfs_Path = newSnapPV, glfs_ReadOnly = False\<rparr>, None), c)))"

definition gl_VolumeDelete :: "PersistentVolume \<Rightarrow> 'c \<Rightarrow> unit result \<times> 'c" where
  "gl_VolumeDelete pv c =
     (case pv_Glusterfs pv of
        None \<Rightarrow> (Inl (Errorf ''invalid VolumeSnapshotDataSource: %v'' []), c)
      | Some glusterfs \<Rightarrow> (Inr (), c))"

definition glusterfsPlugin :: "'c pluginOS \<Rightarrow> 'c volumePlugin" where
  "glusterfsPlugin os =
     \<lparr>pl_SnapshotCreate = gl_SnapshotCreate os, pl_SnapshotDelete = gl_SnapshotDelete os,
      pl_DescribeSnapshot = gl_DescribeSnapshot os, pl_FindSnapshot = noFindSnapshot,
      pl_SnapshotRestore = gl_SnapshotRestore os, pl_VolumeDelete = gl_VolumeDelete\<rparr>"

end
