(* ===== verification/OpenStackDisks.thy ===== *)
theory OpenStackDisks
  imports SnapPlugins
begin

text \<open>
  \<open>snapshot/pkg/cloudprovider/providers/openstack\<close>: \<open>openstack_volumes.go\<close> and
  \<open>openstack_snapshots.go\<close>, and the plugin \<open>snapshot/pkg/volume/cinder/processor.go\<close> on top of them.
  The calls of the OpenStack client library are the record \<open>cinderAPI\<close> over the cloud's state \<open>'c\<close>;
  a client handle is only there or not. Reads do not return a state.
\<close>

record cinderVolume =
  cv_ID :: string
  cv_Name :: string
  cv_Status :: string
  cv_Attachments :: "(string \<times> string) list"

record VolumeCreateOpts =
  vco_Size :: int
  vco_Availability :: string
  vco_Name :: string
  vco_VolumeType :: string
  vco_Metadata :: "string gomap option"
  vco_SourceVolumeID :: string
  vco_SourceSnapshotID :: string

record cinderSnap =
  cs_ID :: string
  cs_Name :: string
  cs_Status :: string
  cs_SourceVolumeID :: string
  cs_Description :: string
  cs_Metadata :: "string gomap"

record SnapshotCreateOpts =
  sco_VolumeID :: string
  sco_Name :: string
  sco_Description :: string
  sco_Force :: bool
  sco_Metadata :: "string gomap option"

record SnapshotListOpts =
  slo_Name :: string
  slo_Status :: string
  slo_VolumeID :: string

record 'c cinderAPI =
  ca_BlockStorageV2 :: "'c \<Rightarrow> unit result"
  ca_ComputeV2 :: "'c \<Rightarrow> unit result"
  ca_CreateVolume :: "VolumeCreateOpts \<Rightarrow> 'c \<Rightarrow> (string \<times> string) result \<times> 'c"
  ca_GetVolume :: "string \<Rightarrow> 'c \<Rightarrow> cinderVolume result"
  ca_DeleteVolume :: "string \<Rightarrow> 'c \<Rightarrow> error option \<times> 'c"
  ca_Attach :: "string \<Rightarrow> string \<Rightarrow> 'c \<Rightarrow> error option \<times> 'c"
  ca_Detach :: "string \<Rightarrow> string \<Rightarrow> 'c \<Rightarrow> error option \<times> 'c"
  ca_CreateSnapshot :: "SnapshotCreateOpts \<Rightarrow> 'c \<Rightarrow> (string \<times> string) result \<times> 'c"
  ca_GetSnapshot :: "string \<Rightarrow> 'c \<Rightarrow> cinderSnap result"
  ca_DeleteSnapshot :: "string \<Rightarrow> 'c \<Rightarrow> error option \<times> 'c"
  ca_ListSnapshots :: "SnapshotListOpts \<Rightarrow> 'c \<Rightarrow> cinderSnap list result"
  ca_ReadDir :: "'c \<Rightarrow> string list"
  ca_Now :: "'c \<Rightarrow> int \<times> 'c"
  ca_UnixNano :: "'c \<Rightarrow> int"
  ca_range :: "string gomap \<Rightarrow> 'c \<Rightarrow> string list"
  ca_RoundUpSize :: "int \<Rightarrow> int \<Rightarrow> int"

section \<open>Volumes\<close>

abbreviation VolumeAvailableStatus :: string where
  "VolumeAvailableStatus \<equiv> ''available''"

abbreviation VolumeInUseStatus :: string where
  "VolumeInUseStatus \<equiv> ''in-use''"

abbreviation VolumeDeletedStatus :: string where
  "VolumeDeletedStatus \<equiv> ''deleted''"

abbreviation VolumeErrorStatus :: string where
  "VolumeErrorStatus \<equiv> ''error''"

record openstackVolume =
  ov_AttachedServerID :: string
  ov_AttachedDevice :: string
  ov_ID :: string
  ov_Name :: string
  ov_Status :: string

definition v2_createVolume :: "'c cinderAPI \<Rightarrow> VolumeCreateOpts \<Rightarrow> 'c \<Rightarrow> (string \<times> string) result \<times> 'c" where
  "v2_createVolume api opts c = ca_CreateVolume api (opts\<lparr>vco_SourceVolumeID := ''''\<rparr>) c"

definition v2_getVolume :: "'c cinderAPI \<Rightarrow> string \<Rightarrow> 'c \<Rightarrow> openstackVolume result" where
  "v2_getVolume api volumeID c =
     (case ca_GetVolume api volumeID c of
        Inl err \<Rightarrow> Inl err
      | Inr v \<Rightarrow>
          let vol = \<lparr>ov_AttachedServerID = '''', ov_AttachedDevice = '''', ov_ID = cv_ID v, ov_Name = cv_Name v,
                     ov_Status = cv_Status v\<rparr>
          in (case cv_Attachments v of
                [] \<Rightarrow> Inr vol
              | (server, device) # _ \<Rightarrow> Inr (vol\<lparr>ov_AttachedServerID := server, ov_AttachedDevice := device\<rparr>)))"

definition os_getVolume :: "'c cinderAPI \<Rightarrow> string \<Rightarrow> 'c \<Rightarrow> openstackVolume result" where
  "os_getVolume api volumeID c =
     (case ca_BlockStorageV2 api c of Inl err \<Rightarrow> Inl err | Inr _ \<Rightarrow> v2_getVolume api volumeID c)"

text \<open>Whether an operation on the volume is still running, and the volume's status.\<close>

definition OperationPending :: "'c cinderAPI \<Rightarrow> string \<Rightarrow> 'c \<Rightarrow> (bool \<times> string) result" where
  "OperationPending api diskName c =
     (case os_getVolume api diskName c of
        Inl err \<Rightarrow> Inl err
      | Inr vol \<Rightarrow>
          let volumeStatus = ov_Status vol
          in if volumeStatus = VolumeErrorStatus then Inr (False, volumeStatus)
             else if volumeStatus = VolumeAvailableStatus \<or> volumeStatus = VolumeInUseStatus \<or>
                     volumeStatus = VolumeDeletedStatus then Inr (False, volumeStatus)
             else Inr (True, volumeStatus))"

definition os_DetachDisk :: "'c cinderAPI \<Rightarrow> string \<Rightarrow> string \<Rightarrow> 'c \<Rightarrow> error option \<times> 'c" where
  "os_DetachDisk api instanceID volumeID c =
     (case os_getVolume api volumeID c of
        Inl err \<Rightarrow> (Some err, c)
      | Inr vol \<Rightarrow>
          if ov_Status vol \<noteq> VolumeInUseStatus then
            (Some (Errorf ''can not detach volume %s, its status is %s.'' [ov_Name vol, ov_Status vol]), c)
          else
            (case ca_ComputeV2 api c of
               Inl err \<Rightarrow> (Some err, c)
             | Inr _ \<Rightarrow>
                 if ov_AttachedServerID vol \<noteq> instanceID then
                   (Some (Errorf ''Disk: %s has no attachments or is not attached to compute: %s''
                            [ov_Name vol, instanceID]), c)
                 else ca_Detach api instanceID (ov_ID vol) c))"

definition os_AttachDisk :: "'c cinderAPI \<Rightarrow> string \<Rightarrow> string \<Rightarrow> 'c \<Rightarrow> string result \<times> 'c" where
  "os_AttachDisk api instanceID volumeID c =
     (case os_getVolume api volumeID c of
        Inl err \<Rightarrow> (Inl err, c)
      | Inr vol \<Rightarrow>
          if ov_Status vol \<noteq> VolumeAvailableStatus then
            (Inl (Errorf ''volume %s status is %s, not %s, can not be attached to instance %s.''
                    [ov_Name vol, ov_Status vol, VolumeAvailableStatus, instanceID]), c)
          else
            (case ca_ComputeV2 api c of
               Inl err \<Rightarrow> (Inl err, c)
             | Inr _ \<Rightarrow>
                 if ov_AttachedServerID vol \<noteq> '''' \<and> instanceID = ov_AttachedServerID vol then (Inr (ov_ID vol), c)
                 else
                   (case (if ov_AttachedServerID vol \<noteq> '''' then os_DetachDisk api (ov_AttachedServerID vol) volumeID c
                          else (None, c)) of
                      (Some err, c) \<Rightarrow> (Inl err, c)
                    | (None, c) \<Rightarrow>
                        (case ca_Attach api instanceID (ov_ID vol) c of
                           (Some err, c) \<Rightarrow> (Inl err, c)
                         | (None, c) \<Rightarrow> (Inr (ov_ID vol), c)))))"

definition os_CreateVolume ::
  "'c cinderAPI \<Rightarrow> string \<Rightarrow> int \<Rightarrow> string \<Rightarrow> string \<Rightarrow> string \<Rightarrow> string gomap option \<Rightarrow> 'c \<Rightarrow>
     (string \<times> string) result \<times> 'c" where
  "os_CreateVolume api name sz vtype availability snapshotID tags c =
     (case ca_BlockStorageV2 api c of
        Inl err \<Rightarrow> (Inl err, c)
      | Inr _ \<Rightarrow>
          v2_createVolume api
            \<lparr>vco_Size = sz, vco_Availability = availability, vco_Name = name, vco_VolumeType = vtype,
             vco_Metadata = tags, vco_SourceVolumeID = '''', vco_SourceSnapshotID = snapshotID\<rparr> c)"

text \<open>The result is \<open>None\<close> when the identifier is too short for the slice \<open>volumeID[:20]\<close>.\<close>

definition GetDevicePath :: "'c cinderAPI \<Rightarrow> string \<Rightarrow> 'c \<Rightarrow> string option" where
  "GetDevicePath api volumeID c =
     (if length volumeID < 20 then None
      else
        let candidateDeviceNodes =
              [''virtio-'' @ take 20 volumeID, ''scsi-0QEMU_QEMU_HARDDISK_'' @ take 20 volumeID,
               ''wwn-0x'' @ remove_all ''-'' volumeID]
        in (case List.find (\<lambda>f. f \<in> set candidateDeviceNodes) (ca_ReadDir api c) of
              Some f \<Rightarrow> Some (''/dev/disk/by-id/'' @ f)
            | None \<Rightarrow> Some ''''))"

definition diskIsUsed :: "'c cinderAPI \<Rightarrow> string \<Rightarrow> 'c \<Rightarrow> bool result" where
  "diskIsUsed api volumeID c =
     (case os_getVolume api volumeID c of
        Inl err \<Rightarrow> Inl err
      | Inr vol \<Rightarrow> Inr (ov_AttachedServerID vol \<noteq> ''''))"

text \<open>An error of the deletion itself is only logged.\<close>

definition os_DeleteVolume :: "'c cinderAPI \<Rightarrow> string \<Rightarrow> 'c \<Rightarrow> error option \<times> 'c" where
  "os_DeleteVolume api volumeID c =
     (case diskIsUsed api volumeID c of
        Inl err \<Rightarrow> (Some err, c)
      | Inr used \<Rightarrow>
          if used then
            (Some (Errorf ''Cannot delete the volume %q, it's still attached to a node'' [volumeID]), c)
          else
            (case ca_BlockStorageV2 api c of
               Inl err \<Rightarrow> (Some err, c)
             | Inr _ \<Rightarrow> (case ca_DeleteVolume api volumeID c of (err, c) \<Rightarrow> (None, c))))"

definition GetAttachmentDiskPath :: "'c cinderAPI \<Rightarrow> string \<Rightarrow> string \<Rightarrow> 'c \<Rightarrow> string result" where
  "GetAttachmentDiskPath api instanceID volumeID c =
     (case os_getVolume api volumeID c of
        Inl err \<Rightarrow> Inl err
      | Inr vol \<Rightarrow>
          if ov_Status vol \<noteq> VolumeInUseStatus then
            Inl (Errorf ''can not get device path of volume %s, its status is %s.'' [ov_Name vol, ov_Status vol])
          else if ov_AttachedServerID vol \<noteq> '''' then
            (if instanceID = ov_AttachedServerID vol then Inr (ov_AttachedDevice vol)
             else Inl (Errorf ''Disk %q is attached to a different compute: %q, should be detached before proceeding''
                         [volumeID, ov_AttachedServerID vol]))
          else Inl (Errorf ''volume %s has no ServerId'' [volumeID]))"

definition os_DiskIsAttached :: "'c cinderAPI \<Rightarrow> string \<Rightarrow> string \<Rightarrow> 'c \<Rightarrow> bool result" where
  "os_DiskIsAttached api instanceID volumeID c =
     (case os_getVolume api volumeID c of
        Inl err \<Rightarrow> Inl err
      | Inr vol \<Rightarrow> Inr (instanceID = ov_AttachedServerID vol))"

text \<open>An error counts as not attached.\<close>

fun os_DisksAreAttached :: "'c cinderAPI \<Rightarrow> string \<Rightarrow> string list \<Rightarrow> 'c \<Rightarrow> bool gomap \<Rightarrow> bool gomap" where
  "os_DisksAreAttached api instanceID [] c attached = attached"
| "os_DisksAreAttached api instanceID (volumeID # volumeIDs) c attached =
     (let isAttached = (case os_DiskIsAttached api instanceID volumeID c of Inl _ \<Rightarrow> False | Inr b \<Rightarrow> b)
      in os_DisksAreAttached api instanceID volumeIDs c (fmupd volumeID isAttached attached))"

section \<open>Snapshots\<close>

definition os_CreateSnapshot ::
  "'c cinderAPI \<Rightarrow> string \<Rightarrow> string \<Rightarrow> string \<Rightarrow> string gomap option \<Rightarrow> 'c \<Rightarrow> (string \<times> string) result \<times> 'c" where
  "os_CreateSnapshot api sourceVolumeID name description tags c =
     (case ca_BlockStorageV2 api c of
        Inl err \<Rightarrow> (Inl (Wrapf ''Failed to create snapshot for volume %s: %v'' [sourceVolumeID] err), c)
      | Inr _ \<Rightarrow>
          ca_CreateSnapshot api
            \<lparr>sco_VolumeID = sourceVolumeID, sco_Name = name, sco_Description = description, sco_Force = False,
             sco_Metadata = tags\<rparr> c)"

text \<open>An error of the deletion itself is only logged.\<close>

definition os_DeleteSnapshot :: "'c cinderAPI \<Rightarrow> string \<Rightarrow> 'c \<Rightarrow> error option \<times> 'c" where
  "os_DeleteSnapshot api snapshotID c =
     (case ca_BlockStorageV2 api c of
        Inl err \<Rightarrow> (Some err, c)
      | Inr _ \<Rightarrow> (case ca_DeleteSnapshot api snapshotID c of (err, c) \<Rightarrow> (None, c)))"

definition os_DescribeSnapshot :: "'c cinderAPI \<Rightarrow> string \<Rightarrow> 'c \<Rightarrow> (string \<times> bool) result" where
  "os_DescribeSnapshot api snapshotID c =
     (case ca_BlockStorageV2 api c of
        Inl err \<Rightarrow> Inl (Wrapf ''Failed to describe snapshot %s: %v'' [snapshotID] err)
      | Inr _ \<Rightarrow>
          (case ca_GetSnapshot api snapshotID c of
             Inl err \<Rightarrow> Inl err
           | Inr snap \<Rightarrow>
               if cs_Status snap \<noteq> ''available'' then Inr (cs_Status snap, False) else Inr (cs_Status snap, True)))"

text \<open>The four nested tests for one tag each, and the loop over the listed snapshots.\<close>

definition tagMatches :: "string gomap \<Rightarrow> string gomap \<Rightarrow> string \<Rightarrow> bool" where
  "tagMatches tags metadata tag \<longleftrightarrow>
     (case fmlookup metadata tag of
        None \<Rightarrow> False
      | Some v \<Rightarrow> (case fmlookup tags tag of Some t \<Rightarrow> t | None \<Rightarrow> '''') = v)"

fun findByTags :: "string gomap \<Rightarrow> cinderSnap list \<Rightarrow> string list \<times> string list \<Rightarrow> string list \<times> string list" where
  "findByTags tags [] r = r"
| "findByTags tags (snapshot # snapshots) (snapshotIDs, statuses) =
     (if tagMatches tags (cs_Metadata snapshot) NamespaceTag then
        if tagMatches tags (cs_Metadata snapshot) NameTag then
          if tagMatches tags (cs_Metadata snapshot) UIDTag then
            if tagMatches tags (cs_Metadata snapshot) TimestampTag then
              findByTags tags snapshots (snapshotIDs @ [cs_ID snapshot], statuses @ [cs_Status snapshot])
            else findByTags tags snapshots (snapshotIDs, statuses)
          else findByTags tags snapshots (snapshotIDs, statuses)
        else findByTags tags snapshots (snapshotIDs, statuses)
      else findByTags tags snapshots (snapshotIDs, statuses))"

definition os_FindSnapshot ::
  "'c cinderAPI \<Rightarrow> string gomap \<Rightarrow> 'c \<Rightarrow> (string list \<times> string list) \<times> error option" where
  "os_FindSnapshot api tags c =
     (case ca_BlockStorageV2 api c of
        Inl err \<Rightarrow> (([], []), Some (Wrapf ''Failed to find snapshot by tags %v: %v'' [] err))
      | Inr _ \<Rightarrow>
          (case ca_ListSnapshots api \<lparr>slo_Name = '''', slo_Status = '''', slo_VolumeID = ''''\<rparr> c of
             Inl err \<Rightarrow> (([], []), Some err)
           | Inr snapshots \<Rightarrow> (findByTags tags snapshots ([], []), None)))"


section \<open>The Cinder plugin\<close>

definition cinder_convertSnapshotStatus :: "string \<Rightarrow> int \<Rightarrow> VolumeSnapshotCondition list" where
  "cinder_convertSnapshotStatus status now =
     (if status = ''available'' then
        [newCondition ConditionReady ConditionTrue ''Snapshot created successfully and it is ready'' now]
      else if status = ''creating'' then
        [newCondition ConditionPending ConditionUnknown ''Snapshot is being created'' now]
      else [newCondition ConditionError ConditionTrue ''Snapshot creation failed'' now])"

definition cinder_VolumeDelete :: "'c cinderAPI \<Rightarrow> PersistentVolume \<Rightarrow> 'c \<Rightarrow> unit result \<times> 'c" where
  "cinder_VolumeDelete api pv c =
     (case pv_Cinder pv of
        None \<Rightarrow> (Inl (Errorf ''invalid Cinder PV: %v'' []), c)
      | Some cinder \<Rightarrow> (case os_DeleteVolume api (cinder_VolumeID cinder) c of (err, c) \<Rightarrow> (unit_result err, c)))"

definition cinder_SnapshotCreate ::
  "'c cinderAPI \<Rightarrow> VolumeSnapshot \<Rightarrow> PersistentVolume \<Rightarrow> string gomap option \<Rightarrow> 'c \<Rightarrow>
     (VolumeSnapshotDataSource option \<times> VolumeSnapshotCondition list option) result \<times> 'c" where
  "cinder_SnapshotCreate api snapshot pv tags c =
     (case pv_Cinder pv of
        None \<Rightarrow> (Inl (Errorf ''invalid PV spec %v'' []), c)
      | Some cinder \<Rightarrow>
          let volumeID = cinder_VolumeID cinder;
              snapshotName = pv_Name pv @ FormatInt (ca_UnixNano api c);
              snapshotDescription = ''kubernetes snapshot''
          in (case os_CreateSnapshot api volumeID snapshotName snapshotDescription tags c of
                (Inl err, c) \<Rightarrow> (Inl err, c)
              | (Inr (snapID, status), c) \<Rightarrow>
                  let (now, c) = ca_Now api c
                  in (Inr (Some (emptySource\<lparr>src_CinderSnapshot := Some snapID\<rparr>),
                           Some (cinder_convertSnapshotStatus status now)), c)))"

definition cinder_SnapshotDelete ::
  "'c cinderAPI \<Rightarrow> VolumeSnapshotDataSource \<Rightarrow> PersistentVolume \<Rightarrow> 'c \<Rightarrow> unit result \<times> 'c" where
  "cinder_SnapshotDelete api src pv c =
     (case src_CinderSnapshot src of
        None \<Rightarrow> (Inl (Errorf ''invalid VolumeSnapshotDataSource: %v'' []), c)
      | Some snapshotID \<Rightarrow> (case os_DeleteSnapshot api snapshotID c of (err, c) \<Rightarrow> (unit_result err, c)))"

definition cinder_param :: "string \<Rightarrow> string \<Rightarrow> string \<times> string \<Rightarrow> error + string \<times> string" where
  "cinder_param k v = (\<lambda>(vType, zone).
     if ToLower k = ''type'' then Inr (v, zone)
     else if ToLower k = ''zone'' then Inr (vType, v)
     else Inl (Errorf ''invalid option %q for volume plugin %s'' [k, ''cinder'']))"

definition cinder_SnapshotRestore ::
  "'c cinderAPI \<Rightarrow> VolumeSnapshotData \<Rightarrow> restoreClaim option \<Rightarrow> string \<Rightarrow> string gomap \<Rightarrow> 'c \<Rightarrow>
     (PersistentVolumeSource \<times> string gomap option) result \<times> 'c" where
  "cinder_SnapshotRestore api snapshotData pvc pvName parameters c =
     (case src_CinderSnapshot (spec_Source (vsd_Spec snapshotData)) of
        None \<Rightarrow> (Inl (Errorf ''failed to retrieve Snapshot spec'' []), c)
      | Some snapID \<Rightarrow>
          (case pvc of
             None \<Rightarrow> (Inl (Errorf ''no pvc specified'' []), c)
           | Some claim \<Rightarrow>
               let szGB = ca_RoundUpSize api (rc_Request claim) (1024 * 1024 * 1024)
               in (case range_loop cinder_param (ca_range api parameters c) parameters ('''', '''') of
                     Inl err \<Rightarrow> (Inl err, c)
                   | Inr (vType, zone) \<Rightarrow>
                       (case os_CreateVolume api pvName szGB vType zone snapID (Some fmempty) c of
                          (Inl err, c) \<Rightarrow> (Inl err, c)
                        | (Inr (volumeID, _), c) \<Rightarrow>
                            (Inr (SrcCinder \<lparr>cinder_VolumeID = volumeID, cinder_FSType = ''ext4'', cinder_ReadOnly = False\<rparr>,
                                  None), c)))))"

definition cinder_DescribeSnapshot ::
  "'c cinderAPI \<Rightarrow> VolumeSnapshotData \<Rightarrow> 'c \<Rightarrow> (VolumeSnapshotCondition list option \<times> bool) result \<times> 'c" where
  "cinder_DescribeSnapshot api snapshotData c =
     (case src_CinderSnapshot (spec_Source (vsd_Spec snapshotData)) of
        None \<Rightarrow> (Inl (Errorf ''invalid VolumeSnapshotDataSource: %v'' []), c)
      | Some snapshotID \<Rightarrow>
          (case os_DescribeSnapshot api snapshotID c of
             Inl err \<Rightarrow> (Inl err, snd (ca_Now api c))
           | Inr (status, isComplete) \<Rightarrow>
               let (now, c) = ca_Now api c
               in (Inr (Some (cinder_convertSnapshotStatus status now), isComplete), c)))"

definition cinder_FindSnapshot ::
  "'c cinderAPI \<Rightarrow> string gomap option \<Rightarrow> 'c \<Rightarrow>
     (VolumeSnapshotDataSource option \<times> VolumeSnapshotCondition list option) result \<times> 'c" where
  "cinder_FindSnapshot api tags c =
     (case fst (os_FindSnapshot api (case tags of Some m \<Rightarrow> m | None \<Rightarrow> fmempty) c) of
        (snapID # _, status # _) \<Rightarrow>
          let (now, c) = ca_Now api c
          in (Inr (Some (emptySource\<lparr>src_CinderSnapshot := Some snapID\<rparr>),
                   Some (cinder_convertSnapshotStatus status now)), c)
      | _ \<Rightarrow> (Inl (Errorf ''Snapshot not found'' []), c))"

definition cinderPlugin :: "'c cinderAPI \<Rightarrow> 'c volumePlugin" where
  "cinderPlugin api =
     \<lparr>pl_SnapshotCreate = cinder_SnapshotCreate api, pl_SnapshotDelete = cinder_SnapshotDelete api,
      pl_DescribeSnapshot = cinder_DescribeSnapshot api, pl_FindSnapshot = cinder_FindSnapshot api,
      pl_SnapshotRestore = cinder_SnapshotRestore api, pl_VolumeDelete = cinder_VolumeDelete api\<rparr>"

section \<open>Attaching volumes\<close>

lemma os_getVolume_same:
  "os_getVolume api volumeID c = Inr v \<Longrightarrow> ov_Status v = VolumeAvailableStatus \<Longrightarrow>
     \<exists>err. os_DetachDisk api instanceID volumeID c = (Some err, c)"
  by (simp add: os_DetachDisk_def)

text \<open>
  Attaching never takes a volume away from another server. When attaching succeeds, the volume
  was available and had no attachment, and one attach request was made, or it was attached to the
  requesting server already and nothing was done. (The branch that detaches the volume from another
  server cannot succeed: it needs the status in-use, and attaching the status available.) When it
  fails, no volume was detached.
\<close>

theorem AttachDisk_never_steals:
  assumes "os_getVolume api volumeID c = Inr v"
  shows "case os_AttachDisk api instanceID volumeID c of
           (Inr device, c') \<Rightarrow> device = ov_ID v \<and> ov_Status v = VolumeAvailableStatus \<and>
             (if ov_AttachedServerID v = '''' then ca_Attach api instanceID (ov_ID v) c = (None, c')
              else ov_AttachedServerID v = instanceID \<and> c' = c)
         | (Inl err, c') \<Rightarrow> c' = c \<or> (ov_AttachedServerID v = '''' \<and> ca_Attach api instanceID (ov_ID v) c = (Some err, c'))"
proof (cases "ov_Status v = VolumeAvailableStatus")
  case True
  then obtain e where detach: "os_DetachDisk api (ov_AttachedServerID v) volumeID c = (Some e, c)"
    using os_getVolume_same [OF assms] by blast
  show ?thesis
    using assms True detach
    by (auto simp: os_AttachDisk_def split: sum.split prod.split option.split)
next
  case False
  with assms show ?thesis by (simp add: os_AttachDisk_def)
qed

section \<open>Finding snapshots by their tags\<close>

definition hasTags :: "string gomap \<Rightarrow> string gomap \<Rightarrow> bool" where
  "hasTags tags metadata \<longleftrightarrow> (\<forall>tag \<in> {NamespaceTag, NameTag, UIDTag, TimestampTag}. tagMatches tags metadata tag)"

lemma findByTags_filter:
  "findByTags tags snapshots (ids, statuses) =
     (ids @ map cs_ID (filter (hasTags tags \<circ> cs_Metadata) snapshots),
      statuses @ map cs_Status (filter (hasTags tags \<circ> cs_Metadata) snapshots))"
  by (induction snapshots arbitrary: ids statuses) (auto simp: hasTags_def)

lemma cinder_FindSnapshot_finds:
  assumes "ca_BlockStorageV2 api c = Inr ()"
    and "ca_ListSnapshots api \<lparr>slo_Name = '''', slo_Status = '''', slo_VolumeID = ''''\<rparr> c = Inr snapshots"
  shows "cinder_FindSnapshot api (Some tags) c =
     (case filter (hasTags tags \<circ> cs_Metadata) snapshots of
        [] \<Rightarrow> (Inl (Errorf ''Snapshot not found'' []), c)
      | snap # _ \<Rightarrow>
          (Inr (Some (emptySource\<lparr>src_CinderSnapshot := Some (cs_ID snap)\<rparr>),
                Some (cinder_convertSnapshotStatus (cs_Status snap) (fst (ca_Now api c)))), snd (ca_Now api c)))"
  using assms by (auto simp: cinder_FindSnapshot_def os_FindSnapshot_def findByTags_filter split: list.split prod.split)

section \<open>Deleting\<close>

text \<open>
  A deletion the cloud refuses is reported as done: as long as a client can be made, deleting a
  Cinder snapshot, and deleting a volume that is not attached, succeed whatever error the cloud
  answers.
\<close>

lemma cinder_SnapshotDelete_swallows:
  "ca_BlockStorageV2 api c = Inr () \<Longrightarrow> src_CinderSnapshot src = Some snapshotID \<Longrightarrow>
     ca_DeleteSnapshot api snapshotID c = (err, c') \<Longrightarrow> cinder_SnapshotDelete api src pv c = (Inr (), c')"
  by (simp add: cinder_SnapshotDelete_def os_DeleteSnapshot_def unit_result_def)

lemma cinder_VolumeDelete_swallows:
  "ca_BlockStorageV2 api c = Inr () \<Longrightarrow> pv_Cinder pv = Some cinder \<Longrightarrow>
     diskIsUsed api (cinder_VolumeID cinder) c = Inr False \<Longrightarrow>
     ca_DeleteVolume api (cinder_VolumeID cinder) c = (err, c') \<Longrightarrow> cinder_VolumeDelete api pv c = (Inr (), c')"
  by (simp add: cinder_VolumeDelete_def os_DeleteVolume_def unit_result_def)

text \<open>An attached volume is not deleted.\<close>

lemma cinder_VolumeDelete_spares_attached:
  "os_getVolume api (cinder_VolumeID cinder) c = Inr v \<Longrightarrow> ov_AttachedServerID v \<noteq> '''' \<Longrightarrow>
     pv_Cinder pv = Some cinder \<Longrightarrow> \<exists>err. cinder_VolumeDelete api pv c = (Inl err, c)"
  by (simp add: cinder_VolumeDelete_def os_DeleteVolume_def diskIsUsed_def unit_result_def)

text \<open>
  When Cinder refuses to delete a snapshot, the snapshot is forgotten all the same: with the
  Cinder plugin, the snapshotter's deletion ends without an error, the \<open>VolumeSnapshotData\<close> is
  deleted from the API server and the snapshot leaves the actual world, although the cloud answered
  the deletion of the snapshot with an error. (The provider logs the error and returns nil.)
\<close>

theorem refused_cinder_deletion_forgets_snapshot:
  assumes "e_volumePlugins env ''cinder'' = Some (Plugin.truncate (cinderPlugin api))"
    and "getSnapshotDataFromSnapshot env snapshot (sn_cluster s) = (Inr data, c1)"
    and "GetSupportedVolumeFromSnapshotDataSpec (vsd_Spec data) = ''cinder''"
    and "src_CinderSnapshot (spec_Source (vsd_Spec data)) = Some snapshotID"
    and "spec_PersistentVolumeRef (vsd_Spec data) = Some r" and "e_GetPV env (ref_Name r) c1 = (pv, c2)"
    and "ca_BlockStorageV2 api c2 = Inr ()" and "ca_DeleteSnapshot api snapshotID c2 = (Some err, c3)"
    and "e_DeleteData env (vsd_Name data) c3 = (Inr (), c4)"
  shows "getSnapshotDeleteFunc env n snapshot s =
           Some (None, s\<lparr>sn_cluster := c4, sn_asw := asw_DeleteSnapshot n (sn_asw s)\<rparr>)"
proof -
  have "pluginFor env unsupported ''cinder'' = Inr (Plugin.truncate (cinderPlugin api))" for unsupported
    by (simp add: pluginFor_def assms(1))
  moreover have "pl_SnapshotDelete (Plugin.truncate (cinderPlugin api)) = cinder_SnapshotDelete api"
    by (simp add: Plugin.truncate_def cinderPlugin_def)
  ultimately have "deleteSnapshot env (vsd_Spec data) c1 = Some (None, c3)"
    using cinder_SnapshotDelete_swallows [OF assms(7,4,8)]
    by (simp add: deleteSnapshot_def assms(3,5,6) split: prod.split)
  then show ?thesis
    by (simp add: getSnapshotDeleteFunc_def assms(2,9))
qed

section \<open>Witnesses\<close>

definition demo_cinder_volume :: cinderVolume where
  "demo_cinder_volume = \<lparr>cv_ID = ''v'', cv_Name = ''vol'', cv_Status = ''available'', cv_Attachments = []\<rparr>"

definition demo_cinder :: "'c cinderAPI" where
  "demo_cinder =
     \<lparr>ca_BlockStorageV2 = (\<lambda>_. Inr ()), ca_ComputeV2 = (\<lambda>_. Inr ()),
      ca_CreateVolume = (\<lambda>_ c. (Inr (''v'', ''az''), c)), ca_GetVolume = (\<lambda>_ _. Inr demo_cinder_volume),
      ca_DeleteVolume = (\<lambda>_ c. (None, c)), ca_Attach = (\<lambda>_ _ c. (None, c)), ca_Detach = (\<lambda>_ _ c. (None, c)),
      ca_CreateSnapshot = (\<lambda>_ c. (Inr (''s'', ''creating''), c)), ca_GetSnapshot = (\<lambda>_ _. Inl (NotFound ''s'')),
      ca_DeleteSnapshot = (\<lambda>_ c. (Some (ExtErr ''409''), c)), ca_ListSnapshots = (\<lambda>_ _. Inr []),
      ca_ReadDir = (\<lambda>_. []), ca_Now = (\<lambda>c. (7, c)), ca_UnixNano = (\<lambda>_. 7), ca_range = (\<lambda>_ _. []),
      ca_RoundUpSize = (\<lambda>a b. (a + b - 1) div b)\<rparr>"

theorem AttachDisk_never_steals_witness:
  "os_AttachDisk demo_cinder ''i'' ''v'' () = (Inr ''v'', ()) \<and>
   ca_Attach demo_cinder ''i'' ''v'' () = (None, ())"
proof -
  have "os_getVolume demo_cinder ''v'' () = Inr \<lparr>ov_AttachedServerID = '''', ov_AttachedDevice = '''', ov_ID = ''v'',
      ov_Name = ''vol'', ov_Status = ''available''\<rparr>"
    by (simp add: os_getVolume_def v2_getVolume_def demo_cinder_def demo_cinder_volume_def)
  from AttachDisk_never_steals [OF this, of "''i''"] this show ?thesis
    by (simp add: os_AttachDisk_def demo_cinder_def)
qed

definition demo_cinder_env :: "demo_cluster env" where
  "demo_cinder_env = demo_env\<lparr>e_volumePlugins := \<lambda>ty. if ty = ''cinder'' then Some (Plugin.truncate (cinderPlugin demo_cinder)) else None\<rparr>"

definition demo_cinder_data :: VolumeSnapshotData where
  "demo_cinder_data = newSnapshotData ''d'' ''ns/s-1'' ''pv1'' (emptySource\<lparr>src_CinderSnapshot := Some ''s''\<rparr>) demo_ready"

definition demo_cinder_state :: "demo_cluster snapState" where
  "demo_cinder_state =
     \<lparr>sn_cluster = \<lparr>dc_snap = demo_snap, dc_data = [demo_cinder_data]\<rparr>, sn_asw = NewActualStateOfWorld\<rparr>"

theorem refused_cinder_deletion_forgets_snapshot_witness:
  "\<exists>s'. getSnapshotDeleteFunc demo_cinder_env ''ns/s-1'' (demo_snap\<lparr>vs_SnapshotDataName := ''d''\<rparr>) demo_cinder_state = Some (None, s') \<and>
     dc_data (sn_cluster s') = [] \<and>
     fst (ca_DeleteSnapshot demo_cinder ''s'' (sn_cluster demo_cinder_state)) = Some (ExtErr ''409'')"
proof -
  let ?c = "sn_cluster demo_cinder_state" and ?c' = "(sn_cluster demo_cinder_state)\<lparr>dc_data := []\<rparr>"
  have a: "e_volumePlugins demo_cinder_env ''cinder'' = Some (Plugin.truncate (cinderPlugin demo_cinder))"
    by (simp add: demo_cinder_env_def)
  have b: "getSnapshotDataFromSnapshot demo_cinder_env (demo_snap\<lparr>vs_SnapshotDataName := ''d''\<rparr>) ?c = (Inr demo_cinder_data, ?c)"
    by (simp add: getSnapshotDataFromSnapshot_def Let_def demo_cinder_env_def demo_env_def
        demo_cinder_state_def demo_cinder_data_def newSnapshotData_def)
  have d: "GetSupportedVolumeFromSnapshotDataSpec (vsd_Spec demo_cinder_data) = ''cinder''"
    "src_CinderSnapshot (spec_Source (vsd_Spec demo_cinder_data)) = Some ''s''"
    "spec_PersistentVolumeRef (vsd_Spec demo_cinder_data) =
       Some \<lparr>ref_Kind = ''PersistentVolume'', ref_Namespace = '''', ref_Name = ''pv1''\<rparr>"
    by (simp_all add: demo_cinder_data_def newSnapshotData_def GetSupportedVolumeFromSnapshotDataSpec_def emptySource_def)
  have e: "e_GetPV demo_cinder_env (ref_Name \<lparr>ref_Kind = ''PersistentVolume'', ref_Namespace = '''', ref_Name = ''pv1''\<rparr>) ?c =
      ((zero_PV\<lparr>pv_Name := ''pv1'', pv_HostPath := Some ''/tmp''\<rparr>, None), ?c)"
    by (simp add: demo_cinder_env_def demo_env_def)
  have f: "ca_BlockStorageV2 demo_cinder ?c = Inr ()" "ca_DeleteSnapshot demo_cinder ''s'' ?c = (Some (ExtErr ''409''), ?c)"
    by (simp_all add: demo_cinder_def)
  have g: "e_DeleteData demo_cinder_env (vsd_Name demo_cinder_data) ?c = (Inr (), ?c')"
    by (simp add: demo_cinder_env_def demo_env_def demo_cinder_state_def demo_cinder_data_def newSnapshotData_def)
  show ?thesis
    using refused_cinder_deletion_forgets_snapshot [OF a b d e f g] f(2) by simp
qed

end
