(* ===== verification/GceDisks.thy ===== *)
theory GceDisks
  imports SnapPlugins GoPath
begin

text \<open>
  The disks and snapshots of \<open>snapshot/pkg/cloudprovider/providers/gce/gce.go\<close> and the plugin
  \<open>snapshot/pkg/volume/gcepd/processor.go\<close> on top of them. The calls of the Compute Engine client
  are the record \<open>gceAPI\<close> over the cloud's state \<open>'c\<close>; \<open>ga_Poll\<close> is \<open>wait.Poll\<close> with the interval
  and the timeout of the provider. Errors are told apart as the code does: by the HTTP code and
  the reasons of a \<open>googleapi.Error\<close>, and by the two sentinel errors.
\<close>

datatype gceErr =
    GoogleAPIErr int "string list" string
  | ErrDiskNotFound
  | ErrInstanceNotFound
  | VolumeInUseErr
  | GceErrorf string "string list"
  | OtherGceErr string

definition gce_error :: "gceErr \<Rightarrow> error" where
  "gce_error e =
     (case e of
        GoogleAPIErr code reasons message \<Rightarrow> ExtErr message
      | ErrDiskNotFound \<Rightarrow> ExtErr ''disk is not found''
      | ErrInstanceNotFound \<Rightarrow> ExtErr ''instance not found''
      | VolumeInUseErr \<Rightarrow> ExtErr ''volume in use''
      | GceErrorf fmt args \<Rightarrow> Errorf fmt args
      | OtherGceErr message \<Rightarrow> ExtErr message)"

record gceOperation =
  gop_Name :: string
  gop_Status :: string
  gop_HttpErrorStatusCode :: int
  gop_Errors :: "string list"

record gceDiskSpec =
  gds_Name :: string
  gds_SizeGb :: int
  gds_Description :: string
  gds_Type :: string
  gds_SourceSnapshot :: string

record gceDiskInfo =
  gdi_Zone :: string
  gdi_Name :: string
  gdi_Kind :: string

record gceAttachedDisk =
  gad_DeviceName :: string
  gad_Kind :: string
  gad_Mode :: string
  gad_Source :: string
  gad_Type :: string

record gceInstanceInfo =
  gii_Zone :: string
  gii_Name :: string
  gii_ID :: int
  gii_Disks :: "string list"
  gii_MachineType :: string

type_synonym 'c gceCall = "'c \<Rightarrow> (gceErr + gceOperation option) \<times> 'c"

record 'c gceAPI =
  ga_InsertDisk :: "string \<Rightarrow> gceDiskSpec \<Rightarrow> 'c gceCall"
  ga_DeleteDisk :: "string \<Rightarrow> string \<Rightarrow> 'c gceCall"
  ga_GetDisk :: "string \<Rightarrow> string \<Rightarrow> 'c \<Rightarrow> gceErr + gceDiskInfo"
  ga_AttachDisk :: "string \<Rightarrow> string \<Rightarrow> gceAttachedDisk \<Rightarrow> 'c gceCall"
  ga_DetachDisk :: "string \<Rightarrow> string \<Rightarrow> string \<Rightarrow> 'c gceCall"
  ga_CreateSnapshot :: "string \<Rightarrow> string \<Rightarrow> string \<Rightarrow> string \<Rightarrow> 'c gceCall"
  ga_GetSnapshot :: "string \<Rightarrow> 'c \<Rightarrow> gceErr + (string \<times> string \<times> string)"
  ga_DeleteSnapshot :: "string \<Rightarrow> 'c gceCall"
  ga_GetInstance :: "string \<Rightarrow> string \<Rightarrow> 'c \<Rightarrow> gceErr + gceInstanceInfo"
  ga_ListInstances :: "string \<Rightarrow> 'c \<Rightarrow> gceErr + string list"
  ga_GetZoneOperation :: "string \<Rightarrow> string \<Rightarrow> 'c \<Rightarrow> (gceOperation option \<times> gceErr option) \<times> 'c"
  ga_GetGlobalOperation :: "string \<Rightarrow> 'c \<Rightarrow> (gceOperation option \<times> gceErr option) \<times> 'c"
  ga_Poll :: "('c \<Rightarrow> (bool \<times> gceErr option) \<times> 'c) \<Rightarrow> 'c \<Rightarrow> gceErr option \<times> 'c"
  ga_MarshalTags :: "string gomap \<Rightarrow> gceErr + string"
  ga_Now :: "'c \<Rightarrow> int \<times> 'c"
  ga_UnixNano :: "'c \<Rightarrow> int"
  ga_range :: "string gomap \<Rightarrow> 'c \<Rightarrow> string list"
  ga_RoundUpSize :: "int \<Rightarrow> int \<Rightarrow> int"
  ga_GenerateVolumeName :: "string \<Rightarrow> string \<Rightarrow> int \<Rightarrow> string"
  ga_ChooseZoneForVolume :: "string list \<Rightarrow> string \<Rightarrow> string"

text \<open>What \<open>gce.Cloud\<close> keeps of its configuration for these operations.\<close>

record gceCloud =
  gc_projectID :: string
  gc_managedZones :: "string list"

section \<open>Errors and operations\<close>

definition isHTTPErrorCode :: "gceErr \<Rightarrow> int \<Rightarrow> bool" where
  "isHTTPErrorCode err code \<longleftrightarrow> (case err of GoogleAPIErr c _ _ \<Rightarrow> c = code | _ \<Rightarrow> False)"

definition isGCEError :: "gceErr option \<Rightarrow> string \<Rightarrow> bool" where
  "isGCEError err reason \<longleftrightarrow>
     (case err of Some (GoogleAPIErr _ reasons _) \<Rightarrow> list_ex (\<lambda>r. r = reason) reasons | _ \<Rightarrow> False)"

definition opIsDone :: "gceOperation option \<Rightarrow> bool" where
  "opIsDone op \<longleftrightarrow> (case op of Some o' \<Rightarrow> gop_Status o' = ''DONE'' | None \<Rightarrow> False)"

text \<open>The error made of an operation carries its code and first message, and no reasons.\<close>

definition getErrorFromOp :: "gceOperation option \<Rightarrow> gceErr option" where
  "getErrorFromOp op =
     (case op of
        None \<Rightarrow> None
      | Some o' \<Rightarrow>
          (case gop_Errors o' of
             [] \<Rightarrow> None
           | message # _ \<Rightarrow> Some (GoogleAPIErr (gop_HttpErrorStatusCode o') [] message)))"

definition waitForOp ::
  "'c gceAPI \<Rightarrow> (string \<Rightarrow> 'c \<Rightarrow> (gceOperation option \<times> gceErr option) \<times> 'c) \<Rightarrow> gceOperation option \<Rightarrow> 'c \<Rightarrow>
     gceErr option \<times> 'c" where
  "waitForOp api getOperation op c =
     (case op of
        None \<Rightarrow> (Some (GceErrorf ''operation must not be nil'' []), c)
      | Some o' \<Rightarrow>
          if opIsDone op then (getErrorFromOp op, c)
          else
            let opName = gop_Name o'
            in ga_Poll api
                 (\<lambda>c. let ((pollOp, err), c) = getOperation opName c
                      in ((opIsDone pollOp, getErrorFromOp pollOp), c)) c)"

definition waitForGlobalOp :: "'c gceAPI \<Rightarrow> gceOperation option \<Rightarrow> 'c \<Rightarrow> gceErr option \<times> 'c" where
  "waitForGlobalOp api op c = waitForOp api (ga_GetGlobalOperation api) op c"

definition waitForZoneOp :: "'c gceAPI \<Rightarrow> gceOperation option \<Rightarrow> string \<Rightarrow> 'c \<Rightarrow> gceErr option \<times> 'c" where
  "waitForZoneOp api op zone c = waitForOp api (ga_GetZoneOperation api zone) op c"

section \<open>Finding disks and instances\<close>

definition lastComponent :: "string \<Rightarrow> string" where
  "lastComponent s = after_last (CHR ''/'') s"

definition canonicalizeInstanceName :: "string \<Rightarrow> string" where
  "canonicalizeInstanceName name = takeWhile (\<lambda>c. c \<noteq> CHR ''.'') name"

record gceDisk =
  gd_Zone :: string
  gd_Name :: string
  gd_Kind :: string

record gceInstance =
  gi_Zone :: string
  gi_Name :: string
  gi_ID :: int
  gi_Disks :: "string list"
  gi_Type :: string

definition findDiskByName :: "'c gceAPI \<Rightarrow> string \<Rightarrow> string \<Rightarrow> 'c \<Rightarrow> gceErr + gceDisk option" where
  "findDiskByName api diskName zone c =
     (case ga_GetDisk api zone diskName c of
        Inr d \<Rightarrow> Inr (Some \<lparr>gd_Zone = lastComponent (gdi_Zone d), gd_Name = gdi_Name d, gd_Kind = gdi_Kind d\<rparr>)
      | Inl err \<Rightarrow> if \<not> isHTTPErrorCode err 404 then Inl err else Inr None)"

definition getDiskByName :: "'c gceAPI \<Rightarrow> string \<Rightarrow> string \<Rightarrow> 'c \<Rightarrow> gceErr + gceDisk" where
  "getDiskByName api diskName zone c =
     (case findDiskByName api diskName zone c of
        Inr (Some disk) \<Rightarrow> Inr disk
      | Inr None \<Rightarrow> Inl (GceErrorf ''GCE persistent disk not found: diskName=%q zone=%q'' [diskName, zone])
      | Inl err \<Rightarrow> Inl err)"

fun scanZones :: "'c gceAPI \<Rightarrow> string \<Rightarrow> 'c \<Rightarrow> string list \<Rightarrow> gceDisk option \<Rightarrow> gceErr + gceDisk option" where
  "scanZones api diskName c [] found = Inr found"
| "scanZones api diskName c (zone # zones) found =
     (case findDiskByName api diskName zone c of
        Inl err \<Rightarrow> Inl err
      | Inr None \<Rightarrow> scanZones api diskName c zones found
      | Inr (Some disk) \<Rightarrow>
          if found \<noteq> None then Inl (GceErrorf ''GCE persistent disk name was found in multiple zones: %q'' [diskName])
          else scanZones api diskName c zones (Some disk))"

definition getDiskByNameUnknownZone :: "'c gceAPI \<Rightarrow> gceCloud \<Rightarrow> string \<Rightarrow> 'c \<Rightarrow> gceErr + gceDisk" where
  "getDiskByNameUnknownZone api gce diskName c =
     (case scanZones api diskName c (gc_managedZones gce) None of
        Inl err \<Rightarrow> Inl err
      | Inr (Some disk) \<Rightarrow> Inr disk
      | Inr None \<Rightarrow> Inl ErrDiskNotFound)"

fun getInstanceIn :: "'c gceAPI \<Rightarrow> string list \<Rightarrow> string \<Rightarrow> 'c \<Rightarrow> gceErr + gceInstance" where
  "getInstanceIn api [] name c = Inl ErrInstanceNotFound"
| "getInstanceIn api (zone # zones) name c =
     (let name = canonicalizeInstanceName name
      in (case ga_GetInstance api zone name c of
            Inl err \<Rightarrow> if isHTTPErrorCode err 404 then getInstanceIn api zones name c else Inl err
          | Inr res \<Rightarrow>
              Inr \<lparr>gi_Zone = lastComponent (gii_Zone res), gi_Name = gii_Name res, gi_ID = gii_ID res,
                   gi_Disks = gii_Disks res, gi_Type = lastComponent (gii_MachineType res)\<rparr>))"

definition getInstanceByName :: "'c gceAPI \<Rightarrow> gceCloud \<Rightarrow> string \<Rightarrow> 'c \<Rightarrow> gceErr + gceInstance" where
  "getInstanceByName api gce name c = getInstanceIn api (gc_managedZones gce) name c"

definition GetGCERegion :: "string \<Rightarrow> gceErr + string" where
  "GetGCERegion zone =
     (if CHR ''-'' \<notin> set zone then Inl (GceErrorf ''unexpected zone: %s'' [zone])
      else Inr (before_last (CHR ''-'') zone))"

fun zonesWithInstances :: "'c gceAPI \<Rightarrow> string list \<Rightarrow> 'c \<Rightarrow> string list \<Rightarrow> gceErr + string list" where
  "zonesWithInstances api [] c found = Inr found"
| "zonesWithInstances api (zone # zones) c found =
     (case ga_ListInstances api zone c of
        Inl err \<Rightarrow> Inl err
      | Inr items \<Rightarrow>
          zonesWithInstances api zones c (if length items \<noteq> 0 then List.insert zone found else found))"

definition GetAllZones :: "'c gceAPI \<Rightarrow> gceCloud \<Rightarrow> 'c \<Rightarrow> gceErr + string list" where
  "GetAllZones api gce c =
     (if length (gc_managedZones gce) = 1 then Inr (gc_managedZones gce)
      else zonesWithInstances api (gc_managedZones gce) c [])"

section \<open>Disks\<close>

abbreviation LabelZoneFailureDomain :: string where
  "LabelZoneFailureDomain \<equiv> ''failure-domain.beta.kubernetes.io/zone''"

abbreviation LabelZoneRegion :: string where
  "LabelZoneRegion \<equiv> ''failure-domain.beta.kubernetes.io/region''"

abbreviation DiskTypeSSD :: string where
  "DiskTypeSSD \<equiv> ''pd-ssd''"

abbreviation DiskTypeStandard :: string where
  "DiskTypeStandard \<equiv> ''pd-standard''"

definition encodeDiskTags :: "'c gceAPI \<Rightarrow> string gomap \<Rightarrow> gceErr + string" where
  "encodeDiskTags api tags = (if map_len tags = 0 then Inr '''' else ga_MarshalTags api tags)"

definition diskTypeURI :: "gceCloud \<Rightarrow> string \<Rightarrow> string \<Rightarrow> string" where
  "diskTypeURI gce zone diskType =
     ''https://www.googleapis.com/compute/v1/projects/'' @ gc_projectID gce @ ''/zones/'' @ zone @ ''/diskTypes/'' @ diskType"

text \<open>The managed zone, the tags and the type: the checks both ways of creating a disk start with.\<close>

definition gce_CreateDisk ::
  "'c gceAPI \<Rightarrow> gceCloud \<Rightarrow> string \<Rightarrow> string \<Rightarrow> string \<Rightarrow> int \<Rightarrow> string gomap \<Rightarrow> 'c \<Rightarrow> gceErr option \<times> 'c" where
  "gce_CreateDisk api gce name diskType zone sizeGb tags c =
     (if \<not> list_ex (\<lambda>managedZone. zone = managedZone) (gc_managedZones gce) then
        (Some (GceErrorf ''kubernetes does not manage zone %q'' [zone]), c)
      else
        (case encodeDiskTags api tags of
           Inl err \<Rightarrow> (Some err, c)
         | Inr tagsStr \<Rightarrow>
             if diskType \<notin> {DiskTypeSSD, DiskTypeStandard, ''''} then
               (Some (GceErrorf ''invalid GCE disk type %q'' [diskType]), c)
             else
               let diskType = (if diskType = '''' then DiskTypeStandard else diskType);
                   diskToCreate = \<lparr>gds_Name = name, gds_SizeGb = sizeGb, gds_Description = tagsStr,
                                   gds_Type = diskTypeURI gce zone diskType, gds_SourceSnapshot = ''''\<rparr>
               in (case ga_InsertDisk api zone diskToCreate c of
                     (Inl err, c) \<Rightarrow> (Some err, c)
                   | (Inr createOp, c) \<Rightarrow>
                       (case waitForZoneOp api createOp zone c of
                          (err, c) \<Rightarrow> if isGCEError err ''alreadyExists'' then (None, c) else (err, c)))))"

definition CreateDiskFromSnapshot ::
  "'c gceAPI \<Rightarrow> gceCloud \<Rightarrow> string \<Rightarrow> string \<Rightarrow> string \<Rightarrow> string \<Rightarrow> int \<Rightarrow> string gomap \<Rightarrow> 'c \<Rightarrow> gceErr option \<times> 'c" where
  "CreateDiskFromSnapshot api gce snapshot name diskType zone sizeGb tags c =
     (if \<not> list_ex (\<lambda>managedZone. zone = managedZone) (gc_managedZones gce) then
        (Some (GceErrorf ''kubernetes does not manage zone %q'' [zone]), c)
      else
        (case encodeDiskTags api tags of
           Inl err \<Rightarrow> (Some (GceErrorf ''encode disk tag error %v'' []), c)
         | Inr tagsStr \<Rightarrow>
             if diskType \<notin> {DiskTypeSSD, DiskTypeStandard, ''''} then
               (Some (GceErrorf ''invalid GCE disk type %q'' [diskType]), c)
             else
               let diskType = (if diskType = '''' then DiskTypeStandard else diskType);
                   snapshotName = ''global/snapshots/'' @ snapshot;
                   diskToCreate = \<lparr>gds_Name = name, gds_SizeGb = sizeGb, gds_Description = tagsStr,
                                   gds_Type = diskTypeURI gce zone diskType, gds_SourceSnapshot = snapshotName\<rparr>
               in (case ga_InsertDisk api zone diskToCreate c of
                     (Inl err, c) \<Rightarrow> if isGCEError (Some err) ''alreadyExists'' then (None, c) else (Some err, c)
                   | (Inr createOp, c) \<Rightarrow>
                       (case waitForZoneOp api createOp zone c of
                          (err, c) \<Rightarrow> if isGCEError err ''alreadyExists'' then (None, c) else (err, c)))))"

definition doDeleteDisk :: "'c gceAPI \<Rightarrow> gceCloud \<Rightarrow> string \<Rightarrow> 'c \<Rightarrow> gceErr option \<times> 'c" where
  "doDeleteDisk api gce diskToDelete c =
     (case getDiskByNameUnknownZone api gce diskToDelete c of
        Inl err \<Rightarrow> (Some err, c)
      | Inr disk \<Rightarrow>
          (case ga_DeleteDisk api (gd_Zone disk) (gd_Name disk) c of
             (Inl err, c) \<Rightarrow> (Some err, c)
           | (Inr deleteOp, c) \<Rightarrow> waitForZoneOp api deleteOp (gd_Zone disk) c))"

definition gce_DeleteDisk :: "'c gceAPI \<Rightarrow> gceCloud \<Rightarrow> string \<Rightarrow> 'c \<Rightarrow> gceErr option \<times> 'c" where
  "gce_DeleteDisk api gce diskToDelete c =
     (case doDeleteDisk api gce diskToDelete c of
        (err, c) \<Rightarrow>
          if isGCEError err ''resourceInUseByAnotherResource'' then (Some VolumeInUseErr, c)
          else if err = Some ErrDiskNotFound then (None, c)
          else (err, c))"

definition GetAutoLabelsForPD :: "'c gceAPI \<Rightarrow> gceCloud \<Rightarrow> string \<Rightarrow> string \<Rightarrow> 'c \<Rightarrow> gceErr + string gomap" where
  "GetAutoLabelsForPD api gce name zone c =
     (case (if zone = '''' then
              (case getDiskByNameUnknownZone api gce name c of
                 Inl err \<Rightarrow> Inl err | Inr disk \<Rightarrow> Inr (disk, gd_Zone disk))
            else
              (case getDiskByName api name zone c of
                 Inl err \<Rightarrow> Inl err | Inr disk \<Rightarrow> Inr (disk, zone))) of
        Inl err \<Rightarrow> Inl err
      | Inr (disk, zone) \<Rightarrow>
          (case GetGCERegion zone of
             Inl err \<Rightarrow> Inl err
           | Inr region \<Rightarrow>
               if zone = '''' \<or> region = '''' then
                 Inl (GceErrorf ''PD did not have zone/region information: %q'' [gd_Name disk])
               else Inr (fmupd LabelZoneRegion region (fmupd LabelZoneFailureDomain zone fmempty))))"

section \<open>Attaching disks\<close>

definition convertDiskToAttachedDisk :: "gceCloud \<Rightarrow> gceDisk \<Rightarrow> string \<Rightarrow> gceAttachedDisk" where
  "convertDiskToAttachedDisk gce disk readWrite =
     \<lparr>gad_DeviceName = gd_Name disk, gad_Kind = gd_Kind disk, gad_Mode = readWrite,
      gad_Source = ''https://'' @ Join [''www.googleapis.com/compute/v1/projects/'', gc_projectID gce, ''zones'',
                                       gd_Zone disk, ''disks'', gd_Name disk],
      gad_Type = ''PERSISTENT''\<rparr>"

definition gce_AttachDisk :: "'c gceAPI \<Rightarrow> gceCloud \<Rightarrow> string \<Rightarrow> string \<Rightarrow> bool \<Rightarrow> 'c \<Rightarrow> gceErr option \<times> 'c" where
  "gce_AttachDisk api gce diskName nodeName readOnly c =
     (case getInstanceByName api gce nodeName c of
        Inl err \<Rightarrow> (Some (GceErrorf ''error getting instance %q'' [nodeName]), c)
      | Inr instance' \<Rightarrow>
          (case getDiskByName api diskName (gi_Zone instance') c of
             Inl err \<Rightarrow> (Some err, c)
           | Inr disk \<Rightarrow>
               let readWrite = (if readOnly then ''READ_ONLY'' else ''READ_WRITE'')
               in (case ga_AttachDisk api (gd_Zone disk) (gi_Name instance') (convertDiskToAttachedDisk gce disk readWrite) c of
                     (Inl err, c) \<Rightarrow> (Some err, c)
                   | (Inr attachOp, c) \<Rightarrow> waitForZoneOp api attachOp (gd_Zone disk) c)))"

definition gce_DetachDisk :: "'c gceAPI \<Rightarrow> gceCloud \<Rightarrow> string \<Rightarrow> string \<Rightarrow> 'c \<Rightarrow> gceErr option \<times> 'c" where
  "gce_DetachDisk api gce devicePath nodeName c =
     (case getInstanceByName api gce nodeName c of
        Inl err \<Rightarrow>
          if err = ErrInstanceNotFound then (None, c)
          else (Some (GceErrorf ''error getting instance %q'' [nodeName]), c)
      | Inr inst \<Rightarrow>
          (case ga_DetachDisk api (gi_Zone inst) (gi_Name inst) devicePath c of
             (Inl err, c) \<Rightarrow> (Some err, c)
           | (Inr detachOp, c) \<Rightarrow> waitForZoneOp api detachOp (gi_Zone inst) c))"

definition gce_DiskIsAttached :: "'c gceAPI \<Rightarrow> gceCloud \<Rightarrow> string \<Rightarrow> string \<Rightarrow> 'c \<Rightarrow> gceErr + bool" where
  "gce_DiskIsAttached api gce diskName nodeName c =
     (case getInstanceByName api gce nodeName c of
        Inl err \<Rightarrow> if err = ErrInstanceNotFound then Inr False else Inl err
      | Inr inst \<Rightarrow> Inr (list_ex (\<lambda>disk. disk = diskName) (gi_Disks inst)))"

fun falseForAll :: "string list \<Rightarrow> bool gomap \<Rightarrow> bool gomap" where
  "falseForAll [] attached = attached"
| "falseForAll (diskName # diskNames) attached = falseForAll diskNames (fmupd diskName False attached)"

fun markAttached :: "string \<Rightarrow> string list \<Rightarrow> bool gomap \<Rightarrow> bool gomap" where
  "markAttached deviceName [] attached = attached"
| "markAttached deviceName (diskName # diskNames) attached =
     markAttached deviceName diskNames (if deviceName = diskName then fmupd diskName True attached else attached)"

fun markAllAttached :: "string list \<Rightarrow> string list \<Rightarrow> bool gomap \<Rightarrow> bool gomap" where
  "markAllAttached [] diskNames attached = attached"
| "markAllAttached (instanceDisk # instanceDisks) diskNames attached =
     markAllAttached instanceDisks diskNames (markAttached instanceDisk diskNames attached)"

definition gce_DisksAreAttached ::
  "'c gceAPI \<Rightarrow> gceCloud \<Rightarrow> string list \<Rightarrow> string \<Rightarrow> 'c \<Rightarrow> bool gomap \<times> gceErr option" where
  "gce_DisksAreAttached api gce diskNames nodeName c =
     (let attached = falseForAll diskNames fmempty
      in (case getInstanceByName api gce nodeName c of
            Inl err \<Rightarrow> if err = ErrInstanceNotFound then (attached, None) else (attached, Some err)
          | Inr inst \<Rightarrow> (markAllAttached (gi_Disks inst) diskNames attached, None)))"

section \<open>Snapshots\<close>

definition getSnapshotByName :: "'c gceAPI \<Rightarrow> string \<Rightarrow> 'c \<Rightarrow> gceErr + (string \<times> string \<times> string) option" where
  "getSnapshotByName api snapshotName c =
     (case ga_GetSnapshot api snapshotName c of
        Inr (name, kind, status) \<Rightarrow> Inr (Some (name, kind, status))
      | Inl err \<Rightarrow> if \<not> isHTTPErrorCode err 404 then Inl err else Inr None)"

definition gce_DescribeSnapshot :: "'c gceAPI \<Rightarrow> string \<Rightarrow> 'c \<Rightarrow> gceErr + string \<times> bool" where
  "gce_DescribeSnapshot api snapshotToGet c =
     (case getSnapshotByName api snapshotToGet c of
        Inl err \<Rightarrow> Inl err
      | Inr None \<Rightarrow> Inl (GceErrorf ''snapshot %s is not found'' [snapshotToGet])
      | Inr (Some (name, kind, status)) \<Rightarrow> if status = ''READY'' then Inr (status, True) else Inr (status, False))"

definition gce_FindSnapshot :: "string gomap \<Rightarrow> string list \<times> string list" where
  "gce_FindSnapshot tags = ([], [])"

definition gce_DeleteSnapshot :: "'c gceAPI \<Rightarrow> string \<Rightarrow> 'c \<Rightarrow> gceErr option \<times> 'c" where
  "gce_DeleteSnapshot api snapshotToDelete c =
     (case getSnapshotByName api snapshotToDelete c of
        Inl err \<Rightarrow> (Some err, c)
      | Inr None \<Rightarrow> (None, c)
      | Inr (Some _) \<Rightarrow>
          (case ga_DeleteSnapshot api snapshotToDelete c of
             (Inl err, c) \<Rightarrow> (Some err, c)
           | (Inr deleteOp, c) \<Rightarrow> waitForGlobalOp api deleteOp c))"

text \<open>The operation of the creation is not waited for: the snapshotter polls the snapshot.\<close>

definition gce_CreateSnapshot ::
  "'c gceAPI \<Rightarrow> gceCloud \<Rightarrow> string \<Rightarrow> string \<Rightarrow> string \<Rightarrow> string gomap \<Rightarrow> 'c \<Rightarrow> gceErr option \<times> 'c" where
  "gce_CreateSnapshot api gce diskName zone snapshotName tags c =
     (if \<not> list_ex (\<lambda>managedZone. zone = managedZone) (gc_managedZones gce) then
        (Some (GceErrorf ''kubernetes does not manage zone %q'' [zone]), c)
      else
        (case encodeDiskTags api tags of
           Inl err \<Rightarrow> (Some err, c)
         | Inr tagsStr \<Rightarrow>
             (case ga_CreateSnapshot api zone diskName snapshotName tagsStr c of
                (Inl err, c) \<Rightarrow> (Some err, c)
              | (Inr createOp, c) \<Rightarrow> (None, c))))"

section \<open>The plugin\<close>

definition gce_result :: "gceErr option \<Rightarrow> unit result" where
  "gce_result e = (case e of Some err \<Rightarrow> Inl (gce_error err) | None \<Rightarrow> Inr ())"

definition createSnapshotName :: "'c gceAPI \<Rightarrow> string \<Rightarrow> 'c \<Rightarrow> string" where
  "createSnapshotName api pvName c = pvName @ FormatInt (ga_UnixNano api c)"

definition convertGCEStatus :: "string \<Rightarrow> int \<Rightarrow> VolumeSnapshotCondition list" where
  "convertGCEStatus status now =
     (if status = ''READY'' then
        [newCondition ConditionReady ConditionTrue ''Snapshot created successfully and it is ready'' now]
      else if status = ''FAILED'' then
        [newCondition ConditionError ConditionTrue ''Snapshot creation failed'' now]
      else if status = ''UPLOADING'' then
        [newCondition ConditionPending ConditionTrue ''Snapshot is uploading'' now]
      else if status = ''CREATING'' then
        [newCondition ConditionPending ConditionUnknown ''Snapshot is creating'' now]
      else if status = ''Deleting'' then
        [newCondition ConditionReady ConditionUnknown ''Snapshot is deleting'' now]
      else [])"

definition gcepd_SnapshotCreate ::
  "'c gceAPI \<Rightarrow> gceCloud \<Rightarrow> VolumeSnapshot \<Rightarrow> PersistentVolume \<Rightarrow> string gomap option \<Rightarrow> 'c \<Rightarrow>
     (VolumeSnapshotDataSource option \<times> VolumeSnapshotCondition list option) result \<times> 'c" where
  "gcepd_SnapshotCreate api gce snapshot pv tags c =
     (case pv_GCEPersistentDisk pv of
        None \<Rightarrow> (Inl (Errorf ''invalid PV spec %v'' []), c)
      | Some pd \<Rightarrow>
          let diskName = gce_PDName pd;
              zone = (case fmlookup (pv_Labels pv) LabelZoneFailureDomain of Some z \<Rightarrow> z | None \<Rightarrow> '''');
              snapshotName = createSnapshotName api (pv_Name pv) c
          in (case gce_CreateSnapshot api gce diskName zone snapshotName (case tags of Some m \<Rightarrow> m | None \<Rightarrow> fmempty) c of
                (Some err, c) \<Rightarrow> (Inl (gce_error err), c)
              | (None, c) \<Rightarrow>
                  let (now, c) = ga_Now api c
                  in (Inr (Some (emptySource\<lparr>src_GCEPersistentDiskSnapshot := Some snapshotName\<rparr>),
                           Some [newCondition ConditionPending ConditionUnknown ''Snapshot creation is triggered'' now]), c)))"

definition gcepd_param :: "string \<Rightarrow> string \<Rightarrow> string \<times> string \<Rightarrow> error + string \<times> string" where
  "gcepd_param k v = (\<lambda>(diskType, zone).
     if ToLower k = ''type'' then Inr (v, zone)
     else if ToLower k = ''zone'' then Inr (diskType, v)
     else Inl (Errorf ''invalid option %q for volume plugin %s'' [k, ''gce-pd'']))"

definition gcepd_SnapshotRestore ::
  "'c gceAPI \<Rightarrow> gceCloud \<Rightarrow> VolumeSnapshotData \<Rightarrow> restoreClaim option \<Rightarrow> string \<Rightarrow> string gomap \<Rightarrow> 'c \<Rightarrow>
     (PersistentVolumeSource \<times> string gomap option) result \<times> 'c" where
  "gcepd_SnapshotRestore api gce snapshotData pvc pvName parameters c =
     (case src_GCEPersistentDiskSnapshot (spec_Source (vsd_Spec snapshotData)) of
        None \<Rightarrow> (Inl (Errorf ''failed to retrieve Snapshot spec'' []), c)
      | Some snapID \<Rightarrow>
     (case pvc of
        None \<Rightarrow> (Inl (Errorf ''pvc is nil'' []), c)
      | Some claim \<Rightarrow>
          let diskName = pvName;
              requestGB = ga_RoundUpSize api (rc_Request claim) (1024 * 1024 * 1024)
          in (case range_loop gcepd_param (ga_range api parameters c) parameters ('''', '''') of
                Inl err \<Rightarrow> (Inl err, c)
              | Inr (diskType, zone) \<Rightarrow>
                  (case (if zone = '''' then
                           (case GetAllZones api gce c of
                              Inl err \<Rightarrow> Inl err
                            | Inr zones \<Rightarrow> Inr (ga_ChooseZoneForVolume api zones (rc_Name claim)))
                         else Inr zone) of
                     Inl err \<Rightarrow> (Inl (gce_error err), c)
                   | Inr zone \<Rightarrow>
                       let tags = fmupd ''source''
                             (ga_GenerateVolumeName api (''Created from snapshot '' @ snapID @ '' '') pvName 255) fmempty
                       in (case CreateDiskFromSnapshot api gce snapID diskName diskType zone requestGB tags c of
                             (Some err, c) \<Rightarrow> (Inl (gce_error err), c)
                           | (None, c) \<Rightarrow>
                               let labels = (case GetAutoLabelsForPD api gce diskName zone c of
                                               Inl err \<Rightarrow> None | Inr m \<Rightarrow> Some m)
                               in (Inr (SrcGCE \<lparr>gce_PDName = diskName, gce_FSType = ''ext4'', gce_Partition = 0,
                                                gce_ReadOnly = False\<rparr>, labels), c))))))"

definition gcepd_SnapshotDelete ::
  "'c gceAPI \<Rightarrow> VolumeSnapshotDataSource \<Rightarrow> PersistentVolume \<Rightarrow> 'c \<Rightarrow> unit result \<times> 'c" where
  "gcepd_SnapshotDelete api src pv c =
     (case src_GCEPersistentDiskSnapshot src of
        None \<Rightarrow> (Inl (Errorf ''invalid VolumeSnapshotDataSource: %v'' []), c)
      | Some snapshotID \<Rightarrow> (case gce_DeleteSnapshot api snapshotID c of (err, c) \<Rightarrow> (gce_result err, c)))"

definition gcepd_DescribeSnapshot ::
  "'c gceAPI \<Rightarrow> VolumeSnapshotData \<Rightarrow> 'c \<Rightarrow> (VolumeSnapshotCondition list option \<times> bool) result \<times> 'c" where
  "gcepd_DescribeSnapshot api snapshotData c =
     (case src_GCEPersistentDiskSnapshot (spec_Source (vsd_Spec snapshotData)) of
        None \<Rightarrow> (Inl (Errorf ''invalid VolumeSnapshotDataSource: %v'' []), c)
      | Some snapshotID \<Rightarrow>
          (case gce_DescribeSnapshot api snapshotID c of
             Inl err \<Rightarrow> (Inl (gce_error err), c)
           | Inr (status, isCompleted) \<Rightarrow>
               let (now, c') = ga_Now api c
               in (Inr (Some (convertGCEStatus status now), isCompleted), if convertGCEStatus status now = [] then c else c')))"

definition gcepd_VolumeDelete :: "'c gceAPI \<Rightarrow> gceCloud \<Rightarrow> PersistentVolume \<Rightarrow> 'c \<Rightarrow> unit result \<times> 'c" where
  "gcepd_VolumeDelete api gce pv c =
     (case pv_GCEPersistentDisk pv of
        None \<Rightarrow> (Inl (Errorf ''Invalid GCE PD: %v'' []), c)
      | Some pd \<Rightarrow> (case gce_DeleteDisk api gce (gce_PDName pd) c of (err, c) \<Rightarrow> (gce_result err, c)))"

definition gcePersistentDiskPlugin :: "'c gceAPI \<Rightarrow> gceCloud \<Rightarrow> 'c volumePlugin" where
  "gcePersistentDiskPlugin api gce =
     \<lparr>pl_SnapshotCreate = gcepd_SnapshotCreate api gce, pl_SnapshotDelete = gcepd_SnapshotDelete api,
      pl_DescribeSnapshot = gcepd_DescribeSnapshot api, pl_FindSnapshot = noFindSnapshot,
      pl_SnapshotRestore = gcepd_SnapshotRestore api gce, pl_VolumeDelete = gcepd_VolumeDelete api gce\<rparr>"

section \<open>Disks are found where they are created\<close>

definition hasDisk :: "'c gceAPI \<Rightarrow> string \<Rightarrow> 'c \<Rightarrow> string \<Rightarrow> bool" where
  "hasDisk api diskName c zone \<longleftrightarrow> (\<exists>disk. findDiskByName api diskName zone c = Inr (Some disk))"

lemma scanZones_no_disk:
  "\<forall>zone \<in> set zones. findDiskByName api diskName zone c = Inr None \<Longrightarrow> scanZones api diskName c zones found = Inr found"
  by (induction zones) auto

lemma scanZones_append:
  "scanZones api diskName c (zones @ zones') found =
     (case scanZones api diskName c zones found of
        Inl err \<Rightarrow> Inl err
      | Inr found' \<Rightarrow> scanZones api diskName c zones' found')"
  by (induction zones arbitrary: found) (auto split: sum.split option.split)

lemma scanZones_one_disk:
  assumes "distinct zones" "zone \<in> set zones" "findDiskByName api diskName zone c = Inr (Some disk)"
    and "\<And>z. z \<in> set zones \<Longrightarrow> z \<noteq> zone \<Longrightarrow> findDiskByName api diskName z c = Inr None"
  shows "scanZones api diskName c zones None = Inr (Some disk)"
proof -
  from assms(2) obtain before after where zones: "zones = before @ zone # after"
    by (auto dest: split_list)
  with assms have "\<forall>z \<in> set before. findDiskByName api diskName z c = Inr None"
    "\<forall>z \<in> set after. findDiskByName api diskName z c = Inr None"
    by auto
  with assms(3) show ?thesis
    by (simp add: zones scanZones_append scanZones_no_disk)
qed

text \<open>
  A disk is looked up by its name in all managed zones. When the cloud answers for each of
  them, the lookup returns the disk if exactly one zone has it, the error \<open>ErrDiskNotFound\<close> if
  none has it, and an error of its own when two zones have one of that name.
\<close>

theorem disk_by_name_unique:
  assumes "\<forall>zone \<in> set (gc_managedZones gce). \<exists>found. findDiskByName api diskName zone c = Inr found"
  shows "case filter (hasDisk api diskName c) (gc_managedZones gce) of
           [] \<Rightarrow> getDiskByNameUnknownZone api gce diskName c = Inl ErrDiskNotFound
         | [zone] \<Rightarrow> \<exists>disk. getDiskByNameUnknownZone api gce diskName c = Inr disk \<and>
                       findDiskByName api diskName zone c = Inr (Some disk)
         | _ \<Rightarrow> getDiskByNameUnknownZone api gce diskName c =
                  Inl (GceErrorf ''GCE persistent disk name was found in multiple zones: %q'' [diskName])"
proof -
  let ?multiple = "Inl (GceErrorf ''GCE persistent disk name was found in multiple zones: %q'' [diskName])"
  have later: "filter (hasDisk api diskName c) zones \<noteq> [] \<Longrightarrow>
      scanZones api diskName c zones (Some disk) = ?multiple"
    if "\<forall>zone \<in> set zones. \<exists>found. findDiskByName api diskName zone c = Inr found" for zones disk
    using that by (induction zones) (auto simp: hasDisk_def split: option.splits)
  have "case filter (hasDisk api diskName c) zones of
          [] \<Rightarrow> scanZones api diskName c zones None = Inr None
        | [zone] \<Rightarrow> \<exists>disk. scanZones api diskName c zones None = Inr (Some disk) \<and>
                      findDiskByName api diskName zone c = Inr (Some disk)
        | _ \<Rightarrow> scanZones api diskName c zones None = ?multiple"
    if zones: "\<forall>zone \<in> set zones. \<exists>found. findDiskByName api diskName zone c = Inr found" for zones
    using zones
  proof (induction zones)
    case (Cons zone zones)
    then obtain found where found: "findDiskByName api diskName zone c = Inr found" by auto
    show ?case
    proof (cases found)
      case None
      with found have same: "scanZones api diskName c (zone # zones) None = scanZones api diskName c zones None"
        "filter (hasDisk api diskName c) (zone # zones) = filter (hasDisk api diskName c) zones"
        by (simp_all add: hasDisk_def)
      from Cons show ?thesis unfolding same by simp
    next
      case (Some disk)
      with found have has: "hasDisk api diskName c zone" by (simp add: hasDisk_def)
      show ?thesis
      proof (cases "filter (hasDisk api diskName c) zones")
        case Nil
        then have "\<forall>z \<in> set zones. findDiskByName api diskName z c = Inr None"
          using Cons.prems by (fastforce simp: filter_empty_conv hasDisk_def)
        with Nil found Some has show ?thesis by (simp add: scanZones_no_disk)
      next
        case (Cons z zs)
        with later [of zones disk] \<open>\<forall>zone \<in> set (zone # zones). _ zone\<close> found Some has show ?thesis by simp
      qed
    qed
  qed simp
  from this [OF assms] show ?thesis
    by (auto simp: getDiskByNameUnknownZone_def split: list.splits)
qed

section \<open>Restored disks can be deleted\<close>

lemma CreateDiskFromSnapshot_managed:
  "CreateDiskFromSnapshot api gce snapshot name diskType zone sizeGb tags c = (None, c') \<Longrightarrow>
     zone \<in> set (gc_managedZones gce)"
  by (auto simp: CreateDiskFromSnapshot_def list_ex_iff split: if_splits)

lemma gcepd_SnapshotRestore_result:
  assumes "gcepd_SnapshotRestore api gce data pvc pvName params c = (Inr (src, labels), c')"
  obtains zone where "zone \<in> set (gc_managedZones gce)"
    "labels = (case GetAutoLabelsForPD api gce pvName zone c' of Inl err \<Rightarrow> None | Inr m \<Rightarrow> Some m)"
    "src = SrcGCE \<lparr>gce_PDName = pvName, gce_FSType = ''ext4'', gce_Partition = 0, gce_ReadOnly = False\<rparr>"
  using assms CreateDiskFromSnapshot_managed
  unfolding gcepd_SnapshotRestore_def Let_def
  by (force split: option.splits sum.splits prod.splits)

lemma GetAutoLabelsForPD_zone:
  "GetAutoLabelsForPD api gce name zone c = Inr m \<Longrightarrow> zone \<noteq> '''' \<Longrightarrow>
     fmlookup m LabelZoneFailureDomain = Some zone"
  by (auto simp: GetAutoLabelsForPD_def split: sum.splits if_splits)

text \<open>
  A disk restored from a snapshot can be deleted again. When a restore answered with labels,
  the disk has the name of the volume and lies in the labelled zone, and that zone is one of those
  the provider manages; so as long as it is the only managed zone with a disk of that name, deleting
  the volume finds it and asks the cloud to delete exactly this disk in exactly this zone.
\<close>

theorem restored_disk_is_deletable:
  assumes "gcepd_SnapshotRestore api gce data pvc pvName params c = (Inr (src, Some labels), c1)"
    and "fmlookup labels LabelZoneFailureDomain = Some zone" and "'''' \<notin> set (gc_managedZones gce)"
    and "distinct (gc_managedZones gce)"
    and "findDiskByName api pvName zone c2 = Inr (Some \<lparr>gd_Zone = zone, gd_Name = pvName, gd_Kind = kind\<rparr>)"
    and "\<And>z. z \<in> set (gc_managedZones gce) \<Longrightarrow> z \<noteq> zone \<Longrightarrow> findDiskByName api pvName z c2 = Inr None"
    and "ga_DeleteDisk api zone pvName c2 = (Inr (Some op), c3)" and "gop_Status op = ''DONE''" and "gop_Errors op = []"
  shows "gcepd_VolumeDelete api gce (with_source src pv) c2 = (Inr (), c3)"
proof -
  from assms(1) obtain z where z: "z \<in> set (gc_managedZones gce)"
    "GetAutoLabelsForPD api gce pvName z c1 = Inr labels"
    "src = SrcGCE \<lparr>gce_PDName = pvName, gce_FSType = ''ext4'', gce_Partition = 0, gce_ReadOnly = False\<rparr>"
    by (rule gcepd_SnapshotRestore_result) (auto split: sum.splits)
  with assms(2,3) have zone: "zone \<in> set (gc_managedZones gce)"
    using GetAutoLabelsForPD_zone [OF z(2)] by auto
  have "scanZones api pvName c2 (gc_managedZones gce) None = Inr (Some \<lparr>gd_Zone = zone, gd_Name = pvName, gd_Kind = kind\<rparr>)"
    using scanZones_one_disk [OF assms(4) zone assms(5,6)] .
  with assms(7-9) z(3) show ?thesis
    by (simp add: gcepd_VolumeDelete_def gce_DeleteDisk_def doDeleteDisk_def getDiskByNameUnknownZone_def
        waitForZoneOp_def waitForOp_def opIsDone_def getErrorFromOp_def isGCEError_def gce_result_def)
qed

section \<open>What a snapshot's status becomes\<close>

lemma gce_unknown_status:
  "status \<notin> {''READY'', ''FAILED'', ''UPLOADING'', ''CREATING'', ''Deleting''} \<Longrightarrow> convertGCEStatus status now = []"
  by (simp add: convertGCEStatus_def)

text \<open>
  A snapshot that Compute Engine reports with a status the plugin does not know, like the
  service's own \<open>DELETING\<close> (the code spells it \<open>Deleting\<close>), makes the snapshotter panic: the plugin
  answers an empty list of conditions without an error, and the poll takes the last one of it.
\<close>

theorem gce_unknown_status_panics:
  assumes "src_GCEPersistentDiskSnapshot (spec_Source (vsd_Spec data)) = Some snapshotID"
    and "ga_GetSnapshot api snapshotID (sn_cluster s) = Inr (name, kind, status)"
    and "status \<notin> {''READY'', ''FAILED'', ''UPLOADING'', ''CREATING'', ''Deleting''}"
  shows "pollSnapshot env (Plugin.truncate (gcePersistentDiskPlugin api gce)) n snapshot data s = None"
proof -
  have "gcepd_DescribeSnapshot api data (sn_cluster s) = (Inr (Some [], False), sn_cluster s)"
    using assms
    by (simp add: gcepd_DescribeSnapshot_def gce_DescribeSnapshot_def getSnapshotByName_def gce_unknown_status
        split: prod.split)
  then show ?thesis
    by (simp add: pollSnapshot_def Plugin.truncate_def gcePersistentDiskPlugin_def)
qed

text \<open>
  An operation's error carries no reasons, so the checks for the reasons of an operation's error
  never hold: \<open>CreateDisk\<close> fails on a disk that exists, it does not reuse it.
\<close>

lemma operation_error_has_no_reason: "\<not> isGCEError (getErrorFromOp op) reason"
  by (auto simp: isGCEError_def getErrorFromOp_def split: option.split list.split)

lemma CreateDisk_reports_existing:
  assumes "zone \<in> set (gc_managedZones gce)" "encodeDiskTags api tags = Inr tagsStr" "diskType \<in> {DiskTypeSSD, DiskTypeStandard, ''''}"
    and "\<And>spec. ga_InsertDisk api zone spec c = (Inr (Some op), c')" "gop_Status op = ''DONE''"
    and "gop_Errors op = message # messages"
  shows "gce_CreateDisk api gce name diskType zone sizeGb tags c =
     (Some (GoogleAPIErr (gop_HttpErrorStatusCode op) [] message), c')"
  using assms
  by (auto simp: gce_CreateDisk_def list_ex_iff waitForZoneOp_def waitForOp_def opIsDone_def getErrorFromOp_def
      isGCEError_def)

text \<open>Which disks of a list are attached.\<close>

lemma falseForAll_lookup:
  "fmlookup (falseForAll diskNames attached) d = (if d \<in> set diskNames then Some False else fmlookup attached d)"
  by (induction diskNames arbitrary: attached) auto

lemma markAttached_lookup:
  "fmlookup (markAttached dev diskNames attached) d = (if d = dev \<and> d \<in> set diskNames then Some True else fmlookup attached d)"
  by (induction diskNames arbitrary: attached) auto

lemma markAllAttached_lookup:
  "fmlookup (markAllAttached disks diskNames attached) d =
     (if d \<in> set disks \<and> d \<in> set diskNames then Some True else fmlookup attached d)"
  by (induction disks arbitrary: attached) (auto simp: markAttached_lookup)

text \<open>
  The batch query agrees with the single one: for every disk it is asked about, the answer
  of \<open>DisksAreAttached\<close> is the answer of \<open>DiskIsAttached\<close>, it holds no other disk, and the two
  fail on the same errors (the batch then says of every disk that it is not attached).
\<close>

theorem DisksAreAttached_pointwise:
  "case gce_DisksAreAttached api gce diskNames nodeName c of (attached, err) \<Rightarrow>
     fset (fmdom attached) = set diskNames \<and>
     (\<forall>diskName \<in> set diskNames.
        case gce_DiskIsAttached api gce diskName nodeName c of
          Inr b \<Rightarrow> err = None \<and> fmlookup attached diskName = Some b
        | Inl e \<Rightarrow> err = Some e \<and> fmlookup attached diskName = Some False)"
proof -
  have dom: "fset (fmdom m) = {d. fmlookup m d \<noteq> None}" for m :: "bool gomap"
    by (auto simp: fmlookup_dom_iff)
  show ?thesis
    by (auto simp: gce_DisksAreAttached_def gce_DiskIsAttached_def Let_def dom falseForAll_lookup
        markAllAttached_lookup list_ex_iff split: sum.split if_splits)
qed

section \<open>Witnesses\<close>

definition demo_gce_cloud :: gceCloud where
  "demo_gce_cloud = \<lparr>gc_projectID = ''p'', gc_managedZones = [''us-a'', ''us-b'']\<rparr>"

definition demo_op :: gceOperation where
  "demo_op = \<lparr>gop_Name = ''op'', gop_Status = ''DONE'', gop_HttpErrorStatusCode = 0, gop_Errors = []\<rparr>"

text \<open>A cloud whose disk \<open>d\<close> is in the zone \<open>us-b\<close> and attached to every instance.\<close>

definition demo_gce :: "'c gceAPI" where
  "demo_gce =
     \<lparr>ga_InsertDisk = (\<lambda>_ _ c. (Inr (Some demo_op), c)), ga_DeleteDisk = (\<lambda>_ _ c. (Inr (Some demo_op), c)),
      ga_GetDisk = (\<lambda>zone name _. if zone = ''us-b'' \<and> name = ''d''
                      then Inr \<lparr>gdi_Zone = ''zones/us-b'', gdi_Name = ''d'', gdi_Kind = ''k''\<rparr>
                      else Inl (GoogleAPIErr 404 [] ''not found'')),
      ga_AttachDisk = (\<lambda>_ _ _ c. (Inr (Some demo_op), c)), ga_DetachDisk = (\<lambda>_ _ _ c. (Inr (Some demo_op), c)),
      ga_CreateSnapshot = (\<lambda>_ _ _ _ c. (Inr (Some demo_op), c)),
      ga_GetSnapshot = (\<lambda>name _. Inr (name, ''k'', ''DELETING'')),
      ga_DeleteSnapshot = (\<lambda>_ c. (Inr (Some demo_op), c)),
      ga_GetInstance = (\<lambda>zone name _. Inr \<lparr>gii_Zone = zone, gii_Name = name, gii_ID = 1, gii_Disks = [''d''], gii_MachineType = ''m''\<rparr>),
      ga_ListInstances = (\<lambda>_ _. Inr []), ga_GetZoneOperation = (\<lambda>_ _ c. ((Some demo_op, None), c)),
      ga_GetGlobalOperation = (\<lambda>_ c. ((Some demo_op, None), c)), ga_Poll = (\<lambda>cond c. case cond c of ((_, err), c) \<Rightarrow> (err, c)),
      ga_MarshalTags = (\<lambda>_. Inr ''{}''), ga_Now = (\<lambda>c. (7, c)), ga_UnixNano = (\<lambda>_. 7),
      ga_range = (\<lambda>_ _. [''zone'']), ga_RoundUpSize = (\<lambda>a b. (a + b - 1) div b),
      ga_GenerateVolumeName = (\<lambda>a b _. a @ b), ga_ChooseZoneForVolume = (\<lambda>zones _. hd zones)\<rparr>"

lemma demo_gce_findDisk:
  "findDiskByName demo_gce ''d'' zone c =
     Inr (if zone = ''us-b'' then Some \<lparr>gd_Zone = ''us-b'', gd_Name = ''d'', gd_Kind = ''k''\<rparr> else None)"
  by (simp add: findDiskByName_def demo_gce_def isHTTPErrorCode_def lastComponent_def after_last_def)

theorem disk_by_name_unique_witness:
  "\<exists>disk. getDiskByNameUnknownZone demo_gce demo_gce_cloud ''d'' () = Inr disk"
proof -
  have "filter (hasDisk demo_gce ''d'' ()) (gc_managedZones demo_gce_cloud) = [''us-b'']"
    by (simp add: demo_gce_cloud_def hasDisk_def demo_gce_findDisk)
  then show ?thesis
    using disk_by_name_unique [of demo_gce_cloud demo_gce "''d''" "()"] by (auto simp: demo_gce_findDisk)
qed

definition demo_gce_data :: VolumeSnapshotData where
  "demo_gce_data =
     newSnapshotData ''d'' ''ns/s-1'' ''pv1'' (emptySource\<lparr>src_GCEPersistentDiskSnapshot := Some ''s''\<rparr>) demo_ready"

lemma demo_gce_data_source: "src_GCEPersistentDiskSnapshot (spec_Source (vsd_Spec demo_gce_data)) = Some ''s''"
  by (simp add: demo_gce_data_def newSnapshotData_def emptySource_def)

theorem restored_disk_is_deletable_witness:
  "\<exists>src labels. gcepd_SnapshotRestore demo_gce demo_gce_cloud demo_gce_data
       (Some \<lparr>rc_Name = ''c'', rc_Request = 5, rc_Selector = False\<rparr>) ''d'' (fmupd ''zone'' ''us-b'' fmempty) () =
       (Inr (src, Some labels), ()) \<and>
     gcepd_VolumeDelete demo_gce demo_gce_cloud (with_source src zero_PV) () = (Inr (), ())"
proof -
  let ?src = "SrcGCE \<lparr>gce_PDName = ''d'', gce_FSType = ''ext4'', gce_Partition = 0, gce_ReadOnly = False\<rparr>"
  let ?labels = "fmupd LabelZoneRegion ''us'' (fmupd LabelZoneFailureDomain ''us-b'' fmempty)"
  have "CreateDiskFromSnapshot demo_gce demo_gce_cloud s ''d'' '''' ''us-b'' n tags () = (None, ())" for s n tags
    by (simp add: CreateDiskFromSnapshot_def demo_gce_cloud_def encodeDiskTags_def waitForZoneOp_def waitForOp_def
        opIsDone_def getErrorFromOp_def isGCEError_def demo_gce_def demo_op_def)
  moreover have "GetAutoLabelsForPD demo_gce demo_gce_cloud ''d'' ''us-b'' () = Inr ?labels"
    by (simp add: GetAutoLabelsForPD_def getDiskByName_def demo_gce_findDisk GetGCERegion_def before_last_def)
  moreover have "ga_range demo_gce m () = [''zone'']" for m by (simp add: demo_gce_def)
  ultimately have restore: "gcepd_SnapshotRestore demo_gce demo_gce_cloud demo_gce_data
       (Some \<lparr>rc_Name = ''c'', rc_Request = 5, rc_Selector = False\<rparr>) ''d'' (fmupd ''zone'' ''us-b'' fmempty) () =
       (Inr (?src, Some ?labels), ())"
    by (simp add: gcepd_SnapshotRestore_def demo_gce_data_source gcepd_param_def ToLower_def ascii_lower_def Let_def)
  have zone: "fmlookup ?labels LabelZoneFailureDomain = Some ''us-b''" by simp
  have zones: "'''' \<notin> set (gc_managedZones demo_gce_cloud)" "distinct (gc_managedZones demo_gce_cloud)"
    by (simp_all add: demo_gce_cloud_def)
  have found: "findDiskByName demo_gce ''d'' ''us-b'' () = Inr (Some \<lparr>gd_Zone = ''us-b'', gd_Name = ''d'', gd_Kind = ''k''\<rparr>)"
    by (simp add: demo_gce_findDisk)
  have others: "z \<noteq> ''us-b'' \<Longrightarrow> findDiskByName demo_gce ''d'' z () = Inr None" for z
    by (simp add: demo_gce_findDisk)
  have op: "ga_DeleteDisk demo_gce ''us-b'' ''d'' () = (Inr (Some demo_op), ())" "gop_Status demo_op = ''DONE''" "gop_Errors demo_op = []"
    by (simp_all add: demo_gce_def demo_op_def)
  from restored_disk_is_deletable [OF restore zone zones found others op] restore show ?thesis by blast
qed

theorem gce_unknown_status_panics_witness:
  "pollSnapshot demo_env (Plugin.truncate (gcePersistentDiskPlugin demo_gce demo_gce_cloud)) ''ns/s-1'' demo_snap
     demo_gce_data \<lparr>sn_cluster = \<lparr>dc_snap = demo_snap, dc_data = []\<rparr>, sn_asw = NewActualStateOfWorld\<rparr> = None"
  by (rule gce_unknown_status_panics [OF demo_gce_data_source, where name = "''s''" and kind = "''k''" and status = "''DELETING''"])
    (simp_all add: demo_gce_def)

theorem DisksAreAttached_pointwise_witness:
  "gce_DisksAreAttached demo_gce demo_gce_cloud [''d'', ''e''] ''n'' () = (fmupd ''d'' True (fmupd ''e'' False (fmupd ''d'' False fmempty)), None) \<and>
   gce_DiskIsAttached demo_gce demo_gce_cloud ''d'' ''n'' () = Inr True"
proof -
  have "gce_DisksAreAttached demo_gce demo_gce_cloud [''d'', ''e''] ''n'' () =
      (fmupd ''d'' True (fmupd ''e'' False (fmupd ''d'' False fmempty)), None)"
    by (simp add: gce_DisksAreAttached_def getInstanceByName_def demo_gce_cloud_def demo_gce_def Let_def)
  with DisksAreAttached_pointwise [where api = demo_gce and gce = demo_gce_cloud and diskNames = "[''d'', ''e'']" and nodeName = "''n''" and c = "()"] show ?thesis
    by (auto split: sum.splits)
qed

end
