(* ===== verification/AwsCloud.thy ===== *)
theory AwsCloud
  imports SnapPlugins
begin

text \<open>
  \<open>snapshot/pkg/cloudprovider/providers/aws\<close>: the tags of the cluster (\<open>tags.go\<close>), the names of
  volumes (\<open>volumes.go\<close>) and the lookup of instances (\<open>aws.go\<close>). The EC2 client is the record
  \<open>ec2API\<close> over the cloud's state \<open>'c\<close>; the calls that are polled also return a state. The SDK's
  \<open>*string\<close> values are read with \<open>aws.StringValue\<close>, which makes nil the empty string: they are
  strings here, and an \<open>option\<close> where the code itself tests for nil. Resources the SDK returns in a
  list are not nil.
\<close>

datatype awsErr =
    AwsAPIErr string string
  | AwsInstanceNotFound
  | AwsVolumeInUse awsErr
  | AwsWaitTimeout
  | AwsErrorf string "string list"
  | AwsWrapf string "string list" awsErr
  | AwsOtherErr string

definition aws_error :: "awsErr \<Rightarrow> error" where
  "aws_error e =
     (case e of
        AwsErrorf fmt args \<Rightarrow> Errorf fmt args
      | AwsWrapf fmt args _ \<Rightarrow> Errorf fmt args
      | AwsAPIErr code message \<Rightarrow> ExtErr (code @ '': '' @ message)
      | AwsInstanceNotFound \<Rightarrow> ExtErr ''instance not found''
      | AwsVolumeInUse _ \<Rightarrow> ExtErr ''volume in use''
      | AwsWaitTimeout \<Rightarrow> ExtErr ''timed out waiting for the condition''
      | AwsOtherErr message \<Rightarrow> ExtErr message)"

type_synonym ec2Tag = "string \<times> string"
type_synonym ec2Filter = "string \<times> string list"

record ec2Instance =
  ei_InstanceId :: string
  ei_PrivateDnsName :: string
  ei_Tags :: "ec2Tag list"
  ei_AvailabilityZone :: "string option"
  ei_InstanceType :: string
  ei_VpcId :: string
  ei_SubnetId :: string
  ei_BlockDevices :: "(string \<times> string) list"
  ei_SecurityGroups :: "string list"
  ei_State :: string
  ei_PrivateIpAddress :: string
  ei_PublicIpAddress :: string
  ei_PublicDnsName :: string

record ec2Attachment =
  ea_Device :: string
  ea_InstanceId :: string
  ea_State :: "string option"

record ec2Volume =
  ev_VolumeId :: string
  ev_AvailabilityZone :: string
  ev_Attachments :: "ec2Attachment list"

record CreateVolumeInput =
  cvi_AvailabilityZone :: string
  cvi_Size :: int
  cvi_VolumeType :: string
  cvi_Encrypted :: bool
  cvi_KmsKeyId :: "string option"
  cvi_Iops :: "int option"
  cvi_SnapshotId :: "string option"

record ec2Snapshot =
  es_SnapshotId :: string
  es_State :: "string option"
  es_StateMessage :: string

type_synonym 's aws_condition = "'s \<Rightarrow> (bool \<times> awsErr option) \<times> 's"
type_synonym 's aws_backoff = "nat \<Rightarrow> 's aws_condition \<Rightarrow> 's \<Rightarrow> awsErr option \<times> 's"

record 'c ec2API =
  ec_DescribeInstances :: "string list \<Rightarrow> ec2Filter list \<Rightarrow> 'c \<Rightarrow> awsErr + ec2Instance list"
  ec_AttachVolume :: "string \<Rightarrow> string \<Rightarrow> string \<Rightarrow> 'c \<Rightarrow> awsErr option \<times> 'c"
  ec_DetachVolume :: "string \<Rightarrow> string \<Rightarrow> 'c \<Rightarrow> (awsErr + unit option) \<times> 'c"
  ec_DescribeVolumes :: "string \<Rightarrow> 'c \<Rightarrow> (awsErr + ec2Volume list) \<times> 'c"
  ec_CreateVolume :: "CreateVolumeInput \<Rightarrow> 'c \<Rightarrow> (awsErr + string \<times> string) \<times> 'c"
  ec_DeleteVolume :: "string \<Rightarrow> 'c \<Rightarrow> awsErr option \<times> 'c"
  ec_CreateSnapshot :: "string \<Rightarrow> string \<Rightarrow> 'c \<Rightarrow> (awsErr + (string \<times> string) option) \<times> 'c"
  ec_DeleteSnapshot :: "string \<Rightarrow> 'c \<Rightarrow> awsErr option \<times> 'c"
  ec_DescribeSnapshots :: "string list \<Rightarrow> ec2Filter list \<Rightarrow> 'c \<Rightarrow> awsErr + ec2Snapshot list"
  ec_CreateTags :: "string \<Rightarrow> ec2Tag list \<Rightarrow> 'c \<Rightarrow> awsErr option \<times> 'c"
  ec_BackoffTags :: "('c \<times> awsErr option) aws_backoff"
  ec_BackoffAttach :: "('c \<times> nat \<times> ec2Attachment option) aws_backoff"
  ec_range :: "string gomap \<Rightarrow> 'c \<Rightarrow> string list"
  ec_rangeDevices :: "string gomap \<Rightarrow> 'c \<Rightarrow> string list"
  ec_rangeNodes :: "(string, string list) fmap \<Rightarrow> 'c \<Rightarrow> string list"
  ec_validAuthority :: "string \<Rightarrow> bool"
  ec_ChooseZoneForVolume :: "string fset \<Rightarrow> string \<Rightarrow> string"
  ec_RoundUpSize :: "int \<Rightarrow> int \<Rightarrow> int"
  ec_GenerateVolumeName :: "string \<Rightarrow> string \<Rightarrow> int \<Rightarrow> string"
  ec_Now :: "'c \<Rightarrow> int \<times> 'c"

text \<open>What \<open>wait.ExponentialBackoff\<close> documents, at the errors of this provider.\<close>

fun aws_polls :: "'s aws_backoff" where
  "aws_polls 0 cond s = (Some AwsWaitTimeout, s)"
| "aws_polls (Suc n) cond s =
     (case cond s of ((done, err), s') \<Rightarrow> if err \<noteq> None \<or> done then (err, s') else aws_polls n cond s')"

section \<open>tags.go\<close>

abbreviation TagNameKubernetesClusterPrefix :: string where
  "TagNameKubernetesClusterPrefix \<equiv> ''kubernetes.io/cluster/''"

abbreviation TagNameKubernetesClusterLegacy :: string where
  "TagNameKubernetesClusterLegacy \<equiv> ''KubernetesCluster''"

abbreviation ResourceLifecycleOwned :: string where
  "ResourceLifecycleOwned \<equiv> ''owned''"

record awsTagging =
  at_ClusterID :: string
  at_usesLegacyTags :: bool

definition tagging_init :: "string \<Rightarrow> string \<Rightarrow> awsTagging \<Rightarrow> awsErr option \<times> awsTagging" where
  "tagging_init legacyClusterID clusterID t =
     (if legacyClusterID \<noteq> '''' then
        if clusterID \<noteq> '''' \<and> legacyClusterID \<noteq> clusterID then
          (Some (AwsErrorf ''ClusterID tags did not match: %q vs %q'' [clusterID, legacyClusterID]), t)
        else (None, t\<lparr>at_usesLegacyTags := True, at_ClusterID := legacyClusterID\<rparr>)
      else (None, t\<lparr>at_ClusterID := clusterID\<rparr>))"

fun findClusterIDs_loop :: "ec2Tag list \<Rightarrow> string \<Rightarrow> string \<Rightarrow> awsErr + string \<times> string" where
  "findClusterIDs_loop [] legacyClusterID newClusterID = Inr (legacyClusterID, newClusterID)"
| "findClusterIDs_loop ((tagKey, tagValue) # tags) legacyClusterID newClusterID =
     (let id' = TrimPrefix tagKey TagNameKubernetesClusterPrefix in
      if HasPrefix tagKey TagNameKubernetesClusterPrefix \<and> newClusterID \<noteq> '''' then
        Inl (AwsErrorf ''Found multiple cluster tags with prefix %s (%q and %q)''
               [TagNameKubernetesClusterPrefix, newClusterID, id'])
      else
        let newClusterID = (if HasPrefix tagKey TagNameKubernetesClusterPrefix then id' else newClusterID) in
        if tagKey = TagNameKubernetesClusterLegacy then
          if legacyClusterID \<noteq> '''' then
            Inl (AwsErrorf ''Found multiple %s tags (%q and %q)''
                   [TagNameKubernetesClusterLegacy, legacyClusterID, tagValue])
          else findClusterIDs_loop tags tagValue newClusterID
        else findClusterIDs_loop tags legacyClusterID newClusterID)"

definition findClusterIDs :: "ec2Tag list \<Rightarrow> awsErr + string \<times> string" where
  "findClusterIDs tags = findClusterIDs_loop tags '''' ''''"

definition initFromTags :: "ec2Tag list \<Rightarrow> awsTagging \<Rightarrow> awsErr option \<times> awsTagging" where
  "initFromTags tags t =
     (case findClusterIDs tags of
        Inl err \<Rightarrow> (Some err, t)
      | Inr (legacyClusterID, newClusterID) \<Rightarrow> tagging_init legacyClusterID newClusterID t)"

definition clusterTagKey :: "awsTagging \<Rightarrow> string" where
  "clusterTagKey t = TagNameKubernetesClusterPrefix @ at_ClusterID t"

fun hasClusterTag_loop :: "awsTagging \<Rightarrow> ec2Tag list \<Rightarrow> bool" where
  "hasClusterTag_loop t [] = False"
| "hasClusterTag_loop t ((tagKey, tagValue) # tags) =
     (if tagKey = TagNameKubernetesClusterLegacy then tagValue = at_ClusterID t
      else if tagKey = clusterTagKey t then True
      else hasClusterTag_loop t tags)"

definition hasClusterTag :: "awsTagging \<Rightarrow> ec2Tag list \<Rightarrow> bool" where
  "hasClusterTag t tags = (if length (at_ClusterID t) = 0 then True else hasClusterTag_loop t tags)"

text \<open>The copy of the additional tags is a map of its own, so it is the map itself here.\<close>

definition buildTags :: "awsTagging \<Rightarrow> string \<Rightarrow> string gomap \<Rightarrow> string gomap" where
  "buildTags t lifecycle additionalTags =
     (let tags = additionalTags in
      if length (at_ClusterID t) = 0 then tags
      else
        let tags = (if at_usesLegacyTags t then fmupd TagNameKubernetesClusterLegacy (at_ClusterID t) tags else tags)
        in fmupd (clusterTagKey t) lifecycle tags)"

abbreviation createTagSteps :: nat where
  "createTagSteps \<equiv> 9"

definition createTags ::
  "'c ec2API \<Rightarrow> awsTagging \<Rightarrow> string \<Rightarrow> string \<Rightarrow> string gomap \<Rightarrow> 'c \<Rightarrow> awsErr option \<times> 'c" where
  "createTags api t resourceID lifecycle additionalTags c =
     (let tags = buildTags t lifecycle additionalTags in
      if map_len tags = 0 then (None, c)
      else
        let awsTags = map (\<lambda>k. (k, case fmlookup tags k of Some v \<Rightarrow> v | None \<Rightarrow> '''')) (ec_range api tags c);
            (err, (c, lastErr)) = ec_BackoffTags api createTagSteps
              (\<lambda>(c, lastErr).
                 case ec_CreateTags api resourceID awsTags c of
                   (None, c) \<Rightarrow> ((True, None), (c, lastErr))
                 | (Some err, c) \<Rightarrow> ((False, None), (c, Some err))) (c, None)
        in (if err = Some AwsWaitTimeout then lastErr else err, c))"

definition expectedTag ::
  "string gomap \<Rightarrow> string \<Rightarrow> string \<Rightarrow> string \<Rightarrow> string gomap \<Rightarrow> awsErr + string gomap" where
  "expectedTag actualTagMap resourceID k expected addTags =
     (let actual = (case fmlookup actualTagMap k of Some v \<Rightarrow> v | None \<Rightarrow> '''') in
      if actual = expected then Inr addTags
      else if actual = '''' then Inr (fmupd k expected addTags)
      else Inl (AwsErrorf ''resource %q has tag belonging to another cluster: %q=%q (expected %q)''
                  [resourceID, k, actual, expected]))"

text \<open>The tags found missing are only collected: what is written is all the expected tags.\<close>

definition readRepairClusterTags ::
  "'c ec2API \<Rightarrow> awsTagging \<Rightarrow> string \<Rightarrow> string \<Rightarrow> string gomap \<Rightarrow> ec2Tag list \<Rightarrow> 'c \<Rightarrow> awsErr option \<times> 'c" where
  "readRepairClusterTags api t resourceID lifecycle additionalTags observedTags c =
     (let actualTagMap = foldl (\<lambda>m (k, v). fmupd k v m) fmempty observedTags;
          expectedTags = buildTags t lifecycle additionalTags
      in (case range_loop (expectedTag actualTagMap resourceID) (ec_range api expectedTags c) expectedTags fmempty of
            Inl err \<Rightarrow> (Some err, c)
          | Inr addTags \<Rightarrow>
              (case createTags api t resourceID lifecycle additionalTags c of
                 (Some err, c) \<Rightarrow> (Some (AwsWrapf ''error adding missing tags to resource %q: %v'' [resourceID] err), c)
               | (None, c) \<Rightarrow> (None, c))))"

definition addFilters :: "awsTagging \<Rightarrow> ec2Filter list \<Rightarrow> ec2Filter list" where
  "addFilters t filters =
     (if length (at_ClusterID t) = 0 then (if length filters = 0 then [] else filters)
      else filters @ [(''tag-key'', [TagNameKubernetesClusterLegacy, clusterTagKey t])])"

section \<open>volumes.go\<close>

definition ishex :: "char \<Rightarrow> bool" where
  "ishex c \<longleftrightarrow> c \<in> set ''0123456789abcdefABCDEF''"

definition unhex :: "char \<Rightarrow> nat" where
  "unhex c =
     (let n = of_char c :: nat in
      if n < 58 then n - 48 else if n < 71 then n - 55 else n - 87)"

text \<open>\<open>net/url\<close>'s \<open>unescape\<close> in the modes of paths and fragments.\<close>

fun url_unescape :: "string \<Rightarrow> string option" where
  "url_unescape [] = Some []"
| "url_unescape (c # s) =
     (if c \<noteq> CHR ''%'' then map_option ((#) c) (url_unescape s)
      else
        (case s of
           a # b # r \<Rightarrow>
             if ishex a \<and> ishex b then map_option ((#) (char_of (16 * unhex a + unhex b))) (url_unescape r) else None
         | _ \<Rightarrow> None))"

text \<open>
  The path of \<open>url.Parse\<close> on a string with the prefix \<open>aws://\<close>: the fragment and the query are
  cut off, the authority ends at the first slash. Which authorities are accepted is a parameter.
\<close>

definition url_Path :: "(string \<Rightarrow> bool) \<Rightarrow> string \<Rightarrow> string option" where
  "url_Path validAuthority s =
     (let u = takeWhile (\<lambda>c. c \<noteq> CHR ''#'') s; frag = drop 1 (dropWhile (\<lambda>c. c \<noteq> CHR ''#'') s);
          rest = takeWhile (\<lambda>c. c \<noteq> CHR ''?'') (drop (length ''aws://'') u);
          authority = takeWhile (\<lambda>c. c \<noteq> CHR ''/'') rest
      in if \<not> validAuthority authority then None
         else
           (case url_unescape (dropWhile (\<lambda>c. c \<noteq> CHR ''/'') rest) of
              None \<Rightarrow> None
            | Some path \<Rightarrow> if frag \<noteq> '''' \<and> url_unescape frag = None then None else Some path))"

definition mapToAWSVolumeID :: "'c ec2API \<Rightarrow> string \<Rightarrow> awsErr + string" where
  "mapToAWSVolumeID api name =
     (let s = (if \<not> HasPrefix name ''aws://'' then ''aws:///'' @ name else name)
      in (case url_Path (ec_validAuthority api) s of
            None \<Rightarrow> Inl (AwsErrorf ''Invalid disk name (%s): %v'' [name])
          | Some path \<Rightarrow>
              let awsID = trim_char (CHR ''/'') path
              in if CHR ''/'' \<in> set awsID \<or> \<not> HasPrefix awsID ''vol-'' then
                   Inl (AwsErrorf ''Invalid format for AWS volume (%s)'' [name])
                 else Inr awsID))"

section \<open>Instances\<close>

record awsInstance =
  ai_awsID :: string
  ai_nodeName :: string
  ai_availabilityZone :: string
  ai_vpcID :: string
  ai_subnetID :: string
  ai_instanceType :: string

text \<open>What the cloud object keeps, apart from the state of the attachments.\<close>

record awsCloud =
  ac_tagging :: awsTagging
  ac_selfAWSInstance :: awsInstance

definition mapInstanceToNodeName :: "ec2Instance \<Rightarrow> string" where
  "mapInstanceToNodeName i = ei_PrivateDnsName i"

definition newAWSInstance :: "ec2Instance \<Rightarrow> awsInstance" where
  "newAWSInstance i =
     \<lparr>ai_awsID = ei_InstanceId i, ai_nodeName = mapInstanceToNodeName i,
      ai_availabilityZone = (case ei_AvailabilityZone i of Some az \<Rightarrow> az | None \<Rightarrow> ''''),
      ai_vpcID = ei_VpcId i, ai_subnetID = ei_SubnetId i, ai_instanceType = ei_InstanceType i\<rparr>"

definition describeInstance :: "'c ec2API \<Rightarrow> awsInstance \<Rightarrow> 'c \<Rightarrow> awsErr + ec2Instance" where
  "describeInstance api i c =
     (case ec_DescribeInstances api [ai_awsID i] [] c of
        Inl err \<Rightarrow> Inl err
      | Inr [] \<Rightarrow> Inl (AwsErrorf ''no instances found for instance: %s'' [ai_awsID i])
      | Inr [inst] \<Rightarrow> Inr inst
      | Inr _ \<Rightarrow> Inl (AwsErrorf ''multiple instances found for instance: %s'' [ai_awsID i]))"

definition describeInstances :: "'c ec2API \<Rightarrow> awsCloud \<Rightarrow> ec2Filter list \<Rightarrow> 'c \<Rightarrow> awsErr + ec2Instance list" where
  "describeInstances api cloud filters c =
     (case ec_DescribeInstances api [] (addFilters (ac_tagging cloud) filters) c of
        Inl err \<Rightarrow> Inl err
      | Inr response \<Rightarrow> Inr (filter (\<lambda>i. hasClusterTag (ac_tagging cloud) (ei_Tags i)) response))"

definition getInstancesByIDs :: "'c ec2API \<Rightarrow> string list \<Rightarrow> 'c \<Rightarrow> awsErr + ec2Instance gomap" where
  "getInstancesByIDs api instanceIDs c =
     (if length instanceIDs = 0 then Inr fmempty
      else
        (case ec_DescribeInstances api instanceIDs [] c of
           Inl err \<Rightarrow> Inl err
         | Inr instances \<Rightarrow>
             Inr (foldl (\<lambda>m i. if ei_InstanceId i = '''' then m else fmupd (ei_InstanceId i) i m) fmempty instances)))"

text \<open>The answer may be nil: when the only instance returned has another identifier.\<close>

definition getInstanceByID :: "'c ec2API \<Rightarrow> string \<Rightarrow> 'c \<Rightarrow> awsErr + ec2Instance option" where
  "getInstanceByID api instanceID c =
     (case getInstancesByIDs api [instanceID] c of
        Inl err \<Rightarrow> Inl err
      | Inr instances \<Rightarrow>
          if map_len instances = 0 then Inl AwsInstanceNotFound
          else if map_len instances > 1 then
            Inl (AwsErrorf ''multiple instances found for instance: %s'' [instanceID])
          else Inr (fmlookup instances instanceID))"

definition getInstancesByNodeNames :: "'c ec2API \<Rightarrow> awsCloud \<Rightarrow> string list \<Rightarrow> 'c \<Rightarrow> awsErr + ec2Instance list" where
  "getInstancesByNodeNames api cloud nodeNames c =
     (case describeInstances api cloud [(''private-dns-name'', nodeNames), (''instance-state-name'', [''running''])] c of
        Inl err \<Rightarrow> Inl err
      | Inr instances \<Rightarrow> if length instances = 0 then Inr [] else Inr instances)"

definition findInstanceByNodeName :: "'c ec2API \<Rightarrow> awsCloud \<Rightarrow> string \<Rightarrow> 'c \<Rightarrow> awsErr + ec2Instance option" where
  "findInstanceByNodeName api cloud nodeName c =
     (case describeInstances api cloud [(''private-dns-name'', [nodeName]), (''instance-state-name'', [''running''])] c of
        Inl err \<Rightarrow> Inl err
      | Inr [] \<Rightarrow> Inr None
      | Inr [inst] \<Rightarrow> Inr (Some inst)
      | Inr _ \<Rightarrow> Inl (AwsErrorf ''multiple instances found for name: %s'' [nodeName]))"

definition getInstanceByNodeName :: "'c ec2API \<Rightarrow> awsCloud \<Rightarrow> string \<Rightarrow> 'c \<Rightarrow> awsErr + ec2Instance" where
  "getInstanceByNodeName api cloud nodeName c =
     (case findInstanceByNodeName api cloud nodeName c of
        Inr None \<Rightarrow> Inl AwsInstanceNotFound
      | Inr (Some inst) \<Rightarrow> Inr inst
      | Inl err \<Rightarrow> Inl err)"

definition getFullInstance :: "'c ec2API \<Rightarrow> awsCloud \<Rightarrow> string \<Rightarrow> 'c \<Rightarrow> awsErr + awsInstance \<times> ec2Instance option" where
  "getFullInstance api cloud nodeName c =
     (if nodeName = '''' then
        (case getInstanceByID api (ai_awsID (ac_selfAWSInstance cloud)) c of
           Inl err \<Rightarrow> Inl err
         | Inr inst \<Rightarrow> Inr (ac_selfAWSInstance cloud, inst))
      else
        (case getInstanceByNodeName api cloud nodeName c of
           Inl err \<Rightarrow> Inl err
         | Inr inst \<Rightarrow> Inr (newAWSInstance inst, Some inst)))"

text \<open>The zones of the instances that are not masters.\<close>

definition awsTagNameMasterRoles :: "string set" where
  "awsTagNameMasterRoles = {''kubernetes.io/role/master'', ''k8s.io/role/master''}"

fun nodeZones :: "ec2Instance list \<Rightarrow> string fset \<Rightarrow> string fset" where
  "nodeZones [] zones = zones"
| "nodeZones (i # is) zones =
     (if list_ex (\<lambda>(tagKey, _). tagKey \<in> awsTagNameMasterRoles) (ei_Tags i) then nodeZones is zones
      else
        (case ei_AvailabilityZone i of
           None \<Rightarrow> nodeZones is zones
         | Some zone \<Rightarrow> nodeZones is (finsert zone zones)))"

definition getCandidateZonesForDynamicVolume :: "'c ec2API \<Rightarrow> awsCloud \<Rightarrow> 'c \<Rightarrow> awsErr + string fset" where
  "getCandidateZonesForDynamicVolume api cloud c =
     (case describeInstances api cloud [(''instance-state-name'', [''running''])] c of
        Inl err \<Rightarrow> Inl err
      | Inr instances \<Rightarrow>
          if length instances = 0 then Inl (AwsErrorf ''no instances returned'' [])
          else Inr (nodeZones instances {||}))"

definition azToRegion :: "string \<Rightarrow> awsErr + string" where
  "azToRegion az =
     (if length az < 1 then Inl (AwsErrorf ''invalid (empty) AZ'' []) else Inr (take (length az - 1) az))"

end
