(* ===== verification/AwsDisks.thy ===== *)
theory AwsDisks
  imports AwsCloud
begin

text \<open>
  The volumes of \<open>aws.go\<close> and \<open>device_allocator.go\<close>. The two maps the mutex \<open>attachingMutex\<close>
  guards, the attachments in progress and the allocators of device names, are fields of the state
  \<open>awsState\<close>, both by node; \<open>getMountDevice\<close> and \<open>endAttaching\<close> are the critical sections, so an
  interleaving of concurrent requests is a sequence of these two steps.
\<close>

section \<open>The device allocator\<close>

record deviceAllocator =
  da_possibleDevices :: "string list"
  da_lastIndex :: nat

definition NewDeviceAllocator :: "nat \<Rightarrow> deviceAllocator" where
  "NewDeviceAllocator lastIndex =
     \<lparr>da_possibleDevices = concat (map (\<lambda>firstChar. map (\<lambda>i. [firstChar, char_of i]) [97..<123]) ''bc''),
      da_lastIndex = lastIndex\<rparr>"

definition nextDevice :: "deviceAllocator \<Rightarrow> nat \<Rightarrow> string \<times> nat" where
  "nextDevice d nextIndex =
     (if nextIndex < length (da_possibleDevices d) then (da_possibleDevices d ! nextIndex, nextIndex)
      else (da_possibleDevices d ! 0, 0))"

text \<open>The loop has no bound of its own: it ends at a free device or when it is back at the last one.\<close>

partial_function (option) GetNext_loop ::
  "deviceAllocator \<Rightarrow> string gomap \<Rightarrow> nat \<Rightarrow> ((awsErr + string) \<times> deviceAllocator) option" where
  "GetNext_loop d existingDevices foundIndex =
     (let (candidate, foundIndex) = nextDevice d (foundIndex + 1) in
      if fmlookup existingDevices candidate = None then Some (Inr candidate, d\<lparr>da_lastIndex := foundIndex\<rparr>)
      else if foundIndex = da_lastIndex d then Some (Inl (AwsErrorf ''no devices are available'' []), d)
      else GetNext_loop d existingDevices foundIndex)"

definition GetNext :: "deviceAllocator \<Rightarrow> string gomap \<Rightarrow> ((awsErr + string) \<times> deviceAllocator) option" where
  "GetNext d existingDevices = GetNext_loop d existingDevices (da_lastIndex d)"

section \<open>Assigning devices\<close>

record 'c awsState =
  aw_ec2 :: 'c
  aw_attaching :: "(string, string gomap) fmap"
  aw_deviceAllocators :: "(string, deviceAllocator) fmap"

definition attachingOn :: "string \<Rightarrow> 'c awsState \<Rightarrow> string gomap" where
  "attachingOn nodeName s = (case fmlookup (aw_attaching s) nodeName of Some m \<Rightarrow> m | None \<Rightarrow> fmempty)"

text \<open>The significant part of a device name; a name the code finds unexpected is used all the same.\<close>

definition deviceSuffix :: "string \<Rightarrow> string" where
  "deviceSuffix name =
     (let name = (if HasPrefix name ''/dev/sd'' then drop 7 name else name)
      in if HasPrefix name ''/dev/xvd'' then drop 8 name else name)"

definition deviceMappings :: "(string \<times> string) list \<Rightarrow> string gomap" where
  "deviceMappings blockDevices = foldl (\<lambda>m (name, volumeID). fmupd (deviceSuffix name) volumeID m) fmempty blockDevices"

text \<open>
  The check of the instance type is left out: \<open>getInstanceType\<close> never returns nil. The result of
  the allocator is \<open>None\<close> only if its loop did not end.
\<close>

definition getMountDevice ::
  "'c ec2API \<Rightarrow> awsInstance \<Rightarrow> ec2Instance \<Rightarrow> string \<Rightarrow> bool \<Rightarrow> 'c awsState \<Rightarrow>
     ((awsErr + string \<times> bool) \<times> 'c awsState) option" where
  "getMountDevice api i info volumeID assign s =
     (let mappings = fmadd (deviceMappings (ei_BlockDevices info)) (attachingOn (ai_nodeName i) s) in
      case List.find (\<lambda>dev. fmlookup mappings dev = Some volumeID) (ec_rangeDevices api mappings (aw_ec2 s)) of
        Some dev \<Rightarrow> Some (Inr (dev, True), s)
      | None \<Rightarrow>
          if \<not> assign then Some (Inr ('''', False), s)
          else
            let allocator = (case fmlookup (aw_deviceAllocators s) (ai_nodeName i) of
                               Some a \<Rightarrow> a | None \<Rightarrow> NewDeviceAllocator 0)
            in (case GetNext allocator mappings of
                  None \<Rightarrow> None
                | Some (Inl err, allocator) \<Rightarrow>
                    Some (Inl (AwsErrorf ''Too many EBS volumes attached to node %s'' [ai_nodeName i]),
                          s\<lparr>aw_deviceAllocators := fmupd (ai_nodeName i) allocator (aw_deviceAllocators s)\<rparr>)
                | Some (Inr chosen, allocator) \<Rightarrow>
                    Some (Inr (chosen, False),
                          s\<lparr>aw_deviceAllocators := fmupd (ai_nodeName i) allocator (aw_deviceAllocators s),
                            aw_attaching := fmupd (ai_nodeName i) (fmupd chosen volumeID (attachingOn (ai_nodeName i) s))
                                              (aw_attaching s)\<rparr>)))"

definition endAttaching :: "awsInstance \<Rightarrow> string \<Rightarrow> string \<Rightarrow> 'c awsState \<Rightarrow> bool \<times> 'c awsState" where
  "endAttaching i volumeID mountDevice s =
     (case fmlookup (attachingOn (ai_nodeName i) s) mountDevice of
        None \<Rightarrow> (False, s)
      | Some existingVolumeID \<Rightarrow>
          if volumeID \<noteq> existingVolumeID then (False, s)
          else (True, s\<lparr>aw_attaching := fmupd (ai_nodeName i) (fmdrop mountDevice (attachingOn (ai_nodeName i) s))
                                          (aw_attaching s)\<rparr>))"

section \<open>Attaching and detaching\<close>

definition describeVolume :: "'c ec2API \<Rightarrow> string \<Rightarrow> 'c \<Rightarrow> (awsErr + ec2Volume) \<times> 'c" where
  "describeVolume api volumeID c =
     (case ec_DescribeVolumes api volumeID c of
        (Inl err, c) \<Rightarrow> (Inl (AwsWrapf ''error querying ec2 for volume %q: %v'' [volumeID] err), c)
      | (Inr [], c) \<Rightarrow> (Inl (AwsErrorf ''no volumes found for volume %q'' [volumeID]), c)
      | (Inr [volume], c) \<Rightarrow> (Inr volume, c)
      | (Inr _, c) \<Rightarrow> (Inl (AwsErrorf ''multiple volumes found for volume %q'' [volumeID]), c))"

abbreviation volumeAttachmentStatusSteps :: nat where
  "volumeAttachmentStatusSteps \<equiv> 21"

abbreviation volumeAttachmentStatusConsecutiveErrorLimit :: nat where
  "volumeAttachmentStatusConsecutiveErrorLimit \<equiv> 10"

text \<open>The last attachment with a state; \<open>attachment\<close> keeps its value when there is none.\<close>

fun lastAttachment :: "ec2Attachment list \<Rightarrow> ec2Attachment option \<times> string \<Rightarrow> ec2Attachment option \<times> string" where
  "lastAttachment [] found = found"
| "lastAttachment (a # as) (attachment, attachmentStatus) =
     (case ea_State a of
        Some state \<Rightarrow> lastAttachment as (Some a, state)
      | None \<Rightarrow> lastAttachment as (attachment, attachmentStatus))"

definition attachmentCondition ::
  "'c ec2API \<Rightarrow> string \<Rightarrow> string \<Rightarrow> ('c \<times> nat \<times> ec2Attachment option) aws_condition" where
  "attachmentCondition api volumeID status = (\<lambda>(c, describeErrorCount, attachment).
     case describeVolume api volumeID c of
       (Inl err, c) \<Rightarrow>
         let describeErrorCount = describeErrorCount + 1
         in ((False, if describeErrorCount > volumeAttachmentStatusConsecutiveErrorLimit then Some err else None),
             (c, describeErrorCount, attachment))
     | (Inr info, c) \<Rightarrow>
         let (attachment, attachmentStatus) = lastAttachment (ev_Attachments info) (attachment, '''');
             attachmentStatus = (if attachmentStatus = '''' then ''detached'' else attachmentStatus)
         in ((attachmentStatus = status, None), (c, 0, attachment)))"

definition waitForAttachmentStatus ::
  "'c ec2API \<Rightarrow> string \<Rightarrow> string \<Rightarrow> 'c \<Rightarrow> (ec2Attachment option \<times> awsErr option) \<times> 'c" where
  "waitForAttachmentStatus api volumeID status c =
     (case ec_BackoffAttach api volumeAttachmentStatusSteps (attachmentCondition api volumeID status) (c, 0, None) of
        (err, (c, _, attachment)) \<Rightarrow> ((attachment, err), c))"

definition deleteVolume :: "'c ec2API \<Rightarrow> string \<Rightarrow> 'c \<Rightarrow> (bool \<times> awsErr option) \<times> 'c" where
  "deleteVolume api volumeID c =
     (case ec_DeleteVolume api volumeID c of
        (None, c) \<Rightarrow> ((True, None), c)
      | (Some err, c) \<Rightarrow>
          ((False,
            case err of
              AwsAPIErr code message \<Rightarrow>
                if code = ''InvalidVolume.NotFound'' then None
                else if code = ''VolumeInUse'' then Some (AwsVolumeInUse err)
                else Some (AwsWrapf ''error deleting EBS volume %q: %v'' [volumeID] err)
            | _ \<Rightarrow> Some (AwsWrapf ''error deleting EBS volume %q: %v'' [volumeID] err)), c))"

text \<open>
  \<open>AttachDisk\<close> after a device was assigned: the result, and whether the attachment has ended (the
  variable \<open>attachEnded\<close> that the deferred call of \<open>endAttaching\<close> reads).
\<close>

definition requestAttachment ::
  "'c ec2API \<Rightarrow> string \<Rightarrow> string \<Rightarrow> awsInstance \<Rightarrow> string \<Rightarrow> string \<Rightarrow> bool \<Rightarrow> 'c \<Rightarrow> ((awsErr + string) \<times> bool) \<times> 'c" where
  "requestAttachment api diskName nodeName i awsID mountDeviceName alreadyAttached c =
     (let hostDevice = ''/dev/xvd'' @ mountDeviceName; ec2Device = ''/dev/xvd'' @ mountDeviceName in
      case (if alreadyAttached then (None, c) else ec_AttachVolume api ec2Device (ai_awsID i) awsID c) of
        (Some attachErr, c) \<Rightarrow>
          ((Inl (AwsWrapf ''Error attaching EBS volume %q to instance %q: %v'' [awsID, ai_awsID i] attachErr), True), c)
      | (None, c) \<Rightarrow>
          (case waitForAttachmentStatus api awsID ''attached'' c of
             ((_, Some err), c) \<Rightarrow> ((Inl err, False), c)
           | ((None, None), c) \<Rightarrow>
               ((Inl (AwsErrorf ''unexpected state: attachment nil after attached %q to %q'' [diskName, nodeName]), True), c)
           | ((Some attachment, None), c) \<Rightarrow>
               if ec2Device \<noteq> ea_Device attachment then
                 ((Inl (AwsErrorf ''disk attachment of %q to %q failed: requested device %q but found %q''
                          [diskName, nodeName, ec2Device, ea_Device attachment]), True), c)
               else if ai_awsID i \<noteq> ea_InstanceId attachment then
                 ((Inl (AwsErrorf ''disk attachment of %q to %q failed: requested instance %q but found %q''
                          [diskName, nodeName, ai_awsID i, ea_InstanceId attachment]), True), c)
               else ((Inr hostDevice, True), c)))"

text \<open>\<open>None\<close> is a panic, or the allocator's loop not ending.\<close>

definition aws_AttachDisk ::
  "'c ec2API \<Rightarrow> awsCloud \<Rightarrow> string \<Rightarrow> string \<Rightarrow> bool \<Rightarrow> 'c awsState \<Rightarrow> ((awsErr + string) \<times> 'c awsState) option" where
  "aws_AttachDisk api cloud diskName nodeName readOnly s =
     (case mapToAWSVolumeID api diskName of
        Inl err \<Rightarrow> Some (Inl err, s)
      | Inr awsID \<Rightarrow>
     (case getFullInstance api cloud nodeName (aw_ec2 s) of
        Inl err \<Rightarrow> Some (Inl (AwsWrapf ''error finding instance %s: %v'' [nodeName] err), s)
      | Inr (i, info) \<Rightarrow>
          if readOnly then Some (Inl (AwsErrorf ''AWS volumes cannot be mounted read-only'' []), s)
          else
     (case info of
        None \<Rightarrow> None
      | Some info \<Rightarrow>
     (case getMountDevice api i info awsID True s of
        None \<Rightarrow> None
      | Some (Inl err, s) \<Rightarrow> Some (Inl err, s)
      | Some (Inr (mountDeviceName, alreadyAttached), s) \<Rightarrow>
          (case requestAttachment api diskName nodeName i awsID mountDeviceName alreadyAttached (aw_ec2 s) of
             ((r, attachEnded), c) \<Rightarrow>
               let s = s\<lparr>aw_ec2 := c\<rparr>
               in Some (r, if attachEnded then snd (endAttaching i awsID mountDeviceName s) else s))))))"

definition aws_DetachDisk ::
  "'c ec2API \<Rightarrow> awsCloud \<Rightarrow> string \<Rightarrow> string \<Rightarrow> 'c awsState \<Rightarrow> ((awsErr + string) \<times> 'c awsState) option" where
  "aws_DetachDisk api cloud diskName nodeName s =
     (case mapToAWSVolumeID api diskName of
        Inl err \<Rightarrow> Some (Inl err, s)
      | Inr awsID \<Rightarrow>
     (case getFullInstance api cloud nodeName (aw_ec2 s) of
        Inl err \<Rightarrow> if err = AwsInstanceNotFound then Some (Inr '''', s) else Some (Inl err, s)
      | Inr (i, None) \<Rightarrow> None
      | Inr (i, Some info) \<Rightarrow>
     (case getMountDevice api i info awsID False s of
        None \<Rightarrow> None
      | Some (Inl err, s) \<Rightarrow> Some (Inl err, s)
      | Some (Inr (mountDeviceName, alreadyAttached), s) \<Rightarrow>
     (case ec_DetachVolume api (ai_awsID i) awsID (aw_ec2 s) of
        (Inl err, c) \<Rightarrow>
          Some (Inl (AwsWrapf ''error detaching EBS volume %q from %q: %v'' [awsID, ai_awsID i] err), s\<lparr>aw_ec2 := c\<rparr>)
      | (Inr None, c) \<Rightarrow> Some (Inl (AwsErrorf ''no response from DetachVolume'' []), s\<lparr>aw_ec2 := c\<rparr>)
      | (Inr (Some _), c) \<Rightarrow>
     (case waitForAttachmentStatus api awsID ''detached'' c of
        ((_, Some err), c) \<Rightarrow> Some (Inl err, s\<lparr>aw_ec2 := c\<rparr>)
      | ((_, None), c) \<Rightarrow>
          let s = s\<lparr>aw_ec2 := c\<rparr>;
              s = (if mountDeviceName \<noteq> '''' then snd (endAttaching i awsID mountDeviceName s) else s)
          in Some (Inr (''/dev/xvd'' @ mountDeviceName), s))))))"

section \<open>The allocator finds a free device\<close>

definition valid_allocator :: "deviceAllocator \<Rightarrow> bool" where
  "valid_allocator d \<longleftrightarrow> da_lastIndex d < length (da_possibleDevices d)"

lemma NewDeviceAllocator_valid: "valid_allocator (NewDeviceAllocator 0)"
  by (simp add: valid_allocator_def NewDeviceAllocator_def)

lemma nextDevice_Suc:
  "j < length (da_possibleDevices d) \<Longrightarrow>
     nextDevice d (j + 1) = (da_possibleDevices d ! (Suc j mod length (da_possibleDevices d)), Suc j mod length (da_possibleDevices d))"
proof (cases "Suc j < length (da_possibleDevices d)")
  case False
  moreover assume "j < length (da_possibleDevices d)"
  ultimately have "Suc j = length (da_possibleDevices d)" by simp
  then have "Suc j mod length (da_possibleDevices d) = 0" by (metis mod_self)
  with False show ?thesis by (simp add: nextDevice_def)
qed (simp add: nextDevice_def)

text \<open>What \<open>GetNext\<close> promises, as a relation of its result to the devices in use.\<close>

definition next_free :: "deviceAllocator \<Rightarrow> string gomap \<Rightarrow> (awsErr + string) \<times> deviceAllocator \<Rightarrow> bool" where
  "next_free d existing result \<longleftrightarrow>
     (case result of
        (Inr dev, d') \<Rightarrow>
          fmlookup existing dev = None \<and> da_possibleDevices d' = da_possibleDevices d \<and>
          valid_allocator d' \<and> dev = da_possibleDevices d' ! da_lastIndex d'
      | (Inl err, d') \<Rightarrow> d' = d \<and> (\<forall>dev \<in> set (da_possibleDevices d). fmlookup existing dev \<noteq> None))"

lemma ring_covered:
  assumes "(l::nat) < n" "p < n"
  obtains i where "0 < i" "i \<le> n" "(l + i) mod n = p"
proof (cases "l < p")
  case True
  with assms have "(l + (p - l)) mod n = p" by simp
  with True assms show ?thesis by (intro that [of "p - l"]) auto
next
  case False
  with assms have "l + (p + n - l) = p + n" by simp
  with assms False have "(l + (p + n - l)) mod n = p" by simp
  with False assms show ?thesis by (intro that [of "p + n - l"]) auto
qed

lemma ring_not_back:
  assumes "(l::nat) < n" "m < n" "0 < m"
  shows "(l + m) mod n \<noteq> l"
proof (cases "l + m < n")
  case False
  then have "(l + m) mod n = l + m - n" using assms by (simp add: mod_if)
  with False assms show ?thesis by simp
qed (use assms in simp)

lemma GetNext_loop_spec:
  assumes "valid_allocator d" and "k < length (da_possibleDevices d)"
    and "\<And>i. 0 < i \<Longrightarrow> i \<le> k \<Longrightarrow>
           fmlookup existing (da_possibleDevices d ! ((da_lastIndex d + i) mod length (da_possibleDevices d))) \<noteq> None"
  shows "\<exists>result. GetNext_loop d existing ((da_lastIndex d + k) mod length (da_possibleDevices d)) = Some result \<and>
                  next_free d existing result"
  using assms(2,3)
proof (induction "length (da_possibleDevices d) - k" arbitrary: k rule: less_induct)
  case less
  let ?n = "length (da_possibleDevices d)" and ?l = "da_lastIndex d"
  let ?j = "(?l + k) mod ?n" and ?j' = "(?l + Suc k) mod ?n"
  from assms(1) have l: "?l < ?n" by (simp add: valid_allocator_def)
  then have "0 < ?n" by linarith
  then have n: "?j < ?n" "?j' < ?n" by (rule mod_less_divisor)+
  then have nd: "nextDevice d (?j + 1) = (da_possibleDevices d ! ?j', ?j')"
    using nextDevice_Suc [OF n(1)] by (simp add: mod_Suc_eq)
  show ?case
  proof (cases "fmlookup existing (da_possibleDevices d ! ?j') = None")
    case True
    then show ?thesis
      by (subst GetNext_loop.simps) (use n nd in \<open>simp add: next_free_def valid_allocator_def\<close>)
  next
    case taken: False
    have upto: "fmlookup existing (da_possibleDevices d ! ((?l + i) mod ?n)) \<noteq> None" if "0 < i" "i \<le> Suc k" for i
      using that taken less.prems(2) by (cases "i = Suc k") auto
    show ?thesis
    proof (cases "?j' = ?l")
      case True
      have "Suc k = ?n"
      proof (rule ccontr)
        assume "Suc k \<noteq> ?n"
        with less.prems(1) have "Suc k < ?n" by simp
        with True l ring_not_back [of ?l ?n "Suc k"] show False by simp
      qed
      with upto have "fmlookup existing dev \<noteq> None" if "dev \<in> set (da_possibleDevices d)" for dev
        using that ring_covered [OF l] by (metis in_set_conv_nth)
      then show ?thesis
        by (subst GetNext_loop.simps) (use True taken nd in \<open>auto simp: next_free_def\<close>)
    next
      case False
      have "Suc k < ?n"
      proof (rule ccontr)
        assume "\<not> Suc k < ?n"
        with less.prems(1) have "Suc k = ?n" by simp
        with l False show False by simp
      qed
      with less.hyps [of "Suc k"] upto less.prems(1) show ?thesis
        by (subst GetNext_loop.simps) (use False taken nd in auto)
    qed
  qed
qed

lemma GetNext_spec:
  assumes "valid_allocator d"
  obtains result where "GetNext d existing = Some result" "next_free d existing result"
proof -
  from assms have "0 < length (da_possibleDevices d)" by (auto simp: valid_allocator_def)
  from GetNext_loop_spec [OF assms this, of existing] obtain result where
    "GetNext_loop d existing ((da_lastIndex d + 0) mod length (da_possibleDevices d)) = Some result"
    "next_free d existing result"
    by blast
  moreover have "(da_lastIndex d + 0) mod length (da_possibleDevices d) = da_lastIndex d"
    using assms by (simp add: valid_allocator_def)
  ultimately show ?thesis by (intro that [of result]) (simp_all add: GetNext_def)
qed

text \<open>
  C29. Asking for a device always ends, from any state an allocator can be in: the search along the
  ring stops after one round at most. It returns a device of the allocator's list that is not in
  use and remembers its position, and it fails only when every device of the list is in use, the
  allocator then being unchanged.
\<close>

theorem GetNext_terminates:
  assumes "valid_allocator d"
  shows "\<exists>r d'. GetNext d existing = Some (r, d') \<and>
           (case r of
              Inr dev \<Rightarrow> dev \<in> set (da_possibleDevices d) \<and> fmlookup existing dev = None \<and>
                         valid_allocator d' \<and> dev = da_possibleDevices d' ! da_lastIndex d'
            | Inl err \<Rightarrow> d' = d \<and> set (da_possibleDevices d) \<subseteq> fset (fmdom existing))"
proof -
  from assms obtain r d' where r: "GetNext d existing = Some (r, d')" "next_free d existing (r, d')"
    by (metis GetNext_spec prod.exhaust)
  then show ?thesis
    by (auto simp: next_free_def valid_allocator_def fmlookup_dom_iff split: sum.splits)
qed

theorem GetNext_terminates_witness:
  "\<exists>r d'. GetNext (NewDeviceAllocator 51) (fmupd ''ba'' ''vol-1'' fmempty) = Some (r, d') \<and>
     (case r of Inr dev \<Rightarrow> dev \<noteq> ''ba'' \<and> valid_allocator d' | Inl err \<Rightarrow> False)"
proof -
  have "valid_allocator (NewDeviceAllocator 51)" "''bb'' \<in> set (da_possibleDevices (NewDeviceAllocator 51))"
    by code_simp+
  with GetNext_terminates [of "NewDeviceAllocator 51" "fmupd ''ba'' ''vol-1'' fmempty"] show ?thesis
    by (fastforce split: sum.splits if_splits)
qed

section \<open>Concurrent attachments\<close>

definition one_device_each :: "string gomap \<Rightarrow> bool" where
  "one_device_each m \<longleftrightarrow>
     (\<forall>dev dev' v. fmlookup m dev = Some v \<longrightarrow> fmlookup m dev' = Some v \<longrightarrow> dev = dev')"

lemma one_device_each_empty [simp]: "one_device_each fmempty"
  by (simp add: one_device_each_def)

lemma one_device_each_drop: "one_device_each m \<Longrightarrow> one_device_each (fmdrop dev m)"
  by (auto simp: one_device_each_def split: if_splits)

lemma one_device_each_upd:
  "one_device_each m \<Longrightarrow> (\<And>dev. fmlookup m dev \<noteq> Some v) \<Longrightarrow> one_device_each (fmupd d v m)"
  by (auto simp: one_device_each_def split: if_splits)

text \<open>Go may range over the device map in any order.\<close>

definition honest_ec2 :: "'c ec2API \<Rightarrow> bool" where
  "honest_ec2 api \<longleftrightarrow> (\<forall>m c. enumerates (ec_rangeDevices api m c) m)"

lemma find_device_None:
  assumes "honest_ec2 api" "List.find (\<lambda>dev. fmlookup m dev = Some v) (ec_rangeDevices api m c) = None"
  shows "fmlookup m dev \<noteq> Some v"
proof
  assume "fmlookup m dev = Some v"
  then have "dev |\<in>| fmdom m" by (simp add: fmlookup_dom_iff)
  with assms(1) have "dev \<in> set (ec_rangeDevices api m c)"
    by (metis enumerates_def fset_of_list_elem honest_ec2_def)
  with assms(2) \<open>fmlookup m dev = Some v\<close> show False by (auto simp: find_None_iff)
qed

text \<open>
  The two critical sections and whatever the cloud does meanwhile, as steps. \<open>allocates api s i v dev
  s'\<close> is the case of \<open>getMountDevice\<close> that puts a volume on a new device.
\<close>

definition allocates :: "'c ec2API \<Rightarrow> 'c awsState \<Rightarrow> awsInstance \<Rightarrow> ec2Instance \<Rightarrow> string \<Rightarrow> string \<Rightarrow> 'c awsState \<Rightarrow> bool" where
  "allocates api s i info v dev s' \<longleftrightarrow> getMountDevice api i info v True s = Some (Inr (dev, False), s')"

inductive attach_step :: "'c ec2API \<Rightarrow> 'c awsState \<Rightarrow> 'c awsState \<Rightarrow> bool" for api where
  mount: "getMountDevice api i info v assign s = Some (r, s') \<Longrightarrow> attach_step api s s'"
| finish: "endAttaching i v dev s = (b, s') \<Longrightarrow> attach_step api s s'"
| cloud: "attach_step api s (s\<lparr>aw_ec2 := c\<rparr>)"

definition attach_inv :: "'c awsState \<Rightarrow> bool" where
  "attach_inv s \<longleftrightarrow>
     (\<forall>nodeName. one_device_each (attachingOn nodeName s)) \<and>
     (\<forall>nodeName d. fmlookup (aw_deviceAllocators s) nodeName = Some d \<longrightarrow>
        valid_allocator d \<and> da_possibleDevices d = da_possibleDevices (NewDeviceAllocator 0))"

definition NewAwsState :: "'c \<Rightarrow> 'c awsState" where
  "NewAwsState c = \<lparr>aw_ec2 = c, aw_attaching = fmempty, aw_deviceAllocators = fmempty\<rparr>"

lemma attachingOn_upd [simp]:
  "attachingOn n (s\<lparr>aw_attaching := fmupd n' m (aw_attaching s)\<rparr>) = (if n = n' then m else attachingOn n s)"
  "attachingOn n (s\<lparr>aw_deviceAllocators := ds\<rparr>) = attachingOn n s"
  "attachingOn n (s\<lparr>aw_ec2 := c\<rparr>) = attachingOn n s"
  "attachingOn n (s\<lparr>aw_deviceAllocators := ds, aw_attaching := fmupd n' m (aw_attaching s)\<rparr>) =
     (if n = n' then m else attachingOn n s)"
  by (simp_all add: attachingOn_def)

lemma initially_attach_inv: "attach_inv (NewAwsState c)"
  by (simp add: attach_inv_def NewAwsState_def attachingOn_def)

text \<open>The two ways \<open>getMountDevice\<close> can end with a device.\<close>

lemma getMountDevice_cases:
  assumes "getMountDevice api i info v assign s = Some (r, s')" "attach_inv s" "honest_ec2 api"
  obtains (unchanged) "s' = s" "assign \<Longrightarrow> \<exists>dev. r = Inr (dev, True)"
  | (full) d e where "r = Inl e" "valid_allocator d" "da_possibleDevices d = da_possibleDevices (NewDeviceAllocator 0)"
      "s' = s\<lparr>aw_deviceAllocators := fmupd (ai_nodeName i) d (aw_deviceAllocators s)\<rparr>"
  | (allocated) d dev where "r = Inr (dev, False)" "valid_allocator d"
      "da_possibleDevices d = da_possibleDevices (NewDeviceAllocator 0)" "dev \<in> set (da_possibleDevices d)"
      "fmlookup (fmadd (deviceMappings (ei_BlockDevices info)) (attachingOn (ai_nodeName i) s)) dev = None"
      "\<And>dev'. fmlookup (fmadd (deviceMappings (ei_BlockDevices info)) (attachingOn (ai_nodeName i) s)) dev' \<noteq> Some v"
      "s' = s\<lparr>aw_deviceAllocators := fmupd (ai_nodeName i) d (aw_deviceAllocators s),
             aw_attaching := fmupd (ai_nodeName i) (fmupd dev v (attachingOn (ai_nodeName i) s)) (aw_attaching s)\<rparr>"
proof -
  let ?m = "fmadd (deviceMappings (ei_BlockDevices info)) (attachingOn (ai_nodeName i) s)"
  let ?d = "case fmlookup (aw_deviceAllocators s) (ai_nodeName i) of Some a \<Rightarrow> a | None \<Rightarrow> NewDeviceAllocator 0"
  show ?thesis
  proof (cases "List.find (\<lambda>dev. fmlookup ?m dev = Some v) (ec_rangeDevices api ?m (aw_ec2 s))")
    case (Some dev)
    with assms(1) show ?thesis by (intro unchanged) (auto simp: getMountDevice_def Let_def)
  next
    case None
    note new = find_device_None [OF assms(3) None]
    show ?thesis
    proof (cases assign)
      case False
      with None assms(1) show ?thesis by (intro unchanged) (auto simp: getMountDevice_def Let_def)
    next
      case True
      have d: "valid_allocator ?d" "da_possibleDevices ?d = da_possibleDevices (NewDeviceAllocator 0)"
        using assms(2) by (auto simp: attach_inv_def NewDeviceAllocator_valid split: option.split)
      then obtain res d' where res: "GetNext ?d ?m = Some (res, d')" "next_free ?d ?m (res, d')"
        by (metis GetNext_spec prod.exhaust)
      show ?thesis
      proof (cases res)
        case (Inl e)
        with None True res d assms(1) show ?thesis
          by (intro full [of _ d']) (auto simp: getMountDevice_def Let_def next_free_def)
      next
        case (Inr dev)
        with res d have dev: "fmlookup ?m dev = None" "valid_allocator d'" "dev \<in> set (da_possibleDevices d')"
          "da_possibleDevices d' = da_possibleDevices (NewDeviceAllocator 0)"
          by (auto simp: next_free_def valid_allocator_def)
        from None True res(1) assms(1) Inr
        have "r = Inr (dev, False)" "s' = s\<lparr>aw_deviceAllocators := fmupd (ai_nodeName i) d' (aw_deviceAllocators s),
             aw_attaching := fmupd (ai_nodeName i) (fmupd dev v (attachingOn (ai_nodeName i) s)) (aw_attaching s)\<rparr>"
          by (auto simp: getMountDevice_def Let_def)
        with dev new show ?thesis by (intro allocated [of dev d']) auto
      qed
    qed
  qed
qed

lemma attach_inv_step:
  assumes "attach_step api s s'" "attach_inv s" "honest_ec2 api"
  shows "attach_inv s'"
  using assms(1)
proof cases
  case (mount i info v assign r)
  from mount assms(2,3) show ?thesis
  proof (cases rule: getMountDevice_cases)
    case unchanged
    with assms(2) show ?thesis by simp
  next
    case (full d e)
    with assms(2) show ?thesis by (auto simp: attach_inv_def)
  next
    case (allocated d dev)
    have "fmlookup (attachingOn (ai_nodeName i) s) x \<noteq> Some v" for x
      using allocated(6) [of x] by (auto simp: fmlookup_dom_iff)
    then have "one_device_each (fmupd dev v (attachingOn (ai_nodeName i) s))"
      using assms(2) by (intro one_device_each_upd) (auto simp: attach_inv_def)
    with allocated assms(2) show ?thesis by (auto simp: attach_inv_def)
  qed
next
  case (finish i v dev b)
  with assms(2) show ?thesis
    by (auto simp: endAttaching_def attach_inv_def one_device_each_drop split: option.splits if_splits)
next
  case (cloud c)
  with assms(2) show ?thesis by (simp add: attach_inv_def)
qed

lemma attach_inv_reachable:
  assumes "(attach_step api)\<^sup>*\<^sup>* s s'" "attach_inv s" "honest_ec2 api"
  shows "attach_inv s'"
  using assms by (induction rule: rtranclp_induct) (auto intro: attach_inv_step)

lemma getMountDevice_total:
  assumes "attach_inv s"
  shows "getMountDevice api i info v assign s \<noteq> None"
proof -
  let ?d = "case fmlookup (aw_deviceAllocators s) (ai_nodeName i) of Some a \<Rightarrow> a | None \<Rightarrow> NewDeviceAllocator 0"
  let ?m = "fmadd (deviceMappings (ei_BlockDevices info)) (attachingOn (ai_nodeName i) s)"
  have "valid_allocator ?d"
    using assms by (auto simp: attach_inv_def NewDeviceAllocator_valid split: option.split)
  then obtain res d' where "GetNext ?d ?m = Some (res, d')"
    by (metis GetNext_spec prod.exhaust)
  then show ?thesis
    by (cases res) (simp_all add: getMountDevice_def Let_def del: fmlookup_add split: option.split)
qed

text \<open>A request to attach or detach is a sequence of these steps.\<close>

lemma mount_then_steps:
  assumes "getMountDevice api i info awsID assign s = Some (r1, s1)"
    and "s' = s1 \<or> (\<exists>c dev. s' = s1\<lparr>aw_ec2 := c\<rparr> \<or> s' = snd (endAttaching i awsID dev (s1\<lparr>aw_ec2 := c\<rparr>)))"
  shows "(attach_step api)\<^sup>*\<^sup>* s s'"
proof -
  have end_step: "attach_step api t (snd (endAttaching i awsID dev t))" for t dev
    by (metis attach_step.finish prod.collapse)
  from attach_step.mount [OF assms(1)] have "(attach_step api)\<^sup>*\<^sup>* s s1" by simp
  moreover have "(attach_step api)\<^sup>*\<^sup>* s1 s'"
    using assms(2) attach_step.cloud [of api s1] end_step
    by (metis (no_types, lifting) converse_rtranclp_into_rtranclp r_into_rtranclp rtranclp.rtrancl_refl)
  ultimately show ?thesis by simp
qed

lemma aws_AttachDisk_steps:
  assumes "aws_AttachDisk api cloud diskName nodeName readOnly s = Some (r, s')"
  shows "(attach_step api)\<^sup>*\<^sup>* s s'"
proof (cases "s' = s")
  case False
  with assms obtain awsID i info r1 s1 where
    "getMountDevice api i info awsID True s = Some (r1, s1)"
    "s' = s1 \<or> (\<exists>c dev. s' = s1\<lparr>aw_ec2 := c\<rparr> \<or> s' = snd (endAttaching i awsID dev (s1\<lparr>aw_ec2 := c\<rparr>)))"
    by (auto simp: aws_AttachDisk_def Let_def split: sum.splits option.splits if_splits prod.splits) blast+
  then show ?thesis by (rule mount_then_steps)
qed simp

lemma aws_DetachDisk_steps:
  assumes "aws_DetachDisk api cloud diskName nodeName s = Some (r, s')"
  shows "(attach_step api)\<^sup>*\<^sup>* s s'"
proof (cases "s' = s")
  case False
  with assms obtain awsID i info r1 s1 where
    "getMountDevice api i info awsID False s = Some (r1, s1)"
    "s' = s1 \<or> (\<exists>c dev. s' = s1\<lparr>aw_ec2 := c\<rparr> \<or> s' = snd (endAttaching i awsID dev (s1\<lparr>aw_ec2 := c\<rparr>)))"
    by (auto simp: aws_DetachDisk_def Let_def split: sum.splits option.splits if_splits prod.splits) blast+
  then show ?thesis by (rule mount_then_steps)
qed simp


section \<open>Witnesses\<close>

definition demo_ec2 :: "'c ec2API" where
  "demo_ec2 =
     \<lparr>ec_DescribeInstances = (\<lambda>_ _ _. Inr [\<lparr>ei_InstanceId = ''i-1'', ei_PrivateDnsName = ''n'', ei_Tags = [],
        ei_AvailabilityZone = Some ''us-a'', ei_InstanceType = ''m'', ei_VpcId = ''vpc'', ei_SubnetId = ''sn'', ei_BlockDevices = [], ei_SecurityGroups = [],
      ei_State = ''running'', ei_PrivateIpAddress = '''', ei_PublicIpAddress = '''', ei_PublicDnsName = ''''\<rparr>]),
      ec_AttachVolume = (\<lambda>_ _ _ c. (None, c)), ec_DetachVolume = (\<lambda>_ _ c. (Inr (Some ()), c)),
      ec_DescribeVolumes = (\<lambda>v c. (Inr [\<lparr>ev_VolumeId = v, ev_AvailabilityZone = ''us-a'', ev_Attachments = []\<rparr>], c)),
      ec_CreateVolume = (\<lambda>_ c. (Inr (''vol-1'', ''us-a''), c)), ec_DeleteVolume = (\<lambda>_ c. (None, c)),
      ec_CreateSnapshot = (\<lambda>_ _ c. (Inr (Some (''snap-1'', ''pending'')), c)), ec_DeleteSnapshot = (\<lambda>_ c. (None, c)),
      ec_DescribeSnapshots = (\<lambda>_ _ _. Inr []), ec_CreateTags = (\<lambda>_ _ c. (None, c)),
      ec_BackoffTags = aws_polls, ec_BackoffAttach = aws_polls,
      ec_range = (\<lambda>m _. sorted_keys m), ec_rangeDevices = (\<lambda>m _. sorted_keys m),
      ec_rangeNodes = (\<lambda>m _. sorted_keys m), ec_validAuthority = (\<lambda>s. list_all (\<lambda>c. c \<noteq> CHR '' '') s),
      ec_ChooseZoneForVolume = (\<lambda>_ _. ''us-a''), ec_RoundUpSize = (\<lambda>a b. (a + b - 1) div b),
      ec_GenerateVolumeName = (\<lambda>a b _. a @ b), ec_Now = (\<lambda>c. (7, c))\<rparr>"

lemma demo_ec2_honest: "honest_ec2 demo_ec2"
  by (simp add: honest_ec2_def demo_ec2_def sorted_keys_legal)

definition demo_instance :: ec2Instance where
  "demo_instance =
     \<lparr>ei_InstanceId = ''i-1'', ei_PrivateDnsName = ''n'', ei_Tags = [], ei_AvailabilityZone = Some ''us-a'',
      ei_InstanceType = ''m'', ei_VpcId = ''vpc'', ei_SubnetId = ''sn'', ei_BlockDevices = [(''/dev/xvdbb'', ''vol-9'')], ei_SecurityGroups = [],
      ei_State = ''running'', ei_PrivateIpAddress = '''', ei_PublicIpAddress = '''', ei_PublicDnsName = ''''\<rparr>"


end
