(* ===== verification/AwsVolumes.thy ===== *)
theory AwsVolumes
  imports AwsDisks
begin

text \<open>
  Creating and deleting the volumes and snapshots of \<open>aws.go\<close>, the queries on them, and the plugin
  \<open>snapshot/pkg/volume/awsebs/processor.go\<close> on top of them.
\<close>

section \<open>Volumes\<close>

record awsVolumeOptions =
  avo_CapacityGB :: int
  avo_Tags :: "string gomap"
  avo_PVCName :: string
  avo_VolumeType :: string
  avo_AvailabilityZone :: string
  avo_IOPSPerGB :: int
  avo_Encrypted :: bool
  avo_KmsKeyID :: string
  avo_SnapshotID :: string

abbreviation MinTotalIOPS :: int where
  "MinTotalIOPS \<equiv> 100"

abbreviation MaxTotalIOPS :: int where
  "MaxTotalIOPS \<equiv> 20000"

text \<open>The product of two Go \<open>int\<close>s wraps at 64 bits.\<close>

definition mul_int64 :: "int \<Rightarrow> int \<Rightarrow> int" where
  "mul_int64 a b = sint (word_of_int a * word_of_int b :: 64 word)"

definition volumeTypeAndIops :: "awsVolumeOptions \<Rightarrow> awsErr + string \<times> int" where
  "volumeTypeAndIops opts =
     (if avo_VolumeType opts \<in> {''gp2'', ''sc1'', ''st1''} then Inr (avo_VolumeType opts, 0)
      else if avo_VolumeType opts = ''io1'' then
        let iops = mul_int64 (avo_CapacityGB opts) (avo_IOPSPerGB opts);
            iops = (if iops < MinTotalIOPS then MinTotalIOPS else iops);
            iops = (if iops > MaxTotalIOPS then MaxTotalIOPS else iops)
        in Inr (avo_VolumeType opts, iops)
      else if avo_VolumeType opts = '''' then Inr (''gp2'', 0)
      else Inl (AwsErrorf ''invalid AWS VolumeType %q'' [avo_VolumeType opts]))"

definition aws_DeleteDisk :: "'c ec2API \<Rightarrow> string \<Rightarrow> 'c \<Rightarrow> (bool \<times> awsErr option) \<times> 'c" where
  "aws_DeleteDisk api volumeName c =
     (case mapToAWSVolumeID api volumeName of
        Inl err \<Rightarrow> ((False, Some err), c)
      | Inr awsID \<Rightarrow> deleteVolume api awsID c)"

definition aws_CreateDisk :: "'c ec2API \<Rightarrow> awsCloud \<Rightarrow> awsVolumeOptions \<Rightarrow> 'c \<Rightarrow> (awsErr + string) \<times> 'c" where
  "aws_CreateDisk api cloud opts c =
     (case getCandidateZonesForDynamicVolume api cloud c of
        Inl err \<Rightarrow> (Inl (AwsWrapf ''error querying for all zones: %v'' [] err), c)
      | Inr allZones \<Rightarrow>
          let createAZ = (if avo_AvailabilityZone opts = '''' then ec_ChooseZoneForVolume api allZones (avo_PVCName opts)
                          else avo_AvailabilityZone opts)
          in
     (case volumeTypeAndIops opts of
        Inl err \<Rightarrow> (Inl err, c)
      | Inr (createType, iops) \<Rightarrow>
          let request =
                \<lparr>cvi_AvailabilityZone = createAZ, cvi_Size = avo_CapacityGB opts, cvi_VolumeType = createType,
                 cvi_Encrypted = (if length (avo_KmsKeyID opts) > 0 then True else avo_Encrypted opts),
                 cvi_KmsKeyId = (if length (avo_KmsKeyID opts) > 0 then Some (avo_KmsKeyID opts) else None),
                 cvi_Iops = (if iops > 0 then Some iops else None),
                 cvi_SnapshotId = (if length (avo_SnapshotID opts) > 0 then Some (avo_SnapshotID opts) else None)\<rparr>
          in
     (case ec_CreateVolume api request c of
        (Inl err, c) \<Rightarrow> (Inl err, c)
      | (Inr (awsID, az), c) \<Rightarrow>
          if awsID = '''' then (Inl (AwsErrorf ''VolumeID was not returned by CreateVolume'' []), c)
          else
            let volumeName = ''aws://'' @ az @ ''/'' @ awsID in
            (case createTags api (ac_tagging cloud) awsID ResourceLifecycleOwned (avo_Tags opts) c of
               (None, c) \<Rightarrow> (Inr volumeName, c)
             | (Some err, c) \<Rightarrow>
                 (case aws_DeleteDisk api volumeName c of
                    ((_, Some delerr), c) \<Rightarrow>
                      (Inl (AwsWrapf ''error tagging volume %s, could not delete the volume: %v'' [volumeName] delerr), c)
                  | ((_, None), c) \<Rightarrow> (Inl (AwsWrapf ''error tagging volume %s: %v'' [volumeName] err), c))))))"

definition GetVolumeLabels :: "'c ec2API \<Rightarrow> string \<Rightarrow> 'c \<Rightarrow> (awsErr + string gomap) \<times> 'c" where
  "GetVolumeLabels api volumeName c =
     (case mapToAWSVolumeID api volumeName of
        Inl err \<Rightarrow> (Inl err, c)
      | Inr awsID \<Rightarrow>
          (case describeVolume api awsID c of
             (Inl err, c) \<Rightarrow> (Inl err, c)
           | (Inr info, c) \<Rightarrow>
               let az = ev_AvailabilityZone info in
               if az = '''' then (Inl (AwsErrorf ''volume did not have AZ information: %q'' [ev_VolumeId info]), c)
               else
                 (case azToRegion az of
                    Inl err \<Rightarrow> (Inl err, c)
                  | Inr region \<Rightarrow>
                      (Inr (fmupd ''failure-domain.beta.kubernetes.io/region'' region
                             (fmupd ''failure-domain.beta.kubernetes.io/zone'' az fmempty)), c))))"

definition aws_GetDiskPath :: "'c ec2API \<Rightarrow> string \<Rightarrow> 'c \<Rightarrow> (awsErr + string) \<times> 'c" where
  "aws_GetDiskPath api volumeName c =
     (case mapToAWSVolumeID api volumeName of
        Inl err \<Rightarrow> (Inl err, c)
      | Inr awsID \<Rightarrow>
          (case describeVolume api awsID c of
             (Inl err, c) \<Rightarrow> (Inl err, c)
           | (Inr info, c) \<Rightarrow>
               (case ev_Attachments info of
                  [] \<Rightarrow> (Inl (AwsErrorf ''No attachment to volume %s'' [volumeName]), c)
                | a # _ \<Rightarrow> (Inr (ea_Device a), c))))"

text \<open>\<open>None\<close> is the dereference of a nil instance.\<close>

definition aws_DiskIsAttached :: "'c ec2API \<Rightarrow> awsCloud \<Rightarrow> string \<Rightarrow> string \<Rightarrow> 'c \<Rightarrow> (awsErr + bool) option" where
  "aws_DiskIsAttached api cloud diskName nodeName c =
     (case getFullInstance api cloud nodeName c of
        Inl err \<Rightarrow> if err = AwsInstanceNotFound then Some (Inr False) else Some (Inl err)
      | Inr (_, inst) \<Rightarrow>
          (case mapToAWSVolumeID api diskName of
             Inl err \<Rightarrow> Some (Inl (AwsWrapf ''error mapping volume spec %q to aws id: %v'' [diskName] err))
           | Inr diskID \<Rightarrow>
               (case inst of
                  None \<Rightarrow> None
                | Some i \<Rightarrow> Some (Inr (list_ex (\<lambda>(_, id'). id' = diskID) (ei_BlockDevices i))))))"

definition setNodeDisk ::
  "(string, bool gomap) fmap \<Rightarrow> string \<Rightarrow> string \<Rightarrow> bool \<Rightarrow> (string, bool gomap) fmap" where
  "setNodeDisk nodeDiskMap volumeID nodeName check =
     (let volumeMap = (case fmlookup nodeDiskMap nodeName of Some m \<Rightarrow> m | None \<Rightarrow> fmempty)
      in fmupd nodeName (fmupd volumeID check volumeMap) nodeDiskMap)"

fun idsOfDisks :: "'c ec2API \<Rightarrow> string list \<Rightarrow> string gomap \<Rightarrow> awsErr + string gomap" where
  "idsOfDisks api [] idToDiskName = Inr idToDiskName"
| "idsOfDisks api (diskName # diskNames) idToDiskName =
     (case mapToAWSVolumeID api diskName of
        Inl err \<Rightarrow> Inl (AwsWrapf ''error mapping volume spec %q to aws id: %v'' [diskName] err)
      | Inr volumeID \<Rightarrow> idsOfDisks api diskNames (fmupd volumeID diskName idToDiskName))"

fun nodesAttached ::
  "'c ec2API \<Rightarrow> ec2Instance gomap \<Rightarrow> (string, string list) fmap \<Rightarrow> string list \<Rightarrow> (string, bool gomap) fmap \<Rightarrow>
     awsErr + (string, bool gomap) fmap" where
  "nodesAttached api awsInstanceMap nodeDisks [] attached = Inr attached"
| "nodesAttached api awsInstanceMap nodeDisks (nodeName # nodeNames) attached =
     (let diskNames = (case fmlookup nodeDisks nodeName of Some ds \<Rightarrow> ds | None \<Rightarrow> []) in
      case fmlookup awsInstanceMap nodeName of
        None \<Rightarrow> nodesAttached api awsInstanceMap nodeDisks nodeNames attached
      | Some i \<Rightarrow>
          (case idsOfDisks api diskNames fmempty of
             Inl err \<Rightarrow> Inl err
           | Inr idToDiskName \<Rightarrow>
               nodesAttached api awsInstanceMap nodeDisks nodeNames
                 (foldl (\<lambda>attached (_, volumeID).
                    case fmlookup idToDiskName volumeID of
                      Some diskName \<Rightarrow> setNodeDisk attached diskName nodeName True
                    | None \<Rightarrow> attached) attached (ei_BlockDevices i))))"

definition aws_DisksAreAttached ::
  "'c ec2API \<Rightarrow> awsCloud \<Rightarrow> (string, string list) fmap \<Rightarrow> 'c \<Rightarrow> awsErr + (string, bool gomap) fmap" where
  "aws_DisksAreAttached api cloud nodeDisks c =
     (if fcard (fmdom nodeDisks) = 0 then Inr fmempty
      else
        let nodeNames = ec_rangeNodes api nodeDisks c;
            attached = foldl (\<lambda>attached nodeName.
              foldl (\<lambda>attached diskName. setNodeDisk attached diskName nodeName False) attached
                (case fmlookup nodeDisks nodeName of Some ds \<Rightarrow> ds | None \<Rightarrow> [])) fmempty nodeNames
        in (case getInstancesByNodeNames api cloud nodeNames c of
              Inl err \<Rightarrow> Inl err
            | Inr awsInstances \<Rightarrow>
                if length awsInstances = 0 then Inr attached
                else
                  let awsInstanceMap = foldl (\<lambda>m i. fmupd (mapInstanceToNodeName i) i m) fmempty awsInstances
                  in nodesAttached api awsInstanceMap nodeDisks nodeNames attached))"

section \<open>Snapshots\<close>

definition aws_DeleteSnapshot :: "'c ec2API \<Rightarrow> string \<Rightarrow> 'c \<Rightarrow> (bool \<times> awsErr option) \<times> 'c" where
  "aws_DeleteSnapshot api snapshotID c =
     (case ec_DeleteSnapshot api snapshotID c of
        (Some err, c) \<Rightarrow> ((False, Some err), c)
      | (None, c) \<Rightarrow> ((True, None), c))"

definition aws_CreateSnapshot ::
  "'c ec2API \<Rightarrow> awsCloud \<Rightarrow> string \<Rightarrow> string gomap option \<Rightarrow> 'c \<Rightarrow> (awsErr + string \<times> string) \<times> 'c" where
  "aws_CreateSnapshot api cloud volumeID tags c =
     (case ec_CreateSnapshot api volumeID (''Created by Kubernetes for volume '' @ volumeID) c of
        (Inl err, c) \<Rightarrow> (Inl err, c)
      | (Inr None, c) \<Rightarrow> (Inl (AwsErrorf ''nil CreateSnapshotResponse'' []), c)
      | (Inr (Some (snapshotID, state)), c) \<Rightarrow>
          (case tags of
             None \<Rightarrow> (Inr (snapshotID, state), c)
           | Some ts \<Rightarrow>
               (case createTags api (ac_tagging cloud) snapshotID ResourceLifecycleOwned ts c of
                  (None, c) \<Rightarrow> (Inr (snapshotID, state), c)
                | (Some err, c) \<Rightarrow>
                    (case aws_DeleteSnapshot api snapshotID c of
                       ((_, Some delerr), c) \<Rightarrow>
                         (Inl (AwsWrapf ''error tagging snapshot %s, could not delete the snapshot: %v'' [snapshotID] delerr), c)
                     | ((_, None), c) \<Rightarrow> (Inl (AwsWrapf ''error tagging snapshot %s: %v'' [snapshotID] err), c)))))"

definition aws_DescribeSnapshot :: "'c ec2API \<Rightarrow> string \<Rightarrow> 'c \<Rightarrow> awsErr + string \<times> bool" where
  "aws_DescribeSnapshot api snapshotID c =
     (case ec_DescribeSnapshots api [snapshotID] [] c of
        Inl err \<Rightarrow> Inl err
      | Inr [snapshot] \<Rightarrow>
          (case es_State snapshot of
             None \<Rightarrow> Inl (AwsErrorf ''missing state from DescribeSnapshots: %#v'' [])
           | Some state \<Rightarrow>
               if state = ''completed'' then Inr (state, True)
               else if state = ''error'' then Inl (AwsErrorf ''snapshot state is error: %s'' [es_StateMessage snapshot])
               else if state = ''pending'' then Inr (state, False)
               else Inl (AwsErrorf ''unknown state'' []))
      | Inr _ \<Rightarrow> Inl (AwsErrorf ''wrong result from DescribeSnapshots: %#v'' []))"

text \<open>
  Every filter holds the address of the loop's variable \<open>v\<close>, so when the request is made they all
  have the value the loop visited last. \<open>None\<close> is the dereference of a nil state.
\<close>

definition snapshotFilters :: "string list \<Rightarrow> string gomap \<Rightarrow> ec2Filter list" where
  "snapshotFilters ks tags =
     (let v = (case fmlookup tags (last ks) of Some v \<Rightarrow> v | None \<Rightarrow> '''')
      in map (\<lambda>k. (k, [v])) ks)"

fun idsAndStates :: "ec2Snapshot list \<Rightarrow> string list \<times> string list \<Rightarrow> (string list \<times> string list) option" where
  "idsAndStates [] found = Some found"
| "idsAndStates (snapshot # snapshots) (snapshotIDs, statuses) =
     (case es_State snapshot of
        None \<Rightarrow> None
      | Some status \<Rightarrow> idsAndStates snapshots (snapshotIDs @ [es_SnapshotId snapshot], statuses @ [status]))"

definition aws_FindSnapshot ::
  "'c ec2API \<Rightarrow> string gomap \<Rightarrow> 'c \<Rightarrow> (awsErr + string list \<times> string list) option" where
  "aws_FindSnapshot api tags c =
     (case ec_DescribeSnapshots api [] (snapshotFilters (ec_range api tags c) tags) c of
        Inl err \<Rightarrow> Some (Inl err)
      | Inr snapshots \<Rightarrow> map_option Inr (idsAndStates snapshots ([], [])))"

section \<open>The plugin\<close>

definition convertAWSStatus :: "string \<Rightarrow> int \<Rightarrow> VolumeSnapshotCondition list" where
  "convertAWSStatus status now =
     (if ToLower status = ''completed'' then
        [newCondition ConditionReady ConditionTrue ''Snapshot created successfully and it is ready'' now]
      else if ToLower status = ''pending'' then
        [newCondition ConditionPending ConditionUnknown ''Snapshot is being created'' now]
      else [newCondition ConditionError ConditionTrue ''Snapshot creation failed'' now])"

definition ebs_SnapshotCreate ::
  "'c ec2API \<Rightarrow> awsCloud \<Rightarrow> VolumeSnapshot \<Rightarrow> PersistentVolume \<Rightarrow> string gomap option \<Rightarrow> 'c \<Rightarrow>
     (VolumeSnapshotDataSource option \<times> VolumeSnapshotCondition list option) result \<times> 'c" where
  "ebs_SnapshotCreate api cloud snapshot pv tags c =
     (case pv_AWSElasticBlockStore pv of
        None \<Rightarrow> (Inl (Errorf ''invalid PV spec %v'' []), c)
      | Some ebs \<Rightarrow>
          let volumeID = ebs_VolumeID ebs; volumeID = after_last (CHR ''/'') volumeID
          in (case aws_CreateSnapshot api cloud volumeID tags c of
                (Inl err, c) \<Rightarrow> (Inl (aws_error err), c)
              | (Inr (snapshotID, status), c) \<Rightarrow>
                  let (now, c) = ec_Now api c
                  in (Inr (Some (emptySource\<lparr>src_AWSElasticBlockStore :=
                                   Some \<lparr>ebss_SnapshotID = snapshotID, ebss_FSType = ebs_FSType ebs\<rparr>\<rparr>),
                           Some (convertAWSStatus status now)), c)))"

definition ebs_SnapshotDelete ::
  "'c ec2API \<Rightarrow> VolumeSnapshotDataSource \<Rightarrow> PersistentVolume \<Rightarrow> 'c \<Rightarrow> unit result \<times> 'c" where
  "ebs_SnapshotDelete api src pv c =
     (case src_AWSElasticBlockStore src of
        None \<Rightarrow> (Inl (Errorf ''invalid VolumeSnapshotDataSource: %v'' []), c)
      | Some ebs \<Rightarrow>
          (case aws_DeleteSnapshot api (ebss_SnapshotID ebs) c of
             ((_, err), c) \<Rightarrow> (unit_result (map_option aws_error err), c)))"

definition ebs_DescribeSnapshot ::
  "'c ec2API \<Rightarrow> VolumeSnapshotData \<Rightarrow> 'c \<Rightarrow> (VolumeSnapshotCondition list option \<times> bool) result \<times> 'c" where
  "ebs_DescribeSnapshot api snapshotData c =
     (case src_AWSElasticBlockStore (spec_Source (vsd_Spec snapshotData)) of
        None \<Rightarrow> (Inl (Errorf ''invalid VolumeSnapshotDataSource: %v'' []), c)
      | Some ebs \<Rightarrow>
          (case aws_DescribeSnapshot api (ebss_SnapshotID ebs) c of
             Inl err \<Rightarrow> (Inl (aws_error err), snd (ec_Now api c))
           | Inr (status, isCompleted) \<Rightarrow>
               let (now, c) = ec_Now api c
               in (Inr (Some (convertAWSStatus status now), isCompleted), c)))"

definition ebs_param :: "string \<Rightarrow> string \<Rightarrow> awsVolumeOptions \<Rightarrow> error + awsVolumeOptions" where
  "ebs_param k v opts =
     (if ToLower k = ''type'' then Inr (opts\<lparr>avo_VolumeType := v\<rparr>)
      else if ToLower k = ''zone'' then Inr (opts\<lparr>avo_AvailabilityZone := v\<rparr>)
      else if ToLower k = ''iopspergb'' then
        (case Atoi v of
           None \<Rightarrow> Inl (Errorf ''invalid iopsPerGB value %q, must be integer between 1 and 30: %v'' [v])
         | Some n \<Rightarrow> Inr (opts\<lparr>avo_IOPSPerGB := n\<rparr>))
      else if ToLower k = ''encrypted'' then
        (case ParseBool v of
           None \<Rightarrow> Inl (Errorf ''invalid encrypted boolean value %q, must be true or false: %v'' [v])
         | Some b \<Rightarrow> Inr (opts\<lparr>avo_Encrypted := b\<rparr>))
      else if ToLower k = ''kmskeyid'' then Inr (opts\<lparr>avo_KmsKeyID := v\<rparr>)
      else Inl (Errorf ''invalid option %q'' [k]))"

definition ebs_SnapshotRestore ::
  "'c ec2API \<Rightarrow> awsCloud \<Rightarrow> VolumeSnapshotData \<Rightarrow> restoreClaim option \<Rightarrow> string \<Rightarrow> string gomap \<Rightarrow> 'c \<Rightarrow>
     (PersistentVolumeSource \<times> string gomap option) result \<times> 'c" where
  "ebs_SnapshotRestore api cloud snapshotData pvc pvName parameters c =
     (case src_AWSElasticBlockStore (spec_Source (vsd_Spec snapshotData)) of
        None \<Rightarrow> (Inl (Errorf ''failed to retrieve Snapshot spec'' []), c)
      | Some ebs \<Rightarrow>
     (case pvc of
        None \<Rightarrow> (Inl (Errorf ''nil pvc'' []), c)
      | Some claim \<Rightarrow>
          let snapID = ebss_SnapshotID ebs;
              tags = fmupd ''Name'' (ec_GenerateVolumeName api (''Created from snapshot '' @ snapID @ '' '') pvName 255) fmempty;
              requestGB = ec_RoundUpSize api (rc_Request claim) (1024 * 1024 * 1024);
              volumeOptions =
                \<lparr>avo_CapacityGB = requestGB, avo_Tags = tags, avo_PVCName = rc_Name claim, avo_VolumeType = '''',
                 avo_AvailabilityZone = '''', avo_IOPSPerGB = 0, avo_Encrypted = False, avo_KmsKeyID = '''',
                 avo_SnapshotID = snapID\<rparr>
          in
     (case range_loop ebs_param (ec_range api parameters c) parameters volumeOptions of
        Inl err \<Rightarrow> (Inl err, c)
      | Inr volumeOptions \<Rightarrow>
          if rc_Selector claim then
            (Inl (Errorf ''claim.Spec.Selector is not supported for dynamic provisioning on AWS'' []), c)
          else
     (case aws_CreateDisk api cloud volumeOptions c of
        (Inl err, c) \<Rightarrow> (Inl (aws_error err), c)
      | (Inr volumeID, c) \<Rightarrow>
          (case GetVolumeLabels api volumeID c of
             (labels, c) \<Rightarrow>
               (Inr (SrcEBS \<lparr>ebs_VolumeID = volumeID, ebs_FSType = ebss_FSType ebs, ebs_Partition = 0, ebs_ReadOnly = False\<rparr>,
                     case labels of Inl err \<Rightarrow> None | Inr m \<Rightarrow> Some m), c))))))"

definition ebs_VolumeDelete :: "'c ec2API \<Rightarrow> PersistentVolume \<Rightarrow> 'c \<Rightarrow> unit result \<times> 'c" where
  "ebs_VolumeDelete api pv c =
     (case pv_AWSElasticBlockStore pv of
        None \<Rightarrow> (Inl (Errorf ''invalid EBS PV: %v'' []), c)
      | Some ebs \<Rightarrow>
          (case aws_DeleteDisk api (ebs_VolumeID ebs) c of
             ((_, err), c) \<Rightarrow> (unit_result (map_option aws_error err), c)))"

definition awsEBSPlugin :: "'c ec2API \<Rightarrow> awsCloud \<Rightarrow> 'c volumePlugin" where
  "awsEBSPlugin api cloud =
     \<lparr>pl_SnapshotCreate = ebs_SnapshotCreate api cloud, pl_SnapshotDelete = ebs_SnapshotDelete api,
      pl_DescribeSnapshot = ebs_DescribeSnapshot api, pl_FindSnapshot = noFindSnapshot,
      pl_SnapshotRestore = ebs_SnapshotRestore api cloud, pl_VolumeDelete = ebs_VolumeDelete api\<rparr>"

section \<open>Names of volumes\<close>

definition plain_id :: "string \<Rightarrow> bool" where
  "plain_id s \<longleftrightarrow> list_all (\<lambda>c. c \<notin> {CHR ''#'', CHR ''?'', CHR ''%'', CHR ''/''}) s"

lemma plain_id_free:
  "plain_id s \<Longrightarrow> CHR ''#'' \<notin> set s" "plain_id s \<Longrightarrow> CHR ''?'' \<notin> set s"
  "plain_id s \<Longrightarrow> CHR ''%'' \<notin> set s" "plain_id s \<Longrightarrow> CHR ''/'' \<notin> set s"
  by (auto simp: plain_id_def list_all_iff)

lemma takeWhile_absent: "c \<notin> set s \<Longrightarrow> takeWhile (\<lambda>x. x \<noteq> c) s = s" "c \<notin> set s \<Longrightarrow> dropWhile (\<lambda>x. x \<noteq> c) s = []"
  by (auto simp: takeWhile_eq_all_conv)

lemma url_unescape_plain: "CHR ''%'' \<notin> set s \<Longrightarrow> url_unescape s = Some s"
  by (induction s) auto

lemma url_Path_plain:
  assumes "plain_id az" "plain_id v" "valid az"
  shows "url_Path valid (''aws://'' @ az @ ''/'' @ v) = Some (CHR ''/'' # v)"
proof -
  note free = plain_id_free [OF assms(1)] plain_id_free [OF assms(2)]
  from free have "CHR ''#'' \<notin> set (''aws://'' @ az @ ''/'' @ v)" "CHR ''?'' \<notin> set (az @ ''/'' @ v)" by auto
  note a = takeWhile_absent [OF this(1)] takeWhile_absent [OF this(2)]
  have b: "takeWhile (\<lambda>c. c \<noteq> CHR ''/'') (az @ ''/'' @ v) = az" "dropWhile (\<lambda>c. c \<noteq> CHR ''/'') (az @ ''/'' @ v) = CHR ''/'' # v"
  proof -
    have "\<And>c. c \<in> set az \<Longrightarrow> c \<noteq> CHR ''/''" using free(4) by metis
    then show "takeWhile (\<lambda>c. c \<noteq> CHR ''/'') (az @ ''/'' @ v) = az"
      "dropWhile (\<lambda>c. c \<noteq> CHR ''/'') (az @ ''/'' @ v) = CHR ''/'' # v"
      by (simp_all add: takeWhile_append2 dropWhile_append2)
  qed
  have "drop (length ''aws://'') (''aws://'' @ az @ ''/'' @ v) = az @ ''/'' @ v" by simp
  with a b free assms(3) show ?thesis
    unfolding url_Path_def Let_def by (simp only:) (simp add: url_unescape_plain)
qed

lemma trim_slash_plain:
  assumes "plain_id v" "v \<noteq> []"
  shows "trim_char (CHR ''/'') (CHR ''/'' # v) = v"
proof -
  from plain_id_free(4) [OF assms(1)] assms(2) have "hd v \<noteq> CHR ''/''" "last v \<noteq> CHR ''/''"
    by (metis hd_in_set, metis last_in_set)
  with trim_char_outside [of v "CHR ''/''"] show ?thesis by (simp add: trim_char_def)
qed

lemma mapToAWSVolumeID_name:
  assumes "plain_id az" "plain_id v" "ec_validAuthority api az" "HasPrefix v ''vol-''"
  shows "mapToAWSVolumeID api (''aws://'' @ az @ ''/'' @ v) = Inr v"
proof -
  have "HasPrefix (''aws://'' @ az @ ''/'' @ v) ''aws://''" by (simp add: HasPrefix_def)
  moreover have "v \<noteq> []" using assms(4) by (auto simp: HasPrefix_def)
  ultimately show ?thesis
    using url_Path_plain [where valid = "ec_validAuthority api", OF assms(1-3)] trim_slash_plain [OF assms(2)] plain_id_free(4) [OF assms(2)] assms(4)
    unfolding mapToAWSVolumeID_def Let_def by simp
qed

lemma mapToAWSVolumeID_bare:
  assumes "plain_id v" "ec_validAuthority api ''''" "HasPrefix v ''vol-''"
  shows "mapToAWSVolumeID api v = Inr v"
proof -
  have no: "\<not> HasPrefix v ''aws://''" using assms(3) by (auto simp: HasPrefix_iff)
  have "v \<noteq> []" using assms(3) by (auto simp: HasPrefix_def)
  moreover have "url_Path (ec_validAuthority api) (''aws:///'' @ v) = Some (CHR ''/'' # v)"
    using url_Path_plain [of "''''" v "ec_validAuthority api"] assms by (simp add: plain_id_def)
  ultimately show ?thesis
    using no trim_slash_plain [OF assms(1)] plain_id_free(4) [OF assms(1)] assms(3)
    unfolding mapToAWSVolumeID_def Let_def by simp
qed

text \<open>
  The three forms of a volume's name stand for the same volume: for an identifier that starts
  with \<open>vol-\<close> and a zone, both without the characters that mean something in a URL, the forms
  \<open>aws://zone/id\<close>, \<open>aws:///id\<close> and \<open>id\<close> are all mapped to the identifier. What is accepted always starts
  with \<open>vol-\<close> and has no slash.
\<close>

theorem volume_names_agree:
  assumes "plain_id az" "plain_id v" "HasPrefix v ''vol-''" "ec_validAuthority api az" "ec_validAuthority api ''''"
  shows "mapToAWSVolumeID api (''aws://'' @ az @ ''/'' @ v) = Inr v \<and>
         mapToAWSVolumeID api (''aws:///'' @ v) = Inr v \<and>
         mapToAWSVolumeID api v = Inr v \<and>
         (\<forall>name w. mapToAWSVolumeID api name = Inr w \<longrightarrow> HasPrefix w ''vol-'' \<and> CHR ''/'' \<notin> set w)"
proof -
  have "plain_id ''''" by (simp add: plain_id_def)
  from mapToAWSVolumeID_name [OF this assms(2,5,3)] have "mapToAWSVolumeID api (''aws:///'' @ v) = Inr v" by simp
  moreover have "HasPrefix w ''vol-'' \<and> CHR ''/'' \<notin> set w" if "mapToAWSVolumeID api name = Inr w" for name w
    using that by (auto simp: mapToAWSVolumeID_def Let_def split: option.splits if_splits)
  ultimately show ?thesis
    using mapToAWSVolumeID_name [OF assms(1,2,4,3)] mapToAWSVolumeID_bare [OF assms(2,5,3)] by blast
qed

theorem volume_names_agree_witness:
  "mapToAWSVolumeID (demo_ec2 :: unit ec2API) ''aws://us-a/vol-1'' = Inr ''vol-1'' \<and>
   mapToAWSVolumeID (demo_ec2 :: unit ec2API) ''vol-1'' = Inr ''vol-1''"
proof -
  have "plain_id ''us-a''" "plain_id ''vol-1''" "HasPrefix ''vol-1'' ''vol-''"
    "ec_validAuthority (demo_ec2 :: unit ec2API) ''us-a''" "ec_validAuthority (demo_ec2 :: unit ec2API) ''''"
    by (simp_all add: plain_id_def HasPrefix_def demo_ec2_def)
  from volume_names_agree [OF this] show ?thesis by simp
qed

section \<open>Creating volumes\<close>

lemma volumeTypeAndIops_range:
  "volumeTypeAndIops opts = Inr (ty, iops) \<Longrightarrow>
     ty \<in> {''gp2'', ''sc1'', ''st1'', ''io1''} \<and>
     (if ty = ''io1'' then MinTotalIOPS \<le> iops \<and> iops \<le> MaxTotalIOPS else iops = 0)"
  by (auto simp: volumeTypeAndIops_def Let_def split: if_splits)

lemma aws_CreateDisk_Inr:
  assumes "aws_CreateDisk api cloud opts c = (Inr volumeName, c')"
  obtains req awsID az c1 where "ec_CreateVolume api req c = (Inr (awsID, az), c1)" "awsID \<noteq> ''''"
    "volumeName = ''aws://'' @ az @ ''/'' @ awsID"
    "createTags api (ac_tagging cloud) awsID ResourceLifecycleOwned (avo_Tags opts) c1 = (None, c')"
    "volumeTypeAndIops opts = Inr (cvi_VolumeType req, case cvi_Iops req of Some n \<Rightarrow> n | None \<Rightarrow> 0)"
    "cvi_Size req = avo_CapacityGB opts" "cvi_Iops req \<noteq> Some 0"
    "cvi_KmsKeyId req \<noteq> None \<longrightarrow> cvi_Encrypted req" "avo_Encrypted opts \<longrightarrow> cvi_Encrypted req"
    "avo_SnapshotID opts \<noteq> '''' \<longrightarrow> cvi_SnapshotId req = Some (avo_SnapshotID opts)"
    "avo_AvailabilityZone opts \<noteq> '''' \<longrightarrow> cvi_AvailabilityZone req = avo_AvailabilityZone opts"
proof -
  from assms obtain allZones ty iops where z: "getCandidateZonesForDynamicVolume api cloud c = Inr allZones"
    and t: "volumeTypeAndIops opts = Inr (ty, iops)"
    by (auto simp: aws_CreateDisk_def Let_def split: sum.splits)
  from volumeTypeAndIops_range [OF t] have "0 \<le> iops" by (auto split: if_splits)
  with assms z t show ?thesis
    by (auto simp: aws_CreateDisk_def Let_def split: sum.splits prod.splits if_splits option.splits intro!: that)
qed

text \<open>
  What is asked of EC2 is in bounds: a volume that is created has one of the four known types;
  its IOPS are given exactly for the type \<open>io1\<close> and lie between 100 and 20000 whatever the capacity
  and the IOPS per gigabyte were (also when their 64-bit product overflows); its size and snapshot
  are those asked for, a zone that was asked for is kept, a volume with a key is encrypted; and the
  name returned is made of the zone and the identifier EC2 answered, after its tags were written.
\<close>

theorem CreateDisk_request_in_bounds:
  assumes "aws_CreateDisk api cloud opts c = (Inr volumeName, c')"
  shows "\<exists>req awsID az c1.
           ec_CreateVolume api req c = (Inr (awsID, az), c1) \<and> volumeName = ''aws://'' @ az @ ''/'' @ awsID \<and>
           createTags api (ac_tagging cloud) awsID ResourceLifecycleOwned (avo_Tags opts) c1 = (None, c') \<and>
           cvi_VolumeType req \<in> {''gp2'', ''sc1'', ''st1'', ''io1''} \<and>
           (case cvi_Iops req of
              None \<Rightarrow> cvi_VolumeType req \<noteq> ''io1''
            | Some n \<Rightarrow> cvi_VolumeType req = ''io1'' \<and> 100 \<le> n \<and> n \<le> 20000) \<and>
           cvi_Size req = avo_CapacityGB opts \<and>
           (avo_SnapshotID opts \<noteq> '''' \<longrightarrow> cvi_SnapshotId req = Some (avo_SnapshotID opts)) \<and>
           (avo_AvailabilityZone opts \<noteq> '''' \<longrightarrow> cvi_AvailabilityZone req = avo_AvailabilityZone opts) \<and>
           (cvi_KmsKeyId req \<noteq> None \<longrightarrow> cvi_Encrypted req)"
  using assms
proof (rule aws_CreateDisk_Inr)
  fix req awsID az c1
  assume r: "ec_CreateVolume api req c = (Inr (awsID, az), c1)" "volumeName = ''aws://'' @ az @ ''/'' @ awsID"
    "createTags api (ac_tagging cloud) awsID ResourceLifecycleOwned (avo_Tags opts) c1 = (None, c')"
    "volumeTypeAndIops opts = Inr (cvi_VolumeType req, case cvi_Iops req of Some n \<Rightarrow> n | None \<Rightarrow> 0)"
    "cvi_Size req = avo_CapacityGB opts" "cvi_Iops req \<noteq> Some 0" "cvi_KmsKeyId req \<noteq> None \<longrightarrow> cvi_Encrypted req"
    "avo_SnapshotID opts \<noteq> '''' \<longrightarrow> cvi_SnapshotId req = Some (avo_SnapshotID opts)"
    "avo_AvailabilityZone opts \<noteq> '''' \<longrightarrow> cvi_AvailabilityZone req = avo_AvailabilityZone opts"
  from volumeTypeAndIops_range [OF r(4)] r(6) have
    "cvi_VolumeType req \<in> {''gp2'', ''sc1'', ''st1'', ''io1''}"
    "case cvi_Iops req of None \<Rightarrow> cvi_VolumeType req \<noteq> ''io1''
     | Some n \<Rightarrow> cvi_VolumeType req = ''io1'' \<and> 100 \<le> n \<and> n \<le> 20000"
    by (auto split: option.splits if_splits)
  with r show ?thesis by blast
qed

text \<open>
  A volume that cannot be tagged is not left behind: when EC2 has created a volume and writing
  its tags fails, \<open>CreateDisk\<close> fails and asks EC2 to delete exactly this volume.
\<close>

theorem untagged_volume_is_deleted:
  assumes "getCandidateZonesForDynamicVolume api cloud c = Inr zones" and "volumeTypeAndIops opts = Inr (ty, iops)"
    and "\<And>req. ec_CreateVolume api req c = (Inr (awsID, az), c1)"
    and "createTags api (ac_tagging cloud) awsID ResourceLifecycleOwned (avo_Tags opts) c1 = (Some err, c2)"
    and "plain_id az" "plain_id awsID" "ec_validAuthority api az" "HasPrefix awsID ''vol-''"
  shows "\<exists>e. aws_CreateDisk api cloud opts c = (Inl e, snd (ec_DeleteVolume api awsID c2))"
proof -
  have "awsID \<noteq> ''''" using assms(8) by (auto simp: HasPrefix_def)
  moreover from mapToAWSVolumeID_name [OF assms(5-8)]
  have "\<exists>b e. aws_DeleteDisk api (''aws://'' @ az @ ''/'' @ awsID) c2 = ((b, e), snd (ec_DeleteVolume api awsID c2))"
    by (auto simp: aws_DeleteDisk_def deleteVolume_def split: prod.split option.split)
  then obtain b e where "aws_DeleteDisk api (''aws://'' @ az @ ''/'' @ awsID) c2 = ((b, e), snd (ec_DeleteVolume api awsID c2))"
    by blast
  ultimately show ?thesis
    unfolding aws_CreateDisk_def Let_def assms(1,2) by (cases e) (simp_all add: assms(3,4))
qed

text \<open>
  A volume restored from an EBS snapshot can be deleted again: a restore asks EC2 for a volume
  made from this snapshot, and deleting the restored volume asks EC2 to delete exactly the volume
  that was answered, provided EC2 names volumes as it documents.
\<close>

theorem restored_volume_is_deletable:
  assumes "ebs_SnapshotRestore api cloud data (Some claim) pvName params c = (Inr (src, labels), c')"
    and "src_AWSElasticBlockStore (spec_Source (vsd_Spec data)) = Some ebs" and "ebss_SnapshotID ebs \<noteq> ''''"
    and "\<And>req awsID az c1. ec_CreateVolume api req c = (Inr (awsID, az), c1) \<Longrightarrow>
           plain_id az \<and> plain_id awsID \<and> HasPrefix awsID ''vol-'' \<and> ec_validAuthority api az"
  shows "\<exists>req awsID az c1. ec_CreateVolume api req c = (Inr (awsID, az), c1) \<and>
           cvi_SnapshotId req = Some (ebss_SnapshotID ebs) \<and>
           (\<forall>pv c2 c3. ec_DeleteVolume api awsID c2 = (None, c3) \<longrightarrow>
              ebs_VolumeDelete api (with_source src pv) c2 = (Inr (), c3))"
proof -
  have keeps: "avo_SnapshotID opts' = avo_SnapshotID opts"
    if "range_loop ebs_param ks m opts = Inr opts'" for ks m opts opts'
    using that
  proof (induction ks arbitrary: opts)
    case (Cons k ks)
    then show ?case
      by (cases "fmlookup m k") (auto simp: ebs_param_def split: sum.splits option.splits if_splits)
  qed simp
  from assms(1,2) obtain opts vol c1 c2 where o: "aws_CreateDisk api cloud opts c = (Inr vol, c1)"
    "avo_SnapshotID opts = ebss_SnapshotID ebs"
    "src = SrcEBS \<lparr>ebs_VolumeID = vol, ebs_FSType = ebss_FSType ebs, ebs_Partition = 0, ebs_ReadOnly = False\<rparr>"
    by (auto simp: ebs_SnapshotRestore_def Let_def dest!: keeps split: sum.splits if_splits prod.splits)
  from o(1) show ?thesis
  proof (rule aws_CreateDisk_Inr)
    fix req awsID az c1
    assume r: "ec_CreateVolume api req c = (Inr (awsID, az), c1)" "vol = ''aws://'' @ az @ ''/'' @ awsID"
      "avo_SnapshotID opts \<noteq> '''' \<longrightarrow> cvi_SnapshotId req = Some (avo_SnapshotID opts)"
    with assms(4) have "mapToAWSVolumeID api vol = Inr awsID" by (metis mapToAWSVolumeID_name)
    with o(3) have "\<forall>pv c2 c3. ec_DeleteVolume api awsID c2 = (None, c3) \<longrightarrow>
        ebs_VolumeDelete api (with_source src pv) c2 = (Inr (), c3)"
      by (simp add: ebs_VolumeDelete_def aws_DeleteDisk_def deleteVolume_def unit_result_def)
    with r o(2) assms(3) show ?thesis by metis
  qed
qed

section \<open>Finding snapshots\<close>

text \<open>
  Looking for a snapshot by its tags asks EC2 for the wrong tags: all the filters of the request
  carry the value of the tag visited last, so a tag whose value differs from it is asked for with
  a value it does not have.
\<close>

theorem FindSnapshot_filters_share_value:
  assumes "ec_range api tags c = ks @ [k']" and "k \<in> set ks"
    and "fmlookup tags k = Some v" and "fmlookup tags k' = Some v'" and "v \<noteq> v'"
  shows "(k, [v']) \<in> set (snapshotFilters (ec_range api tags c) tags) \<and>
         (k, [v]) \<notin> set (snapshotFilters (ec_range api tags c) tags) \<and>
         aws_FindSnapshot api tags c =
           (case ec_DescribeSnapshots api [] (map (\<lambda>k. (k, [v'])) (ks @ [k'])) c of
              Inl err \<Rightarrow> Some (Inl err)
            | Inr snapshots \<Rightarrow> map_option Inr (idsAndStates snapshots ([], [])))"
  using assms by (auto simp: snapshotFilters_def aws_FindSnapshot_def Let_def)

section \<open>Witnesses\<close>

definition demo_aws :: awsCloud where
  "demo_aws =
     \<lparr>ac_tagging = \<lparr>at_ClusterID = '''', at_usesLegacyTags = False\<rparr>,
      ac_selfAWSInstance = \<lparr>ai_awsID = ''i-1'', ai_nodeName = ''n'', ai_availabilityZone = ''us-a'', ai_vpcID = ''vpc'',
                            ai_subnetID = ''sn'', ai_instanceType = ''m''\<rparr>\<rparr>"

definition demo_io1 :: awsVolumeOptions where
  "demo_io1 =
     \<lparr>avo_CapacityGB = 4611686018427387904, avo_Tags = fmupd ''Name'' ''x'' fmempty, avo_PVCName = ''c'', avo_VolumeType = ''io1'',
      avo_AvailabilityZone = '''', avo_IOPSPerGB = 4, avo_Encrypted = False, avo_KmsKeyID = ''k'', avo_SnapshotID = ''snap-1''\<rparr>"

lemma demo_aws_zones: "getCandidateZonesForDynamicVolume demo_ec2 demo_aws c = Inr {|''us-a''|}"
  by (simp add: getCandidateZonesForDynamicVolume_def describeInstances_def demo_ec2_def demo_aws_def hasClusterTag_def)

lemma demo_createTags: "createTags demo_ec2 (ac_tagging demo_aws) r l tags c = (None, c)"
  by (simp add: createTags_def demo_ec2_def eval_nat_numeral Let_def)

lemma demo_plain:
  "plain_id ''us-a''" "plain_id ''vol-1''" "HasPrefix ''vol-1'' ''vol-''" "ec_validAuthority demo_ec2 ''us-a''"
  by (simp_all add: plain_id_def HasPrefix_def demo_ec2_def)

text \<open>Here the product of the capacity and the IOPS per gigabyte overflows to 0.\<close>

theorem CreateDisk_request_in_bounds_witness:
  "aws_CreateDisk demo_ec2 demo_aws demo_io1 () = (Inr ''aws://us-a/vol-1'', ()) \<and>
   (\<exists>req. ec_CreateVolume demo_ec2 req () = (Inr (''vol-1'', ''us-a''), ()) \<and>
          cvi_Size req = 4611686018427387904 \<and> cvi_SnapshotId req = Some ''snap-1'')"
proof -
  have io: "volumeTypeAndIops demo_io1 = Inr (''io1'', 100)" by code_simp
  have cv: "ec_CreateVolume demo_ec2 req () = (Inr (''vol-1'', ''us-a''), ())" for req by (simp add: demo_ec2_def)
  have "aws_CreateDisk demo_ec2 demo_aws demo_io1 () = (Inr ''aws://us-a/vol-1'', ())"
    unfolding aws_CreateDisk_def Let_def by (simp add: demo_aws_zones io cv demo_createTags)
  moreover from CreateDisk_request_in_bounds [OF this] obtain req :: CreateVolumeInput where
    "cvi_Size req = avo_CapacityGB demo_io1" "avo_SnapshotID demo_io1 \<noteq> '''' \<longrightarrow> cvi_SnapshotId req = Some (avo_SnapshotID demo_io1)"
    by (elim exE conjE) (rule that; assumption)
  ultimately show ?thesis using cv by (auto simp: demo_io1_def)
qed

theorem untagged_volume_is_deleted_witness:
  "\<exists>e. aws_CreateDisk (demo_ec2\<lparr>ec_CreateTags := (\<lambda>_ _ c. (Some (AwsOtherErr ''denied''), c))\<rparr>) demo_aws demo_io1 () = (Inl e, ())"
proof -
  let ?api = "demo_ec2\<lparr>ec_CreateTags := (\<lambda>_ _ c. (Some (AwsOtherErr ''denied''), c))\<rparr> :: unit ec2API"
  have zones: "getCandidateZonesForDynamicVolume ?api demo_aws () = Inr {|''us-a''|}"
    using demo_aws_zones by (simp add: getCandidateZonesForDynamicVolume_def describeInstances_def)
  have io: "volumeTypeAndIops demo_io1 = Inr (''io1'', 100)" by code_simp
  have cv: "ec_CreateVolume ?api req () = (Inr (''vol-1'', ''us-a''), ())" for req by (simp add: demo_ec2_def)
  have tags: "createTags ?api (ac_tagging demo_aws) ''vol-1'' ResourceLifecycleOwned (avo_Tags demo_io1) () = (Some (AwsOtherErr ''denied''), ())"
    by (simp add: createTags_def demo_ec2_def eval_nat_numeral Let_def buildTags_def demo_aws_def demo_io1_def map_len_def)
  have auth: "ec_validAuthority ?api ''us-a''" by (simp add: demo_ec2_def)
  from untagged_volume_is_deleted [OF zones io cv tags demo_plain(1,2) auth demo_plain(3)] show ?thesis
    by (simp add: demo_ec2_def)
qed

definition demo_ebs_data :: VolumeSnapshotData where
  "demo_ebs_data = newSnapshotData ''d'' ''ns/s-1'' ''pv1''
     (emptySource\<lparr>src_AWSElasticBlockStore := Some \<lparr>ebss_SnapshotID = ''snap-1'', ebss_FSType = ''ext4''\<rparr>\<rparr>) demo_ready"

theorem restored_volume_is_deletable_witness:
  "\<exists>src labels. ebs_SnapshotRestore demo_ec2 demo_aws demo_ebs_data (Some \<lparr>rc_Name = ''c'', rc_Request = 5, rc_Selector = False\<rparr>)
       ''pv'' fmempty () = (Inr (src, labels), ()) \<and>
     ebs_VolumeDelete demo_ec2 (with_source src zero_PV) () = (Inr (), ())"
proof -
  have src: "src_AWSElasticBlockStore (spec_Source (vsd_Spec demo_ebs_data)) = Some \<lparr>ebss_SnapshotID = ''snap-1'', ebss_FSType = ''ext4''\<rparr>"
    by (simp add: demo_ebs_data_def newSnapshotData_def emptySource_def)
  have cv: "ec_CreateVolume demo_ec2 req c = (Inr (''vol-1'', ''us-a''), c)" for req and c :: unit by (simp add: demo_ec2_def)
  have range: "ec_range demo_ec2 fmempty c = []" for c :: unit   proof -
    have "sorted_keys (fmempty :: string gomap) = []" by code_simp
    then show ?thesis by (simp add: demo_ec2_def)
  qed
  have cd: "aws_CreateDisk demo_ec2 demo_aws opts () = (Inr ''aws://us-a/vol-1'', ())" if "avo_VolumeType opts = ''''" for opts
    using that unfolding aws_CreateDisk_def Let_def
    by (simp add: demo_aws_zones volumeTypeAndIops_def cv demo_createTags)
  then obtain src labels where r: "ebs_SnapshotRestore demo_ec2 demo_aws demo_ebs_data
      (Some \<lparr>rc_Name = ''c'', rc_Request = 5, rc_Selector = False\<rparr>) ''pv'' fmempty () = (Inr (src, labels), ())"
  proof -
    obtain ls u where "GetVolumeLabels demo_ec2 ''aws://us-a/vol-1'' () = (ls, u)" by (metis prod.exhaust)
    then show ?thesis
      by (intro that) (simp add: ebs_SnapshotRestore_def Let_def src range cd)
  qed
  have del: "ec_DeleteVolume demo_ec2 v () = (None, ())" for v by (simp add: demo_ec2_def)
  have snap: "ebss_SnapshotID \<lparr>ebss_SnapshotID = ''snap-1'', ebss_FSType = ''ext4''\<rparr> \<noteq> ''''" by simp
  have "\<exists>req awsID az c1. ec_CreateVolume demo_ec2 req () = (Inr (awsID, az), c1) \<and>
           cvi_SnapshotId req = Some (ebss_SnapshotID \<lparr>ebss_SnapshotID = ''snap-1'', ebss_FSType = ''ext4''\<rparr>) \<and>
           (\<forall>pv (c2 :: unit) c3. ec_DeleteVolume demo_ec2 awsID c2 = (None, c3) \<longrightarrow>
              ebs_VolumeDelete demo_ec2 (with_source src pv) c2 = (Inr (), c3))"
    by (rule restored_volume_is_deletable [OF r src snap]) (use demo_plain in \<open>auto simp: cv\<close>)
  then have "ebs_VolumeDelete demo_ec2 (with_source src zero_PV) () = (Inr (), ())" using del by blast
  with r show ?thesis by blast
qed

theorem FindSnapshot_filters_share_value_witness:
  "snapshotFilters (ec_range (demo_ec2 :: unit ec2API) (fmupd ''a'' ''1'' (fmupd ''b'' ''2'' fmempty)) ())
     (fmupd ''a'' ''1'' (fmupd ''b'' ''2'' fmempty)) = [(''a'', [''2'']), (''b'', [''2''])]"
proof -
  let ?tags = "fmupd ''a'' ''1'' (fmupd ''b'' ''2'' fmempty)"
  have "sorted_keys ?tags = [''a''] @ [''b'']" by code_simp
  then have r: "ec_range (demo_ec2 :: unit ec2API) ?tags () = [''a''] @ [''b'']" by (simp add: demo_ec2_def)
  have "(''a'', [''2'']) \<in> set (snapshotFilters (ec_range (demo_ec2 :: unit ec2API) ?tags ()) ?tags)"
    using FindSnapshot_filters_share_value [OF r, of "''a''" "''1''" "''2''"] by simp
  with r show ?thesis by (simp add: snapshotFilters_def Let_def)
qed

end
