(* ===== verification/SnapProvisioner.thy ===== *)
theory SnapProvisioner
  imports OpenStackDisks GceDisks AwsVolumes
begin

text \<open>
  \<open>snapshot/cmd/snapshot-pv-provisioner\<close>: the provisioner that makes volumes from snapshots, the
  table of volume plugins it shares with the snapshot controller
  (\<open>snapshot/cmd/snapshot-controller\<close>), and the choice of a cloud provider
  (\<open>snapshot/pkg/cloudprovider/plugins.go\<close>). The locale \<open>volume_plugin\<close> is what the callers of a
  plugin rely on: the sources it makes lead back to it.
\<close>

section \<open>Cloud providers\<close>

text \<open>
  A cloud object, by its dynamic type. The registered factories are a parameter: which providers
  are linked into the program, and what their constructors answer.
\<close>

datatype 'c cloudObject =
    CloudAWS "'c ec2API" awsCloud
  | CloudGCE "'c gceAPI" gceCloud
  | CloudOpenStack "'c cinderAPI"
  | CloudOther string

type_synonym 'c providers = "(string, string option \<Rightarrow> 'c cloudObject option result) fmap"

definition GetCloudProvider :: "'c providers \<Rightarrow> string \<Rightarrow> string option \<Rightarrow> 'c cloudObject option result" where
  "GetCloudProvider providers name config =
     (case fmlookup providers name of
        None \<Rightarrow> Inr None
      | Some f \<Rightarrow> f config)"

definition IsExternal :: "string \<Rightarrow> bool" where
  "IsExternal name \<longleftrightarrow> name = ''external''"

text \<open>
  The configuration file is read when a path is given; a file that cannot be opened ends the
  process (\<open>None\<close>).
\<close>

definition InitCloudProvider ::
  "'c providers \<Rightarrow> (string \<Rightarrow> string result) \<Rightarrow> string \<Rightarrow> string \<Rightarrow> 'c cloudObject option result option" where
  "InitCloudProvider providers open_file name configFilePath =
     (if name = '''' then Some (Inr None)
      else if IsExternal name then Some (Inr None)
      else
        do {
          config \<leftarrow> (if configFilePath \<noteq> '''' then
                       (case open_file configFilePath of Inl _ \<Rightarrow> None | Inr contents \<Rightarrow> Some (Some contents))
                     else Some None);
          Some (case GetCloudProvider providers name config of
                  Inl err \<Rightarrow> Inl (Wrapf ''could not init cloud provider %q: %v'' [name] err)
                | Inr None \<Rightarrow> Inl (Errorf ''unknown cloud provider %q'' [name])
                | Inr (Some cloud) \<Rightarrow> Inr (Some cloud))
        })"

section \<open>The table of plugins\<close>

type_synonym 'c pluginTable = "(string, 'c volumePlugin) fmap"

text \<open>
  \<open>Init\<close> asserts the dynamic type of the cloud object; the assertion of another type panics
  (\<open>None\<close>). With a provider that is not initialised the two plugins without a cloud are not
  registered either.
\<close>

definition initPlugin :: "string \<Rightarrow> 'c cloudObject \<Rightarrow> 'c pluginTable \<Rightarrow> 'c pluginTable option" where
  "initPlugin cloudProvider cloud table =
     (if cloudProvider = ''aws'' then
        (case cloud of CloudAWS api c \<Rightarrow> Some (fmupd ''aws_ebs'' (awsEBSPlugin api c) table) | _ \<Rightarrow> None)
      else if cloudProvider = ''gce'' then
        (case cloud of CloudGCE api c \<Rightarrow> Some (fmupd ''gce-pd'' (gcePersistentDiskPlugin api c) table) | _ \<Rightarrow> None)
      else if cloudProvider = ''openstack'' then
        (case cloud of CloudOpenStack api \<Rightarrow> Some (fmupd ''cinder'' (cinderPlugin api) table) | _ \<Rightarrow> None)
      else Some table)"

definition buildVolumePlugins ::
  "'c providers \<Rightarrow> (string \<Rightarrow> string result) \<Rightarrow> 'c pluginOS \<Rightarrow> string \<Rightarrow> string \<Rightarrow>
     (error option \<times> 'c pluginTable) option" where
  "buildVolumePlugins providers open_file os cloudProvider cloudConfigFile =
     (let localPlugins = (\<lambda>table. fmupd ''hostPath'' (hostPathPlugin os) (fmupd ''glusterfs'' (glusterfsPlugin os) table)) in
      if length cloudProvider \<noteq> 0 then
        (case InitCloudProvider providers open_file cloudProvider cloudConfigFile of
           None \<Rightarrow> None
         | Some (Inr (Some cloud)) \<Rightarrow>
             map_option (\<lambda>table. (None, localPlugins table)) (initPlugin cloudProvider cloud fmempty)
         | Some (Inr None) \<Rightarrow> Some (None, fmempty)
         | Some (Inl err) \<Rightarrow> Some (Some err, fmempty))
      else Some (None, localPlugins fmempty))"

section \<open>The provisioner\<close>

abbreviation snapshotProvisionerName :: string where
  "snapshotProvisionerName \<equiv> ''volumesnapshot.external-storage.k8s.io/snapshot-promoter''"

abbreviation snapshotProvisionerIDAnn :: string where
  "snapshotProvisionerIDAnn \<equiv> ''snapshotProvisionerIdentity''"

abbreviation SnapshotPVCAnnotation :: string where
  "SnapshotPVCAnnotation \<equiv> ''snapshot.alpha.kubernetes.io/snapshot''"

definition claimOf :: "VolumeOptions \<Rightarrow> restoreClaim" where
  "claimOf options = \<lparr>rc_Name = vo_PVCName options, rc_Request = vo_Request options, rc_Selector = vo_Selector options\<rparr>"

definition snapshotRestore ::
  "'c pluginTable \<Rightarrow> VolumeSnapshotData \<Rightarrow> VolumeOptions \<Rightarrow> 'c \<Rightarrow>
     (PersistentVolumeSource \<times> string gomap option) result \<times> 'c" where
  "snapshotRestore table snapshotData options c =
     (let volumeType = GetSupportedVolumeFromSnapshotDataSpec (vsd_Spec snapshotData) in
      if length volumeType = 0 then (Inl (Errorf ''unsupported volume type found in SnapshotData %#v'' []), c)
      else
        (case fmlookup table volumeType of
           None \<Rightarrow> (Inl (Errorf ''%s is not supported volume for %#v'' [volumeType]), c)
         | Some plugin \<Rightarrow>
             pl_SnapshotRestore plugin snapshotData (Some (claimOf options)) (vo_PVName options) (vo_Parameters options) c))"

definition snap_PV :: "string \<Rightarrow> VolumeOptions \<Rightarrow> PersistentVolumeSource \<Rightarrow> string gomap option \<Rightarrow> PersistentVolume" where
  "snap_PV identity options pvSrc labels =
     with_source pvSrc
       (zero_PV\<lparr>pv_Name := vo_PVName options,
               pv_Annotations := fmupd snapshotProvisionerIDAnn identity fmempty,
               pv_ReclaimPolicy := vo_ReclaimPolicy options,
               pv_AccessModes := vo_AccessModes options,
               pv_Capacity := Some (vo_Request options),
               pv_Labels := (case labels of Some m \<Rightarrow> m | None \<Rightarrow> fmempty)\<rparr>)"

text \<open>The state is the provisioner's identity and the cluster's.\<close>

definition snap_Provision ::
  "'c env \<Rightarrow> 'c pluginTable \<Rightarrow> VolumeOptions \<Rightarrow> string \<times> 'c \<Rightarrow> (PersistentVolume result \<times> string \<times> 'c) option" where
  "snap_Provision env table options = (\<lambda>(identity, c).
     if vo_Selector options then Some (Inl (Errorf ''claim Selector is not supported'' []), identity, c)
     else
     (case fmlookup (vo_PVCAnnotations options) SnapshotPVCAnnotation of
        None \<Rightarrow> Some (Inl (Errorf ''snapshot annotation not found on PV'' []), identity, c)
      | Some snapshotName \<Rightarrow>
     (case e_GetSnapshot env (vo_PVCNamespace options) snapshotName c of
        (Inl err, c) \<Rightarrow> Some (Inl (Wrapf ''failed to retrieve VolumeSnapshot %s: %v'' [snapshotName] err), identity, c)
      | (Inr snapshot, c) \<Rightarrow>
          if length (vs_SnapshotDataName snapshot) = 0 then
            Some (Inl (Errorf ''VolumeSnapshot %s is not bound to any VolumeSnapshotData'' [snapshotName]), identity, c)
          else
     (case e_GetData env (vs_SnapshotDataName snapshot) c of
        (Inl err, c) \<Rightarrow>
          Some (Inl (Wrapf ''failed to retrieve VolumeSnapshotData %s: %v'' [vs_SnapshotDataName snapshot] err), identity, c)
      | (Inr snapshotData, c) \<Rightarrow>
     (case snapshotRestore table snapshotData options c of
        (Inl err, c) \<Rightarrow> Some (Inl (Wrapf ''failed to create a PV from snapshot %s: %v'' [snapshotName] err), identity, c)
      | (Inr (pvSrc, labels), c) \<Rightarrow> Some (Inr (snap_PV identity options pvSrc labels), identity, c))))))"

definition snap_Delete ::
  "'c pluginTable \<Rightarrow> PersistentVolume \<Rightarrow> string \<times> 'c \<Rightarrow> (error option \<times> string \<times> 'c) option" where
  "snap_Delete table volume = (\<lambda>(identity, c).
     (case fmlookup (pv_Annotations volume) snapshotProvisionerIDAnn of
        None \<Rightarrow> Some (Some (Errorf ''identity annotation not found on PV'' []), identity, c)
      | Some ann \<Rightarrow>
          if ann \<noteq> identity then
            Some (Some (IgnoredError ''identity annotation on PV does not match ours'' []), identity, c)
          else
            let volumeType = GetSupportedVolumeFromPVSpec volume in
            if length volumeType = 0 then
              Some (Some (Errorf ''unsupported volume type found in PV %#v'' []), identity, c)
            else
              (case fmlookup table volumeType of
                 None \<Rightarrow> Some (Some (Errorf ''%s is not supported volume for %#v'' [volumeType]), identity, c)
               | Some plugin \<Rightarrow>
                   (case pl_VolumeDelete plugin volume c of
                      (Inl err, c) \<Rightarrow> Some (Some err, identity, c)
                    | (Inr _, c) \<Rightarrow> Some (None, identity, c)))))"

text \<open>What \<open>main\<close> hands the provisioning library, or \<open>None\<close> when the process ends.\<close>

definition snapshotProvisioner_main ::
  "('cfg, 'client) kubeLib \<Rightarrow> string \<Rightarrow> string \<Rightarrow> string \<Rightarrow>
     (error option \<times> 'c pluginTable) option \<Rightarrow> bool \<Rightarrow> ('client \<times> string \<times> 'c pluginTable \<times> string) option" where
  "snapshotProvisioner_main kl master kubeconfig id' built crdClient =
     do {
       let prID = (if id' \<noteq> '''' then id' else snapshotProvisionerName);
       clientset \<leftarrow> kube_connect kl master kubeconfig;
       serverVersion \<leftarrow> ok (kl_ServerVersion kl clientset);
       (err, table) \<leftarrow> built;
       if err \<noteq> None \<or> \<not> crdClient then None
       else Some (clientset, prID, table, serverVersion)
     }"

section \<open>The contract of a plugin\<close>

text \<open>
  A volume of the source's type only, and a snapshot's data with this source.
\<close>

definition no_source :: "PersistentVolume \<Rightarrow> bool" where
  "no_source pv \<longleftrightarrow> GetSupportedVolumeFromPVSpec pv = ''''"

locale volume_plugin =
  fixes name :: string and plugin :: "'c volumePlugin"
  assumes named: "name \<noteq> ''''"
    and create_type:
      "pl_SnapshotCreate plugin snapshot pv tags c = (Inr (Some src, conditions), c') \<Longrightarrow>
         GetSupportedVolumeFromSnapshotDataSpec (spec\<lparr>spec_Source := src\<rparr>) = name"
    and restore_type:
      "pl_SnapshotRestore plugin data claim pvName params c = (Inr (pvSrc, labels), c') \<Longrightarrow> no_source pv \<Longrightarrow>
         GetSupportedVolumeFromPVSpec (with_source pvSrc pv) = name"
begin

lemma restored_type: "pl_SnapshotRestore plugin data claim pvName params c = (Inr (pvSrc, labels), c') \<Longrightarrow>
    GetSupportedVolumeFromPVSpec (snap_PV identity options pvSrc labels) = name"
  unfolding snap_PV_def
  by (erule restore_type) (simp add: no_source_def GetSupportedVolumeFromPVSpec_def zero_PV_def)

text \<open>A restored volume that carries the provisioner's identity is deleted by this plugin.\<close>

lemma restored_deleted_by:
  assumes "fmlookup table name = Some plugin"
    and "pl_SnapshotRestore plugin data claim pvName params c = (Inr (pvSrc, labels), c')"
  shows "snap_Delete table (snap_PV identity options pvSrc labels) (identity, c2) =
     (case pl_VolumeDelete plugin (snap_PV identity options pvSrc labels) c2 of
        (Inl err, c3) \<Rightarrow> Some (Some err, identity, c3)
      | (Inr _, c3) \<Rightarrow> Some (None, identity, c3))"
proof -
  have "pv_Annotations (snap_PV identity options pvSrc labels) = fmupd snapshotProvisionerIDAnn identity fmempty"
    by (cases pvSrc) (simp_all add: snap_PV_def)
  with assms(1) restored_type [OF assms(2), of identity options] named show ?thesis
    by (simp add: snap_Delete_def)
qed

end

lemma GetSupportedVolumeFromPVSpec_with_source:
  assumes "no_source pv"
  shows "GetSupportedVolumeFromPVSpec (with_source src pv) =
    (case src of SrcHostPath _ \<Rightarrow> ''hostPath'' | SrcEBS _ \<Rightarrow> ''aws_ebs'' | SrcGCE _ \<Rightarrow> ''gce-pd''
     | SrcCinder _ \<Rightarrow> ''cinder'' | SrcGlusterfs _ \<Rightarrow> ''glusterfs'')"
  using assms by (cases src) (auto simp: no_source_def GetSupportedVolumeFromPVSpec_def split: if_splits)

interpretation hostPath: volume_plugin "''hostPath''" "hostPathPlugin os" for os
proof unfold_locales
  show "''hostPath'' \<noteq> ''''" by simp
  fix snapshot pv tags c src conditions c' and spec :: VolumeSnapshotDataSpec
  assume "pl_SnapshotCreate (hostPathPlugin os) snapshot pv tags c = (Inr (Some src, conditions), c')"
  then show "GetSupportedVolumeFromSnapshotDataSpec (spec\<lparr>spec_Source := src\<rparr>) = ''hostPath''"
    by (auto simp: hostPathPlugin_def hp_SnapshotCreate_def GetSupportedVolumeFromSnapshotDataSpec_def Let_def
        split: option.splits prod.splits)
next
  fix data claim pvName params c pvSrc labels c' and pv :: PersistentVolume
  assume "pl_SnapshotRestore (hostPathPlugin os) data claim pvName params c = (Inr (pvSrc, labels), c')" "no_source pv"
  then show "GetSupportedVolumeFromPVSpec (with_source pvSrc pv) = ''hostPath''"
    unfolding hostPathPlugin_def
    by (auto simp: hp_SnapshotRestore_def Let_def GetSupportedVolumeFromPVSpec_with_source split: option.splits prod.splits)
qed

interpretation glusterfs: volume_plugin "''glusterfs''" "glusterfsPlugin os" for os
proof unfold_locales
  show "''glusterfs'' \<noteq> ''''" by simp
  fix snapshot pv tags c src conditions c' and spec :: VolumeSnapshotDataSpec
  assume "pl_SnapshotCreate (glusterfsPlugin os) snapshot pv tags c = (Inr (Some src, conditions), c')"
  then show "GetSupportedVolumeFromSnapshotDataSpec (spec\<lparr>spec_Source := src\<rparr>) = ''glusterfs''"
    by (auto simp: glusterfsPlugin_def gl_SnapshotCreate_def GetSupportedVolumeFromSnapshotDataSpec_def emptySource_def Let_def
        split: option.splits prod.splits)
next
  fix data claim pvName params c pvSrc labels c' and pv :: PersistentVolume
  assume "pl_SnapshotRestore (glusterfsPlugin os) data claim pvName params c = (Inr (pvSrc, labels), c')" "no_source pv"
  then show "GetSupportedVolumeFromPVSpec (with_source pvSrc pv) = ''glusterfs''"
    unfolding glusterfsPlugin_def
    by (auto simp: gl_SnapshotRestore_def Let_def GetSupportedVolumeFromPVSpec_with_source split: option.splits prod.splits)
qed

interpretation aws_ebs: volume_plugin "''aws_ebs''" "awsEBSPlugin api cloud" for api cloud
proof unfold_locales
  show "''aws_ebs'' \<noteq> ''''" by simp
  fix snapshot pv tags c src conditions c' and spec :: VolumeSnapshotDataSpec
  assume "pl_SnapshotCreate (awsEBSPlugin api cloud) snapshot pv tags c = (Inr (Some src, conditions), c')"
  then show "GetSupportedVolumeFromSnapshotDataSpec (spec\<lparr>spec_Source := src\<rparr>) = ''aws_ebs''"
    by (auto simp: awsEBSPlugin_def ebs_SnapshotCreate_def GetSupportedVolumeFromSnapshotDataSpec_def emptySource_def Let_def
        split: option.splits prod.splits sum.splits)
next
  fix data claim pvName params c pvSrc labels c' and pv :: PersistentVolume
  assume "pl_SnapshotRestore (awsEBSPlugin api cloud) data claim pvName params c = (Inr (pvSrc, labels), c')" "no_source pv"
  then show "GetSupportedVolumeFromPVSpec (with_source pvSrc pv) = ''aws_ebs''"
    unfolding awsEBSPlugin_def
    by (auto simp: ebs_SnapshotRestore_def Let_def GetSupportedVolumeFromPVSpec_with_source
        split: option.splits prod.splits sum.splits if_splits)
qed

interpretation gce_pd: volume_plugin "''gce-pd''" "gcePersistentDiskPlugin api gce" for api gce
proof unfold_locales
  show "''gce-pd'' \<noteq> ''''" by simp
  fix snapshot pv tags c src conditions c' and spec :: VolumeSnapshotDataSpec
  assume "pl_SnapshotCreate (gcePersistentDiskPlugin api gce) snapshot pv tags c = (Inr (Some src, conditions), c')"
   
  then show "GetSupportedVolumeFromSnapshotDataSpec (spec\<lparr>spec_Source := src\<rparr>) = ''gce-pd''"
    by (auto simp: gcePersistentDiskPlugin_def gcepd_SnapshotCreate_def GetSupportedVolumeFromSnapshotDataSpec_def
        emptySource_def Let_def split: option.splits prod.splits sum.splits)
next
  fix data claim pvName params c pvSrc labels c' and pv :: PersistentVolume
  assume "pl_SnapshotRestore (gcePersistentDiskPlugin api gce) data claim pvName params c = (Inr (pvSrc, labels), c')"
    "no_source pv"
  then show "GetSupportedVolumeFromPVSpec (with_source pvSrc pv) = ''gce-pd''"
    unfolding gcePersistentDiskPlugin_def
    by (auto simp: GetSupportedVolumeFromPVSpec_with_source elim!: gcepd_SnapshotRestore_result)
qed

interpretation cinder: volume_plugin "''cinder''" "cinderPlugin api" for api
proof unfold_locales
  show "''cinder'' \<noteq> ''''" by simp
  fix snapshot pv tags c src conditions c' and spec :: VolumeSnapshotDataSpec
  assume "pl_SnapshotCreate (cinderPlugin api) snapshot pv tags c = (Inr (Some src, conditions), c')"
  then show "GetSupportedVolumeFromSnapshotDataSpec (spec\<lparr>spec_Source := src\<rparr>) = ''cinder''"
    by (auto simp: cinderPlugin_def cinder_SnapshotCreate_def GetSupportedVolumeFromSnapshotDataSpec_def emptySource_def Let_def
        split: option.splits prod.splits sum.splits)
next
  fix data claim pvName params c pvSrc labels c' and pv :: PersistentVolume
  assume "pl_SnapshotRestore (cinderPlugin api) data claim pvName params c = (Inr (pvSrc, labels), c')" "no_source pv"
  then show "GetSupportedVolumeFromPVSpec (with_source pvSrc pv) = ''cinder''"
    unfolding cinderPlugin_def
    by (auto simp: cinder_SnapshotRestore_def Let_def GetSupportedVolumeFromPVSpec_with_source
        split: option.splits prod.splits sum.splits)
qed

section \<open>Tables of plugins\<close>

locale plugin_table =
  fixes table :: "'c pluginTable"
  assumes entries: "fmlookup table name = Some plugin \<Longrightarrow> volume_plugin name plugin"
begin

text \<open>
  A provisioned volume was restored by the plugin of the snapshot's type, and the same plugin
  deletes it, at any later time.
\<close>

lemma provisioned_deleted_by:
  assumes "snap_Provision env table options (identity, c) = Some (Inr pv, s')"
  shows "\<exists>data plugin pvSrc labels c1 c2.
    fmlookup table (GetSupportedVolumeFromSnapshotDataSpec (vsd_Spec data)) = Some plugin \<and>
    pl_SnapshotRestore plugin data (Some (claimOf options)) (vo_PVName options) (vo_Parameters options) c1 =
      (Inr (pvSrc, labels), c2) \<and>
    pv = snap_PV identity options pvSrc labels \<and> s' = (identity, c2) \<and>
    GetSupportedVolumeFromPVSpec pv = GetSupportedVolumeFromSnapshotDataSpec (vsd_Spec data) \<and>
    (\<forall>c3. snap_Delete table pv (identity, c3) =
       (case pl_VolumeDelete plugin pv c3 of
          (Inl err, c4) \<Rightarrow> Some (Some err, identity, c4)
        | (Inr _, c4) \<Rightarrow> Some (None, identity, c4)))"
proof -
  from assms obtain data plugin pvSrc labels c1 c2 where r:
    "fmlookup table (GetSupportedVolumeFromSnapshotDataSpec (vsd_Spec data)) = Some plugin"
    "pl_SnapshotRestore plugin data (Some (claimOf options)) (vo_PVName options) (vo_Parameters options) c1 =
       (Inr (pvSrc, labels), c2)" "pv = snap_PV identity options pvSrc labels" "s' = (identity, c2)"
    by (auto simp: snap_Provision_def snapshotRestore_def Let_def split: if_splits option.splits sum.splits prod.splits)
  from r(1) have vp: "volume_plugin (GetSupportedVolumeFromSnapshotDataSpec (vsd_Spec data)) plugin" by (rule entries)
  with r volume_plugin.restored_type [OF vp r(2)] volume_plugin.restored_deleted_by [OF vp r(1,2)] show ?thesis
    by blast
qed

text \<open>The data of a snapshot taken through the table leads back to the plugin that took it.\<close>

lemma taken_type:
  assumes "e_volumePlugins env = (\<lambda>ty. map_option Plugin.truncate (fmlookup table ty))"
    and "takeSnapshot env snapshot pv tags c = (Inr (Some src, conditions), c')"
  shows "GetSupportedVolumeFromSnapshotDataSpec (spec\<lparr>spec_Source := src\<rparr>) = GetSupportedVolumeFromPVSpec pv"
proof -
  from assms obtain plugin where p: "fmlookup table (GetSupportedVolumeFromPVSpec pv) = Some plugin"
    "pl_SnapshotCreate plugin snapshot pv tags c = (Inr (Some src, conditions), c')"
    by (auto simp: takeSnapshot_def pluginFor_def Plugin.truncate_def split: if_splits option.splits sum.splits prod.splits)
  from volume_plugin.create_type [OF entries [OF p(1)] p(2)] show ?thesis .
qed

end

lemma plugin_table_upd:
  assumes "plugin_table table" "volume_plugin name plugin"
  shows "plugin_table (fmupd name plugin table)"
  using assms by (auto simp: plugin_table_def split: if_splits)

lemma plugin_table_empty: "plugin_table fmempty"
  by (simp add: plugin_table_def)

lemma initPlugin_table:
  "plugin_table table \<Longrightarrow> initPlugin cloudProvider cloud table = Some table' \<Longrightarrow> plugin_table table'"
  by (auto simp: initPlugin_def split: if_splits cloudObject.splits
      intro!: plugin_table_upd aws_ebs.volume_plugin_axioms gce_pd.volume_plugin_axioms cinder.volume_plugin_axioms)

text \<open>The table the two commands build, whatever the flags, is such a table.\<close>

definition builtPlugins ::
  "'c providers \<Rightarrow> (string \<Rightarrow> string result) \<Rightarrow> 'c pluginOS \<Rightarrow> string \<Rightarrow> string \<Rightarrow> 'c pluginTable" where
  "builtPlugins providers open_file os cloudProvider cloudConfigFile =
     (case buildVolumePlugins providers open_file os cloudProvider cloudConfigFile of
        Some (_, table) \<Rightarrow> table
      | None \<Rightarrow> fmempty)"

interpretation built: plugin_table "builtPlugins providers open_file os cloudProvider cloudConfigFile"
  for providers open_file os cloudProvider cloudConfigFile
proof -
  have local_plugins: "plugin_table table \<Longrightarrow>
      plugin_table (fmupd ''hostPath'' (hostPathPlugin os) (fmupd ''glusterfs'' (glusterfsPlugin os) table))" for table
    by (intro plugin_table_upd hostPath.volume_plugin_axioms glusterfs.volume_plugin_axioms)
  show "plugin_table (builtPlugins providers open_file os cloudProvider cloudConfigFile)"
    by (auto simp: builtPlugins_def buildVolumePlugins_def Let_def plugin_table_empty local_plugins
        dest: initPlugin_table [OF plugin_table_empty]
        split: option.split if_splits sum.splits option.splits)
qed

section \<open>The contract of a marking provisioner\<close>

interpretation snapProv: marking_provisioner
  "snap_Provision env table" "snap_Delete table" "\<lambda>(identity, c). (snapshotProvisionerIDAnn, identity)"
  for env :: "'c env" and table
proof unfold_locales
  fix options and s :: "string \<times> 'c" and pv s'
  assume "snap_Provision env table options s = Some (Inr pv, s')"
  then obtain src labels where "pv = snap_PV (fst s) options src labels"
    by (cases s) (auto simp: snap_Provision_def split: if_splits option.splits sum.splits prod.splits)
  then show "fmlookup (pv_Annotations pv) (fst (case s of (identity, c) \<Rightarrow> (snapshotProvisionerIDAnn, identity))) =
      Some (snd (case s of (identity, c) \<Rightarrow> (snapshotProvisionerIDAnn, identity)))"
    by (cases s; cases src) (simp_all add: snap_PV_def)
next
  fix options and s :: "string \<times> 'c" and r s'
  assume "snap_Provision env table options s = Some (r, s')"
  then show "(case s' of (identity, c) \<Rightarrow> (snapshotProvisionerIDAnn, identity)) =
      (case s of (identity, c) \<Rightarrow> (snapshotProvisionerIDAnn, identity))"
    by (cases s; cases s') (auto simp: snap_Provision_def split: if_splits option.splits sum.splits prod.splits)
next
  fix pv and s :: "string \<times> 'c" and e s'
  assume "snap_Delete table pv s = Some (e, s')"
  then show "(case s' of (identity, c) \<Rightarrow> (snapshotProvisionerIDAnn, identity)) =
      (case s of (identity, c) \<Rightarrow> (snapshotProvisionerIDAnn, identity))"
    by (cases s; cases s') (auto simp: snap_Delete_def Let_def split: if_splits option.splits sum.splits prod.splits)
next
  fix pv :: PersistentVolume and s :: "string \<times> 'c"
  assume "fmlookup (pv_Annotations pv) (fst (case s of (identity, c) \<Rightarrow> (snapshotProvisionerIDAnn, identity))) \<noteq>
      Some (snd (case s of (identity, c) \<Rightarrow> (snapshotProvisionerIDAnn, identity)))"
  then show "\<exists>err. snap_Delete table pv s = Some (Some err, s)"
    by (cases s) (auto simp: snap_Delete_def split: option.split)
qed

section \<open>Restored volumes\<close>

text \<open>
  C16. A volume is deleted by the plugin that restored it. Whatever cloud provider the command was
  started with: a volume provisioned from a snapshot was restored by the plugin registered for the
  snapshot's type, the volume is of that type, it carries the provisioner's identity and the
  claim's capacity and access modes, and deleting it later, in any state of the cluster, is a call
  of the same plugin's \<open>VolumeDelete\<close> on this volume, whose error is the result.
\<close>

theorem restored_volume_deleted_by_its_plugin:
  assumes "buildVolumePlugins providers open_file os cloudProvider cloudConfigFile = Some (None, table)"
    and "snap_Provision env table options (identity, c) = Some (Inr pv, s')"
  shows "\<exists>data plugin pvSrc labels c1 c2.
    fmlookup table (GetSupportedVolumeFromSnapshotDataSpec (vsd_Spec data)) = Some plugin \<and>
    pl_SnapshotRestore plugin data (Some (claimOf options)) (vo_PVName options) (vo_Parameters options) c1 =
      (Inr (pvSrc, labels), c2) \<and> s' = (identity, c2) \<and>
    GetSupportedVolumeFromPVSpec pv = GetSupportedVolumeFromSnapshotDataSpec (vsd_Spec data) \<and>
    fmlookup (pv_Annotations pv) snapshotProvisionerIDAnn = Some identity \<and>
    pv_Capacity pv = Some (vo_Request options) \<and> pv_AccessModes pv = vo_AccessModes options \<and>
    (\<forall>c3. snap_Delete table pv (identity, c3) =
       (case pl_VolumeDelete plugin pv c3 of
          (Inl err, c4) \<Rightarrow> Some (Some err, identity, c4)
        | (Inr _, c4) \<Rightarrow> Some (None, identity, c4)))"
proof -
  have table: "builtPlugins providers open_file os cloudProvider cloudConfigFile = table"
    by (simp add: builtPlugins_def assms(1))
  have fields: "fmlookup (pv_Annotations (snap_PV identity options src labels)) snapshotProvisionerIDAnn = Some identity \<and>
      pv_Capacity (snap_PV identity options src labels) = Some (vo_Request options) \<and>
      pv_AccessModes (snap_PV identity options src labels) = vo_AccessModes options" for src labels
    by (cases src) (simp_all add: snap_PV_def)
  from built.provisioned_deleted_by [where providers = providers and open_file = open_file and os = os and
      cloudProvider = cloudProvider and cloudConfigFile = cloudConfigFile, unfolded table, OF assms(2)]
  obtain data plugin pvSrc labels c1 c2 where d:
    "fmlookup table (GetSupportedVolumeFromSnapshotDataSpec (vsd_Spec data)) = Some plugin"
    "pl_SnapshotRestore plugin data (Some (claimOf options)) (vo_PVName options) (vo_Parameters options) c1 =
      (Inr (pvSrc, labels), c2)" "pv = snap_PV identity options pvSrc labels" "s' = (identity, c2)"
    "GetSupportedVolumeFromPVSpec pv = GetSupportedVolumeFromSnapshotDataSpec (vsd_Spec data)"
    "\<forall>c3. snap_Delete table pv (identity, c3) =
       (case pl_VolumeDelete plugin pv c3 of
          (Inl err, c4) \<Rightarrow> Some (Some err, identity, c4)
        | (Inr _, c4) \<Rightarrow> Some (None, identity, c4))"
    by blast
  with fields [of pvSrc labels] show ?thesis by blast
qed

text \<open>
  C15. The two commands agree on the plugin of a snapshot. When the snapshot controller has taken a
  snapshot of a volume, through the table built from the same flags, the data object made of the
  plugin's answer has the type of the volume: the controller deletes the snapshot with the plugin
  that took it, and the provisioner restores it with the same plugin.
\<close>

theorem snapshot_handled_by_one_plugin:
  assumes "buildVolumePlugins providers open_file os cloudProvider cloudConfigFile = Some (None, table)"
    and "e_volumePlugins env = (\<lambda>ty. map_option Plugin.truncate (fmlookup table ty))"
    and "takeSnapshot env snapshot pv tags c = (Inr (Some src, conditions), c')"
    and "spec_Source (vsd_Spec data) = src"
  shows "\<exists>plugin. fmlookup table (GetSupportedVolumeFromPVSpec pv) = Some plugin \<and>
    pl_SnapshotCreate plugin snapshot pv tags c = (Inr (Some src, conditions), c') \<and>
    pluginFor env ''unsupported volume type found in VolumeSnapshotData %#v''
      (GetSupportedVolumeFromSnapshotDataSpec (vsd_Spec data)) = Inr (Plugin.truncate plugin) \<and>
    (\<forall>options c2. snapshotRestore table data options c2 =
       pl_SnapshotRestore plugin data (Some (claimOf options)) (vo_PVName options) (vo_Parameters options) c2)"
proof -
  have table: "builtPlugins providers open_file os cloudProvider cloudConfigFile = table"
    by (simp add: builtPlugins_def assms(1))
  have spec: "(vsd_Spec data)\<lparr>spec_Source := src\<rparr> = vsd_Spec data" using assms(4) by simp
  from built.taken_type [where providers = providers and open_file = open_file and os = os and
      cloudProvider = cloudProvider and cloudConfigFile = cloudConfigFile, unfolded table, OF assms(2,3)] spec
  have ty: "GetSupportedVolumeFromSnapshotDataSpec (vsd_Spec data) = GetSupportedVolumeFromPVSpec pv" by metis
  from assms(2,3) obtain plugin where p: "GetSupportedVolumeFromPVSpec pv \<noteq> ''''"
    "fmlookup table (GetSupportedVolumeFromPVSpec pv) = Some plugin"
    "pl_SnapshotCreate plugin snapshot pv tags c = (Inr (Some src, conditions), c')"
    by (auto simp: takeSnapshot_def pluginFor_def Plugin.truncate_def split: if_splits option.splits sum.splits prod.splits)
  with ty assms(2) show ?thesis
    by (intro exI [of _ plugin]) (simp add: pluginFor_def snapshotRestore_def)
qed

text \<open>
  With the provider named \<open>external\<close> the commands start without any plugin: no error is reported,
  but neither the cloud's plugin nor the two that need no cloud are registered, so every request to
  provision or to delete a volume ends with an error and changes nothing in the cluster but reads.
\<close>

theorem external_provider_has_no_plugins:
  "buildVolumePlugins providers open_file os ''external'' cloudConfigFile = Some (None, fmempty) \<and>
   (\<exists>err s'. snap_Provision env fmempty options s = Some (Inl err, s')) \<and>
   (\<exists>err. snap_Delete fmempty pv s = Some (Some err, s))"
proof -
  have "buildVolumePlugins providers open_file os ''external'' cloudConfigFile = Some (None, fmempty)"
    by (simp add: buildVolumePlugins_def InitCloudProvider_def IsExternal_def)
  moreover have "\<exists>err s'. snap_Provision env fmempty options s = Some (Inl err, s')"
    by (cases s) (simp add: snap_Provision_def snapshotRestore_def Let_def split: option.split sum.split prod.split)
  moreover have "\<exists>err. snap_Delete fmempty pv s = Some (Some err, s)"
    by (cases s) (simp add: snap_Delete_def Let_def split: option.split)
  ultimately show ?thesis by blast
qed

section \<open>Witnesses\<close>

definition demo_os :: "'c pluginOS" where
  "demo_os =
     \<lparr>xo_exec = (\<lambda>_ c. ((''out'', None), c)), xo_Remove = (\<lambda>_ c. (None, c)), xo_Stat = (\<lambda>_ _. None),
      xo_MkdirAll = (\<lambda>_ _ c. (None, c)), xo_RemoveAll = (\<lambda>_ c. (None, c)), xo_NewUUID = (\<lambda>c. (''u'', c)),
      xo_Now = (\<lambda>c. (7, c))\<rparr>"

definition demo_table :: "'c pluginTable" where
  "demo_table = fmupd ''hostPath'' (hostPathPlugin demo_os) (fmupd ''glusterfs'' (glusterfsPlugin demo_os) fmempty)"

lemma demo_table_built: "buildVolumePlugins fmempty (\<lambda>_. Inr '''') demo_os '''' '''' = Some (None, demo_table)"
  by (simp add: buildVolumePlugins_def demo_table_def)

definition demo_restore_options :: VolumeOptions where
  "demo_restore_options =
     \<lparr>vo_PVName = ''pv2'', vo_Parameters = fmempty, vo_ReclaimPolicy = ''Delete'', vo_MountOptions = None, vo_Selector = False,
      vo_AccessModes = [''ReadWriteOnce''], vo_Request = 5, vo_VolumeMode = None, vo_PVCName = ''c'', vo_PVCNamespace = ''ns'',
      vo_PVCAnnotations = fmupd SnapshotPVCAnnotation ''s'' fmempty\<rparr>"

definition demo_bound :: demo_cluster where
  "demo_bound = \<lparr>dc_snap = demo_snap\<lparr>vs_SnapshotDataName := ''d''\<rparr>,
     dc_data = [newSnapshotData ''d'' ''ns/s-1'' ''pv1'' (emptySource\<lparr>src_HostPath := Some ''/tmp/u.tgz''\<rparr>) demo_ready]\<rparr>"

theorem restored_volume_deleted_by_its_plugin_witness:
  "\<exists>pv s'. snap_Provision demo_env demo_table demo_restore_options (''me'', demo_bound) = Some (Inr pv, s') \<and>
     GetSupportedVolumeFromPVSpec pv = ''hostPath'' \<and>
     fmlookup (pv_Annotations pv) snapshotProvisionerIDAnn = Some ''me''"
proof -
  have p: "snap_Provision demo_env demo_table demo_restore_options (''me'', demo_bound) =
      Some (Inr (snap_PV ''me'' demo_restore_options (SrcHostPath ''/tmp/restore/u'') None), (''me'', demo_bound))"
    by (simp add: snap_Provision_def snapshotRestore_def demo_restore_options_def demo_env_def demo_bound_def demo_snap_def
        newSnapshotData_def emptySource_def GetSupportedVolumeFromSnapshotDataSpec_def demo_table_def hostPathPlugin_def
        hp_SnapshotRestore_def demo_os_def Let_def)
  have "GetSupportedVolumeFromPVSpec (snap_PV ''me'' demo_restore_options (SrcHostPath ''/tmp/restore/u'') None) = ''hostPath''"
    by (simp add: hostPath.restored_type snap_PV_def GetSupportedVolumeFromPVSpec_def zero_PV_def)
  with p restored_volume_deleted_by_its_plugin [OF demo_table_built p] show ?thesis by blast
qed

theorem snapshot_handled_by_one_plugin_witness:
  "\<exists>plugin. fmlookup demo_table ''hostPath'' = Some plugin \<and>
     (\<exists>env' :: demo_cluster env. pluginFor env' ''unsupported volume type found in VolumeSnapshotData %#v'' ''hostPath'' =
        Inr (Plugin.truncate plugin))"
proof -
  let ?env = "demo_env\<lparr>e_volumePlugins := (\<lambda>ty. map_option Plugin.truncate (fmlookup demo_table ty))\<rparr>"
  let ?pv = "zero_PV\<lparr>pv_HostPath := Some ''/tmp''\<rparr>" and ?src = "emptySource\<lparr>src_HostPath := Some ''/tmp/u.tgz''\<rparr>"
  let ?data = "newSnapshotData ''d'' ''ns/s-1'' ''pv1'' ?src demo_ready"
  have env: "e_volumePlugins ?env = (\<lambda>ty. map_option Plugin.truncate (fmlookup demo_table ty))" by simp
  have pv: "GetSupportedVolumeFromPVSpec ?pv = ''hostPath''" by (simp add: GetSupportedVolumeFromPVSpec_def)
  have take: "takeSnapshot ?env demo_snap ?pv None demo_bound =
      (Inr (Some ?src, Some [newCondition ConditionReady ConditionTrue ''Snapshot created successfully'' 7]), demo_bound)"
    by (simp add: takeSnapshot_def pluginFor_def pv demo_table_def hostPathPlugin_def hp_SnapshotCreate_def demo_os_def
        Plugin.truncate_def Let_def)
  have src: "spec_Source (vsd_Spec ?data) = ?src" by (simp add: newSnapshotData_def)
  have ty: "GetSupportedVolumeFromSnapshotDataSpec (vsd_Spec ?data) = ''hostPath''"
    by (simp add: newSnapshotData_def GetSupportedVolumeFromSnapshotDataSpec_def)
  from snapshot_handled_by_one_plugin [OF demo_table_built env take src] show ?thesis
    unfolding pv ty by blast
qed

end
