(* ===== verification/AwsGroups.thy ===== *)
theory AwsGroups
  imports AwsVolumes
begin

text \<open>
  The security groups of the AWS provider: the set of permissions of \<open>sets_ippermissions.go\<close> and
  the operations of \<open>aws.go\<close> that open and close the ingress of a group and make sure one exists.

  \<open>awsNet\<close> is what the networking half of the cloud object keeps, \<open>ec2Net\<close> the calls it makes on
  the EC2 client beside those of \<open>ec2API\<close>. The JSON text of a permission, which is its key in the
  set, and the order in which \<open>range\<close> visits the keys of a map are parameters. The pointers of the
  SDK's structs are \<open>option\<close>s where the code tells nil apart; a permission of the SDK has the fields
  the code reads.
\<close>

record userIdGroupPair =
  ug_GroupId :: "string option"
  ug_UserId :: "string option"

record ipPermission =
  ip_FromPort :: "int option"
  ip_ToPort :: "int option"
  ip_IpProtocol :: "string option"
  ip_IpRanges :: "string option list"
  ip_UserIdGroupPairs :: "userIdGroupPair list"
  ip_PrefixListIds :: "string option list"

record securityGroup =
  gp_GroupId :: string
  gp_Tags :: "ec2Tag list"
  gp_IpPermissions :: "ipPermission list"

record ec2Subnet =
  sn_SubnetId :: string
  sn_AvailabilityZone :: string
  sn_Tags :: "ec2Tag list"

record ec2Route =
  rt_DestinationCidrBlock :: string
  rt_InstanceId :: string
  rt_GatewayId :: string
  rt_State :: string

record ec2RouteTable =
  tb_RouteTableId :: string
  tb_Associations :: "(string \<times> bool) list"
  tb_Routes :: "ec2Route list"
  tb_Tags :: "ec2Tag list"

record 'c ec2Net =
  en_ec2 :: "'c ec2API"
  en_DescribeSecurityGroups :: "string list \<Rightarrow> ec2Filter list \<Rightarrow> 'c \<Rightarrow> awsErr + securityGroup list"
  en_CreateSecurityGroup :: "string \<Rightarrow> string \<Rightarrow> string \<Rightarrow> 'c \<Rightarrow> (awsErr + string) \<times> 'c"
  en_DeleteSecurityGroup :: "string \<Rightarrow> 'c \<Rightarrow> awsErr option \<times> 'c"
  en_AuthorizeIngress :: "string \<Rightarrow> ipPermission list \<Rightarrow> 'c \<Rightarrow> awsErr option \<times> 'c"
  en_RevokeIngress :: "string \<Rightarrow> ipPermission list \<Rightarrow> 'c \<Rightarrow> awsErr option \<times> 'c"
  en_DescribeSubnets :: "ec2Filter list \<Rightarrow> 'c \<Rightarrow> awsErr + ec2Subnet list"
  en_DescribeRouteTables :: "ec2Filter list \<Rightarrow> 'c \<Rightarrow> awsErr + ec2RouteTable list"
  en_CreateRoute :: "string \<Rightarrow> string \<Rightarrow> string \<Rightarrow> 'c \<Rightarrow> awsErr option \<times> 'c"
  en_DeleteRoute :: "string \<Rightarrow> string \<Rightarrow> 'c \<Rightarrow> awsErr option \<times> 'c"
  en_SetSourceDestCheck :: "string \<Rightarrow> bool \<Rightarrow> 'c \<Rightarrow> awsErr option \<times> 'c"
  en_json :: "ipPermission \<Rightarrow> string"
  en_range :: "string fset \<Rightarrow> 'c \<Rightarrow> string list"
  en_Sleep :: "nat \<Rightarrow> 'c \<Rightarrow> 'c"

definition legal_range :: "'c ec2Net \<Rightarrow> bool" where
  "legal_range net \<longleftrightarrow> (\<forall>ks c. distinct (en_range net ks c) \<and> fset_of_list (en_range net ks c) = ks)"

record awsNet =
  an_cloud :: awsCloud
  an_vpcID :: string
  an_RouteTableID :: string
  an_DisableSecurityGroupIngress :: bool

section \<open>sets_ippermissions.go\<close>

type_synonym IPPermissionSet = "ipPermission gomap"

definition keyForIPPermission :: "'c ec2Net \<Rightarrow> ipPermission \<Rightarrow> string" where
  "keyForIPPermission net p = en_json net p"

definition ips_Insert :: "'c ec2Net \<Rightarrow> ipPermission list \<Rightarrow> IPPermissionSet \<Rightarrow> IPPermissionSet" where
  "ips_Insert net items s = foldl (\<lambda>s p. fmupd (keyForIPPermission net p) p s) s items"

definition NewIPPermissionSet :: "'c ec2Net \<Rightarrow> ipPermission list \<Rightarrow> IPPermissionSet" where
  "NewIPPermissionSet net items = ips_Insert net items fmempty"

definition ips_List :: "'c ec2Net \<Rightarrow> IPPermissionSet \<Rightarrow> 'c \<Rightarrow> ipPermission list" where
  "ips_List net s c = map_values (en_range net (fmdom s) c) s"

definition ips_IsSuperset :: "IPPermissionSet \<Rightarrow> IPPermissionSet \<Rightarrow> bool" where
  "ips_IsSuperset s s2 = fBall (fmdom s2) (\<lambda>k. fmlookup s k \<noteq> None)"

definition ips_Len :: "IPPermissionSet \<Rightarrow> nat" where
  "ips_Len s = map_len s"

definition ips_Equal :: "IPPermissionSet \<Rightarrow> IPPermissionSet \<Rightarrow> bool" where
  "ips_Equal s s2 \<longleftrightarrow> map_len s = map_len s2 \<and> ips_IsSuperset s s2"

definition ips_Difference :: "IPPermissionSet \<Rightarrow> IPPermissionSet \<Rightarrow> IPPermissionSet" where
  "ips_Difference s s2 = fmfilter (\<lambda>k. fmlookup s2 k = None) s"

text \<open>
  The three passes of \<open>Ungroup\<close>: the second one restarts from the list of the first pass at every
  pair (\<open>l2 = append(l, c)\<close>), the others accumulate.
\<close>

definition splitRanges :: "ipPermission \<Rightarrow> ipPermission list" where
  "splitRanges p =
     (if length (ip_IpRanges p) \<le> 1 then [p] else map (\<lambda>r. p\<lparr>ip_IpRanges := [r]\<rparr>) (ip_IpRanges p))"

definition splitPairs :: "ipPermission list \<Rightarrow> ipPermission list" where
  "splitPairs l =
     foldl (\<lambda>l2 p. if length (ip_UserIdGroupPairs p) \<le> 1 then l2 @ [p]
                   else foldl (\<lambda>l2 u. l @ [p\<lparr>ip_UserIdGroupPairs := [u]\<rparr>]) l2 (ip_UserIdGroupPairs p)) [] l"

definition splitPrefixes :: "ipPermission \<Rightarrow> ipPermission list" where
  "splitPrefixes p =
     (if length (ip_PrefixListIds p) \<le> 1 then [p]
      else map (\<lambda>v. p\<lparr>ip_PrefixListIds := [v]\<rparr>) (ip_PrefixListIds p))"

definition Ungroup :: "'c ec2Net \<Rightarrow> IPPermissionSet \<Rightarrow> 'c \<Rightarrow> IPPermissionSet" where
  "Ungroup net s c =
     (let l = concat (map splitRanges (ips_List net s c));
          l2 = splitPairs l;
          l3 = concat (map splitPrefixes l2)
      in NewIPPermissionSet net l3)"

section \<open>Comparing permissions\<close>

definition isEqualPointer :: "'a option \<Rightarrow> 'a option \<Rightarrow> bool" where
  "isEqualPointer l r =
     (case l of None \<Rightarrow> r = None | Some x \<Rightarrow> (case r of None \<Rightarrow> l = None | Some y \<Rightarrow> x = y))"

text \<open>The log line of \<open>isEqualUserGroupPair\<close> dereferences both group identifiers.\<close>

definition isEqualUserGroupPair :: "userIdGroupPair \<Rightarrow> userIdGroupPair \<Rightarrow> bool \<Rightarrow> bool option" where
  "isEqualUserGroupPair l r compareGroupUserIDs =
     (if ug_GroupId l = None \<or> ug_GroupId r = None then None
      else if isEqualPointer (ug_GroupId l) (ug_GroupId r) then
        Some (if compareGroupUserIDs then isEqualPointer (ug_UserId l) (ug_UserId r) else True)
      else Some False)"

fun anyEqualPair :: "userIdGroupPair \<Rightarrow> userIdGroupPair list \<Rightarrow> bool \<Rightarrow> bool option" where
  "anyEqualPair l [] compareGroupUserIDs = Some False"
| "anyEqualPair l (r # rs) compareGroupUserIDs =
     (case isEqualUserGroupPair l r compareGroupUserIDs of
        None \<Rightarrow> None
      | Some True \<Rightarrow> Some True
      | Some False \<Rightarrow> anyEqualPair l rs compareGroupUserIDs)"

text \<open>The loop over the pairs of the new permission returns in its first iteration.\<close>

definition ipPermissionExists :: "ipPermission \<Rightarrow> ipPermission \<Rightarrow> bool \<Rightarrow> bool option" where
  "ipPermissionExists newPermission existing compareGroupUserIDs =
     (if \<not> isEqualPointer (ip_FromPort newPermission) (ip_FromPort existing) then Some False
      else if \<not> isEqualPointer (ip_ToPort newPermission) (ip_ToPort existing) then Some False
      else if \<not> isEqualPointer (ip_IpProtocol newPermission) (ip_IpProtocol existing) then Some False
      else if length (ip_IpRanges newPermission) > length (ip_IpRanges existing) then Some False
      else if \<not> list_all (\<lambda>r. list_ex (isEqualPointer r) (ip_IpRanges existing)) (ip_IpRanges newPermission)
        then Some False
      else
        (case ip_UserIdGroupPairs newPermission of
           [] \<Rightarrow> Some True
         | leftPair # _ \<Rightarrow> anyEqualPair leftPair (ip_UserIdGroupPairs existing) compareGroupUserIDs))"

section \<open>The ingress of a group\<close>

definition findSecurityGroup :: "'c ec2Net \<Rightarrow> string \<Rightarrow> 'c \<Rightarrow> awsErr + securityGroup option" where
  "findSecurityGroup net securityGroupID c =
     (case en_DescribeSecurityGroups net [securityGroupID] [] c of
        Inl err \<Rightarrow> Inl err
      | Inr [] \<Rightarrow> Inr None
      | Inr [grp] \<Rightarrow> Inr (Some grp)
      | Inr _ \<Rightarrow> Inl (AwsErrorf ''multiple security groups found with same id %q'' [securityGroupID]))"

definition setSecurityGroupIngress ::
  "'c ec2Net \<Rightarrow> string \<Rightarrow> IPPermissionSet \<Rightarrow> 'c \<Rightarrow> (awsErr + bool) \<times> 'c" where
  "setSecurityGroupIngress net securityGroupID permissions c =
     (case findSecurityGroup net securityGroupID c of
        Inl err \<Rightarrow> (Inl err, c)
      | Inr None \<Rightarrow> (Inl (AwsErrorf ''security group not found: %s'' [securityGroupID]), c)
      | Inr (Some grp) \<Rightarrow>
          let actual = NewIPPermissionSet net (gp_IpPermissions grp);
              permissions = Ungroup net permissions c;
              actual = Ungroup net actual c;
              remove = ips_Difference actual permissions;
              add = ips_Difference permissions actual
          in if ips_Len add = 0 \<and> ips_Len remove = 0 then (Inr False, c)
             else
               (case (if ips_Len add \<noteq> 0 then en_AuthorizeIngress net securityGroupID (ips_List net add c) c
                      else (None, c)) of
                  (Some err, c) \<Rightarrow> (Inl (AwsWrapf ''error authorizing security group ingress: %v'' [] err), c)
                | (None, c) \<Rightarrow>
                    (case (if ips_Len remove \<noteq> 0 then en_RevokeIngress net securityGroupID (ips_List net remove c) c
                           else (None, c)) of
                       (Some err, c) \<Rightarrow> (Inl (AwsWrapf ''error revoking security group ingress: %v'' [] err), c)
                     | (None, c) \<Rightarrow> (Inr True, c))))"

definition hasUserID :: "ipPermission \<Rightarrow> bool" where
  "hasUserID p = list_ex (\<lambda>u. ug_UserId u \<noteq> None) (ip_UserIdGroupPairs p)"

fun permissionFound :: "ipPermission \<Rightarrow> ipPermission list \<Rightarrow> bool option" where
  "permissionFound p [] = Some False"
| "permissionFound p (q # qs) =
     (case ipPermissionExists p q (hasUserID p) of
        None \<Rightarrow> None
      | Some True \<Rightarrow> Some True
      | Some False \<Rightarrow> permissionFound p qs)"

fun permissionChanges :: "bool \<Rightarrow> ipPermission list \<Rightarrow> ipPermission list \<Rightarrow> ipPermission list option" where
  "permissionChanges wanted [] existing = Some []"
| "permissionChanges wanted (p # ps) existing =
     (case permissionFound p existing of
        None \<Rightarrow> None
      | Some found \<Rightarrow>
          map_option (\<lambda>changes. if found = wanted then p # changes else changes) (permissionChanges wanted ps existing))"

definition addSecurityGroupIngress ::
  "'c ec2Net \<Rightarrow> string \<Rightarrow> ipPermission list \<Rightarrow> 'c \<Rightarrow> ((awsErr + bool) \<times> 'c) option" where
  "addSecurityGroupIngress net securityGroupID addPermissions c =
     (case findSecurityGroup net securityGroupID c of
        Inl err \<Rightarrow> Some (Inl err, c)
      | Inr None \<Rightarrow> Some (Inl (AwsErrorf ''security group not found: %s'' [securityGroupID]), c)
      | Inr (Some grp) \<Rightarrow>
          (case permissionChanges False addPermissions (gp_IpPermissions grp) of
             None \<Rightarrow> None
           | Some changes \<Rightarrow>
               Some (if length changes = 0 then (Inr False, c)
                     else
                       (case en_AuthorizeIngress net securityGroupID changes c of
                          (Some err, c) \<Rightarrow> (Inl (AwsWrapf ''error authorizing security group ingress: %v'' [] err), c)
                        | (None, c) \<Rightarrow> (Inr True, c)))))"

definition removeSecurityGroupIngress ::
  "'c ec2Net \<Rightarrow> string \<Rightarrow> ipPermission list \<Rightarrow> 'c \<Rightarrow> ((awsErr + bool) \<times> 'c) option" where
  "removeSecurityGroupIngress net securityGroupID removePermissions c =
     (case findSecurityGroup net securityGroupID c of
        Inl err \<Rightarrow> Some (Inl err, c)
      | Inr None \<Rightarrow> Some (Inr False, c)
      | Inr (Some grp) \<Rightarrow>
          (case permissionChanges True removePermissions (gp_IpPermissions grp) of
             None \<Rightarrow> None
           | Some changes \<Rightarrow>
               Some (if length changes = 0 then (Inr False, c)
                     else
                       (case en_RevokeIngress net securityGroupID changes c of
                          (Some err, c) \<Rightarrow> (Inl err, c)
                        | (None, c) \<Rightarrow> (Inr True, c)))))"

section \<open>ensureSecurityGroup\<close>

abbreviation MaxReadThenCreateRetries :: nat where
  "MaxReadThenCreateRetries \<equiv> 30"

text \<open>The endless loop of the code: only \<open>InvalidGroup.Duplicate\<close> before the last attempt goes round.\<close>

function ensureGroup_loop ::
  "'c ec2Net \<Rightarrow> awsNet \<Rightarrow> string \<Rightarrow> string \<Rightarrow> nat \<Rightarrow> 'c \<Rightarrow> (awsErr + string) \<times> 'c" where
  "ensureGroup_loop net n gname description attempt c =
     (let attempt = attempt + 1 in
      case en_DescribeSecurityGroups net [] [(''group-name'', [gname]), (''vpc-id'', [an_vpcID n])] c of
        Inl err \<Rightarrow> (Inl err, c)
      | Inr (grp # _) \<Rightarrow>
          (case readRepairClusterTags (en_ec2 net) (ac_tagging (an_cloud n)) (gp_GroupId grp)
                  ResourceLifecycleOwned fmempty (gp_Tags grp) c of
             (Some err, c) \<Rightarrow> (Inl err, c)
           | (None, c) \<Rightarrow> (Inr (gp_GroupId grp), c))
      | Inr [] \<Rightarrow>
          (case en_CreateSecurityGroup net (an_vpcID n) gname description c of
             (Inl err, c) \<Rightarrow>
               (case err of
                  AwsAPIErr code _ \<Rightarrow>
                    if code = ''InvalidGroup.Duplicate'' \<and> attempt < MaxReadThenCreateRetries then
                      ensureGroup_loop net n gname description attempt (en_Sleep net 1 c)
                    else (Inl err, c)
                | _ \<Rightarrow> (Inl err, c))
           | (Inr groupID, c) \<Rightarrow>
               if groupID = '''' then
                 (Inl (AwsErrorf ''created security group, but id was not returned: %s'' [gname]), c)
               else
                 (case createTags (en_ec2 net) (ac_tagging (an_cloud n)) groupID ResourceLifecycleOwned fmempty c of
                    (Some err, c) \<Rightarrow> (Inl (AwsWrapf ''error tagging security group: %v'' [] err), c)
                  | (None, c) \<Rightarrow> (Inr groupID, c))))"
  by auto
termination
  by (relation "measure (\<lambda>(net, n, gname, description, attempt, c). MaxReadThenCreateRetries - attempt)") auto

declare ensureGroup_loop.simps [simp del]

definition ensureSecurityGroup ::
  "'c ec2Net \<Rightarrow> awsNet \<Rightarrow> string \<Rightarrow> string \<Rightarrow> 'c \<Rightarrow> (awsErr + string) \<times> 'c" where
  "ensureSecurityGroup net n gname description c = ensureGroup_loop net n gname description 0 c"

section \<open>What the set of permissions promises\<close>

text \<open>
  A permission allows each of its ranges, pairs and prefix lists: its atoms are the permissions
  with at most one of each that allow the same together. An empty list is one atom.
\<close>

definition chop :: "'a list \<Rightarrow> 'a list set" where
  "chop xs = (if length xs \<le> 1 then {xs} else (\<lambda>x. [x]) ` set xs)"

definition rule_atoms :: "ipPermission \<Rightarrow> ipPermission set" where
  "rule_atoms p =
     (\<Union>a \<in> chop (ip_IpRanges p). \<Union>b \<in> chop (ip_UserIdGroupPairs p). \<Union>d \<in> chop (ip_PrefixListIds p).
        {p\<lparr>ip_IpRanges := a, ip_UserIdGroupPairs := b, ip_PrefixListIds := d\<rparr>})"

definition allowed :: "ipPermission set \<Rightarrow> ipPermission set" where
  "allowed ps = (\<Union>p \<in> ps. rule_atoms p)"

definition contents :: "IPPermissionSet \<Rightarrow> ipPermission set" where
  "contents s = {p. \<exists>k. fmlookup s k = Some p}"

definition keyed :: "'c ec2Net \<Rightarrow> IPPermissionSet \<Rightarrow> bool" where
  "keyed net s \<longleftrightarrow> (\<forall>k p. fmlookup s k = Some p \<longrightarrow> en_json net p = k)"

definition single_pairs :: "ipPermission set \<Rightarrow> bool" where
  "single_pairs ps \<longleftrightarrow> (\<forall>p \<in> ps. length (ip_UserIdGroupPairs p) \<le> 1)"

lemma ips_Insert_snoc:
  "ips_Insert net (items @ [p]) s = fmupd (en_json net p) p (ips_Insert net items s)"
  by (simp add: ips_Insert_def keyForIPPermission_def)

lemma ips_Insert_keyed: "keyed net s \<Longrightarrow> keyed net (ips_Insert net items s)"
proof (induction items rule: rev_induct)
  case Nil
  then show ?case by (simp add: ips_Insert_def)
next
  case (snoc p items)
  then have "keyed net (ips_Insert net items s)" by blast
  then show ?case unfolding ips_Insert_snoc keyed_def
    by (metis (no_types) fmupd_lookup option.inject)
qed

lemma NewIPPermissionSet_keyed: "keyed net (NewIPPermissionSet net items)"
  unfolding NewIPPermissionSet_def by (rule ips_Insert_keyed) (simp add: keyed_def)

lemma contents_upd:
  assumes "fmlookup m k = None \<or> fmlookup m k = Some p"
  shows "contents (fmupd k p m) = insert p (contents m)"
proof (intro set_eqI iffI)
  fix q assume "q \<in> contents (fmupd k p m)"
  then show "q \<in> insert p (contents m)" by (auto simp: contents_def split: if_splits)
next
  fix q assume "q \<in> insert p (contents m)"
  then consider "q = p" | k' where "fmlookup m k' = Some q" by (auto simp: contents_def)
  then show "q \<in> contents (fmupd k p m)"
  proof cases
    case 1
    then have "fmlookup (fmupd k p m) k = Some q" by simp
    then show ?thesis unfolding contents_def by blast
  next
    case 2
    with assms have "fmlookup (fmupd k p m) k' = Some q" by auto
    then show ?thesis unfolding contents_def by blast
  qed
qed

lemma NewIPPermissionSet_contents:
  assumes "inj_on (en_json net) (set items)"
  shows "contents (NewIPPermissionSet net items) = set items"
  using assms
proof (induction items rule: rev_induct)
  case Nil
  then show ?case by (simp add: NewIPPermissionSet_def ips_Insert_def contents_def)
next
  case (snoc p items)
  let ?m = "NewIPPermissionSet net items"
  have m: "contents ?m = set items" using snoc by (simp add: inj_on_def)
  have "fmlookup ?m (en_json net p) = None \<or> fmlookup ?m (en_json net p) = Some p"
  proof (cases "fmlookup ?m (en_json net p)")
    case (Some q)
    then have "q \<in> set items" using m by (auto simp: contents_def)
    moreover have "en_json net q = en_json net p"
      using NewIPPermissionSet_keyed [of net items] Some by (auto simp: keyed_def)
    ultimately show ?thesis using snoc.prems Some by (auto simp: inj_on_def)
  qed simp
  then have "contents (fmupd (en_json net p) p ?m) = insert p (contents ?m)"
    by (rule contents_upd)
  with m show ?case by (simp add: NewIPPermissionSet_def ips_Insert_snoc)
qed

lemma set_ips_List: "legal_range net \<Longrightarrow> set (ips_List net s c) = contents s"
  by (auto simp: ips_List_def contents_def legal_range_def enumerates_def
        intro!: set_map_values_enumerates)

lemma contents_Difference:
  assumes "keyed net s" and "keyed net s2" and "inj_on (en_json net) (contents s \<union> contents s2)"
  shows "contents (ips_Difference s s2) = contents s - contents s2"
proof -
  have "fmlookup s2 k = None \<longleftrightarrow> p \<notin> contents s2" if "fmlookup s k = Some p" for k p
  proof -
    have k: "en_json net p = k" using assms(1) that by (simp add: keyed_def)
    have "p \<in> contents s" using that by (auto simp: contents_def)
    moreover have "q = p" if "fmlookup s2 k = Some q" for q
    proof -
      have "q \<in> contents s2" using that by (auto simp: contents_def)
      moreover have "en_json net q = en_json net p" using assms(2) that k by (simp add: keyed_def)
      ultimately show ?thesis
        using assms(3) \<open>p \<in> contents s\<close> by (auto simp: inj_on_def)
    qed
    ultimately show ?thesis
      using assms(2) k unfolding contents_def keyed_def by (cases "fmlookup s2 k") auto
  qed
  then show ?thesis by (auto simp: ips_Difference_def contents_def)
qed

lemma ips_Len_0: "ips_Len s = 0 \<longleftrightarrow> contents s = {}"
proof -
  have "s = fmempty \<longleftrightarrow> (\<forall>k. fmlookup s k = None)" by (auto intro: fmap_ext)
  also have "\<dots> \<longleftrightarrow> contents s = {}" unfolding contents_def by auto (metis option.exhaust)
  finally show ?thesis by (simp add: ips_Len_def map_len_0_iff)
qed

lemma splitPairs_single: "single_pairs (set l) \<Longrightarrow> splitPairs l = l"
proof -
  have "foldl (\<lambda>l2 p. if length (ip_UserIdGroupPairs p) \<le> 1 then l2 @ [p]
          else foldl (\<lambda>l2 u. l' @ [p\<lparr>ip_UserIdGroupPairs := [u]\<rparr>]) l2 (ip_UserIdGroupPairs p)) acc l = acc @ l"
    if "single_pairs (set l)" for acc l l'
    using that by (induction l arbitrary: acc) (auto simp: single_pairs_def)
  then show "single_pairs (set l) \<Longrightarrow> splitPairs l = l" by (simp add: splitPairs_def)
qed

lemma splitRanges_pairs: "q \<in> set (splitRanges p) \<Longrightarrow> ip_UserIdGroupPairs q = ip_UserIdGroupPairs p"
  by (auto simp: splitRanges_def split: if_splits)

lemma set_splitRanges: "set (splitRanges p) = (\<lambda>a. p\<lparr>ip_IpRanges := a\<rparr>) ` chop (ip_IpRanges p)"
  by (auto simp: splitRanges_def chop_def)

lemma set_splitPrefixes: "set (splitPrefixes p) = (\<lambda>d. p\<lparr>ip_PrefixListIds := d\<rparr>) ` chop (ip_PrefixListIds p)"
  by (auto simp: splitPrefixes_def chop_def)

lemma rule_atoms_single:
  assumes "length (ip_UserIdGroupPairs p) \<le> 1"
  shows "(\<Union>q \<in> set (splitRanges p). set (splitPrefixes q)) = rule_atoms p"
  using assms by (auto simp: rule_atoms_def set_splitRanges set_splitPrefixes chop_def [of "ip_UserIdGroupPairs p"])

lemma Ungroup_keyed: "keyed net (Ungroup net s c)"
  by (simp add: Ungroup_def Let_def NewIPPermissionSet_keyed)

lemma Ungroup_contents:
  assumes "legal_range net" and "single_pairs (contents s)"
    and "inj_on (en_json net) (allowed (contents s))"
  shows "contents (Ungroup net s c) = allowed (contents s)"
proof -
  let ?ps = "ips_List net s c"
  have ps: "set ?ps = contents s" using assms(1) by (rule set_ips_List)
  have "single_pairs (set (concat (map splitRanges ?ps)))"
    using assms(2) ps by (fastforce simp: single_pairs_def dest: splitRanges_pairs)
  then have "splitPairs (concat (map splitRanges ?ps)) = concat (map splitRanges ?ps)"
    by (rule splitPairs_single)
  moreover have "set (concat (map splitPrefixes (concat (map splitRanges ?ps)))) = allowed (contents s)"
  proof -
    have "(\<Union>p \<in> set ?ps. \<Union>q \<in> set (splitRanges p). set (splitPrefixes q)) = allowed (contents s)"
      unfolding allowed_def using assms(2) ps by (simp add: rule_atoms_single single_pairs_def)
    then show ?thesis by auto
  qed
  ultimately show ?thesis
    using assms(3) by (simp add: Ungroup_def Let_def NewIPPermissionSet_contents)
qed

section \<open>The ingress becomes what is asked for\<close>

text \<open>
  What the EC2 documentation says of the rules of a group: describing a group shows permissions
  that allow exactly its rules, authorizing adds what the permissions allow, revoking removes it.
\<close>

definition rules_honest :: "'c ec2Net \<Rightarrow> ('c \<Rightarrow> string \<Rightarrow> ipPermission set) \<Rightarrow> bool" where
  "rules_honest net rules \<longleftrightarrow>
     (\<forall>c gid g. en_DescribeSecurityGroups net [gid] [] c = Inr [g] \<longrightarrow>
        allowed (set (gp_IpPermissions g)) = rules c gid) \<and>
     (\<forall>c gid ps c'. en_AuthorizeIngress net gid ps c = (None, c') \<longrightarrow>
        rules c' gid = rules c gid \<union> allowed (set ps)) \<and>
     (\<forall>c gid ps c'. en_RevokeIngress net gid ps c = (None, c') \<longrightarrow>
        rules c' gid = rules c gid - allowed (set ps))"

lemma chop_chop: "a \<in> chop xs \<Longrightarrow> chop a = {a}"
  by (auto simp: chop_def split: if_splits)

lemma rule_atoms_atom: "q \<in> rule_atoms p \<Longrightarrow> rule_atoms q = {q}"
  by (auto simp: rule_atoms_def chop_chop)

lemma allowed_atoms: "A \<subseteq> allowed ps \<Longrightarrow> allowed A = A"
proof -
  assume A: "A \<subseteq> allowed ps"
  have "rule_atoms q = {q}" if "q \<in> A" for q
    using A that rule_atoms_atom by (auto simp: allowed_def)
  then show ?thesis by (simp add: allowed_def)
qed

lemma setSecurityGroupIngress_Inr:
  assumes "setSecurityGroupIngress net gid permissions c = (Inr changed, c')"
  obtains g add remove where "en_DescribeSecurityGroups net [gid] [] c = Inr [g]"
    and "remove = ips_Difference (Ungroup net (NewIPPermissionSet net (gp_IpPermissions g)) c) (Ungroup net permissions c)"
    and "add = ips_Difference (Ungroup net permissions c) (Ungroup net (NewIPPermissionSet net (gp_IpPermissions g)) c)"
    and "\<not> changed \<and> contents add = {} \<and> contents remove = {} \<and> c' = c \<or>
      changed \<and> \<not> (contents add = {} \<and> contents remove = {}) \<and>
      (\<exists>c1. (if contents add = {} then c1 = c else en_AuthorizeIngress net gid (ips_List net add c) c = (None, c1)) \<and>
         (if contents remove = {} then c' = c1 else en_RevokeIngress net gid (ips_List net remove c1) c1 = (None, c')))"
proof (cases "en_DescribeSecurityGroups net [gid] [] c")
  case (Inr gs)
  with assms obtain g where gs: "gs = [g]"
    by (cases gs; cases "tl gs") (auto simp: setSecurityGroupIngress_def findSecurityGroup_def)
  let ?r = "ips_Difference (Ungroup net (NewIPPermissionSet net (gp_IpPermissions g)) c) (Ungroup net permissions c)"
  let ?a = "ips_Difference (Ungroup net permissions c) (Ungroup net (NewIPPermissionSet net (gp_IpPermissions g)) c)"
  show ?thesis
  proof (cases "contents ?a = {} \<and> contents ?r = {}")
    case True
    with assms Inr gs show ?thesis
      by (intro that) (auto simp: setSecurityGroupIngress_def findSecurityGroup_def Let_def ips_Len_0)
  next
    case False
    obtain e1 c1 where add: "(if contents ?a \<noteq> {} then en_AuthorizeIngress net gid (ips_List net ?a c) c else (None, c)) = (e1, c1)"
      by fastforce
    obtain e2 c2 where remove: "(if contents ?r \<noteq> {} then en_RevokeIngress net gid (ips_List net ?r c1) c1 else (None, c1)) = (e2, c2)"
      by fastforce
    from assms Inr gs False add remove have "e1 = None" "e2 = None" "c2 = c'" "changed"
      by (auto simp: setSecurityGroupIngress_def findSecurityGroup_def Let_def ips_Len_0 split: option.splits)
    with Inr gs False add remove show ?thesis
      by (intro that [of g ?r ?a]) (auto split: if_splits)
  qed
qed (use assms in \<open>simp add: setSecurityGroupIngress_def findSecurityGroup_def\<close>)


section \<open>What the grouping gets wrong\<close>

text \<open>
  A permission with two user-group pairs survives \<open>Ungroup\<close> as it is, and of its pairs only the
  last one gets a permission of its own: the second pass appends every pair to the list of the
  first pass instead of its own.
\<close>

lemma legal_range_one:
  assumes "legal_range net"
  shows "en_range net {|k|} c = [k]"
proof -
  have d: "distinct (en_range net {|k|} c)" and f: "fset_of_list (en_range net {|k|} c) = {|k|}"
    using assms by (simp_all add: legal_range_def)
  from f have "set (en_range net {|k|} c) = {k}"
    by (metis fset_of_list.rep_eq finsert.rep_eq bot_fset.rep_eq)
  with d show ?thesis
    by (cases "en_range net {|k|} c"; cases "tl (en_range net {|k|} c)") auto
qed

lemma splitPairs_two:
  "ip_UserIdGroupPairs p = us @ [u] \<Longrightarrow> us \<noteq> [] \<Longrightarrow> splitPairs [p] = [p, p\<lparr>ip_UserIdGroupPairs := [u]\<rparr>]"
  by (cases us) (simp_all add: splitPairs_def)

theorem grouped_pairs_stay_grouped:
  assumes "ip_UserIdGroupPairs p = us @ [u]" and "us \<noteq> []"
    and "length (ip_IpRanges p) \<le> 1" and "length (ip_PrefixListIds p) \<le> 1"
    and "legal_range net" and "en_json net p \<noteq> en_json net (p\<lparr>ip_UserIdGroupPairs := [u]\<rparr>)"
  shows "contents (Ungroup net (NewIPPermissionSet net [p]) c) = {p, p\<lparr>ip_UserIdGroupPairs := [u]\<rparr>}"
proof -
  have "contents (NewIPPermissionSet net [p]) = {p}"
    by (simp add: NewIPPermissionSet_contents)
  then have "set (ips_List net (NewIPPermissionSet net [p]) c) = {p}"
    using assms(5) by (simp add: set_ips_List)
  moreover have "length (ips_List net (NewIPPermissionSet net [p]) c) = 1"
    using assms(5)
    by (simp add: ips_List_def NewIPPermissionSet_def ips_Insert_def keyForIPPermission_def legal_range_one)
  ultimately have "ips_List net (NewIPPermissionSet net [p]) c = [p]"
    by (cases "ips_List net (NewIPPermissionSet net [p]) c") auto
  moreover have "splitRanges p = [p]" and "splitPrefixes p = [p]"
    and "splitPrefixes (p\<lparr>ip_UserIdGroupPairs := [u]\<rparr>) = [p\<lparr>ip_UserIdGroupPairs := [u]\<rparr>]"
    using assms(3,4) by (simp_all add: splitRanges_def splitPrefixes_def)
  ultimately have "Ungroup net (NewIPPermissionSet net [p]) c =
      NewIPPermissionSet net [p, p\<lparr>ip_UserIdGroupPairs := [u]\<rparr>]"
    using assms(1,2) by (simp add: Ungroup_def Let_def splitPairs_two)
  moreover have "inj_on (en_json net) (set [p, p\<lparr>ip_UserIdGroupPairs := [u]\<rparr>])"
    using assms(6) unfolding inj_on_def by auto
  ultimately show ?thesis by (simp only: NewIPPermissionSet_contents list.set)
qed

section \<open>Asking for what is there\<close>

lemma isEqualPointer_eq [simp]: "isEqualPointer = (=)"
  by (intro ext) (auto simp: isEqualPointer_def split: option.splits)

text \<open>
  A rule that allows the first group of a permission makes the whole permission count as present:
  \<open>addSecurityGroupIngress\<close> then reports that nothing had to change, and the other groups are
  never let in.
\<close>

theorem later_pairs_are_not_added:
  assumes "findSecurityGroup net gid c = Inr (Some g)" and "gp_IpPermissions g = [q]"
    and "ip_UserIdGroupPairs q = [u]" and "ug_GroupId u \<noteq> None"
    and "p = q\<lparr>ip_UserIdGroupPairs := u # others\<rparr>"
  shows "addSecurityGroupIngress net gid [p] c = Some (Inr False, c)"
proof -
  have "list_all (\<lambda>r. list_ex (\<lambda>y. r = y) (ip_IpRanges q)) (ip_IpRanges q)"
    by (auto simp: list_all_iff list_ex_iff)
  moreover have "isEqualUserGroupPair u u b = Some True" for b
    using assms(4) by (simp add: isEqualUserGroupPair_def)
  ultimately have "ipPermissionExists p q b = Some True" for b
    using assms(3,5) by (simp add: ipPermissionExists_def)
  then show ?thesis using assms(1,2) by (simp add: addSecurityGroupIngress_def)
qed

text \<open>What a successful call has asked of EC2.\<close>

lemma addSecurityGroupIngress_request:
  assumes "addSecurityGroupIngress net gid ps c = Some (Inr changed, c')"
  shows "\<not> changed \<and> c' = c \<or>
    (\<exists>changes. changed \<and> set changes \<subseteq> set ps \<and> en_AuthorizeIngress net gid changes c = (None, c'))"
proof -
  have sub: "permissionChanges wanted ps existing = Some changes \<Longrightarrow> set changes \<subseteq> set ps"
    for wanted existing changes
    by (induction ps arbitrary: changes) (fastforce split: option.splits if_splits)+
  from assms show ?thesis
    by (fastforce simp: addSecurityGroupIngress_def dest: sub
          split: sum.splits option.splits if_splits prod.splits)
qed

section \<open>The group of a load balancer\<close>

text \<open>
  However the races for a name go, \<open>ensureSecurityGroup\<close> returns, and it has called
  \<open>CreateSecurityGroup\<close> at most \<open>MaxReadThenCreateRetries\<close> times.
\<close>

definition counts_creations :: "'c ec2Net \<Rightarrow> ('c \<Rightarrow> nat) \<Rightarrow> bool" where
  "counts_creations net made \<longleftrightarrow>
     (\<forall>vpc gname d c. made (snd (en_CreateSecurityGroup net vpc gname d c)) \<le> Suc (made c)) \<and>
     (\<forall>n c. made (en_Sleep net n c) = made c) \<and>
     (\<forall>t gid l m c. made (snd (createTags (en_ec2 net) t gid l m c)) = made c)"

lemma readRepair_made:
  assumes "counts_creations net made"
  shows "made (snd (readRepairClusterTags (en_ec2 net) t gid l m tags c)) = made c"
proof -
  have "made (snd (createTags (en_ec2 net) t gid l m c)) = made c"
    using assms by (simp add: counts_creations_def)
  then show ?thesis
    by (auto simp: readRepairClusterTags_def Let_def split: sum.split option.split prod.split)
qed

lemma ensureGroup_loop_made:
  assumes "counts_creations net made" and "attempt < MaxReadThenCreateRetries"
  shows "made (snd (ensureGroup_loop net n gname description attempt c)) \<le>
    made c + (MaxReadThenCreateRetries - attempt)"
  using assms
proof (induction net n gname description attempt c rule: ensureGroup_loop.induct)
  case (1 net n gname description attempt c)
  show ?case
  proof (cases "en_DescribeSecurityGroups net [] [(''group-name'', [gname]), (''vpc-id'', [an_vpcID n])] c")
    case (Inl err)
    then show ?thesis by (subst ensureGroup_loop.simps) simp
  next
    case gs: (Inr gs)
    show ?thesis
    proof (cases gs)
      case (Cons g rest)
      have "made (snd (readRepairClusterTags (en_ec2 net) (ac_tagging (an_cloud n)) (gp_GroupId g)
               ResourceLifecycleOwned fmempty (gp_Tags g) c)) = made c"
        using 1(2) by (rule readRepair_made)
      then show ?thesis using gs Cons
        by (subst ensureGroup_loop.simps) (auto split: prod.split option.split)
    next
      case Nil
      obtain res c1 where create: "en_CreateSecurityGroup net (an_vpcID n) gname description c = (res, c1)"
        by fastforce
      have c1: "made c1 \<le> Suc (made c)"
        using 1(2) create unfolding counts_creations_def by (metis snd_conv)
      show ?thesis
      proof (cases res)
        case (Inr gid)
        have "made (snd (createTags (en_ec2 net) (ac_tagging (an_cloud n)) gid ResourceLifecycleOwned fmempty c1)) = made c1"
          using 1(2) by (simp add: counts_creations_def)
        then show ?thesis using gs Nil create Inr c1 1(3)
          by (subst ensureGroup_loop.simps) (auto split: prod.split option.split)
      next
        case (Inl err)
        show ?thesis
        proof (cases "\<exists>m. err = AwsAPIErr ''InvalidGroup.Duplicate'' m \<and> attempt + 1 < MaxReadThenCreateRetries")
          case True
          then obtain m where m: "err = AwsAPIErr ''InvalidGroup.Duplicate'' m" "attempt + 1 < MaxReadThenCreateRetries"
            by blast
          have again: "ensureGroup_loop net n gname description attempt c =
              ensureGroup_loop net n gname description (attempt + 1) (en_Sleep net 1 c1)"
            using gs Nil create Inl m by (subst ensureGroup_loop.simps) simp
          have "made (snd (ensureGroup_loop net n gname description (attempt + 1) (en_Sleep net 1 c1))) \<le>
              made (en_Sleep net 1 c1) + (MaxReadThenCreateRetries - (attempt + 1))"
            using gs Nil create Inl m 1(2) by (intro 1(1)) auto
          moreover have "made (en_Sleep net 1 c1) = made c1"
            using 1(2) by (simp add: counts_creations_def)
          ultimately show ?thesis using again c1 m(2) by simp
        next
          case False
          then have "ensureGroup_loop net n gname description attempt c = (Inl err, c1)"
            using gs Nil create Inl by (subst ensureGroup_loop.simps) (auto split: awsErr.split)
          then show ?thesis using c1 1(3) by simp
        qed
      qed
    qed
  qed
qed

theorem group_creations_bounded:
  assumes "counts_creations net made" and "ensureSecurityGroup net n gname description c = (res, c')"
  shows "made c' \<le> made c + MaxReadThenCreateRetries"
  using ensureGroup_loop_made [OF assms(1), of 0 n gname description c] assms(2)
  by (simp add: ensureSecurityGroup_def)

section \<open>Witnesses\<close>

text \<open>A region with the one group \<open>sg-1\<close>, whose rules are kept as atoms.\<close>

record demoRegion =
  dr_rules :: "ipPermission list"
  dr_made :: nat
  dr_tables :: "ec2RouteTable list"
  dr_subnets :: "ec2Subnet list"

definition edit_table :: "string \<Rightarrow> (ec2Route list \<Rightarrow> ec2Route list) \<Rightarrow> ec2RouteTable \<Rightarrow> ec2RouteTable" where
  "edit_table tid f t = (if tb_RouteTableId t = tid then t\<lparr>tb_Routes := f (tb_Routes t)\<rparr> else t)"

definition new_route :: "string \<Rightarrow> string \<Rightarrow> ec2Route" where
  "new_route cidr inst =
     \<lparr>rt_DestinationCidrBlock = cidr, rt_InstanceId = inst, rt_GatewayId = '''', rt_State = ''active''\<rparr>"

definition chop_list :: "'a list \<Rightarrow> 'a list list" where
  "chop_list xs = (if length xs \<le> 1 then [xs] else map (\<lambda>x. [x]) xs)"

definition atom_list :: "ipPermission \<Rightarrow> ipPermission list" where
  "atom_list p =
     [p\<lparr>ip_IpRanges := a, ip_UserIdGroupPairs := b, ip_PrefixListIds := d\<rparr>.
        a \<leftarrow> chop_list (ip_IpRanges p), b \<leftarrow> chop_list (ip_UserIdGroupPairs p), d \<leftarrow> chop_list (ip_PrefixListIds p)]"

lemma set_chop_list: "set (chop_list xs) = chop xs"
  by (simp add: chop_list_def chop_def)

lemma set_atom_list: "set (atom_list p) = rule_atoms p"
  by (auto simp: atom_list_def rule_atoms_def set_chop_list)

definition region_net :: "'m demoRegion_scheme ec2Net" where
  "region_net =
     \<lparr>en_ec2 = demo_ec2,
      en_DescribeSecurityGroups = (\<lambda>ids filters r.
        Inr (if ids = [] then [] else [\<lparr>gp_GroupId = ''sg-1'', gp_Tags = [], gp_IpPermissions = dr_rules r\<rparr>])),
      en_CreateSecurityGroup = (\<lambda>vpc gname d r. (Inr ''sg-1'', r\<lparr>dr_made := dr_made r + 1\<rparr>)),
      en_DeleteSecurityGroup = (\<lambda>gid r. (None, r)),
      en_AuthorizeIngress = (\<lambda>gid ps r. (None, r\<lparr>dr_rules := concat (map atom_list (dr_rules r @ ps))\<rparr>)),
      en_RevokeIngress = (\<lambda>gid ps r.
        (None, r\<lparr>dr_rules := filter (\<lambda>q. q \<notin> set (concat (map atom_list ps))) (concat (map atom_list (dr_rules r)))\<rparr>)),
      en_DescribeSubnets = (\<lambda>filters r. Inr (dr_subnets r)), en_DescribeRouteTables = (\<lambda>filters r. Inr (dr_tables r)),
      en_CreateRoute = (\<lambda>tid cidr inst r.
        (None, r\<lparr>dr_tables := map (edit_table tid (\<lambda>rs. rs @ [new_route cidr inst])) (dr_tables r)\<rparr>)),
      en_DeleteRoute = (\<lambda>tid cidr r.
        (None, r\<lparr>dr_tables := map (edit_table tid (filter (\<lambda>q. rt_DestinationCidrBlock q \<noteq> cidr))) (dr_tables r)\<rparr>)),
      en_SetSourceDestCheck = (\<lambda>inst on r. (None, r)),
      en_json = (\<lambda>p. FormatUint (length (ip_UserIdGroupPairs p)) @ concat (List.map_filter id (ip_IpRanges p))),
      en_range = (\<lambda>ks r. sorted_list_of_fset ks), en_Sleep = (\<lambda>n r. r)\<rparr>"

definition demo_net :: "demoRegion ec2Net" where
  "demo_net = region_net"

definition demo_rules :: "demoRegion \<Rightarrow> string \<Rightarrow> ipPermission set" where
  "demo_rules r gid = allowed (set (dr_rules r))"

lemma demo_net_fields:
  "en_DescribeSecurityGroups demo_net ids filters r =
     Inr (if ids = [] then [] else [\<lparr>gp_GroupId = ''sg-1'', gp_Tags = [], gp_IpPermissions = dr_rules r\<rparr>])"
  "fst (en_AuthorizeIngress demo_net gid ps r) = None" "fst (en_RevokeIngress demo_net gid ps r) = None"
  "en_json demo_net p = FormatUint (length (ip_UserIdGroupPairs p)) @ concat (List.map_filter id (ip_IpRanges p))"
  by (simp_all add: demo_net_def region_net_def)

lemma region_net_legal: "legal_range region_net"
  by (simp add: legal_range_def region_net_def fset_eq_iff fset_of_list_elem sorted_list_of_fset.rep_eq)

lemma demo_net_legal: "legal_range demo_net"
  unfolding demo_net_def by (rule region_net_legal)

lemma allowed_atom_list: "set (concat (map atom_list ps)) = allowed (set ps)"
  by (simp add: allowed_def set_atom_list)

lemma demo_net_honest: "rules_honest demo_net demo_rules"
proof -
  have "allowed (allowed (set ps)) = allowed (set ps)" for ps by (rule allowed_atoms [where ps = "set ps"]) simp
  moreover have "allowed (allowed (set ps) - A) = allowed (set ps) - A" for ps A
    by (rule allowed_atoms [where ps = "set ps"]) blast
  moreover have "{q \<in> allowed (set ps). q \<notin> A} = allowed (set ps) - A" for ps A by blast
  ultimately show ?thesis
    unfolding rules_honest_def demo_rules_def
    by (auto simp add: demo_net_def region_net_def allowed_atom_list simp del: set_concat)
      (auto simp: allowed_def)
qed

definition demo_permission :: "string list \<Rightarrow> string list \<Rightarrow> ipPermission" where
  "demo_permission ranges groups =
     \<lparr>ip_FromPort = Some 80, ip_ToPort = Some 80, ip_IpProtocol = Some ''tcp'', ip_IpRanges = map Some ranges,
      ip_UserIdGroupPairs = map (\<lambda>g. \<lparr>ug_GroupId = Some g, ug_UserId = None\<rparr>) groups, ip_PrefixListIds = []\<rparr>"

lemma demo_permission_fields [simp]:
  "ip_FromPort (demo_permission rs gs) = Some 80" "ip_ToPort (demo_permission rs gs) = Some 80"
  "ip_IpProtocol (demo_permission rs gs) = Some ''tcp''" "ip_IpRanges (demo_permission rs gs) = map Some rs"
  "ip_UserIdGroupPairs (demo_permission rs gs) = map (\<lambda>g. \<lparr>ug_GroupId = Some g, ug_UserId = None\<rparr>) gs"
  "ip_PrefixListIds (demo_permission rs gs) = []"
  by (simp_all add: demo_permission_def)

lemma ingress_never_refused:
  assumes "en_DescribeSecurityGroups net [gid] [] c = Inr [g]"
    and "\<And>ps c. fst (en_AuthorizeIngress net gid ps c) = None" and "\<And>ps c. fst (en_RevokeIngress net gid ps c) = None"
  shows "\<exists>changed c'. setSecurityGroupIngress net gid permissions c = (Inr changed, c')"
proof -
  have "\<exists>c'. en_AuthorizeIngress net gid ps c = (None, c')" "\<exists>c'. en_RevokeIngress net gid ps c = (None, c')" for ps c
    using assms(2,3) by (metis prod.collapse)+
  then show ?thesis
    using assms(1) unfolding setSecurityGroupIngress_def findSecurityGroup_def Let_def
    by (auto split: option.splits prod.splits) (metis option.distinct(1) prod.inject)+
qed


theorem grouped_pairs_stay_grouped_witness:
  "contents (Ungroup demo_net (NewIPPermissionSet demo_net [demo_permission [] [''sg-2'', ''sg-3'']])
       \<lparr>dr_rules = [], dr_made = 0, dr_tables = [], dr_subnets = []\<rparr>) =
     {demo_permission [] [''sg-2'', ''sg-3''], demo_permission [] [''sg-3'']}"
proof -
  let ?u = "\<lambda>g. \<lparr>ug_GroupId = Some g, ug_UserId = None\<rparr>"
  have p: "(demo_permission [] [''sg-2'', ''sg-3''])\<lparr>ip_UserIdGroupPairs := [?u ''sg-3'']\<rparr> = demo_permission [] [''sg-3'']"
    by (simp add: demo_permission_def)
  have j: "en_json demo_net (demo_permission [] [''sg-2'', ''sg-3'']) \<noteq> en_json demo_net (demo_permission [] [''sg-3''])"
    by (simp add: demo_net_def region_net_def map_filter_def FormatUint_inject)
  from grouped_pairs_stay_grouped [OF _ _ _ _ demo_net_legal, of "demo_permission [] [''sg-2'', ''sg-3'']" "[?u ''sg-2'']" "?u ''sg-3''"] j
  show ?thesis by (simp add: p)
qed

theorem later_pairs_are_not_added_witness:
  "addSecurityGroupIngress demo_net ''sg-1'' [demo_permission [] [''sg-2'', ''sg-3'']]
     \<lparr>dr_rules = [demo_permission [] [''sg-2'']], dr_made = 0, dr_tables = [], dr_subnets = []\<rparr> =
   Some (Inr False, \<lparr>dr_rules = [demo_permission [] [''sg-2'']], dr_made = 0, dr_tables = [], dr_subnets = []\<rparr>)"
  by (rule later_pairs_are_not_added
        [where g = "\<lparr>gp_GroupId = ''sg-1'', gp_Tags = [], gp_IpPermissions = [demo_permission [] [''sg-2'']]\<rparr>"
           and q = "demo_permission [] [''sg-2'']" and u = "\<lparr>ug_GroupId = Some ''sg-2'', ug_UserId = None\<rparr>"
           and others = "[\<lparr>ug_GroupId = Some ''sg-3'', ug_UserId = None\<rparr>]"])
    (simp_all add: findSecurityGroup_def demo_net_def region_net_def demo_permission_def)

theorem group_creations_bounded_witness:
  "dr_made (snd (ensureSecurityGroup
     (demo_net\<lparr>en_CreateSecurityGroup := (\<lambda>vpc gname d r.
        (Inl (AwsAPIErr ''InvalidGroup.Duplicate'' ''''), r\<lparr>dr_made := dr_made r + 1\<rparr>))\<rparr>)
     \<lparr>an_cloud = demo_aws, an_vpcID = ''vpc'', an_RouteTableID = '''', an_DisableSecurityGroupIngress = False\<rparr>
     ''k8s-elb-a'' ''d'' \<lparr>dr_rules = [], dr_made = 0, dr_tables = [], dr_subnets = []\<rparr>)) \<le> 30"
proof -
  let ?net = "demo_net\<lparr>en_CreateSecurityGroup := (\<lambda>vpc gname d r.
        (Inl (AwsAPIErr ''InvalidGroup.Duplicate'' ''''), r\<lparr>dr_made := dr_made r + 1\<rparr>))\<rparr>"
  have "snd (createTags demo_ec2 t gid l m c) = c" for t gid l m and c :: demoRegion
    by (simp add: createTags_def demo_ec2_def eval_nat_numeral Let_def)
  then have "counts_creations ?net dr_made"
    by (simp add: counts_creations_def demo_net_def region_net_def)
  note bound = group_creations_bounded [OF this]
  show ?thesis (is "dr_made (snd ?run) \<le> 30")
    using bound [OF prod.collapse [symmetric]] by (rule order_trans) simp
qed

end
