(* ===== verification/GoSteps.thy ===== *)
theory GoSteps
  imports Prelude
begin

text \<open>
  The effects of the code that calls a cloud. A step is a function from the cloud's state to an
  outcome and a state: it returns a value, fails with an error, or panics (a nil pointer that is
  dereferenced, an index out of range). \<open>andThen\<close> is the sequence of two steps with the early return on
  an error; the other combinators make steps of the calls of a client.
\<close>

datatype ('e, 'a) outcome = Panicked | Failed 'e | Returned 'a

type_synonym ('c, 'e, 'a) step = "'c \<Rightarrow> ('e, 'a) outcome \<times> 'c"

definition andThen :: "('c, 'e, 'a) step \<Rightarrow> ('a \<Rightarrow> ('c, 'e, 'b) step) \<Rightarrow> ('c, 'e, 'b) step" where
  "andThen m f c =
     (case m c of
        (Panicked, c) \<Rightarrow> (Panicked, c)
      | (Failed err, c) \<Rightarrow> (Failed err, c)
      | (Returned a, c) \<Rightarrow> f a c)"

definition give :: "'a \<Rightarrow> ('c, 'e, 'a) step" where
  "give a c = (Returned a, c)"

definition failing :: "'e \<Rightarrow> ('c, 'e, 'a) step" where
  "failing err c = (Failed err, c)"

definition panic :: "('c, 'e, 'a) step" where
  "panic c = (Panicked, c)"

text \<open>
  A call that may fail, with what the code makes of the error, a call that only reads, one that
  answers with a value, and an operation that may panic.
\<close>

definition request_call :: "('c \<Rightarrow> 'e option \<times> 'c) \<Rightarrow> ('e \<Rightarrow> 'e) \<Rightarrow> ('c, 'e, unit) step" where
  "request_call m wrap c = (case m c of (Some err, c) \<Rightarrow> (Failed (wrap err), c) | (None, c) \<Rightarrow> (Returned (), c))"

definition reading :: "('c \<Rightarrow> 'e + 'a) \<Rightarrow> ('c, 'e, 'a) step" where
  "reading m c = (case m c of Inl err \<Rightarrow> (Failed err, c) | Inr a \<Rightarrow> (Returned a, c))"

definition changing :: "('c \<Rightarrow> ('e + 'a) \<times> 'c) \<Rightarrow> ('c, 'e, 'a) step" where
  "changing m c = (case m c of (Inl err, c) \<Rightarrow> (Failed err, c) | (Inr a, c) \<Rightarrow> (Returned a, c))"

definition partially :: "('c \<Rightarrow> (('e + 'a) \<times> 'c) option) \<Rightarrow> ('c, 'e, 'a) step" where
  "partially m c = (case m c of None \<Rightarrow> (Panicked, c) | Some (Inl err, c) \<Rightarrow> (Failed err, c) | Some (Inr a, c) \<Rightarrow> (Returned a, c))"

fun each :: "('x \<Rightarrow> ('c, 'e, unit) step) \<Rightarrow> 'x list \<Rightarrow> ('c, 'e, unit) step" where
  "each f [] = give ()"
| "each f (x # xs) = andThen (f x) (\<lambda>_. each f xs)"

text \<open>
  A step whose effects are undone when it does not return (\<open>defer onFailure.Call(unwind)\<close>), a step
  with something to do at its end whatever happens (\<open>defer\<close>), and a step whose error is handled.
\<close>

definition unwinding :: "('c \<Rightarrow> 'c) \<Rightarrow> ('c, 'e, 'a) step \<Rightarrow> ('c, 'e, 'a) step" where
  "unwinding unwind m c = (case m c of (Returned a, c) \<Rightarrow> (Returned a, c) | (res, c) \<Rightarrow> (res, unwind c))"

definition deferring :: "('c \<Rightarrow> 'c) \<Rightarrow> ('c, 'e, 'a) step \<Rightarrow> ('c, 'e, 'a) step" where
  "deferring f m c = (case m c of (res, c) \<Rightarrow> (res, f c))"

definition recovering :: "('c, 'e, 'a) step \<Rightarrow> ('e \<Rightarrow> ('c, 'e, 'a) step) \<Rightarrow> ('c, 'e, 'a) step" where
  "recovering m h c = (case m c of (Failed err, c) \<Rightarrow> h err c | r \<Rightarrow> r)"

section \<open>Steps that return\<close>

lemma andThen_Returned [simp]:
  "andThen m f c = (Returned b, c') \<longleftrightarrow> (\<exists>a c1. m c = (Returned a, c1) \<and> f a c1 = (Returned b, c'))"
  by (auto simp: andThen_def split: prod.splits outcome.splits)

lemma give_Returned [simp]: "give a c = (Returned b, c') \<longleftrightarrow> b = a \<and> c' = c"
  by (auto simp: give_def)

lemma failing_Returned [simp]: "failing err c \<noteq> (Returned b, c')" "panic c \<noteq> (Returned b, c')"
  by (simp_all add: failing_def panic_def)

lemma request_call_Returned [simp]: "request_call m wrap c = (Returned u, c') \<longleftrightarrow> m c = (None, c')"
  by (cases u) (auto simp: request_call_def split: prod.splits option.splits)

lemma reading_Returned [simp]: "reading m c = (Returned a, c') \<longleftrightarrow> m c = Inr a \<and> c' = c"
  by (auto simp: reading_def split: sum.splits)

lemma changing_Returned: "changing m c = (Returned a, c') \<longleftrightarrow> m c = (Inr a, c')"
  by (auto simp: changing_def split: prod.splits sum.splits)

lemma recovering_Returned:
  "recovering m h c = (Returned a, c') \<longleftrightarrow>
     m c = (Returned a, c') \<or> (\<exists>err c1. m c = (Failed err, c1) \<and> h err c1 = (Returned a, c'))"
  by (auto simp: recovering_def split: prod.splits outcome.splits)

lemma unwinding_Returned: "unwinding unwind m c = (Returned a, c') \<longleftrightarrow> m c = (Returned a, c')"
  by (auto simp: unwinding_def split: prod.splits outcome.splits)

lemma andThen_reading:
  "andThen (reading m) f c = (case m c of Inl err \<Rightarrow> (Failed err, c) | Inr a \<Rightarrow> f a c)"
  by (simp add: andThen_def reading_def split: sum.split)

lemma andThen_call:
  "andThen (request_call m w) f c = (case m c of (Some err, c) \<Rightarrow> (Failed (w err), c) | (None, c) \<Rightarrow> f () c)"
  by (auto simp: andThen_def request_call_def split: prod.split option.split)

lemma andThen_changing:
  "andThen (changing m) f c = (case m c of (Inl err, c) \<Rightarrow> (Failed err, c) | (Inr a, c) \<Rightarrow> f a c)"
  by (auto simp: andThen_def changing_def split: prod.split sum.split)

lemmas andThen_first = andThen_reading andThen_call andThen_changing

lemma if_Returned: "(if b then m else m') c = (if b then m c else m' c)"
  by simp

text \<open>Steps that always return.\<close>

definition returns :: "('c, 'e, 'a) step \<Rightarrow> bool" where
  "returns m \<longleftrightarrow> (\<forall>c. \<exists>a c'. m c = (Returned a, c'))"

lemma returns_give: "returns (give a)"
  by (simp add: returns_def give_def)

lemma returns_call: "(\<And>c. \<exists>c'. m c = (None, c')) \<Longrightarrow> returns (request_call m w)"
  unfolding returns_def by simp

lemma returns_reading: "(\<And>c. \<exists>a. m c = Inr a) \<Longrightarrow> returns (reading m)"
  unfolding returns_def by simp

lemma returns_andThen: "returns m \<Longrightarrow> (\<And>a. returns (f a)) \<Longrightarrow> returns (andThen m f)"
  unfolding returns_def andThen_Returned by metis

lemma returns_if: "returns m \<Longrightarrow> returns m' \<Longrightarrow> returns (if b then m else m')"
  by simp

lemma returns_call_at: "(\<And>x c. \<exists>c'. m x c = (None, c')) \<Longrightarrow> returns (\<lambda>c. request_call (m (g c)) w c)"
  unfolding returns_def by simp

lemmas returns_intros = returns_give returns_call returns_reading returns_andThen returns_if

lemma returns_each: "(\<And>x. returns (f x)) \<Longrightarrow> returns (each f xs)"
  by (induction xs) (auto intro: returns_intros)

lemma returns_each_at:
  assumes "\<And>x. returns (f x)"
  shows "returns (\<lambda>c. andThen (each f (xs c)) (\<lambda>_. give (b c)) c)"
proof -
  have "\<And>zs. returns (each f zs)" using assms by (rule returns_each)
  then show ?thesis unfolding returns_def by simp
qed

section \<open>Steps that leave a view of the state unchanged\<close>

definition keeps :: "('c \<Rightarrow> 'v) \<Rightarrow> ('c, 'e, 'a) step \<Rightarrow> bool" where
  "keeps view m \<longleftrightarrow> (\<forall>c. view (snd (m c)) = view c)"

lemma keepsD: "keeps view m \<Longrightarrow> m c = (res, c') \<Longrightarrow> view c' = view c"
  unfolding keeps_def by (metis snd_conv)

lemma keeps_give: "keeps view (give a)" "keeps view (failing err)" "keeps view panic" "keeps view (reading f)"
  by (auto simp: keeps_def give_def failing_def panic_def reading_def split: sum.split)

lemma keeps_call: "(\<And>c. view (snd (m c)) = view c) \<Longrightarrow> keeps view (request_call m w)"
  by (auto simp: keeps_def request_call_def split: prod.split option.split) (metis snd_conv)+

lemma keeps_changing: "(\<And>c. view (snd (m c)) = view c) \<Longrightarrow> keeps view (changing m)"
  by (auto simp: keeps_def changing_def split: prod.split sum.split) (metis snd_conv)+

lemma keeps_andThen: "keeps view m \<Longrightarrow> (\<And>a. keeps view (f a)) \<Longrightarrow> keeps view (andThen m f)"
  unfolding keeps_def andThen_def
  by (auto split: prod.split outcome.split) (metis snd_conv)+

lemma keeps_if: "keeps view m \<Longrightarrow> keeps view m' \<Longrightarrow> keeps view (if b then m else m')"
  by simp

lemma keeps_recovering: "keeps view m \<Longrightarrow> (\<And>err. keeps view (h err)) \<Longrightarrow> keeps view (recovering m h)"
  unfolding keeps_def recovering_def
  by (auto split: prod.split outcome.split) (metis snd_conv)+

lemma keeps_unwinding: "keeps view m \<Longrightarrow> (\<And>c. view (u c) = view c) \<Longrightarrow> keeps view (unwinding u m)"
  unfolding keeps_def unwinding_def
  by (auto split: prod.split outcome.split) (metis snd_conv)+

lemma keeps_each: "(\<And>x. keeps view (f x)) \<Longrightarrow> keeps view (each f xs)"
  by (induction xs) (auto intro: keeps_give keeps_andThen)

lemmas keeps_intros = keeps_give keeps_andThen keeps_if keeps_recovering keeps_each

section \<open>Steps that never panic\<close>

definition calm :: "('c, 'e, 'a) step \<Rightarrow> bool" where
  "calm m \<longleftrightarrow> (\<forall>c. fst (m c) \<noteq> Panicked)"

lemma calm_give: "calm (give a)" "calm (failing err)" "calm (reading f)" "calm (request_call g w)" "calm (changing h)"
  by (auto simp: calm_def give_def failing_def reading_def request_call_def changing_def split: sum.split prod.split option.split)

lemma calm_andThen: "calm m \<Longrightarrow> (\<And>a. calm (f a)) \<Longrightarrow> calm (andThen m f)"
  unfolding calm_def andThen_def
  by (auto split: prod.split outcome.split) (metis fst_conv)+

lemma calm_if: "calm m \<Longrightarrow> calm m' \<Longrightarrow> calm (if b then m else m')"
  by simp

lemma calm_each: "(\<And>x. calm (f x)) \<Longrightarrow> calm (each f xs)"
  by (induction xs) (auto intro: calm_give calm_andThen)

lemmas calm_intros = calm_give calm_andThen calm_if calm_each

section \<open>What a step ensures\<close>

text \<open>
  From a state with \<open>P\<close>, a step that returns \<open>a\<close> leaves a state with \<open>Q a\<close>, and one that does not leaves
  a state with \<open>E\<close>.
\<close>

definition ensures :: "('c \<Rightarrow> bool) \<Rightarrow> ('c, 'e, 'a) step \<Rightarrow> ('a \<Rightarrow> 'c \<Rightarrow> bool) \<Rightarrow> ('c \<Rightarrow> bool) \<Rightarrow> bool" where
  "ensures P m Q E \<longleftrightarrow> (\<forall>c. P c \<longrightarrow> (case m c of (Returned a, c') \<Rightarrow> Q a c' | (_, c') \<Rightarrow> E c'))"

lemma ensuresD:
  assumes "ensures P m Q E" and "P c" and "m c = (res, c')"
  shows "case res of Returned a \<Rightarrow> Q a c' | _ \<Rightarrow> E c'"
proof -
  note assms(1) [unfolded ensures_def, rule_format, OF assms(2)]
  then show ?thesis using assms(3) by (simp split: outcome.splits)
qed

lemma ensures_returned: "ensures P m Q E \<Longrightarrow> P c \<Longrightarrow> m c = (Returned a, c') \<Longrightarrow> Q a c'"
  using ensuresD by fastforce

lemma ensures_failed: "ensures P m Q E \<Longrightarrow> P c \<Longrightarrow> m c = (res, c') \<Longrightarrow> \<forall>a. res \<noteq> Returned a \<Longrightarrow> E c'"
  using ensuresD [of P m Q E c res c'] by (cases res) auto

lemma ensuresI:
  assumes "\<And>c a c'. P c \<Longrightarrow> m c = (Returned a, c') \<Longrightarrow> Q a c'"
    and "\<And>c res c'. P c \<Longrightarrow> m c = (res, c') \<Longrightarrow> \<forall>a. res \<noteq> Returned a \<Longrightarrow> E c'"
  shows "ensures P m Q E"
  unfolding ensures_def using assms by (auto split: prod.split outcome.split)

lemma ensures_andThen:
  assumes "ensures P m R E" and "\<And>a. ensures (R a) (f a) Q E"
  shows "ensures P (andThen m f) Q E"
  unfolding ensures_def
proof (intro allI impI)
  fix c assume "P c"
  obtain res c1 where run: "m c = (res, c1)" by fastforce
  note first = ensuresD [OF assms(1) \<open>P c\<close> run]
  show "case andThen m f c of (Returned a, c') \<Rightarrow> Q a c' | (_, c') \<Rightarrow> E c'"
  proof (cases res)
    case (Returned a)
    then have "R a c1" using first by simp
    from assms(2) [unfolded ensures_def, rule_format, OF this]
    show ?thesis using run Returned by (simp add: andThen_def)
  qed (use first run in \<open>simp_all add: andThen_def\<close>)
qed

lemma ensures_weaken:
  assumes "ensures P' m Q' E'" and "\<And>c. P c \<Longrightarrow> P' c" and "\<And>a c. Q' a c \<Longrightarrow> Q a c" and "\<And>c. E' c \<Longrightarrow> E c"
  shows "ensures P m Q E"
proof (rule ensuresI)
  fix c a c' assume "P c" "m c = (Returned a, c')"
  then show "Q a c'" using ensures_returned [OF assms(1)] assms(2,3) by blast
next
  fix c res c' assume "P c" "m c = (res, c')" "\<forall>a. res \<noteq> Returned a"
  then show "E c'" using ensures_failed [OF assms(1)] assms(2,4) by blast
qed

lemma ensures_give: "(\<And>c. P c \<Longrightarrow> Q a c) \<Longrightarrow> ensures P (give a) Q E"
  by (simp add: ensures_def give_def)

lemma ensures_failing: "(\<And>c. P c \<Longrightarrow> E c) \<Longrightarrow> ensures P (failing err) Q E"
  by (simp add: ensures_def failing_def)

lemma ensures_reading:
  "(\<And>c a. P c \<Longrightarrow> m c = Inr a \<Longrightarrow> Q a c) \<Longrightarrow> (\<And>c. P c \<Longrightarrow> E c) \<Longrightarrow> ensures P (reading m) Q E"
  by (auto simp: ensures_def reading_def split: sum.split)

lemma ensures_if: "(b \<Longrightarrow> ensures P m Q E) \<Longrightarrow> (\<not> b \<Longrightarrow> ensures P m' Q E) \<Longrightarrow> ensures P (if b then m else m') Q E"
  by simp

text \<open>What a step keeps, it keeps whatever its outcome.\<close>

lemma ensures_kept:
  assumes "keeps view m" and "\<And>c c'. P c \<Longrightarrow> view c' = view c \<Longrightarrow> P c'" and "\<And>c. P c \<Longrightarrow> E c"
  shows "ensures P m (\<lambda>_. P) E"
proof (rule ensuresI)
  fix c a c' assume "P c" "m c = (Returned a, c')"
  then show "P c'" using keepsD [OF assms(1)] assms(2) by blast
next
  fix c res c' assume "P c" "m c = (res, c')"
  then have "P c'" using keepsD [OF assms(1)] assms(2) by blast
  then show "E c'" by (rule assms(3))
qed

lemma ensures_outcome:
  assumes "ensures P m Q E" and "\<And>c a c'. P c \<Longrightarrow> m c = (Returned a, c') \<Longrightarrow> F a"
  shows "ensures P m (\<lambda>a c. Q a c \<and> F a) E"
proof (rule ensuresI)
  fix c a c' assume "P c" "m c = (Returned a, c')"
  then show "Q a c' \<and> F a" using ensures_returned [OF assms(1)] assms(2) by blast
next
  fix c res c' assume "P c" "m c = (res, c')" "\<forall>a. res \<noteq> Returned a"
  then show "E c'" by (rule ensures_failed [OF assms(1)])
qed

end
