(* ===== verification/CloudServices.thy ===== *)
theory CloudServices
  imports K8sTypes GoStd GoSteps
begin

text \<open>
  What the cloud providers are asked to serve (\<open>snapshot/pkg/cloudprovider/cloud.go\<close>): services, the
  addresses of nodes, routes, and the name of the load balancer of a service.
\<close>

record ServicePort =
  sp_Name :: string
  sp_Protocol :: string
  sp_Port :: int
  sp_NodePort :: int

record Service =
  sv_Name :: string
  sv_Namespace :: string
  sv_UID :: string
  sv_Annotations :: "string gomap"
  sv_Ports :: "ServicePort list"
  sv_SessionAffinity :: string
  sv_LoadBalancerIP :: string

record cloudRoute =
  cr_Name :: string
  cr_TargetNode :: string
  cr_DestinationCIDR :: string

text \<open>The type of an address and the address.\<close>

type_synonym NodeAddress = "string \<times> string"

definition GetLoadBalancerName :: "Service \<Rightarrow> string" where
  "GetLoadBalancerName service = take 32 (remove_all ''-'' (''a'' @ sv_UID service))"

lemma remove_all_plain: "CHR ''-'' \<notin> set u \<Longrightarrow> remove_all ''-'' u = u"
proof -
  assume "CHR ''-'' \<notin> set u"
  then have "\<not> Contains u ''-''" by (auto simp: Contains_iff)
  then show ?thesis by (rule remove_all_absent)
qed

text \<open>
  A UID has 32 hexadecimal digits, and with the leading letter the last one does not fit: services
  whose UIDs differ only there share a balancer.
\<close>

theorem balancer_names_collide:
  assumes "length u = 31" and "CHR ''-'' \<notin> set u" and "x \<noteq> CHR ''-''" and "y \<noteq> CHR ''-''"
  shows "GetLoadBalancerName (service\<lparr>sv_UID := u @ [x]\<rparr>) = GetLoadBalancerName (service'\<lparr>sv_UID := u @ [y]\<rparr>)"
  using assms by (simp add: GetLoadBalancerName_def remove_all_plain)

definition anyService :: Service where
  "anyService =
     \<lparr>sv_Name = ''s'', sv_Namespace = ''ns'', sv_UID = ''u'', sv_Annotations = fmempty, sv_Ports = [],
      sv_SessionAffinity = ''None'', sv_LoadBalancerIP = []\<rparr>"

theorem balancer_names_collide_witness:
  "GetLoadBalancerName (anyService\<lparr>sv_UID := ''0123456789abcdef0123456789abcdea''\<rparr>) =
   GetLoadBalancerName (anyService\<lparr>sv_UID := ''0123456789abcdef0123456789abcdeb''\<rparr>)"
  using balancer_names_collide [of "''0123456789abcdef0123456789abcde''" "CHR ''a''" "CHR ''b''" anyService anyService]
  by simp

end
