(* ===== verification/AwsRoutes.thy ===== *)
theory AwsRoutes
  imports AwsGroups CloudServices
begin

text \<open>
  The subnets a load balancer is put in (\<open>aws.go\<close>) and the routes of the cluster's route table
  (\<open>aws_routes.go\<close>).
\<close>

section \<open>Subnets\<close>

definition newEc2Filter :: "string \<Rightarrow> string list \<Rightarrow> ec2Filter" where
  "newEc2Filter fname vals = (fname, vals)"

fun findTag :: "ec2Tag list \<Rightarrow> string \<Rightarrow> string \<times> bool" where
  "findTag [] key = ('''', False)"
| "findTag ((k, v) # tags) key = (if k = key then (v, True) else findTag tags key)"

definition findSubnets :: "'c ec2Net \<Rightarrow> awsNet \<Rightarrow> 'c \<Rightarrow> awsErr + ec2Subnet list" where
  "findSubnets net n c =
     (case en_DescribeSubnets net (addFilters (ac_tagging (an_cloud n)) [newEc2Filter ''vpc-id'' [an_vpcID n]]) c of
        Inl err \<Rightarrow> Inl (AwsWrapf ''error describing subnets: %v'' [] err)
      | Inr subnets \<Rightarrow>
          let matched = filter (\<lambda>s. hasClusterTag (ac_tagging (an_cloud n)) (sn_Tags s)) subnets
          in if length matched \<noteq> 0 then Inr matched
             else
               (case en_DescribeSubnets net
                       [newEc2Filter ''subnet-id'' [ai_subnetID (ac_selfAWSInstance (an_cloud n))]] c of
                  Inl err \<Rightarrow> Inl (AwsWrapf ''error describing subnets: %v'' [] err)
                | Inr subnets \<Rightarrow> Inr subnets))"

text \<open>
  The search for the table of a subnet goes on after a table was found (the \<open>break\<close> leaves the
  inner loop), so the last one counts.
\<close>

definition lastTable :: "(string \<times> bool \<Rightarrow> bool) \<Rightarrow> ec2RouteTable list \<Rightarrow> ec2RouteTable option" where
  "lastTable fits rt = foldl (\<lambda>found t. if list_ex fits (tb_Associations t) then Some t else found) None rt"

definition isSubnetPublic :: "ec2RouteTable list \<Rightarrow> string \<Rightarrow> awsErr + bool" where
  "isSubnetPublic rt subnetID =
     (let subnetTable = lastTable (\<lambda>(sid, isMain). sid = subnetID) rt;
          subnetTable = (if subnetTable = None then lastTable (\<lambda>(sid, isMain). isMain) rt else subnetTable)
      in (case subnetTable of
            None \<Rightarrow> Inl (AwsErrorf ''Could not locate routing table for subnet %s'' [subnetID])
          | Some t \<Rightarrow> Inr (list_ex (\<lambda>r. HasPrefix (rt_GatewayId r) ''igw'') (tb_Routes t))))"

abbreviation TagNameSubnetInternalELB :: string where
  "TagNameSubnetInternalELB \<equiv> ''kubernetes.io/role/internal-elb''"

abbreviation TagNameSubnetPublicELB :: string where
  "TagNameSubnetPublicELB \<equiv> ''kubernetes.io/role/elb''"

definition hasELBTag :: "bool \<Rightarrow> ec2Subnet \<Rightarrow> bool" where
  "hasELBTag internalELB s =
     snd (findTag (sn_Tags s) (if internalELB then TagNameSubnetInternalELB else TagNameSubnetPublicELB))"

fun elbSubnets_loop ::
  "ec2RouteTable list \<Rightarrow> bool \<Rightarrow> ec2Subnet list \<Rightarrow> ec2Subnet gomap \<Rightarrow> awsErr + ec2Subnet gomap" where
  "elbSubnets_loop rt internalELB [] subnetsByAZ = Inr subnetsByAZ"
| "elbSubnets_loop rt internalELB (subnet # subnets) subnetsByAZ =
     (let az = sn_AvailabilityZone subnet; sid = sn_SubnetId subnet in
      if az = '''' \<or> sid = '''' then elbSubnets_loop rt internalELB subnets subnetsByAZ
      else
        (case isSubnetPublic rt sid of
           Inl err \<Rightarrow> Inl err
         | Inr isPublic \<Rightarrow>
             if \<not> internalELB \<and> \<not> isPublic then elbSubnets_loop rt internalELB subnets subnetsByAZ
             else
               (case fmlookup subnetsByAZ az of
                  None \<Rightarrow> elbSubnets_loop rt internalELB subnets (fmupd az subnet subnetsByAZ)
                | Some existing \<Rightarrow>
                    if hasELBTag internalELB existing \<noteq> hasELBTag internalELB subnet then
                      elbSubnets_loop rt internalELB subnets
                        (if hasELBTag internalELB subnet then fmupd az subnet subnetsByAZ else subnetsByAZ)
                    else elbSubnets_loop rt internalELB subnets subnetsByAZ)))"

definition findELBSubnets :: "'c ec2Net \<Rightarrow> awsNet \<Rightarrow> bool \<Rightarrow> 'c \<Rightarrow> awsErr + string list" where
  "findELBSubnets net n internalELB c =
     (case findSubnets net n c of
        Inl err \<Rightarrow> Inl err
      | Inr subnets \<Rightarrow>
          (case en_DescribeRouteTables net [newEc2Filter ''vpc-id'' [an_vpcID n]] c of
             Inl err \<Rightarrow> Inl (AwsWrapf ''error describe route table: %v'' [] err)
           | Inr rt \<Rightarrow>
               (case elbSubnets_loop rt internalELB subnets fmempty of
                  Inl err \<Rightarrow> Inl err
                | Inr subnetsByAZ \<Rightarrow>
                    Inr (map sn_SubnetId (map_values (en_range net (fmdom subnetsByAZ) c) subnetsByAZ)))))"

section \<open>aws_routes.go\<close>

definition findRouteTable :: "'c ec2Net \<Rightarrow> awsNet \<Rightarrow> string \<Rightarrow> 'c \<Rightarrow> awsErr + ec2RouteTable" where
  "findRouteTable net n clusterName c =
     (case (if an_RouteTableID n \<noteq> '''' then
              en_DescribeRouteTables net [newEc2Filter ''route-table-id'' [an_RouteTableID n]] c
            else
              (case en_DescribeRouteTables net (addFilters (ac_tagging (an_cloud n)) []) c of
                 Inl err \<Rightarrow> Inl err
               | Inr response \<Rightarrow> Inr (filter (\<lambda>t. hasClusterTag (ac_tagging (an_cloud n)) (tb_Tags t)) response))) of
        Inl err \<Rightarrow> Inl err
      | Inr [] \<Rightarrow> Inl (AwsErrorf ''unable to find route table for AWS cluster: %s'' [clusterName])
      | Inr [table] \<Rightarrow> Inr table
      | Inr _ \<Rightarrow> Inl (AwsErrorf ''found multiple matching AWS route tables for AWS cluster: %s'' [clusterName]))"

fun routesOf :: "string \<Rightarrow> ec2Instance gomap \<Rightarrow> ec2Route list \<Rightarrow> cloudRoute list" where
  "routesOf clusterName instances [] = []"
| "routesOf clusterName instances (r # rs) =
     (if rt_InstanceId r = '''' \<or> rt_DestinationCidrBlock r = '''' then routesOf clusterName instances rs
      else
        (case fmlookup instances (rt_InstanceId r) of
           None \<Rightarrow> routesOf clusterName instances rs
         | Some inst \<Rightarrow>
             \<lparr>cr_Name = clusterName @ ''-'' @ rt_DestinationCidrBlock r, cr_TargetNode = mapInstanceToNodeName inst,
              cr_DestinationCIDR = rt_DestinationCidrBlock r\<rparr> # routesOf clusterName instances rs))"

definition aws_ListRoutes :: "'c ec2Net \<Rightarrow> awsNet \<Rightarrow> string \<Rightarrow> 'c \<Rightarrow> awsErr + cloudRoute list" where
  "aws_ListRoutes net n clusterName c =
     (case findRouteTable net n clusterName c of
        Inl err \<Rightarrow> Inl err
      | Inr table \<Rightarrow>
          let instanceIDs = filter (\<lambda>i. i \<noteq> '''') (map rt_InstanceId (tb_Routes table))
          in (case getInstancesByIDs (en_ec2 net) instanceIDs c of
                Inl err \<Rightarrow> Inl err
              | Inr instances \<Rightarrow> Inr (routesOf clusterName instances (tb_Routes table))))"

definition configureInstanceSourceDestCheck ::
  "'c ec2Net \<Rightarrow> string \<Rightarrow> bool \<Rightarrow> 'c \<Rightarrow> awsErr option \<times> 'c" where
  "configureInstanceSourceDestCheck net instanceID sourceDestCheck c =
     (case en_SetSourceDestCheck net instanceID sourceDestCheck c of
        (Some err, c) \<Rightarrow> (Some (AwsWrapf ''error configuring source-dest-check on instance %s: %v'' [instanceID] err), c)
      | (None, c) \<Rightarrow> (None, c))"

text \<open>The last blackholed route to the destination is the one that is deleted.\<close>

definition blackholedRoute :: "string \<Rightarrow> ec2Route list \<Rightarrow> ec2Route option" where
  "blackholedRoute cidr rs =
     foldl (\<lambda>deleteRoute r. if rt_DestinationCidrBlock r \<noteq> cidr then deleteRoute
                            else if rt_State r = ''blackhole'' then Some r else deleteRoute) None rs"

definition aws_CreateRoute ::
  "'c ec2Net \<Rightarrow> awsNet \<Rightarrow> string \<Rightarrow> cloudRoute \<Rightarrow> 'c \<Rightarrow> awsErr option \<times> 'c" where
  "aws_CreateRoute net n clusterName route c =
     (case getInstanceByNodeName (en_ec2 net) (an_cloud n) (cr_TargetNode route) c of
        Inl err \<Rightarrow> (Some err, c)
      | Inr inst \<Rightarrow>
          (case configureInstanceSourceDestCheck net (ei_InstanceId inst) False c of
             (Some err, c) \<Rightarrow> (Some err, c)
           | (None, c) \<Rightarrow>
               (case findRouteTable net n clusterName c of
                  Inl err \<Rightarrow> (Some err, c)
                | Inr table \<Rightarrow>
                    (case (case blackholedRoute (cr_DestinationCIDR route) (tb_Routes table) of
                             None \<Rightarrow> (None, c)
                           | Some r \<Rightarrow>
                               (case en_DeleteRoute net (tb_RouteTableId table) (rt_DestinationCidrBlock r) c of
                                  (Some err, c) \<Rightarrow>
                                    (Some (AwsWrapf ''error deleting blackholed AWS route (%s): %v''
                                             [rt_DestinationCidrBlock r] err), c)
                                | (None, c) \<Rightarrow> (None, c))) of
                       (Some err, c) \<Rightarrow> (Some err, c)
                     | (None, c) \<Rightarrow>
                         (case en_CreateRoute net (tb_RouteTableId table) (cr_DestinationCIDR route) (ei_InstanceId inst) c of
                            (Some err, c) \<Rightarrow>
                              (Some (AwsWrapf ''error creating AWS route (%s): %v'' [cr_DestinationCIDR route] err), c)
                          | (None, c) \<Rightarrow> (None, c))))))"

definition aws_DeleteRoute ::
  "'c ec2Net \<Rightarrow> awsNet \<Rightarrow> string \<Rightarrow> cloudRoute \<Rightarrow> 'c \<Rightarrow> awsErr option \<times> 'c" where
  "aws_DeleteRoute net n clusterName route c =
     (case findRouteTable net n clusterName c of
        Inl err \<Rightarrow> (Some err, c)
      | Inr table \<Rightarrow>
          (case en_DeleteRoute net (tb_RouteTableId table) (cr_DestinationCIDR route) c of
             (Some err, c) \<Rightarrow> (Some (AwsWrapf ''error deleting AWS route (%s): %v'' [cr_DestinationCIDR route] err), c)
           | (None, c) \<Rightarrow> (None, c)))"

section \<open>One subnet per zone\<close>

definition usable_subnet :: "ec2RouteTable list \<Rightarrow> bool \<Rightarrow> ec2Subnet \<Rightarrow> bool" where
  "usable_subnet rt internalELB s \<longleftrightarrow>
     sn_AvailabilityZone s \<noteq> '''' \<and> sn_SubnetId s \<noteq> '''' \<and>
     (internalELB \<or> isSubnetPublic rt (sn_SubnetId s) = Inr True)"

text \<open>The choice among the usable subnets of a zone: the first tagged one, else the first.\<close>

definition preferred :: "bool \<Rightarrow> ec2Subnet list \<Rightarrow> ec2Subnet option" where
  "preferred internalELB ss =
     (case List.find (hasELBTag internalELB) ss of
        Some s \<Rightarrow> Some s
      | None \<Rightarrow> (case ss of [] \<Rightarrow> None | s # _ \<Rightarrow> Some s))"

definition in_zone :: "string \<Rightarrow> ec2Subnet \<Rightarrow> bool" where
  "in_zone az s \<longleftrightarrow> sn_AvailabilityZone s = az"

lemma preferred_two:
  "preferred i (e # s # ss) =
     preferred i ((if hasELBTag i e \<noteq> hasELBTag i s \<and> hasELBTag i s then s else e) # ss)"
  by (auto simp: preferred_def split: option.split)

definition elb_entry :: "bool \<Rightarrow> ec2Subnet \<Rightarrow> ec2Subnet gomap \<Rightarrow> ec2Subnet gomap" where
  "elb_entry i s m =
     (case fmlookup m (sn_AvailabilityZone s) of
        None \<Rightarrow> fmupd (sn_AvailabilityZone s) s m
      | Some e \<Rightarrow> if hasELBTag i e \<noteq> hasELBTag i s \<and> hasELBTag i s then fmupd (sn_AvailabilityZone s) s m else m)"

lemma elbSubnets_step:
  assumes "elbSubnets_loop rt i (s # ss) m = Inr m'"
  shows "elbSubnets_loop rt i ss (if usable_subnet rt i s then elb_entry i s m else m) = Inr m'"
proof (cases "sn_AvailabilityZone s = [] \<or> sn_SubnetId s = []")
  case True
  then show ?thesis using assms by (auto simp: usable_subnet_def)
next
  case False
  with assms obtain pub where pub: "isSubnetPublic rt (sn_SubnetId s) = Inr pub"
    by (auto simp: Let_def split: sum.splits)
  then have use: "usable_subnet rt i s \<longleftrightarrow> i \<or> pub" using False by (auto simp: usable_subnet_def)
  show ?thesis
    using assms False pub unfolding use by (auto simp: elb_entry_def Let_def split: option.splits if_splits)
qed

lemma elb_entry_lookup:
  "fmlookup (elb_entry i s m) az =
     (if in_zone az s then
        Some (case fmlookup m az of None \<Rightarrow> s | Some e \<Rightarrow> if hasELBTag i e \<noteq> hasELBTag i s \<and> hasELBTag i s then s else e)
      else fmlookup m az)"
  by (auto simp: elb_entry_def in_zone_def split: option.splits)

lemma elbSubnets_loop_lookup:
  assumes "elbSubnets_loop rt i subnets m = Inr m'"
  shows "fmlookup m' az = preferred i
    ((case fmlookup m az of None \<Rightarrow> [] | Some e \<Rightarrow> [e]) @ filter (\<lambda>s. usable_subnet rt i s \<and> in_zone az s) subnets)"
  using assms
proof (induction subnets arbitrary: m)
  case Nil
  then show ?case by (simp add: preferred_def split: option.split)
next
  case (Cons s ss)
  note IH = Cons.IH [OF elbSubnets_step [OF Cons.prems]]
  show ?case
  proof (cases "usable_subnet rt i s \<and> in_zone az s")
    case True
    then show ?thesis using IH
      by (cases "fmlookup m az") (simp_all add: elb_entry_lookup preferred_two)
  next
    case False
    then show ?thesis using IH by (auto simp: elb_entry_lookup split: if_splits)
  qed
qed

lemma elbSubnets_loop_total:
  assumes "\<And>sid. \<exists>b. isSubnetPublic rt sid = Inr b"
  shows "\<exists>m'. elbSubnets_loop rt i ss m = Inr m'"
proof (induction ss arbitrary: m)
  case (Cons s ss)
  obtain b where "isSubnetPublic rt (sn_SubnetId s) = Inr b" using assms by blast
  then show ?case using Cons by (auto simp: Let_def split: option.split)
qed simp

lemma preferred_in: "preferred i ss = Some s \<Longrightarrow> s \<in> set ss"
  by (auto simp: preferred_def find_Some_iff split: option.splits list.splits)

lemma preferred_None: "preferred i ss = None \<longleftrightarrow> ss = []"
  by (auto simp: preferred_def split: option.splits list.splits)

lemma legal_range_set: "legal_range net \<Longrightarrow> set (en_range net (fmdom m) c) = {k. fmlookup m k \<noteq> None}"
proof -
  assume "legal_range net"
  then have "fset_of_list (en_range net (fmdom m) c) = fmdom m" by (simp add: legal_range_def)
  then have "k \<in> set (en_range net (fmdom m) c) \<longleftrightarrow> k |\<in>| fmdom m" for k
    by (metis fset_of_list_elem)
  then show ?thesis by (auto simp: fmlookup_dom_iff)
qed

text \<open>
  An ELB is put in one subnet of every zone that has a usable one (a public one unless the ELB is
  internal): the first tagged for such ELBs, or else the first.
\<close>

theorem one_subnet_per_zone:
  assumes "findELBSubnets net n internalELB c = Inr ids" and "findSubnets net n c = Inr subnets"
    and "en_DescribeRouteTables net [newEc2Filter ''vpc-id'' [an_vpcID n]] c = Inr rt"
    and "legal_range net"
  shows "\<exists>zones. ids = map (\<lambda>az. sn_SubnetId (the (preferred internalELB
             (filter (\<lambda>s. usable_subnet rt internalELB s \<and> in_zone az s) subnets)))) zones \<and>
    distinct zones \<and> set zones = sn_AvailabilityZone ` {s \<in> set subnets. usable_subnet rt internalELB s}"
proof -
  let ?of = "\<lambda>az. filter (\<lambda>s. usable_subnet rt internalELB s \<and> in_zone az s) subnets"
  from assms(1-3) obtain m where m: "elbSubnets_loop rt internalELB subnets fmempty = Inr m"
    and ids: "ids = map sn_SubnetId (map_values (en_range net (fmdom m) c) m)"
    by (auto simp: findELBSubnets_def split: sum.splits)
  let ?zones = "en_range net (fmdom m) c"
  have look: "fmlookup m az = preferred internalELB (?of az)" for az
    using elbSubnets_loop_lookup [OF m] by simp
  have zones: "distinct ?zones" "set ?zones = {az. fmlookup m az \<noteq> None}"
    using legal_range_set [OF assms(4)] assms(4) by (auto simp: legal_range_def)
  have "map_values zs m = map (\<lambda>az. the (preferred internalELB (?of az))) zs" if "set zs \<subseteq> {az. fmlookup m az \<noteq> None}" for zs
    using that by (induction zs) (auto simp: look [symmetric])
  then have "ids = map (\<lambda>az. sn_SubnetId (the (preferred internalELB (?of az)))) ?zones"
    using ids zones by simp
  moreover have "set ?zones = sn_AvailabilityZone ` {s \<in> set subnets. usable_subnet rt internalELB s}"
    unfolding zones by (auto simp: look preferred_None filter_empty_conv in_zone_def simp del: not_None_eq)
  ultimately show ?thesis using zones(1) by blast
qed

text \<open>
  For an internal ELB the code does not look at which subnets are private: the tables decide
  only whether it fails.
\<close>

theorem internal_elb_ignores_privacy:
  assumes "elbSubnets_loop rt True subnets fmempty = Inr m" and "elbSubnets_loop rt' True subnets fmempty = Inr m'"
  shows "m = m'"
proof (rule fmap_ext)
  fix az
  have "usable_subnet rt True s = usable_subnet rt' True s" for s by (simp add: usable_subnet_def)
  then show "fmlookup m az = fmlookup m' az"
    using elbSubnets_loop_lookup [OF assms(1)] elbSubnets_loop_lookup [OF assms(2)] by simp
qed

section \<open>Routes are created and found again\<close>

text \<open>
  What the EC2 documentation says of the calls: a route that is created appears in its table, one
  that is deleted disappears from it, and nothing else of the tables changes.
\<close>


definition edits_routes ::
  "'c ec2Net \<Rightarrow> 'c \<Rightarrow> 'c \<Rightarrow> string \<Rightarrow> (ec2Route list \<Rightarrow> ec2Route list) \<Rightarrow> bool" where
  "edits_routes net c c' tid f \<longleftrightarrow>
     (\<forall>filters. en_DescribeRouteTables net filters c' =
        map_sum id (map (edit_table tid f)) (en_DescribeRouteTables net filters c))"


definition routes_honest :: "'c ec2Net \<Rightarrow> bool" where
  "routes_honest net \<longleftrightarrow>
     (\<forall>tid cidr inst c c'. en_CreateRoute net tid cidr inst c = (None, c') \<longrightarrow>
        edits_routes net c c' tid (\<lambda>rs. rs @ [new_route cidr inst])) \<and>
     (\<forall>tid cidr c c'. en_DeleteRoute net tid cidr c = (None, c') \<longrightarrow>
        edits_routes net c c' tid (filter (\<lambda>r. rt_DestinationCidrBlock r \<noteq> cidr))) \<and>
     (\<forall>inst b c c'. en_SetSourceDestCheck net inst b c = (None, c') \<longrightarrow> edits_routes net c c' '''' id)"

lemma edit_table_frame [simp]:
  "tb_Tags (edit_table tid f t) = tb_Tags t" "tb_RouteTableId (edit_table tid f t) = tb_RouteTableId t"
  by (simp_all add: edit_table_def)

lemma findRouteTable_edited:
  assumes "edits_routes net c c' tid f"
  shows "findRouteTable net n clusterName c' = map_sum id (edit_table tid f) (findRouteTable net n clusterName c)"
proof -
  have d: "en_DescribeRouteTables net filters c' =
      map_sum id (map (edit_table tid f)) (en_DescribeRouteTables net filters c)" for filters
    using assms by (simp add: edits_routes_def)
  show ?thesis
    by (auto simp: findRouteTable_def d filter_map comp_def split: sum.splits list.splits)
qed

lemma routesOf_In:
  assumes "r \<in> set rs" and "rt_InstanceId r \<noteq> ''''" and "rt_DestinationCidrBlock r \<noteq> ''''"
    and "fmlookup instances (rt_InstanceId r) = Some inst"
  shows "\<lparr>cr_Name = clusterName @ ''-'' @ rt_DestinationCidrBlock r, cr_TargetNode = mapInstanceToNodeName inst,
          cr_DestinationCIDR = rt_DestinationCidrBlock r\<rparr> \<in> set (routesOf clusterName instances rs)"
  using assms by (induction rs) (auto split: option.split)

lemma routesOf_destinations:
  "r \<in> set (routesOf clusterName instances rs) \<Longrightarrow> cr_DestinationCIDR r \<in> rt_DestinationCidrBlock ` set rs"
  by (induction rs) (auto split: option.splits if_splits)

lemma instances_by_id:
  assumes "i \<in> set is" and "\<And>j. j \<in> set is \<Longrightarrow> ei_InstanceId j = ei_InstanceId i \<Longrightarrow> j = i"
    and "ei_InstanceId i \<noteq> ''''"
  shows "fmlookup (foldl (\<lambda>m i. if ei_InstanceId i = '''' then m else fmupd (ei_InstanceId i) i m) m is)
           (ei_InstanceId i) = Some i"
  using assms(1,2)
proof (induction "is" rule: rev_induct)
  case (snoc j js)
  then show ?case using assms(3) by (cases "i \<in> set js") auto
qed simp

lemma aws_CreateRoute_None:
  assumes "aws_CreateRoute net n clusterName route c = (None, c')"
  obtains inst table c1 c2 where "getInstanceByNodeName (en_ec2 net) (an_cloud n) (cr_TargetNode route) c = Inr inst"
    and "findRouteTable net n clusterName c1 = Inr table" and "en_SetSourceDestCheck net (ei_InstanceId inst) False c = (None, c1)"
    and "c2 = c1 \<or> en_DeleteRoute net (tb_RouteTableId table) (cr_DestinationCIDR route) c1 = (None, c2)"
    and "en_CreateRoute net (tb_RouteTableId table) (cr_DestinationCIDR route) (ei_InstanceId inst) c2 = (None, c')"
proof -
  have black: "blackholedRoute cidr rs = Some r \<Longrightarrow> rt_DestinationCidrBlock r = cidr" for cidr rs r
  proof -
    have "rt_DestinationCidrBlock r = cidr"
      if "foldl (\<lambda>d r. if rt_DestinationCidrBlock r \<noteq> cidr then d
                      else if rt_State r = ''blackhole'' then Some r else d) acc rs = Some r"
        and "\<And>r'. acc = Some r' \<Longrightarrow> rt_DestinationCidrBlock r' = cidr" for acc
      using that by (induction rs arbitrary: acc) (auto split: if_splits)
    then show "blackholedRoute cidr rs = Some r \<Longrightarrow> rt_DestinationCidrBlock r = cidr"
      unfolding blackholedRoute_def by blast
  qed
  obtain inst where inst: "getInstanceByNodeName (en_ec2 net) (an_cloud n) (cr_TargetNode route) c = Inr inst"
    using assms by (auto simp: aws_CreateRoute_def split: sum.splits)
  obtain c1 where c1: "en_SetSourceDestCheck net (ei_InstanceId inst) False c = (None, c1)"
    using assms inst
    by (auto simp: aws_CreateRoute_def configureInstanceSourceDestCheck_def split: prod.splits option.splits)
  obtain table where table: "findRouteTable net n clusterName c1 = Inr table"
    using assms inst c1 by (auto simp: aws_CreateRoute_def configureInstanceSourceDestCheck_def split: sum.splits)
  note run = assms [unfolded aws_CreateRoute_def inst configureInstanceSourceDestCheck_def c1 sum.case prod.case option.case table]
  show ?thesis
  proof (cases "blackholedRoute (cr_DestinationCIDR route) (tb_Routes table)")
    case None
    with run have "en_CreateRoute net (tb_RouteTableId table) (cr_DestinationCIDR route) (ei_InstanceId inst) c1 = (None, c')"
      by (auto split: prod.splits option.splits)
    then show ?thesis using inst table c1 by (intro that) auto
  next
    case (Some r)
    note r = black [OF Some]
    with run Some obtain c2 where
      "en_DeleteRoute net (tb_RouteTableId table) (cr_DestinationCIDR route) c1 = (None, c2)"
      "en_CreateRoute net (tb_RouteTableId table) (cr_DestinationCIDR route) (ei_InstanceId inst) c2 = (None, c')"
      by (auto split: prod.splits option.splits)
    then show ?thesis using inst table c1 by (intro that) auto
  qed
qed

lemma findRouteTable_id:
  assumes "routes_honest net" and "findRouteTable net n clusterName c1 = Inr table"
    and "c2 = c1 \<or> en_DeleteRoute net tid cidr c1 = (None, c2)"
    and "en_CreateRoute net (tb_RouteTableId table) cidr inst c2 = (None, c')"
  shows "\<exists>t. findRouteTable net n clusterName c' = Inr t \<and> new_route cidr inst \<in> set (tb_Routes t)"
proof -
  obtain t where t: "findRouteTable net n clusterName c2 = Inr t" "tb_RouteTableId t = tb_RouteTableId table"
  proof (cases "c2 = c1")
    case True
    then show ?thesis using assms(2) by (intro that) auto
  next
    case False
    then have "edits_routes net c1 c2 tid (filter (\<lambda>r. rt_DestinationCidrBlock r \<noteq> cidr))"
      using assms(1,3) by (auto simp: routes_honest_def)
    then show ?thesis using assms(2)
      by (intro that [of "edit_table tid (filter (\<lambda>r. rt_DestinationCidrBlock r \<noteq> cidr)) table"])
        (simp_all add: findRouteTable_edited)
  qed
  have "edits_routes net c2 c' (tb_RouteTableId table) (\<lambda>rs. rs @ [new_route cidr inst])"
    using assms(1,4) by (auto simp: routes_honest_def)
  then have "findRouteTable net n clusterName c' = Inr (edit_table (tb_RouteTableId table) (\<lambda>rs. rs @ [new_route cidr inst]) t)"
    using t(1) by (simp add: findRouteTable_edited)
  then show ?thesis using t(2) by (simp add: edit_table_def)
qed

text \<open>A route that was created is listed, with the node it was created for.\<close>

theorem created_route_is_listed:
  assumes "routes_honest net" and "aws_CreateRoute net n clusterName route c = (None, c')"
    and "\<And>i. getInstanceByNodeName (en_ec2 net) (an_cloud n) (cr_TargetNode route) c = Inr i \<Longrightarrow>
           ei_InstanceId i \<noteq> '''' \<and> ei_PrivateDnsName i = cr_TargetNode route \<and>
           (\<forall>ids. ei_InstanceId i \<in> set ids \<longrightarrow> (\<exists>is. ec_DescribeInstances (en_ec2 net) ids [] c' = Inr is \<and> i \<in> set is \<and>
              (\<forall>j \<in> set is. ei_InstanceId j = ei_InstanceId i \<longrightarrow> j = i)))"
    and "cr_DestinationCIDR route \<noteq> ''''"
  shows "\<exists>routes. aws_ListRoutes net n clusterName c' = Inr routes \<and>
    route\<lparr>cr_Name := clusterName @ ''-'' @ cr_DestinationCIDR route\<rparr> \<in> set routes"
  using assms(2)
proof (rule aws_CreateRoute_None, goal_cases)
  case (1 i table c1 c2)
  from findRouteTable_id [OF assms(1) 1(2) 1(4) 1(5)] obtain t
    where t: "findRouteTable net n clusterName c' = Inr t"
      and r: "new_route (cr_DestinationCIDR route) (ei_InstanceId i) \<in> set (tb_Routes t)" by blast
  let ?ids = "filter (\<lambda>i. i \<noteq> '''') (map rt_InstanceId (tb_Routes t))"
  note inst = assms(3) [OF 1(1)]
  have "ei_InstanceId i \<in> rt_InstanceId ` set (tb_Routes t)"
    using r by (metis image_eqI new_route_def ec2Route.select_convs(2))
  then have mem: "ei_InstanceId i \<in> set ?ids" using inst by simp
  with inst obtain "is" where all: "ec_DescribeInstances (en_ec2 net) ?ids [] c' = Inr is" "i \<in> set is"
      "\<And>j. j \<in> set is \<Longrightarrow> ei_InstanceId j = ei_InstanceId i \<Longrightarrow> j = i" by blast
  let ?m = "foldl (\<lambda>m i. if ei_InstanceId i = '''' then m else fmupd (ei_InstanceId i) i m) fmempty is"
  have "getInstancesByIDs (en_ec2 net) ?ids c' = Inr ?m"
    using mem all(1) unfolding getInstancesByIDs_def by (metis length_0_conv list.distinct(1) list.set_cases sum.case(2))
  then have list: "aws_ListRoutes net n clusterName c' = Inr (routesOf clusterName ?m (tb_Routes t))"
    by (simp add: aws_ListRoutes_def t Let_def)
  have "fmlookup ?m (ei_InstanceId i) = Some i"
    using all inst by (intro instances_by_id) auto
  then have "\<lparr>cr_Name = clusterName @ ''-'' @ cr_DestinationCIDR route, cr_TargetNode = mapInstanceToNodeName i,
      cr_DestinationCIDR = cr_DestinationCIDR route\<rparr> \<in> set (routesOf clusterName ?m (tb_Routes t))"
    using routesOf_In [OF r, of ?m i clusterName] inst assms(4) by (simp add: new_route_def)
  then show ?case using list inst by (cases route) (simp add: mapInstanceToNodeName_def)
qed

text \<open>A route that was deleted is not listed any more, whoever its target is.\<close>

theorem deleted_route_is_gone:
  assumes "routes_honest net" and "aws_DeleteRoute net n clusterName route c = (None, c')"
    and "aws_ListRoutes net n clusterName c' = Inr routes"
  shows "cr_DestinationCIDR route \<notin> cr_DestinationCIDR ` set routes"
proof -
  from assms(2) obtain table where t: "findRouteTable net n clusterName c = Inr table"
    and d: "en_DeleteRoute net (tb_RouteTableId table) (cr_DestinationCIDR route) c = (None, c')"
    by (auto simp: aws_DeleteRoute_def split: sum.splits prod.splits option.splits)
  have "edits_routes net c c' (tb_RouteTableId table) (filter (\<lambda>r. rt_DestinationCidrBlock r \<noteq> cr_DestinationCIDR route))"
    using assms(1) d by (auto simp: routes_honest_def)
  then have "findRouteTable net n clusterName c' =
      Inr (table\<lparr>tb_Routes := filter (\<lambda>r. rt_DestinationCidrBlock r \<noteq> cr_DestinationCIDR route) (tb_Routes table)\<rparr>)"
    using t by (simp add: findRouteTable_edited edit_table_def)
  then obtain m where "routes = routesOf clusterName m
      (filter (\<lambda>r. rt_DestinationCidrBlock r \<noteq> cr_DestinationCIDR route) (tb_Routes table))"
    using assms(3) by (auto simp: aws_ListRoutes_def Let_def split: sum.splits)
  then show ?thesis using routesOf_destinations by fastforce
qed

section \<open>Witnesses\<close>

definition demo_network :: awsNet where
  "demo_network = \<lparr>an_cloud = demo_aws, an_vpcID = ''vpc'', an_RouteTableID = '''', an_DisableSecurityGroupIngress = False\<rparr>"

definition demo_table :: ec2RouteTable where
  "demo_table =
     \<lparr>tb_RouteTableId = ''rtb-1'', tb_Associations = [('''', True)],
      tb_Routes = [\<lparr>rt_DestinationCidrBlock = ''0/0'', rt_InstanceId = '''', rt_GatewayId = ''igw-1'', rt_State = ''active''\<rparr>],
      tb_Tags = []\<rparr>"

definition demo_subnet :: "string \<Rightarrow> string \<Rightarrow> ec2Tag list \<Rightarrow> ec2Subnet" where
  "demo_subnet sid az tags = \<lparr>sn_SubnetId = sid, sn_AvailabilityZone = az, sn_Tags = tags\<rparr>"

definition demo_subnets :: "ec2Subnet list" where
  "demo_subnets =
     [demo_subnet ''sn-1'' ''a'' [], demo_subnet ''sn-2'' ''b'' [],
      demo_subnet ''sn-3'' ''a'' [(''kubernetes.io/role/elb'', '''')]]"

definition demo_vpc :: demoRegion where
  "demo_vpc = \<lparr>dr_rules = [], dr_made = 0, dr_tables = [demo_table], dr_subnets = demo_subnets\<rparr>"

lemma demo_findSubnets: "findSubnets demo_net demo_network demo_vpc = Inr demo_subnets"
  by (simp add: findSubnets_def demo_network_def demo_aws_def addFilters_def hasClusterTag_def demo_net_def region_net_def demo_vpc_def
        demo_subnets_def Let_def)

lemma demo_public: "isSubnetPublic [demo_table] sid = Inr True"
  by (simp add: isSubnetPublic_def lastTable_def demo_table_def HasPrefix_def Let_def)

lemma demo_tables: "en_DescribeRouteTables demo_net filters demo_vpc = Inr [demo_table]"
  by (simp add: demo_net_def region_net_def demo_vpc_def)

theorem one_subnet_per_zone_witness:
  "\<exists>ids. findELBSubnets demo_net demo_network False demo_vpc = Inr ids \<and> set ids = {''sn-3'', ''sn-2''} \<and> length ids = 2"
proof -
  let ?of = "\<lambda>az. filter (\<lambda>s. usable_subnet [demo_table] False s \<and> in_zone az s) demo_subnets"
  have use: "usable_subnet [demo_table] False s \<longleftrightarrow> sn_AvailabilityZone s \<noteq> '''' \<and> sn_SubnetId s \<noteq> ''''" for s
    by (simp add: usable_subnet_def demo_public)
  have a: "preferred False (?of ''a'') = Some (demo_subnet ''sn-3'' ''a'' [(''kubernetes.io/role/elb'', '''')])"
    and b: "preferred False (?of ''b'') = Some (demo_subnet ''sn-2'' ''b'' [])"
    unfolding use by (simp_all add: demo_subnets_def demo_subnet_def in_zone_def preferred_def hasELBTag_def)
  have zones: "sn_AvailabilityZone ` {s \<in> set demo_subnets. usable_subnet [demo_table] False s} = {''a'', ''b''}"
    unfolding use set_filter [symmetric] by (simp add: demo_subnets_def demo_subnet_def insert_commute)
  have "\<exists>m. elbSubnets_loop [demo_table] False demo_subnets fmempty = Inr m"
    by (rule elbSubnets_loop_total) (rule exI, rule demo_public)
  then obtain ids where ids: "findELBSubnets demo_net demo_network False demo_vpc = Inr ids"
    by (auto simp: findELBSubnets_def demo_findSubnets demo_tables)
  from one_subnet_per_zone [OF ids demo_findSubnets demo_tables demo_net_legal] obtain zs
    where zs: "ids = map (\<lambda>az. sn_SubnetId (the (preferred False (?of az)))) zs" "distinct zs" "set zs = {''a'', ''b''}"
    unfolding zones by blast
  then have "set ids = {''sn-3'', ''sn-2''}" by (auto simp: a b demo_subnet_def)
  moreover have "length ids = 2" using zs distinct_card [OF zs(2)] by simp
  ultimately show ?thesis using ids by blast
qed

text \<open>The subnet with the route to the gateway is public, the other one is not.\<close>

theorem internal_elb_ignores_privacy_witness:
  "elbSubnets_loop [demo_table] True demo_subnets fmempty =
   elbSubnets_loop [demo_table\<lparr>tb_Routes := []\<rparr>] True demo_subnets fmempty \<and>
   isSubnetPublic [demo_table] ''sn-1'' \<noteq> isSubnetPublic [demo_table\<lparr>tb_Routes := []\<rparr>] ''sn-1''"
proof -
  have closed: "isSubnetPublic [demo_table\<lparr>tb_Routes := []\<rparr>] sid = Inr False" for sid
    by (simp add: isSubnetPublic_def lastTable_def demo_table_def Let_def)
  obtain m where "elbSubnets_loop [demo_table] True demo_subnets fmempty = Inr m"
    using elbSubnets_loop_total [OF exI, OF demo_public] by blast
  moreover obtain m' where "elbSubnets_loop [demo_table\<lparr>tb_Routes := []\<rparr>] True demo_subnets fmempty = Inr m'"
    using elbSubnets_loop_total [OF exI, OF closed] by blast
  moreover note internal_elb_ignores_privacy
  ultimately show ?thesis by (auto simp: demo_public closed)
qed

lemma demo_routes_honest: "routes_honest demo_net"
proof -
  have "map (edit_table tid id) ts = ts" for tid ts
    by (induction ts) (simp_all add: edit_table_def)
  then show ?thesis by (auto simp: routes_honest_def edits_routes_def demo_net_def region_net_def)
qed

definition demo_route :: cloudRoute where
  "demo_route = \<lparr>cr_Name = '''', cr_TargetNode = ''n'', cr_DestinationCIDR = ''10/8''\<rparr>"

lemma demo_by_name:
  "getInstanceByNodeName demo_ec2 demo_aws nn c = Inr \<lparr>ei_InstanceId = ''i-1'', ei_PrivateDnsName = ''n'', ei_Tags = [],
     ei_AvailabilityZone = Some ''us-a'', ei_InstanceType = ''m'', ei_VpcId = ''vpc'', ei_SubnetId = ''sn'',
     ei_BlockDevices = [], ei_SecurityGroups = [],
      ei_State = ''running'', ei_PrivateIpAddress = '''', ei_PublicIpAddress = '''', ei_PublicDnsName = ''''\<rparr>"
  by (simp add: getInstanceByNodeName_def findInstanceByNodeName_def describeInstances_def demo_ec2_def demo_aws_def hasClusterTag_def)

lemma demo_route_table: "dr_tables c = [t] \<Longrightarrow> findRouteTable demo_net demo_network k c = Inr t"
  by (simp add: findRouteTable_def demo_network_def demo_aws_def addFilters_def hasClusterTag_def demo_net_def region_net_def)

lemma demo_net_routes:
  "en_ec2 demo_net = demo_ec2" "an_cloud demo_network = demo_aws"
  "en_SetSourceDestCheck demo_net inst b r = (None, r)"
  "en_CreateRoute demo_net tid cidr inst r =
     (None, r\<lparr>dr_tables := map (edit_table tid (\<lambda>rs. rs @ [new_route cidr inst])) (dr_tables r)\<rparr>)"
  "en_DeleteRoute demo_net tid cidr r =
     (None, r\<lparr>dr_tables := map (edit_table tid (filter (\<lambda>q. rt_DestinationCidrBlock q \<noteq> cidr))) (dr_tables r)\<rparr>)"
  by (simp_all add: demo_net_def region_net_def demo_network_def)

lemma demo_describe:
  "ec_DescribeInstances demo_ec2 ids filters c = Inr [\<lparr>ei_InstanceId = ''i-1'', ei_PrivateDnsName = ''n'', ei_Tags = [],
     ei_AvailabilityZone = Some ''us-a'', ei_InstanceType = ''m'', ei_VpcId = ''vpc'', ei_SubnetId = ''sn'',
     ei_BlockDevices = [], ei_SecurityGroups = [],
      ei_State = ''running'', ei_PrivateIpAddress = '''', ei_PublicIpAddress = '''', ei_PublicDnsName = ''''\<rparr>]"
  by (simp add: demo_ec2_def)

theorem created_route_is_listed_witness:
  "\<exists>r'. aws_CreateRoute demo_net demo_network ''k'' demo_route demo_vpc = (None, r') \<and>
     (\<exists>routes. aws_ListRoutes demo_net demo_network ''k'' r' = Inr routes \<and>
        demo_route\<lparr>cr_Name := ''k-10/8''\<rparr> \<in> set routes)"
proof -
  have "\<exists>r'. aws_CreateRoute demo_net demo_network ''k'' demo_route demo_vpc = (None, r')"
    using demo_route_table [of demo_vpc demo_table]
    by (simp add: aws_CreateRoute_def configureInstanceSourceDestCheck_def demo_by_name demo_net_routes
          blackholedRoute_def demo_vpc_def split: option.split)
  then obtain r' where r': "aws_CreateRoute demo_net demo_network ''k'' demo_route demo_vpc = (None, r')" by blast
  have "\<exists>routes. aws_ListRoutes demo_net demo_network ''k'' r' = Inr routes \<and>
      demo_route\<lparr>cr_Name := ''k'' @ ''-'' @ cr_DestinationCIDR demo_route\<rparr> \<in> set routes"
    by (rule created_route_is_listed [OF demo_routes_honest r']) (auto simp: demo_net_routes demo_by_name demo_route_def demo_describe)
  then show ?thesis using r' by (auto simp: demo_route_def)
qed

theorem deleted_route_is_gone_witness:
  "\<exists>r' routes. aws_DeleteRoute demo_net demo_network ''k'' demo_route
       (demo_vpc\<lparr>dr_tables := [edit_table ''rtb-1'' (\<lambda>rs. rs @ [new_route ''10/8'' ''i-1'']) demo_table]\<rparr>) = (None, r') \<and>
     aws_ListRoutes demo_net demo_network ''k'' r' = Inr routes \<and> ''10/8'' \<notin> cr_DestinationCIDR ` set routes"
proof -
  let ?c = "demo_vpc\<lparr>dr_tables := [edit_table ''rtb-1'' (\<lambda>rs. rs @ [new_route ''10/8'' ''i-1'']) demo_table]\<rparr>"
  have "\<exists>r'. aws_DeleteRoute demo_net demo_network ''k'' demo_route ?c = (None, r') \<and> (\<exists>t. dr_tables r' = [t])"
    using demo_route_table [of ?c] by (simp add: aws_DeleteRoute_def demo_net_routes)
  then obtain r' t where d: "aws_DeleteRoute demo_net demo_network ''k'' demo_route ?c = (None, r')"
    and t: "dr_tables r' = [t]" by blast
  have "\<exists>m. getInstancesByIDs demo_ec2 ids c = Inr m" for ids and c :: demoRegion
    by (simp add: getInstancesByIDs_def demo_describe)
  then have "\<exists>routes. aws_ListRoutes demo_net demo_network ''k'' r' = Inr routes"
    using demo_route_table [OF t] by (auto simp: aws_ListRoutes_def demo_net_routes Let_def split: sum.split) (metis sum.simps(4))
  then obtain routes where l: "aws_ListRoutes demo_net demo_network ''k'' r' = Inr routes" by blast
  from deleted_route_is_gone [OF demo_routes_honest d l] d l show ?thesis by (auto simp: demo_route_def)
qed

end
