(* ===== verification/AwsElb.thy ===== *)
theory AwsElb
  imports AwsRoutes
begin

text \<open>
  The classic load balancers of AWS: \<open>aws_loadbalancer.go\<close> and the helpers of \<open>aws_utils.go\<close>. The ELB
  client is the record \<open>elbAPI\<close>; the operations are steps on the cloud's state (\<open>awsStep\<close>).
\<close>

type_synonym ('c, 'a) awsStep = "('c, awsErr, 'a) step"

section \<open>The ELB client\<close>

record elbListener =
  ls_Protocol :: string
  ls_InstanceProtocol :: string
  ls_InstancePort :: "int option"
  ls_LoadBalancerPort :: "int option"
  ls_SSLCertificateId :: string

record elbHealthCheck =
  hc_Target :: string
  hc_HealthyThreshold :: int
  hc_UnhealthyThreshold :: int
  hc_Timeout :: int
  hc_Interval :: int

record elbAttributes =
  la_AccessLogEnabled :: bool
  la_AccessLogEmitInterval :: "int option"
  la_AccessLogS3BucketName :: "string option"
  la_AccessLogS3BucketPrefix :: "string option"
  la_ConnectionDrainingEnabled :: bool
  la_ConnectionDrainingTimeout :: "int option"
  la_IdleTimeout :: int
  la_CrossZoneEnabled :: bool

record elbDescription =
  ld_LoadBalancerName :: string
  ld_DNSName :: string
  ld_Subnets :: "string list"
  ld_SecurityGroups :: "string list"
  ld_Listeners :: "elbListener option list"
  ld_Backends :: "(int option \<times> string list) list"
  ld_Instances :: "string list"
  ld_HealthCheck :: "elbHealthCheck option"

record CreateLoadBalancerInput =
  ci_LoadBalancerName :: string
  ci_Listeners :: "elbListener list"
  ci_Scheme :: "string option"
  ci_Subnets :: "string list"
  ci_SecurityGroups :: "string list"
  ci_Tags :: "ec2Tag list"

text \<open>
  \<open>el_sameAttributes\<close> is the answer of \<open>reflect.DeepEqual\<close> on the attributes that are wanted and the
  address of the attributes found.
\<close>

record 'c elbAPI =
  el_DescribeLoadBalancers :: "string \<Rightarrow> 'c \<Rightarrow> awsErr + elbDescription list"
  el_CreateLoadBalancer :: "CreateLoadBalancerInput \<Rightarrow> 'c \<Rightarrow> awsErr option \<times> 'c"
  el_DeleteLoadBalancer :: "string \<Rightarrow> 'c \<Rightarrow> awsErr option \<times> 'c"
  el_DetachSubnets :: "string \<Rightarrow> string list \<Rightarrow> 'c \<Rightarrow> awsErr option \<times> 'c"
  el_AttachSubnets :: "string \<Rightarrow> string list \<Rightarrow> 'c \<Rightarrow> awsErr option \<times> 'c"
  el_ApplySecurityGroups :: "string \<Rightarrow> string list \<Rightarrow> 'c \<Rightarrow> awsErr option \<times> 'c"
  el_DeleteListeners :: "string \<Rightarrow> int option list \<Rightarrow> 'c \<Rightarrow> awsErr option \<times> 'c"
  el_CreateListeners :: "string \<Rightarrow> elbListener list \<Rightarrow> 'c \<Rightarrow> awsErr option \<times> 'c"
  el_CreatePolicy :: "string \<Rightarrow> string \<Rightarrow> 'c \<Rightarrow> awsErr option \<times> 'c"
  el_SetBackendPolicies :: "string \<Rightarrow> int \<Rightarrow> string list \<Rightarrow> 'c \<Rightarrow> awsErr option \<times> 'c"
  el_DescribeAttributes :: "string \<Rightarrow> 'c \<Rightarrow> awsErr + elbAttributes"
  el_ModifyAttributes :: "string \<Rightarrow> elbAttributes \<Rightarrow> 'c \<Rightarrow> awsErr option \<times> 'c"
  el_ConfigureHealthCheck :: "string \<Rightarrow> elbHealthCheck \<Rightarrow> 'c \<Rightarrow> awsErr option \<times> 'c"
  el_RegisterInstances :: "string \<Rightarrow> string list \<Rightarrow> 'c \<Rightarrow> awsErr option \<times> 'c"
  el_DeregisterInstances :: "string \<Rightarrow> string list \<Rightarrow> 'c \<Rightarrow> awsErr option \<times> 'c"
  el_sameAttributes :: "elbAttributes \<Rightarrow> elbAttributes \<Rightarrow> bool"
  el_rangePorts :: "int fset \<Rightarrow> 'c \<Rightarrow> int list"

abbreviation ProxyProtocolPolicyName :: string where
  "ProxyProtocolPolicyName \<equiv> ''k8s-proxyprotocol-enabled''"

abbreviation TagNameKubernetesService :: string where
  "TagNameKubernetesService \<equiv> ''kubernetes.io/service-name''"

text \<open>The last description of the answer is used; a code of \<open>LoadBalancerNotFound\<close> is no error.\<close>

definition describeLoadBalancer :: "'c elbAPI \<Rightarrow> string \<Rightarrow> 'c \<Rightarrow> awsErr + elbDescription option" where
  "describeLoadBalancer elb lbName c =
     (case el_DescribeLoadBalancers elb lbName c of
        Inl err \<Rightarrow>
          (case err of
             AwsAPIErr code _ \<Rightarrow> if code = ''LoadBalancerNotFound'' then Inr None else Inl err
           | _ \<Rightarrow> Inl err)
      | Inr ds \<Rightarrow> Inr (foldl (\<lambda>ret d. Some d) None ds))"

definition orZero :: "int option \<Rightarrow> int" where
  "orZero v = (case v of Some n \<Rightarrow> n | None \<Rightarrow> 0)"

definition stringSetToPointers :: "'c ec2Net \<Rightarrow> string fset \<Rightarrow> 'c \<Rightarrow> string list" where
  "stringSetToPointers net ss c = en_range net ss c"

definition stringSetFromPointers :: "string list \<Rightarrow> string fset" where
  "stringSetFromPointers ss = fset_of_list ss"

definition createProxyProtocolPolicy :: "'c elbAPI \<Rightarrow> string \<Rightarrow> ('c, unit) awsStep" where
  "createProxyProtocolPolicy elb lbName =
     request_call (el_CreatePolicy elb lbName ProxyProtocolPolicyName)
       (AwsWrapf ''error creating proxy protocol policy on load balancer: %v'' [])"

definition setBackendPolicies :: "'c elbAPI \<Rightarrow> string \<Rightarrow> int \<Rightarrow> string list \<Rightarrow> ('c, unit) awsStep" where
  "setBackendPolicies elb lbName instancePort policies =
     request_call (el_SetBackendPolicies elb lbName instancePort policies)
       (AwsWrapf ''error adjusting AWS loadbalancer backend policies: %v'' [])"

definition proxyProtocolEnabled :: "int option \<times> string list \<Rightarrow> bool" where
  "proxyProtocolEnabled backend = list_ex (\<lambda>policy. policy = ProxyProtocolPolicyName) (snd backend)"

section \<open>ensureLoadBalancer\<close>

definition elb_create ::
  "'c elbAPI \<Rightarrow> 'c ec2Net \<Rightarrow> awsNet \<Rightarrow> string \<Rightarrow> string \<Rightarrow> elbListener list \<Rightarrow> string list \<Rightarrow> string list \<Rightarrow> bool \<Rightarrow> bool \<Rightarrow>
   ('c, bool) awsStep" where
  "elb_create elb net n namespacedName lbName listeners subnetIDs securityGroupIDs internalELB proxyProtocol c =
     (let tags = buildTags (ac_tagging (an_cloud n)) ResourceLifecycleOwned
                   (fmupd TagNameKubernetesService namespacedName fmempty);
          tagList = map (\<lambda>k. (k, case fmlookup tags k of Some v \<Rightarrow> v | None \<Rightarrow> '''')) (en_range net (fmdom tags) c);
          createRequest =
            \<lparr>ci_LoadBalancerName = lbName, ci_Listeners = listeners,
             ci_Scheme = (if internalELB then Some ''internal'' else None),
             ci_Subnets = subnetIDs, ci_SecurityGroups = securityGroupIDs, ci_Tags = tagList\<rparr>
      in andThen (request_call (el_CreateLoadBalancer elb createRequest) id) (\<lambda>_.
         andThen (if proxyProtocol then
                    andThen (createProxyProtocolPolicy elb lbName) (\<lambda>_.
                      each (\<lambda>l. case ls_InstancePort l of
                                  None \<Rightarrow> panic
                                | Some p \<Rightarrow> setBackendPolicies elb lbName p [ProxyProtocolPolicyName]) listeners)
                  else give ()) (\<lambda>_.
         give True)) c)"

definition syncSubnets ::
  "'c elbAPI \<Rightarrow> 'c ec2Net \<Rightarrow> string \<Rightarrow> elbDescription \<Rightarrow> string list \<Rightarrow> ('c, bool) awsStep" where
  "syncSubnets elb net lbName lb subnetIDs =
     (let expected = fset_of_list subnetIDs; actual = stringSetFromPointers (ld_Subnets lb);
          additions = expected |-| actual; removals = actual |-| expected
      in andThen (if removals \<noteq> {||} then
                    (\<lambda>c. request_call (el_DetachSubnets elb lbName (stringSetToPointers net removals c))
                           (AwsWrapf ''error detaching AWS loadbalancer from subnets: %v'' []) c)
                  else give ()) (\<lambda>_.
         andThen (if additions \<noteq> {||} then
                    (\<lambda>c. request_call (el_AttachSubnets elb lbName (stringSetToPointers net additions c))
                           (AwsWrapf ''error attaching AWS loadbalancer to subnets: %v'' []) c)
                  else give ()) (\<lambda>_.
         give (removals \<noteq> {||} \<or> additions \<noteq> {||}))))"

definition syncSecurityGroups ::
  "'c elbAPI \<Rightarrow> string \<Rightarrow> elbDescription \<Rightarrow> string list \<Rightarrow> ('c, bool) awsStep" where
  "syncSecurityGroups elb lbName lb securityGroupIDs =
     (if fset_of_list securityGroupIDs \<noteq> stringSetFromPointers (ld_SecurityGroups lb) then
        andThen (request_call (el_ApplySecurityGroups elb lbName securityGroupIDs)
                   (AwsWrapf ''error applying AWS loadbalancer security groups: %v'' [])) (\<lambda>_.
        give True)
      else give False)"

definition sameListener :: "elbListener \<Rightarrow> elbListener \<Rightarrow> bool" where
  "sameListener actual expected \<longleftrightarrow>
     ls_Protocol actual = ls_Protocol expected \<and>
     ls_InstanceProtocol actual = ls_InstanceProtocol expected \<and>
     orZero (ls_InstancePort actual) = orZero (ls_InstancePort expected) \<and>
     orZero (ls_LoadBalancerPort actual) = orZero (ls_LoadBalancerPort expected) \<and>
     ls_SSLCertificateId actual = ls_SSLCertificateId expected"

definition foundListener :: "elbListener list \<Rightarrow> elbListener \<Rightarrow> nat option" where
  "foundListener listeners actual =
     foldl (\<lambda>found i. if sameListener actual (listeners ! i) then Some i else found) None [0..<length listeners]"

fun scanListeners :: "elbListener list \<Rightarrow> elbListener option list \<Rightarrow> nat list \<Rightarrow> int option list \<Rightarrow> nat list \<times> int option list" where
  "scanListeners listeners [] foundSet removals = (foundSet, removals)"
| "scanListeners listeners (None # ds) foundSet removals = scanListeners listeners ds foundSet removals"
| "scanListeners listeners (Some actual # ds) foundSet removals =
     (case foundListener listeners actual of
        Some i \<Rightarrow> scanListeners listeners ds (i # foundSet) removals
      | None \<Rightarrow> scanListeners listeners ds foundSet (removals @ [ls_LoadBalancerPort actual]))"

definition syncListeners :: "'c elbAPI \<Rightarrow> string \<Rightarrow> elbDescription \<Rightarrow> elbListener list \<Rightarrow> ('c, bool) awsStep" where
  "syncListeners elb lbName lb listeners =
     (let (foundSet, removals) = scanListeners listeners (ld_Listeners lb) [] [];
          additions = map (\<lambda>i. listeners ! i) (filter (\<lambda>i. i \<notin> set foundSet) [0..<length listeners])
      in andThen (if length removals \<noteq> 0 then
                    request_call (el_DeleteListeners elb lbName removals)
                      (AwsWrapf ''error deleting AWS loadbalancer listeners: %v'' [])
                  else give ()) (\<lambda>_.
         andThen (if length additions \<noteq> 0 then
                    request_call (el_CreateListeners elb lbName additions)
                      (AwsWrapf ''error creating AWS loadbalancer listeners: %v'' [])
                  else give ()) (\<lambda>_.
         give (length removals \<noteq> 0 \<or> length additions \<noteq> 0))))"

text \<open>
  The state of the proxy protocol: \<open>proxyProtocolBackends\<close> of the ports that are described, and the
  ports among them that some listener uses (\<open>foundBackends\<close>).
\<close>

fun backendStates :: "(int option \<times> string list) list \<Rightarrow> (int, bool) fmap \<Rightarrow> (int, bool) fmap option" where
  "backendStates [] m = Some m"
| "backendStates (b # bs) m =
     (case fst b of None \<Rightarrow> None | Some p \<Rightarrow> backendStates bs (fmupd p (proxyProtocolEnabled b) m))"

fun syncListenerPolicies ::
  "'c elbAPI \<Rightarrow> string \<Rightarrow> bool \<Rightarrow> string list \<Rightarrow> (int, bool) fmap \<Rightarrow> elbListener list \<Rightarrow> (int, bool) fmap \<Rightarrow> bool \<Rightarrow>
   ('c, (int, bool) fmap \<times> bool) awsStep" where
  "syncListenerPolicies elb lbName proxyProtocol policies states [] foundBackends dirty = give (foundBackends, dirty)"
| "syncListenerPolicies elb lbName proxyProtocol policies states (l # ls) foundBackends dirty =
     (case ls_InstancePort l of
        None \<Rightarrow> panic
      | Some p \<Rightarrow>
          (let (setPolicy, foundBackends) =
                 (case fmlookup states p of
                    None \<Rightarrow> (proxyProtocol, foundBackends)
                  | Some currentState \<Rightarrow> (currentState \<noteq> proxyProtocol, fmupd p True foundBackends))
           in if setPolicy then
                andThen (setBackendPolicies elb lbName p policies) (\<lambda>_.
                  syncListenerPolicies elb lbName proxyProtocol policies states ls foundBackends True)
              else syncListenerPolicies elb lbName proxyProtocol policies states ls foundBackends dirty))"

definition syncProxyProtocol ::
  "'c elbAPI \<Rightarrow> string \<Rightarrow> elbDescription \<Rightarrow> elbListener list \<Rightarrow> bool \<Rightarrow> ('c, bool) awsStep" where
  "syncProxyProtocol elb lbName lb listeners proxyProtocol =
     andThen (if proxyProtocol then createProxyProtocolPolicy elb lbName else give ()) (\<lambda>_.
     let policies = (if proxyProtocol then [ProxyProtocolPolicyName] else []) in
     case backendStates (ld_Backends lb) fmempty of
       None \<Rightarrow> panic
     | Some states \<Rightarrow>
         andThen (syncListenerPolicies elb lbName proxyProtocol policies states listeners (fmmap (\<lambda>_. False) states) False)
           (\<lambda>(foundBackends, dirty) c.
              let stale = filter (\<lambda>p. fmlookup foundBackends p = Some False) (el_rangePorts elb (fmdom foundBackends) c)
              in andThen (each (\<lambda>p. setBackendPolicies elb lbName p []) stale) (\<lambda>_.
                 give (dirty \<or> stale \<noteq> [])) c))"

definition syncAttributes :: "'c elbAPI \<Rightarrow> string \<Rightarrow> elbAttributes \<Rightarrow> ('c, bool) awsStep" where
  "syncAttributes elb lbName loadBalancerAttributes =
     andThen (reading (el_DescribeAttributes elb lbName)) (\<lambda>foundAttributes.
       if \<not> el_sameAttributes elb loadBalancerAttributes foundAttributes then
         andThen (request_call (el_ModifyAttributes elb lbName loadBalancerAttributes)
                    (AwsWrapf ''Unable to update load balancer attributes during attribute sync: %v'' [])) (\<lambda>_.
         give True)
       else give False)"

definition ensureLoadBalancer ::
  "'c elbAPI \<Rightarrow> 'c ec2Net \<Rightarrow> awsNet \<Rightarrow> string \<Rightarrow> string \<Rightarrow> elbListener list \<Rightarrow> string list \<Rightarrow> string list \<Rightarrow> bool \<Rightarrow> bool \<Rightarrow>
   elbAttributes \<Rightarrow> ('c, elbDescription option) awsStep" where
  "ensureLoadBalancer elb net n namespacedName lbName listeners subnetIDs securityGroupIDs internalELB proxyProtocol
     loadBalancerAttributes =
     andThen (reading (describeLoadBalancer elb lbName)) (\<lambda>loadBalancer.
     andThen
       (case loadBalancer of
          None \<Rightarrow>
            elb_create elb net n namespacedName lbName listeners subnetIDs securityGroupIDs internalELB proxyProtocol
        | Some lb \<Rightarrow>
            andThen (syncSubnets elb net lbName lb subnetIDs) (\<lambda>dirty1.
            andThen (syncSecurityGroups elb lbName lb securityGroupIDs) (\<lambda>dirty2.
            andThen (syncListeners elb lbName lb listeners) (\<lambda>dirty3.
            andThen (syncProxyProtocol elb lbName lb listeners proxyProtocol) (\<lambda>dirty4.
            give (dirty1 \<or> dirty2 \<or> dirty3 \<or> dirty4)))))) (\<lambda>dirty.
     andThen (syncAttributes elb lbName loadBalancerAttributes) (\<lambda>dirty5.
     if dirty \<or> dirty5 then reading (describeLoadBalancer elb lbName) else give loadBalancer)))"

section \<open>Health check and instances\<close>

fun healthCheckTarget :: "elbListener list \<Rightarrow> string" where
  "healthCheckTarget [] = ''''"
| "healthCheckTarget (l # ls) =
     (case ls_InstancePort l of None \<Rightarrow> healthCheckTarget ls | Some p \<Rightarrow> ''TCP:'' @ FormatInt p)"

definition ensureLoadBalancerHealthCheck ::
  "'c elbAPI \<Rightarrow> elbDescription option \<Rightarrow> elbListener list \<Rightarrow> ('c, unit) awsStep" where
  "ensureLoadBalancerHealthCheck elb loadBalancer listeners =
     (case loadBalancer of
        None \<Rightarrow> panic
      | Some lb \<Rightarrow>
          (let lbName = ld_LoadBalancerName lb;
               expected = \<lparr>hc_Target = healthCheckTarget listeners, hc_HealthyThreshold = 2, hc_UnhealthyThreshold = 6,
                           hc_Timeout = 5, hc_Interval = 10\<rparr>
           in if hc_Target expected = '''' then
                failing (AwsErrorf ''unable to determine health check port for %q (no valid listeners)'' [lbName])
              else
                (case ld_HealthCheck lb of
                   None \<Rightarrow> panic
                 | Some actual \<Rightarrow>
                     if actual = expected then give ()
                     else request_call (el_ConfigureHealthCheck elb lbName expected)
                            (AwsWrapf ''error configuring load-balancer health-check for %q: %v'' [lbName]))))"

definition ensureLoadBalancerInstances ::
  "'c elbAPI \<Rightarrow> string \<Rightarrow> string list \<Rightarrow> ec2Instance list \<Rightarrow> ('c, unit) awsStep" where
  "ensureLoadBalancerInstances elb lbName lbInstances instances =
     (let expected = fset_of_list (map ei_InstanceId instances); actual = fset_of_list lbInstances;
          addInstances = sorted_list_of_fset (expected |-| actual);
          removeInstances = sorted_list_of_fset (actual |-| expected)
      in andThen (if length addInstances > 0 then request_call (el_RegisterInstances elb lbName addInstances) id
                  else give ()) (\<lambda>_.
         if length removeInstances > 0 then request_call (el_DeregisterInstances elb lbName removeInstances) id
         else give ()))"

section \<open>What the service does with the calls\<close>

text \<open>
  What can be seen of a load balancer, and what the ELB documentation says the calls do to it:
  each one changes the part it names, and a description shows the state.
\<close>

record elbView =
  ew_Subnets :: "string fset"
  ew_SecurityGroups :: "string fset"
  ew_Listeners :: "elbListener list"
  ew_Policies :: "int \<Rightarrow> string list"
  ew_Instances :: "string fset"

definition shows_view :: "elbDescription \<Rightarrow> elbView \<Rightarrow> bool" where
  "shows_view lb v \<longleftrightarrow>
     fset_of_list (ld_Subnets lb) = ew_Subnets v \<and>
     fset_of_list (ld_SecurityGroups lb) = ew_SecurityGroups v \<and>
     ld_Listeners lb = map Some (ew_Listeners v) \<and>
     fset_of_list (ld_Instances lb) = ew_Instances v \<and>
     (\<forall>b \<in> set (ld_Backends lb). \<exists>p. b = (Some p, ew_Policies v p)) \<and>
     (\<forall>p. (\<exists>b \<in> set (ld_Backends lb). fst b = Some p) \<or> ew_Policies v p = [])"

definition changes_view ::
  "('c \<Rightarrow> string \<Rightarrow> elbView) \<Rightarrow> (string \<Rightarrow> 'x \<Rightarrow> 'c \<Rightarrow> awsErr option \<times> 'c) \<Rightarrow> ('x \<Rightarrow> elbView \<Rightarrow> elbView) \<Rightarrow> bool" where
  "changes_view view call f \<longleftrightarrow> (\<forall>lb x c c'. call lb x c = (None, c') \<longrightarrow> view c' lb = f x (view c lb))"

definition elb_honest :: "'c elbAPI \<Rightarrow> ('c \<Rightarrow> string \<Rightarrow> elbView) \<Rightarrow> bool" where
  "elb_honest elb view \<longleftrightarrow>
     changes_view view (el_DetachSubnets elb) (\<lambda>ss v. v\<lparr>ew_Subnets := ew_Subnets v |-| fset_of_list ss\<rparr>) \<and>
     changes_view view (el_AttachSubnets elb) (\<lambda>ss v. v\<lparr>ew_Subnets := ew_Subnets v |\<union>| fset_of_list ss\<rparr>) \<and>
     changes_view view (el_ApplySecurityGroups elb) (\<lambda>gs v. v\<lparr>ew_SecurityGroups := fset_of_list gs\<rparr>) \<and>
     changes_view view (el_DeleteListeners elb)
       (\<lambda>ps v. v\<lparr>ew_Listeners := filter (\<lambda>l. ls_LoadBalancerPort l \<notin> set ps) (ew_Listeners v)\<rparr>) \<and>
     changes_view view (el_CreateListeners elb) (\<lambda>ls v. v\<lparr>ew_Listeners := ew_Listeners v @ ls\<rparr>) \<and>
     changes_view view (\<lambda>lb (p, pols). el_SetBackendPolicies elb lb p pols)
       (\<lambda>(p, pols) v. v\<lparr>ew_Policies := (ew_Policies v)(p := pols)\<rparr>) \<and>
     changes_view view (el_CreatePolicy elb) (\<lambda>_ v. v) \<and>
     changes_view view (el_ModifyAttributes elb) (\<lambda>_ v. v) \<and>
     changes_view view (el_RegisterInstances elb) (\<lambda>is v. v\<lparr>ew_Instances := ew_Instances v |\<union>| fset_of_list is\<rparr>) \<and>
     changes_view view (el_DeregisterInstances elb) (\<lambda>is v. v\<lparr>ew_Instances := ew_Instances v |-| fset_of_list is\<rparr>) \<and>
     (\<forall>ps c. distinct (el_rangePorts elb ps c) \<and> fset_of_list (el_rangePorts elb ps c) = ps)"

lemma changes_viewD: "changes_view view call f \<Longrightarrow> call lb x c = (None, c') \<Longrightarrow> view c' lb = f x (view c lb)"
  unfolding changes_view_def by iprover

lemma elb_honestD:
  assumes "elb_honest elb view"
  shows "changes_view view (el_DetachSubnets elb) (\<lambda>ss v. v\<lparr>ew_Subnets := ew_Subnets v |-| fset_of_list ss\<rparr>)"
    and "changes_view view (el_AttachSubnets elb) (\<lambda>ss v. v\<lparr>ew_Subnets := ew_Subnets v |\<union>| fset_of_list ss\<rparr>)"
    and "changes_view view (el_ApplySecurityGroups elb) (\<lambda>gs v. v\<lparr>ew_SecurityGroups := fset_of_list gs\<rparr>)"
    and "changes_view view (el_DeleteListeners elb)
       (\<lambda>ps v. v\<lparr>ew_Listeners := filter (\<lambda>l. ls_LoadBalancerPort l \<notin> set ps) (ew_Listeners v)\<rparr>)"
    and "changes_view view (el_CreateListeners elb) (\<lambda>ls v. v\<lparr>ew_Listeners := ew_Listeners v @ ls\<rparr>)"
    and "changes_view view (\<lambda>lb (p, pols). el_SetBackendPolicies elb lb p pols)
       (\<lambda>(p, pols) v. v\<lparr>ew_Policies := (ew_Policies v)(p := pols)\<rparr>)"
    and "changes_view view (el_CreatePolicy elb) (\<lambda>_ v. v)"
    and "changes_view view (el_ModifyAttributes elb) (\<lambda>_ v. v)"
    and "changes_view view (el_RegisterInstances elb) (\<lambda>is v. v\<lparr>ew_Instances := ew_Instances v |\<union>| fset_of_list is\<rparr>)"
    and "changes_view view (el_DeregisterInstances elb) (\<lambda>is v. v\<lparr>ew_Instances := ew_Instances v |-| fset_of_list is\<rparr>)"
  using assms by (simp_all add: elb_honest_def)

lemmas elb_moves = elb_honestD [THEN changes_viewD]

lemma elb_rangePorts:
  assumes "elb_honest elb view"
  shows "set (el_rangePorts elb (fmdom m) c) = {k. fmlookup m k \<noteq> None}"
proof -
  from assms have "\<forall>ps c. distinct (el_rangePorts elb ps c) \<and> fset_of_list (el_rangePorts elb ps c) = ps"
    unfolding elb_honest_def by (elim conjE)
  then have "fset_of_list (el_rangePorts elb (fmdom m) c) = fmdom m" by simp
  then have "k \<in> set (el_rangePorts elb (fmdom m) c) \<longleftrightarrow> k |\<in>| fmdom m" for k by (metis fset_of_list_elem)
  then show "set (el_rangePorts elb (fmdom m) c) = {k. fmlookup m k \<noteq> None}" by (auto simp: fmlookup_dom_iff)
qed

section \<open>Each part follows what is asked\<close>

lemma syncSubnets_view:
  assumes "elb_honest elb view" and "legal_range net"
    and "fset_of_list (ld_Subnets lb) = ew_Subnets (view c lbName)"
    and "syncSubnets elb net lbName lb subnetIDs c = (Returned d, c')"
  shows "view c' lbName = (view c lbName)\<lparr>ew_Subnets := fset_of_list subnetIDs\<rparr>"
proof -
  have range: "fset_of_list (en_range net ss c) = ss" for ss c using assms(2) by (simp add: legal_range_def)
  show ?thesis
    using assms(4) elb_moves(1) [OF assms(1)] elb_moves(2) [OF assms(1)]
    by (auto simp: syncSubnets_def Let_def stringSetToPointers_def stringSetFromPointers_def assms(3) range
          split: if_splits intro!: arg_cong [where f = "\<lambda>x. (view c lbName)\<lparr>ew_Subnets := x\<rparr>"])
qed

lemma syncSecurityGroups_view:
  assumes "elb_honest elb view"
    and "fset_of_list (ld_SecurityGroups lb) = ew_SecurityGroups (view c lbName)"
    and "syncSecurityGroups elb lbName lb gs c = (Returned d, c')"
  shows "view c' lbName = (view c lbName)\<lparr>ew_SecurityGroups := fset_of_list gs\<rparr>"
  using assms(3) elb_moves(3) [OF assms(1)]
  by (auto simp: syncSecurityGroups_def stringSetFromPointers_def assms(2) split: if_splits)

lemma ensureLoadBalancerInstances_view:
  assumes "elb_honest elb view" and "fset_of_list lbInstances = ew_Instances (view c lbName)"
    and "ensureLoadBalancerInstances elb lbName lbInstances instances c = (Returned u, c')"
  shows "view c' lbName = (view c lbName)\<lparr>ew_Instances := fset_of_list (map ei_InstanceId instances)\<rparr>"
proof -
  have sorted: "fset_of_list (sorted_list_of_fset ss) = ss" for ss :: "string fset"
    by (simp add: fset_eq_iff fset_of_list_elem sorted_list_of_fset.rep_eq)
  have Nil: "sorted_list_of_fset ss = [] \<longleftrightarrow> ss = {||}" for ss :: "string fset"
    using sorted [of ss] by (metis fset_of_list_simps(1) list.set_intros(1) fset_of_list_elem fempty_iff neq_Nil_conv)
  show ?thesis
    using assms(3) elb_moves(9) [OF assms(1)] elb_moves(10) [OF assms(1)]
    by (auto simp: ensureLoadBalancerInstances_def Let_def assms(2) sorted Nil
          split: if_splits intro!: arg_cong [where f = "\<lambda>x. (view c lbName)\<lparr>ew_Instances := x\<rparr>"])
qed

section \<open>Listeners\<close>

text \<open>A listener the service wants is there, and one that is there is wanted.\<close>

definition listeners_match :: "elbListener list \<Rightarrow> elbListener list \<Rightarrow> bool" where
  "listeners_match actual expected \<longleftrightarrow>
     (\<forall>a \<in> set actual. \<exists>e \<in> set expected. sameListener a e) \<and>
     (\<forall>e \<in> set expected. \<exists>a \<in> set actual. sameListener a e)"

lemma foldl_last:
  "foldl (\<lambda>found i. if P i then Some i else found) acc xs =
     (if \<exists>x \<in> set xs. P x then Some (last (filter P xs)) else acc)"
  by (induction xs arbitrary: acc) (auto simp: filter_empty_conv)

lemma foundListener_Some:
  assumes "foundListener ls a = Some i"
  shows "i < length ls \<and> sameListener a (ls ! i)"
proof -
  let ?f = "filter (\<lambda>i. sameListener a (ls ! i)) [0..<length ls]"
  from assms have "?f \<noteq> []" and "i = last ?f"
    by (auto simp: foundListener_def foldl_last filter_empty_conv split: if_splits)
  then have "i \<in> set ?f" using last_in_set by blast
  then show ?thesis by simp
qed

lemma foundListener_None: "foundListener ls a = None \<Longrightarrow> e \<in> set ls \<Longrightarrow> \<not> sameListener a e"
  by (auto simp: foundListener_def foldl_last in_set_conv_nth split: if_splits)

lemma scanListeners_sets:
  "scanListeners ls (map Some as) F R = (F', R') \<Longrightarrow>
     set F' = set F \<union> {i. \<exists>a \<in> set as. foundListener ls a = Some i} \<and>
     set R' = set R \<union> {ls_LoadBalancerPort a |a. a \<in> set as \<and> foundListener ls a = None}"
  by (induction as arbitrary: F R) (fastforce split: option.splits)+

lemma sameListener_refl [simp]: "sameListener l l"
  by (simp add: sameListener_def)

lemma syncListeners_view:
  assumes "elb_honest elb view" and "ld_Listeners lb = map Some (ew_Listeners (view c lbName))"
    and "distinct (map ls_LoadBalancerPort (ew_Listeners (view c lbName)))"
    and "syncListeners elb lbName lb listeners c = (Returned d, c')"
  shows "\<exists>ls. view c' lbName = (view c lbName)\<lparr>ew_Listeners := ls\<rparr> \<and> listeners_match ls listeners"
proof -
  let ?as = "ew_Listeners (view c lbName)"
  obtain F R where scan: "scanListeners listeners (map Some ?as) [] [] = (F, R)" by fastforce
  define A where "A = map (\<lambda>i. listeners ! i) (filter (\<lambda>i. i \<notin> set F) [0..<length listeners])"
  define kept where "kept = filter (\<lambda>l. ls_LoadBalancerPort l \<notin> set R) ?as"
  have FR: "set F = {i. \<exists>a \<in> set ?as. foundListener listeners a = Some i}"
      "set R = {ls_LoadBalancerPort a |a. a \<in> set ?as \<and> foundListener listeners a = None}"
    using scanListeners_sets [OF scan] by auto
  from assms(4) obtain c1 where
    del: "if R \<noteq> [] then el_DeleteListeners elb lbName R c = (None, c1) else c1 = c" and
    add: "if A \<noteq> [] then el_CreateListeners elb lbName A c1 = (None, c') else c' = c1"
    by (auto simp: syncListeners_def assms(2) scan A_def split: if_splits)
  have "view c1 lbName = (view c lbName)\<lparr>ew_Listeners := kept\<rparr>"
    using del elb_moves(4) [OF assms(1)] by (auto simp: kept_def split: if_splits)
  then have "view c' lbName = (view c lbName)\<lparr>ew_Listeners := kept @ A\<rparr>"
    using add elb_moves(5) [OF assms(1)] by (auto split: if_splits)
  moreover have "listeners_match (kept @ A) listeners"
    unfolding listeners_match_def
  proof (intro conjI ballI)
    fix a assume "a \<in> set (kept @ A)"
    then consider "a \<in> set ?as" "ls_LoadBalancerPort a \<notin> set R" | "a \<in> set A" by (auto simp: kept_def)
    then show "\<exists>e \<in> set listeners. sameListener a e"
    proof cases
      case 1
      then obtain i where "foundListener listeners a = Some i"
        using FR(2) by (cases "foundListener listeners a") auto
      then show ?thesis using foundListener_Some by (meson nth_mem)
    next
      case 2
      then show ?thesis by (auto simp: A_def intro!: bexI [where x = a])
    qed
  next
    fix e assume "e \<in> set listeners"
    then obtain i where i: "i < length listeners" "e = listeners ! i" by (auto simp: in_set_conv_nth)
    show "\<exists>a \<in> set (kept @ A). sameListener a e"
    proof (cases "i \<in> set F")
      case True
      then obtain a where a: "a \<in> set ?as" "foundListener listeners a = Some i" using FR(1) by blast
      have "ls_LoadBalancerPort a \<notin> set R"
      proof
        assume "ls_LoadBalancerPort a \<in> set R"
        then obtain b where "b \<in> set ?as" "foundListener listeners b = None" "ls_LoadBalancerPort b = ls_LoadBalancerPort a"
          using FR(2) by auto
        then show False using a assms(3) by (auto simp: distinct_map inj_on_def)
      qed
      then show ?thesis using a foundListener_Some [OF a(2)] i(2) by (auto simp: kept_def)
    next
      case False
      then have "e \<in> set A" using i by (auto simp: A_def)
      then show ?thesis by (auto intro!: bexI [where x = e])
    qed
  qed
  ultimately show ?thesis by blast
qed

section \<open>The proxy protocol\<close>

lemma backendStates_lookup:
  assumes "backendStates bs m = Some states"
    and "\<forall>b \<in> set bs. \<exists>p. b = (Some p, pol p)" and "\<And>p s. fmlookup m p = Some s \<Longrightarrow> s = list_ex (\<lambda>x. x = ProxyProtocolPolicyName) (pol p)"
  shows "fmlookup states p =
    (if fmlookup m p \<noteq> None \<or> (\<exists>b \<in> set bs. fst b = Some p)
     then Some (list_ex (\<lambda>x. x = ProxyProtocolPolicyName) (pol p)) else None)"
  using assms
proof (induction bs arbitrary: m)
  case Nil
  then show ?case by (cases "fmlookup m p") auto
next
  case (Cons b bs)
  from Cons.prems(2) obtain q where q: "b = (Some q, pol q)" by auto
  let ?m = "fmupd q (list_ex (\<lambda>x. x = ProxyProtocolPolicyName) (pol q)) m"
  have run: "backendStates bs ?m = Some states" using Cons.prems(1) q by (simp add: proxyProtocolEnabled_def)
  have table: "s = list_ex (\<lambda>x. x = ProxyProtocolPolicyName) (pol p)" if "fmlookup ?m p = Some s" for p s
    using that Cons.prems(3) [of p s] by (cases "p = q") simp_all
  have rest: "\<forall>b \<in> set bs. \<exists>p. b = (Some p, pol p)" using Cons.prems(2) by simp
  have "fmlookup states p =
      (if fmlookup ?m p \<noteq> None \<or> (\<exists>b \<in> set bs. fst b = Some p)
       then Some (list_ex (\<lambda>x. x = ProxyProtocolPolicyName) (pol p)) else None)"
    by (rule Cons.IH [OF run rest table])
  then show ?case using q by auto
qed

definition listener_ports :: "elbListener list \<Rightarrow> int set" where
  "listener_ports ls = {p. \<exists>l \<in> set ls. ls_InstancePort l = Some p}"

lemma setBackendPolicies_view:
  assumes "elb_honest elb view" and "setBackendPolicies elb lbName p pols c = (Returned u, c')"
  shows "view c' lbName = (view c lbName)\<lparr>ew_Policies := (ew_Policies (view c lbName))(p := pols)\<rparr>"
proof -
  have "el_SetBackendPolicies elb lbName p pols c = (None, c')" using assms(2) by (simp add: setBackendPolicies_def)
  then show ?thesis using elb_moves(6) [OF assms(1), where x = "(p, pols)"] by simp
qed

lemma each_setBackendPolicies_view:
  assumes "elb_honest elb view" and "each (\<lambda>p. setBackendPolicies elb lbName p pols) ps c = (Returned u, c')"
  shows "view c' lbName = (view c lbName)\<lparr>ew_Policies := \<lambda>p. if p \<in> set ps then pols else ew_Policies (view c lbName) p\<rparr>"
  using assms(2)
proof (induction ps arbitrary: c)
  case (Cons p ps)
  then obtain c1 u1 where one: "setBackendPolicies elb lbName p pols c = (Returned u1, c1)"
    and rest: "each (\<lambda>p. setBackendPolicies elb lbName p pols) ps c1 = (Returned u, c')" by auto
  show ?case
    unfolding Cons.IH [OF rest] setBackendPolicies_view [OF assms(1) one]
    by (auto intro!: arg_cong [where f = "\<lambda>f. (view c lbName)\<lparr>ew_Policies := f\<rparr>"])
qed simp

lemma syncListenerPolicies_view:
  assumes "elb_honest elb view"
    and "syncListenerPolicies elb lbName proxy pols states ls fb dirty c = (Returned (fb', d), c')"
  shows "view c' lbName = (view c lbName)\<lparr>ew_Policies := \<lambda>p.
      if p \<in> listener_ports ls \<and> (case fmlookup states p of None \<Rightarrow> proxy | Some s \<Rightarrow> s \<noteq> proxy) then pols
      else ew_Policies (view c lbName) p\<rparr> \<and>
    (\<forall>p. fmlookup fb' p = (if p \<in> listener_ports ls \<and> fmlookup states p \<noteq> None then Some True else fmlookup fb p))"
  using assms(2)
proof (induction ls arbitrary: fb dirty c)
  case Nil
  then show ?case by (simp add: listener_ports_def)
next
  case (Cons l ls)
  then obtain q where q: "ls_InstancePort l = Some q" by (cases "ls_InstancePort l") auto
  define fbq where "fbq = (case fmlookup states q of None \<Rightarrow> fb | Some s \<Rightarrow> fmupd q True fb)"
  define needed where "needed = (case fmlookup states q of None \<Rightarrow> proxy | Some s \<Rightarrow> s \<noteq> proxy)"
  obtain c1 d1 where first: "if needed then \<exists>u. setBackendPolicies elb lbName q pols c = (Returned u, c1) else c1 = c"
    and rest: "syncListenerPolicies elb lbName proxy pols states ls fbq d1 c1 = (Returned (fb', d), c')"
    using Cons.prems q by (auto simp: fbq_def needed_def Let_def split: option.splits if_splits)
  have ports: "listener_ports (l # ls) = insert q (listener_ports ls)" using q by (auto simp: listener_ports_def)
  have view1: "view c1 lbName = (view c lbName)\<lparr>ew_Policies := \<lambda>p. if p = q \<and> needed then pols else ew_Policies (view c lbName) p\<rparr>"
  proof (cases needed)
    case True
    then show ?thesis using first setBackendPolicies_view [OF assms(1)] by (auto simp: fun_upd_def)
  qed (use first in simp)
  have "view c' lbName = (view c lbName)\<lparr>ew_Policies := \<lambda>p.
      if p \<in> listener_ports (l # ls) \<and> (case fmlookup states p of None \<Rightarrow> proxy | Some s \<Rightarrow> s \<noteq> proxy) then pols
      else ew_Policies (view c lbName) p\<rparr>"
    using conjunct1 [OF Cons.IH [OF rest]] unfolding view1 ports
    by (auto simp: needed_def intro!: arg_cong [where f = "\<lambda>f. (view c lbName)\<lparr>ew_Policies := f\<rparr>"])
  moreover have "fmlookup fb' p = (if p \<in> listener_ports (l # ls) \<and> fmlookup states p \<noteq> None then Some True else fmlookup fb p)" for p
    using conjunct2 [OF Cons.IH [OF rest]] unfolding ports by (auto simp: fbq_def split: option.splits)
  ultimately show ?case by blast
qed

lemma syncProxyProtocol_view:
  assumes "elb_honest elb view"
    and "\<forall>b \<in> set (ld_Backends lb). \<exists>p. b = (Some p, ew_Policies (view c lbName) p)"
    and "\<forall>p. (\<exists>b \<in> set (ld_Backends lb). fst b = Some p) \<or> ew_Policies (view c lbName) p = []"
    and "syncProxyProtocol elb lbName lb listeners proxyProtocol c = (Returned d, c')"
  shows "\<exists>pol. view c' lbName = (view c lbName)\<lparr>ew_Policies := pol\<rparr> \<and>
    (\<forall>p. ProxyProtocolPolicyName \<in> set (pol p) \<longleftrightarrow> proxyProtocol \<and> p \<in> listener_ports listeners)"
proof -
  let ?pols = "if proxyProtocol then [ProxyProtocolPolicyName] else []" and ?old = "ew_Policies (view c lbName)"
  from assms(4) obtain states c1 where
    first: "(if proxyProtocol then createProxyProtocolPolicy elb lbName else give ()) c = (Returned (), c1)" and
    states: "backendStates (ld_Backends lb) fmempty = Some states"
    by (cases "backendStates (ld_Backends lb) fmempty") (auto simp: syncProxyProtocol_def Let_def)
  from assms(4) first states obtain fb d1 c2 where
    ports: "syncListenerPolicies elb lbName proxyProtocol ?pols states listeners (fmmap (\<lambda>_. False) states) False c1 =
      (Returned (fb, d1), c2)" and
    stale: "each (\<lambda>p. setBackendPolicies elb lbName p [])
      (filter (\<lambda>p. fmlookup fb p = Some False) (el_rangePorts elb (fmdom fb) c2)) c2 = (Returned (), c')"
    by (auto simp: syncProxyProtocol_def Let_def)
  have v1: "view c1 lbName = view c lbName"
    using first elb_moves(7) [OF assms(1)] by (auto simp: createProxyProtocolPolicy_def split: if_splits)
  have st: "fmlookup states p = (if \<exists>b \<in> set (ld_Backends lb). fst b = Some p
      then Some (list_ex (\<lambda>x. x = ProxyProtocolPolicyName) (?old p)) else None)" for p
    using backendStates_lookup [OF states assms(2), of p] by simp
  note v2 = syncListenerPolicies_view [OF assms(1) ports, THEN conjunct1, unfolded v1]
  have fb: "fmlookup fb p = (if p \<in> listener_ports listeners \<and> fmlookup states p \<noteq> None then Some True
      else map_option (\<lambda>_. False) (fmlookup states p))" for p
    using syncListenerPolicies_view [OF assms(1) ports, THEN conjunct2] by simp
  define pol where "pol p = (if fmlookup states p \<noteq> None \<and> p \<notin> listener_ports listeners then []
      else if p \<in> listener_ports listeners \<and> (case fmlookup states p of None \<Rightarrow> proxyProtocol | Some s \<Rightarrow> s \<noteq> proxyProtocol)
      then ?pols else ?old p)" for p
  have gone: "p \<in> set (filter (\<lambda>p. fmlookup fb p = Some False) (el_rangePorts elb (fmdom fb) c2)) \<longleftrightarrow>
      fmlookup states p \<noteq> None \<and> p \<notin> listener_ports listeners" for p
    using elb_rangePorts [OF assms(1), of fb c2] by (auto simp: fb split: if_splits)
  have "view c' lbName = (view c lbName)\<lparr>ew_Policies := pol\<rparr>"
    unfolding each_setBackendPolicies_view [OF assms(1) stale] gone v2
    by (auto simp: pol_def intro!: arg_cong [where f = "\<lambda>f. (view c lbName)\<lparr>ew_Policies := f\<rparr>"])
  moreover have "ProxyProtocolPolicyName \<in> set (pol p) \<longleftrightarrow> proxyProtocol \<and> p \<in> listener_ports listeners" for p
    using assms(3) [rule_format, of p] st [of p] unfolding pol_def
    by (cases "p \<in> listener_ports listeners") (auto simp: list_ex_iff split: if_splits)
  ultimately show ?thesis by blast
qed

section \<open>The balancer becomes what the service asks for\<close>

text \<open>
  C17. Once \<open>ensureLoadBalancer\<close> has returned for a balancer that existed, the balancer is in the given
  subnets and security groups, its listeners are the given ones and exactly the instance ports of
  these speak the proxy protocol if that is wanted, whatever the balancer was like before.
\<close>

theorem balancer_follows_service:
  assumes "elb_honest elb view" and "legal_range net"
    and "describeLoadBalancer elb lbName c = Inr (Some lb)" and "shows_view lb (view c lbName)"
    and "distinct (map ls_LoadBalancerPort (ew_Listeners (view c lbName)))"
    and "ensureLoadBalancer elb net n svc lbName listeners subnetIDs groups internalELB proxyProtocol attributes c =
      (Returned res, c')"
  shows "ew_Subnets (view c' lbName) = fset_of_list subnetIDs \<and>
    ew_SecurityGroups (view c' lbName) = fset_of_list groups \<and>
    listeners_match (ew_Listeners (view c' lbName)) listeners \<and>
    (\<forall>p. ProxyProtocolPolicyName \<in> set (ew_Policies (view c' lbName) p) \<longleftrightarrow>
       proxyProtocol \<and> p \<in> listener_ports listeners)"
proof -
  note shown = assms(4) [unfolded shows_view_def]
  from assms(6,3) obtain d1 d2 d3 d4 c1 c2 c3 c4 d5 where
    1: "syncSubnets elb net lbName lb subnetIDs c = (Returned d1, c1)" and
    2: "syncSecurityGroups elb lbName lb groups c1 = (Returned d2, c2)" and
    3: "syncListeners elb lbName lb listeners c2 = (Returned d3, c3)" and
    4: "syncProxyProtocol elb lbName lb listeners proxyProtocol c3 = (Returned d4, c4)" and
    5: "syncAttributes elb lbName attributes c4 = (Returned d5, c')"
    unfolding ensureLoadBalancer_def by (auto split: if_splits)
  have v1: "view c1 lbName = (view c lbName)\<lparr>ew_Subnets := fset_of_list subnetIDs\<rparr>"
    using shown by (intro syncSubnets_view [OF assms(1,2) _ 1]) simp
  have v2: "view c2 lbName = (view c1 lbName)\<lparr>ew_SecurityGroups := fset_of_list groups\<rparr>"
    using shown v1 by (intro syncSecurityGroups_view [OF assms(1) _ 2]) simp
  obtain ls where v3: "view c3 lbName = (view c2 lbName)\<lparr>ew_Listeners := ls\<rparr>" and ls: "listeners_match ls listeners"
    using shown assms(5) v1 v2 syncListeners_view [OF assms(1) _ _ 3] by auto
  obtain pol where v4: "view c4 lbName = (view c3 lbName)\<lparr>ew_Policies := pol\<rparr>"
    and pol: "\<forall>p. ProxyProtocolPolicyName \<in> set (pol p) \<longleftrightarrow> proxyProtocol \<and> p \<in> listener_ports listeners"
    using shown v1 v2 v3 syncProxyProtocol_view [OF assms(1) _ _ 4] by auto
  have "view c' lbName = view c4 lbName"
    using 5 elb_moves(8) [OF assms(1)] by (auto simp: syncAttributes_def split: if_splits)
  then show ?thesis using v1 v2 v3 v4 ls pol by simp
qed

text \<open>The instances registered with the balancer become those of the nodes.\<close>

theorem registered_instances_follow_nodes:
  assumes "elb_honest elb view" and "shows_view lb (view c lbName)"
    and "ensureLoadBalancerInstances elb lbName (ld_Instances lb) instances c = (Returned u, c')"
  shows "fset (ew_Instances (view c' lbName)) = ei_InstanceId ` set instances"
  using ensureLoadBalancerInstances_view [OF assms(1) _ assms(3)] assms(2)
  by (simp add: shows_view_def fset_of_list.rep_eq)

text \<open>The health check is on the first listener that has an instance port; without one it fails.\<close>

theorem health_check_needs_a_port:
  "(\<exists>err c'. ensureLoadBalancerHealthCheck elb (Some lb) listeners c = (Failed err, c') \<and> c' = c \<and>
      err = AwsErrorf ''unable to determine health check port for %q (no valid listeners)'' [ld_LoadBalancerName lb]) \<longleftrightarrow>
   listener_ports listeners = {}"
proof -
  have "healthCheckTarget listeners = '''' \<longleftrightarrow> listener_ports listeners = {}"
    by (induction listeners) (auto simp: listener_ports_def split: option.splits)
  then show ?thesis
    by (auto simp: ensureLoadBalancerHealthCheck_def failing_def Let_def give_def panic_def request_call_def
          split: option.splits prod.splits)
qed

section \<open>Witnesses\<close>

text \<open>A region with one balancer, and the ports whose policies were ever set.\<close>

record demoCloud = demoRegion +
  db_view :: elbView
  db_ports :: "int list"

definition demo_elb :: "demoCloud elbAPI" where
  "demo_elb =
     \<lparr>el_DescribeLoadBalancers = (\<lambda>lb r. Inr [\<lparr>ld_LoadBalancerName = lb, ld_DNSName = ''dns'',
        ld_Subnets = sorted_list_of_fset (ew_Subnets (db_view r)),
        ld_SecurityGroups = sorted_list_of_fset (ew_SecurityGroups (db_view r)),
        ld_Listeners = map Some (ew_Listeners (db_view r)),
        ld_Backends = map (\<lambda>p. (Some p, ew_Policies (db_view r) p)) (db_ports r),
        ld_Instances = sorted_list_of_fset (ew_Instances (db_view r)), ld_HealthCheck = None\<rparr>]),
      el_CreateLoadBalancer = (\<lambda>i r. (None, r)), el_DeleteLoadBalancer = (\<lambda>lb r. (None, r)),
      el_DetachSubnets = (\<lambda>lb ss r. (None, r\<lparr>db_view := (db_view r)\<lparr>ew_Subnets := ew_Subnets (db_view r) |-| fset_of_list ss\<rparr>\<rparr>)),
      el_AttachSubnets = (\<lambda>lb ss r. (None, r\<lparr>db_view := (db_view r)\<lparr>ew_Subnets := ew_Subnets (db_view r) |\<union>| fset_of_list ss\<rparr>\<rparr>)),
      el_ApplySecurityGroups = (\<lambda>lb gs r. (None, r\<lparr>db_view := (db_view r)\<lparr>ew_SecurityGroups := fset_of_list gs\<rparr>\<rparr>)),
      el_DeleteListeners = (\<lambda>lb ps r. (None, r\<lparr>db_view := (db_view r)\<lparr>ew_Listeners :=
        filter (\<lambda>l. ls_LoadBalancerPort l \<notin> set ps) (ew_Listeners (db_view r))\<rparr>\<rparr>)),
      el_CreateListeners = (\<lambda>lb ls r. (None, r\<lparr>db_view := (db_view r)\<lparr>ew_Listeners := ew_Listeners (db_view r) @ ls\<rparr>\<rparr>)),
      el_CreatePolicy = (\<lambda>lb p r. (None, r)),
      el_SetBackendPolicies = (\<lambda>lb p pols r. (None, r\<lparr>db_view := (db_view r)\<lparr>ew_Policies := (ew_Policies (db_view r))(p := pols)\<rparr>,
        db_ports := p # db_ports r\<rparr>)),
      el_DescribeAttributes = (\<lambda>lb r. Inr \<lparr>la_AccessLogEnabled = False, la_AccessLogEmitInterval = None,
        la_AccessLogS3BucketName = None, la_AccessLogS3BucketPrefix = None, la_ConnectionDrainingEnabled = False,
        la_ConnectionDrainingTimeout = None, la_IdleTimeout = 60, la_CrossZoneEnabled = False\<rparr>),
      el_ModifyAttributes = (\<lambda>lb a r. (None, r)), el_ConfigureHealthCheck = (\<lambda>lb h r. (None, r)),
      el_RegisterInstances = (\<lambda>lb is r. (None, r\<lparr>db_view := (db_view r)\<lparr>ew_Instances := ew_Instances (db_view r) |\<union>| fset_of_list is\<rparr>\<rparr>)),
      el_DeregisterInstances = (\<lambda>lb is r. (None, r\<lparr>db_view := (db_view r)\<lparr>ew_Instances := ew_Instances (db_view r) |-| fset_of_list is\<rparr>\<rparr>)),
      el_sameAttributes = (\<lambda>a b. False), el_rangePorts = (\<lambda>ps r. sorted_list_of_fset ps)\<rparr>"

lemma fset_of_sorted [simp]: "fset_of_list (sorted_list_of_fset (ss :: 'a :: linorder fset)) = ss"
  by (simp add: fset_eq_iff fset_of_list_elem sorted_list_of_fset.rep_eq)

lemma distinct_sorted [simp]: "distinct (sorted_list_of_fset ss)"
  by (simp add: sorted_list_of_fset.rep_eq)

lemma demo_elb_honest: "elb_honest demo_elb (\<lambda>r lb. db_view r)"
  unfolding elb_honest_def changes_view_def
  by (intro conjI; auto simp: demo_elb_def)

lemma demo_elb_shows:
  "\<exists>lb. describeLoadBalancer demo_elb lbName r = Inr (Some lb) \<and> ld_Instances lb = sorted_list_of_fset (ew_Instances (db_view r)) \<and>
     ((\<forall>p. p \<in> set (db_ports r) \<or> ew_Policies (db_view r) p = []) \<longrightarrow> shows_view lb (db_view r))"
  by (auto simp: describeLoadBalancer_def demo_elb_def shows_view_def)

definition demo_listener :: "int \<Rightarrow> int \<Rightarrow> elbListener" where
  "demo_listener p lp = \<lparr>ls_Protocol = ''tcp'', ls_InstanceProtocol = ''tcp'', ls_InstancePort = Some p,
     ls_LoadBalancerPort = Some lp, ls_SSLCertificateId = ''''\<rparr>"

definition demo_balancer :: demoCloud where
  "demo_balancer = \<lparr>dr_rules = [], dr_made = 0, dr_tables = [], dr_subnets = [],
     db_view = \<lparr>ew_Subnets = {|''sn-1''|}, ew_SecurityGroups = {|''sg-1''|}, ew_Listeners = [demo_listener 30001 80, demo_listener 30002 443],
       ew_Policies = (\<lambda>_. [])(30002 := [ProxyProtocolPolicyName]), ew_Instances = {|''i-1''|}\<rparr>, db_ports = [30002]\<rparr>"

lemma demo_elb_calls:
  "\<exists>c'. el_DetachSubnets demo_elb lb ss c = (None, c')" "\<exists>c'. el_AttachSubnets demo_elb lb ss c = (None, c')"
  "\<exists>c'. el_ApplySecurityGroups demo_elb lb ss c = (None, c')" "\<exists>c'. el_DeleteListeners demo_elb lb ps c = (None, c')"
  "\<exists>c'. el_CreateListeners demo_elb lb ls c = (None, c')" "\<exists>c'. el_SetBackendPolicies demo_elb lb p ss c = (None, c')"
  "\<exists>c'. el_CreatePolicy demo_elb lb pol c = (None, c')" "\<exists>c'. el_ModifyAttributes demo_elb lb a c = (None, c')"
  "\<exists>a. el_DescribeAttributes demo_elb lb c = Inr a"
  by (simp_all add: demo_elb_def)

lemma returns_syncListenerPolicies:
  "(\<And>l. l \<in> set ls \<Longrightarrow> ls_InstancePort l \<noteq> None) \<Longrightarrow> (\<And>p. returns (setBackendPolicies elb lbName p pols)) \<Longrightarrow>
   returns (syncListenerPolicies elb lbName proxy pols states ls fb dirty)"
proof (induction ls arbitrary: fb dirty)
  case Nil
  then show ?case by (simp add: returns_give)
next
  case (Cons l ls)
  then obtain p where p: "ls_InstancePort l = Some p" by fastforce
  have rest: "returns (syncListenerPolicies elb lbName proxy pols states ls fb dirty)" for fb dirty
    using Cons by simp
  show ?case
    unfolding syncListenerPolicies.simps p option.case Let_def
    by (cases "fmlookup states p")
      (simp_all only: option.case prod.case, (intro returns_if returns_andThen rest Cons.prems(2))+)
qed

lemma backendStates_total: "\<forall>b \<in> set bs. fst b \<noteq> None \<Longrightarrow> \<exists>m'. backendStates bs m = Some m'"
  by (induction bs arbitrary: m) auto

theorem balancer_follows_service_witness:
  "\<exists>res r'. ensureLoadBalancer demo_elb region_net demo_network ''ns/svc'' ''a1'' [demo_listener 30001 80, demo_listener 30003 443]
       [''sn-2''] [''sg-1''] False True
       \<lparr>la_AccessLogEnabled = False, la_AccessLogEmitInterval = None, la_AccessLogS3BucketName = None,
        la_AccessLogS3BucketPrefix = None, la_ConnectionDrainingEnabled = False, la_ConnectionDrainingTimeout = None,
        la_IdleTimeout = 30, la_CrossZoneEnabled = False\<rparr> demo_balancer = (Returned res, r') \<and>
     ew_Subnets (db_view r') = {|''sn-2''|} \<and>
     ProxyProtocolPolicyName \<in> set (ew_Policies (db_view r') 30003) \<and>
     ProxyProtocolPolicyName \<notin> set (ew_Policies (db_view r') 30002)"
proof -
  let ?ls = "[demo_listener 30001 80, demo_listener 30003 443]"
  let ?a = "\<lparr>la_AccessLogEnabled = False, la_AccessLogEmitInterval = None, la_AccessLogS3BucketName = None,
        la_AccessLogS3BucketPrefix = None, la_ConnectionDrainingEnabled = False, la_ConnectionDrainingTimeout = None,
        la_IdleTimeout = 30, la_CrossZoneEnabled = False\<rparr>"
  obtain lb where lb: "describeLoadBalancer demo_elb ''a1'' demo_balancer = Inr (Some lb)"
    and shown: "shows_view lb (db_view demo_balancer)"
    using demo_elb_shows [of "''a1''" demo_balancer] by (auto simp: demo_balancer_def split: if_splits)
  have backends: "\<forall>b \<in> set (ld_Backends lb). fst b \<noteq> None"
    using shown unfolding shows_view_def by fastforce
  have ports: "l \<in> set ?ls \<Longrightarrow> ls_InstancePort l \<noteq> None" for l by (auto simp: demo_listener_def)
  have pols: "returns (setBackendPolicies demo_elb ''a1'' p ps)" for p ps
    unfolding setBackendPolicies_def by (intro returns_intros demo_elb_calls)
  note intros = returns_intros demo_elb_calls
  have subnets: "returns (syncSubnets demo_elb region_net ''a1'' lb [''sn-2''])"
    unfolding syncSubnets_def Let_def
    by (intro returns_andThen returns_if returns_give returns_call_at demo_elb_calls(1,2))
  have groups: "returns (syncSecurityGroups demo_elb ''a1'' lb [''sg-1''])"
    unfolding syncSecurityGroups_def by (intro intros)
  have listeners: "returns (syncListeners demo_elb ''a1'' lb ?ls)"
    unfolding syncListeners_def Let_def by (cases "scanListeners ?ls (ld_Listeners lb) [] []")
      (simp only: prod.case, intro intros)
  have proxy: "returns (syncProxyProtocol demo_elb ''a1'' lb ?ls True)"
  proof -
    obtain states where states: "backendStates (ld_Backends lb) fmempty = Some states"
      using backendStates_total [OF backends] by blast
    show ?thesis
      unfolding syncProxyProtocol_def createProxyProtocolPolicy_def Let_def states option.case if_True case_prod_beta
      by (intro returns_andThen returns_call demo_elb_calls(7) returns_syncListenerPolicies ports pols returns_each_at)
  qed
  have attributes: "returns (syncAttributes demo_elb ''a1'' ?a)"
    unfolding syncAttributes_def by (intro intros)
  have again: "returns (reading (describeLoadBalancer demo_elb ''a1''))"
    using demo_elb_shows by (intro returns_reading) blast
  have "returns (andThen (andThen (syncSubnets demo_elb region_net ''a1'' lb [''sn-2'']) (\<lambda>dirty1.
            andThen (syncSecurityGroups demo_elb ''a1'' lb [''sg-1'']) (\<lambda>dirty2.
            andThen (syncListeners demo_elb ''a1'' lb ?ls) (\<lambda>dirty3.
            andThen (syncProxyProtocol demo_elb ''a1'' lb ?ls True) (\<lambda>dirty4.
            give (dirty1 \<or> dirty2 \<or> dirty3 \<or> dirty4)))))) (\<lambda>dirty.
     andThen (syncAttributes demo_elb ''a1'' ?a) (\<lambda>dirty5.
     if dirty \<or> dirty5 then reading (describeLoadBalancer demo_elb ''a1'') else give (Some lb))))"
    by (intro returns_andThen returns_if returns_give subnets groups listeners proxy attributes again)
  then have "\<exists>res r'. ensureLoadBalancer demo_elb region_net demo_network ''ns/svc'' ''a1'' ?ls [''sn-2''] [''sg-1''] False True ?a
      demo_balancer = (Returned res, r')"
    unfolding ensureLoadBalancer_def andThen_Returned [of "reading (describeLoadBalancer demo_elb ''a1'')"] returns_def
    by (auto simp: lb simp del: andThen_Returned)
  then obtain res r' where run: "ensureLoadBalancer demo_elb region_net demo_network ''ns/svc'' ''a1'' ?ls [''sn-2''] [''sg-1''] False True ?a
      demo_balancer = (Returned res, r')" by blast
  from balancer_follows_service [OF demo_elb_honest region_net_legal lb shown _ run] run show ?thesis
    by (auto simp: demo_balancer_def demo_listener_def listener_ports_def)
qed

theorem registered_instances_follow_nodes_witness:
  "\<exists>r'. ensureLoadBalancerInstances demo_elb ''a1'' [''i-1''] [demo_instance\<lparr>ei_InstanceId := ''i-2''\<rparr>] demo_balancer =
       (Returned (), r') \<and> fset (ew_Instances (db_view r')) = {''i-2''}"
proof -
  obtain lb where shown: "shows_view lb (db_view demo_balancer)" "ld_Instances lb = [''i-1'']"
    using demo_elb_shows [of "''a1''" demo_balancer] by (auto simp: demo_balancer_def sorted_list_of_fset.rep_eq split: if_splits)
  have "returns (ensureLoadBalancerInstances demo_elb ''a1'' [''i-1''] [demo_instance\<lparr>ei_InstanceId := ''i-2''\<rparr>])"
    unfolding ensureLoadBalancerInstances_def Let_def
    by (intro returns_andThen returns_if returns_give returns_call) (simp_all add: demo_elb_def)
  then obtain r' where r': "ensureLoadBalancerInstances demo_elb ''a1'' [''i-1''] [demo_instance\<lparr>ei_InstanceId := ''i-2''\<rparr>]
      demo_balancer = (Returned (), r')"
    unfolding returns_def by auto
  from registered_instances_follow_nodes [OF demo_elb_honest shown(1), unfolded shown(2), OF r'] r' show ?thesis
    by simp
qed

end
