(* ===== verification/AwsBalancer.thy ===== *)
theory AwsBalancer
  imports AwsElb
begin

text \<open>
  The load balancers of services: \<open>EnsureLoadBalancer\<close>, \<open>UpdateLoadBalancer\<close> and
  \<open>EnsureLoadBalancerDeleted\<close> of \<open>aws.go\<close>, with the cache of the instances of the last set of nodes.
  The source ranges of a service are computed by the Kubernetes library, which is a parameter
  (\<open>awsKubeLib\<close>).
\<close>

record awsKubeLib =
  kl_SourceRanges :: "Service \<Rightarrow> awsErr + string list"
  kl_IsAllowAll :: "string list \<Rightarrow> bool"

text \<open>The cache of the cloud object, beside the cloud itself.\<close>

record 'c awsCache =
  ch_lastNodeNames :: "string fset"
  ch_lastInstances :: "ec2Instance list"
  ch_cloud :: 'c

definition on_cloud :: "('c, 'a) awsStep \<Rightarrow> ('c awsCache, 'a) awsStep" where
  "on_cloud m s = (case m (ch_cloud s) of (res, c) \<Rightarrow> (res, s\<lparr>ch_cloud := c\<rparr>))"

section \<open>Ports\<close>

definition getPortSets :: "string \<Rightarrow> (string fset \<times> int fset) option" where
  "getPortSets annotation =
     (if annotation \<noteq> '''' \<and> annotation \<noteq> ''*'' then
        Some (foldl (\<lambda>(names, numbers) item.
                       case Atoi item of
                         None \<Rightarrow> (finsert item names, numbers)
                       | Some port \<Rightarrow> (names, finsert port numbers)) ({||}, {||}) (split_on (CHR '','') annotation))
      else None)"

abbreviation ServiceAnnotationLoadBalancerCertificate :: string where
  "ServiceAnnotationLoadBalancerCertificate \<equiv> ''service.beta.kubernetes.io/aws-load-balancer-ssl-cert''"

abbreviation ServiceAnnotationLoadBalancerSSLPorts :: string where
  "ServiceAnnotationLoadBalancerSSLPorts \<equiv> ''service.beta.kubernetes.io/aws-load-balancer-ssl-ports''"

abbreviation ServiceAnnotationLoadBalancerBEProtocol :: string where
  "ServiceAnnotationLoadBalancerBEProtocol \<equiv> ''service.beta.kubernetes.io/aws-load-balancer-backend-protocol''"

abbreviation ServiceAnnotationLoadBalancerInternal :: string where
  "ServiceAnnotationLoadBalancerInternal \<equiv> ''service.beta.kubernetes.io/aws-load-balancer-internal''"

abbreviation ServiceAnnotationLoadBalancerProxyProtocol :: string where
  "ServiceAnnotationLoadBalancerProxyProtocol \<equiv> ''service.beta.kubernetes.io/aws-load-balancer-proxy-protocol''"

definition backendProtocolMapping :: "string \<Rightarrow> string" where
  "backendProtocolMapping p =
     (if p = ''https'' then ''https'' else if p = ''http'' then ''https'' else if p = ''ssl'' then ''ssl''
      else if p = ''tcp'' then ''ssl'' else '''')"

definition buildListener ::
  "ServicePort \<Rightarrow> string gomap \<Rightarrow> (string fset \<times> int fset) option \<Rightarrow> awsErr + elbListener" where
  "buildListener port annotations sslPorts =
     (let loadBalancerPort = sp_Port port; portName = ToLower (sp_Name port); protocol = ToLower (sp_Protocol port);
          certID = map_get annotations ServiceAnnotationLoadBalancerCertificate;
          backend = map_get annotations ServiceAnnotationLoadBalancerBEProtocol;
          listener = \<lparr>ls_Protocol = protocol, ls_InstanceProtocol = protocol, ls_InstancePort = Some (sp_NodePort port),
                      ls_LoadBalancerPort = Some loadBalancerPort, ls_SSLCertificateId = ''''\<rparr>
      in if certID \<noteq> '''' \<and>
            (case sslPorts of None \<Rightarrow> True | Some (names, numbers) \<Rightarrow> loadBalancerPort |\<in>| numbers \<or> portName |\<in>| names) then
           if backend = '''' then
             Inr (listener\<lparr>ls_Protocol := ''ssl'', ls_InstanceProtocol := ''tcp'', ls_SSLCertificateId := certID\<rparr>)
           else if backendProtocolMapping backend = '''' then
             Inl (AwsErrorf ''Invalid backend protocol %s for %s in %s''
                    [backend, certID, ServiceAnnotationLoadBalancerBEProtocol])
           else
             Inr (listener\<lparr>ls_Protocol := backendProtocolMapping backend, ls_InstanceProtocol := backend,
                           ls_SSLCertificateId := certID\<rparr>)
         else if backend = ''http'' then Inr (listener\<lparr>ls_Protocol := ''http'', ls_InstanceProtocol := backend\<rparr>)
         else Inr listener)"

fun buildListeners ::
  "string gomap \<Rightarrow> (string fset \<times> int fset) option \<Rightarrow> ServicePort list \<Rightarrow> awsErr + elbListener list" where
  "buildListeners annotations portList [] = Inr []"
| "buildListeners annotations portList (port # ports) =
     (if sp_Protocol port \<noteq> ''TCP'' then Inl (AwsErrorf ''Only TCP LoadBalancer is supported for AWS ELB'' [])
      else if sp_NodePort port = 0 then buildListeners annotations portList ports
      else
        and_then (buildListener port annotations portList) (\<lambda>listener.
        and_then (buildListeners annotations portList ports) (\<lambda>listeners. Inr (listener # listeners))))"

section \<open>The attributes\<close>

definition annotationError :: "string \<Rightarrow> string \<Rightarrow> awsErr" where
  "annotationError key value = AwsErrorf ''error parsing service annotation: %s=%s'' [key, value]"

definition annotated ::
  "string gomap \<Rightarrow> string \<Rightarrow> (string \<Rightarrow> 'a option) \<Rightarrow> ('a \<Rightarrow> 's \<Rightarrow> 's) \<Rightarrow> 's \<Rightarrow> awsErr + 's" where
  "annotated annotations key parse assign s =
     (let value = map_get annotations key in
      if value = '''' then Inr s
      else (case parse value of None \<Rightarrow> Inl (annotationError key value) | Some a \<Rightarrow> Inr (assign a s)))"

definition defaultAttributes :: elbAttributes where
  "defaultAttributes =
     \<lparr>la_AccessLogEnabled = False, la_AccessLogEmitInterval = None, la_AccessLogS3BucketName = None,
      la_AccessLogS3BucketPrefix = None, la_ConnectionDrainingEnabled = False, la_ConnectionDrainingTimeout = None,
      la_IdleTimeout = 60, la_CrossZoneEnabled = False\<rparr>"

definition annotatedAttributes :: "string gomap \<Rightarrow> awsErr + elbAttributes" where
  "annotatedAttributes ann =
     and_then (annotated ann ''service.beta.kubernetes.io/aws-load-balancer-access-log-emit-interval'' (ParseInt 64)
                 (\<lambda>n a. a\<lparr>la_AccessLogEmitInterval := Some n\<rparr>) defaultAttributes) (\<lambda>a.
     and_then (annotated ann ''service.beta.kubernetes.io/aws-load-balancer-access-log-enabled'' ParseBool
                 (\<lambda>b a. a\<lparr>la_AccessLogEnabled := b\<rparr>) a) (\<lambda>a.
     and_then (annotated ann ''service.beta.kubernetes.io/aws-load-balancer-access-log-s3-bucket-name'' Some
                 (\<lambda>s a. a\<lparr>la_AccessLogS3BucketName := Some s\<rparr>) a) (\<lambda>a.
     and_then (annotated ann ''service.beta.kubernetes.io/aws-load-balancer-access-log-s3-bucket-prefix'' Some
                 (\<lambda>s a. a\<lparr>la_AccessLogS3BucketPrefix := Some s\<rparr>) a) (\<lambda>a.
     and_then (annotated ann ''service.beta.kubernetes.io/aws-load-balancer-connection-draining-enabled'' ParseBool
                 (\<lambda>b a. a\<lparr>la_ConnectionDrainingEnabled := b\<rparr>) a) (\<lambda>a.
     and_then (annotated ann ''service.beta.kubernetes.io/aws-load-balancer-connection-draining-timeout'' (ParseInt 64)
                 (\<lambda>n a. a\<lparr>la_ConnectionDrainingTimeout := Some n\<rparr>) a) (\<lambda>a.
     and_then (annotated ann ''service.beta.kubernetes.io/aws-load-balancer-connection-idle-timeout'' (ParseInt 64)
                 (\<lambda>n a. a\<lparr>la_IdleTimeout := n\<rparr>) a) (\<lambda>a.
     annotated ann ''service.beta.kubernetes.io/aws-load-balancer-cross-zone-load-balancing-enabled'' ParseBool
       (\<lambda>b a. a\<lparr>la_CrossZoneEnabled := b\<rparr>) a)))))))"

section \<open>Instances of the nodes\<close>

definition nodeNames :: "Node list \<Rightarrow> string fset" where
  "nodeNames nodes = fset_of_list (map node_Name nodes)"

definition getInstancesByNodeNamesCached ::
  "'c ec2API \<Rightarrow> awsCloud \<Rightarrow> string fset \<Rightarrow> ('c awsCache, ec2Instance list) awsStep" where
  "getInstancesByNodeNamesCached api cloud names s =
     (if names = ch_lastNodeNames s \<and> length (ch_lastInstances s) > 0 then (Returned (ch_lastInstances s), s)
      else
        (case getInstancesByNodeNames api cloud (sorted_list_of_fset names) (ch_cloud s) of
           Inl err \<Rightarrow> (Failed err, s)
         | Inr instances \<Rightarrow>
             if length instances = 0 then (Returned [], s)
             else (Returned instances, s\<lparr>ch_lastNodeNames := names, ch_lastInstances := instances\<rparr>)))"

section \<open>The security groups of the instances\<close>

definition findSecurityGroupForInstance :: "ec2Instance \<Rightarrow> securityGroup gomap \<Rightarrow> awsErr + string option" where
  "findSecurityGroupForInstance inst taggedSecurityGroups =
     (let groups = filter (\<lambda>g. g \<noteq> '''') (ei_SecurityGroups inst);
          tagged = filter (\<lambda>g. fmlookup taggedSecurityGroups g \<noteq> None) groups;
          untagged = filter (\<lambda>g. fmlookup taggedSecurityGroups g = None) groups
      in if length tagged > 0 then
           if length tagged \<noteq> 1 then
             Inl (AwsErrorf ''Multiple tagged security groups found for instance %s; ensure only the k8s security group is tagged''
                    [ei_InstanceId inst])
           else Inr (Some (hd tagged))
         else if length untagged > 0 then
           if length untagged \<noteq> 1 then
             Inl (AwsErrorf ''Multiple untagged security groups found for instance %s; ensure the k8s security group is tagged''
                    [ei_InstanceId inst])
           else Inr (Some (hd untagged))
         else Inr None)"

definition getTaggedSecurityGroups :: "'c ec2Net \<Rightarrow> awsNet \<Rightarrow> 'c \<Rightarrow> awsErr + securityGroup gomap" where
  "getTaggedSecurityGroups net n c =
     (case en_DescribeSecurityGroups net [] (addFilters (ac_tagging (an_cloud n)) []) c of
        Inl err \<Rightarrow> Inl (AwsWrapf ''error querying security groups: %v'' [] err)
      | Inr groups \<Rightarrow>
          Inr (foldl (\<lambda>m g. if \<not> hasClusterTag (ac_tagging (an_cloud n)) (gp_Tags g) then m
                            else if gp_GroupId g = '''' then m
                            else fmupd (gp_GroupId g) g m) fmempty groups))"

fun scanInstanceGroups ::
  "securityGroup gomap \<Rightarrow> ec2Instance list \<Rightarrow> bool gomap \<Rightarrow> awsErr + bool gomap" where
  "scanInstanceGroups tagged [] ids = Inr ids"
| "scanInstanceGroups tagged (i # is) ids =
     (case findSecurityGroupForInstance i tagged of
        Inl err \<Rightarrow> Inl err
      | Inr None \<Rightarrow> scanInstanceGroups tagged is ids
      | Inr (Some gid) \<Rightarrow> if gid = '''' then scanInstanceGroups tagged is ids
                         else scanInstanceGroups tagged is (fmupd gid True ids))"

text \<open>True is to add the rule, False to remove it; a group that has it already is dropped.\<close>

fun compareActualGroups :: "securityGroup list \<Rightarrow> bool gomap \<Rightarrow> bool gomap" where
  "compareActualGroups [] ids = ids"
| "compareActualGroups (g # gs) ids =
     (if gp_GroupId g = '''' then compareActualGroups gs ids
      else if fmlookup ids (gp_GroupId g) = Some True then compareActualGroups gs (fmdrop (gp_GroupId g) ids)
      else compareActualGroups gs (fmupd (gp_GroupId g) False ids))"

definition balancerPermission :: "string \<Rightarrow> ipPermission" where
  "balancerPermission gid =
     \<lparr>ip_FromPort = None, ip_ToPort = None, ip_IpProtocol = Some ''-1'', ip_IpRanges = [],
      ip_UserIdGroupPairs = [\<lparr>ug_GroupId = Some gid, ug_UserId = None\<rparr>], ip_PrefixListIds = []\<rparr>"

definition updateInstanceSecurityGroupsForLoadBalancer ::
  "'c ec2Net \<Rightarrow> awsNet \<Rightarrow> elbDescription \<Rightarrow> ec2Instance list \<Rightarrow> ('c, unit) awsStep" where
  "updateInstanceSecurityGroupsForLoadBalancer net n lb allInstances =
     (if an_DisableSecurityGroupIngress n then give ()
      else
        let lbGroup = foldl (\<lambda>found g. if g = '''' then found else g) '''' (ld_SecurityGroups lb);
            t = ac_tagging (an_cloud n)
        in if lbGroup = '''' then
             failing (AwsErrorf ''Could not determine security group for load balancer: %s'' [ld_LoadBalancerName lb])
           else
             (\<lambda>c. case en_DescribeSecurityGroups net [] (addFilters t [newEc2Filter ''ip-permission.group-id'' [lbGroup]]) c of
                Inl err \<Rightarrow> (Failed (AwsWrapf ''error querying security groups for ELB: %v'' [] err), c)
              | Inr response \<Rightarrow>
                  (case getTaggedSecurityGroups net n c of
                     Inl err \<Rightarrow> (Failed (AwsWrapf ''error querying for tagged security groups: %v'' [] err), c)
                   | Inr tagged \<Rightarrow>
                       (case scanInstanceGroups tagged allInstances fmempty of
                          Inl err \<Rightarrow> (Failed err, c)
                        | Inr ids \<Rightarrow>
                            let actualGroups = filter (\<lambda>g. hasClusterTag t (gp_Tags g)) response;
                                changes = compareActualGroups actualGroups ids
                            in each (\<lambda>gid.
                                 andThen (partially (if fmlookup changes gid = Some True
                                                     then addSecurityGroupIngress net gid [balancerPermission lbGroup]
                                                     else removeSecurityGroupIngress net gid [balancerPermission lbGroup]))
                                   (\<lambda>_. give ())) (en_range net (fmdom changes) c) c))))"

section \<open>EnsureLoadBalancer\<close>

text \<open>Whether the balancer is internal, and whether its backends speak the proxy protocol.\<close>

definition internalELB :: "awsKubeLib \<Rightarrow> string gomap \<Rightarrow> string list \<Rightarrow> awsErr + bool" where
  "internalELB lib annotations sourceRanges =
     (let internalAnnotation = map_get annotations ServiceAnnotationLoadBalancerInternal in
      if internalAnnotation = '''' then Inr False
      else if internalAnnotation \<noteq> ''0.0.0.0/0'' then
        Inl (AwsErrorf ''annotation %q=%q detected, but the only value supported currently is 0.0.0.0/0''
               [ServiceAnnotationLoadBalancerInternal, internalAnnotation])
      else if \<not> kl_IsAllowAll lib sourceRanges then
        Inl (AwsErrorf ''source-range annotation cannot be combined with the internal-elb annotation'' [])
      else Inr True)"

definition proxyProtocolWanted :: "string gomap \<Rightarrow> awsErr + bool" where
  "proxyProtocolWanted annotations =
     (let a = map_get annotations ServiceAnnotationLoadBalancerProxyProtocol in
      if a = '''' then Inr False
      else if a \<noteq> ''*'' then
        Inl (AwsErrorf (''annotation %q=%q detected, but the only value supported currently is '' @ [CHR 0x27] @ ''*'' @ [CHR 0x27])
               [ServiceAnnotationLoadBalancerProxyProtocol, a])
      else Inr True)"

text \<open>What the security group of the balancer is to allow: every port of the service, and ICMP.\<close>

definition portPermission :: "string list \<Rightarrow> ServicePort \<Rightarrow> ipPermission" where
  "portPermission sourceRanges port =
     \<lparr>ip_FromPort = Some (sp_Port port), ip_ToPort = Some (sp_Port port),
      ip_IpProtocol = Some (ToLower (sp_Protocol port)), ip_IpRanges = map Some sourceRanges,
      ip_UserIdGroupPairs = [], ip_PrefixListIds = []\<rparr>"

definition icmpPermission :: ipPermission where
  "icmpPermission =
     \<lparr>ip_FromPort = Some 3, ip_ToPort = Some 4, ip_IpProtocol = Some ''icmp'', ip_IpRanges = [Some ''0.0.0.0/0''],
      ip_UserIdGroupPairs = [], ip_PrefixListIds = []\<rparr>"

definition balancerIngress :: "'c ec2Net \<Rightarrow> string list \<Rightarrow> ServicePort list \<Rightarrow> IPPermissionSet" where
  "balancerIngress net sourceRanges ports =
     ips_Insert net [icmpPermission] (ips_Insert net (map (portPermission sourceRanges) ports) (NewIPPermissionSet net []))"

definition toStatus :: "elbDescription \<Rightarrow> string list" where
  "toStatus lb = (if ld_DNSName lb \<noteq> '''' then [ld_DNSName lb] else [])"

definition balancerGroup ::
  "'c ec2Net \<Rightarrow> awsNet \<Rightarrow> Service \<Rightarrow> string list \<Rightarrow> ('c, string) awsStep" where
  "balancerGroup net n service sourceRanges =
     (let lbName = GetLoadBalancerName service;
          serviceName = sv_Namespace service @ ''/'' @ sv_Name service;
          sgName = ''k8s-elb-'' @ lbName;
          sgDescription = ''Security group for Kubernetes ELB '' @ lbName @ '' ('' @ serviceName @ '')''
      in andThen (changing (ensureSecurityGroup net n sgName sgDescription)) (\<lambda>securityGroupID.
         andThen (changing (setSecurityGroupIngress net securityGroupID (balancerIngress net sourceRanges (sv_Ports service))))
           (\<lambda>_. give securityGroupID)))"

text \<open>The first half of \<open>EnsureLoadBalancer\<close>: the checks, and what is read for the second half.\<close>

record balancerPlan =
  bp_listeners :: "elbListener list"
  bp_instances :: "ec2Instance list"
  bp_sourceRanges :: "string list"
  bp_internalELB :: bool
  bp_proxyProtocol :: bool
  bp_attributes :: elbAttributes
  bp_subnetIDs :: "string list"

definition planBalancer ::
  "'c ec2Net \<Rightarrow> awsKubeLib \<Rightarrow> awsNet \<Rightarrow> Service \<Rightarrow> Node list \<Rightarrow> ('c awsCache, balancerPlan) awsStep" where
  "planBalancer net lib n service nodes =
     (if sv_SessionAffinity service \<noteq> ''None'' then
        failing (AwsErrorf ''unsupported load balancer affinity: %v'' [sv_SessionAffinity service])
      else if length (sv_Ports service) = 0 then failing (AwsErrorf ''requested load balancer with no ports'' [])
      else
        andThen (reading (\<lambda>_. buildListeners (sv_Annotations service)
                    (getPortSets (map_get (sv_Annotations service) ServiceAnnotationLoadBalancerSSLPorts))
                    (sv_Ports service))) (\<lambda>listeners.
        if sv_LoadBalancerIP service \<noteq> [] then
          failing (AwsErrorf ''LoadBalancerIP cannot be specified for AWS ELB'' [])
        else
          andThen (getInstancesByNodeNamesCached (en_ec2 net) (an_cloud n) (nodeNames nodes)) (\<lambda>instances.
          andThen (reading (\<lambda>_. kl_SourceRanges lib service)) (\<lambda>sourceRanges.
          andThen (reading (\<lambda>_. internalELB lib (sv_Annotations service) sourceRanges)) (\<lambda>isInternal.
          andThen (reading (\<lambda>_. proxyProtocolWanted (sv_Annotations service))) (\<lambda>proxyProtocol.
          andThen (reading (\<lambda>_. annotatedAttributes (sv_Annotations service))) (\<lambda>attributes.
          andThen (on_cloud (reading (findELBSubnets net n isInternal))) (\<lambda>subnetIDs.
          if length subnetIDs = 0 then
            failing (AwsErrorf ''could not find any suitable subnets for creating the ELB'' [])
          else
            give \<lparr>bp_listeners = listeners, bp_instances = instances, bp_sourceRanges = sourceRanges,
                  bp_internalELB = isInternal, bp_proxyProtocol = proxyProtocol, bp_attributes = attributes,
                  bp_subnetIDs = subnetIDs\<rparr>))))))))"

definition aws_EnsureLoadBalancer ::
  "'c elbAPI \<Rightarrow> 'c ec2Net \<Rightarrow> awsKubeLib \<Rightarrow> awsNet \<Rightarrow> Service \<Rightarrow> Node list \<Rightarrow> ('c awsCache, string list) awsStep" where
  "aws_EnsureLoadBalancer elb net lib n service nodes =
     andThen (planBalancer net lib n service nodes) (\<lambda>plan.
     andThen (on_cloud (balancerGroup net n service (bp_sourceRanges plan))) (\<lambda>securityGroupID.
     andThen (on_cloud (ensureLoadBalancer elb net n (sv_Namespace service @ ''/'' @ sv_Name service)
                (GetLoadBalancerName service) (bp_listeners plan) (bp_subnetIDs plan) [securityGroupID]
                (bp_internalELB plan) (bp_proxyProtocol plan) (bp_attributes plan))) (\<lambda>loadBalancer.
     andThen (on_cloud (ensureLoadBalancerHealthCheck elb loadBalancer (bp_listeners plan))) (\<lambda>_.
     case loadBalancer of
       None \<Rightarrow> panic
     | Some lb \<Rightarrow>
         andThen (on_cloud (updateInstanceSecurityGroupsForLoadBalancer net n lb (bp_instances plan))) (\<lambda>_.
         andThen (on_cloud (ensureLoadBalancerInstances elb (ld_LoadBalancerName lb) (ld_Instances lb) (bp_instances plan))) (\<lambda>_.
         give (toStatus lb)))))))"

definition aws_GetLoadBalancer :: "'c elbAPI \<Rightarrow> Service \<Rightarrow> 'c \<Rightarrow> awsErr + string list \<times> bool" where
  "aws_GetLoadBalancer elb service c =
     (case describeLoadBalancer elb (GetLoadBalancerName service) c of
        Inl err \<Rightarrow> Inl err
      | Inr None \<Rightarrow> Inr ([], False)
      | Inr (Some lb) \<Rightarrow> Inr (toStatus lb, True))"

text \<open>A failure to register the instances ends the update with \<open>return nil\<close>.\<close>

definition aws_UpdateLoadBalancer ::
  "'c elbAPI \<Rightarrow> 'c ec2Net \<Rightarrow> awsNet \<Rightarrow> Service \<Rightarrow> Node list \<Rightarrow> ('c awsCache, unit) awsStep" where
  "aws_UpdateLoadBalancer elb net n service nodes =
     andThen (getInstancesByNodeNamesCached (en_ec2 net) (an_cloud n) (nodeNames nodes)) (\<lambda>instances.
     andThen (on_cloud (reading (describeLoadBalancer elb (GetLoadBalancerName service)))) (\<lambda>loadBalancer.
     case loadBalancer of
       None \<Rightarrow> failing (AwsErrorf ''Load balancer not found'' [])
     | Some lb \<Rightarrow>
         (\<lambda>s. case on_cloud (ensureLoadBalancerInstances elb (ld_LoadBalancerName lb) (ld_Instances lb) instances) s of
                (Failed _, s) \<Rightarrow> (Returned (), s)
              | (Panicked, s) \<Rightarrow> (Panicked, s)
              | (Returned _, s) \<Rightarrow> on_cloud (updateInstanceSecurityGroupsForLoadBalancer net n lb instances) s)))"

section \<open>EnsureLoadBalancerDeleted\<close>

fun deleteGroups_round :: "'c ec2Net \<Rightarrow> string list \<Rightarrow> string fset \<Rightarrow> ('c, string fset) awsStep" where
  "deleteGroups_round net [] ids = give ids"
| "deleteGroups_round net (gid # gids) ids =
     (\<lambda>c. case en_DeleteSecurityGroup net gid c of
        (None, c) \<Rightarrow> deleteGroups_round net gids (ids |-| {|gid|}) c
      | (Some err, c) \<Rightarrow>
          (if (case err of AwsAPIErr code _ \<Rightarrow> code = ''DependencyViolation'' | _ \<Rightarrow> False)
           then deleteGroups_round net gids ids c
           else (Failed (AwsWrapf ''error while deleting load balancer security group (%s): %v'' [gid] err), c)))"

text \<open>The endless loop: it ends when no group is left, on an error or when the time is over.\<close>

partial_function (option) deleteGroups_loop ::
  "'c ec2Net \<Rightarrow> string \<Rightarrow> int \<Rightarrow> string fset \<Rightarrow> 'c \<Rightarrow> ((awsErr, unit) outcome \<times> 'c) option" where
  "deleteGroups_loop net svcName timeoutAt ids c =
     (case deleteGroups_round net (en_range net ids c) ids c of
        (Failed err, c) \<Rightarrow> Some (Failed err, c)
      | (Panicked, c) \<Rightarrow> Some (Panicked, c)
      | (Returned ids, c) \<Rightarrow>
          if ids = {||} then Some (Returned (), c)
          else
            (case ec_Now (en_ec2 net) c of
               (now, c) \<Rightarrow>
                 if now > timeoutAt then
                   Some (Failed (AwsErrorf ''timed out deleting ELB: %s. Could not delete security groups %v''
                           [svcName, join_with '','' (en_range net ids c)]), c)
                 else deleteGroups_loop net svcName timeoutAt ids (en_Sleep net 10 c)))"

abbreviation second :: int where
  "second \<equiv> 1000000000"

definition aws_EnsureLoadBalancerDeleted ::
  "'c elbAPI \<Rightarrow> 'c ec2Net \<Rightarrow> awsNet \<Rightarrow> Service \<Rightarrow> 'c \<Rightarrow> ((awsErr, unit) outcome \<times> 'c) option" where
  "aws_EnsureLoadBalancerDeleted elb net n service c =
     (case describeLoadBalancer elb (GetLoadBalancerName service) c of
        Inl err \<Rightarrow> Some (Failed err, c)
      | Inr None \<Rightarrow> Some (Returned (), c)
      | Inr (Some lb) \<Rightarrow>
          (case updateInstanceSecurityGroupsForLoadBalancer net n lb [] c of
             (Failed err, c) \<Rightarrow> Some (Failed err, c)
           | (Panicked, c) \<Rightarrow> Some (Panicked, c)
           | (Returned _, c) \<Rightarrow>
               (case el_DeleteLoadBalancer elb (ld_LoadBalancerName lb) c of
                  (Some err, c) \<Rightarrow> Some (Failed err, c)
                | (None, c) \<Rightarrow>
                    (case ec_Now (en_ec2 net) c of
                       (now, c) \<Rightarrow>
                         deleteGroups_loop net (sv_Name service) (now + 600 * second)
                           (fset_of_list (filter (\<lambda>g. g \<noteq> '''') (ld_SecurityGroups lb))) c))))"

section \<open>Listeners\<close>

text \<open>A listener that carries a certificate speaks an encrypted protocol to its clients.\<close>

theorem certificate_listener_is_encrypted:
  assumes "buildListeners annotations portList ports = Inr listeners" and "l \<in> set listeners"
    and "ls_SSLCertificateId l \<noteq> ''''"
  shows "ls_Protocol l \<in> {''ssl'', ''https''}"
proof -
  have one: "buildListener port annotations portList = Inr l \<Longrightarrow> ls_SSLCertificateId l \<noteq> '''' \<Longrightarrow>
      ls_Protocol l \<in> {''ssl'', ''https''}" for port l
    by (auto simp: buildListener_def backendProtocolMapping_def Let_def split: if_splits)
  have "\<forall>l \<in> set listeners. \<exists>port. buildListener port annotations portList = Inr l"
    using assms(1)
  proof (induction ports arbitrary: listeners)
    case (Cons port ports)
    then show ?case
      by (cases "buildListener port annotations portList"; cases "buildListeners annotations portList ports")
        (auto split: if_splits)
  qed simp
  then show ?thesis using assms(2,3) one by blast
qed

text \<open>
  A port of the service without a node port gets no listener, but the security group of the
  balancer is opened for it.
\<close>

theorem port_without_listener_is_opened:
  assumes "port \<in> set ports" and "sp_NodePort port = 0"
    and "inj_on (en_json net) (insert icmpPermission (portPermission ranges ` set ports))"
    and "buildListeners annotations portList [port] = Inr listeners"
  shows "listeners = [] \<and> portPermission ranges port \<in> contents (balancerIngress net ranges ports)"
proof -
  have "balancerIngress net ranges ports = NewIPPermissionSet net (map (portPermission ranges) ports @ [icmpPermission])"
    by (simp add: balancerIngress_def NewIPPermissionSet_def ips_Insert_def)
  then have "contents (balancerIngress net ranges ports) = insert icmpPermission (portPermission ranges ` set ports)"
    using assms(3) by (simp add: NewIPPermissionSet_contents)
  then show ?thesis using assms by (auto split: if_splits)
qed

section \<open>What is changed in the groups of the instances\<close>

definition all_ids :: "securityGroup list \<Rightarrow> string set" where
  "all_ids gs = gp_GroupId ` set gs - {''''}"

lemma compareActualGroups_lookup:
  assumes "distinct (map gp_GroupId gs)" and "fmlookup ids g \<noteq> Some False"
  shows "fmlookup (compareActualGroups gs ids) g =
    (if g \<in> all_ids gs then (if fmlookup ids g = Some True then None else Some False) else fmlookup ids g)"
  using assms
proof (induction gs arbitrary: ids)
  case (Cons h gs)
  have out: "fmlookup (compareActualGroups gs ids) g = fmlookup ids g" if "g \<notin> gp_GroupId ` set gs" for ids :: "bool gomap"
    using that by (induction gs arbitrary: ids) auto
  show ?case
  proof (cases "gp_GroupId h = g")
    case True
    then have "g \<notin> gp_GroupId ` set gs" using Cons.prems by auto
    from out [OF this] show ?thesis using True Cons.prems(2) by (cases "g = []") (simp_all add: all_ids_def)
  next
    case False
    then show ?thesis using Cons by (auto simp: all_ids_def)
  qed
qed (simp add: all_ids_def)

lemma scanInstanceGroups_lookup:
  assumes "scanInstanceGroups tagged is ids = Inr ids'"
  shows "fmlookup ids' g =
    (if \<exists>i \<in> set is. findSecurityGroupForInstance i tagged = Inr (Some g) \<and> g \<noteq> '''' then Some True else fmlookup ids g)"
  using assms
proof (induction "is" arbitrary: ids)
  case (Cons i js)
  then obtain r where r: "findSecurityGroupForInstance i tagged = Inr r" by (auto split: sum.splits)
  show ?case
  proof (cases r)
    case None
    then show ?thesis using Cons r by simp
  next
    case (Some h)
    then show ?thesis using Cons r by (cases "h = ''''") auto
  qed
qed simp

text \<open>
  The changes are the difference of two sets: the groups of the instances that do not let the
  balancer in yet are opened, and the other groups that do are closed.
\<close>

theorem group_changes_are_the_difference:
  assumes "scanInstanceGroups tagged instances fmempty = Inr ids" and "distinct (map gp_GroupId actual)"
  shows "let wanted = {g. g \<noteq> '''' \<and> (\<exists>i \<in> set instances. findSecurityGroupForInstance i tagged = Inr (Some g))};
             changes = compareActualGroups actual ids
    in {g. fmlookup changes g = Some True} = wanted - all_ids actual \<and>
       {g. fmlookup changes g = Some False} = all_ids actual - wanted"
proof -
  have ids: "fmlookup ids g = (if \<exists>i \<in> set instances. findSecurityGroupForInstance i tagged = Inr (Some g) \<and> g \<noteq> ''''
      then Some True else None)" for g
    using scanInstanceGroups_lookup [OF assms(1)] by simp
  have "fmlookup ids g \<noteq> Some False" for g by (simp add: ids)
  note look = compareActualGroups_lookup [OF assms(2) this]
  show ?thesis unfolding Let_def by (auto simp: look ids)
qed

section \<open>Deleting a balancer\<close>

text \<open>
  The clock never goes back and runs while the code sleeps; only a deletion that succeeds removes
  a group.
\<close>

definition clock_runs :: "'c ec2Net \<Rightarrow> ('c \<Rightarrow> int) \<Rightarrow> bool" where
  "clock_runs net clock \<longleftrightarrow>
     (\<forall>c. fst (ec_Now (en_ec2 net) c) = clock c \<and> clock (snd (ec_Now (en_ec2 net) c)) \<ge> clock c) \<and>
     (\<forall>n c. clock (en_Sleep net n c) \<ge> clock c + int n * second) \<and>
     (\<forall>gid c. clock (snd (en_DeleteSecurityGroup net gid c)) \<ge> clock c)"

definition deletes_groups :: "'c ec2Net \<Rightarrow> ('c \<Rightarrow> string set) \<Rightarrow> bool" where
  "deletes_groups net existing \<longleftrightarrow>
     (\<forall>gid c c'. en_DeleteSecurityGroup net gid c = (None, c') \<longrightarrow> existing c' = existing c - {gid}) \<and>
     (\<forall>gid c c' e. en_DeleteSecurityGroup net gid c = (Some e, c') \<longrightarrow> existing c' = existing c) \<and>
     (\<forall>n c. existing (en_Sleep net n c) = existing c) \<and>
     (\<forall>c. existing (snd (ec_Now (en_ec2 net) c)) = existing c)"

lemma deleteGroups_round_clock:
  assumes "clock_runs net clock"
  shows "clock (snd (deleteGroups_round net gids ids c)) \<ge> clock c"
proof (induction gids arbitrary: ids c)
  case (Cons gid gids)
  obtain e c1 where d: "en_DeleteSecurityGroup net gid c = (e, c1)" by fastforce
  have "clock c1 \<ge> clock c" using assms d unfolding clock_runs_def by (metis snd_conv)
  then have "clock (snd (deleteGroups_round net gids ids' c1)) \<ge> clock c" for ids'
    using Cons.IH [of c1 ids'] by simp
  then show ?case using d \<open>clock c1 \<ge> clock c\<close> by (cases e) (auto split: awsErr.split)
qed (simp add: give_def)

lemma deleteGroups_loop_returns:
  assumes "clock_runs net clock"
  shows "\<exists>r. deleteGroups_loop net svc timeoutAt ids c = Some r"
proof (induction "nat (timeoutAt + 1 - clock c)" arbitrary: ids c rule: less_induct)
  case less
  obtain out c1 where r: "deleteGroups_round net (en_range net ids c) ids c = (out, c1)" by fastforce
  have c1: "clock c1 \<ge> clock c" using deleteGroups_round_clock [OF assms, of c "en_range net ids c" ids] r by simp
  obtain now c2 where n: "ec_Now (en_ec2 net) c1 = (now, c2)" by fastforce
  have now: "now = clock c1" "clock c2 \<ge> clock c1" using assms n unfolding clock_runs_def by (metis fst_conv snd_conv)+
  show ?case
  proof (cases out)
    case (Returned ids')
    show ?thesis
    proof (cases "ids' = {||} \<or> now > timeoutAt")
      case True
      then show ?thesis using r Returned n by (subst deleteGroups_loop.simps) auto
    next
      case False
      have "clock (en_Sleep net 10 c2) \<ge> clock c2 + int 10 * second"
        using assms unfolding clock_runs_def by blast
      then have "nat (timeoutAt + 1 - clock (en_Sleep net 10 c2)) < nat (timeoutAt + 1 - clock c)"
        using False now c1 by simp
      from less.hyps [OF this] show ?thesis using r Returned n False
        by (subst deleteGroups_loop.simps) simp
    qed
  qed (use r in \<open>subst deleteGroups_loop.simps; simp\<close>)+
qed

lemma deleteGroups_round_gone:
  assumes "deletes_groups net existing" and "deleteGroups_round net gids ids c = (Returned ids', c')"
  shows "existing c' \<subseteq> existing c \<and> ids' |\<subseteq>| ids \<and> (fset ids - fset ids') \<inter> existing c' = {}"
  using assms(2)
proof (induction gids arbitrary: ids c)
  case (Cons gid gids)
  obtain e c1 where d: "en_DeleteSecurityGroup net gid c = (e, c1)" by fastforce
  show ?case
  proof (cases e)
    case None
    then have "existing c1 = existing c - {gid}" using assms(1) d by (simp add: deletes_groups_def)
    moreover have "deleteGroups_round net gids (ids |-| {|gid|}) c1 = (Returned ids', c')" using Cons.prems d None by simp
    ultimately show ?thesis using Cons.IH [of "ids |-| {|gid|}" c1] by (auto simp: less_eq_fset.rep_eq)
  next
    case (Some err)
    then have "existing c1 = existing c" using assms(1) d unfolding deletes_groups_def by blast
    moreover have "deleteGroups_round net gids ids c1 = (Returned ids', c')"
      using Cons.prems d Some by (auto split: awsErr.splits if_splits)
    ultimately show ?thesis using Cons.IH [of ids c1] by simp
  qed
qed simp

lemma deleteGroups_loop_gone:
  assumes "deletes_groups net existing" and "deleteGroups_loop net svc timeoutAt ids c = Some r" and "fst r = Returned ()"
  shows "existing (snd r) \<subseteq> existing c \<and> fset ids \<inter> existing (snd r) = {}"
proof -
  let ?P = "\<lambda>net' svc' t ids c r. net' = net \<longrightarrow> fst r = Returned () \<longrightarrow>
      existing (snd r) \<subseteq> existing c \<and> fset ids \<inter> existing (snd r) = {}"
  have "?P net svc timeoutAt ids c r"
  proof (rule deleteGroups_loop.raw_induct [where P = ?P, OF _ assms(2)], intro impI)
    fix loop net' svc' t ids c r
    assume IH: "\<And>net' svc' t ids c r. loop net' svc' t ids c = Some r \<Longrightarrow> ?P net' svc' t ids c r"
      and body: "(case deleteGroups_round net' (en_range net' ids c) ids c of
          (Failed err, c) \<Rightarrow> Some (Failed err, c)
        | (Panicked, c) \<Rightarrow> Some (Panicked, c)
        | (Returned ids, c) \<Rightarrow>
            if ids = {||} then Some (Returned (), c)
            else
              (case ec_Now (en_ec2 net') c of
                 (now, c) \<Rightarrow>
                   if now > t then
                     Some (Failed (AwsErrorf ''timed out deleting ELB: %s. Could not delete security groups %v''
                             [svc', join_with '','' (en_range net' ids c)]), c)
                   else loop net' svc' t ids (en_Sleep net' 10 c))) = Some r"
      and net': "net' = net" and ok: "fst r = Returned ()"
    obtain out c1 where round: "deleteGroups_round net (en_range net ids c) ids c = (out, c1)" by fastforce
    obtain now c2 where n: "ec_Now (en_ec2 net) c1 = (now, c2)" by fastforce
    from body net' ok round n obtain ids' where out: "out = Returned ids'"
      by (cases out) auto
    note gone = deleteGroups_round_gone [OF assms(1) round [unfolded out]]
    show "existing (snd r) \<subseteq> existing c \<and> fset ids \<inter> existing (snd r) = {}"
    proof (cases "ids' = {||}")
      case True
      then have "r = (Returned (), c1)" using body net' round out by simp
      then show ?thesis using gone True by auto
    next
      case False
      then have again: "loop net svc' t ids' (en_Sleep net 10 c2) = Some r"
        using body net' ok round out n by (auto split: if_splits)
      have "existing (en_Sleep net 10 c2) = existing c1"
        using assms(1) n unfolding deletes_groups_def by (metis snd_conv)
      with IH [OF again] ok gone show ?thesis by (auto simp: less_eq_fset.rep_eq)
    qed
  qed
  then show ?thesis using assms(3) by simp
qed

text \<open>
  C33. However long the groups are in use, \<open>EnsureLoadBalancerDeleted\<close> comes to an end.
\<close>

theorem balancer_deletion_ends:
  assumes "clock_runs net clock"
  shows "\<exists>r. aws_EnsureLoadBalancerDeleted elb net n service c = Some r"
  using deleteGroups_loop_returns [OF assms]
  by (auto simp: aws_EnsureLoadBalancerDeleted_def split: sum.split option.split prod.split outcome.split)


section \<open>Updating and creating a balancer\<close>

text \<open>
  An error of registering or deregistering instances is swallowed: the update reports success
  without having opened the groups of the instances.
\<close>

theorem update_hides_registration_error:
  assumes "getInstancesByNodeNamesCached (en_ec2 net) (an_cloud n) (nodeNames nodes) s = (Returned instances, s1)"
    and "describeLoadBalancer elb (GetLoadBalancerName service) (ch_cloud s1) = Inr (Some lb)"
    and "ensureLoadBalancerInstances elb (ld_LoadBalancerName lb) (ld_Instances lb) instances (ch_cloud s1) = (Failed err, c')"
  shows "aws_UpdateLoadBalancer elb net n service nodes s = (Returned (), s1\<lparr>ch_cloud := c'\<rparr>)"
  using assms by (simp add: aws_UpdateLoadBalancer_def andThen_def on_cloud_def reading_def)

lemma getInstancesCached_cloud:
  "getInstancesByNodeNamesCached api cloud names s = (res, s') \<Longrightarrow> ch_cloud s' = ch_cloud s"
  by (auto simp: getInstancesByNodeNamesCached_def split: if_splits sum.splits)

lemma reading_state: "reading m c = (res, c') \<Longrightarrow> c' = c"
  by (auto simp: reading_def split: sum.splits)

definition valid_request :: "'c ec2Net \<Rightarrow> awsKubeLib \<Rightarrow> awsNet \<Rightarrow> Service \<Rightarrow> 'c \<Rightarrow> bool" where
  "valid_request net lib n service c \<longleftrightarrow>
     sv_SessionAffinity service = ''None'' \<and> sv_Ports service \<noteq> [] \<and>
     (\<forall>port \<in> set (sv_Ports service). sp_Protocol port = ''TCP'') \<and> sv_LoadBalancerIP service = '''' \<and>
     (\<exists>ranges isInternal proxy attributes ids. kl_SourceRanges lib service = Inr ranges \<and>
        internalELB lib (sv_Annotations service) ranges = Inr isInternal \<and>
        proxyProtocolWanted (sv_Annotations service) = Inr proxy \<and>
        annotatedAttributes (sv_Annotations service) = Inr attributes \<and>
        findELBSubnets net n isInternal c = Inr ids \<and> ids \<noteq> [])"

lemma buildListeners_TCP:
  "buildListeners annotations portList ports = Inr listeners \<Longrightarrow> port \<in> set ports \<Longrightarrow> sp_Protocol port = ''TCP''"
  by (induction ports arbitrary: listeners)
    (auto simp: and_then_def split: if_splits sum.splits)

lemma keeps_cloud_intros:
  "keeps ch_cloud (on_cloud (reading g))" "keeps ch_cloud (getInstancesByNodeNamesCached api cloud names)"
  by (auto simp: keeps_def reading_def on_cloud_def getInstancesByNodeNamesCached_def split: sum.split)

lemma planBalancer_keeps_cloud: "keeps ch_cloud (planBalancer net lib n service nodes)"
  unfolding planBalancer_def by (intro keeps_intros keeps_cloud_intros)

lemma planBalancer_valid:
  assumes "planBalancer net lib n service nodes s = (Returned plan, s')"
  shows "valid_request net lib n service (ch_cloud s)"
  using assms buildListeners_TCP getInstancesCached_cloud
  by (fastforce simp: planBalancer_def valid_request_def on_cloud_def reading_def
      split: if_splits prod.splits sum.splits)

text \<open>
  Everything about a service is checked before anything is changed: when it asks for what an ELB
  cannot do, or its annotations cannot be read, or no subnet is suitable, the cloud is as before.
\<close>

theorem invalid_service_changes_nothing:
  assumes "\<not> valid_request net lib n service (ch_cloud s)"
  shows "ch_cloud (snd (aws_EnsureLoadBalancer elb net lib n service nodes s)) = ch_cloud s"
proof -
  obtain res s' where plan: "planBalancer net lib n service nodes s = (res, s')" by fastforce
  then have "ch_cloud s' = ch_cloud s" using planBalancer_keeps_cloud unfolding keeps_def by (metis snd_conv)
  moreover have "\<forall>p. res \<noteq> Returned p" using plan planBalancer_valid assms by metis
  ultimately show ?thesis by (cases res) (simp_all add: aws_EnsureLoadBalancer_def andThen_def plan)
qed

section \<open>Witnesses\<close>

definition demo_port :: "int \<Rightarrow> int \<Rightarrow> ServicePort" where
  "demo_port p np = \<lparr>sp_Name = ''web'', sp_Protocol = ''TCP'', sp_Port = p, sp_NodePort = np\<rparr>"

definition demo_service :: Service where
  "demo_service =
     \<lparr>sv_Name = ''s'', sv_Namespace = ''ns'', sv_UID = ''u-1'',
      sv_Annotations = fmupd ServiceAnnotationLoadBalancerCertificate ''arn'' fmempty,
      sv_Ports = [demo_port 443 30443, demo_port 80 0], sv_SessionAffinity = ''None'', sv_LoadBalancerIP = ''''\<rparr>"

theorem certificate_listener_is_encrypted_witness:
  "\<exists>l. buildListeners (sv_Annotations demo_service) None (sv_Ports demo_service) = Inr [l] \<and>
     ls_SSLCertificateId l = ''arn'' \<and> ls_Protocol l \<in> {''ssl'', ''https''}"
proof -
  obtain l where l: "buildListeners (sv_Annotations demo_service) None (sv_Ports demo_service) = Inr [l]"
    and c: "ls_SSLCertificateId l = ''arn''"
    by (simp add: demo_service_def demo_port_def buildListener_def Let_def)
  from certificate_listener_is_encrypted [OF l, of l] c have "ls_Protocol l \<in> {''ssl'', ''https''}" by simp
  with l c show ?thesis by blast
qed

theorem port_without_listener_is_opened_witness:
  "buildListeners fmempty None [demo_port 80 0] = Inr [] \<and>
   portPermission [''0/0''] (demo_port 80 0) \<in> contents (balancerIngress demo_net [''0/0''] [demo_port 80 0])"
proof -
  have "inj_on (en_json demo_net) (insert icmpPermission (portPermission [''0/0''] ` set [demo_port 80 0]))"
    by (simp add: demo_net_fields icmpPermission_def portPermission_def map_filter_def)
  from port_without_listener_is_opened [OF _ _ this, of "demo_port 80 0" fmempty None "[]"] show ?thesis
    by (simp add: demo_port_def)
qed

theorem group_changes_are_the_difference_witness:
  "\<exists>ids. scanInstanceGroups fmempty [demo_instance\<lparr>ei_SecurityGroups := [''sg-2'']\<rparr>] fmempty = Inr ids \<and>
     {g. fmlookup (compareActualGroups [\<lparr>gp_GroupId = ''sg-1'', gp_Tags = [], gp_IpPermissions = []\<rparr>] ids) g = Some True} = {''sg-2''} \<and>
     {g. fmlookup (compareActualGroups [\<lparr>gp_GroupId = ''sg-1'', gp_Tags = [], gp_IpPermissions = []\<rparr>] ids) g = Some False} = {''sg-1''}"
proof -
  let ?i = "demo_instance\<lparr>ei_SecurityGroups := [''sg-2'']\<rparr>"
  let ?gs = "[\<lparr>gp_GroupId = ''sg-1'', gp_Tags = [], gp_IpPermissions = []\<rparr>]"
  have f: "findSecurityGroupForInstance ?i fmempty = Inr (Some ''sg-2'')"
    by (simp add: findSecurityGroupForInstance_def Let_def)
  then obtain ids where ids: "scanInstanceGroups fmempty [?i] fmempty = Inr ids" by simp
  from group_changes_are_the_difference [OF ids, of ?gs] ids f show ?thesis by (auto simp: Let_def all_ids_def)
qed

text \<open>A cloud where the groups are never released, and its clock.\<close>

definition demo_clock_net :: "demoCloud ec2Net" where
  "demo_clock_net = region_net\<lparr>en_ec2 := demo_ec2\<lparr>ec_Now := (\<lambda>r. (int (dr_made r), r))\<rparr>,
     en_Sleep := (\<lambda>n r. r\<lparr>dr_made := dr_made r + n * 1000000000\<rparr>),
     en_DeleteSecurityGroup := (\<lambda>gid r. (Some (AwsAPIErr ''DependencyViolation'' ''''), r))\<rparr>"

theorem balancer_deletion_ends_witness:
  "\<exists>r. aws_EnsureLoadBalancerDeleted demo_elb demo_clock_net demo_network demo_service demo_balancer = Some r"
proof -
  have "clock_runs demo_clock_net (\<lambda>r. int (dr_made r))"
    by (simp add: clock_runs_def demo_clock_net_def)
  then show ?thesis by (rule balancer_deletion_ends)
qed

definition demo_group_net :: "demoCloud ec2Net" where
  "demo_group_net = region_net\<lparr>en_DescribeSecurityGroups := (\<lambda>ids filters r. Inr []),
     en_DeleteSecurityGroup := (\<lambda>gid r.
       (None, r\<lparr>db_view := (db_view r)\<lparr>ew_SecurityGroups := ew_SecurityGroups (db_view r) |-| {|gid|}\<rparr>\<rparr>))\<rparr>"

definition demo_open_network :: awsNet where
  "demo_open_network = demo_network\<lparr>an_DisableSecurityGroupIngress := True\<rparr>"


definition demo_failing_elb :: "demoCloud elbAPI" where
  "demo_failing_elb = demo_elb\<lparr>el_DeregisterInstances := (\<lambda>lb is r. (Some (AwsOtherErr ''throttled''), r))\<rparr>"

theorem update_hides_registration_error_witness:
  "\<exists>s'. aws_UpdateLoadBalancer demo_failing_elb region_net demo_network demo_service []
     \<lparr>ch_lastNodeNames = {||}, ch_lastInstances = [demo_instance\<lparr>ei_InstanceId := ''i-2''\<rparr>], ch_cloud = demo_balancer\<rparr> =
       (Returned (), s')"
proof -
  let ?s = "\<lparr>ch_lastNodeNames = {||}, ch_lastInstances = [demo_instance\<lparr>ei_InstanceId := ''i-2''\<rparr>], ch_cloud = demo_balancer\<rparr>"
  have cached: "getInstancesByNodeNamesCached (en_ec2 region_net) (an_cloud demo_network) (nodeNames []) ?s =
      (Returned (ch_lastInstances ?s), ?s)"
    by (simp add: getInstancesByNodeNamesCached_def nodeNames_def)
  obtain lb where lb: "describeLoadBalancer demo_failing_elb (GetLoadBalancerName demo_service) (ch_cloud ?s) = Inr (Some lb)"
    and old: "ld_Instances lb = [''i-1'']"
    by (simp add: describeLoadBalancer_def demo_failing_elb_def demo_elb_def demo_balancer_def sorted_list_of_fset.rep_eq)
  have failing: "\<exists>e c'. ensureLoadBalancerInstances demo_failing_elb l [''i-1''] [demo_instance\<lparr>ei_InstanceId := ''i-2''\<rparr>]
      demo_balancer = (Failed e, c')" for l
    by (simp add: ensureLoadBalancerInstances_def demo_failing_elb_def demo_elb_def andThen_def request_call_def
          sorted_list_of_fset.rep_eq Let_def)
  from failing [of "ld_LoadBalancerName lb"] obtain e c' where
    "ensureLoadBalancerInstances demo_failing_elb (ld_LoadBalancerName lb) [''i-1''] [demo_instance\<lparr>ei_InstanceId := ''i-2''\<rparr>]
      demo_balancer = (Failed e, c')" by blast
  then have "ensureLoadBalancerInstances demo_failing_elb (ld_LoadBalancerName lb) (ld_Instances lb)
      (ch_lastInstances ?s) (ch_cloud ?s) = (Failed e, c')"
    by (simp add: old)
  from update_hides_registration_error [OF cached lb this] show ?thesis by blast
qed

theorem invalid_service_changes_nothing_witness:
  "ch_cloud (snd (aws_EnsureLoadBalancer demo_elb region_net \<lparr>kl_SourceRanges = (\<lambda>_. Inr []), kl_IsAllowAll = (\<lambda>_. True)\<rparr>
     demo_network (demo_service\<lparr>sv_SessionAffinity := ''ClientIP''\<rparr>) []
     \<lparr>ch_lastNodeNames = {||}, ch_lastInstances = [], ch_cloud = demo_balancer\<rparr>)) = demo_balancer"
proof -
  let ?lib = "\<lparr>kl_SourceRanges = (\<lambda>_. Inr []), kl_IsAllowAll = (\<lambda>_. True)\<rparr>"
  have "\<not> valid_request region_net ?lib demo_network (demo_service\<lparr>sv_SessionAffinity := ''ClientIP''\<rparr>) demo_balancer"
    by (simp add: valid_request_def)
  then show ?thesis
    using invalid_service_changes_nothing [of region_net ?lib demo_network "demo_service\<lparr>sv_SessionAffinity := ''ClientIP''\<rparr>"
        "\<lparr>ch_lastNodeNames = {||}, ch_lastInstances = [], ch_cloud = demo_balancer\<rparr>" demo_elb "[]"] by simp
qed

end
