(* ===== verification/AwsStart.thy ===== *)
theory AwsStart
  imports AwsElb Complex_Main
begin

text \<open>
  How the AWS provider starts and what it tells of its instances (\<open>aws.go\<close>, \<open>regions.go\<close>,
  \<open>aws_instancegroups.go\<close>), the pages of the EC2 answers, and the delay that is inserted before
  requests when the rate limit is hit (\<open>retry_handler.go\<close>). The metadata service is a function from
  paths to values; the reading of the configuration file, the parsing of IP addresses and regular
  expressions are parameters. In the delay the floating-point numbers are exact (\<open>real\<close>).
\<close>

section \<open>Regions\<close>

definition WellKnownRegions :: "string list" where
  "WellKnownRegions =
     [''ap-northeast-1'', ''ap-northeast-2'', ''ap-south-1'', ''ap-southeast-1'', ''ap-southeast-2'', ''ca-central-1'',
      ''eu-central-1'', ''eu-west-1'', ''eu-west-2'', ''sa-east-1'', ''us-east-1'', ''us-east-2'', ''us-west-1'',
      ''us-west-2'', ''cn-north-1'', ''us-gov-west-1'']"

record awsGlobals =
  gl_awsRegions :: "string fset"
  gl_credentialProviders :: "string list"
  gl_wellKnownDone :: bool

definition RecognizeRegion :: "string \<Rightarrow> awsGlobals \<Rightarrow> awsGlobals" where
  "RecognizeRegion region g =
     (if region |\<in>| gl_awsRegions g then g
      else g\<lparr>gl_credentialProviders := gl_credentialProviders g @ [region],
             gl_awsRegions := finsert region (gl_awsRegions g)\<rparr>)"

definition RecognizeWellKnownRegions :: "awsGlobals \<Rightarrow> awsGlobals" where
  "RecognizeWellKnownRegions g = fold RecognizeRegion WellKnownRegions g"

definition isRegionValid :: "string \<Rightarrow> awsGlobals \<Rightarrow> bool" where
  "isRegionValid region g = (region |\<in>| gl_awsRegions g)"

section \<open>Configuration\<close>

record CloudConfig =
  cc_Zone :: string
  cc_VPC :: string
  cc_SubnetID :: string
  cc_RouteTableID :: string
  cc_KubernetesClusterTag :: string
  cc_KubernetesClusterID :: string
  cc_DisableSecurityGroupIngress :: bool
  cc_DisableStrictZoneCheck :: bool

definition emptyConfig :: CloudConfig where
  "emptyConfig =
     \<lparr>cc_Zone = '''', cc_VPC = '''', cc_SubnetID = '''', cc_RouteTableID = '''', cc_KubernetesClusterTag = '''',
      cc_KubernetesClusterID = '''', cc_DisableSecurityGroupIngress = False, cc_DisableStrictZoneCheck = False\<rparr>"

type_synonym metadata = "string \<Rightarrow> awsErr + string"

definition getAvailabilityZone :: "metadata \<Rightarrow> awsErr + string" where
  "getAvailabilityZone md = md ''placement/availability-zone''"

definition readAWSCloudConfig ::
  "(awsErr + CloudConfig) option \<Rightarrow> metadata option \<Rightarrow> awsErr + CloudConfig" where
  "readAWSCloudConfig config md =
     and_then (case config of None \<Rightarrow> Inr emptyConfig | Some r \<Rightarrow> r) (\<lambda>cfg.
       if cc_Zone cfg = '''' then
         and_then (case md of None \<Rightarrow> Inr cfg | Some m \<Rightarrow> and_then (getAvailabilityZone m) (\<lambda>z. Inr (cfg\<lparr>cc_Zone := z\<rparr>)))
           (\<lambda>cfg. if cc_Zone cfg = '''' then Inl (AwsErrorf ''no zone specified in configuration file'' []) else Inr cfg)
       else Inr cfg)"

section \<open>newAWSCloud\<close>

record 'c awsServices =
  as_Metadata :: "awsErr + metadata"
  as_Compute :: "string \<Rightarrow> awsErr + 'c ec2API"
  as_LoadBalancing :: "string \<Rightarrow> awsErr option"
  as_Autoscaling :: "string \<Rightarrow> awsErr option"

record awsNew =
  nw_net :: awsNet
  nw_region :: string

text \<open>An instance that is nil is dereferenced by \<open>newAWSInstance\<close>.\<close>

definition buildSelfAWSInstance :: "'c ec2API \<Rightarrow> metadata \<Rightarrow> 'c \<Rightarrow> (awsErr, awsInstance) outcome" where
  "buildSelfAWSInstance api md c =
     (case md ''instance-id'' of
        Inl err \<Rightarrow> Failed (AwsWrapf ''error fetching instance-id from ec2 metadata service: %v'' [] err)
      | Inr instanceID \<Rightarrow>
          (case getInstanceByID api instanceID c of
             Inl err \<Rightarrow> Failed (AwsWrapf ''error finding instance %s: %v'' [instanceID] err)
           | Inr None \<Rightarrow> Panicked
           | Inr (Some inst) \<Rightarrow> Returned (newAWSInstance inst)))"

definition ownInstance :: "'c ec2API \<Rightarrow> metadata \<Rightarrow> CloudConfig \<Rightarrow> 'c \<Rightarrow> (awsErr, awsInstance \<times> string) outcome" where
  "ownInstance api md cfg c =
     (if cc_VPC cfg \<noteq> '''' \<and> cc_SubnetID cfg \<noteq> '''' \<and>
         (cc_KubernetesClusterTag cfg \<noteq> '''' \<or> cc_KubernetesClusterID cfg \<noteq> '''') then
        Returned (\<lparr>ai_awsID = '''', ai_nodeName = ''master-dummy'', ai_availabilityZone = '''', ai_vpcID = cc_VPC cfg,
                   ai_subnetID = cc_SubnetID cfg, ai_instanceType = ''''\<rparr>, cc_VPC cfg)
      else
        (case buildSelfAWSInstance api md c of
           Panicked \<Rightarrow> Panicked
         | Failed err \<Rightarrow> Failed err
         | Returned self \<Rightarrow> Returned (self, ai_vpcID self)))"

definition ownTagging :: "'c ec2API \<Rightarrow> CloudConfig \<Rightarrow> awsInstance \<Rightarrow> 'c \<Rightarrow> awsErr + awsTagging" where
  "ownTagging api cfg self c =
     (let fresh = \<lparr>at_ClusterID = '''', at_usesLegacyTags = False\<rparr> in
      if cc_KubernetesClusterTag cfg \<noteq> '''' \<or> cc_KubernetesClusterID cfg \<noteq> '''' then
        (case tagging_init (cc_KubernetesClusterTag cfg) (cc_KubernetesClusterID cfg) fresh of
           (Some err, _) \<Rightarrow> Inl err
         | (None, t) \<Rightarrow> Inr t)
      else
        (case describeInstance api self c of
           Inl err \<Rightarrow> Inl err
         | Inr info \<Rightarrow>
             (case initFromTags (ei_Tags info) fresh of
                (Some err, _) \<Rightarrow> Inl err
              | (None, t) \<Rightarrow> Inr t)))"

definition newAWSCloud ::
  "(awsErr + CloudConfig) option \<Rightarrow> 'c awsServices \<Rightarrow> 'c \<Rightarrow> awsGlobals \<Rightarrow> (awsErr, awsNew) outcome \<times> awsGlobals" where
  "newAWSCloud config services c g =
     (case as_Metadata services of
        Inl err \<Rightarrow> (Failed (AwsWrapf ''error creating AWS metadata client: %v'' [] err), g)
      | Inr md \<Rightarrow>
     (case readAWSCloudConfig config (Some md) of
        Inl err \<Rightarrow> (Failed (AwsWrapf ''unable to read AWS cloud provider config file: %v'' [] err), g)
      | Inr cfg \<Rightarrow>
          if length (cc_Zone cfg) \<le> 1 then
            (Failed (AwsErrorf ''invalid AWS zone in config file: %s'' [cc_Zone cfg]), g)
          else
     (case azToRegion (cc_Zone cfg) of
        Inl err \<Rightarrow> (Failed err, g)
      | Inr regionName \<Rightarrow>
          let g = RecognizeRegion regionName g in
          if \<not> cc_DisableStrictZoneCheck cfg \<and> \<not> isRegionValid regionName g then
            (Failed (AwsErrorf ''not a valid AWS zone (unknown region): %s'' [cc_Zone cfg]), g)
          else
     (case as_Compute services regionName of
        Inl err \<Rightarrow> (Failed (AwsWrapf ''error creating AWS EC2 client: %v'' [] err), g)
      | Inr api \<Rightarrow>
     (case as_LoadBalancing services regionName of
        Some err \<Rightarrow> (Failed (AwsWrapf ''error creating AWS ELB client: %v'' [] err), g)
      | None \<Rightarrow>
     (case as_Autoscaling services regionName of
        Some err \<Rightarrow> (Failed (AwsWrapf ''error creating AWS autoscaling client: %v'' [] err), g)
      | None \<Rightarrow>
     (case ownInstance api md cfg c of
        Panicked \<Rightarrow> (Panicked, g)
      | Failed err \<Rightarrow> (Failed err, g)
      | Returned (self, vpcID) \<Rightarrow>
     (case ownTagging api cfg self c of
        Inl err \<Rightarrow> (Failed err, g)
      | Inr t \<Rightarrow>
          let g = (if gl_wellKnownDone g then g else (RecognizeWellKnownRegions g)\<lparr>gl_wellKnownDone := True\<rparr>)
          in (Returned \<lparr>nw_net = \<lparr>an_cloud = \<lparr>ac_tagging = t, ac_selfAWSInstance = self\<rparr>, an_vpcID = vpcID,
                                  an_RouteTableID = cc_RouteTableID cfg,
                                  an_DisableSecurityGroupIngress = cc_DisableSecurityGroupIngress cfg\<rparr>,
                        nw_region = regionName\<rparr>, g)))))))))"

section \<open>What the provider tells of the instances\<close>

definition getAwsInstance :: "'c ec2API \<Rightarrow> awsCloud \<Rightarrow> string \<Rightarrow> 'c \<Rightarrow> awsErr + awsInstance" where
  "getAwsInstance api cloud nodeName c =
     (if nodeName = '''' then Inr (ac_selfAWSInstance cloud)
      else
        (case getInstanceByNodeName api cloud nodeName c of
           Inl err \<Rightarrow> Inl err
         | Inr inst \<Rightarrow> Inr (newAWSInstance inst)))"

definition ownAddresses :: "metadata \<Rightarrow> awsErr + NodeAddress list" where
  "ownAddresses md =
     (case md ''local-ipv4'' of
        Inl err \<Rightarrow> Inl err
      | Inr internalIP \<Rightarrow>
          Inr ([(''InternalIP'', internalIP)] @
               (case md ''public-ipv4'' of Inl _ \<Rightarrow> [] | Inr a \<Rightarrow> [(''ExternalIP'', a)]) @
               (case md ''local-hostname'' of Inl _ \<Rightarrow> [] | Inr a \<Rightarrow> if length a = 0 then [] else [(''InternalDNS'', a)]) @
               (case md ''public-hostname'' of Inl _ \<Rightarrow> [] | Inr a \<Rightarrow> if length a = 0 then [] else [(''ExternalDNS'', a)])))"

definition parsedAddress ::
  "(string \<Rightarrow> string option) \<Rightarrow> string \<Rightarrow> string \<Rightarrow> string \<Rightarrow> string \<Rightarrow> awsErr + NodeAddress list" where
  "parsedAddress parseIP kind what instanceID address =
     (if address = '''' then Inr []
      else
        (case parseIP address of
           None \<Rightarrow> Inl (AwsErrorf (''EC2 instance had invalid '' @ what @ '' address: %s (%s)'') [instanceID, address])
         | Some ip \<Rightarrow> Inr [(kind, ip)]))"

definition aws_NodeAddresses ::
  "'c ec2API \<Rightarrow> awsCloud \<Rightarrow> metadata \<Rightarrow> (string \<Rightarrow> string option) \<Rightarrow> string \<Rightarrow> 'c \<Rightarrow> awsErr + NodeAddress list" where
  "aws_NodeAddresses api cloud md parseIP nname c =
     (if ai_nodeName (ac_selfAWSInstance cloud) = nname \<or> length nname = 0 then ownAddresses md
      else
        (case getInstanceByNodeName api cloud nname c of
           Inl err \<Rightarrow> Inl (AwsWrapf ''getInstanceByNodeName failed for %q with %v'' [nname] err)
         | Inr inst \<Rightarrow>
             and_then (parsedAddress parseIP ''InternalIP'' ''private'' (ei_InstanceId inst) (ei_PrivateIpAddress inst)) (\<lambda>a1.
             and_then (parsedAddress parseIP ''ExternalIP'' ''public'' (ei_InstanceId inst) (ei_PublicIpAddress inst)) (\<lambda>a2.
             Inr (a1 @ a2 @
                  (if ei_PrivateDnsName inst = '''' then [] else [(''InternalDNS'', ei_PrivateDnsName inst)]) @
                  (if ei_PublicDnsName inst = '''' then [] else [(''ExternalDNS'', ei_PublicDnsName inst)]))))))"

definition aws_ExternalID :: "'c ec2API \<Rightarrow> awsCloud \<Rightarrow> string \<Rightarrow> 'c \<Rightarrow> awsErr + string" where
  "aws_ExternalID api cloud nodeName c =
     (if ai_nodeName (ac_selfAWSInstance cloud) = nodeName then Inr (ai_awsID (ac_selfAWSInstance cloud))
      else
        (case findInstanceByNodeName api cloud nodeName c of
           Inl err \<Rightarrow> Inl err
         | Inr None \<Rightarrow> Inl AwsInstanceNotFound
         | Inr (Some inst) \<Rightarrow> Inr (ei_InstanceId inst)))"

text \<open>An instance without a placement is dereferenced: \<open>None\<close>.\<close>

definition aws_InstanceID :: "'c ec2API \<Rightarrow> awsCloud \<Rightarrow> string \<Rightarrow> 'c \<Rightarrow> (awsErr + string) option" where
  "aws_InstanceID api cloud nodeName c =
     (let self = ac_selfAWSInstance cloud in
      if ai_nodeName self = nodeName then Some (Inr (''/'' @ ai_availabilityZone self @ ''/'' @ ai_awsID self))
      else
        (case getInstanceByNodeName api cloud nodeName c of
           Inl err \<Rightarrow> Some (Inl (AwsWrapf ''getInstanceByNodeName failed for %q with %v'' [nodeName] err))
         | Inr inst \<Rightarrow>
             (case ei_AvailabilityZone inst of
                None \<Rightarrow> None
              | Some az \<Rightarrow> Some (Inr (''/'' @ az @ ''/'' @ ei_InstanceId inst)))))"

definition aws_InstanceType :: "'c ec2API \<Rightarrow> awsCloud \<Rightarrow> string \<Rightarrow> 'c \<Rightarrow> awsErr + string" where
  "aws_InstanceType api cloud nodeName c =
     (if ai_nodeName (ac_selfAWSInstance cloud) = nodeName then Inr (ai_instanceType (ac_selfAWSInstance cloud))
      else
        (case getInstanceByNodeName api cloud nodeName c of
           Inl err \<Rightarrow> Inl (AwsWrapf ''getInstanceByNodeName failed for %q with %v'' [nodeName] err)
         | Inr inst \<Rightarrow> Inr (ei_InstanceType inst)))"

text \<open>The slice \<open>regex[1 : len(regex)-1]\<close> of a regex that is one quote is out of range: \<open>None\<close>.\<close>

definition stripQuotes :: "string \<Rightarrow> string option" where
  "stripQuotes regex =
     (if HasPrefix regex [CHR 0x27] \<and> regex \<noteq> [] \<and> last regex = CHR 0x27 then
        if length regex < 2 then None else Some (take (length regex - 2) (drop 1 regex))
      else Some regex)"

definition matchingNames :: "(string \<Rightarrow> bool) \<Rightarrow> ec2Instance list \<Rightarrow> string list" where
  "matchingNames matches instances =
     map mapInstanceToNodeName
       (filter (\<lambda>i. ei_State i \<noteq> ''pending'' \<and> mapInstanceToNodeName i \<noteq> '''' \<and>
                    list_ex (\<lambda>(k, v). k = ''Name'' \<and> matches v) (ei_Tags i)) instances)"

definition getInstancesByRegex ::
  "'c ec2API \<Rightarrow> awsCloud \<Rightarrow> (string \<Rightarrow> awsErr + (string \<Rightarrow> bool)) \<Rightarrow> string \<Rightarrow> 'c \<Rightarrow> (awsErr + string list) option" where
  "getInstancesByRegex api cloud compile regex c =
     (case describeInstances api cloud [newEc2Filter ''instance-state-name'' [''running'']] c of
        Inl err \<Rightarrow> Some (Inl err)
      | Inr instances \<Rightarrow>
          if length instances = 0 then Some (Inl (AwsErrorf ''no instances returned'' []))
          else
            (case stripQuotes regex of
               None \<Rightarrow> None
             | Some regex \<Rightarrow>
                 (case compile regex of
                    Inl err \<Rightarrow> Some (Inl err)
                  | Inr matches \<Rightarrow> Some (Inr (matchingNames matches instances)))))"

fun firstVPC :: "metadata \<Rightarrow> string list \<Rightarrow> awsErr + string" where
  "firstVPC md [] = Inl (AwsErrorf ''Could not find VPC ID in instance metadata'' [])"
| "firstVPC md (macPath # macs) =
     (if length macPath = 0 then firstVPC md macs
      else
        (case md (''network/interfaces/macs/'' @ macPath @ ''vpc-id'') of
           Inl _ \<Rightarrow> firstVPC md macs
         | Inr vpcID \<Rightarrow> Inr vpcID))"

definition findVPCID :: "metadata \<Rightarrow> awsErr + string" where
  "findVPCID md =
     (case md ''network/interfaces/macs/'' of
        Inl err \<Rightarrow> Inl (AwsWrapf ''Could not list interfaces of the instance: %v'' [] err)
      | Inr macs \<Rightarrow> firstVPC md (split_on (CHR 0x0A) macs))"

section \<open>Instance groups\<close>

record 'c asgAPI =
  ag_Update :: "string \<Rightarrow> int \<Rightarrow> int \<Rightarrow> 'c \<Rightarrow> awsErr option \<times> 'c"
  ag_Describe :: "string \<Rightarrow> 'c \<Rightarrow> awsErr + (string list) list"

definition ResizeInstanceGroup :: "'c asgAPI \<Rightarrow> string \<Rightarrow> int \<Rightarrow> 'c \<Rightarrow> awsErr option \<times> 'c" where
  "ResizeInstanceGroup asg instanceGroupName n c =
     (case ag_Update asg instanceGroupName n n c of
        (Some err, c) \<Rightarrow> (Some (AwsWrapf ''error resizing AWS autoscaling group: %v'' [] err), c)
      | (None, c) \<Rightarrow> (None, c))"

definition DescribeInstanceGroup :: "'c asgAPI \<Rightarrow> string \<Rightarrow> 'c \<Rightarrow> awsErr + string list option" where
  "DescribeInstanceGroup asg instanceGroupName c =
     (case ag_Describe asg instanceGroupName c of
        Inl err \<Rightarrow> Inl (AwsWrapf ''error listing AWS autoscaling group (%s): %v'' [instanceGroupName] err)
      | Inr [] \<Rightarrow> Inr None
      | Inr (g # _) \<Rightarrow> Inr (Some g))"

definition CurrentSize :: "string list \<Rightarrow> nat" where
  "CurrentSize instances = length instances"

section \<open>Pages\<close>

text \<open>
  The loop over the pages of an answer, with the request's token: \<open>fetch\<close> gives the items of a page
  and the token of the next one, which is empty on the last page.
\<close>

partial_function (option) paged ::
  "(string \<Rightarrow> awsErr + 'a list \<times> string) \<Rightarrow> string \<Rightarrow> 'a list \<Rightarrow> string \<Rightarrow> (awsErr + 'a list) option" where
  "paged fetch message results nextToken =
     (case fetch nextToken of
        Inl err \<Rightarrow> Some (Inl (AwsWrapf message [] err))
      | Inr (items, token) \<Rightarrow>
          let results = results @ items in
          if token = '''' then Some (Inr results) else paged fetch message results token)"

definition sdk_DescribeInstances ::
  "(string \<Rightarrow> awsErr + ec2Instance list list \<times> string) \<Rightarrow> (awsErr + ec2Instance list) option" where
  "sdk_DescribeInstances fetch =
     paged (\<lambda>t. map_sum id (\<lambda>(reservations, token). (concat reservations, token)) (fetch t))
       ''error listing AWS instances: %v'' [] ''''"

definition sdk_DescribeVolumes ::
  "(string \<Rightarrow> awsErr + ec2Volume list \<times> string) \<Rightarrow> (awsErr + ec2Volume list) option" where
  "sdk_DescribeVolumes fetch = paged fetch ''error listing AWS volumes: %v'' [] ''''"

definition sdk_DescribeSnapshots ::
  "(string \<Rightarrow> awsErr + ec2Snapshot list \<times> string) \<Rightarrow> (awsErr + ec2Snapshot list) option" where
  "sdk_DescribeSnapshots fetch = paged fetch ''failed to describe ec2 snapshots: %v'' [] ''''"

text \<open>The pages that follow a token, down to the last one.\<close>

fun page_chain :: "(string \<Rightarrow> awsErr + 'a list \<times> string) \<Rightarrow> string \<Rightarrow> ('a list \<times> string) list \<Rightarrow> bool" where
  "page_chain fetch token [] = False"
| "page_chain fetch token [(items, next)] = (fetch token = Inr (items, next) \<and> next = '''')"
| "page_chain fetch token ((items, next) # p # ps) =
     (fetch token = Inr (items, next) \<and> next \<noteq> '''' \<and> page_chain fetch next (p # ps))"

lemma paged_chain:
  "page_chain fetch token pages \<Longrightarrow> paged fetch message results token = Some (Inr (results @ concat (map fst pages)))"
proof (induction fetch token pages arbitrary: results rule: page_chain.induct)
  case (2 fetch token items "next")
  then show ?case by (subst paged.simps) simp
next
  case (3 fetch token items "next" p ps)
  then show ?case by (subst paged.simps) simp
qed simp

text \<open>When the pages of an answer come to an end, all of them are returned, in order.\<close>

theorem all_pages_are_listed:
  assumes "page_chain fetch '''' pages"
  shows "sdk_DescribeVolumes fetch = Some (Inr (concat (map fst pages)))"
  using paged_chain [OF assms] by (simp add: sdk_DescribeVolumes_def)

section \<open>retry_handler.go\<close>

record Backoff =
  bo_decayIntervalSeconds :: int
  bo_decayFraction :: real
  bo_maxDelay :: int
  bo_countErrors :: real
  bo_countRequests :: real
  bo_lastDecay :: int

definition Backoff_init :: "int \<Rightarrow> int \<Rightarrow> real \<Rightarrow> int \<Rightarrow> Backoff" where
  "Backoff_init now decayIntervalSeconds decayFraction maxDelay =
     \<lparr>bo_decayIntervalSeconds = decayIntervalSeconds, bo_decayFraction = decayFraction, bo_maxDelay = maxDelay,
      bo_countErrors = 0, bo_countRequests = 4, bo_lastDecay = now\<rparr>"

abbreviation nanoseconds :: int where
  "nanoseconds \<equiv> 1000000000"

definition NewCrossRequestRetryDelay :: "int \<Rightarrow> Backoff" where
  "NewCrossRequestRetryDelay now = Backoff_init now 20 (4 / 5) (60 * nanoseconds)"

text \<open>\<open>pow\<close> is \<open>math.Pow\<close>; the times are in seconds, the delay in nanoseconds.\<close>

definition ComputeDelayForRequest :: "(real \<Rightarrow> real \<Rightarrow> real) \<Rightarrow> int \<Rightarrow> Backoff \<Rightarrow> int \<times> Backoff" where
  "ComputeDelayForRequest pow now b =
     (let timeDeltaSeconds = now - bo_lastDecay b;
          b = (if timeDeltaSeconds > bo_decayIntervalSeconds b then
                 let intervals = real_of_int timeDeltaSeconds / real_of_int (bo_decayIntervalSeconds b);
                     decay = pow (bo_decayFraction b) intervals
                 in b\<lparr>bo_countErrors := bo_countErrors b * decay, bo_countRequests := bo_countRequests b * decay,
                      bo_lastDecay := now\<rparr>
               else b);
          b = b\<lparr>bo_countRequests := bo_countRequests b + 1\<rparr>;
          errorFraction = (if bo_countRequests b > 1 / 2 then bo_countErrors b / bo_countRequests b else 0)
      in if errorFraction < 1 / 10 then (0, b)
         else
           let delay = \<lfloor>real_of_int (bo_maxDelay b) * errorFraction\<rfloor>
           in (nanoseconds * (delay div nanoseconds), b))"

definition ReportError :: "Backoff \<Rightarrow> Backoff" where
  "ReportError b = b\<lparr>bo_countErrors := bo_countErrors b + 1\<rparr>"

text \<open>The delay that \<open>BeforeSign\<close> inserts, and what \<open>AfterRetry\<close> makes of the error of a request.\<close>

definition BeforeSign :: "(real \<Rightarrow> real \<Rightarrow> real) \<Rightarrow> int \<Rightarrow> Backoff \<Rightarrow> int option \<times> Backoff" where
  "BeforeSign pow now b =
     (case ComputeDelayForRequest pow now b of (delay, b) \<Rightarrow> (if delay > 0 then Some delay else None, b))"

definition AfterRetry :: "awsErr option \<Rightarrow> Backoff \<Rightarrow> Backoff" where
  "AfterRetry err b =
     (case err of
        None \<Rightarrow> b
      | Some (AwsAPIErr code _) \<Rightarrow> if code = ''RequestLimitExceeded'' then ReportError b else b
      | Some _ \<Rightarrow> b)"

definition getCrossRequestRetryDelay :: "int \<Rightarrow> string \<Rightarrow> Backoff gomap \<Rightarrow> Backoff \<times> Backoff gomap" where
  "getCrossRequestRetryDelay now regionName regionDelayers =
     (case fmlookup regionDelayers regionName of
        Some delayer \<Rightarrow> (delayer, regionDelayers)
      | None \<Rightarrow>
          let delayer = NewCrossRequestRetryDelay now
          in (delayer, fmupd regionName delayer regionDelayers))"

text \<open>Requests one after the other: each one is signed, then its answer is handled.\<close>

inductive request_run :: "(real \<Rightarrow> real \<Rightarrow> real) \<Rightarrow> Backoff \<Rightarrow> bool" for pow where
  start: "request_run pow (NewCrossRequestRetryDelay now)"
| one: "request_run pow b \<Longrightarrow> BeforeSign pow now b = (delay, b') \<Longrightarrow> request_run pow (AfterRetry err b')"

definition decaying :: "(real \<Rightarrow> real \<Rightarrow> real) \<Rightarrow> bool" where
  "decaying pow \<longleftrightarrow> (\<forall>x y. 0 \<le> x \<longrightarrow> x \<le> 1 \<longrightarrow> 0 \<le> y \<longrightarrow> 0 \<le> pow x y \<and> pow x y \<le> 1)"

definition backoff_ok :: "Backoff \<Rightarrow> bool" where
  "backoff_ok b \<longleftrightarrow> 0 \<le> bo_countErrors b \<and> bo_countErrors b \<le> bo_countRequests b \<and>
     bo_decayIntervalSeconds b = 20 \<and> bo_decayFraction b = 4 / 5 \<and> bo_maxDelay b = 60 * nanoseconds"

lemma ComputeDelay_ok:
  assumes "decaying pow" and "backoff_ok b" and "ComputeDelayForRequest pow now b = (delay, b')"
  shows "0 \<le> delay \<and> delay \<le> bo_maxDelay b \<and> nanoseconds dvd delay \<and> 0 \<le> bo_countErrors b' \<and>
    bo_countErrors b' + 1 \<le> bo_countRequests b' \<and> bo_decayIntervalSeconds b' = 20 \<and> bo_decayFraction b' = 4 / 5 \<and>
    bo_maxDelay b' = 60 * nanoseconds"
proof -
  define d where "d = (if now - bo_lastDecay b > bo_decayIntervalSeconds b
    then pow (bo_decayFraction b) (real_of_int (now - bo_lastDecay b) / real_of_int (bo_decayIntervalSeconds b)) else 1)"
  define e where "e = bo_countErrors b * d"
  define r where "r = bo_countRequests b * d + 1"
  have b': "bo_countErrors b' = e" "bo_countRequests b' = r" "bo_decayIntervalSeconds b' = bo_decayIntervalSeconds b"
    "bo_decayFraction b' = bo_decayFraction b" "bo_maxDelay b' = bo_maxDelay b"
    using assms(3) by (auto simp: ComputeDelayForRequest_def Let_def e_def r_def d_def split: if_splits)
  have delay: "delay = (if (if r > 1 / 2 then e / r else 0) < 1 / 10 then 0
      else nanoseconds * (\<lfloor>real_of_int (bo_maxDelay b') * (if r > 1 / 2 then e / r else 0)\<rfloor> div nanoseconds))"
    using assms(3) unfolding b'(1,2) [symmetric] ComputeDelayForRequest_def Let_def
    by (auto simp only: prod.inject split: if_splits)
  note ok = assms(2) [unfolded backoff_ok_def]
  have d: "0 \<le> d" "d \<le> 1" using assms(1) ok by (auto simp: d_def decaying_def)
  have e: "0 \<le> e" "e + 1 \<le> r"
    using ok d by (auto simp: e_def r_def intro: mult_right_mono)
  then have f: "0 \<le> e / r" "e / r \<le> 1" and half: "r > 1 / 2" by auto
  let ?n = "\<lfloor>real_of_int (60 * nanoseconds) * (e / r)\<rfloor>"
  have "0 \<le> ?n" using f by simp
  moreover have "?n \<le> 60 * nanoseconds"
  proof -
    have "real_of_int (60 * nanoseconds) * (e / r) \<le> real_of_int (60 * nanoseconds) * 1"
      using f by (intro mult_left_mono) auto
    then show ?thesis by linarith
  qed
  moreover have "delay = 0 \<or> delay = nanoseconds * (?n div nanoseconds)"
    unfolding delay using half b'(5) ok by (simp only: if_True split: if_splits) blast
  moreover have whole: "0 \<le> n \<Longrightarrow> n \<le> 60 * nanoseconds \<Longrightarrow> m = 0 \<or> m = nanoseconds * (n div nanoseconds) \<Longrightarrow>
      0 \<le> m \<and> m \<le> 60 * nanoseconds \<and> nanoseconds dvd m" for n m :: int
    by (elim disjE; simp; presburger)
  ultimately have "0 \<le> delay" "delay \<le> 60 * nanoseconds" "nanoseconds dvd delay" using whole by blast+
  then show ?thesis using b' e ok by auto
qed

lemma request_run_ok: "request_run pow b \<Longrightarrow> decaying pow \<Longrightarrow> backoff_ok b"
proof (induction rule: request_run.induct)
  case (start now)
  then show ?case by (simp add: backoff_ok_def NewCrossRequestRetryDelay_def Backoff_init_def)
next
  case (one b now delay b' err)
  then obtain n where "ComputeDelayForRequest pow now b = (n, b')" by (auto simp: BeforeSign_def split: prod.splits)
  from ComputeDelay_ok [OF one.prems _ this] one show ?case
    by (auto simp: backoff_ok_def AfterRetry_def ReportError_def split: option.split awsErr.split)
qed

text \<open>
  When the requests come one after the other, no more errors are counted than requests, and the
  delay before a request is a number of whole seconds up to the maximum.
\<close>

theorem delay_is_bounded:
  assumes "request_run pow b" and "decaying pow" and "BeforeSign pow now b = (Some delay, b')"
  shows "0 < delay \<and> delay \<le> 60 * nanoseconds \<and> nanoseconds dvd delay \<and> bo_countErrors b' < bo_countRequests b'"
proof -
  note ok = request_run_ok [OF assms(1,2)]
  from assms(3) have "ComputeDelayForRequest pow now b = (delay, b')" and "0 < delay"
    by (auto simp: BeforeSign_def split: prod.splits if_splits)
  then show ?thesis using ComputeDelay_ok [OF assms(2) ok, of now delay b'] ok by (simp add: backoff_ok_def)
qed

section \<open>The zone and the regular expression\<close>

text \<open>
  The region of the zone is registered before it is looked up, so the strict check of the zone
  accepts every zone: the switch that disables it changes nothing.
\<close>

theorem strict_zone_check_is_dead:
  "newAWSCloud (Some (Inr (cfg\<lparr>cc_DisableStrictZoneCheck := b\<rparr>))) services c g =
   newAWSCloud (Some (Inr cfg)) services c g"
proof -
  have valid: "isRegionValid r (RecognizeRegion r g)" for r by (simp add: isRegionValid_def RecognizeRegion_def)
  have own: "ownInstance api md (cfg\<lparr>cc_DisableStrictZoneCheck := b\<rparr>) c = ownInstance api md cfg c"
    and tag: "ownTagging api (cfg\<lparr>cc_DisableStrictZoneCheck := b\<rparr>) self c = ownTagging api cfg self c"
    for api md cfg self by (simp_all add: ownInstance_def ownTagging_def cong: if_cong)
  have read: "readAWSCloudConfig (Some (Inr (cfg\<lparr>cc_DisableStrictZoneCheck := b\<rparr>))) md =
      map_sum id (\<lambda>cfg. cfg\<lparr>cc_DisableStrictZoneCheck := b\<rparr>) (readAWSCloudConfig (Some (Inr cfg)) md)" for md
    by (auto simp: readAWSCloudConfig_def and_then_def split: option.split sum.split)
  show ?thesis
    unfolding newAWSCloud_def read
    by (auto simp: valid own tag Let_def split: sum.split option.split outcome.split prod.split)
qed

text \<open>A regular expression that is a single quote is the one that panics.\<close>

theorem lone_quote_panics:
  "getInstancesByRegex api cloud compile regex c = None \<longleftrightarrow>
   regex = [CHR 0x27] \<and>
   (\<exists>i is. describeInstances api cloud [newEc2Filter ''instance-state-name'' [''running'']] c = Inr (i # is))"
proof -
  have "stripQuotes regex = None \<longleftrightarrow> regex = [CHR 0x27]"
    by (cases regex; cases "tl regex") (auto simp: stripQuotes_def HasPrefix_def)
  then show ?thesis
    by (auto simp: getInstancesByRegex_def neq_Nil_conv split: sum.split option.split)
qed

section \<open>Witnesses\<close>

definition demo_volume :: "string \<Rightarrow> ec2Volume" where
  "demo_volume v = \<lparr>ev_VolumeId = v, ev_AvailabilityZone = ''us-a'', ev_Attachments = []\<rparr>"

theorem all_pages_are_listed_witness:
  "sdk_DescribeVolumes (\<lambda>t. if t = '''' then Inr ([demo_volume ''vol-1''], ''n'')
                             else Inr ([demo_volume ''vol-2'', demo_volume ''vol-3''], '''')) =
   Some (Inr [demo_volume ''vol-1'', demo_volume ''vol-2'', demo_volume ''vol-3''])"
  using all_pages_are_listed [of _ "[([demo_volume ''vol-1''], ''n''), ([demo_volume ''vol-2'', demo_volume ''vol-3''], '''')]"]
  by simp

theorem delay_is_bounded_witness:
  "\<exists>b b'. request_run (\<lambda>x y. 1) b \<and> BeforeSign (\<lambda>x y. 1) 0 b = (Some (10 * nanoseconds), b') \<and>
     bo_countErrors b' < bo_countRequests b'"
proof -
  let ?b = "NewCrossRequestRetryDelay 0"
  let ?b1 = "AfterRetry (Some (AwsAPIErr ''RequestLimitExceeded'' '''')) (snd (BeforeSign (\<lambda>x y. 1) 0 ?b))"
  have run: "request_run (\<lambda>x y. 1) ?b1"
    by (rule request_run.one [OF request_run.start [of _ 0], where delay = "fst (BeforeSign (\<lambda>x y. 1) 0 ?b)"]) simp
  have b1: "?b1 = \<lparr>bo_decayIntervalSeconds = 20, bo_decayFraction = 4 / 5, bo_maxDelay = 60 * nanoseconds,
      bo_countErrors = 1, bo_countRequests = 5, bo_lastDecay = 0\<rparr>"
    by (simp add: NewCrossRequestRetryDelay_def Backoff_init_def BeforeSign_def ComputeDelayForRequest_def AfterRetry_def
          ReportError_def Let_def)
  obtain b' where sign: "BeforeSign (\<lambda>x y. 1) 0 ?b1 = (Some (10 * nanoseconds), b')"
    unfolding b1 by (simp add: BeforeSign_def ComputeDelayForRequest_def Let_def)
  have "decaying (\<lambda>x y. 1)" by (simp add: decaying_def)
  from delay_is_bounded [OF run this sign] run sign show ?thesis by blast
qed

end
