(* ===== verification/OpenStackNet.thy ===== *)
theory OpenStackNet
  imports CloudServices ProvisionerLib GoPath
begin

text \<open>
  The network and the instances of the OpenStack provider
  (\<open>snapshot/pkg/cloudprovider/providers/openstack\<close>): the lookups of \<open>openstack.go\<close> and of the head of
  \<open>openstack_loadbalancer.go\<close>, \<open>openstack_routes.go\<close>, \<open>openstack_instances.go\<close> and \<open>metadata.go\<close>. The
  client library is a parameter (\<open>novaAPI\<close> for the servers, \<open>neutronAPI\<close> for the network); a listing
  answers with its pages.
\<close>

text \<open>
  The errors of the package, the library's pointer to an unexpected response with its status code,
  and any other error of the library.
\<close>

datatype osErr =
    ErrNotFound
  | ErrMultipleResults
  | ErrNoAddressFound
  | ErrNoRouterID
  | ErrBadMetadata
  | ErrInstanceNotFound
  | ErrWaitTimeout
  | UnexpectedResponse int
  | OsErrorf string "string list"
  | OsWrapf string "string list" osErr
  | OsExtErr string

type_synonym ('c, 'a) osStep = "('c, osErr, 'a) step"

fun isNotFound :: "osErr \<Rightarrow> bool" where
  "isNotFound (UnexpectedResponse n) = (n = 404)"
| "isNotFound _ = False"

section \<open>Pages\<close>

text \<open>
  What the pages of a listing hold, or the error at which fetching or decoding a page ends. The
  library's \<open>EachPage\<close> gives the pages to a handler, which says whether to go on.
\<close>

type_synonym 'a pages = "(osErr + 'a list) list"

fun EachPage :: "('a list \<Rightarrow> 's \<Rightarrow> (osErr + bool) \<times> 's) \<Rightarrow> 'a pages \<Rightarrow> 's \<Rightarrow> osErr option \<times> 's" where
  "EachPage h [] s = (None, s)"
| "EachPage h (Inl err # pages) s = (Some err, s)"
| "EachPage h (Inr p # pages) s =
     (case h p s of
        (Inl err, s) \<Rightarrow> (Some err, s)
      | (Inr False, s) \<Rightarrow> (None, s)
      | (Inr True, s) \<Rightarrow> EachPage h pages s)"

text \<open>All elements, and the one element of a listing that must have exactly one.\<close>

definition allResults :: "'a pages \<Rightarrow> osErr + 'a list" where
  "allResults pages =
     (case EachPage (\<lambda>p xs. (Inr True, xs @ p)) pages [] of (Some err, _) \<Rightarrow> Inl err | (None, xs) \<Rightarrow> Inr xs)"

definition uniquePage :: "'a list \<Rightarrow> 'a list \<Rightarrow> (osErr + bool) \<times> 'a list" where
  "uniquePage p xs = (if length (xs @ p) > 1 then (Inl ErrMultipleResults, xs @ p) else (Inr True, xs @ p))"

definition onlyResult :: "'a pages \<Rightarrow> osErr + 'a" where
  "onlyResult pages =
     (case EachPage uniquePage pages [] of
        (Some err, _) \<Rightarrow> if isNotFound err then Inl ErrNotFound else Inl err
      | (None, xs) \<Rightarrow>
          if length xs = 0 then Inl ErrNotFound
          else if length xs > 1 then Inl ErrMultipleResults
          else Inr (hd xs))"

section \<open>The client library\<close>

text \<open>\<open>srv_Addresses\<close> is what \<open>mapstructure\<close> makes of the addresses: type and address, by network.\<close>

record osServer =
  srv_ID :: string
  srv_Name :: string
  srv_Addresses :: "osErr + (string \<times> string) list gomap"
  srv_AccessIPv4 :: string
  srv_AccessIPv6 :: string

record osPort =
  op_ID :: string
  op_FixedIPs :: "string list"
  op_AllowedAddressPairs :: "(string \<times> string) list"

record osRoute =
  or_DestinationCIDR :: string
  or_NextHop :: string

record osRouter =
  ro_ID :: string
  ro_Routes :: "osRoute list"

record 'c novaAPI =
  nv_ListServers :: "string \<Rightarrow> string \<Rightarrow> 'c \<Rightarrow> osServer pages"
  nv_range :: "string fset \<Rightarrow> 'c \<Rightarrow> string list"

record 'c neutronAPI =
  nt_ListExtensions :: "'c \<Rightarrow> string pages"
  nt_ListPorts :: "'c \<Rightarrow> osPort pages"
  nt_GetRouter :: "string \<Rightarrow> 'c \<Rightarrow> osErr + osRouter"
  nt_UpdateRoutes :: "string \<Rightarrow> osRoute list \<Rightarrow> 'c \<Rightarrow> osErr option \<times> 'c"
  nt_UpdatePairs :: "string \<Rightarrow> (string \<times> string) list \<Rightarrow> 'c \<Rightarrow> osErr option \<times> 'c"

definition networkExtensions :: "'c neutronAPI \<Rightarrow> 'c \<Rightarrow> osErr + string fset" where
  "networkExtensions net c =
     (case EachPage (\<lambda>exts seen. (Inr True, seen |\<union>| fset_of_list exts)) (nt_ListExtensions net c) {||} of
        (Some err, _) \<Rightarrow> Inl err
      | (None, seen) \<Rightarrow> Inr seen)"

text \<open>The first port with the address: the handler stops the listing at it.\<close>

definition portPage :: "string \<Rightarrow> osPort list \<Rightarrow> osPort option \<Rightarrow> (osErr + bool) \<times> osPort option" where
  "portPage ipAddress ports found =
     (case find (\<lambda>port. ipAddress \<in> set (op_FixedIPs port)) ports of
        Some port \<Rightarrow> (Inr False, Some port)
      | None \<Rightarrow> (Inr True, found))"

definition getPortByIP :: "'c neutronAPI \<Rightarrow> string \<Rightarrow> 'c \<Rightarrow> osErr + osPort" where
  "getPortByIP net ipAddress c =
     (case EachPage (portPage ipAddress) (nt_ListPorts net c) None of
        (Some err, _) \<Rightarrow> Inl err
      | (None, None) \<Rightarrow> Inl ErrNotFound
      | (None, Some port) \<Rightarrow> Inr port)"

section \<open>Servers and addresses\<close>

definition mapNodeNameToServerName :: "string \<Rightarrow> string" where
  "mapNodeNameToServerName nodeName = nodeName"

definition mapServerToNodeName :: "osServer \<Rightarrow> string" where
  "mapServerToNodeName server = ToLower (srv_Name server)"

text \<open>\<open>regexp.QuoteMeta\<close>.\<close>

definition QuoteMeta :: "string \<Rightarrow> string" where
  "QuoteMeta s = concat (map (\<lambda>ch. if ch \<in> set (CHR 0x5C # ''.+*?()|[]{}^$'') then [CHR 0x5C, ch] else [ch]) s)"

fun serverLoop :: "(osServer \<Rightarrow> 's \<Rightarrow> (osErr + bool) \<times> 's) \<Rightarrow> osServer list \<Rightarrow> 's \<Rightarrow> (osErr + bool) \<times> 's" where
  "serverLoop handler [] s = (Inr True, s)"
| "serverLoop handler (srv # srvs) s =
     (case handler srv s of
        (Inl err, s) \<Rightarrow> (Inl err, s)
      | (Inr False, s) \<Rightarrow> (Inr False, s)
      | (Inr True, s) \<Rightarrow> serverLoop handler srvs s)"

definition foreachServer ::
  "'c novaAPI \<Rightarrow> string \<Rightarrow> string \<Rightarrow> (osServer \<Rightarrow> 's \<Rightarrow> (osErr + bool) \<times> 's) \<Rightarrow> 'c \<Rightarrow> 's \<Rightarrow> osErr option \<times> 's" where
  "foreachServer nova nameFilter status handler c s =
     EachPage (serverLoop handler) (nv_ListServers nova nameFilter status c) s"

definition getServerByName :: "'c novaAPI \<Rightarrow> string \<Rightarrow> 'c \<Rightarrow> osErr + osServer" where
  "getServerByName nova nname c =
     (case EachPage uniquePage
             (nv_ListServers nova (''^'' @ QuoteMeta (mapNodeNameToServerName nname) @ ''$'') ''ACTIVE'' c) [] of
        (Some err, _) \<Rightarrow> Inl err
      | (None, []) \<Rightarrow> Inl ErrNotFound
      | (None, srv # _) \<Rightarrow> Inr srv)"

definition addToNodeAddresses :: "NodeAddress list \<Rightarrow> NodeAddress list \<Rightarrow> NodeAddress list" where
  "addToNodeAddresses addresses addAddresses =
     foldl (\<lambda>as a. if a \<in> set as then as else as @ [a]) addresses addAddresses"

definition networkAddress :: "string \<Rightarrow> string \<times> string \<Rightarrow> NodeAddress" where
  "networkAddress network props =
     (if fst props = ''floating'' \<or> network = ''public'' then ''ExternalIP'' else ''InternalIP'', snd props)"

definition nodeAddresses :: "'c novaAPI \<Rightarrow> osServer \<Rightarrow> 'c \<Rightarrow> osErr + NodeAddress list" where
  "nodeAddresses nova srv c =
     (case srv_Addresses srv of
        Inl err \<Rightarrow> Inl err
      | Inr addresses \<Rightarrow>
          let addrs = foldl (\<lambda>as network.
                        addToNodeAddresses as (map (networkAddress network) (case fmlookup addresses network of None \<Rightarrow> [] | Some l \<Rightarrow> l)))
                        [] (nv_range nova (fmdom addresses) c);
              addrs = (if srv_AccessIPv4 srv \<noteq> '''' then addToNodeAddresses addrs [(''ExternalIP'', srv_AccessIPv4 srv)] else addrs);
              addrs = (if srv_AccessIPv6 srv \<noteq> '''' then addToNodeAddresses addrs [(''ExternalIP'', srv_AccessIPv6 srv)] else addrs)
          in Inr addrs)"

definition getAddressesByName :: "'c novaAPI \<Rightarrow> string \<Rightarrow> 'c \<Rightarrow> osErr + NodeAddress list" where
  "getAddressesByName nova nname c = and_then (getServerByName nova nname c) (\<lambda>srv. nodeAddresses nova srv c)"

definition preferInternal :: "NodeAddress list \<Rightarrow> osErr + string" where
  "preferInternal addrs =
     (case addrs of
        [] \<Rightarrow> Inl ErrNoAddressFound
      | first # _ \<Rightarrow>
          (case find (\<lambda>a. fst a = ''InternalIP'') addrs of
             Some addr \<Rightarrow> Inr (snd addr)
           | None \<Rightarrow> Inr (snd first)))"

definition getAddressByName :: "'c novaAPI \<Rightarrow> string \<Rightarrow> 'c \<Rightarrow> osErr + string" where
  "getAddressByName nova nname c = and_then (getAddressesByName nova nname c) preferInternal"

section \<open>openstack\_routes.go\<close>

definition NewRoutes :: "string \<Rightarrow> osErr + string" where
  "NewRoutes routerID = (if routerID = '''' then Inl ErrNoRouterID else Inr routerID)"

definition recordNode :: "'c novaAPI \<Rightarrow> 'c \<Rightarrow> osServer \<Rightarrow> string gomap \<Rightarrow> (osErr + bool) \<times> string gomap" where
  "recordNode nova c srv m =
     (case nodeAddresses nova srv c of
        Inl err \<Rightarrow> (Inl err, m)
      | Inr addrs \<Rightarrow> (Inr True, foldl (\<lambda>m addr. fmupd (snd addr) (mapServerToNodeName srv) m) m addrs))"

definition os_ListRoutes :: "'c novaAPI \<Rightarrow> 'c neutronAPI \<Rightarrow> string \<Rightarrow> 'c \<Rightarrow> osErr + cloudRoute list" where
  "os_ListRoutes nova net routerID c =
     (case foreachServer nova '''' ''ACTIVE'' (recordNode nova c) c fmempty of
        (Some err, _) \<Rightarrow> Inl err
      | (None, nodeNamesByAddr) \<Rightarrow>
          and_then (nt_GetRouter net routerID c) (\<lambda>router.
            Inr (List.map_filter (\<lambda>item.
                   map_option (\<lambda>nodeName. \<lparr>cr_Name = or_DestinationCIDR item, cr_TargetNode = nodeName,
                                           cr_DestinationCIDR = or_DestinationCIDR item\<rparr>)
                     (fmlookup nodeNamesByAddr (or_NextHop item))) (ro_Routes router))))"

text \<open>What \<open>updateRoutes\<close> and \<open>updateAllowedAddressPairs\<close> return to undo the change.\<close>

definition revertRoutes :: "'c neutronAPI \<Rightarrow> string \<Rightarrow> osRoute list \<Rightarrow> 'c \<Rightarrow> 'c" where
  "revertRoutes net routerID origRoutes c = snd (nt_UpdateRoutes net routerID origRoutes c)"

definition revertPairs :: "'c neutronAPI \<Rightarrow> string \<Rightarrow> (string \<times> string) list \<Rightarrow> 'c \<Rightarrow> 'c" where
  "revertPairs net portID origPairs c = snd (nt_UpdatePairs net portID origPairs c)"

text \<open>
  \<open>updateRoutes\<close> followed by \<open>defer onFailure.Call(unwind)\<close> and the rest of the function, which disarms
  \<open>onFailure\<close> when it returns.
\<close>

definition updateRoutes :: "'c neutronAPI \<Rightarrow> string \<Rightarrow> osRoute list \<Rightarrow> osRoute list \<Rightarrow> ('c, unit) osStep \<Rightarrow> ('c, unit) osStep" where
  "updateRoutes net routerID origRoutes newRoutes rest =
     andThen (request_call (nt_UpdateRoutes net routerID newRoutes) id) (\<lambda>_. unwinding (revertRoutes net routerID origRoutes) rest)"

definition updateAllowedAddressPairs ::
  "'c neutronAPI \<Rightarrow> string \<Rightarrow> (string \<times> string) list \<Rightarrow> (string \<times> string) list \<Rightarrow> ('c, unit) osStep \<Rightarrow> ('c, unit) osStep" where
  "updateAllowedAddressPairs net portID origPairs newPairs rest =
     andThen (request_call (nt_UpdatePairs net portID newPairs) id) (\<lambda>_. unwinding (revertPairs net portID origPairs) rest)"

definition os_CreateRoute :: "'c novaAPI \<Rightarrow> 'c neutronAPI \<Rightarrow> string \<Rightarrow> cloudRoute \<Rightarrow> ('c, unit) osStep" where
  "os_CreateRoute nova net routerID route =
     andThen (reading (getAddressByName nova (cr_TargetNode route))) (\<lambda>addr.
     andThen (reading (nt_GetRouter net routerID)) (\<lambda>router.
     if list_ex (\<lambda>item. or_DestinationCIDR item = cr_DestinationCIDR route \<and> or_NextHop item = addr) (ro_Routes router)
     then give ()
     else
       updateRoutes net (ro_ID router) (ro_Routes router)
         (ro_Routes router @ [\<lparr>or_DestinationCIDR = cr_DestinationCIDR route, or_NextHop = addr\<rparr>])
         (andThen (reading (getPortByIP net addr)) (\<lambda>port.
          if list_ex (\<lambda>item. fst item = cr_DestinationCIDR route) (op_AllowedAddressPairs port) then give ()
          else
            updateAllowedAddressPairs net (op_ID port) (op_AllowedAddressPairs port)
              (op_AllowedAddressPairs port @ [(cr_DestinationCIDR route, '''')]) (give ())))))"

fun firstIndex :: "('a \<Rightarrow> bool) \<Rightarrow> 'a list \<Rightarrow> nat option" where
  "firstIndex P [] = None"
| "firstIndex P (x # xs) = (if P x then Some 0 else map_option Suc (firstIndex P xs))"

text \<open>
  The last element is moved to the index in place, in the array that the unwinder keeps too, and
  the slice is cut. For the address pairs the code takes the length of the routes, as they are
  after the removal, in place of the length of the pairs.
\<close>

definition moveLast :: "nat \<Rightarrow> 'a list \<Rightarrow> 'a list" where
  "moveLast index xs = xs[index := last xs]"

definition dropPair :: "nat \<Rightarrow> nat \<Rightarrow> 'a list \<Rightarrow> ('a list \<times> 'a list) option" where
  "dropPair lenRoutes index pairs =
     (if lenRoutes = 0 \<or> lenRoutes > length pairs then None
      else let moved = pairs[index := pairs ! (lenRoutes - 1)] in Some (moved, take (lenRoutes - 1) moved))"

definition os_DeleteRoute :: "'c novaAPI \<Rightarrow> 'c neutronAPI \<Rightarrow> string \<Rightarrow> cloudRoute \<Rightarrow> ('c, unit) osStep" where
  "os_DeleteRoute nova net routerID route =
     andThen (reading (getAddressByName nova (cr_TargetNode route))) (\<lambda>addr.
     andThen (reading (nt_GetRouter net routerID)) (\<lambda>router.
     case firstIndex (\<lambda>item. or_DestinationCIDR item = cr_DestinationCIDR route \<and> or_NextHop item = addr) (ro_Routes router) of
       None \<Rightarrow> give ()
     | Some index \<Rightarrow>
         let moved = moveLast index (ro_Routes router); routes = butlast moved
         in updateRoutes net (ro_ID router) moved routes
              (andThen (reading (getPortByIP net addr)) (\<lambda>port.
               case firstIndex (\<lambda>item. fst item = cr_DestinationCIDR route) (op_AllowedAddressPairs port) of
                 None \<Rightarrow> give ()
               | Some index \<Rightarrow>
                   (case dropPair (length routes) index (op_AllowedAddressPairs port) of
                      None \<Rightarrow> panic
                    | Some (movedPairs, addrPairs) \<Rightarrow>
                        updateAllowedAddressPairs net (op_ID port) movedPairs addrPairs (give ()))))))"

section \<open>openstack\_instances.go\<close>

definition os_Instances_List :: "'c novaAPI \<Rightarrow> string \<Rightarrow> 'c \<Rightarrow> osErr + string list" where
  "os_Instances_List nova nameFilter c =
     (case EachPage (\<lambda>sList ret. (Inr True, ret @ map mapServerToNodeName sList)) (nv_ListServers nova nameFilter ''ACTIVE'' c) [] of
        (Some err, _) \<Rightarrow> Inl err
      | (None, ret) \<Rightarrow> Inr ret)"

definition os_NodeAddresses :: "'c novaAPI \<Rightarrow> string \<Rightarrow> 'c \<Rightarrow> osErr + NodeAddress list" where
  "os_NodeAddresses nova nname c = getAddressesByName nova nname c"

definition os_ExternalID :: "'c novaAPI \<Rightarrow> string \<Rightarrow> 'c \<Rightarrow> osErr + string" where
  "os_ExternalID nova nname c =
     (case getServerByName nova nname c of
        Inl err \<Rightarrow> if err = ErrNotFound then Inl ErrInstanceNotFound else Inl err
      | Inr srv \<Rightarrow> Inr (srv_ID srv))"

definition os_InstanceID :: "'c novaAPI \<Rightarrow> string \<Rightarrow> 'c \<Rightarrow> osErr + string" where
  "os_InstanceID nova nname c = and_then (getServerByName nova nname c) (\<lambda>srv. Inr (''/'' @ srv_ID srv))"

section \<open>metadata.go\<close>

record Metadata =
  mt_UUID :: string
  mt_Name :: string
  mt_AvailabilityZone :: string

text \<open>The operating system, the web client and the decoder of JSON.\<close>

record 'c driveOS =
  dv_NotExist :: "string \<Rightarrow> 'c \<Rightarrow> bool"
  dv_blkid :: "string list \<Rightarrow> 'c \<Rightarrow> osErr + string"
  dv_TempDir :: "'c \<Rightarrow> (osErr + string) \<times> 'c"
  dv_Remove :: "string \<Rightarrow> 'c \<Rightarrow> 'c"
  dv_Mount :: "string \<Rightarrow> string \<Rightarrow> string \<Rightarrow> 'c \<Rightarrow> osErr option \<times> 'c"
  dv_Unmount :: "string \<Rightarrow> 'c \<Rightarrow> 'c"
  dv_Open :: "string \<Rightarrow> 'c \<Rightarrow> osErr + string"
  dv_HTTPGet :: "string \<Rightarrow> 'c \<Rightarrow> osErr + (int \<times> string \<times> string)"
  dv_Decode :: "string \<Rightarrow> osErr + Metadata"

abbreviation configDriveLabel :: string where
  "configDriveLabel \<equiv> ''config-2''"

abbreviation configDrivePath :: string where
  "configDrivePath \<equiv> ''openstack/2012-08-10/meta_data.json''"

abbreviation metadataURL :: string where
  "metadataURL \<equiv> ''http://169.254.169.254/openstack/2012-08-10/meta_data.json''"

definition parseMetadata :: "'c driveOS \<Rightarrow> string \<Rightarrow> osErr + Metadata" where
  "parseMetadata env text =
     and_then (dv_Decode env text) (\<lambda>md. if mt_UUID md = '''' then Inl ErrBadMetadata else Inr md)"

definition driveDevice :: "'c driveOS \<Rightarrow> 'c \<Rightarrow> osErr + string" where
  "driveDevice env c =
     (let dev = ''/dev/disk/by-label/'' @ configDriveLabel in
      if dv_NotExist env dev c then
        and_then (dv_blkid env [''-l'', ''-t'', ''LABEL='' @ configDriveLabel, ''-o'', ''device''] c) (\<lambda>out. Inr (TrimSpace out))
      else Inr dev)"

definition mountDrive :: "'c driveOS \<Rightarrow> string \<Rightarrow> string \<Rightarrow> ('c, unit) osStep" where
  "mountDrive env dev mntdir =
     recovering (request_call (dv_Mount env dev mntdir ''iso9660'') id) (\<lambda>_. request_call (dv_Mount env dev mntdir ''vfat'') id)"

definition getMetadataFromConfigDrive :: "'c driveOS \<Rightarrow> ('c, Metadata) osStep" where
  "getMetadataFromConfigDrive env =
     andThen (reading (driveDevice env)) (\<lambda>dev.
     andThen (changing (dv_TempDir env)) (\<lambda>mntdir.
     deferring (dv_Remove env mntdir)
       (andThen (mountDrive env dev mntdir) (\<lambda>_.
        deferring (dv_Unmount env mntdir)
          (andThen (reading (dv_Open env (Join [mntdir, configDrivePath]))) (\<lambda>text.
           reading (\<lambda>_. parseMetadata env text)))))))"

definition getMetadataFromMetadataService :: "'c driveOS \<Rightarrow> ('c, Metadata) osStep" where
  "getMetadataFromMetadataService env =
     andThen (reading (dv_HTTPGet env metadataURL)) (\<lambda>(statusCode, status, body).
     if statusCode \<noteq> 200 then
       failing (OsErrorf ''Unexpected status code when reading metadata from %s: %s'' [metadataURL, status])
     else reading (\<lambda>_. parseMetadata env body))"

text \<open>The cache of the process is beside the state.\<close>

definition getMetadata :: "'c driveOS \<Rightarrow> 'c \<times> Metadata option \<Rightarrow> (osErr, Metadata) outcome \<times> 'c \<times> Metadata option" where
  "getMetadata env s =
     (case snd s of
        Some md \<Rightarrow> (Returned md, s)
      | None \<Rightarrow>
          (case recovering (getMetadataFromConfigDrive env) (\<lambda>_. getMetadataFromMetadataService env) (fst s) of
             (Returned md, c) \<Rightarrow> (Returned md, (c, Some md))
           | (res, c) \<Rightarrow> (res, (c, None))))"

definition os_CurrentNodeName :: "'c driveOS \<Rightarrow> ('c \<times> Metadata option, string) osStep" where
  "os_CurrentNodeName env = andThen (getMetadata env) (\<lambda>md. give (mt_Name md))"

definition os_GetZone :: "'c driveOS \<Rightarrow> string \<Rightarrow> ('c \<times> Metadata option, string \<times> string) osStep" where
  "os_GetZone env region = andThen (getMetadata env) (\<lambda>md. give (mt_AvailabilityZone md, region))"

section \<open>openstack.go\<close>

record LoadBalancerOpts =
  lo_LBVersion :: string
  lo_SubnetID :: string
  lo_FloatingNetworkID :: string
  lo_LBMethod :: string
  lo_CreateMonitor :: bool
  lo_MonitorDelay :: int
  lo_MonitorTimeout :: int
  lo_MonitorMaxRetries :: int
  lo_ManageSecurityGroups :: bool
  lo_NodeSecurityGroupID :: string

record osConfig =
  cf_AuthURL :: string
  cf_Username :: string
  cf_UserID :: string
  cf_Password :: string
  cf_TenantID :: string
  cf_TenantName :: string
  cf_TrustID :: string
  cf_DomainID :: string
  cf_DomainName :: string
  cf_Region :: string
  cf_CAFile :: string
  cf_LoadBalancer :: LoadBalancerOpts
  cf_BSVersion :: string
  cf_TrustDevicePath :: bool
  cf_RouterID :: string

definition emptyOpts :: LoadBalancerOpts where
  "emptyOpts =
     \<lparr>lo_LBVersion = '''', lo_SubnetID = '''', lo_FloatingNetworkID = '''', lo_LBMethod = '''', lo_CreateMonitor = False,
      lo_MonitorDelay = 0, lo_MonitorTimeout = 0, lo_MonitorMaxRetries = 0, lo_ManageSecurityGroups = False,
      lo_NodeSecurityGroupID = ''''\<rparr>"

definition emptyOsConfig :: osConfig where
  "emptyOsConfig =
     \<lparr>cf_AuthURL = '''', cf_Username = '''', cf_UserID = '''', cf_Password = '''', cf_TenantID = '''', cf_TenantName = '''',
      cf_TrustID = '''', cf_DomainID = '''', cf_DomainName = '''', cf_Region = '''', cf_CAFile = '''',
      cf_LoadBalancer = emptyOpts, cf_BSVersion = '''', cf_TrustDevicePath = False, cf_RouterID = ''''\<rparr>"

text \<open>The reader of the configuration file fills in a given configuration; without a file it is an error.\<close>

definition readConfig :: "(osConfig \<Rightarrow> osErr + osConfig) option \<Rightarrow> osErr + osConfig" where
  "readConfig config =
     (case config of
        None \<Rightarrow> Inl (OsErrorf ''no OpenStack cloud provider config file given'' [])
      | Some readInto \<Rightarrow> readInto (emptyOsConfig\<lparr>cf_BSVersion := ''auto'', cf_TrustDevicePath := False\<rparr>))"

record authOptions =
  ao_IdentityEndpoint :: string
  ao_Username :: string
  ao_UserID :: string
  ao_Password :: string
  ao_TenantID :: string
  ao_TenantName :: string
  ao_DomainID :: string
  ao_DomainName :: string
  ao_AllowReauth :: bool

definition toAuthOptions :: "osConfig \<Rightarrow> authOptions" where
  "toAuthOptions cfg =
     \<lparr>ao_IdentityEndpoint = cf_AuthURL cfg, ao_Username = cf_Username cfg, ao_UserID = cf_UserID cfg,
      ao_Password = cf_Password cfg, ao_TenantID = cf_TenantID cfg, ao_TenantName = cf_TenantName cfg,
      ao_DomainID = cf_DomainID cfg, ao_DomainName = cf_DomainName cfg, ao_AllowReauth = True\<rparr>"

text \<open>The options of the third version have no tenant.\<close>

definition toAuth3Options :: "osConfig \<Rightarrow> authOptions" where
  "toAuth3Options cfg =
     \<lparr>ao_IdentityEndpoint = cf_AuthURL cfg, ao_Username = cf_Username cfg, ao_UserID = cf_UserID cfg,
      ao_Password = cf_Password cfg, ao_TenantID = '''', ao_TenantName = '''',
      ao_DomainID = cf_DomainID cfg, ao_DomainName = cf_DomainName cfg, ao_AllowReauth = True\<rparr>"

record 'p openStackLib =
  ol_NewClient :: "string \<Rightarrow> osErr + 'p"
  ol_UseCA :: "string \<Rightarrow> 'p \<Rightarrow> osErr + 'p"
  ol_Authenticate :: "authOptions \<Rightarrow> 'p \<Rightarrow> osErr + 'p"
  ol_AuthenticateV3 :: "string \<Rightarrow> authOptions \<Rightarrow> 'p \<Rightarrow> osErr + 'p"
  ol_NetworkV2 :: "string \<Rightarrow> 'p \<Rightarrow> osErr + unit"
  ol_ComputeV2 :: "string \<Rightarrow> 'p \<Rightarrow> osErr + unit"

record 'p OpenStack =
  st_provider :: 'p
  st_region :: string
  st_lbOpts :: LoadBalancerOpts
  st_BSVersion :: string
  st_TrustDevicePath :: bool
  st_RouterID :: string
  st_localInstanceID :: string

definition newOpenStack :: "'p openStackLib \<Rightarrow> osConfig \<Rightarrow> osErr + 'p OpenStack" where
  "newOpenStack lib cfg =
     and_then (ol_NewClient lib (cf_AuthURL cfg)) (\<lambda>provider.
     and_then (if cf_CAFile cfg \<noteq> '''' then ol_UseCA lib (cf_CAFile cfg) provider else Inr provider) (\<lambda>provider.
     and_then (if cf_TrustID cfg \<noteq> '''' then ol_AuthenticateV3 lib (cf_TrustID cfg) (toAuth3Options cfg) provider
               else ol_Authenticate lib (toAuthOptions cfg) provider) (\<lambda>provider.
     Inr \<lparr>st_provider = provider, st_region = cf_Region cfg, st_lbOpts = cf_LoadBalancer cfg, st_BSVersion = cf_BSVersion cfg,
          st_TrustDevicePath = cf_TrustDevicePath cfg, st_RouterID = cf_RouterID cfg, st_localInstanceID = ''''\<rparr>)))"

datatype lbaas = LbaasV1 | LbaasV2

definition os_LoadBalancer :: "'p openStackLib \<Rightarrow> 'c neutronAPI \<Rightarrow> 'p OpenStack \<Rightarrow> 'c \<Rightarrow> lbaas option" where
  "os_LoadBalancer lib net os c =
     (case (ol_NetworkV2 lib (st_region os) (st_provider os), ol_ComputeV2 lib (st_region os) (st_provider os)) of
        (Inr _, Inr _) \<Rightarrow>
          let version = (if lo_LBVersion (st_lbOpts os) = '''' then
                           (case networkExtensions net c of
                              Inl _ \<Rightarrow> None
                            | Inr netExts \<Rightarrow>
                                if ''lbaasv2'' |\<in>| netExts then Some ''v2''
                                else if ''lbaas'' |\<in>| netExts then Some ''v1''
                                else None)
                         else Some (lo_LBVersion (st_lbOpts os)))
          in if version = Some ''v2'' then Some LbaasV2 else if version = Some ''v1'' then Some LbaasV1 else None
      | _ \<Rightarrow> None)"

definition os_Routes :: "'p openStackLib \<Rightarrow> 'c neutronAPI \<Rightarrow> 'p OpenStack \<Rightarrow> 'c \<Rightarrow> string option" where
  "os_Routes lib net os c =
     (case ol_NetworkV2 lib (st_region os) (st_provider os) of
        Inl _ \<Rightarrow> None
      | Inr _ \<Rightarrow>
          (case networkExtensions net c of
             Inl _ \<Rightarrow> None
           | Inr netExts \<Rightarrow>
               if ''extraroute'' |\<notin>| netExts then None
               else
                 (case ol_ComputeV2 lib (st_region os) (st_provider os) of
                    Inl _ \<Rightarrow> None
                  | Inr _ \<Rightarrow> (case NewRoutes (st_RouterID os) of Inl _ \<Rightarrow> None | Inr r \<Rightarrow> Some r))))"

section \<open>What the network does with the calls\<close>

text \<open>A router answers with its routes, a change replaces them, and a refused change changes nothing.\<close>

definition router_honest :: "'c neutronAPI \<Rightarrow> ('c \<Rightarrow> string \<Rightarrow> osRoute list) \<Rightarrow> bool" where
  "router_honest net routes \<longleftrightarrow>
     (\<forall>rid c r. nt_GetRouter net rid c = Inr r \<longrightarrow> ro_ID r = rid \<and> ro_Routes r = routes c rid) \<and>
     (\<forall>rid rs c. routes (snd (nt_UpdateRoutes net rid rs c)) =
                (if fst (nt_UpdateRoutes net rid rs c) = None then (routes c)(rid := rs) else routes c)) \<and>
     (\<forall>rid ps c. routes (snd (nt_UpdatePairs net rid ps c)) = routes c)"

definition updates_accepted :: "'c neutronAPI \<Rightarrow> string \<Rightarrow> osRoute list \<Rightarrow> bool" where
  "updates_accepted net rid rs \<longleftrightarrow> (\<forall>c. fst (nt_UpdateRoutes net rid rs c) = None)"

lemma router_honestD:
  assumes "router_honest net routes"
  shows "nt_GetRouter net rid c = Inr r \<Longrightarrow> ro_ID r = rid \<and> ro_Routes r = routes c rid"
    and "nt_UpdateRoutes net rid rs c = (None, c') \<Longrightarrow> routes c' = (routes c)(rid := rs)"
    and "nt_UpdateRoutes net rid rs c = (Some e, c') \<Longrightarrow> routes c' = routes c"
    and "nt_UpdatePairs net pid ps c = (res, c') \<Longrightarrow> routes c' = routes c"
  using assms unfolding router_honest_def
  by (auto, (metis fst_conv snd_conv option.distinct(1))+)

lemma revertRoutes_routes:
  "router_honest net routes \<Longrightarrow> updates_accepted net rid rs \<Longrightarrow> routes (revertRoutes net rid rs c) = (routes c)(rid := rs)"
  by (simp add: router_honest_def updates_accepted_def revertRoutes_def)

text \<open>
  What a function that starts with \<open>updateRoutes\<close> leaves when it does not return: the routes it was
  given to go back to.
\<close>

lemma updateRoutes_undone:
  assumes "router_honest net routes" and "updates_accepted net rid orig" and "routes c rid = orig \<or> accepted"
    and "updateRoutes net rid orig new rest c = (res, c')" and "\<forall>u. res \<noteq> Returned u"
    and rest: "\<And>c. routes (snd (rest c)) = routes c"
    and "accepted \<longrightarrow> updates_accepted net rid new"
  shows "routes c' = (routes c)(rid := orig)"
proof (cases "nt_UpdateRoutes net rid new c")
  case (Pair err c1)
  show ?thesis
  proof (cases err)
    case None
    obtain res2 c2 where r: "rest c1 = (res2, c2)" by fastforce
    have c1: "routes c1 = (routes c)(rid := new)" using router_honestD(2) [OF assms(1)] Pair None by simp
    have c2: "routes c2 = routes c1" using rest [of c1] r by simp
    have "(res, c') = unwinding (revertRoutes net rid orig) rest c1"
      using assms(4) Pair None by (simp add: updateRoutes_def andThen_def request_call_def)
    then have "c' = revertRoutes net rid orig c2"
      using r assms(5) by (cases res2) (auto simp: unwinding_def)
    then show ?thesis using revertRoutes_routes [OF assms(1,2)] c1 c2 by simp
  next
    case (Some e)
    then have "routes c' = routes c"
      using assms(4) Pair router_honestD(3) [OF assms(1)] by (auto simp: updateRoutes_def andThen_def request_call_def)
    moreover have "\<not> accepted" using assms(7) Pair Some by (auto simp: updates_accepted_def dest: spec [of _ c])
    ultimately show ?thesis using assms(3) by auto
  qed
qed

text \<open>
  C37. A \<open>CreateRoute\<close> that fails leaves the routes of every router as they were, when the router
  accepts the routes it had.
\<close>

theorem failed_CreateRoute_is_undone:
  assumes "router_honest net routes" and "updates_accepted net rid (routes c rid)"
    and "os_CreateRoute nova net rid route c = (res, c')" and "res \<noteq> Returned ()"
  shows "routes c' = routes c"
proof (cases "getAddressByName nova (cr_TargetNode route) c")
  case (Inl err)
  then show ?thesis using assms(3) by (simp add: os_CreateRoute_def andThen_reading)
next
  case addr: (Inr addr)
  show ?thesis
  proof (cases "nt_GetRouter net rid c")
    case (Inl err)
    then show ?thesis using assms(3) addr by (simp add: os_CreateRoute_def andThen_reading)
  next
    case (Inr router)
    note r = router_honestD(1) [OF assms(1) Inr]
    have keep: "keeps routes (andThen (reading (getPortByIP net addr)) (\<lambda>port.
        if list_ex (\<lambda>item. fst item = cr_DestinationCIDR route) (op_AllowedAddressPairs port) then give ()
        else updateAllowedAddressPairs net (op_ID port) (op_AllowedAddressPairs port)
               (op_AllowedAddressPairs port @ [(cr_DestinationCIDR route, '''')]) (give ())))"
      unfolding updateAllowedAddressPairs_def
      using assms(1) by (intro keeps_intros keeps_unwinding keeps_call) (simp_all add: router_honest_def revertPairs_def)
    show ?thesis
    proof (cases "list_ex (\<lambda>item. or_DestinationCIDR item = cr_DestinationCIDR route \<and> or_NextHop item = addr) (ro_Routes router)")
      case True
      then show ?thesis using assms(3,4) addr Inr by (simp add: os_CreateRoute_def andThen_reading give_def)
    next
      case False
      have "routes c' = (routes c)(rid := routes c rid)"
        using assms(3,4) addr Inr False r keep
        by (intro updateRoutes_undone [OF assms(1,2), where accepted = False, rotated 1])
          (auto simp: os_CreateRoute_def andThen_reading keeps_def)
      then show ?thesis by simp
    qed
  qed
qed

lemma map_filterI: "x \<in> set xs \<Longrightarrow> f x = Some y \<Longrightarrow> y \<in> set (List.map_filter f xs)"
  by (induction xs) (auto simp: List.map_filter_simps split: option.split)

text \<open>A route that was created is listed for its node, as long as the node keeps the address.\<close>

theorem created_os_route_is_listed:
  assumes "router_honest net routes" and "os_CreateRoute nova net rid route c = (Returned (), c')"
    and "getAddressByName nova (cr_TargetNode route) c = Inr addr"
    and "foreachServer nova '''' ''ACTIVE'' (recordNode nova c') c' fmempty = (None, names)"
    and "fmlookup names addr = Some (cr_TargetNode route)" and "nt_GetRouter net rid c' = Inr router'"
  shows "\<exists>listed. os_ListRoutes nova net rid c' = Inr listed \<and> route\<lparr>cr_Name := cr_DestinationCIDR route\<rparr> \<in> set listed"
proof -
  let ?r = "\<lparr>or_DestinationCIDR = cr_DestinationCIDR route, or_NextHop = addr\<rparr>"
  from assms(2,3) obtain router where get: "nt_GetRouter net rid c = Inr router"
    by (auto simp: os_CreateRoute_def)
  note r = router_honestD(1) [OF assms(1) get]
  have "?r \<in> set (routes c' rid)"
  proof (cases "list_ex (\<lambda>item. or_DestinationCIDR item = cr_DestinationCIDR route \<and> or_NextHop item = addr) (ro_Routes router)")
    case True
    then have "c' = c" using assms(2,3) get by (auto simp: os_CreateRoute_def)
    then show ?thesis using True r by (auto simp: list_ex_iff) (metis (full_types) osRoute.surjective old.unit.exhaust)
  next
    case False
    then obtain c1 where up: "nt_UpdateRoutes net rid (routes c rid @ [?r]) c = (None, c1)"
      and rest: "c' = c1 \<or> (\<exists>pid ps. nt_UpdatePairs net pid ps c1 = (None, c'))"
      using assms(2,3) get r
      by (auto simp: os_CreateRoute_def updateRoutes_def updateAllowedAddressPairs_def unwinding_Returned if_Returned
          split: if_splits)
    have "routes c' = routes c1" using rest router_honestD(4) [OF assms(1)] by metis
    then show ?thesis using router_honestD(2) [OF assms(1) up] by simp
  qed
  moreover have "ro_Routes router' = routes c' rid" using router_honestD(1) [OF assms(1,6)] by simp
  ultimately show ?thesis
    using assms(4-6)
    by (cases route) (auto simp: os_ListRoutes_def intro: map_filterI)
qed

lemma firstIndex_Some: "firstIndex P xs = Some i \<Longrightarrow> i < length xs \<and> P (xs ! i)"
  by (induction xs arbitrary: i) (auto split: if_splits)

lemma firstIndex_None: "firstIndex P xs = None \<longleftrightarrow> (\<forall>x \<in> set xs. \<not> P x)"
  by (induction xs) auto

text \<open>
  \<open>DeleteRoute\<close> removes the address pair with the number of routes in place of the number of pairs: it
  panics unless the routes that are left are at least one and at most as many as the pairs. The
  unwinder then goes back to the routes as the removal has changed them in place, so the route is
  gone although the deletion did not succeed, and the last route is there twice.
\<close>

theorem DeleteRoute_panics_iff:
  assumes "getAddressByName nova (cr_TargetNode route) c = Inr addr" and "nt_GetRouter net rid c = Inr router"
    and "firstIndex (\<lambda>item. or_DestinationCIDR item = cr_DestinationCIDR route \<and> or_NextHop item = addr) (ro_Routes router) = Some i"
    and "nt_UpdateRoutes net (ro_ID router) (butlast (moveLast i (ro_Routes router))) c = (None, c1)"
    and "getPortByIP net addr c1 = Inr port" and "cr_DestinationCIDR route \<in> fst ` set (op_AllowedAddressPairs port)"
  shows "fst (os_DeleteRoute nova net rid route c) = Panicked \<longleftrightarrow>
    length (ro_Routes router) = 1 \<or> length (op_AllowedAddressPairs port) + 1 < length (ro_Routes router)"
proof -
  obtain j where j: "firstIndex (\<lambda>item. fst item = cr_DestinationCIDR route) (op_AllowedAddressPairs port) = Some j"
    using assms(6) by (cases "firstIndex (\<lambda>item. fst item = cr_DestinationCIDR route) (op_AllowedAddressPairs port)")
      (auto simp: firstIndex_None)
  have len: "0 < length (ro_Routes router)" using firstIndex_Some [OF assms(3)] by auto
  have pan: "fst (unwinding u m c) = Panicked \<longleftrightarrow> fst (m c) = Panicked" for u and m :: "('a, unit) osStep" and c
    by (auto simp: unwinding_def split: prod.split outcome.split)
  have no: "fst (updateAllowedAddressPairs net pid orig new (give ()) c) \<noteq> Panicked" for pid orig new c
    by (auto simp: updateAllowedAddressPairs_def andThen_call give_def unwinding_def split: prod.split option.split)
  let ?n = "length (ro_Routes router) - 1"
  have "fst (os_DeleteRoute nova net rid route c) = Panicked \<longleftrightarrow> dropPair ?n j (op_AllowedAddressPairs port) = None"
    using assms(1-5) j no
    by (auto simp: os_DeleteRoute_def andThen_first updateRoutes_def pan Let_def panic_def moveLast_def split: option.split)
  then show ?thesis using len by (cases "ro_Routes router") (auto simp: dropPair_def Let_def)
qed

theorem failed_DeleteRoute_loses_route:
  assumes "router_honest net routes" and "os_DeleteRoute nova net rid route c = (res, c')" and "res \<noteq> Returned ()"
    and "getAddressByName nova (cr_TargetNode route) c = Inr addr" and "nt_GetRouter net rid c = Inr router"
    and "firstIndex (\<lambda>item. or_DestinationCIDR item = cr_DestinationCIDR route \<and> or_NextHop item = addr) (routes c rid) = Some i"
    and "\<And>rs. updates_accepted net rid rs" and "distinct (routes c rid)" and "Suc i < length (routes c rid)"
  shows "routes c rid ! i \<notin> set (routes c' rid) \<and> length (routes c' rid) = length (routes c rid)"
proof -
  note r = router_honestD(1) [OF assms(1,5)]
  let ?moved = "moveLast i (routes c rid)"
  have keep: "keeps routes (andThen (reading (getPortByIP net addr)) (\<lambda>port.
      case firstIndex (\<lambda>item. fst item = cr_DestinationCIDR route) (op_AllowedAddressPairs port) of
        None \<Rightarrow> give ()
      | Some index \<Rightarrow>
          (case dropPair (length (butlast ?moved)) index (op_AllowedAddressPairs port) of
             None \<Rightarrow> panic
           | Some (movedPairs, addrPairs) \<Rightarrow>
               updateAllowedAddressPairs net (op_ID port) movedPairs addrPairs (give ()))))"
    unfolding updateAllowedAddressPairs_def
    using assms(1)
    by (auto simp: router_honest_def revertPairs_def split: option.split
        intro!: keeps_intros keeps_unwinding keeps_call)
  have "routes c' = (routes c)(rid := ?moved)"
    using assms(2-6) r keep assms(7)
    by (intro updateRoutes_undone [OF assms(1) assms(7), where accepted = True, rotated 1])
      (auto simp: os_DeleteRoute_def andThen_reading keeps_def Let_def)
  moreover have "routes c rid ! i \<notin> set ?moved"
  proof
    assume "routes c rid ! i \<in> set ?moved"
    then obtain k where k: "k < length (routes c rid)" "?moved ! k = routes c rid ! i"
      by (auto simp: in_set_conv_nth moveLast_def)
    moreover have "last (routes c rid) = routes c rid ! (length (routes c rid) - 1)"
      using assms(9) by (intro last_conv_nth) auto
    ultimately show False
      using assms(8,9) by (cases "k = i") (auto simp: moveLast_def nth_eq_iff_index_eq)
  qed
  ultimately show ?thesis by (simp add: moveLast_def)
qed

section \<open>The config drive\<close>

text \<open>
  Mounting adds the directory to the mounts when it succeeds, unmounting takes it off, and a
  temporary directory is a new one.
\<close>

definition drive_honest :: "'c driveOS \<Rightarrow> ('c \<Rightarrow> string set) \<Rightarrow> ('c \<Rightarrow> string set) \<Rightarrow> bool" where
  "drive_honest env mounts dirs \<longleftrightarrow>
     (\<forall>c err c'. dv_TempDir env c = (Inl err, c') \<longrightarrow> dirs c' = dirs c \<and> mounts c' = mounts c) \<and>
     (\<forall>c d c'. dv_TempDir env c = (Inr d, c') \<longrightarrow>
        dirs c' = insert d (dirs c) \<and> mounts c' = mounts c \<and> d \<notin> dirs c \<and> d \<notin> mounts c) \<and>
     (\<forall>d c. dirs (dv_Remove env d c) = dirs c - {d} \<and> mounts (dv_Remove env d c) = mounts c) \<and>
     (\<forall>dev d fs c c'. dv_Mount env dev d fs c = (None, c') \<longrightarrow> mounts c' = insert d (mounts c) \<and> dirs c' = dirs c) \<and>
     (\<forall>dev d fs c e c'. dv_Mount env dev d fs c = (Some e, c') \<longrightarrow> mounts c' = mounts c \<and> dirs c' = dirs c) \<and>
     (\<forall>d c. mounts (dv_Unmount env d c) = mounts c - {d} \<and> dirs (dv_Unmount env d c) = dirs c)"

lemma drive_honestD:
  assumes "drive_honest env mounts dirs"
  shows "dv_TempDir env c = (Inl err, c') \<Longrightarrow> dirs c' = dirs c \<and> mounts c' = mounts c"
    and "dv_TempDir env c = (Inr d, c') \<Longrightarrow> dirs c' = insert d (dirs c) \<and> mounts c' = mounts c \<and> d \<notin> dirs c \<and> d \<notin> mounts c"
    and "dv_Mount env dev d fs c = (None, c') \<Longrightarrow> mounts c' = insert d (mounts c) \<and> dirs c' = dirs c"
    and "dv_Mount env dev d fs c = (Some e, c') \<Longrightarrow> mounts c' = mounts c \<and> dirs c' = dirs c"
proof -
  note h = assms [unfolded drive_honest_def]
  show "dv_TempDir env c = (Inl err, c') \<Longrightarrow> dirs c' = dirs c \<and> mounts c' = mounts c"
    by (rule h [THEN conjunct1, rule_format])
  show "dv_TempDir env c = (Inr d, c') \<Longrightarrow> dirs c' = insert d (dirs c) \<and> mounts c' = mounts c \<and> d \<notin> dirs c \<and> d \<notin> mounts c"
    by (rule h [THEN conjunct2, THEN conjunct1, rule_format])
  show "dv_Mount env dev d fs c = (None, c') \<Longrightarrow> mounts c' = insert d (mounts c) \<and> dirs c' = dirs c"
    by (rule h [THEN conjunct2, THEN conjunct2, THEN conjunct2, THEN conjunct1, rule_format])
  show "dv_Mount env dev d fs c = (Some e, c') \<Longrightarrow> mounts c' = mounts c \<and> dirs c' = dirs c"
    by (rule h [THEN conjunct2, THEN conjunct2, THEN conjunct2, THEN conjunct2, THEN conjunct1, rule_format])
qed

lemma mountDrive_mounts:
  assumes "drive_honest env mounts dirs" and "mountDrive env dev d c = (res, c')"
  shows "dirs c' = dirs c \<and> mounts c' = (case res of Returned _ \<Rightarrow> insert d (mounts c) | _ \<Rightarrow> mounts c)"
proof (cases "dv_Mount env dev d ''iso9660'' c")
  case iso: (Pair e c1)
  show ?thesis
  proof (cases e)
    case None
    then show ?thesis using assms(2) iso drive_honestD(3) [OF assms(1) iso [unfolded None]]
      by (auto simp: mountDrive_def recovering_def request_call_def)
  next
    case (Some err)
    obtain e2 c2 where vfat: "dv_Mount env dev d ''vfat'' c1 = (e2, c2)" by fastforce
    show ?thesis
      using assms(2) iso Some vfat drive_honestD(4) [OF assms(1) iso [unfolded Some]]
        drive_honestD(3,4) [OF assms(1), of dev d "''vfat''" c1]
      by (cases e2) (auto simp: mountDrive_def recovering_def request_call_def)
  qed
qed

text \<open>Whatever happens, the drive is unmounted and the temporary directory removed.\<close>

theorem config_drive_is_released:
  assumes "drive_honest env mounts dirs"
  shows "mounts (snd (getMetadataFromConfigDrive env c)) = mounts c \<and>
    dirs (snd (getMetadataFromConfigDrive env c)) = dirs c"
proof (cases "driveDevice env c")
  case (Inl err)
  then show ?thesis by (simp add: getMetadataFromConfigDrive_def andThen_reading)
next
  case dev: (Inr dev)
  obtain res c1 where tmp: "dv_TempDir env c = (res, c1)" by fastforce
  show ?thesis
  proof (cases res)
    case (Inl err)
    then show ?thesis using drive_honestD(1) [OF assms] tmp dev
      by (simp add: getMetadataFromConfigDrive_def andThen_first)
  next
    case (Inr d)
    let ?read = "andThen (reading (dv_Open env (Join [d, configDrivePath]))) (\<lambda>text. reading (\<lambda>_. parseMetadata env text))"
    note fresh = drive_honestD(2) [OF assms tmp [unfolded Inr]]
    have read: "snd (?read c) = c" for c
      by (simp add: andThen_reading reading_def split: sum.split)
    obtain r2 c2 where m: "mountDrive env dev d c1 = (r2, c2)" by fastforce
    note c2 = mountDrive_mounts [OF assms m]
    have "snd (getMetadataFromConfigDrive env c) =
        dv_Remove env d (case r2 of Returned _ \<Rightarrow> dv_Unmount env d c2 | _ \<Rightarrow> c2)"
      using tmp dev Inr m read [of c2]
      by (auto simp: getMetadataFromConfigDrive_def andThen_first deferring_def andThen_def [of "mountDrive env dev d"]
          split: prod.split outcome.split)
    moreover have "dirs (dv_Remove env d x) = dirs x - {d}" "mounts (dv_Remove env d x) = mounts x"
      "mounts (dv_Unmount env d x) = mounts x - {d}" "dirs (dv_Unmount env d x) = dirs x" for x
      using assms by (auto simp: drive_honest_def)
    ultimately show ?thesis using c2 fresh by (auto split: outcome.split)
  qed
qed

section \<open>Witnesses\<close>

text \<open>Two nodes, of which only the first has a port, and one router.\<close>

record demoNeutron =
  dn_routes :: "osRoute list"
  dn_pairs :: "(string \<times> string) list"

definition demo_server :: "string \<Rightarrow> string \<Rightarrow> osServer" where
  "demo_server n ip =
     \<lparr>srv_ID = ''id-'' @ n, srv_Name = n, srv_Addresses = Inr (fmupd ''private'' [(''fixed'', ip)] fmempty),
      srv_AccessIPv4 = '''', srv_AccessIPv6 = ''''\<rparr>"

definition demo_nova :: "demoNeutron novaAPI" where
  "demo_nova =
     \<lparr>nv_ListServers = (\<lambda>nameFilter status c.
        if nameFilter = ''^a$'' then [Inr [demo_server ''a'' ''10.0.0.1'']]
        else if nameFilter = ''^b$'' then [Inr [demo_server ''b'' ''10.0.0.2'']]
        else [Inr [demo_server ''a'' ''10.0.0.1''], Inr [demo_server ''b'' ''10.0.0.2'']]),
      nv_range = (\<lambda>ks c. sorted_list_of_fset ks)\<rparr>"

definition demo_neutron :: "demoNeutron neutronAPI" where
  "demo_neutron =
     \<lparr>nt_ListExtensions = (\<lambda>c. []),
      nt_ListPorts = (\<lambda>c. [Inr [\<lparr>op_ID = ''p'', op_FixedIPs = [''10.0.0.1''], op_AllowedAddressPairs = dn_pairs c\<rparr>]]),
      nt_GetRouter = (\<lambda>rid c. if rid = ''r'' then Inr \<lparr>ro_ID = ''r'', ro_Routes = dn_routes c\<rparr> else Inl ErrNotFound),
      nt_UpdateRoutes = (\<lambda>rid rs c. if rid = ''r'' then (None, c\<lparr>dn_routes := rs\<rparr>) else (Some ErrNotFound, c)),
      nt_UpdatePairs = (\<lambda>pid ps c. (None, c\<lparr>dn_pairs := ps\<rparr>))\<rparr>"

definition demo_routes :: "demoNeutron \<Rightarrow> string \<Rightarrow> osRoute list" where
  "demo_routes c rid = (if rid = ''r'' then dn_routes c else [])"

definition demo_hop :: "string \<Rightarrow> osRoute" where
  "demo_hop cidr = \<lparr>or_DestinationCIDR = cidr, or_NextHop = ''10.0.0.1''\<rparr>"

definition demo_wish :: "string \<Rightarrow> string \<Rightarrow> cloudRoute" where
  "demo_wish n cidr = \<lparr>cr_Name = '''', cr_TargetNode = n, cr_DestinationCIDR = cidr\<rparr>"

lemma demo_router_honest: "router_honest demo_neutron demo_routes"
  by (auto simp: router_honest_def demo_neutron_def demo_routes_def)

lemma demo_updates_accepted: "updates_accepted demo_neutron ''r'' rs"
  by (simp add: updates_accepted_def demo_neutron_def)

lemma demo_nodeAddresses: "nodeAddresses demo_nova (demo_server n ip) c = Inr [(''InternalIP'', ip)]"
  by (simp add: nodeAddresses_def demo_server_def demo_nova_def addToNodeAddresses_def networkAddress_def sorted_list_of_fset_def Let_def)

lemma demo_listing:
  "nv_ListServers demo_nova ''^a$'' ''ACTIVE'' c = [Inr [demo_server ''a'' ''10.0.0.1'']]"
  "nv_ListServers demo_nova ''^b$'' ''ACTIVE'' c = [Inr [demo_server ''b'' ''10.0.0.2'']]"
  "nv_ListServers demo_nova '''' ''ACTIVE'' c = [Inr [demo_server ''a'' ''10.0.0.1''], Inr [demo_server ''b'' ''10.0.0.2'']]"
  "mapServerToNodeName (demo_server ''a'' ip) = ''a''" "mapServerToNodeName (demo_server ''b'' ip) = ''b''"
  by (simp_all add: demo_nova_def demo_server_def mapServerToNodeName_def) (code_simp+)

lemma demo_address: "getAddressByName demo_nova ''a'' c = Inr ''10.0.0.1''" "getAddressByName demo_nova ''b'' c = Inr ''10.0.0.2''"
  by (simp_all add: getAddressByName_def getAddressesByName_def getServerByName_def demo_listing QuoteMeta_def
      mapNodeNameToServerName_def uniquePage_def preferInternal_def demo_nodeAddresses and_then_def)

theorem failed_CreateRoute_is_undone_witness:
  "os_CreateRoute demo_nova demo_neutron ''r'' (demo_wish ''b'' ''1.2.3.0'') \<lparr>dn_routes = [], dn_pairs = []\<rparr> \<noteq>
     (Returned (), \<lparr>dn_routes = [], dn_pairs = []\<rparr>) \<and>
   demo_routes (snd (os_CreateRoute demo_nova demo_neutron ''r'' (demo_wish ''b'' ''1.2.3.0'') \<lparr>dn_routes = [], dn_pairs = []\<rparr>)) =
     demo_routes \<lparr>dn_routes = [], dn_pairs = []\<rparr>"
proof -
  let ?c = "\<lparr>dn_routes = [], dn_pairs = []\<rparr>"
  obtain res c' where run: "os_CreateRoute demo_nova demo_neutron ''r'' (demo_wish ''b'' ''1.2.3.0'') ?c = (res, c')"
    and res: "res = Failed ErrNotFound"
    by (simp add: os_CreateRoute_def andThen_first demo_wish_def demo_address demo_neutron_def updateRoutes_def unwinding_def
        getPortByIP_def portPage_def)
  from failed_CreateRoute_is_undone [OF demo_router_honest demo_updates_accepted run] res run show ?thesis by simp
qed

theorem created_os_route_is_listed_witness:
  "\<exists>c' listed. os_CreateRoute demo_nova demo_neutron ''r'' (demo_wish ''a'' ''1.2.3.0'') \<lparr>dn_routes = [], dn_pairs = []\<rparr> = (Returned (), c') \<and>
     os_ListRoutes demo_nova demo_neutron ''r'' c' = Inr listed \<and> (demo_wish ''a'' ''1.2.3.0'')\<lparr>cr_Name := ''1.2.3.0''\<rparr> \<in> set listed"
proof -
  let ?c = "\<lparr>dn_routes = [], dn_pairs = []\<rparr>"
  obtain c' where run: "os_CreateRoute demo_nova demo_neutron ''r'' (demo_wish ''a'' ''1.2.3.0'') ?c = (Returned (), c')"
    by (simp add: os_CreateRoute_def andThen_first demo_wish_def demo_address demo_neutron_def updateRoutes_def unwinding_def
        getPortByIP_def portPage_def updateAllowedAddressPairs_def give_def)
  have names: "foreachServer demo_nova '''' ''ACTIVE'' (recordNode demo_nova c') c' fmempty =
      (None, fmupd ''10.0.0.2'' ''b'' (fmupd ''10.0.0.1'' ''a'' fmempty))"
    by (simp add: foreachServer_def demo_listing recordNode_def demo_nodeAddresses)
  have router: "nt_GetRouter demo_neutron ''r'' c' = Inr \<lparr>ro_ID = ''r'', ro_Routes = dn_routes c'\<rparr>"
    by (simp add: demo_neutron_def)
  from created_os_route_is_listed [OF demo_router_honest run _ names _ router] run show ?thesis
    by (simp add: demo_wish_def demo_address)
qed

text \<open>Three routes to a node that has one address pair.\<close>

theorem DeleteRoute_panics_iff_witness:
  "fst (os_DeleteRoute demo_nova demo_neutron ''r'' (demo_wish ''a'' ''c1'')
     \<lparr>dn_routes = [demo_hop ''c1'', demo_hop ''c2'', demo_hop ''c3''], dn_pairs = [(''c1'', '''')]\<rparr>) = Panicked"
proof -
  let ?c = "\<lparr>dn_routes = [demo_hop ''c1'', demo_hop ''c2'', demo_hop ''c3''], dn_pairs = [(''c1'', '''')]\<rparr>"
  from DeleteRoute_panics_iff [of demo_nova "demo_wish ''a'' ''c1''" ?c "''10.0.0.1''" demo_neutron "''r''"
      "\<lparr>ro_ID = ''r'', ro_Routes = dn_routes ?c\<rparr>" 0 "?c\<lparr>dn_routes := [demo_hop ''c3'', demo_hop ''c2'']\<rparr>"
      "\<lparr>op_ID = ''p'', op_FixedIPs = [''10.0.0.1''], op_AllowedAddressPairs = [(''c1'', '''')]\<rparr>"]
  show ?thesis
    by (simp add: demo_address demo_wish_def demo_neutron_def demo_hop_def moveLast_def getPortByIP_def portPage_def)
qed

theorem failed_DeleteRoute_loses_route_witness:
  "demo_hop ''c1'' \<notin> set (demo_routes (snd (os_DeleteRoute demo_nova demo_neutron ''r'' (demo_wish ''a'' ''c1'')
     \<lparr>dn_routes = [demo_hop ''c1'', demo_hop ''c2'', demo_hop ''c3''], dn_pairs = [(''c1'', '''')]\<rparr>)) ''r'')"
proof -
  let ?c = "\<lparr>dn_routes = [demo_hop ''c1'', demo_hop ''c2'', demo_hop ''c3''], dn_pairs = [(''c1'', '''')]\<rparr>"
  let ?P = "\<lambda>item. or_DestinationCIDR item = cr_DestinationCIDR (demo_wish ''a'' ''c1'') \<and> or_NextHop item = ''10.0.0.1''"
  obtain res c' where run: "os_DeleteRoute demo_nova demo_neutron ''r'' (demo_wish ''a'' ''c1'') ?c = (res, c')"
    and res: "res = Panicked"
    by (simp add: os_DeleteRoute_def andThen_first demo_wish_def demo_address demo_neutron_def updateRoutes_def unwinding_def
        getPortByIP_def portPage_def demo_hop_def moveLast_def dropPair_def panic_def Let_def)
  have at: "cr_TargetNode (demo_wish ''a'' ''c1'') = ''a''" by (simp add: demo_wish_def)
  have i: "firstIndex ?P (demo_routes ?c ''r'') = Some 0"
    by (simp add: demo_routes_def demo_wish_def demo_hop_def)
  from failed_DeleteRoute_loses_route [OF demo_router_honest run _ _ _ i demo_updates_accepted] run res show ?thesis
    by (simp add: at demo_address demo_neutron_def) (simp add: demo_routes_def demo_hop_def)
qed

text \<open>A machine whose drive mounts as \<open>vfat\<close> only: the mounts and the temporary directories.\<close>

definition demo_drive :: "(string set \<times> string set) driveOS" where
  "demo_drive =
     \<lparr>dv_NotExist = (\<lambda>dev c. False), dv_blkid = (\<lambda>args c. Inl ErrNotFound),
      dv_TempDir = (\<lambda>c. if ''/tmp/d'' \<in> fst c \<union> snd c then (Inl ErrNotFound, c) else (Inr ''/tmp/d'', (fst c, insert ''/tmp/d'' (snd c)))),
      dv_Remove = (\<lambda>d c. (fst c, snd c - {d})),
      dv_Mount = (\<lambda>dev d fs c. if fs = ''vfat'' then (None, (insert d (fst c), snd c)) else (Some (OsExtErr ''mount''), c)),
      dv_Unmount = (\<lambda>d c. (fst c - {d}, snd c)),
      dv_Open = (\<lambda>p c. Inr ''{}''), dv_HTTPGet = (\<lambda>u c. Inl ErrNotFound),
      dv_Decode = (\<lambda>t. Inr \<lparr>mt_UUID = '''', mt_Name = '''', mt_AvailabilityZone = ''''\<rparr>)\<rparr>"

theorem config_drive_is_released_witness:
  "fst (getMetadataFromConfigDrive demo_drive ({}, {})) = Failed ErrBadMetadata \<and>
   snd (getMetadataFromConfigDrive demo_drive ({}, {})) = ({}, {})"
proof -
  have "drive_honest demo_drive fst snd"
    by (auto simp: drive_honest_def demo_drive_def split: if_splits)
  from config_drive_is_released [OF this, of "({}, {})"]
  have "snd (getMetadataFromConfigDrive demo_drive ({}, {})) = ({}, {})"
    by (simp add: prod_eq_iff)
  moreover have "fst (getMetadataFromConfigDrive demo_drive ({}, {})) = Failed ErrBadMetadata"
    by (simp add: getMetadataFromConfigDrive_def demo_drive_def driveDevice_def andThen_first deferring_def mountDrive_def
        recovering_def request_call_def andThen_def reading_def parseMetadata_def changing_def)
  ultimately show ?thesis by simp
qed

end
