(* ===== verification/OpenStackBalancer.thy ===== *)
theory OpenStackBalancer
  imports OpenStackNet
begin

text \<open>
  The load balancers of OpenStack, \<open>openstack_loadbalancer.go\<close>, in the second version of the service
  (\<open>LbaasV2\<close>): listeners, pools, members, monitors, floating addresses and security groups. The client
  library is the record \<open>lbaasAPI\<close>, with \<open>wait.ExponentialBackoff\<close> given its number of steps.
\<close>

record loadBalancer =
  ba_ID :: string
  ba_VipAddress :: string
  ba_VipPortID :: string

record osListener =
  lis_ID :: string
  lis_Protocol :: string
  lis_ProtocolPort :: int
  lis_Loadbalancers :: "string list"

record osPool =
  po_ID :: string
  po_MonitorID :: string
  po_Listeners :: "string list"

record osMember =
  me_ID :: string
  me_Address :: string
  me_ProtocolPort :: int

record poolOpts =
  pp_Name :: string
  pp_Protocol :: string
  pp_LBMethod :: string
  pp_ListenerID :: string
  pp_Persistence :: "string option"

record ruleOpts =
  ru_PortRangeMax :: int
  ru_PortRangeMin :: int
  ru_Protocol :: string
  ru_RemoteGroupID :: string
  ru_RemoteIPPrefix :: string
  ru_SecGroupID :: string
  ru_EtherType :: string

record 'c lbaasAPI =
  lb_List :: "string \<Rightarrow> 'c \<Rightarrow> loadBalancer pages"
  lb_GetStatus :: "string \<Rightarrow> 'c \<Rightarrow> (osErr + string) \<times> 'c"
  lb_Create :: "string \<Rightarrow> string \<Rightarrow> string \<Rightarrow> string \<Rightarrow> 'c \<Rightarrow> (osErr + loadBalancer) \<times> 'c"
  lb_Delete :: "string \<Rightarrow> 'c \<Rightarrow> osErr option \<times> 'c"
  lb_ListListeners :: "string \<Rightarrow> 'c \<Rightarrow> osListener pages"
  lb_CreateListener :: "string \<Rightarrow> string \<Rightarrow> int \<Rightarrow> string \<Rightarrow> 'c \<Rightarrow> (osErr + osListener) \<times> 'c"
  lb_DeleteListener :: "string \<Rightarrow> 'c \<Rightarrow> osErr option \<times> 'c"
  lb_ListPools :: "string \<Rightarrow> 'c \<Rightarrow> osPool pages"
  lb_CreatePool :: "poolOpts \<Rightarrow> 'c \<Rightarrow> (osErr + osPool) \<times> 'c"
  lb_DeletePool :: "string \<Rightarrow> 'c \<Rightarrow> osErr option \<times> 'c"
  lb_ListMembers :: "string \<Rightarrow> 'c \<Rightarrow> osMember pages"
  lb_CreateMember :: "string \<Rightarrow> string \<Rightarrow> int \<Rightarrow> string \<Rightarrow> 'c \<Rightarrow> osErr option \<times> 'c"
  lb_DeleteMember :: "string \<Rightarrow> string \<Rightarrow> 'c \<Rightarrow> osErr option \<times> 'c"
  lb_CreateMonitor :: "string \<Rightarrow> string \<Rightarrow> int \<Rightarrow> int \<Rightarrow> int \<Rightarrow> 'c \<Rightarrow> (osErr + string) \<times> 'c"
  lb_DeleteMonitor :: "string \<Rightarrow> 'c \<Rightarrow> osErr option \<times> 'c"
  lb_ListFloatingIPs :: "string \<Rightarrow> 'c \<Rightarrow> (string \<times> string) pages"
  lb_CreateFloatingIP :: "string \<Rightarrow> string \<Rightarrow> 'c \<Rightarrow> (osErr + string \<times> string) \<times> 'c"
  lb_DeleteFloatingIP :: "string \<Rightarrow> 'c \<Rightarrow> osErr option \<times> 'c"
  lb_CreateGroup :: "string \<Rightarrow> string \<Rightarrow> 'c \<Rightarrow> (osErr + string) \<times> 'c"
  lb_GroupIDFromName :: "string \<Rightarrow> 'c \<Rightarrow> osErr + string"
  lb_DeleteGroup :: "string \<Rightarrow> 'c \<Rightarrow> osErr option \<times> 'c"
  lb_CreateRule :: "ruleOpts \<Rightarrow> 'c \<Rightarrow> osErr option \<times> 'c"
  lb_ListRules :: "string \<Rightarrow> string \<Rightarrow> 'c \<Rightarrow> string pages"
  lb_DeleteRule :: "string \<Rightarrow> 'c \<Rightarrow> osErr option \<times> 'c"
  lb_UpdatePortGroups :: "string \<Rightarrow> string list \<Rightarrow> 'c \<Rightarrow> osErr option \<times> 'c"
  lb_Backoff :: "nat \<Rightarrow> ('c \<times> string \<Rightarrow> (osErr + bool) \<times> 'c \<times> string) \<Rightarrow> 'c \<times> string \<Rightarrow> osErr option \<times> 'c \<times> string"
  lb_range :: "string fset \<Rightarrow> 'c \<Rightarrow> string list"

text \<open>
  The Kubernetes helpers: the source ranges of a service, whether they allow every address,
  whether the network of a CIDR is of the fourth version, and the whole seconds of a duration.
\<close>

record osKubeLib =
  ok_SourceRanges :: "Service \<Rightarrow> osErr + string list"
  ok_IsAllowAll :: "string list \<Rightarrow> bool"
  ok_ParseCIDR :: "string \<Rightarrow> osErr + bool"
  ok_Seconds :: "int \<Rightarrow> int"

text \<open>A deletion that tolerates that the object is not there.\<close>

definition tolerant :: "('c \<Rightarrow> osErr option \<times> 'c) \<Rightarrow> (osErr \<Rightarrow> osErr) \<Rightarrow> ('c, unit) osStep" where
  "tolerant m wrap c =
     (case m c of
        (None, c) \<Rightarrow> (Returned (), c)
      | (Some err, c) \<Rightarrow> if isNotFound err then (Returned (), c) else (Failed (wrap err), c))"

text \<open>A creation with what the code makes of its error.\<close>

definition wrapping :: "(osErr \<Rightarrow> osErr) \<Rightarrow> ('c \<Rightarrow> (osErr + 'a) \<times> 'c) \<Rightarrow> 'c \<Rightarrow> (osErr + 'a) \<times> 'c" where
  "wrapping wrap m c = (case m c of (Inl err, c) \<Rightarrow> (Inl (wrap err), c) | (Inr a, c) \<Rightarrow> (Inr a, c))"

lemma wrapping_simps [simp]:
  "wrapping wrap m c = (Inr a, c') \<longleftrightarrow> m c = (Inr a, c')" "snd (wrapping wrap m c) = snd (m c)"
  by (auto simp: wrapping_def split: prod.split sum.split)

section \<open>Lookups\<close>

definition getFloatingIPByPortID :: "'c lbaasAPI \<Rightarrow> string \<Rightarrow> 'c \<Rightarrow> osErr + string \<times> string" where
  "getFloatingIPByPortID api portID c = onlyResult (lb_ListFloatingIPs api portID c)"

definition getLoadbalancerByName :: "'c lbaasAPI \<Rightarrow> string \<Rightarrow> 'c \<Rightarrow> osErr + loadBalancer" where
  "getLoadbalancerByName api lbName c = onlyResult (lb_List api lbName c)"

definition getListenersByLoadBalancerID :: "'c lbaasAPI \<Rightarrow> string \<Rightarrow> 'c \<Rightarrow> osErr + osListener list" where
  "getListenersByLoadBalancerID api lbID c =
     allResults (map (map_sum id (filter (\<lambda>l. lbID \<in> set (lis_Loadbalancers l)))) (lb_ListListeners api lbID c))"

definition toRuleProtocol :: "string \<Rightarrow> string" where
  "toRuleProtocol protocol =
     (if protocol = ''TCP'' then ''tcp'' else if protocol = ''UDP'' then ''udp'' else ToLower protocol)"

definition toListenersProtocol :: "string \<Rightarrow> string" where
  "toListenersProtocol protocol = (if protocol = ''TCP'' then ''TCP'' else protocol)"

definition getListenerForPort :: "osListener list \<Rightarrow> ServicePort \<Rightarrow> osListener option" where
  "getListenerForPort existingListeners port =
     find (\<lambda>l. lis_Protocol l = toListenersProtocol (sp_Protocol port) \<and> lis_ProtocolPort l = sp_Port port) existingListeners"

text \<open>A pool is collected once for every time it names the listener.\<close>

definition poolsOfListener :: "string \<Rightarrow> osPool list \<Rightarrow> osPool list" where
  "poolsOfListener listenerID ps = concat (map (\<lambda>p. map (\<lambda>_. p) (filter (\<lambda>l. l = listenerID) (po_Listeners p))) ps)"

definition getPoolByListenerID :: "'c lbaasAPI \<Rightarrow> string \<Rightarrow> string \<Rightarrow> 'c \<Rightarrow> osErr + osPool" where
  "getPoolByListenerID api lbID listenerID c =
     onlyResult (map (map_sum id (poolsOfListener listenerID)) (lb_ListPools api lbID c))"

definition getMembersByPoolID :: "'c lbaasAPI \<Rightarrow> string \<Rightarrow> 'c \<Rightarrow> osErr + osMember list" where
  "getMembersByPoolID api poolID c = allResults (lb_ListMembers api poolID c)"

definition sameEndpoint :: "string \<Rightarrow> int \<Rightarrow> osMember \<Rightarrow> bool" where
  "sameEndpoint addr port m \<longleftrightarrow> me_Address m = addr \<and> me_ProtocolPort m = port"

definition memberExists :: "osMember list \<Rightarrow> string \<Rightarrow> int \<Rightarrow> bool" where
  "memberExists ms addr port = list_ex (sameEndpoint addr port) ms"

definition popListener :: "osListener list \<Rightarrow> string \<Rightarrow> osListener list" where
  "popListener existingListeners listenerID =
     (case firstIndex (\<lambda>l. lis_ID l = listenerID) existingListeners of
        None \<Rightarrow> existingListeners
      | Some i \<Rightarrow> butlast (moveLast i existingListeners))"

text \<open>
  \<open>popMember\<close> does not stop at the first hit: the loop goes over the length the slice had at the
  start, reads the array it changes, and an index past the slice as it is now panics.
\<close>

fun popMember_loop :: "string \<Rightarrow> int \<Rightarrow> nat list \<Rightarrow> osMember list \<times> nat \<Rightarrow> (osMember list \<times> nat) option" where
  "popMember_loop addr port [] s = Some s"
| "popMember_loop addr port (i # is) (arr, len) =
     (if sameEndpoint addr port (arr ! i) then
        if len \<le> i then None
        else popMember_loop addr port is (arr[i := arr ! (len - 1)], len - 1)
      else popMember_loop addr port is (arr, len))"

definition popMember :: "osMember list \<Rightarrow> string \<Rightarrow> int \<Rightarrow> osMember list option" where
  "popMember ms addr port =
     map_option (\<lambda>(arr, len). take len arr) (popMember_loop addr port [0..<length ms] (ms, length ms))"

definition getSecurityGroupName :: "string \<Rightarrow> Service \<Rightarrow> string" where
  "getSecurityGroupName clusterName service = ''lb-sg-'' @ clusterName @ ''-'' @ sv_Name service"

definition getSecurityGroupRules :: "'c lbaasAPI \<Rightarrow> string \<Rightarrow> string \<Rightarrow> 'c \<Rightarrow> osErr + string list" where
  "getSecurityGroupRules api secGroupID remoteGroupID c = allResults (lb_ListRules api secGroupID remoteGroupID c)"

section \<open>Waiting\<close>

definition waitLoadbalancerActiveProvisioningStatus :: "'c lbaasAPI \<Rightarrow> string \<Rightarrow> 'c \<Rightarrow> (string \<times> osErr option) \<times> 'c" where
  "waitLoadbalancerActiveProvisioningStatus api lbID c =
     (case lb_Backoff api 19
             (\<lambda>(c, status).
                case lb_GetStatus api lbID c of
                  (Inl err, c) \<Rightarrow> (Inl err, c, status)
                | (Inr s, c) \<Rightarrow>
                    (if s = ''ACTIVE'' then Inr True
                     else if s = ''ERROR'' then Inl (OsErrorf ''Loadbalancer has gone into ERROR state'' [])
                     else Inr False, c, s))
             (c, '''') of
        (err, c, status) \<Rightarrow>
          ((status, if err = Some ErrWaitTimeout then
              Some (OsErrorf ''Loadbalancer failed to go into ACTIVE provisioning status within allotted time'' [])
            else err), c))"

definition waitLoadbalancerDeleted :: "'c lbaasAPI \<Rightarrow> string \<Rightarrow> 'c \<Rightarrow> osErr option \<times> 'c" where
  "waitLoadbalancerDeleted api lbID c =
     (case lb_Backoff api 13
             (\<lambda>(c, status).
                case lb_GetStatus api lbID c of
                  (Inl err, c) \<Rightarrow> (if err = ErrNotFound then Inr True else Inl err, c, status)
                | (Inr s, c) \<Rightarrow> (Inr False, c, status))
             (c, '''') of
        (err, c, _) \<Rightarrow>
          (if err = Some ErrWaitTimeout then Some (OsErrorf ''Loadbalancer failed to delete within the allotted time'' [])
           else err, c))"

text \<open>The callers wait and ignore the answer.\<close>

definition waited :: "'c lbaasAPI \<Rightarrow> string \<Rightarrow> ('c, unit) osStep" where
  "waited api lbID c = (Returned (), snd (waitLoadbalancerActiveProvisioningStatus api lbID c))"

section \<open>Members, pools and listeners of a port\<close>

definition nodeAddressForLB :: "Node \<Rightarrow> osErr + string" where
  "nodeAddressForLB node = preferInternal (node_Addresses node)"

text \<open>
  One node of the service: \<open>members\<close> are the members that were there and have not been seen yet. A node
  whose address is \<open>ErrNotFound\<close> would be skipped.
\<close>

definition syncMember ::
  "'c lbaasAPI \<Rightarrow> LoadBalancerOpts \<Rightarrow> string \<Rightarrow> string \<Rightarrow> ServicePort \<Rightarrow> osMember list \<Rightarrow> Node \<Rightarrow> ('c, osMember list) osStep" where
  "syncMember api opts lbID poolID port members node =
     (case nodeAddressForLB node of
        Inl err \<Rightarrow>
          if err = ErrNotFound then give members
          else failing (OsWrapf ''Error getting address for node %s: %v'' [node_Name node] err)
      | Inr addr \<Rightarrow>
          if \<not> memberExists members addr (sp_NodePort port) then
            andThen (request_call (lb_CreateMember api poolID addr (sp_NodePort port) (lo_SubnetID opts))
                       (OsWrapf ''Error creating LB pool member for node: %s, %v'' [node_Name node])) (\<lambda>_.
            andThen (waited api lbID) (\<lambda>_. give members))
          else
            (case popMember members addr (sp_NodePort port) of None \<Rightarrow> panic | Some members \<Rightarrow> give members))"

fun syncMembers ::
  "'c lbaasAPI \<Rightarrow> LoadBalancerOpts \<Rightarrow> string \<Rightarrow> string \<Rightarrow> ServicePort \<Rightarrow> Node list \<Rightarrow> osMember list \<Rightarrow> ('c, osMember list) osStep" where
  "syncMembers api opts lbID poolID port [] members = give members"
| "syncMembers api opts lbID poolID port (node # nodes) members =
     andThen (syncMember api opts lbID poolID port members node) (syncMembers api opts lbID poolID port nodes)"

definition deleteMember :: "'c lbaasAPI \<Rightarrow> string \<Rightarrow> string \<Rightarrow> osMember \<Rightarrow> ('c, unit) osStep" where
  "deleteMember api lbID poolID member =
     andThen (tolerant (lb_DeleteMember api poolID (me_ID member))
                (OsWrapf ''Error deleting obsolete member %s for pool %s address %s: %v'' [me_ID member, poolID, me_Address member])) (\<lambda>_.
     waited api lbID)"

text \<open>A lookup whose \<open>ErrNotFound\<close> is no error.\<close>

definition findPool :: "'c lbaasAPI \<Rightarrow> string \<Rightarrow> string \<Rightarrow> (osErr \<Rightarrow> osErr) \<Rightarrow> ('c, osPool option) osStep" where
  "findPool api lbID listenerID wrap =
     reading (\<lambda>c. case getPoolByListenerID api lbID listenerID c of
        Inl err \<Rightarrow> if err = ErrNotFound then Inr None else Inl (wrap err)
      | Inr pool \<Rightarrow> Inr (Some pool))"

definition poolMembers :: "'c lbaasAPI \<Rightarrow> string \<Rightarrow> (osErr \<Rightarrow> osErr) \<Rightarrow> ('c, osMember list) osStep" where
  "poolMembers api poolID wrap =
     reading (\<lambda>c. case getMembersByPoolID api poolID c of
        Inl err \<Rightarrow> if isNotFound err then Inr [] else Inl (wrap err)
      | Inr members \<Rightarrow> Inr members)"

definition ensureListener ::
  "'c lbaasAPI \<Rightarrow> string \<Rightarrow> string \<Rightarrow> nat \<Rightarrow> ServicePort \<Rightarrow> osListener list \<Rightarrow> ('c, osListener) osStep" where
  "ensureListener api lbID lbName portIndex port oldListeners =
     (case getListenerForPort oldListeners port of
        Some listener \<Rightarrow> give listener
      | None \<Rightarrow>
          andThen (changing (wrapping (OsWrapf ''Error creating LB listener: %v'' [])
            (lb_CreateListener api (''listener_'' @ lbName @ ''_'' @ FormatUint portIndex) (sp_Protocol port) (sp_Port port) lbID))) (\<lambda>listener.
          andThen (waited api lbID) (\<lambda>_. give listener)))"

definition ensurePool ::
  "'c lbaasAPI \<Rightarrow> string \<Rightarrow> string \<Rightarrow> nat \<Rightarrow> ServicePort \<Rightarrow> string \<Rightarrow> string option \<Rightarrow> string \<Rightarrow> ('c, osPool) osStep" where
  "ensurePool api lbID lbName portIndex port lbmethod persistence listenerID =
     andThen (findPool api lbID listenerID (OsWrapf ''Error getting pool for listener %s: %v'' [listenerID])) (\<lambda>pool.
     case pool of
       Some pool \<Rightarrow> give pool
     | None \<Rightarrow>
         andThen (changing (wrapping (OsWrapf ''Error creating pool for listener %s: %v'' [listenerID])
           (lb_CreatePool api
              \<lparr>pp_Name = ''pool_'' @ lbName @ ''_'' @ FormatUint portIndex, pp_Protocol = sp_Protocol port,
               pp_LBMethod = lbmethod, pp_ListenerID = listenerID, pp_Persistence = persistence\<rparr>))) (\<lambda>pool.
         andThen (waited api lbID) (\<lambda>_. give pool)))"

definition ensureMonitor :: "'c lbaasAPI \<Rightarrow> osKubeLib \<Rightarrow> LoadBalancerOpts \<Rightarrow> string \<Rightarrow> ServicePort \<Rightarrow> osPool \<Rightarrow> ('c, unit) osStep" where
  "ensureMonitor api kube opts lbID port pool =
     (if po_MonitorID pool = '''' \<and> lo_CreateMonitor opts then
        andThen (changing (wrapping (OsWrapf ''Error creating LB pool healthmonitor: %v'' [])
          (lb_CreateMonitor api (po_ID pool) (sp_Protocol port) (ok_Seconds kube (lo_MonitorDelay opts))
             (ok_Seconds kube (lo_MonitorTimeout opts)) (lo_MonitorMaxRetries opts)))) (\<lambda>_.
        waited api lbID)
      else give ())"

text \<open>One port of the service; it answers with the old listeners that are still to be deleted.\<close>

definition syncPort ::
  "'c lbaasAPI \<Rightarrow> osKubeLib \<Rightarrow> LoadBalancerOpts \<Rightarrow> string \<Rightarrow> string \<Rightarrow> string option \<Rightarrow> Node list \<Rightarrow> nat \<Rightarrow> ServicePort \<Rightarrow>
   osListener list \<Rightarrow> ('c, osListener list) osStep" where
  "syncPort api kube opts lbID lbName persistence nodes portIndex port oldListeners =
     (let lbmethod = (if lo_LBMethod opts = '''' then ''ROUND_ROBIN'' else lo_LBMethod opts) in
      andThen (ensureListener api lbID lbName portIndex port oldListeners) (\<lambda>listener.
      andThen (ensurePool api lbID lbName portIndex port lbmethod persistence (lis_ID listener)) (\<lambda>pool.
      andThen (poolMembers api (po_ID pool) (OsWrapf ''Error getting pool members %s: %v'' [po_ID pool])) (\<lambda>members.
      andThen (syncMembers api opts lbID (po_ID pool) port nodes members) (\<lambda>obsolete.
      andThen (each (deleteMember api lbID (po_ID pool)) obsolete) (\<lambda>_.
      andThen (ensureMonitor api kube opts lbID port pool) (\<lambda>_.
      give (popListener oldListeners (lis_ID listener)))))))))"

fun syncPorts ::
  "'c lbaasAPI \<Rightarrow> osKubeLib \<Rightarrow> LoadBalancerOpts \<Rightarrow> string \<Rightarrow> string \<Rightarrow> string option \<Rightarrow> Node list \<Rightarrow> nat \<Rightarrow> ServicePort list \<Rightarrow>
   osListener list \<Rightarrow> ('c, osListener list) osStep" where
  "syncPorts api kube opts lbID lbName persistence nodes portIndex [] oldListeners = give oldListeners"
| "syncPorts api kube opts lbID lbName persistence nodes portIndex (port # ports) oldListeners =
     andThen (syncPort api kube opts lbID lbName persistence nodes portIndex port oldListeners)
       (syncPorts api kube opts lbID lbName persistence nodes (Suc portIndex) ports)"

text \<open>An obsolete listener goes with its monitor, its members and its pool.\<close>

definition deleteObsoletePool :: "'c lbaasAPI \<Rightarrow> string \<Rightarrow> string \<Rightarrow> osPool \<Rightarrow> ('c, unit) osStep" where
  "deleteObsoletePool api lbID listenerID pool =
     andThen (if po_MonitorID pool \<noteq> '''' then
                andThen (tolerant (lb_DeleteMonitor api (po_MonitorID pool))
                           (OsWrapf ''Error deleting obsolete monitor %s for pool %s: %v'' [po_MonitorID pool, po_ID pool])) (\<lambda>_.
                waited api lbID)
              else give ()) (\<lambda>_.
     andThen (poolMembers api (po_ID pool) (OsWrapf ''Error getting members for pool %s: %v'' [po_ID pool])) (\<lambda>members.
     andThen (each (deleteMember api lbID (po_ID pool)) members) (\<lambda>_.
     andThen (tolerant (lb_DeletePool api (po_ID pool))
                (OsWrapf ''Error deleting obsolete pool %s for listener %s: %v'' [po_ID pool, listenerID])) (\<lambda>_.
     waited api lbID))))"

definition deleteObsoleteListener :: "'c lbaasAPI \<Rightarrow> string \<Rightarrow> osListener \<Rightarrow> ('c, unit) osStep" where
  "deleteObsoleteListener api lbID listener =
     andThen (findPool api lbID (lis_ID listener) (OsWrapf ''Error getting pool for obsolete listener %s: %v'' [lis_ID listener])) (\<lambda>pool.
     andThen (case pool of None \<Rightarrow> give () | Some pool \<Rightarrow> deleteObsoletePool api lbID (lis_ID listener) pool) (\<lambda>_.
     andThen (tolerant (lb_DeleteListener api (lis_ID listener)) (OsWrapf ''Error deleteting obsolete listener: %v'' [])) (\<lambda>_.
     waited api lbID)))"

section \<open>EnsureLoadBalancerDeleted\<close>

definition findLoadbalancer :: "'c lbaasAPI \<Rightarrow> string \<Rightarrow> (osErr \<Rightarrow> osErr) \<Rightarrow> ('c, loadBalancer option) osStep" where
  "findLoadbalancer api lbName wrap =
     reading (\<lambda>c. case getLoadbalancerByName api lbName c of
        Inl err \<Rightarrow> if err = ErrNotFound then Inr None else Inl (wrap err)
      | Inr b \<Rightarrow> Inr (Some b))"

definition findFloatingIP :: "'c lbaasAPI \<Rightarrow> string \<Rightarrow> (osErr \<Rightarrow> osErr) \<Rightarrow> ('c, (string \<times> string) option) osStep" where
  "findFloatingIP api portID wrap =
     reading (\<lambda>c. case getFloatingIPByPortID api portID c of
        Inl err \<Rightarrow> if err = ErrNotFound then Inr None else Inl (wrap err)
      | Inr ip \<Rightarrow> Inr (Some ip))"

definition deleteFloatingIP :: "'c lbaasAPI \<Rightarrow> LoadBalancerOpts \<Rightarrow> string \<Rightarrow> ('c, unit) osStep" where
  "deleteFloatingIP api opts portID =
     (if lo_FloatingNetworkID opts \<noteq> '''' then
        andThen (findFloatingIP api portID id) (\<lambda>ip.
        case ip of None \<Rightarrow> give () | Some ip \<Rightarrow> tolerant (lb_DeleteFloatingIP api (fst ip)) id)
      else give ())"

text \<open>A listener without a pool has a nil pool, which is dereferenced.\<close>

fun collectPools :: "'c lbaasAPI \<Rightarrow> string \<Rightarrow> osListener list \<Rightarrow> ('c, osPool list) osStep" where
  "collectPools api lbID [] = give []"
| "collectPools api lbID (listener # ls) =
     andThen (findPool api lbID (lis_ID listener) (OsWrapf ''Error getting pool for listener %s: %v'' [lis_ID listener])) (\<lambda>pool.
     case pool of
       None \<Rightarrow> panic
     | Some pool \<Rightarrow> andThen (collectPools api lbID ls) (\<lambda>ps. give (pool # ps)))"

fun collectMembers :: "'c lbaasAPI \<Rightarrow> string list \<Rightarrow> ('c, string list) osStep" where
  "collectMembers api [] = give []"
| "collectMembers api (poolID # poolIDs) =
     andThen (poolMembers api poolID (OsWrapf ''Error getting pool members %s: %v'' [poolID])) (\<lambda>members.
     andThen (collectMembers api poolIDs) (\<lambda>ms. give (map me_ID members @ ms)))"

definition deleteAndWait :: "'c lbaasAPI \<Rightarrow> string \<Rightarrow> ('c \<Rightarrow> osErr option \<times> 'c) \<Rightarrow> ('c, unit) osStep" where
  "deleteAndWait api lbID call = andThen (tolerant call id) (\<lambda>_. waited api lbID)"

definition deletePools :: "'c lbaasAPI \<Rightarrow> string \<Rightarrow> string list \<Rightarrow> string list \<Rightarrow> ('c, unit) osStep" where
  "deletePools api lbID poolIDs memberIDs =
     each (\<lambda>poolID.
       andThen (each (\<lambda>memberID. deleteAndWait api lbID (lb_DeleteMember api poolID memberID)) memberIDs) (\<lambda>_.
       deleteAndWait api lbID (lb_DeletePool api poolID))) poolIDs"

definition deleteSecurityGroup :: "'c lbaasAPI \<Rightarrow> LoadBalancerOpts \<Rightarrow> string \<Rightarrow> Service \<Rightarrow> ('c, unit) osStep" where
  "deleteSecurityGroup api opts clusterName service =
     (\<lambda>c. case lb_GroupIDFromName api (getSecurityGroupName clusterName service) c of
        Inl err \<Rightarrow> (Returned (), c)
      | Inr groupID \<Rightarrow>
          andThen (tolerant (lb_DeleteGroup api groupID) id) (\<lambda>_.
          andThen (reading (\<lambda>c. case getSecurityGroupRules api (lo_NodeSecurityGroupID opts) groupID c of
             Inl err \<Rightarrow> if isNotFound err then Inr [] else Inl err
           | Inr rules \<Rightarrow> Inr rules)) (\<lambda>rules.
          each (\<lambda>ruleID c. (Returned (), snd (lb_DeleteRule api ruleID c))) rules)) c)"

definition v2_EnsureLoadBalancerDeleted :: "'c lbaasAPI \<Rightarrow> LoadBalancerOpts \<Rightarrow> string \<Rightarrow> Service \<Rightarrow> ('c, unit) osStep" where
  "v2_EnsureLoadBalancerDeleted api opts clusterName service =
     andThen (findLoadbalancer api (GetLoadBalancerName service) id) (\<lambda>b.
     case b of
       None \<Rightarrow> give ()
     | Some b \<Rightarrow>
         let lbID = ba_ID b in
         andThen (deleteFloatingIP api opts (ba_VipPortID b)) (\<lambda>_.
         andThen (reading (\<lambda>c. map_sum (OsWrapf ''Error getting LB %s listeners: %v'' [lbID]) id (getListenersByLoadBalancerID api lbID c))) (\<lambda>listenerList.
         andThen (collectPools api lbID listenerList) (\<lambda>pools.
         andThen (collectMembers api (map po_ID pools)) (\<lambda>memberIDs.
         andThen (each (\<lambda>pool. deleteAndWait api lbID (lb_DeleteMonitor api (po_MonitorID pool))) pools) (\<lambda>_.
         andThen (deletePools api lbID (map po_ID pools) memberIDs) (\<lambda>_.
         andThen (each (\<lambda>listener. deleteAndWait api lbID (lb_DeleteListener api (lis_ID listener))) listenerList) (\<lambda>_.
         andThen (tolerant (lb_Delete api lbID) id) (\<lambda>_.
         andThen (\<lambda>c. (Returned (), snd (waitLoadbalancerDeleted api lbID c))) (\<lambda>_.
         if lo_ManageSecurityGroups opts then deleteSecurityGroup api opts clusterName service else give ()))))))))))"

section \<open>EnsureLoadBalancer\<close>

definition createLoadBalancer :: "'c lbaasAPI \<Rightarrow> LoadBalancerOpts \<Rightarrow> Service \<Rightarrow> string \<Rightarrow> 'c \<Rightarrow> (osErr + loadBalancer) \<times> 'c" where
  "createLoadBalancer api opts service lbName c =
     (case lb_Create api lbName (''Kubernetes external service '' @ lbName) (lo_SubnetID opts) (sv_LoadBalancerIP service) c of
        (Inl err, c) \<Rightarrow> (Inl (OsWrapf ''Error creating loadbalancer %v: %v'' [lbName] err), c)
      | (Inr b, c) \<Rightarrow> (Inr b, c))"

definition v2_GetLoadBalancer :: "'c lbaasAPI \<Rightarrow> Service \<Rightarrow> 'c \<Rightarrow> osErr + string list option" where
  "v2_GetLoadBalancer api service c =
     (case getLoadbalancerByName api (GetLoadBalancerName service) c of
        Inl err \<Rightarrow> if err = ErrNotFound then Inr None else Inl err
      | Inr b \<Rightarrow> Inr (Some [ba_VipAddress b]))"

definition groupRule :: "int \<Rightarrow> int \<Rightarrow> string \<Rightarrow> string \<Rightarrow> string \<Rightarrow> string \<Rightarrow> string \<Rightarrow> ruleOpts" where
  "groupRule portMax portMin protocol remoteGroup remotePrefix secGroup etherType =
     \<lparr>ru_PortRangeMax = portMax, ru_PortRangeMin = portMin, ru_Protocol = protocol, ru_RemoteGroupID = remoteGroup,
      ru_RemoteIPPrefix = remotePrefix, ru_SecGroupID = secGroup, ru_EtherType = etherType\<rparr>"

definition createNodeSecurityGroup :: "'c lbaasAPI \<Rightarrow> string \<Rightarrow> int \<Rightarrow> string \<Rightarrow> string \<Rightarrow> ('c, unit) osStep" where
  "createNodeSecurityGroup api nodeSecurityGroupID port protocol lbSecGroup =
     andThen (request_call (lb_CreateRule api
                (groupRule port port (toRuleProtocol protocol) lbSecGroup '''' nodeSecurityGroupID ''IPv4'')) id) (\<lambda>_.
     request_call (lb_CreateRule api
       (groupRule port port (toRuleProtocol protocol) lbSecGroup '''' nodeSecurityGroupID ''IPv6'')) id)"

text \<open>
  The rules of the balancer's group: every port from every source range, ICMP, and the node ports
  of the nodes' group. The group is created anew on every call.
\<close>

definition openPort ::
  "'c lbaasAPI \<Rightarrow> osKubeLib \<Rightarrow> LoadBalancerOpts \<Rightarrow> string \<Rightarrow> string list \<Rightarrow> ServicePort \<Rightarrow> ('c, unit) osStep" where
  "openPort api kube opts groupID ranges port =
     andThen (each (\<lambda>range.
                andThen (reading (\<lambda>_. ok_ParseCIDR kube range)) (\<lambda>isV4.
                request_call (lb_CreateRule api
                  (groupRule (sp_Port port) (sp_Port port) (toRuleProtocol (sp_Protocol port)) '''' range groupID
                     (if isV4 then ''IPv4'' else ''IPv6''))) id)) ranges) (\<lambda>_.
     createNodeSecurityGroup api (lo_NodeSecurityGroupID opts) (sp_NodePort port) (sp_Protocol port) groupID)"

definition ensureSecurityGroups ::
  "'c lbaasAPI \<Rightarrow> osKubeLib \<Rightarrow> LoadBalancerOpts \<Rightarrow> string \<Rightarrow> Service \<Rightarrow> string list \<Rightarrow> string \<Rightarrow> ('c, unit) osStep" where
  "ensureSecurityGroups api kube opts clusterName service ranges portID =
     andThen (changing (lb_CreateGroup api (getSecurityGroupName clusterName service)
                (''Securty Group for '' @ sv_Name service @ '' Service LoadBalancer''))) (\<lambda>groupID.
     andThen (each (openPort api kube opts groupID ranges) (sv_Ports service)) (\<lambda>_.
     andThen (request_call (lb_CreateRule api (groupRule 4 3 ''icmp'' '''' ''0.0.0.0/0'' groupID ''IPv4'')) id) (\<lambda>_.
     andThen (request_call (lb_CreateRule api (groupRule 0 2 ''icmp'' '''' ''::/0'' groupID ''IPv6'')) id) (\<lambda>_.
     request_call (lb_UpdatePortGroups api portID [groupID]) id))))"

text \<open>Any failure in it deletes the whole balancer, and the error of that is dropped.\<close>

definition cleaningUp :: "('c, unit) osStep \<Rightarrow> ('c, 'a) osStep \<Rightarrow> ('c, 'a) osStep" where
  "cleaningUp cleanup m =
     recovering m (\<lambda>err. andThen (recovering cleanup (\<lambda>_. give ())) (\<lambda>_. failing err))"

definition v2_checkService ::
  "osKubeLib \<Rightarrow> LoadBalancerOpts \<Rightarrow> Service \<Rightarrow> osErr + string list \<times> string option" where
  "v2_checkService kube opts service =
     (if length (sv_Ports service) = 0 then Inl (OsErrorf ''no ports provided to openstack load balancer'' [])
      else if list_ex (\<lambda>port. sp_Protocol port \<noteq> ''TCP'') (sv_Ports service) then
        Inl (OsErrorf ''Only TCP LoadBalancer is supported for openstack load balancers'' [])
      else
        and_then (ok_SourceRanges kube service) (\<lambda>ranges.
        if \<not> ok_IsAllowAll kube ranges \<and> \<not> lo_ManageSecurityGroups opts then
          Inl (OsErrorf ''Source range restrictions are not supported for openstack load balancers without managing security groups'' [])
        else if sv_SessionAffinity service = ''None'' then Inr (ranges, None)
        else if sv_SessionAffinity service = ''ClientIP'' then Inr (ranges, Some ''SOURCE_IP'')
        else Inl (OsErrorf ''unsupported load balancer affinity: %v'' [sv_SessionAffinity service])))"

definition ensureBalancer :: "'c lbaasAPI \<Rightarrow> LoadBalancerOpts \<Rightarrow> Service \<Rightarrow> ('c, loadBalancer) osStep" where
  "ensureBalancer api opts service =
     (let lbName = GetLoadBalancerName service in
      andThen (findLoadbalancer api lbName (OsWrapf ''Error getting loadbalancer %s: %v'' [lbName])) (\<lambda>b.
      case b of
        Some b \<Rightarrow> give b
      | None \<Rightarrow>
          changing (wrapping (OsWrapf ''Error creating loadbalancer %s: %v'' [lbName]) (createLoadBalancer api opts service lbName))))"

definition ensureFloatingIP :: "'c lbaasAPI \<Rightarrow> LoadBalancerOpts \<Rightarrow> string \<Rightarrow> ('c, string list) osStep" where
  "ensureFloatingIP api opts portID =
     andThen (findFloatingIP api portID (OsWrapf ''Error getting floating ip for port %s: %v'' [portID])) (\<lambda>ip.
     case ip of
       Some ip \<Rightarrow> give [snd ip]
     | None \<Rightarrow>
         if lo_FloatingNetworkID opts \<noteq> '''' then
           andThen (changing (wrapping (OsWrapf ''Error creating LB floatingip %+v: %v'' [lo_FloatingNetworkID opts, portID])
             (lb_CreateFloatingIP api (lo_FloatingNetworkID opts) portID))) (\<lambda>ip. give [snd ip])
         else give [])"

definition v2_EnsureLoadBalancer ::
  "'c lbaasAPI \<Rightarrow> osKubeLib \<Rightarrow> LoadBalancerOpts \<Rightarrow> string \<Rightarrow> Service \<Rightarrow> Node list \<Rightarrow> ('c, string list) osStep" where
  "v2_EnsureLoadBalancer api kube opts clusterName service nodes =
     andThen (reading (\<lambda>_. v2_checkService kube opts service)) (\<lambda>(ranges, persistence).
     andThen (ensureBalancer api opts service) (\<lambda>b.
     andThen (waited api (ba_ID b)) (\<lambda>_.
     andThen (reading (\<lambda>c. map_sum (OsWrapf ''Error getting LB %s listeners: %v'' [GetLoadBalancerName service]) id
                (getListenersByLoadBalancerID api (ba_ID b) c))) (\<lambda>oldListeners.
     andThen (syncPorts api kube opts (ba_ID b) (GetLoadBalancerName service) persistence nodes 0 (sv_Ports service) oldListeners) (\<lambda>obsolete.
     andThen (each (deleteObsoleteListener api (ba_ID b)) obsolete) (\<lambda>_.
     andThen (ensureFloatingIP api opts (ba_VipPortID b)) (\<lambda>ips.
     andThen (if lo_ManageSecurityGroups opts then
                cleaningUp (v2_EnsureLoadBalancerDeleted api opts clusterName service)
                  (ensureSecurityGroups api kube opts clusterName service ranges (ba_VipPortID b))
              else give ()) (\<lambda>_.
     give (ba_VipAddress b # ips)))))))))"

section \<open>UpdateLoadBalancer\<close>

definition listenersByKey :: "osListener list \<Rightarrow> (string \<times> int, osListener) fmap" where
  "listenersByKey ls = foldl (\<lambda>m l. fmupd (lis_Protocol l, lis_ProtocolPort l) l m) fmempty ls"

fun poolsByListener :: "'c lbaasAPI \<Rightarrow> string \<Rightarrow> string list \<Rightarrow> osPool gomap \<Rightarrow> 'c \<Rightarrow> osErr + osPool gomap" where
  "poolsByListener api lbID [] m c = Inr m"
| "poolsByListener api lbID (listenerID # ids) m c =
     (case getPoolByListenerID api lbID listenerID c of
        Inl err \<Rightarrow> Inl (OsWrapf ''Error getting pool for listener %s: %v'' [listenerID] err)
      | Inr pool \<Rightarrow> poolsByListener api lbID ids (fmupd listenerID pool m) c)"

fun nodeAddrs :: "Node list \<Rightarrow> string fset \<Rightarrow> osErr + string fset" where
  "nodeAddrs [] addrs = Inr addrs"
| "nodeAddrs (node # nodes) addrs =
     (case nodeAddressForLB node of Inl err \<Rightarrow> Inl err | Inr addr \<Rightarrow> nodeAddrs nodes (finsert addr addrs))"

definition membersByAddress :: "osMember list \<Rightarrow> osMember gomap" where
  "membersByAddress ms = foldl (\<lambda>m member. fmupd (me_Address member) member m) fmempty ms"

definition updatePort ::
  "'c lbaasAPI \<Rightarrow> LoadBalancerOpts \<Rightarrow> string \<Rightarrow> string \<Rightarrow> (string \<times> int, osListener) fmap \<Rightarrow> osPool gomap \<Rightarrow> string fset \<Rightarrow>
   ServicePort \<Rightarrow> ('c, unit) osStep" where
  "updatePort api opts lbID lbName lbListeners lbPools addrs port =
     (case fmlookup lbListeners (toListenersProtocol (sp_Protocol port), sp_Port port) of
        None \<Rightarrow> failing (OsErrorf ''Loadbalancer %s does not contain required listener for port and protocol %s'' [lbName, sp_Protocol port])
      | Some listener \<Rightarrow>
          (case fmlookup lbPools (lis_ID listener) of
             None \<Rightarrow> failing (OsErrorf ''Loadbalancer %s does not contain required pool for listener %s'' [lbName, lis_ID listener])
           | Some pool \<Rightarrow>
               andThen (reading (\<lambda>c. map_sum (OsWrapf ''Error getting pool members %s: %v'' [po_ID pool]) id (getMembersByPoolID api (po_ID pool) c))) (\<lambda>getMembers.
               let members = membersByAddress getMembers
               in andThen (\<lambda>c. each (\<lambda>addr.
                    if (case fmlookup members addr of None \<Rightarrow> False | Some m \<Rightarrow> me_ProtocolPort m = sp_NodePort port) then give ()
                    else andThen (request_call (lb_CreateMember api (po_ID pool) addr (sp_NodePort port) (lo_SubnetID opts)) id) (\<lambda>_.
                         waited api lbID)) (lb_range api addrs c) c) (\<lambda>_.
                  (\<lambda>c. each (\<lambda>addr.
                    case fmlookup members addr of
                      None \<Rightarrow> give ()
                    | Some member \<Rightarrow>
                        if me_Address member |\<in>| addrs \<and> me_ProtocolPort member = sp_NodePort port then give ()
                        else deleteAndWait api lbID (lb_DeleteMember api (po_ID pool) (me_ID member)))
                    (lb_range api (fmdom members) c) c)))))"

definition v2_UpdateLoadBalancer :: "'c lbaasAPI \<Rightarrow> LoadBalancerOpts \<Rightarrow> Service \<Rightarrow> Node list \<Rightarrow> ('c, unit) osStep" where
  "v2_UpdateLoadBalancer api opts service nodes =
     (let lbName = GetLoadBalancerName service in
      if length (sv_Ports service) = 0 then failing (OsErrorf ''no ports provided to openstack load balancer'' [])
      else
        andThen (reading (getLoadbalancerByName api lbName)) (\<lambda>b.
        andThen (reading (\<lambda>c. map_sum (OsWrapf ''Error getting listeners for LB %s: %v'' [lbName]) id (getListenersByLoadBalancerID api (ba_ID b) c))) (\<lambda>allListeners.
        andThen (reading (poolsByListener api (ba_ID b) (map lis_ID allListeners) fmempty)) (\<lambda>lbPools.
        andThen (reading (\<lambda>_. nodeAddrs nodes {||})) (\<lambda>addrs.
        each (updatePort api opts (ba_ID b) lbName (listenersByKey allListeners) lbPools addrs) (sv_Ports service))))))"

end
