(* ===== verification/OpenStackServing.thy ===== *)
theory OpenStackServing
  imports OpenStackBalancer
begin

text \<open>
  What \<open>EnsureLoadBalancer\<close> makes of a balancer of the second version: every port of the service has a
  listener whose pool has the nodes as members, and nothing else is left. The service behind the
  client is described by a view of its state: the listeners of one balancer, the pool of a listener,
  the members of a pool.
\<close>

record lbView =
  vw_listeners :: "osListener list"
  vw_pool :: "string \<Rightarrow> osPool option"
  vw_members :: "string \<Rightarrow> osMember list"

definition gone :: "osErr option \<Rightarrow> bool" where
  "gone res \<longleftrightarrow> (case res of None \<Rightarrow> True | Some err \<Rightarrow> isNotFound err)"

text \<open>What \<open>wait.ExponentialBackoff\<close> documents.\<close>

fun os_polls :: "nat \<Rightarrow> ('s \<Rightarrow> (osErr + bool) \<times> 's) \<Rightarrow> 's \<Rightarrow> osErr option \<times> 's" where
  "os_polls 0 cond s = (Some ErrWaitTimeout, s)"
| "os_polls (Suc n) cond s =
     (case cond s of
        (Inl err, s) \<Rightarrow> (Some err, s)
      | (Inr True, s) \<Rightarrow> (None, s)
      | (Inr False, s) \<Rightarrow> os_polls n cond s)"

definition lbaas_reads :: "'c lbaasAPI \<Rightarrow> string \<Rightarrow> ('c \<Rightarrow> lbView) \<Rightarrow> bool" where
  "lbaas_reads api L view \<longleftrightarrow>
     (\<forall>c x. getListenersByLoadBalancerID api L c = Inr x \<longrightarrow> x = vw_listeners (view c)) \<and>
     (\<forall>c lid p. getPoolByListenerID api L lid c = Inr p \<longrightarrow> vw_pool (view c) lid = Some p) \<and>
     (\<forall>c lid. getPoolByListenerID api L lid c = Inl ErrNotFound \<longrightarrow> vw_pool (view c) lid = None) \<and>
     (\<forall>c pid x. getMembersByPoolID api pid c = Inr x \<longrightarrow> x = vw_members (view c) pid) \<and>
     (\<forall>c pid err. getMembersByPoolID api pid c = Inl err \<longrightarrow> isNotFound err \<longrightarrow> vw_members (view c) pid = [])"

definition lbaas_writes :: "'c lbaasAPI \<Rightarrow> string \<Rightarrow> ('c \<Rightarrow> lbView) \<Rightarrow> bool" where
  "lbaas_writes api L view \<longleftrightarrow>
     (\<forall>n proto port c l c'. lb_CreateListener api n proto port L c = (Inr l, c') \<longrightarrow>
        lis_Protocol l = proto \<and> lis_ProtocolPort l = port \<and> lis_ID l \<notin> lis_ID ` set (vw_listeners (view c)) \<and>
        view c' = view c\<lparr>vw_listeners := vw_listeners (view c) @ [l]\<rparr>) \<and>
     (\<forall>opts c p c'. lb_CreatePool api opts c = (Inr p, c') \<longrightarrow>
        (\<forall>lid q. vw_pool (view c) lid = Some q \<longrightarrow> po_ID q \<noteq> po_ID p) \<and> vw_members (view c) (po_ID p) = [] \<and>
        view c' = view c\<lparr>vw_pool := (vw_pool (view c))(pp_ListenerID opts := Some p)\<rparr>) \<and>
     (\<forall>pid addr port subnet c c'. lb_CreateMember api pid addr port subnet c = (None, c') \<longrightarrow>
        (\<exists>m. sameEndpoint addr port m \<and> me_ID m \<notin> me_ID ` set (vw_members (view c) pid) \<and>
           view c' = view c\<lparr>vw_members := (vw_members (view c))(pid := vw_members (view c) pid @ [m])\<rparr>)) \<and>
     (\<forall>pid mid c res c'. lb_DeleteMember api pid mid c = (res, c') \<longrightarrow> gone res \<longrightarrow>
        view c' = view c\<lparr>vw_members := (vw_members (view c))(pid := filter (\<lambda>m. me_ID m \<noteq> mid) (vw_members (view c) pid))\<rparr>) \<and>
     (\<forall>lid c res c'. lb_DeleteListener api lid c = (res, c') \<longrightarrow> gone res \<longrightarrow>
        view c' = view c\<lparr>vw_listeners := filter (\<lambda>l. lis_ID l \<noteq> lid) (vw_listeners (view c))\<rparr>) \<and>
     (\<forall>pid c res c'. lb_DeletePool api pid c = (res, c') \<longrightarrow> gone res \<longrightarrow>
        view c' = view c\<lparr>vw_pool := (\<lambda>lid. case vw_pool (view c) lid of None \<Rightarrow> None | Some p \<Rightarrow> if po_ID p = pid then None else Some p)\<rparr>)"

text \<open>The other calls are about other things.\<close>

definition lbaas_frame :: "'c lbaasAPI \<Rightarrow> ('c \<Rightarrow> lbView) \<Rightarrow> bool" where
  "lbaas_frame api view \<longleftrightarrow>
     (\<forall>x c. view (snd (lb_GetStatus api x c)) = view c) \<and>
     (\<forall>x c. view (snd (lb_DeleteMonitor api x c)) = view c) \<and>
     (\<forall>p t d o' r c. view (snd (lb_CreateMonitor api p t d o' r c)) = view c) \<and>
     (\<forall>n p c. view (snd (lb_CreateFloatingIP api n p c)) = view c) \<and>
     (\<forall>n d c. view (snd (lb_CreateGroup api n d c)) = view c) \<and>
     (\<forall>r c. view (snd (lb_CreateRule api r c)) = view c) \<and>
     (\<forall>p g c. view (snd (lb_UpdatePortGroups api p g c)) = view c) \<and>
     lb_Backoff api = os_polls"

definition lbaas_honest :: "'c lbaasAPI \<Rightarrow> string \<Rightarrow> ('c \<Rightarrow> lbView) \<Rightarrow> bool" where
  "lbaas_honest api L view \<longleftrightarrow> lbaas_reads api L view \<and> lbaas_writes api L view \<and> lbaas_frame api view"

section \<open>Waiting keeps the view\<close>

lemma os_polls_keeps:
  assumes "\<And>s. f (snd (cond s)) = f s"
  shows "f (snd (os_polls n cond s)) = f s"
proof (induction n arbitrary: s)
  case (Suc n)
  then show ?case using assms [of s] by (auto split: prod.split sum.split bool.split)
qed simp

lemma waited_keeps:
  assumes "lbaas_frame api view"
  shows "view (snd (waited api L c)) = view c"
proof -
  define cond where "cond = (\<lambda>(c, status :: string).
      case lb_GetStatus api L c of
        (Inl err, c) \<Rightarrow> (Inl err, c, status)
      | (Inr s, c) \<Rightarrow>
          (if s = ''ACTIVE'' then Inr True
           else if s = ''ERROR'' then Inl (OsErrorf ''Loadbalancer has gone into ERROR state'' [])
           else Inr False, c, s))"
  have status: "view (snd (lb_GetStatus api L c)) = view c" for c
    using assms by (simp add: lbaas_frame_def)
  have "view (fst (snd (cond s))) = view (fst s)" for s
    using status [of "fst s"] by (cases s; cases "lb_GetStatus api L (fst s)") (auto simp: cond_def split: sum.split)
  then have "view (fst (snd (os_polls 19 cond (c, '''')))) = view (fst (c, '''' :: string))"
    by (rule os_polls_keeps [where f = "\<lambda>s. view (fst s)"])
  moreover have "lb_Backoff api = os_polls" using assms by (simp add: lbaas_frame_def)
  ultimately show ?thesis
    by (cases "os_polls 19 cond (c, '''')")
      (simp add: waited_def waitLoadbalancerActiveProvisioningStatus_def cond_def [symmetric])
qed

lemma waited_Returned: "waited api L c = (res, c') \<Longrightarrow> res = Returned () \<and> c' = snd (waited api L c)"
  by (auto simp: waited_def)

lemma tolerant_Returned: "tolerant m w c = (Returned u, c') \<longleftrightarrow> (\<exists>res. m c = (res, c') \<and> gone res)"
  by (cases u) (auto simp: tolerant_def gone_def split: prod.split option.splits)

section \<open>The calls on the view\<close>

lemma honestD:
  assumes "lbaas_honest api L view"
  shows "getListenersByLoadBalancerID api L c = Inr x \<Longrightarrow> x = vw_listeners (view c)"
    and "getPoolByListenerID api L lid c = Inr p \<Longrightarrow> vw_pool (view c) lid = Some p"
    and "getPoolByListenerID api L lid c = Inl ErrNotFound \<Longrightarrow> vw_pool (view c) lid = None"
    and "getMembersByPoolID api pid c = Inr xs \<Longrightarrow> xs = vw_members (view c) pid"
    and "getMembersByPoolID api pid c = Inl err \<Longrightarrow> isNotFound err \<Longrightarrow> vw_members (view c) pid = []"
  using assms unfolding lbaas_honest_def lbaas_reads_def by blast+

lemma honest_writes: "lbaas_honest api L view \<Longrightarrow> lbaas_writes api L view"
  by (simp add: lbaas_honest_def)

lemma created_listener:
  assumes "lbaas_honest api L view" and "lb_CreateListener api n proto port L c = (Inr l, c')"
  shows "lis_Protocol l = proto \<and> lis_ProtocolPort l = port \<and> lis_ID l \<notin> lis_ID ` set (vw_listeners (view c)) \<and>
    view c' = view c\<lparr>vw_listeners := vw_listeners (view c) @ [l]\<rparr>"
  by (rule honest_writes [OF assms(1), unfolded lbaas_writes_def, THEN conjunct1, rule_format, OF assms(2)])

lemma created_pool:
  assumes "lbaas_honest api L view" and "lb_CreatePool api opts c = (Inr p, c')"
  shows "(\<forall>lid q. vw_pool (view c) lid = Some q \<longrightarrow> po_ID q \<noteq> po_ID p) \<and> vw_members (view c) (po_ID p) = [] \<and>
    view c' = view c\<lparr>vw_pool := (vw_pool (view c))(pp_ListenerID opts := Some p)\<rparr>"
  by (rule honest_writes [OF assms(1), unfolded lbaas_writes_def, THEN conjunct2, THEN conjunct1, rule_format, OF assms(2)])

lemma created_member:
  assumes "lbaas_honest api L view" and "lb_CreateMember api pid addr port subnet c = (None, c')"
  shows "\<exists>m. sameEndpoint addr port m \<and> me_ID m \<notin> me_ID ` set (vw_members (view c) pid) \<and>
    view c' = view c\<lparr>vw_members := (vw_members (view c))(pid := vw_members (view c) pid @ [m])\<rparr>"
  by (rule honest_writes [OF assms(1), unfolded lbaas_writes_def, THEN conjunct2, THEN conjunct2, THEN conjunct1, rule_format, OF assms(2)])

lemma deleted_member:
  assumes "lbaas_honest api L view" and "lb_DeleteMember api pid mid c = (res, c')" and "gone res"
  shows "view c' = view c\<lparr>vw_members := (vw_members (view c))(pid := filter (\<lambda>m. me_ID m \<noteq> mid) (vw_members (view c) pid))\<rparr>"
  by (rule honest_writes [OF assms(1), unfolded lbaas_writes_def, THEN conjunct2, THEN conjunct2, THEN conjunct2, THEN conjunct1, rule_format, OF assms(2,3)])

lemma deleted_listener:
  assumes "lbaas_honest api L view" and "lb_DeleteListener api lid c = (res, c')" and "gone res"
  shows "view c' = view c\<lparr>vw_listeners := filter (\<lambda>l. lis_ID l \<noteq> lid) (vw_listeners (view c))\<rparr>"
  by (rule honest_writes [OF assms(1), unfolded lbaas_writes_def, THEN conjunct2, THEN conjunct2, THEN conjunct2, THEN conjunct2, THEN conjunct1, rule_format, OF assms(2,3)])

lemma deleted_pool:
  assumes "lbaas_honest api L view" and "lb_DeletePool api pid c = (res, c')" and "gone res"
  shows "view c' = view c\<lparr>vw_pool := (\<lambda>lid. case vw_pool (view c) lid of None \<Rightarrow> None | Some p \<Rightarrow> if po_ID p = pid then None else Some p)\<rparr>"
  by (rule honest_writes [OF assms(1), unfolded lbaas_writes_def, THEN conjunct2, THEN conjunct2, THEN conjunct2, THEN conjunct2, THEN conjunct2, rule_format, OF assms(2,3)])

lemma honest_frame: "lbaas_honest api L view \<Longrightarrow> lbaas_frame api view"
  by (simp add: lbaas_honest_def)

lemma waited_view: "lbaas_honest api L view \<Longrightarrow> waited api i c = (res, c') \<Longrightarrow> view c' = view c"
  using waited_keeps [OF honest_frame, of api L view i c] by simp

lemmas lbaas_moves = created_listener created_pool created_member deleted_member deleted_listener deleted_pool waited_view

section \<open>Members\<close>

definition endpoint :: "osMember \<Rightarrow> string \<times> int" where
  "endpoint m = (me_Address m, me_ProtocolPort m)"

lemma sameEndpoint_iff: "sameEndpoint addr port m \<longleftrightarrow> endpoint m = (addr, port)"
  by (auto simp: sameEndpoint_def endpoint_def)


lemma popMember_loop_skip:
  "\<forall>i \<in> set is. \<not> sameEndpoint addr port (arr ! i) \<Longrightarrow> popMember_loop addr port is (arr, len) = Some (arr, len)"
  by (induction "is") auto

lemma popMember_loop_append:
  "popMember_loop addr port (is @ js) s = Option.bind (popMember_loop addr port is s) (popMember_loop addr port js)"
  by (induction addr port "is" s rule: popMember_loop.induct) auto

text \<open>When no two members have the same endpoint, \<open>popMember\<close> takes out the one it looks for.\<close>

lemma popMember_distinct:
  assumes "distinct (map endpoint ms)" and "i < length ms" and "endpoint (ms ! i) = (addr, port)"
  shows "popMember ms addr port = Some (butlast (moveLast i ms))"
proof -
  have only: "j < length ms \<Longrightarrow> sameEndpoint addr port (ms ! j) \<longleftrightarrow> j = i" for j
    using assms nth_eq_iff_index_eq [OF assms(1), of j i] by (auto simp: sameEndpoint_iff)
  have before: "popMember_loop addr port [0..<i] (ms, length ms) = Some (ms, length ms)"
    using only assms(2) by (intro popMember_loop_skip) auto
  let ?arr = "ms[i := ms ! (length ms - 1)]"
  have "popMember_loop addr port [Suc i..<length ms] (?arr, length ms - 1) = Some (?arr, length ms - 1)"
    using only by (intro popMember_loop_skip) auto
  moreover have "[0..<length ms] = [0..<i] @ i # [Suc i..<length ms]"
    using assms(2) upt_add_eq_append [of 0 i "length ms - i"] by (simp add: upt_conv_Cons)
  ultimately have "popMember_loop addr port [0..<length ms] (ms, length ms) = Some (?arr, length ms - 1)"
    using before only assms(2) by (simp add: popMember_loop_append)
  moreover have "last ms = ms ! (length ms - 1)" using assms(2) by (intro last_conv_nth) auto
  ultimately show ?thesis by (simp add: popMember_def moveLast_def butlast_conv_take)
qed

lemma set_butlast_moveLast:
  assumes "distinct xs" and "i < length xs"
  shows "set (butlast (moveLast i xs)) = set xs - {xs ! i}" and "distinct (butlast (moveLast i xs))"
proof -
  obtain ys z where xs: "xs = ys @ [z]" using assms(2) by (metis length_greater_0_conv less_zeroE list.size(3) rev_exhaust)
  have "butlast (moveLast i xs) = (if i < length ys then ys[i := z] else ys)"
    using assms(2) xs by (auto simp: moveLast_def list_update_append butlast_list_update)
  moreover have "i < length ys \<Longrightarrow> set (ys[i := z]) = insert z (set ys - {ys ! i})"
    using assms(1) xs by (intro set_update_distinct) auto
  moreover have "i < length ys \<Longrightarrow> distinct (ys[i := z])"
    using assms(1) xs by (auto intro!: distinct_list_update)
  moreover have "i = length ys \<or> i < length ys" using assms(2) xs by auto
  ultimately show "set (butlast (moveLast i xs)) = set xs - {xs ! i}" "distinct (butlast (moveLast i xs))"
    using assms(1) xs by (auto simp: nth_append split: if_splits)
qed

text \<open>The endpoints the nodes are to have in the pool of a port.\<close>

definition wantedEndpoints :: "ServicePort \<Rightarrow> Node list \<Rightarrow> (string \<times> int) set" where
  "wantedEndpoints port nodes = {(addr, sp_NodePort port) | addr. Inr addr \<in> nodeAddressForLB ` set nodes}"

lemma wanted_Nil [simp]: "wantedEndpoints port [] = {}"
  by (simp add: wantedEndpoints_def)

lemma wanted_Cons:
  "nodeAddressForLB node = Inr addr \<Longrightarrow> wantedEndpoints port (node # nodes) = insert (addr, sp_NodePort port) (wantedEndpoints port nodes)"
  by (auto simp: wantedEndpoints_def)

definition setMembers :: "string \<Rightarrow> osMember list \<Rightarrow> lbView \<Rightarrow> lbView" where
  "setMembers pid ms v = v\<lparr>vw_members := (vw_members v)(pid := ms)\<rparr>"

lemma setMembers_simps [simp]:
  "vw_members (setMembers pid ms v) pid = ms" "setMembers pid ms' (setMembers pid ms v) = setMembers pid ms' v"
  "setMembers pid (vw_members v pid) v = v" "vw_listeners (setMembers pid ms v) = vw_listeners v"
  "vw_pool (setMembers pid ms v) = vw_pool v" "q \<noteq> pid \<Longrightarrow> vw_members (setMembers pid ms v) q = vw_members v q"
  by (simp_all add: setMembers_def)

lemma nodeAddressForLB_not_ErrNotFound: "nodeAddressForLB node \<noteq> Inl ErrNotFound"
  by (auto simp: nodeAddressForLB_def preferInternal_def split: list.split option.split)

lemma diff_insert: "X' = X - {e} \<Longrightarrow> e \<in> X \<Longrightarrow> e \<notin> A \<Longrightarrow> A - X' = insert e A - X"
  by blast

text \<open>
  A pass over the nodes: what is left are the members no node wants, and what is created are the
  endpoints that were not there.
\<close>

lemma syncMembers_view:
  assumes honest: "lbaas_honest api L view"
  shows "syncMembers api opts L pid port nodes rest c = (Returned obsolete, c') \<Longrightarrow>
    distinct (map nodeAddressForLB nodes) \<Longrightarrow> distinct (map endpoint rest) \<Longrightarrow>
    distinct (map me_ID (vw_members (view c) pid)) \<Longrightarrow>
    \<exists>new. view c' = setMembers pid (vw_members (view c) pid @ new) (view c) \<and>
      distinct (map me_ID (vw_members (view c) pid @ new)) \<and>
      distinct (map endpoint new) \<and>
      set obsolete = {m \<in> set rest. endpoint m \<notin> wantedEndpoints port nodes} \<and>
      endpoint ` set new = wantedEndpoints port nodes - endpoint ` set rest"
proof (induction nodes arbitrary: rest c)
  case (Cons node nodes)
  then obtain rest1 c1 where step: "syncMember api opts L pid port rest node c = (Returned rest1, c1)"
    and more: "syncMembers api opts L pid port nodes rest1 c1 = (Returned obsolete, c')"
    by auto
  then obtain addr where addr: "nodeAddressForLB node = Inr addr"
    using nodeAddressForLB_not_ErrNotFound by (auto simp: syncMember_def split: sum.splits if_splits)
  let ?e = "(addr, sp_NodePort port)"
  have fresh: "?e \<notin> wantedEndpoints port nodes"
    using Cons.prems(2) addr by (auto simp: wantedEndpoints_def)
  have exists: "memberExists rest addr (sp_NodePort port) \<longleftrightarrow> ?e \<in> endpoint ` set rest"
    by (auto simp: memberExists_def list_ex_iff sameEndpoint_iff image_iff) metis+
  show ?case
  proof (cases "?e \<in> endpoint ` set rest")
    case False
    then obtain c0 where create: "lb_CreateMember api pid addr (sp_NodePort port) (lo_SubnetID opts) c = (None, c0)"
      and wait: "waited api L c0 = (Returned (), c1)" and rest1: "rest1 = rest"
      using step addr exists by (auto simp: syncMember_def)
    from created_member [OF honest create] obtain m where m: "endpoint m = ?e"
      "me_ID m \<notin> me_ID ` set (vw_members (view c) pid)"
      "view c0 = setMembers pid (vw_members (view c) pid @ [m]) (view c)"
      by (auto simp: sameEndpoint_iff setMembers_def)
    have c1: "view c1 = view c0" using waited_view [OF honest wait] .
    from Cons.IH [OF more] Cons.prems m c1 rest1 obtain new where
      new: "view c' = setMembers pid (vw_members (view c) pid @ m # new) (view c)"
      "distinct (map me_ID (vw_members (view c) pid @ m # new))" "distinct (map endpoint new)"
      "set obsolete = {m \<in> set rest. endpoint m \<notin> wantedEndpoints port nodes}"
      "endpoint ` set new = wantedEndpoints port nodes - endpoint ` set rest"
      by auto
    moreover have "x \<in> set rest \<Longrightarrow> endpoint x \<noteq> ?e" for x using False by force
    ultimately show ?thesis using False m(1) fresh wanted_Cons [OF addr] by (intro exI [of _ "m # new"]) auto
  next
    case True
    then obtain i where i: "i < length rest" "endpoint (rest ! i) = ?e" by (auto simp: in_set_conv_nth image_iff)
    then have "popMember rest addr (sp_NodePort port) = Some (butlast (moveLast i rest))"
      using popMember_distinct Cons.prems(3) by blast
    then have rest1: "rest1 = butlast (moveLast i rest)" and c1: "c1 = c"
      using step addr exists True by (auto simp: syncMember_def)
    note pop = set_butlast_moveLast [OF distinct_map [THEN iffD1, THEN conjunct1, OF Cons.prems(3)] i(1), folded rest1]
    have inj: "inj_on endpoint (set rest)" using Cons.prems(3) by (simp add: distinct_map)
    have same: "x \<in> set rest \<Longrightarrow> endpoint x = ?e \<longleftrightarrow> x = rest ! i" for x
      using inj_onD [OF inj, of x "rest ! i"] i by auto
    have "endpoint ` set rest1 = endpoint ` set rest - {?e}"
      unfolding pop(1) i(2) [symmetric] using inj_on_image_set_diff [OF inj, of "set rest" "{rest ! i}"] i(1) by simp
    then have "wantedEndpoints port nodes - endpoint ` set rest1 = wantedEndpoints port (node # nodes) - endpoint ` set rest"
      using diff_insert [OF _ True fresh] unfolding wanted_Cons [OF addr] by simp
    moreover have "distinct (map endpoint rest1)"
      unfolding distinct_map using pop inj_on_subset [OF inj] by auto
    moreover have "{m \<in> set rest1. endpoint m \<notin> wantedEndpoints port nodes} =
        {m \<in> set rest. endpoint m \<notin> wantedEndpoints port (node # nodes)}"
      unfolding pop(1) wanted_Cons [OF addr] by (auto simp: same)
    moreover have "distinct (map nodeAddressForLB nodes)" using Cons.prems(2) by simp
    ultimately show ?thesis using Cons.IH [OF more] Cons.prems(4) unfolding c1 by simp
  qed
qed simp

lemma deleteMember_view:
  assumes "lbaas_honest api L view" and "deleteMember api L pid m c = (Returned u, c')"
  shows "view c' = setMembers pid (filter (\<lambda>x. me_ID x \<noteq> me_ID m) (vw_members (view c) pid)) (view c)"
proof -
  from assms(2) obtain res c1 where del: "lb_DeleteMember api pid (me_ID m) c = (res, c1)" "gone res"
    and wait: "waited api L c1 = (Returned (), c')"
    by (cases u) (auto simp: deleteMember_def tolerant_Returned)
  show ?thesis
    using deleted_member [OF assms(1) del] waited_view [OF assms(1) wait] by (simp add: setMembers_def)
qed

lemma each_deleteMember_view:
  assumes honest: "lbaas_honest api L view"
  shows "each (deleteMember api L pid) ms c = (Returned u, c') \<Longrightarrow>
    view c' = setMembers pid (filter (\<lambda>x. me_ID x \<notin> me_ID ` set ms) (vw_members (view c) pid)) (view c)"
proof (induction ms arbitrary: c)
  case (Cons m ms)
  then obtain c1 where one: "deleteMember api L pid m c = (Returned (), c1)"
    and more: "each (deleteMember api L pid) ms c1 = (Returned u, c')"
    by auto
  show ?case
    using Cons.IH [OF more] deleteMember_view [OF honest one] by (simp add: conj_commute)
qed simp

text \<open>After the pass and the deletion the pool has exactly the endpoints of the nodes.\<close>

lemma pool_follows_nodes:
  assumes honest: "lbaas_honest api L view"
    and "syncMembers api opts L pid port nodes (vw_members (view c) pid) c = (Returned obsolete, c1)"
    and "each (deleteMember api L pid) obsolete c1 = (Returned (), c')"
    and "distinct (map nodeAddressForLB nodes)" and "distinct (map endpoint (vw_members (view c) pid))"
    and "distinct (map me_ID (vw_members (view c) pid))"
  shows "\<exists>ms. view c' = setMembers pid ms (view c) \<and> endpoint ` set ms = wantedEndpoints port nodes \<and>
    distinct (map endpoint ms) \<and> distinct (map me_ID ms)"
proof -
  let ?old = "vw_members (view c) pid"
  from syncMembers_view [OF honest assms(2,4,5,6)] obtain new where
    v: "view c1 = setMembers pid (?old @ new) (view c)" and ids: "distinct (map me_ID (?old @ new))"
    and eps: "distinct (map endpoint new)"
    and obs: "set obsolete = {m \<in> set ?old. endpoint m \<notin> wantedEndpoints port nodes}"
    and new: "endpoint ` set new = wantedEndpoints port nodes - endpoint ` set ?old"
    by blast
  have inj: "inj_on me_ID (set (?old @ new))" using ids unfolding distinct_map by blast
  have "set obsolete \<subseteq> set (?old @ new)" using obs by auto
  then have "me_ID x \<in> me_ID ` set obsolete \<longleftrightarrow> x \<in> set obsolete" if "x \<in> set (?old @ new)" for x
    using inj_on_image_mem_iff [OF inj that] by simp
  then have "set (filter (\<lambda>x. me_ID x \<notin> me_ID ` set obsolete) (?old @ new)) = set (?old @ new) - set obsolete"
    by auto
  moreover have "set ?old \<inter> set new = {}" using ids by (auto simp: distinct_map)
  ultimately have "set (filter (\<lambda>x. me_ID x \<notin> me_ID ` set obsolete) (?old @ new)) =
      {m \<in> set ?old. endpoint m \<in> wantedEndpoints port nodes} \<union> set new"
    using obs by auto
  then have "endpoint ` set (filter (\<lambda>x. me_ID x \<notin> me_ID ` set obsolete) (?old @ new)) = wantedEndpoints port nodes"
    using new by auto
  moreover have "distinct (map endpoint (?old @ new))" using assms(5) eps new by auto
  then have "distinct (map endpoint (filter (\<lambda>x. me_ID x \<notin> me_ID ` set obsolete) (?old @ new)))"
    by (rule distinct_map_filter)
  moreover have "distinct (map me_ID (filter (\<lambda>x. me_ID x \<notin> me_ID ` set obsolete) (?old @ new)))"
    using ids by (rule distinct_map_filter)
  moreover have "view c' = setMembers pid (filter (\<lambda>x. me_ID x \<notin> me_ID ` set obsolete) (?old @ new)) (view c)"
    using each_deleteMember_view [OF honest assms(3)] v by simp
  ultimately show ?thesis by blast
qed

section \<open>Ports\<close>

definition listenerKey :: "osListener \<Rightarrow> string \<times> int" where
  "listenerKey l = (lis_Protocol l, lis_ProtocolPort l)"

definition portKey :: "ServicePort \<Rightarrow> string \<times> int" where
  "portKey port = (sp_Protocol port, sp_Port port)"

text \<open>
  A view is tidy when the identifiers and the ports of the listeners are distinct, no two listeners
  share a pool, and the members of a pool have distinct identifiers and endpoints.
\<close>

definition tidy :: "lbView \<Rightarrow> bool" where
  "tidy v \<longleftrightarrow>
     distinct (map lis_ID (vw_listeners v)) \<and> distinct (map listenerKey (vw_listeners v)) \<and>
     (\<forall>i j p q. vw_pool v i = Some p \<longrightarrow> vw_pool v j = Some q \<longrightarrow> po_ID p = po_ID q \<longrightarrow> i = j) \<and>
     (\<forall>pid. distinct (map me_ID (vw_members v pid)) \<and> distinct (map endpoint (vw_members v pid)))"

lemma tidy_members: "tidy v \<Longrightarrow> distinct (map endpoint ms) \<Longrightarrow> distinct (map me_ID ms) \<Longrightarrow> tidy (setMembers pid ms v)"
  by (simp add: tidy_def setMembers_def)

lemma tidy_ids: "tidy v \<Longrightarrow> l \<in> set (vw_listeners v) \<Longrightarrow> l' \<in> set (vw_listeners v) \<Longrightarrow> lis_ID l = lis_ID l' \<Longrightarrow> l = l'"
  by (auto simp: tidy_def distinct_map inj_on_def)

lemma tidy_keys:
  "tidy v \<Longrightarrow> l \<in> set (vw_listeners v) \<Longrightarrow> l' \<in> set (vw_listeners v) \<Longrightarrow> listenerKey l = listenerKey l' \<Longrightarrow> l = l'"
  by (auto simp: tidy_def distinct_map inj_on_def)

lemma popListener_set:
  assumes "distinct old" and "inj_on lis_ID (insert l (set old))"
  shows "set (popListener old (lis_ID l)) = set old - {l}" and "distinct (popListener old (lis_ID l))"
proof -
  show "set (popListener old (lis_ID l)) = set old - {l}"
  proof (cases "firstIndex (\<lambda>x. lis_ID x = lis_ID l) old")
    case None
    then have "l \<notin> set old" by (auto simp: firstIndex_None)
    then show ?thesis using None by (simp add: popListener_def)
  next
    case (Some i)
    note i = firstIndex_Some [OF Some]
    then have "old ! i = l" using inj_onD [OF assms(2), of "old ! i" l] by auto
    then show ?thesis using set_butlast_moveLast(1) [OF assms(1)] i Some by (simp add: popListener_def)
  qed
  show "distinct (popListener old (lis_ID l))"
    using set_butlast_moveLast(2) [OF assms(1)] assms(1)
    by (cases "firstIndex (\<lambda>x. lis_ID x = lis_ID l) old") (auto simp: popListener_def dest: firstIndex_Some)
qed

lemma ensureListener_view:
  assumes honest: "lbaas_honest api L view" and tidy: "tidy (view c)"
    and old: "set old \<subseteq> set (vw_listeners (view c))"
    and free: "portKey port \<notin> listenerKey ` (set (vw_listeners (view c)) - set old)" and tcp: "sp_Protocol port = ''TCP''"
    and run: "ensureListener api L lbName i port old c = (Returned l, c')"
  shows "listenerKey l = portKey port \<and> set (vw_listeners (view c')) = insert l (set (vw_listeners (view c))) \<and>
    tidy (view c') \<and> vw_pool (view c') = vw_pool (view c) \<and> vw_members (view c') = vw_members (view c) \<and>
    (l \<notin> set old \<longrightarrow> l \<notin> set (vw_listeners (view c)))"
proof (cases "getListenerForPort old port")
  case None
  then have "portKey port \<notin> listenerKey ` set old"
    using tcp by (auto simp: getListenerForPort_def find_None_iff listenerKey_def portKey_def toListenersProtocol_def)
  then have new: "portKey port \<notin> listenerKey ` set (vw_listeners (view c))" using free by auto
  from run None obtain n c0 where create: "lb_CreateListener api n (sp_Protocol port) (sp_Port port) L c = (Inr l, c0)"
    and wait: "waited api L c0 = (Returned (), c')"
    by (auto simp: ensureListener_def changing_Returned)
  have key: "listenerKey l = portKey port" "view c' = view c\<lparr>vw_listeners := vw_listeners (view c) @ [l]\<rparr>"
    and id: "lis_ID l \<notin> lis_ID ` set (vw_listeners (view c))"
    using created_listener [OF honest create] waited_view [OF honest wait] by (auto simp: listenerKey_def portKey_def)
  have "tidy (view c')" using tidy id new key by (auto simp: tidy_def)
  then show ?thesis using key id by auto
next
  case (Some x)
  then have "l = x" "c' = c" using run by (simp_all add: ensureListener_def)
  moreover have "x \<in> set old" "listenerKey x = portKey port"
    using Some tcp by (auto simp: getListenerForPort_def find_Some_iff listenerKey_def portKey_def toListenersProtocol_def)
  ultimately have "l = x" "c' = c" "x \<in> set old" "listenerKey x = portKey port" by blast+
  then show ?thesis using tidy old by auto
qed

lemma findPool_Returned:
  assumes "lbaas_honest api L view" and "findPool api L lid w c = (Returned p, c')"
  shows "c' = c \<and> vw_pool (view c) lid = p"
  using assms(2) honestD(2,3) [OF assms(1)] by (auto simp: findPool_def split: sum.splits if_splits)

lemma poolMembers_Returned:
  assumes "lbaas_honest api L view" and "poolMembers api pid w c = (Returned ms, c')"
  shows "c' = c \<and> ms = vw_members (view c) pid"
  using assms(2) honestD(4,5) [OF assms(1)] by (fastforce simp: poolMembers_def split: sum.splits if_splits)

lemma ensurePool_view:
  assumes honest: "lbaas_honest api L view" and tidy: "tidy (view c)"
    and run: "ensurePool api L lbName i port method pers lid c = (Returned p, c')"
  shows "tidy (view c') \<and> vw_listeners (view c') = vw_listeners (view c) \<and> vw_members (view c') = vw_members (view c) \<and>
    vw_pool (view c') lid = Some p \<and> (\<forall>j. j \<noteq> lid \<longrightarrow> vw_pool (view c') j = vw_pool (view c) j)"
proof -
  let ?opts = "\<lparr>pp_Name = ''pool_'' @ lbName @ ''_'' @ FormatUint i, pp_Protocol = sp_Protocol port, pp_LBMethod = method,
      pp_ListenerID = lid, pp_Persistence = pers\<rparr>"
  from run obtain q c0 where find: "findPool api L lid (OsWrapf ''Error getting pool for listener %s: %v'' [lid]) c = (Returned q, c0)"
    and rest: "(case q of Some pool \<Rightarrow> give pool
      | None \<Rightarrow> andThen (changing (wrapping (OsWrapf ''Error creating pool for listener %s: %v'' [lid]) (lb_CreatePool api ?opts)))
          (\<lambda>pool. andThen (waited api L) (\<lambda>_. give pool))) c0 = (Returned p, c')"
    unfolding ensurePool_def andThen_Returned by blast
  note q = findPool_Returned [OF honest find]
  show ?thesis
  proof (cases q)
    case None
    then obtain c1 where create: "lb_CreatePool api ?opts c = (Inr p, c1)" and wait: "waited api L c1 = (Returned (), c')"
      using rest q by (auto simp: changing_Returned)
    note p = created_pool [OF honest create] waited_view [OF honest wait]
    then have "vw_pool (view c) j = Some x \<Longrightarrow> po_ID p \<noteq> po_ID x" for j x by metis
    then show ?thesis using p tidy q None by (auto simp: tidy_def)
  next
    case (Some _)
    then show ?thesis using rest q tidy by auto
  qed
qed

lemma ensureMonitor_view:
  assumes "lbaas_honest api L view" and "ensureMonitor api kube opts L port p c = (res, c')"
  shows "view c' = view c"
proof -
  have frame: "lbaas_frame api view" using assms(1) by (rule honest_frame)
  have "keeps view (ensureMonitor api kube opts L port p)"
    unfolding ensureMonitor_def
    by (intro keeps_intros keeps_changing)
      (use frame waited_keeps [OF frame] in \<open>simp_all add: lbaas_frame_def keeps_def\<close>)
  then show ?thesis using assms(2) by (rule keepsD)
qed

text \<open>What one port needs of the listeners that are left, and what it makes of the view.\<close>

lemma syncPort_view:
  assumes honest: "lbaas_honest api L view" and tidy: "tidy (view c)"
    and old: "set old \<subseteq> set (vw_listeners (view c))" "distinct old"
    and free: "portKey port \<notin> listenerKey ` (set (vw_listeners (view c)) - set old)" and tcp: "sp_Protocol port = ''TCP''"
    and nodes: "distinct (map nodeAddressForLB nodes)"
    and run: "syncPort api kube opts L lbName pers nodes i port old c = (Returned old', c')"
  shows "\<exists>l p. listenerKey l = portKey port \<and> set (vw_listeners (view c')) = insert l (set (vw_listeners (view c))) \<and>
    tidy (view c') \<and> set old' = set old - {l} \<and> distinct old' \<and>
    vw_pool (view c') (lis_ID l) = Some p \<and> endpoint ` set (vw_members (view c') (po_ID p)) = wantedEndpoints port nodes \<and>
    (\<forall>j. j \<noteq> lis_ID l \<longrightarrow> vw_pool (view c') j = vw_pool (view c) j) \<and>
    (\<forall>q. q \<noteq> po_ID p \<longrightarrow> vw_members (view c') q = vw_members (view c) q)"
proof -
  from run obtain l c1 p c2 ms c3 obsolete c4 c5 where
    l: "ensureListener api L lbName i port old c = (Returned l, c1)"
    and p: "ensurePool api L lbName i port (if lo_LBMethod opts = '''' then ''ROUND_ROBIN'' else lo_LBMethod opts) pers (lis_ID l) c1 = (Returned p, c2)"
    and ms: "poolMembers api (po_ID p) (OsWrapf ''Error getting pool members %s: %v'' [po_ID p]) c2 = (Returned ms, c3)"
    and sync: "syncMembers api opts L (po_ID p) port nodes ms c3 = (Returned obsolete, c4)"
    and del: "each (deleteMember api L (po_ID p)) obsolete c4 = (Returned (), c5)"
    and mon: "ensureMonitor api kube opts L port p c5 = (Returned (), c')"
    and old': "old' = popListener old (lis_ID l)"
    unfolding syncPort_def Let_def by auto
  note L = ensureListener_view [OF honest tidy old(1) free tcp l]
  have tidy1: "tidy (view c1)" using L by blast
  note P = ensurePool_view [OF honest tidy1 p]
  have M: "c3 = c2" "ms = vw_members (view c2) (po_ID p)" using poolMembers_Returned [OF honest ms] by auto
  have mems: "distinct (map endpoint (vw_members (view c2) (po_ID p)))" "distinct (map me_ID (vw_members (view c2) (po_ID p)))"
    using P by (auto simp: tidy_def)
  from pool_follows_nodes [OF honest sync [unfolded M] del nodes mems] obtain ms' where
    v: "view c5 = setMembers (po_ID p) ms' (view c2)" "endpoint ` set ms' = wantedEndpoints port nodes"
      "distinct (map endpoint ms')" "distinct (map me_ID ms')" by blast
  have c': "view c' = view c5" using ensureMonitor_view [OF honest mon] .
  have "tidy (view c')" unfolding c' v(1) using tidy_members v(3,4) P by blast
  moreover have "inj_on lis_ID (insert l (set old))"
    using L old(1) inj_on_subset [of lis_ID "set (vw_listeners (view c1))" "insert l (set old)"] tidy1
    by (auto simp: tidy_def distinct_map)
  then have "set old' = set old - {l}" "distinct old'" using popListener_set [OF old(2)] old' by simp_all
  ultimately show ?thesis
    using L P v c' by (intro exI [of _ l] exI [of _ p]) simp
qed

definition serving :: "lbView \<Rightarrow> Node list \<Rightarrow> ServicePort \<Rightarrow> bool" where
  "serving v nodes port \<longleftrightarrow>
     (\<exists>l \<in> set (vw_listeners v). listenerKey l = portKey port \<and>
        (\<exists>p. vw_pool v (lis_ID l) = Some p \<and> endpoint ` set (vw_members v (po_ID p)) = wantedEndpoints port nodes))"

text \<open>
  The state between two ports: the ports that are done are served, by listeners that are not among
  the old ones any more, and every other listener is an old one.
\<close>

definition synced :: "lbView \<Rightarrow> Node list \<Rightarrow> osListener list \<Rightarrow> ServicePort set \<Rightarrow> bool" where
  "synced v nodes old ports \<longleftrightarrow>
     tidy v \<and> distinct old \<and> set old \<subseteq> set (vw_listeners v) \<and> (\<forall>port \<in> ports. serving v nodes port) \<and>
     listenerKey ` (set (vw_listeners v) - set old) = portKey ` ports"

lemma syncPort_synced:
  assumes honest: "lbaas_honest api L view" and synced: "synced (view c) nodes old done"
    and new: "portKey port \<notin> portKey ` done" and tcp: "sp_Protocol port = ''TCP''"
    and nodes: "distinct (map nodeAddressForLB nodes)"
    and run: "syncPort api kube opts L lbName pers nodes i port old c = (Returned old', c')"
  shows "synced (view c') nodes old' (insert port done)"
proof -
  let ?v = "view c" and ?v' = "view c'"
  note s = synced [unfolded synced_def]
  from syncPort_view [OF honest _ _ _ _ tcp nodes run] s new obtain l p where
    key: "listenerKey l = portKey port" and ls: "set (vw_listeners ?v') = insert l (set (vw_listeners ?v))"
    and tidy': "tidy ?v'" and old': "set old' = set old - {l}" "distinct old'"
    and pool: "vw_pool ?v' (lis_ID l) = Some p"
    and eps: "endpoint ` set (vw_members ?v' (po_ID p)) = wantedEndpoints port nodes"
    and pools: "\<forall>j. j \<noteq> lis_ID l \<longrightarrow> vw_pool ?v' j = vw_pool ?v j"
    and mems: "\<forall>q. q \<noteq> po_ID p \<longrightarrow> vw_members ?v' q = vw_members ?v q"
    by metis
  have "serving ?v' nodes port" using key ls pool eps by (auto simp: serving_def)
  moreover have "serving ?v' nodes port'" if d: "port' \<in> done" for port'
  proof -
    from d s obtain l' p' where l': "l' \<in> set (vw_listeners ?v)" "listenerKey l' = portKey port'"
      and p': "vw_pool ?v (lis_ID l') = Some p'" "endpoint ` set (vw_members ?v (po_ID p')) = wantedEndpoints port' nodes"
      by (auto simp: serving_def)
    have "l' \<noteq> l" using l'(2) key new d by auto
    then have id: "lis_ID l' \<noteq> lis_ID l" using tidy_ids [OF tidy', of l' l] ls l'(1) by auto
    then have "vw_pool ?v' (lis_ID l') = Some p'" using pools p'(1) by simp
    moreover from this have "po_ID p' \<noteq> po_ID p" using tidy' pool id by (auto simp: tidy_def)
    ultimately show ?thesis using l' ls p'(2) mems by (auto simp: serving_def)
  qed
  moreover have "listenerKey ` (set (vw_listeners ?v') - set old') = insert (portKey port) (portKey ` done)"
  proof -
    have "set (vw_listeners ?v') - set old' = insert l (set (vw_listeners ?v) - set old)"
      using ls old' s by auto
    then show ?thesis using key s by simp
  qed
  ultimately show ?thesis using tidy' old' s ls by (auto simp: synced_def)
qed

lemma syncPorts_synced:
  assumes honest: "lbaas_honest api L view" and nodes: "distinct (map nodeAddressForLB nodes)"
  shows "syncPorts api kube opts L lbName pers nodes i ports old c = (Returned old', c') \<Longrightarrow> synced (view c) nodes old done \<Longrightarrow>
    \<forall>port \<in> set ports. sp_Protocol port = ''TCP'' \<Longrightarrow> distinct (map portKey ports) \<Longrightarrow> portKey ` set ports \<inter> portKey ` done = {} \<Longrightarrow>
    synced (view c') nodes old' (done \<union> set ports)"
proof (induction ports arbitrary: i old c "done")
  case (Cons port ports)
  from Cons.prems(1) obtain old1 c1 where one: "syncPort api kube opts L lbName pers nodes i port old c = (Returned old1, c1)"
    and more: "syncPorts api kube opts L lbName pers nodes (Suc i) ports old1 c1 = (Returned old', c')"
    by auto
  have "synced (view c1) nodes old1 (insert port done)"
    using syncPort_synced [OF honest Cons.prems(2) _ _ nodes one] Cons.prems(3,5) by auto
  from Cons.IH [OF more this] Cons.prems show ?case by auto
qed auto

section \<open>Obsolete listeners\<close>

text \<open>A view after which one listener and its pool may be gone, and everything else is as before.\<close>

definition only_without :: "lbView \<Rightarrow> string \<Rightarrow> lbView \<Rightarrow> bool" where
  "only_without v lid v' \<longleftrightarrow>
     tidy v' \<and> (\<forall>j. j \<noteq> lid \<longrightarrow> vw_pool v' j = vw_pool v j) \<and>
     (\<forall>q. (\<forall>p. vw_pool v lid = Some p \<longrightarrow> q \<noteq> po_ID p) \<longrightarrow> vw_members v' q = vw_members v q)"

lemma keeps_tolerant: "(\<And>c. view (snd (m c)) = view c) \<Longrightarrow> keeps view (tolerant m w)"
  by (auto simp: keeps_def tolerant_def split: prod.split option.split) (metis snd_conv)+

lemma keeps_waited: "lbaas_frame api view \<Longrightarrow> keeps view (waited api i)"
  using waited_keeps by (auto simp: keeps_def)

lemma deleteObsoletePool_view:
  assumes honest: "lbaas_honest api L view" and tidy: "tidy (view c)" and pool: "vw_pool (view c) lid = Some p"
    and run: "deleteObsoletePool api L lid p c = (Returned u, c')"
  shows "only_without (view c) lid (view c') \<and> vw_listeners (view c') = vw_listeners (view c)"
proof -
  have frame: "lbaas_frame api view" using honest by (rule honest_frame)
  let ?mon = "if po_MonitorID p \<noteq> '''' then
        andThen (tolerant (lb_DeleteMonitor api (po_MonitorID p))
          (OsWrapf ''Error deleting obsolete monitor %s for pool %s: %v'' [po_MonitorID p, po_ID p])) (\<lambda>_. waited api L)
      else give ()"
  from run obtain c1 ms c2 c3 res c4 where mon: "?mon c = (Returned (), c1)"
    and ms: "poolMembers api (po_ID p) (OsWrapf ''Error getting members for pool %s: %v'' [po_ID p]) c1 = (Returned ms, c2)"
    and del: "each (deleteMember api L (po_ID p)) ms c2 = (Returned (), c3)"
    and gone: "lb_DeletePool api (po_ID p) c3 = (res, c4)" "gone res" and wait: "waited api L c4 = (Returned (), c')"
    by (cases u) (auto simp: deleteObsoletePool_def tolerant_Returned)
  have "keeps view ?mon"
    using frame by (intro keeps_intros keeps_tolerant keeps_waited) (simp_all add: lbaas_frame_def)
  then have c1: "view c1 = view c" using mon by (rule keepsD)
  have c2: "c2 = c1" using poolMembers_Returned [OF honest ms] by simp
  note v3 = each_deleteMember_view [OF honest del, unfolded c2 c1]
  note v4 = deleted_pool [OF honest gone] and w = waited_view [OF honest wait]
  have "tidy (view c3)" unfolding v3 using tidy
    by (intro tidy_members distinct_map_filter) (auto simp: tidy_def)
  then have "tidy (view c')" unfolding w v4
    by (auto simp: tidy_def split: option.splits if_splits)
  moreover have "vw_pool (view c') j = vw_pool (view c) j" if "j \<noteq> lid" for j
    using that tidy pool v3 by (auto simp: w v4 tidy_def split: option.split)
  ultimately show ?thesis using v3 pool by (auto simp: only_without_def w v4)
qed

lemma deleteObsoleteListener_view:
  assumes honest: "lbaas_honest api L view" and tidy: "tidy (view c)"
    and run: "deleteObsoleteListener api L l c = (Returned u, c')"
  shows "only_without (view c) (lis_ID l) (view c') \<and>
    vw_listeners (view c') = filter (\<lambda>x. lis_ID x \<noteq> lis_ID l) (vw_listeners (view c))"
proof -
  from run obtain q c0 c1 res c2 where
    find: "findPool api L (lis_ID l) (OsWrapf ''Error getting pool for obsolete listener %s: %v'' [lis_ID l]) c = (Returned q, c0)"
    and pool: "(case q of None \<Rightarrow> give () | Some p \<Rightarrow> deleteObsoletePool api L (lis_ID l) p) c0 = (Returned (), c1)"
    and gone: "lb_DeleteListener api (lis_ID l) c1 = (res, c2)" "gone res" and wait: "waited api L c2 = (Returned (), c')"
    by (cases u) (auto simp: deleteObsoleteListener_def tolerant_Returned)
  have q: "c0 = c" "vw_pool (view c) (lis_ID l) = q" using findPool_Returned [OF honest find] by auto
  have v1: "only_without (view c) (lis_ID l) (view c1) \<and> vw_listeners (view c1) = vw_listeners (view c)"
  proof (cases q)
    case None
    then have "c1 = c" using pool q by simp
    then show ?thesis using tidy by (simp add: only_without_def)
  next
    case (Some p)
    then show ?thesis using deleteObsoletePool_view [OF honest tidy, of "lis_ID l" p "()" c1] pool q by simp
  qed
  have "view c' = view c1\<lparr>vw_listeners := filter (\<lambda>x. lis_ID x \<noteq> lis_ID l) (vw_listeners (view c1))\<rparr>"
    using deleted_listener [OF honest gone] waited_view [OF honest wait] by simp
  then show ?thesis using v1 by (auto simp: only_without_def tidy_def intro: distinct_map_filter)
qed

lemma deleteObsolete_synced:
  assumes honest: "lbaas_honest api L view"
  shows "each (deleteObsoleteListener api L) old c = (Returned u, c') \<Longrightarrow> synced (view c) nodes old ports \<Longrightarrow>
    synced (view c') nodes [] ports"
proof (induction old arbitrary: c)
  case (Cons l old)
  then obtain c1 where one: "deleteObsoleteListener api L l c = (Returned (), c1)"
    and more: "each (deleteObsoleteListener api L) old c1 = (Returned u, c')"
    by auto
  note s = Cons.prems(2) [unfolded synced_def]
  then have tidy: "tidy (view c)" and lin: "l \<in> set (vw_listeners (view c))" by auto
  note v1 = deleteObsoleteListener_view [OF honest tidy one]
  have ls: "set (vw_listeners (view c1)) = set (vw_listeners (view c)) - {l}"
    using v1 tidy_ids [OF tidy _ lin] by auto
  have "serving (view c1) nodes port" if "port \<in> ports" for port
  proof -
    from that s obtain x p where x: "x \<in> set (vw_listeners (view c))" "listenerKey x = portKey port"
      and p: "vw_pool (view c) (lis_ID x) = Some p" "endpoint ` set (vw_members (view c) (po_ID p)) = wantedEndpoints port nodes"
      by (auto simp: serving_def)
    have "portKey port \<in> listenerKey ` (set (vw_listeners (view c)) - set (l # old))" using s that by blast
    then have "x \<noteq> l" using tidy_keys [OF tidy] x by (auto simp: image_iff)
    then have id: "lis_ID x \<noteq> lis_ID l" using tidy_ids [OF tidy x(1) lin] by auto
    then have "vw_pool (view c1) (lis_ID x) = Some p" using v1 p by (simp add: only_without_def)
    moreover have "vw_pool (view c) (lis_ID l) = Some r \<Longrightarrow> po_ID p \<noteq> po_ID r" for r
      using tidy id p(1) by (auto simp: tidy_def)
    then have "vw_members (view c1) (po_ID p) = vw_members (view c) (po_ID p)" using v1 by (auto simp: only_without_def)
    ultimately show ?thesis using x p ls \<open>x \<noteq> l\<close> by (auto simp: serving_def)
  qed
  moreover have "set (vw_listeners (view c1)) - set old = set (vw_listeners (view c)) - set (l # old)" using ls by auto
  ultimately have "synced (view c1) nodes old ports"
    using s v1 ls by (auto simp: synced_def only_without_def)
  then show ?case using Cons.IH [OF more] by blast
qed simp

section \<open>The balancer follows its service\<close>

lemma deleted_balancer_frame:
  "lbaas_frame api view \<Longrightarrow> keeps view (ensureSecurityGroups api kube opts clusterName service ranges portID)"
  unfolding ensureSecurityGroups_def openPort_def createNodeSecurityGroup_def
  by (intro keeps_intros keeps_changing keeps_call) (simp_all add: lbaas_frame_def)

lemma ensureFloatingIP_frame: "lbaas_frame api view \<Longrightarrow> keeps view (ensureFloatingIP api opts portID)"
  unfolding ensureFloatingIP_def findFloatingIP_def
  by (auto simp: lbaas_frame_def split: option.split intro!: keeps_intros keeps_changing)


section \<open>A service of balancers\<close>

text \<open>
  A concrete service on which the theorem applies: it refuses an identifier that is in use and a
  second pool for a listener, and its balancers are active when they are asked.
\<close>

record demoLB =
  dl_listeners :: "osListener list"
  dl_pools :: "osPool list"
  dl_members :: "(string \<times> osMember) list"
  dl_groups :: "string list"
  dl_status :: string
  dl_asked :: nat

definition demoMembers :: "demoLB \<Rightarrow> string \<Rightarrow> osMember list" where
  "demoMembers c pid = map snd (filter (\<lambda>x. fst x = pid) (dl_members c))"

definition demoView :: "demoLB \<Rightarrow> lbView" where
  "demoView c =
     \<lparr>vw_listeners = filter (\<lambda>l. ''L'' \<in> set (lis_Loadbalancers l)) (dl_listeners c),
      vw_pool = (\<lambda>lid. case poolsOfListener lid (dl_pools c) of [p] \<Rightarrow> Some p | _ \<Rightarrow> None),
      vw_members = demoMembers c\<rparr>"

definition demo_lbaas :: "demoLB lbaasAPI" where
  "demo_lbaas =
     \<lparr>lb_List = (\<lambda>n c. [Inr [\<lparr>ba_ID = ''L'', ba_VipAddress = ''10.1.0.1'', ba_VipPortID = ''port''\<rparr>]]),
      lb_GetStatus = (\<lambda>i c. (Inr (dl_status c), c\<lparr>dl_asked := Suc (dl_asked c)\<rparr>)),
      lb_Create = (\<lambda>n d s v c. (Inl (OsExtErr ''quota'') , c)),
      lb_Delete = (\<lambda>i c. (None, c)),
      lb_ListListeners = (\<lambda>i c. [Inr (dl_listeners c)]),
      lb_CreateListener = (\<lambda>n proto port i c.
        if n \<in> lis_ID ` set (dl_listeners c) then (Inl (OsExtErr ''conflict''), c)
        else let l = \<lparr>lis_ID = n, lis_Protocol = proto, lis_ProtocolPort = port, lis_Loadbalancers = [i]\<rparr>
             in (Inr l, c\<lparr>dl_listeners := dl_listeners c @ [l]\<rparr>)),
      lb_DeleteListener = (\<lambda>i c. (None, c\<lparr>dl_listeners := filter (\<lambda>l. lis_ID l \<noteq> i) (dl_listeners c)\<rparr>)),
      lb_ListPools = (\<lambda>i c. [Inr (dl_pools c)]),
      lb_CreatePool = (\<lambda>opts c.
        if pp_Name opts \<in> po_ID ` set (dl_pools c) \<or> poolsOfListener (pp_ListenerID opts) (dl_pools c) \<noteq> [] \<or>
          demoMembers c (pp_Name opts) \<noteq> []
        then (Inl (OsExtErr ''conflict''), c)
        else let p = \<lparr>po_ID = pp_Name opts, po_MonitorID = '''', po_Listeners = [pp_ListenerID opts]\<rparr>
             in (Inr p, c\<lparr>dl_pools := dl_pools c @ [p]\<rparr>)),
      lb_DeletePool = (\<lambda>i c.
        if distinct (concat (map po_Listeners (dl_pools c))) then (None, c\<lparr>dl_pools := filter (\<lambda>p. po_ID p \<noteq> i) (dl_pools c)\<rparr>)
        else (Some (OsExtErr ''conflict''), c)),
      lb_ListMembers = (\<lambda>i c. [Inr (demoMembers c i)]),
      lb_CreateMember = (\<lambda>i addr port s c.
        if addr \<in> me_ID ` set (demoMembers c i) then (Some (OsExtErr ''conflict''), c)
        else (None, c\<lparr>dl_members := dl_members c @ [(i, \<lparr>me_ID = addr, me_Address = addr, me_ProtocolPort = port\<rparr>)]\<rparr>)),
      lb_DeleteMember = (\<lambda>i m c. (None, c\<lparr>dl_members := filter (\<lambda>x. \<not> (fst x = i \<and> me_ID (snd x) = m)) (dl_members c)\<rparr>)),
      lb_CreateMonitor = (\<lambda>p t d o' r c. (Inr ''m'', c)),
      lb_DeleteMonitor = (\<lambda>i c. (None, c)),
      lb_ListFloatingIPs = (\<lambda>p c. [Inr []]),
      lb_CreateFloatingIP = (\<lambda>n p c. (Inr (''f'', ''9.9.9.9''), c)),
      lb_DeleteFloatingIP = (\<lambda>i c. (None, c)),
      lb_CreateGroup = (\<lambda>n d c. (Inr n, c\<lparr>dl_groups := n # dl_groups c\<rparr>)),
      lb_GroupIDFromName = (\<lambda>n c. if count_list (dl_groups c) n = 1 then Inr n else Inl ErrMultipleResults),
      lb_DeleteGroup = (\<lambda>g c. (None, c\<lparr>dl_groups := filter (\<lambda>x. x \<noteq> g) (dl_groups c)\<rparr>)),
      lb_CreateRule = (\<lambda>r c. (None, c)),
      lb_ListRules = (\<lambda>s g c. [Inr []]),
      lb_DeleteRule = (\<lambda>r c. (None, c)),
      lb_UpdatePortGroups = (\<lambda>p g c. (None, c)),
      lb_Backoff = os_polls,
      lb_range = (\<lambda>A c. sorted_list_of_fset A)\<rparr>"

lemma onlyResult_one: "onlyResult [Inr xs] = (if length xs = 0 then Inl ErrNotFound else if length xs > 1 then Inl ErrMultipleResults else Inr (hd xs))"
  by (auto simp: onlyResult_def uniquePage_def)

lemma allResults_one: "allResults [Inr xs] = Inr xs"
  by (simp add: allResults_def)

lemma poolsOfListener_append: "poolsOfListener lid (ps @ qs) = poolsOfListener lid ps @ poolsOfListener lid qs"
  by (simp add: poolsOfListener_def)

lemma poolsOfListener_Cons: "poolsOfListener lid (p # ps) = map (\<lambda>_. p) (filter (\<lambda>l. l = lid) (po_Listeners p)) @ poolsOfListener lid ps"
  by (simp add: poolsOfListener_def)

lemma poolsOfListener_Nil [simp]: "poolsOfListener lid [] = []"
  by (simp add: poolsOfListener_def)

lemma set_poolsOfListener: "set (poolsOfListener lid ps) \<subseteq> set ps"
  by (auto simp: poolsOfListener_def)

lemma poolsOfListener_filter:
  "poolsOfListener lid (filter (\<lambda>p. P (po_ID p)) ps) = filter (\<lambda>p. P (po_ID p)) (poolsOfListener lid ps)"
  by (induction ps) (auto simp: poolsOfListener_Cons filter_empty_conv)

lemma poolsOfListener_unique:
  "distinct (concat (map po_Listeners ps)) \<Longrightarrow> length (poolsOfListener lid ps) \<le> 1"
proof (induction ps)
  case (Cons p ps)
  have "lid \<in> set (po_Listeners p) \<Longrightarrow> poolsOfListener lid ps = []"
    using Cons.prems by (auto simp: poolsOfListener_def filter_empty_conv)
  moreover have "length (filter (\<lambda>l. l = lid) (po_Listeners p)) \<le> (if lid \<in> set (po_Listeners p) then 1 else 0)"
  proof -
    have "length (filter (\<lambda>l. l = lid) (po_Listeners p)) = card (set (filter (\<lambda>l. l = lid) (po_Listeners p)))"
      using Cons.prems by (intro distinct_card [symmetric]) simp
    also have "\<dots> \<le> card (if lid \<in> set (po_Listeners p) then {lid} else {})" by (intro card_mono) auto
    finally show ?thesis by (simp split: if_splits)
  qed
  ultimately show ?case using Cons by (auto simp: poolsOfListener_Cons filter_empty_conv split: if_splits)
qed simp

lemma filter_members: "demoMembers (c\<lparr>dl_members := filter (\<lambda>x. \<not> (fst x = i \<and> me_ID (snd x) = m)) (dl_members c)\<rparr>) =
    (demoMembers c)(i := filter (\<lambda>x. me_ID x \<noteq> m) (demoMembers c i))"
proof
  fix pid
  have "filter (\<lambda>x. fst x = pid) (filter (\<lambda>x. \<not> (fst x = i \<and> me_ID (snd x) = m)) xs) =
    (if pid = i then filter (\<lambda>x. me_ID (snd x) \<noteq> m) (filter (\<lambda>x. fst x = i) xs) else filter (\<lambda>x. fst x = pid) xs)"
    for xs :: "(string \<times> osMember) list"
    by (induction xs) auto
  then show "demoMembers (c\<lparr>dl_members := filter (\<lambda>x. \<not> (fst x = i \<and> me_ID (snd x) = m)) (dl_members c)\<rparr>) pid =
      ((demoMembers c)(i := filter (\<lambda>x. me_ID x \<noteq> m) (demoMembers c i))) pid"
    by (auto simp: demoMembers_def filter_map o_def)
qed

lemma demo_reads: "lbaas_reads demo_lbaas ''L'' demoView"
  unfolding lbaas_reads_def
proof (intro conjI allI impI)
  fix c lid p
  assume "getPoolByListenerID demo_lbaas ''L'' lid c = Inr p"
  then show "vw_pool (demoView c) lid = Some p"
    by (cases "poolsOfListener lid (dl_pools c)")
      (auto simp: getPoolByListenerID_def demo_lbaas_def onlyResult_one demoView_def split: if_splits)
next
  fix c lid
  assume "getPoolByListenerID demo_lbaas ''L'' lid c = Inl ErrNotFound"
  then show "vw_pool (demoView c) lid = None"
    by (auto simp: getPoolByListenerID_def demo_lbaas_def onlyResult_one demoView_def split: if_splits)
qed (auto simp: getListenersByLoadBalancerID_def getMembersByPoolID_def demo_lbaas_def allResults_one demoView_def)

lemma demo_new_pool:
  assumes "poolsOfListener lid ps = []"
  shows "(\<lambda>j. case poolsOfListener j (ps @ [\<lparr>po_ID = n, po_MonitorID = m, po_Listeners = [lid]\<rparr>]) of [p] \<Rightarrow> Some p | _ \<Rightarrow> None) =
    (\<lambda>j. case poolsOfListener j ps of [p] \<Rightarrow> Some p | _ \<Rightarrow> None)(lid := Some \<lparr>po_ID = n, po_MonitorID = m, po_Listeners = [lid]\<rparr>)"
  using assms by (auto simp: poolsOfListener_append poolsOfListener_Cons fun_eq_iff)

lemma demo_gone_pool:
  assumes "distinct (concat (map po_Listeners ps))"
  shows "(\<lambda>j. case poolsOfListener j (filter (\<lambda>p. po_ID p \<noteq> i) ps) of [p] \<Rightarrow> Some p | _ \<Rightarrow> None) =
    (\<lambda>j. case (case poolsOfListener j ps of [p] \<Rightarrow> Some p | _ \<Rightarrow> None) of None \<Rightarrow> None | Some p \<Rightarrow> if po_ID p = i then None else Some p)"
proof
  fix j
  have f: "poolsOfListener j (filter (\<lambda>p. po_ID p \<noteq> i) ps) = filter (\<lambda>p. po_ID p \<noteq> i) (poolsOfListener j ps)"
    by (rule poolsOfListener_filter [where P = "\<lambda>x. x \<noteq> i"])
  show "(case poolsOfListener j (filter (\<lambda>p. po_ID p \<noteq> i) ps) of [p] \<Rightarrow> Some p | _ \<Rightarrow> None) =
      (case (case poolsOfListener j ps of [p] \<Rightarrow> Some p | _ \<Rightarrow> None) of None \<Rightarrow> None | Some p \<Rightarrow> if po_ID p = i then None else Some p)"
    unfolding f using poolsOfListener_unique [OF assms, of j] by (cases "poolsOfListener j ps") auto
qed

lemma demo_writes: "lbaas_writes demo_lbaas ''L'' demoView"
  unfolding lbaas_writes_def
proof (intro conjI allI impI, goal_cases)
  case (1 n proto port c l c') then show ?case by (auto simp: demo_lbaas_def Let_def split: if_splits)
next
  case (2 n proto port c l c') then show ?case by (auto simp: demo_lbaas_def Let_def split: if_splits)
next
  case (3 n proto port c l c') then show ?case by (auto simp: demo_lbaas_def Let_def demoView_def split: if_splits)
next
  case (4 n proto port c l c')
  then show ?case by (auto simp: demo_lbaas_def Let_def demoView_def demoMembers_def fun_eq_iff split: if_splits)
next
  case (5 opts c p c' lid q)
  then have "q \<in> set (dl_pools c)"
    using set_poolsOfListener [of lid "dl_pools c"] by (auto simp: demoView_def split: list.splits)
  then have "po_ID q \<in> po_ID ` set (dl_pools c)" by simp
  then show ?case using 5(1) by (auto simp: demo_lbaas_def Let_def split: if_splits)
next
  case (6 opts c p c') then show ?case by (auto simp: demo_lbaas_def Let_def demoView_def split: if_splits)
next
  case (7 opts c p c')
  then show ?case
    by (auto simp: demo_lbaas_def Let_def demoView_def demoMembers_def demo_new_pool split: if_splits)
next
  case (8 pid addr port subnet c c')
  then show ?case
    by (intro exI [of _ "\<lparr>me_ID = addr, me_Address = addr, me_ProtocolPort = port\<rparr>"])
      (auto simp: demo_lbaas_def demoView_def sameEndpoint_def demoMembers_def fun_eq_iff split: if_splits)
next
  case (9 pid mid c res c')
  then have "c' = c\<lparr>dl_members := filter (\<lambda>x. \<not> (fst x = pid \<and> me_ID (snd x) = mid)) (dl_members c)\<rparr>"
    by (simp add: demo_lbaas_def)
  then show ?case by (simp add: demoView_def filter_members [simplified])
next
  case (10 lid c res c')
  then show ?case by (auto simp: demo_lbaas_def demoView_def demoMembers_def fun_eq_iff intro: filter_cong)
next
  case (11 pid c res c')
  then have "distinct (concat (map po_Listeners (dl_pools c)))" "c' = c\<lparr>dl_pools := filter (\<lambda>p. po_ID p \<noteq> pid) (dl_pools c)\<rparr>"
    by (auto simp: demo_lbaas_def gone_def split: if_splits)
  then show ?case using demo_gone_pool [of "dl_pools c" pid] by (simp add: demoView_def demoMembers_def [abs_def])
qed

lemma demo_frame: "lbaas_frame demo_lbaas demoView"
  by (simp add: lbaas_frame_def demo_lbaas_def demoView_def demoMembers_def [abs_def])

lemma demo_honest: "lbaas_honest demo_lbaas ''L'' demoView"
  using demo_reads demo_writes demo_frame by (simp add: lbaas_honest_def)

definition demo_kube :: osKubeLib where
  "demo_kube =
     \<lparr>ok_SourceRanges = (\<lambda>s. Inr [''0.0.0.0/0'']), ok_IsAllowAll = (\<lambda>_. True), ok_ParseCIDR = (\<lambda>_. Inr True),
      ok_Seconds = (\<lambda>n. n div 1000000000)\<rparr>"

definition demo_lb_opts :: LoadBalancerOpts where
  "demo_lb_opts =
     \<lparr>lo_LBVersion = ''v2'', lo_SubnetID = ''subnet'', lo_FloatingNetworkID = ''net'', lo_LBMethod = '''', lo_CreateMonitor = False,
      lo_MonitorDelay = 0, lo_MonitorTimeout = 0, lo_MonitorMaxRetries = 0, lo_ManageSecurityGroups = True,
      lo_NodeSecurityGroupID = ''nodes''\<rparr>"

definition demo_lb_service :: Service where
  "demo_lb_service = anyService\<lparr>sv_Ports := [\<lparr>sp_Name = ''web'', sp_Protocol = ''TCP'', sp_Port = 80, sp_NodePort = 30080\<rparr>]\<rparr>"

definition demo_lb_node :: "string \<Rightarrow> NodeAddress list \<Rightarrow> Node" where
  "demo_lb_node n addrs = \<lparr>node_Name = n, node_UID = n, node_Labels = None, node_Addresses = addrs\<rparr>"

definition demo_lb_nodes :: "Node list" where
  "demo_lb_nodes = [demo_lb_node ''a'' [(''InternalIP'', ''10.0.0.1'')], demo_lb_node ''b'' [(''InternalIP'', ''10.0.0.2'')]]"

text \<open>Before: a listener of a port that the service no longer has, with a pool and a member.\<close>

definition demo_lb_before :: demoLB where
  "demo_lb_before =
     \<lparr>dl_listeners = [\<lparr>lis_ID = ''old'', lis_Protocol = ''TCP'', lis_ProtocolPort = 81, lis_Loadbalancers = [''L'']\<rparr>],
      dl_pools = [\<lparr>po_ID = ''p'', po_MonitorID = '''', po_Listeners = [''old'']\<rparr>],
      dl_members = [(''p'', \<lparr>me_ID = ''10.0.0.3'', me_Address = ''10.0.0.3'', me_ProtocolPort = 30081\<rparr>)],
      dl_groups = [], dl_status = ''ACTIVE'', dl_asked = 0\<rparr>"

lemma demo_lb_run:
  "(case v2_EnsureLoadBalancer demo_lbaas demo_kube demo_lb_opts ''c'' demo_lb_service demo_lb_nodes demo_lb_before of
      (res, c) \<Rightarrow> res = Returned [''10.1.0.1'', ''9.9.9.9''] \<and> map snd (dl_members c) =
        map (\<lambda>a. \<lparr>me_ID = a, me_Address = a, me_ProtocolPort = 30080\<rparr>) [''10.0.0.1'', ''10.0.0.2''])"
  by code_simp

lemma demo_lb_tidy: "tidy (demoView demo_lb_before)"
  by (auto simp: tidy_def demoView_def demo_lb_before_def demoMembers_def poolsOfListener_def)


end
