(* ===== verification/OpenStackFaults.thy ===== *)
theory OpenStackFaults
  imports OpenStackServing
begin

text \<open>
  What the balancers of the second version do when something is missing or refused: listeners
  without a pool, nodes without an address, security groups that are made twice, and balancers that
  never become active; and a concrete service on which the theorems are applied.
\<close>

section \<open>Deleting a balancer with an incomplete listener\<close>

lemma calm_tolerant: "calm (tolerant m w)" "calm (waited api i)" "calm (findPool api L i w)" "calm (poolMembers api p w)"
    "calm (findFloatingIP api p w)" "calm (findLoadbalancer api n w)"
  unfolding findPool_def poolMembers_def findFloatingIP_def findLoadbalancer_def
  by (auto simp: calm_def tolerant_def waited_def reading_def split: prod.split option.split sum.split)

lemma calm_deletion:
  "calm (deleteAndWait api L m)" "calm (deletePools api L ps ms)" "calm (deleteFloatingIP api opts portID)"
  "calm (collectMembers api ps)" "calm (deleteSecurityGroup api opts cn service)"
proof -
  show d: "calm (deleteAndWait api L m)" for m
    unfolding deleteAndWait_def by (intro calm_intros calm_tolerant)
  show "calm (deletePools api L ps ms)"
    unfolding deletePools_def by (intro calm_intros d)
  show "calm (deleteFloatingIP api opts portID)"
    unfolding deleteFloatingIP_def by (auto split: option.split intro!: calm_intros calm_tolerant)
  show "calm (collectMembers api ps)"
    by (induction ps) (auto intro!: calm_intros calm_tolerant)
  have r: "calm (each (\<lambda>ruleID c. (Returned (), snd (lb_DeleteRule api ruleID c))) rules)" for rules
    by (intro calm_each) (simp add: calm_def)
  have "calm (andThen (tolerant (lb_DeleteGroup api g) id) (\<lambda>_.
      andThen (reading (\<lambda>c. case getSecurityGroupRules api (lo_NodeSecurityGroupID opts) g c of
             Inl err \<Rightarrow> if isNotFound err then Inr [] else Inl err
           | Inr rules \<Rightarrow> Inr rules)) (\<lambda>rules. each (\<lambda>ruleID c. (Returned (), snd (lb_DeleteRule api ruleID c))) rules)))" for g
    by (intro calm_intros calm_tolerant) (simp_all add: calm_def)
  then show "calm (deleteSecurityGroup api opts cn service)"
    by (auto simp: calm_def deleteSecurityGroup_def split: sum.split)
qed

lemma collectPools_cases:
  assumes "\<And>l. l \<in> set ls \<Longrightarrow> getPoolByListenerID api L (lis_ID l) c = Inl ErrNotFound \<or> (\<exists>p. getPoolByListenerID api L (lis_ID l) c = Inr p)"
  shows "if \<exists>l \<in> set ls. getPoolByListenerID api L (lis_ID l) c = Inl ErrNotFound then collectPools api L ls c = (Panicked, c)
    else \<exists>ps. collectPools api L ls c = (Returned ps, c)"
  using assms
proof (induction ls)
  case (Cons l ls)
  show ?case
  proof (cases "getPoolByListenerID api L (lis_ID l) c")
    case (Inl err)
    then have "err = ErrNotFound" using Cons.prems [of l] by auto
    then show ?thesis using Inl by (simp add: findPool_def andThen_reading panic_def)
  next
    case (Inr p)
    then show ?thesis using Cons
      by (auto simp: findPool_def andThen_reading andThen_def [of "collectPools api L ls"] give_def split: if_splits)
  qed
qed (simp add: give_def)

text \<open>
  A listener whose pool was never created (creating it failed, say) cannot be deleted any more:
  \<open>EnsureLoadBalancerDeleted\<close> panics on it, and only on it.
\<close>

theorem deletion_panics_iff:
  assumes "getLoadbalancerByName api (GetLoadBalancerName service) c = Inr b"
    and "deleteFloatingIP api opts (ba_VipPortID b) c = (Returned (), c1)"
    and "getListenersByLoadBalancerID api (ba_ID b) c1 = Inr listenerList"
    and "\<And>l. l \<in> set listenerList \<Longrightarrow> getPoolByListenerID api (ba_ID b) (lis_ID l) c1 = Inl ErrNotFound \<or>
           (\<exists>p. getPoolByListenerID api (ba_ID b) (lis_ID l) c1 = Inr p)"
  shows "fst (v2_EnsureLoadBalancerDeleted api opts clusterName service c) = Panicked \<longleftrightarrow>
    (\<exists>l \<in> set listenerList. getPoolByListenerID api (ba_ID b) (lis_ID l) c1 = Inl ErrNotFound)"
proof -
  let ?rest = "\<lambda>pools :: osPool list.
    andThen (collectMembers api (map po_ID pools)) (\<lambda>memberIDs.
    andThen (each (\<lambda>pool. deleteAndWait api (ba_ID b) (lb_DeleteMonitor api (po_MonitorID pool))) pools) (\<lambda>_.
    andThen (deletePools api (ba_ID b) (map po_ID pools) memberIDs) (\<lambda>_.
    andThen (each (\<lambda>listener. deleteAndWait api (ba_ID b) (lb_DeleteListener api (lis_ID listener))) listenerList) (\<lambda>_.
    andThen (tolerant (lb_Delete api (ba_ID b)) id) (\<lambda>_.
    andThen (\<lambda>c. (Returned (), snd (waitLoadbalancerDeleted api (ba_ID b) c))) (\<lambda>_.
    if lo_ManageSecurityGroups opts then deleteSecurityGroup api opts clusterName service else give ()))))))"
  define f where "f = ?rest"
  have calm: "fst (f pools c1) \<noteq> Panicked" for pools
  proof -
    have "calm (f pools)"
      unfolding f_def by (intro calm_intros calm_tolerant calm_deletion) (simp add: calm_def)
    then show ?thesis unfolding calm_def by blast
  qed
  have run: "v2_EnsureLoadBalancerDeleted api opts clusterName service c = andThen (collectPools api (ba_ID b) listenerList) f c1"
    using assms(1-3)
    by (simp add: v2_EnsureLoadBalancerDeleted_def findLoadbalancer_def andThen_reading Let_def
        andThen_def [of "deleteFloatingIP api opts (ba_VipPortID b)"] f_def)
  note pools = collectPools_cases [of listenerList api "ba_ID b" c1, OF assms(4)]
  show ?thesis
  proof (cases "\<exists>l \<in> set listenerList. getPoolByListenerID api (ba_ID b) (lis_ID l) c1 = Inl ErrNotFound")
    case True
    then show ?thesis using pools by (simp add: run andThen_def)
  next
    case False
    then obtain ps where "collectPools api (ba_ID b) listenerList c1 = (Returned ps, c1)" using pools by auto
    then show ?thesis using False calm [of ps] by (simp add: run andThen_def)
  qed
qed

section \<open>Nodes without an address\<close>

text \<open>
  A node without an address is not skipped, as the code means to: its error is \<open>ErrNoAddressFound\<close>,
  the code looks for \<open>ErrNotFound\<close>, and the whole balancer fails.
\<close>

theorem node_without_address_fails:
  assumes "syncMembers api opts L pid port nodes members c = (Returned obsolete, c')" and "node \<in> set nodes"
  shows "node_Addresses node \<noteq> []"
  using assms
proof (induction nodes arbitrary: members c)
  case (Cons n nodes)
  then show ?case
    by (auto simp: syncMember_def nodeAddressForLB_def preferInternal_def split: sum.splits)
qed simp

section \<open>Waiting is bounded\<close>

lemma os_polls_count:
  assumes "\<And>s. f (snd (cond s)) \<le> Suc (f s)"
  shows "f (snd (os_polls n cond s)) \<le> f s + n"
proof (induction n arbitrary: s)
  case (Suc n)
  obtain r s' where s': "cond s = (r, s')" by fastforce
  then have "f s' \<le> Suc (f s)" using assms [of s] by simp
  then show ?case using Suc.IH [of s'] s' by (auto split: sum.split bool.split)
qed simp

text \<open>
  The status is asked for at most 19 times, whatever the answers are.
\<close>

theorem waiting_is_bounded:
  assumes "lb_Backoff api = os_polls" and "\<And>i c. asked (snd (lb_GetStatus api i c)) = Suc (asked c)"
  shows "asked (snd (waitLoadbalancerActiveProvisioningStatus api lbID c)) \<le> asked c + 19"
proof -
  define cond where "cond = (\<lambda>(c, status :: string).
      case lb_GetStatus api lbID c of
        (Inl err, c) \<Rightarrow> (Inl err, c, status)
      | (Inr s, c) \<Rightarrow>
          (if s = ''ACTIVE'' then Inr True
           else if s = ''ERROR'' then Inl (OsErrorf ''Loadbalancer has gone into ERROR state'' [])
           else Inr False, c, s))"
  have "asked (fst (snd (cond s))) \<le> Suc (asked (fst s))" for s
    using assms(2) [of lbID "fst s"] by (cases s; cases "lb_GetStatus api lbID (fst s)") (auto simp: cond_def split: sum.split)
  then have "asked (fst (snd (os_polls 19 cond (c, '''')))) \<le> asked (fst (c, '''' :: string)) + 19"
    by (rule os_polls_count [where f = "\<lambda>s. asked (fst s)"])
  then show ?thesis using assms(1)
    by (cases "os_polls 19 cond (c, '''')")
      (simp add: waitLoadbalancerActiveProvisioningStatus_def cond_def [symmetric])
qed

section \<open>Security groups\<close>

text \<open>
  A group is created on every call, and a lookup by name answers only when one group has the name:
  from the second call on none of the groups is ever deleted.
\<close>

definition groups_honest :: "'c lbaasAPI \<Rightarrow> ('c \<Rightarrow> string \<Rightarrow> nat) \<Rightarrow> bool" where
  "groups_honest api named \<longleftrightarrow>
     (\<forall>n d c g c'. lb_CreateGroup api n d c = (Inr g, c') \<longrightarrow> named c' = (named c)(n := Suc (named c n))) \<and>
     (\<forall>n c g. lb_GroupIDFromName api n c = Inr g \<longrightarrow> named c n = 1) \<and>
     (\<forall>r c. named (snd (lb_CreateRule api r c)) = named c) \<and>
     (\<forall>p g c. named (snd (lb_UpdatePortGroups api p g c)) = named c)"

theorem second_group_is_never_deleted:
  assumes honest: "groups_honest api named" and "named c (getSecurityGroupName clusterName service) > 0"
    and run: "ensureSecurityGroups api kube opts clusterName service ranges portID c = (Returned (), c')"
  shows "named c' (getSecurityGroupName clusterName service) > 1 \<and>
    deleteSecurityGroup api opts clusterName service c' = (Returned (), c')"
proof -
  let ?n = "getSecurityGroupName clusterName service"
  from run obtain g c1 where create: "lb_CreateGroup api ?n (''Securty Group for '' @ sv_Name service @ '' Service LoadBalancer'') c = (Inr g, c1)"
    and rest: "andThen (each (openPort api kube opts g ranges) (sv_Ports service)) (\<lambda>_.
      andThen (request_call (lb_CreateRule api (groupRule 4 3 ''icmp'' '''' ''0.0.0.0/0'' g ''IPv4'')) id) (\<lambda>_.
      andThen (request_call (lb_CreateRule api (groupRule 0 2 ''icmp'' '''' ''::/0'' g ''IPv6'')) id) (\<lambda>_.
      request_call (lb_UpdatePortGroups api portID [g]) id))) c1 = (Returned (), c')"
    unfolding ensureSecurityGroups_def andThen_Returned changing_Returned by blast
  have "keeps named (andThen (each (openPort api kube opts g ranges) (sv_Ports service)) (\<lambda>_.
      andThen (request_call (lb_CreateRule api (groupRule 4 3 ''icmp'' '''' ''0.0.0.0/0'' g ''IPv4'')) id) (\<lambda>_.
      andThen (request_call (lb_CreateRule api (groupRule 0 2 ''icmp'' '''' ''::/0'' g ''IPv6'')) id) (\<lambda>_.
      request_call (lb_UpdatePortGroups api portID [g]) id))))"
    unfolding openPort_def createNodeSecurityGroup_def
    by (intro keeps_intros keeps_call) (use honest in \<open>simp_all add: groups_honest_def\<close>)
  then have "named c' = named c1" using rest by (rule keepsD)
  moreover have "named c1 ?n = Suc (named c ?n)" using honest create by (simp add: groups_honest_def)
  ultimately have two: "named c' ?n > 1" using assms(2) by simp
  have "lb_GroupIDFromName api ?n c' \<noteq> Inr x" for x
  proof
    assume "lb_GroupIDFromName api ?n c' = Inr x"
    then have "named c' ?n = 1" using honest by (simp add: groups_honest_def)
    then show False using two by simp
  qed
  then obtain err where "lb_GroupIDFromName api ?n c' = Inl err" by (cases "lb_GroupIDFromName api ?n c'") auto
  then show ?thesis using two by (simp add: deleteSecurityGroup_def)
qed

section \<open>On the concrete service\<close>

text \<open>A listener without a pool: deleting its balancer panics.\<close>

definition demo_incomplete :: demoLB where
  "demo_incomplete = demo_lb_before\<lparr>dl_pools := []\<rparr>"

theorem deletion_panics_iff_witness:
  "fst (v2_EnsureLoadBalancerDeleted demo_lbaas demo_lb_opts ''c'' demo_lb_service demo_incomplete) = Panicked"
proof -
  let ?b = "\<lparr>ba_ID = ''L'', ba_VipAddress = ''10.1.0.1'', ba_VipPortID = ''port''\<rparr>"
  let ?l = "\<lparr>lis_ID = ''old'', lis_Protocol = ''TCP'', lis_ProtocolPort = 81, lis_Loadbalancers = [''L'']\<rparr>"
  have "getLoadbalancerByName demo_lbaas (GetLoadBalancerName demo_lb_service) demo_incomplete = Inr ?b"
    by (simp add: getLoadbalancerByName_def demo_lbaas_def onlyResult_one)
  moreover have "deleteFloatingIP demo_lbaas demo_lb_opts (ba_VipPortID ?b) demo_incomplete = (Returned (), demo_incomplete)"
    by (simp add: deleteFloatingIP_def demo_lb_opts_def findFloatingIP_def getFloatingIPByPortID_def demo_lbaas_def onlyResult_one
        andThen_reading give_def)
  moreover have "getListenersByLoadBalancerID demo_lbaas (ba_ID ?b) demo_incomplete = Inr [?l]"
    by (simp add: getListenersByLoadBalancerID_def demo_lbaas_def demo_incomplete_def demo_lb_before_def allResults_one)
  moreover have "getPoolByListenerID demo_lbaas (ba_ID ?b) (lis_ID ?l) demo_incomplete = Inl ErrNotFound"
    by (simp add: getPoolByListenerID_def demo_lbaas_def demo_incomplete_def onlyResult_one)
  ultimately show ?thesis using deletion_panics_iff by force
qed

theorem node_without_address_fails_witness:
  "\<forall>node \<in> set demo_lb_nodes. node_Addresses node \<noteq> []"
proof -
  let ?port = "\<lparr>sp_Name = ''web'', sp_Protocol = ''TCP'', sp_Port = 80, sp_NodePort = 30080\<rparr>"
  have "fst (syncMembers demo_lbaas demo_lb_opts ''L'' ''p'' ?port demo_lb_nodes [] demo_lb_before) = Returned []"
    by code_simp
  then obtain c' where "syncMembers demo_lbaas demo_lb_opts ''L'' ''p'' ?port demo_lb_nodes [] demo_lb_before = (Returned [], c')"
    by (cases "syncMembers demo_lbaas demo_lb_opts ''L'' ''p'' ?port demo_lb_nodes [] demo_lb_before") simp
  from node_without_address_fails [OF this] show ?thesis by blast
qed

text \<open>A balancer that stays pending: it is asked for 19 times.\<close>

theorem waiting_is_bounded_witness:
  "dl_asked (snd (waitLoadbalancerActiveProvisioningStatus demo_lbaas ''L'' (demo_lb_before\<lparr>dl_status := ''PENDING''\<rparr>))) \<le> 19 \<and>
   dl_asked (snd (waitLoadbalancerActiveProvisioningStatus demo_lbaas ''L'' (demo_lb_before\<lparr>dl_status := ''PENDING''\<rparr>))) = 19"
proof
  have "lb_Backoff demo_lbaas = os_polls" and "dl_asked (snd (lb_GetStatus demo_lbaas i c)) = Suc (dl_asked c)" for i c
    by (simp_all add: demo_lbaas_def)
  from waiting_is_bounded [OF this, of "''L''" "demo_lb_before\<lparr>dl_status := ''PENDING''\<rparr>"]
  show "dl_asked (snd (waitLoadbalancerActiveProvisioningStatus demo_lbaas ''L'' (demo_lb_before\<lparr>dl_status := ''PENDING''\<rparr>))) \<le> 19"
    by (simp add: demo_lb_before_def)
  show "dl_asked (snd (waitLoadbalancerActiveProvisioningStatus demo_lbaas ''L'' (demo_lb_before\<lparr>dl_status := ''PENDING''\<rparr>))) = 19"
    by code_simp
qed

lemma demo_groups_honest: "groups_honest demo_lbaas (\<lambda>c n. count_list (dl_groups c) n)"
  by (auto simp: groups_honest_def demo_lbaas_def fun_eq_iff split: if_splits)

text \<open>The second pass over the service: the group of the first one is there.\<close>

theorem second_group_is_never_deleted_witness:
  "case ensureSecurityGroups demo_lbaas demo_kube demo_lb_opts ''c'' demo_lb_service [''0.0.0.0/0''] ''port''
       (demo_lb_before\<lparr>dl_groups := [''lb-sg-c-s'']\<rparr>) of
     (_, c) \<Rightarrow> dl_groups c = [''lb-sg-c-s'', ''lb-sg-c-s''] \<and>
       deleteSecurityGroup demo_lbaas demo_lb_opts ''c'' demo_lb_service c = (Returned (), c)"
proof -
  let ?c = "demo_lb_before\<lparr>dl_groups := [''lb-sg-c-s'']\<rparr>"
  let ?run = "ensureSecurityGroups demo_lbaas demo_kube demo_lb_opts ''c'' demo_lb_service [''0.0.0.0/0''] ''port'' ?c"
  have r: "fst ?run = Returned () \<and> dl_groups (snd ?run) = [''lb-sg-c-s'', ''lb-sg-c-s'']" by code_simp
  then obtain c' where run: "?run = (Returned (), c')" by (cases ?run) simp
  have "count_list (dl_groups ?c) (getSecurityGroupName ''c'' demo_lb_service) > 0"
    by (simp add: getSecurityGroupName_def demo_lb_service_def anyService_def)
  from second_group_is_never_deleted [OF demo_groups_honest this run] r run show ?thesis by simp
qed

end
