(* ===== verification/OpenStackBalancerV1.thy ===== *)
theory OpenStackBalancerV1
  imports OpenStackServing
begin

text \<open>
  The load balancers of OpenStack in the first version of the service (\<open>LbaasV1\<close> in
  \<open>openstack_loadbalancer.go\<close>): one virtual address with one pool of members, for services with one
  port. The calls that only this version makes are the record \<open>lbaas1API\<close>; floating addresses are those
  of \<open>lbaasAPI\<close>.
\<close>

record osVip =
  vip_ID :: string
  vip_Address :: string
  vip_PortID :: string
  vip_PoolID :: string
  vip_ProtocolPort :: int

record osPool1 =
  p1_ID :: string
  p1_MonitorIDs :: "string list"
  p1_MemberIDs :: "string list"

record pool1Opts =
  o1_Name :: string
  o1_Protocol :: string
  o1_SubnetID :: string
  o1_LBMethod :: string

record vipOpts =
  vo_Name :: string
  vo_Description :: string
  vo_Protocol :: string
  vo_ProtocolPort :: int
  vo_PoolID :: string
  vo_SubnetID :: string
  vo_Persistence :: "string option"
  vo_Address :: string

text \<open>The pages of the members of a pool are fetched one after the other, while members are deleted.\<close>

record 'c lbaas1API =
  l1_ListPools :: "string \<Rightarrow> 'c \<Rightarrow> osPool1 pages"
  l1_ListVips :: "string \<Rightarrow> 'c \<Rightarrow> osVip pages"
  l1_GetPool :: "string \<Rightarrow> 'c \<Rightarrow> osErr + osPool1"
  l1_CreatePool :: "pool1Opts \<Rightarrow> 'c \<Rightarrow> (osErr + osPool1) \<times> 'c"
  l1_DeletePool :: "string \<Rightarrow> 'c \<Rightarrow> osErr option \<times> 'c"
  l1_CreateMember :: "string \<Rightarrow> string \<Rightarrow> int \<Rightarrow> 'c \<Rightarrow> osErr option \<times> 'c"
  l1_DeleteMember :: "string \<Rightarrow> 'c \<Rightarrow> osErr option \<times> 'c"
  l1_MemberPages :: "string \<Rightarrow> 'c \<Rightarrow> ('c \<Rightarrow> osErr + osMember list) list"
  l1_CreateMonitor :: "string \<Rightarrow> int \<Rightarrow> int \<Rightarrow> int \<Rightarrow> 'c \<Rightarrow> (osErr + string) \<times> 'c"
  l1_DeleteMonitor :: "string \<Rightarrow> 'c \<Rightarrow> osErr option \<times> 'c"
  l1_AssociateMonitor :: "string \<Rightarrow> string \<Rightarrow> 'c \<Rightarrow> osErr option \<times> 'c"
  l1_DisassociateMonitor :: "string \<Rightarrow> string \<Rightarrow> 'c \<Rightarrow> osErr option \<times> 'c"
  l1_CreateVip :: "vipOpts \<Rightarrow> 'c \<Rightarrow> (osErr + osVip) \<times> 'c"
  l1_DeleteVip :: "string \<Rightarrow> 'c \<Rightarrow> osErr option \<times> 'c"

definition getPoolByName :: "'c lbaas1API \<Rightarrow> string \<Rightarrow> 'c \<Rightarrow> osErr + osPool1" where
  "getPoolByName lib pname c = onlyResult (l1_ListPools lib pname c)"

definition getVipByName :: "'c lbaas1API \<Rightarrow> string \<Rightarrow> 'c \<Rightarrow> osErr + osVip" where
  "getVipByName lib vname c = onlyResult (l1_ListVips lib vname c)"

definition v1_GetLoadBalancer :: "'c lbaas1API \<Rightarrow> Service \<Rightarrow> 'c \<Rightarrow> osErr + string list option" where
  "v1_GetLoadBalancer lib service c =
     (case getVipByName lib (GetLoadBalancerName service) c of
        Inl err \<Rightarrow> if err = ErrNotFound then Inr None else Inl err
      | Inr vip \<Rightarrow> Inr (Some [vip_Address vip]))"

section \<open>EnsureLoadBalancerDeleted\<close>

text \<open>
  The lookup answers \<open>ErrNotFound\<close> when the port has no floating address; this is not the error that
  \<open>isNotFound\<close> recognises.
\<close>

definition v1_deleteFloatingIP :: "'c lbaasAPI \<Rightarrow> string \<Rightarrow> ('c, unit) osStep" where
  "v1_deleteFloatingIP api portID =
     andThen (reading (\<lambda>c. case getFloatingIPByPortID api portID c of
                Inl err \<Rightarrow> if isNotFound err then Inr None else Inl err
              | Inr ip \<Rightarrow> Inr (Some ip))) (\<lambda>ip.
     case ip of None \<Rightarrow> give () | Some ip \<Rightarrow> tolerant (lb_DeleteFloatingIP api (fst ip)) id)"

text \<open>The pool of the virtual address, or, when that is gone, a pool with the name of the service.\<close>

definition v1_findPool :: "'c lbaas1API \<Rightarrow> Service \<Rightarrow> osVip option \<Rightarrow> 'c \<Rightarrow> osErr + osPool1 option" where
  "v1_findPool lib service vip c =
     (case vip of
        Some vip \<Rightarrow>
          (case l1_GetPool lib (vip_PoolID vip) c of
             Inl err \<Rightarrow> if isNotFound err then Inr None else Inl err
           | Inr pool \<Rightarrow> Inr (Some pool))
      | None \<Rightarrow>
          (case getPoolByName lib (sv_Name service) c of
             Inl err \<Rightarrow> if err = ErrNotFound then Inr None else Inl err
           | Inr pool \<Rightarrow> Inr (Some pool)))"

definition v1_deletePool :: "'c lbaas1API \<Rightarrow> osPool1 \<Rightarrow> ('c, unit) osStep" where
  "v1_deletePool lib pool =
     andThen (each (\<lambda>monID.
                andThen (request_call (l1_DisassociateMonitor lib (p1_ID pool) monID) id) (\<lambda>_.
                tolerant (l1_DeleteMonitor lib monID) id)) (p1_MonitorIDs pool)) (\<lambda>_.
     andThen (each (\<lambda>memberID. tolerant (l1_DeleteMember lib memberID) id) (p1_MemberIDs pool)) (\<lambda>_.
     tolerant (l1_DeletePool lib (p1_ID pool)) id))"

definition v1_EnsureLoadBalancerDeleted ::
  "'c lbaasAPI \<Rightarrow> 'c lbaas1API \<Rightarrow> LoadBalancerOpts \<Rightarrow> Service \<Rightarrow> ('c, unit) osStep" where
  "v1_EnsureLoadBalancerDeleted api lib opts service =
     andThen (reading (\<lambda>c. case getVipByName lib (GetLoadBalancerName service) c of
                Inl err \<Rightarrow> if err = ErrNotFound then Inr None else Inl err
              | Inr vip \<Rightarrow> Inr (Some vip))) (\<lambda>vip.
     andThen (case vip of
                Some vip \<Rightarrow> if lo_FloatingNetworkID opts \<noteq> '''' then v1_deleteFloatingIP api (vip_PortID vip) else give ()
              | None \<Rightarrow> give ()) (\<lambda>_.
     andThen (case vip of Some vip \<Rightarrow> tolerant (l1_DeleteVip lib (vip_ID vip)) id | None \<Rightarrow> give ()) (\<lambda>_.
     andThen (reading (v1_findPool lib service vip)) (\<lambda>pool.
     case pool of None \<Rightarrow> give () | Some pool \<Rightarrow> v1_deletePool lib pool))))"

section \<open>EnsureLoadBalancer\<close>

definition v1_checkService :: "osKubeLib \<Rightarrow> Service \<Rightarrow> osErr + ServicePort \<times> string option" where
  "v1_checkService kube service =
     (case sv_Ports service of
        [] \<Rightarrow> Inl (OsErrorf ''no ports provided to openstack load balancer'' [])
      | [port] \<Rightarrow>
          if sp_Protocol port \<noteq> ''TCP'' then Inl (OsErrorf ''Only TCP LoadBalancer is supported for openstack load balancers'' [])
          else
            and_then
              (if sv_SessionAffinity service = ''None'' then Inr None
               else if sv_SessionAffinity service = ''ClientIP'' then Inr (Some ''SOURCE_IP'')
               else Inl (OsErrorf ''unsupported load balancer affinity: %v'' [sv_SessionAffinity service])) (\<lambda>persistence.
            and_then (ok_SourceRanges kube service) (\<lambda>ranges.
            if \<not> ok_IsAllowAll kube ranges then
              Inl (OsErrorf ''Source range restrictions are not supported for openstack load balancers'' [])
            else Inr (port, persistence)))
      | _ \<Rightarrow> Inl (OsErrorf ''multiple ports are not supported in openstack v1 load balancers'' []))"

text \<open>What a failing step deletes again; the results of the deletions are dropped.\<close>

definition dropPool :: "'c lbaas1API \<Rightarrow> string \<Rightarrow> 'c \<Rightarrow> 'c" where
  "dropPool lib poolID c = snd (l1_DeletePool lib poolID c)"

definition dropMonitor :: "'c lbaas1API \<Rightarrow> string option \<Rightarrow> 'c \<Rightarrow> 'c" where
  "dropMonitor lib mon c = (case mon of None \<Rightarrow> c | Some monID \<Rightarrow> snd (l1_DeleteMonitor lib monID c))"

text \<open>A node without an address ends the creation, and the pool stays.\<close>

definition v1_addNode :: "'c lbaas1API \<Rightarrow> string \<Rightarrow> ServicePort \<Rightarrow> Node \<Rightarrow> ('c, unit) osStep" where
  "v1_addNode lib poolID port node =
     andThen (reading (\<lambda>_. nodeAddressForLB node)) (\<lambda>addr.
     unwinding (dropPool lib poolID) (request_call (l1_CreateMember lib poolID addr (sp_NodePort port)) id))"

definition v1_createMonitor :: "'c lbaas1API \<Rightarrow> osKubeLib \<Rightarrow> LoadBalancerOpts \<Rightarrow> string \<Rightarrow> ('c, string option) osStep" where
  "v1_createMonitor lib kube opts poolID =
     (if lo_CreateMonitor opts then
        andThen (unwinding (dropPool lib poolID)
          (changing (l1_CreateMonitor lib ''TCP'' (ok_Seconds kube (lo_MonitorDelay opts)) (ok_Seconds kube (lo_MonitorTimeout opts))
             (lo_MonitorMaxRetries opts)))) (\<lambda>monID.
        andThen (unwinding (dropPool lib poolID \<circ> dropMonitor lib (Some monID))
          (request_call (l1_AssociateMonitor lib poolID monID) id)) (\<lambda>_.
        give (Some monID)))
      else give None)"

definition v1_createVip ::
  "'c lbaas1API \<Rightarrow> LoadBalancerOpts \<Rightarrow> Service \<Rightarrow> ServicePort \<Rightarrow> string option \<Rightarrow> string \<Rightarrow> string option \<Rightarrow> ('c, osVip) osStep" where
  "v1_createVip lib opts service port persistence poolID mon =
     (let lbName = GetLoadBalancerName service in
      unwinding (dropPool lib poolID \<circ> dropMonitor lib mon)
        (changing (l1_CreateVip lib
           \<lparr>vo_Name = lbName, vo_Description = ''Kubernetes external service '' @ lbName, vo_Protocol = ''TCP'',
            vo_ProtocolPort = sp_Port port, vo_PoolID = poolID, vo_SubnetID = lo_SubnetID opts, vo_Persistence = persistence,
            vo_Address = sv_LoadBalancerIP service\<rparr>)))"

definition v1_createBalancer ::
  "'c lbaas1API \<Rightarrow> osKubeLib \<Rightarrow> LoadBalancerOpts \<Rightarrow> Service \<Rightarrow> ServicePort \<Rightarrow> string option \<Rightarrow> Node list \<Rightarrow> ('c, osVip) osStep" where
  "v1_createBalancer lib kube opts service port persistence nodes =
     andThen (changing (l1_CreatePool lib
                \<lparr>o1_Name = GetLoadBalancerName service, o1_Protocol = ''TCP'', o1_SubnetID = lo_SubnetID opts,
                 o1_LBMethod = (if lo_LBMethod opts = '''' then ''ROUND_ROBIN'' else lo_LBMethod opts)\<rparr>)) (\<lambda>pool.
     andThen (each (v1_addNode lib (p1_ID pool) port) nodes) (\<lambda>_.
     andThen (v1_createMonitor lib kube opts (p1_ID pool)) (\<lambda>mon.
     v1_createVip lib opts service port persistence (p1_ID pool) mon)))"

text \<open>A balancer that exists is deleted and made again.\<close>

definition v1_EnsureLoadBalancer ::
  "'c lbaasAPI \<Rightarrow> 'c lbaas1API \<Rightarrow> osKubeLib \<Rightarrow> LoadBalancerOpts \<Rightarrow> Service \<Rightarrow> Node list \<Rightarrow> ('c, string list) osStep" where
  "v1_EnsureLoadBalancer api lib kube opts service nodes =
     andThen (reading (\<lambda>_. v1_checkService kube service)) (\<lambda>(port, persistence).
     andThen (reading (\<lambda>c. map_sum (OsWrapf ''error checking if openstack load balancer already exists: %v'' []) id
                (v1_GetLoadBalancer lib service c))) (\<lambda>status.
     andThen (case status of
                None \<Rightarrow> give ()
              | Some _ \<Rightarrow>
                  recovering (v1_EnsureLoadBalancerDeleted api lib opts service)
                    (\<lambda>err. failing (OsWrapf ''error deleting existing openstack load balancer: %v'' [] err))) (\<lambda>_.
     andThen (v1_createBalancer lib kube opts service port persistence nodes) (\<lambda>vip.
     if lo_FloatingNetworkID opts \<noteq> '''' then
       andThen (changing (lb_CreateFloatingIP api (lo_FloatingNetworkID opts) (vip_PortID vip))) (\<lambda>ip.
       give [vip_Address vip, snd ip])
     else give [vip_Address vip]))))"

section \<open>UpdateLoadBalancer\<close>

text \<open>The addresses of the nodes that no member has yet; a member with another address is deleted.\<close>

fun v1_visitMembers :: "'c lbaas1API \<Rightarrow> osMember list \<Rightarrow> string fset \<Rightarrow> ('c, string fset) osStep" where
  "v1_visitMembers lib [] addrs = give addrs"
| "v1_visitMembers lib (member # ms) addrs =
     (if me_Address member |\<in>| addrs then v1_visitMembers lib ms (addrs |-| {|me_Address member|})
      else andThen (request_call (l1_DeleteMember lib (me_ID member)) id) (\<lambda>_. v1_visitMembers lib ms addrs))"

fun v1_visitPages :: "'c lbaas1API \<Rightarrow> ('c \<Rightarrow> osErr + osMember list) list \<Rightarrow> string fset \<Rightarrow> ('c, string fset) osStep" where
  "v1_visitPages lib [] addrs = give addrs"
| "v1_visitPages lib (page # pages) addrs =
     andThen (reading page) (\<lambda>memList.
     andThen (v1_visitMembers lib memList addrs) (v1_visitPages lib pages))"

definition v1_UpdateLoadBalancer :: "'c lbaasAPI \<Rightarrow> 'c lbaas1API \<Rightarrow> Service \<Rightarrow> Node list \<Rightarrow> ('c, unit) osStep" where
  "v1_UpdateLoadBalancer api lib service nodes =
     andThen (reading (getVipByName lib (GetLoadBalancerName service))) (\<lambda>vip.
     andThen (reading (\<lambda>_. nodeAddrs nodes {||})) (\<lambda>addrs.
     andThen (\<lambda>c. v1_visitPages lib (l1_MemberPages lib (vip_PoolID vip) c) addrs c) (\<lambda>missing.
     (\<lambda>c. each (\<lambda>addr. request_call (l1_CreateMember lib (vip_PoolID vip) addr (vip_ProtocolPort vip)) id)
            (lb_range api missing c) c))))"

section \<open>Updating\<close>

text \<open>The members that a pass leaves: the first one of every wanted address.\<close>

fun kept :: "osMember list \<Rightarrow> string set \<Rightarrow> osMember list" where
  "kept [] A = []"
| "kept (m # ms) A = (if me_Address m \<in> A then m # kept ms (A - {me_Address m}) else kept ms A)"

lemma kept_sub: "set (kept ms A) \<subseteq> set ms"
  by (induction ms A rule: kept.induct) auto

lemma kept_addresses: "me_Address ` set (kept ms A) = A \<inter> me_Address ` set ms"
  by (induction ms A rule: kept.induct) auto

lemma kept_append: "kept (ms @ ms') A = kept ms A @ kept ms' (A - me_Address ` set ms)"
  by (induction ms A rule: kept.induct) (auto simp: set_diff_eq Diff_insert2 [symmetric] intro!: arg_cong [where f = "kept ms'"])

definition members1_honest :: "'c lbaas1API \<Rightarrow> string \<Rightarrow> ('c \<Rightarrow> osMember list) \<Rightarrow> bool" where
  "members1_honest lib P view \<longleftrightarrow>
     (\<forall>c. \<exists>ps. l1_MemberPages lib P c = map (\<lambda>p _. Inr p) ps \<and> concat ps = view c) \<and>
     (\<forall>mid c c'. l1_DeleteMember lib mid c = (None, c') \<longrightarrow> view c' = filter (\<lambda>m. me_ID m \<noteq> mid) (view c)) \<and>
     (\<forall>addr port c c'. l1_CreateMember lib P addr port c = (None, c') \<longrightarrow>
        (\<exists>m. sameEndpoint addr port m \<and> view c' = view c @ [m]))"

lemma visitMembers_view:
  assumes honest: "members1_honest lib P view"
  shows "v1_visitMembers lib ms addrs c = (Returned addrs', c') \<Longrightarrow> distinct (map me_ID (view c)) \<Longrightarrow>
    set ms \<subseteq> set (view c) \<Longrightarrow> distinct ms \<Longrightarrow>
    set (view c') = set (view c) - (set ms - set (kept ms (fset addrs))) \<and> distinct (map me_ID (view c')) \<and>
    fset addrs' = fset addrs - me_Address ` set ms"
proof (induction ms arbitrary: addrs c)
  case (Cons m ms)
  show ?case
  proof (cases "me_Address m |\<in>| addrs")
    case True
    then have "v1_visitMembers lib ms (addrs |-| {|me_Address m|}) c = (Returned addrs', c')" using Cons.prems(1) by simp
    from Cons.IH [OF this] Cons.prems True show ?thesis by (auto simp: minus_fset.rep_eq)
  next
    case False
    then obtain c1 where del: "l1_DeleteMember lib (me_ID m) c = (None, c1)"
      and more: "v1_visitMembers lib ms addrs c1 = (Returned addrs', c')"
      using Cons.prems(1) by auto
    then have c1: "view c1 = filter (\<lambda>x. me_ID x \<noteq> me_ID m) (view c)"
      using honest by (simp add: members1_honest_def)
    have inj: "x \<in> set (view c) \<Longrightarrow> me_ID x = me_ID m \<longleftrightarrow> x = m" for x
      using Cons.prems(2,3) by (auto simp: distinct_map dest: inj_onD)
    then have set1: "set (view c1) = set (view c) - {m}" using c1 by auto
    have new: "m \<notin> set (kept ms (fset addrs))" using Cons.prems(4) kept_sub [of ms "fset addrs"] by auto
    have "distinct (map me_ID (view c1))" using Cons.prems(2) c1 by (simp add: distinct_map_filter)
    then have "set (view c') = set (view c1) - (set ms - set (kept ms (fset addrs))) \<and> distinct (map me_ID (view c')) \<and>
        fset addrs' = fset addrs - me_Address ` set ms"
      using Cons.prems(3,4) set1 by (intro Cons.IH [OF more]) auto
    then show ?thesis using False set1 new by auto
  qed
qed auto

lemma two_passes:
  "K \<inter> R = {} \<Longrightarrow> K' \<inter> M = {} \<Longrightarrow> V - (M - K) - (R - K') = V - (M \<union> R - (K \<union> K'))" "A - B - C = A - (B \<union> C)"
  by blast+

lemma visitPages_view:
  assumes honest: "members1_honest lib P view"
  shows "v1_visitPages lib (map (\<lambda>p _. Inr p) ps) addrs c = (Returned addrs', c') \<Longrightarrow> distinct (map me_ID (view c)) \<Longrightarrow>
    set (concat ps) \<subseteq> set (view c) \<Longrightarrow> distinct (concat ps) \<Longrightarrow>
    set (view c') = set (view c) - (set (concat ps) - set (kept (concat ps) (fset addrs))) \<and>
    fset addrs' = fset addrs - me_Address ` set (concat ps)"
proof (induction ps arbitrary: addrs c)
  case (Cons ms ps)
  then obtain addrs1 c1 where one: "v1_visitMembers lib ms addrs c = (Returned addrs1, c1)"
    and more: "v1_visitPages lib (map (\<lambda>p _. Inr p) ps) addrs1 c1 = (Returned addrs', c')"
    by auto
  have v1: "set (view c1) = set (view c) - (set ms - set (kept ms (fset addrs)))" "distinct (map me_ID (view c1))"
      "fset addrs1 = fset addrs - me_Address ` set ms"
    using visitMembers_view [OF honest one Cons.prems(2)] Cons.prems(3,4) by auto
  have "set (concat ps) \<subseteq> set (view c1)" using Cons.prems(3,4) v1(1) by auto
  then have "set (view c') = set (view c1) - (set (concat ps) - set (kept (concat ps) (fset addrs1))) \<and>
      fset addrs' = fset addrs1 - me_Address ` set (concat ps)"
    using Cons.prems(4) v1(2) by (intro Cons.IH [OF more]) auto
  moreover have "set (kept ms A) \<inter> set (concat ps) = {}" "set (kept (concat ps) A) \<inter> set ms = {}" for A
    using kept_sub [of ms A] kept_sub [of "concat ps" A] Cons.prems(4) by auto
  ultimately show ?case
    unfolding concat.simps set_append kept_append image_Un v1(1) v1(3)
    by (auto simp only: two_passes)
qed simp

lemma nodeAddrs_set: "nodeAddrs nodes addrs = Inr A \<Longrightarrow> fset A = fset addrs \<union> {addr. Inr addr \<in> nodeAddressForLB ` set nodes}"
  by (induction nodes arbitrary: addrs) (auto split: sum.splits)

lemma createMembers_view:
  assumes honest: "members1_honest lib P view"
  shows "each (\<lambda>addr. request_call (l1_CreateMember lib P addr port) w) xs c = (Returned u, c') \<Longrightarrow>
    \<exists>new. view c' = view c @ new \<and> endpoint ` set new = (\<lambda>addr. (addr, port)) ` set xs"
proof (induction xs arbitrary: c)
  case Nil
  then show ?case by (intro exI [of _ "[]"]) simp
next
  case (Cons x xs)
  then obtain c1 where one: "l1_CreateMember lib P x port c = (None, c1)"
    and more: "each (\<lambda>addr. request_call (l1_CreateMember lib P addr port) w) xs c1 = (Returned u, c')"
    by auto
  obtain m where m: "sameEndpoint x port m" "view c1 = view c @ [m]"
    using honest one unfolding members1_honest_def by blast
  from Cons.IH [OF more] obtain new where "view c' = view c1 @ new" "endpoint ` set new = (\<lambda>addr. (addr, port)) ` set xs" by blast
  then show ?case using m by (intro exI [of _ "m # new"]) (auto simp: sameEndpoint_iff)
qed


section \<open>When a creation or a deletion fails\<close>

text \<open>
  With a floating network, a balancer without a floating address can be neither deleted nor, because
  it is deleted first, ensured again.
\<close>

theorem v1_stuck_without_floating_ip:
  assumes vip: "getVipByName lib (GetLoadBalancerName service) c = Inr vip" and net: "lo_FloatingNetworkID opts \<noteq> ''''"
    and float: "getFloatingIPByPortID api (vip_PortID vip) c = Inl ErrNotFound"
    and check: "v1_checkService kube service = Inr (port, persistence)"
  shows "v1_EnsureLoadBalancerDeleted api lib opts service c = (Failed ErrNotFound, c) \<and>
    v1_EnsureLoadBalancer api lib kube opts service nodes c =
      (Failed (OsWrapf ''error deleting existing openstack load balancer: %v'' [] ErrNotFound), c)"
proof -
  have "v1_EnsureLoadBalancerDeleted api lib opts service c = (Failed ErrNotFound, c)"
    using vip net float
    by (simp add: v1_EnsureLoadBalancerDeleted_def v1_deleteFloatingIP_def andThen_def reading_def)
  then show ?thesis using vip check
    by (simp add: v1_EnsureLoadBalancer_def v1_GetLoadBalancer_def recovering_def andThen_def reading_def failing_def)
qed

text \<open>
  A node without an address ends the creation after the pool is made. The pool has the name of the
  balancer; the deletion looks for the name of the service, and succeeds without having seen it.
\<close>

theorem v1_orphan_pool_stays:
  assumes check: "v1_checkService kube service = Inr (port, persistence)"
    and no_vip: "getVipByName lib (GetLoadBalancerName service) c = Inl ErrNotFound"
    and pool: "l1_CreatePool lib \<lparr>o1_Name = GetLoadBalancerName service, o1_Protocol = ''TCP'', o1_SubnetID = lo_SubnetID opts,
                 o1_LBMethod = (if lo_LBMethod opts = '''' then ''ROUND_ROBIN'' else lo_LBMethod opts)\<rparr> c = (Inr p, c1)"
    and node: "node_Addresses node = []"
    and still: "getVipByName lib (GetLoadBalancerName service) c1 = Inl ErrNotFound" "getPoolByName lib (sv_Name service) c1 = Inl ErrNotFound"
  shows "v1_EnsureLoadBalancer api lib kube opts service (node # nodes) c = (Failed ErrNoAddressFound, c1) \<and>
    v1_EnsureLoadBalancerDeleted api lib opts service c1 = (Returned (), c1)"
  using assms
  by (simp add: v1_EnsureLoadBalancer_def v1_GetLoadBalancer_def v1_createBalancer_def v1_addNode_def nodeAddressForLB_def
      preferInternal_def v1_EnsureLoadBalancerDeleted_def v1_findPool_def andThen_def reading_def changing_def give_def)

text \<open>The pools of the service.\<close>

definition pools1_honest :: "'c lbaas1API \<Rightarrow> ('c \<Rightarrow> string set) \<Rightarrow> bool" where
  "pools1_honest lib pools \<longleftrightarrow>
     (\<forall>opts c p c'. l1_CreatePool lib opts c = (Inr p, c') \<longrightarrow> p1_ID p \<notin> pools c \<and> pools c' = insert (p1_ID p) (pools c)) \<and>
     (\<forall>opts c err c'. l1_CreatePool lib opts c = (Inl err, c') \<longrightarrow> pools c' = pools c) \<and>
     (\<forall>i c. pools (snd (l1_DeletePool lib i c)) = pools c - {i}) \<and>
     (\<forall>i a p c. pools (snd (l1_CreateMember lib i a p c)) = pools c) \<and>
     (\<forall>t d o' r c. pools (snd (l1_CreateMonitor lib t d o' r c)) = pools c) \<and>
     (\<forall>i c. pools (snd (l1_DeleteMonitor lib i c)) = pools c) \<and>
     (\<forall>i m c. pools (snd (l1_AssociateMonitor lib i m c)) = pools c) \<and>
     (\<forall>opts c. pools (snd (l1_CreateVip lib opts c)) = pools c)"

text \<open>A step that keeps the pools when it returns, and has dropped one of them otherwise.\<close>

definition dropping :: "('c \<Rightarrow> string set) \<Rightarrow> string \<Rightarrow> ('c, 'a) osStep \<Rightarrow> bool" where
  "dropping pools i m \<longleftrightarrow>
     (\<forall>c res c'. m c = (res, c') \<longrightarrow> pools c' = (case res of Returned _ \<Rightarrow> pools c | _ \<Rightarrow> pools c - {i}))"

lemma dropping_andThen: "dropping pools i m \<Longrightarrow> (\<And>a. dropping pools i (f a)) \<Longrightarrow> dropping pools i (andThen m f)"
proof -
  assume m: "dropping pools i m" and f: "\<And>a. dropping pools i (f a)"
  show ?thesis unfolding dropping_def
  proof (intro allI impI)
    fix c res c'
    assume run: "andThen m f c = (res, c')"
    obtain r c1 where r: "m c = (r, c1)" by fastforce
    note c1 = m [unfolded dropping_def, rule_format, OF r]
    show "pools c' = (case res of Returned _ \<Rightarrow> pools c | _ \<Rightarrow> pools c - {i})"
    proof (cases r)
      case Panicked
      then have "res = Panicked" "c' = c1" using run [unfolded andThen_def r] by simp_all
      then show ?thesis using c1 Panicked by simp
    next
      case (Failed err)
      then have "res = Failed err" "c' = c1" using run [unfolded andThen_def r] by simp_all
      then show ?thesis using c1 Failed by simp
    next
      case (Returned a)
      then have "f a c1 = (res, c')" using run [unfolded andThen_def r] by simp
      from f [of a, unfolded dropping_def, rule_format, OF this] show ?thesis using c1 Returned by (cases res) simp_all
    qed
  qed
qed

lemma dropping_give: "dropping pools i (give a)"
  by (simp add: dropping_def give_def)

lemma dropping_unwinding:
  assumes "keeps pools m" and "\<And>c. pools (u c) = pools c - {i}"
  shows "dropping pools i (unwinding u m)"
  unfolding dropping_def
proof (intro allI impI)
  fix c res c'
  assume run: "unwinding u m c = (res, c')"
  obtain r c1 where m: "m c = (r, c1)" by fastforce
  have "pools c1 = pools c" using keepsD [OF assms(1) m] .
  moreover have "res = r \<and> c' = (case r of Returned _ \<Rightarrow> c1 | _ \<Rightarrow> u c1)"
    using run [unfolded unwinding_def m] by (cases r) auto
  ultimately show "pools c' = (case res of Returned _ \<Rightarrow> pools c | _ \<Rightarrow> pools c - {i})"
    by (cases r) (simp_all add: assms(2))
qed

lemma dropping_each: "(\<And>x. x \<in> set xs \<Longrightarrow> dropping pools i (f x)) \<Longrightarrow> dropping pools i (each f xs)"
  by (induction xs) (auto intro: dropping_give dropping_andThen)

lemma pools1_kept:
  assumes "pools1_honest lib pools"
  shows "pools (snd (l1_CreateMember lib i a p c)) = pools c" "pools (snd (l1_CreateMonitor lib t d o' r c)) = pools c"
    "pools (snd (l1_AssociateMonitor lib i m c)) = pools c" "pools (snd (l1_CreateVip lib vo c)) = pools c"
    "pools (dropPool lib i c) = pools c - {i}" "pools (dropMonitor lib mon c) = pools c"
  using assms by (simp_all add: pools1_honest_def dropPool_def dropMonitor_def split: option.split)

lemma pools1_created:
  assumes "pools1_honest lib pools"
  shows "l1_CreatePool lib o1 c = (Inr q, c') \<Longrightarrow> p1_ID q \<notin> pools c \<and> pools c' = insert (p1_ID q) (pools c)"
    and "l1_CreatePool lib o1 c = (Inl err, c') \<Longrightarrow> pools c' = pools c"
  using assms by (simp_all add: pools1_honest_def)

lemma v1_filling_drops:
  assumes honest: "pools1_honest lib pools" and nodes: "\<forall>node \<in> set nodes. node_Addresses node \<noteq> []"
  shows "dropping pools i (andThen (each (v1_addNode lib i port) nodes) (\<lambda>_.
     andThen (v1_createMonitor lib kube opts i) (\<lambda>mon. v1_createVip lib opts service port persistence i mon)))"
proof -
  note kept = pools1_kept [OF honest]
  have "dropping pools i (v1_addNode lib i port node)" if "node \<in> set nodes" for node
  proof -
    have "node_Addresses node \<noteq> []" using nodes that by blast
    then obtain addr where "nodeAddressForLB node = Inr addr"
      by (cases "nodeAddressForLB node") (auto simp: nodeAddressForLB_def preferInternal_def split: list.splits option.splits)
    then have "v1_addNode lib i port node = unwinding (dropPool lib i) (request_call (l1_CreateMember lib i addr (sp_NodePort port)) id)"
      by (simp add: v1_addNode_def andThen_reading fun_eq_iff)
    then show ?thesis by (simp add: dropping_unwinding keeps_call kept)
  qed
  moreover have "dropping pools i (v1_createMonitor lib kube opts i)"
    unfolding v1_createMonitor_def
    by (simp add: dropping_andThen dropping_give dropping_unwinding keeps_call keeps_changing kept)
  moreover have "dropping pools i (v1_createVip lib opts service port persistence i mon)" for mon
    unfolding v1_createVip_def Let_def
    by (intro dropping_unwinding keeps_changing) (simp_all add: kept)
  ultimately show ?thesis by (intro dropping_andThen dropping_each)
qed


section \<open>A service of the first version\<close>

text \<open>A service whose virtual addresses are given, with no room for another one.\<close>

definition demo_lbaas1 :: "osVip list \<Rightarrow> demoLB lbaas1API" where
  "demo_lbaas1 vs =
     \<lparr>l1_ListPools = (\<lambda>n c. [Inr (map (\<lambda>p. \<lparr>p1_ID = po_ID p, p1_MonitorIDs = [], p1_MemberIDs = []\<rparr>) (filter (\<lambda>p. po_ID p = n) (dl_pools c)))]),
      l1_ListVips = (\<lambda>n c. [Inr vs]),
      l1_GetPool = (\<lambda>i c. Inr \<lparr>p1_ID = i, p1_MonitorIDs = [], p1_MemberIDs = []\<rparr>),
      l1_CreatePool = (\<lambda>opts c.
        if o1_Name opts \<in> po_ID ` set (dl_pools c) then (Inl (OsExtErr ''conflict''), c)
        else (Inr \<lparr>p1_ID = o1_Name opts, p1_MonitorIDs = [], p1_MemberIDs = []\<rparr>,
              c\<lparr>dl_pools := \<lparr>po_ID = o1_Name opts, po_MonitorID = '''', po_Listeners = []\<rparr> # dl_pools c\<rparr>)),
      l1_DeletePool = (\<lambda>i c. (None, c\<lparr>dl_pools := filter (\<lambda>p. po_ID p \<noteq> i) (dl_pools c)\<rparr>)),
      l1_CreateMember = (\<lambda>i addr port c. (None, c\<lparr>dl_members := dl_members c @ [(i, \<lparr>me_ID = addr, me_Address = addr, me_ProtocolPort = port\<rparr>)]\<rparr>)),
      l1_DeleteMember = (\<lambda>m c. (None, c\<lparr>dl_members := filter (\<lambda>x. me_ID (snd x) \<noteq> m) (dl_members c)\<rparr>)),
      l1_MemberPages = (\<lambda>i c. [\<lambda>_. Inr (demoMembers c i)]),
      l1_CreateMonitor = (\<lambda>t d o' r c. (Inr ''m'', c)),
      l1_DeleteMonitor = (\<lambda>i c. (None, c)),
      l1_AssociateMonitor = (\<lambda>i m c. (None, c)),
      l1_DisassociateMonitor = (\<lambda>i m c. (None, c)),
      l1_CreateVip = (\<lambda>opts c. (Inl (OsExtErr ''quota''), c)),
      l1_DeleteVip = (\<lambda>i c. (None, c))\<rparr>"

definition demo_vip :: osVip where
  "demo_vip = \<lparr>vip_ID = ''v'', vip_Address = ''10.1.0.1'', vip_PortID = ''port'', vip_PoolID = ''p'', vip_ProtocolPort = 80\<rparr>"

lemma demo_vips: "getVipByName (demo_lbaas1 [demo_vip]) n c = Inr demo_vip" "getVipByName (demo_lbaas1 []) n c = Inl ErrNotFound"
  by (simp_all add: getVipByName_def demo_lbaas1_def onlyResult_one)

lemma demo_members1: "members1_honest (demo_lbaas1 vs) ''p'' (\<lambda>c. demoMembers c ''p'')"
proof -
  have "map snd (filter (\<lambda>x. fst x = ''p'' \<and> me_ID (snd x) \<noteq> mid) xs) = filter (\<lambda>m. me_ID m \<noteq> mid) (map snd (filter (\<lambda>x. fst x = ''p'') xs))"
    for mid and xs :: "(string \<times> osMember) list"
    by (induction xs) auto
  then show ?thesis
    by (auto simp: members1_honest_def demo_lbaas1_def demoMembers_def sameEndpoint_def conj_commute
        intro: exI [of _ "[map snd (filter (\<lambda>x. fst x = ''p'') (dl_members c))]" for c])
qed

lemma demo_check1: "v1_checkService demo_kube demo_lb_service =
    Inr (\<lparr>sp_Name = ''web'', sp_Protocol = ''TCP'', sp_Port = 80, sp_NodePort = 30080\<rparr>, None)"
  by (simp add: v1_checkService_def demo_kube_def demo_lb_service_def anyService_def)


theorem v1_stuck_without_floating_ip_witness:
  "v1_EnsureLoadBalancerDeleted demo_lbaas (demo_lbaas1 [demo_vip]) demo_lb_opts demo_lb_service demo_lb_before =
     (Failed ErrNotFound, demo_lb_before)"
proof -
  have "lo_FloatingNetworkID demo_lb_opts \<noteq> ''''" by (simp add: demo_lb_opts_def)
  moreover have "getFloatingIPByPortID demo_lbaas (vip_PortID demo_vip) demo_lb_before = Inl ErrNotFound"
    by (simp add: getFloatingIPByPortID_def demo_lbaas_def onlyResult_one)
  ultimately show ?thesis
    using v1_stuck_without_floating_ip [OF demo_vips(1) _ _ demo_check1] by blast
qed

theorem v1_orphan_pool_stays_witness:
  "\<exists>c1. v1_EnsureLoadBalancer demo_lbaas (demo_lbaas1 []) demo_kube demo_lb_opts demo_lb_service [demo_lb_node ''a'' []] demo_lb_before
       = (Failed ErrNoAddressFound, c1) \<and> map po_ID (dl_pools c1) = [''au'', ''p''] \<and>
     v1_EnsureLoadBalancerDeleted demo_lbaas (demo_lbaas1 []) demo_lb_opts demo_lb_service c1 = (Returned (), c1)"
proof -
  have lbName: "GetLoadBalancerName demo_lb_service = ''au''" by code_simp
  define c1 where "c1 = demo_lb_before\<lparr>dl_pools := \<lparr>po_ID = ''au'', po_MonitorID = '''', po_Listeners = []\<rparr> # dl_pools demo_lb_before\<rparr>"
  have pool: "l1_CreatePool (demo_lbaas1 []) \<lparr>o1_Name = GetLoadBalancerName demo_lb_service, o1_Protocol = ''TCP'', o1_SubnetID = lo_SubnetID demo_lb_opts,
      o1_LBMethod = (if lo_LBMethod demo_lb_opts = '''' then ''ROUND_ROBIN'' else lo_LBMethod demo_lb_opts)\<rparr> demo_lb_before =
      (Inr \<lparr>p1_ID = ''au'', p1_MonitorIDs = [], p1_MemberIDs = []\<rparr>, c1)"
    by (simp add: lbName demo_lbaas1_def demo_lb_before_def c1_def)
  have node: "node_Addresses (demo_lb_node ''a'' []) = []" by (simp add: demo_lb_node_def)
  have "getPoolByName (demo_lbaas1 []) (sv_Name demo_lb_service) c1 = Inl ErrNotFound"
    by (simp add: getPoolByName_def demo_lbaas1_def demo_lb_service_def anyService_def c1_def demo_lb_before_def onlyResult_one)
  from v1_orphan_pool_stays [OF demo_check1 demo_vips(2) pool node demo_vips(2) this, of demo_lbaas "[]"]
  show ?thesis by (intro exI [of _ c1]) (simp add: c1_def demo_lb_before_def)
qed

lemma demo_pools1: "pools1_honest (demo_lbaas1 vs) (\<lambda>c. po_ID ` set (dl_pools c))"
  by (auto simp: pools1_honest_def demo_lbaas1_def split: if_splits)


end
