(* ===== verification/GceNet.thy ===== *)
theory GceNet
  imports GceDisks CloudServices
begin

text \<open>
  The instances, routes and the start-up of the GCE provider (\<open>gce.go\<close>), and what its networking
  shares: the calls of the Compute Engine client that only networking makes (\<open>gceNet\<close>, beside the
  \<open>gceAPI\<close> of the disks), the operations that are waited for, and the paging of listings.
\<close>

type_synonym ('c, 'a) gceStep = "('c, gceErr, 'a) step"

record forwardingRule =
  fr_Name :: string
  fr_Description :: string
  fr_IPAddress :: string
  fr_IPProtocol :: string
  fr_PortRange :: string
  fr_Target :: string

record targetPool =
  tp_Name :: string
  tp_Description :: string
  tp_Instances :: "string list"
  tp_SessionAffinity :: string
  tp_HealthChecks :: "string list"

record gceFirewall =
  fw_Name :: string
  fw_Description :: string
  fw_Network :: string
  fw_SourceRanges :: "string list"
  fw_TargetTags :: "string list"
  fw_Allowed :: "(string \<times> string list) list"

record gceAddress =
  ad_Name :: string
  ad_Description :: string
  ad_Address :: string

record healthCheck =
  hc_Name :: string
  hc_Port :: int
  hc_RequestPath :: string
  hc_Description :: string
  hc_CheckIntervalSec :: int
  hc_TimeoutSec :: int
  hc_HealthyThreshold :: int
  hc_UnhealthyThreshold :: int
  hc_SelfLink :: string

record gceListed =
  li_Name :: string
  li_ID :: int
  li_Disks :: "string list"
  li_MachineType :: string
  li_Tags :: "string list"

record gceRoute =
  rt_Name :: string
  rt_DestRange :: string
  rt_NextHopInstance :: string
  rt_Network :: string
  rt_Priority :: int
  rt_Description :: string

text \<open>
  A page of a listing comes with the token of the next one, which is empty at the end. \<open>gn_Metadata\<close>
  is the metadata server; \<open>gn_range\<close> is the order in which a set is visited.
\<close>

type_synonym ('c, 'a) gcePage = "string \<Rightarrow> 'c \<Rightarrow> gceErr + 'a list \<times> string"

record 'c gceNet =
  gn_GetRegionOperation :: "string \<Rightarrow> string \<Rightarrow> 'c \<Rightarrow> (gceOperation option \<times> gceErr option) \<times> 'c"
  gn_GetForwardingRule :: "string \<Rightarrow> string \<Rightarrow> 'c \<Rightarrow> gceErr + forwardingRule"
  gn_InsertForwardingRule :: "string \<Rightarrow> forwardingRule \<Rightarrow> 'c gceCall"
  gn_DeleteForwardingRule :: "string \<Rightarrow> string \<Rightarrow> 'c gceCall"
  gn_GetTargetPool :: "string \<Rightarrow> string \<Rightarrow> 'c \<Rightarrow> gceErr + targetPool"
  gn_InsertTargetPool :: "string \<Rightarrow> targetPool \<Rightarrow> 'c gceCall"
  gn_DeleteTargetPool :: "string \<Rightarrow> string \<Rightarrow> 'c gceCall"
  gn_AddInstance :: "string \<Rightarrow> string \<Rightarrow> string list \<Rightarrow> 'c gceCall"
  gn_RemoveInstance :: "string \<Rightarrow> string \<Rightarrow> string list \<Rightarrow> 'c gceCall"
  gn_GetFirewall :: "string \<Rightarrow> 'c \<Rightarrow> gceErr + gceFirewall"
  gn_InsertFirewall :: "gceFirewall \<Rightarrow> 'c gceCall"
  gn_UpdateFirewall :: "string \<Rightarrow> gceFirewall \<Rightarrow> 'c gceCall"
  gn_DeleteFirewall :: "string \<Rightarrow> 'c gceCall"
  gn_ListAddresses :: "string \<Rightarrow> ('c, string) gcePage"
  gn_GetAddress :: "string \<Rightarrow> string \<Rightarrow> 'c \<Rightarrow> gceErr + gceAddress"
  gn_InsertAddress :: "string \<Rightarrow> gceAddress \<Rightarrow> 'c gceCall"
  gn_DeleteAddress :: "string \<Rightarrow> string \<Rightarrow> 'c gceCall"
  gn_GetHealthCheck :: "string \<Rightarrow> 'c \<Rightarrow> gceErr + healthCheck"
  gn_InsertHealthCheck :: "healthCheck \<Rightarrow> 'c gceCall"
  gn_UpdateHealthCheck :: "string \<Rightarrow> healthCheck \<Rightarrow> 'c gceCall"
  gn_DeleteHealthCheck :: "string \<Rightarrow> 'c gceCall"
  gn_ListInstances :: "string \<Rightarrow> string \<Rightarrow> ('c, gceListed) gcePage"
  gn_ListRoutes :: "string \<Rightarrow> ('c, gceRoute) gcePage"
  gn_InsertRoute :: "gceRoute \<Rightarrow> 'c gceCall"
  gn_DeleteRoute :: "string \<Rightarrow> 'c gceCall"
  gn_Metadata :: "string \<Rightarrow> 'c \<Rightarrow> gceErr + string"
  gn_ProjectID :: "'c \<Rightarrow> gceErr + string"
  gn_ListClusters :: "string \<Rightarrow> 'c \<Rightarrow> gceErr + string list"
  gn_range :: "string fset \<Rightarrow> 'c \<Rightarrow> string list"

text \<open>What \<open>gce.Cloud\<close> keeps of its configuration.\<close>

record gceProvider =
  gp_cloud :: gceCloud
  gp_region :: string
  gp_localZone :: string
  gp_networkURL :: string
  gp_nodeTags :: "string list"
  gp_nodeInstancePrefix :: string
  gp_useMetadataServer :: bool

abbreviation gp_projectID :: "gceProvider \<Rightarrow> string" where
  "gp_projectID gce \<equiv> gc_projectID (gp_cloud gce)"

section \<open>Operations\<close>

definition waitForRegionOp :: "'c gceAPI \<Rightarrow> 'c gceNet \<Rightarrow> string \<Rightarrow> gceOperation option \<Rightarrow> 'c \<Rightarrow> gceErr option \<times> 'c" where
  "waitForRegionOp api net region op c = waitForOp api (gn_GetRegionOperation net region) op c"

text \<open>
  A call whose operation is waited for, in the three forms of the code: any error ends it; a
  conflict (the object exists) is no error, and an operation that is nil is not waited for; an
  object that is not found is no error.
\<close>

type_synonym 'c opWait = "gceOperation option \<Rightarrow> 'c \<Rightarrow> gceErr option \<times> 'c"

definition awaited :: "'c gceCall \<Rightarrow> 'c opWait \<Rightarrow> ('c, unit) gceStep" where
  "awaited call wait = andThen (changing call) (\<lambda>op. request_call (wait op) id)"

definition conflictTolerant :: "'c gceCall \<Rightarrow> 'c opWait \<Rightarrow> ('c, unit) gceStep" where
  "conflictTolerant call wait c =
     (case call c of
        (Inl err, c) \<Rightarrow> if isHTTPErrorCode err 409 then (Returned (), c) else (Failed err, c)
      | (Inr None, c) \<Rightarrow> (Returned (), c)
      | (Inr (Some op), c) \<Rightarrow>
          (case wait (Some op) c of
             (Some err, c) \<Rightarrow> if isHTTPErrorCode err 409 then (Returned (), c) else (Failed err, c)
           | (None, c) \<Rightarrow> (Returned (), c)))"

definition goneTolerant :: "'c gceCall \<Rightarrow> 'c opWait \<Rightarrow> ('c, unit) gceStep" where
  "goneTolerant call wait c =
     (case call c of
        (Inl err, c) \<Rightarrow> if isHTTPErrorCode err 404 then (Returned (), c) else (Failed err, c)
      | (Inr op, c) \<Rightarrow> request_call (wait op) id c)"

section \<open>Pages\<close>

abbreviation maxPages :: nat where
  "maxPages \<equiv> 25"

text \<open>
  At most \<open>maxPages\<close> pages are fetched. The handler of a page ends the loop with a result, or goes on
  with a new state.
\<close>

fun scanPages :: "nat \<Rightarrow> ('c, 'a) gcePage \<Rightarrow> ('a list \<Rightarrow> 's \<Rightarrow> 'r + 's) \<Rightarrow> string \<Rightarrow> 's \<Rightarrow> 'c \<Rightarrow> gceErr + 'r + 's" where
  "scanPages 0 fetch handler token s c = Inr (Inr s)"
| "scanPages (Suc n) fetch handler token s c =
     (case fetch token c of
        Inl err \<Rightarrow> Inl err
      | Inr (items, nextToken) \<Rightarrow>
          (case handler items s of
             Inl r \<Rightarrow> Inr (Inl r)
           | Inr s \<Rightarrow> if nextToken = '''' then Inr (Inr s) else scanPages n fetch handler nextToken s c))"

section \<open>Instances\<close>

text \<open>A filter is used only when every name has the prefix of the configuration.\<close>

definition usedPrefix :: "string \<Rightarrow> string list \<Rightarrow> string" where
  "usedPrefix nodeInstancePrefix ns = (if list_all (\<lambda>n. HasPrefix n nodeInstancePrefix) ns then nodeInstancePrefix else '''')"

definition instanceFilter :: "string \<Rightarrow> string" where
  "instanceFilter pre = (if pre = '''' then '''' else ''name eq '' @ pre @ ''.*'')"

text \<open>The instances found so far, and how many are still looked for; one is counted each time it is seen.\<close>

definition recordListed :: "string \<Rightarrow> string fset \<Rightarrow> gceListed \<Rightarrow> gceInstance gomap \<times> int \<Rightarrow> gceInstance gomap \<times> int" where
  "recordListed zone wanted i st =
     (if li_Name i |\<notin>| wanted then st
      else (fmupd (li_Name i)
              \<lparr>gi_Zone = zone, gi_Name = li_Name i, gi_ID = li_ID i, gi_Disks = li_Disks i,
               gi_Type = lastComponent (li_MachineType i)\<rparr> (fst st), snd st - 1))"

fun findInZones ::
  "'c gceNet \<Rightarrow> string \<Rightarrow> string fset \<Rightarrow> string list \<Rightarrow> gceInstance gomap \<times> int \<Rightarrow> 'c \<Rightarrow> gceErr + gceInstance gomap \<times> int" where
  "findInZones net pre wanted [] st c = Inr st"
| "findInZones net pre wanted (zone # zones) st c =
     (if snd st = 0 then Inr st
      else
        (case scanPages maxPages (gn_ListInstances net zone (instanceFilter pre))
                (\<lambda>items st. Inr (fold (recordListed zone wanted) items st) :: unit + _) '''' st c of
           Inl err \<Rightarrow> Inl err
         | Inr (Inl _) \<Rightarrow> Inr st
         | Inr (Inr st) \<Rightarrow> findInZones net pre wanted zones st c))"

fun instanceArray :: "gceInstance gomap \<Rightarrow> string list \<Rightarrow> gceErr + gceInstance list" where
  "instanceArray found [] = Inr []"
| "instanceArray found (name # ns) =
     (case fmlookup found (canonicalizeInstanceName name) of
        None \<Rightarrow> Inl ErrInstanceNotFound
      | Some inst \<Rightarrow> map_sum id (\<lambda>rest. inst # rest) (instanceArray found ns))"

definition getInstancesByNames :: "'c gceNet \<Rightarrow> gceProvider \<Rightarrow> string list \<Rightarrow> 'c \<Rightarrow> gceErr + gceInstance list" where
  "getInstancesByNames net gce ns c =
     (let wanted = map canonicalizeInstanceName ns in
      case findInZones net (usedPrefix (gp_nodeInstancePrefix gce) wanted) (fset_of_list wanted)
             (gc_managedZones (gp_cloud gce)) (fmempty, int (length ns)) c of
        Inl err \<Rightarrow> Inl err
      | Inr (found, _) \<Rightarrow> instanceArray found ns)"

section \<open>The tags of the hosts\<close>

definition longestTag :: "gceListed \<Rightarrow> string" where
  "longestTag inst =
     foldl (\<lambda>longest tag. if HasPrefix (li_Name inst) tag \<and> length longest < length tag then tag else longest) '''' (li_Tags inst)"

fun tagsOfPage :: "string fset \<Rightarrow> gceListed list \<Rightarrow> string fset \<Rightarrow> gceErr + string fset" where
  "tagsOfPage hostNames [] tags = Inr tags"
| "tagsOfPage hostNames (inst # insts) tags =
     (if li_Name inst |\<notin>| hostNames then tagsOfPage hostNames insts tags
      else if longestTag inst = '''' then
        Inl (GceErrorf ''Could not find any tag that is a prefix of instance name for instance %s'' [li_Name inst])
      else tagsOfPage hostNames insts (finsert (longestTag inst) tags))"

fun tagsOfZones :: "'c gceNet \<Rightarrow> string \<Rightarrow> gceInstance list \<Rightarrow> string list \<Rightarrow> string fset \<Rightarrow> 'c \<Rightarrow> gceErr + string fset" where
  "tagsOfZones net pre hosts [] tags c = Inr tags"
| "tagsOfZones net pre hosts (zone # zones) tags c =
     (case scanPages maxPages (gn_ListInstances net zone (instanceFilter pre))
             (tagsOfPage (fset_of_list (map gi_Name (filter (\<lambda>h. gi_Zone h = zone) hosts)))) '''' tags c of
        Inl err \<Rightarrow> Inl err
      | Inr (Inl err) \<Rightarrow> Inl err
      | Inr (Inr tags) \<Rightarrow> tagsOfZones net pre hosts zones tags c)"

definition computeHostTags :: "'c gceNet \<Rightarrow> gceProvider \<Rightarrow> gceInstance list \<Rightarrow> 'c \<Rightarrow> gceErr + string list" where
  "computeHostTags net gce hosts c =
     and_then (tagsOfZones net (usedPrefix (gp_nodeInstancePrefix gce) (map gi_Name hosts)) hosts
                 (gn_range net (fset_of_list (map gi_Zone hosts)) c) {||} c) (\<lambda>tags.
     if tags = {||} then Inl (GceErrorf ''No instances found'' []) else Inr (sorted_list_of_fset tags))"

section \<open>The metadata server\<close>

definition getProjectAndZone :: "'c gceNet \<Rightarrow> 'c \<Rightarrow> gceErr + string \<times> string" where
  "getProjectAndZone net c =
     and_then (gn_Metadata net ''instance/zone'' c) (\<lambda>result.
     let parts = split_on (CHR ''/'') result in
     if length parts \<noteq> 4 then Inl (GceErrorf ''unexpected response: %s'' [result])
     else and_then (gn_ProjectID net c) (\<lambda>projectID. Inr (projectID, parts ! 3)))"

definition getInstanceIDViaMetadata :: "'c gceNet \<Rightarrow> 'c \<Rightarrow> gceErr + string" where
  "getInstanceIDViaMetadata net c =
     and_then (gn_Metadata net ''instance/hostname'' c) (\<lambda>result.
     let parts = split_on (CHR ''.'') result in
     if length parts = 0 then Inl (GceErrorf ''unexpected response: %s'' [result]) else Inr (parts ! 0))"

definition getCurrentExternalIDViaMetadata :: "'c gceNet \<Rightarrow> 'c \<Rightarrow> gceErr + string" where
  "getCurrentExternalIDViaMetadata net c =
     map_sum (\<lambda>_. GceErrorf ''couldn't get external ID: %v'' []) id (gn_Metadata net ''instance/id'' c)"

definition getCurrentMachineTypeViaMetadata :: "'c gceNet \<Rightarrow> 'c \<Rightarrow> gceErr + string" where
  "getCurrentMachineTypeViaMetadata net c =
     and_then (map_sum (\<lambda>_. GceErrorf ''couldn't get machine type: %v'' []) id (gn_Metadata net ''instance/machine-type'' c)) (\<lambda>mType.
     let parts = split_on (CHR ''/'') mType in
     if length parts \<noteq> 4 then Inl (GceErrorf ''unexpected response for machine type: %s'' [mType]) else Inr (parts ! 3))"

definition getNetworkNameViaMetadata :: "'c gceNet \<Rightarrow> 'c \<Rightarrow> gceErr + string" where
  "getNetworkNameViaMetadata net c =
     and_then (gn_Metadata net ''instance/network-interfaces/0/network'' c) (\<lambda>result.
     let parts = split_on (CHR ''/'') result in
     if length parts \<noteq> 4 then Inl (GceErrorf ''unexpected response: %s'' [result]) else Inr (parts ! 3))"

definition gce_NodeAddresses :: "'c gceNet \<Rightarrow> 'c \<Rightarrow> gceErr + NodeAddress list" where
  "gce_NodeAddresses net c =
     and_then (map_sum (\<lambda>_. GceErrorf ''couldn't get internal IP: %v'' []) id
                 (gn_Metadata net ''instance/network-interfaces/0/ip'' c)) (\<lambda>internalIP.
     and_then (map_sum (\<lambda>_. GceErrorf ''couldn't get external IP: %v'' []) id
                 (gn_Metadata net ''instance/network-interfaces/0/access-configs/0/external-ip'' c)) (\<lambda>externalIP.
     Inr [(''InternalIP'', internalIP), (''ExternalIP'', externalIP)]))"

definition isCurrentInstance :: "'c gceNet \<Rightarrow> string \<Rightarrow> 'c \<Rightarrow> bool" where
  "isCurrentInstance net instanceID c =
     (case getInstanceIDViaMetadata net c of Inl _ \<Rightarrow> False | Inr current \<Rightarrow> current = canonicalizeInstanceName instanceID)"

text \<open>Facts about the own instance come from the metadata server when it answers, all others from the API.\<close>

definition preferMetadata :: "'c gceNet \<Rightarrow> gceProvider \<Rightarrow> string \<Rightarrow> ('c \<Rightarrow> gceErr + string) \<Rightarrow> ('c \<Rightarrow> gceErr + string) \<Rightarrow> 'c \<Rightarrow> gceErr + string" where
  "preferMetadata net gce instanceName own fallback c =
     (if gp_useMetadataServer gce \<and> isCurrentInstance net instanceName c then
        (case own c of Inr r \<Rightarrow> Inr r | Inl _ \<Rightarrow> fallback c)
      else fallback c)"

definition gce_ExternalID :: "'c gceAPI \<Rightarrow> 'c gceNet \<Rightarrow> gceProvider \<Rightarrow> string \<Rightarrow> 'c \<Rightarrow> gceErr + string" where
  "gce_ExternalID api net gce nodeName =
     preferMetadata net gce nodeName (getCurrentExternalIDViaMetadata net)
       (\<lambda>c. and_then (getInstanceByName api (gp_cloud gce) nodeName c) (\<lambda>inst. Inr (FormatInt (gi_ID inst))))"

definition gce_InstanceID :: "'c gceAPI \<Rightarrow> 'c gceNet \<Rightarrow> gceProvider \<Rightarrow> string \<Rightarrow> 'c \<Rightarrow> gceErr + string" where
  "gce_InstanceID api net gce nodeName =
     preferMetadata net gce nodeName
       (\<lambda>c. and_then (getProjectAndZone net c) (\<lambda>(projectID, zone).
            Inr (projectID @ ''/'' @ zone @ ''/'' @ canonicalizeInstanceName nodeName)))
       (\<lambda>c. and_then (getInstanceByName api (gp_cloud gce) nodeName c) (\<lambda>inst.
            Inr (gp_projectID gce @ ''/'' @ gi_Zone inst @ ''/'' @ gi_Name inst)))"

definition gce_InstanceType :: "'c gceAPI \<Rightarrow> 'c gceNet \<Rightarrow> gceProvider \<Rightarrow> string \<Rightarrow> 'c \<Rightarrow> gceErr + string" where
  "gce_InstanceType api net gce nodeName =
     preferMetadata net gce nodeName (getCurrentMachineTypeViaMetadata net)
       (\<lambda>c. and_then (getInstanceByName api (gp_cloud gce) nodeName c) (\<lambda>inst. Inr (gi_Type inst)))"

definition gce_GetZone :: "gceProvider \<Rightarrow> string \<times> string" where
  "gce_GetZone gce = (gp_localZone gce, gp_region gce)"

fun gce_ListClusters :: "'c gceNet \<Rightarrow> string list \<Rightarrow> 'c \<Rightarrow> gceErr + string list" where
  "gce_ListClusters net [] c = Inr []"
| "gce_ListClusters net (zone # zones) c =
     and_then (gn_ListClusters net zone c) (\<lambda>clusters.
     and_then (gce_ListClusters net zones c) (\<lambda>rest. Inr (clusters @ rest)))"

section \<open>Routes\<close>

definition truncateClusterName :: "string \<Rightarrow> string" where
  "truncateClusterName clusterName = (if length clusterName > 26 then take 26 clusterName else clusterName)"

abbreviation k8sNodeRouteTag :: string where
  "k8sNodeRouteTag \<equiv> ''k8s-node-route''"

text \<open>\<open>path.Base\<close>.\<close>

definition Base :: "string \<Rightarrow> string" where
  "Base p =
     (if p = '''' then ''.''
      else let q = rev (dropWhile (\<lambda>ch. ch = CHR ''/'') (rev p)) in
        if q = '''' then ''/'' else lastComponent q)"

definition ownRoute :: "gceProvider \<Rightarrow> string \<Rightarrow> gceRoute \<Rightarrow> bool" where
  "ownRoute gce pre r \<longleftrightarrow>
     rt_Network r = gp_networkURL gce \<and> rt_Description r = k8sNodeRouteTag \<and> HasPrefix (rt_Name r) pre"

definition toCloudRoute :: "gceRoute \<Rightarrow> cloudRoute" where
  "toCloudRoute r = \<lparr>cr_Name = rt_Name r, cr_TargetNode = Base (rt_NextHopInstance r), cr_DestinationCIDR = rt_DestRange r\<rparr>"

definition gce_ListRoutes :: "'c gceNet \<Rightarrow> gceProvider \<Rightarrow> string \<Rightarrow> 'c \<Rightarrow> gceErr + cloudRoute list" where
  "gce_ListRoutes net gce clusterName c =
     (let pre = truncateClusterName clusterName in
      case scanPages maxPages (gn_ListRoutes net (''name eq '' @ pre @ ''-.*''))
             (\<lambda>items routes. Inr (routes @ map toCloudRoute (filter (ownRoute gce pre) items)) :: unit + _) '''' [] c of
        Inl err \<Rightarrow> Inl err
      | Inr (Inl _) \<Rightarrow> Inr []
      | Inr (Inr routes) \<Rightarrow> Inr routes)"

definition gce_CreateRoute :: "'c gceAPI \<Rightarrow> 'c gceNet \<Rightarrow> gceProvider \<Rightarrow> string \<Rightarrow> string \<Rightarrow> cloudRoute \<Rightarrow> ('c, unit) gceStep" where
  "gce_CreateRoute api net gce clusterName nameHint route =
     andThen (reading (getInstanceByName api (gp_cloud gce) (cr_TargetNode route))) (\<lambda>targetInstance c.
       case gn_InsertRoute net
              \<lparr>rt_Name = truncateClusterName clusterName @ ''-'' @ nameHint, rt_DestRange = cr_DestinationCIDR route,
               rt_NextHopInstance = ''zones/'' @ gi_Zone targetInstance @ ''/instances/'' @ gi_Name targetInstance,
               rt_Network = gp_networkURL gce, rt_Priority = 1000, rt_Description = k8sNodeRouteTag\<rparr> c of
         (Inl err, c) \<Rightarrow> if isHTTPErrorCode err 409 then (Returned (), c) else (Failed err, c)
       | (Inr insertOp, c) \<Rightarrow> request_call (waitForGlobalOp api insertOp) id c)"

definition gce_DeleteRoute :: "'c gceAPI \<Rightarrow> 'c gceNet \<Rightarrow> cloudRoute \<Rightarrow> ('c, unit) gceStep" where
  "gce_DeleteRoute api net route = awaited (gn_DeleteRoute net (cr_Name route)) (waitForGlobalOp api)"

section \<open>Start-up\<close>

datatype tokenSource = ComputeTokenSource | AltTokenSource string string | DefaultTokenSource

record gceConfig =
  gcf_TokenURL :: string
  gcf_TokenBody :: string
  gcf_ProjectID :: string
  gcf_NetworkName :: string
  gcf_NodeTags :: "string list"
  gcf_NodeInstancePrefix :: string
  gcf_Multizone :: bool

text \<open>
  The OAuth library (finding the default source, polling for a first token), the construction of the
  two clients, and their listings of networks and of zones with the URLs of their regions.
\<close>

record gceStartLib =
  gs_DefaultTokenSource :: "gceErr option"
  gs_FirstToken :: "tokenSource \<Rightarrow> gceErr option"
  gs_Clients :: "tokenSource \<Rightarrow> gceErr option"
  gs_Networks :: "tokenSource \<Rightarrow> string \<Rightarrow> gceErr + string list"
  gs_Zones :: "tokenSource \<Rightarrow> string \<Rightarrow> gceErr + (string \<times> string) list"

definition check :: "gceErr option \<Rightarrow> gceErr + unit" where
  "check err = (case err of None \<Rightarrow> Inr () | Some e \<Rightarrow> Inl e)"

definition gceNetworkURL :: "string \<Rightarrow> string \<Rightarrow> string" where
  "gceNetworkURL project network = ''https://www.googleapis.com/compute/v1/projects/'' @ project @ ''/global/networks/'' @ network"

definition getNetworkNameViaAPICall :: "gceStartLib \<Rightarrow> tokenSource \<Rightarrow> string \<Rightarrow> gceErr + string" where
  "getNetworkNameViaAPICall lib src projectID =
     and_then (gs_Networks lib src projectID) (\<lambda>items.
     case items of
       [] \<Rightarrow> Inl (GceErrorf ''GCE Network List call returned no networks for project %q'' [projectID])
     | n # _ \<Rightarrow> Inr n)"

definition getZonesForRegion :: "gceStartLib \<Rightarrow> tokenSource \<Rightarrow> string \<Rightarrow> string \<Rightarrow> gceErr + string list" where
  "getZonesForRegion lib src projectID region =
     (case gs_Zones lib src projectID of
        Inl _ \<Rightarrow> Inl (GceErrorf ''unexpected response listing zones: %v'' [])
      | Inr zones \<Rightarrow> Inr (map fst (filter (\<lambda>(n, r). lastComponent r = region) zones)))"

definition CreateGCECloud ::
  "gceStartLib \<Rightarrow> string \<Rightarrow> string \<Rightarrow> string \<Rightarrow> string list \<Rightarrow> string \<Rightarrow> string list \<Rightarrow> string \<Rightarrow> tokenSource option \<Rightarrow> bool \<Rightarrow>
   gceErr + gceProvider" where
  "CreateGCECloud lib projectID region zone managedZones networkURL nodeTags nodeInstancePrefix tokenSource useMetadataServer =
     and_then (case tokenSource of Some src \<Rightarrow> Inr src | None \<Rightarrow> map_sum id (\<lambda>_. DefaultTokenSource) (check (gs_DefaultTokenSource lib))) (\<lambda>src.
     and_then (check (gs_FirstToken lib src)) (\<lambda>_.
     and_then (check (gs_Clients lib src)) (\<lambda>_.
     and_then (if networkURL = '''' then map_sum id (gceNetworkURL projectID) (getNetworkNameViaAPICall lib src projectID)
               else Inr networkURL) (\<lambda>networkURL.
     and_then (if length managedZones = 0 then getZonesForRegion lib src projectID region else Inr managedZones) (\<lambda>managedZones.
     Inr \<lparr>gp_cloud = \<lparr>gc_projectID = projectID, gc_managedZones = managedZones\<rparr>, gp_region = region, gp_localZone = zone,
          gp_networkURL = networkURL, gp_nodeTags = nodeTags, gp_nodeInstancePrefix = nodeInstancePrefix,
          gp_useMetadataServer = useMetadataServer\<rparr>)))))"

text \<open>
  Without a configuration file the zone of the instance is managed, with the network of the
  instance. The URL of a configured network has the configured project.
\<close>

definition newGCECloud :: "gceStartLib \<Rightarrow> 'c gceNet \<Rightarrow> (gceErr + gceConfig) option \<Rightarrow> 'c \<Rightarrow> gceErr + gceProvider" where
  "newGCECloud lib net config c =
     and_then (getProjectAndZone net c) (\<lambda>(projectID, zone).
     and_then (GetGCERegion zone) (\<lambda>region.
     and_then (getNetworkNameViaMetadata net c) (\<lambda>networkName.
     let networkURL = gceNetworkURL projectID networkName in
     case config of
       None \<Rightarrow> CreateGCECloud lib projectID region zone [zone] networkURL [] '''' (Some ComputeTokenSource) True
     | Some (Inl err) \<Rightarrow> Inl err
     | Some (Inr cfg) \<Rightarrow>
         CreateGCECloud lib (if gcf_ProjectID cfg \<noteq> '''' then gcf_ProjectID cfg else projectID) region zone
           (if gcf_Multizone cfg then [] else [zone])
           (if gcf_NetworkName cfg \<noteq> '''' then
              if Contains (gcf_NetworkName cfg) ''/'' then gcf_NetworkName cfg
              else gceNetworkURL (gcf_ProjectID cfg) (gcf_NetworkName cfg)
            else networkURL)
           (gcf_NodeTags cfg) (gcf_NodeInstancePrefix cfg)
           (Some (if gcf_TokenURL cfg \<noteq> '''' then AltTokenSource (gcf_TokenURL cfg) (gcf_TokenBody cfg) else ComputeTokenSource))
           True)))"

end
