(* ===== verification/GceBalancer.thy ===== *)
theory GceBalancer
  imports GceNet
begin

text \<open>
  The load balancers of services on GCE (\<open>gce.go\<close>): a forwarding rule over a target pool, with a
  firewall rule, a static address while they are changed, and a health check for services that ask
  for one. The Kubernetes helpers are the record \<open>gceKube\<close>: the source ranges of a service (by their
  canonical texts), the path and the port of its health check (an empty path for none), the
  ranges that a list of texts stands for, and the texts of a set of ranges.
\<close>

record gceKube =
  gk_SourceRanges :: "Service \<Rightarrow> gceErr + string fset"
  gk_HealthCheck :: "Service \<Rightarrow> string \<times> int"
  gk_ParseIPNets :: "string list \<Rightarrow> gceErr + string fset"
  gk_StringSlice :: "string fset \<Rightarrow> string list"

section \<open>Names\<close>

definition makeHostURL :: "string \<Rightarrow> string \<Rightarrow> string \<Rightarrow> string" where
  "makeHostURL projectID zone host =
     ''https://www.googleapis.com/compute/v1/projects/'' @ projectID @ ''/zones/'' @ zone @ ''/instances/'' @ canonicalizeInstanceName host"

definition makeComparableHostPath :: "gceInstance \<Rightarrow> string" where
  "makeComparableHostPath h = ''/zones/'' @ gi_Zone h @ ''/instances/'' @ gi_Name h"

text \<open>From the first occurrence of \<open>/zones/\<close> on.\<close>

fun hostURLToComparablePath :: "string \<Rightarrow> string" where
  "hostURLToComparablePath [] = ''''"
| "hostURLToComparablePath (ch # s) =
     (if HasPrefix (ch # s) ''/zones/'' then ch # s else hostURLToComparablePath s)"

definition targetPoolURL :: "gceProvider \<Rightarrow> string \<Rightarrow> string \<Rightarrow> string" where
  "targetPoolURL gce name region =
     ''https://www.googleapis.com/compute/v1/projects/'' @ gp_projectID gce @ ''/regions/'' @ region @ ''/targetPools/'' @ name"

definition makeFirewallName :: "string \<Rightarrow> string" where
  "makeFirewallName name = ''k8s-fw-'' @ name"

definition makeFirewallDescription :: "string \<Rightarrow> string \<Rightarrow> string" where
  "makeFirewallDescription serviceName ipAddress =
     ''{\"kubernetes.io/service-name\":\"'' @ serviceName @ ''\", \"kubernetes.io/service-ip\":\"'' @ ipAddress @ ''\"}''"

definition makeHealthCheckDescription :: "string \<Rightarrow> string" where
  "makeHealthCheckDescription serviceName = ''{\"kubernetes.io/service-name\":\"'' @ serviceName @ ''\"}''"

text \<open>\<open>types.NamespacedName\<close> is printed with a slash.\<close>

definition namespacedName :: "Service \<Rightarrow> string" where
  "namespacedName service = sv_Namespace service @ ''/'' @ sv_Name service"

definition translateAffinityType :: "string \<Rightarrow> string" where
  "translateAffinityType affinityType = (if affinityType = ''ClientIP'' then ''CLIENT_IP'' else ''NONE'')"

definition loadBalancerPortRange :: "ServicePort list \<Rightarrow> gceErr + string" where
  "loadBalancerPortRange ports =
     (case ports of
        [] \<Rightarrow> Inl (GceErrorf ''no ports specified for GCE load balancer'' [])
      | port # _ \<Rightarrow>
          if sp_Protocol port \<noteq> ''TCP'' \<and> sp_Protocol port \<noteq> ''UDP'' then
            Inl (GceErrorf ''Invalid protocol %s, only TCP and UDP are supported'' [sp_Protocol port])
          else
            let minPort = foldl (\<lambda>m p. if sp_Port p < m then sp_Port p else m) 65536 ports;
                maxPort = foldl (\<lambda>m p. if m < sp_Port p then sp_Port p else m) 0 ports
            in Inr (FormatInt minPort @ ''-'' @ FormatInt maxPort))"

definition slicesEqual :: "string list \<Rightarrow> string list \<Rightarrow> bool" where
  "slicesEqual x y \<longleftrightarrow> length x = length y \<and> sort x = sort y"

section \<open>Health checks\<close>

definition CreateHTTPHealthCheck :: "'c gceAPI \<Rightarrow> 'c gceNet \<Rightarrow> healthCheck \<Rightarrow> ('c, unit) gceStep" where
  "CreateHTTPHealthCheck api net hc = awaited (gn_InsertHealthCheck net hc) (waitForGlobalOp api)"

definition UpdateHTTPHealthCheck :: "'c gceAPI \<Rightarrow> 'c gceNet \<Rightarrow> healthCheck \<Rightarrow> ('c, unit) gceStep" where
  "UpdateHTTPHealthCheck api net hc = awaited (gn_UpdateHealthCheck net (hc_Name hc) hc) (waitForGlobalOp api)"

definition DeleteHTTPHealthCheck :: "'c gceAPI \<Rightarrow> 'c gceNet \<Rightarrow> string \<Rightarrow> ('c, unit) gceStep" where
  "DeleteHTTPHealthCheck api net name = goneTolerant (gn_DeleteHealthCheck net name) (waitForGlobalOp api)"

definition newHealthCheck :: "string \<Rightarrow> string \<Rightarrow> int \<Rightarrow> healthCheck" where
  "newHealthCheck name path port =
     \<lparr>hc_Name = name, hc_Port = port, hc_RequestPath = path, hc_Description = makeHealthCheckDescription name,
      hc_CheckIntervalSec = 2, hc_TimeoutSec = 1, hc_HealthyThreshold = 1, hc_UnhealthyThreshold = 5, hc_SelfLink = ''''\<rparr>"

definition drifted :: "healthCheck \<Rightarrow> string \<Rightarrow> string \<Rightarrow> int \<Rightarrow> bool" where
  "drifted hc name path port \<longleftrightarrow>
     hc_Port hc \<noteq> port \<or> hc_RequestPath hc \<noteq> path \<or> hc_Description hc \<noteq> makeHealthCheckDescription name \<or>
     hc_CheckIntervalSec hc \<noteq> 2 \<or> hc_TimeoutSec hc \<noteq> 1 \<or> hc_UnhealthyThreshold hc \<noteq> 5 \<or> hc_HealthyThreshold hc \<noteq> 1"

text \<open>On any error of the lookup the health check is nil, and it is created.\<close>

definition ensureHTTPHealthCheck :: "'c gceAPI \<Rightarrow> 'c gceNet \<Rightarrow> string \<Rightarrow> string \<Rightarrow> int \<Rightarrow> ('c, healthCheck) gceStep" where
  "ensureHTTPHealthCheck api net name path port =
     (\<lambda>c. case gn_GetHealthCheck net name c of
        Inl _ \<Rightarrow>
          andThen (CreateHTTPHealthCheck api net (newHealthCheck name path port)) (\<lambda>_.
          reading (gn_GetHealthCheck net name)) c
      | Inr hc \<Rightarrow>
          if drifted hc name path port then
            andThen (UpdateHTTPHealthCheck api net (newHealthCheck name path port)) (\<lambda>_. give hc) c
          else (Returned hc, c))"

section \<open>What needs an update\<close>

text \<open>Whether the rule exists, whether it needs an update, and its address.\<close>

definition forwardingRuleNeedsUpdate ::
  "'c gceNet \<Rightarrow> string \<Rightarrow> string \<Rightarrow> string \<Rightarrow> ServicePort list \<Rightarrow> 'c \<Rightarrow> gceErr + bool \<times> bool \<times> string" where
  "forwardingRuleNeedsUpdate net name region loadBalancerIP ports c =
     (case gn_GetForwardingRule net region name c of
        Inl err \<Rightarrow>
          if isHTTPErrorCode err 404 then Inr (False, True, '''')
          else Inl (GceErrorf ''error getting load balancer's forwarding rule: %v'' [])
      | Inr fwd \<Rightarrow>
          if loadBalancerIP \<noteq> '''' \<and> loadBalancerIP \<noteq> fr_IPAddress fwd then Inr (True, True, fr_IPAddress fwd)
          else
            and_then (loadBalancerPortRange ports) (\<lambda>portRange.
            if portRange \<noteq> fr_PortRange fwd then Inr (True, True, fr_IPAddress fwd)
            else if sp_Protocol (hd ports) \<noteq> fr_IPProtocol fwd then Inr (True, True, fr_IPAddress fwd)
            else Inr (True, False, fr_IPAddress fwd)))"

definition targetPoolNeedsUpdate :: "'c gceNet \<Rightarrow> string \<Rightarrow> string \<Rightarrow> string \<Rightarrow> 'c \<Rightarrow> gceErr + bool \<times> bool" where
  "targetPoolNeedsUpdate net name region affinityType c =
     (case gn_GetTargetPool net region name c of
        Inl err \<Rightarrow>
          if isHTTPErrorCode err 404 then Inr (False, True)
          else Inl (GceErrorf ''error getting load balancer's target pool: %v'' [])
      | Inr tp \<Rightarrow>
          Inr (True, tp_SessionAffinity tp \<noteq> '''' \<and> translateAffinityType affinityType \<noteq> tp_SessionAffinity tp))"

definition firewallNeedsUpdate ::
  "'c gceNet \<Rightarrow> gceKube \<Rightarrow> string \<Rightarrow> string \<Rightarrow> string \<Rightarrow> ServicePort list \<Rightarrow> string fset \<Rightarrow> 'c \<Rightarrow> gceErr + bool \<times> bool" where
  "firewallNeedsUpdate net kube name serviceName ipAddress ports sourceRanges c =
     (case gn_GetFirewall net (makeFirewallName name) c of
        Inl err \<Rightarrow>
          if isHTTPErrorCode err 404 then Inr (False, True)
          else Inl (GceErrorf ''error getting load balancer's target pool: %v'' [])
      | Inr fw \<Rightarrow>
          Inr (True,
            fw_Description fw \<noteq> makeFirewallDescription serviceName ipAddress \<or>
            (case fw_Allowed fw of
               [(protocol, allowed)] \<Rightarrow>
                 (protocol \<noteq> ''tcp'' \<and> protocol \<noteq> ''udp'') \<or>
                 \<not> slicesEqual (map (\<lambda>p. FormatInt (sp_Port p)) ports) allowed \<or>
                 gk_ParseIPNets kube (fw_SourceRanges fw) \<noteq> Inr sourceRanges
             | _ \<Rightarrow> True)))"

section \<open>Creating the parts\<close>

definition createForwardingRule ::
  "'c gceAPI \<Rightarrow> 'c gceNet \<Rightarrow> gceProvider \<Rightarrow> string \<Rightarrow> string \<Rightarrow> string \<Rightarrow> string \<Rightarrow> ServicePort list \<Rightarrow> ('c, unit) gceStep" where
  "createForwardingRule api net gce name serviceName region ipAddress ports =
     andThen (reading (\<lambda>_. loadBalancerPortRange ports)) (\<lambda>portRange.
     conflictTolerant
       (gn_InsertForwardingRule net region
          \<lparr>fr_Name = name, fr_Description = makeHealthCheckDescription serviceName, fr_IPAddress = ipAddress,
           fr_IPProtocol = sp_Protocol (hd ports), fr_PortRange = portRange, fr_Target = targetPoolURL gce name region\<rparr>)
       (waitForRegionOp api net region))"

text \<open>When the health check of the pool cannot be ensured, the code prints fields of the nil health check.\<close>

definition createTargetPool ::
  "'c gceAPI \<Rightarrow> 'c gceNet \<Rightarrow> gceProvider \<Rightarrow> string \<Rightarrow> string \<Rightarrow> string \<Rightarrow> gceInstance list \<Rightarrow> string \<Rightarrow> healthCheck option \<Rightarrow>
   ('c, unit) gceStep" where
  "createTargetPool api net gce name serviceName region hosts affinityType hc =
     andThen (case hc of
                None \<Rightarrow> give []
              | Some hc \<Rightarrow>
                  recovering
                    (andThen (ensureHTTPHealthCheck api net name (hc_RequestPath hc) (signed_take_bit 31 (hc_Port hc))) (\<lambda>hc. give [hc_SelfLink hc]))
                    (\<lambda>_. panic)) (\<lambda>hcLinks.
     conflictTolerant
       (gn_InsertTargetPool net region
          \<lparr>tp_Name = name, tp_Description = makeHealthCheckDescription serviceName,
           tp_Instances = map (\<lambda>h. makeHostURL (gp_projectID gce) (gi_Zone h) (gi_Name h)) hosts,
           tp_SessionAffinity = translateAffinityType affinityType, tp_HealthChecks = hcLinks\<rparr>)
       (waitForRegionOp api net region))"

text \<open>Without ports the first one is an index out of range.\<close>

definition firewallObject ::
  "'c gceNet \<Rightarrow> gceKube \<Rightarrow> gceProvider \<Rightarrow> string \<Rightarrow> string \<Rightarrow> string fset \<Rightarrow> ServicePort list \<Rightarrow> gceInstance list \<Rightarrow>
   ('c, gceFirewall) gceStep" where
  "firewallObject net kube gce name desc sourceRanges ports hosts =
     andThen (if gp_nodeTags gce = [] then
                recovering (reading (computeHostTags net gce hosts))
                  (\<lambda>_. failing (GceErrorf ''No node tags supplied and also failed to parse the given lists of hosts for tags. Abort creating firewall rule'' []))
              else give (gp_nodeTags gce)) (\<lambda>hostTags.
     case ports of
       [] \<Rightarrow> panic
     | port # _ \<Rightarrow>
         give \<lparr>fw_Name = makeFirewallName name, fw_Description = desc, fw_Network = gp_networkURL gce,
               fw_SourceRanges = gk_StringSlice kube sourceRanges, fw_TargetTags = hostTags,
               fw_Allowed = [(ToLower (sp_Protocol port), map (\<lambda>p. FormatInt (sp_Port p)) ports)]\<rparr>)"

definition createFirewall ::
  "'c gceAPI \<Rightarrow> 'c gceNet \<Rightarrow> gceKube \<Rightarrow> gceProvider \<Rightarrow> string \<Rightarrow> string \<Rightarrow> string fset \<Rightarrow> ServicePort list \<Rightarrow> gceInstance list \<Rightarrow>
   ('c, unit) gceStep" where
  "createFirewall api net kube gce name desc sourceRanges ports hosts =
     andThen (firewallObject net kube gce name desc sourceRanges ports hosts) (\<lambda>firewall.
     conflictTolerant (gn_InsertFirewall net firewall) (waitForGlobalOp api))"

text \<open>An update tolerates a conflict of the call, but not of the operation.\<close>

definition updating :: "'c gceCall \<Rightarrow> 'c opWait \<Rightarrow> ('c, unit) gceStep" where
  "updating call wait c =
     (case call c of
        (Inl err, c) \<Rightarrow> if isHTTPErrorCode err 409 then (Returned (), c) else (Failed err, c)
      | (Inr None, c) \<Rightarrow> (Returned (), c)
      | (Inr (Some op), c) \<Rightarrow> request_call (wait (Some op)) id c)"

definition updateFirewall ::
  "'c gceAPI \<Rightarrow> 'c gceNet \<Rightarrow> gceKube \<Rightarrow> gceProvider \<Rightarrow> string \<Rightarrow> string \<Rightarrow> string fset \<Rightarrow> ServicePort list \<Rightarrow> gceInstance list \<Rightarrow>
   ('c, unit) gceStep" where
  "updateFirewall api net kube gce name desc sourceRanges ports hosts =
     andThen (firewallObject net kube gce name desc sourceRanges ports hosts) (\<lambda>firewall.
     updating (gn_UpdateFirewall net (makeFirewallName name) firewall) (waitForGlobalOp api))"

section \<open>Static addresses\<close>

definition projectOwnsStaticIP :: "'c gceNet \<Rightarrow> string \<Rightarrow> string \<Rightarrow> 'c \<Rightarrow> gceErr + bool" where
  "projectOwnsStaticIP net region ipAddress c =
     (case scanPages maxPages (gn_ListAddresses net region)
             (\<lambda>items (_ :: unit). if list_ex (\<lambda>addr. addr = ipAddress) items then Inl () else Inr ()) '''' () c of
        Inl err \<Rightarrow> Inl (GceErrorf ''failed to list gce IP addresses: %v'' [])
      | Inr (Inl _) \<Rightarrow> Inr True
      | Inr (Inr _) \<Rightarrow> Inr False)"

text \<open>The address, and whether it existed.\<close>

definition reserveAddress :: "'c gceAPI \<Rightarrow> 'c gceNet \<Rightarrow> string \<Rightarrow> gceAddress \<Rightarrow> ('c, bool) gceStep" where
  "reserveAddress api net region addressObj c =
     (case gn_InsertAddress net region addressObj c of
        (Inl err, c) \<Rightarrow>
          if isHTTPErrorCode err 409 then (Returned True, c)
          else (Failed (GceErrorf ''error creating gce static IP address: %v'' []), c)
      | (Inr None, c) \<Rightarrow> (Returned False, c)
      | (Inr (Some op), c) \<Rightarrow>
          (case waitForRegionOp api net region (Some op) c of
             (None, c) \<Rightarrow> (Returned False, c)
           | (Some err, c) \<Rightarrow>
               if isHTTPErrorCode err 409 then (Returned True, c)
               else (Failed (GceErrorf ''error waiting for gce static IP address to be created: %v'' []), c)))"

definition ensureStaticIP ::
  "'c gceAPI \<Rightarrow> 'c gceNet \<Rightarrow> string \<Rightarrow> string \<Rightarrow> string \<Rightarrow> string \<Rightarrow> ('c, string \<times> bool) gceStep" where
  "ensureStaticIP api net name serviceName region existingIP =
     andThen (reserveAddress api net region
                \<lparr>ad_Name = name, ad_Description = makeHealthCheckDescription serviceName, ad_Address = existingIP\<rparr>) (\<lambda>existed.
     recovering (andThen (reading (gn_GetAddress net region name)) (\<lambda>address. give (ad_Address address, existed)))
       (\<lambda>_. failing (GceErrorf ''error re-getting gce static IP address: %v'' [])))"

section \<open>Deleting the parts\<close>

definition deleteForwardingRule :: "'c gceAPI \<Rightarrow> 'c gceNet \<Rightarrow> string \<Rightarrow> string \<Rightarrow> ('c, unit) gceStep" where
  "deleteForwardingRule api net name region = goneTolerant (gn_DeleteForwardingRule net region name) (waitForRegionOp api net region)"

definition deleteFirewall :: "'c gceAPI \<Rightarrow> 'c gceNet \<Rightarrow> string \<Rightarrow> ('c, unit) gceStep" where
  "deleteFirewall api net name = goneTolerant (gn_DeleteFirewall net (makeFirewallName name)) (waitForGlobalOp api)"

definition deleteStaticIP :: "'c gceAPI \<Rightarrow> 'c gceNet \<Rightarrow> string \<Rightarrow> string \<Rightarrow> ('c, unit) gceStep" where
  "deleteStaticIP api net name region = goneTolerant (gn_DeleteAddress net region name) (waitForRegionOp api net region)"

text \<open>Without a health check to delete, one with the name of the pool is tried, whatever comes of it.\<close>

definition deleteTargetPool :: "'c gceAPI \<Rightarrow> 'c gceNet \<Rightarrow> string \<Rightarrow> string \<Rightarrow> healthCheck option \<Rightarrow> ('c, unit) gceStep" where
  "deleteTargetPool api net name region hc =
     andThen (goneTolerant (gn_DeleteTargetPool net region name) (waitForRegionOp api net region)) (\<lambda>_.
     case hc of
       Some hc \<Rightarrow> DeleteHTTPHealthCheck api net (hc_Name hc)
     | None \<Rightarrow> recovering (DeleteHTTPHealthCheck api net name) (\<lambda>_. give ()))"

section \<open>The instances of a target pool\<close>

text \<open>The hosts that are not in the pool, and what of the pool is no host.\<close>

fun missingHosts :: "gceInstance list \<Rightarrow> string fset \<Rightarrow> string list \<times> string fset" where
  "missingHosts [] existing = ([], existing)"
| "missingHosts (host # hosts) existing =
     (let link = makeComparableHostPath host; (toAdd, rest) = missingHosts hosts (existing |-| {|link|})
      in (if link |\<in>| existing then toAdd else link # toAdd, rest))"

definition updateTargetPool ::
  "'c gceAPI \<Rightarrow> 'c gceNet \<Rightarrow> gceProvider \<Rightarrow> string \<Rightarrow> string fset \<Rightarrow> gceInstance list \<Rightarrow> ('c, unit) gceStep" where
  "updateTargetPool api net gce lbName existing hosts =
     (let (toAdd, rest) = missingHosts hosts existing in
      andThen (if toAdd = [] then give ()
               else awaited (gn_AddInstance net (gp_region gce) lbName toAdd) (waitForRegionOp api net (gp_region gce))) (\<lambda>_.
      andThen (\<lambda>c. let toRemove = gn_range net rest c in
                 (if toRemove = [] then give ()
                  else awaited (gn_RemoveInstance net (gp_region gce) lbName toRemove) (waitForRegionOp api net (gp_region gce))) c) (\<lambda>_.
      andThen (reading (gn_GetTargetPool net (gp_region gce) lbName)) (\<lambda>updatedPool.
      if length (tp_Instances updatedPool) \<noteq> length hosts then
        failing (GceErrorf ''Unexpected number of instances in target pool %s after update'' [lbName])
      else give ()))))"

definition gce_UpdateLoadBalancer :: "'c gceAPI \<Rightarrow> 'c gceNet \<Rightarrow> gceProvider \<Rightarrow> Service \<Rightarrow> Node list \<Rightarrow> ('c, unit) gceStep" where
  "gce_UpdateLoadBalancer api net gce service nodes =
     andThen (reading (getInstancesByNames net gce (map node_Name nodes))) (\<lambda>hosts.
     andThen (reading (gn_GetTargetPool net (gp_region gce) (GetLoadBalancerName service))) (\<lambda>pool.
     updateTargetPool api net gce (GetLoadBalancerName service)
       (fset_of_list (map hostURLToComparablePath (tp_Instances pool))) hosts))"

section \<open>EnsureLoadBalancer\<close>

definition gce_GetLoadBalancer :: "'c gceNet \<Rightarrow> gceProvider \<Rightarrow> Service \<Rightarrow> 'c \<Rightarrow> gceErr + string option" where
  "gce_GetLoadBalancer net gce service c =
     (case gn_GetForwardingRule net (gp_region gce) (GetLoadBalancerName service) c of
        Inr fwd \<Rightarrow> Inr (Some (fr_IPAddress fwd))
      | Inl err \<Rightarrow> if isHTTPErrorCode err 404 then Inr None else Inl err)"

text \<open>
  The function keeps two flags, \<open>isUserOwnedIP\<close> and \<open>isSafeToReleaseIP\<close>, which a deferred function
  reads at the end, however it comes: the static address is released when it is safe and the
  address is not the user's.
\<close>

type_synonym ('c, 'a) flaggedStep = "('c \<times> bool \<times> bool, gceErr, 'a) step"

definition plainly :: "('c, 'a) gceStep \<Rightarrow> ('c, 'a) flaggedStep" where
  "plainly m s = (case m (fst s) of (r, c) \<Rightarrow> (r, (c, snd s)))"

definition flags :: "bool \<Rightarrow> bool \<Rightarrow> ('c, unit) flaggedStep" where
  "flags userOwned safe s = (Returned (), (fst s, userOwned, safe))"

definition safeToRelease :: "bool \<Rightarrow> ('c, unit) flaggedStep" where
  "safeToRelease safe s = (Returned (), (fst s, fst (snd s), safe))"

definition releasing :: "('c, unit) gceStep \<Rightarrow> ('c, 'a) flaggedStep \<Rightarrow> ('c, 'a) gceStep" where
  "releasing release m c =
     (case m (c, False, False) of
        (r, c, userOwned, safe) \<Rightarrow> (r, if \<not> userOwned \<and> safe then snd (release c) else c))"

definition wrapAs :: "gceErr \<Rightarrow> ('c, 'a) gceStep \<Rightarrow> ('c, 'a) gceStep" where
  "wrapAs err m = recovering m (\<lambda>_. failing err)"

text \<open>
  The address of the balancer. A failure to list the addresses of the project is not seen, because
  the code tests another error variable: the address then counts as not owned.
\<close>

definition chooseAddress ::
  "'c gceAPI \<Rightarrow> 'c gceNet \<Rightarrow> gceProvider \<Rightarrow> Service \<Rightarrow> string \<Rightarrow> ('c, string) flaggedStep" where
  "chooseAddress api net gce service fwdRuleIP =
     (let lbName = GetLoadBalancerName service; requested = sv_LoadBalancerIP service;
          ensure = wrapAs (GceErrorf ''failed to ensure static IP %s: %v'' [fwdRuleIP])
                     (ensureStaticIP api net lbName (namespacedName service) (gp_region gce) fwdRuleIP) in
      if requested \<noteq> '''' then
        (\<lambda>s. if projectOwnsStaticIP net (gp_region gce) requested (fst s) = Inr True then
               andThen (flags True False) (\<lambda>_. give requested) s
             else if requested = fwdRuleIP then
               andThen (flags False True) (\<lambda>_. andThen (plainly ensure) (\<lambda>(ipAddress, existed). give ipAddress)) s
             else failing (GceErrorf ''requested ip %s is neither static nor assigned to LB %s(%v): %v'' [requested, lbName, namespacedName service]) s)
      else
        andThen (plainly ensure) (\<lambda>(ipAddress, existed).
        andThen (flags False (\<not> existed)) (\<lambda>_. give ipAddress)))"

definition ensureFirewall ::
  "'c gceAPI \<Rightarrow> 'c gceNet \<Rightarrow> gceKube \<Rightarrow> gceProvider \<Rightarrow> Service \<Rightarrow> string \<Rightarrow> gceInstance list \<Rightarrow> ('c, unit) gceStep" where
  "ensureFirewall api net kube gce service ipAddress hosts =
     (let lbName = GetLoadBalancerName service; desc = makeFirewallDescription (namespacedName service) ipAddress in
      andThen (reading (\<lambda>_. gk_SourceRanges kube service)) (\<lambda>sourceRanges.
      andThen (reading (firewallNeedsUpdate net kube lbName (namespacedName service) ipAddress (sv_Ports service) sourceRanges)) (\<lambda>(exists, needsUpdate).
      if \<not> needsUpdate then give ()
      else if exists then updateFirewall api net kube gce lbName desc sourceRanges (sv_Ports service) hosts
      else createFirewall api net kube gce lbName desc sourceRanges (sv_Ports service) hosts)))"

text \<open>
  The health check that exists, the one to create the pool with, and whether the pool has to be made
  again because the service began or stopped to have a health check.
\<close>

definition planHealthCheck ::
  "'c gceAPI \<Rightarrow> 'c gceNet \<Rightarrow> gceKube \<Rightarrow> Service \<Rightarrow> ('c, healthCheck option \<times> healthCheck option \<times> bool) gceStep" where
  "planHealthCheck api net kube service =
     (let lbName = GetLoadBalancerName service; (path, port) = gk_HealthCheck kube service in
      andThen (reading (\<lambda>c. case gn_GetHealthCheck net lbName c of
                 Inr hc \<Rightarrow> Inr (Some hc)
               | Inl err \<Rightarrow> if isHTTPErrorCode err 404 then Inr None else Inl (GceErrorf ''Error checking HTTP health check %s: %v'' [lbName]))) (\<lambda>existing.
      if path \<noteq> '''' then
        andThen (wrapAs (GceErrorf ''Failed to ensure health check for localized service %v on node port %v: %v'' [lbName])
                   (ensureHTTPHealthCheck api net lbName path port)) (\<lambda>hc.
        give (existing, Some hc, existing = None))
      else give (existing, None, existing \<noteq> None)))"

definition existingHealthCheck :: "'c gceNet \<Rightarrow> gceKube \<Rightarrow> Service \<Rightarrow> healthCheck option \<Rightarrow> 'c \<Rightarrow> gceErr + healthCheck option" where
  "existingHealthCheck net kube service hcExisting c =
     Inr (if fst (gk_HealthCheck kube service) \<noteq> '''' then
            (case gn_GetHealthCheck net (GetLoadBalancerName service) c of Inr hc \<Rightarrow> Some hc | Inl _ \<Rightarrow> None)
          else hcExisting)"

abbreviation maxTargetPoolCreateInstances :: nat where
  "maxTargetPoolCreateInstances \<equiv> 200"

text \<open>A pool is created with the first hosts, and updated with all of them when there are more.\<close>

definition rebuildTargetPool ::
  "'c gceAPI \<Rightarrow> 'c gceNet \<Rightarrow> gceProvider \<Rightarrow> Service \<Rightarrow> gceInstance list \<Rightarrow> healthCheck option \<Rightarrow> ('c, unit) gceStep" where
  "rebuildTargetPool api net gce service hosts hcToCreate =
     (let lbName = GetLoadBalancerName service; createInstances = take maxTargetPoolCreateInstances hosts in
      andThen (wrapAs (GceErrorf ''failed to create target pool %s: %v'' [lbName])
                 (createTargetPool api net gce lbName (namespacedName service) (gp_region gce) createInstances (sv_SessionAffinity service) hcToCreate)) (\<lambda>_.
      if length hosts \<le> maxTargetPoolCreateInstances then give ()
      else wrapAs (GceErrorf ''failed to update target pool %s: %v'' [lbName])
             (updateTargetPool api net gce lbName (fset_of_list (map makeComparableHostPath createInstances)) hosts)))"

text \<open>
  The rule and the pool: both can only be deleted and made again, the rule first down and last up;
  while the rule is down the address is kept.
\<close>

definition rebuildRule ::
  "'c gceAPI \<Rightarrow> 'c gceNet \<Rightarrow> gceKube \<Rightarrow> gceProvider \<Rightarrow> Service \<Rightarrow> gceInstance list \<Rightarrow> string \<Rightarrow> bool \<Rightarrow> bool \<Rightarrow>
   bool \<Rightarrow> bool \<Rightarrow> healthCheck option \<Rightarrow> healthCheck option \<Rightarrow> ('c, unit) flaggedStep" where
  "rebuildRule api net kube gce service hosts ipAddress fwdExists fwdNeedsUpdate tpExists tpNeedsUpdate hcExisting hcToCreate =
     (let lbName = GetLoadBalancerName service in
      andThen (if fwdExists \<and> (fwdNeedsUpdate \<or> tpNeedsUpdate) then
                 andThen (safeToRelease False) (\<lambda>_.
                 plainly (wrapAs (GceErrorf ''failed to delete existing forwarding rule %s for load balancer update: %v'' [lbName])
                   (deleteForwardingRule api net lbName (gp_region gce))))
               else give ()) (\<lambda>_.
      andThen (if tpExists \<and> tpNeedsUpdate then
                 plainly (andThen (reading (existingHealthCheck net kube service hcExisting)) (\<lambda>hc.
                   wrapAs (GceErrorf ''failed to delete existing target pool %s for load balancer update: %v'' [lbName])
                     (deleteTargetPool api net lbName (gp_region gce) hc)))
               else give ()) (\<lambda>_.
      andThen (if tpNeedsUpdate then plainly (rebuildTargetPool api net gce service hosts hcToCreate) else give ()) (\<lambda>_.
      if tpNeedsUpdate \<or> fwdNeedsUpdate then
        andThen (plainly (wrapAs (GceErrorf ''failed to create forwarding rule %s: %v'' [lbName])
                   (createForwardingRule api net gce lbName (namespacedName service) (gp_region gce) ipAddress (sv_Ports service)))) (\<lambda>_.
        safeToRelease True)
      else give ()))))"

definition gce_EnsureLoadBalancer ::
  "'c gceAPI \<Rightarrow> 'c gceNet \<Rightarrow> gceKube \<Rightarrow> gceProvider \<Rightarrow> Service \<Rightarrow> Node list \<Rightarrow> ('c, string) gceStep" where
  "gce_EnsureLoadBalancer api net kube gce service nodes =
     (let lbName = GetLoadBalancerName service; region = gp_region gce in
      if length nodes = 0 then failing (GceErrorf ''Cannot EnsureLoadBalancer() with no hosts'' [])
      else
        andThen (reading (getInstancesByNames net gce (map node_Name nodes))) (\<lambda>hosts.
        andThen (reading (forwardingRuleNeedsUpdate net lbName region (sv_LoadBalancerIP service) (sv_Ports service))) (\<lambda>(fwdExists, fwdNeedsUpdate, fwdIP).
        releasing (deleteStaticIP api net lbName region)
          (andThen (chooseAddress api net gce service fwdIP) (\<lambda>ipAddress.
           andThen (plainly (ensureFirewall api net kube gce service ipAddress hosts)) (\<lambda>_.
           andThen (plainly (reading (targetPoolNeedsUpdate net lbName region (sv_SessionAffinity service)))) (\<lambda>(tpExists, tpNeedsUpdate).
           andThen (plainly (planHealthCheck api net kube service)) (\<lambda>(hcExisting, hcToCreate, hcChanged).
           andThen (rebuildRule api net kube gce service hosts ipAddress fwdExists fwdNeedsUpdate tpExists (tpNeedsUpdate \<or> hcChanged)
                      hcExisting hcToCreate) (\<lambda>_.
           give ipAddress)))))))))"

section \<open>EnsureLoadBalancerDeleted\<close>

text \<open>
  Three goroutines: the firewall, the address, and the rule followed by the pool. They run here one
  after the other, in an order that is an argument; the errors are collected.
\<close>

datatype deletion = DelFirewall | DelAddress | DelRuleAndPool

definition deletionTask ::
  "'c gceAPI \<Rightarrow> 'c gceNet \<Rightarrow> gceProvider \<Rightarrow> string \<Rightarrow> healthCheck option \<Rightarrow> deletion \<Rightarrow> ('c, unit) gceStep" where
  "deletionTask api net gce lbName hc task =
     (case task of
        DelFirewall \<Rightarrow> deleteFirewall api net lbName
      | DelAddress \<Rightarrow> deleteStaticIP api net lbName (gp_region gce)
      | DelRuleAndPool \<Rightarrow>
          andThen (deleteForwardingRule api net lbName (gp_region gce)) (\<lambda>_.
          deleteTargetPool api net lbName (gp_region gce) hc))"

fun AggregateGoroutines :: "('c, unit) gceStep list \<Rightarrow> 'c \<Rightarrow> gceErr list \<times> 'c" where
  "AggregateGoroutines [] c = ([], c)"
| "AggregateGoroutines (task # tasks) c =
     (case task c of
        (Failed err, c) \<Rightarrow> (case AggregateGoroutines tasks c of (errs, c) \<Rightarrow> (err # errs, c))
      | (_, c) \<Rightarrow> AggregateGoroutines tasks c)"

definition gce_EnsureLoadBalancerDeleted ::
  "'c gceAPI \<Rightarrow> 'c gceNet \<Rightarrow> gceKube \<Rightarrow> gceProvider \<Rightarrow> deletion list \<Rightarrow> Service \<Rightarrow> 'c \<Rightarrow> gceErr list \<times> 'c" where
  "gce_EnsureLoadBalancerDeleted api net kube gce order service c =
     (let lbName = GetLoadBalancerName service;
          hc = (if fst (gk_HealthCheck kube service) \<noteq> '''' then
                  (case gn_GetHealthCheck net lbName c of
                     Inr hc \<Rightarrow> Inr (Some hc)
                   | Inl err \<Rightarrow> if isHTTPErrorCode err 404 then Inr None else Inl err)
                else Inr None)
      in case hc of
           Inl err \<Rightarrow> ([err], c)
         | Inr hc \<Rightarrow> AggregateGoroutines (map (deletionTask api net gce lbName hc) order) c)"

end
