(* ===== verification/GceServing.thy ===== *)
theory GceServing
  imports GceBalancer
begin

text \<open>
  What \<open>EnsureLoadBalancer\<close> of the GCE provider makes of the parts of a balancer, and what a failure
  leaves. The service behind the client is described by a view of its state: the rule, the pool,
  the firewall, the static address and the health check of one balancer.
\<close>

record gceView =
  gv_rule :: "forwardingRule option"
  gv_pool :: "targetPool option"
  gv_firewall :: "gceFirewall option"
  gv_address :: "string option"
  gv_check :: "healthCheck option"

section \<open>Calls that are waited for\<close>

text \<open>
  A creation or a change: it is refused with a conflict only when the object is there; a call that
  is refused has no effect; an operation that is waited for in vain may have had its effect or not;
  one that succeeds relates the views.
\<close>

definition insertion :: "'c gceCall \<Rightarrow> 'c opWait \<Rightarrow> ('c \<Rightarrow> 'v) \<Rightarrow> ('v \<Rightarrow> bool) \<Rightarrow> ('v \<Rightarrow> 'v \<Rightarrow> bool) \<Rightarrow> bool" where
  "insertion call wait view occupied put \<longleftrightarrow>
     (\<forall>c err c1. call c = (Inl err, c1) \<longrightarrow> view c1 = view c \<and> (isHTTPErrorCode err 409 \<longrightarrow> occupied (view c))) \<and>
     (\<forall>c c1. call c \<noteq> (Inr None, c1)) \<and>
     (\<forall>c op c1 err c2. call c = (Inr (Some op), c1) \<longrightarrow> wait (Some op) c1 = (Some err, c2) \<longrightarrow>
        (view c2 = view c \<or> put (view c) (view c2)) \<and>
        (isHTTPErrorCode err 409 \<longrightarrow> view c2 = view c \<and> occupied (view c))) \<and>
     (\<forall>c op c1 c2. call c = (Inr (Some op), c1) \<longrightarrow> wait (Some op) c1 = (None, c2) \<longrightarrow>
        \<not> occupied (view c) \<and> put (view c) (view c2))"

definition deletion :: "'c gceCall \<Rightarrow> 'c opWait \<Rightarrow> ('c \<Rightarrow> 'v) \<Rightarrow> ('v \<Rightarrow> 'v) \<Rightarrow> bool" where
  "deletion call wait view without \<longleftrightarrow>
     (\<forall>c err c1. call c = (Inl err, c1) \<longrightarrow> view c1 = view c \<and> (isHTTPErrorCode err 404 \<longrightarrow> without (view c) = view c)) \<and>
     (\<forall>c op c1 err c2. call c = (Inr op, c1) \<longrightarrow> wait op c1 = (Some err, c2) \<longrightarrow>
        view c2 = view c \<or> view c2 = without (view c)) \<and>
     (\<forall>c op c1 c2. call c = (Inr op, c1) \<longrightarrow> wait op c1 = (None, c2) \<longrightarrow> view c2 = without (view c))"

lemma insertionD:
  assumes "insertion call wait view occupied put"
  shows "call c = (Inl err, c1) \<Longrightarrow> view c1 = view c \<and> (isHTTPErrorCode err 409 \<longrightarrow> occupied (view c))"
    and "call c \<noteq> (Inr None, c1)"
    and "call c = (Inr (Some op), c1) \<Longrightarrow> wait (Some op) c1 = (Some err, c2) \<Longrightarrow>
      (view c2 = view c \<or> put (view c) (view c2)) \<and> (isHTTPErrorCode err 409 \<longrightarrow> view c2 = view c \<and> occupied (view c))"
    and "call c = (Inr (Some op), c1) \<Longrightarrow> wait (Some op) c1 = (None, c2) \<Longrightarrow> \<not> occupied (view c) \<and> put (view c) (view c2)"
  using assms unfolding insertion_def by metis+

lemma deletionD:
  assumes "deletion call wait view without"
  shows "call c = (Inl err, c1) \<Longrightarrow> view c1 = view c \<and> (isHTTPErrorCode err 404 \<longrightarrow> without (view c) = view c)"
    and "call c = (Inr op, c1) \<Longrightarrow> wait op c1 = (Some err, c2) \<Longrightarrow> view c2 = view c \<or> view c2 = without (view c)"
    and "call c = (Inr op, c1) \<Longrightarrow> wait op c1 = (None, c2) \<Longrightarrow> view c2 = without (view c)"
  using assms unfolding deletion_def by metis+

text \<open>What the three forms of waiting make of them.\<close>

lemma conflictTolerant_view:
  assumes ins: "insertion call wait view occupied put" and run: "conflictTolerant call wait c = (res, c')"
  shows "(case res of
      Returned _ \<Rightarrow> if occupied (view c) then view c' = view c else put (view c) (view c')
    | _ \<Rightarrow> view c' = view c \<or> put (view c) (view c'))"
proof (cases "call c")
  case (Pair r c1)
  show ?thesis
  proof (cases r)
    case (Inl err)
    note ins1 = insertionD(1) [OF ins, of c err c1]
    show ?thesis using run Pair Inl ins1 by (auto simp: conflictTolerant_def split: if_splits)
  next
    case (Inr op)
    then obtain o1 where op: "op = Some o1" using insertionD(2) [OF ins, of c c1] Pair by (cases op) auto
    obtain e c2 where wait: "wait (Some o1) c1 = (e, c2)" by fastforce
    have call: "call c = (Inr (Some o1), c1)" using Pair Inr op by simp
    show ?thesis
    proof (cases e)
      case None
      then have "res = Returned ()" "c' = c2" using run call wait by (simp_all add: conflictTolerant_def)
      then show ?thesis using insertionD(4) [OF ins call] wait None by simp
    next
      case (Some err)
      have "(view c2 = view c \<or> put (view c) (view c2)) \<and> (isHTTPErrorCode err 409 \<longrightarrow> view c2 = view c \<and> occupied (view c))"
        using insertionD(3) [OF ins call] wait Some by simp
      then show ?thesis using run call wait Some by (auto simp: conflictTolerant_def split: if_splits)
    qed
  qed
qed

lemma goneTolerant_view:
  assumes del: "deletion call wait view without" and run: "goneTolerant call wait c = (res, c')"
  shows "(case res of Returned _ \<Rightarrow> view c' = without (view c) | _ \<Rightarrow> view c' = view c \<or> view c' = without (view c))"
proof (cases "call c")
  case (Pair r c1)
  show ?thesis
  proof (cases r)
    case (Inl err)
    note del1 = deletionD(1) [OF del, of c err c1]
    show ?thesis using run Pair Inl del1 by (auto simp: goneTolerant_def split: if_splits)
  next
    case (Inr op)
    obtain e c2 where wait: "wait op c1 = (e, c2)" by fastforce
    have call: "call c = (Inr op, c1)" using Pair Inr by simp
    show ?thesis
    proof (cases e)
      case None
      then have "res = Returned ()" "c' = c2" using run call wait by (simp_all add: goneTolerant_def request_call_def)
      then show ?thesis using deletionD(3) [OF del call] wait None by simp
    next
      case (Some err)
      then have "res = Failed err" "c' = c2" using run call wait by (simp_all add: goneTolerant_def request_call_def)
      then show ?thesis using deletionD(2) [OF del call] wait Some by simp
    qed
  qed
qed

lemma awaited_view:
  assumes ins: "insertion call wait view occupied put" and run: "awaited call wait c = (res, c')"
  shows "(case res of Returned _ \<Rightarrow> \<not> occupied (view c) \<and> put (view c) (view c')
    | _ \<Rightarrow> view c' = view c \<or> put (view c) (view c'))"
proof (cases "call c")
  case (Pair r c1)
  show ?thesis
  proof (cases r)
    case (Inl err)
    then have "res = Failed err" "c' = c1" using run Pair by (simp_all add: awaited_def andThen_changing)
    then show ?thesis using insertionD(1) [OF ins, of c err c1] Pair Inl by simp
  next
    case (Inr op)
    then obtain o1 where op: "op = Some o1" using insertionD(2) [OF ins, of c c1] Pair by (cases op) auto
    obtain e c2 where wait: "wait (Some o1) c1 = (e, c2)" by fastforce
    have call: "call c = (Inr (Some o1), c1)" using Pair Inr op by simp
    show ?thesis
    proof (cases e)
      case None
      then have "res = Returned ()" "c' = c2" using run call wait by (simp_all add: awaited_def andThen_changing request_call_def)
      then show ?thesis using insertionD(4) [OF ins call] wait None by simp
    next
      case (Some err)
      then have "res = Failed err" "c' = c2" using run call wait by (simp_all add: awaited_def andThen_changing request_call_def)
      then show ?thesis using insertionD(3) [OF ins call] wait Some by simp
    qed
  qed
qed

lemma updating_view:
  assumes ins: "insertion call wait view (\<lambda>_. False) put" and run: "updating call wait c = (res, c')"
  shows "(case res of Returned _ \<Rightarrow> put (view c) (view c') | _ \<Rightarrow> view c' = view c \<or> put (view c) (view c'))"
proof (cases "call c")
  case (Pair r c1)
  show ?thesis
  proof (cases r)
    case (Inl err)
    then have "\<not> isHTTPErrorCode err 409" "view c1 = view c" using insertionD(1) [OF ins, of c err c1] Pair by auto
    then show ?thesis using run Pair Inl by (auto simp: updating_def)
  next
    case (Inr op)
    then obtain o1 where op: "op = Some o1" using insertionD(2) [OF ins, of c c1] Pair by (cases op) auto
    then have "awaited call wait c = (res, c')" using run Pair Inr by (simp add: updating_def awaited_def andThen_changing)
    from awaited_view [OF ins this] show ?thesis by (cases res) auto
  qed
qed

text \<open>A part of the view that the effect does not change is kept.\<close>

lemma keeps_conflictTolerant:
  assumes "insertion call wait view occupied put" and "\<And>v v'. put v v' \<Longrightarrow> f v' = f v"
  shows "keeps (\<lambda>c. f (view c)) (conflictTolerant call wait)"
proof -
  have "f (view c') = f (view c)" if "conflictTolerant call wait c = (res, c')" for c res c'
    using conflictTolerant_view [OF assms(1) that] assms(2) [of "view c" "view c'"] by (cases res) (auto split: if_splits)
  then show ?thesis unfolding keeps_def by (metis surjective_pairing)
qed

lemma keeps_updating:
  assumes "insertion call wait view (\<lambda>_. False) put" and "\<And>v v'. put v v' \<Longrightarrow> f v' = f v"
  shows "keeps (\<lambda>c. f (view c)) (updating call wait)"
proof -
  have "f (view c') = f (view c)" if "updating call wait c = (res, c')" for c res c'
    using updating_view [OF assms(1) that] assms(2) [of "view c" "view c'"] by (cases res) auto
  then show ?thesis unfolding keeps_def by (metis surjective_pairing)
qed

lemma keeps_goneTolerant:
  assumes "deletion call wait view without" and "\<And>v. f (without v) = f v"
  shows "keeps (\<lambda>c. f (view c)) (goneTolerant call wait)"
proof -
  have "f (view c') = f (view c)" if "goneTolerant call wait c = (res, c')" for c res c'
    using goneTolerant_view [OF assms(1) that] assms(2) by (cases res) auto
  then show ?thesis unfolding keeps_def by (metis surjective_pairing)
qed

lemma keeps_awaited:
  assumes "insertion call wait view occupied put" and "\<And>v v'. put v v' \<Longrightarrow> f v' = f v"
  shows "keeps (\<lambda>c. f (view c)) (awaited call wait)"
proof -
  have "f (view c') = f (view c)" if "awaited call wait c = (res, c')" for c res c'
    using awaited_view [OF assms(1) that] assms(2) [of "view c" "view c'"] by (cases res) auto
  then show ?thesis unfolding keeps_def by (metis surjective_pairing)
qed

section \<open>The service\<close>

definition gce_reads :: "'c gceNet \<Rightarrow> string \<Rightarrow> string \<Rightarrow> ('c \<Rightarrow> gceView) \<Rightarrow> bool" where
  "gce_reads net R n view \<longleftrightarrow>
     (\<forall>c r. gn_GetForwardingRule net R n c = Inr r \<longrightarrow> gv_rule (view c) = Some r) \<and>
     (\<forall>c err. gn_GetForwardingRule net R n c = Inl err \<longrightarrow> isHTTPErrorCode err 404 \<longrightarrow> gv_rule (view c) = None) \<and>
     (\<forall>c p. gn_GetTargetPool net R n c = Inr p \<longrightarrow> gv_pool (view c) = Some p) \<and>
     (\<forall>c err. gn_GetTargetPool net R n c = Inl err \<longrightarrow> isHTTPErrorCode err 404 \<longrightarrow> gv_pool (view c) = None) \<and>
     (\<forall>c f. gn_GetFirewall net (makeFirewallName n) c = Inr f \<longrightarrow> gv_firewall (view c) = Some f) \<and>
     (\<forall>c err. gn_GetFirewall net (makeFirewallName n) c = Inl err \<longrightarrow> isHTTPErrorCode err 404 \<longrightarrow> gv_firewall (view c) = None) \<and>
     (\<forall>c a. gn_GetAddress net R n c = Inr a \<longrightarrow> gv_address (view c) = Some (ad_Address a)) \<and>
     (\<forall>c h. gn_GetHealthCheck net n c = Inr h \<longrightarrow> gv_check (view c) = Some h \<and> hc_Name h = n)"

definition gce_writes :: "'c gceAPI \<Rightarrow> 'c gceNet \<Rightarrow> string \<Rightarrow> string \<Rightarrow> ('c \<Rightarrow> gceView) \<Rightarrow> bool" where
  "gce_writes api net R n view \<longleftrightarrow>
     (\<forall>r. fr_Name r = n \<longrightarrow> insertion (gn_InsertForwardingRule net R r) (waitForRegionOp api net R) view
        (\<lambda>v. gv_rule v \<noteq> None) (\<lambda>v v'. v' = v\<lparr>gv_rule := Some r\<rparr>)) \<and>
     (\<forall>p. tp_Name p = n \<longrightarrow> insertion (gn_InsertTargetPool net R p) (waitForRegionOp api net R) view
        (\<lambda>v. gv_pool v \<noteq> None) (\<lambda>v v'. v' = v\<lparr>gv_pool := Some p\<rparr>)) \<and>
     (\<forall>links. insertion (gn_AddInstance net R n links) (waitForRegionOp api net R) view
        (\<lambda>_. False) (\<lambda>v v'. \<exists>xs. v' = v\<lparr>gv_pool := map_option (\<lambda>p. p\<lparr>tp_Instances := xs\<rparr>) (gv_pool v)\<rparr>)) \<and>
     (\<forall>links. insertion (gn_RemoveInstance net R n links) (waitForRegionOp api net R) view
        (\<lambda>_. False) (\<lambda>v v'. \<exists>xs. v' = v\<lparr>gv_pool := map_option (\<lambda>p. p\<lparr>tp_Instances := xs\<rparr>) (gv_pool v)\<rparr>)) \<and>
     (\<forall>f. fw_Name f = makeFirewallName n \<longrightarrow> insertion (gn_InsertFirewall net f) (waitForGlobalOp api) view
        (\<lambda>v. gv_firewall v \<noteq> None) (\<lambda>v v'. v' = v\<lparr>gv_firewall := Some f\<rparr>)) \<and>
     (\<forall>f. insertion (gn_UpdateFirewall net (makeFirewallName n) f) (waitForGlobalOp api) view
        (\<lambda>_. False) (\<lambda>v v'. v' = v\<lparr>gv_firewall := Some f\<rparr>)) \<and>
     (\<forall>a. ad_Name a = n \<longrightarrow> insertion (gn_InsertAddress net R a) (waitForRegionOp api net R) view
        (\<lambda>v. gv_address v \<noteq> None)
        (\<lambda>v v'. \<exists>ip. v' = v\<lparr>gv_address := Some ip\<rparr> \<and> (ad_Address a \<noteq> '''' \<longrightarrow> ip = ad_Address a))) \<and>
     (\<forall>h. hc_Name h = n \<longrightarrow> insertion (gn_InsertHealthCheck net h) (waitForGlobalOp api) view
        (\<lambda>v. gv_check v \<noteq> None) (\<lambda>v v'. \<exists>link. v' = v\<lparr>gv_check := Some (h\<lparr>hc_SelfLink := link\<rparr>)\<rparr>)) \<and>
     (\<forall>h. hc_Name h = n \<longrightarrow> insertion (gn_UpdateHealthCheck net n h) (waitForGlobalOp api) view
        (\<lambda>_. False) (\<lambda>v v'. \<exists>link. v' = v\<lparr>gv_check := Some (h\<lparr>hc_SelfLink := link\<rparr>)\<rparr>))"

definition gce_deletes :: "'c gceAPI \<Rightarrow> 'c gceNet \<Rightarrow> string \<Rightarrow> string \<Rightarrow> ('c \<Rightarrow> gceView) \<Rightarrow> bool" where
  "gce_deletes api net R n view \<longleftrightarrow>
     deletion (gn_DeleteForwardingRule net R n) (waitForRegionOp api net R) view (\<lambda>v. v\<lparr>gv_rule := None\<rparr>) \<and>
     deletion (gn_DeleteTargetPool net R n) (waitForRegionOp api net R) view (\<lambda>v. v\<lparr>gv_pool := None\<rparr>) \<and>
     deletion (gn_DeleteFirewall net (makeFirewallName n)) (waitForGlobalOp api) view (\<lambda>v. v\<lparr>gv_firewall := None\<rparr>) \<and>
     deletion (gn_DeleteAddress net R n) (waitForRegionOp api net R) view (\<lambda>v. v\<lparr>gv_address := None\<rparr>) \<and>
     deletion (gn_DeleteHealthCheck net n) (waitForGlobalOp api) view (\<lambda>v. v\<lparr>gv_check := None\<rparr>)"

definition gce_honest :: "'c gceAPI \<Rightarrow> 'c gceNet \<Rightarrow> string \<Rightarrow> string \<Rightarrow> ('c \<Rightarrow> gceView) \<Rightarrow> bool" where
  "gce_honest api net R n view \<longleftrightarrow> gce_reads net R n view \<and> gce_writes api net R n view \<and> gce_deletes api net R n view"

lemma gce_readsD:
  assumes "gce_honest api net R n view"
  shows "gn_GetForwardingRule net R n c = Inr r \<Longrightarrow> gv_rule (view c) = Some r"
    and "gn_GetForwardingRule net R n c = Inl err \<Longrightarrow> isHTTPErrorCode err 404 \<Longrightarrow> gv_rule (view c) = None"
    and "gn_GetTargetPool net R n c = Inr p \<Longrightarrow> gv_pool (view c) = Some p"
    and "gn_GetTargetPool net R n c = Inl err \<Longrightarrow> isHTTPErrorCode err 404 \<Longrightarrow> gv_pool (view c) = None"
    and "gn_GetFirewall net (makeFirewallName n) c = Inr f \<Longrightarrow> gv_firewall (view c) = Some f"
    and "gn_GetFirewall net (makeFirewallName n) c = Inl err \<Longrightarrow> isHTTPErrorCode err 404 \<Longrightarrow> gv_firewall (view c) = None"
    and "gn_GetAddress net R n c = Inr a \<Longrightarrow> gv_address (view c) = Some (ad_Address a)"
    and "gn_GetHealthCheck net n c = Inr h \<Longrightarrow> gv_check (view c) = Some h"
    and "gn_GetHealthCheck net n c = Inr h \<Longrightarrow> hc_Name h = n"
  using assms unfolding gce_honest_def gce_reads_def by blast+

lemma gce_writesD:
  assumes "gce_honest api net R n view"
  shows "fr_Name r = n \<Longrightarrow> insertion (gn_InsertForwardingRule net R r) (waitForRegionOp api net R) view
        (\<lambda>v. gv_rule v \<noteq> None) (\<lambda>v v'. v' = v\<lparr>gv_rule := Some r\<rparr>)"
    and "tp_Name p = n \<Longrightarrow> insertion (gn_InsertTargetPool net R p) (waitForRegionOp api net R) view
        (\<lambda>v. gv_pool v \<noteq> None) (\<lambda>v v'. v' = v\<lparr>gv_pool := Some p\<rparr>)"
    and "insertion (gn_AddInstance net R n links) (waitForRegionOp api net R) view
        (\<lambda>_. False) (\<lambda>v v'. \<exists>xs. v' = v\<lparr>gv_pool := map_option (\<lambda>p. p\<lparr>tp_Instances := xs\<rparr>) (gv_pool v)\<rparr>)"
    and "insertion (gn_RemoveInstance net R n links) (waitForRegionOp api net R) view
        (\<lambda>_. False) (\<lambda>v v'. \<exists>xs. v' = v\<lparr>gv_pool := map_option (\<lambda>p. p\<lparr>tp_Instances := xs\<rparr>) (gv_pool v)\<rparr>)"
    and "fw_Name f = makeFirewallName n \<Longrightarrow> insertion (gn_InsertFirewall net f) (waitForGlobalOp api) view
        (\<lambda>v. gv_firewall v \<noteq> None) (\<lambda>v v'. v' = v\<lparr>gv_firewall := Some f\<rparr>)"
    and "insertion (gn_UpdateFirewall net (makeFirewallName n) f) (waitForGlobalOp api) view
        (\<lambda>_. False) (\<lambda>v v'. v' = v\<lparr>gv_firewall := Some f\<rparr>)"
    and "ad_Name a = n \<Longrightarrow> insertion (gn_InsertAddress net R a) (waitForRegionOp api net R) view
        (\<lambda>v. gv_address v \<noteq> None)
        (\<lambda>v v'. \<exists>ip. v' = v\<lparr>gv_address := Some ip\<rparr> \<and> (ad_Address a \<noteq> '''' \<longrightarrow> ip = ad_Address a))"
    and "hc_Name h = n \<Longrightarrow> insertion (gn_InsertHealthCheck net h) (waitForGlobalOp api) view
        (\<lambda>v. gv_check v \<noteq> None) (\<lambda>v v'. \<exists>link. v' = v\<lparr>gv_check := Some (h\<lparr>hc_SelfLink := link\<rparr>)\<rparr>)"
    and "hc_Name h = n \<Longrightarrow> insertion (gn_UpdateHealthCheck net n h) (waitForGlobalOp api) view
        (\<lambda>_. False) (\<lambda>v v'. \<exists>link. v' = v\<lparr>gv_check := Some (h\<lparr>hc_SelfLink := link\<rparr>)\<rparr>)"
  using assms unfolding gce_honest_def gce_writes_def by blast+

lemma gce_deletesD:
  assumes "gce_honest api net R n view"
  shows "deletion (gn_DeleteForwardingRule net R n) (waitForRegionOp api net R) view (\<lambda>v. v\<lparr>gv_rule := None\<rparr>)"
    and "deletion (gn_DeleteTargetPool net R n) (waitForRegionOp api net R) view (\<lambda>v. v\<lparr>gv_pool := None\<rparr>)"
    and "deletion (gn_DeleteFirewall net (makeFirewallName n)) (waitForGlobalOp api) view (\<lambda>v. v\<lparr>gv_firewall := None\<rparr>)"
    and "deletion (gn_DeleteAddress net R n) (waitForRegionOp api net R) view (\<lambda>v. v\<lparr>gv_address := None\<rparr>)"
    and "deletion (gn_DeleteHealthCheck net n) (waitForGlobalOp api) view (\<lambda>v. v\<lparr>gv_check := None\<rparr>)"
  using assms unfolding gce_honest_def gce_deletes_def by blast+

section \<open>What the steps leave alone\<close>

definition only_rule :: "(gceView \<Rightarrow> 'f) \<Rightarrow> bool" where
  "only_rule f \<longleftrightarrow> (\<forall>v x. f (v\<lparr>gv_rule := x\<rparr>) = f v)"

definition only_pool :: "(gceView \<Rightarrow> 'f) \<Rightarrow> bool" where
  "only_pool f \<longleftrightarrow> (\<forall>v x. f (v\<lparr>gv_pool := x\<rparr>) = f v)"

definition only_firewall :: "(gceView \<Rightarrow> 'f) \<Rightarrow> bool" where
  "only_firewall f \<longleftrightarrow> (\<forall>v x. f (v\<lparr>gv_firewall := x\<rparr>) = f v)"

definition only_address :: "(gceView \<Rightarrow> 'f) \<Rightarrow> bool" where
  "only_address f \<longleftrightarrow> (\<forall>v x. f (v\<lparr>gv_address := x\<rparr>) = f v)"

definition only_check :: "(gceView \<Rightarrow> 'f) \<Rightarrow> bool" where
  "only_check f \<longleftrightarrow> (\<forall>v x. f (v\<lparr>gv_check := x\<rparr>) = f v)"

definition only_instances :: "(gceView \<Rightarrow> 'f) \<Rightarrow> bool" where
  "only_instances f \<longleftrightarrow>
     (\<forall>v xs. f (v\<lparr>gv_pool := map_option (\<lambda>p. p\<lparr>tp_Instances := xs\<rparr>) (gv_pool v)\<rparr>) = f v)"

lemmas only_defs = only_rule_def only_pool_def only_firewall_def only_address_def only_check_def only_instances_def

lemma only_pool_instances: "only_pool f \<Longrightarrow> only_instances f"
  by (simp add: only_defs)

lemma keeps_wrapAs: "keeps view m \<Longrightarrow> keeps view (wrapAs err m)"
  unfolding wrapAs_def by (intro keeps_intros)

lemma keeps_at: "(\<And>c. keeps view (f c)) \<Longrightarrow> keeps view (\<lambda>c. f c c)"
  by (simp add: keeps_def)

lemma keeps_plainly: "keeps view m \<Longrightarrow> keeps (\<lambda>s. view (fst s)) (plainly m)"
  by (auto simp: keeps_def plainly_def split: prod.split) (metis snd_conv)

lemma keeps_flags: "keeps (\<lambda>s. view (fst s)) (flags a b)" "keeps (\<lambda>s. view (fst s)) (safeToRelease b)"
  by (simp_all add: keeps_def flags_def safeToRelease_def)

lemmas gce_keeps = keeps_give keeps_andThen keeps_if keeps_recovering keeps_each keeps_wrapAs keeps_plainly keeps_flags

lemma deleteForwardingRule_keeps:
  assumes "gce_honest api net R n view" and "only_rule f"
  shows "keeps (\<lambda>c. f (view c)) (deleteForwardingRule api net n R)"
  unfolding deleteForwardingRule_def
  using gce_deletesD(1) [OF assms(1)] by (rule keeps_goneTolerant) (use assms(2) in \<open>simp add: only_rule_def\<close>)

lemma deleteFirewall_keeps:
  assumes "gce_honest api net R n view" and "only_firewall f"
  shows "keeps (\<lambda>c. f (view c)) (deleteFirewall api net n)"
  unfolding deleteFirewall_def
  using gce_deletesD(3) [OF assms(1)] by (rule keeps_goneTolerant) (use assms(2) in \<open>simp add: only_firewall_def\<close>)

lemma deleteStaticIP_keeps:
  assumes "gce_honest api net R n view" and "only_address f"
  shows "keeps (\<lambda>c. f (view c)) (deleteStaticIP api net n R)"
  unfolding deleteStaticIP_def
  using gce_deletesD(4) [OF assms(1)] by (rule keeps_goneTolerant) (use assms(2) in \<open>simp add: only_address_def\<close>)

lemma DeleteHTTPHealthCheck_keeps:
  assumes "gce_honest api net R n view" and "only_check f"
  shows "keeps (\<lambda>c. f (view c)) (DeleteHTTPHealthCheck api net n)"
  unfolding DeleteHTTPHealthCheck_def
  using gce_deletesD(5) [OF assms(1)] by (rule keeps_goneTolerant) (use assms(2) in \<open>simp add: only_check_def\<close>)

lemma deleteTargetPool_keeps:
  assumes "gce_honest api net R n view" and "only_pool f" and "only_check f" and "\<And>h. hc = Some h \<Longrightarrow> hc_Name h = n"
  shows "keeps (\<lambda>c. f (view c)) (deleteTargetPool api net n R hc)"
proof -
  have "keeps (\<lambda>c. f (view c)) (goneTolerant (gn_DeleteTargetPool net R n) (waitForRegionOp api net R))"
    using gce_deletesD(2) [OF assms(1)] by (rule keeps_goneTolerant) (use assms(2) in \<open>simp add: only_pool_def\<close>)
  moreover note DeleteHTTPHealthCheck_keeps [OF assms(1,3)]
  ultimately show ?thesis using assms(4)
    unfolding deleteTargetPool_def by (auto split: option.split intro!: gce_keeps)
qed

lemma ensureHTTPHealthCheck_keeps:
  assumes honest: "gce_honest api net R n view" and f: "only_check f"
  shows "keeps (\<lambda>c. f (view c)) (ensureHTTPHealthCheck api net n path port)"
proof -
  have "keeps (\<lambda>c. f (view c)) (CreateHTTPHealthCheck api net (newHealthCheck n path port))"
    unfolding CreateHTTPHealthCheck_def
    by (rule keeps_awaited [OF gce_writesD(8) [OF honest]]) (use f in \<open>auto simp: only_check_def newHealthCheck_def\<close>)
  moreover have "keeps (\<lambda>c. f (view c)) (UpdateHTTPHealthCheck api net (newHealthCheck n path port))"
    unfolding UpdateHTTPHealthCheck_def newHealthCheck_def healthCheck.simps
    by (rule keeps_awaited [OF gce_writesD(9) [OF honest]]) (use f in \<open>auto simp: only_check_def\<close>)
  ultimately have "keeps (\<lambda>c. f (view c)) (andThen (CreateHTTPHealthCheck api net (newHealthCheck n path port)) (\<lambda>_. reading (gn_GetHealthCheck net n)))"
    "keeps (\<lambda>c. f (view c)) (andThen (UpdateHTTPHealthCheck api net (newHealthCheck n path port)) (\<lambda>_. give hc))" for hc :: healthCheck
    by (auto intro!: gce_keeps)
  then show ?thesis by (auto simp: keeps_def ensureHTTPHealthCheck_def split: sum.split)
qed

lemma keeps_panic_recovered: "keeps view m \<Longrightarrow> keeps view (recovering m (\<lambda>_. panic))"
  by (intro gce_keeps)

lemma createTargetPool_keeps:
  assumes honest: "gce_honest api net R n view" and f: "only_pool f" "only_check f"
  shows "keeps (\<lambda>c. f (view c)) (createTargetPool api net gce n sn R hosts affinity hc)"
proof -
  have ensure: "keeps (\<lambda>c. f (view c)) (ensureHTTPHealthCheck api net n path port)" for path port
    using honest f(2) by (rule ensureHTTPHealthCheck_keeps)
  have insert: "keeps (\<lambda>c. f (view c)) (conflictTolerant (gn_InsertTargetPool net R p) (waitForRegionOp api net R))"
    if "tp_Name p = n" for p
    by (rule keeps_conflictTolerant [OF gce_writesD(2) [OF honest that]]) (use f(1) in \<open>simp add: only_pool_def\<close>)
  show ?thesis
    unfolding createTargetPool_def
    by (intro keeps_andThen insert) (auto split: option.split intro!: gce_keeps ensure)
qed

lemma updateTargetPool_keeps:
  assumes honest: "gce_honest api net (gp_region gce) n view" and f: "only_instances f"
  shows "keeps (\<lambda>c. f (view c)) (updateTargetPool api net gce n existing hosts)"
proof -
  let ?R = "gp_region gce"
  have "keeps (\<lambda>c. f (view c)) (awaited (gn_AddInstance net ?R n links) (waitForRegionOp api net ?R))" for links
    by (rule keeps_awaited [OF gce_writesD(3) [OF honest]]) (use f in \<open>auto simp: only_instances_def\<close>)
  moreover have "keeps (\<lambda>c. f (view c)) (awaited (gn_RemoveInstance net ?R n links) (waitForRegionOp api net ?R))" for links
    by (rule keeps_awaited [OF gce_writesD(4) [OF honest]]) (use f in \<open>auto simp: only_instances_def\<close>)
  ultimately show ?thesis
    unfolding updateTargetPool_def Let_def
    by (auto split: prod.split intro!: gce_keeps keeps_at [where f = "\<lambda>c. if gn_range net x c = [] then give () else y c" for x y])
qed

lemma rebuildTargetPool_keeps:
  assumes honest: "gce_honest api net (gp_region gce) (GetLoadBalancerName service) view" and f: "only_pool f" "only_check f"
  shows "keeps (\<lambda>c. f (view c)) (rebuildTargetPool api net gce service hosts hc)"
  unfolding rebuildTargetPool_def Let_def
  by (intro gce_keeps createTargetPool_keeps [OF honest f] updateTargetPool_keeps [OF honest only_pool_instances] f(1))

lemma firewallObject_keeps: "keeps view (firewallObject net kube gce n desc ranges ports hosts)"
  unfolding firewallObject_def by (auto split: list.split intro!: gce_keeps)

lemma firewallObject_result:
  assumes "firewallObject net kube gce n desc ranges ports hosts c = (Returned fw, c')"
  shows "c' = c \<and> fw_Name fw = makeFirewallName n \<and> fw_Description fw = desc \<and> fw_SourceRanges fw = gk_StringSlice kube ranges \<and>
    ports \<noteq> [] \<and> fw_Allowed fw = [(ToLower (sp_Protocol (hd ports)), map (\<lambda>p. FormatInt (sp_Port p)) ports)]"
  using assms unfolding firewallObject_def
  by (cases ports) (auto simp: recovering_Returned split: if_splits)

text \<open>A firewall serves when it names the service and the address and has the ports and the ranges.\<close>

definition firewall_serves :: "gceKube \<Rightarrow> Service \<Rightarrow> string \<Rightarrow> string fset \<Rightarrow> gceFirewall \<Rightarrow> bool" where
  "firewall_serves kube service ip ranges fw \<longleftrightarrow>
     fw_Description fw = makeFirewallDescription (namespacedName service) ip \<and>
     (\<exists>protocol allowed. fw_Allowed fw = [(protocol, allowed)] \<and> sort allowed = sort (map (\<lambda>p. FormatInt (sp_Port p)) (sv_Ports service))) \<and>
     gk_ParseIPNets kube (fw_SourceRanges fw) = Inr ranges"

lemma firewall_uptodate:
  assumes "gce_honest api net R n view"
    and "firewallNeedsUpdate net kube n (namespacedName service) ip (sv_Ports service) ranges c = Inr (exists, False)"
  shows "\<exists>fw. gv_firewall (view c) = Some fw \<and> firewall_serves kube service ip ranges fw"
proof -
  from assms(2) obtain fw where fw: "gn_GetFirewall net (makeFirewallName n) c = Inr fw"
    by (auto simp: firewallNeedsUpdate_def split: sum.splits if_splits)
  moreover have "firewall_serves kube service ip ranges fw"
    using assms(2) fw
    by (auto simp: firewallNeedsUpdate_def firewall_serves_def slicesEqual_def split: list.splits prod.splits)
  ultimately show ?thesis using gce_readsD(5) [OF assms(1)] by blast
qed

lemma new_firewall_serves:
  assumes "firewallObject net kube gce n (makeFirewallDescription (namespacedName service) ip) ranges (sv_Ports service) hosts c = (Returned fw, c')"
    and "\<And>A. gk_ParseIPNets kube (gk_StringSlice kube A) = Inr A"
  shows "firewall_serves kube service ip ranges fw \<and> fw_Name fw = makeFirewallName n \<and> c' = c"
  using firewallObject_result [OF assms(1)] assms(2) by (simp add: firewall_serves_def)

lemma ensureFirewall_serves:
  assumes honest: "gce_honest api net R (GetLoadBalancerName service) view"
    and sets: "\<And>A. gk_ParseIPNets kube (gk_StringSlice kube A) = Inr A"
    and run: "ensureFirewall api net kube gce service ip hosts c = (Returned u, c')"
  shows "\<exists>fw ranges. gk_SourceRanges kube service = Inr ranges \<and> gv_firewall (view c') = Some fw \<and>
    firewall_serves kube service ip ranges fw"
proof -
  let ?n = "GetLoadBalancerName service" and ?desc = "makeFirewallDescription (namespacedName service) ip"
  from run obtain ranges exists needsUpdate where ranges: "gk_SourceRanges kube service = Inr ranges"
    and needs: "firewallNeedsUpdate net kube ?n (namespacedName service) ip (sv_Ports service) ranges c = Inr (exists, needsUpdate)"
    and rest: "(if \<not> needsUpdate then give ()
      else if exists then updateFirewall api net kube gce ?n ?desc ranges (sv_Ports service) hosts
      else createFirewall api net kube gce ?n ?desc ranges (sv_Ports service) hosts) c = (Returned u, c')"
    unfolding ensureFirewall_def Let_def by (auto split: prod.splits)
  show ?thesis
  proof (cases needsUpdate)
    case False
    then show ?thesis using firewall_uptodate [OF honest] needs ranges rest by auto
  next
    case needed: True
    show ?thesis
    proof (cases "exists")
      case True
      then obtain fw c1 where fw: "firewallObject net kube gce ?n ?desc ranges (sv_Ports service) hosts c = (Returned fw, c1)"
        and upd: "updating (gn_UpdateFirewall net (makeFirewallName ?n) fw) (waitForGlobalOp api) c1 = (Returned u, c')"
        using rest needed by (auto simp: updateFirewall_def)
      have "gv_firewall (view c') = Some fw" using updating_view [OF gce_writesD(6) [OF honest] upd] by simp
      then show ?thesis using new_firewall_serves [OF fw sets] ranges by blast
    next
      case False
      then obtain fw c1 where fw: "firewallObject net kube gce ?n ?desc ranges (sv_Ports service) hosts c = (Returned fw, c1)"
        and ins: "conflictTolerant (gn_InsertFirewall net fw) (waitForGlobalOp api) c1 = (Returned u, c')"
        using rest needed by (auto simp: createFirewall_def)
      note serves = new_firewall_serves [OF fw sets]
      obtain err where "gn_GetFirewall net (makeFirewallName ?n) c = Inl err" "isHTTPErrorCode err 404"
        using needs False by (auto simp: firewallNeedsUpdate_def split: sum.splits if_splits)
      then have "gv_firewall (view c) = None" by (rule gce_readsD(6) [OF honest])
      then have "gv_firewall (view c1) = None" using serves by simp
      then have "gv_firewall (view c') = Some fw"
        using conflictTolerant_view [OF gce_writesD(5) [OF honest] ins] serves by simp
      then show ?thesis using serves ranges by blast
    qed
  qed
qed

end
