(* ===== verification/GceEnsured.thy ===== *)
theory GceEnsured
  imports GceServing
begin

text \<open>
  What \<open>EnsureLoadBalancer\<close> of the GCE provider makes of the parts of a balancer when it succeeds, and
  the invariant that its comments state of every outcome: a forwarding rule that exists means a
  balancer that has been fully created.
\<close>

lemma keeps_first:
  assumes "keeps view m" and "\<And>c a c'. m c = (Returned a, c') \<Longrightarrow> keeps view (g a)"
  shows "keeps view (andThen m g)"
proof -
  have "view c' = view c" if run: "andThen m g c = (res, c')" for c res c'
  proof -
    obtain r c1 where first: "m c = (r, c1)" by fastforce
    then have kept: "view c1 = view c" by (rule keepsD [OF assms(1)])
    show ?thesis
    proof (cases r)
      case (Returned a)
      then have "g a c1 = (res, c')" using run first by (simp add: andThen_def)
      then show ?thesis using keepsD [OF assms(2)] first Returned kept by fastforce
    qed (use run first kept in \<open>simp_all add: andThen_def\<close>)
  qed
  then show ?thesis unfolding keeps_def by (metis surjective_pairing)
qed

section \<open>The static address\<close>

lemma reserveAddress_conflictTolerant:
  assumes "reserveAddress api net R a c = (res, c')"
  shows "\<exists>res'. conflictTolerant (gn_InsertAddress net R a) (waitForRegionOp api net R) c = (res', c') \<and>
    (\<forall>u. res' = Returned u \<longleftrightarrow> (\<exists>existed. res = Returned existed))"
  using assms unfolding reserveAddress_def conflictTolerant_def
  by (auto split: prod.splits sum.splits option.splits if_splits)

lemma reserveAddress_keeps:
  assumes honest: "gce_honest api net R n view" and f: "only_address f" and a: "ad_Name a = n"
  shows "keeps (\<lambda>c. f (view c)) (reserveAddress api net R a)"
proof -
  have kept: "keeps (\<lambda>c. f (view c)) (conflictTolerant (gn_InsertAddress net R a) (waitForRegionOp api net R))"
    by (rule keeps_conflictTolerant [OF gce_writesD(7) [OF honest a]]) (use f in \<open>auto simp: only_address_def\<close>)
  have "f (view c') = f (view c)" if "reserveAddress api net R a c = (res, c')" for c res c'
    using reserveAddress_conflictTolerant [OF that] by (auto dest: keepsD [OF kept])
  then show ?thesis unfolding keeps_def by (metis surjective_pairing)
qed

lemma ensureStaticIP_keeps:
  assumes honest: "gce_honest api net R n view" and f: "only_address f"
  shows "keeps (\<lambda>c. f (view c)) (ensureStaticIP api net n sn R existing)"
proof -
  have "keeps (\<lambda>c. f (view c)) (reserveAddress api net R \<lparr>ad_Name = n, ad_Description = d, ad_Address = existing\<rparr>)" for d
    by (rule reserveAddress_keeps [OF honest f]) simp
  then show ?thesis unfolding ensureStaticIP_def by (intro gce_keeps)
qed

text \<open>An address that is in use is promoted, and one that is reserved already is taken.\<close>

lemma ensureStaticIP_existing:
  assumes honest: "gce_honest api net R n view"
    and run: "ensureStaticIP api net n sn R existing c = (Returned (ip, existed), c')"
    and existing: "existing \<noteq> ''''" "gv_address (view c) = None \<or> gv_address (view c) = Some existing"
  shows "ip = existing"
proof -
  let ?a = "\<lparr>ad_Name = n, ad_Description = makeHealthCheckDescription sn, ad_Address = existing\<rparr>"
  from run obtain address c1 where res: "reserveAddress api net R ?a c = (Returned existed, c1)"
    and got: "gn_GetAddress net R n c1 = Inr address" "ip = ad_Address address"
    unfolding ensureStaticIP_def by (auto simp: recovering_Returned)
  obtain u where "conflictTolerant (gn_InsertAddress net R ?a) (waitForRegionOp api net R) c = (Returned u, c1)"
    using reserveAddress_conflictTolerant [OF res] by auto
  from conflictTolerant_view [OF gce_writesD(7) [OF honest] this] have "gv_address (view c1) = Some existing"
    using existing by (auto split: if_splits)
  moreover have "gv_address (view c1) = Some ip" using gce_readsD(7) [OF honest got(1)] got(2) by simp
  ultimately show ?thesis by simp
qed

lemma chooseAddress_keeps:
  assumes honest: "gce_honest api net (gp_region gce) (GetLoadBalancerName service) view" and f: "only_address f"
  shows "keeps (\<lambda>s. f (view (fst s))) (chooseAddress api net gce service fwdIP)"
proof -
  have ensure: "keeps (\<lambda>s. f (view (fst s))) (plainly (wrapAs err
      (ensureStaticIP api net (GetLoadBalancerName service) sn (gp_region gce) fwdIP)))" for err sn
    by (rule keeps_plainly [where view = "\<lambda>c. f (view c)"]) (intro keeps_wrapAs ensureStaticIP_keeps [OF honest f])
  have flag: "keeps (\<lambda>s. f (view (fst s))) (flags a b)" for a b by (simp add: keeps_def flags_def)
  have "keeps (\<lambda>s. f (view (fst s))) (\<lambda>s. if b (fst s) then m s else if d then m' s else m'' s)"
    if "keeps (\<lambda>s. f (view (fst s))) m" "keeps (\<lambda>s. f (view (fst s))) m'" "keeps (\<lambda>s. f (view (fst s))) m''" for b d m m' m''
    using that by (simp add: keeps_def)
  note branches = this
  show ?thesis
    unfolding chooseAddress_def Let_def
    by (auto intro!: branches keeps_andThen flag ensure keeps_give split: prod.split)
qed

lemma chooseAddress_existing:
  assumes honest: "gce_honest api net (gp_region gce) (GetLoadBalancerName service) view"
    and run: "chooseAddress api net gce service fwdIP s = (Returned ip, s')"
    and existing: "fwdIP \<noteq> ''''" "gv_address (view (fst s)) = None \<or> gv_address (view (fst s)) = Some fwdIP"
  shows "ip = (if sv_LoadBalancerIP service \<noteq> '''' then sv_LoadBalancerIP service else fwdIP)"
proof -
  have promoted: "ip = fwdIP"
    if "plainly (wrapAs err (ensureStaticIP api net (GetLoadBalancerName service) sn (gp_region gce) fwdIP)) s1 = (Returned (ip, existed), s2)"
      "fst s1 = fst s" for err sn s1 s2 existed
  proof -
    from that(1) obtain c2 where "ensureStaticIP api net (GetLoadBalancerName service) sn (gp_region gce) fwdIP (fst s1) = (Returned (ip, existed), c2)"
      by (auto simp: plainly_def wrapAs_def recovering_Returned split: prod.splits)
    from ensureStaticIP_existing [OF honest this] show ?thesis using existing that(2) by simp
  qed
  let ?ensure = "wrapAs (GceErrorf ''failed to ensure static IP %s: %v'' [fwdIP])
    (ensureStaticIP api net (GetLoadBalancerName service) (namespacedName service) (gp_region gce) fwdIP)"
  consider (automatic) existed s2 where "sv_LoadBalancerIP service = ''''" "plainly ?ensure s = (Returned (ip, existed), s2)"
    | (owned) "sv_LoadBalancerIP service \<noteq> ''''" "ip = sv_LoadBalancerIP service"
    | (assigned) existed s1 s2 where "sv_LoadBalancerIP service = fwdIP" "flags False True s = (Returned (), s1)"
        "plainly ?ensure s1 = (Returned (ip, existed), s2)"
    using run unfolding chooseAddress_def Let_def by (auto split: prod.splits if_splits)
  then show ?thesis
  proof cases
    case automatic
    then show ?thesis using promoted by simp
  next
    case assigned
    then have "fst s1 = fst s" by (auto simp: flags_def)
    then have "ip = fwdIP" by (rule promoted [OF assigned(3)])
    then show ?thesis using assigned(1) by simp
  qed simp
qed

section \<open>The firewall and the health check\<close>

lemma ensureFirewall_keeps:
  assumes honest: "gce_honest api net R (GetLoadBalancerName service) view" and f: "only_firewall f"
  shows "keeps (\<lambda>c. f (view c)) (ensureFirewall api net kube gce service ip hosts)"
proof -
  let ?n = "GetLoadBalancerName service"
  have insert: "keeps (\<lambda>c. f (view c)) (createFirewall api net kube gce ?n d ranges ports hosts)" for d ranges ports
  proof -
    have step: "keeps (\<lambda>c. f (view c)) (conflictTolerant (gn_InsertFirewall net fw) (waitForGlobalOp api))" if "fw_Name fw = makeFirewallName ?n" for fw
      by (rule keeps_conflictTolerant [OF gce_writesD(5) [OF honest that]]) (use f in \<open>simp add: only_firewall_def\<close>)
    show ?thesis unfolding createFirewall_def
      by (rule keeps_first [OF firewallObject_keeps]) (auto dest!: firewallObject_result intro!: step)
  qed
  have update: "keeps (\<lambda>c. f (view c)) (updateFirewall api net kube gce ?n d ranges ports hosts)" for d ranges ports
  proof -
    have "keeps (\<lambda>c. f (view c)) (updating (gn_UpdateFirewall net (makeFirewallName ?n) fw) (waitForGlobalOp api))" for fw
      by (rule keeps_updating [OF gce_writesD(6) [OF honest]]) (use f in \<open>simp add: only_firewall_def\<close>)
    then show ?thesis unfolding updateFirewall_def by (intro keeps_andThen firewallObject_keeps)
  qed
  show ?thesis unfolding ensureFirewall_def Let_def
    by (auto intro!: keeps_andThen keeps_give insert update split: prod.split)
qed

lemma planHealthCheck_keeps:
  assumes honest: "gce_honest api net R (GetLoadBalancerName service) view" and f: "only_check f"
  shows "keeps (\<lambda>c. f (view c)) (planHealthCheck api net kube service)"
  unfolding planHealthCheck_def Let_def
  by (auto intro!: gce_keeps ensureHTTPHealthCheck_keeps [OF honest f] split: prod.split)

lemma planHealthCheck_existing:
  assumes "gce_honest api net R (GetLoadBalancerName service) view"
    and "planHealthCheck api net kube service c = (Returned (hcExisting, hcToCreate, changed), c')" and "hcExisting = Some h"
  shows "hc_Name h = GetLoadBalancerName service"
  using assms(2,3) unfolding planHealthCheck_def Let_def
  by (auto simp: wrapAs_def recovering_Returned split: prod.splits sum.splits if_splits intro: gce_readsD(9) [OF assms(1)])

section \<open>The parts that serve\<close>

definition rule_serves :: "Service \<Rightarrow> string \<Rightarrow> forwardingRule \<Rightarrow> bool" where
  "rule_serves service ip r \<longleftrightarrow>
     fr_IPAddress r = ip \<and> loadBalancerPortRange (sv_Ports service) = Inr (fr_PortRange r) \<and>
     fr_IPProtocol r = sp_Protocol (hd (sv_Ports service))"

definition affinity_serves :: "Service \<Rightarrow> string \<Rightarrow> bool" where
  "affinity_serves service affinity \<longleftrightarrow> affinity = '''' \<or> affinity = translateAffinityType (sv_SessionAffinity service)"

text \<open>What of a view tells whether the balancer serves.\<close>

definition parts :: "gceView \<Rightarrow> forwardingRule option \<times> string option \<times> gceFirewall option" where
  "parts v = (gv_rule v, map_option tp_SessionAffinity (gv_pool v), gv_firewall v)"

definition firewall_right :: "gceKube \<Rightarrow> Service \<Rightarrow> string \<Rightarrow> gceFirewall option \<Rightarrow> bool" where
  "firewall_right kube service ip fw \<longleftrightarrow>
     (\<exists>f ranges. fw = Some f \<and> gk_SourceRanges kube service = Inr ranges \<and> firewall_serves kube service ip ranges f)"

definition serving :: "gceKube \<Rightarrow> Service \<Rightarrow> string \<Rightarrow> forwardingRule option \<times> string option \<times> gceFirewall option \<Rightarrow> bool" where
  "serving kube service ip = (\<lambda>(rule, affinity, firewall).
     (\<exists>r. rule = Some r \<and> rule_serves service ip r) \<and> (\<exists>a. affinity = Some a \<and> affinity_serves service a) \<and>
     firewall_right kube service ip firewall)"

lemma parts_only: "only_address parts" "only_check parts" "only_instances parts"
proof -
  have "map_option tp_SessionAffinity (map_option (\<lambda>p. p\<lparr>tp_Instances := xs\<rparr>) x) = map_option tp_SessionAffinity x" for x :: "targetPool option" and xs
    by (cases x) simp_all
  then show "only_address parts" "only_check parts" "only_instances parts"
    by (simp_all add: only_defs parts_def)
qed

section \<open>The steps of the rebuilding\<close>

lemma ensures_plainly:
  "ensures P m Q E \<Longrightarrow> ensures (\<lambda>s. P (fst s)) (plainly m) (\<lambda>a s. Q a (fst s)) (\<lambda>s. E (fst s))"
  unfolding ensures_def plainly_def by (auto split: prod.splits outcome.splits)

lemma ensures_wrapAs:
  assumes "ensures P m Q E"
  shows "ensures P (wrapAs err m) Q E"
proof (rule ensuresI)
  fix c a c' assume "P c" "wrapAs err m c = (Returned a, c')"
  then show "Q a c'" using ensures_returned [OF assms] by (simp add: wrapAs_def recovering_Returned)
next
  fix c res c' assume "P c" "wrapAs err m c = (res, c')" "\<forall>a. res \<noteq> Returned a"
  then show "E c'" using ensures_failed [OF assms]
    by (auto simp: wrapAs_def recovering_def failing_def split: prod.splits outcome.splits)
qed

lemma ensures_exists: "ensures (\<lambda>s. \<exists>x. P x s) m Q E \<longleftrightarrow> (\<forall>x. ensures (P x) m Q E)"
proof -
  have "(\<forall>c. (\<exists>x. P x c) \<longrightarrow> G c) \<longleftrightarrow> (\<forall>x c. P x c \<longrightarrow> G c)" for G by blast
  then show ?thesis unfolding ensures_def .
qed

lemma ensures_assuming: "(F \<Longrightarrow> ensures P m Q E) \<Longrightarrow> ensures (\<lambda>s. F \<and> P s) m Q E"
  by (auto simp: ensures_def)

lemma deleteForwardingRule_ensures:
  assumes honest: "gce_honest api net R n view"
  shows "ensures (\<lambda>c. parts (view c) = (ro, po, fwo)) (deleteForwardingRule api net n R)
    (\<lambda>_ c. parts (view c) = (None, po, fwo)) (\<lambda>_. True)"
proof (rule ensuresI)
  fix c u c' assume "parts (view c) = (ro, po, fwo)" "deleteForwardingRule api net n R c = (Returned u, c')"
  then show "parts (view c') = (None, po, fwo)"
    using goneTolerant_view [OF gce_deletesD(1) [OF honest], of c "Returned u" c']
    by (simp add: deleteForwardingRule_def parts_def)
qed simp

lemma deleteTargetPool_ensures:
  assumes honest: "gce_honest api net R n view" and named: "\<And>h. hc = Some h \<Longrightarrow> hc_Name h = n"
  shows "ensures (\<lambda>c. parts (view c) = (ro, po, fwo)) (deleteTargetPool api net n R hc)
    (\<lambda>_ c. parts (view c) = (ro, None, fwo)) (\<lambda>c. gv_rule (view c) = ro)"
proof -
  have pool: "ensures (\<lambda>c. parts (view c) = (ro, po, fwo)) (goneTolerant (gn_DeleteTargetPool net R n) (waitForRegionOp api net R))
    (\<lambda>_ c. parts (view c) = (ro, None, fwo)) (\<lambda>c. gv_rule (view c) = ro)"
  proof (rule ensuresI)
    fix c u c' assume "parts (view c) = (ro, po, fwo)" "goneTolerant (gn_DeleteTargetPool net R n) (waitForRegionOp api net R) c = (Returned u, c')"
    then show "parts (view c') = (ro, None, fwo)"
      using goneTolerant_view [OF gce_deletesD(2) [OF honest], of c "Returned u" c'] by (simp add: parts_def)
  next
    fix c res c' assume "parts (view c) = (ro, po, fwo)" "goneTolerant (gn_DeleteTargetPool net R n) (waitForRegionOp api net R) c = (res, c')"
    then show "gv_rule (view c') = ro"
      using goneTolerant_view [OF gce_deletesD(2) [OF honest], of c res c'] by (cases res) (auto simp: parts_def)
  qed
  have kept: "keeps (\<lambda>c. parts (view c)) (case hc of Some hc \<Rightarrow> DeleteHTTPHealthCheck api net (hc_Name hc)
      | None \<Rightarrow> recovering (DeleteHTTPHealthCheck api net n) (\<lambda>_. give ()))"
    using named DeleteHTTPHealthCheck_keeps [OF honest parts_only(2)] by (auto split: option.split intro!: gce_keeps)
  show ?thesis unfolding deleteTargetPool_def
    by (rule ensures_andThen [OF pool ensures_kept [OF kept]]) (auto simp: parts_def)
qed

lemma createTargetPool_ensures:
  assumes honest: "gce_honest api net R n view"
  shows "ensures (\<lambda>c. parts (view c) = (ro, None, fwo)) (createTargetPool api net gce n sn R hosts affinity hc)
    (\<lambda>_ c. parts (view c) = (ro, Some (translateAffinityType affinity), fwo)) (\<lambda>c. gv_rule (view c) = ro)"
proof -
  let ?links = "case hc of None \<Rightarrow> give [] | Some hc \<Rightarrow> recovering
    (andThen (ensureHTTPHealthCheck api net n (hc_RequestPath hc) (signed_take_bit 31 (hc_Port hc))) (\<lambda>hc. give [hc_SelfLink hc])) (\<lambda>_. panic)"
  have links: "keeps (\<lambda>c. parts (view c)) ?links"
    by (auto split: option.split intro!: gce_keeps ensureHTTPHealthCheck_keeps [OF honest parts_only(2)])
  have insert: "ensures (\<lambda>c. parts (view c) = (ro, None, fwo)) (conflictTolerant (gn_InsertTargetPool net R p) (waitForRegionOp api net R))
    (\<lambda>_ c. parts (view c) = (ro, Some (tp_SessionAffinity p), fwo)) (\<lambda>c. gv_rule (view c) = ro)" if p: "tp_Name p = n" for p
  proof (rule ensuresI)
    fix c u c' assume "parts (view c) = (ro, None, fwo)" "conflictTolerant (gn_InsertTargetPool net R p) (waitForRegionOp api net R) c = (Returned u, c')"
    then show "parts (view c') = (ro, Some (tp_SessionAffinity p), fwo)"
      using conflictTolerant_view [OF gce_writesD(2) [OF honest p], of c "Returned u" c'] by (simp add: parts_def)
  next
    fix c res c' assume "parts (view c) = (ro, None, fwo)" "conflictTolerant (gn_InsertTargetPool net R p) (waitForRegionOp api net R) c = (res, c')"
    then show "gv_rule (view c') = ro"
      using conflictTolerant_view [OF gce_writesD(2) [OF honest p], of c res c'] by (cases res) (auto simp: parts_def split: if_splits)
  qed
  show ?thesis unfolding createTargetPool_def
    by (rule ensures_andThen [OF ensures_kept [OF links]], simp, simp add: parts_def)
      (rule ensures_weaken [OF insert], simp_all)
qed

lemma rebuildTargetPool_ensures:
  assumes honest: "gce_honest api net (gp_region gce) (GetLoadBalancerName service) view"
  shows "ensures (\<lambda>c. parts (view c) = (ro, None, fwo)) (rebuildTargetPool api net gce service hosts hc)
    (\<lambda>_ c. parts (view c) = (ro, Some (translateAffinityType (sv_SessionAffinity service)), fwo)) (\<lambda>c. gv_rule (view c) = ro)"
proof -
  have more: "keeps (\<lambda>c. parts (view c)) (if length hosts \<le> maxTargetPoolCreateInstances then give ()
      else wrapAs err (updateTargetPool api net gce (GetLoadBalancerName service) existing hosts))" for err existing
    by (intro keeps_if keeps_give keeps_wrapAs updateTargetPool_keeps [OF honest parts_only(3)])
  show ?thesis unfolding rebuildTargetPool_def Let_def
    by (rule ensures_andThen [OF ensures_wrapAs [OF createTargetPool_ensures [OF honest]] ensures_kept [OF more]])
      (simp_all add: parts_def)
qed

lemma createForwardingRule_ensures:
  assumes honest: "gce_honest api net R n view"
  shows "ensures (\<lambda>c. parts (view c) = (None, po, fwo)) (createForwardingRule api net gce n sn R ip (sv_Ports service))
    (\<lambda>_ c. \<exists>r. parts (view c) = (Some r, po, fwo) \<and> rule_serves service ip r)
    (\<lambda>c. \<forall>r. gv_rule (view c) = Some r \<longrightarrow> parts (view c) = (Some r, po, fwo) \<and> rule_serves service ip r)"
proof -
  let ?rule = "\<lambda>portRange. \<lparr>fr_Name = n, fr_Description = makeHealthCheckDescription sn, fr_IPAddress = ip,
    fr_IPProtocol = sp_Protocol (hd (sv_Ports service)), fr_PortRange = portRange, fr_Target = targetPoolURL gce n R\<rparr>"
  let ?insert = "\<lambda>portRange. conflictTolerant (gn_InsertForwardingRule net R (?rule portRange)) (waitForRegionOp api net R)"
  have law: "insertion (gn_InsertForwardingRule net R (?rule portRange)) (waitForRegionOp api net R) view
      (\<lambda>v. gv_rule v \<noteq> None) (\<lambda>v v'. v' = v\<lparr>gv_rule := Some (?rule portRange)\<rparr>)" for portRange
    by (rule gce_writesD(1) [OF honest]) simp
  have insert: "ensures (\<lambda>c. parts (view c) = (None, po, fwo) \<and> loadBalancerPortRange (sv_Ports service) = Inr portRange) (?insert portRange)
    (\<lambda>_ c. \<exists>r. parts (view c) = (Some r, po, fwo) \<and> rule_serves service ip r)
    (\<lambda>c. \<forall>r. gv_rule (view c) = Some r \<longrightarrow> parts (view c) = (Some r, po, fwo) \<and> rule_serves service ip r)" for portRange
  proof (rule ensuresI)
    fix c u c' assume "parts (view c) = (None, po, fwo) \<and> loadBalancerPortRange (sv_Ports service) = Inr portRange"
      "?insert portRange c = (Returned u, c')"
    then show "\<exists>r. parts (view c') = (Some r, po, fwo) \<and> rule_serves service ip r"
      using conflictTolerant_view [OF law, of portRange c "Returned u" c'] by (simp add: parts_def rule_serves_def)
  next
    fix c res c' assume "parts (view c) = (None, po, fwo) \<and> loadBalancerPortRange (sv_Ports service) = Inr portRange"
      "?insert portRange c = (res, c')" "\<forall>u. res \<noteq> Returned u"
    then show "\<forall>r. gv_rule (view c') = Some r \<longrightarrow> parts (view c') = (Some r, po, fwo) \<and> rule_serves service ip r"
      using conflictTolerant_view [OF law, of portRange c res c'] by (cases res) (auto simp: parts_def rule_serves_def)
  qed
  show ?thesis unfolding createForwardingRule_def
    by (rule ensures_andThen [OF ensures_reading insert]) (simp_all add: parts_def)
qed

text \<open>
  The rule and the pool are rebuilt from what was found out about them; \<open>ro\<close>, \<open>po\<close> and \<open>fwo\<close> are the
  rule, the affinity of the pool and the firewall before. Where there was no rule, one that is there
  in the end, whatever the outcome, is the last part of a balancer that serves.
\<close>

definition made_last :: "gceKube \<Rightarrow> Service \<Rightarrow> string \<Rightarrow> forwardingRule option \<Rightarrow> gceView \<Rightarrow> bool" where
  "made_last kube service ip ro v \<longleftrightarrow> (ro = None \<longrightarrow> gv_rule v \<noteq> None \<longrightarrow> serving kube service ip (parts v))"

lemma made_lastI:
  "gv_rule v = ro \<Longrightarrow> made_last kube service ip ro v"
  "parts v = (ro, x) \<Longrightarrow> made_last kube service ip ro v"
  "ro \<noteq> None \<Longrightarrow> made_last kube service ip ro v"
  "serving kube service ip (parts v) \<Longrightarrow> made_last kube service ip ro v"
  by (auto simp: made_last_def parts_def)

lemma safeToRelease_keeps: "keeps (\<lambda>s. f (fst s)) (safeToRelease b)"
  by (simp add: keeps_def safeToRelease_def)

abbreviation has_parts :: "('c \<Rightarrow> gceView) \<Rightarrow> forwardingRule option \<times> string option \<times> gceFirewall option \<Rightarrow> 'c \<times> 'f \<Rightarrow> bool" where
  "has_parts view x s \<equiv> parts (view (fst s)) = x"

lemma rule_down:
  assumes honest: "gce_honest api net R n view"
    and down: "fwdExists \<longleftrightarrow> ro \<noteq> None" "ro1 = (if needed then None else ro)"
  shows "ensures (has_parts view (ro, po, fwo))
    (if fwdExists \<and> needed then
       andThen (safeToRelease False) (\<lambda>_. plainly (wrapAs err (deleteForwardingRule api net n R)))
     else give ()) (\<lambda>_. has_parts view (ro1, po, fwo)) (\<lambda>s. made_last kube service ip ro (view (fst s)))"
proof (rule ensures_if)
  assume exists: "fwdExists \<and> needed"
  have gone: "ensures (has_parts view (ro, po, fwo)) (plainly (wrapAs err (deleteForwardingRule api net n R)))
      (\<lambda>_. has_parts view (ro1, po, fwo)) (\<lambda>s. made_last kube service ip ro (view (fst s)))"
    by (rule ensures_weaken [OF ensures_plainly [OF ensures_wrapAs [OF deleteForwardingRule_ensures [OF honest]]]])
      (use exists down in \<open>auto intro: made_lastI(3)\<close>)
  show "ensures (has_parts view (ro, po, fwo))
      (andThen (safeToRelease False) (\<lambda>_. plainly (wrapAs err (deleteForwardingRule api net n R))))
      (\<lambda>_. has_parts view (ro1, po, fwo)) (\<lambda>s. made_last kube service ip ro (view (fst s)))"
    by (rule ensures_andThen [OF ensures_kept [OF safeToRelease_keeps [where f = "\<lambda>c. parts (view c)"]] gone])
      (auto intro: made_lastI)
qed (use down in \<open>auto intro: ensures_give\<close>)

lemma pool_cleared:
  assumes honest: "gce_honest api net (gp_region gce) (GetLoadBalancerName service) view"
    and named: "\<And>h. hcExisting = Some h \<Longrightarrow> hc_Name h = GetLoadBalancerName service"
    and rule: "ro = None \<Longrightarrow> ro1 = None"
    and clear: "tpExists \<longleftrightarrow> po \<noteq> None" "po1 = (if tpNeeds then None else po)"
  shows "ensures (has_parts view (ro1, po, fwo))
    (if tpExists \<and> tpNeeds then
       plainly (andThen (reading (existingHealthCheck net kube service hcExisting))
         (\<lambda>hc. wrapAs err (deleteTargetPool api net (GetLoadBalancerName service) (gp_region gce) hc)))
     else give ()) (\<lambda>_. has_parts view (ro1, po1, fwo)) (\<lambda>s. made_last kube service ip ro (view (fst s)))"
proof (rule ensures_if)
  let ?named = "\<lambda>hc. \<forall>h. hc = Some h \<longrightarrow> hc_Name h = GetLoadBalancerName service"
  assume exists: "tpExists \<and> tpNeeds"
  have found: "ensures (\<lambda>c. parts (view c) = (ro1, po, fwo)) (reading (existingHealthCheck net kube service hcExisting))
      (\<lambda>hc c. ?named hc \<and> parts (view c) = (ro1, po, fwo)) (\<lambda>c. gv_rule (view c) = ro1)"
    by (rule ensures_reading)
      (auto simp: existingHealthCheck_def parts_def split: sum.splits if_splits intro: gce_readsD(9) [OF honest] named)
  have gone: "ensures (\<lambda>c. ?named hc \<and> parts (view c) = (ro1, po, fwo))
      (wrapAs err (deleteTargetPool api net (GetLoadBalancerName service) (gp_region gce) hc))
      (\<lambda>_ c. parts (view c) = (ro1, None, fwo)) (\<lambda>c. gv_rule (view c) = ro1)" for hc
    by (intro ensures_assuming ensures_wrapAs deleteTargetPool_ensures [OF honest]) simp
  show "ensures (has_parts view (ro1, po, fwo))
      (plainly (andThen (reading (existingHealthCheck net kube service hcExisting))
         (\<lambda>hc. wrapAs err (deleteTargetPool api net (GetLoadBalancerName service) (gp_region gce) hc))))
      (\<lambda>_. has_parts view (ro1, po1, fwo)) (\<lambda>s. made_last kube service ip ro (view (fst s)))"
    by (rule ensures_weaken [OF ensures_plainly [OF ensures_andThen [OF found gone]]])
      (use exists clear rule in \<open>auto simp: made_last_def\<close>)
qed (use clear in \<open>auto intro: ensures_give\<close>)

lemma pool_filled:
  assumes honest: "gce_honest api net (gp_region gce) (GetLoadBalancerName service) view"
    and rule: "ro = None \<Longrightarrow> ro1 = None"
    and pool: "tpNeeds \<Longrightarrow> po1 = None" "\<not> tpNeeds \<Longrightarrow> \<exists>a. po1 = Some a \<and> affinity_serves service a"
  shows "ensures (has_parts view (ro1, po1, fwo))
    (if tpNeeds then plainly (rebuildTargetPool api net gce service hosts hcToCreate) else give ())
    (\<lambda>_ s. \<exists>a. affinity_serves service a \<and> has_parts view (ro1, Some a, fwo) s) (\<lambda>s. made_last kube service ip ro (view (fst s)))"
proof (rule ensures_if)
  assume tpNeeds
  then show "ensures (has_parts view (ro1, po1, fwo)) (plainly (rebuildTargetPool api net gce service hosts hcToCreate))
      (\<lambda>_ s. \<exists>a. affinity_serves service a \<and> has_parts view (ro1, Some a, fwo) s) (\<lambda>s. made_last kube service ip ro (view (fst s)))"
    using pool(1) rule by (intro ensures_weaken [OF ensures_plainly [OF rebuildTargetPool_ensures [OF honest]]])
      (auto simp: affinity_serves_def made_last_def)
qed (use pool(2) in \<open>auto intro: ensures_give\<close>)

lemma rule_up:
  assumes honest: "gce_honest api net (gp_region gce) (GetLoadBalancerName service) view"
    and rule: "needed \<Longrightarrow> ro1 = None" "\<not> needed \<Longrightarrow> \<exists>r. ro1 = Some r \<and> rule_serves service ip r"
    and fw: "firewall_right kube service ip fwo"
  shows "ensures (\<lambda>s. \<exists>a. affinity_serves service a \<and> has_parts view (ro1, Some a, fwo) s)
    (if needed then
       andThen (plainly (wrapAs err (createForwardingRule api net gce (GetLoadBalancerName service) sn (gp_region gce) ip (sv_Ports service))))
         (\<lambda>_. safeToRelease True)
     else give ()) (\<lambda>_ s. serving kube service ip (parts (view (fst s)))) (\<lambda>s. made_last kube service ip ro (view (fst s)))"
proof (rule ensures_if)
  let ?create = "createForwardingRule api net gce (GetLoadBalancerName service) sn (gp_region gce) ip (sv_Ports service)"
  assume needed
  have made: "ensures (\<lambda>s. \<exists>a. affinity_serves service a \<and> has_parts view (ro1, Some a, fwo) s) (plainly (wrapAs err ?create))
      (\<lambda>_ s. serving kube service ip (parts (view (fst s)))) (\<lambda>s. made_last kube service ip ro (view (fst s)))"
    unfolding ensures_exists
  proof (intro allI ensures_assuming)
    fix a assume a: "affinity_serves service a"
    note created = ensures_plainly [OF ensures_wrapAs [OF createForwardingRule_ensures [OF honest, where fwo = fwo and po = "Some a"]]]
    show "ensures (has_parts view (ro1, Some a, fwo)) (plainly (wrapAs err ?create))
      (\<lambda>_ s. serving kube service ip (parts (view (fst s)))) (\<lambda>s. made_last kube service ip ro (view (fst s)))"
      by (rule ensures_weaken [OF created]) (use a \<open>needed\<close> rule(1) fw in \<open>auto simp: serving_def made_last_def\<close>)
  qed
  show "ensures (\<lambda>s. \<exists>a. affinity_serves service a \<and> has_parts view (ro1, Some a, fwo) s)
    (andThen (plainly (wrapAs err ?create)) (\<lambda>_. safeToRelease True))
    (\<lambda>_ s. serving kube service ip (parts (view (fst s)))) (\<lambda>s. made_last kube service ip ro (view (fst s)))"
    by (rule ensures_andThen [OF made ensures_kept [OF safeToRelease_keeps [where f = "\<lambda>c. parts (view c)"]]])
      (auto intro: made_lastI)
qed (use rule(2) fw in \<open>auto intro!: ensures_give simp: serving_def\<close>)

lemma rebuildRule_ensures:
  assumes honest: "gce_honest api net (gp_region gce) (GetLoadBalancerName service) view"
    and named: "\<And>h. hcExisting = Some h \<Longrightarrow> hc_Name h = GetLoadBalancerName service"
    and rule: "fwdExists \<longleftrightarrow> ro \<noteq> None" "\<not> fwdNeeds \<Longrightarrow> \<exists>r. ro = Some r \<and> rule_serves service ip r"
    and pool: "tpExists \<longleftrightarrow> po \<noteq> None" "\<not> tpNeeds \<Longrightarrow> \<exists>a. po = Some a \<and> affinity_serves service a"
    and fw: "firewall_right kube service ip fwo"
  shows "ensures (has_parts view (ro, po, fwo))
    (rebuildRule api net kube gce service hosts ip fwdExists fwdNeeds tpExists tpNeeds hcExisting hcToCreate)
    (\<lambda>_ s. serving kube service ip (parts (view (fst s)))) (\<lambda>s. made_last kube service ip ro (view (fst s)))"
proof -
  define ro1 where "ro1 = (if fwdNeeds \<or> tpNeeds then None else ro)"
  define po1 where "po1 = (if tpNeeds then None else po)"
  have facts: "ro = None \<Longrightarrow> ro1 = None" "tpNeeds \<or> fwdNeeds \<Longrightarrow> ro1 = None"
    "\<not> (tpNeeds \<or> fwdNeeds) \<Longrightarrow> \<exists>r. ro1 = Some r \<and> rule_serves service ip r"
    "tpNeeds \<Longrightarrow> po1 = None" "\<not> tpNeeds \<Longrightarrow> \<exists>a. po1 = Some a \<and> affinity_serves service a"
    using rule(2) pool(2) by (auto simp: ro1_def po1_def)
  show ?thesis unfolding rebuildRule_def Let_def
    by (intro ensures_andThen [OF rule_down [OF honest rule(1) ro1_def]]
        ensures_andThen [OF pool_cleared [OF honest named facts(1) pool(1) po1_def]]
        ensures_andThen [OF pool_filled [OF honest facts(1,4,5)]] rule_up [OF honest facts(2,3) fw])
qed

section \<open>EnsureLoadBalancer\<close>

lemma forwardingRuleNeedsUpdate_facts:
  assumes honest: "gce_honest api net R n view"
    and needs: "forwardingRuleNeedsUpdate net n R (sv_LoadBalancerIP service) (sv_Ports service) c = Inr (exists, needsUpdate, ip)"
  shows "exists \<longleftrightarrow> gv_rule (view c) \<noteq> None"
    and "\<not> needsUpdate \<Longrightarrow> \<exists>r. gv_rule (view c) = Some r \<and> rule_serves service (fr_IPAddress r) r \<and> ip = fr_IPAddress r \<and>
      (sv_LoadBalancerIP service = '''' \<or> sv_LoadBalancerIP service = ip)"
proof -
  show "exists \<longleftrightarrow> gv_rule (view c) \<noteq> None"
    using needs gce_readsD(1,2) [OF honest, of c]
    by (auto simp: forwardingRuleNeedsUpdate_def and_then_def split: sum.splits if_splits)
  assume no: "\<not> needsUpdate"
  from needs no obtain r where r: "gn_GetForwardingRule net R n c = Inr r"
    by (auto simp: forwardingRuleNeedsUpdate_def split: sum.splits if_splits)
  have "rule_serves service (fr_IPAddress r) r \<and> ip = fr_IPAddress r \<and> (sv_LoadBalancerIP service = '''' \<or> sv_LoadBalancerIP service = ip)"
    using needs no r by (auto simp: forwardingRuleNeedsUpdate_def rule_serves_def and_then_def split: sum.splits if_splits)
  then show "\<exists>r. gv_rule (view c) = Some r \<and> rule_serves service (fr_IPAddress r) r \<and> ip = fr_IPAddress r \<and>
      (sv_LoadBalancerIP service = '''' \<or> sv_LoadBalancerIP service = ip)"
    using gce_readsD(1) [OF honest r] by blast
qed

lemma targetPoolNeedsUpdate_facts:
  assumes honest: "gce_honest api net R n view"
    and needs: "targetPoolNeedsUpdate net n R (sv_SessionAffinity service) c = Inr (exists, needsUpdate)"
    and parts: "parts (view c) = (ro, po, fwo)"
  shows "exists \<longleftrightarrow> po \<noteq> None" and "\<not> needsUpdate \<Longrightarrow> \<exists>a. po = Some a \<and> affinity_serves service a"
proof -
  consider (none) err where "gn_GetTargetPool net R n c = Inl err" "isHTTPErrorCode err 404" "\<not> exists" "needsUpdate"
    | (some) p where "gn_GetTargetPool net R n c = Inr p" "exists"
        "\<not> needsUpdate \<longleftrightarrow> affinity_serves service (tp_SessionAffinity p)"
    using needs by (auto simp: targetPoolNeedsUpdate_def affinity_serves_def split: sum.splits if_splits)
  then have "(exists \<longleftrightarrow> po \<noteq> None) \<and> (\<not> needsUpdate \<longrightarrow> (\<exists>a. po = Some a \<and> affinity_serves service a))"
  proof cases
    case none
    then show ?thesis using gce_readsD(4) [OF honest none(1,2)] parts by (simp add: parts_def)
  next
    case some
    then show ?thesis using gce_readsD(3) [OF honest some(1)] parts by (auto simp: parts_def)
  qed
  then show "exists \<longleftrightarrow> po \<noteq> None" "\<not> needsUpdate \<Longrightarrow> \<exists>a. po = Some a \<and> affinity_serves service a" by auto
qed

lemma releasing_ensures:
  assumes "ensures (\<lambda>s. P (fst s)) m (\<lambda>a s. Q a (fst s)) (\<lambda>s. E (fst s))"
    and "\<And>a c. Q a c \<Longrightarrow> Q a (snd (release c))" and "\<And>c. E c \<Longrightarrow> E (snd (release c))"
  shows "ensures P (releasing release m) Q E"
  unfolding ensures_def
proof (intro allI impI)
  fix c assume "P c"
  obtain res c1 a b where run: "m (c, False, False) = (res, c1, a, b)" by (metis surjective_pairing)
  have "case res of Returned x \<Rightarrow> Q x c1 | _ \<Rightarrow> E c1"
    using ensuresD [OF assms(1) _ run] \<open>P c\<close> by (simp split: outcome.splits)
  then show "case releasing release m c of (Returned a, c') \<Rightarrow> Q a c' | (_, c') \<Rightarrow> E c'"
    using run assms(2,3) by (cases res) (auto simp: releasing_def)
qed

text \<open>The two steps on the way to the rebuilding that do not leave the three parts alone, or choose the address.\<close>

lemma chooseAddress_ensures:
  assumes honest: "gce_honest api net (gp_region gce) (GetLoadBalancerName service) view"
    and kept: "\<not> fwdNeeds \<Longrightarrow> fwdIP \<noteq> '''' \<and> (gv_address v0 = None \<or> gv_address v0 = Some fwdIP) \<and>
      (sv_LoadBalancerIP service = '''' \<or> sv_LoadBalancerIP service = fwdIP)"
    and v0: "parts v0 = (ro, po, fwo)"
  shows "ensures (\<lambda>s. view (fst s) = v0) (chooseAddress api net gce service fwdIP)
    (\<lambda>ip s. (\<not> fwdNeeds \<longrightarrow> ip = fwdIP) \<and> has_parts view (ro, po, fwo) s)
    (\<lambda>s. \<exists>ip. made_last kube service ip ro (view (fst s)))"
proof (rule ensuresI)
  fix s ip s' assume pre: "view (fst s) = v0" and run: "chooseAddress api net gce service fwdIP s = (Returned ip, s')"
  have "has_parts view (ro, po, fwo) s'"
    using keepsD [OF chooseAddress_keeps [OF honest parts_only(1)] run] pre v0 by simp
  moreover have "ip = fwdIP" if "\<not> fwdNeeds"
    using chooseAddress_existing [OF honest run] kept [OF that] pre by auto
  ultimately show "(\<not> fwdNeeds \<longrightarrow> ip = fwdIP) \<and> has_parts view (ro, po, fwo) s'" by blast
next
  fix s res s' assume pre: "view (fst s) = v0" and run: "chooseAddress api net gce service fwdIP s = (res, s')"
  have "parts (view (fst s')) = (ro, po, fwo)"
    using keepsD [OF chooseAddress_keeps [OF honest parts_only(1)] run] pre v0 by simp
  then show "\<exists>ip. made_last kube service ip ro (view (fst s'))" by (blast intro: made_lastI(2))
qed

lemma ensureFirewall_ensures:
  assumes honest: "gce_honest api net R (GetLoadBalancerName service) view"
    and sets: "\<And>A. gk_ParseIPNets kube (gk_StringSlice kube A) = Inr A"
  shows "ensures (has_parts view (ro, po, fw0)) (plainly (ensureFirewall api net kube gce service ip hosts))
    (\<lambda>_ s. \<exists>fwo. firewall_right kube service ip fwo \<and> has_parts view (ro, po, fwo) s)
    (\<lambda>s. \<exists>ip. made_last kube service ip ro (view (fst s)))"
proof -
  let ?f = "\<lambda>v. (gv_rule v, map_option tp_SessionAffinity (gv_pool v))"
  have "only_firewall ?f" by (simp add: only_firewall_def)
  note kept = keepsD [OF ensureFirewall_keeps [OF honest this]]
  have "ensures (\<lambda>c. parts (view c) = (ro, po, fw0)) (ensureFirewall api net kube gce service ip hosts)
      (\<lambda>_ c. \<exists>fwo. firewall_right kube service ip fwo \<and> parts (view c) = (ro, po, fwo)) (\<lambda>c. gv_rule (view c) = ro)"
  proof (rule ensuresI)
    fix c u c' assume "parts (view c) = (ro, po, fw0)" and run: "ensureFirewall api net kube gce service ip hosts c = (Returned u, c')"
    then show "\<exists>fwo. firewall_right kube service ip fwo \<and> parts (view c') = (ro, po, fwo)"
      using kept [OF run] ensureFirewall_serves [OF honest sets run] by (auto simp: parts_def firewall_right_def)
  next
    fix c res c' assume "parts (view c) = (ro, po, fw0)" and run: "ensureFirewall api net kube gce service ip hosts c = (res, c')"
    then show "gv_rule (view c') = ro" using kept [OF run] by (simp add: parts_def)
  qed
  from ensures_plainly [OF this] show ?thesis by (rule ensures_weaken) (auto intro: made_lastI(1))
qed

lemma planHealthCheck_ensures:
  assumes honest: "gce_honest api net R (GetLoadBalancerName service) view"
  shows "ensures (has_parts view (ro, x)) (plainly (planHealthCheck api net kube service))
    (\<lambda>p s. (\<forall>h. fst p = Some h \<longrightarrow> hc_Name h = GetLoadBalancerName service) \<and> has_parts view (ro, x) s)
    (\<lambda>s. \<exists>ip. made_last kube service ip ro (view (fst s)))"
proof -
  note kept = keepsD [OF planHealthCheck_keeps [OF honest parts_only(2)]]
  have "ensures (\<lambda>c. parts (view c) = (ro, x)) (planHealthCheck api net kube service)
    (\<lambda>p c. (\<forall>h. fst p = Some h \<longrightarrow> hc_Name h = GetLoadBalancerName service) \<and> parts (view c) = (ro, x)) (\<lambda>c. gv_rule (view c) = ro)"
  proof (rule ensuresI)
    fix c p c' assume "parts (view c) = (ro, x)" and run: "planHealthCheck api net kube service c = (Returned p, c')"
    then show "(\<forall>h. fst p = Some h \<longrightarrow> hc_Name h = GetLoadBalancerName service) \<and> parts (view c') = (ro, x)"
      using kept [OF run] planHealthCheck_existing [OF honest, of kube c "fst p" "fst (snd p)" "snd (snd p)" c'] by (cases p) auto
  next
    fix c res c' assume "parts (view c) = (ro, x)" and run: "planHealthCheck api net kube service c = (res, c')"
    then show "gv_rule (view c') = ro" using kept [OF run] by (simp add: parts_def)
  qed
  from ensures_plainly [OF this] show ?thesis by (rule ensures_weaken) (auto intro: made_lastI(1))
qed

text \<open>The part of the function between the firewall and the deferred release.\<close>

lemma rebuilt_ensures:
  assumes honest: "gce_honest api net (gp_region gce) (GetLoadBalancerName service) view"
    and rule: "fwdExists \<longleftrightarrow> ro \<noteq> None" "\<not> fwdNeeds \<Longrightarrow> \<exists>r. ro = Some r \<and> rule_serves service ip r"
    and pool: "tpExists \<longleftrightarrow> po \<noteq> None" "\<not> tpNeeds \<Longrightarrow> \<exists>a. po = Some a \<and> affinity_serves service a"
    and fw: "firewall_right kube service ip fwo"
  shows "ensures (\<lambda>s. (\<forall>h. fst q = Some h \<longrightarrow> hc_Name h = GetLoadBalancerName service) \<and> has_parts view (ro, po, fwo) s)
    (case q of (hcExisting, hcToCreate, hcChanged) \<Rightarrow>
       andThen (rebuildRule api net kube gce service hosts ip fwdExists fwdNeeds tpExists (tpNeeds \<or> hcChanged) hcExisting hcToCreate)
         (\<lambda>_. give ip))
    (\<lambda>a s. serving kube service a (parts (view (fst s)))) (\<lambda>s. \<exists>ip. made_last kube service ip ro (view (fst s)))"
proof (rule ensures_assuming)
  obtain hcExisting hcToCreate hcChanged where q: "q = (hcExisting, hcToCreate, hcChanged)" by (cases q) auto
  assume "\<forall>h. fst q = Some h \<longrightarrow> hc_Name h = GetLoadBalancerName service"
  then have named: "\<And>h. hcExisting = Some h \<Longrightarrow> hc_Name h = GetLoadBalancerName service" using q by simp
  have "ensures (has_parts view (ro, po, fwo))
      (rebuildRule api net kube gce service hosts ip fwdExists fwdNeeds tpExists (tpNeeds \<or> hcChanged) hcExisting hcToCreate)
      (\<lambda>_ s. serving kube service ip (parts (view (fst s)))) (\<lambda>s. made_last kube service ip ro (view (fst s)))"
    by (rule rebuildRule_ensures [OF honest named rule]) (use pool fw in auto)
  then have "ensures (has_parts view (ro, po, fwo))
      (andThen (rebuildRule api net kube gce service hosts ip fwdExists fwdNeeds tpExists (tpNeeds \<or> hcChanged) hcExisting hcToCreate) (\<lambda>_. give ip))
      (\<lambda>a s. serving kube service a (parts (view (fst s)))) (\<lambda>s. made_last kube service ip ro (view (fst s)))"
    by (rule ensures_andThen) (rule ensures_give)
  then show "ensures (has_parts view (ro, po, fwo))
      (case q of (hcExisting, hcToCreate, hcChanged) \<Rightarrow>
       andThen (rebuildRule api net kube gce service hosts ip fwdExists fwdNeeds tpExists (tpNeeds \<or> hcChanged) hcExisting hcToCreate) (\<lambda>_. give ip))
      (\<lambda>a s. serving kube service a (parts (view (fst s)))) (\<lambda>s. \<exists>ip. made_last kube service ip ro (view (fst s)))"
    unfolding q prod.case by (rule ensures_weaken) auto
qed

lemma targetPool_ensures:
  assumes honest: "gce_honest api net R n view"
  shows "ensures (has_parts view (ro, po, fwo)) (plainly (reading (targetPoolNeedsUpdate net n R (sv_SessionAffinity service))))
    (\<lambda>p s. ((fst p \<longleftrightarrow> po \<noteq> None) \<and> (\<not> snd p \<longrightarrow> (\<exists>a. po = Some a \<and> affinity_serves service a))) \<and> has_parts view (ro, po, fwo) s)
    (\<lambda>s. \<exists>ip. made_last kube service ip ro (view (fst s)))"
proof -
  let ?facts = "\<lambda>p. (fst p \<longleftrightarrow> po \<noteq> None) \<and> (\<not> snd p \<longrightarrow> (\<exists>a. po = Some a \<and> affinity_serves service a))"
  have "ensures (\<lambda>c. parts (view c) = (ro, po, fwo)) (reading (targetPoolNeedsUpdate net n R (sv_SessionAffinity service)))
      (\<lambda>p c. ?facts p \<and> parts (view c) = (ro, po, fwo)) (\<lambda>c. gv_rule (view c) = ro)"
  proof (rule ensures_reading)
    fix c p assume pre: "parts (view c) = (ro, po, fwo)"
      and "targetPoolNeedsUpdate net n R (sv_SessionAffinity service) c = Inr p"
    then have "targetPoolNeedsUpdate net n R (sv_SessionAffinity service) c = Inr (fst p, snd p)" by simp
    from targetPoolNeedsUpdate_facts [OF honest this pre] show "?facts p \<and> parts (view c) = (ro, po, fwo)" using pre by blast
  qed (simp add: parts_def)
  from ensures_plainly [OF this] show ?thesis by (rule ensures_weaken) (auto intro: made_lastI(1))
qed

lemma rebuilding_ensures:
  assumes honest: "gce_honest api net (gp_region gce) (GetLoadBalancerName service) view"
    and rule: "fwdExists \<longleftrightarrow> ro \<noteq> None" "\<not> fwdNeeds \<Longrightarrow> \<exists>r. ro = Some r \<and> rule_serves service ip r"
    and fw: "firewall_right kube service ip fwo"
  shows "ensures (has_parts view (ro, po, fwo))
    (andThen (plainly (reading (targetPoolNeedsUpdate net (GetLoadBalancerName service) (gp_region gce) (sv_SessionAffinity service)))) (\<lambda>(tpExists, tpNeedsUpdate).
     andThen (plainly (planHealthCheck api net kube service)) (\<lambda>(hcExisting, hcToCreate, hcChanged).
     andThen (rebuildRule api net kube gce service hosts ip fwdExists fwdNeeds tpExists (tpNeedsUpdate \<or> hcChanged)
                hcExisting hcToCreate) (\<lambda>_. give ip))))
    (\<lambda>a s. serving kube service a (parts (view (fst s)))) (\<lambda>s. \<exists>ip. made_last kube service ip ro (view (fst s)))"
proof (rule ensures_andThen [OF targetPool_ensures [OF honest]], rule ensures_assuming)
  fix p :: "bool \<times> bool"
  obtain tpExists tpNeeds where p: "p = (tpExists, tpNeeds)" by fastforce
  assume "(fst p \<longleftrightarrow> po \<noteq> None) \<and> (\<not> snd p \<longrightarrow> (\<exists>a. po = Some a \<and> affinity_serves service a))"
  then have pool: "tpExists \<longleftrightarrow> po \<noteq> None" "\<not> tpNeeds \<Longrightarrow> \<exists>a. po = Some a \<and> affinity_serves service a" using p by auto
  from ensures_andThen [OF planHealthCheck_ensures [OF honest] rebuilt_ensures [OF honest rule pool fw]]
  show "ensures (has_parts view (ro, po, fwo))
      (case p of (tpExists, tpNeedsUpdate) \<Rightarrow>
         andThen (plainly (planHealthCheck api net kube service)) (\<lambda>(hcExisting, hcToCreate, hcChanged).
         andThen (rebuildRule api net kube gce service hosts ip fwdExists fwdNeeds tpExists (tpNeedsUpdate \<or> hcChanged)
                    hcExisting hcToCreate) (\<lambda>_. give ip)))
      (\<lambda>a s. serving kube service a (parts (view (fst s)))) (\<lambda>s. \<exists>ip. made_last kube service ip ro (view (fst s)))"
    unfolding p prod.case .
qed

lemma deferred_release_keeps:
  assumes "gce_honest api net R n view"
  shows "parts (view (snd (deleteStaticIP api net n R c))) = parts (view c)"
  using deleteStaticIP_keeps [OF assms parts_only(1)] by (simp add: keeps_def)

lemma released_rule:
  assumes "gce_honest api net R n view"
  shows "gv_rule (view (snd (deleteStaticIP api net n R c))) = gv_rule (view c)"
  using deferred_release_keeps [OF assms, of c] by (simp add: parts_def)

lemma ensures_reading_now:
  assumes "E c" and "\<And>a. m c = Inr a \<Longrightarrow> ensures (\<lambda>d. d = c) (f a) Q E"
  shows "ensures (\<lambda>d. d = c) (andThen (reading m) f) Q E"
  using assms by (auto simp: ensures_def andThen_first split: sum.splits)

definition coherent_address :: "gceView \<Rightarrow> bool" where
  "coherent_address v \<longleftrightarrow>
     (\<forall>r. gv_rule v = Some r \<longrightarrow> fr_IPAddress r \<noteq> '''' \<and> (gv_address v = None \<or> gv_address v = Some (fr_IPAddress r)))"

lemma released_ensures:
  assumes honest: "gce_honest api net (gp_region gce) (GetLoadBalancerName service) view"
    and sets: "\<And>A. gk_ParseIPNets kube (gk_StringSlice kube A) = Inr A"
    and coherent: "coherent_address (view c)"
    and needs: "forwardingRuleNeedsUpdate net (GetLoadBalancerName service) (gp_region gce) (sv_LoadBalancerIP service)
      (sv_Ports service) c = Inr (fwdExists, fwdNeeds, fwdIP)"
  shows "ensures (\<lambda>d. d = c)
    (releasing (deleteStaticIP api net (GetLoadBalancerName service) (gp_region gce))
      (andThen (chooseAddress api net gce service fwdIP) (\<lambda>ipAddress.
       andThen (plainly (ensureFirewall api net kube gce service ipAddress hosts)) (\<lambda>_.
       andThen (plainly (reading (targetPoolNeedsUpdate net (GetLoadBalancerName service) (gp_region gce) (sv_SessionAffinity service)))) (\<lambda>(tpExists, tpNeedsUpdate).
       andThen (plainly (planHealthCheck api net kube service)) (\<lambda>(hcExisting, hcToCreate, hcChanged).
       andThen (rebuildRule api net kube gce service hosts ipAddress fwdExists fwdNeeds tpExists (tpNeedsUpdate \<or> hcChanged)
                  hcExisting hcToCreate) (\<lambda>_.
       give ipAddress)))))))
    (\<lambda>ip d. serving kube service ip (parts (view d))) (\<lambda>d. \<exists>ip. made_last kube service ip (gv_rule (view c)) (view d))"
proof (rule releasing_ensures)
  let ?E = "\<lambda>d. \<exists>ip. made_last kube service ip (gv_rule (view c)) (view d)"
  note facts = forwardingRuleNeedsUpdate_facts [OF honest needs]
  obtain po fw0 where now: "parts (view c) = (gv_rule (view c), po, fw0)" by (simp add: parts_def)
  have kept: "fwdIP \<noteq> '''' \<and> (gv_address (view c) = None \<or> gv_address (view c) = Some fwdIP) \<and>
    (sv_LoadBalancerIP service = '''' \<or> sv_LoadBalancerIP service = fwdIP)" if "\<not> fwdNeeds"
    using facts(2) [OF that] coherent by (auto simp: coherent_address_def)
  have rule: "\<exists>r. gv_rule (view c) = Some r \<and> rule_serves service ip r" if "\<not> fwdNeeds" "\<not> fwdNeeds \<longrightarrow> ip = fwdIP" for ip
    using facts(2) that by auto
  have chosen: "ensures (\<lambda>s. fst s = c) (chooseAddress api net gce service fwdIP)
      (\<lambda>ip s. (\<not> fwdNeeds \<longrightarrow> ip = fwdIP) \<and> has_parts view (gv_rule (view c), po, fw0) s) (\<lambda>s. ?E (fst s))"
    by (rule ensures_weaken [OF chooseAddress_ensures [OF honest kept now]]) auto
  have walled: "ensures (has_parts view (gv_rule (view c), po, fw0)) (plainly (ensureFirewall api net kube gce service ip hosts))
      (\<lambda>_ s. \<exists>fwo. firewall_right kube service ip fwo \<and> has_parts view (gv_rule (view c), po, fwo) s) (\<lambda>s. ?E (fst s))" for ip
    by (rule ensureFirewall_ensures [OF honest sets])
  note rest = rebuilding_ensures [OF honest facts(1) rule]
  show "ensures (\<lambda>s. fst s = c)
    (andThen (chooseAddress api net gce service fwdIP) (\<lambda>ipAddress.
       andThen (plainly (ensureFirewall api net kube gce service ipAddress hosts)) (\<lambda>_.
       andThen (plainly (reading (targetPoolNeedsUpdate net (GetLoadBalancerName service) (gp_region gce) (sv_SessionAffinity service)))) (\<lambda>(tpExists, tpNeedsUpdate).
       andThen (plainly (planHealthCheck api net kube service)) (\<lambda>(hcExisting, hcToCreate, hcChanged).
       andThen (rebuildRule api net kube gce service hosts ipAddress fwdExists fwdNeeds tpExists (tpNeedsUpdate \<or> hcChanged)
                  hcExisting hcToCreate) (\<lambda>_.
       give ipAddress))))))
    (\<lambda>ip s. serving kube service ip (parts (view (fst s)))) (\<lambda>s. ?E (fst s))"
    by (rule ensures_andThen [OF chosen], rule ensures_assuming, rule ensures_andThen [OF walled], unfold ensures_exists,
        intro allI ensures_assuming rest) assumption+
qed (simp_all add: made_last_def deferred_release_keeps [OF honest] released_rule [OF honest])

lemma gce_EnsureLoadBalancer_ensures:
  assumes honest: "gce_honest api net (gp_region gce) (GetLoadBalancerName service) view"
    and sets: "\<And>A. gk_ParseIPNets kube (gk_StringSlice kube A) = Inr A"
    and coherent: "coherent_address (view c)"
  shows "ensures (\<lambda>d. d = c) (gce_EnsureLoadBalancer api net kube gce service nodes)
    (\<lambda>ip d. serving kube service ip (parts (view d))) (\<lambda>d. \<exists>ip. made_last kube service ip (gv_rule (view c)) (view d))"
proof -
  have unchanged: "\<exists>ip. made_last kube service ip (gv_rule (view c)) (view c)" by (blast intro: made_lastI(1))
  note body = released_ensures [OF honest sets coherent]
  show ?thesis unfolding gce_EnsureLoadBalancer_def Let_def
    using unchanged
    by (intro ensures_if ensures_failing ensures_reading_now) (auto intro: body)
qed

end
