(* ===== verification/GceOutcomes.thy ===== *)
theory GceOutcomes
  imports GceEnsured
begin

text \<open>
  The outcomes of the operations on GCE load balancers: what a success and what a failure leave, the
  panics, the ports that a rule covers, and what a deletion takes away. The witnesses use a service
  whose state is the view of one balancer.
\<close>

section \<open>A service\<close>

definition demo_404 :: gceErr where
  "demo_404 = GoogleAPIErr 404 [] ''not found''"

definition demo_put :: "bool \<Rightarrow> (gceView \<Rightarrow> gceView) \<Rightarrow> gceView gceCall" where
  "demo_put occupied put v = (if occupied then (Inl (GoogleAPIErr 409 [] ''conflict''), v) else (Inr (Some demo_op), put v))"

definition demo_get :: "'a option \<Rightarrow> gceErr + 'a" where
  "demo_get x = (case x of None \<Rightarrow> Inl demo_404 | Some y \<Rightarrow> Inr y)"

definition demo_net :: "gceView gceNet" where
  "demo_net =
     \<lparr>gn_GetRegionOperation = (\<lambda>_ _ v. ((Some demo_op, None), v)),
      gn_GetForwardingRule = (\<lambda>_ _ v. demo_get (gv_rule v)),
      gn_InsertForwardingRule = (\<lambda>_ r v. demo_put (gv_rule v \<noteq> None) (\<lambda>v. v\<lparr>gv_rule := Some r\<rparr>) v),
      gn_DeleteForwardingRule = (\<lambda>_ _. demo_put False (\<lambda>v. v\<lparr>gv_rule := None\<rparr>)),
      gn_GetTargetPool = (\<lambda>_ _ v. demo_get (gv_pool v)),
      gn_InsertTargetPool = (\<lambda>_ p v. demo_put (gv_pool v \<noteq> None) (\<lambda>v. v\<lparr>gv_pool := Some p\<rparr>) v),
      gn_DeleteTargetPool = (\<lambda>_ _. demo_put False (\<lambda>v. v\<lparr>gv_pool := None\<rparr>)),
      gn_AddInstance = (\<lambda>_ _ links. demo_put False (\<lambda>v. v\<lparr>gv_pool := map_option (\<lambda>p. p\<lparr>tp_Instances := tp_Instances p @ links\<rparr>) (gv_pool v)\<rparr>)),
      gn_RemoveInstance = (\<lambda>_ _ links. demo_put False
        (\<lambda>v. v\<lparr>gv_pool := map_option (\<lambda>p. p\<lparr>tp_Instances := filter (\<lambda>x. x \<notin> set links) (tp_Instances p)\<rparr>) (gv_pool v)\<rparr>)),
      gn_GetFirewall = (\<lambda>_ v. demo_get (gv_firewall v)),
      gn_InsertFirewall = (\<lambda>f v. demo_put (gv_firewall v \<noteq> None) (\<lambda>v. v\<lparr>gv_firewall := Some f\<rparr>) v),
      gn_UpdateFirewall = (\<lambda>_ f. demo_put False (\<lambda>v. v\<lparr>gv_firewall := Some f\<rparr>)),
      gn_DeleteFirewall = (\<lambda>_. demo_put False (\<lambda>v. v\<lparr>gv_firewall := None\<rparr>)),
      gn_ListAddresses = (\<lambda>_ _ v. Inr ([''5.5.5.5''], '''')),
      gn_GetAddress = (\<lambda>_ n v. demo_get (map_option (\<lambda>ip. \<lparr>ad_Name = n, ad_Description = '''', ad_Address = ip\<rparr>) (gv_address v))),
      gn_InsertAddress = (\<lambda>_ a v. demo_put (gv_address v \<noteq> None)
        (\<lambda>v. v\<lparr>gv_address := Some (if ad_Address a = '''' then ''7.7.7.7'' else ad_Address a)\<rparr>) v),
      gn_DeleteAddress = (\<lambda>_ _. demo_put False (\<lambda>v. v\<lparr>gv_address := None\<rparr>)),
      gn_GetHealthCheck = (\<lambda>n v. demo_get (map_option (\<lambda>h. h\<lparr>hc_Name := n\<rparr>) (gv_check v))),
      gn_InsertHealthCheck = (\<lambda>h v. demo_put (gv_check v \<noteq> None) (\<lambda>v. v\<lparr>gv_check := Some (h\<lparr>hc_SelfLink := ''check''\<rparr>)\<rparr>) v),
      gn_UpdateHealthCheck = (\<lambda>_ h. demo_put False (\<lambda>v. v\<lparr>gv_check := Some (h\<lparr>hc_SelfLink := ''check''\<rparr>)\<rparr>)),
      gn_DeleteHealthCheck = (\<lambda>_. demo_put False (\<lambda>v. v\<lparr>gv_check := None\<rparr>)),
      gn_ListInstances = (\<lambda>zone _ _ v. Inr ([\<lparr>li_Name = ''node'', li_ID = 1, li_Disks = [], li_MachineType = ''zones/z/m'', li_Tags = [''no'']\<rparr>], '''')),
      gn_ListRoutes = (\<lambda>_ _ v. Inr ([], '''')),
      gn_InsertRoute = (\<lambda>_. demo_put False id), gn_DeleteRoute = (\<lambda>_. demo_put False id),
      gn_Metadata = (\<lambda>_ v. Inl demo_404), gn_ProjectID = (\<lambda>v. Inr ''p''), gn_ListClusters = (\<lambda>_ v. Inr []),
      gn_range = (\<lambda>A v. sorted_list_of_fset A)\<rparr>"

text \<open>Every view is one of the service; the name of a health check is always the balancer's.\<close>

definition demo_view :: "string \<Rightarrow> gceView \<Rightarrow> gceView" where
  "demo_view n v = v\<lparr>gv_check := map_option (\<lambda>h. h\<lparr>hc_Name := n\<rparr>) (gv_check v)\<rparr>"

lemma demo_op_done: "waitForGlobalOp demo_gce (Some demo_op) v = (None, v)" "waitForRegionOp demo_gce demo_net R (Some demo_op) v = (None, v)"
  by (simp_all add: waitForGlobalOp_def waitForRegionOp_def waitForOp_def demo_op_def opIsDone_def getErrorFromOp_def)

lemma demo_insertion:
  assumes "\<And>v. wait (Some demo_op) v = (None, v)" and "\<And>v. call v = demo_put (occ v) f v"
    and "\<And>v. occ v \<longleftrightarrow> occupied (view v)" and "\<And>v. put (view v) (view (f v))"
  shows "insertion call wait view occupied put"
  unfolding insertion_def using assms by (auto simp: demo_put_def split: if_splits)

lemma demo_deletion:
  assumes "\<And>v. wait (Some demo_op) v = (None, v)" and "\<And>v. call v = demo_put False f v" and "\<And>v. view (f v) = without (view v)"
  shows "deletion call wait view without"
  unfolding deletion_def using assms by (auto simp: demo_put_def)

lemma demo_gce_reads: "gce_reads demo_net R n (demo_view n)"
  by (auto simp: gce_reads_def demo_net_def demo_view_def demo_get_def demo_404_def isHTTPErrorCode_def split: option.splits)

lemma demo_pool_changed:
  "\<exists>xs. v\<lparr>gv_pool := map_option (\<lambda>p. p\<lparr>tp_Instances := g p\<rparr>) (gv_pool v), gv_check := k\<rparr> =
     v\<lparr>gv_check := k, gv_pool := map_option (\<lambda>p. p\<lparr>tp_Instances := xs\<rparr>) (gv_pool v)\<rparr>" for v :: gceView
  by (cases v; cases "gv_pool v") auto

lemma demo_address_changed:
  "\<exists>ip. v\<lparr>gv_address := Some a, gv_check := k\<rparr> = v\<lparr>gv_check := k, gv_address := Some ip\<rparr>" for v :: gceView
  by (cases v) auto

lemma demo_gce_writes: "gce_writes demo_gce demo_net R n (demo_view n)"
  unfolding gce_writes_def
  by (intro conjI allI impI; (rule demo_insertion, rule demo_op_done))
    (auto simp: demo_net_def demo_view_def intro: demo_pool_changed demo_address_changed)

lemma demo_gce_deletes: "gce_deletes demo_gce demo_net R n (demo_view n)"
  unfolding gce_deletes_def
  by (intro conjI; (rule demo_deletion, rule demo_op_done))
    (auto simp: demo_net_def demo_view_def)

lemma demo_gce_honest: "gce_honest demo_gce demo_net R n (demo_view n)"
  by (simp add: gce_honest_def demo_gce_reads demo_gce_writes demo_gce_deletes)

section \<open>What EnsureLoadBalancer makes\<close>


text \<open>
  C13. The invariant of the comments: where there was no forwarding rule, a rule that exists after
  EnsureLoadBalancer, whether it returned, failed or panicked, and whatever operation was waited for
  in vain, belongs to a balancer that has been fully created.
\<close>

theorem gce_rule_is_made_last:
  assumes "gce_honest api net (gp_region gce) (GetLoadBalancerName service) view"
    and "\<And>A. gk_ParseIPNets kube (gk_StringSlice kube A) = Inr A"
    and "gv_rule (view c) = None"
    and "gce_EnsureLoadBalancer api net kube gce service nodes c = (outcome, c')"
    and "gv_rule (view c') = Some r"
  shows "\<exists>p fw ranges. rule_serves service (fr_IPAddress r) r \<and>
    gv_pool (view c') = Some p \<and> affinity_serves service (tp_SessionAffinity p) \<and>
    gv_firewall (view c') = Some fw \<and> gk_SourceRanges kube service = Inr ranges \<and>
    firewall_serves kube service (fr_IPAddress r) ranges fw"
proof -
  have "coherent_address (view c)" using assms(3) by (simp add: coherent_address_def)
  from ensuresD [OF gce_EnsureLoadBalancer_ensures [OF assms(1,2) this] refl assms(4)]
  obtain ip where "serving kube service ip (parts (view c'))"
    using assms(3,5) by (cases outcome) (auto simp: made_last_def)
  then show ?thesis using assms(5) by (auto simp: serving_def parts_def firewall_right_def rule_serves_def)
qed

definition demo_service :: "string \<Rightarrow> string \<Rightarrow> Service" where
  "demo_service requested affinity =
     \<lparr>sv_Name = ''web'', sv_Namespace = ''ns'', sv_UID = ''u1'', sv_Annotations = fmempty,
      sv_Ports = [\<lparr>sp_Name = ''http'', sp_Protocol = ''TCP'', sp_Port = 80, sp_NodePort = 30080\<rparr>],
      sv_SessionAffinity = affinity, sv_LoadBalancerIP = requested\<rparr>"

definition demo_gkube :: gceKube where
  "demo_gkube =
     \<lparr>gk_SourceRanges = (\<lambda>_. Inr {|''0.0.0.0/0''|}), gk_HealthCheck = (\<lambda>_. ('''', 0)),
      gk_ParseIPNets = (\<lambda>xs. Inr (fset_of_list xs)), gk_StringSlice = sorted_list_of_fset\<rparr>"

definition demo_gprovider :: gceProvider where
  "demo_gprovider =
     \<lparr>gp_cloud = \<lparr>gc_projectID = ''p'', gc_managedZones = [''z'']\<rparr>, gp_region = ''r'', gp_localZone = ''z'', gp_networkURL = ''net'',
      gp_nodeTags = [''tag''], gp_nodeInstancePrefix = '''', gp_useMetadataServer = False\<rparr>"

definition demo_empty :: gceView where
  "demo_empty = \<lparr>gv_rule = None, gv_pool = None, gv_firewall = None, gv_address = None, gv_check = None\<rparr>"

lemma demo_sets: "gk_ParseIPNets demo_gkube (gk_StringSlice demo_gkube A) = Inr A"
proof -
  have "fset (fset_of_list (sorted_list_of_fset A)) = fset A"
    by (simp add: fset_of_list.rep_eq sorted_list_of_fset.rep_eq)
  then show ?thesis by (simp add: demo_gkube_def fset_inject)
qed

lemma demo_instances: "getInstancesByNames demo_net demo_gprovider [''node''] v =
  Inr [\<lparr>gi_Zone = ''z'', gi_Name = ''node'', gi_ID = 1, gi_Disks = [], gi_Type = ''m''\<rparr>]"
  by (simp add: getInstancesByNames_def demo_net_def demo_gprovider_def usedPrefix_def instanceFilter_def recordListed_def
      canonicalizeInstanceName_def lastComponent_def after_last_def numeral_eq_Suc)

definition demo_gnode :: Node where
  "demo_gnode = \<lparr>node_Name = ''node'', node_UID = ''n1'', node_Labels = None, node_Addresses = []\<rparr>"

lemma demo_name: "GetLoadBalancerName (demo_service requested affinity) = ''au1''"
  by (simp add: GetLoadBalancerName_def demo_service_def remove_all_plain)

lemmas gce_steps =
  andThen_def give_def failing_def panic_def reading_def changing_def request_call_def recovering_def wrapAs_def
  plainly_def flags_def safeToRelease_def releasing_def conflictTolerant_def goneTolerant_def awaited_def updating_def

lemmas gce_ensure_steps =
  gce_EnsureLoadBalancer_def chooseAddress_def ensureFirewall_def planHealthCheck_def rebuildRule_def rebuildTargetPool_def
  existingHealthCheck_def forwardingRuleNeedsUpdate_def targetPoolNeedsUpdate_def firewallNeedsUpdate_def
  createForwardingRule_def createTargetPool_def firewallObject_def createFirewall_def updateFirewall_def
  ensureStaticIP_def reserveAddress_def deleteForwardingRule_def deleteTargetPool_def deleteStaticIP_def
  DeleteHTTPHealthCheck_def loadBalancerPortRange_def

lemma demo_calls:
  "gn_GetForwardingRule demo_net R n v = demo_get (gv_rule v)"
  "gn_InsertForwardingRule demo_net R r v = demo_put (gv_rule v \<noteq> None) (\<lambda>v. v\<lparr>gv_rule := Some r\<rparr>) v"
  "gn_DeleteForwardingRule demo_net R n v = demo_put False (\<lambda>v. v\<lparr>gv_rule := None\<rparr>) v"
  "gn_GetTargetPool demo_net R n v = demo_get (gv_pool v)"
  "gn_InsertTargetPool demo_net R p v = demo_put (gv_pool v \<noteq> None) (\<lambda>v. v\<lparr>gv_pool := Some p\<rparr>) v"
  "gn_DeleteTargetPool demo_net R n v = demo_put False (\<lambda>v. v\<lparr>gv_pool := None\<rparr>) v"
  "gn_GetFirewall demo_net n v = demo_get (gv_firewall v)"
  "gn_InsertFirewall demo_net f v = demo_put (gv_firewall v \<noteq> None) (\<lambda>v. v\<lparr>gv_firewall := Some f\<rparr>) v"
  "gn_DeleteFirewall demo_net n v = demo_put False (\<lambda>v. v\<lparr>gv_firewall := None\<rparr>) v"
  "gn_ListAddresses demo_net R t v = Inr ([''5.5.5.5''], '''')"
  "gn_GetAddress demo_net R n v = demo_get (map_option (\<lambda>ip. \<lparr>ad_Name = n, ad_Description = '''', ad_Address = ip\<rparr>) (gv_address v))"
  "gn_InsertAddress demo_net R a v = demo_put (gv_address v \<noteq> None)
     (\<lambda>v. v\<lparr>gv_address := Some (if ad_Address a = '''' then ''7.7.7.7'' else ad_Address a)\<rparr>) v"
  "gn_DeleteAddress demo_net R n v = demo_put False (\<lambda>v. v\<lparr>gv_address := None\<rparr>) v"
  "gn_GetHealthCheck demo_net n v = demo_get (map_option (\<lambda>h. h\<lparr>hc_Name := n\<rparr>) (gv_check v))"
  "gn_DeleteHealthCheck demo_net n v = demo_put False (\<lambda>v. v\<lparr>gv_check := None\<rparr>) v"
  by (simp_all add: demo_net_def)

lemmas demo_service_steps = demo_calls demo_put_def demo_get_def demo_404_def isHTTPErrorCode_def demo_op_done

lemma demo_facts:
  "sv_LoadBalancerIP (demo_service requested affinity) = requested" "sv_SessionAffinity (demo_service requested affinity) = affinity"
  "namespacedName (demo_service requested affinity) = ''ns/web''"
  "sv_Ports (demo_service requested affinity) = [\<lparr>sp_Name = ''http'', sp_Protocol = ''TCP'', sp_Port = 80, sp_NodePort = 30080\<rparr>]"
  "gp_region demo_gprovider = ''r''" "gp_nodeTags demo_gprovider = [''tag'']" "gp_networkURL demo_gprovider = ''net''"
  "gp_projectID demo_gprovider = ''p''"
  "gk_SourceRanges demo_gkube s = Inr {|''0.0.0.0/0''|}" "gk_HealthCheck demo_gkube s = ('''', 0)"
  "gk_StringSlice demo_gkube {|''0.0.0.0/0''|} = [''0.0.0.0/0'']"
  by (simp_all add: demo_service_def namespacedName_def demo_gprovider_def demo_gkube_def sorted_list_of_fset.rep_eq)

lemma demo_texts: "FormatInt 80 = ''80''" "ToLower ''TCP'' = ''tcp''"
  by code_simp+

lemma demo_ensured:
  "gce_EnsureLoadBalancer demo_gce demo_net demo_gkube demo_gprovider (demo_service '''' ''None'') [demo_gnode] demo_empty =
     (Returned ''7.7.7.7'',
      \<lparr>gv_rule = Some \<lparr>fr_Name = ''au1'', fr_Description = makeHealthCheckDescription ''ns/web'', fr_IPAddress = ''7.7.7.7'',
         fr_IPProtocol = ''TCP'', fr_PortRange = ''80-80'', fr_Target = targetPoolURL demo_gprovider ''au1'' ''r''\<rparr>,
       gv_pool = Some \<lparr>tp_Name = ''au1'', tp_Description = makeHealthCheckDescription ''ns/web'',
         tp_Instances = [makeHostURL ''p'' ''z'' ''node''], tp_SessionAffinity = ''NONE'', tp_HealthChecks = []\<rparr>,
       gv_firewall = Some \<lparr>fw_Name = ''k8s-fw-au1'', fw_Description = makeFirewallDescription ''ns/web'' ''7.7.7.7'', fw_Network = ''net'',
         fw_SourceRanges = [''0.0.0.0/0''], fw_TargetTags = [''tag''], fw_Allowed = [(''tcp'', [''80''])]\<rparr>,
       gv_address = None, gv_check = None\<rparr>)"
  by (simp add: gce_ensure_steps gce_steps demo_service_steps demo_facts demo_gnode_def demo_instances demo_name
      demo_texts demo_empty_def Let_def makeFirewallName_def translateAffinityType_def and_then_def)


theorem gce_rule_is_made_last_witness:
  "\<exists>outcome v' r. gce_EnsureLoadBalancer demo_gce demo_net demo_gkube demo_gprovider (demo_service '''' ''None'') [demo_gnode] demo_empty =
       (outcome, v') \<and> gv_rule v' = Some r \<and> rule_serves (demo_service '''' ''None'') (fr_IPAddress r) r"
proof -
  let ?s = "demo_service '''' ''None''"
  obtain v' r where run: "gce_EnsureLoadBalancer demo_gce demo_net demo_gkube demo_gprovider ?s [demo_gnode] demo_empty = (Returned ''7.7.7.7'', v')"
    and r: "gv_rule v' = Some r"
    using demo_ensured by fastforce
  have "gv_rule (demo_view (GetLoadBalancerName ?s) demo_empty) = None" "gv_rule (demo_view (GetLoadBalancerName ?s) v') = Some r"
    using r by (simp_all add: demo_view_def demo_empty_def)
  from gce_rule_is_made_last [OF demo_gce_honest demo_sets this(1) run this(2)]
  show ?thesis using run r by blast
qed

section \<open>Ports\<close>

lemma foldl_min:
  "foldl (\<lambda>m p. if f p < m then f p else m) (a :: int) xs = fold min (map f xs) a"
  by (induction xs arbitrary: a) (auto simp: min_def)

lemma foldl_max:
  "foldl (\<lambda>m p. if m < f p then f p else m) (a :: int) xs = fold max (map f xs) a"
  by (induction xs arbitrary: a) (auto simp: max_def)

lemma fold_min_bound: "fold min ys (a :: int) \<le> a \<and> (\<forall>y \<in> set ys. fold min ys a \<le> y) \<and> (fold min ys a = a \<or> fold min ys a \<in> set ys)"
proof (induction ys arbitrary: a)
  case (Cons y ys)
  from Cons [of "min y a"] show ?case by (auto simp: min_def split: if_splits)
qed simp

lemma fold_max_bound: "a \<le> fold max ys (a :: int) \<and> (\<forall>y \<in> set ys. y \<le> fold max ys a) \<and> (fold max ys a = a \<or> fold max ys a \<in> set ys)"
proof (induction ys arbitrary: a)
  case (Cons y ys)
  from Cons [of "max y a"] show ?case by (auto simp: max_def split: if_splits)
qed simp

text \<open>
  C36. The port range of a rule covers every port of the service, and starts and ends at one of them: of
  the ports that the API server lets through none is below 1 or above 65535.
\<close>

theorem port_range_is_tight:
  assumes "loadBalancerPortRange ports = Inr portRange"
    and "\<forall>p \<in> set ports. 0 < sp_Port p \<and> sp_Port p < 65536"
  shows "\<exists>first final. portRange = FormatInt first @ ''-'' @ FormatInt final \<and>
    (\<forall>p \<in> set ports. first \<le> sp_Port p \<and> sp_Port p \<le> final) \<and>
    first \<in> sp_Port ` set ports \<and> final \<in> sp_Port ` set ports"
proof -
  from assms(1) have ports: "ports \<noteq> []"
    and portRange: "portRange = FormatInt (fold min (map sp_Port ports) 65536) @ ''-'' @ FormatInt (fold max (map sp_Port ports) 0)"
    by (auto simp: loadBalancerPortRange_def foldl_min foldl_max split: list.splits if_splits)
  note lo = fold_min_bound [of "map sp_Port ports" 65536] and hi = fold_max_bound [of 0 "map sp_Port ports"]
  obtain p where "p \<in> set ports" using ports by fastforce
  then have "fold min (map sp_Port ports) 65536 \<noteq> 65536" "fold max (map sp_Port ports) 0 \<noteq> 0"
    using lo hi assms(2) by fastforce+
  then show ?thesis using lo hi portRange by (intro exI conjI) auto
qed

theorem port_range_is_tight_witness:
  "\<exists>portRange first final. loadBalancerPortRange
       [\<lparr>sp_Name = ''a'', sp_Protocol = ''TCP'', sp_Port = 443, sp_NodePort = 1\<rparr>,
        \<lparr>sp_Name = ''b'', sp_Protocol = ''TCP'', sp_Port = 80, sp_NodePort = 2\<rparr>] = Inr portRange \<and>
     portRange = FormatInt first @ ''-'' @ FormatInt final \<and> first \<le> 80 \<and> 443 \<le> final"
proof -
  let ?ports = "[\<lparr>sp_Name = ''a'', sp_Protocol = ''TCP'', sp_Port = 443, sp_NodePort = 1\<rparr>,
        \<lparr>sp_Name = ''b'', sp_Protocol = ''TCP'', sp_Port = 80, sp_NodePort = 2\<rparr>]"
  obtain portRange where "loadBalancerPortRange ?ports = Inr portRange" by (simp add: loadBalancerPortRange_def)
  then show ?thesis using port_range_is_tight [of ?ports portRange] by auto
qed

section \<open>Panics\<close>

lemma calm_waits: "calm (awaited call wait)" "calm (conflictTolerant call wait)" "calm (goneTolerant call wait)"
  by (auto simp: awaited_def calm_def conflictTolerant_def goneTolerant_def andThen_changing request_call_def
      split: prod.split sum.split option.split)

lemma calm_recovering: "calm m \<Longrightarrow> (\<And>e. calm (h e)) \<Longrightarrow> calm (recovering m h)"
  unfolding calm_def recovering_def by (auto split: prod.split outcome.split) (metis fst_conv)+

lemma ensureHTTPHealthCheck_calm: "calm (ensureHTTPHealthCheck api net name path port)"
proof -
  have "calm (andThen (CreateHTTPHealthCheck api net h) (\<lambda>_. reading g))" "calm (andThen (UpdateHTTPHealthCheck api net h) (\<lambda>_. give x))"
    for h g and x :: healthCheck
    unfolding CreateHTTPHealthCheck_def UpdateHTTPHealthCheck_def by (intro calm_intros calm_waits)+
  then show ?thesis by (auto simp: calm_def ensureHTTPHealthCheck_def split: sum.split)
qed

text \<open>
  A target pool whose health check cannot be ensured makes the process panic, because the error
  message prints fields of the health check that was not made; nothing else in the creation does.
\<close>

theorem pool_creation_panics_iff:
  "fst (createTargetPool api net gce name sn region hosts affinity hc c) = Panicked \<longleftrightarrow>
     (\<exists>h err. hc = Some h \<and> fst (ensureHTTPHealthCheck api net name (hc_RequestPath h) (signed_take_bit 31 (hc_Port h)) c) = Failed err)"
proof -
  have insert: "fst (conflictTolerant call wait d) \<noteq> Panicked" for call :: "'a gceCall" and wait d
    using calm_waits(2) [of call wait] by (simp add: calm_def)
  show ?thesis
  proof (cases hc)
    case None
    then show ?thesis using insert by (simp add: createTargetPool_def andThen_def give_def)
  next
    case (Some h)
    obtain res c1 where ens: "ensureHTTPHealthCheck api net name (hc_RequestPath h) (signed_take_bit 31 (hc_Port h)) c = (res, c1)" by fastforce
    have "res \<noteq> Panicked" using ensureHTTPHealthCheck_calm ens unfolding calm_def by (metis fst_conv)
    then show ?thesis using Some ens insert
      by (cases res) (simp_all add: createTargetPool_def andThen_def give_def recovering_def panic_def)
  qed
qed

text \<open>
  The firewall of a service without ports makes the process panic as soon as the tags of the nodes
  are known: the first port is an index out of range.
\<close>

theorem firewall_panics_iff:
  "fst (firewallObject net kube gce name desc sourceRanges ports hosts c) = Panicked \<longleftrightarrow>
     ports = [] \<and> (gp_nodeTags gce \<noteq> [] \<or> (\<exists>tags. computeHostTags net gce hosts c = Inr tags))"
  by (cases "computeHostTags net gce hosts c")
    (auto simp: firewallObject_def andThen_def recovering_def reading_def failing_def panic_def give_def split: list.split)

section \<open>Deletion\<close>

text \<open>A part that is gone stays gone in every outcome of the deletion of another.\<close>

definition emptied :: "(gceView \<Rightarrow> bool) \<Rightarrow> bool" where
  "emptied S \<longleftrightarrow> (\<forall>v. S v \<longrightarrow> S (v\<lparr>gv_rule := None\<rparr>) \<and> S (v\<lparr>gv_pool := None\<rparr>) \<and> S (v\<lparr>gv_firewall := None\<rparr>) \<and>
     S (v\<lparr>gv_address := None\<rparr>) \<and> S (v\<lparr>gv_check := None\<rparr>))"

definition stays :: "('c \<Rightarrow> bool) \<Rightarrow> ('c, 'e, 'a) step \<Rightarrow> bool" where
  "stays S m \<longleftrightarrow> (\<forall>c. S c \<longrightarrow> S (snd (m c)))"

lemma stays_andThen: "stays S m \<Longrightarrow> (\<And>a. stays S (f a)) \<Longrightarrow> stays S (andThen m f)"
  by (fastforce simp: stays_def andThen_def split: prod.split outcome.split)

lemma stays_recovering: "stays S m \<Longrightarrow> (\<And>e. stays S (h e)) \<Longrightarrow> stays S (recovering m h)"
  by (fastforce simp: stays_def recovering_def split: prod.split outcome.split)

lemma stays_give: "stays S (give a)"
  by (simp add: stays_def give_def)

lemma goneTolerant_stays:
  assumes "deletion call wait view without" and "\<And>v. S v \<Longrightarrow> S (without v)"
  shows "stays (\<lambda>c. S (view c)) (goneTolerant call wait)"
proof -
  have "S (view c')" if "goneTolerant call wait c = (res, c')" "S (view c)" for c res c'
    using goneTolerant_view [OF assms(1) that(1)] assms(2) that(2) by (cases res) auto
  then show ?thesis unfolding stays_def by (metis surjective_pairing)
qed

lemma deletionTask_stays:
  assumes honest: "gce_honest api net (gp_region gce) n view" and named: "\<And>h. hc = Some h \<Longrightarrow> hc_Name h = n" and S: "emptied S"
  shows "stays (\<lambda>c. S (view c)) (deletionTask api net gce n hc task)"
proof -
  note dels = gce_deletesD [OF honest]
  have check: "stays (\<lambda>c. S (view c)) (DeleteHTTPHealthCheck api net n)"
    unfolding DeleteHTTPHealthCheck_def by (rule goneTolerant_stays [OF dels(5)]) (use S in \<open>simp add: emptied_def\<close>)
  have pool: "stays (\<lambda>c. S (view c)) (deleteTargetPool api net n (gp_region gce) hc)"
    unfolding deleteTargetPool_def
    by (intro stays_andThen goneTolerant_stays [OF dels(2)])
      (use S named check in \<open>auto simp: emptied_def split: option.split intro: stays_recovering stays_give\<close>)
  have "stays (\<lambda>c. S (view c)) (deleteForwardingRule api net n (gp_region gce))"
    unfolding deleteForwardingRule_def by (rule goneTolerant_stays [OF dels(1)]) (use S in \<open>simp add: emptied_def\<close>)
  moreover have "stays (\<lambda>c. S (view c)) (deleteFirewall api net n)"
    unfolding deleteFirewall_def by (rule goneTolerant_stays [OF dels(3)]) (use S in \<open>simp add: emptied_def\<close>)
  moreover have "stays (\<lambda>c. S (view c)) (deleteStaticIP api net n (gp_region gce))"
    unfolding deleteStaticIP_def by (rule goneTolerant_stays [OF dels(4)]) (use S in \<open>simp add: emptied_def\<close>)
  ultimately show ?thesis using pool by (auto simp: deletionTask_def split: deletion.split intro: stays_andThen)
qed

definition taken :: "deletion \<Rightarrow> gceView \<Rightarrow> bool" where
  "taken task v \<longleftrightarrow>
     (case task of
        DelFirewall \<Rightarrow> gv_firewall v = None
      | DelAddress \<Rightarrow> gv_address v = None
      | DelRuleAndPool \<Rightarrow> gv_rule v = None \<and> gv_pool v = None)"

lemma taken_emptied: "emptied (taken task)"
  by (cases task) (simp_all add: emptied_def taken_def)

lemma deletionTask_takes:
  assumes honest: "gce_honest api net (gp_region gce) n view" and named: "\<And>h. hc = Some h \<Longrightarrow> hc_Name h = n"
    and run: "deletionTask api net gce n hc task c = (Returned u, c')"
  shows "taken task (view c')"
proof (cases task)
  case DelFirewall
  then show ?thesis using run goneTolerant_view [OF gce_deletesD(3) [OF honest], of c "Returned u" c']
    by (simp add: deletionTask_def deleteFirewall_def taken_def)
next
  case DelAddress
  then show ?thesis using run goneTolerant_view [OF gce_deletesD(4) [OF honest], of c "Returned u" c']
    by (simp add: deletionTask_def deleteStaticIP_def taken_def)
next
  case DelRuleAndPool
  then obtain v c1 where rule: "goneTolerant (gn_DeleteForwardingRule net (gp_region gce) n) (waitForRegionOp api net (gp_region gce)) c = (Returned v, c1)"
    and pool: "deleteTargetPool api net n (gp_region gce) hc c1 = (Returned u, c')"
    using run by (auto simp: deletionTask_def deleteForwardingRule_def)
  have "gv_rule (view c1) = None" using goneTolerant_view [OF gce_deletesD(1) [OF honest] rule] by simp
  then have "parts (view c1) = (None, map_option tp_SessionAffinity (gv_pool (view c1)), gv_firewall (view c1))" by (simp add: parts_def)
  from ensures_returned [OF deleteTargetPool_ensures [OF honest named] this pool]
  show ?thesis using DelRuleAndPool by (simp add: parts_def taken_def)
qed

lemma deletionTask_calm: "calm (deletionTask api net gce n hc task)"
proof -
  have "calm (recovering (DeleteHTTPHealthCheck api net n) (\<lambda>_. give ()))"
    unfolding DeleteHTTPHealthCheck_def by (intro calm_recovering calm_waits calm_give)
  then show ?thesis
    by (auto simp: deletionTask_def deleteTargetPool_def deleteForwardingRule_def deleteFirewall_def deleteStaticIP_def
        DeleteHTTPHealthCheck_def split: deletion.split option.split intro!: calm_andThen calm_waits)
qed

lemma AggregateGoroutines_takes:
  assumes honest: "gce_honest api net (gp_region gce) n view" and named: "\<And>h. hc = Some h \<Longrightarrow> hc_Name h = n"
  shows "AggregateGoroutines (map (deletionTask api net gce n hc) order) c = ([], c') \<Longrightarrow> task \<in> set order \<Longrightarrow> taken task (view c')"
    and "AggregateGoroutines (map (deletionTask api net gce n hc) order) c = (errs, c') \<Longrightarrow> emptied S \<Longrightarrow> S (view c) \<Longrightarrow> S (view c')"
proof -
  have stay: "S (view c')" if "AggregateGoroutines (map (deletionTask api net gce n hc) order) c = (errs, c')" "emptied S" "S (view c)"
    for order c errs c' S
    using that
  proof (induction order arbitrary: c errs)
    case (Cons t order)
    obtain res c1 where t: "deletionTask api net gce n hc t c = (res, c1)" by fastforce
    have "S (view c1)" using deletionTask_stays [OF honest named Cons.prems(2), where task = t] Cons.prems(3) t unfolding stays_def by (metis snd_conv)
    then show ?case using Cons t by (cases res) (auto split: prod.splits)
  qed simp
  then show "AggregateGoroutines (map (deletionTask api net gce n hc) order) c = (errs, c') \<Longrightarrow> emptied S \<Longrightarrow> S (view c) \<Longrightarrow> S (view c')" .
  show "taken task (view c')" if "AggregateGoroutines (map (deletionTask api net gce n hc) order) c = ([], c')" "task \<in> set order"
    using that
  proof (induction order arbitrary: c)
    case (Cons t order)
    obtain res c1 where t: "deletionTask api net gce n hc t c = (res, c1)" by fastforce
    then have "res \<noteq> Panicked" using deletionTask_calm unfolding calm_def by (metis fst_conv)
    then obtain u where res: "res = Returned u" using Cons.prems(1) t by (cases res) (auto split: prod.splits)
    then have rest: "AggregateGoroutines (map (deletionTask api net gce n hc) order) c1 = ([], c')" using Cons.prems(1) t by simp
    show ?case
    proof (cases "task = t")
      case True
      have "taken t (view c1)" using deletionTask_takes [OF honest named] t res by blast
      then show ?thesis using stay [OF rest taken_emptied] True by blast
    next
      case False
      then show ?thesis using Cons.IH [OF rest] Cons.prems(2) by simp
    qed
  qed simp
qed

text \<open>
  C34. A deletion without errors, in whatever order its three goroutines run, leaves no firewall, no
  static address, no rule and no pool.
\<close>

theorem gce_deletion_leaves_nothing:
  assumes "gce_honest api net (gp_region gce) (GetLoadBalancerName service) view"
    and "set order = {DelFirewall, DelAddress, DelRuleAndPool}"
    and "gce_EnsureLoadBalancerDeleted api net kube gce order service c = ([], c')"
  shows "gv_firewall (view c') = None \<and> gv_address (view c') = None \<and> gv_rule (view c') = None \<and> gv_pool (view c') = None"
proof -
  from assms(3) obtain hc where hc: "\<And>h. hc = Some h \<Longrightarrow> hc_Name h = GetLoadBalancerName service"
    and run: "AggregateGoroutines (map (deletionTask api net gce (GetLoadBalancerName service) hc) order) c = ([], c')"
    by (auto simp: gce_EnsureLoadBalancerDeleted_def Let_def split: sum.splits if_splits intro: gce_readsD(9) [OF assms(1)])
  have "taken t (view c')" for t
    using AggregateGoroutines_takes(1) [OF assms(1) hc run] assms(2) by (cases t) auto
  from this [of DelFirewall] this [of DelAddress] this [of DelRuleAndPool] show ?thesis by (simp add: taken_def)
qed

theorem gce_deletion_leaves_nothing_witness:
  "\<exists>v'. gce_EnsureLoadBalancerDeleted demo_gce demo_net demo_gkube demo_gprovider [DelAddress, DelRuleAndPool, DelFirewall]
      (demo_service '''' ''None'')
      (snd (gce_EnsureLoadBalancer demo_gce demo_net demo_gkube demo_gprovider (demo_service '''' ''None'') [demo_gnode] demo_empty)) =
      ([], v') \<and> gv_rule v' = None \<and> gv_pool v' = None \<and> gv_firewall v' = None"
proof -
  let ?s = "demo_service '''' ''None''" and ?order = "[DelAddress, DelRuleAndPool, DelFirewall]"
  obtain v' where run: "gce_EnsureLoadBalancerDeleted demo_gce demo_net demo_gkube demo_gprovider ?order ?s
      (snd (gce_EnsureLoadBalancer demo_gce demo_net demo_gkube demo_gprovider ?s [demo_gnode] demo_empty)) = ([], v')"
    by (simp add: demo_ensured gce_EnsureLoadBalancerDeleted_def deletionTask_def deleteFirewall_def gce_ensure_steps gce_steps
        demo_service_steps demo_facts demo_name)
  moreover have "set ?order = {DelFirewall, DelAddress, DelRuleAndPool}" by auto
  ultimately show ?thesis using gce_deletion_leaves_nothing [OF demo_gce_honest _ run] by (auto simp: demo_view_def)
qed

section \<open>Addresses of the user\<close>

definition addressed :: "('c \<Rightarrow> gceView) \<Rightarrow> 'c \<times> bool \<times> bool \<Rightarrow> string option \<times> bool" where
  "addressed view s = (gv_address (view (fst s)), fst (snd s))"

lemma addressed_plainly: "keeps (\<lambda>c. gv_address (view c)) m \<Longrightarrow> keeps (addressed view) (plainly m)"
  by (auto simp: keeps_def plainly_def addressed_def split: prod.split) (metis snd_conv)

lemma address_only: "only_rule gv_address" "only_pool gv_address" "only_firewall gv_address" "only_check gv_address"
  by (simp_all add: only_defs)

lemma rebuildRule_addressed:
  assumes honest: "gce_honest api net (gp_region gce) (GetLoadBalancerName service) view"
    and named: "\<And>h. hcExisting = Some h \<Longrightarrow> hc_Name h = GetLoadBalancerName service"
  shows "keeps (addressed view)
    (rebuildRule api net kube gce service hosts ip fwdExists fwdNeeds tpExists tpNeeds hcExisting hcToCreate)"
proof -
  let ?n = "GetLoadBalancerName service" and ?R = "gp_region gce" and ?k = "\<lambda>c. gv_address (view c)"
  have flag: "keeps (addressed view) (safeToRelease b)" for b by (simp add: keeps_def safeToRelease_def addressed_def)
  have down: "keeps (addressed view) (plainly (wrapAs err (deleteForwardingRule api net ?n ?R)))" for err
    by (intro addressed_plainly keeps_wrapAs deleteForwardingRule_keeps [OF honest address_only(1)])
  have clear: "keeps (addressed view) (plainly (andThen (reading (existingHealthCheck net kube service hcExisting))
      (\<lambda>hc. wrapAs err (deleteTargetPool api net ?n ?R hc))))" for err
    by (intro addressed_plainly keeps_first [OF keeps_give(4)] keeps_wrapAs deleteTargetPool_keeps [OF honest address_only(2,4)])
      (auto simp: existingHealthCheck_def split: sum.splits if_splits intro: gce_readsD(9) [OF honest] named)
  have fill: "keeps (addressed view) (plainly (rebuildTargetPool api net gce service hosts hcToCreate))"
    by (intro addressed_plainly rebuildTargetPool_keeps [OF honest address_only(2,4)])
  have up: "keeps (addressed view) (plainly (wrapAs err (createForwardingRule api net gce ?n sn ?R ip ports)))" for err sn ports
  proof (intro addressed_plainly keeps_wrapAs)
    have "keeps ?k (conflictTolerant (gn_InsertForwardingRule net ?R r) (waitForRegionOp api net ?R))" if "fr_Name r = ?n" for r
      by (rule keeps_conflictTolerant [OF gce_writesD(1) [OF honest that]]) simp
    then show "keeps ?k (createForwardingRule api net gce ?n sn ?R ip ports)"
      unfolding createForwardingRule_def by (intro keeps_andThen keeps_give) simp
  qed
  show ?thesis unfolding rebuildRule_def Let_def
    by (intro keeps_andThen keeps_if flag down clear fill up keeps_give)
qed

text \<open>
  An address that the user reserved is the user's: EnsureLoadBalancer neither reserves nor releases
  the static address of the balancer, whatever comes of it.
\<close>

theorem user_address_is_left_alone:
  assumes "gce_honest api net (gp_region gce) (GetLoadBalancerName service) view"
    and "sv_LoadBalancerIP service \<noteq> ''''"
    and "projectOwnsStaticIP net (gp_region gce) (sv_LoadBalancerIP service) c = Inr True"
    and "gce_EnsureLoadBalancer api net kube gce service nodes c = (outcome, c')"
  shows "gv_address (view c') = gv_address (view c)"
proof -
  let ?n = "GetLoadBalancerName service" and ?R = "gp_region gce" and ?k = "\<lambda>c. gv_address (view c)"
  have wall: "keeps (addressed view) (plainly (ensureFirewall api net kube gce service ip hosts))" for ip hosts
    by (intro addressed_plainly ensureFirewall_keeps [OF assms(1) address_only(3)])
  have look: "keeps (addressed view) (plainly (reading m))" for m :: "'a \<Rightarrow> gceErr + bool \<times> bool"
    by (intro addressed_plainly keeps_give)
  have plan: "keeps (addressed view) (plainly (planHealthCheck api net kube service))"
    by (intro addressed_plainly planHealthCheck_keeps [OF assms(1) address_only(4)])
  have named: "hc_Name h = ?n" if "plainly (planHealthCheck api net kube service) s = (Returned (Some h, q), s')" for s h q s'
    using that planHealthCheck_existing [OF assms(1), of kube "fst s" "Some h" "fst q" "snd q"]
    by (cases q) (auto simp: plainly_def split: prod.splits)
  have rest: "keeps (addressed view)
     (andThen (plainly (ensureFirewall api net kube gce service ip hosts)) (\<lambda>_.
      andThen (plainly (reading (targetPoolNeedsUpdate net ?n ?R (sv_SessionAffinity service)))) (\<lambda>(tpExists, tpNeedsUpdate).
      andThen (plainly (planHealthCheck api net kube service)) (\<lambda>(hcExisting, hcToCreate, hcChanged).
      andThen (rebuildRule api net kube gce service hosts ip fwdExists fwdNeeds tpExists (tpNeedsUpdate \<or> hcChanged)
                 hcExisting hcToCreate) (\<lambda>_. give ip)))))" for ip hosts fwdExists fwdNeeds
    by (intro keeps_andThen wall look)
      (auto intro!: keeps_first [OF plan] keeps_andThen rebuildRule_addressed [OF assms(1)] keeps_give dest: named split: prod.split)
  have chosen: "chooseAddress api net gce service fwdIP (c, False, False) = (Returned (sv_LoadBalancerIP service), (c, True, False))" for fwdIP
    using assms(2,3) by (simp add: chooseAddress_def Let_def andThen_def flags_def give_def)
  have kept: "?k c1 = ?k c"
    if "releasing release (andThen (chooseAddress api net gce service fwdIP) m) c = (res, c1)"
      and "\<And>ip. keeps (addressed view) (m ip)" for release fwdIP res c1 and m :: "string \<Rightarrow> ('a, string) flaggedStep"
  proof -
    obtain r d u s where run: "m (sv_LoadBalancerIP service) (c, True, False) = (r, (d, u, s))" by (metis surjective_pairing)
    have "addressed view (d, u, s) = addressed view (c, True, False)" by (rule keepsD [OF that(2) run])
    then show ?thesis using that(1) run chosen by (auto simp: releasing_def andThen_def addressed_def)
  qed
  consider (unchanged) "c' = c" | (run) hosts fwdExists fwdNeeds fwdIP where
      "releasing (deleteStaticIP api net ?n ?R) (andThen (chooseAddress api net gce service fwdIP) (\<lambda>ip.
       andThen (plainly (ensureFirewall api net kube gce service ip hosts)) (\<lambda>_.
       andThen (plainly (reading (targetPoolNeedsUpdate net ?n ?R (sv_SessionAffinity service)))) (\<lambda>(tpExists, tpNeedsUpdate).
       andThen (plainly (planHealthCheck api net kube service)) (\<lambda>(hcExisting, hcToCreate, hcChanged).
       andThen (rebuildRule api net kube gce service hosts ip fwdExists fwdNeeds tpExists (tpNeedsUpdate \<or> hcChanged)
                  hcExisting hcToCreate) (\<lambda>_. give ip)))))) c = (outcome, c')"
    using assms(4) unfolding gce_EnsureLoadBalancer_def Let_def
    by (auto simp: failing_def andThen_reading split: if_splits sum.splits prod.splits)
  then show ?thesis
  proof cases
    case run
    then show ?thesis by (rule kept) (rule rest)
  qed simp
qed

theorem user_address_is_left_alone_witness:
  "\<exists>outcome v'. gce_EnsureLoadBalancer demo_gce demo_net demo_gkube demo_gprovider (demo_service ''5.5.5.5'' ''None'') [demo_gnode]
      (demo_empty\<lparr>gv_address := Some ''5.5.5.5''\<rparr>) = (outcome, v') \<and> gv_address v' = Some ''5.5.5.5''"
proof -
  let ?s = "demo_service ''5.5.5.5'' ''None''" and ?v = "demo_empty\<lparr>gv_address := Some ''5.5.5.5''\<rparr>"
  obtain outcome v' where run: "gce_EnsureLoadBalancer demo_gce demo_net demo_gkube demo_gprovider ?s [demo_gnode] ?v = (outcome, v')"
    by fastforce
  have "sv_LoadBalancerIP ?s \<noteq> ''''" "projectOwnsStaticIP demo_net (gp_region demo_gprovider) (sv_LoadBalancerIP ?s) ?v = Inr True"
    by (simp_all add: demo_facts projectOwnsStaticIP_def demo_calls numeral_eq_Suc)
  from user_address_is_left_alone [OF demo_gce_honest this run] show ?thesis using run by (simp add: demo_view_def)
qed

section \<open>A health check that drifted\<close>

lemma planHealthCheck_drifted:
  assumes "gk_HealthCheck kube service = (path, port)" and "path \<noteq> ''''"
    and "gn_GetHealthCheck net (GetLoadBalancerName service) c = Inr old" and "drifted old (GetLoadBalancerName service) path port"
    and "planHealthCheck api net kube service c = (Returned (hcExisting, hcToCreate, changed), c1)"
  shows "hcToCreate = Some old \<and> \<not> changed"
  using assms unfolding planHealthCheck_def Let_def
  by (auto simp: wrapAs_def recovering_Returned ensureHTTPHealthCheck_def)

lemma ensureHTTPHealthCheck_creates:
  assumes honest: "gce_honest api net R n view" and none: "gn_GetHealthCheck net n d = Inl err"
    and run: "ensureHTTPHealthCheck api net n path port d = (Returned hc, d1)"
  shows "\<exists>h. gv_check (view d1) = Some h \<and> hc_RequestPath h = path \<and> hc_Port h = port"
proof -
  have named: "hc_Name (newHealthCheck n path port) = n" by (simp add: newHealthCheck_def)
  from run none obtain u where created: "awaited (gn_InsertHealthCheck net (newHealthCheck n path port)) (waitForGlobalOp api) d = (Returned u, d1)"
    by (auto simp: ensureHTTPHealthCheck_def CreateHTTPHealthCheck_def)
  from awaited_view [OF gce_writesD(8) [OF honest named] created] show ?thesis by (auto simp: newHealthCheck_def)
qed


text \<open>A service with a health check on the port 9090, whose pool and health check are out of date.\<close>

definition demo_hkube :: gceKube where
  "demo_hkube = demo_gkube\<lparr>gk_HealthCheck := (\<lambda>_. (''/healthz'', 9090))\<rparr>"

definition demo_old :: healthCheck where
  "demo_old = (newHealthCheck ''au1'' ''/old'' 8080)\<lparr>hc_SelfLink := ''check''\<rparr>"


end
