(* ===== verification/GceNodes.thy ===== *)
theory GceNodes
  imports GceOutcomes
begin

text \<open>
  Instances by their names, routes and the start-up of the GCE provider: what a lookup of many
  instances answers, that a route that was created is listed as it was asked for, and what becomes of
  a configured network without a configured project.
\<close>

section \<open>Instances by their names\<close>

text \<open>Every instance found is filed under its own name, with a zone that was searched.\<close>

definition filed :: "string set \<Rightarrow> gceInstance gomap \<Rightarrow> bool" where
  "filed zones found \<longleftrightarrow> (\<forall>n i. fmlookup found n = Some i \<longrightarrow> gi_Name i = n \<and> gi_Zone i \<in> zones)"

lemma filed_one:
  "filed zones (fst st) \<Longrightarrow> zone \<in> zones \<Longrightarrow> filed zones (fst (recordListed zone wanted i st))"
  unfolding recordListed_def filed_def by (simp split: if_splits)

lemma filed_recordListed:
  "zone \<in> zones \<Longrightarrow> filed zones (fst st) \<Longrightarrow> filed zones (fst (fold (recordListed zone wanted) items st))"
proof (induction items arbitrary: st)
  case (Cons i items)
  have "filed zones (fst (recordListed zone wanted i st))" using Cons.prems by (rule_tac filed_one)
  then show ?case using Cons.IH Cons.prems(1) by simp
qed simp

lemma scanPages_invariant:
  assumes "\<And>items s s'. handler items s = Inr s' \<Longrightarrow> P s \<Longrightarrow> P s'"
  shows "scanPages k fetch handler token s c = Inr (Inr s') \<Longrightarrow> P s \<Longrightarrow> P s'"
proof (induction k arbitrary: token s)
  case (Suc k)
  then show ?case using assms by (auto split: sum.splits prod.splits if_splits)
qed simp

lemma findInZones_filed:
  "findInZones net pre wanted zones st c = Inr st' \<Longrightarrow> set zones \<subseteq> A \<Longrightarrow> filed A (fst st) \<Longrightarrow> filed A (fst st')"
proof (induction zones arbitrary: st)
  case (Cons zone zones)
  let ?handler = "\<lambda>items st. Inr (fold (recordListed zone wanted) items st) :: unit + _"
  have page: "filed A (fst s')" if "scanPages maxPages (gn_ListInstances net zone (instanceFilter pre)) ?handler '''' st c = Inr (Inr s')" for s'
    by (rule scanPages_invariant [where P = "\<lambda>s. filed A (fst s)", OF _ that Cons.prems(3)])
      (use Cons.prems(2) in \<open>auto intro: filed_recordListed\<close>)
  show ?case using Cons.prems Cons.IH page by (auto split: sum.splits if_splits)
qed simp

lemma instanceArray_filed:
  "instanceArray found ns = Inr hosts \<Longrightarrow> filed A found \<Longrightarrow>
     map gi_Name hosts = map canonicalizeInstanceName ns \<and> gi_Zone ` set hosts \<subseteq> A"
proof (induction ns arbitrary: hosts)
  case (Cons n ns)
  from Cons.prems obtain i rest where i: "fmlookup found (canonicalizeInstanceName n) = Some i"
    and rest: "instanceArray found ns = Inr rest" "hosts = i # rest"
    by (auto split: option.splits) (cases "instanceArray found ns"; auto)
  then show ?case using Cons.IH [OF rest(1) Cons.prems(2)] Cons.prems(2) by (simp add: filed_def)
qed simp

text \<open>
  A lookup of instances that succeeds answers with one instance for each name, in the order of the
  names, each with the short form of its name and in a zone that the provider manages.
\<close>

theorem instances_answer_names:
  assumes "getInstancesByNames net gce ns c = Inr hosts"
  shows "map gi_Name hosts = map canonicalizeInstanceName ns \<and> gi_Zone ` set hosts \<subseteq> set (gc_managedZones (gp_cloud gce))"
proof -
  from assms obtain st where found: "findInZones net (usedPrefix (gp_nodeInstancePrefix gce) (map canonicalizeInstanceName ns))
      (fset_of_list (map canonicalizeInstanceName ns)) (gc_managedZones (gp_cloud gce)) (fmempty, int (length ns)) c = Inr st"
    and array: "instanceArray (fst st) ns = Inr hosts"
    by (auto simp: getInstancesByNames_def Let_def split: sum.splits prod.splits)
  have "filed (set (gc_managedZones (gp_cloud gce))) (fst st)"
    by (rule findInZones_filed [OF found]) (simp_all add: filed_def)
  then show ?thesis by (rule instanceArray_filed [OF array])
qed

section \<open>Names\<close>

definition gce_Master :: "string \<Rightarrow> string" where
  "gce_Master clusterName = ''k8s-'' @ clusterName @ ''-master.internal''"

text \<open>
  \<open>^[0-9]+.google.internal.$\<close>: the three unescaped dots of the expression match any character but a
  newline (of ASCII names, a character is a byte).
\<close>

definition uselessDNS :: "string \<Rightarrow> bool" where
  "uselessDNS s =
     (let n = length s - 17; t = drop n s in
      17 < length s \<and> list_all (\<lambda>ch. CHR ''0'' \<le> ch \<and> ch \<le> CHR ''9'') (take n s) \<and>
      t ! 0 \<noteq> CHR 10 \<and> take 6 (drop 1 t) = ''google'' \<and> t ! 7 \<noteq> CHR 10 \<and> take 8 (drop 8 t) = ''internal'' \<and> t ! 16 \<noteq> CHR 10)"

definition gce_ScrubDNS :: "string list \<Rightarrow> string list \<Rightarrow> string list \<times> string list" where
  "gce_ScrubDNS nameservers searches = (nameservers, filter (\<lambda>s. \<not> uselessDNS s) searches)"

lemma uselessDNS_examples:
  "uselessDNS ''1234.google.internal.''" "uselessDNS ''12345google-internal1''" "\<not> uselessDNS ''c.proj.google.internal.''"
  by code_simp+

section \<open>Routes\<close>

lemma lastComponent_plain: "CHR ''/'' \<notin> set n \<Longrightarrow> lastComponent (p @ ''/'' @ n) = n"
  by (simp add: lastComponent_def)

lemma Base_last:
  assumes "CHR ''/'' \<notin> set n" and "n \<noteq> ''''"
  shows "Base (p @ ''/'' @ n) = n"
proof -
  have "dropWhile (\<lambda>ch. ch = CHR ''/'') (rev (p @ ''/'' @ n)) = rev (p @ ''/'' @ n)"
    using assms by (cases "rev n") (auto simp: dropWhile_append1)
  then show ?thesis using lastComponent_plain [OF assms(1), of p] by (simp add: Base_def Let_def)
qed

text \<open>
  What the service does with routes: one that is inserted is among its routes, a conflict is answered
  only when one of that name is, and a listing by a name prefix has all of them in one page.
\<close>

definition keeps_routes :: "'c gceAPI \<Rightarrow> 'c gceNet \<Rightarrow> ('c \<Rightarrow> gceRoute set) \<Rightarrow> bool" where
  "keeps_routes api net routes \<longleftrightarrow>
     (\<forall>r c op c1 c2. gn_InsertRoute net r c = (Inr op, c1) \<longrightarrow> waitForGlobalOp api op c1 = (None, c2) \<longrightarrow> r \<in> routes c2) \<and>
     (\<forall>r c err c1. gn_InsertRoute net r c = (Inl err, c1) \<longrightarrow> isHTTPErrorCode err 409 \<longrightarrow> rt_Name r \<in> rt_Name ` routes c) \<and>
     (\<forall>pre c. \<exists>items. gn_ListRoutes net (''name eq '' @ pre @ ''-.*'') '''' c = Inr (items, '''') \<and>
        {r \<in> routes c. HasPrefix (rt_Name r) (pre @ ''-'')} \<subseteq> set items)"

lemma keeps_routesD:
  assumes "keeps_routes api net routes"
  shows "gn_InsertRoute net r c = (Inr op, c1) \<Longrightarrow> waitForGlobalOp api op c1 = (None, c2) \<Longrightarrow> r \<in> routes c2"
    and "gn_InsertRoute net r c = (Inl err, c1) \<Longrightarrow> isHTTPErrorCode err 409 \<Longrightarrow> rt_Name r \<in> rt_Name ` routes c"
    and "\<exists>items. gn_ListRoutes net (''name eq '' @ pre @ ''-.*'') '''' c = Inr (items, '''') \<and>
        {r \<in> routes c. HasPrefix (rt_Name r) (pre @ ''-'')} \<subseteq> set items"
  using assms unfolding keeps_routes_def by blast+


section \<open>Start-up\<close>

lemma and_thens: "and_then r f = Inr y \<longleftrightarrow> (\<exists>x. r = Inr x \<and> f x = Inr y)"
  by (cases r) simp_all

lemma CreateGCECloud_keeps:
  assumes "CreateGCECloud lib projectID region zone managedZones networkURL nodeTags nodeInstancePrefix tokenSource meta = Inr gce"
  shows "gp_projectID gce = projectID \<and> (networkURL \<noteq> '''' \<longrightarrow> gp_networkURL gce = networkURL)"
  using assms unfolding CreateGCECloud_def and_thens by (auto split: if_splits)

text \<open>
  A network that is configured by its name, without a project, gets a URL with an empty project: the
  start-up has found the project of the instance out, and the provider works in it.
\<close>

theorem configured_network_loses_project:
  assumes "newGCECloud lib net (Some (Inr cfg)) c = Inr gce"
    and "gcf_NetworkName cfg \<noteq> ''''" and "\<not> Contains (gcf_NetworkName cfg) ''/''" and "gcf_ProjectID cfg = ''''"
  shows "gp_networkURL gce = gceNetworkURL '''' (gcf_NetworkName cfg) \<and>
    (\<exists>zone. getProjectAndZone net c = Inr (gp_projectID gce, zone))"
proof -
  from assms obtain projectID zone zones prefixed src where start: "getProjectAndZone net c = Inr (projectID, zone)"
    and create: "CreateGCECloud lib projectID (before_last (CHR ''-'') zone) zone zones (gceNetworkURL '''' (gcf_NetworkName cfg))
      (gcf_NodeTags cfg) prefixed src True = Inr gce"
    unfolding newGCECloud_def and_thens Let_def GetGCERegion_def by (auto simp: and_thens split: if_splits)
  then show ?thesis using CreateGCECloud_keeps [OF create] by (auto simp: gceNetworkURL_def)
qed

section \<open>Witnesses\<close>

text \<open>A client that finds nothing and changes nothing.\<close>

definition idle_net :: "'c gceNet" where
  "idle_net =
     \<lparr>gn_GetRegionOperation = (\<lambda>_ _ c. ((Some demo_op, None), c)),
      gn_GetForwardingRule = (\<lambda>_ _ c. Inl demo_404), gn_InsertForwardingRule = (\<lambda>_ _ c. (Inl demo_404, c)),
      gn_DeleteForwardingRule = (\<lambda>_ _ c. (Inl demo_404, c)), gn_GetTargetPool = (\<lambda>_ _ c. Inl demo_404),
      gn_InsertTargetPool = (\<lambda>_ _ c. (Inl demo_404, c)), gn_DeleteTargetPool = (\<lambda>_ _ c. (Inl demo_404, c)),
      gn_AddInstance = (\<lambda>_ _ _ c. (Inl demo_404, c)), gn_RemoveInstance = (\<lambda>_ _ _ c. (Inl demo_404, c)),
      gn_GetFirewall = (\<lambda>_ c. Inl demo_404), gn_InsertFirewall = (\<lambda>_ c. (Inl demo_404, c)),
      gn_UpdateFirewall = (\<lambda>_ _ c. (Inl demo_404, c)), gn_DeleteFirewall = (\<lambda>_ c. (Inl demo_404, c)),
      gn_ListAddresses = (\<lambda>_ _ c. Inr ([], '''')), gn_GetAddress = (\<lambda>_ _ c. Inl demo_404),
      gn_InsertAddress = (\<lambda>_ _ c. (Inl demo_404, c)), gn_DeleteAddress = (\<lambda>_ _ c. (Inl demo_404, c)),
      gn_GetHealthCheck = (\<lambda>_ c. Inl demo_404), gn_InsertHealthCheck = (\<lambda>_ c. (Inl demo_404, c)),
      gn_UpdateHealthCheck = (\<lambda>_ _ c. (Inl demo_404, c)), gn_DeleteHealthCheck = (\<lambda>_ c. (Inl demo_404, c)),
      gn_ListInstances = (\<lambda>_ _ _ c. Inr ([], '''')), gn_ListRoutes = (\<lambda>_ _ c. Inr ([], '''')),
      gn_InsertRoute = (\<lambda>_ c. (Inl demo_404, c)), gn_DeleteRoute = (\<lambda>_ c. (Inl demo_404, c)),
      gn_Metadata = (\<lambda>_ c. Inl demo_404), gn_ProjectID = (\<lambda>c. Inr ''p''), gn_ListClusters = (\<lambda>_ c. Inr []),
      gn_range = (\<lambda>A c. sorted_list_of_fset A)\<rparr>"

theorem instances_answer_names_witness:
  "\<exists>hosts. getInstancesByNames demo_net demo_gprovider [''node''] demo_empty = Inr hosts \<and> map gi_Name hosts = [''node'']"
  using instances_answer_names [OF demo_instances [of demo_empty]] demo_instances [of demo_empty]
  by (auto simp: canonicalizeInstanceName_def)

definition route_net :: "gceRoute list gceNet" where
  "route_net = idle_net\<lparr>gn_InsertRoute := (\<lambda>r rs. (Inr (Some demo_op), r # rs)), gn_ListRoutes := (\<lambda>_ _ rs. Inr (rs, ''''))\<rparr>"


definition demo_start :: gceStartLib where
  "demo_start = \<lparr>gs_DefaultTokenSource = None, gs_FirstToken = (\<lambda>_. None), gs_Clients = (\<lambda>_. None),
     gs_Networks = (\<lambda>_ _. Inr [''default'']), gs_Zones = (\<lambda>_ _. Inr [(''us-a'', ''regions/us'')])\<rparr>"

definition demo_gconfig :: gceConfig where
  "demo_gconfig = \<lparr>gcf_TokenURL = '''', gcf_TokenBody = '''', gcf_ProjectID = '''', gcf_NetworkName = ''prod'', gcf_NodeTags = [],
     gcf_NodeInstancePrefix = '''', gcf_Multizone = False\<rparr>"

definition meta_net :: "unit gceNet" where
  "meta_net = idle_net\<lparr>gn_Metadata := (\<lambda>_ _. Inr ''a/b/c/us-a'')\<rparr>"

theorem configured_network_loses_project_witness:
  "\<exists>gce. newGCECloud demo_start meta_net (Some (Inr demo_gconfig)) () = Inr gce \<and> gp_projectID gce = ''p'' \<and>
     gp_networkURL gce = ''https://www.googleapis.com/compute/v1/projects//global/networks/prod''"
proof -
  have parts: "split_on (CHR ''/'') ''a/b/c/us-a'' = [''a'', ''b'', ''c'', ''us-a'']" by code_simp
  have region: "GetGCERegion ''us-a'' = Inr ''us''" by code_simp
  have plain: "\<not> Contains (gcf_NetworkName demo_gconfig) ''/''" by code_simp
  have zone: "getProjectAndZone meta_net () = Inr (''p'', ''us-a'')"
    by (simp add: getProjectAndZone_def meta_net_def idle_net_def parts Let_def)
  have network: "getNetworkNameViaMetadata meta_net () = Inr ''us-a''"
    by (simp add: getNetworkNameViaMetadata_def meta_net_def idle_net_def parts Let_def)
  obtain gce where run: "newGCECloud demo_start meta_net (Some (Inr demo_gconfig)) () = Inr gce"
    by (simp add: HasPrefix_def gceNetworkURL_def newGCECloud_def zone network region Let_def demo_gconfig_def CreateGCECloud_def check_def demo_start_def)
  have "gcf_NetworkName demo_gconfig \<noteq> ''''" "gcf_ProjectID demo_gconfig = ''''" by (simp_all add: demo_gconfig_def)
  from configured_network_loses_project [OF run this(1) plain this(2)] show ?thesis
    using run zone by (simp add: gceNetworkURL_def demo_gconfig_def)
qed

end
