(* ===== verification/GceIngress.thy ===== *)
theory GceIngress
  imports GceNodes
begin

text \<open>
  The operations of the GCE provider for HTTP(S) ingress (\<open>gce.go\<close>): firewalls by host names, global
  addresses, URL maps, target proxies, certificates, global forwarding rules, backend services,
  instance groups, and the SSH keys of a project. The client has a service for each kind of resource,
  with the same five calls (\<open>gceCollection\<close>), and a few calls of its own for some.
\<close>

record ('c, 'r) gceCollection =
  col_Get :: "string \<Rightarrow> 'c \<Rightarrow> gceErr + 'r"
  col_List :: "'c \<Rightarrow> gceErr + 'r list"
  col_Insert :: "'r \<Rightarrow> 'c gceCall"
  col_Update :: "string \<Rightarrow> 'r \<Rightarrow> 'c gceCall"
  col_Delete :: "string \<Rightarrow> 'c gceCall"

record urlMap =
  um_Name :: string
  um_DefaultService :: string
  um_SelfLink :: string

record targetProxy =
  px_Name :: string
  px_UrlMap :: string
  px_SslCertificates :: "string list"

record sslCertificate =
  ce_Name :: string
  ce_Certificate :: string
  ce_SelfLink :: string

record backendService =
  bs_Name :: string
  bs_Backends :: "string list"
  bs_SelfLink :: string

type_synonym namedPort = "string \<times> int"

record instanceGroup =
  ig_Name :: string
  ig_Zone :: string
  ig_NamedPorts :: "namedPort list"

record 'c gceIngress =
  in_Addresses :: "('c, gceAddress) gceCollection"
  in_UrlMaps :: "('c, urlMap) gceCollection"
  in_HttpProxies :: "('c, targetProxy) gceCollection"
  in_HttpsProxies :: "('c, targetProxy) gceCollection"
  in_Certificates :: "('c, sslCertificate) gceCollection"
  in_Rules :: "('c, forwardingRule) gceCollection"
  in_Backends :: "('c, backendService) gceCollection"
  in_Checks :: "('c, healthCheck) gceCollection"
  in_Groups :: "string \<Rightarrow> ('c, instanceGroup) gceCollection"
  in_HttpSetUrlMap :: "string \<Rightarrow> string \<Rightarrow> 'c gceCall"
  in_HttpsSetUrlMap :: "string \<Rightarrow> string \<Rightarrow> 'c gceCall"
  in_HttpsSetCertificates :: "string \<Rightarrow> string list \<Rightarrow> 'c gceCall"
  in_SetTarget :: "string \<Rightarrow> string \<Rightarrow> 'c gceCall"
  in_GetHealth :: "string \<Rightarrow> string \<Rightarrow> 'c \<Rightarrow> gceErr + string list"
  in_ListInstances :: "string \<Rightarrow> string \<Rightarrow> string \<Rightarrow> 'c \<Rightarrow> gceErr + string list"
  in_AddInstances :: "string \<Rightarrow> string \<Rightarrow> string list \<Rightarrow> 'c gceCall"
  in_RemoveInstances :: "string \<Rightarrow> string \<Rightarrow> string list \<Rightarrow> 'c gceCall"
  in_SetNamedPorts :: "string \<Rightarrow> string \<Rightarrow> namedPort list \<Rightarrow> 'c gceCall"
  in_GetMetadata :: "'c \<Rightarrow> gceErr + (string \<times> string) list"
  in_SetMetadata :: "(string \<times> string) list \<Rightarrow> 'c gceCall"

text \<open>A creation and an update that answer with the resource as it is then.\<close>

definition createAndGet :: "'c gceAPI \<Rightarrow> ('c, 'r) gceCollection \<Rightarrow> string \<Rightarrow> 'r \<Rightarrow> ('c, 'r) gceStep" where
  "createAndGet api col name r = andThen (awaited (col_Insert col r) (waitForGlobalOp api)) (\<lambda>_. reading (col_Get col name))"

definition updateAndGet :: "'c gceAPI \<Rightarrow> ('c, 'r) gceCollection \<Rightarrow> string \<Rightarrow> 'r \<Rightarrow> ('c, 'r) gceStep" where
  "updateAndGet api col name r = andThen (awaited (col_Update col name r) (waitForGlobalOp api)) (\<lambda>_. reading (col_Get col name))"

definition deleteTolerant :: "'c gceAPI \<Rightarrow> ('c, 'r) gceCollection \<Rightarrow> string \<Rightarrow> ('c, unit) gceStep" where
  "deleteTolerant api col name = goneTolerant (col_Delete col name) (waitForGlobalOp api)"

section \<open>Firewalls\<close>

definition gce_GetFirewall :: "'c gceNet \<Rightarrow> string \<Rightarrow> 'c \<Rightarrow> gceErr + gceFirewall" where
  "gce_GetFirewall net name = gn_GetFirewall net name"

text \<open>The ports are converted to 32 bits.\<close>

definition tcpPorts :: "int list \<Rightarrow> ServicePort list" where
  "tcpPorts ports =
     map (\<lambda>p. \<lparr>sp_Name = '''', sp_Protocol = ''TCP'', sp_Port = signed_take_bit 31 p, sp_NodePort = 0\<rparr>) ports"

definition gce_CreateFirewall ::
  "'c gceAPI \<Rightarrow> 'c gceNet \<Rightarrow> gceKube \<Rightarrow> gceProvider \<Rightarrow> string \<Rightarrow> string \<Rightarrow> string fset \<Rightarrow> int list \<Rightarrow> string list \<Rightarrow> ('c, unit) gceStep" where
  "gce_CreateFirewall api net kube gce name desc sourceRanges ports hostNames =
     andThen (reading (\<lambda>_. GetGCERegion (gp_localZone gce))) (\<lambda>_.
     andThen (reading (getInstancesByNames net gce hostNames)) (\<lambda>hosts.
     createFirewall api net kube gce name desc sourceRanges (tcpPorts ports) hosts))"

definition gce_DeleteFirewall :: "'c gceAPI \<Rightarrow> 'c gceNet \<Rightarrow> gceProvider \<Rightarrow> string \<Rightarrow> ('c, unit) gceStep" where
  "gce_DeleteFirewall api net gce name =
     andThen (reading (\<lambda>_. GetGCERegion (gp_localZone gce))) (\<lambda>_. deleteFirewall api net name)"

definition gce_UpdateFirewall ::
  "'c gceAPI \<Rightarrow> 'c gceNet \<Rightarrow> gceKube \<Rightarrow> gceProvider \<Rightarrow> string \<Rightarrow> string \<Rightarrow> string fset \<Rightarrow> int list \<Rightarrow> string list \<Rightarrow> ('c, unit) gceStep" where
  "gce_UpdateFirewall api net kube gce name desc sourceRanges ports hostNames =
     andThen (reading (\<lambda>_. GetGCERegion (gp_localZone gce))) (\<lambda>_.
     andThen (reading (getInstancesByNames net gce hostNames)) (\<lambda>hosts.
     updateFirewall api net kube gce name desc sourceRanges (tcpPorts ports) hosts))"

section \<open>Rules and pools\<close>

definition gce_DeleteForwardingRule :: "'c gceAPI \<Rightarrow> 'c gceNet \<Rightarrow> gceProvider \<Rightarrow> string \<Rightarrow> ('c, unit) gceStep" where
  "gce_DeleteForwardingRule api net gce name =
     andThen (reading (\<lambda>_. GetGCERegion (gp_localZone gce))) (\<lambda>region. deleteForwardingRule api net name region)"

definition gce_DeleteTargetPool :: "'c gceAPI \<Rightarrow> 'c gceNet \<Rightarrow> gceProvider \<Rightarrow> string \<Rightarrow> healthCheck option \<Rightarrow> ('c, unit) gceStep" where
  "gce_DeleteTargetPool api net gce name hc =
     andThen (reading (\<lambda>_. GetGCERegion (gp_localZone gce))) (\<lambda>region. deleteTargetPool api net name region hc)"

definition gce_GetHTTPHealthCheck :: "'c gceNet \<Rightarrow> string \<Rightarrow> 'c \<Rightarrow> gceErr + healthCheck" where
  "gce_GetHTTPHealthCheck net name = gn_GetHealthCheck net name"

section \<open>Global addresses\<close>

definition ReserveGlobalStaticIP :: "'c gceAPI \<Rightarrow> 'c gceIngress \<Rightarrow> string \<Rightarrow> string \<Rightarrow> ('c, gceAddress) gceStep" where
  "ReserveGlobalStaticIP api ing name ipAddress =
     createAndGet api (in_Addresses ing) name \<lparr>ad_Name = name, ad_Description = '''', ad_Address = ipAddress\<rparr>"

definition DeleteGlobalStaticIP :: "'c gceAPI \<Rightarrow> 'c gceIngress \<Rightarrow> string \<Rightarrow> ('c, unit) gceStep" where
  "DeleteGlobalStaticIP api ing name = awaited (col_Delete (in_Addresses ing) name) (waitForGlobalOp api)"

definition GetGlobalStaticIP :: "'c gceIngress \<Rightarrow> string \<Rightarrow> 'c \<Rightarrow> gceErr + gceAddress" where
  "GetGlobalStaticIP ing name = col_Get (in_Addresses ing) name"

section \<open>URL maps\<close>

definition GetURLMap :: "'c gceIngress \<Rightarrow> string \<Rightarrow> 'c \<Rightarrow> gceErr + urlMap" where
  "GetURLMap ing name = col_Get (in_UrlMaps ing) name"

definition CreateURLMap :: "'c gceAPI \<Rightarrow> 'c gceIngress \<Rightarrow> backendService \<Rightarrow> string \<Rightarrow> ('c, urlMap) gceStep" where
  "CreateURLMap api ing backend name =
     createAndGet api (in_UrlMaps ing) name \<lparr>um_Name = name, um_DefaultService = bs_SelfLink backend, um_SelfLink = ''''\<rparr>"

definition UpdateURLMap :: "'c gceAPI \<Rightarrow> 'c gceIngress \<Rightarrow> urlMap \<Rightarrow> ('c, urlMap) gceStep" where
  "UpdateURLMap api ing m = updateAndGet api (in_UrlMaps ing) (um_Name m) m"

definition DeleteURLMap :: "'c gceAPI \<Rightarrow> 'c gceIngress \<Rightarrow> string \<Rightarrow> ('c, unit) gceStep" where
  "DeleteURLMap api ing name = deleteTolerant api (in_UrlMaps ing) name"

definition ListURLMaps :: "'c gceIngress \<Rightarrow> 'c \<Rightarrow> gceErr + urlMap list" where
  "ListURLMaps ing = col_List (in_UrlMaps ing)"

section \<open>Target proxies\<close>

definition GetTargetHTTPProxy :: "'c gceIngress \<Rightarrow> string \<Rightarrow> 'c \<Rightarrow> gceErr + targetProxy" where
  "GetTargetHTTPProxy ing name = col_Get (in_HttpProxies ing) name"

definition CreateTargetHTTPProxy :: "'c gceAPI \<Rightarrow> 'c gceIngress \<Rightarrow> urlMap \<Rightarrow> string \<Rightarrow> ('c, targetProxy) gceStep" where
  "CreateTargetHTTPProxy api ing m name =
     createAndGet api (in_HttpProxies ing) name \<lparr>px_Name = name, px_UrlMap = um_SelfLink m, px_SslCertificates = []\<rparr>"

definition SetURLMapForTargetHTTPProxy :: "'c gceAPI \<Rightarrow> 'c gceIngress \<Rightarrow> targetProxy \<Rightarrow> urlMap \<Rightarrow> ('c, unit) gceStep" where
  "SetURLMapForTargetHTTPProxy api ing proxy m = awaited (in_HttpSetUrlMap ing (px_Name proxy) (um_SelfLink m)) (waitForGlobalOp api)"

definition DeleteTargetHTTPProxy :: "'c gceAPI \<Rightarrow> 'c gceIngress \<Rightarrow> string \<Rightarrow> ('c, unit) gceStep" where
  "DeleteTargetHTTPProxy api ing name = deleteTolerant api (in_HttpProxies ing) name"

definition ListTargetHTTPProxies :: "'c gceIngress \<Rightarrow> 'c \<Rightarrow> gceErr + targetProxy list" where
  "ListTargetHTTPProxies ing = col_List (in_HttpProxies ing)"

definition GetTargetHTTPSProxy :: "'c gceIngress \<Rightarrow> string \<Rightarrow> 'c \<Rightarrow> gceErr + targetProxy" where
  "GetTargetHTTPSProxy ing name = col_Get (in_HttpsProxies ing) name"

definition CreateTargetHTTPSProxy :: "'c gceAPI \<Rightarrow> 'c gceIngress \<Rightarrow> urlMap \<Rightarrow> sslCertificate \<Rightarrow> string \<Rightarrow> ('c, targetProxy) gceStep" where
  "CreateTargetHTTPSProxy api ing m cert name =
     createAndGet api (in_HttpsProxies ing) name
       \<lparr>px_Name = name, px_UrlMap = um_SelfLink m, px_SslCertificates = [ce_SelfLink cert]\<rparr>"

definition SetURLMapForTargetHTTPSProxy :: "'c gceAPI \<Rightarrow> 'c gceIngress \<Rightarrow> targetProxy \<Rightarrow> urlMap \<Rightarrow> ('c, unit) gceStep" where
  "SetURLMapForTargetHTTPSProxy api ing proxy m = awaited (in_HttpsSetUrlMap ing (px_Name proxy) (um_SelfLink m)) (waitForGlobalOp api)"

definition SetSslCertificateForTargetHTTPSProxy :: "'c gceAPI \<Rightarrow> 'c gceIngress \<Rightarrow> targetProxy \<Rightarrow> sslCertificate \<Rightarrow> ('c, unit) gceStep" where
  "SetSslCertificateForTargetHTTPSProxy api ing proxy cert =
     awaited (in_HttpsSetCertificates ing (px_Name proxy) [ce_SelfLink cert]) (waitForGlobalOp api)"

definition DeleteTargetHTTPSProxy :: "'c gceAPI \<Rightarrow> 'c gceIngress \<Rightarrow> string \<Rightarrow> ('c, unit) gceStep" where
  "DeleteTargetHTTPSProxy api ing name = deleteTolerant api (in_HttpsProxies ing) name"

definition ListTargetHTTPSProxies :: "'c gceIngress \<Rightarrow> 'c \<Rightarrow> gceErr + targetProxy list" where
  "ListTargetHTTPSProxies ing = col_List (in_HttpsProxies ing)"

section \<open>Certificates\<close>

definition GetSslCertificate :: "'c gceIngress \<Rightarrow> string \<Rightarrow> 'c \<Rightarrow> gceErr + sslCertificate" where
  "GetSslCertificate ing name = col_Get (in_Certificates ing) name"

definition CreateSslCertificate :: "'c gceAPI \<Rightarrow> 'c gceIngress \<Rightarrow> sslCertificate \<Rightarrow> ('c, sslCertificate) gceStep" where
  "CreateSslCertificate api ing cert = createAndGet api (in_Certificates ing) (ce_Name cert) cert"

definition DeleteSslCertificate :: "'c gceAPI \<Rightarrow> 'c gceIngress \<Rightarrow> string \<Rightarrow> ('c, unit) gceStep" where
  "DeleteSslCertificate api ing name = deleteTolerant api (in_Certificates ing) name"

definition ListSslCertificates :: "'c gceIngress \<Rightarrow> 'c \<Rightarrow> gceErr + sslCertificate list" where
  "ListSslCertificates ing = col_List (in_Certificates ing)"

section \<open>Global forwarding rules\<close>

definition CreateGlobalForwardingRule ::
  "'c gceAPI \<Rightarrow> 'c gceIngress \<Rightarrow> string \<Rightarrow> string \<Rightarrow> string \<Rightarrow> string \<Rightarrow> ('c, forwardingRule) gceStep" where
  "CreateGlobalForwardingRule api ing targetProxyLink ip name portRange =
     createAndGet api (in_Rules ing) name
       \<lparr>fr_Name = name, fr_Description = '''', fr_IPAddress = ip, fr_IPProtocol = ''TCP'', fr_PortRange = portRange,
        fr_Target = targetProxyLink\<rparr>"

definition SetProxyForGlobalForwardingRule :: "'c gceAPI \<Rightarrow> 'c gceIngress \<Rightarrow> forwardingRule \<Rightarrow> string \<Rightarrow> ('c, unit) gceStep" where
  "SetProxyForGlobalForwardingRule api ing fw targetProxyLink =
     awaited (in_SetTarget ing (fr_Name fw) targetProxyLink) (waitForGlobalOp api)"

definition DeleteGlobalForwardingRule :: "'c gceAPI \<Rightarrow> 'c gceIngress \<Rightarrow> string \<Rightarrow> ('c, unit) gceStep" where
  "DeleteGlobalForwardingRule api ing name = deleteTolerant api (in_Rules ing) name"

definition GetGlobalForwardingRule :: "'c gceIngress \<Rightarrow> string \<Rightarrow> 'c \<Rightarrow> gceErr + forwardingRule" where
  "GetGlobalForwardingRule ing name = col_Get (in_Rules ing) name"

definition ListGlobalForwardingRules :: "'c gceIngress \<Rightarrow> 'c \<Rightarrow> gceErr + forwardingRule list" where
  "ListGlobalForwardingRules ing = col_List (in_Rules ing)"

section \<open>Backend services\<close>

definition GetBackendService :: "'c gceIngress \<Rightarrow> string \<Rightarrow> 'c \<Rightarrow> gceErr + backendService" where
  "GetBackendService ing name = col_Get (in_Backends ing) name"

definition UpdateBackendService :: "'c gceAPI \<Rightarrow> 'c gceIngress \<Rightarrow> backendService \<Rightarrow> ('c, unit) gceStep" where
  "UpdateBackendService api ing bg = awaited (col_Update (in_Backends ing) (bs_Name bg) bg) (waitForGlobalOp api)"

definition DeleteBackendService :: "'c gceAPI \<Rightarrow> 'c gceIngress \<Rightarrow> string \<Rightarrow> ('c, unit) gceStep" where
  "DeleteBackendService api ing name = deleteTolerant api (in_Backends ing) name"

definition CreateBackendService :: "'c gceAPI \<Rightarrow> 'c gceIngress \<Rightarrow> backendService \<Rightarrow> ('c, unit) gceStep" where
  "CreateBackendService api ing bg = awaited (col_Insert (in_Backends ing) bg) (waitForGlobalOp api)"

definition ListBackendServices :: "'c gceIngress \<Rightarrow> 'c \<Rightarrow> gceErr + backendService list" where
  "ListBackendServices ing = col_List (in_Backends ing)"

definition GetHealth :: "'c gceIngress \<Rightarrow> string \<Rightarrow> string \<Rightarrow> 'c \<Rightarrow> gceErr + string list" where
  "GetHealth ing name instanceGroupLink = in_GetHealth ing name instanceGroupLink"

definition ListHTTPHealthChecks :: "'c gceIngress \<Rightarrow> 'c \<Rightarrow> gceErr + healthCheck list" where
  "ListHTTPHealthChecks ing = col_List (in_Checks ing)"

section \<open>Instance groups\<close>

definition waitInZone :: "'c gceAPI \<Rightarrow> string \<Rightarrow> 'c opWait" where
  "waitInZone api zone op = waitForZoneOp api op zone"

definition GetInstanceGroup :: "'c gceIngress \<Rightarrow> string \<Rightarrow> string \<Rightarrow> 'c \<Rightarrow> gceErr + instanceGroup" where
  "GetInstanceGroup ing name zone = col_Get (in_Groups ing zone) name"

definition CreateInstanceGroup :: "'c gceAPI \<Rightarrow> 'c gceIngress \<Rightarrow> string \<Rightarrow> string \<Rightarrow> ('c, instanceGroup) gceStep" where
  "CreateInstanceGroup api ing name zone =
     andThen (awaited (col_Insert (in_Groups ing zone) \<lparr>ig_Name = name, ig_Zone = '''', ig_NamedPorts = []\<rparr>) (waitInZone api zone)) (\<lambda>_.
     reading (GetInstanceGroup ing name zone))"

definition DeleteInstanceGroup :: "'c gceAPI \<Rightarrow> 'c gceIngress \<Rightarrow> string \<Rightarrow> string \<Rightarrow> ('c, unit) gceStep" where
  "DeleteInstanceGroup api ing name zone = awaited (col_Delete (in_Groups ing zone) name) (waitInZone api zone)"

definition ListInstanceGroups :: "'c gceIngress \<Rightarrow> string \<Rightarrow> 'c \<Rightarrow> gceErr + instanceGroup list" where
  "ListInstanceGroups ing zone = col_List (in_Groups ing zone)"

definition ListInstancesInInstanceGroup :: "'c gceIngress \<Rightarrow> string \<Rightarrow> string \<Rightarrow> string \<Rightarrow> 'c \<Rightarrow> gceErr + string list" where
  "ListInstancesInInstanceGroup ing name zone st = in_ListInstances ing zone name st"

definition AddInstancesToInstanceGroup ::
  "'c gceAPI \<Rightarrow> 'c gceIngress \<Rightarrow> gceProvider \<Rightarrow> string \<Rightarrow> string \<Rightarrow> string list \<Rightarrow> ('c, unit) gceStep" where
  "AddInstancesToInstanceGroup api ing gce name zone instanceNames =
     (if length instanceNames = 0 then give ()
      else awaited (in_AddInstances ing zone name (map (makeHostURL (gp_projectID gce) zone) instanceNames)) (waitInZone api zone))"

definition RemoveInstancesFromInstanceGroup ::
  "'c gceAPI \<Rightarrow> 'c gceIngress \<Rightarrow> gceProvider \<Rightarrow> string \<Rightarrow> string \<Rightarrow> string list \<Rightarrow> ('c, unit) gceStep" where
  "RemoveInstancesFromInstanceGroup api ing gce name zone instanceNames =
     (if length instanceNames = 0 then give ()
      else goneTolerant (in_RemoveInstances ing zone name (map (makeHostURL (gp_projectID gce) zone) instanceNames)) (waitInZone api zone))"

text \<open>The port that the group has, or the new one; the zone of a group is a URL.\<close>

definition AddPortToInstanceGroup :: "'c gceAPI \<Rightarrow> 'c gceIngress \<Rightarrow> instanceGroup \<Rightarrow> int \<Rightarrow> ('c, namedPort) gceStep" where
  "AddPortToInstanceGroup api ing ig port =
     (case find (\<lambda>np. snd np = port) (ig_NamedPorts ig) of
        Some np \<Rightarrow> give np
      | None \<Rightarrow>
          let np = (''port'' @ FormatInt port, port); zone = lastComponent (ig_Zone ig) in
          andThen (awaited (in_SetNamedPorts ing zone (ig_Name ig) (ig_NamedPorts ig @ [np])) (waitInZone api zone)) (\<lambda>_. give np))"

section \<open>SSH keys\<close>

text \<open>
  The key is appended to the first item of the project's metadata that has the name, unless the item
  contains it already; without such an item one is made.
\<close>

fun withKey :: "string \<Rightarrow> (string \<times> string) list \<Rightarrow> (string \<times> string) list option" where
  "withKey keyString [] = Some [(''sshKeys'', keyString)]"
| "withKey keyString ((k, v) # items) =
     (if k = ''sshKeys'' then
        if Contains v keyString then None else Some ((k, v @ CHR 10 # keyString) # items)
      else map_option (\<lambda>rest. (k, v) # rest) (withKey keyString items))"

definition sshKeyString :: "string \<Rightarrow> string \<Rightarrow> string" where
  "sshKeyString user keyData = user @ '':'' @ TrimSpace keyData @ '' '' @ user @ ''@'' @ user"

text \<open>One attempt: the work is done, or it is to be tried again.\<close>

definition addKeyOnce :: "'c gceAPI \<Rightarrow> 'c gceIngress \<Rightarrow> string \<Rightarrow> 'c \<Rightarrow> (bool \<times> gceErr option) \<times> 'c" where
  "addKeyOnce api ing keyString c =
     (case in_GetMetadata ing c of
        Inl _ \<Rightarrow> ((False, None), c)
      | Inr items \<Rightarrow>
          (case withKey keyString items of
             None \<Rightarrow> ((True, None), c)
           | Some items \<Rightarrow>
               (case awaited (in_SetMetadata ing items) (waitForGlobalOp api) c of
                  (Returned _, c) \<Rightarrow> ((True, None), c)
                | (_, c) \<Rightarrow> ((False, None), c))))"

definition AddSSHKeyToAllInstances :: "'c gceAPI \<Rightarrow> 'c gceIngress \<Rightarrow> string \<Rightarrow> string \<Rightarrow> 'c \<Rightarrow> gceErr option \<times> 'c" where
  "AddSSHKeyToAllInstances api ing user keyData c = ga_Poll api (addKeyOnce api ing (sshKeyString user keyData)) c"

section \<open>What the operations on metadata and ports keep\<close>

lemma Contains_appended: "Contains (v @ x # k) k"
  unfolding Contains_iff by (metis append.assoc append_Cons append_Nil append_Nil2)

text \<open>
  An attempt that changes the metadata adds the key and keeps every item, with its value as a prefix
  of the new one; the next attempt finds the key and changes nothing.
\<close>

theorem ssh_key_is_added_once:
  assumes "withKey keyString items = Some items'"
  shows "(\<exists>v. (''sshKeys'', v) \<in> set items' \<and> Contains v keyString) \<and>
    (\<forall>(k, v) \<in> set items. \<exists>v'. (k, v') \<in> set items' \<and> HasPrefix v' v) \<and>
    withKey keyString items' = None"
  using assms
proof (induction keyString items arbitrary: items' rule: withKey.induct)
  case (1 keyString)
  have "Contains keyString keyString" unfolding Contains_iff by (metis append_Nil append_Nil2)
  then show ?case using 1 by auto
next
  case (2 keyString k v items)
  show ?case
  proof (cases "k = ''sshKeys''")
    case True
    then have "items' = (k, v @ CHR 10 # keyString) # items" using 2(2) by (simp split: if_splits)
    moreover have "HasPrefix (v @ CHR 10 # keyString) v" "\<And>x. HasPrefix x x" by (simp_all add: HasPrefix_def)
    ultimately show ?thesis using Contains_appended [of v "CHR 10" keyString] True by auto
  next
    case False
    then obtain rest where rest: "withKey keyString items = Some rest" "items' = (k, v) # rest" using 2(2) by auto
    have "HasPrefix v v" by (simp add: HasPrefix_def)
    then show ?thesis using 2(1) [OF False rest(1)] rest(2) False by auto
  qed
qed

theorem ssh_key_is_added_once_witness:
  "withKey ''bob:key bob@bob'' [(''a'', ''b''), (''sshKeys'', ''ann:key ann@ann'')] =
     Some [(''a'', ''b''), (''sshKeys'', ''ann:key ann@ann'' @ CHR 10 # ''bob:key bob@bob'')] \<and>
   withKey ''bob:key bob@bob'' [(''a'', ''b''), (''sshKeys'', ''ann:key ann@ann'' @ CHR 10 # ''bob:key bob@bob'')] = None"
proof -
  have "\<not> Contains ''ann:key ann@ann'' ''bob:key bob@bob''" by code_simp
  then have "withKey ''bob:key bob@bob'' [(''a'', ''b''), (''sshKeys'', ''ann:key ann@ann'')] =
     Some [(''a'', ''b''), (''sshKeys'', ''ann:key ann@ann'' @ CHR 10 # ''bob:key bob@bob'')]" by (simp del: append.simps Contains.simps)
  then show ?thesis using ssh_key_is_added_once by blast
qed

text \<open>
  A port that a group has is answered without a call; a new one is set beside all the ports that the
  group has, and only when the operation has ended well is it answered.
\<close>

theorem port_is_added_beside_the_others:
  assumes "AddPortToInstanceGroup api ing ig port c = (Returned np, c')"
  shows "snd np = port \<and>
    (if port \<in> snd ` set (ig_NamedPorts ig) then np \<in> set (ig_NamedPorts ig) \<and> c' = c
     else \<exists>op c1. in_SetNamedPorts ing (lastComponent (ig_Zone ig)) (ig_Name ig) (ig_NamedPorts ig @ [np]) c = (Inr op, c1) \<and>
       waitForZoneOp api op (lastComponent (ig_Zone ig)) c1 = (None, c'))"
proof (cases "find (\<lambda>np. snd np = port) (ig_NamedPorts ig)")
  case None
  then have "port \<notin> snd ` set (ig_NamedPorts ig)" by (auto simp: find_None_iff)
  then show ?thesis using assms None
    by (auto simp: AddPortToInstanceGroup_def Let_def awaited_def changing_Returned waitInZone_def)
next
  case (Some x)
  then have "x \<in> set (ig_NamedPorts ig) \<and> snd x = port" by (auto simp: find_Some_iff)
  then show ?thesis using assms Some by (auto simp: AddPortToInstanceGroup_def)
qed

definition idle_col :: "('c, 'r) gceCollection" where
  "idle_col = \<lparr>col_Get = (\<lambda>_ _. Inl demo_404), col_List = (\<lambda>_. Inr []), col_Insert = (\<lambda>_ c. (Inl demo_404, c)),
     col_Update = (\<lambda>_ _ c. (Inl demo_404, c)), col_Delete = (\<lambda>_ c. (Inl demo_404, c))\<rparr>"

text \<open>A service whose state is the named ports of one instance group.\<close>

definition demo_ingress :: "namedPort list gceIngress" where
  "demo_ingress =
     \<lparr>in_Addresses = idle_col, in_UrlMaps = idle_col, in_HttpProxies = idle_col, in_HttpsProxies = idle_col,
      in_Certificates = idle_col, in_Rules = idle_col, in_Backends = idle_col, in_Checks = idle_col, in_Groups = (\<lambda>_. idle_col),
      in_HttpSetUrlMap = (\<lambda>_ _ c. (Inl demo_404, c)), in_HttpsSetUrlMap = (\<lambda>_ _ c. (Inl demo_404, c)),
      in_HttpsSetCertificates = (\<lambda>_ _ c. (Inl demo_404, c)), in_SetTarget = (\<lambda>_ _ c. (Inl demo_404, c)),
      in_GetHealth = (\<lambda>_ _ _. Inr []), in_ListInstances = (\<lambda>_ _ _ _. Inr []),
      in_AddInstances = (\<lambda>_ _ _ c. (Inl demo_404, c)), in_RemoveInstances = (\<lambda>_ _ _ c. (Inl demo_404, c)),
      in_SetNamedPorts = (\<lambda>_ _ ports c. (Inr (Some demo_op), ports)),
      in_GetMetadata = (\<lambda>_. Inr []), in_SetMetadata = (\<lambda>_ c. (Inl demo_404, c))\<rparr>"

theorem port_is_added_beside_the_others_witness:
  "\<exists>np ports. AddPortToInstanceGroup demo_gce demo_ingress \<lparr>ig_Name = ''g'', ig_Zone = ''zones/z'', ig_NamedPorts = [(''http'', 80)]\<rparr> 443 [] =
     (Returned np, ports) \<and> snd np = 443 \<and> ports = [(''http'', 80), np]"
proof -
  let ?ig = "\<lparr>ig_Name = ''g'', ig_Zone = ''zones/z'', ig_NamedPorts = [(''http'', 80)]\<rparr>"
  have finished: "waitForZoneOp demo_gce (Some demo_op) z (c :: namedPort list) = (None, c)" for z c
    by (simp add: waitForZoneOp_def waitForOp_def demo_op_def opIsDone_def getErrorFromOp_def)
  obtain np ports where run: "AddPortToInstanceGroup demo_gce demo_ingress ?ig 443 [] = (Returned np, ports)"
    by (simp add: AddPortToInstanceGroup_def awaited_def changing_def demo_ingress_def Let_def waitInZone_def finished
        request_call_def andThen_def give_def)
  from port_is_added_beside_the_others [OF this] show ?thesis
    using run by (auto simp: demo_ingress_def finished)
qed

end
