(* ===== verification/NfsExport.thy ===== *)
theory NfsExport
  imports K8sTypes GoPath
begin

text \<open>
  \<open>nfs/pkg/volume/util.go\<close> and \<open>nfs/pkg/volume/export.go\<close>: the identifiers of exports and quota
  projects, the configuration files the provisioner edits, and the two exporters. The operating
  system is a record of functions on a state \<open>'o\<close>; a call that fails may still have changed that
  state. A search that never ends, and \<open>glog.Fatalf\<close>, are \<open>None\<close>.
\<close>

record MountInfo =
  mi_Mountpoint :: string
  mi_Fstype :: string
  mi_VfsOpts :: string

record Service =
  svc_ClusterIP :: string

record EndpointSubset =
  sub_Addresses :: "string list"
  sub_Ports :: "(int \<times> string) list"

record 'o nfsOS =
  os_NotExist :: "string \<Rightarrow> 'o \<Rightarrow> bool"
  os_ReadFile :: "string \<Rightarrow> 'o \<Rightarrow> string result"
  os_OpenAppend :: "string \<Rightarrow> 'o \<Rightarrow> error option \<times> 'o"
  os_WriteString :: "string \<Rightarrow> string \<Rightarrow> 'o \<Rightarrow> error option \<times> 'o"
  os_WriteFile :: "string \<Rightarrow> string \<Rightarrow> 'o \<Rightarrow> error option \<times> 'o"
  os_CreateFile :: "string \<Rightarrow> 'o \<Rightarrow> error option \<times> 'o"
  os_MkdirAll :: "string \<Rightarrow> nat \<Rightarrow> 'o \<Rightarrow> error option \<times> 'o"
  os_Chmod :: "string \<Rightarrow> nat \<Rightarrow> 'o \<Rightarrow> error option \<times> 'o"
  os_RemoveAll :: "string \<Rightarrow> 'o \<Rightarrow> error option \<times> 'o"
  os_exec :: "string list \<Rightarrow> 'o \<Rightarrow> (string \<times> error option) \<times> 'o"
  os_LookPath :: "string \<Rightarrow> 'o \<Rightarrow> error option"
  os_GetMounts :: "'o \<Rightarrow> MountInfo list result"
  os_Statfs :: "string \<Rightarrow> 'o \<Rightarrow> (64 word \<times> 64 word) result"
  os_Getenv :: "string \<Rightarrow> 'o \<Rightarrow> string"
  os_SystemBus :: "'o \<Rightarrow> error option \<times> 'o"
  os_DbusCall :: "string \<Rightarrow> string list \<Rightarrow> 'o \<Rightarrow> error option \<times> 'o"
  os_GetService :: "string \<Rightarrow> string \<Rightarrow> 'o \<Rightarrow> Service result \<times> 'o"
  os_GetEndpoints :: "string \<Rightarrow> string \<Rightarrow> 'o \<Rightarrow> EndpointSubset list \<times> 'o"
  os_NewUUID :: "'o \<Rightarrow> string \<times> 'o"

section \<open>Identifiers\<close>

type_synonym idmap = "(16 word, bool) fmap"

text \<open>
  The loop's test \<open>id <= math.MaxUint16\<close> holds for every \<open>uint16\<close>, so the search wraps round from
  65535 to 0 and only ends at a free identifier.
\<close>

partial_function (option) firstFreeID :: "idmap \<Rightarrow> 16 word \<Rightarrow> 16 word option" where
  "firstFreeID ids i = (if fmlookup ids i = None then Some i else firstFreeID ids (i + 1))"

definition generateID :: "idmap \<Rightarrow> (16 word \<times> idmap) option" where
  "generateID ids = map_option (\<lambda>i. (i, fmupd i True ids)) (firstFreeID ids 1)"

definition deleteID :: "idmap \<Rightarrow> 16 word \<Rightarrow> idmap" where
  "deleteID ids i = fmdrop i ids"

text \<open>
  The regular expressions the provisioner searches its files with: \<open>LiteralRe\<close> is a literal,
  the digits submatch and a literal (which does not start with a digit); \<open>ProjectRe\<close> is
  \<open>(?m:^([0-9]+):/.+$)\<close>. \<open>FindAllDigits\<close> lists the digits of the leftmost, non-overlapping
  matches.
\<close>

datatype idRegexp = LiteralRe string string | ProjectRe

fun re_String :: "idRegexp \<Rightarrow> string" where
  "re_String (LiteralRe pre suf) = pre @ ''([0-9]+)'' @ suf"
| "re_String ProjectRe = ''(?m:^([0-9]+):/.+$)''"

definition is_digit :: "char \<Rightarrow> bool" where
  "is_digit c \<longleftrightarrow> 48 \<le> (of_char c :: nat) \<and> (of_char c :: nat) \<le> 57"

definition matchLiteral :: "string \<Rightarrow> string \<Rightarrow> string \<Rightarrow> (string \<times> string) option" where
  "matchLiteral pre suf s =
     (if HasPrefix s pre then
        let r = drop (length pre) s; digits = takeWhile is_digit r; r = dropWhile is_digit r
        in if digits \<noteq> [] \<and> HasPrefix r suf then Some (digits, drop (length suf) r) else None
      else None)"

lemma matchLiteral_shorter: "matchLiteral pre suf s = Some (d, r) \<Longrightarrow> length r < length s"
proof -
  assume m: "matchLiteral pre suf s = Some (d, r)"
  let ?t = "drop (length pre) s"
  have "takeWhile is_digit ?t \<noteq> []" and r: "r = drop (length suf) (dropWhile is_digit ?t)"
    using m by (auto simp: matchLiteral_def Let_def split: if_splits)
  then have "length (dropWhile is_digit ?t) < length ?t"
    by (metis length_append length_greater_0_conv less_add_same_cancel2 takeWhile_dropWhile_id)
  with r show ?thesis by simp
qed

function findLiteral :: "string \<Rightarrow> string \<Rightarrow> string \<Rightarrow> string list" where
  "findLiteral pre suf s =
     (case matchLiteral pre suf s of
        Some (digits, r) \<Rightarrow> digits # findLiteral pre suf r
      | None \<Rightarrow> (case s of [] \<Rightarrow> [] | c # s' \<Rightarrow> findLiteral pre suf s'))"
  by pat_completeness auto
termination
  by (relation "measure (\<lambda>(pre, suf, s). length s)") (auto dest: matchLiteral_shorter)

declare findLiteral.simps [simp del]

definition matchProjectLine :: "string \<Rightarrow> string option" where
  "matchProjectLine line =
     (let digits = takeWhile is_digit line; r = dropWhile is_digit line
      in if digits \<noteq> [] \<and> HasPrefix r '':/'' \<and> length r > 2 then Some digits else None)"

fun FindAllDigits :: "idRegexp \<Rightarrow> string \<Rightarrow> string list" where
  "FindAllDigits (LiteralRe pre suf) s = findLiteral pre suf s"
| "FindAllDigits ProjectRe s = List.map_filter matchProjectLine (split_on (CHR 0x0A) s)"

definition addFoundID :: "string \<Rightarrow> idmap \<Rightarrow> idmap" where
  "addFoundID digits ids =
     (case ParseUint 16 digits of (i, None) \<Rightarrow> fmupd (word_of_nat i) True ids | _ \<Rightarrow> ids)"

definition getExistingIDs :: "'o nfsOS \<Rightarrow> string \<Rightarrow> idRegexp \<Rightarrow> 'o \<Rightarrow> idmap \<times> error option" where
  "getExistingIDs os config re st =
     (if \<not> Contains (re_String re) ''([0-9]+)'' then
        (fmempty, Some (Errorf ''regexp %s doesn't contain digits submatch %s'' [re_String re, ''([0-9]+)'']))
      else
        (case os_ReadFile os config st of
           Inl err \<Rightarrow> (fmempty, Some err)
         | Inr read \<Rightarrow> (fold addFoundID (FindAllDigits re read) fmempty, None)))"

section \<open>The configuration files\<close>

definition addToFile :: "'o nfsOS \<Rightarrow> string \<Rightarrow> string \<Rightarrow> 'o \<Rightarrow> error option \<times> 'o" where
  "addToFile os path toAdd st =
     (case os_OpenAppend os path st of
        (Some err, st) \<Rightarrow> (Some err, st)
      | (None, st) \<Rightarrow> os_WriteString os path toAdd st)"

definition removeFromFile :: "'o nfsOS \<Rightarrow> string \<Rightarrow> string \<Rightarrow> 'o \<Rightarrow> error option \<times> 'o" where
  "removeFromFile os path toRemove st =
     (case os_ReadFile os path st of
        Inl err \<Rightarrow> (Some err, st)
      | Inr read \<Rightarrow> os_WriteFile os path (remove_all toRemove read) st)"

section \<open>The exporters\<close>

text \<open>
  An exporter is a generic exporter with the block creator of its kind. The two kinds differ in
  the block they write and in how they export.
\<close>

datatype exporterKind = Ganesha | Kernel

record genericExporter =
  ex_kind :: exporterKind
  ex_exportIDs :: idmap
  ex_config :: string

definition CanExport :: "int \<Rightarrow> genericExporter \<Rightarrow> bool" where
  "CanExport limit e \<longleftrightarrow> (if limit < 0 then True else int (fcard (fmdom (ex_exportIDs e))) < limit)"

definition newGenericExporter ::
  "'o nfsOS \<Rightarrow> exporterKind \<Rightarrow> string \<Rightarrow> idRegexp \<Rightarrow> 'o \<Rightarrow> genericExporter option" where
  "newGenericExporter os kind config re st =
     (if os_NotExist os config st then None
      else
        let (exportIDs, err) = getExistingIDs os config re st
        in Some \<lparr>ex_kind = kind, ex_exportIDs = exportIDs, ex_config = config\<rparr>)"

definition newGaneshaExporter :: "'o nfsOS \<Rightarrow> string \<Rightarrow> 'o \<Rightarrow> genericExporter option" where
  "newGaneshaExporter os ganeshaConfig st =
     newGenericExporter os Ganesha ganeshaConfig (LiteralRe ''Export_Id = '' '';'') st"

definition newKernelExporter :: "'o nfsOS \<Rightarrow> 'o \<Rightarrow> genericExporter option" where
  "newKernelExporter os st = newGenericExporter os Kernel ''/etc/exports'' (LiteralRe ''fsid='' '''') st"

abbreviation nl :: string where
  "nl \<equiv> [CHR 0x0A]"

abbreviation tab :: string where
  "tab \<equiv> [CHR 0x09]"

definition ganeshaExportBlock :: "string \<Rightarrow> string \<Rightarrow> bool \<Rightarrow> string \<Rightarrow> string" where
  "ganeshaExportBlock exportID path rootSquash exportSubnet =
     (let squash = (if rootSquash then ''root_id_squash'' else ''no_root_squash'')
      in nl @ ''EXPORT'' @ nl @ ''{'' @ nl @
         tab @ ''Export_Id = '' @ exportID @ '';'' @ nl @
         tab @ ''Path = '' @ path @ '';'' @ nl @
         tab @ ''Pseudo = '' @ path @ '';'' @ nl @
         tab @ ''Access_Type = RW;'' @ nl @
         tab @ ''Squash = '' @ squash @ '';'' @ nl @
         tab @ ''SecType = sys;'' @ nl @
         tab @ ''Filesystem_id = '' @ exportID @ ''.'' @ exportID @ '';'' @ nl @
         tab @ ''FSAL {'' @ nl @ tab @ tab @ ''Name = VFS;'' @ nl @ tab @ ''}'' @ nl @ ''}'' @ nl)"

definition kernelExportBlock :: "string \<Rightarrow> string \<Rightarrow> bool \<Rightarrow> string \<Rightarrow> string" where
  "kernelExportBlock exportID path rootSquash exportSubnet =
     (let squash = (if rootSquash then ''root_squash'' else ''no_root_squash'')
      in nl @ path @ '' '' @ exportSubnet @ ''(rw,insecure,'' @ squash @ '',fsid='' @ exportID @ '')'' @ nl)"

fun CreateExportBlock :: "exporterKind \<Rightarrow> string \<Rightarrow> string \<Rightarrow> bool \<Rightarrow> string \<Rightarrow> string" where
  "CreateExportBlock Ganesha exportID path rootSquash exportSubnet =
     ganeshaExportBlock exportID path rootSquash exportSubnet"
| "CreateExportBlock Kernel exportID path rootSquash exportSubnet =
     kernelExportBlock exportID path rootSquash exportSubnet"

definition AddExportBlock ::
  "'o nfsOS \<Rightarrow> string \<Rightarrow> bool \<Rightarrow> string \<Rightarrow> genericExporter \<times> 'o \<Rightarrow>
     ((string \<times> 16 word) result \<times> genericExporter \<times> 'o) option" where
  "AddExportBlock os path rootSquash exportSubnet = (\<lambda>(e, st).
     case generateID (ex_exportIDs e) of
       None \<Rightarrow> None
     | Some (exportID, ids) \<Rightarrow>
         let exportIDStr = FormatUint (unat exportID);
             block = CreateExportBlock (ex_kind e) exportIDStr path rootSquash exportSubnet
         in (case addToFile os (ex_config e) block st of
               (Some err, st) \<Rightarrow>
                 Some (Inl (Wrapf ''error adding export block %s to config %s: %v'' [block, ex_config e] err),
                       e\<lparr>ex_exportIDs := deleteID ids exportID\<rparr>, st)
             | (None, st) \<Rightarrow> Some (Inr (block, exportID), e\<lparr>ex_exportIDs := ids\<rparr>, st)))"

definition RemoveExportBlock ::
  "'o nfsOS \<Rightarrow> string \<Rightarrow> 16 word \<Rightarrow> genericExporter \<times> 'o \<Rightarrow> error option \<times> genericExporter \<times> 'o" where
  "RemoveExportBlock os block exportID = (\<lambda>(e, st).
     let e = e\<lparr>ex_exportIDs := deleteID (ex_exportIDs e) exportID\<rparr>;
         (err, st) = removeFromFile os (ex_config e) block st
     in (err, e, st))"

definition exportfs :: "'o nfsOS \<Rightarrow> 'o \<Rightarrow> error option \<times> 'o" where
  "exportfs os st =
     (case os_exec os [''exportfs'', ''-r''] st of
        ((out, Some err), st) \<Rightarrow> (Some (Wrapf ''exportfs -r failed with error: %v, output: %s'' [out] err), st)
      | ((out, None), st) \<Rightarrow> (None, st))"

definition exporter_Export :: "'o nfsOS \<Rightarrow> string \<Rightarrow> genericExporter \<Rightarrow> 'o \<Rightarrow> error option \<times> 'o" where
  "exporter_Export os path e st =
     (case ex_kind e of
        Kernel \<Rightarrow> exportfs os st
      | Ganesha \<Rightarrow>
          (case os_SystemBus os st of
             (Some err, st) \<Rightarrow> (Some (Wrapf ''error getting dbus session bus: %v'' [] err), st)
           | (None, st) \<Rightarrow>
               (case os_DbusCall os ''org.ganesha.nfsd.exportmgr.AddExport''
                       [ex_config e, ''export(path = '' @ path @ '')''] st of
                  (Some err, st) \<Rightarrow>
                    (Some (Wrapf ''error calling org.ganesha.nfsd.exportmgr.AddExport: %v'' [] err), st)
                | (None, st) \<Rightarrow> (None, st))))"

definition exporter_Unexport :: "'o nfsOS \<Rightarrow> PersistentVolume \<Rightarrow> genericExporter \<Rightarrow> 'o \<Rightarrow> error option \<times> 'o"
where
  "exporter_Unexport os volume e st =
     (case ex_kind e of
        Kernel \<Rightarrow> exportfs os st
      | Ganesha \<Rightarrow>
          (case fmlookup (pv_Annotations volume) ''Export_Id'' of
             None \<Rightarrow>
               (Some (Errorf ''PV doesn't have an annotation %s, can't remove the export from the server''
                        [''Export_Id'']), st)
           | Some ann \<Rightarrow>
               let exportID = fst (ParseUint 16 ann)
               in (case os_SystemBus os st of
                     (Some err, st) \<Rightarrow> (Some (Wrapf ''error getting dbus session bus: %v'' [] err), st)
                   | (None, st) \<Rightarrow>
                       (case os_DbusCall os ''org.ganesha.nfsd.exportmgr.RemoveExport'' [FormatUint exportID] st of
                          (Some err, st) \<Rightarrow>
                            (Some (Wrapf ''error calling org.ganesha.nfsd.exportmgr.RemoveExport: %v'' [] err), st)
                        | (None, st) \<Rightarrow> (None, st)))))"

section \<open>The search for a free identifier\<close>

lemma unat_diff_Suc:
  fixes i j :: "16 word"
  assumes "j \<noteq> i"
  shows "unat (j - i) = Suc (unat (j - (i + 1)))"
proof -
  have "j - i \<noteq> 0" using assms by simp
  then have "unat (j - i - 1) = unat (j - i) - 1" by (rule unat_minus_one)
  moreover have "unat (j - i) \<noteq> 0" using assms by (simp add: unat_eq_0)
  moreover have "j - i - 1 = j - (i + 1)" by (simp add: algebra_simps)
  ultimately show ?thesis by simp
qed

lemma firstFreeID_sound:
  assumes "firstFreeID ids i = Some r"
  shows "fmlookup ids r = None \<and> (\<forall>j. unat (j - i) < unat (r - i) \<longrightarrow> fmlookup ids j \<noteq> None)"
proof (rule firstFreeID.raw_induct [OF _ assms, where
      P = "\<lambda>ids i r. fmlookup ids r = None \<and>
        (\<forall>j. unat (j - i) < unat (r - i) \<longrightarrow> fmlookup ids j \<noteq> None)"])
  fix search and ids :: idmap and i r :: "16 word"
  assume ih: "\<And>ids i r. search ids i = Some r \<Longrightarrow> fmlookup ids r = None \<and>
        (\<forall>j. unat (j - i) < unat (r - i) \<longrightarrow> fmlookup ids j \<noteq> None)"
    and eq: "(if fmlookup ids i = None then Some i else search ids (i + 1)) = Some r"
  show "fmlookup ids r = None \<and> (\<forall>j. unat (j - i) < unat (r - i) \<longrightarrow> fmlookup ids j \<noteq> None)"
  proof (cases "fmlookup ids i = None")
    case True
    with eq show ?thesis by simp
  next
    case False
    with eq ih [of ids "i + 1" r] have r: "fmlookup ids r = None"
      and used: "\<And>j. unat (j - (i + 1)) < unat (r - (i + 1)) \<Longrightarrow> fmlookup ids j \<noteq> None"
      by auto
    from r False have "r \<noteq> i" by auto
    then have "unat (r - i) = Suc (unat (r - (i + 1)))" by (rule unat_diff_Suc)
    with r False used unat_diff_Suc [of _ i] show ?thesis by (metis not_less_eq)
  qed
qed

lemma firstFreeID_complete:
  assumes "fmlookup ids r = None" and "\<And>j. unat (j - i) < unat (r - i) \<Longrightarrow> fmlookup ids j \<noteq> None"
  shows "firstFreeID ids i = Some r"
  using assms
proof (induction "unat (r - i)" arbitrary: i)
  case 0
  then have "r = i" by (metis unat_eq_0 right_minus_eq)
  with 0 show ?case by (simp add: firstFreeID.simps [of ids i])
next
  case (Suc n)
  then have "r \<noteq> i" by auto
  then have n: "n = unat (r - (i + 1))" using Suc(2) unat_diff_Suc [of r i] by simp
  have i: "fmlookup ids i \<noteq> None" using Suc.hyps(2) Suc.prems(2) [of i] by simp
  have "fmlookup ids j \<noteq> None" if "unat (j - (i + 1)) < unat (r - (i + 1))" for j
  proof (cases "j = i")
    case False
    then have "unat (j - i) < unat (r - i)"
      using that unat_diff_Suc [of j i] unat_diff_Suc [OF \<open>r \<noteq> i\<close>] by simp
    then show ?thesis by (rule Suc.prems(2))
  qed (use i in simp)
  with Suc.hyps(1) [OF n Suc.prems(1)] have "firstFreeID ids (i + 1) = Some r" by blast
  with i show ?case by (subst firstFreeID.simps) (simp del: not_None_eq)
qed

lemma firstFreeID_returns:
  assumes "fmlookup ids r = None"
  shows "firstFreeID ids i \<noteq> None"
proof -
  obtain m where m: "fmlookup ids m = None"
    "\<forall>j. fmlookup ids j = None \<longrightarrow> unat (m - i) \<le> unat (j - i)"
    using ex_has_least_nat [of "\<lambda>j. fmlookup ids j = None" r "\<lambda>j. unat (j - i)"] assms by auto
  then have "firstFreeID ids i = Some m"
    by (intro firstFreeID_complete) (auto simp: not_less [symmetric])
  then show ?thesis by simp
qed

text \<open>
  C23. An identifier is the first free one of 1, 2, ..., 65535, 0, and it is marked as used; the
  search returns exactly when some identifier is free (with all 65536 in use the loop of
  \<open>generateID\<close> never ends, since its bound \<open>id <= math.MaxUint16\<close> always holds).
\<close>

theorem generateID_spec:
  "(generateID ids = None \<longleftrightarrow> (\<forall>i. fmlookup ids i \<noteq> None)) \<and>
   (generateID ids = Some (i, ids') \<longleftrightarrow>
      fmlookup ids i = None \<and> ids' = fmupd i True ids \<and>
      (\<forall>j. unat (j - 1) < unat (i - 1) \<longrightarrow> fmlookup ids j \<noteq> None))"
proof -
  have "firstFreeID ids 1 = None \<longleftrightarrow> (\<forall>i. fmlookup ids i \<noteq> None)"
    using firstFreeID_returns [of ids _ 1] firstFreeID_sound [of ids 1] by (metis option.exhaust)
  moreover have "firstFreeID ids 1 = Some i \<longleftrightarrow>
      fmlookup ids i = None \<and> (\<forall>j. unat (j - 1) < unat (i - 1) \<longrightarrow> fmlookup ids j \<noteq> None)" for i
    using firstFreeID_sound [of ids 1 i] firstFreeID_complete [of ids i 1] by blast
  ultimately show ?thesis by (auto simp: generateID_def)
qed

theorem generateID_spec_witness:
  "generateID (fmupd 1 True (fmupd 3 True fmempty)) = Some (2, fmupd 2 True (fmupd 1 True (fmupd 3 True fmempty)))"
proof -
  have "fmlookup (fmupd 1 True (fmupd 3 True fmempty)) j \<noteq> None"
    if "unat (j - 1) < unat ((2::16 word) - 1)" for j :: "16 word"
  proof -
    from that have "unat (j - 1) = 0" by simp
    then have "j = 1" by (metis unat_eq_0 right_minus_eq)
    then show ?thesis by simp
  qed
  then show ?thesis
    using generateID_spec [of "fmupd 1 True (fmupd 3 True fmempty)" 2
        "fmupd 2 True (fmupd 1 True (fmupd 3 True fmempty))"]
    by simp
qed

section \<open>Removing a block from the file it was added to\<close>

lemma HasPrefix_nth: "HasPrefix s p \<Longrightarrow> i < length p \<Longrightarrow> s ! i = p ! i"
  by (auto simp: HasPrefix_iff nth_append)

text \<open>A string that contains a byte \<open>c\<close> does not start where no \<open>c\<close> is at the right distance.\<close>

lemma no_match_before:
  assumes "c \<notin> set seg" and "c \<notin> set p" and "i < length seg"
  shows "\<not> HasPrefix (drop i (seg @ p @ r)) (p @ c # q)"
proof
  assume h: "HasPrefix (drop i (seg @ p @ r)) (p @ c # q)"
  have "drop i (seg @ p @ r) ! length p = (p @ c # q) ! length p"
    by (rule HasPrefix_nth [OF h]) simp
  moreover have "drop i (seg @ p @ r) ! length p = (seg @ p) ! (i + length p)"
    using assms(3) by (auto simp: nth_append add.commute)
  moreover have "(seg @ p) ! (i + length p) \<in> set (seg @ p)"
    using assms(3) by (intro nth_mem) simp
  ultimately show False using assms(1,2) by (auto simp: nth_append)
qed

lemma remove_block:
  assumes block: "block = b0 # a @ t @ b" and "b0 \<notin> set t" and t: "t = p @ c # q"
    and c: "c \<notin> set (b0 # a)" "c \<notin> set p"
    and old: "\<not> Contains old t"
  shows "remove_all block (old @ block) = old"
proof -
  have "\<not> HasPrefix (drop i (old @ block)) block" if i: "i < length old" for i
  proof
    assume h: "HasPrefix (drop i (old @ block)) block"
    let ?v = "drop i old" and ?a = "b0 # a"
    have v: "?v \<noteq> []" "drop i (old @ block) = ?v @ block" using i by simp_all
    obtain z where z: "?v @ block = block @ z" using h v(2) by (auto simp: HasPrefix_iff)
    have at: "drop (length ?a) (?v @ block) = t @ b @ z"
      unfolding z by (simp add: block)
    consider "length ?a + length t \<le> length ?v" | "length ?v \<le> length ?a"
      | "length ?a < length ?v" "length ?v < length ?a + length t" by linarith
    then show False
    proof cases
      case 1
      then have "take (length t) (drop (length ?a) ?v) = t"
        using arg_cong [OF at, of "take (length t)"] by simp
      then have "old = take i old @ take (length ?a) ?v @ t @ drop (length t) (drop (length ?a) ?v)"
        by (metis append_take_drop_id)
      with old show False unfolding Contains_iff by (metis append.assoc)
    next
      case 2
      have at2: "drop (length ?a - length ?v) (block @ []) = drop (length ?a) (?v @ block)"
        using 2 unfolding drop_append [of "length ?a"] by simp
      moreover have "length ?a - length ?v < length ?a" using v(1) by (cases ?v) auto
      ultimately have "HasPrefix (drop (length ?a - length ?v) (?a @ p @ (c # q @ b))) (p @ c # q)"
        using at2 at by (simp add: block t HasPrefix_def)
      with no_match_before [OF c \<open>length ?a - length ?v < length ?a\<close>] show False by blast
    next
      case 3
      then have lt: "length ?v - length ?a < length t" by linarith
      then have "(t @ b @ z) ! (length ?v - length ?a) = t ! (length ?v - length ?a)"
        unfolding nth_append by (rule if_P)
      with lt have "(t @ b @ z) ! (length ?v - length ?a) \<in> set t"
        by (metis nth_mem)
      moreover have "(t @ b @ z) ! (length ?v - length ?a) = (?v @ block) ! length ?v"
      proof -
        have "length ?a + (length ?v - length ?a) = length ?v" "length ?a \<le> length (?v @ block)"
          using 3 by simp_all
        then show ?thesis unfolding at [symmetric] by (metis nth_drop)
      qed
      ultimately show False using assms(2) by (simp add: block nth_append)
    qed
  qed
  then have "remove_all block (old @ block @ []) = old @ remove_all block []"
    by (intro remove_all_middle) (auto simp: block)
  moreover have "remove_all block [] = []" by (rule remove_all_absent) (simp add: block)
  ultimately show ?thesis by simp
qed

text \<open>The text by which a block carries its identifier, and what stands before and after it.\<close>

fun exportTag :: "exporterKind \<Rightarrow> string \<Rightarrow> string" where
  "exportTag Ganesha exportID = ''Export_Id = '' @ exportID @ '';''"
| "exportTag Kernel exportID = ''fsid='' @ exportID @ '')''"

fun blockHead :: "exporterKind \<Rightarrow> string \<Rightarrow> bool \<Rightarrow> string \<Rightarrow> string" where
  "blockHead Ganesha path rootSquash exportSubnet = ''EXPORT'' @ nl @ ''{'' @ nl @ tab"
| "blockHead Kernel path rootSquash exportSubnet =
     path @ '' '' @ exportSubnet @ ''(rw,insecure,'' @ (if rootSquash then ''root_squash'' else ''no_root_squash'') @
     '',''"

fun blockTail :: "exporterKind \<Rightarrow> string \<Rightarrow> string \<Rightarrow> bool \<Rightarrow> string" where
  "blockTail Ganesha exportID path rootSquash =
     nl @ tab @ ''Path = '' @ path @ '';'' @ nl @ tab @ ''Pseudo = '' @ path @ '';'' @ nl @
     tab @ ''Access_Type = RW;'' @ nl @
     tab @ ''Squash = '' @ (if rootSquash then ''root_id_squash'' else ''no_root_squash'') @ '';'' @ nl @
     tab @ ''SecType = sys;'' @ nl @
     tab @ ''Filesystem_id = '' @ exportID @ ''.'' @ exportID @ '';'' @ nl @
     tab @ ''FSAL {'' @ nl @ tab @ tab @ ''Name = VFS;'' @ nl @ tab @ ''}'' @ nl @ ''}'' @ nl"
| "blockTail Kernel exportID path rootSquash = nl"

lemma CreateExportBlock_parts:
  "CreateExportBlock kind exportID path rootSquash exportSubnet =
     CHR 0x0A # blockHead kind path rootSquash exportSubnet @ exportTag kind exportID @
     blockTail kind exportID path rootSquash"
  by (cases kind) (simp_all add: ganeshaExportBlock_def kernelExportBlock_def Let_def)

text \<open>
  Bytes that tell the tags apart from the rest of the file: the paths and subnets of kernel
  exports must not hold an equals sign, the paths of Ganesha exports no capital I (which occurs
  in a block only in \<open>Export_Id\<close>).
\<close>

fun plainExport :: "exporterKind \<Rightarrow> string \<Rightarrow> string \<Rightarrow> bool" where
  "plainExport Ganesha path exportSubnet \<longleftrightarrow> CHR ''I'' \<notin> set path"
| "plainExport Kernel path exportSubnet \<longleftrightarrow> CHR ''='' \<notin> set path \<and> CHR ''='' \<notin> set exportSubnet"

lemma FormatUint_plain: "c \<in> set (FormatUint n) \<Longrightarrow> is_digit c"
  using FormatUint_digits by (fastforce simp: is_digit_def)

lemma CreateExportBlock_removed:
  assumes "plainExport kind path subnet" and "\<not> Contains old (exportTag kind (FormatUint n))"
  shows "remove_all (CreateExportBlock kind (FormatUint n) path rs subnet)
           (old @ CreateExportBlock kind (FormatUint n) path rs subnet) = old"
proof (rule remove_block [OF CreateExportBlock_parts _ _ _ _ assms(2)])
  show "CHR 0x0A \<notin> set (exportTag kind (FormatUint n))"
    by (cases kind) (auto dest: FormatUint_plain simp: is_digit_def)
  show "exportTag kind (FormatUint n) =
      (case kind of Ganesha \<Rightarrow> ''Export_Id '' | Kernel \<Rightarrow> ''fsid'') @ CHR ''='' #
      (case kind of Ganesha \<Rightarrow> '' '' @ FormatUint n @ '';'' | Kernel \<Rightarrow> FormatUint n @ '')'')"
    by (cases kind) simp_all
  show "CHR ''='' \<notin> set (CHR 0x0A # blockHead kind path rs subnet)"
    using assms(1) by (cases kind) auto
  show "CHR ''='' \<notin> set (case kind of Ganesha \<Rightarrow> ''Export_Id '' | Kernel \<Rightarrow> ''fsid'')"
    by (cases kind) auto
qed

lemma AddExportBlock_Inr:
  assumes "AddExportBlock os path rs subnet (e, st) = Some (Inr (block, i), e', st')"
  shows "block = CreateExportBlock (ex_kind e) (FormatUint (unat i)) path rs subnet"
    and "fmlookup (ex_exportIDs e) i = None"
    and "e' = e\<lparr>ex_exportIDs := fmupd i True (ex_exportIDs e)\<rparr>"
    and "addToFile os (ex_config e) block st = (None, st')"
  using assms firstFreeID_sound [of "ex_exportIDs e" 1]
  by (auto simp: AddExportBlock_def generateID_def Let_def split: option.splits prod.splits)


section \<open>Finding the identifiers again\<close>

lemma findLiteral_skip:
  assumes "c \<notin> set seg" and "c \<notin> set p"
  shows "findLiteral (p @ c # q) suf (seg @ p @ c # q @ r) = findLiteral (p @ c # q) suf (p @ c # q @ r)"
  using assms(1)
proof (induction seg)
  case (Cons x seg)
  have "\<not> HasPrefix (drop 0 ((x # seg) @ p @ (c # q @ r))) (p @ c # q)"
    by (rule no_match_before [OF Cons.prems assms(2)]) simp
  then have "matchLiteral (p @ c # q) suf ((x # seg) @ p @ c # q @ r) = None"
    by (simp add: matchLiteral_def)
  with Cons show ?case by (simp add: findLiteral.simps [of _ _ "x # _"])
qed simp

lemma findLiteral_none: "c \<notin> set s \<Longrightarrow> findLiteral (p @ c # q) suf s = []"
proof (induction s)
  case Nil
  then show ?case by (simp add: findLiteral.simps matchLiteral_def HasPrefix_def)
next
  case (Cons x s)
  then have "matchLiteral (p @ c # q) suf (x # s) = None"
    by (auto simp: matchLiteral_def HasPrefix_iff Cons_eq_append_conv)
  with Cons show ?case by (simp add: findLiteral.simps [of _ _ "x # _"])
qed

lemma findLiteral_hit:
  assumes "digits \<noteq> []" and "\<forall>c \<in> set digits. is_digit c" and "suf @ r = [] \<or> \<not> is_digit (hd (suf @ r))"
  shows "findLiteral pre suf (pre @ digits @ suf @ r) = digits # findLiteral pre suf r"
proof -
  have "takeWhile is_digit (digits @ suf @ r) = digits" "dropWhile is_digit (digits @ suf @ r) = suf @ r"
    using assms(2,3) by (cases "suf @ r"; simp add: takeWhile_append dropWhile_append)+
  then have "matchLiteral pre suf (pre @ digits @ suf @ r) = Some (digits, r)"
    using assms(1) by (simp add: matchLiteral_def)
  then show ?thesis by (simp add: findLiteral.simps)
qed

fun exporterRe :: "exporterKind \<Rightarrow> idRegexp" where
  "exporterRe Ganesha = LiteralRe ''Export_Id = '' '';''"
| "exporterRe Kernel = LiteralRe ''fsid='' ''''"

text \<open>The byte that only a tag holds.\<close>

fun tagByte :: "exporterKind \<Rightarrow> char" where
  "tagByte Ganesha = CHR ''I''"
| "tagByte Kernel = CHR ''=''"

lemma blockTail_plain:
  "plainExport kind path subnet \<Longrightarrow> tagByte kind \<notin> set (blockTail kind (FormatUint n) path rs)"
  by (cases kind) (auto dest: FormatUint_plain simp: is_digit_def)

lemma FindAllDigits_blocks:
  assumes "tagByte kind \<notin> set seg"
    and "\<forall>(i, path, rs, subnet) \<in> set bs. plainExport kind path subnet"
  shows "FindAllDigits (exporterRe kind) (seg @ concat (map (\<lambda>(i, path, rs, subnet).
             CreateExportBlock kind (FormatUint (unat (i :: 16 word))) path rs subnet) bs)) =
           map (\<lambda>b. FormatUint (unat (fst b))) bs"
  using assms
proof (induction bs arbitrary: seg)
  case Nil
  then show ?case
    using findLiteral_none [of "CHR ''I''" seg "''Export_''" "''d = ''"]
      findLiteral_none [of "CHR ''=''" seg "''fsid''" "''''"] by (cases kind) simp_all
next
  case (Cons b bs)
  obtain i path rs subnet where b: "b = (i, path, rs, subnet)" by (cases b)
  let ?n = "FormatUint (unat i)"
  let ?rest = "concat (map (\<lambda>(i, path, rs, subnet).
             CreateExportBlock kind (FormatUint (unat (i :: 16 word))) path rs subnet) bs)"
  have plain: "plainExport kind path subnet" using Cons.prems(2) b by simp
  have digits: "?n \<noteq> []" "\<forall>c \<in> set ?n. is_digit c"
    using FormatUint_plain by (auto simp: FormatUint_def)
  show ?case
  proof (cases kind)
    case Ganesha
    have seg: "CHR ''I'' \<notin> set (seg @ CHR 0x0A # blockHead Ganesha path rs subnet)"
      using Cons.prems(1) Ganesha by simp
    have "findLiteral (''Export_'' @ CHR ''I'' # ''d = '') '';''
        ((seg @ CHR 0x0A # blockHead Ganesha path rs subnet) @ ''Export_'' @ CHR ''I'' # ''d = '' @
         (?n @ '';'' @ (blockTail Ganesha ?n path rs @ ?rest))) =
      findLiteral (''Export_'' @ CHR ''I'' # ''d = '') '';''
        (''Export_'' @ CHR ''I'' # ''d = '' @ (?n @ '';'' @ (blockTail Ganesha ?n path rs @ ?rest)))"
      by (rule findLiteral_skip [OF seg]) simp
    also have "\<dots> = ?n # findLiteral ''Export_Id = '' '';'' (blockTail Ganesha ?n path rs @ ?rest)"
      using findLiteral_hit [OF digits, of "'';''" "blockTail Ganesha ?n path rs @ ?rest" "''Export_Id = ''"]
      by (simp add: is_digit_def del: blockTail.simps)
    also have "findLiteral ''Export_Id = '' '';'' (blockTail Ganesha ?n path rs @ ?rest) =
        map (\<lambda>b. FormatUint (unat (fst b))) bs"
      using Cons.IH [of "blockTail Ganesha ?n path rs"] blockTail_plain [OF plain] Cons.prems(2) Ganesha
      by (simp del: blockTail.simps)
    finally show ?thesis by (simp add: Ganesha b CreateExportBlock_parts del: blockHead.simps blockTail.simps)
  next
    case Kernel
    have seg: "CHR ''='' \<notin> set (seg @ CHR 0x0A # blockHead Kernel path rs subnet)"
      using Cons.prems(1) plain Kernel by auto
    have "findLiteral (''fsid'' @ CHR ''='' # '''') ''''
        ((seg @ CHR 0x0A # blockHead Kernel path rs subnet) @ ''fsid'' @ CHR ''='' # '''' @
         (?n @ '''' @ (CHR '')'' # nl @ ?rest))) =
      findLiteral (''fsid'' @ CHR ''='' # '''') ''''
        (''fsid'' @ CHR ''='' # '''' @ (?n @ '''' @ (CHR '')'' # nl @ ?rest)))"
      by (rule findLiteral_skip [OF seg]) simp
    also have "\<dots> = ?n # findLiteral ''fsid='' '''' (CHR '')'' # nl @ ?rest)"
      using findLiteral_hit [OF digits, of "''''" "CHR '')'' # nl @ ?rest" "''fsid=''"]
      by (simp add: is_digit_def)
    also have "findLiteral ''fsid='' '''' (CHR '')'' # nl @ ?rest) =
        map (\<lambda>b. FormatUint (unat (fst b))) bs"
      using Cons.IH [of "CHR '')'' # nl"] Cons.prems(2) Kernel by simp
    finally show ?thesis by (simp add: Kernel b CreateExportBlock_parts del: blockHead.simps)
  qed
qed

lemma lookup_addFoundID:
  "fmlookup (fold addFoundID (map (\<lambda>b. FormatUint (unat (f b :: 16 word))) bs) ids) j =
     (if j \<in> f ` set bs then Some True else fmlookup ids j)"
proof (induction bs arbitrary: ids)
  case (Cons b bs)
  have "unat (f b) < 2 ^ 16" using unsigned_less [of "f b"] by simp
  then have "addFoundID (FormatUint (unat (f b))) ids = fmupd (f b) True ids"
    by (simp add: addFoundID_def ParseUint_FormatUint del: power_numeral)
  with Cons show ?case by auto
qed simp

text \<open>
  C10. The identifiers in use survive a restart: reading a configuration file that holds, after
  some other text, the blocks of any exports finds exactly the identifiers of these exports. (The
  byte that tells a tag apart, a capital I for Ganesha and an equals sign for the kernel, must not
  occur in the other text, the paths and the kernel's subnets.)
\<close>

theorem ids_survive_restart:
  assumes "os_ReadFile os config st = Inr (base @ concat (map (\<lambda>(i, path, rootSquash, subnet).
             CreateExportBlock kind (FormatUint (unat (i :: 16 word))) path rootSquash subnet) exports))"
    and "tagByte kind \<notin> set base"
    and "\<And>i path rootSquash subnet. (i, path, rootSquash, subnet) \<in> set exports \<Longrightarrow> plainExport kind path subnet"
    and "\<not> os_NotExist os config st"
  shows "\<exists>e. newGenericExporter os kind config (exporterRe kind) st = Some e \<and>
           (\<forall>j. fmlookup (ex_exportIDs e) j = (if j \<in> fst ` set exports then Some True else None))"
proof -
  have re: "Contains (re_String (exporterRe kind)) ''([0-9]+)''" by (cases kind) (simp_all add: HasPrefix_def)
  have plain: "\<forall>(i, path, rs, subnet) \<in> set exports. plainExport kind path subnet"
    using assms(3) by auto
  have "fst (getExistingIDs os config (exporterRe kind) st) =
      fold addFoundID (map (\<lambda>b. FormatUint (unat (fst b))) exports) fmempty"
    using re by (simp add: getExistingIDs_def assms(1) FindAllDigits_blocks [OF assms(2) plain])
  then show ?thesis
    using assms(4)
    by (cases "getExistingIDs os config (exporterRe kind) st") (simp add: newGenericExporter_def lookup_addFoundID)
qed

section \<open>A small operating system\<close>

text \<open>Files in memory, directories as a list, every call and program succeeds.\<close>

record demo_fs =
  fs_files :: "string gomap"
  fs_dirs :: "string list"

definition demo_read :: "demo_fs \<Rightarrow> string \<Rightarrow> string" where
  "demo_read st p = (case fmlookup (fs_files st) p of None \<Rightarrow> [] | Some s \<Rightarrow> s)"

definition demo_os :: "demo_fs nfsOS" where
  "demo_os =
     \<lparr>os_NotExist = (\<lambda>p st. fmlookup (fs_files st) p = None \<and> p \<notin> set (fs_dirs st)),
      os_ReadFile = (\<lambda>p st. Inr (demo_read st p)),
      os_OpenAppend = (\<lambda>p st. (None, st)),
      os_WriteString = (\<lambda>p s st. (None, st\<lparr>fs_files := fmupd p (demo_read st p @ s) (fs_files st)\<rparr>)),
      os_WriteFile = (\<lambda>p s st. (None, st\<lparr>fs_files := fmupd p s (fs_files st)\<rparr>)),
      os_CreateFile = (\<lambda>p st. (None, st\<lparr>fs_files := fmupd p [] (fs_files st)\<rparr>)),
      os_MkdirAll = (\<lambda>p perm st. (None, st\<lparr>fs_dirs := p # fs_dirs st\<rparr>)),
      os_Chmod = (\<lambda>p perm st. (None, st)),
      os_RemoveAll = (\<lambda>p st. (None, st\<lparr>fs_files := fmdrop p (fs_files st),
                                         fs_dirs := filter (\<lambda>d. d \<noteq> p) (fs_dirs st)\<rparr>)),
      os_exec = (\<lambda>argv st. ((''xfs'', None), st)),
      os_LookPath = (\<lambda>p st. None),
      os_GetMounts = (\<lambda>st. Inr [\<lparr>mi_Mountpoint = ''/export'', mi_Fstype = ''xfs'', mi_VfsOpts = ''rw,pquota''\<rparr>]),
      os_Statfs = (\<lambda>p st. Inr (1000, 4096)),
      os_Getenv = (\<lambda>v st. ''node1''),
      os_SystemBus = (\<lambda>st. (None, st)),
      os_DbusCall = (\<lambda>m args st. (None, st)),
      os_GetService = (\<lambda>ns n st. (Inr \<lparr>svc_ClusterIP = ''10.0.0.1''\<rparr>, st)),
      os_GetEndpoints = (\<lambda>ns n st. ([], st)),
      os_NewUUID = (\<lambda>st. (''uuid'', st))\<rparr>"

definition demo_exporter :: genericExporter where
  "demo_exporter = \<lparr>ex_kind = Kernel, ex_exportIDs = fmupd 1 True fmempty, ex_config = ''/etc/exports''\<rparr>"

definition demo_old :: string where
  "demo_old = CreateExportBlock Kernel ''1'' ''/export/a'' False ''*''"

definition demo_nfs :: demo_fs where
  "demo_nfs = \<lparr>fs_files = fmupd ''/etc/exports'' demo_old fmempty, fs_dirs = [''/export'']\<rparr>"


theorem ids_survive_restart_witness:
  "\<exists>e. newGenericExporter demo_os Kernel ''/etc/exports'' (exporterRe Kernel) demo_nfs = Some e \<and>
       fmlookup (ex_exportIDs e) 1 = Some True \<and> fmlookup (ex_exportIDs e) 2 = None"
proof -
  have one: "FormatUint (unat (1 :: 16 word)) = ''1''"
    by code_simp
  have a: "os_ReadFile demo_os ''/etc/exports'' demo_nfs = Inr ([] @ concat (map (\<lambda>(i, path, rootSquash, subnet).
             CreateExportBlock Kernel (FormatUint (unat (i :: 16 word))) path rootSquash subnet)
             [(1, ''/export/a'', False, ''*'')]))"
    by (simp add: demo_os_def demo_read_def demo_nfs_def demo_old_def one [simplified])
  have n: "\<not> os_NotExist demo_os ''/etc/exports'' demo_nfs"
    by (simp add: demo_os_def demo_nfs_def)
  obtain e where "newGenericExporter demo_os Kernel ''/etc/exports'' (exporterRe Kernel) demo_nfs = Some e"
    and "\<And>j. fmlookup (ex_exportIDs e) j = (if j \<in> fst ` set [(1, ''/export/a'', False, ''*'')] then Some True else None)"
    using ids_survive_restart [OF a _ _ n] by auto
  then show ?thesis by auto
qed

section \<open>The contract of a registry of identifiers\<close>

text \<open>
  The exporters and the quotaers are used in the same way: a block is added under a fresh
  identifier, something is done with it, and when that fails the block is removed again. The
  client relies on three laws: a failed addition changes no identifier, a successful one marks a
  free one, and removing gives it back.
\<close>

locale id_registry =
  fixes add :: "'a \<Rightarrow> 's \<times> 'o \<Rightarrow> ((string \<times> 16 word) result \<times> 's \<times> 'o) option"
    and remove :: "string \<Rightarrow> 16 word \<Rightarrow> 's \<times> 'o \<Rightarrow> error option \<times> 's \<times> 'o"
    and is_free :: "16 word \<Rightarrow> 's \<Rightarrow> bool"
    and mark :: "16 word \<Rightarrow> 's \<Rightarrow> 's"
  assumes add_Inl: "add a (s, st) = Some (Inl err, s', st') \<Longrightarrow> s' = s"
    and add_Inr: "add a (s, st) = Some (Inr (block, i), s', st') \<Longrightarrow> is_free i s \<and> s' = mark i s"
    and remove_mark: "is_free i s \<Longrightarrow> remove block i (mark i s, st) = (e, s', st') \<Longrightarrow> s' = s"
begin

definition acquire ::
  "(error \<Rightarrow> error) \<Rightarrow> (string \<Rightarrow> error \<Rightarrow> error) \<Rightarrow> (16 word \<Rightarrow> 's \<Rightarrow> 'o \<Rightarrow> error option \<times> 'o) \<Rightarrow> 'a \<Rightarrow> 's \<times> 'o \<Rightarrow>
     ((string \<times> 16 word) result \<times> 's \<times> 'o) option" where
  "acquire badAdd badUse use_it a x =
     (case add a x of
        None \<Rightarrow> None
      | Some (Inl err, s, st) \<Rightarrow> Some (Inl (badAdd err), s, st)
      | Some (Inr (block, i), s, st) \<Rightarrow>
          (case use_it i s st of
             (Some err, st) \<Rightarrow>
               let (_, s, st) = remove block i (s, st) in Some (Inl (badUse block err), s, st)
           | (None, st) \<Rightarrow> Some (Inr (block, i), s, st)))"

lemma acquire_Inl:
  assumes "acquire badAdd badUse use_it a (s, st) = Some (Inl err, s', st')"
  shows "s' = s"
proof -
  obtain r s1 st1 where add: "add a (s, st) = Some (r, s1, st1)"
    using assms by (auto simp: acquire_def split: option.splits)
  show ?thesis
  proof (cases r)
    case (Inl e)
    with assms add add_Inl show ?thesis by (auto simp: acquire_def)
  next
    case (Inr b)
    obtain block i where b: "b = (block, i)" by fastforce
    from add_Inr [OF add [unfolded Inr b]] have free: "is_free i s" and s1: "s1 = mark i s" by simp_all
    show ?thesis
      using assms add Inr b
      by (auto simp: acquire_def s1 Let_def dest: remove_mark [OF free] split: prod.splits option.splits)
  qed
qed

lemma acquire_Inr:
  "acquire badAdd badUse use_it a (s, st) = Some (Inr (block, i), s', st') \<Longrightarrow> is_free i s \<and> s' = mark i s"
  by (auto simp: acquire_def Let_def dest: add_Inr split: option.splits sum.splits prod.splits)

end

definition export_free :: "16 word \<Rightarrow> genericExporter \<Rightarrow> bool" where
  "export_free i e \<longleftrightarrow> fmlookup (ex_exportIDs e) i = None"

definition mark_export :: "16 word \<Rightarrow> genericExporter \<Rightarrow> genericExporter" where
  "mark_export i e = e\<lparr>ex_exportIDs := fmupd i True (ex_exportIDs e)\<rparr>"

lemma deleteID_fresh: "fmlookup ids i = None \<Longrightarrow> deleteID (fmupd i True ids) i = ids"
  by (auto simp: deleteID_def intro!: fmap_ext)

lemma RemoveExportBlock_table:
  "RemoveExportBlock os block i (e, st) = (err, e', st') \<Longrightarrow>
     e' = e\<lparr>ex_exportIDs := deleteID (ex_exportIDs e) i\<rparr>"
  by (auto simp: RemoveExportBlock_def Let_def split: prod.splits)

lemma AddExportBlock_Inl:
  assumes "AddExportBlock os path rs subnet (e, st) = Some (Inl err, e', st')"
  shows "e' = e"
proof -
  obtain i where "firstFreeID (ex_exportIDs e) 1 = Some i"
    and e': "e' = e\<lparr>ex_exportIDs := deleteID (fmupd i True (ex_exportIDs e)) i\<rparr>"
    using assms by (auto simp: AddExportBlock_def generateID_def Let_def split: option.splits prod.splits)
  with firstFreeID_sound have "fmlookup (ex_exportIDs e) i = None" by blast
  then show ?thesis by (simp add: e' deleteID_fresh)
qed

interpretation exports: id_registry "\<lambda>(path, rs, subnet). AddExportBlock os path rs subnet"
  "RemoveExportBlock os" export_free mark_export for os :: "'o nfsOS"
  by unfold_locales
    (auto simp: export_free_def mark_export_def deleteID_fresh
      dest: AddExportBlock_Inl AddExportBlock_Inr(2,3) RemoveExportBlock_table)

end
