(* ===== verification/NfsQuota.thy ===== *)
theory NfsQuota
  imports NfsExport
begin

text \<open>
  \<open>nfs/pkg/volume/quota.go\<close>: XFS project quotas, recorded in a projects file with one block per
  project, and the dummy that does nothing.
\<close>

record xfsQuotaer =
  xq_xfsPath :: string
  xq_projectsFile :: string
  xq_projectIDs :: idmap

datatype quotaer = XfsQuotaer xfsQuotaer | DummyQuotaer

definition isXfs :: "'o nfsOS \<Rightarrow> string \<Rightarrow> 'o \<Rightarrow> bool result \<times> 'o" where
  "isXfs os xfsPath st =
     (case os_exec os [''stat'', ''-f'', ''-c'', ''%T'', xfsPath] st of
        ((out, Some err), st) \<Rightarrow> (Inl err, st)
      | ((out, None), st) \<Rightarrow>
          if TrimSpace out \<noteq> ''xfs'' then (Inr False, st) else (Inr True, st))"

definition getMountEntry :: "'o nfsOS \<Rightarrow> string \<Rightarrow> string \<Rightarrow> 'o \<Rightarrow> MountInfo result" where
  "getMountEntry os mountpoint fstype st =
     (case os_GetMounts os st of
        Inl err \<Rightarrow> Inl err
      | Inr entries \<Rightarrow>
          (case List.find (\<lambda>e. mi_Mountpoint e = mountpoint \<and> mi_Fstype e = fstype) entries of
             Some e \<Rightarrow> Inr e
           | None \<Rightarrow> Inl (Errorf ''mount entry for mountpoint %s, fstype %s not found'' [mountpoint, fstype])))"

section \<open>The projects file\<close>

definition projectBlock :: "string \<Rightarrow> string \<Rightarrow> string \<Rightarrow> string" where
  "projectBlock projectIDStr directory bhard = nl @ projectIDStr @ '':'' @ directory @ '':'' @ bhard @ nl"

text \<open>
  The expression \<open>(?m:\n^([0-9]+):(.+):(.+)$\n)\<close>: a line between two newlines, which both belong to
  the match. In a line, the digits run up to the first colon; the directory is as long as
  possible, up to the last colon that leaves something after it.
\<close>

fun splitLastColon :: "string \<Rightarrow> (string \<times> string) option" where
  "splitLastColon [] = None"
| "splitLastColon (c # s) =
     (case splitLastColon s of
        Some (a, b) \<Rightarrow> Some (c # a, b)
      | None \<Rightarrow>
          if s \<noteq> [] \<and> hd s = CHR '':'' \<and> tl s \<noteq> [] then Some ([c], tl s) else None)"

definition parseProjectLine :: "string \<Rightarrow> (string \<times> string \<times> string) option" where
  "parseProjectLine line =
     (let digits = takeWhile is_digit line; r = dropWhile is_digit line
      in if digits \<noteq> [] \<and> HasPrefix r '':'' then
           (case splitLastColon (tl r) of
              None \<Rightarrow> None
            | Some (directory, bhard) \<Rightarrow> Some (digits, directory, bhard))
         else None)"

definition is_nl :: "char \<Rightarrow> bool" where
  "is_nl c \<longleftrightarrow> c = CHR 0x0A"

text \<open>The matches in order: the matched text and its three submatches.\<close>

fun projectMatches :: "nat \<Rightarrow> string \<Rightarrow> (string \<times> string \<times> string \<times> string) list" where
  "projectMatches 0 s = []"
| "projectMatches (Suc n) [] = []"
| "projectMatches (Suc n) (c # s) =
     (if is_nl c then
        let line = takeWhile (\<lambda>x. \<not> is_nl x) s; r = dropWhile (\<lambda>x. \<not> is_nl x) s
        in (case parseProjectLine line of
              Some (digits, directory, bhard) \<Rightarrow>
                if r \<noteq> [] then (nl @ line @ nl, digits, directory, bhard) # projectMatches n (tl r)
                else projectMatches n s
            | None \<Rightarrow> projectMatches n s)
      else projectMatches n s)"

definition FindAllProjects :: "string \<Rightarrow> (string \<times> string \<times> string \<times> string) list" where
  "FindAllProjects s = projectMatches (length s) s"

section \<open>The XFS quotas\<close>

definition xq_RemoveProject ::
  "'o nfsOS \<Rightarrow> string \<Rightarrow> 16 word \<Rightarrow> xfsQuotaer \<times> 'o \<Rightarrow> error option \<times> xfsQuotaer \<times> 'o" where
  "xq_RemoveProject os block projectID = (\<lambda>(q, st).
     let q = q\<lparr>xq_projectIDs := deleteID (xq_projectIDs q) projectID\<rparr>;
         (err, st) = removeFromFile os (xq_projectsFile q) block st
     in (err, q, st))"

definition xq_AddProject ::
  "'o nfsOS \<Rightarrow> string \<Rightarrow> string \<Rightarrow> xfsQuotaer \<times> 'o \<Rightarrow>
     ((string \<times> 16 word) result \<times> xfsQuotaer \<times> 'o) option" where
  "xq_AddProject os directory bhard = (\<lambda>(q, st).
     case generateID (xq_projectIDs q) of
       None \<Rightarrow> None
     | Some (projectID, ids) \<Rightarrow>
         let projectIDStr = FormatUint (unat projectID);
             block = projectBlock projectIDStr directory bhard;
             q' = q\<lparr>xq_projectIDs := ids\<rparr>;
             undone = q\<lparr>xq_projectIDs := deleteID ids projectID\<rparr>
         in (case addToFile os (xq_projectsFile q) block st of
               (Some err, st) \<Rightarrow>
                 Some (Inl (Wrapf ''error adding project block %s to projects file %s: %v''
                              [block, xq_projectsFile q] err), undone, st)
             | (None, st) \<Rightarrow>
                 (case os_exec os [''xfs_quota'', ''-x'', ''-c'',
                          ''project -s -p '' @ directory @ '' '' @ projectIDStr, xq_xfsPath q] st of
                    ((out, Some err), st) \<Rightarrow>
                      let (_, st) = removeFromFile os (xq_projectsFile q) block st
                      in Some (Inl (Wrapf ''xfs_quota failed with error: %v, output: %s'' [out] err), undone, st)
                  | ((out, None), st) \<Rightarrow> Some (Inr (block, projectID), q', st))))"

definition xq_SetQuota ::
  "'o nfsOS \<Rightarrow> 16 word \<Rightarrow> string \<Rightarrow> string \<Rightarrow> xfsQuotaer \<times> 'o \<Rightarrow> error option \<times> 'o" where
  "xq_SetQuota os projectID directory bhard = (\<lambda>(q, st).
     if fmlookup (xq_projectIDs q) projectID \<noteq> Some True then
       (Some (Errorf ''project with id %v has not been added'' [FormatUint (unat projectID)]), st)
     else
       (case os_exec os [''xfs_quota'', ''-x'', ''-c'',
                ''limit -p bhard='' @ bhard @ '' '' @ FormatUint (unat projectID), xq_xfsPath q] st of
          ((out, Some err), st) \<Rightarrow> (Some (Wrapf ''xfs_quota failed with error: %v, output: %s'' [out] err), st)
        | ((out, None), st) \<Rightarrow> (None, st)))"

fun restoreMatches ::
  "'o nfsOS \<Rightarrow> (string \<times> string \<times> string \<times> string) list \<Rightarrow> xfsQuotaer \<times> 'o \<Rightarrow> error option \<times> xfsQuotaer \<times> 'o"
where
  "restoreMatches os [] (q, st) = (None, q, st)"
| "restoreMatches os ((match, digits, directory, bhard) # ms) (q, st) =
     (let projectID = word_of_nat (fst (ParseUint 16 digits)) :: 16 word in
      if os_NotExist os directory st then
        (let (_, q, st) = xq_RemoveProject os match projectID (q, st) in restoreMatches os ms (q, st))
      else
        (case xq_SetQuota os projectID directory bhard (q, st) of
           (Some err, st) \<Rightarrow>
             (Some (Wrapf ''error restoring quota for directory %s: %v'' [directory] err), q, st)
         | (None, st) \<Rightarrow> restoreMatches os ms (q, st)))"

definition restoreQuotas :: "'o nfsOS \<Rightarrow> xfsQuotaer \<times> 'o \<Rightarrow> error option \<times> xfsQuotaer \<times> 'o" where
  "restoreQuotas os = (\<lambda>(q, st).
     case os_ReadFile os (xq_projectsFile q) st of
       Inl err \<Rightarrow> (Some err, q, st)
     | Inr read \<Rightarrow> restoreMatches os (FindAllProjects read) (q, st))"

definition newXfsQuotaer :: "'o nfsOS \<Rightarrow> string \<Rightarrow> 'o \<Rightarrow> xfsQuotaer result \<times> 'o" where
  "newXfsQuotaer os xfsPath st =
     (if os_NotExist os xfsPath st then (Inl (Errorf ''xfs path %s does not exist'' [xfsPath]), st)
      else
     (case isXfs os xfsPath st of
        (Inl err, st) \<Rightarrow>
          (Inl (Wrapf ''error checking if xfs path %s is an XFS filesystem: %v'' [xfsPath] err), st)
      | (Inr is_xfs, st) \<Rightarrow>
     if \<not> is_xfs then (Inl (Errorf ''xfs path %s is not an XFS filesystem'' [xfsPath]), st)
     else
     (case getMountEntry os (Clean xfsPath) ''xfs'' st of
        Inl err \<Rightarrow> (Inl err, st)
      | Inr entry \<Rightarrow>
     if \<not> Contains (mi_VfsOpts entry) ''pquota'' \<and> \<not> Contains (mi_VfsOpts entry) ''prjquota'' then
       (Inl (Errorf ''xfs path %s was not mounted with pquota nor prjquota'' [xfsPath]), st)
     else
     (case os_LookPath os ''xfs_quota'' st of
        Some err \<Rightarrow> (Inl err, st)
      | None \<Rightarrow>
          let projectsFile = Join [xfsPath, ''projects''];
              (cerr, projectIDs, st) =
                (if os_NotExist os projectsFile st then
                   (let (cerr, st) = os_CreateFile os projectsFile st in (cerr, fmempty, st))
                 else (None, fst (getExistingIDs os projectsFile ProjectRe st), st))
          in (case cerr of
                Some err \<Rightarrow> (Inl (Wrapf ''error creating xfs projects file %s: %v'' [projectsFile] err), st)
              | None \<Rightarrow>
                  (case restoreQuotas os (\<lparr>xq_xfsPath = xfsPath, xq_projectsFile = projectsFile,
                          xq_projectIDs = projectIDs\<rparr>, st) of
                     (Some err, q, st) \<Rightarrow>
                       (Inl (Wrapf ''error restoring quotas from projects file %s: %v'' [projectsFile] err), st)
                   | (None, q, st) \<Rightarrow> (Inr q, st)))))))"

section \<open>The interface\<close>

definition AddProject ::
  "'o nfsOS \<Rightarrow> string \<Rightarrow> string \<Rightarrow> quotaer \<times> 'o \<Rightarrow> ((string \<times> 16 word) result \<times> quotaer \<times> 'o) option" where
  "AddProject os directory bhard = (\<lambda>(q, st).
     case q of
       XfsQuotaer x \<Rightarrow>
         map_option (\<lambda>(r, x, st). (r, XfsQuotaer x, st)) (xq_AddProject os directory bhard (x, st))
     | DummyQuotaer \<Rightarrow> Some (Inr ('''', 0), DummyQuotaer, st))"

definition RemoveProject ::
  "'o nfsOS \<Rightarrow> string \<Rightarrow> 16 word \<Rightarrow> quotaer \<times> 'o \<Rightarrow> error option \<times> quotaer \<times> 'o" where
  "RemoveProject os block projectID = (\<lambda>(q, st).
     case q of
       XfsQuotaer x \<Rightarrow>
         let (err, x, st) = xq_RemoveProject os block projectID (x, st) in (err, XfsQuotaer x, st)
     | DummyQuotaer \<Rightarrow> (None, DummyQuotaer, st))"

definition SetQuota ::
  "'o nfsOS \<Rightarrow> 16 word \<Rightarrow> string \<Rightarrow> string \<Rightarrow> quotaer \<times> 'o \<Rightarrow> error option \<times> 'o" where
  "SetQuota os projectID directory bhard = (\<lambda>(q, st).
     case q of
       XfsQuotaer x \<Rightarrow> xq_SetQuota os projectID directory bhard (x, st)
     | DummyQuotaer \<Rightarrow> (None, st))"

definition UnsetQuota :: "quotaer \<Rightarrow> error option" where
  "UnsetQuota q = None"

section \<open>Reading the projects file back\<close>

lemma splitLastColon_none: "CHR '':'' \<notin> set b \<Longrightarrow> splitLastColon b = None"
  by (induction b) (auto simp: neq_Nil_conv)

lemma splitLastColon_join:
  assumes "a \<noteq> []" and "b \<noteq> []" and "CHR '':'' \<notin> set b"
  shows "splitLastColon (a @ CHR '':'' # b) = Some (a, b)"
  using assms(1)
proof (induction a)
  case (Cons c a)
  have none: "splitLastColon (CHR '':'' # b) = None"
    using assms(3) splitLastColon_none [OF assms(3)] by (cases b) auto
  show ?case
  proof (cases a)
    case Nil
    with none assms(2) show ?thesis by simp
  next
    case (Cons d a')
    then show ?thesis using Cons.IH by simp
  qed
qed simp

text \<open>What can be recorded: no newline, and a limit without a colon; neither may be empty.\<close>

definition plainProject :: "string \<Rightarrow> string \<Rightarrow> bool" where
  "plainProject directory bhard \<longleftrightarrow>
     directory \<noteq> [] \<and> bhard \<noteq> [] \<and> CHR 0x0A \<notin> set directory \<and> CHR 0x0A \<notin> set bhard \<and> CHR '':'' \<notin> set bhard"

lemma parseProjectLine_block:
  assumes "plainProject directory bhard"
  shows "parseProjectLine (FormatUint n @ '':'' @ directory @ '':'' @ bhard) =
           Some (FormatUint n, directory, bhard)"
proof -
  have digits: "\<forall>c \<in> set (FormatUint n). is_digit c" using FormatUint_plain by blast
  then have "takeWhile is_digit (FormatUint n @ '':'' @ directory @ '':'' @ bhard) = FormatUint n"
    "dropWhile is_digit (FormatUint n @ '':'' @ directory @ '':'' @ bhard) = '':'' @ directory @ '':'' @ bhard"
    by (simp_all add: takeWhile_append dropWhile_append is_digit_def)
  moreover have "FormatUint n \<noteq> []" by (simp add: FormatUint_def)
  ultimately show ?thesis
    using assms splitLastColon_join [of directory bhard]
    by (simp add: parseProjectLine_def plainProject_def HasPrefix_def)
qed

lemma projectMatches_blocks:
  assumes "\<forall>(n, directory, bhard) \<in> set ps. plainProject directory bhard"
    and "length (concat (map (\<lambda>(n, d, b). projectBlock (FormatUint n) d b) ps)) \<le> fuel"
  shows "projectMatches fuel (concat (map (\<lambda>(n, d, b). projectBlock (FormatUint n) d b) ps)) =
           map (\<lambda>(n, d, b). (projectBlock (FormatUint n) d b, FormatUint n, d, b)) ps"
  using assms
proof (induction ps arbitrary: fuel)
  case Nil
  then show ?case by (cases fuel) simp_all
next
  case (Cons p ps)
  obtain n d b where p: "p = (n, d, b)" by (cases p)
  let ?line = "FormatUint n @ '':'' @ d @ '':'' @ b"
  let ?rest = "concat (map (\<lambda>(n, d, b). projectBlock (FormatUint n) d b) ps)"
  have plain: "plainProject d b" using Cons.prems(1) p by simp
  have no_nl: "\<forall>c \<in> set ?line. \<not> is_nl c"
    using plain by (auto simp: plainProject_def is_nl_def is_digit_def dest: FormatUint_plain)
  have block: "projectBlock (FormatUint n) d b @ ?rest = CHR 0x0A # (?line @ CHR 0x0A # ?rest)"
    by (simp add: projectBlock_def)
  have tw: "takeWhile (\<lambda>x. \<not> is_nl x) (?line @ CHR 0x0A # ?rest) = ?line"
    and dw: "dropWhile (\<lambda>x. \<not> is_nl x) (?line @ CHR 0x0A # ?rest) = CHR 0x0A # ?rest"
    using no_nl by (simp_all only: takeWhile_append dropWhile_append) (simp_all add: is_nl_def)
  obtain fuel' where fuel: "fuel = Suc fuel'" "length ?rest \<le> fuel'"
    using Cons.prems(2) by (cases fuel) (auto simp: p projectBlock_def)
  have "projectMatches fuel (CHR 0x0A # (?line @ CHR 0x0A # ?rest)) =
      (nl @ ?line @ nl, FormatUint n, d, b) # projectMatches fuel' ?rest"
    unfolding fuel(1) projectMatches.simps Let_def tw dw parseProjectLine_block [OF plain]
    by (simp add: is_nl_def)
  moreover have "projectMatches fuel' ?rest = map (\<lambda>(n, d, b). (projectBlock (FormatUint n) d b, FormatUint n, d, b)) ps"
    using Cons.IH [OF _ fuel(2)] Cons.prems(1) by simp
  moreover have "nl @ ?line @ nl = projectBlock (FormatUint n) d b" by (simp add: projectBlock_def)
  ultimately show ?case
    unfolding p list.map concat.simps prod.case block by (simp only: )
qed

text \<open>
  The projects file is read back as it was written: in a file made of any number of project
  blocks, the expression \<open>restoreQuotas\<close> searches with finds every block, in order, with the
  number, the directory and the limit it was written with (also when the directory holds colons).
\<close>

theorem projects_roundtrip:
  assumes "\<And>n directory bhard. (n, directory, bhard) \<in> set projects \<Longrightarrow>
      directory \<noteq> [] \<and> bhard \<noteq> [] \<and> CHR 0x0A \<notin> set directory \<and> CHR 0x0A \<notin> set bhard \<and> CHR '':'' \<notin> set bhard"
  shows "FindAllProjects (concat (map (\<lambda>(n, directory, bhard). projectBlock (FormatUint n) directory bhard) projects)) =
           map (\<lambda>(n, directory, bhard). (projectBlock (FormatUint n) directory bhard, FormatUint n, directory, bhard))
             projects"
  unfolding FindAllProjects_def
  by (rule projectMatches_blocks) (use assms in \<open>auto simp: plainProject_def\<close>)

theorem projects_roundtrip_witness:
  "FindAllProjects (projectBlock (FormatUint 7) ''/export/a:b'' ''4096'') =
     [(projectBlock (FormatUint 7) ''/export/a:b'' ''4096'', FormatUint 7, ''/export/a:b'', ''4096'')]"
  using projects_roundtrip [of "[(7, ''/export/a:b'', ''4096'')]"] by simp

section \<open>Adding a project\<close>

lemma xq_AddProject_Inr:
  assumes "xq_AddProject os directory bhard (q, st) = Some (Inr (block, i), q', st')"
  shows "fmlookup (xq_projectIDs q) i = None"
    and "q' = q\<lparr>xq_projectIDs := fmupd i True (xq_projectIDs q)\<rparr>"
    and "block = projectBlock (FormatUint (unat i)) directory bhard"
  using assms firstFreeID_sound [of "xq_projectIDs q" 1]
  by (auto simp: xq_AddProject_def generateID_def Let_def split: option.splits prod.splits)

lemma xq_AddProject_Inl:
  assumes "xq_AddProject os directory bhard (q, st) = Some (Inl err, q', st')"
  shows "q' = q"
proof -
  obtain i where i: "firstFreeID (xq_projectIDs q) 1 = Some i"
    and q': "q' = q\<lparr>xq_projectIDs := deleteID (fmupd i True (xq_projectIDs q)) i\<rparr>"
    using assms by (auto simp: xq_AddProject_def generateID_def Let_def split: option.splits prod.splits)
  have "fmlookup (xq_projectIDs q) i = None" using firstFreeID_sound [OF i] by blast
  then have "deleteID (fmupd i True (xq_projectIDs q)) i = xq_projectIDs q"
    by (auto simp: deleteID_def intro!: fmap_ext)
  with q' show ?thesis by simp
qed

text \<open>
  Adding a project keeps the table in step: a successful call returns an identifier that was
  free, marks it and nothing else as used, and the quota can then be set on it (it is not refused
  as unknown); a failing call, whatever step failed, leaves the table of the quotaer as it was.
\<close>

theorem AddProject_table:
  assumes "xq_AddProject os directory bhard (q, st) = Some (r, q', st')"
  shows "case r of
           Inl err \<Rightarrow> q' = q
         | Inr (block, i) \<Rightarrow>
             fmlookup (xq_projectIDs q) i = None \<and>
             q' = q\<lparr>xq_projectIDs := fmupd i True (xq_projectIDs q)\<rparr> \<and>
             xq_SetQuota os i directory bhard (q', st'') =
               (case os_exec os [''xfs_quota'', ''-x'', ''-c'',
                      ''limit -p bhard='' @ bhard @ '' '' @ FormatUint (unat i), xq_xfsPath q] st'' of
                  ((out, Some err), st) \<Rightarrow> (Some (Wrapf ''xfs_quota failed with error: %v, output: %s'' [out] err), st)
                | ((out, None), st) \<Rightarrow> (None, st))"
proof (cases r)
  case (Inl err)
  with assms xq_AddProject_Inl show ?thesis by simp
next
  case (Inr a)
  obtain block i where a: "a = (block, i)" by fastforce
  note add = xq_AddProject_Inr [OF assms [unfolded Inr a]]
  show ?thesis by (simp add: Inr a add(1,2) xq_SetQuota_def)
qed

theorem AddProject_table_witness:
  "\<exists>q' st'. xq_AddProject demo_os ''/export/a'' ''4096''
       (\<lparr>xq_xfsPath = ''/export'', xq_projectsFile = ''/export/projects'', xq_projectIDs = fmempty\<rparr>, demo_nfs) =
     Some (Inr (projectBlock (FormatUint 1) ''/export/a'' ''4096'', 1), q', st') \<and>
     fmlookup (xq_projectIDs q') 1 = Some True"
proof -
  let ?q = "\<lparr>xq_xfsPath = ''/export'', xq_projectsFile = ''/export/projects'', xq_projectIDs = fmempty\<rparr>"
  have "firstFreeID fmempty 1 = Some 1" by (simp add: firstFreeID.simps)
  then obtain q' st' where add: "xq_AddProject demo_os ''/export/a'' ''4096'' (?q, demo_nfs) =
      Some (Inr (projectBlock (FormatUint 1) ''/export/a'' ''4096'', 1), q', st')"
    by (auto simp: xq_AddProject_def generateID_def addToFile_def demo_os_def Let_def)
  from AddProject_table [OF add, of demo_nfs] add show ?thesis by auto
qed

section \<open>The quotaers as registries\<close>

fun mark_project :: "16 word \<Rightarrow> quotaer \<Rightarrow> quotaer" where
  "mark_project i (XfsQuotaer q) = XfsQuotaer (q\<lparr>xq_projectIDs := fmupd i True (xq_projectIDs q)\<rparr>)"
| "mark_project i DummyQuotaer = DummyQuotaer"

fun project_free :: "16 word \<Rightarrow> quotaer \<Rightarrow> bool" where
  "project_free i (XfsQuotaer q) \<longleftrightarrow> fmlookup (xq_projectIDs q) i = None"
| "project_free i DummyQuotaer \<longleftrightarrow> True"

lemma RemoveProject_mark:
  "project_free i q \<Longrightarrow> RemoveProject os block i (mark_project i q, st) = (err, q', st') \<Longrightarrow> q' = q"
  by (cases q) (auto simp: RemoveProject_def xq_RemoveProject_def Let_def deleteID_fresh split: prod.splits)

lemma AddProject_Inl: "AddProject os d b (q, st) = Some (Inl err, q', st') \<Longrightarrow> q' = q"
  by (cases q) (auto simp: AddProject_def dest: xq_AddProject_Inl)

lemma AddProject_Inr:
  "AddProject os d b (q, st) = Some (Inr (block, i), q', st') \<Longrightarrow> project_free i q \<and> q' = mark_project i q"
  by (cases q) (auto simp: AddProject_def dest: xq_AddProject_Inr)

interpretation projects: id_registry "\<lambda>(directory, bhard). AddProject os directory bhard"
  "RemoveProject os" project_free mark_project for os :: "'o nfsOS"
  by unfold_locales (auto dest: AddProject_Inl AddProject_Inr RemoveProject_mark)

end
