(* ===== verification/NfsProvision.thy ===== *)
theory NfsProvision
  imports NfsQuota ProvisionerLib
begin

text \<open>
  \<open>nfs/pkg/volume/provision.go\<close> and \<open>nfs/pkg/volume/delete.go\<close>: provisioning and deleting NFS
  volumes. The provisioner holds its exporter and its quotaer by value. The range over the
  parameters of a storage class visits them in an order given by the caller. \<open>glog.Fatalf\<close> and a
  search for an identifier that never ends are \<open>None\<close>.
\<close>

abbreviation annCreatedBy :: string where
  "annCreatedBy \<equiv> ''kubernetes.io/createdby''"

abbreviation annExportBlock :: string where
  "annExportBlock \<equiv> ''EXPORT_block''"

abbreviation annExportID :: string where
  "annExportID \<equiv> ''Export_Id''"

abbreviation annProjectBlock :: string where
  "annProjectBlock \<equiv> ''Project_block''"

abbreviation annProjectID :: string where
  "annProjectID \<equiv> ''Project_Id''"

abbreviation VolumeGidAnnotationKey :: string where
  "VolumeGidAnnotationKey \<equiv> ''pv.beta.kubernetes.io/gid''"

abbreviation MountOptionAnnotation :: string where
  "MountOptionAnnotation \<equiv> ''volume.beta.kubernetes.io/mount-options''"

abbreviation annProvisionerID :: string where
  "annProvisionerID \<equiv> ''Provisioner_Id''"

record nfsProvisioner =
  np_exportDir :: string
  np_outOfCluster :: bool
  np_exporter :: genericExporter
  np_quotaer :: quotaer
  np_serverHostname :: string
  np_maxExports :: int
  np_exportSubnet :: string
  np_identity :: string
  np_podIPEnv :: string
  np_serviceEnv :: string
  np_namespaceEnv :: string
  np_nodeEnv :: string

record volume =
  vol_server :: string
  vol_path :: string
  vol_exportBlock :: string
  vol_exportID :: "16 word"
  vol_projectBlock :: string
  vol_projectID :: "16 word"
  vol_supGroup :: nat
  vol_mountOptions :: string

section \<open>Construction\<close>

definition newNFSProvisionerInternal ::
  "'o nfsOS \<Rightarrow> string \<Rightarrow> bool \<Rightarrow> genericExporter \<Rightarrow> quotaer \<Rightarrow> string \<Rightarrow> int \<Rightarrow> string \<Rightarrow> 'o \<Rightarrow>
     (nfsProvisioner \<times> 'o) option" where
  "newNFSProvisionerInternal os exportDir outOfCluster exp quotaer serverHostname maxExports exportSubnet st =
     (if os_NotExist os exportDir st then None
      else
        let identityPath = Join [exportDir, ''nfs-provisioner.identity'']
        in (case (if os_NotExist os identityPath st then
                    (let (identity, st) = os_NewUUID os st
                     in (case os_WriteFile os identityPath identity st of
                           (Some err, st) \<Rightarrow> None
                         | (None, st) \<Rightarrow> Some (identity, st)))
                  else
                    (case os_ReadFile os identityPath st of
                       Inl err \<Rightarrow> None
                     | Inr read \<Rightarrow> Some (TrimSpace read, st))) of
              None \<Rightarrow> None
            | Some (identity, st) \<Rightarrow>
                Some (\<lparr>np_exportDir = exportDir, np_outOfCluster = outOfCluster, np_exporter = exp,
                       np_quotaer = quotaer, np_serverHostname = serverHostname, np_maxExports = maxExports,
                       np_exportSubnet = exportSubnet, np_identity = identity, np_podIPEnv = ''POD_IP'',
                       np_serviceEnv = ''SERVICE_NAME'', np_namespaceEnv = ''POD_NAMESPACE'',
                       np_nodeEnv = ''NODE_NAME''\<rparr>, st)))"

definition NewNFSProvisioner ::
  "'o nfsOS \<Rightarrow> string \<Rightarrow> bool \<Rightarrow> bool \<Rightarrow> string \<Rightarrow> bool \<Rightarrow> string \<Rightarrow> int \<Rightarrow> string \<Rightarrow> 'o \<Rightarrow>
     (nfsProvisioner \<times> 'o) option" where
  "NewNFSProvisioner os exportDir outOfCluster useGanesha ganeshaConfig enableXfsQuota serverHostname
       maxExports exportSubnet st =
     (case (if useGanesha then newGaneshaExporter os ganeshaConfig st else newKernelExporter os st) of
        None \<Rightarrow> None
      | Some exp \<Rightarrow>
          (case (if enableXfsQuota then
                   (case newXfsQuotaer os exportDir st of
                      (Inl err, st) \<Rightarrow> None
                    | (Inr q, st) \<Rightarrow> Some (XfsQuotaer q, st))
                 else Some (DummyQuotaer, st)) of
             None \<Rightarrow> None
           | Some (quotaer, st) \<Rightarrow>
               newNFSProvisionerInternal os exportDir outOfCluster exp quotaer serverHostname maxExports
                 exportSubnet st))"

section \<open>Options and server\<close>

fun validateParameters ::
  "string list \<Rightarrow> string gomap \<Rightarrow> string \<times> bool \<times> string \<Rightarrow> (string \<times> bool \<times> string) result" where
  "validateParameters [] params r = Inr r"
| "validateParameters (k # ks) params (gid, rootSquash, mountOptions) =
     (case fmlookup params k of
        None \<Rightarrow> validateParameters ks params (gid, rootSquash, mountOptions)
      | Some v \<Rightarrow>
          if ToLower k = ''gid'' then
            (if ToLower v = ''none'' then validateParameters ks params (''none'', rootSquash, mountOptions)
             else if snd (ParseUint 64 v) = None \<and> fst (ParseUint 64 v) \<noteq> 0 then
               validateParameters ks params (v, rootSquash, mountOptions)
             else Inl (Errorf ''invalid value for parameter gid: %v. valid values are: 'none' or a non-zero integer'' [v]))
          else if ToLower k = ''rootsquash'' then
            (case ParseBool v of
               None \<Rightarrow> Inl (Errorf (''invalid value for parameter rootSquash: %v. valid values are: 'true' or 'false'' @ [CHR 0x27]) [v])
             | Some b \<Rightarrow> validateParameters ks params (gid, b, mountOptions))
          else if ToLower k = ''mountoptions'' then validateParameters ks params (gid, rootSquash, v)
          else Inl (Errorf ''invalid parameter: %q'' [k]))"

text \<open>The space available is the product of two 64-bit integers.\<close>

definition validateOptions ::
  "'o nfsOS \<Rightarrow> string list \<Rightarrow> VolumeOptions \<Rightarrow> nfsProvisioner \<Rightarrow> 'o \<Rightarrow> (string \<times> bool \<times> string) result" where
  "validateOptions os order options p st =
     (case validateParameters order (vo_Parameters options) (''none'', False, '''') of
        Inl err \<Rightarrow> Inl err
      | Inr r \<Rightarrow>
          if vo_Selector options then Inl (Errorf ''claim.Spec.Selector is not supported'' [])
          else
            (case os_Statfs os (np_exportDir p) st of
               Inl err \<Rightarrow> Inl (Wrapf ''error calling statfs on %v: %v'' [np_exportDir p] err)
             | Inr (bavail, bsize) \<Rightarrow>
                 let available = sint (bavail * bsize)
                 in if vo_Request options > available then
                      Inl (Errorf ''insufficient available space %v bytes to satisfy claim for %v bytes''
                             [FormatInt available, FormatInt (vo_Request options)])
                    else Inr r))"

definition validSubset :: "string \<Rightarrow> EndpointSubset \<Rightarrow> bool" where
  "validSubset podIP endpoint \<longleftrightarrow>
     sub_Addresses endpoint = [podIP] \<and>
     set (sub_Ports endpoint) = {(2049, ''TCP''), (20048, ''TCP''), (111, ''UDP''), (111, ''TCP'')}"

definition getServer :: "'o nfsOS \<Rightarrow> nfsProvisioner \<Rightarrow> 'o \<Rightarrow> string result \<times> 'o" where
  "getServer os p st =
     (if np_outOfCluster p then
        (if np_serverHostname p \<noteq> '''' then (Inr (np_serverHostname p), st)
         else
           (case os_exec os [''hostname'', ''-i''] st of
              ((out, Some err), st) \<Rightarrow>
                (Inl (Wrapf ''hostname -i failed with error: %v, output: %s'' [out] err), st)
            | ((out, None), st) \<Rightarrow>
                (case Fields out of
                   a # _ \<Rightarrow> (Inr a, st)
                 | [] \<Rightarrow> (Inl (Errorf ''hostname -i had bad output %s, no address to use'' [out]), st))))
      else
        let nodeName = os_Getenv os (np_nodeEnv p) st;
            podIP = os_Getenv os (np_podIPEnv p) st;
            serviceName = os_Getenv os (np_serviceEnv p) st;
            namespace = os_Getenv os (np_namespaceEnv p) st
        in if nodeName \<noteq> '''' then (Inr nodeName, st)
           else if podIP = '''' then
             (Inl (Errorf ''pod IP env %s must be set even if intent is to use service cluster IP as NFS server IP''
                     [np_podIPEnv p]), st)
           else if serviceName = '''' then (Inr podIP, st)
           else if namespace = '''' then
             (Inl (Errorf ''service env %s is set but namespace env %s isn't; no way to get the service cluster IP''
                     [np_serviceEnv p, np_namespaceEnv p]), st)
           else
             (case os_GetService os namespace serviceName st of
                (Inl err, st) \<Rightarrow>
                  (Inl (Errorf ''error getting service %s=%s in namespace %s=%s''
                          [np_serviceEnv p, serviceName, np_namespaceEnv p, namespace]), st)
              | (Inr service, st) \<Rightarrow>
                  let (subsets, st) = os_GetEndpoints os namespace serviceName st
                  in if \<not> list_ex (validSubset podIP) subsets then
                       (Inl (Errorf ''service %s=%s is not valid; check that it has for ports %v exactly one endpoint, this pod's IP %s=%s''
                               [np_serviceEnv p, serviceName, np_podIPEnv p, podIP]), st)
                     else if svc_ClusterIP service = ''None'' then
                       (Inl (Errorf ''service %s=%s is valid but it doesn't have a cluster IP''
                               [np_serviceEnv p, serviceName]), st)
                     else (Inr (svc_ClusterIP service), st)))"

section \<open>Provisioning\<close>

definition checkExportLimit :: "nfsProvisioner \<Rightarrow> bool" where
  "checkExportLimit p \<longleftrightarrow> CanExport (np_maxExports p) (np_exporter p)"

definition ShouldProvision :: "nfsProvisioner \<Rightarrow> bool" where
  "ShouldProvision p \<longleftrightarrow> checkExportLimit p"

abbreviation ModeSetgid :: nat where
  "ModeSetgid \<equiv> 2 ^ 22"

definition createDirectory :: "'o nfsOS \<Rightarrow> string \<Rightarrow> string \<Rightarrow> nfsProvisioner \<Rightarrow> 'o \<Rightarrow> error option \<times> 'o" where
  "createDirectory os directory gid p st =
     (let path = Join [np_exportDir p, directory]
      in if \<not> os_NotExist os path st then (Some (Errorf ''the path already exists'' []), st)
         else
           let perm = (if gid \<noteq> ''none'' then 57 + ModeSetgid else 511 + ModeSetgid)
           in (case os_MkdirAll os path perm st of
                 (Some err, st) \<Rightarrow> (Some err, st)
               | (None, st) \<Rightarrow>
                   (case os_Chmod os path perm st of
                      (Some err, st) \<Rightarrow> (Some err, snd (os_RemoveAll os path st))
                    | (None, st) \<Rightarrow>
                        if gid \<noteq> ''none'' then
                          (case ParseUint 64 gid of
                             (groupID, Some e) \<Rightarrow>
                               (Some (Errorf ''strconv.ParseUint failed with error: %v'' []), snd (os_RemoveAll os path st))
                           | (groupID, None) \<Rightarrow>
                               (case os_exec os [''chgrp'', FormatUint groupID, path] st of
                                  ((out, Some err), st) \<Rightarrow>
                                    (Some (Wrapf ''chgrp failed with error: %v, output: %s'' [out] err),
                                     snd (os_RemoveAll os path st))
                                | ((out, None), st) \<Rightarrow> (None, st)))
                        else (None, st))))"

definition createExport ::
  "'o nfsOS \<Rightarrow> string \<Rightarrow> bool \<Rightarrow> nfsProvisioner \<times> 'o \<Rightarrow>
     ((string \<times> 16 word) result \<times> nfsProvisioner \<times> 'o) option" where
  "createExport os directory rootSquash = (\<lambda>(p, st).
     let path = Join [np_exportDir p, directory]
     in (case AddExportBlock os path rootSquash (np_exportSubnet p) (np_exporter p, st) of
           None \<Rightarrow> None
         | Some (Inl err, e, st) \<Rightarrow>
             Some (Inl (Wrapf ''error adding export block for path %s: %v'' [path] err), p\<lparr>np_exporter := e\<rparr>, st)
         | Some (Inr (block, exportID), e, st) \<Rightarrow>
             (case exporter_Export os path e st of
                (Some err, st) \<Rightarrow>
                  let (_, e, st) = RemoveExportBlock os block exportID (e, st)
                  in Some (Inl (Wrapf ''error exporting export block %s: %v'' [block] err), p\<lparr>np_exporter := e\<rparr>, st)
              | (None, st) \<Rightarrow> Some (Inr (block, exportID), p\<lparr>np_exporter := e\<rparr>, st))))"

definition createQuota ::
  "'o nfsOS \<Rightarrow> string \<Rightarrow> int \<Rightarrow> nfsProvisioner \<times> 'o \<Rightarrow>
     ((string \<times> 16 word) result \<times> nfsProvisioner \<times> 'o) option" where
  "createQuota os directory capacity = (\<lambda>(p, st).
     let path = Join [np_exportDir p, directory]; limit = FormatInt capacity
     in (case AddProject os path limit (np_quotaer p, st) of
           None \<Rightarrow> None
         | Some (Inl err, q, st) \<Rightarrow>
             Some (Inl (Wrapf ''error adding project for path %s: %v'' [path] err), p\<lparr>np_quotaer := q\<rparr>, st)
         | Some (Inr (block, projectID), q, st) \<Rightarrow>
             (case SetQuota os projectID path limit (q, st) of
                (Some err, st) \<Rightarrow>
                  let (_, q, st) = RemoveProject os block projectID (q, st)
                  in Some (Inl (Wrapf ''error setting quota for path %s: %v'' [path] err), p\<lparr>np_quotaer := q\<rparr>, st)
              | (None, st) \<Rightarrow> Some (Inr (block, projectID), p\<lparr>np_quotaer := q\<rparr>, st))))"

definition createVolume ::
  "'o nfsOS \<Rightarrow> string list \<Rightarrow> VolumeOptions \<Rightarrow> nfsProvisioner \<times> 'o \<Rightarrow>
     (volume result \<times> nfsProvisioner \<times> 'o) option" where
  "createVolume os order options = (\<lambda>(p, st).
     case validateOptions os order options p st of
       Inl err \<Rightarrow> Some (Inl (Wrapf ''error validating options for volume: %v'' [] err), p, st)
     | Inr (gid, rootSquash, mountOptions) \<Rightarrow>
     (case getServer os p st of
        (Inl err, st) \<Rightarrow> Some (Inl (Wrapf ''error getting NFS server IP for volume: %v'' [] err), p, st)
      | (Inr server, st) \<Rightarrow>
     if \<not> checkExportLimit p then
       Some (Inl (IgnoredError ''export limit of %v has been reached'' [FormatInt (np_maxExports p)]), p, st)
     else
       let path = Join [np_exportDir p, vo_PVName options]
       in (case createDirectory os (vo_PVName options) gid p st of
             (Some err, st) \<Rightarrow> Some (Inl (Wrapf ''error creating directory for volume: %v'' [] err), p, st)
           | (None, st) \<Rightarrow>
          (case createExport os (vo_PVName options) rootSquash (p, st) of
             None \<Rightarrow> None
           | Some (Inl err, p, st) \<Rightarrow>
               Some (Inl (Wrapf ''error creating export for volume: %v'' [] err), p, snd (os_RemoveAll os path st))
           | Some (Inr (exportBlock, exportID), p, st) \<Rightarrow>
          (case createQuota os (vo_PVName options) (vo_Request options) (p, st) of
             None \<Rightarrow> None
           | Some (Inl err, p, st) \<Rightarrow>
               Some (Inl (Wrapf ''error creating quota for volume: %v'' [] err), p, snd (os_RemoveAll os path st))
           | Some (Inr (pblock, projectID), p, st) \<Rightarrow>
               Some (Inr \<lparr>vol_server = server, vol_path = path, vol_exportBlock = exportBlock,
                          vol_exportID = exportID, vol_projectBlock = pblock, vol_projectID = projectID,
                          vol_supGroup = 0, vol_mountOptions = mountOptions\<rparr>, p, st))))))"

definition volumeAnnotations :: "VolumeOptions \<Rightarrow> nfsProvisioner \<Rightarrow> volume \<Rightarrow> string gomap" where
  "volumeAnnotations options p volume =
     (let annotations = fmupd annCreatedBy ''nfs-dynamic-provisioner'' fmempty;
          annotations = fmupd annExportBlock (vol_exportBlock volume) annotations;
          annotations = fmupd annExportID (FormatUint (unat (vol_exportID volume))) annotations;
          annotations = fmupd annProjectBlock (vol_projectBlock volume) annotations;
          annotations = fmupd annProjectID (FormatUint (unat (vol_projectID volume))) annotations;
          annotations = (if vol_supGroup volume \<noteq> 0
                         then fmupd VolumeGidAnnotationKey (FormatUint (vol_supGroup volume)) annotations
                         else annotations);
          annotations = (if vol_mountOptions volume \<noteq> '''' \<and> vo_MountOptions options = None
                         then fmupd MountOptionAnnotation (vol_mountOptions volume) annotations
                         else annotations)
      in fmupd annProvisionerID (np_identity p) annotations)"

definition Provision ::
  "'o nfsOS \<Rightarrow> string list \<Rightarrow> VolumeOptions \<Rightarrow> nfsProvisioner \<times> 'o \<Rightarrow>
     (PersistentVolume result \<times> nfsProvisioner \<times> 'o) option" where
  "Provision os order options = (\<lambda>(p, st).
     case createVolume os order options (p, st) of
       None \<Rightarrow> None
     | Some (Inl err, p, st) \<Rightarrow> Some (Inl err, p, st)
     | Some (Inr volume, p, st) \<Rightarrow>
         Some (Inr (zero_PV\<lparr>pv_Name := vo_PVName options,
                            pv_Annotations := volumeAnnotations options p volume,
                            pv_ReclaimPolicy := vo_ReclaimPolicy options,
                            pv_AccessModes := vo_AccessModes options,
                            pv_Capacity := Some (vo_Request options),
                            pv_NFS := Some \<lparr>nfs_Server = vol_server volume, nfs_Path = vol_path volume,
                                            nfs_ReadOnly = False\<rparr>,
                            pv_MountOptions := (case vo_MountOptions options of None \<Rightarrow> [] | Some m \<Rightarrow> m)\<rparr>),
               p, st))"

section \<open>Deleting\<close>

definition provisioned :: "PersistentVolume \<Rightarrow> nfsProvisioner \<Rightarrow> bool result" where
  "provisioned volume p =
     (case fmlookup (pv_Annotations volume) annProvisionerID of
        None \<Rightarrow> Inl (Errorf ''PV doesn't have an annotation %s'' [annProvisionerID])
      | Some provisionerID \<Rightarrow> Inr (provisionerID = np_identity p))"

definition deleteDirectory :: "'o nfsOS \<Rightarrow> PersistentVolume \<Rightarrow> nfsProvisioner \<Rightarrow> 'o \<Rightarrow> error option \<times> 'o" where
  "deleteDirectory os volume p st =
     (let path = Join [np_exportDir p, pv_Name volume]
      in if os_NotExist os path st then (None, st) else os_RemoveAll os path st)"

definition getBlockAndID :: "PersistentVolume \<Rightarrow> string \<Rightarrow> string \<Rightarrow> (string \<times> 16 word) result" where
  "getBlockAndID volume annBlock annID =
     (case fmlookup (pv_Annotations volume) annBlock of
        None \<Rightarrow> Inl (Errorf ''PV doesn't have an annotation with key %s'' [annBlock])
      | Some block \<Rightarrow>
          (case fmlookup (pv_Annotations volume) annID of
             None \<Rightarrow> Inl (Errorf ''PV doesn't have an annotation %s'' [annID])
           | Some idStr \<Rightarrow> Inr (block, word_of_nat (fst (ParseUint 16 idStr)))))"

definition deleteExport ::
  "'o nfsOS \<Rightarrow> PersistentVolume \<Rightarrow> nfsProvisioner \<times> 'o \<Rightarrow> error option \<times> nfsProvisioner \<times> 'o" where
  "deleteExport os volume = (\<lambda>(p, st).
     case getBlockAndID volume annExportBlock annExportID of
       Inl err \<Rightarrow> (Some (Wrapf ''error getting block &/or id from annotations: %v'' [] err), p, st)
     | Inr (block, exportID) \<Rightarrow>
         (case RemoveExportBlock os block exportID (np_exporter p, st) of
            (Some err, e, st) \<Rightarrow>
              (Some (Wrapf ''error removing the export from the config file: %v'' [] err), p\<lparr>np_exporter := e\<rparr>, st)
          | (None, e, st) \<Rightarrow>
              (case exporter_Unexport os volume e st of
                 (Some err, st) \<Rightarrow>
                   (Some (Wrapf ''removed export from the config file but error unexporting it: %v'' [] err),
                    p\<lparr>np_exporter := e\<rparr>, st)
               | (None, st) \<Rightarrow> (None, p\<lparr>np_exporter := e\<rparr>, st))))"

definition deleteQuota ::
  "'o nfsOS \<Rightarrow> PersistentVolume \<Rightarrow> nfsProvisioner \<times> 'o \<Rightarrow> error option \<times> nfsProvisioner \<times> 'o" where
  "deleteQuota os volume = (\<lambda>(p, st).
     case getBlockAndID volume annProjectBlock annProjectID of
       Inl err \<Rightarrow> (Some (Wrapf ''error getting block &/or id from annotations: %v'' [] err), p, st)
     | Inr (block, projectID) \<Rightarrow>
         (case RemoveProject os block projectID (np_quotaer p, st) of
            (Some err, q, st) \<Rightarrow>
              (Some (Wrapf ''error removing the quota project from the projects file: %v'' [] err),
               p\<lparr>np_quotaer := q\<rparr>, st)
          | (None, q, st) \<Rightarrow>
              (case UnsetQuota q of
                 Some err \<Rightarrow>
                   (Some (Wrapf ''removed quota project from the project file but error unsetting the quota: %v''
                            [] err), p\<lparr>np_quotaer := q\<rparr>, st)
               | None \<Rightarrow> (None, p\<lparr>np_quotaer := q\<rparr>, st))))"

definition Delete ::
  "'o nfsOS \<Rightarrow> PersistentVolume \<Rightarrow> nfsProvisioner \<times> 'o \<Rightarrow> error option \<times> nfsProvisioner \<times> 'o" where
  "Delete os volume = (\<lambda>(p, st).
     case provisioned volume p of
       Inl err \<Rightarrow>
         (Some (Wrapf ''error determining if this provisioner was the one to provision volume %q: %v''
                  [pv_Name volume] err), p, st)
     | Inr own \<Rightarrow>
     if \<not> own then
       (Some (IgnoredError ''this provisioner id %s didn't provision volume %q and so can't delete it; id %s did & can''
                [np_identity p, pv_Name volume,
                 case fmlookup (pv_Annotations volume) annProvisionerID of None \<Rightarrow> '''' | Some i \<Rightarrow> i]), p, st)
     else
       (case deleteDirectory os volume p st of
          (Some err, st) \<Rightarrow> (Some (Wrapf ''error deleting volume's backing path: %v'' [] err), p, st)
        | (None, st) \<Rightarrow>
       (case deleteExport os volume (p, st) of
          (Some err, p, st) \<Rightarrow>
            (Some (Wrapf ''deleted the volume's backing path but error deleting export: %v'' [] err), p, st)
        | (None, p, st) \<Rightarrow>
       (case deleteQuota os volume (p, st) of
          (Some err, p, st) \<Rightarrow>
            (Some (Wrapf ''deleted the volume's backing path & export but error deleting quota: %v'' [] err), p, st)
        | (None, p, st) \<Rightarrow> (None, p, st)))))"

section \<open>The tables of identifiers\<close>

text \<open>Both ways of acquiring a resource are the one the contract of the registries describes.\<close>

definition with_export :: "16 word \<Rightarrow> nfsProvisioner \<Rightarrow> nfsProvisioner" where
  "with_export i p = p\<lparr>np_exporter := mark_export i (np_exporter p)\<rparr>"

lemma createExport_acquire:
  "createExport os d rs (p, st) =
     map_option (\<lambda>(r, e, st). (r, p\<lparr>np_exporter := e\<rparr>, st))
       (exports.acquire os (Wrapf ''error adding export block for path %s: %v'' [Join [np_exportDir p, d]])
          (\<lambda>block. Wrapf ''error exporting export block %s: %v'' [block])
          (\<lambda>i e st. exporter_Export os (Join [np_exportDir p, d]) e st)
          (Join [np_exportDir p, d], rs, np_exportSubnet p) (np_exporter p, st))"
  by (simp add: createExport_def exports.acquire_def Let_def split: option.split sum.split prod.split)

lemma createQuota_acquire:
  "createQuota os d c (p, st) =
     map_option (\<lambda>(r, q, st). (r, p\<lparr>np_quotaer := q\<rparr>, st))
       (projects.acquire os (Wrapf ''error adding project for path %s: %v'' [Join [np_exportDir p, d]])
          (\<lambda>block. Wrapf ''error setting quota for path %s: %v'' [Join [np_exportDir p, d]])
          (\<lambda>i q st. SetQuota os i (Join [np_exportDir p, d]) (FormatInt c) (q, st))
          (Join [np_exportDir p, d], FormatInt c) (np_quotaer p, st))"
  by (simp add: createQuota_def projects.acquire_def Let_def split: option.split sum.split prod.split)

lemma createExport_Inl: "createExport os d rs (p, st) = Some (Inl err, p', st') \<Longrightarrow> p' = p"
  by (auto simp: createExport_acquire dest: exports.acquire_Inl)

lemma createExport_Inr:
  "createExport os d rs (p, st) = Some (Inr (block, i), p', st') \<Longrightarrow>
     export_free i (np_exporter p) \<and> p' = with_export i p"
  by (auto simp: createExport_acquire with_export_def mark_export_def dest: exports.acquire_Inr)

lemma createQuota_Inl: "createQuota os d c (p, st) = Some (Inl err, p', st') \<Longrightarrow> p' = p"
  by (auto simp: createQuota_acquire dest: projects.acquire_Inl)

lemma createQuota_Inr:
  "createQuota os d c (p, st) = Some (Inr (block, i), p', st') \<Longrightarrow>
     project_free i (np_quotaer p) \<and> p' = p\<lparr>np_quotaer := mark_project i (np_quotaer p)\<rparr>"
  by (auto simp: createQuota_acquire dest: projects.acquire_Inr)

section \<open>Provisioning and deleting\<close>

lemma createVolume_Inr:
  assumes "createVolume os order options (p, st) = Some (Inr v, p', st')"
  shows "checkExportLimit p"
    and "export_free (vol_exportID v) (np_exporter p)"
    and "project_free (vol_projectID v) (np_quotaer p)"
    and "p' = (with_export (vol_exportID v) p)\<lparr>np_quotaer := mark_project (vol_projectID v) (np_quotaer p)\<rparr>"
    and "vol_supGroup v = 0"
proof -
  obtain rs p1 st1 eb i st2 pb j c where
    limit: "checkExportLimit p" and
    ex: "createExport os (vo_PVName options) rs (p, st1) = Some (Inr (eb, i), p1, st2)" and
    qu: "createQuota os (vo_PVName options) c (p1, st2) = Some (Inr (pb, j), p', st')" and
    v: "vol_exportID v = i" "vol_projectID v = j" "vol_supGroup v = 0"
    using assms
    by (auto simp: createVolume_def Let_def split: sum.splits prod.splits option.splits if_splits)
  show "checkExportLimit p" by (rule limit)
  have "export_free i (np_exporter p)" "p1 = with_export i p"
    using createExport_Inr [OF ex] by simp_all
  moreover have "project_free j (np_quotaer p1)" "p' = p1\<lparr>np_quotaer := mark_project j (np_quotaer p1)\<rparr>"
    using createQuota_Inr [OF qu] by simp_all
  ultimately show "export_free (vol_exportID v) (np_exporter p)"
    and "project_free (vol_projectID v) (np_quotaer p)"
    and "p' = (with_export (vol_exportID v) p)\<lparr>np_quotaer := mark_project (vol_projectID v) (np_quotaer p)\<rparr>"
    by (simp_all add: v with_export_def mark_export_def)
  show "vol_supGroup v = 0" by (rule v(3))
qed

lemma createVolume_Inl:
  assumes "createVolume os order options (p, st) = Some (Inl err, p', st')"
  shows "if \<exists>e. err = Wrapf ''error creating quota for volume: %v'' [] e
         then \<exists>i. export_free i (np_exporter p) \<and> p' = with_export i p
         else p' = p"
  using assms
  by (auto simp: createVolume_def Let_def dest!: createExport_Inl createExport_Inr createQuota_Inl
      split: sum.splits prod.splits option.splits if_splits)

lemma Provision_Inr:
  assumes "Provision os order options (p, st) = Some (Inr pv, p', st')"
  obtains v where "createVolume os order options (p, st) = Some (Inr v, p', st')"
    and "pv_Annotations pv = volumeAnnotations options p' v"
  using assms by (auto simp: Provision_def split: option.splits sum.splits prod.splits)

lemma Provision_table:
  assumes "Provision os order options (p, st) = Some (r, p', st')"
  shows "case r of
           Inl err \<Rightarrow> if \<exists>e. err = Wrapf ''error creating quota for volume: %v'' [] e
                      then \<exists>i. export_free i (np_exporter p) \<and> p' = with_export i p
                      else p' = p
         | Inr pv \<Rightarrow> \<exists>i j. export_free i (np_exporter p) \<and> project_free j (np_quotaer p) \<and>
                      p' = (with_export i p)\<lparr>np_quotaer := mark_project j (np_quotaer p)\<rparr>"
proof (cases r)
  case (Inl err)
  then have "createVolume os order options (p, st) = Some (Inl err, p', st')"
    using assms by (auto simp: Provision_def split: option.splits sum.splits prod.splits)
  from createVolume_Inl [OF this] Inl show ?thesis by simp
next
  case (Inr pv)
  from Provision_Inr [OF assms [unfolded Inr]] obtain v where
    "createVolume os order options (p, st) = Some (Inr v, p', st')" by blast
  from createVolume_Inr(2-4) [OF this] Inr show ?thesis by auto
qed

lemma ParseUint16: "word_of_nat (fst (ParseUint 16 (FormatUint (unat (i :: 16 word))))) = i"
proof -
  have "unat i < 2 ^ 16" using unsigned_less [of i] by simp
  then show ?thesis by (simp add: ParseUint_FormatUint del: power_numeral)
qed

lemma getBlockAndID_volume:
  assumes "pv_Annotations pv = volumeAnnotations options p v"
  shows "getBlockAndID pv annExportBlock annExportID = Inr (vol_exportBlock v, vol_exportID v)"
    and "getBlockAndID pv annProjectBlock annProjectID = Inr (vol_projectBlock v, vol_projectID v)"
    and "provisioned pv p = Inr True"
  using ParseUint16 [of "vol_exportID v"] ParseUint16 [of "vol_projectID v"]
  by (auto simp: getBlockAndID_def provisioned_def assms volumeAnnotations_def Let_def)

lemma deleteExport_table:
  assumes "deleteExport os pv (p, st) = (err, p', st')"
    and "getBlockAndID pv annExportBlock annExportID = Inr (block, i)"
  shows "p' = p\<lparr>np_exporter := (np_exporter p)\<lparr>ex_exportIDs := deleteID (ex_exportIDs (np_exporter p)) i\<rparr>\<rparr>"
  using assms
  by (auto simp: deleteExport_def dest!: RemoveExportBlock_table split: prod.splits option.splits)

lemma deleteQuota_table:
  assumes "deleteQuota os pv (p, st) = (err, p', st')"
    and "getBlockAndID pv annProjectBlock annProjectID = Inr (block, j)"
    and "np_quotaer p = mark_project j q" and "project_free j q"
  shows "p' = p\<lparr>np_quotaer := q\<rparr>"
  using assms
  by (auto simp: deleteQuota_def UnsetQuota_def dest!: RemoveProject_mark split: prod.splits option.splits)


text \<open>
  What a failed provisioning leaves behind: the provisioner's tables are as before, except when
  creating the quota failed; then an export identifier that was free stays in use although no volume
  was made (the directory is removed, the export block and its identifier are not).
\<close>

theorem failed_provision_leaks_export:
  assumes "Provision os order options (p, st) = Some (Inl err, p', st')"
  shows "if \<exists>e. err = Wrapf ''error creating quota for volume: %v'' [] e
         then \<exists>i. fmlookup (ex_exportIDs (np_exporter p)) i = None \<and>
                  p' = p\<lparr>np_exporter := (np_exporter p)\<lparr>ex_exportIDs := fmupd i True (ex_exportIDs (np_exporter p))\<rparr>\<rparr>
         else p' = p"
  using Provision_table [OF assms]
  by (auto simp: with_export_def mark_export_def export_free_def split: if_splits)

text \<open>
  The limit on exports is kept: a successful provisioning adds exactly one export, and with a
  limit (one that is not negative) the number of exports never exceeds it.
\<close>

theorem Provision_keeps_limit:
  assumes "Provision os order options (p, st) = Some (Inr pv, p', st')"
  shows "fcard (fmdom (ex_exportIDs (np_exporter p'))) = Suc (fcard (fmdom (ex_exportIDs (np_exporter p)))) \<and>
         (0 \<le> np_maxExports p \<longrightarrow> int (fcard (fmdom (ex_exportIDs (np_exporter p')))) \<le> np_maxExports p')"
proof -
  obtain v where v: "createVolume os order options (p, st) = Some (Inr v, p', st')"
    using Provision_Inr [OF assms] by blast
  note created = createVolume_Inr [OF v]
  from created(2) have "fcard (fmdom (ex_exportIDs (np_exporter p'))) = Suc (fcard (fmdom (ex_exportIDs (np_exporter p))))"
    by (simp add: created(4) with_export_def mark_export_def export_free_def fcard_finsert_if fmlookup_dom_iff)
  moreover have "np_maxExports p' = np_maxExports p" by (simp add: created(4) with_export_def mark_export_def)
  ultimately show ?thesis
    using created(1) by (auto simp: checkExportLimit_def CanExport_def split: if_splits)
qed

section \<open>A concrete provisioner\<close>

definition demo_provisioner :: "quotaer \<Rightarrow> nfsProvisioner" where
  "demo_provisioner q =
     \<lparr>np_exportDir = ''/export'', np_outOfCluster = False, np_exporter = demo_exporter, np_quotaer = q,
      np_serverHostname = '''', np_maxExports = 2, np_exportSubnet = ''*'', np_identity = ''me'',
      np_podIPEnv = ''POD_IP'', np_serviceEnv = ''SERVICE_NAME'', np_namespaceEnv = ''POD_NAMESPACE'',
      np_nodeEnv = ''NODE_NAME''\<rparr>"

definition demo_options :: VolumeOptions where
  "demo_options =
     \<lparr>vo_PVName = ''pvc-1'', vo_Parameters = fmempty, vo_ReclaimPolicy = ''Delete'', vo_MountOptions = None,
      vo_Selector = False, vo_AccessModes = [''ReadWriteMany''], vo_Request = 1024, vo_VolumeMode = None,
      vo_PVCName = ''claim'', vo_PVCNamespace = ''default'', vo_PVCAnnotations = fmempty\<rparr>"

lemma demo_free: "firstFreeID (fmupd 1 True fmempty) 1 = Some 2"
  by (simp add: firstFreeID.simps)

lemma demo_nfs_path: "Join [''/export'', ''pvc-1''] = ''/export/pvc-1''"
  by code_simp

lemma demo_Provision:
  "\<exists>pv p' st'. Provision demo_os [] demo_options (demo_provisioner DummyQuotaer, demo_nfs) = Some (Inr pv, p', st')"
  by (simp add: Provision_def createVolume_def validateOptions_def getServer_def checkExportLimit_def CanExport_def
      createDirectory_def createExport_def AddExportBlock_def generateID_def addToFile_def exporter_Export_def
      exportfs_def createQuota_def AddProject_def SetQuota_def demo_provisioner_def demo_options_def demo_exporter_def
      demo_os_def demo_nfs_def demo_free demo_nfs_path Let_def fcard_finsert_if)


theorem Provision_keeps_limit_witness:
  "\<exists>pv p' st'. Provision demo_os [] demo_options (demo_provisioner DummyQuotaer, demo_nfs) = Some (Inr pv, p', st') \<and>
     fcard (fmdom (ex_exportIDs (np_exporter p'))) = 2"
proof -
  obtain pv p' st' where prov: "Provision demo_os [] demo_options (demo_provisioner DummyQuotaer, demo_nfs) =
      Some (Inr pv, p', st')"
    using demo_Provision by blast
  from Provision_keeps_limit [OF prov] prov show ?thesis
    by (auto simp: demo_provisioner_def demo_exporter_def fcard_finsert_if)
qed

text \<open>The same system where \<open>xfs_quota\<close> fails.\<close>

definition demo_os_noquota :: "demo_fs nfsOS" where
  "demo_os_noquota = demo_os\<lparr>os_exec := (\<lambda>argv st.
     if hd argv = ''xfs_quota'' then (('''', Some (ExtErr ''exit status 1'')), st) else (('''', None), st))\<rparr>"

definition demo_quotaer :: quotaer where
  "demo_quotaer = XfsQuotaer \<lparr>xq_xfsPath = ''/export'', xq_projectsFile = ''/export/projects'', xq_projectIDs = fmempty\<rparr>"

theorem failed_provision_leaks_export_witness:
  "\<exists>err i p' st'. Provision demo_os_noquota [] demo_options (demo_provisioner demo_quotaer, demo_nfs) =
       Some (Inl err, p', st') \<and>
     fmlookup (ex_exportIDs demo_exporter) i = None \<and> fmlookup (ex_exportIDs (np_exporter p')) i = Some True"
proof -
  let ?p = "demo_provisioner demo_quotaer"
  have one: "firstFreeID fmempty 1 = Some 1" by (simp add: firstFreeID.simps)
  have "\<exists>e p' st'. Provision demo_os_noquota [] demo_options (?p, demo_nfs) =
      Some (Inl (Wrapf ''error creating quota for volume: %v'' [] e), p', st')"
    by (simp add: Provision_def createVolume_def validateOptions_def getServer_def checkExportLimit_def CanExport_def
        createDirectory_def createExport_def AddExportBlock_def generateID_def addToFile_def exporter_Export_def
        exportfs_def createQuota_def AddProject_def xq_AddProject_def removeFromFile_def demo_provisioner_def
        demo_options_def demo_exporter_def demo_quotaer_def demo_os_noquota_def demo_os_def demo_nfs_def demo_free
        demo_nfs_path one Let_def fcard_finsert_if)
  then obtain e p' st' where prov: "Provision demo_os_noquota [] demo_options (?p, demo_nfs) =
      Some (Inl (Wrapf ''error creating quota for volume: %v'' [] e), p', st')"
    by blast
  from failed_provision_leaks_export [OF prov] obtain i where
    "fmlookup (ex_exportIDs (np_exporter ?p)) i = None"
    "p' = ?p\<lparr>np_exporter := (np_exporter ?p)\<lparr>ex_exportIDs := fmupd i True (ex_exportIDs (np_exporter ?p))\<rparr>\<rparr>"
    by auto
  with prov show ?thesis by (fastforce simp: demo_provisioner_def)
qed

end
