(* ===== verification/CephLib.thy ===== *)
theory CephLib
  imports ProvisionerLib
begin

text \<open>
  What the two Ceph provisioners share: the world they act on and the \<open>monitors\<close> parameter of a
  storage class. \<open>cephOS\<close> holds the functions they call outside the repository: the Kubernetes API
  (secrets, storage classes), the helpers of the provisioning library (cluster DNS, host and port
  of a monitor, rounding of sizes), the operating system (commands with their arguments and
  environment), JSON decoding, and the order in which the runtime ranges over a map. The world's
  state is of type \<open>'o\<close>; functions that only read it do not return it.
\<close>

record provisionOutput =
  po_Path :: string
  po_User :: string
  po_Secret :: string

record 'o cephOS =
  co_range :: "string gomap \<Rightarrow> 'o \<Rightarrow> string list"
  co_FindDNSIP :: "bool \<Rightarrow> 'o \<Rightarrow> string"
  co_LookupHost :: "string \<Rightarrow> string \<Rightarrow> 'o \<Rightarrow> string list result"
  co_ParseIP :: "string \<Rightarrow> bool"
  co_SplitHostPort :: "string \<Rightarrow> string \<times> string"
  co_JoinHostPort :: "string \<Rightarrow> string \<Rightarrow> string"
  co_GetSecret :: "string \<Rightarrow> string \<Rightarrow> 'o \<Rightarrow> string gomap result"
  co_CreateSecret :: "Secret \<Rightarrow> 'o \<Rightarrow> error option \<times> 'o"
  co_DeleteSecret :: "string \<Rightarrow> string \<Rightarrow> 'o \<Rightarrow> error option \<times> 'o"
  co_PVClass :: "PersistentVolume \<Rightarrow> string"
  co_GetClass :: "string \<Rightarrow> 'o \<Rightarrow> string gomap result"
  co_NewUUID :: "'o \<Rightarrow> string \<times> 'o"
  co_exec :: "string \<Rightarrow> string list \<Rightarrow> string list \<Rightarrow> 'o \<Rightarrow> (string \<times> error option) \<times> 'o"
  co_exec_timeout :: "int \<Rightarrow> string \<Rightarrow> string list \<Rightarrow> 'o \<Rightarrow> (string \<times> error option \<times> bool) \<times> 'o"
  co_Unmarshal :: "string \<Rightarrow> provisionOutput"
  co_RoundUpSize :: "int \<Rightarrow> int \<Rightarrow> int"
  co_AccessModesContainedInAll :: "string list \<Rightarrow> string list \<Rightarrow> bool"

text \<open>
  Documented behaviour of the library: a legal order of the range.
\<close>

definition legal_ranges :: "'o cephOS \<Rightarrow> bool" where
  "legal_ranges os \<longleftrightarrow> (\<forall>m st. enumerates (co_range os m st) m)"

section \<open>Monitors\<close>

text \<open>A monitor given by name is replaced by the addresses the cluster's DNS knows for it, if any.\<close>

definition monitorAddrs :: "'o cephOS \<Rightarrow> 'o \<Rightarrow> string \<Rightarrow> string \<Rightarrow> string list" where
  "monitorAddrs os st dnsip m =
     (let (mhost, mport) = co_SplitHostPort os m
      in if dnsip \<noteq> '''' \<and> \<not> co_ParseIP os mhost then
           (case co_LookupHost os mhost dnsip st of
              Inr lookup \<Rightarrow> map (\<lambda>a. co_JoinHostPort os a mport) lookup
            | Inl err \<Rightarrow> [co_JoinHostPort os mhost mport])
         else [co_JoinHostPort os mhost mport])"

definition parseMonitors :: "'o cephOS \<Rightarrow> 'o \<Rightarrow> string \<Rightarrow> string \<Rightarrow> string list" where
  "parseMonitors os st dnsip v = concat (map (monitorAddrs os st dnsip) (split_on (CHR '','') v))"

definition cachedDNSIP :: "'o cephOS \<Rightarrow> bool \<Rightarrow> 'o \<Rightarrow> string \<Rightarrow> string" where
  "cachedDNSIP os client st dnsip = (if dnsip = '''' then co_FindDNSIP os client st else dnsip)"

lemma parseMonitors_Nil_iff:
  "parseMonitors os st dnsip v = [] \<longleftrightarrow>
     dnsip \<noteq> '''' \<and>
     (\<forall>m \<in> set (split_on (CHR '','') v). \<not> co_ParseIP os (fst (co_SplitHostPort os m)) \<and>
        co_LookupHost os (fst (co_SplitHostPort os m)) dnsip st = Inr [])"
proof -
  have one: "monitorAddrs os st dnsip m = [] \<longleftrightarrow> dnsip \<noteq> '''' \<and> \<not> co_ParseIP os (fst (co_SplitHostPort os m)) \<and>
      co_LookupHost os (fst (co_SplitHostPort os m)) dnsip st = Inr []" for m
    by (auto simp: monitorAddrs_def split: prod.split sum.split)
  have "set (split_on (CHR '','') v) \<noteq> {}" by simp
  then show ?thesis by (auto simp: parseMonitors_def one)
qed

section \<open>A concrete world\<close>

text \<open>Its state lists the commands run, and the secrets made and deleted.\<close>


definition demo_params :: "string gomap" where
  "demo_params = fmupd ''monitors'' ''10.0.0.1'' (fmupd ''adminSecretName'' ''admin'' fmempty)"

definition demo_ceph :: "string list list cephOS" where
  "demo_ceph =
     \<lparr>co_range = (\<lambda>m st. sorted_keys m),
      co_FindDNSIP = (\<lambda>_ _. ''''), co_LookupHost = (\<lambda>_ _ _. Inr []), co_ParseIP = (\<lambda>_. True),
      co_SplitHostPort = (\<lambda>m. (m, '''')), co_JoinHostPort = (\<lambda>h p. h),
      co_GetSecret = (\<lambda>_ _ _. Inr (fmupd ''key'' ''AQB'' fmempty)),
      co_CreateSecret = (\<lambda>s st. (None, [''create'', sec_Namespace s, sec_Name s] # st)),
      co_DeleteSecret = (\<lambda>ns n st. (None, [''delete'', ns, n] # st)),
      co_PVClass = (\<lambda>_. ''ceph''),
      co_GetClass = (\<lambda>_ _. Inr demo_params),
      co_NewUUID = (\<lambda>st. (FormatUint (length st), [''uuid''] # st)),
      co_exec = (\<lambda>cmd args env st. ((''out'', None), (cmd # args) # st)),
      co_exec_timeout = (\<lambda>t cmd args st. ((''Watchers: none'', None, False), (cmd # args) # st)),
      co_Unmarshal = (\<lambda>_. \<lparr>po_Path = ''host:/volumes/a'', po_User = ''u'', po_Secret = ''AQC''\<rparr>),
      co_RoundUpSize = (\<lambda>s u. (s + u - 1) div u),
      co_AccessModesContainedInAll = (\<lambda>allowed ms. set ms \<subseteq> set allowed)\<rparr>"

lemma demo_sorted_keys:
  "sorted_keys demo_params = [''adminSecretName'', ''monitors'']"
  "sorted_keys (fmupd ''key'' ''AQB'' fmempty) = [''key'']"
  by code_simp+

lemma demo_ToLower:
  "ToLower ''adminSecretName'' = ''adminsecretname''" "ToLower ''monitors'' = ''monitors''"
  by code_simp+

lemma demo_lookup:
  "fmlookup demo_params ''adminSecretName'' = Some ''admin''" "fmlookup demo_params ''monitors'' = Some ''10.0.0.1''"
  by (simp_all add: demo_params_def)

lemma demo_distinct: "distinct_params demo_params"
  by (auto simp: distinct_params_def demo_params_def demo_ToLower split: if_splits)

lemma demo_GetSecret: "co_GetSecret demo_ceph ns n st = Inr data \<Longrightarrow> map_len data \<le> 1"
  by (auto simp: demo_ceph_def map_len_upd)

definition demo_claim :: VolumeOptions where
  "demo_claim =
     \<lparr>vo_PVName = ''pvc-1'', vo_Parameters = demo_params, vo_ReclaimPolicy = ''Delete'', vo_MountOptions = None,
      vo_Selector = False, vo_AccessModes = [''ReadWriteOnce''], vo_Request = 1500000, vo_VolumeMode = None,
      vo_PVCName = ''claim'', vo_PVCNamespace = ''default'', vo_PVCAnnotations = fmempty\<rparr>"

lemma demo_ceph_fields:
  "co_CreateSecret demo_ceph s st = (None, [''create'', sec_Namespace s, sec_Name s] # st)"
  "co_DeleteSecret demo_ceph ns n st = (None, [''delete'', ns, n] # st)"
  "co_GetClass demo_ceph c st = Inr demo_params"
  "co_NewUUID demo_ceph st = (FormatUint (length st), [''uuid''] # st)"
  "co_exec demo_ceph cmd args env st = ((''out'', None), (cmd # args) # st)"
  "co_exec_timeout demo_ceph t cmd args st = ((''Watchers: none'', None, False), (cmd # args) # st)"
  "co_Unmarshal demo_ceph out = \<lparr>po_Path = ''host:/volumes/a'', po_User = ''u'', po_Secret = ''AQC''\<rparr>"
  "co_RoundUpSize demo_ceph a b = (a + b - 1) div b"
  "co_AccessModesContainedInAll demo_ceph as ms = (set ms \<subseteq> set as)"
  by (simp_all add: demo_ceph_def)

lemmas demo_ceph_simps = demo_ceph_def demo_sorted_keys demo_ToLower demo_lookup demo_claim_def
  cachedDNSIP_def parseMonitors_def monitorAddrs_def

end
