(* ===== verification/CephFS.thy ===== *)
theory CephFS
  imports CephLib
begin

text \<open>
  \<open>ceph/cephfs/cephfs-provisioner.go\<close>: shares of a Ceph file system. The provisioner is a value that
  is passed on, since parsing parameters caches the address of the cluster's DNS in it; a panic is
  \<open>None\<close>. The package flag \<open>disableCephNamespaceIsolation\<close> is an argument.
\<close>

abbreviation cephfs_provisionCmd :: string where
  "cephfs_provisionCmd \<equiv> ''/usr/local/bin/cephfs_provisioner''"

abbreviation cephfs_provisionerIDAnn :: string where
  "cephfs_provisionerIDAnn \<equiv> ''cephFSProvisionerIdentity''"

abbreviation cephShareAnn :: string where
  "cephShareAnn \<equiv> ''cephShare''"

record cephFSProvisioner =
  cf_client :: bool
  cf_identity :: string
  cf_secretNamespace :: string
  cf_enableQuota :: bool
  cf_dnsip :: string

definition newCephFSProvisioner :: "bool \<Rightarrow> string \<Rightarrow> string \<Rightarrow> bool \<Rightarrow> cephFSProvisioner" where
  "newCephFSProvisioner client pid secretNamespace enableQuota =
     \<lparr>cf_client = client, cf_identity = pid, cf_secretNamespace = secretNamespace,
      cf_enableQuota = enableQuota, cf_dnsip = ''''\<rparr>"

definition generateSecretName :: "string \<Rightarrow> string" where
  "generateSecretName user = ''ceph-'' @ user @ ''-secret''"

definition getClaimRefNamespace :: "PersistentVolume \<Rightarrow> string" where
  "getClaimRefNamespace pv = (case pv_ClaimRef pv of Some (ns, name) \<Rightarrow> ns | None \<Rightarrow> '''')"

definition getSecretFromCephFSPersistentVolume :: "PersistentVolume \<Rightarrow> SecretReference result" where
  "getSecretFromCephFSPersistentVolume pv =
     (case pv_CephFS pv of
        None \<Rightarrow> Inl (Errorf ''pv.Spec.PersistentVolumeSource.CephFS is nil'' [])
      | Some source \<Rightarrow>
          (case cephfs_SecretRef source of
             None \<Rightarrow> Inl (Errorf ''pv.Spec.PersistentVolumeSource.CephFS.SecretRef is nil'' [])
           | Some ref \<Rightarrow>
               if length (sr_Namespace ref) > 0 then Inr ref
               else
                 let ns = getClaimRefNamespace pv
                 in if length ns \<le> 0 then
                      Inl (Errorf ''both pv.Spec.SecretRef.Namespace and pv.Spec.ClaimRef.Namespace are empty'' [])
                    else Inr \<lparr>sr_Name = sr_Name ref, sr_Namespace = ns\<rparr>))"

section \<open>Parameters\<close>

text \<open>The variables of \<open>parseParameters\<close>, with the cached address of the DNS.\<close>

record cephfsParams =
  cp_cluster :: string
  cp_adminID :: string
  cp_adminSecretName :: string
  cp_adminSecretNamespace :: string
  cp_pvcRoot :: string
  cp_mon :: "string list"
  cp_deterministicNames :: bool
  cp_dnsip :: string

definition cephfs_defaults :: "cephFSProvisioner \<Rightarrow> cephfsParams" where
  "cephfs_defaults p =
     \<lparr>cp_cluster = ''ceph'', cp_adminID = ''admin'', cp_adminSecretName = '''',
      cp_adminSecretNamespace = ''default'', cp_pvcRoot = ''/volumes/kubernetes'', cp_mon = [],
      cp_deterministicNames = False, cp_dnsip = cf_dnsip p\<rparr>"

definition cephfs_param ::
  "'o cephOS \<Rightarrow> bool \<Rightarrow> 'o \<Rightarrow> string \<Rightarrow> string \<Rightarrow> cephfsParams \<Rightarrow> (error \<times> string) + cephfsParams" where
  "cephfs_param os client st k v c =
     (if ToLower k = ''cluster'' then Inr (c\<lparr>cp_cluster := v\<rparr>)
      else if ToLower k = ''monitors'' then
        let dnsip = cachedDNSIP os client st (cp_dnsip c)
        in Inr (c\<lparr>cp_dnsip := dnsip, cp_mon := cp_mon c @ parseMonitors os st dnsip v\<rparr>)
      else if ToLower k = ''adminid'' then Inr (c\<lparr>cp_adminID := v\<rparr>)
      else if ToLower k = ''adminsecretname'' then Inr (c\<lparr>cp_adminSecretName := v\<rparr>)
      else if ToLower k = ''adminsecretnamespace'' then Inr (c\<lparr>cp_adminSecretNamespace := v\<rparr>)
      else if ToLower k = ''claimroot'' then Inr (c\<lparr>cp_pvcRoot := v\<rparr>)
      else if ToLower k = ''deterministicnames'' then
        Inr (c\<lparr>cp_deterministicNames := (case ParseBool v of Some b \<Rightarrow> b | None \<Rightarrow> False)\<rparr>)
      else Inl (Errorf ''invalid option %q'' [k], cp_dnsip c))"

definition cephfs_parsePVSecret :: "'o cephOS \<Rightarrow> cephFSProvisioner \<Rightarrow> 'o \<Rightarrow> string \<Rightarrow> string \<Rightarrow> string result" where
  "cephfs_parsePVSecret os p st ns secretName =
     (if \<not> cf_client p then Inl (Errorf ''Cannot get kube client'' [])
      else
        (case co_GetSecret os ns secretName st of
           Inl err \<Rightarrow> Inl err
         | Inr data \<Rightarrow>
             (case map_values (co_range os data st) data of
                v # _ \<Rightarrow> Inr v
              | [] \<Rightarrow> Inl (Errorf ''no secret found'' []))))"

type_synonym cephfsConfig = "string \<times> string \<times> string \<times> string \<times> string list \<times> bool"

definition cephfs_parseParameters ::
  "'o cephOS \<Rightarrow> string gomap \<Rightarrow> 'o \<Rightarrow> cephFSProvisioner \<Rightarrow> cephfsConfig result \<times> cephFSProvisioner" where
  "cephfs_parseParameters os parameters st p =
     (case range_loop (cephfs_param os (cf_client p) st) (co_range os parameters st) parameters (cephfs_defaults p) of
        Inl (err, dnsip) \<Rightarrow> (Inl err, p\<lparr>cf_dnsip := dnsip\<rparr>)
      | Inr c \<Rightarrow>
          (let p = p\<lparr>cf_dnsip := cp_dnsip c\<rparr>
           in if cp_adminSecretName c = '''' then (Inl (Errorf ''missing Ceph admin secret name'' []), p)
              else
                (case cephfs_parsePVSecret os p st (cp_adminSecretNamespace c) (cp_adminSecretName c) of
                   Inl err \<Rightarrow>
                     (Inl (Wrapf ''failed to get admin secret from [%q/%q]: %v''
                             [cp_adminSecretNamespace c, cp_adminSecretName c] err), p)
                 | Inr adminSecret \<Rightarrow>
                     if length (cp_mon c) < 1 then (Inl (Errorf ''missing Ceph monitors'' []), p)
                     else
                       (Inr (cp_cluster c, cp_adminID c, adminSecret, cp_pvcRoot c, cp_mon c,
                             cp_deterministicNames c), p))))"

section \<open>Provision and Delete\<close>

definition cephfs_env :: "cephfsConfig \<Rightarrow> string list" where
  "cephfs_env = (\<lambda>(cluster, adminID, adminSecret, pvcRoot, mon, det).
     [''CEPH_CLUSTER_NAME='' @ cluster, ''CEPH_MON='' @ join_with '','' mon, ''CEPH_AUTH_ID='' @ adminID,
      ''CEPH_AUTH_KEY='' @ adminSecret, ''CEPH_VOLUME_ROOT='' @ pvcRoot])"

definition isolationEnv :: "bool \<Rightarrow> string list" where
  "isolationEnv disabled = (if disabled then [''CEPH_NAMESPACE_ISOLATION_DISABLED=true''] else [])"

definition cephfs_names :: "'o cephOS \<Rightarrow> VolumeOptions \<Rightarrow> bool \<Rightarrow> 'o \<Rightarrow> (string \<times> string) \<times> 'o" where
  "cephfs_names os options deterministicNames st =
     (if deterministicNames then
        ((vo_PVCName options, ''k8s.'' @ vo_PVCNamespace options @ ''.'' @ vo_PVCName options), st)
      else
        let (u, st) = co_NewUUID os st; (u', st) = co_NewUUID os st
        in ((''kubernetes-dynamic-pvc-'' @ u, ''kubernetes-dynamic-user-'' @ u'), st))"

definition cephfs_args :: "cephFSProvisioner \<Rightarrow> VolumeOptions \<Rightarrow> string \<Rightarrow> string \<Rightarrow> string list" where
  "cephfs_args p options share user =
     [''-n'', share, ''-u'', user] @ (if cf_enableQuota p then [''-s'', FormatInt (vo_Request options)] else [])"

text \<open>\<open>path[strings.Index(path, "/"):]\<close>; the index of a path without a slash is \<open>-1\<close>.\<close>

definition fromSlash :: "string \<Rightarrow> string option" where
  "fromSlash path = (if CHR ''/'' \<in> set path then Some (dropWhile (\<lambda>c. c \<noteq> CHR ''/'') path) else None)"

definition cephfs_secretNamespace :: "cephFSProvisioner \<Rightarrow> VolumeOptions \<Rightarrow> string" where
  "cephfs_secretNamespace p options =
     (if cf_secretNamespace p = '''' then vo_PVCNamespace options else cf_secretNamespace p)"

definition cephfs_secret :: "cephFSProvisioner \<Rightarrow> VolumeOptions \<Rightarrow> string \<Rightarrow> provisionOutput \<Rightarrow> Secret" where
  "cephfs_secret p options user res =
     \<lparr>sec_Namespace = cephfs_secretNamespace p options, sec_Name = generateSecretName user,
      sec_Data = fmupd ''key'' (po_Secret res) fmempty, sec_Type = ''Opaque''\<rparr>"

definition cephfs_PV ::
  "cephFSProvisioner \<Rightarrow> VolumeOptions \<Rightarrow> string \<Rightarrow> string \<Rightarrow> string list \<Rightarrow> string \<Rightarrow> PersistentVolume" where
  "cephfs_PV p options share user mon path =
     zero_PV
       \<lparr>pv_Name := vo_PVName options,
        pv_Annotations := fmupd cephShareAnn share (fmupd cephfs_provisionerIDAnn (cf_identity p) fmempty),
        pv_ReclaimPolicy := vo_ReclaimPolicy options,
        pv_AccessModes := vo_AccessModes options,
        pv_MountOptions := (case vo_MountOptions options of None \<Rightarrow> [] | Some ms \<Rightarrow> ms),
        pv_Capacity := Some (vo_Request options),
        pv_CephFS := Some \<lparr>cephfs_Monitors = mon, cephfs_Path = path,
          cephfs_SecretRef = Some \<lparr>sr_Name = generateSecretName user, sr_Namespace = cephfs_secretNamespace p options\<rparr>,
          cephfs_User = user\<rparr>\<rparr>"

definition cephfs_Provision ::
  "'o cephOS \<Rightarrow> bool \<Rightarrow> VolumeOptions \<Rightarrow> cephFSProvisioner \<times> 'o \<Rightarrow>
     (PersistentVolume result \<times> cephFSProvisioner \<times> 'o) option" where
  "cephfs_Provision os isolationDisabled options = (\<lambda>(p, st).
     if vo_Selector options then Some (Inl (Errorf ''claim Selector is not supported'' []), p, st)
     else
       (case cephfs_parseParameters os (vo_Parameters options) st p of
          (Inl err, p) \<Rightarrow> Some (Inl err, p, st)
        | (Inr (cluster, adminID, adminSecret, pvcRoot, mon, deterministicNames), p) \<Rightarrow>
            let ((share, user), st) = cephfs_names os options deterministicNames st;
                env = cephfs_env (cluster, adminID, adminSecret, pvcRoot, mon, deterministicNames) @
                  (if deterministicNames then [''CEPH_VOLUME_GROUP='' @ vo_PVCNamespace options] else []) @
                  isolationEnv isolationDisabled
            in (case co_exec os cephfs_provisionCmd (cephfs_args p options share user) env st of
                  ((output, Some cmdErr), st) \<Rightarrow> Some (Inl cmdErr, p, st)
                | ((output, None), st) \<Rightarrow>
                    let res = co_Unmarshal os output
                    in if po_User res = '''' \<or> po_Secret res = '''' \<or> po_Path res = '''' then
                         Some (Inl (Errorf ''invalid provisioner output'' []), p, st)
                       else
                         (case co_CreateSecret os (cephfs_secret p options user res) st of
                            (err, st) \<Rightarrow>
                              if (case err of Some e \<Rightarrow> \<not> IsAlreadyExists e | None \<Rightarrow> False) then
                                Some (Inl (Errorf ''failed to create secret'' []), p, st)
                              else
                                (case fromSlash (po_Path res) of
                                   None \<Rightarrow> None
                                 | Some path \<Rightarrow> Some (Inr (cephfs_PV p options share user mon path), p, st)))))) "

definition cephfs_Delete ::
  "'o cephOS \<Rightarrow> bool \<Rightarrow> PersistentVolume \<Rightarrow> cephFSProvisioner \<times> 'o \<Rightarrow>
     (error option \<times> cephFSProvisioner \<times> 'o) option" where
  "cephfs_Delete os isolationDisabled volume = (\<lambda>(p, st).
     case fmlookup (pv_Annotations volume) cephfs_provisionerIDAnn of
       None \<Rightarrow> Some (Some (Errorf ''identity annotation not found on PV'' []), p, st)
     | Some ann \<Rightarrow>
         if ann \<noteq> cf_identity p then
           Some (Some (IgnoredError ''identity annotation on PV does not match ours'' []), p, st)
         else
           (case fmlookup (pv_Annotations volume) cephShareAnn of
              None \<Rightarrow> Some (Some (Errorf ''ceph share annotation not found on PV'' []), p, st)
            | Some share \<Rightarrow>
                if \<not> cf_client p then None
                else
                  (case co_GetClass os (co_PVClass os volume) st of
                     Inl err \<Rightarrow> Some (Some err, p, st)
                   | Inr parameters \<Rightarrow>
                       (case cephfs_parseParameters os parameters st p of
                          (Inl err, p) \<Rightarrow> Some (Some err, p, st)
                        | (Inr config, p) \<Rightarrow>
                            (case pv_CephFS volume of
                               None \<Rightarrow> None
                             | Some source \<Rightarrow>
                                 (case co_exec os cephfs_provisionCmd
                                         [''-r'', ''-n'', share, ''-u'', cephfs_User source]
                                         (cephfs_env config @ isolationEnv isolationDisabled) st of
                                    ((output, Some cmdErr), st) \<Rightarrow> Some (Some cmdErr, p, st)
                                  | ((output, None), st) \<Rightarrow>
                                      (case getSecretFromCephFSPersistentVolume volume of
                                         Inl err \<Rightarrow> Some (Some err, p, st)
                                       | Inr secretRef \<Rightarrow>
                                           (case co_DeleteSecret os (sr_Namespace secretRef) (sr_Name secretRef) st of
                                              (Some err, st) \<Rightarrow>
                                                Some (Some (Errorf ''failed to delete secret'' []), p, st)
                                            | (None, st) \<Rightarrow> Some (None, p, st))))))))) "

section \<open>Parsing\<close>

lemma cephfs_param_commuting:
  assumes "distinct_params m"
  shows "commuting (cephfs_param os client st) m"
  unfolding commuting_def
proof (intro allI impI)
  fix k k' v v' c
  assume "fmlookup m k = Some v" "fmlookup m k' = Some v'" "k \<noteq> k'"
  with assms have "ToLower k \<noteq> ToLower k'" by (auto simp: distinct_params_def)
  then show "agree (and_then (cephfs_param os client st k v c) (cephfs_param os client st k' v'))
               (and_then (cephfs_param os client st k' v' c) (cephfs_param os client st k v))"
    by (simp add: cephfs_param_def Let_def)
qed

lemma cephfs_parse_keeps:
  assumes "cephfs_parseParameters os m st p = (r, p')"
  shows "p' = p\<lparr>cf_dnsip := cf_dnsip p'\<rparr>"
  using assms by (auto simp: cephfs_parseParameters_def Let_def split: sum.splits if_splits)

lemma cephfs_parse_Inl:
  assumes "cephfs_parseParameters os m st p = (Inl err, p')"
  shows "err \<noteq> Errorf ''failed to create secret'' []"
  using assms
  by (auto simp: cephfs_parseParameters_def cephfs_param_def Let_def split: sum.splits if_splits
      dest!: range_loop_Inl)

lemma cephfs_parse_fields:
  assumes "cephfs_parseParameters os m st p = (r, p')"
  shows "cf_client p' = cf_client p" "cf_identity p' = cf_identity p"
    and "cf_secretNamespace p' = cf_secretNamespace p" "cf_enableQuota p' = cf_enableQuota p"
  using cephfs_parse_keeps [OF assms]
  by (metis cephFSProvisioner.ext_inject cephFSProvisioner.surjective cephFSProvisioner.update_convs)+



section \<open>Provisioning and deleting\<close>

lemma cephfs_Provision_Inr:
  assumes "cephfs_Provision os dis options (p, st) = Some (Inr pv, p', st')"
  obtains config share user st1 env out st2 err path where
    "cephfs_parseParameters os (vo_Parameters options) st p = (Inr config, p')"
    and "cephfs_names os options (snd (snd (snd (snd (snd config))))) st = ((share, user), st1)"
    and "env = cephfs_env config @
           (if snd (snd (snd (snd (snd config)))) then [''CEPH_VOLUME_GROUP='' @ vo_PVCNamespace options] else []) @
           isolationEnv dis"
    and "co_exec os cephfs_provisionCmd (cephfs_args p' options share user) env st1 = ((out, None), st2)"
    and "co_CreateSecret os (cephfs_secret p' options user (co_Unmarshal os out)) st2 = (err, st')"
    and "err = None \<or> (\<exists>e. err = Some e \<and> IsAlreadyExists e)"
    and "fromSlash (po_Path (co_Unmarshal os out)) = Some path"
    and "pv = cephfs_PV p' options share user (fst (snd (snd (snd (snd config))))) path"
proof -
  from assms obtain config where parse: "cephfs_parseParameters os (vo_Parameters options) st p = (Inr config, p')"
    by (auto simp: cephfs_Provision_def Let_def split: if_splits sum.splits prod.splits option.splits)
  obtain cluster adminID adminSecret pvcRoot mon det where c: "config = (cluster, adminID, adminSecret, pvcRoot, mon, det)"
    by (metis prod.collapse)
  obtain share user st1 where names: "cephfs_names os options det st = ((share, user), st1)"
    by (metis prod.collapse)
  from assms parse names c show ?thesis
    by (auto simp: cephfs_Provision_def Let_def split: if_splits prod.splits option.splits
        intro!: that [of config share user st1])
qed

lemma cephfs_Delete_None:
  assumes "cephfs_Delete os dis pv (p, st) = Some (None, p', st')"
  obtains share parameters config source out st1 ref where
    "fmlookup (pv_Annotations pv) cephfs_provisionerIDAnn = Some (cf_identity p)"
    and "fmlookup (pv_Annotations pv) cephShareAnn = Some share"
    and "co_GetClass os (co_PVClass os pv) st = Inr parameters"
    and "cephfs_parseParameters os parameters st p = (Inr config, p')"
    and "pv_CephFS pv = Some source"
    and "co_exec os cephfs_provisionCmd [''-r'', ''-n'', share, ''-u'', cephfs_User source]
           (cephfs_env config @ isolationEnv dis) st = ((out, None), st1)"
    and "getSecretFromCephFSPersistentVolume pv = Inr ref"
    and "co_DeleteSecret os (sr_Namespace ref) (sr_Name ref) st1 = (None, st')"
  using assms
  by (auto simp: cephfs_Delete_def split: option.splits sum.splits prod.splits if_splits)

text \<open>
  Deleting a share undoes what provisioning it did. When a volume was provisioned (by running the
  command with a share and a user, then creating a secret) and later a volume with the same
  annotations and source is deleted without error, the deletion ran the command once, in removal
  mode, with exactly that share and that user, and then deleted exactly the secret that
  provisioning had created, whatever happened to the world and the storage class in between.
\<close>

theorem cephfs_delete_undoes_provision:
  assumes "cephfs_Provision os dis options (p, st) = Some (Inr pv, p1, st1)"
    and "cephfs_Delete os dis' pv' (p2, st2) = Some (None, p3, st3)"
    and "pv_Annotations pv' = pv_Annotations pv" and "pv_CephFS pv' = pv_CephFS pv"
    and "cephfs_secretNamespace p options \<noteq> ''''"
  shows "\<exists>share user quota env sta out stb secret e env' stc out'.
           co_exec os cephfs_provisionCmd ([''-n'', share, ''-u'', user] @ quota) env sta = ((out, None), stb) \<and>
           co_CreateSecret os secret stb = (e, st1) \<and>
           co_exec os cephfs_provisionCmd [''-r'', ''-n'', share, ''-u'', user] env' st2 = ((out', None), stc) \<and>
           co_DeleteSecret os (sec_Namespace secret) (sec_Name secret) stc = (None, st3)"
proof -
  from assms(1) obtain config share user sta env out stb e path where
    parse: "cephfs_parseParameters os (vo_Parameters options) st p = (Inr config, p1)" and
    run: "co_exec os cephfs_provisionCmd (cephfs_args p1 options share user) env sta = ((out, None), stb)" and
    sec: "co_CreateSecret os (cephfs_secret p1 options user (co_Unmarshal os out)) stb = (e, st1)" and
    pv: "pv = cephfs_PV p1 options share user (fst (snd (snd (snd (snd config))))) path"
    by (rule cephfs_Provision_Inr)
  from assms(2) obtain share' config' source out' stc ref where
    share: "fmlookup (pv_Annotations pv') cephShareAnn = Some share'" and
    source: "pv_CephFS pv' = Some source" and
    rm: "co_exec os cephfs_provisionCmd [''-r'', ''-n'', share', ''-u'', cephfs_User source]
           (cephfs_env config' @ isolationEnv dis') st2 = ((out', None), stc)" and
    ref: "getSecretFromCephFSPersistentVolume pv' = Inr ref" and
    del: "co_DeleteSecret os (sr_Namespace ref) (sr_Name ref) stc = (None, st3)"
    by (rule cephfs_Delete_None)
  have ns: "cephfs_secretNamespace p1 options = cephfs_secretNamespace p options"
    using cephfs_parse_fields [OF parse] by (simp add: cephfs_secretNamespace_def)
  have "share' = share" "cephfs_User source = user"
    using share source by (auto simp: assms(3,4) pv cephfs_PV_def)
  moreover have "sr_Namespace ref = sec_Namespace (cephfs_secret p1 options user (co_Unmarshal os out))"
    "sr_Name ref = sec_Name (cephfs_secret p1 options user (co_Unmarshal os out))"
    using ref assms(5) ns
    by (auto simp: getSecretFromCephFSPersistentVolume_def assms(4) pv cephfs_PV_def cephfs_secret_def)
  ultimately show ?thesis
    using run sec rm del unfolding cephfs_args_def by metis
qed

text \<open>
  A share can be left behind. When provisioning fails because the secret could not be created,
  the share had been made by the command, and nothing is run to remove it: the world is the one the
  failed creation of the secret left.
\<close>

theorem cephfs_failed_secret_leaks_share:
  assumes "cephfs_Provision os dis options (p, st) = Some (Inl (Errorf ''failed to create secret'' []), p', st')"
    and "\<And>cmd args env s out s'. co_exec os cmd args env s \<noteq> ((out, Some (Errorf ''failed to create secret'' [])), s')"
  shows "\<exists>share user quota env sta out stb secret e.
           co_exec os cephfs_provisionCmd ([''-n'', share, ''-u'', user] @ quota) env sta = ((out, None), stb) \<and>
           co_CreateSecret os secret stb = (Some e, st') \<and> \<not> IsAlreadyExists e"
proof -
  from assms(1) obtain config where parse: "cephfs_parseParameters os (vo_Parameters options) st p = (Inr config, p')"
    by (auto simp: cephfs_Provision_def Let_def dest: cephfs_parse_Inl
        split: if_splits sum.splits prod.splits option.splits)
  obtain cluster adminID adminSecret pvcRoot mon det where c: "config = (cluster, adminID, adminSecret, pvcRoot, mon, det)"
    by (metis prod.collapse)
  obtain share user st1 where names: "cephfs_names os options det st = ((share, user), st1)"
    by (metis prod.collapse)
  from assms parse names c show ?thesis
    unfolding cephfs_Provision_def cephfs_args_def Let_def
    by (fastforce split: if_splits prod.splits option.splits)
qed

section \<open>The contract of a marking provisioner\<close>

interpretation cephfs: marking_provisioner
  "cephfs_Provision os dis" "cephfs_Delete os dis" "\<lambda>(p, st). (cephfs_provisionerIDAnn, cf_identity p)"
  for os :: "'o cephOS" and dis :: bool
proof unfold_locales
  fix options and s :: "cephFSProvisioner \<times> 'o" and pv s'
  assume "cephfs_Provision os dis options s = Some (Inr pv, s')"
  then obtain p st p' st' where "s = (p, st)" "cephfs_Provision os dis options (p, st) = Some (Inr pv, p', st')"
    by (metis prod.collapse)
  then show "fmlookup (pv_Annotations pv) (fst (case s of (p, st) \<Rightarrow> (cephfs_provisionerIDAnn, cf_identity p))) =
      Some (snd (case s of (p, st) \<Rightarrow> (cephfs_provisionerIDAnn, cf_identity p)))"
    by (auto simp: cephfs_PV_def dest: cephfs_parse_fields(2) elim!: cephfs_Provision_Inr)
next
  fix options and s :: "cephFSProvisioner \<times> 'o" and r s'
  assume "cephfs_Provision os dis options s = Some (r, s')"
  then show "(case s' of (p, st) \<Rightarrow> (cephfs_provisionerIDAnn, cf_identity p)) =
      (case s of (p, st) \<Rightarrow> (cephfs_provisionerIDAnn, cf_identity p))"
    by (cases s; cases s') (auto simp: cephfs_Provision_def Let_def dest: cephfs_parse_fields(2)
        split: if_splits sum.splits prod.splits option.splits)
next
  fix pv and s :: "cephFSProvisioner \<times> 'o" and e s'
  assume "cephfs_Delete os dis pv s = Some (e, s')"
  then show "(case s' of (p, st) \<Rightarrow> (cephfs_provisionerIDAnn, cf_identity p)) =
      (case s of (p, st) \<Rightarrow> (cephfs_provisionerIDAnn, cf_identity p))"
    by (cases s; cases s') (auto simp: cephfs_Delete_def dest: cephfs_parse_fields(2)
        split: if_splits sum.splits prod.splits option.splits)
next
  fix pv :: PersistentVolume and s :: "cephFSProvisioner \<times> 'o"
  assume "fmlookup (pv_Annotations pv) (fst (case s of (p, st) \<Rightarrow> (cephfs_provisionerIDAnn, cf_identity p))) \<noteq>
      Some (snd (case s of (p, st) \<Rightarrow> (cephfs_provisionerIDAnn, cf_identity p)))"
  then show "\<exists>err. cephfs_Delete os dis pv s = Some (Some err, s)"
    by (cases s) (auto simp: cephfs_Delete_def split: option.split)
qed

section \<open>The command\<close>

record cephfsFlags =
  cfl_master :: string
  cfl_kubeconfig :: string
  cfl_id :: string
  cfl_secretNamespace :: string
  cfl_enableQuota :: bool

text \<open>
  \<open>main\<close> up to the start of the library's controller: the name it registers under, the provisioner
  and the server's version. \<open>getenv\<close> is \<open>os.Getenv\<close>.
\<close>

definition cephfs_main ::
  "('cfg, 'client) kubeLib \<Rightarrow> (string \<Rightarrow> string) \<Rightarrow> cephfsFlags \<Rightarrow> (string \<times> cephFSProvisioner \<times> string) option" where
  "cephfs_main kl getenv fl =
     do {
       clientset \<leftarrow> kube_connect kl (cfl_master fl) (cfl_kubeconfig fl);
       let prName = (if getenv ''PROVISIONER_NAME'' \<noteq> '''' then getenv ''PROVISIONER_NAME'' else ''ceph.com/cephfs'');
       let prID = (if cfl_id fl \<noteq> '''' then cfl_id fl else prName);
       let secretNamespace = (if getenv ''PROVISIONER_SECRET_NAMESPACE'' \<noteq> '''' then getenv ''PROVISIONER_SECRET_NAMESPACE''
                              else cfl_secretNamespace fl);
       serverVersion \<leftarrow> ok (kl_ServerVersion kl clientset);
       Some (prName, newCephFSProvisioner True prID secretNamespace (cfl_enableQuota fl), serverVersion)
     }"

lemma cephfs_main_identity:
  "cephfs_main kl getenv fl = Some (name, p, ver) \<Longrightarrow>
     cf_identity p = (if cfl_id fl \<noteq> '''' then cfl_id fl else name)"
  by (auto simp: cephfs_main_def newCephFSProvisioner_def bind_eq_Some_conv Let_def)

text \<open>
  Provisioners deployed under different identities leave each other's volumes alone: whatever
  each of the two was asked to do before, the second refuses to delete a volume the first has
  provisioned, and the refusal changes nothing, neither its own state nor the cluster.
\<close>

theorem cephfs_identities_isolate:
  assumes "cephfs_main kl env fl = Some (name, p, ver)" and "cephfs_main kl' env' fl' = Some (name', p', ver')"
    and "cfl_id fl \<noteq> ''''" and "cfl_id fl' \<noteq> ''''" and "cfl_id fl \<noteq> cfl_id fl'"
    and "cephfs.requests os dis rs (p, st) = Some s1" and "cephfs_Provision os dis options s1 = Some (Inr pv, s2)"
    and "cephfs.requests os dis rs' (p', st') = Some s'"
  shows "\<exists>err. cephfs_Delete os dis pv s' = Some (Some err, s')"
proof (rule cephfs.foreign_refused [OF assms(8)])
  have "cf_identity p = cfl_id fl" "cf_identity p' = cfl_id fl'"
    using cephfs_main_identity [OF assms(1)] cephfs_main_identity [OF assms(2)] assms(3,4) by simp_all
  with cephfs.provision_marks [OF assms(7)] cephfs.requests_keep [OF assms(6)] assms(5)
  show "fmlookup (pv_Annotations pv) (fst (case (p', st') of (p, st) \<Rightarrow> (cephfs_provisionerIDAnn, cf_identity p))) \<noteq>
      Some (snd (case (p', st') of (p, st) \<Rightarrow> (cephfs_provisionerIDAnn, cf_identity p)))"
    by auto
qed

section \<open>Witnesses\<close>

definition demo_cephfs :: cephFSProvisioner where
  "demo_cephfs = newCephFSProvisioner True ''me'' '''' False"

lemma demo_cephfs_parse:
  "cephfs_parseParameters demo_ceph demo_params st demo_cephfs =
     (Inr (''ceph'', ''admin'', ''AQB'', ''/volumes/kubernetes'', [''10.0.0.1''], False), demo_cephfs)"
  by (simp add: cephfs_parseParameters_def cephfs_parsePVSecret_def demo_cephfs_def newCephFSProvisioner_def
      cephfs_defaults_def cephfs_param_def demo_ceph_simps)


lemma demo_cephfs_runs:
  "\<exists>pv st1 st3. cephfs_Provision demo_ceph False demo_claim (demo_cephfs, []) = Some (Inr pv, demo_cephfs, st1) \<and>
     cephfs_Delete demo_ceph False pv (demo_cephfs, st1) = Some (None, demo_cephfs, st3)"
proof -
  have claim: "vo_Parameters demo_claim = demo_params" "\<not> vo_Selector demo_claim" "vo_PVCNamespace demo_claim = ''default''"
    and cf: "cf_client demo_cephfs" "cf_identity demo_cephfs = ''me''" "cf_secretNamespace demo_cephfs = ''''"
    by (simp_all add: demo_claim_def demo_cephfs_def newCephFSProvisioner_def)
  show ?thesis
    by (simp add: cephfs_Provision_def cephfs_Delete_def claim cf demo_cephfs_parse cephfs_names_def fromSlash_def
        getSecretFromCephFSPersistentVolume_def cephfs_PV_def cephfs_secretNamespace_def demo_ceph_fields Let_def)
qed

theorem cephfs_delete_undoes_provision_witness:
  "\<exists>share user out st1 secret env st2 out' stc st3.
     co_exec demo_ceph cephfs_provisionCmd [''-n'', share, ''-u'', user] [] [] = ((out, None), st1) \<and>
     co_exec demo_ceph cephfs_provisionCmd [''-r'', ''-n'', share, ''-u'', user] env st2 = ((out', None), stc) \<and>
     co_DeleteSecret demo_ceph (sec_Namespace secret) (sec_Name secret) stc = (None, st3)"
proof -
  obtain pv st1 st3 where run: "cephfs_Provision demo_ceph False demo_claim (demo_cephfs, []) = Some (Inr pv, demo_cephfs, st1)"
    and del: "cephfs_Delete demo_ceph False pv (demo_cephfs, st1) = Some (None, demo_cephfs, st3)"
    using demo_cephfs_runs by blast
  have "cephfs_secretNamespace demo_cephfs demo_claim \<noteq> ''''"
    by (simp add: cephfs_secretNamespace_def demo_claim_def demo_cephfs_def newCephFSProvisioner_def)
  from cephfs_delete_undoes_provision [OF run del refl refl this] show ?thesis
    by (fastforce simp: demo_ceph_fields)
qed

definition demo_kube :: "(unit, unit) kubeLib" where
  "demo_kube =
     \<lparr>kl_BuildConfigFromFlags = (\<lambda>_ _. Inr ()), kl_InClusterConfig = Inr (), kl_NewForConfig = (\<lambda>_. Inr ()),
      kl_ServerVersion = (\<lambda>_. Inr ''v1.13'')\<rparr>"

definition demo_cephfs_flags :: "string \<Rightarrow> cephfsFlags" where
  "demo_cephfs_flags pid =
     \<lparr>cfl_master = '''', cfl_kubeconfig = '''', cfl_id = pid, cfl_secretNamespace = '''', cfl_enableQuota = False\<rparr>"

lemma demo_cephfs_main:
  "pid \<noteq> '''' \<Longrightarrow> cephfs_main demo_kube (\<lambda>_. '''') (demo_cephfs_flags pid) =
     Some (''ceph.com/cephfs'', newCephFSProvisioner True pid '''' False, ''v1.13'')"
  by (simp add: cephfs_main_def kube_connect_def ok_def demo_kube_def demo_cephfs_flags_def)

theorem cephfs_identities_isolate_witness:
  "\<exists>pv s err. cephfs_Provision demo_ceph False demo_claim (demo_cephfs, []) = Some (Inr pv, s) \<and>
     cephfs_Delete demo_ceph False pv (newCephFSProvisioner True ''other'' '''' False, []) =
       Some (Some err, newCephFSProvisioner True ''other'' '''' False, [])"
proof -
  obtain pv st1 where run: "cephfs_Provision demo_ceph False demo_claim (demo_cephfs, []) = Some (Inr pv, demo_cephfs, st1)"
    using demo_cephfs_runs by blast
  have main: "cephfs_main demo_kube (\<lambda>_. '''') (demo_cephfs_flags ''me'') = Some (''ceph.com/cephfs'', demo_cephfs, ''v1.13'')"
    "cephfs_main demo_kube (\<lambda>_. '''') (demo_cephfs_flags ''other'') =
       Some (''ceph.com/cephfs'', newCephFSProvisioner True ''other'' '''' False, ''v1.13'')"
    by (simp_all add: demo_cephfs_main demo_cephfs_def)
  have ids: "cfl_id (demo_cephfs_flags ''me'') \<noteq> ''''" "cfl_id (demo_cephfs_flags ''other'') \<noteq> ''''"
    "cfl_id (demo_cephfs_flags ''me'') \<noteq> cfl_id (demo_cephfs_flags ''other'')"
    by (simp_all add: demo_cephfs_flags_def)
  from cephfs_identities_isolate [OF main ids cephfs.requests.simps(1) run cephfs.requests.simps(1)] run
  show ?thesis by blast
qed

text \<open>The same world where secrets cannot be made.\<close>

definition demo_ceph_nosecret :: "string list list cephOS" where
  "demo_ceph_nosecret = demo_ceph\<lparr>co_CreateSecret := (\<lambda>s st. (Some (ExtErr ''forbidden''), [''denied''] # st))\<rparr>"

theorem cephfs_failed_secret_leaks_share_witness:
  "\<exists>p' st' share user sta out stb.
     cephfs_Provision demo_ceph_nosecret False demo_claim (demo_cephfs, []) =
       Some (Inl (Errorf ''failed to create secret'' []), p', st') \<and>
     co_exec demo_ceph_nosecret cephfs_provisionCmd [''-n'', share, ''-u'', user] [] sta = ((out, None), stb)"
proof -
  have "monitorAddrs demo_ceph_nosecret = monitorAddrs demo_ceph"
    by (intro ext) (simp add: monitorAddrs_def demo_ceph_nosecret_def split: prod.split sum.split)
  then have params: "cephfs_param demo_ceph_nosecret = cephfs_param demo_ceph"
    by (intro ext) (simp add: cephfs_param_def parseMonitors_def cachedDNSIP_def demo_ceph_nosecret_def)
  have parse: "cephfs_parseParameters demo_ceph_nosecret demo_params st demo_cephfs =
     (Inr (''ceph'', ''admin'', ''AQB'', ''/volumes/kubernetes'', [''10.0.0.1''], False), demo_cephfs)" for st
  proof -
    have secret: "cephfs_parsePVSecret demo_ceph_nosecret = cephfs_parsePVSecret demo_ceph"
      by (intro ext) (simp add: cephfs_parsePVSecret_def demo_ceph_nosecret_def split: sum.split)
    have range: "co_range demo_ceph_nosecret = co_range demo_ceph"
      by (simp add: demo_ceph_nosecret_def)
    show ?thesis
      using demo_cephfs_parse [of st] unfolding cephfs_parseParameters_def params secret range .
  qed
  have claim: "vo_Parameters demo_claim = demo_params" "\<not> vo_Selector demo_claim"
    by (simp_all add: demo_claim_def)
  have "\<exists>p' st'. cephfs_Provision demo_ceph_nosecret False demo_claim (demo_cephfs, []) =
      Some (Inl (Errorf ''failed to create secret'' []), p', st')"
    by (simp add: cephfs_Provision_def claim parse cephfs_names_def fromSlash_def Let_def)
      (simp add: demo_ceph_nosecret_def demo_ceph_fields)
  then obtain p' st' where run: "cephfs_Provision demo_ceph_nosecret False demo_claim (demo_cephfs, []) =
      Some (Inl (Errorf ''failed to create secret'' []), p', st')" by blast
  have "co_exec demo_ceph_nosecret cmd args env s \<noteq> ((out, Some e), s')" for cmd args env s out e s'
    by (simp add: demo_ceph_nosecret_def demo_ceph_fields)
  from cephfs_failed_secret_leaks_share [OF run this] run show ?thesis
    by (simp add: demo_ceph_nosecret_def demo_ceph_fields)
qed

end
