(* ===== verification/CephRBD.thy ===== *)
theory CephRBD
  imports CephLib
begin

text \<open>
  \<open>ceph/rbd/pkg/provision\<close> (\<open>provision.go\<close>, \<open>rbd_util.go\<close>): block images of a Ceph pool. As for
  the file system shares the provisioner is passed on (the address of the DNS is cached in it), a
  panic is \<open>None\<close>. A command runs under a deadline; \<open>co_exec_timeout\<close> gives its output, its
  error and whether the deadline was exceeded.
\<close>

abbreviation rbd_provisionerIDAnn :: string where
  "rbd_provisionerIDAnn \<equiv> ''rbdProvisionerIdentity''"

abbreviation rbd_ProvisionerName :: string where
  "rbd_ProvisionerName \<equiv> ''ceph.com/rbd''"

abbreviation rbdImageFormat1 :: string where
  "rbdImageFormat1 \<equiv> ''1''"

abbreviation rbdImageFormat2 :: string where
  "rbdImageFormat2 \<equiv> ''2''"

definition supportedFeatures :: "string list" where
  "supportedFeatures = [''layering'']"

record rbdProvisionOptions =
  ro_monitors :: "string list"
  ro_pool :: string
  ro_adminID :: string
  ro_adminSecret :: string
  ro_userID :: string
  ro_userSecretName :: string
  ro_userSecretNamespace :: string
  ro_fsType :: string
  ro_imageFormat :: string
  ro_imageFeatures :: "string list"

record rbdProvisioner =
  rp_client :: bool
  rp_identity :: string
  rp_timeout :: int
  rp_dnsip :: string
  rp_usePVName :: bool

definition NewRBDProvisioner :: "bool \<Rightarrow> string \<Rightarrow> int \<Rightarrow> bool \<Rightarrow> rbdProvisioner" where
  "NewRBDProvisioner client pid timeout usePVName =
     \<lparr>rp_client = client, rp_identity = pid, rp_timeout = timeout, rp_dnsip = '''', rp_usePVName = usePVName\<rparr>"

definition rbd_getAccessModes :: "string list" where
  "rbd_getAccessModes = [''ReadWriteOnce'', ''ReadOnlyMany'']"

section \<open>Parameters\<close>

record rbdParams = rbdProvisionOptions +
  rm_adminSecretName :: string
  rm_adminSecretNamespace :: string
  rm_dnsip :: string

definition rbd_defaults :: "rbdProvisioner \<Rightarrow> rbdParams" where
  "rbd_defaults p =
     \<lparr>ro_monitors = [], ro_pool = ''rbd'', ro_adminID = ''admin'', ro_adminSecret = '''', ro_userID = '''',
      ro_userSecretName = '''', ro_userSecretNamespace = '''', ro_fsType = '''',
      ro_imageFormat = rbdImageFormat2, ro_imageFeatures = [], rm_adminSecretName = '''',
      rm_adminSecretNamespace = ''default'', rm_dnsip = rp_dnsip p\<rparr>"

fun rbd_features :: "string list \<Rightarrow> string list \<Rightarrow> string list result" where
  "rbd_features [] fs = Inr fs"
| "rbd_features (f # arr) fs =
     (if f \<notin> set supportedFeatures then
        Inl (Errorf ''invalid feature %q for %s provisioner, supported features are: %v'' [f, rbd_ProvisionerName])
      else rbd_features arr (fs @ [f]))"

definition rbd_param ::
  "'o cephOS \<Rightarrow> bool \<Rightarrow> 'o \<Rightarrow> string \<Rightarrow> string \<Rightarrow> rbdParams \<Rightarrow> (error \<times> string) + rbdParams" where
  "rbd_param os client st k v c =
     (if ToLower k = ''monitors'' then
        let dnsip = cachedDNSIP os client st (rm_dnsip c);
            monitors = ro_monitors c @ parseMonitors os st dnsip v
        in if length monitors < 1 then Inl (Errorf ''missing Ceph monitors'' [], dnsip)
           else Inr (c\<lparr>rm_dnsip := dnsip, ro_monitors := monitors\<rparr>)
      else if ToLower k = ''adminid'' then Inr (c\<lparr>ro_adminID := (if v = '''' then ''admin'' else v)\<rparr>)
      else if ToLower k = ''adminsecretname'' then Inr (c\<lparr>rm_adminSecretName := v\<rparr>)
      else if ToLower k = ''adminsecretnamespace'' then Inr (c\<lparr>rm_adminSecretNamespace := v\<rparr>)
      else if ToLower k = ''userid'' then Inr (c\<lparr>ro_userID := v\<rparr>)
      else if ToLower k = ''pool'' then Inr (c\<lparr>ro_pool := (if v = '''' then ''rbd'' else v)\<rparr>)
      else if ToLower k = ''usersecretname'' then
        (if v = '''' then Inl (Errorf ''missing user secret name'' [], rm_dnsip c)
         else Inr (c\<lparr>ro_userSecretName := v\<rparr>))
      else if ToLower k = ''usersecretnamespace'' then Inr (c\<lparr>ro_userSecretNamespace := v\<rparr>)
      else if ToLower k = ''imageformat'' then
        (if v \<noteq> rbdImageFormat1 \<and> v \<noteq> rbdImageFormat2 then
           Inl (Errorf ''invalid ceph imageformat %s, expecting %s or %s'' [v, rbdImageFormat1, rbdImageFormat2], rm_dnsip c)
         else Inr (c\<lparr>ro_imageFormat := v\<rparr>))
      else if ToLower k = ''imagefeatures'' then
        (case rbd_features (split_on (CHR '','') v) (ro_imageFeatures c) of
           Inl err \<Rightarrow> Inl (err, rm_dnsip c)
         | Inr fs \<Rightarrow> Inr (c\<lparr>ro_imageFeatures := fs\<rparr>))
      else if ToLower k = ''fstype'' then Inr (c\<lparr>ro_fsType := v\<rparr>)
      else Inl (Errorf ''invalid option %q for %s provisioner'' [k, rbd_ProvisionerName], rm_dnsip c))"

definition rbd_parsePVSecret :: "'o cephOS \<Rightarrow> rbdProvisioner \<Rightarrow> 'o \<Rightarrow> string \<Rightarrow> string \<Rightarrow> string result" where
  "rbd_parsePVSecret os p st ns secretName =
     (if \<not> rp_client p then Inl (Errorf ''Cannot get kube client'' [])
      else
        (case co_GetSecret os ns secretName st of
           Inl err \<Rightarrow> Inl err
         | Inr data \<Rightarrow> Inr (scanSecret (co_range os data st) data '''')))"

definition rbd_parseParameters ::
  "'o cephOS \<Rightarrow> string gomap \<Rightarrow> 'o \<Rightarrow> rbdProvisioner \<Rightarrow> rbdProvisionOptions result \<times> rbdProvisioner" where
  "rbd_parseParameters os parameters st p =
     (case range_loop (rbd_param os (rp_client p) st) (co_range os parameters st) parameters (rbd_defaults p) of
        Inl (err, dnsip) \<Rightarrow> (Inl err, p\<lparr>rp_dnsip := dnsip\<rparr>)
      | Inr c \<Rightarrow>
          (let p = p\<lparr>rp_dnsip := rm_dnsip c\<rparr>
           in if rm_adminSecretName c = '''' then (Inl (Errorf ''missing Ceph admin secret name'' []), p)
              else
                (case rbd_parsePVSecret os p st (rm_adminSecretNamespace c) (rm_adminSecretName c) of
                   Inl err \<Rightarrow>
                     (Inl (Wrapf ''failed to get admin secret from [%q/%q]: %v''
                             [rm_adminSecretNamespace c, rm_adminSecretName c] err), p)
                 | Inr secret \<Rightarrow>
                     (let c = c\<lparr>ro_adminSecret := secret\<rparr>;
                          c = (if ro_userID c = '''' then c\<lparr>ro_userID := ro_adminID c\<rparr> else c)
                      in (Inr (rbdProvisionOptions.truncate c), p)))))"

section \<open>Images\<close>

definition kernelRBDMonitorsOpt :: "string list \<Rightarrow> string" where
  "kernelRBDMonitorsOpt mons = join_with '','' mons"

definition rbd_execCommand :: "'o cephOS \<Rightarrow> int \<Rightarrow> string list \<Rightarrow> 'o \<Rightarrow> string result \<times> 'o" where
  "rbd_execCommand os timeout args st =
     (case co_exec_timeout os timeout ''rbd'' args st of
        ((out, err, deadlineExceeded), st) \<Rightarrow>
          if deadlineExceeded then (Inl (Errorf ''rbd: Command timed out'' []), st)
          else
            (case err of
               Some e \<Rightarrow> (Inl (Wrapf ''rbd: Command exited with non-zero code: %v'' [] e), st)
             | None \<Rightarrow> (Inr out, st)))"

definition rbd_createArgs :: "string \<Rightarrow> int \<Rightarrow> rbdProvisionOptions \<Rightarrow> string list" where
  "rbd_createArgs img sz pOpts =
     [''create'', img, ''--size'', FormatInt sz, ''--pool'', ro_pool pOpts, ''--id'', ro_adminID pOpts, ''-m'',
      kernelRBDMonitorsOpt (ro_monitors pOpts), ''--key='' @ ro_adminSecret pOpts, ''--image-format'',
      ro_imageFormat pOpts] @
     (if ro_imageFormat pOpts = rbdImageFormat2 then [''--image-feature'', join_with '','' (ro_imageFeatures pOpts)]
      else [])"

definition CreateImage ::
  "'o cephOS \<Rightarrow> int \<Rightarrow> string \<Rightarrow> rbdProvisionOptions \<Rightarrow> VolumeOptions \<Rightarrow> 'o \<Rightarrow>
     (RBDVolumeSource \<times> int) result \<times> 'o" where
  "CreateImage os timeout img pOpts options st =
     (let volSizeBytes = vo_Request options; sz = co_RoundUpSize os volSizeBytes (1024 * 1024)
      in if sz \<le> 0 then
           (Inl (Errorf ''invalid storage '%s' requested for RBD provisioner, it must greater than zero''
                   [FormatInt volSizeBytes]), st)
         else
           (case rbd_execCommand os timeout (rbd_createArgs img sz pOpts) st of
              (Inl err, st) \<Rightarrow> (Inl (Wrapf ''failed to create rbd image: %v, command output: %s'' [] err), st)
            | (Inr output, st) \<Rightarrow>
                (Inr (\<lparr>rbd_CephMonitors = ro_monitors pOpts, rbd_RBDImage = img, rbd_RBDPool = ro_pool pOpts,
                       rbd_FSType = ro_fsType pOpts, rbd_SecretRef = None, rbd_RadosUser = ''''\<rparr>, sz), st)))"

definition rbdStatus :: "'o cephOS \<Rightarrow> int \<Rightarrow> string \<Rightarrow> rbdProvisionOptions \<Rightarrow> 'o \<Rightarrow> bool result \<times> 'o" where
  "rbdStatus os timeout img pOpts st =
     (let mon = kernelRBDMonitorsOpt (ro_monitors pOpts);
          args = [''status'', img, ''--pool'', ro_pool pOpts, ''-m'', mon, ''--id'', ro_adminID pOpts,
                  ''--key='' @ ro_adminSecret pOpts]
      in (case rbd_execCommand os timeout args st of
            (Inl err, st) \<Rightarrow> (Inl err, st)
          | (Inr output, st) \<Rightarrow> (Inr (Contains output ''watcher=''), st)))"

definition rbd_rmArgs :: "string \<Rightarrow> rbdProvisionOptions \<Rightarrow> string list" where
  "rbd_rmArgs img pOpts =
     [''rm'', img, ''--pool'', ro_pool pOpts, ''--id'', ro_adminID pOpts, ''-m'',
      kernelRBDMonitorsOpt (ro_monitors pOpts), ''--key='' @ ro_adminSecret pOpts]"

definition DeleteImage :: "'o cephOS \<Rightarrow> int \<Rightarrow> string \<Rightarrow> rbdProvisionOptions \<Rightarrow> 'o \<Rightarrow> error option \<times> 'o" where
  "DeleteImage os timeout img pOpts st =
     (case rbdStatus os timeout img pOpts st of
        (Inl err, st) \<Rightarrow> (Some err, st)
      | (Inr found, st) \<Rightarrow>
          if found then (Some (Errorf ''rbd %s is still being used'' [img]), st)
          else
            (case rbd_execCommand os timeout (rbd_rmArgs img pOpts) st of
               (Inr output, st) \<Rightarrow> (None, st)
             | (Inl err, st) \<Rightarrow> (Some err, st)))"

section \<open>Provision and Delete\<close>

definition rbd_imageName :: "'o cephOS \<Rightarrow> rbdProvisioner \<Rightarrow> VolumeOptions \<Rightarrow> 'o \<Rightarrow> string \<times> 'o" where
  "rbd_imageName os p options st =
     (if \<not> rp_usePVName p then
        let (u, st) = co_NewUUID os st in (''kubernetes-dynamic-pvc-'' @ u, st)
      else (vo_PVName options, st))"

definition rbd_PV :: "rbdProvisioner \<Rightarrow> VolumeOptions \<Rightarrow> rbdProvisionOptions \<Rightarrow> RBDVolumeSource \<Rightarrow> int \<Rightarrow> PersistentVolume" where
  "rbd_PV p options opts rbd sizeMB =
     (let rbd = rbd\<lparr>rbd_SecretRef := Some \<lparr>sr_Name = ro_userSecretName opts,
                      sr_Namespace = (if length (ro_userSecretNamespace opts) > 0 then ro_userSecretNamespace opts else '''')\<rparr>,
                    rbd_RadosUser := ro_userID opts\<rparr>;
          pv = zero_PV
            \<lparr>pv_Name := vo_PVName options,
             pv_Annotations := fmupd rbd_provisionerIDAnn (rp_identity p) fmempty,
             pv_ReclaimPolicy := vo_ReclaimPolicy options,
             pv_AccessModes := vo_AccessModes options,
             pv_VolumeMode := vo_VolumeMode options,
             pv_MountOptions := (case vo_MountOptions options of None \<Rightarrow> [] | Some ms \<Rightarrow> ms),
             pv_Capacity := Some (sizeMB * 1024 * 1024),
             pv_RBD := Some rbd\<rparr>
      in if length (pv_AccessModes pv) = 0 then pv\<lparr>pv_AccessModes := rbd_getAccessModes\<rparr> else pv)"

definition rbd_Provision ::
  "'o cephOS \<Rightarrow> VolumeOptions \<Rightarrow> rbdProvisioner \<times> 'o \<Rightarrow> (PersistentVolume result \<times> rbdProvisioner \<times> 'o) option" where
  "rbd_Provision os options = (\<lambda>(p, st).
     if \<not> co_AccessModesContainedInAll os rbd_getAccessModes (vo_AccessModes options) then
       Some (Inl (Errorf ''invalid AccessModes %v: only AccessModes %v are supported''
                    (vo_AccessModes options @ rbd_getAccessModes)), p, st)
     else if vo_Selector options then Some (Inl (Errorf ''claim Selector is not supported'' []), p, st)
     else
       (case rbd_parseParameters os (vo_Parameters options) st p of
          (Inl err, p) \<Rightarrow> Some (Inl err, p, st)
        | (Inr opts, p) \<Rightarrow>
            (case rbd_imageName os p options st of
               (img, st) \<Rightarrow>
                 (case CreateImage os (rp_timeout p) img opts options st of
                    (Inl err, st) \<Rightarrow> Some (Inl err, p, st)
                  | (Inr (rbd, sizeMB), st) \<Rightarrow> Some (Inr (rbd_PV p options opts rbd sizeMB), p, st)))))"

definition rbd_Delete ::
  "'o cephOS \<Rightarrow> PersistentVolume \<Rightarrow> rbdProvisioner \<times> 'o \<Rightarrow> (error option \<times> rbdProvisioner \<times> 'o) option" where
  "rbd_Delete os volume = (\<lambda>(p, st).
     case fmlookup (pv_Annotations volume) rbd_provisionerIDAnn of
       None \<Rightarrow> Some (Some (Errorf ''identity annotation not found on PV'' []), p, st)
     | Some ann \<Rightarrow>
         if ann \<noteq> rp_identity p then
           Some (Some (IgnoredError ''identity annotation on PV does not match ours'' []), p, st)
         else if \<not> rp_client p then None
         else
           (case co_GetClass os (co_PVClass os volume) st of
              Inl err \<Rightarrow> Some (Some err, p, st)
            | Inr parameters \<Rightarrow>
                (case rbd_parseParameters os parameters st p of
                   (Inl err, p) \<Rightarrow> Some (Some err, p, st)
                 | (Inr opts, p) \<Rightarrow>
                     (case pv_RBD volume of
                        None \<Rightarrow> None
                      | Some rbd \<Rightarrow>
                          (case DeleteImage os (rp_timeout p) (rbd_RBDImage rbd) opts st of
                             (err, st) \<Rightarrow> Some (err, p, st))))))"

section \<open>Parsing\<close>

lemma rbd_features_Inr: "rbd_features arr fs = Inr r \<longleftrightarrow> set arr \<subseteq> set supportedFeatures \<and> r = fs @ arr"
  by (induction arr arbitrary: fs) auto

text \<open>One equation for each parameter.\<close>

abbreviation rbd_keys :: "string set" where
  "rbd_keys \<equiv> {''monitors'', ''adminid'', ''adminsecretname'', ''adminsecretnamespace'', ''userid'', ''pool'',
     ''usersecretname'', ''usersecretnamespace'', ''imageformat'', ''imagefeatures'', ''fstype''}"

lemma rbd_key_cases:
  "ToLower k = ''monitors'' \<or> ToLower k = ''adminid'' \<or> ToLower k = ''adminsecretname'' \<or>
   ToLower k = ''adminsecretnamespace'' \<or> ToLower k = ''userid'' \<or> ToLower k = ''pool'' \<or>
   ToLower k = ''usersecretname'' \<or> ToLower k = ''usersecretnamespace'' \<or> ToLower k = ''imageformat'' \<or>
   ToLower k = ''imagefeatures'' \<or> ToLower k = ''fstype'' \<or> ToLower k \<notin> rbd_keys"
  by blast

lemma rbd_param_unknown:
  "ToLower k \<notin> rbd_keys \<Longrightarrow>
     rbd_param os client st k v c = Inl (Errorf ''invalid option %q for %s provisioner'' [k, rbd_ProvisionerName], rm_dnsip c)"
  by (simp add: rbd_param_def)

lemma rbd_param_simps:
  "ToLower k = ''monitors'' \<Longrightarrow> rbd_param os client st k v c =
     (if ro_monitors c @ parseMonitors os st (cachedDNSIP os client st (rm_dnsip c)) v = [] then
        Inl (Errorf ''missing Ceph monitors'' [], cachedDNSIP os client st (rm_dnsip c))
      else Inr (c\<lparr>rm_dnsip := cachedDNSIP os client st (rm_dnsip c),
                  ro_monitors := ro_monitors c @ parseMonitors os st (cachedDNSIP os client st (rm_dnsip c)) v\<rparr>))"
  "ToLower k = ''adminid'' \<Longrightarrow> rbd_param os client st k v c = Inr (c\<lparr>ro_adminID := (if v = '''' then ''admin'' else v)\<rparr>)"
  "ToLower k = ''adminsecretname'' \<Longrightarrow> rbd_param os client st k v c = Inr (c\<lparr>rm_adminSecretName := v\<rparr>)"
  "ToLower k = ''adminsecretnamespace'' \<Longrightarrow> rbd_param os client st k v c = Inr (c\<lparr>rm_adminSecretNamespace := v\<rparr>)"
  "ToLower k = ''userid'' \<Longrightarrow> rbd_param os client st k v c = Inr (c\<lparr>ro_userID := v\<rparr>)"
  "ToLower k = ''pool'' \<Longrightarrow> rbd_param os client st k v c = Inr (c\<lparr>ro_pool := (if v = '''' then ''rbd'' else v)\<rparr>)"
  "ToLower k = ''usersecretname'' \<Longrightarrow> rbd_param os client st k v c =
     (if v = '''' then Inl (Errorf ''missing user secret name'' [], rm_dnsip c) else Inr (c\<lparr>ro_userSecretName := v\<rparr>))"
  "ToLower k = ''usersecretnamespace'' \<Longrightarrow> rbd_param os client st k v c = Inr (c\<lparr>ro_userSecretNamespace := v\<rparr>)"
  "ToLower k = ''imageformat'' \<Longrightarrow> rbd_param os client st k v c =
     (if v \<noteq> rbdImageFormat1 \<and> v \<noteq> rbdImageFormat2 then
        Inl (Errorf ''invalid ceph imageformat %s, expecting %s or %s'' [v, rbdImageFormat1, rbdImageFormat2], rm_dnsip c)
      else Inr (c\<lparr>ro_imageFormat := v\<rparr>))"
  "ToLower k = ''imagefeatures'' \<Longrightarrow> rbd_param os client st k v c =
     (case rbd_features (split_on (CHR '','') v) (ro_imageFeatures c) of
        Inl err \<Rightarrow> Inl (err, rm_dnsip c) | Inr fs \<Rightarrow> Inr (c\<lparr>ro_imageFeatures := fs\<rparr>))"
  "ToLower k = ''fstype'' \<Longrightarrow> rbd_param os client st k v c = Inr (c\<lparr>ro_fsType := v\<rparr>)"
  by (simp_all add: rbd_param_def Let_def)

lemma rbd_param_commuting:
  assumes "distinct_params m"
  shows "commuting (rbd_param os client st) m"
  unfolding commuting_def
proof (intro allI impI)
  fix k k' v v' and c :: rbdParams
  assume "fmlookup m k = Some v" "fmlookup m k' = Some v'" "k \<noteq> k'"
  with assms have "ToLower k \<noteq> ToLower k'" by (auto simp: distinct_params_def)
  then show "agree (and_then (rbd_param os client st k v c) (rbd_param os client st k' v'))
               (and_then (rbd_param os client st k' v' c) (rbd_param os client st k v))"
    using rbd_key_cases [of k] rbd_key_cases [of k']
    by (elim disjE) (simp_all add: rbd_param_simps rbd_param_unknown split: sum.split)
qed

lemma rbd_parse_keeps:
  assumes "rbd_parseParameters os m st p = (r, p')"
  shows "p' = p\<lparr>rp_dnsip := rp_dnsip p'\<rparr>"
  using assms by (auto simp: rbd_parseParameters_def Let_def split: sum.splits if_splits)

lemma rbd_parse_fields:
  assumes "rbd_parseParameters os m st p = (r, p')"
  shows "rp_client p' = rp_client p" "rp_identity p' = rp_identity p"
    and "rp_timeout p' = rp_timeout p" "rp_usePVName p' = rp_usePVName p"
  using rbd_parse_keeps [OF assms]
  by (metis rbdProvisioner.ext_inject rbdProvisioner.surjective rbdProvisioner.update_convs)+

text \<open>
  Parsed options are well formed: pool, admin and user are never empty, the image format is 1 or
  2, and only the supported image features are asked for, whatever the parameters are and in
  whatever order they are visited.
\<close>

theorem rbd_parse_valid:
  assumes "rbd_parseParameters os m st p = (Inr opts, p')"
  shows "ro_pool opts \<noteq> '''' \<and> ro_adminID opts \<noteq> '''' \<and> ro_userID opts \<noteq> '''' \<and>
         ro_imageFormat opts \<in> {rbdImageFormat1, rbdImageFormat2} \<and>
         set (ro_imageFeatures opts) \<subseteq> set supportedFeatures"
proof -
  let ?P = "\<lambda>c :: rbdParams. ro_pool c \<noteq> '''' \<and> ro_adminID c \<noteq> '''' \<and>
    ro_imageFormat c \<in> {rbdImageFormat1, rbdImageFormat2} \<and> set (ro_imageFeatures c) \<subseteq> set supportedFeatures"
  obtain c where c: "range_loop (rbd_param os (rp_client p) st) (co_range os m st) m (rbd_defaults p) = Inr c"
    using assms by (auto simp: rbd_parseParameters_def split: sum.splits)
  have "?P c"
  proof (rule range_loop_invariant [OF c])
    show "?P (rbd_defaults p)" by (simp add: rbd_defaults_def)
    show "?P s'" if "?P s" "rbd_param os (rp_client p) st k v s = Inr s'" for k v s s'
      using that by (auto simp: rbd_param_def Let_def rbd_features_Inr split: if_splits sum.splits)
  qed
  then show ?thesis
    using assms c
    by (auto simp: rbd_parseParameters_def Let_def rbdProvisionOptions.truncate_def split: sum.splits if_splits)
qed

text \<open>
  The order in which the runtime ranges over the parameters and over the admin secret decides
  nothing, as long as no two parameters differ only in case and the secret has an entry \<open>key\<close> or a
  single entry: what parses with one order parses to the same options with any other.
\<close>

theorem rbd_parse_order_irrelevant:
  assumes "distinct_params m"
    and "\<And>ns n data. co_GetSecret os ns n st = Inr data \<Longrightarrow> fmlookup data ''key'' \<noteq> None \<or> map_len data \<le> 1"
    and "legal_ranges os" and "legal_ranges (os\<lparr>co_range := order\<rparr>)"
    and "rbd_parseParameters os m st p = (Inr opts, p')"
  shows "rbd_parseParameters (os\<lparr>co_range := order\<rparr>) m st p = (Inr opts, p')"
proof -
  let ?os = "os\<lparr>co_range := order\<rparr>"
  have mon: "monitorAddrs ?os = monitorAddrs os"
    by (intro ext) (simp add: monitorAddrs_def split: prod.split sum.split)
  have step: "rbd_param ?os = rbd_param os"
    by (intro ext) (simp add: rbd_param_def parseMonitors_def cachedDNSIP_def mon cong: if_cong)
  have ranges: "enumerates (co_range os d st) d" "enumerates (order d st) d" for d
    using assms(3,4) by (simp_all add: legal_ranges_def)
  have secret: "rbd_parsePVSecret ?os q st ns n = rbd_parsePVSecret os q st ns n" for q ns n
    using assms(2) [of ns n] scanSecret_order [OF ranges]
    by (auto simp: rbd_parsePVSecret_def split: sum.split)
  obtain c where c: "range_loop (rbd_param os (rp_client p) st) (co_range os m st) m (rbd_defaults p) = Inr c"
    using assms(5) by (auto simp: rbd_parseParameters_def split: sum.splits)
  have "range_loop (rbd_param os (rp_client p) st) (order m st) m (rbd_defaults p) = Inr c"
    by (rule agree_Inr [OF range_loop_order [OF rbd_param_commuting [OF assms(1)] ranges] c])
  with assms(5) c show ?thesis
    by (simp add: rbd_parseParameters_def step secret Let_def cong: if_cong)
qed


section \<open>Images\<close>

text \<open>A command that ran within its deadline without error.\<close>

definition rbd_ran :: "'o cephOS \<Rightarrow> int \<Rightarrow> string list \<Rightarrow> string \<Rightarrow> 'o \<Rightarrow> 'o \<Rightarrow> bool" where
  "rbd_ran os timeout args out st st' \<longleftrightarrow> co_exec_timeout os timeout ''rbd'' args st = ((out, None, False), st')"

lemma rbd_execCommand_Inr: "rbd_execCommand os t args st = (Inr out, st') \<longleftrightarrow> rbd_ran os t args out st st'"
  by (auto simp: rbd_execCommand_def rbd_ran_def split: prod.splits option.splits if_splits)

lemma CreateImage_Inr:
  assumes "CreateImage os t img opts options st = (Inr (rbd, sz), st')"
  shows "0 < sz" and "sz = co_RoundUpSize os (vo_Request options) (1024 * 1024)"
    and "\<exists>out. rbd_ran os t (rbd_createArgs img sz opts) out st st'"
    and "rbd_RBDImage rbd = img" and "rbd_RBDPool rbd = ro_pool opts" and "rbd_CephMonitors rbd = ro_monitors opts"
  using assms by (auto simp: CreateImage_def Let_def rbd_execCommand_Inr split: if_splits prod.splits sum.splits)

abbreviation rbd_statusArgs :: "string \<Rightarrow> rbdProvisionOptions \<Rightarrow> string list" where
  "rbd_statusArgs img opts \<equiv>
     [''status'', img, ''--pool'', ro_pool opts, ''-m'', kernelRBDMonitorsOpt (ro_monitors opts), ''--id'',
      ro_adminID opts, ''--key='' @ ro_adminSecret opts]"

lemma rbdStatus_eq:
  "rbdStatus os t img opts st =
     (case rbd_execCommand os t (rbd_statusArgs img opts) st of
        (Inl err, st) \<Rightarrow> (Inl err, st)
      | (Inr output, st) \<Rightarrow> (Inr (Contains output ''watcher=''), st))"
  by (simp add: rbdStatus_def Let_def)

lemma DeleteImage_None:
  assumes "DeleteImage os t img opts st = (None, st')"
  obtains out st1 out' where "rbd_ran os t (rbd_statusArgs img opts) out st st1"
    and "\<not> Contains out ''watcher=''" and "rbd_ran os t (rbd_rmArgs img opts) out' st1 st'"
  using assms
  by (auto simp: DeleteImage_def rbdStatus_eq rbd_execCommand_Inr split: prod.splits sum.splits if_splits)

text \<open>
  An image in use is not removed. When the status command fails, runs into its deadline or lists
  a watcher, deleting the image fails and no other command is run: the world is the one the status
  command left.
\<close>

theorem DeleteImage_spares_watched:
  assumes "co_exec_timeout os t ''rbd'' (rbd_statusArgs img opts) st = ((out, err, late), st1)"
    and "late \<or> err \<noteq> None \<or> Contains out ''watcher=''"
  shows "\<exists>e. DeleteImage os t img opts st = (Some e, st1)"
  using assms by (auto simp: DeleteImage_def rbdStatus_eq rbd_execCommand_def split: option.splits)

section \<open>Provisioning and deleting\<close>

lemma rbd_Provision_Inr:
  assumes "rbd_Provision os options (p, st) = Some (Inr pv, p', st')"
  obtains opts img st1 rbd sz where "rbd_parseParameters os (vo_Parameters options) st p = (Inr opts, p')"
    and "rbd_imageName os p' options st = (img, st1)"
    and "CreateImage os (rp_timeout p') img opts options st1 = (Inr (rbd, sz), st')"
    and "pv = rbd_PV p' options opts rbd sz"
  using assms by (auto simp: rbd_Provision_def split: if_splits sum.splits prod.splits)

lemma rbd_Delete_None:
  assumes "rbd_Delete os pv (p, st) = Some (None, p', st')"
  obtains parameters opts rbd where "fmlookup (pv_Annotations pv) rbd_provisionerIDAnn = Some (rp_identity p)"
    and "co_GetClass os (co_PVClass os pv) st = Inr parameters"
    and "rbd_parseParameters os parameters st p = (Inr opts, p')"
    and "pv_RBD pv = Some rbd"
    and "DeleteImage os (rp_timeout p') (rbd_RBDImage rbd) opts st = (None, st')"
  using assms by (auto simp: rbd_Delete_def split: option.splits sum.splits prod.splits if_splits)

lemma rbd_PV_fields [simp]:
  "pv_Annotations (rbd_PV p options opts rbd sz) = fmupd rbd_provisionerIDAnn (rp_identity p) fmempty"
  "pv_Capacity (rbd_PV p options opts rbd sz) = Some (sz * 1024 * 1024)"
  "map_option rbd_RBDImage (pv_RBD (rbd_PV p options opts rbd sz)) = Some (rbd_RBDImage rbd)"
  "map_option rbd_RBDPool (pv_RBD (rbd_PV p options opts rbd sz)) = Some (rbd_RBDPool rbd)"
  by (simp_all add: rbd_PV_def Let_def)

text \<open>
  A provisioned image holds the request: with a request that is not negative, the capacity of the
  volume is a positive number of mebibytes, at least the request and less than one mebibyte above
  it, and the image was created with exactly that number of mebibytes.
\<close>

theorem rbd_capacity_covers_request:
  assumes "rounds_up (co_RoundUpSize os)" and "0 \<le> vo_Request options"
    and "rbd_Provision os options (p, st) = Some (Inr pv, p', st')"
  shows "\<exists>mb img opts out st1. pv_Capacity pv = Some (mb * 1024 * 1024) \<and> 0 < mb \<and>
           vo_Request options \<le> mb * 1024 * 1024 \<and> mb * 1024 * 1024 < vo_Request options + 1024 * 1024 \<and>
           map_option rbd_RBDImage (pv_RBD pv) = Some img \<and>
           rbd_ran os (rp_timeout p) (rbd_createArgs img mb opts) out st1 st'"
proof -
  from assms(3) obtain opts img st1 rbd mb where
    parse: "rbd_parseParameters os (vo_Parameters options) st p = (Inr opts, p')" and
    create: "CreateImage os (rp_timeout p') img opts options st1 = (Inr (rbd, mb), st')" and
    pv: "pv = rbd_PV p' options opts rbd mb"
    by (rule rbd_Provision_Inr)
  note made = CreateImage_Inr [OF create]
  have "(mb - 1) * (1024 * 1024) < vo_Request options \<and> vo_Request options \<le> mb * (1024 * 1024)"
    using assms(1) [unfolded rounds_up_def, rule_format, of "1024 * 1024" "vo_Request options"] assms(2)
    by (simp add: made(2))
  moreover obtain out where "rbd_ran os (rp_timeout p) (rbd_createArgs img mb opts) out st1 st'"
    using made(3) rbd_parse_fields(3) [OF parse] by auto
  ultimately show ?thesis
    using made(1,4) pv by (intro exI [of _ mb] exI [of _ img] exI [of _ opts] exI [of _ out] exI [of _ st1]) auto
qed


section \<open>The contract of a marking provisioner\<close>

interpretation rbd: marking_provisioner
  "rbd_Provision os" "rbd_Delete os" "\<lambda>(p, st). (rbd_provisionerIDAnn, rp_identity p)"
  for os :: "'o cephOS"
proof unfold_locales
  fix options and s :: "rbdProvisioner \<times> 'o" and pv s'
  assume "rbd_Provision os options s = Some (Inr pv, s')"
  then show "fmlookup (pv_Annotations pv) (fst (case s of (p, st) \<Rightarrow> (rbd_provisionerIDAnn, rp_identity p))) =
      Some (snd (case s of (p, st) \<Rightarrow> (rbd_provisionerIDAnn, rp_identity p)))"
    by (cases s; cases s') (auto dest: rbd_parse_fields(2) elim!: rbd_Provision_Inr)
next
  fix options and s :: "rbdProvisioner \<times> 'o" and r s'
  assume "rbd_Provision os options s = Some (r, s')"
  then show "(case s' of (p, st) \<Rightarrow> (rbd_provisionerIDAnn, rp_identity p)) =
      (case s of (p, st) \<Rightarrow> (rbd_provisionerIDAnn, rp_identity p))"
    by (cases s; cases s') (auto simp: rbd_Provision_def dest: rbd_parse_fields(2)
        split: if_splits sum.splits prod.splits)
next
  fix pv and s :: "rbdProvisioner \<times> 'o" and e s'
  assume "rbd_Delete os pv s = Some (e, s')"
  then show "(case s' of (p, st) \<Rightarrow> (rbd_provisionerIDAnn, rp_identity p)) =
      (case s of (p, st) \<Rightarrow> (rbd_provisionerIDAnn, rp_identity p))"
    by (cases s; cases s') (auto simp: rbd_Delete_def dest: rbd_parse_fields(2)
        split: if_splits sum.splits prod.splits option.splits)
next
  fix pv :: PersistentVolume and s :: "rbdProvisioner \<times> 'o"
  assume "fmlookup (pv_Annotations pv) (fst (case s of (p, st) \<Rightarrow> (rbd_provisionerIDAnn, rp_identity p))) \<noteq>
      Some (snd (case s of (p, st) \<Rightarrow> (rbd_provisionerIDAnn, rp_identity p)))"
  then show "\<exists>err. rbd_Delete os pv s = Some (Some err, s)"
    by (cases s) (auto simp: rbd_Delete_def split: option.split)
qed

section \<open>The command\<close>

record rbdFlags =
  rfl_master :: string
  rfl_kubeconfig :: string
  rfl_id :: string
  rfl_commandTimeout :: int
  rfl_usePVName :: bool

text \<open>\<open>main\<close> of \<open>ceph/rbd/cmd/rbd-provisioner\<close> up to the start of the library's controller.\<close>

definition rbd_main ::
  "('cfg, 'client) kubeLib \<Rightarrow> (string \<Rightarrow> string) \<Rightarrow> rbdFlags \<Rightarrow> (string \<times> rbdProvisioner \<times> string) option" where
  "rbd_main kl getenv fl =
     do {
       clientset \<leftarrow> kube_connect kl (rfl_master fl) (rfl_kubeconfig fl);
       let prName = (if getenv ''PROVISIONER_NAME'' \<noteq> '''' then getenv ''PROVISIONER_NAME'' else rbd_ProvisionerName);
       let prID = (if rfl_id fl \<noteq> '''' then rfl_id fl else prName);
       serverVersion \<leftarrow> ok (kl_ServerVersion kl clientset);
       Some (prName, NewRBDProvisioner True prID (rfl_commandTimeout fl) (rfl_usePVName fl), serverVersion)
     }"

lemma rbd_main_identity:
  "rbd_main kl getenv fl = Some (name, p, ver) \<Longrightarrow>
     rp_identity p = (if rfl_id fl \<noteq> '''' then rfl_id fl else name)"
  by (auto simp: rbd_main_def NewRBDProvisioner_def bind_eq_Some_conv Let_def)

text \<open>A volume of another identity is refused, whatever was requested before.\<close>

lemma rbd_foreign_refused:
  assumes "rbd_main kl getenv fl = Some (name, p, ver)" and "rbd.requests os rs (p, st) = Some s"
    and "fmlookup (pv_Annotations pv) rbd_provisionerIDAnn \<noteq> Some (if rfl_id fl \<noteq> '''' then rfl_id fl else name)"
  shows "\<exists>err. rbd_Delete os pv s = Some (Some err, s)"
  using assms(3) by (intro rbd.foreign_refused [OF assms(2)]) (simp add: rbd_main_identity [OF assms(1)])

section \<open>Witnesses\<close>

definition demo_rbd :: rbdProvisioner where
  "demo_rbd = NewRBDProvisioner True ''me'' 5 True"

definition demo_rbd_options :: rbdProvisionOptions where
  "demo_rbd_options =
     \<lparr>ro_monitors = [''10.0.0.1''], ro_pool = ''rbd'', ro_adminID = ''admin'', ro_adminSecret = ''AQB'',
      ro_userID = ''admin'', ro_userSecretName = '''', ro_userSecretNamespace = '''', ro_fsType = '''',
      ro_imageFormat = ''2'', ro_imageFeatures = []\<rparr>"

lemma demo_rbd_parse: "rbd_parseParameters demo_ceph demo_params st demo_rbd = (Inr demo_rbd_options, demo_rbd)"
  by (simp add: rbd_parseParameters_def rbd_parsePVSecret_def demo_rbd_def NewRBDProvisioner_def demo_rbd_options_def
      rbd_defaults_def rbd_param_def rbdProvisionOptions.truncate_def demo_ceph_simps)

theorem rbd_parse_valid_witness: "ro_pool demo_rbd_options \<noteq> '''' \<and> ro_userID demo_rbd_options \<noteq> ''''"
  using rbd_parse_valid [OF demo_rbd_parse] by simp

theorem rbd_parse_order_irrelevant_witness:
  "rbd_parseParameters (demo_ceph\<lparr>co_range := \<lambda>m st. rev (sorted_keys m)\<rparr>) demo_params [] demo_rbd =
     (Inr demo_rbd_options, demo_rbd)"
proof -
  have legal: "legal_ranges demo_ceph" "legal_ranges (demo_ceph\<lparr>co_range := \<lambda>m st. rev (sorted_keys m)\<rparr>)"
    by (simp_all add: legal_ranges_def demo_ceph_def sorted_keys_legal rev_enumerates)
  show ?thesis
    by (rule rbd_parse_order_irrelevant [OF demo_distinct disjI2 [OF demo_GetSecret] legal demo_rbd_parse])
qed

theorem DeleteImage_spares_watched_witness:
  "\<exists>e. DeleteImage (demo_ceph\<lparr>co_exec_timeout := \<lambda>t cmd args st. ((''watcher=10.0.0.2'', None, False), args # st)\<rparr>)
         5 ''img'' demo_rbd_options [] = (Some e, [rbd_statusArgs ''img'' demo_rbd_options])"
proof -
  have "Contains ''watcher=10.0.0.2'' ''watcher=''" by code_simp
  then show ?thesis
    by (intro DeleteImage_spares_watched [where out = "''watcher=10.0.0.2''" and err = None and late = False]) simp_all
qed

lemma demo_rbd_runs:
  "\<exists>pv st1. rbd_Provision demo_ceph demo_claim (demo_rbd, []) = Some (Inr pv, demo_rbd, st1) \<and>
     pv_Capacity pv = Some 2097152 \<and>
     (\<exists>st3. rbd_Delete demo_ceph pv (demo_rbd, st1) = Some (None, demo_rbd, st3))"
proof -
  have claim: "vo_Parameters demo_claim = demo_params" "\<not> vo_Selector demo_claim" "vo_Request demo_claim = 1500000"
      "vo_AccessModes demo_claim = [''ReadWriteOnce'']"
    and p: "rp_client demo_rbd" "rp_usePVName demo_rbd" "rp_identity demo_rbd = ''me''"
    by (simp_all add: demo_claim_def demo_rbd_def NewRBDProvisioner_def)
  have "\<not> Contains ''Watchers: none'' ''watcher=''" by code_simp
  then show ?thesis
    by (simp add: rbd_Provision_def rbd_Delete_def claim p demo_rbd_parse rbd_imageName_def CreateImage_def
        rbd_execCommand_def DeleteImage_def rbdStatus_def rbd_PV_def rbd_getAccessModes_def demo_ceph_fields Let_def)
qed

theorem rbd_capacity_covers_request_witness:
  "\<exists>pv st1 mb. rbd_Provision demo_ceph demo_claim (demo_rbd, []) = Some (Inr pv, demo_rbd, st1) \<and>
     pv_Capacity pv = Some (mb * 1024 * 1024) \<and> 1500000 \<le> mb * 1024 * 1024 \<and> mb * 1024 * 1024 < 1500000 + 1024 * 1024"
proof -
  obtain pv st1 where run: "rbd_Provision demo_ceph demo_claim (demo_rbd, []) = Some (Inr pv, demo_rbd, st1)"
    using demo_rbd_runs by blast
  have req: "vo_Request demo_claim = 1500000" by (simp add: demo_claim_def)
  have "rounds_up (co_RoundUpSize demo_ceph)"
    using rounds_up_div by (simp add: demo_ceph_fields [abs_def])
  from rbd_capacity_covers_request [OF this _ run] req show ?thesis
    using run by auto
qed


end
