(* ===== verification/GlusterLib.thy ===== *)
theory GlusterLib
  imports ProvisionerLib
begin

text \<open>
  What the three Gluster provisioners share: the calls they make outside the repository, as a
  record of functions on the world's state \<open>'o\<close> (each provisioner extends it with its own), the
  client of the Heketi server, and the bodies they have in common.
\<close>

section \<open>The world\<close>

record Endpoints =
  ep_Namespace :: string
  ep_Name :: string
  ep_Labels :: "string gomap"
  ep_Addresses :: "string list"
  ep_Ports :: "(int \<times> string) list"

record Service =
  svc_Namespace :: string
  svc_Name :: string
  svc_Labels :: "string gomap"
  svc_Ports :: "(int \<times> string) list"

record 'o glusterOS =
  gs_range :: "string gomap \<Rightarrow> 'o \<Rightarrow> string list"
  gs_GetSecret :: "string \<Rightarrow> string \<Rightarrow> 'o \<Rightarrow> Secret result"
  gs_CreateEndpoints :: "Endpoints \<Rightarrow> 'o \<Rightarrow> error option \<times> 'o"
  gs_CreateService :: "Service \<Rightarrow> 'o \<Rightarrow> error option \<times> 'o"
  gs_DeleteService :: "string \<Rightarrow> string \<Rightarrow> 'o \<Rightarrow> error option \<times> 'o"
  gs_AllocateNext :: "VolumeOptions \<Rightarrow> 'o \<Rightarrow> int result \<times> 'o"
  gs_Release :: "PersistentVolume \<Rightarrow> 'o \<Rightarrow> error option \<times> 'o"
  gs_NewUUID :: "'o \<Rightarrow> string \<times> 'o"
  gs_RoundUpToGiB :: "int \<Rightarrow> int"
  gs_AccessModesContainedInAll :: "string list \<Rightarrow> string list \<Rightarrow> bool"

text \<open>A client of the Heketi server is what it was made of; making one may fail (nil).\<close>

record heketiClient =
  hc_url :: string
  hc_user :: string
  hc_key :: string

definition legal_gluster_ranges :: "('o, 'x) glusterOS_scheme \<Rightarrow> bool" where
  "legal_gluster_ranges os \<longleftrightarrow> (\<forall>m st. enumerates (gs_range os m st) m)"

text \<open>Documented behaviour of the library: the number of GiB that hold a size in bytes.\<close>

abbreviation GiB :: int where
  "GiB \<equiv> 1024 * 1024 * 1024"

definition rounds_to_GiB :: "('o, 'x) glusterOS_scheme \<Rightarrow> bool" where
  "rounds_to_GiB os \<longleftrightarrow>
     (\<forall>size \<ge> 0. (gs_RoundUpToGiB os size - 1) * GiB < size \<and> size \<le> gs_RoundUpToGiB os size * GiB)"

text \<open>A range reaches every key, so a body that always returns early for one key ends the range.\<close>

lemma range_loop_rejects:
  assumes "enumerates ks m" and "fmlookup m k = Some v" and "\<And>s. isl (step k v s)"
  shows "isl (range_loop step ks m s)"
proof -
  have "k \<in> set ks" using assms by (auto dest: enumerates_lookup)
  then show ?thesis
  proof (induction ks arbitrary: s)
    case (Cons x xs)
    show ?case
    proof (cases "x = k")
      case True
      obtain e where "step k v s = Inl e" using assms(3) [of s] by (auto simp: isl_def)
      with True assms(2) show ?thesis by simp
    next
      case False
      with Cons have "isl (range_loop step xs m s')" for s' by simp
      then show ?thesis by (cases "step x (the (fmlookup m x)) s") (auto split: option.split)
    qed
  qed simp
qed

section \<open>Common bodies\<close>

lemma and_then_Inr: "and_then r f = Inr y \<longleftrightarrow> (\<exists>x. r = Inr x \<and> f x = Inr y)"
  by (cases r) auto

text \<open>\<open>if err != nil && errors.IsAlreadyExists(err) { err = nil }\<close>\<close>

definition tolerate_existing :: "error option \<Rightarrow> error option" where
  "tolerate_existing err = (case err of Some e \<Rightarrow> if IsAlreadyExists e then None else err | None \<Rightarrow> None)"

text \<open>\<open>strings.SplitN(s, sep, 2)\<close>\<close>

definition split_first :: "char \<Rightarrow> string \<Rightarrow> string list" where
  "split_first c s =
     (if c \<in> set s then [takeWhile (\<lambda>x. x \<noteq> c) s, drop 1 (dropWhile (\<lambda>x. x \<noteq> c) s)] else [s])"

text \<open>
  \<open>strings.Split(s, ",")\<close> and \<open>strings.Split(v, ":")\<close> over the annotation that tells the server's
  address and credentials; the part after a first colon is missing when there is none, and reading
  it panics.
\<close>

fun serverArgs :: "string list \<Rightarrow> string gomap \<Rightarrow> string gomap option" where
  "serverArgs [] args = Some args"
| "serverArgs (v # vs) args =
     (if v = '''' then serverArgs vs args
      else
        let s = split_on (CHR '':'') v in
        if hd s = ''url'' then serverArgs vs (fmupd (hd s) (join_with '':'' (tl s)) args)
        else if length s < 2 then None
        else serverArgs vs (fmupd (hd s) (s ! 1) args))"

text \<open>How both provisioners write that annotation.\<close>

definition serverAnn :: "string \<Rightarrow> string \<Rightarrow> string \<Rightarrow> string \<Rightarrow> string" where
  "serverAnn url user secretName secretNamespace =
     ''url:'' @ url @ '','' @ ''user:'' @ user @ '','' @ ''secret:'' @ secretName @ '','' @
     ''secretnamespace:'' @ secretNamespace"

definition no_char :: "char \<Rightarrow> string \<Rightarrow> bool" where
  "no_char c s \<longleftrightarrow> c \<notin> set s"

text \<open>
  What is written is read back, if no part contains a comma and only the address contains colons.
\<close>

lemma serverArgs_serverAnn:
  assumes "list_all (no_char (CHR '','')) [url, user, secretName, secretNamespace]"
    and "list_all (no_char (CHR '':'')) [user, secretName, secretNamespace]"
  shows "serverArgs (split_on (CHR '','') (serverAnn url user secretName secretNamespace)) fmempty =
     Some (fmupd ''secretnamespace'' secretNamespace (fmupd ''secret'' secretName
            (fmupd ''user'' user (fmupd ''url'' url fmempty))))"
proof -
  have "split_on (CHR '','') (serverAnn url user secretName secretNamespace) =
      [''url:'' @ url, ''user:'' @ user, ''secret:'' @ secretName, ''secretnamespace:'' @ secretNamespace]"
    using assms(1) split_on_append_sep [of "CHR '',''" "''url:'' @ url"]
      split_on_append_sep [of "CHR '',''" "''user:'' @ user"]
      split_on_append_sep [of "CHR '',''" "''secret:'' @ secretName"]
      split_on_plain [of "CHR '',''" "''secretnamespace:'' @ secretNamespace"]
    by (simp add: serverAnn_def no_char_def)
  moreover have "split_on (CHR '':'') (''url:'' @ url) = ''url'' # split_on (CHR '':'') url"
    "split_on (CHR '':'') (''user:'' @ user) = [''user'', user]"
    "split_on (CHR '':'') (''secret:'' @ secretName) = [''secret'', secretName]"
    "split_on (CHR '':'') (''secretnamespace:'' @ secretNamespace) = [''secretnamespace'', secretNamespace]"
    using assms(2) split_on_append_sep [of "CHR '':''" "''url''" url]
      split_on_append_sep [of "CHR '':''" "''user''" user] split_on_append_sep [of "CHR '':''" "''secret''" secretName]
      split_on_append_sep [of "CHR '':''" "''secretnamespace''" secretNamespace]
    by (simp_all add: split_on_plain no_char_def)
  ultimately show ?thesis by (simp add: Let_def join_split_on)
qed

end
