(* ===== verification/GlusterFile.thy ===== *)
theory GlusterFile
  imports GlusterLib Complex_Main
begin

text \<open>
  \<open>gluster/file/cmd/glusterfile-provisioner/glusterfile-provisioner.go\<close>: volumes of a Gluster file
  system behind a Heketi server. \<open>fileOS\<close> adds the calls of this provisioner to the common world: the claims of the
  API server, the retry helper, the parsing of floating point numbers and the Heketi client. The
  provisioner is a value that is passed on (\<open>Provision\<close> stores its options in it); a panic is \<open>None\<close>.
\<close>

abbreviation file_provisionerName :: string where
  "file_provisionerName \<equiv> ''gluster.org/glusterfile''"

abbreviation heketiVolIDAnn :: string where
  "heketiVolIDAnn \<equiv> ''gluster.org/heketi-volume-id''"

abbreviation CloneRequestAnn :: string where
  "CloneRequestAnn \<equiv> ''k8s.io/CloneRequest''"

abbreviation CloneOfAnn :: string where
  "CloneOfAnn \<equiv> ''k8s.io/CloneOf''"

text \<open>A parsed floating point number.\<close>

datatype go_float = FNaN | FInf bool | FNum real

fun float_less :: "go_float \<Rightarrow> go_float \<Rightarrow> bool" where
  "float_less FNaN y = False"
| "float_less x FNaN = False"
| "float_less (FNum x) (FNum y) = (x < y)"
| "float_less (FInf neg) (FNum y) = neg"
| "float_less (FNum x) (FInf neg) = (\<not> neg)"
| "float_less (FInf neg) (FInf neg') = (neg \<and> \<not> neg')"

text \<open>\<open>gapi.VolumeDurabilityInfo\<close>, its zero value, and the requests and answers of Heketi.\<close>

record durability =
  du_Type :: string
  du_Replica :: int
  du_Data :: int
  du_Redundancy :: int

definition zero_durability :: durability where
  "zero_durability = \<lparr>du_Type = '''', du_Replica = 0, du_Data = 0, du_Redundancy = 0\<rparr>"

record VolumeCreateRequest =
  vr_Size :: int
  vr_Name :: string
  vr_Clusters :: "string list"
  vr_Gid :: int
  vr_Durability :: durability
  vr_GlusterVolumeOptions :: "string list"
  vr_SnapEnable :: bool
  vr_SnapFactor :: go_float

record VolumeInfoResponse =
  vi_Id :: string
  vi_Name :: string
  vi_Size :: int
  vi_Cluster :: string

record PVC =
  pvc_Namespace :: string
  pvc_Name :: string
  pvc_Annotations :: "string gomap option"

record 'o fileOS = "'o glusterOS" +
  fo_GetPVC :: "string \<Rightarrow> string \<Rightarrow> 'o \<Rightarrow> PVC result"
  fo_UpdatePVC :: "PVC \<Rightarrow> 'o \<Rightarrow> error option \<times> 'o"
  fo_RetryOnConflict :: "('o \<Rightarrow> (error option \<times> 'o) option) \<Rightarrow> 'o \<Rightarrow> (error option \<times> 'o) option"
  fo_ParseFloat :: "string \<Rightarrow> go_float result"
  fo_NewClient :: "string \<Rightarrow> string \<Rightarrow> string \<Rightarrow> heketiClient option"
  fo_VolumeCreate :: "heketiClient \<Rightarrow> VolumeCreateRequest \<Rightarrow> 'o \<Rightarrow> VolumeInfoResponse result \<times> 'o"
  fo_VolumeClone :: "heketiClient \<Rightarrow> string \<Rightarrow> 'o \<Rightarrow> VolumeInfoResponse result \<times> 'o"
  fo_VolumeDelete :: "heketiClient \<Rightarrow> string \<Rightarrow> 'o \<Rightarrow> error option \<times> 'o"
  fo_VolumeInfo :: "heketiClient \<Rightarrow> string \<Rightarrow> 'o \<Rightarrow> VolumeInfoResponse result"
  fo_VolumeExpand :: "heketiClient \<Rightarrow> string \<Rightarrow> int \<Rightarrow> 'o \<Rightarrow> VolumeInfoResponse result \<times> 'o"
  fo_ClusterInfo :: "heketiClient \<Rightarrow> string \<Rightarrow> 'o \<Rightarrow> string list result"
  fo_NodeInfo :: "heketiClient \<Rightarrow> string \<Rightarrow> 'o \<Rightarrow> string list result"

section \<open>The provisioner\<close>

record fileConfig =
  fc_url :: string
  fc_user :: string
  fc_userKey :: string
  fc_secretNamespace :: string
  fc_secretName :: string
  fc_secretValue :: string
  fc_clusterID :: string
  fc_gidMin :: int
  fc_gidMax :: int
  fc_volumeType :: durability
  fc_volumeOptions :: "string list"
  fc_volumeNamePrefix :: string
  fc_thinPoolSnapFactor :: go_float

definition zero_fileConfig :: fileConfig where
  "zero_fileConfig =
     \<lparr>fc_url = '''', fc_user = '''', fc_userKey = '''', fc_secretNamespace = '''', fc_secretName = '''',
      fc_secretValue = '''', fc_clusterID = '''', fc_gidMin = 0, fc_gidMax = 0,
      fc_volumeType = zero_durability, fc_volumeOptions = [], fc_volumeNamePrefix = '''',
      fc_thinPoolSnapFactor = FNum 0\<rparr>"

text \<open>\<open>provisionerConfig\<close> is embedded in the provisioner: \<open>p.volumeType\<close> is a field of \<open>gp_config\<close>.\<close>

record glusterfileProvisioner =
  gp_client :: bool
  gp_identity :: string
  gp_config :: fileConfig
  gp_options :: "VolumeOptions option"

definition NewglusterfileProvisioner :: "bool \<Rightarrow> string \<Rightarrow> glusterfileProvisioner" where
  "NewglusterfileProvisioner client ident =
     \<lparr>gp_client = client, gp_identity = ident, gp_config = zero_fileConfig, gp_options = None\<rparr>"

definition file_GetAccessModes :: "string list" where
  "file_GetAccessModes = [''ReadWriteMany'', ''ReadOnlyMany'', ''ReadWriteOnce'']"

text \<open>
  Writing annotations to the latest version of a claim. A claim that cannot be read, or one
  without any annotation (a nil map), panics.
\<close>

definition annotateOnce :: "'o fileOS \<Rightarrow> string \<Rightarrow> string \<Rightarrow> string gomap \<Rightarrow> 'o \<Rightarrow> (error option \<times> 'o) option" where
  "annotateOnce os ns name updates st =
     (case fo_GetPVC os ns name st of
        Inl getErr \<Rightarrow> None
      | Inr pvc \<Rightarrow>
          (case pvc_Annotations pvc of
             None \<Rightarrow> if updates = fmempty then Some (fo_UpdatePVC os pvc st) else None
           | Some ann \<Rightarrow> Some (fo_UpdatePVC os (pvc\<lparr>pvc_Annotations := Some (ann ++\<^sub>f updates)\<rparr>) st)))"

definition annotatePVC :: "'o fileOS \<Rightarrow> string \<Rightarrow> string \<Rightarrow> string gomap \<Rightarrow> 'o \<Rightarrow> (error option \<times> 'o) option" where
  "annotatePVC os ns name updates st =
     map_option (\<lambda>(retryErr, st). (map_option (Wrapf ''Update failed: %v'' []) retryErr, st))
       (fo_RetryOnConflict os (annotateOnce os ns name updates) st)"

definition annotateClonedPVC ::
  "'o fileOS \<Rightarrow> string \<Rightarrow> VolumeOptions \<Rightarrow> string \<Rightarrow> 'o \<Rightarrow> (error option \<times> 'o) option" where
  "annotateClonedPVC os VolID options SourceVolID st =
     (let annotations = fmupd heketiVolIDAnn VolID fmempty;
          annotations =
            (case fmlookup (vo_PVCAnnotations options) CloneRequestAnn of
               Some sourcePVCName \<Rightarrow> if SourceVolID \<noteq> '''' then fmupd CloneOfAnn sourcePVCName annotations else annotations
             | None \<Rightarrow> annotations)
      in annotatePVC os (vo_PVCNamespace options) (vo_PVCName options) annotations st)"

section \<open>Parameters\<close>

definition file_GetSecretForPV ::
  "'o fileOS \<Rightarrow> bool \<Rightarrow> string \<Rightarrow> string \<Rightarrow> string \<Rightarrow> 'o \<Rightarrow> string gomap result" where
  "file_GetSecretForPV os client ns name pluginName st =
     (if \<not> client then Inl (Errorf ''Cannot get kube client'' [])
      else
        (case gs_GetSecret os ns name st of
           Inl err \<Rightarrow> Inl err
         | Inr secrets \<Rightarrow>
             if sec_Type secrets \<noteq> pluginName then Inl (Errorf ''cannot get secret of type %s'' [pluginName])
             else Inr (sec_Data secrets)))"

definition file_parseSecret :: "'o fileOS \<Rightarrow> bool \<Rightarrow> string \<Rightarrow> string \<Rightarrow> 'o \<Rightarrow> string result" where
  "file_parseSecret os client ns secretName st =
     (case file_GetSecretForPV os client ns secretName file_provisionerName st of
        Inl err \<Rightarrow> Inl (Wrapf ''failed to get secret %s/%s: %v'' [ns, secretName] err)
      | Inr secretMap \<Rightarrow>
          if secretMap = fmempty then Inl (Errorf ''empty secret map'' [])
          else Inr (scanSecret (gs_range os secretMap st) secretMap ''''))"

definition convertVolumeParam :: "string \<Rightarrow> int result" where
  "convertVolumeParam volumeString =
     (case Atoi volumeString of
        None \<Rightarrow> Inl (Errorf ''failed to parse %q'' [volumeString])
      | Some count \<Rightarrow>
          if count < 0 then Inl (Errorf ''negative values are not allowed'' []) else Inr count)"

record fileParams = fileConfig +
  fp_authEnabled :: bool
  fp_VolumeType :: string
  fp_VolumeOptions :: string
  fp_VolumeNamePrefix :: string
  fp_ThinPoolSnapFactor :: string

definition file_defaults :: fileParams where
  "file_defaults =
     fileConfig.extend (zero_fileConfig\<lparr>fc_thinPoolSnapFactor := FNum 1\<rparr>)
       (fileParams.fields True '''' '''' '''' '''')"

definition file_param :: "string \<Rightarrow> string \<Rightarrow> fileParams \<Rightarrow> error + fileParams" where
  "file_param k v c =
     (if ToLower k = ''resturl'' then Inr (c\<lparr>fc_url := v\<rparr>)
      else if ToLower k = ''restuser'' then Inr (c\<lparr>fc_user := v\<rparr>)
      else if ToLower k = ''restuserkey'' then Inr (c\<lparr>fc_userKey := v\<rparr>)
      else if ToLower k = ''restsecretname'' then Inr (c\<lparr>fc_secretName := v\<rparr>)
      else if ToLower k = ''restsecretnamespace'' then Inr (c\<lparr>fc_secretNamespace := v\<rparr>)
      else if ToLower k = ''clusterid'' then Inr (if v \<noteq> '''' then c\<lparr>fc_clusterID := v\<rparr> else c)
      else if ToLower k = ''restauthenabled'' then Inr (c\<lparr>fp_authEnabled := (ToLower v = ''true'')\<rparr>)
      else if ToLower k = ''volumetype'' then Inr (c\<lparr>fp_VolumeType := v\<rparr>)
      else if ToLower k = ''volumeoptions'' then Inr (if v \<noteq> '''' then c\<lparr>fp_VolumeOptions := v\<rparr> else c)
      else if ToLower k = ''volumenameprefix'' then Inr (if v \<noteq> '''' then c\<lparr>fp_VolumeNamePrefix := v\<rparr> else c)
      else if ToLower k = ''snapfactor'' then Inr (if v \<noteq> '''' then c\<lparr>fp_ThinPoolSnapFactor := v\<rparr> else c)
      else if ToLower k = ''gidmin'' then Inr c
      else if ToLower k = ''gidmax'' then Inr c
      else if ToLower k = ''smartclone'' then Inr c
      else Inl (Errorf ''invalid option %q for volume plugin %s'' [k, file_provisionerName]))"

text \<open>
  The type of a volume. For \<open>disperse\<close> the code tests another variable than the one the conversion
  sets, so a count that does not parse is 0.
\<close>

definition replicated :: "int \<Rightarrow> durability" where
  "replicated n = zero_durability\<lparr>du_Type := ''replicate'', du_Replica := n\<rparr>"

definition file_volumeType :: "string \<Rightarrow> durability result" where
  "file_volumeType s =
     (if s = '''' then Inr (replicated 3)
      else
        let info = split_on (CHR '':'') s in
        if info ! 0 = ''replicate'' then
          (if length info \<ge> 2 then
             (case convertVolumeParam (info ! 1) of
                Inl convertErr \<Rightarrow>
                  Inl (Wrapf ''error %v when parsing value %q of option %s for volume plugin %s''
                         [info ! 1, ''volumetype'', file_provisionerName] convertErr)
              | Inr newReplicaCount \<Rightarrow> Inr (replicated newReplicaCount))
           else Inr (replicated 3))
        else if info ! 0 = ''disperse'' then
          (if length info \<ge> 3 then
             let value = (\<lambda>r. case r of Inl convertErr \<Rightarrow> 0 | Inr n \<Rightarrow> n)
             in Inr (zero_durability\<lparr>du_Type := ''disperse'', du_Data := value (convertVolumeParam (info ! 1)),
                       du_Redundancy := value (convertVolumeParam (info ! 2))\<rparr>)
           else
             Inl (Errorf (''StorageClass for provisioner %q must have data:redundancy count set for disperse volumes in storage class option '%s'' @ [CHR 0x27])
                    [file_provisionerName, ''volumetype'']))
        else if info ! 0 = ''none'' then Inr (zero_durability\<lparr>du_Type := ''none''\<rparr>)
        else Inl (Errorf ''error parsing value for option 'volumetype' for volume plugin %s'' [file_provisionerName]))"

definition file_credentials :: "'o fileOS \<Rightarrow> bool \<Rightarrow> fileParams \<Rightarrow> 'o \<Rightarrow> fileParams result" where
  "file_credentials os client cfg st =
     (let cfg =
        (if \<not> fp_authEnabled cfg then
           cfg\<lparr>fc_user := '''', fc_secretName := '''', fc_secretNamespace := '''', fc_userKey := '''',
               fc_secretValue := ''''\<rparr>
         else cfg)
      in if fc_secretName cfg \<noteq> '''' \<or> fc_secretNamespace cfg \<noteq> '''' then
           (if fc_secretName cfg \<noteq> '''' \<and> fc_secretNamespace cfg \<noteq> '''' then
              (case file_parseSecret os client (fc_secretNamespace cfg) (fc_secretName cfg) st of
                 Inl err \<Rightarrow> Inl err
               | Inr secret \<Rightarrow> Inr (cfg\<lparr>fc_secretValue := secret\<rparr>))
            else
              Inl (Errorf ''StorageClass for provisioner %q must have secretNamespace and secretName either both set or both empty''
                     [file_provisionerName]))
         else Inr (cfg\<lparr>fc_secretValue := fc_userKey cfg\<rparr>))"

definition file_namePrefix :: "fileParams \<Rightarrow> fileParams result" where
  "file_namePrefix cfg =
     (if fp_VolumeNamePrefix cfg \<noteq> '''' then
        (if Contains (fp_VolumeNamePrefix cfg) ''_'' then
           Inl (Errorf ''Storageclass parameter 'volumenameprefix' should not contain '_' in its value'' [])
         else Inr (cfg\<lparr>fc_volumeNamePrefix := fp_VolumeNamePrefix cfg\<rparr>))
      else Inr cfg)"

definition file_snapFactor :: "'o fileOS \<Rightarrow> fileParams \<Rightarrow> fileParams result" where
  "file_snapFactor os cfg =
     (if fp_ThinPoolSnapFactor cfg \<noteq> '''' then
        (case fo_ParseFloat os (fp_ThinPoolSnapFactor cfg) of
           Inl err \<Rightarrow> Inl (Wrapf ''failed to convert snapfactor value %v to float32: %v'' [fp_ThinPoolSnapFactor cfg] err)
         | Inr f \<Rightarrow>
             if float_less f (FNum 1) \<or> float_less (FNum 100) f then
               Inl (Errorf ''invalid snapshot factor %v, the value of snapfactor must be between 1 to 100'' [])
             else Inr (cfg\<lparr>fc_thinPoolSnapFactor := f\<rparr>))
      else Inr cfg)"

definition file_parseClassParameters ::
  "'o fileOS \<Rightarrow> bool \<Rightarrow> string gomap \<Rightarrow> 'o \<Rightarrow> fileConfig result" where
  "file_parseClassParameters os client params st =
     and_then (range_loop file_param (gs_range os params st) params file_defaults) (\<lambda>cfg.
     if fc_url cfg = '''' then
       Inl (Errorf ''StorageClass for provisioner %s must contain 'resturl' parameter'' [file_provisionerName])
     else
       and_then (file_volumeType (fp_VolumeType cfg)) (\<lambda>volumeType.
       and_then (file_credentials os client (cfg\<lparr>fc_volumeType := volumeType\<rparr>) st) (\<lambda>cfg.
       and_then
         (file_namePrefix
            (if fp_VolumeOptions cfg \<noteq> '''' then cfg\<lparr>fc_volumeOptions := split_on (CHR '','') (fp_VolumeOptions cfg)\<rparr>
             else cfg)) (\<lambda>cfg.
       and_then (file_snapFactor os cfg) (\<lambda>cfg. Inr (fileConfig.truncate cfg))))))"

section \<open>Endpoints\<close>

definition file_createEndpointService ::
  "'o fileOS \<Rightarrow> bool \<Rightarrow> string \<Rightarrow> string \<Rightarrow> string list \<Rightarrow> string \<Rightarrow> 'o \<Rightarrow> (Endpoints \<times> Service) result \<times> 'o" where
  "file_createEndpointService os client ns epServiceName hostips pvcname st =
     (let labels = fmupd ''gluster.org/provisioned-for-pvc'' pvcname fmempty;
          endpoint = \<lparr>ep_Namespace = ns, ep_Name = epServiceName, ep_Labels = labels, ep_Addresses = hostips,
                      ep_Ports = [(1, ''TCP'')]\<rparr>;
          service = \<lparr>svc_Namespace = ns, svc_Name = epServiceName, svc_Labels = labels, svc_Ports = [(1, ''TCP'')]\<rparr>
      in if \<not> client then (Inl (Errorf ''failed to get kube client when creating endpoint service'' []), st)
         else
           (case gs_CreateEndpoints os endpoint st of
              (err, st) \<Rightarrow>
                (case tolerate_existing err of
                   Some e \<Rightarrow> (Inl (Wrapf ''failed to create endpoint: %v'' [] e), st)
                 | None \<Rightarrow>
                     (case gs_CreateService os service st of
                        (err, st) \<Rightarrow>
                          (case tolerate_existing err of
                             Some e \<Rightarrow> (Inl (Wrapf ''error creating service: %v'' [] e), st)
                           | None \<Rightarrow> (Inr (endpoint, service), st))))))"

text \<open>The address of a node is the concatenation of its storage host names.\<close>

fun nodeAddresses :: "'o fileOS \<Rightarrow> heketiClient \<Rightarrow> string list \<Rightarrow> 'o \<Rightarrow> string list result" where
  "nodeAddresses os cli [] st = Inr []"
| "nodeAddresses os cli (node # nodes) st =
     (case fo_NodeInfo os cli node st of
        Inl err2 \<Rightarrow> Inl (Wrapf ''failed to get host ipaddress: %v'' [] err2)
      | Inr storage \<Rightarrow> and_then (nodeAddresses os cli nodes st) (\<lambda>ips. Inr (concat storage # ips)))"

definition file_getClusterNodes :: "'o fileOS \<Rightarrow> heketiClient \<Rightarrow> string \<Rightarrow> 'o \<Rightarrow> string list result" where
  "file_getClusterNodes os cli cluster st =
     (case fo_ClusterInfo os cli cluster st of
        Inl err \<Rightarrow> Inl (Wrapf ''failed to get cluster details: %v'' [] err)
      | Inr nodes \<Rightarrow>
          and_then (nodeAddresses os cli nodes st)
            (\<lambda>dynamicHostIps.
               if dynamicHostIps = [] then Inl (Errorf ''no hosts found: %v'' [''<nil>'']) else Inr dynamicHostIps))"

text \<open>
  The source of a new volume. The claim is the one stored in the provisioner, \<open>p.options\<close>. A
  volume whose endpoints cannot be made is deleted; one whose nodes cannot be found is not.
\<close>

definition createVolumeSource ::
  "'o fileOS \<Rightarrow> heketiClient \<Rightarrow> VolumeInfoResponse \<Rightarrow> glusterfileProvisioner \<times> 'o \<Rightarrow> (GlusterfsVolumeSource result \<times> 'o) option" where
  "createVolumeSource os cli volInfo = (\<lambda>(p, st).
     case file_getClusterNodes os cli (vi_Cluster volInfo) st of
       Inl err \<Rightarrow> Some (Inl (Wrapf ''error [%v] when getting cluster nodes for volume %s'' [vi_Name volInfo] err), st)
     | Inr dynamicHostIps \<Rightarrow>
         (case gp_options p of
            None \<Rightarrow> None
          | Some options \<Rightarrow>
              (let epServiceName = ''glusterfile-dynamic-'' @ vo_PVCName options;
                   epNamespace = vo_PVCNamespace options
               in (case file_createEndpointService os (gp_client p) epNamespace epServiceName dynamicHostIps
                          (vo_PVCName options) st of
                     (Inl err, st) \<Rightarrow>
                       (case fo_VolumeDelete os cli (vi_Id volInfo) st of
                          (deleteErr, st) \<Rightarrow>
                            Some (Inl (Wrapf ''failed to create endpoint/service %v/%v: %v'' [epNamespace, epServiceName] err), st))
                   | (Inr (endpoint, service), st) \<Rightarrow>
                       Some (Inr \<lparr>glfs_EndpointsName = ep_Name endpoint, glfs_Path = vi_Name volInfo, glfs_ReadOnly = False\<rparr>,
                             st)))))"

section \<open>Creating volumes\<close>

text \<open>
  A failure to make the source is reported with another error variable, which is nil: the cause is
  not in the message.
\<close>

definition file_withSource ::
  "'o fileOS \<Rightarrow> heketiClient \<Rightarrow> VolumeInfoResponse \<Rightarrow> int \<Rightarrow> glusterfileProvisioner \<times> 'o \<Rightarrow>
     ((GlusterfsVolumeSource \<times> int \<times> string) result \<times> 'o) option" where
  "file_withSource os cli volInfo sizeGiB = (\<lambda>(p, st).
     case createVolumeSource os cli volInfo (p, st) of
       None \<Rightarrow> None
     | Some (Inl volErr, st) \<Rightarrow>
         Some (Inl (Errorf ''error [%v] when creating volume source  for volume %s'' [''<nil>'', vi_Name volInfo]), st)
     | Some (Inr volSource, st) \<Rightarrow> Some (Inr (volSource, sizeGiB, vi_Id volInfo), st))"

definition createVolumeClone ::
  "'o fileOS \<Rightarrow> string \<Rightarrow> fileConfig \<Rightarrow> glusterfileProvisioner \<times> 'o \<Rightarrow>
     ((GlusterfsVolumeSource \<times> int \<times> string) result \<times> 'o) option" where
  "createVolumeClone os sourceVolID config = (\<lambda>(p, st).
     if fc_url config = '''' then
       Some (Inl (Errorf ''failed to create glusterfs REST client, REST URL is empty'' []), st)
     else
       (case fo_NewClient os (fc_url config) (fc_user config) (fc_secretValue config) of
          None \<Rightarrow> Some (Inl (Errorf ''failed to create glusterfs REST client, REST server authentication failed'' []), st)
        | Some cli \<Rightarrow>
            (case fo_VolumeClone os cli sourceVolID st of
               (Inl cloneErr, st) \<Rightarrow> Some (Inl (Wrapf ''failed to clone of volume %v: %v'' [sourceVolID] cloneErr), st)
             | (Inr cloneVolInfo, st) \<Rightarrow> file_withSource os cli cloneVolInfo (vi_Size cloneVolInfo) (p, st))))"

definition file_volumeName :: "'o fileOS \<Rightarrow> fileConfig \<Rightarrow> VolumeOptions \<Rightarrow> 'o \<Rightarrow> string \<times> 'o" where
  "file_volumeName os config options st =
     (if fc_volumeNamePrefix config \<noteq> '''' then
        let (u, st) = gs_NewUUID os st
        in (fc_volumeNamePrefix config @ ''_'' @ vo_PVCNamespace options @ ''_'' @ vo_PVCName options @ ''_'' @ u, st)
      else ('''', st))"

text \<open>The durability and the options of the request are those embedded in the provisioner.\<close>

definition file_createRequest ::
  "glusterfileProvisioner \<Rightarrow> int \<Rightarrow> fileConfig \<Rightarrow> int \<Rightarrow> string \<Rightarrow> VolumeCreateRequest" where
  "file_createRequest p gid config sz customVolumeName =
     \<lparr>vr_Size = sz, vr_Name = customVolumeName,
      vr_Clusters = (if fc_clusterID config \<noteq> '''' then split_on (CHR '','') (fc_clusterID config) else []),
      vr_Gid = gid, vr_Durability = fc_volumeType (gp_config p),
      vr_GlusterVolumeOptions = fc_volumeOptions (gp_config p),
      vr_SnapEnable = True, vr_SnapFactor = fc_thinPoolSnapFactor config\<rparr>"

definition CreateVolume ::
  "'o fileOS \<Rightarrow> int option \<Rightarrow> fileConfig \<Rightarrow> int \<Rightarrow> glusterfileProvisioner \<times> 'o \<Rightarrow>
     ((GlusterfsVolumeSource \<times> int \<times> string) result \<times> 'o) option" where
  "CreateVolume os gid config sz = (\<lambda>(p, st).
     if fc_url config = '''' then
       Some (Inl (Errorf ''failed to create glusterfs REST client, REST URL is empty'' []), st)
     else
       (case fo_NewClient os (fc_url config) (fc_user config) (fc_secretValue config) of
          None \<Rightarrow> Some (Inl (Errorf ''failed to create glusterfs REST client, REST server authentication failed'' []), st)
        | Some cli \<Rightarrow>
            (case gp_options p of
               None \<Rightarrow> None
             | Some options \<Rightarrow>
                 (case file_volumeName os config options st of
                    (customVolumeName, st) \<Rightarrow>
                      (case gid of
                         None \<Rightarrow> None
                       | Some g \<Rightarrow>
                           (case fo_VolumeCreate os cli (file_createRequest p g config sz customVolumeName) st of
                              (Inl err, st) \<Rightarrow> Some (Inl (Wrapf ''failed to create gluster volume: %v'' [] err), st)
                            | (Inr volume, st) \<Rightarrow> file_withSource os cli volume sz (p, st)))))))"

section \<open>Provision\<close>

definition file_claimParam :: "string \<Rightarrow> string \<Rightarrow> bool \<times> bool \<Rightarrow> error + bool \<times> bool" where
  "file_claimParam k v = (\<lambda>(smartclone, gidAllocate).
     if ToLower k = ''smartclone'' then Inr (ToLower v = ''true'', gidAllocate)
     else if ToLower k = ''gidmin'' then Inr (smartclone, gidAllocate)
     else if ToLower k = ''gidmax'' then Inr (smartclone, gidAllocate)
     else if ToLower k = ''gidallocate'' then
       (case ParseBool v of
          None \<Rightarrow> Inl (Wrapf ''invalid value %s for parameter %s: %v'' [v, k] (ExtErr ''invalid syntax''))
        | Some b \<Rightarrow> Inr (smartclone, b))
     else Inr (smartclone, gidAllocate))"

definition file_gid :: "'o fileOS \<Rightarrow> bool \<Rightarrow> VolumeOptions \<Rightarrow> 'o \<Rightarrow> int option result \<times> 'o" where
  "file_gid os gidAllocate options st =
     (if gidAllocate then
        (case gs_AllocateNext os options st of
           (Inl err, st) \<Rightarrow> (Inl (Wrapf ''allocator error: %v'' [] err), st)
         | (Inr allocate, st) \<Rightarrow> (Inr (Some allocate), st))
      else (Inr None, st))"

definition file_clone ::
  "'o fileOS \<Rightarrow> fileConfig \<Rightarrow> VolumeOptions \<Rightarrow> string \<Rightarrow> glusterfileProvisioner \<times> 'o \<Rightarrow>
     ((GlusterfsVolumeSource \<times> string) result \<times> 'o) option" where
  "file_clone os cfg options sourcePVCRef = (\<lambda>(p, st).
     let parts = split_first (CHR ''/'') sourcePVCRef;
         ns = (if length parts < 2 then vo_PVCNamespace options else parts ! 0);
         sourcePVCName = parts ! (length parts - 1)
     in (case fo_GetPVC os ns sourcePVCName st of
           Inl err \<Rightarrow> Some (Inl (Errorf ''Unable to get PVC %s/%s'' [ns, sourcePVCName]), st)
         | Inr sourcePVC \<Rightarrow>
             (case Option.bind (pvc_Annotations sourcePVC) (\<lambda>ann. fmlookup ann heketiVolIDAnn) of
                None \<Rightarrow> Some (Inl (Errorf ''PVC %s/%s missing %s annotation'' [ns, sourcePVCName, heketiVolIDAnn]), st)
              | Some sourceVolID \<Rightarrow>
                  (case createVolumeClone os sourceVolID cfg (p, st) of
                     None \<Rightarrow> None
                   | Some (Inl createCloneErr, st) \<Rightarrow>
                       Some (Inl (Wrapf ''failed to create clone of %v: %v'' [sourceVolID] createCloneErr), st)
                   | Some (Inr (glusterfs, sizeGiB, cVolID), st) \<Rightarrow>
                       (case annotateClonedPVC os cVolID options sourceVolID st of
                          None \<Rightarrow> None
                        | Some (Some err, st) \<Rightarrow>
                            Some (Inl (Wrapf ''failed to annotate cloned PVC %s :%v'' [vo_PVCName options] err), st)
                        | Some (None, st) \<Rightarrow> Some (Inr (glusterfs, cVolID), st))))))"

definition file_create ::
  "'o fileOS \<Rightarrow> fileConfig \<Rightarrow> VolumeOptions \<Rightarrow> int option \<Rightarrow> glusterfileProvisioner \<times> 'o \<Rightarrow>
     ((GlusterfsVolumeSource \<times> string) result \<times> 'o) option" where
  "file_create os cfg options gid = (\<lambda>(p, st).
     case CreateVolume os gid cfg (gs_RoundUpToGiB os (vo_Request options)) (p, st) of
       None \<Rightarrow> None
     | Some (Inl createErr, st) \<Rightarrow> Some (Inl (Wrapf ''failed to create volume: %v'' [] createErr), st)
     | Some (Inr (glusterfs, sizeGiB, nVolID), st) \<Rightarrow>
         (case annotatePVC os (vo_PVCNamespace options) (vo_PVCName options) (fmupd heketiVolIDAnn nVolID fmempty) st of
            None \<Rightarrow> None
          | Some (annotateErr, st) \<Rightarrow> Some (Inr (glusterfs, nVolID), st)))"

definition file_PV :: "VolumeOptions \<Rightarrow> fileConfig \<Rightarrow> int \<Rightarrow> GlusterfsVolumeSource \<Rightarrow> string \<Rightarrow> PersistentVolume" where
  "file_PV options cfg gid glusterfs volID =
     zero_PV
       \<lparr>pv_Name := vo_PVName options,
        pv_Annotations :=
          fmupd ''pv.beta.kubernetes.io/gid'' (FormatInt gid)
          (fmupd ''gluster.org/type'' ''file''
          (fmupd ''Description'' ''Gluster-external: Dynamically provisioned PV''
          (fmupd heketiVolIDAnn volID
          (fmupd ''server'' (serverAnn (fc_url cfg) (fc_user cfg) (fc_secretName cfg) (fc_secretNamespace cfg))
          (fmupd ''volume.beta.kubernetes.io/mount-options'' ''auto_unmount'' fmempty))))),
        pv_ReclaimPolicy := vo_ReclaimPolicy options,
        pv_AccessModes := vo_AccessModes options,
        pv_VolumeMode := Some ModeFilesystem,
        pv_Capacity := Some (vo_Request options),
        pv_Glusterfs := Some glusterfs\<rparr>"

text \<open>From the parsed parameters on; writing the log reads the GID.\<close>

definition file_provisionWith ::
  "'o fileOS \<Rightarrow> VolumeOptions \<Rightarrow> bool \<Rightarrow> int option \<Rightarrow> fileConfig \<Rightarrow> glusterfileProvisioner \<times> 'o \<Rightarrow>
     (PersistentVolume result \<times> glusterfileProvisioner \<times> 'o) option" where
  "file_provisionWith os options smartclone gid cfg = (\<lambda>(p, st).
     case gid of
       None \<Rightarrow> None
     | Some g \<Rightarrow>
         (let cloneRef = map_get (vo_PVCAnnotations options) CloneRequestAnn
          in (case (if smartclone \<and> cloneRef \<noteq> '''' then file_clone os cfg options cloneRef (p, st)
                    else file_create os cfg options gid (p, st)) of
                None \<Rightarrow> None
              | Some (Inl err, st) \<Rightarrow> Some (Inl err, p, st)
              | Some (Inr (glusterfs, volID), st) \<Rightarrow> Some (Inr (file_PV options cfg g glusterfs volID), p, st))))"

definition file_Provision ::
  "'o fileOS \<Rightarrow> VolumeOptions \<Rightarrow> glusterfileProvisioner \<times> 'o \<Rightarrow>
     (PersistentVolume result \<times> glusterfileProvisioner \<times> 'o) option" where
  "file_Provision os options = (\<lambda>(p, st).
     if vo_Selector options then Some (Inl (Errorf ''claim Selector is not supported'' []), p, st)
     else if \<not> gs_AccessModesContainedInAll os file_GetAccessModes (vo_AccessModes options) then
       Some (Inl (Errorf ''invalid AccessModes %v: only AccessModes %v are supported''
                    (vo_AccessModes options @ file_GetAccessModes)), p, st)
     else
       let p = p\<lparr>gp_options := Some options\<rparr>;
           params = vo_Parameters options
       in (case range_loop file_claimParam (gs_range os params st) params (True, True) of
             Inl err \<Rightarrow> Some (Inl err, p, st)
           | Inr (smartclone, gidAllocate) \<Rightarrow>
               (case file_gid os gidAllocate options st of
                  (Inl err, st) \<Rightarrow> Some (Inl err, p, st)
                | (Inr gid, st) \<Rightarrow>
                    (case file_parseClassParameters os (gp_client p) params st of
                       Inl parseErr \<Rightarrow>
                         Some (Inl (Wrapf ''failed to parse storage class parameters: %v'' [] parseErr), p, st)
                     | Inr cfg \<Rightarrow> file_provisionWith os options smartclone gid cfg (p, st)))))"

section \<open>Deleting and expanding volumes\<close>

definition file_getVolumeID :: "PersistentVolume option \<Rightarrow> string \<Rightarrow> string result" where
  "file_getVolumeID pv volumeName =
     (case pv of
        None \<Rightarrow> Inl (Errorf ''provided PV spec is nil'' [])
      | Some pv \<Rightarrow>
          (let ann = map_get (pv_Annotations pv) heketiVolIDAnn;
               volumeID = (if ann \<noteq> '''' then ann else TrimPrefix volumeName ''vol_'')
           in if volumeID = '''' then Inl (Errorf ''volume ID is empty'' []) else Inr volumeID))"

definition getRESTCredentials ::
  "'o fileOS \<Rightarrow> glusterfileProvisioner \<Rightarrow> PersistentVolume \<Rightarrow> 'o \<Rightarrow> string gomap result option" where
  "getRESTCredentials os p pv st =
     (case fmlookup (pv_Annotations pv) ''server'' of
        None \<Rightarrow> Some (Inl (Errorf ''volume annotation for server details not found on PV'' []))
      | Some restString \<Rightarrow>
          (case serverArgs (split_on (CHR '','') restString) fmempty of
             None \<Rightarrow> None
           | Some args \<Rightarrow>
               (let args = fmupd ''restsecretvalue'' '''' args
                in if map_get args ''secret'' \<noteq> '''' \<and> map_get args ''secretnamespace'' \<noteq> '''' then
                     (case file_parseSecret os (gp_client p) (map_get args ''secretnamespace'') (map_get args ''secret'') st of
                        Inl err \<Rightarrow> Some (Inl (Wrapf ''failed to parse secret %s: %v'' [map_get args ''secret''] err))
                      | Inr secret \<Rightarrow> Some (Inr (fmupd ''restsecretvalue'' secret args)))
                   else Some (Inr args))))"

definition file_restClient :: "'o fileOS \<Rightarrow> string gomap \<Rightarrow> heketiClient option" where
  "file_restClient os args =
     fo_NewClient os (map_get args ''url'') (map_get args ''user'') (map_get args ''restsecretvalue'')"

definition file_deleteEndpointService ::
  "'o fileOS \<Rightarrow> bool \<Rightarrow> string \<Rightarrow> string \<Rightarrow> 'o \<Rightarrow> error option \<times> 'o" where
  "file_deleteEndpointService os client ns epServiceName st =
     (if \<not> client then (Some (Errorf ''failed to get kube client when deleting endpoint service'' []), st)
      else
        (case gs_DeleteService os ns epServiceName st of
           (Some err, st) \<Rightarrow> (Some (Wrapf ''error deleting service %s/%s: %v'' [ns, epServiceName] err), st)
         | (None, st) \<Rightarrow> (None, st)))"

text \<open>The last part of \<open>Delete\<close>: the endpoints; an error is only logged.\<close>

definition file_deleteEndpoints ::
  "'o fileOS \<Rightarrow> glusterfileProvisioner \<Rightarrow> PersistentVolume \<Rightarrow> GlusterfsVolumeSource \<Rightarrow> 'o \<Rightarrow> error option \<times> 'o" where
  "file_deleteEndpoints os p volume glusterfs st =
     (case pv_ClaimRef volume of
        None \<Rightarrow> (Some (Errorf ''ClaimRef is nil'' []), st)
      | Some (ns, name) \<Rightarrow>
          if ns = '''' then (Some (Errorf ''namespace is nil'' []), st)
          else
            (case file_deleteEndpointService os (gp_client p) ns (glfs_EndpointsName glusterfs) st of
               (err, st) \<Rightarrow> (None, st)))"

definition file_Delete ::
  "'o fileOS \<Rightarrow> PersistentVolume \<Rightarrow> glusterfileProvisioner \<times> 'o \<Rightarrow>
     (error option \<times> glusterfileProvisioner \<times> 'o) option" where
  "file_Delete os volume = (\<lambda>(p, st).
     case pv_Glusterfs volume of
       None \<Rightarrow> None
     | Some glusterfs \<Rightarrow>
         (case gs_Release os volume st of
            (Some err, st) \<Rightarrow> Some (Some err, p, st)
          | (None, st) \<Rightarrow>
              (case file_getVolumeID (Some volume) (glfs_Path glusterfs) of
                 Inl err \<Rightarrow> Some (Some (Wrapf ''failed to get volumeID: %v'' [] err), p, st)
               | Inr volumeID \<Rightarrow>
                   (case getRESTCredentials os p volume st of
                      None \<Rightarrow> None
                    | Some (Inl credErr) \<Rightarrow>
                        Some (Some (Wrapf ''failed to retrieve REST credentials from pv: %v'' [] credErr), p, st)
                    | Some (Inr heketiModeArgs) \<Rightarrow>
                        (case file_restClient os heketiModeArgs of
                           None \<Rightarrow>
                             Some (Some (Errorf ''failed to create REST client, REST server authentication failed'' []), p, st)
                         | Some cli \<Rightarrow>
                             (case fo_VolumeDelete os cli volumeID st of
                                (Some deleteErr, st) \<Rightarrow>
                                  Some (Some (Wrapf ''error when deleting the volume:%v'' [] deleteErr), p, st)
                              | (None, st) \<Rightarrow>
                                  (case file_deleteEndpoints os p volume glusterfs st of
                                     (err, st) \<Rightarrow> Some (err, p, st))))))))"

text \<open>Sizes are in bytes; Heketi's are in GiB.\<close>

definition ExpandVolumeDevice ::
  "'o fileOS \<Rightarrow> glusterfileProvisioner \<Rightarrow> PersistentVolume \<Rightarrow> int \<Rightarrow> int \<Rightarrow> 'o \<Rightarrow> ((int \<times> error option) \<times> 'o) option" where
  "ExpandVolumeDevice os p pv newSize oldSize st =
     (case pv_Glusterfs pv of
        None \<Rightarrow> None
      | Some glusterfs \<Rightarrow>
          (let volumeName = glfs_Path glusterfs
           in (case file_getVolumeID (Some pv) volumeName of
                 Inl err \<Rightarrow> Some ((oldSize, Some (Wrapf ''failed to get volumeID for volume [%s], err: %v'' [volumeName] err)), st)
               | Inr volumeID \<Rightarrow>
                   (case getRESTCredentials os p pv st of
                      None \<Rightarrow> None
                    | Some (Inl credErr) \<Rightarrow>
                        Some ((oldSize, Some (Wrapf ''failed to retrieve REST credentials from pv: %v'' [] credErr)), st)
                    | Some (Inr heketiModeArgs) \<Rightarrow>
                        (case file_restClient os heketiModeArgs of
                           None \<Rightarrow>
                             Some ((oldSize,
                               Some (Errorf ''failed to create glusterfs REST client, REST server authentication failed'' [])), st)
                         | Some cli \<Rightarrow>
                             (let expansionSizeGiB = gs_RoundUpToGiB os (newSize - oldSize);
                                  requestGiB = gs_RoundUpToGiB os newSize
                              in (case fo_VolumeInfo os cli volumeID st of
                                    Inl err \<Rightarrow>
                                      Some ((oldSize, Some (Wrapf ''error when fetching details of volume[%s]: %v'' [volumeName] err)), st)
                                  | Inr currentVolumeInfo \<Rightarrow>
                                      if vi_Size currentVolumeInfo \<ge> requestGiB then Some ((newSize, None), st)
                                      else
                                        (case fo_VolumeExpand os cli volumeID expansionSizeGiB st of
                                           (Inl err, st) \<Rightarrow>
                                             Some ((oldSize, Some (Wrapf ''error when expanding the volume[%s]: %v'' [volumeName] err)), st)
                                         | (Inr volumeInfoRes, st) \<Rightarrow>
                                             Some ((vi_Size volumeInfoRes * 1024 * 1024 * 1024, None), st)))))))))"

section \<open>The command\<close>

text \<open>
  The name the provisioner serves. The environment's name is taken only together with a flag \<open>id\<close>.
\<close>

definition file_provName :: "string \<Rightarrow> string \<Rightarrow> string" where
  "file_provName provEnvName ident =
     (if provEnvName \<noteq> '''' \<and> ident \<noteq> '''' then provEnvName
      else if provEnvName = '''' \<and> ident \<noteq> '''' then ident
      else file_provisionerName)"

definition file_main ::
  "('cfg, 'client) kubeLib \<Rightarrow> string \<Rightarrow> string \<Rightarrow> string \<Rightarrow> string \<Rightarrow> (string \<times> 'client \<times> glusterfileProvisioner \<times> string) option" where
  "file_main kl master kubeconfig provEnvName ident =
     do {
       client \<leftarrow> kube_connect kl master kubeconfig;
       version \<leftarrow> ok (kl_ServerVersion kl client);
       let provName = file_provName provEnvName ident;
       Some (provName, client, NewglusterfileProvisioner True provName, version)
     }"

text \<open>So the variable \<open>PROVISIONER_NAME\<close> alone is ignored, unlike in the provisioner of block volumes.\<close>

lemma environment_alone_is_ignored: "file_provName provEnvName '''' = file_provisionerName"
  by (simp add: file_provName_def)

section \<open>Parsing\<close>

abbreviation file_keys :: "string set" where
  "file_keys \<equiv> {''resturl'', ''restuser'', ''restuserkey'', ''restsecretname'', ''restsecretnamespace'', ''clusterid'',
     ''restauthenabled'', ''volumetype'', ''volumeoptions'', ''volumenameprefix'', ''snapfactor'', ''gidmin'', ''gidmax'',
     ''smartclone''}"

lemma file_key_cases:
  "ToLower k = ''resturl'' \<or> ToLower k = ''restuser'' \<or> ToLower k = ''restuserkey'' \<or> ToLower k = ''restsecretname'' \<or>
   ToLower k = ''restsecretnamespace'' \<or> ToLower k = ''clusterid'' \<or> ToLower k = ''restauthenabled'' \<or>
   ToLower k = ''volumetype'' \<or> ToLower k = ''volumeoptions'' \<or> ToLower k = ''volumenameprefix'' \<or>
   ToLower k = ''snapfactor'' \<or> ToLower k = ''gidmin'' \<or> ToLower k = ''gidmax'' \<or> ToLower k = ''smartclone'' \<or>
   ToLower k \<notin> file_keys"
  by blast

lemma file_param_unknown:
  "ToLower k \<notin> file_keys \<Longrightarrow>
     file_param k v c = Inl (Errorf ''invalid option %q for volume plugin %s'' [k, file_provisionerName])"
  by (simp add: file_param_def)

lemma file_param_simps:
  "ToLower k = ''resturl'' \<Longrightarrow> file_param k v c = Inr (c\<lparr>fc_url := v\<rparr>)"
  "ToLower k = ''restuser'' \<Longrightarrow> file_param k v c = Inr (c\<lparr>fc_user := v\<rparr>)"
  "ToLower k = ''restuserkey'' \<Longrightarrow> file_param k v c = Inr (c\<lparr>fc_userKey := v\<rparr>)"
  "ToLower k = ''restsecretname'' \<Longrightarrow> file_param k v c = Inr (c\<lparr>fc_secretName := v\<rparr>)"
  "ToLower k = ''restsecretnamespace'' \<Longrightarrow> file_param k v c = Inr (c\<lparr>fc_secretNamespace := v\<rparr>)"
  "ToLower k = ''clusterid'' \<Longrightarrow> file_param k v c = Inr (if v \<noteq> '''' then c\<lparr>fc_clusterID := v\<rparr> else c)"
  "ToLower k = ''restauthenabled'' \<Longrightarrow> file_param k v c = Inr (c\<lparr>fp_authEnabled := (ToLower v = ''true'')\<rparr>)"
  "ToLower k = ''volumetype'' \<Longrightarrow> file_param k v c = Inr (c\<lparr>fp_VolumeType := v\<rparr>)"
  "ToLower k = ''volumeoptions'' \<Longrightarrow> file_param k v c = Inr (if v \<noteq> '''' then c\<lparr>fp_VolumeOptions := v\<rparr> else c)"
  "ToLower k = ''volumenameprefix'' \<Longrightarrow> file_param k v c = Inr (if v \<noteq> '''' then c\<lparr>fp_VolumeNamePrefix := v\<rparr> else c)"
  "ToLower k = ''snapfactor'' \<Longrightarrow> file_param k v c = Inr (if v \<noteq> '''' then c\<lparr>fp_ThinPoolSnapFactor := v\<rparr> else c)"
  "ToLower k = ''gidmin'' \<Longrightarrow> file_param k v c = Inr c"
  "ToLower k = ''gidmax'' \<Longrightarrow> file_param k v c = Inr c"
  "ToLower k = ''smartclone'' \<Longrightarrow> file_param k v c = Inr c"
  by (simp_all add: file_param_def)

lemma file_param_commuting:
  assumes "distinct_params m"
  shows "commuting file_param m"
  unfolding commuting_def
proof (intro allI impI)
  fix k k' v v' and c :: fileParams
  assume "fmlookup m k = Some v" "fmlookup m k' = Some v'" "k \<noteq> k'"
  with assms have "ToLower k \<noteq> ToLower k'" by (auto simp: distinct_params_def)
  then show "agree (and_then (file_param k v c) (file_param k' v')) (and_then (file_param k' v' c) (file_param k v))"
    using file_key_cases [of k] file_key_cases [of k']
    by (elim disjE) (simp_all add: file_param_simps file_param_unknown)
qed

text \<open>What the range keeps of the defaults.\<close>

lemma file_param_keeps:
  "file_param k v c = Inr c' \<Longrightarrow>
     fc_thinPoolSnapFactor c' = fc_thinPoolSnapFactor c \<and> fc_volumeNamePrefix c' = fc_volumeNamePrefix c"
  using file_key_cases [of k]
  by (elim disjE) (auto simp: file_param_simps file_param_unknown split: if_splits)

lemma file_range_keeps:
  "range_loop file_param ks m file_defaults = Inr c \<Longrightarrow>
     fc_thinPoolSnapFactor c = FNum 1 \<and> fc_volumeNamePrefix c = ''''"
  by (rule range_loop_invariant
        [where P = "\<lambda>c. fc_thinPoolSnapFactor c = FNum 1 \<and> fc_volumeNamePrefix c = ''''"])
    (auto simp: file_defaults_def zero_fileConfig_def fileConfig.defs fileParams.defs dest: file_param_keeps)

definition valid_durability :: "durability \<Rightarrow> bool" where
  "valid_durability d \<longleftrightarrow>
     du_Type d \<in> {''replicate'', ''disperse'', ''none''} \<and> 0 \<le> du_Replica d \<and> 0 \<le> du_Data d \<and> 0 \<le> du_Redundancy d"

lemma convertVolumeParam_Inr: "convertVolumeParam s = Inr n \<Longrightarrow> 0 \<le> n"
  by (auto simp: convertVolumeParam_def split: option.splits if_splits)

lemma file_volumeType_valid: "file_volumeType s = Inr d \<Longrightarrow> valid_durability d"
  by (auto simp: file_volumeType_def valid_durability_def replicated_def zero_durability_def Let_def
      dest: convertVolumeParam_Inr split: if_splits sum.splits)

text \<open>The stages after the range.\<close>

lemma file_credentials_Inr:
  assumes "file_credentials os client cfg st = Inr cfg'"
  shows "(fc_secretName cfg' = '''') = (fc_secretNamespace cfg' = '''')"
    and "fc_secretName cfg' = '''' \<Longrightarrow> fc_secretValue cfg' = fc_userKey cfg'"
    and "fc_secretName cfg' \<noteq> '''' \<Longrightarrow>
           file_parseSecret os client (fc_secretNamespace cfg') (fc_secretName cfg') st = Inr (fc_secretValue cfg')"
    and "fc_url cfg' = fc_url cfg" "fc_volumeType cfg' = fc_volumeType cfg"
      "fc_thinPoolSnapFactor cfg' = fc_thinPoolSnapFactor cfg" "fc_volumeNamePrefix cfg' = fc_volumeNamePrefix cfg"
  using assms by (auto simp: file_credentials_def Let_def split: if_splits sum.splits)

lemma file_namePrefix_Inr:
  "file_namePrefix cfg = Inr cfg' \<Longrightarrow>
     \<exists>prefix. cfg' = cfg\<lparr>fc_volumeNamePrefix := prefix\<rparr> \<and>
       (prefix = fc_volumeNamePrefix cfg \<or> \<not> Contains prefix ''_'')"
  by (cases cfg) (auto simp: file_namePrefix_def split: if_splits)

lemma file_snapFactor_Inr:
  "file_snapFactor os cfg = Inr cfg' \<Longrightarrow>
     \<exists>f. cfg' = cfg\<lparr>fc_thinPoolSnapFactor := f\<rparr> \<and>
       (f = fc_thinPoolSnapFactor cfg \<or> \<not> float_less f (FNum 1) \<and> \<not> float_less (FNum 100) f)"
  by (cases cfg) (auto simp: file_snapFactor_def split: if_splits sum.splits)

lemma file_parse_stages:
  assumes "file_parseClassParameters os client params st = Inr cfg"
  obtains c d c1 prefix f where
    "range_loop file_param (gs_range os params st) params file_defaults = Inr c" "fc_url c \<noteq> ''''"
    "file_volumeType (fp_VolumeType c) = Inr d"
    "file_credentials os client (c\<lparr>fc_volumeType := d\<rparr>) st = Inr c1"
    "prefix = '''' \<or> \<not> Contains prefix ''_''" "f = FNum 1 \<or> \<not> float_less f (FNum 1) \<and> \<not> float_less (FNum 100) f"
    "cfg = fileConfig.truncate
       ((if fp_VolumeOptions c1 \<noteq> '''' then c1\<lparr>fc_volumeOptions := split_on (CHR '','') (fp_VolumeOptions c1)\<rparr> else c1)
          \<lparr>fc_volumeNamePrefix := prefix, fc_thinPoolSnapFactor := f\<rparr>)"
proof -
  obtain c where c: "range_loop file_param (gs_range os params st) params file_defaults = Inr c" "fc_url c \<noteq> ''''"
    and rest: "and_then (file_volumeType (fp_VolumeType c)) (\<lambda>volumeType.
       and_then (file_credentials os client (c\<lparr>fc_volumeType := volumeType\<rparr>) st) (\<lambda>cfg.
       and_then (file_namePrefix (if fp_VolumeOptions cfg \<noteq> '''' then cfg\<lparr>fc_volumeOptions := split_on (CHR '','') (fp_VolumeOptions cfg)\<rparr> else cfg))
        (\<lambda>cfg. and_then (file_snapFactor os cfg) (\<lambda>cfg. Inr (fileConfig.truncate cfg))))) = Inr cfg"
    using assms unfolding file_parseClassParameters_def by (fastforce simp: and_then_Inr split: if_splits)
  from rest obtain d c1 c3 c4 where d: "file_volumeType (fp_VolumeType c) = Inr d"
    and c1: "file_credentials os client (c\<lparr>fc_volumeType := d\<rparr>) st = Inr c1"
    and c3: "file_namePrefix (if fp_VolumeOptions c1 \<noteq> '''' then c1\<lparr>fc_volumeOptions := split_on (CHR '','') (fp_VolumeOptions c1)\<rparr> else c1) = Inr c3"
    and c4: "file_snapFactor os c3 = Inr c4" "cfg = fileConfig.truncate c4"
    by (auto simp only: and_then_Inr sum.inject)
  define c2 where "c2 =
    (if fp_VolumeOptions c1 \<noteq> '''' then c1\<lparr>fc_volumeOptions := split_on (CHR '','') (fp_VolumeOptions c1)\<rparr> else c1)"
  have kept: "fc_thinPoolSnapFactor c2 = FNum 1" "fc_volumeNamePrefix c2 = ''''"
    using file_range_keeps [OF c(1)] file_credentials_Inr(6,7) [OF c1] by (simp_all add: c2_def)
  obtain prefix where prefix: "c3 = c2\<lparr>fc_volumeNamePrefix := prefix\<rparr>" "prefix = '''' \<or> \<not> Contains prefix ''_''"
    using file_namePrefix_Inr [OF c3] kept unfolding c2_def by metis
  obtain f where f: "c4 = c3\<lparr>fc_thinPoolSnapFactor := f\<rparr>"
    "f = FNum 1 \<or> \<not> float_less f (FNum 1) \<and> \<not> float_less (FNum 100) f"
    using file_snapFactor_Inr [OF c4(1)] kept unfolding prefix(1) by auto
  show ?thesis
    by (rule that [OF c d c1 prefix(2) f(2)]) (simp only: c4(2) f(1) prefix(1) flip: c2_def)
qed

text \<open>
  Whatever parameters \<open>parseClassParameters\<close> accepts make a usable configuration: an address, a
  secret named with its namespace or not at all, a type of volume with counts that are not negative,
  a prefix without an underscore, and a snapshot factor that is neither below 1 nor above 100 (not a
  number is neither).
\<close>

theorem file_parse_valid:
  assumes "file_parseClassParameters os client params st = Inr cfg"
  shows "fc_url cfg \<noteq> '''' \<and> (fc_secretName cfg = '''' \<longleftrightarrow> fc_secretNamespace cfg = '''') \<and>
    valid_durability (fc_volumeType cfg) \<and> \<not> Contains (fc_volumeNamePrefix cfg) ''_'' \<and>
    \<not> float_less (fc_thinPoolSnapFactor cfg) (FNum 1) \<and> \<not> float_less (FNum 100) (fc_thinPoolSnapFactor cfg)"
proof -
  obtain c d c1 prefix f where p: "fc_url c \<noteq> ''''" "file_volumeType (fp_VolumeType c) = Inr d"
    "file_credentials os client (c\<lparr>fc_volumeType := d\<rparr>) st = Inr c1"
    "prefix = '''' \<or> \<not> Contains prefix ''_''" "f = FNum 1 \<or> \<not> float_less f (FNum 1) \<and> \<not> float_less (FNum 100) f"
    "cfg = fileConfig.truncate
       ((if fp_VolumeOptions c1 \<noteq> '''' then c1\<lparr>fc_volumeOptions := split_on (CHR '','') (fp_VolumeOptions c1)\<rparr> else c1)
          \<lparr>fc_volumeNamePrefix := prefix, fc_thinPoolSnapFactor := f\<rparr>)"
    by (rule file_parse_stages [OF assms])
  note cred = file_credentials_Inr [OF p(3)]
  have "\<not> Contains '''' ''_''" by (simp add: HasPrefix_def)
  then have "\<not> Contains prefix ''_''" using p(4) by auto
  moreover have "\<not> float_less f (FNum 1)" "\<not> float_less (FNum 100) f" using p(5) by auto
  moreover have "valid_durability d" using p(2) by (rule file_volumeType_valid)
  ultimately show ?thesis
    using p(1) cred(1,4,5) by (simp add: p(6) fileConfig.defs)
qed

text \<open>
  \<open>gidallocate\<close> is a parameter that \<open>Provision\<close> reads and \<open>parseClassParameters\<close> rejects: a class
  that has it never provisions a volume, whatever its value. The pointer to the GID, nil when no GID is allocated, is
  therefore never followed; but a GID that was allocated is not released.
\<close>

theorem gidallocate_is_rejected:
  assumes "legal_gluster_ranges os"
    and "fmlookup (vo_Parameters options) k = Some v" and "ToLower k = ''gidallocate''"
  shows "\<exists>err p' st'. file_Provision os options (p, st) = Some (Inl err, p', st') \<and>
     st' \<in> {st, snd (gs_AllocateNext os options st)}"
proof -
  have "isl (range_loop file_param (gs_range os (vo_Parameters options) st') (vo_Parameters options) file_defaults)" for st'
    using assms by (intro range_loop_rejects [OF _ assms(2)])
      (simp_all add: legal_gluster_ranges_def file_param_unknown)
  then have "file_parseClassParameters os client (vo_Parameters options) st' \<noteq> Inr cfg" for client st' cfg
    by (metis file_parse_stages isl_def sum.disc(2))
  then show ?thesis
    by (auto simp: file_Provision_def file_gid_def Let_def split: sum.split prod.split)
qed

text \<open>
  The \<open>volumetype\<close> and \<open>volumeoptions\<close> of a storage class have no effect: they are parsed into a
  configuration, but the request is made with the fields of the same name of the provisioner
  itself, and those \<open>Provision\<close> never sets.
\<close>

theorem volume_type_is_ignored:
  "file_provisionWith os options smartclone gid (cfg\<lparr>fc_volumeType := d, fc_volumeOptions := vopts\<rparr>) s =
     file_provisionWith os options smartclone gid cfg s \<and>
   map_option (\<lambda>(r, p', st'). gp_config p') (file_Provision os options (p, st)) \<in> {None, Some (gp_config p)} \<and>
   vr_Durability (file_createRequest (NewglusterfileProvisioner client ident) g cfg sz name) = zero_durability"
proof (intro conjI)
  show "file_provisionWith os options smartclone gid (cfg\<lparr>fc_volumeType := d, fc_volumeOptions := vopts\<rparr>) s =
     file_provisionWith os options smartclone gid cfg s"
    by (simp add: file_provisionWith_def file_clone_def createVolumeClone_def file_create_def CreateVolume_def
        file_volumeName_def file_createRequest_def file_PV_def cong: option.case_cong sum.case_cong prod.case_cong if_cong)
  have keeps: "map_option (\<lambda>(r, p', st'). gp_config p') (file_provisionWith os options sc gid cfg (q, st)) \<in>
      {None, Some (gp_config q)}" for sc gid cfg q st
    by (auto simp: file_provisionWith_def Let_def split: option.split sum.split prod.split)
  have "map_option (\<lambda>(r, p', st'). gp_config p') (file_provisionWith os options sc gid cfg (p\<lparr>gp_options := Some options\<rparr>, st)) \<in>
      {None, Some (gp_config p)}" for sc gid cfg st
    using keeps [of sc gid cfg "p\<lparr>gp_options := Some options\<rparr>" st] by simp
  then show "map_option (\<lambda>(r, p', st'). gp_config p') (file_Provision os options (p, st)) \<in> {None, Some (gp_config p)}"
    by (simp add: file_Provision_def Let_def split: sum.split prod.split)
  show "vr_Durability (file_createRequest (NewglusterfileProvisioner client ident) g cfg sz name) = zero_durability"
    by (simp add: file_createRequest_def NewglusterfileProvisioner_def zero_fileConfig_def)
qed


text \<open>
  A volume that Heketi made is lost when the nodes of its cluster cannot be listed: the creation fails and
  the world is the one in which the volume exists.
\<close>

theorem unlisted_nodes_leak_volume:
  assumes "fc_url cfg \<noteq> ''''" and "fo_NewClient os (fc_url cfg) (fc_user cfg) (fc_secretValue cfg) = Some cli"
    and "file_volumeName os cfg options st = (name, st1)"
    and "fo_VolumeCreate os cli (file_createRequest p g cfg sz name) st1 = (Inr volume, st2)"
    and "isl (file_getClusterNodes os cli (vi_Cluster volume) st2)"
  shows "\<exists>err. CreateVolume os (Some g) cfg sz (p\<lparr>gp_options := Some options\<rparr>, st) = Some (Inl err, st2)"
proof -
  have "file_createRequest (p\<lparr>gp_options := Some options\<rparr>) g cfg sz name = file_createRequest p g cfg sz name"
    by (simp add: file_createRequest_def)
  then show ?thesis
    using assms by (auto simp: CreateVolume_def file_withSource_def createVolumeSource_def isl_def)
qed

text \<open>
  The claim that names the endpoints is the one stored in the provisioner last: when another
  worker's \<open>Provision\<close> stores its options between the two, the volume of one claim gets the endpoints of
  another, in the other's namespace.
\<close>

theorem endpoints_follow_stored_claim:
  assumes "file_create os cfg options gid (p\<lparr>gp_options := Some other\<rparr>, st) = Some (Inr (glusterfs, volID), st')"
  shows "glfs_EndpointsName glusterfs = ''glusterfile-dynamic-'' @ vo_PVCName other"
  using assms
  by (auto simp: file_create_def CreateVolume_def file_withSource_def createVolumeSource_def
      file_createEndpointService_def Let_def split: option.splits sum.splits prod.splits if_splits)

text \<open>
  The order in which the runtime ranges over the parameters and over the data of the secret does not
  matter to a class that is accepted, if no two parameters differ in case only and the secret has
  an entry \<open>key\<close> or a single entry.
\<close>

theorem file_parse_order_irrelevant:
  assumes "distinct_params params" and "legal_gluster_ranges os" and "legal_gluster_ranges (os\<lparr>gs_range := order\<rparr>)"
    and "\<And>ns n sec. gs_GetSecret os ns n st = Inr sec \<Longrightarrow> fmlookup (sec_Data sec) ''key'' \<noteq> None \<or> map_len (sec_Data sec) \<le> 1"
    and "file_parseClassParameters os client params st = Inr cfg"
  shows "file_parseClassParameters (os\<lparr>gs_range := order\<rparr>) client params st = Inr cfg"
proof -
  let ?os = "os\<lparr>gs_range := order\<rparr>"
  have ranges: "enumerates (gs_range os m st) m" "enumerates (order m st) m" for m
    using assms(2,3) by (simp_all add: legal_gluster_ranges_def)
  obtain c where c: "range_loop file_param (gs_range os params st) params file_defaults = Inr c"
    using assms(5) by (rule file_parse_stages)
  have range: "range_loop file_param (order params st) params file_defaults = Inr c"
    by (rule agree_Inr [OF range_loop_order [OF file_param_commuting [OF assms(1)] ranges] c])
  have "file_parseSecret ?os client ns n st = file_parseSecret os client ns n st" for ns n
    using assms(4) [of ns n] scanSecret_order [OF ranges]
    by (auto simp: file_parseSecret_def file_GetSecretForPV_def split: sum.split)
  then have "file_credentials ?os client cfg st = file_credentials os client cfg st" for cfg
    by (simp add: file_credentials_def)
  moreover have "file_snapFactor ?os = file_snapFactor os"
    by (intro ext) (simp add: file_snapFactor_def cong: if_cong)
  ultimately show ?thesis
    using assms(5) range c by (cases "fc_url c = ''''") (simp_all add: file_parseClassParameters_def)
qed

section \<open>Provisioning and deleting\<close>

definition plain_credentials :: "fileConfig \<Rightarrow> bool" where
  "plain_credentials cfg \<longleftrightarrow>
     list_all (no_char (CHR '','')) [fc_url cfg, fc_user cfg, fc_secretName cfg, fc_secretNamespace cfg] \<and>
     list_all (no_char (CHR '':'')) [fc_user cfg, fc_secretName cfg, fc_secretNamespace cfg]"

lemma file_PV_fields:
  "fmlookup (pv_Annotations (file_PV options cfg g gl vid)) ''server'' =
     Some (serverAnn (fc_url cfg) (fc_user cfg) (fc_secretName cfg) (fc_secretNamespace cfg))"
  "map_get (pv_Annotations (file_PV options cfg g gl vid)) heketiVolIDAnn = vid"
  "pv_Glusterfs (file_PV options cfg g gl vid) = Some gl"
  by (simp_all add: file_PV_def)

lemma file_parse_secret:
  assumes "file_parseClassParameters os client params st = Inr cfg"
  shows "(fc_secretName cfg = '''') = (fc_secretNamespace cfg = '''')"
    and "fc_secretName cfg = '''' \<Longrightarrow> fc_secretValue cfg = fc_userKey cfg"
proof -
  obtain c d c1 prefix f where p: "file_credentials os client (c\<lparr>fc_volumeType := d\<rparr>) st = Inr c1"
    "cfg = fileConfig.truncate
       ((if fp_VolumeOptions c1 \<noteq> '''' then c1\<lparr>fc_volumeOptions := split_on (CHR '','') (fp_VolumeOptions c1)\<rparr> else c1)
          \<lparr>fc_volumeNamePrefix := prefix, fc_thinPoolSnapFactor := f\<rparr>)"
    by (rule file_parse_stages [OF assms])
  show "(fc_secretName cfg = '''') = (fc_secretNamespace cfg = '''')"
    "fc_secretName cfg = '''' \<Longrightarrow> fc_secretValue cfg = fc_userKey cfg"
    using file_credentials_Inr(1,2) [OF p(1)]
    by (cases "fp_VolumeOptions c1 = ''''"; simp add: p(2) fileConfig.defs)+
qed

text \<open>What the annotation of a volume gives back, and the client made of it.\<close>

lemma credentials_read_back:
  assumes "plain_credentials cfg" and "fmlookup (pv_Annotations pv) ''server'' =
      Some (serverAnn (fc_url cfg) (fc_user cfg) (fc_secretName cfg) (fc_secretNamespace cfg))"
    and "(fc_secretName cfg = '''') = (fc_secretNamespace cfg = '''')"
  shows "getRESTCredentials os p pv st =
    Some (and_then
      (if fc_secretName cfg = '''' then Inr ''''
       else (case file_parseSecret os (gp_client p) (fc_secretNamespace cfg) (fc_secretName cfg) st of
               Inl err \<Rightarrow> Inl (Wrapf ''failed to parse secret %s: %v'' [fc_secretName cfg] err) | Inr s \<Rightarrow> Inr s))
      (\<lambda>s. Inr (fmupd ''restsecretvalue'' s (fmupd ''secretnamespace'' (fc_secretNamespace cfg)
         (fmupd ''secret'' (fc_secretName cfg) (fmupd ''user'' (fc_user cfg) (fmupd ''url'' (fc_url cfg) fmempty)))))))"
  using assms
  by (simp add: getRESTCredentials_def serverArgs_serverAnn plain_credentials_def Let_def split: sum.split)

text \<open>
  A volume made with a key in the parameter \<open>restuserkey\<close> is deleted without it: the key is not on the
  volume, so the client that deletes it has the address and the user of the class and an empty key.
\<close>

theorem deletion_forgets_user_key:
  assumes "file_parseClassParameters os (gp_client p) params st0 = Inr cfg" and "fc_secretName cfg = ''''"
    and "plain_credentials cfg" and "pv_Annotations pv = pv_Annotations (file_PV options cfg g gl vid)"
  shows "fc_secretValue cfg = fc_userKey cfg \<and>
    (\<exists>args. getRESTCredentials os p pv st = Some (Inr args) \<and>
       file_restClient os args = fo_NewClient os (fc_url cfg) (fc_user cfg) '''')"
proof
  show "fc_secretValue cfg = fc_userKey cfg" using file_parse_secret(2) [OF assms(1)] assms(2) by simp
  have "fc_secretNamespace cfg = ''''" using file_parse_secret [OF assms(1)] assms(2) by simp
  then show "\<exists>args. getRESTCredentials os p pv st = Some (Inr args) \<and>
       file_restClient os args = fo_NewClient os (fc_url cfg) (fc_user cfg) ''''"
    using assms(2-4)
    by (simp add: credentials_read_back [OF assms(3)] file_PV_fields(1) file_restClient_def)
qed

text \<open>How a volume that was provisioned came about.\<close>

lemma file_source_from_client:
  assumes "(if sc \<and> ref \<noteq> '''' then file_clone os cfg options ref (p, st)
            else file_create os cfg options gid (p, st)) = Some (Inr (gl, vid), st1)"
  shows "\<exists>cli. fo_NewClient os (fc_url cfg) (fc_user cfg) (fc_secretValue cfg) = Some cli"
  using assms
  by (auto simp: file_clone_def createVolumeClone_def file_create_def CreateVolume_def Let_def
      split: if_splits option.splits sum.splits prod.splits)

lemma file_Provision_Inr:
  assumes "file_Provision os options (p, st) = Some (Inr pv, p1, st1)"
  obtains cfg stg g gl vid cli where
    "file_parseClassParameters os (gp_client p) (vo_Parameters options) stg = Inr cfg"
    "pv = file_PV options cfg g gl vid" "gp_client p1 = gp_client p"
    "fo_NewClient os (fc_url cfg) (fc_user cfg) (fc_secretValue cfg) = Some cli"
proof -
  obtain stg cfg sc gid where cfg: "file_parseClassParameters os (gp_client p) (vo_Parameters options) stg = Inr cfg"
    and via: "file_provisionWith os options sc gid cfg (p\<lparr>gp_options := Some options\<rparr>, stg) = Some (Inr pv, p1, st1)"
    using assms by (auto simp: file_Provision_def Let_def split: if_splits sum.splits prod.splits)
  from via obtain g gl vid where "gid = Some g" and pv: "pv = file_PV options cfg g gl vid" "p1 = p\<lparr>gp_options := Some options\<rparr>"
    and src: "(if sc \<and> map_get (vo_PVCAnnotations options) CloneRequestAnn \<noteq> ''''
         then file_clone os cfg options (map_get (vo_PVCAnnotations options) CloneRequestAnn) (p\<lparr>gp_options := Some options\<rparr>, stg)
         else file_create os cfg options gid (p\<lparr>gp_options := Some options\<rparr>, stg)) = Some (Inr (gl, vid), st1)"
    by (auto simp: file_provisionWith_def Let_def split: option.splits sum.splits prod.splits)
  show ?thesis
    using file_source_from_client [OF src] that [OF cfg pv(1)] pv(2) by auto
qed


section \<open>Witnesses\<close>

text \<open>A world whose state lists the calls that changed it.\<close>

definition demo_file :: "string list list fileOS" where
  "demo_file = glusterOS.extend
     \<lparr>gs_range = (\<lambda>m st. sorted_keys m),
      gs_GetSecret = (\<lambda>ns n st. Inr \<lparr>sec_Namespace = ns, sec_Name = n, sec_Data = fmupd ''key'' ''pw'' fmempty,
                                  sec_Type = file_provisionerName\<rparr>),
      gs_CreateEndpoints = (\<lambda>ep st. (None, [''endpoints'', ep_Namespace ep, ep_Name ep] # st)),
      gs_CreateService = (\<lambda>s st. (None, [''service'', svc_Namespace s, svc_Name s] # st)),
      gs_DeleteService = (\<lambda>ns n st. (None, [''delete service'', ns, n] # st)),
      gs_AllocateNext = (\<lambda>_ st. (Inr 2000, [''gid''] # st)),
      gs_Release = (\<lambda>pv st. (None, [''release'', pv_Name pv] # st)),
      gs_NewUUID = (\<lambda>st. (''u'', st)),
      gs_RoundUpToGiB = (\<lambda>s. (s + GiB - 1) div GiB),
      gs_AccessModesContainedInAll = (\<lambda>allowed ms. set ms \<subseteq> set allowed)\<rparr>
    (fileOS.fields
      (\<lambda>ns n st. Inr \<lparr>pvc_Namespace = ns, pvc_Name = n, pvc_Annotations = Some fmempty\<rparr>)
      (\<lambda>pvc st. (None, [''annotate'', pvc_Name pvc] # st))
      (\<lambda>f st. f st)
      (\<lambda>s. Inr (FNum 2))
      (\<lambda>url user key. Some \<lparr>hc_url = url, hc_user = user, hc_key = key\<rparr>)
      (\<lambda>cli r st. (Inr \<lparr>vi_Id = ''v1'', vi_Name = ''vol_v1'', vi_Size = vr_Size r, vi_Cluster = ''c''\<rparr>, [''create'', ''v1''] # st))
      (\<lambda>cli vid st. (Inr \<lparr>vi_Id = ''v2'', vi_Name = ''vol_v2'', vi_Size = 1, vi_Cluster = ''c''\<rparr>, [''clone'', vid] # st))
      (\<lambda>cli vid st. (None, [''delete'', vid] # st))
      (\<lambda>cli vid st. Inr \<lparr>vi_Id = vid, vi_Name = ''vol_'' @ vid, vi_Size = 1, vi_Cluster = ''c''\<rparr>)
      (\<lambda>cli vid d st. (Inr \<lparr>vi_Id = vid, vi_Name = ''vol_'' @ vid, vi_Size = 1 + d, vi_Cluster = ''c''\<rparr>, [''expand'', vid] # st))
      (\<lambda>cli c st. Inr [''n1''])
      (\<lambda>cli n st. Inr [''10.0.0.1'']))"

lemmas demo_file_simps = demo_file_def glusterOS.defs fileOS.defs

text \<open>The fields, for the simplifier.\<close>

lemma demo_file_fields:
  "gs_range demo_file m st = sorted_keys m"
  "gs_GetSecret demo_file ns n st = Inr \<lparr>sec_Namespace = ns, sec_Name = n, sec_Data = fmupd ''key'' ''pw'' fmempty,
     sec_Type = file_provisionerName\<rparr>"
  "gs_CreateEndpoints demo_file ep st = (None, [''endpoints'', ep_Namespace ep, ep_Name ep] # st)"
  "gs_CreateService demo_file s st = (None, [''service'', svc_Namespace s, svc_Name s] # st)"
  "gs_DeleteService demo_file ns n st = (None, [''delete service'', ns, n] # st)"
  "gs_AllocateNext demo_file opts st = (Inr 2000, [''gid''] # st)"
  "gs_Release demo_file pv st = (None, [''release'', pv_Name pv] # st)"
  "gs_RoundUpToGiB demo_file sz = (sz + GiB - 1) div GiB"
  "gs_AccessModesContainedInAll demo_file allowed ms = (set ms \<subseteq> set allowed)"
  "fo_GetPVC demo_file ns n st = Inr \<lparr>pvc_Namespace = ns, pvc_Name = n, pvc_Annotations = Some fmempty\<rparr>"
  "fo_UpdatePVC demo_file pvc st = (None, [''annotate'', pvc_Name pvc] # st)"
  "fo_RetryOnConflict demo_file f st = f st"
  "fo_NewClient demo_file url user key = Some \<lparr>hc_url = url, hc_user = user, hc_key = key\<rparr>"
  "fo_VolumeCreate demo_file cli r st =
     (Inr \<lparr>vi_Id = ''v1'', vi_Name = ''vol_v1'', vi_Size = vr_Size r, vi_Cluster = ''c''\<rparr>, [''create'', ''v1''] # st)"
  "fo_VolumeDelete demo_file cli vid st = (None, [''delete'', vid] # st)"
  "fo_VolumeInfo demo_file cli vid st = Inr \<lparr>vi_Id = vid, vi_Name = ''vol_'' @ vid, vi_Size = 1, vi_Cluster = ''c''\<rparr>"
  "fo_VolumeExpand demo_file cli vid d st =
     (Inr \<lparr>vi_Id = vid, vi_Name = ''vol_'' @ vid, vi_Size = 1 + d, vi_Cluster = ''c''\<rparr>, [''expand'', vid] # st)"
  "fo_ClusterInfo demo_file cli c st = Inr [''n1'']"
  "fo_NodeInfo demo_file cli n st = Inr [''10.0.0.1'']"
  by (simp_all add: demo_file_simps)

definition demo_file_params :: "string gomap" where
  "demo_file_params = fmupd ''restURL'' ''http://h:8081'' (fmupd ''restUserKey'' ''k'' (fmupd ''restUser'' ''admin'' fmempty))"

definition demo_file_claim :: VolumeOptions where
  "demo_file_claim =
     \<lparr>vo_PVName = ''pv1'', vo_Parameters = demo_file_params, vo_ReclaimPolicy = ''Delete'', vo_MountOptions = None,
      vo_Selector = False, vo_AccessModes = [''ReadWriteMany''], vo_Request = GiB, vo_VolumeMode = None,
      vo_PVCName = ''c1'', vo_PVCNamespace = ''default'', vo_PVCAnnotations = fmempty\<rparr>"

definition demo_file_cfg :: fileConfig where
  "demo_file_cfg =
     zero_fileConfig\<lparr>fc_url := ''http://h:8081'', fc_user := ''admin'', fc_userKey := ''k'', fc_secretValue := ''k'',
       fc_volumeType := replicated 3, fc_thinPoolSnapFactor := FNum 1\<rparr>"

lemma demo_file_keys: "sorted_keys demo_file_params = [''restURL'', ''restUser'', ''restUserKey'']"
  by code_simp

lemma demo_lower: "ToLower ''restURL'' = ''resturl''" "ToLower ''restUser'' = ''restuser''" "ToLower ''restUserKey'' = ''restuserkey''"
  by code_simp+

lemma demo_file_range:
  "range_loop file_param [''restURL'', ''restUser'', ''restUserKey''] demo_file_params file_defaults =
     Inr (file_defaults\<lparr>fc_url := ''http://h:8081'', fc_user := ''admin'', fc_userKey := ''k''\<rparr>)"
  by (simp add: demo_file_params_def file_param_simps demo_lower)

lemma demo_file_parse: "file_parseClassParameters demo_file client demo_file_params st = Inr demo_file_cfg"
proof -
  have "gs_range demo_file demo_file_params st = [''restURL'', ''restUser'', ''restUserKey'']"
    by (simp add: demo_file_simps demo_file_keys)
  then show ?thesis
    by (simp only: file_parseClassParameters_def demo_file_range and_then_simps)
      (simp add: file_defaults_def fileConfig.defs fileParams.defs file_volumeType_def file_credentials_def
        file_namePrefix_def file_snapFactor_def zero_fileConfig_def demo_file_cfg_def)
qed

theorem file_parse_valid_witness: "valid_durability (fc_volumeType demo_file_cfg) \<and> fc_url demo_file_cfg \<noteq> ''''"
  using file_parse_valid [OF demo_file_parse] by simp

lemma demo_distinct_keys:
  assumes "distinct (map ToLower ks)" and "fset_of_list ks = fmdom m"
  shows "distinct_params m"
proof -
  have "k \<in> set ks" if "fmlookup m k \<noteq> None" for k
    using that assms(2) by (metis fmlookup_dom_iff fset_of_list_elem not_None_eq)
  then show ?thesis
    using assms(1) unfolding distinct_params_def by (metis distinct_map inj_onD)
qed

lemma demo_file_legal:
  "legal_gluster_ranges demo_file" "legal_gluster_ranges (demo_file\<lparr>gs_range := \<lambda>m st. rev (sorted_keys m)\<rparr>)"
  by (simp_all add: legal_gluster_ranges_def demo_file_simps sorted_keys_legal rev_enumerates)

lemma demo_file_rounds: "rounds_to_GiB demo_file"
  using rounds_up_div unfolding rounds_to_GiB_def rounds_up_def demo_file_fields by (auto simp del: of_int_numeral)

theorem file_parse_order_irrelevant_witness:
  "file_parseClassParameters (demo_file\<lparr>gs_range := \<lambda>m st. rev (sorted_keys m)\<rparr>) True demo_file_params [] = Inr demo_file_cfg"
proof (rule file_parse_order_irrelevant [OF _ demo_file_legal _ demo_file_parse])
  show "distinct_params demo_file_params"
    by (rule demo_distinct_keys [where ks = "[''restURL'', ''restUser'', ''restUserKey'']"])
      (code_simp, simp add: demo_file_params_def, blast)
  show "fmlookup (sec_Data sec) ''key'' \<noteq> None \<or> map_len (sec_Data sec) \<le> 1"
    if "gs_GetSecret demo_file ns n [] = Inr sec" for ns n sec
    using that by (auto simp: demo_file_simps)
qed

theorem gidallocate_is_rejected_witness:
  "\<exists>err p' st'. file_Provision demo_file (demo_file_claim\<lparr>vo_Parameters := fmupd ''gidAllocate'' ''false'' demo_file_params\<rparr>)
     (NewglusterfileProvisioner True ''x'', []) = Some (Inl err, p', st') \<and> st' \<in> {[], [[''gid'']]}"
proof -
  have "ToLower ''gidAllocate'' = ''gidallocate''" by code_simp
  from gidallocate_is_rejected [OF demo_file_legal(1) _ this,
      where options = "demo_file_claim\<lparr>vo_Parameters := fmupd ''gidAllocate'' ''false'' demo_file_params\<rparr>" and v = "''false''"
        and p = "NewglusterfileProvisioner True ''x''" and st = "[]"]
  show ?thesis by (simp add: demo_file_simps)
qed

definition demo_file_PV :: PersistentVolume where
  "demo_file_PV = file_PV demo_file_claim demo_file_cfg 2000
     \<lparr>glfs_EndpointsName = ''glusterfile-dynamic-c1'', glfs_Path = ''vol_v1'', glfs_ReadOnly = False\<rparr> ''v1''"

lemma demo_file_plain: "plain_credentials demo_file_cfg"
  by (simp add: plain_credentials_def demo_file_cfg_def zero_fileConfig_def no_char_def)

lemma demo_file_no_secret: "fc_secretName demo_file_cfg = ''''" "fc_secretNamespace demo_file_cfg = ''''"
  by (simp_all add: demo_file_cfg_def zero_fileConfig_def)

theorem deletion_forgets_user_key_witness:
  "fc_secretValue demo_file_cfg = ''k'' \<and>
   (\<exists>args. getRESTCredentials demo_file (NewglusterfileProvisioner True ''x'') demo_file_PV [] = Some (Inr args) \<and>
      file_restClient demo_file args = Some \<lparr>hc_url = ''http://h:8081'', hc_user = ''admin'', hc_key = ''''\<rparr>)"
  using deletion_forgets_user_key [OF demo_file_parse demo_file_no_secret(1) demo_file_plain, where pv = demo_file_PV
      and p = "NewglusterfileProvisioner True ''x''" and st = "[]"]
  by (simp add: demo_file_PV_def demo_file_simps demo_file_cfg_def zero_fileConfig_def)

lemma demo_file_credentials:
  "\<exists>args. getRESTCredentials demo_file p demo_file_PV st = Some (Inr args) \<and> map_get args ''url'' = ''http://h:8081'' \<and>
     map_get args ''user'' = ''admin'' \<and> map_get args ''restsecretvalue'' = ''''"
  using demo_file_no_secret
  by (simp add: credentials_read_back [OF demo_file_plain] demo_file_PV_def file_PV_fields)
    (simp add: demo_file_cfg_def zero_fileConfig_def)


lemma demo_file_name: "file_volumeName os demo_file_cfg options st = ('''', st)"
  by (simp add: file_volumeName_def demo_file_cfg_def zero_fileConfig_def)

theorem unlisted_nodes_leak_volume_witness:
  "\<exists>err. CreateVolume (demo_file\<lparr>fo_ClusterInfo := \<lambda>cli c st. Inl (ExtErr ''down'')\<rparr>) (Some 2000) demo_file_cfg 1
     (NewglusterfileProvisioner True ''x''\<lparr>gp_options := Some demo_file_claim\<rparr>, []) = Some (Inl err, [[''create'', ''v1'']])"
  by (rule unlisted_nodes_leak_volume)
    (simp_all add: demo_file_name demo_file_fields file_getClusterNodes_def file_createRequest_def,
      simp_all add: demo_file_cfg_def)

lemma demo_file_create:
  assumes "fc_url cfg \<noteq> ''''" and "fc_volumeNamePrefix cfg = ''''" and "gp_client p"
  shows "file_create demo_file cfg options (Some g) (p\<lparr>gp_options := Some claim\<rparr>, st) =
   Some (Inr (\<lparr>glfs_EndpointsName = ''glusterfile-dynamic-'' @ vo_PVCName claim, glfs_Path = ''vol_v1'', glfs_ReadOnly = False\<rparr>, ''v1''),
     [''annotate'', vo_PVCName options] # [''service'', vo_PVCNamespace claim, ''glusterfile-dynamic-'' @ vo_PVCName claim] #
     [''endpoints'', vo_PVCNamespace claim, ''glusterfile-dynamic-'' @ vo_PVCName claim] # [''create'', ''v1''] # st)"
  using assms
  by (simp add: file_create_def CreateVolume_def file_volumeName_def file_createRequest_def file_withSource_def createVolumeSource_def
        file_getClusterNodes_def file_createEndpointService_def tolerate_existing_def annotatePVC_def annotateOnce_def
        demo_file_fields Let_def)

theorem endpoints_follow_stored_claim_witness:
  "\<exists>glusterfs st'. file_create demo_file demo_file_cfg demo_file_claim (Some 2000)
       (NewglusterfileProvisioner True ''x''\<lparr>gp_options := Some (demo_file_claim\<lparr>vo_PVCName := ''c2''\<rparr>)\<rparr>, []) =
         Some (Inr (glusterfs, ''v1''), st') \<and> glfs_EndpointsName glusterfs = ''glusterfile-dynamic-c2''"
proof -
  have demo: "fc_url demo_file_cfg \<noteq> ''''" "fc_volumeNamePrefix demo_file_cfg = ''''" "gp_client (NewglusterfileProvisioner True ''x'')"
    by (simp_all add: demo_file_cfg_def zero_fileConfig_def NewglusterfileProvisioner_def)
  show ?thesis
    using endpoints_follow_stored_claim
      [OF demo_file_create [OF demo, where claim = "demo_file_claim\<lparr>vo_PVCName := ''c2''\<rparr>" and st = "[]"]]
    unfolding demo_file_create [OF demo] by simp
qed

text \<open>A class without authentication.\<close>

definition demo_open_params :: "string gomap" where
  "demo_open_params = fmupd ''restURL'' ''http://h:8081'' fmempty"

lemma demo_open_keys: "sorted_keys demo_open_params = [''restURL'']"
  by code_simp

lemma demo_open_parse:
  "file_parseClassParameters demo_file client demo_open_params st =
     Inr (demo_file_cfg\<lparr>fc_user := '''', fc_userKey := '''', fc_secretValue := ''''\<rparr>)"
proof -
  have "range_loop file_param [''restURL''] demo_open_params file_defaults = Inr (file_defaults\<lparr>fc_url := ''http://h:8081''\<rparr>)"
    by (simp add: demo_open_params_def file_param_simps demo_lower)
  then show ?thesis
    by (simp only: file_parseClassParameters_def demo_file_fields demo_open_keys and_then_simps)
      (simp add: file_defaults_def fileConfig.defs fileParams.defs file_volumeType_def file_credentials_def
        file_namePrefix_def file_snapFactor_def zero_fileConfig_def demo_file_cfg_def)
qed


end
