(* ===== verification/GlusterBlock.thy ===== *)
theory GlusterBlock
  imports GlusterLib
begin

text \<open>
  \<open>gluster/block/cmd/glusterblock-provisioner/glusterblock-provisioner.go\<close>: iSCSI block volumes on Gluster, made by a
  Heketi server or by the command \<open>gluster-block\<close> (the two operation modes). \<open>blockOS\<close> adds the
  Heketi client, the command line, JSON decoding and the API server's secrets to the common world.
  The provisioner is never changed; a panic is \<open>None\<close>.
\<close>

abbreviation block_provisionerName :: string where
  "block_provisionerName \<equiv> ''gluster.org/glusterblock''"

abbreviation heketiOpmode :: string where
  "heketiOpmode \<equiv> ''heketi''"

abbreviation glusterBlockOpmode :: string where
  "glusterBlockOpmode \<equiv> ''gluster-block''"

abbreviation shareIDAnn :: string where
  "shareIDAnn \<equiv> ''glusterBlockShare''"

abbreviation block_provisionerIDAnn :: string where
  "block_provisionerIDAnn \<equiv> ''glusterBlkProvIdentity''"

abbreviation creatorAnn :: string where
  "creatorAnn \<equiv> ''kubernetes.io/createdby''"

abbreviation volIDAnn :: string where
  "volIDAnn \<equiv> ''gluster.org/volume-id''"

abbreviation blockVolPrefix :: string where
  "blockVolPrefix \<equiv> ''blockvol_''"

abbreviation errIDNotFound :: string where
  "errIDNotFound \<equiv> ''Id not found''"

section \<open>The world\<close>

record glusterBlockExecVolRes =
  ge_Portals :: "string list"
  ge_Iqn :: string
  ge_User :: string
  ge_AuthKey :: string

record heketiBlockVolRes =
  hb_ID :: string
  hb_Portals :: "string list"
  hb_Iqn :: string
  hb_User :: string
  hb_AuthKey :: string

record BlockVolumeCreateRequest =
  br_Size :: int
  br_Clusters :: "string list"
  br_Hacount :: int
  br_Auth :: bool
  br_Name :: string

text \<open>
  Heketi's answer may be nil, and its error on deletion is read as text. \<open>bo_Unmarshal\<close> decodes the
  output of the command into what was decoded before (the pointer is nil at first, and after the
  value \<open>null\<close>).
\<close>

record 'o blockOS = "'o glusterOS" +
  bo_NewClient :: "string \<Rightarrow> string \<Rightarrow> string \<Rightarrow> heketiClient option"
  bo_BlockVolumeCreate :: "heketiClient \<Rightarrow> BlockVolumeCreateRequest \<Rightarrow> 'o \<Rightarrow> heketiBlockVolRes option result \<times> 'o"
  bo_BlockVolumeDelete :: "heketiClient \<Rightarrow> string \<Rightarrow> 'o \<Rightarrow> string option \<times> 'o"
  bo_exec :: "string \<Rightarrow> string list \<Rightarrow> 'o \<Rightarrow> (string \<times> error option) \<times> 'o"
  bo_Unmarshal :: "string \<Rightarrow> glusterBlockExecVolRes option \<Rightarrow> glusterBlockExecVolRes option result"
  bo_CreateSecret :: "Secret \<Rightarrow> 'o \<Rightarrow> error option \<times> 'o"
  bo_DeleteSecret :: "string \<Rightarrow> string \<Rightarrow> 'o \<Rightarrow> error option \<times> 'o"

record glusterBlockProvisioner =
  bp_client :: bool
  bp_identity :: string

definition NewGlusterBlockProvisioner :: "bool \<Rightarrow> string \<Rightarrow> glusterBlockProvisioner" where
  "NewGlusterBlockProvisioner client ident = \<lparr>bp_client = client, bp_identity = ident\<rparr>"

definition block_GetAccessModes :: "string list" where
  "block_GetAccessModes = [''ReadWriteOnce'', ''ReadOnlyMany'']"

record blockConfig =
  bc_url :: string
  bc_user :: string
  bc_restAuthEnabled :: bool
  bc_restSecretNamespace :: string
  bc_restSecretName :: string
  bc_restSecretValue :: string
  bc_clusterID :: string
  bc_haCount :: int
  bc_opMode :: string
  bc_blockModeArgs :: "string gomap"
  bc_chapAuthEnabled :: bool
  bc_volumeNamePrefix :: string

record iscsiSpec =
  is_TargetPortal :: string
  is_Portals :: "string list"
  is_User :: string
  is_AuthKey :: string
  is_Iqn :: string
  is_SessionCHAPAuth :: bool
  is_BlockSecret :: string
  is_BlockSecretNs :: string
  is_BlockVolName :: string
  is_VolumeID :: string

definition zero_iscsiSpec :: iscsiSpec where
  "zero_iscsiSpec =
     \<lparr>is_TargetPortal = '''', is_Portals = [], is_User = '''', is_AuthKey = '''', is_Iqn = '''',
      is_SessionCHAPAuth = False, is_BlockSecret = '''', is_BlockSecretNs = '''', is_BlockVolName = '''',
      is_VolumeID = ''''\<rparr>"

section \<open>Parameters\<close>

definition block_GetSecretForPV ::
  "'o blockOS \<Rightarrow> bool \<Rightarrow> string \<Rightarrow> string \<Rightarrow> string \<Rightarrow> 'o \<Rightarrow> string gomap result" where
  "block_GetSecretForPV os client ns name pluginName st =
     (if \<not> client then Inl (Errorf ''Cannot get kube client'' [])
      else
        (case gs_GetSecret os ns name st of
           Inl err \<Rightarrow> Inl err
         | Inr secrets \<Rightarrow>
             if sec_Type secrets \<noteq> pluginName then Inl (Errorf ''Cannot get secret of type %s'' [pluginName])
             else Inr (sec_Data secrets)))"

definition block_parseSecret :: "'o blockOS \<Rightarrow> bool \<Rightarrow> string \<Rightarrow> string \<Rightarrow> 'o \<Rightarrow> string result" where
  "block_parseSecret os client ns secretName st =
     (case block_GetSecretForPV os client ns secretName block_provisionerName st of
        Inl err \<Rightarrow> Inl (Wrapf ''failed to get secret [%s/%s], %v'' [ns, secretName] err)
      | Inr secretMap \<Rightarrow>
          if secretMap = fmempty then Inl (Errorf ''empty secret map'' [])
          else Inr (scanSecret (gs_range os secretMap st) secretMap ''''))"

text \<open>
  The arguments of the mode \<open>gluster-block\<close>: \<open>glustervol=...,hosts=...\<close>. The code reads the part after
  \<open>=\<close> of every known argument, whether there is one or not.
\<close>

fun parseBlockModeArgs :: "string \<Rightarrow> string list \<Rightarrow> string gomap \<Rightarrow> string gomap result option" where
  "parseBlockModeArgs opMode [] modeArgs = Some (Inr modeArgs)"
| "parseBlockModeArgs opMode (v # vs) modeArgs =
     (let paramInfo = split_on (CHR ''='') v in
      if paramInfo ! 0 = ''glustervol'' then
        (if length paramInfo < 2 then None
         else if paramInfo ! 1 \<noteq> '''' then parseBlockModeArgs opMode vs (fmupd ''glustervol'' (paramInfo ! 1) modeArgs)
         else Some (Inl (Errorf ''invalid parameter for %v'' [''glustervol''])))
      else if paramInfo ! 0 = ''hosts'' then
        (if length paramInfo < 2 then None
         else if paramInfo ! 1 \<noteq> '''' then parseBlockModeArgs opMode vs (fmupd ''hosts'' (paramInfo ! 1) modeArgs)
         else Some (Inl (Errorf ''invalid  parameter for %v'' [''hosts''])))
      else Some (Inl (Errorf ''invalid parameter for %v'' [opMode])))"

record blockParams = blockConfig +
  bm_authEnabled :: bool
  bm_chapAuthEnabled :: bool
  bm_Opmode :: string
  bm_blkmodeArgs :: string
  bm_VolumeNamePrefix :: string

definition parseOpmodeArgs :: "string \<Rightarrow> blockParams \<Rightarrow> string \<Rightarrow> blockParams result option" where
  "parseOpmodeArgs opmode cfg blkmodeArgs =
     (if opmode = glusterBlockOpmode then
        let cfg = cfg\<lparr>bc_opMode := glusterBlockOpmode\<rparr> in
        if blkmodeArgs = '''' then
          Some (Inl (Errorf ''[gluster-block] arg: %s has to be set if 'gluster-block' opmode is set'' [''blockmodeargs'']))
        else if length (split_on (CHR ''='') blkmodeArgs) \<ge> 2 then
          (case parseBlockModeArgs (bc_opMode cfg) (split_on (CHR '','') blkmodeArgs) fmempty of
             None \<Rightarrow> None
           | Some (Inl err) \<Rightarrow> Some (Inl (Wrapf ''[gluster-block] failed to parse arguments: %v'' [] err))
           | Some (Inr argsDict) \<Rightarrow> Some (Inr (cfg\<lparr>bc_blockModeArgs := argsDict\<rparr>)))
        else Some (Inl (Errorf ''[gluster-block] wrong number of arguments for opmode %s'' [opmode]))
      else if opmode = heketiOpmode then Some (Inr (cfg\<lparr>bc_opMode := heketiOpmode\<rparr>))
      else Some (Inl (Errorf ''StorageClass for provisioner %s contains unknown %v parameter'' [''glusterblock'', opmode])))"

text \<open>\<open>haCount\<close> starts with 3 in a local variable; the configuration's field starts with 0.\<close>

definition block_defaults :: blockParams where
  "block_defaults =
     \<lparr>bc_url = '''', bc_user = '''', bc_restAuthEnabled = False, bc_restSecretNamespace = '''', bc_restSecretName = '''',
      bc_restSecretValue = '''', bc_clusterID = '''', bc_haCount = 0, bc_opMode = '''', bc_blockModeArgs = fmempty,
      bc_chapAuthEnabled = False, bc_volumeNamePrefix = '''', bm_authEnabled = True, bm_chapAuthEnabled = True,
      bm_Opmode = '''', bm_blkmodeArgs = '''', bm_VolumeNamePrefix = ''''\<rparr>"

definition block_param :: "string \<Rightarrow> string \<Rightarrow> blockParams \<Rightarrow> error + blockParams" where
  "block_param k v c =
     (if ToLower k = ''resturl'' then Inr (c\<lparr>bc_url := v\<rparr>)
      else if ToLower k = ''restuser'' then Inr (c\<lparr>bc_user := v\<rparr>)
      else if ToLower k = ''restsecretname'' then Inr (c\<lparr>bc_restSecretName := v\<rparr>)
      else if ToLower k = ''restsecretnamespace'' then Inr (c\<lparr>bc_restSecretNamespace := v\<rparr>)
      else if ToLower k = ''clusterids'' then Inr (if v \<noteq> '''' then c\<lparr>bc_clusterID := v\<rparr> else c)
      else if ToLower k = ''restauthenabled'' then Inr (c\<lparr>bm_authEnabled := (ToLower v = ''true'')\<rparr>)
      else if ToLower k = ''hacount'' then
        (case Atoi v of
           None \<Rightarrow> Inl (Wrapf ''failed to parse hacount %v: %v '' [k] (ExtErr ''invalid syntax''))
         | Some haCount \<Rightarrow> Inr (c\<lparr>bc_haCount := haCount\<rparr>))
      else if ToLower k = ''opmode'' then Inr (c\<lparr>bm_Opmode := v\<rparr>)
      else if ToLower k = ''blockmodeargs'' then Inr (c\<lparr>bm_blkmodeArgs := v\<rparr>)
      else if ToLower k = ''chapauthenabled'' then Inr (c\<lparr>bm_chapAuthEnabled := (ToLower v = ''true'')\<rparr>)
      else if ToLower k = ''volumenameprefix'' then Inr (if v \<noteq> '''' then c\<lparr>bm_VolumeNamePrefix := v\<rparr> else c)
      else Inl (Errorf ''invalid option %q for volume plugin %s'' [k, ''glusterblock'']))"

definition block_credentials :: "'o blockOS \<Rightarrow> bool \<Rightarrow> blockParams \<Rightarrow> 'o \<Rightarrow> blockParams result" where
  "block_credentials os client cfg st =
     (if bc_opMode cfg = heketiOpmode then
        let cfg =
          (if \<not> bm_authEnabled cfg then
             cfg\<lparr>bc_user := '''', bc_restSecretName := '''', bc_restSecretNamespace := '''', bc_restSecretValue := ''''\<rparr>
           else cfg)
        in if bc_restSecretName cfg \<noteq> '''' \<or> bc_restSecretNamespace cfg \<noteq> '''' then
             (if bc_restSecretName cfg \<noteq> '''' \<and> bc_restSecretNamespace cfg \<noteq> '''' then
                (case block_parseSecret os client (bc_restSecretNamespace cfg) (bc_restSecretName cfg) st of
                   Inl err \<Rightarrow> Inl err
                 | Inr secret \<Rightarrow> Inr (cfg\<lparr>bc_restSecretValue := secret\<rparr>))
              else
                Inl (Errorf ''StorageClass for provisioner %q must have restSecretNamespace and restSecretName either both set or both empty''
                       [''glusterblock'']))
           else if bm_authEnabled cfg then
             Inl (Errorf ''`restauthenabled` should be set to false if `restsecret` and `restsecretnamespace` is nil'' [])
           else Inr cfg
      else Inr cfg)"

definition block_finish :: "blockParams \<Rightarrow> blockConfig result" where
  "block_finish cfg =
     (let cfg = cfg\<lparr>bc_restAuthEnabled := bm_authEnabled cfg, bc_chapAuthEnabled := bm_chapAuthEnabled cfg\<rparr>
      in if bm_VolumeNamePrefix cfg \<noteq> '''' then
           (if Contains (bm_VolumeNamePrefix cfg) ''_'' then
              Inl (Errorf ''Storageclass parameter 'volumenameprefix' should not contain '_' in its value'' [])
            else Inr (blockConfig.truncate (cfg\<lparr>bc_volumeNamePrefix := bm_VolumeNamePrefix cfg\<rparr>)))
         else Inr (blockConfig.truncate cfg))"

definition block_parseClassParameters ::
  "'o blockOS \<Rightarrow> bool \<Rightarrow> string gomap \<Rightarrow> 'o \<Rightarrow> blockConfig result option" where
  "block_parseClassParameters os client params st =
     (case range_loop block_param (gs_range os params st) params block_defaults of
        Inl err \<Rightarrow> Some (Inl err)
      | Inr cfg \<Rightarrow>
          (case (if bm_Opmode cfg = '''' then Some (Inr (cfg\<lparr>bc_opMode := heketiOpmode\<rparr>))
                 else
                   (case parseOpmodeArgs (bm_Opmode cfg) cfg (bm_blkmodeArgs cfg) of
                      None \<Rightarrow> None
                    | Some (Inl parseErr) \<Rightarrow> Some (Inl (Wrapf ''parsing failed: %v'' [] parseErr))
                    | Some (Inr cfg) \<Rightarrow> Some (Inr cfg))) of
             None \<Rightarrow> None
           | Some (Inl err) \<Rightarrow> Some (Inl err)
           | Some (Inr cfg) \<Rightarrow>
               if bc_url cfg = '''' \<and> bc_opMode cfg = heketiOpmode then
                 Some (Inl (Errorf ''StorageClass for provisioner %s must contain 'resturl' parameter'' [''glusterblock'']))
               else Some (and_then (block_credentials os client cfg st) block_finish)))"

section \<open>Creating volumes\<close>

text \<open>The pointers embedded in \<open>glusterBlockVolume\<close>.\<close>

record glusterBlockVolume =
  gv_exec :: "glusterBlockExecVolRes option"
  gv_heketi :: "heketiBlockVolRes option"

definition glusterBlockExecCreate ::
  "'o blockOS \<Rightarrow> blockConfig \<Rightarrow> string \<Rightarrow> string \<Rightarrow> string \<Rightarrow> 'o \<Rightarrow> glusterBlockVolume result \<times> 'o" where
  "glusterBlockExecCreate os config sizeStr haCountStr blockVol st =
     (let volume = map_get (bc_blockModeArgs config) ''glustervol'' in
      if volume = '''' then (Inl (Errorf ''glustervol field of blockmodeargs is nil'' []), st)
      else
        (case bo_exec os (bc_opMode config)
                [''create'', volume @ ''/'' @ blockVol, ''ha'', haCountStr, map_get (bc_blockModeArgs config) ''hosts'',
                 sizeStr @ ''GiB'', ''--json''] st of
           ((out, cmdErr), st) \<Rightarrow>
             (case cmdErr of
                Some e \<Rightarrow> (Inl (Wrapf ''gluster block command %v failed: %v'' [] e), st)
              | None \<Rightarrow>
                  (case bo_Unmarshal os out None of
                     Inl unmarshErr \<Rightarrow> (Inl (Wrapf ''failed to unmarshal gluster-block command response: %v'' [] unmarshErr), st)
                   | Inr execBlockRes \<Rightarrow>
                       if \<not> bc_chapAuthEnabled config then (Inr \<lparr>gv_exec = execBlockRes, gv_heketi = None\<rparr>, st)
                       else
                         (case bo_exec os (bc_opMode config)
                                 [''modify'', volume @ ''/'' @ blockVol, ''auth'', ''enable'', ''--json''] st of
                            ((out, cmdErr), st) \<Rightarrow>
                              (case cmdErr of
                                 Some e \<Rightarrow> (Inl (Wrapf ''error: %v when running command %v'' [] e), st)
                               | None \<Rightarrow>
                                   (case bo_Unmarshal os out execBlockRes of
                                      Inl unmarshErr \<Rightarrow>
                                        (Inl (Wrapf ''failed to unmarshal auth response from gluster-block command output: %v'' [] unmarshErr), st)
                                    | Inr None \<Rightarrow> (Inl (Errorf ''failed to decode gluster-block response'' []), st)
                                    | Inr (Some r) \<Rightarrow>
                                        if ge_User r = '''' \<or> ge_AuthKey r = '''' then
                                          (Inl (Errorf ''Invalid response from gluster-block received: CHAP credentials must not be empty'' []), st)
                                        else (Inr \<lparr>gv_exec = Some r, gv_heketi = None\<rparr>, st))))))))"

text \<open>The first portal of the answer is read before it is known that there is one.\<close>

definition heketiBlockVolCreate ::
  "'o blockOS \<Rightarrow> blockConfig \<Rightarrow> int \<Rightarrow> string \<Rightarrow> 'o \<Rightarrow> (glusterBlockVolume result \<times> 'o) option" where
  "heketiBlockVolCreate os config volSizeInt blockVol st =
     (case bo_NewClient os (bc_url config) (bc_user config) (bc_restSecretValue config) of
        None \<Rightarrow> Some (Inl (Errorf ''failed to create glusterblock REST client, REST server authentication failed'' []), st)
      | Some cli \<Rightarrow>
          (case bo_BlockVolumeCreate os cli
                  \<lparr>br_Size = volSizeInt,
                   br_Clusters = (if bc_clusterID config \<noteq> '''' then split_on (CHR '','') (bc_clusterID config) else []),
                   br_Hacount = bc_haCount config, br_Auth = bc_chapAuthEnabled config, br_Name = blockVol\<rparr> st of
             (Inl err, st) \<Rightarrow> Some (Inl (Wrapf ''[heketi] failed to create volume: %v'' [] err), st)
           | (Inr None, st) \<Rightarrow> Some (Inl (Errorf ''[heketi] blockvolumeinforesponse is nil '' []), st)
           | (Inr (Some r), st) \<Rightarrow>
               if hb_Iqn r \<noteq> '''' \<and> hb_Portals r = [] then None
               else if hb_Iqn r \<noteq> '''' \<and> hd (hb_Portals r) \<noteq> '''' then
                 (if bc_chapAuthEnabled config \<and> (hb_User r = '''' \<or> hb_AuthKey r = '''') then
                    Some (Inl (Errorf ''[heketi] Invalid response from heketi received: CHAP credentials must not be empty  '' []), st)
                  else Some (Inr \<lparr>gv_exec = None, gv_heketi = Some r\<rparr>, st))
               else
                 Some (Inl (Errorf ''[heketi] Invalid response from heketi received: IQN and Target must not be empty'' []), st)))"

definition block_createVolume ::
  "'o blockOS \<Rightarrow> int \<Rightarrow> string \<Rightarrow> blockConfig \<Rightarrow> 'o \<Rightarrow> (glusterBlockVolume result \<times> 'o) option" where
  "block_createVolume os volSizeInt blockVol config st =
     (if bc_opMode config = glusterBlockOpmode then
        (case glusterBlockExecCreate os config (FormatInt volSizeInt) (FormatInt (bc_haCount config)) blockVol st of
           (Inl e, st) \<Rightarrow> Some (Inl (Wrapf ''gluster block volume creation failed: %v'' [] e), st)
         | (Inr v, st) \<Rightarrow> Some (Inr v, st))
      else if bc_opMode config = heketiOpmode then
        (case heketiBlockVolCreate os config volSizeInt blockVol st of
           None \<Rightarrow> None
         | Some (Inl e, st) \<Rightarrow> Some (Inl (Wrapf ''heketi block volume creation failed: %v'' [] e), st)
         | Some (Inr v, st) \<Rightarrow> Some (Inr v, st))
      else Some (Inl (Errorf ''error parsing value for 'opmode' for volume plugin %s'' [block_provisionerName]), st))"

definition storeFieldsFromResponse :: "string \<Rightarrow> blockConfig \<Rightarrow> glusterBlockVolume \<Rightarrow> iscsiSpec \<Rightarrow> iscsiSpec result" where
  "storeFieldsFromResponse blockVolName cfg blockVol iscsiVol =
     (case (bc_opMode cfg = heketiOpmode, gv_heketi blockVol) of
        (True, Some r) \<Rightarrow>
          Inr (iscsiVol\<lparr>is_Portals := hb_Portals r, is_Iqn := hb_Iqn r, is_User := hb_User r, is_AuthKey := hb_AuthKey r,
                 is_BlockVolName := (if bc_volumeNamePrefix cfg \<noteq> '''' then blockVolName else blockVolPrefix @ hb_ID r),
                 is_VolumeID := hb_ID r\<rparr>)
      | _ \<Rightarrow>
          (case (bc_opMode cfg = glusterBlockOpmode, gv_exec blockVol) of
             (True, Some e) \<Rightarrow>
               Inr (iscsiVol\<lparr>is_Portals := ge_Portals e, is_Iqn := ge_Iqn e, is_User := ge_User e, is_AuthKey := ge_AuthKey e,
                      is_BlockVolName := blockVolName, is_VolumeID := ''''\<rparr>)
           | _ \<Rightarrow> Inl (Errorf ''failed to parse blockvol %v for opmode %v response'' [bc_opMode cfg])))"

text \<open>The first portal that is not empty becomes the target, the others stay in their order.\<close>

fun splitPortals :: "string list \<Rightarrow> string \<Rightarrow> string list \<Rightarrow> string \<times> string list" where
  "splitPortals [] target rest = (target, rest)"
| "splitPortals (v # vs) target rest =
     (if v \<noteq> '''' \<and> target = '''' then splitPortals vs v rest else splitPortals vs target (rest @ [v]))"

definition sortTargetPortal :: "iscsiSpec \<Rightarrow> iscsiSpec result" where
  "sortTargetPortal vol =
     (if is_Portals vol = [] then Inl (Errorf ''portal is empty'' [])
      else if length (is_Portals vol) = 1 \<and> is_Portals vol ! 0 \<noteq> '''' then
        Inr (vol\<lparr>is_TargetPortal := is_Portals vol ! 0, is_Portals := []\<rparr>)
      else
        (case splitPortals (is_Portals vol) (is_TargetPortal vol) [] of
           (target, rest) \<Rightarrow> Inr (vol\<lparr>is_TargetPortal := target, is_Portals := rest\<rparr>)))"

section \<open>Provision\<close>

definition block_createSecretRef ::
  "'o blockOS \<Rightarrow> string \<Rightarrow> string \<Rightarrow> string \<Rightarrow> string \<Rightarrow> 'o \<Rightarrow> SecretReference result \<times> 'o" where
  "block_createSecretRef os nameSpace secretName user password st =
     (case bo_CreateSecret os
             \<lparr>sec_Namespace = nameSpace, sec_Name = secretName,
              sec_Data = fmupd ''node.session.auth.username'' user (fmupd ''node.session.auth.password'' password fmempty),
              sec_Type = ''kubernetes.io/iscsi-chap''\<rparr> st of
        (err, st) \<Rightarrow>
          (case tolerate_existing err of
             Some e \<Rightarrow> (Inl (Wrapf ''failed to create secret %s, %v'' [] e), st)
           | None \<Rightarrow> (Inr \<lparr>sr_Name = secretName, sr_Namespace = ''''\<rparr>, st)))"

text \<open>The names of a volume: chosen here in the mode \<open>gluster-block\<close> or with a prefix, else by Heketi.\<close>

definition block_volName :: "'o blockOS \<Rightarrow> blockConfig \<Rightarrow> VolumeOptions \<Rightarrow> 'o \<Rightarrow> string \<times> 'o" where
  "block_volName os cfg options st =
     (let (name, st) =
        (if bc_opMode cfg = glusterBlockOpmode then let (u, st) = gs_NewUUID os st in (blockVolPrefix @ u, st)
         else ('''', st))
      in if bc_volumeNamePrefix cfg \<noteq> '''' then
           let (u, st) = gs_NewUUID os st
           in (bc_volumeNamePrefix cfg @ ''_'' @ vo_PVCNamespace options @ ''_'' @ vo_PVCName options @ ''_'' @ u, st)
         else (name, st))"

definition block_chap ::
  "'o blockOS \<Rightarrow> bool \<Rightarrow> blockConfig \<Rightarrow> VolumeOptions \<Rightarrow> iscsiSpec \<Rightarrow> 'o \<Rightarrow>
     ((iscsiSpec \<times> SecretReference option) result \<times> 'o) option" where
  "block_chap os client cfg options iscsiVol st =
     (if bc_chapAuthEnabled cfg \<and> is_User iscsiVol \<noteq> '''' \<and> is_AuthKey iscsiVol \<noteq> '''' then
        let nameSpace = vo_PVCNamespace options;
            secretName = ''glusterblk-'' @ is_User iscsiVol @ ''-secret''
        in if \<not> client then None
           else
             (case block_createSecretRef os nameSpace secretName (is_User iscsiVol) (is_AuthKey iscsiVol) st of
                (Inl err, st) \<Rightarrow> Some (Inl (Wrapf ''failed to create CHAP auth credentials for pv: %v'' [] err), st)
              | (Inr secretRef, st) \<Rightarrow>
                  Some (Inr (iscsiVol\<lparr>is_SessionCHAPAuth := bc_chapAuthEnabled cfg, is_BlockSecret := secretName,
                                  is_BlockSecretNs := nameSpace\<rparr>, Some secretRef), st))
      else if \<not> bc_chapAuthEnabled cfg then Some (Inr (iscsiVol\<lparr>is_SessionCHAPAuth := False\<rparr>, None), st)
      else
        Some (Inl (Errorf ''chapauth enabled - but CHAP credentials are missing in the %v response'' [bc_opMode cfg]), st))"

definition blockString :: "string list \<Rightarrow> string gomap \<Rightarrow> string" where
  "blockString ks args =
     join_with '','' (List.map_filter (\<lambda>k. map_option (\<lambda>v. k @ '':'' @ v) (fmlookup args k)) ks)"

definition block_modeAnn :: "'o blockOS \<Rightarrow> blockConfig \<Rightarrow> 'o \<Rightarrow> string" where
  "block_modeAnn os cfg st =
     (if bc_opMode cfg = glusterBlockOpmode then blockString (gs_range os (bc_blockModeArgs cfg) st) (bc_blockModeArgs cfg)
      else serverAnn (bc_url cfg) (bc_user cfg) (bc_restSecretName cfg) (bc_restSecretNamespace cfg))"

definition block_PV ::
  "glusterBlockProvisioner \<Rightarrow> VolumeOptions \<Rightarrow> blockConfig \<Rightarrow> string \<Rightarrow> iscsiSpec \<Rightarrow> SecretReference option \<Rightarrow> PersistentVolume" where
  "block_PV p options cfg modeAnn iscsiVol secretRef =
     zero_PV
       \<lparr>pv_Name := vo_PVName options,
        pv_Annotations :=
          fmupd block_provisionerIDAnn (bp_identity p)
          (fmupd ''v2.0.0'' ''v2.0.0''
          (fmupd shareIDAnn (is_BlockVolName iscsiVol)
          (fmupd creatorAnn (bc_opMode cfg)
          (fmupd ''gluster.org/type'' ''block''
          (fmupd ''Description'' ''Gluster-external: Dynamically provisioned PV''
          (fmupd ''Blockstring'' modeAnn
          (fmupd ''AccessKey'' (is_BlockSecret iscsiVol)
          (fmupd ''AccessKeyNs'' (is_BlockSecretNs iscsiVol)
          (fmupd volIDAnn (is_VolumeID iscsiVol) fmempty))))))))),
        pv_VolumeMode := vo_VolumeMode options,
        pv_ReclaimPolicy := vo_ReclaimPolicy options,
        pv_AccessModes := vo_AccessModes options,
        pv_Capacity := Some (vo_Request options),
        pv_ISCSI := Some
          \<lparr>iscsi_TargetPortal = is_TargetPortal iscsiVol, iscsi_Portals = is_Portals iscsiVol, iscsi_IQN = is_Iqn iscsiVol,
           iscsi_Lun = 0, iscsi_FSType = ''xfs'', iscsi_ReadOnly = False,
           iscsi_SessionCHAPAuth = is_SessionCHAPAuth iscsiVol, iscsi_SecretRef = secretRef\<rparr>\<rparr>"

text \<open>From the backend's answer to the specification of the volume.\<close>

definition block_iscsi :: "string \<Rightarrow> blockConfig \<Rightarrow> glusterBlockVolume \<Rightarrow> iscsiSpec result" where
  "block_iscsi blockVolName cfg blockVol =
     (case storeFieldsFromResponse blockVolName cfg blockVol zero_iscsiSpec of
        Inl storeErr \<Rightarrow> Inl (Wrapf ''failed to store response fields to iscsi volume spec: %v'' [] storeErr)
      | Inr iscsiVol \<Rightarrow>
          (case sortTargetPortal iscsiVol of
             Inl sortErr \<Rightarrow> Inl (Wrapf ''failed to fetch Target Portal %v from iscsi volume spec'' [] sortErr)
           | Inr iscsiVol \<Rightarrow>
               if is_TargetPortal iscsiVol = '''' \<or> is_Iqn iscsiVol = '''' then
                 Inl (Errorf ''failed to create volume, Target portal/IQN is nil in iscsi volume spec'' [])
               else Inr iscsiVol))"

definition block_provisionWith ::
  "'o blockOS \<Rightarrow> VolumeOptions \<Rightarrow> blockConfig \<Rightarrow> glusterBlockProvisioner \<Rightarrow> 'o \<Rightarrow> (PersistentVolume result \<times> 'o) option" where
  "block_provisionWith os options cfg p st =
     (case block_volName os cfg options st of
        (blockVolName, st) \<Rightarrow>
          (case block_createVolume os (gs_RoundUpToGiB os (vo_Request options)) blockVolName cfg st of
             None \<Rightarrow> None
           | Some (Inl createErr, st) \<Rightarrow> Some (Inl (Wrapf ''failed to create volume: %v'' [] createErr), st)
           | Some (Inr blockVol, st) \<Rightarrow>
               (case block_iscsi blockVolName cfg blockVol of
                  Inl err \<Rightarrow> Some (Inl err, st)
                | Inr iscsiVol \<Rightarrow>
                    (case block_chap os (bp_client p) cfg options iscsiVol st of
                       None \<Rightarrow> None
                     | Some (Inl err, st) \<Rightarrow> Some (Inl err, st)
                     | Some (Inr (iscsiVol, secretRef), st) \<Rightarrow>
                         Some (Inr (block_PV p options cfg (block_modeAnn os cfg st) iscsiVol secretRef), st)))))"

definition block_Provision ::
  "'o blockOS \<Rightarrow> VolumeOptions \<Rightarrow> glusterBlockProvisioner \<times> 'o \<Rightarrow>
     (PersistentVolume result \<times> glusterBlockProvisioner \<times> 'o) option" where
  "block_Provision os options = (\<lambda>(p, st).
     if vo_Selector options then Some (Inl (Errorf ''claim Selector is not supported'' []), p, st)
     else if \<not> gs_AccessModesContainedInAll os block_GetAccessModes (vo_AccessModes options) then
       Some (Inl (Errorf ''invalid AccessModes %v: only AccessModes %v are supported''
                    (vo_AccessModes options @ block_GetAccessModes)), p, st)
     else
       (case block_parseClassParameters os (bp_client p) (vo_Parameters options) st of
          None \<Rightarrow> None
        | Some (Inl parseErr) \<Rightarrow> Some (Inl (Wrapf ''failed to parse storage class parameters: %v'' [] parseErr), p, st)
        | Some (Inr cfg) \<Rightarrow> map_option (\<lambda>(r, st). (r, p, st)) (block_provisionWith os options cfg p st)))"

section \<open>Delete\<close>

text \<open>The arguments on the volume, in the mode \<open>gluster-block\<close>; a part without a colon panics.\<close>

fun blockArgs :: "string list \<Rightarrow> string gomap \<Rightarrow> string gomap option" where
  "blockArgs [] args = Some args"
| "blockArgs (v # vs) args =
     (if v = '''' then blockArgs vs args
      else
        let s = split_on (CHR '':'') v
        in if length s < 2 then None else blockArgs vs (fmupd (s ! 0) (s ! 1) args))"

definition block_getVolumeID :: "PersistentVolume option \<Rightarrow> string \<Rightarrow> string result" where
  "block_getVolumeID pv volumeName =
     (case pv of
        None \<Rightarrow> Inl (Errorf ''provided PV spec is nil'' [])
      | Some pv \<Rightarrow>
          (let ann = map_get (pv_Annotations pv) volIDAnn;
               volumeID = (if ann \<noteq> '''' then ann else TrimPrefix volumeName blockVolPrefix)
           in if volumeID = '''' then Inl (Errorf ''volume ID is empty'' []) else Inr volumeID))"

definition block_deleteExec :: "'o blockOS \<Rightarrow> string gomap \<Rightarrow> string \<Rightarrow> 'o \<Rightarrow> error option \<times> 'o" where
  "block_deleteExec os args delBlockVolName st =
     (case bo_exec os glusterBlockOpmode [''delete'', map_get args ''glustervol'' @ ''/'' @ delBlockVolName, ''--json''] st of
        ((out, Some cmdErr), st) \<Rightarrow> (Some (Wrapf ''error %v when running gluster-block command %v'' [] cmdErr), st)
      | ((out, None), st) \<Rightarrow> (None, st))"

definition block_restSecret :: "'o blockOS \<Rightarrow> bool \<Rightarrow> string gomap \<Rightarrow> 'o \<Rightarrow> string result" where
  "block_restSecret os client args st =
     (if map_get args ''secret'' \<noteq> '''' \<and> map_get args ''secretnamespace'' \<noteq> '''' then
        (case block_parseSecret os client (map_get args ''secretnamespace'') (map_get args ''secret'') st of
           Inl err \<Rightarrow> Inl (Wrapf ''[heketi]: failed to parse secret %s : Error, %v'' [map_get args ''secret''] err)
         | Inr s \<Rightarrow> Inr s)
      else Inr '''')"

text \<open>A volume that Heketi does not know counts as deleted.\<close>

definition block_deleteHeketi ::
  "'o blockOS \<Rightarrow> bool \<Rightarrow> PersistentVolume \<Rightarrow> string gomap \<Rightarrow> string \<Rightarrow> 'o \<Rightarrow> error option \<times> 'o" where
  "block_deleteHeketi os client volume args delBlockVolName st =
     (case block_restSecret os client args st of
        Inl err \<Rightarrow> (Some err, st)
      | Inr restsecretvalue \<Rightarrow>
          (case bo_NewClient os (map_get args ''url'') (map_get args ''user'') restsecretvalue of
             None \<Rightarrow> (Some (Errorf ''[heketi]: failed to create REST client, REST server authentication failed'' []), st)
           | Some cli \<Rightarrow>
               (case block_getVolumeID (Some volume) delBlockVolName of
                  Inl err \<Rightarrow> (Some (Wrapf ''failed to get volumeID, err: %v'' [] err), st)
                | Inr volumeID \<Rightarrow>
                    (case bo_BlockVolumeDelete os cli volumeID st of
                       (Some deleteErr, st) \<Rightarrow>
                         if TrimSpace deleteErr \<noteq> errIDNotFound then
                           (Some (Wrapf ''[heketi]: failed to delete glusterblock volume %v: %v'' [delBlockVolName] (ExtErr deleteErr)), st)
                         else (None, st)
                     | (None, st) \<Rightarrow> (None, st)))))"

definition block_deleteVolume ::
  "'o blockOS \<Rightarrow> bool \<Rightarrow> PersistentVolume \<Rightarrow> string \<Rightarrow> 'o \<Rightarrow> (error option \<times> 'o) option" where
  "block_deleteVolume os client volume delBlockVolName st =
     (let opMode = map_get (pv_Annotations volume) creatorAnn;
          parts = split_on (CHR '','') (map_get (pv_Annotations volume) ''Blockstring'')
      in (case (if opMode = glusterBlockOpmode then blockArgs parts fmempty else serverArgs parts fmempty) of
            None \<Rightarrow> None
          | Some args \<Rightarrow>
              Some (if opMode = glusterBlockOpmode then block_deleteExec os args delBlockVolName st
                    else if opMode = heketiOpmode then block_deleteHeketi os client volume args delBlockVolName st
                    else (None, st))))"

definition block_deleteSecret :: "'o blockOS \<Rightarrow> bool \<Rightarrow> PersistentVolume \<Rightarrow> 'o \<Rightarrow> (error option \<times> 'o) option" where
  "block_deleteSecret os client volume st =
     (let key = map_get (pv_Annotations volume) ''AccessKey''; ns = map_get (pv_Annotations volume) ''AccessKeyNs''
      in if key \<noteq> '''' \<and> ns \<noteq> '''' then
           (if \<not> client then None
            else
              (case bo_DeleteSecret os ns key st of
                 (Some e, st) \<Rightarrow>
                   Some (if IsNotFound e then None else Some (Wrapf ''failed to delete secret %v/%v: %v'' [key, ns] e), st)
               | (None, st) \<Rightarrow> Some (None, st)))
         else Some (None, st))"

definition block_Delete ::
  "'o blockOS \<Rightarrow> PersistentVolume \<Rightarrow> glusterBlockProvisioner \<times> 'o \<Rightarrow>
     (error option \<times> glusterBlockProvisioner \<times> 'o) option" where
  "block_Delete os volume = (\<lambda>(p, st).
     case fmlookup (pv_Annotations volume) block_provisionerIDAnn of
       None \<Rightarrow> Some (Some (Errorf ''identity annotation not found on PV'' []), p, st)
     | Some ann \<Rightarrow>
         if ann \<noteq> bp_identity p then
           Some (Some (IgnoredError ''identity annotation on PV does not match this provisioners identity'' []), p, st)
         else
           (case fmlookup (pv_Annotations volume) shareIDAnn of
              None \<Rightarrow> Some (Some (Errorf ''share annotation not found on PV'' []), p, st)
            | Some delBlockVolName \<Rightarrow>
                (case block_deleteVolume os (bp_client p) volume delBlockVolName st of
                   None \<Rightarrow> None
                 | Some (Some err, st) \<Rightarrow> Some (Some err, p, st)
                 | Some (None, st) \<Rightarrow>
                     map_option (\<lambda>(err, st). (err, p, st)) (block_deleteSecret os (bp_client p) volume st))))"

section \<open>The command\<close>

definition block_provName :: "string \<Rightarrow> string \<Rightarrow> string" where
  "block_provName provEnvName ident =
     (if provEnvName \<noteq> '''' \<and> ident \<noteq> '''' \<or> provEnvName \<noteq> '''' then provEnvName
      else if ident \<noteq> '''' then ident
      else block_provisionerName)"

definition block_main ::
  "('cfg, 'client) kubeLib \<Rightarrow> string \<Rightarrow> string \<Rightarrow> string \<Rightarrow> string \<Rightarrow> (string \<times> 'client \<times> glusterBlockProvisioner \<times> string) option" where
  "block_main kl master kubeconfig provEnvName ident =
     do {
       client \<leftarrow> kube_connect kl master kubeconfig;
       version \<leftarrow> ok (kl_ServerVersion kl client);
       let provName = block_provName provEnvName ident;
       Some (provName, client, NewGlusterBlockProvisioner True provName, version)
     }"

section \<open>What a provisioned volume looks like\<close>

lemma splitPortals_chosen: "target \<noteq> '''' \<Longrightarrow> splitPortals vs target rest = (target, rest @ vs)"
  by (induction vs target rest rule: splitPortals.induct) auto

lemma splitPortals_first:
  "splitPortals vs '''' rest = (target, others) \<Longrightarrow> target \<noteq> '''' \<Longrightarrow>
     \<exists>a b. vs = a @ target # b \<and> others = rest @ a @ b \<and> set a \<subseteq> {''''}"
proof (induction vs arbitrary: rest)
  case (Cons v vs)
  show ?case
  proof (cases "v = ''''")
    case True
    with Cons.prems have "splitPortals vs '''' (rest @ [v]) = (target, others)" by simp
    then obtain a b where "vs = a @ target # b" "others = (rest @ [v]) @ a @ b" "set a \<subseteq> {''''}"
      using Cons.IH Cons.prems(2) by blast
    with True show ?thesis by (intro exI [of _ "v # a"] exI [of _ b]) simp
  next
    case False
    with Cons.prems have "target = v" "others = rest @ vs" by (simp_all add: splitPortals_chosen)
    then show ?thesis by (intro exI [of _ "[]"] exI [of _ vs]) simp
  qed
qed simp

lemma sortTargetPortal_Inr:
  assumes "sortTargetPortal vol = Inr vol'" and "is_TargetPortal vol = ''''" and "is_TargetPortal vol' \<noteq> ''''"
  shows "\<exists>a b. is_Portals vol = a @ is_TargetPortal vol' # b \<and> set a \<subseteq> {''''} \<and>
    vol' = vol\<lparr>is_TargetPortal := is_TargetPortal vol', is_Portals := a @ b\<rparr>"
proof (cases "length (is_Portals vol) = 1 \<and> is_Portals vol ! 0 \<noteq> ''''")
  case True
  then obtain x where "is_Portals vol = [x]" "x \<noteq> ''''" by (auto simp: length_Suc_conv)
  with assms(1) have "vol' = vol\<lparr>is_TargetPortal := x, is_Portals := []\<rparr>"
    by (simp add: sortTargetPortal_def)
  then show ?thesis
    using \<open>is_Portals vol = [x]\<close> by (intro exI [of _ "[]"]) simp
next
  case False
  then obtain target rest where split: "splitPortals (is_Portals vol) '''' [] = (target, rest)"
    and vol': "vol' = vol\<lparr>is_TargetPortal := target, is_Portals := rest\<rparr>"
    using assms(1,2) by (auto simp: sortTargetPortal_def simp del: One_nat_def split: if_splits prod.splits)
  then show ?thesis
    using splitPortals_first [OF split] assms(3) by (auto simp: vol')
qed

definition answered_portals :: "blockConfig \<Rightarrow> glusterBlockVolume \<Rightarrow> string list" where
  "answered_portals cfg v =
     (if bc_opMode cfg = heketiOpmode then (case gv_heketi v of None \<Rightarrow> [] | Some r \<Rightarrow> hb_Portals r)
      else (case gv_exec v of None \<Rightarrow> [] | Some e \<Rightarrow> ge_Portals e))"

text \<open>
  The portals of a volume are those of the backend's answer: the first that is not empty is the
  target, the others keep their order, and none is lost.
\<close>

theorem portals_are_kept:
  assumes "block_iscsi name cfg v = Inr iscsi"
  shows "is_TargetPortal iscsi \<noteq> '''' \<and> is_Iqn iscsi \<noteq> '''' \<and>
    (\<exists>a b. answered_portals cfg v = a @ is_TargetPortal iscsi # b \<and> is_Portals iscsi = a @ b \<and> set a \<subseteq> {''''})"
proof -
  obtain vol where stored: "storeFieldsFromResponse name cfg v zero_iscsiSpec = Inr vol"
    and sorted: "sortTargetPortal vol = Inr iscsi" and ok: "is_TargetPortal iscsi \<noteq> ''''" "is_Iqn iscsi \<noteq> ''''"
    using assms by (auto simp: block_iscsi_def split: sum.splits if_splits)
  have "is_Portals vol = answered_portals cfg v" "is_TargetPortal vol = ''''"
    using stored by (auto simp: storeFieldsFromResponse_def answered_portals_def zero_iscsiSpec_def
        split: bool.splits option.splits)
  then show ?thesis
    using sortTargetPortal_Inr [OF sorted] ok by (metis (no_types, lifting) iscsiSpec.select_convs(2) iscsiSpec.surjective iscsiSpec.update_convs(2))
qed

lemma block_Provision_Inr:
  assumes "block_Provision os options (p, st) = Some (Inr pv, p1, st1)"
  obtains cfg name st0 v st2 iscsi iscsi' secretRef where
    "block_parseClassParameters os (bp_client p) (vo_Parameters options) st = Some (Inr cfg)" "p1 = p"
    "block_createVolume os (gs_RoundUpToGiB os (vo_Request options)) name cfg st0 = Some (Inr v, st2)"
    "block_iscsi name cfg v = Inr iscsi" "block_chap os (bp_client p) cfg options iscsi st2 = Some (Inr (iscsi', secretRef), st1)"
    "pv = block_PV p options cfg (block_modeAnn os cfg st1) iscsi' secretRef"
  using assms
  by (auto simp: block_Provision_def block_provisionWith_def split: if_splits option.splits sum.splits prod.splits)

lemma block_chap_Inr:
  assumes "block_chap os client cfg options iscsi st = Some (Inr (iscsi', secretRef), st')"
  shows "is_TargetPortal iscsi' = is_TargetPortal iscsi" "is_Portals iscsi' = is_Portals iscsi" "is_Iqn iscsi' = is_Iqn iscsi"
    "is_BlockVolName iscsi' = is_BlockVolName iscsi" "is_VolumeID iscsi' = is_VolumeID iscsi"
    "is_SessionCHAPAuth iscsi' = bc_chapAuthEnabled cfg" "(secretRef \<noteq> None) = bc_chapAuthEnabled cfg"
    "\<And>r. secretRef = Some r \<Longrightarrow> sr_Name r = is_BlockSecret iscsi' \<and> is_BlockSecret iscsi' \<noteq> '''' \<and>
       is_BlockSecretNs iscsi' = vo_PVCNamespace options"
  using assms by (auto simp: block_chap_def block_createSecretRef_def Let_def split: if_splits sum.splits prod.splits option.splits)

lemma block_PV_fields:
  "map_get (pv_Annotations (block_PV p options cfg m i r)) ''AccessKey'' = is_BlockSecret i"
  "map_get (pv_Annotations (block_PV p options cfg m i r)) ''AccessKeyNs'' = is_BlockSecretNs i"
  "map_get (pv_Annotations (block_PV p options cfg m i r)) ''Blockstring'' = m"
  "map_get (pv_Annotations (block_PV p options cfg m i r)) creatorAnn = bc_opMode cfg"
  "map_get (pv_Annotations (block_PV p options cfg m i r)) volIDAnn = is_VolumeID i"
  "fmlookup (pv_Annotations (block_PV p options cfg m i r)) shareIDAnn = Some (is_BlockVolName i)"
  "fmlookup (pv_Annotations (block_PV p options cfg m i r)) block_provisionerIDAnn = Some (bp_identity p)"
  "pv_ISCSI (block_PV p options cfg m i r) = Some
     \<lparr>iscsi_TargetPortal = is_TargetPortal i, iscsi_Portals = is_Portals i, iscsi_IQN = is_Iqn i, iscsi_Lun = 0,
      iscsi_FSType = ''xfs'', iscsi_ReadOnly = False, iscsi_SessionCHAPAuth = is_SessionCHAPAuth i, iscsi_SecretRef = r\<rparr>"
  by (simp_all add: block_PV_def)

text \<open>
  C38. A volume asks for CHAP exactly when it refers to a secret; the secret it refers to is the one that
  its annotations name for the deletion, in the namespace of the claim; and it always has a target
  and a name.
\<close>

theorem chap_volume_has_secret:
  assumes "block_Provision os options (p, st) = Some (Inr pv, p1, st1)"
  shows "\<exists>i. pv_ISCSI pv = Some i \<and> iscsi_TargetPortal i \<noteq> '''' \<and> iscsi_IQN i \<noteq> '''' \<and>
    (iscsi_SessionCHAPAuth i \<longleftrightarrow> iscsi_SecretRef i \<noteq> None) \<and>
    (\<forall>r. iscsi_SecretRef i = Some r \<longrightarrow> sr_Name r \<noteq> '''' \<and>
       map_get (pv_Annotations pv) ''AccessKey'' = sr_Name r \<and>
       map_get (pv_Annotations pv) ''AccessKeyNs'' = vo_PVCNamespace options)"
proof -
  obtain cfg name v st2 iscsi iscsi' secretRef where iscsi: "block_iscsi name cfg v = Inr iscsi"
    and chap: "block_chap os (bp_client p) cfg options iscsi st2 = Some (Inr (iscsi', secretRef), st1)"
    and pv: "pv = block_PV p options cfg (block_modeAnn os cfg st1) iscsi' secretRef"
    by (rule block_Provision_Inr [OF assms])
  have "is_TargetPortal iscsi \<noteq> ''''" "is_Iqn iscsi \<noteq> ''''"
    using iscsi by (auto simp: block_iscsi_def split: sum.splits if_splits)
  with block_chap_Inr [OF chap] show ?thesis by (simp add: pv block_PV_fields)
qed

section \<open>Parsing\<close>

lemma block_param_haCount:
  "ToLower k \<noteq> ''hacount'' \<Longrightarrow> block_param k v c = Inr c' \<Longrightarrow> bc_haCount c' = bc_haCount c"
  by (auto simp: block_param_def split: if_splits)

lemma parseOpmodeArgs_keeps:
  "parseOpmodeArgs m cfg a = Some (Inr cfg') \<Longrightarrow> bc_haCount cfg' = bc_haCount cfg"
  by (auto simp: parseOpmodeArgs_def Let_def split: if_splits option.splits sum.splits)

lemma block_credentials_keeps:
  "block_credentials os client cfg st = Inr cfg' \<Longrightarrow>
     bc_haCount cfg' = bc_haCount cfg \<and> bc_opMode cfg' = bc_opMode cfg \<and> bc_blockModeArgs cfg' = bc_blockModeArgs cfg"
  by (auto simp: block_credentials_def Let_def split: if_splits sum.splits)

lemma block_finish_keeps:
  "block_finish cfg = Inr cfg' \<Longrightarrow>
     bc_haCount cfg' = bc_haCount cfg \<and> bc_opMode cfg' = bc_opMode cfg \<and> bc_blockModeArgs cfg' = bc_blockModeArgs cfg \<and>
     bc_restSecretName cfg' = bc_restSecretName cfg \<and> bc_restSecretNamespace cfg' = bc_restSecretNamespace cfg \<and>
     bc_restSecretValue cfg' = bc_restSecretValue cfg \<and> bc_url cfg' = bc_url cfg \<and> bc_user cfg' = bc_user cfg"
  by (auto simp: block_finish_def Let_def blockConfig.defs split: if_splits)

lemma block_parse_stages:
  assumes "block_parseClassParameters os client params st = Some (Inr cfg)"
  obtains c c1 c2 where "range_loop block_param (gs_range os params st) params block_defaults = Inr c"
    "if bm_Opmode c = '''' then c1 = c\<lparr>bc_opMode := heketiOpmode\<rparr>
     else parseOpmodeArgs (bm_Opmode c) c (bm_blkmodeArgs c) = Some (Inr c1)"
    "block_credentials os client c1 st = Inr c2" "block_finish c2 = Inr cfg"
proof -
  obtain c where c: "range_loop block_param (gs_range os params st) params block_defaults = Inr c"
    using assms by (cases "range_loop block_param (gs_range os params st) params block_defaults")
      (simp_all add: block_parseClassParameters_def)
  obtain c1 where c1: "if bm_Opmode c = '''' then c1 = c\<lparr>bc_opMode := heketiOpmode\<rparr>
     else parseOpmodeArgs (bm_Opmode c) c (bm_blkmodeArgs c) = Some (Inr c1)"
    and rest: "and_then (block_credentials os client c1 st) block_finish = Inr cfg"
    using assms by (simp add: block_parseClassParameters_def c split: if_splits option.splits sum.splits)
  from rest obtain c2 where "block_credentials os client c1 st = Inr c2" "block_finish c2 = Inr cfg"
    by (cases "block_credentials os client c1 st") auto
  with c c1 show ?thesis by (rule that)
qed

text \<open>
  A class without the parameter \<open>hacount\<close> asks Heketi for a count of 0, although the code sets a
  default of 3: the default stays in a local variable.
\<close>

theorem hacount_default_is_lost:
  assumes "block_parseClassParameters os client params st = Some (Inr cfg)"
    and "\<forall>k. fmlookup params k \<noteq> None \<longrightarrow> ToLower k \<noteq> ''hacount''"
  shows "bc_haCount cfg = 0"
proof -
  obtain c c1 c2 where stages: "range_loop block_param (gs_range os params st) params block_defaults = Inr c"
    "if bm_Opmode c = '''' then c1 = c\<lparr>bc_opMode := heketiOpmode\<rparr>
     else parseOpmodeArgs (bm_Opmode c) c (bm_blkmodeArgs c) = Some (Inr c1)"
    "block_credentials os client c1 st = Inr c2" "block_finish c2 = Inr cfg"
    by (rule block_parse_stages [OF assms(1)])
  have "bc_haCount c = 0"
    by (rule range_loop_invariant [OF stages(1), where P = "\<lambda>c. bc_haCount c = 0"])
      (use assms(2) block_param_haCount in \<open>simp add: block_defaults_def, metis option.distinct(1)\<close>)
  moreover have "bc_haCount c1 = bc_haCount c"
    using stages(2) by (auto split: if_splits dest: parseOpmodeArgs_keeps)
  ultimately show ?thesis
    using block_credentials_keeps [OF stages(3)] block_finish_keeps [OF stages(4)] by simp
qed

text \<open>Splitting at a character gives one part exactly when the character does not occur.\<close>

lemma length_split_on: "length (split_on c s) < 2 \<longleftrightarrow> c \<notin> set s"
proof (induction s)
  case (Cons x s)
  then show ?case by (cases "split_on c s") (auto simp: less_Suc_eq)
qed simp

definition block_arg_ok :: "string \<Rightarrow> bool" where
  "block_arg_ok u \<longleftrightarrow>
     (\<exists>k x rest. split_on (CHR ''='') u = k # x # rest \<and> k \<in> {''glustervol'', ''hosts''} \<and> x \<noteq> '''')"

lemma parseBlockModeArgs_step:
  "block_arg_ok v \<Longrightarrow> \<exists>k x. parseBlockModeArgs m (v # vs) args = parseBlockModeArgs m vs (fmupd k x args)"
  by (auto simp: block_arg_ok_def, blast+)

lemma parseBlockModeArgs_bare:
  "v \<in> {''glustervol'', ''hosts''} \<Longrightarrow> parseBlockModeArgs m (v # vs) args = None"
  by (auto simp: split_on_plain)

lemma parseBlockModeArgs_other:
  assumes "\<not> block_arg_ok v" and "v \<notin> {''glustervol'', ''hosts''}"
  shows "\<exists>err. parseBlockModeArgs m (v # vs) args = Some (Inl err)"
proof (cases "split_on (CHR ''='') v")
  case (Cons k rest)
  then show ?thesis
  proof (cases rest)
    case Nil
    then have "CHR ''='' \<notin> set v" using length_split_on [of "CHR ''=''" v] Cons by simp
    then have "k = v" using Cons Nil by (simp add: split_on_plain)
    with assms(2) Cons Nil show ?thesis by (simp add: Let_def)
  next
    case (Cons x xs)
    with \<open>split_on (CHR ''='') v = k # rest\<close> assms(1) show ?thesis
      by (auto simp: block_arg_ok_def Let_def)
  qed
qed simp

text \<open>
  The arguments of the mode \<open>gluster-block\<close> panic exactly when one of them is a bare name, after
  arguments that are all well formed (\<open>glustervol=v,hosts\<close>): the provisioner ends.
\<close>

theorem block_mode_args_panic_iff:
  "parseBlockModeArgs m vs args = None \<longleftrightarrow>
     (case dropWhile block_arg_ok vs of [] \<Rightarrow> False | v # _ \<Rightarrow> v \<in> {''glustervol'', ''hosts''})"
proof (induction vs arbitrary: args)
  case (Cons v vs)
  show ?case
  proof (cases "block_arg_ok v")
    case True
    then obtain k x where "parseBlockModeArgs m (v # vs) args = parseBlockModeArgs m vs (fmupd k x args)"
      using parseBlockModeArgs_step by blast
    with Cons.IH [of "fmupd k x args"] True show ?thesis by simp
  next
    case False
    then show ?thesis
      using parseBlockModeArgs_bare [of v m vs args] parseBlockModeArgs_other [of v m vs args]
      by (cases "v \<in> {''glustervol'', ''hosts''}") (auto simp del: parseBlockModeArgs.simps)
  qed
qed simp

section \<open>Provisioning and deleting\<close>

definition arg_pairs :: "string list \<Rightarrow> string gomap \<Rightarrow> (string \<times> string) list" where
  "arg_pairs ks args = List.map_filter (\<lambda>k. map_option (Pair k) (fmlookup args k)) ks"

definition plain_args :: "string gomap \<Rightarrow> bool" where
  "plain_args args \<longleftrightarrow>
     (\<forall>k v. fmlookup args k = Some v \<longrightarrow> no_char (CHR '','') k \<and> no_char (CHR '':'') k \<and> no_char (CHR '','') v \<and> no_char (CHR '':'') v)"

lemma arg_pairs_Nil [simp]: "arg_pairs [] args = []"
  by (simp add: arg_pairs_def map_filter_def)

lemma arg_pairs_Cons [simp]:
  "arg_pairs (k # ks) args = (case fmlookup args k of None \<Rightarrow> arg_pairs ks args | Some v \<Rightarrow> (k, v) # arg_pairs ks args)"
  by (simp add: arg_pairs_def map_filter_def split: option.split)

lemma blockString_pairs: "blockString ks args = join_with '','' (map (\<lambda>(k, v). k @ '':'' @ v) (arg_pairs ks args))"
proof -
  have "List.map_filter (\<lambda>k. map_option (\<lambda>v. k @ '':'' @ v) (fmlookup args k)) ks =
      map (\<lambda>(k, v). k @ '':'' @ v) (arg_pairs ks args)"
    by (induction ks) (simp_all add: map_filter_def split: option.split)
  then show ?thesis by (simp add: blockString_def)
qed

lemma arg_pairs_plain:
  "plain_args args \<Longrightarrow> (k, v) \<in> set (arg_pairs ks args) \<Longrightarrow>
     CHR '','' \<notin> set k \<and> CHR '':'' \<notin> set k \<and> CHR '','' \<notin> set v \<and> CHR '':'' \<notin> set v"
  by (induction ks) (auto simp: plain_args_def no_char_def split: option.splits)

lemma blockArgs_pairs:
  assumes "\<forall>(k, v) \<in> set kvs. CHR '':'' \<notin> set k \<and> CHR '':'' \<notin> set v"
  shows "blockArgs (map (\<lambda>(k, v). k @ '':'' @ v) kvs) m = Some (fold (\<lambda>(k, v). fmupd k v) kvs m)"
  using assms
proof (induction kvs arbitrary: m)
  case (Cons kv kvs)
  obtain k v where kv: "kv = (k, v)" by fastforce
  have "split_on (CHR '':'') (k @ CHR '':'' # v) = [k, v]"
    using Cons.prems by (simp add: kv split_on_append_sep split_on_plain)
  with Cons show ?case by (simp add: kv)
qed simp

lemma fold_arg_pairs:
  "fmlookup (fold (\<lambda>(k, v). fmupd k v) (arg_pairs ks args) m) x =
     (if x \<in> set ks \<and> fmlookup args x \<noteq> None then fmlookup args x else fmlookup m x)"
  by (induction ks arbitrary: m) (auto split: option.split)

lemma blockArgs_blockString:
  assumes "enumerates ks args" and "plain_args args"
  shows "blockArgs (split_on (CHR '','') (blockString ks args)) fmempty = Some args"
proof -
  let ?parts = "map (\<lambda>(k, v). k @ '':'' @ v) (arg_pairs ks args)"
  have "fold (\<lambda>(k, v). fmupd k v) (arg_pairs ks args) fmempty = args"
    using assms(1) by (intro fmap_ext) (auto simp: fold_arg_pairs enumerates_None)
  moreover have "\<forall>(k, v) \<in> set (arg_pairs ks args). CHR '':'' \<notin> set k \<and> CHR '':'' \<notin> set v"
    using arg_pairs_plain [OF assms(2)] by blast
  ultimately have fold: "blockArgs ?parts fmempty = Some args"
    using blockArgs_pairs [of "arg_pairs ks args" fmempty] by simp
  show ?thesis
  proof (cases "arg_pairs ks args = []")
    case True
    with fold show ?thesis by (simp add: blockString_pairs)
  next
    case False
    have "\<forall>x \<in> set ?parts. CHR '','' \<notin> set x"
      using arg_pairs_plain [OF assms(2)] by fastforce
    with False have "split_on (CHR '','') (blockString ks args) = ?parts"
      by (simp add: blockString_pairs split_on_join)
    with fold show ?thesis by simp
  qed
qed

text \<open>
  In the mode \<open>gluster-block\<close> the deletion runs the command on the very volume that was created:
  whatever order the runtime chose when it wrote the arguments on the volume, they are read back,
  and the volume's name is the one given on creation.
\<close>

theorem block_exec_delete_undoes_create:
  assumes "block_Provision os options (p, st) = Some (Inr pv, p1, st1)" and "legal_gluster_ranges os"
    and "block_parseClassParameters os (bp_client p) (vo_Parameters options) st = Some (Inr cfg)"
    and "bc_opMode cfg = glusterBlockOpmode" and "plain_args (bc_blockModeArgs cfg)"
    and "pv_Annotations pv' = pv_Annotations pv"
  shows "\<exists>name st0 v st2. block_createVolume os (gs_RoundUpToGiB os (vo_Request options)) name cfg st0 = Some (Inr v, st2) \<and>
    (\<forall>st3 out st4. bo_exec os glusterBlockOpmode
         [''delete'', map_get (bc_blockModeArgs cfg) ''glustervol'' @ ''/'' @ name, ''--json''] st3 = ((out, None), st4) \<longrightarrow>
       block_Delete os pv' (p1, st3) = map_option (\<lambda>(err, st). (err, p1, st)) (block_deleteSecret os (bp_client p) pv' st4))"
proof -
  obtain cfg' name st0 v st2 iscsi iscsi' secretRef where
    cfg: "block_parseClassParameters os (bp_client p) (vo_Parameters options) st = Some (Inr cfg')" and p: "p1 = p"
    and create: "block_createVolume os (gs_RoundUpToGiB os (vo_Request options)) name cfg' st0 = Some (Inr v, st2)"
    and iscsi: "block_iscsi name cfg' v = Inr iscsi"
    and chap: "block_chap os (bp_client p) cfg' options iscsi st2 = Some (Inr (iscsi', secretRef), st1)"
    and pv: "pv = block_PV p options cfg' (block_modeAnn os cfg' st1) iscsi' secretRef"
    by (rule block_Provision_Inr [OF assms(1)])
  have same: "cfg' = cfg" using cfg assms(3) by simp
  have "is_BlockVolName iscsi = name"
    using iscsi assms(4) by (auto simp: same block_iscsi_def storeFieldsFromResponse_def sortTargetPortal_def
        split: sum.splits if_splits option.splits prod.splits bool.splits)
  then have name: "fmlookup (pv_Annotations pv') shareIDAnn = Some name"
    using block_chap_Inr(4) [OF chap] by (simp add: assms(6) pv block_PV_fields)
  have "enumerates (gs_range os (bc_blockModeArgs cfg) st1) (bc_blockModeArgs cfg)"
    using assms(2) by (simp add: legal_gluster_ranges_def)
  then have args: "blockArgs (split_on (CHR '','') (map_get (pv_Annotations pv') ''Blockstring'')) fmempty = Some (bc_blockModeArgs cfg)"
    using assms(4,5) by (simp add: assms(6) pv block_PV_fields same block_modeAnn_def blockArgs_blockString)
  have "block_Delete os pv' (p1, st3) = map_option (\<lambda>(err, st). (err, p1, st)) (block_deleteSecret os (bp_client p) pv' st4)"
    if "bo_exec os glusterBlockOpmode
         [''delete'', map_get (bc_blockModeArgs cfg) ''glustervol'' @ ''/'' @ name, ''--json''] st3 = ((out, None), st4)"
    for st3 out st4
  proof -
    have "fmlookup (pv_Annotations pv') block_provisionerIDAnn = Some (bp_identity p)"
      "map_get (pv_Annotations pv') creatorAnn = glusterBlockOpmode"
      using assms(4) by (simp_all add: assms(6) pv block_PV_fields same)
    with that name args p show ?thesis
      by (simp add: block_Delete_def block_deleteVolume_def block_deleteExec_def)
  qed
  with create show ?thesis unfolding same by blast
qed

definition plain_server :: "blockConfig \<Rightarrow> bool" where
  "plain_server cfg \<longleftrightarrow>
     list_all (no_char (CHR '','')) [bc_url cfg, bc_user cfg, bc_restSecretName cfg, bc_restSecretNamespace cfg] \<and>
     list_all (no_char (CHR '':'')) [bc_user cfg, bc_restSecretName cfg, bc_restSecretNamespace cfg]"

lemma block_range_secret:
  "range_loop block_param ks m block_defaults = Inr c \<Longrightarrow> bc_restSecretValue c = ''''"
  by (rule range_loop_invariant [where P = "\<lambda>c. bc_restSecretValue c = ''''"])
    (auto simp: block_defaults_def block_param_def split: if_splits option.splits)

lemma block_parse_secret:
  assumes "block_parseClassParameters os client params st = Some (Inr cfg)" and "bc_opMode cfg = heketiOpmode"
  shows "(bc_restSecretName cfg = '''') = (bc_restSecretNamespace cfg = '''')"
    and "bc_restSecretName cfg = '''' \<Longrightarrow> bc_restSecretValue cfg = ''''"
proof -
  obtain c c1 c2 where stages: "range_loop block_param (gs_range os params st) params block_defaults = Inr c"
    "if bm_Opmode c = '''' then c1 = c\<lparr>bc_opMode := heketiOpmode\<rparr>
     else parseOpmodeArgs (bm_Opmode c) c (bm_blkmodeArgs c) = Some (Inr c1)"
    "block_credentials os client c1 st = Inr c2" "block_finish c2 = Inr cfg"
    by (rule block_parse_stages [OF assms(1)])
  have "bc_restSecretValue c1 = ''''"
    using stages(2) block_range_secret [OF stages(1)]
    by (auto simp: parseOpmodeArgs_def Let_def split: if_splits option.splits sum.splits)
  moreover have "bc_opMode c2 = heketiOpmode"
    using assms(2) block_finish_keeps [OF stages(4)] by simp
  moreover from this have "bc_opMode c1 = heketiOpmode" using block_credentials_keeps [OF stages(3)] by simp
  ultimately have "(bc_restSecretName c2 = '''') = (bc_restSecretNamespace c2 = '''')"
    "bc_restSecretName c2 = '''' \<Longrightarrow> bc_restSecretValue c2 = ''''"
    using stages(3) by (auto simp: block_credentials_def Let_def split: if_splits sum.splits)
  then show "(bc_restSecretName cfg = '''') = (bc_restSecretNamespace cfg = '''')"
    "bc_restSecretName cfg = '''' \<Longrightarrow> bc_restSecretValue cfg = ''''"
    using block_finish_keeps [OF stages(4)] by simp_all
qed

text \<open>
  In the mode \<open>heketi\<close> the deletion asks the server that made the volume, with the same
  credentials, to delete the identifier on it, and then removes the CHAP secret: if the secret of
  the class still has the same key and the parts of the annotation are plain. A volume the server
  does not know is as good as deleted.
\<close>

theorem block_delete_undoes_provision:
  assumes "block_Provision os options (p, st) = Some (Inr pv, p1, st1)" and "bp_client p"
    and "block_parseClassParameters os (bp_client p) (vo_Parameters options) st = Some (Inr cfg)"
    and "bc_opMode cfg = heketiOpmode" and "plain_server cfg"
    and "bc_restSecretName cfg \<noteq> '''' \<Longrightarrow>
      block_parseSecret os True (bc_restSecretNamespace cfg) (bc_restSecretName cfg) st2 = Inr (bc_restSecretValue cfg)"
    and "pv_Annotations pv' = pv_Annotations pv"
    and "map_get (pv_Annotations pv) volIDAnn = vid" and "vid \<noteq> ''''"
  shows "\<exists>cli. bo_NewClient os (bc_url cfg) (bc_user cfg) (bc_restSecretValue cfg) = Some cli \<and>
    (\<forall>e st3. bo_BlockVolumeDelete os cli vid st2 = (e, st3) \<longrightarrow> e = None \<or> e = Some errIDNotFound \<longrightarrow>
       block_Delete os pv' (p1, st2) = map_option (\<lambda>(err, st). (err, p1, st)) (block_deleteSecret os True pv' st3))"
proof -
  obtain cfg' name st0 v st5 iscsi iscsi' secretRef where
    cfg: "block_parseClassParameters os (bp_client p) (vo_Parameters options) st = Some (Inr cfg')" and p: "p1 = p"
    and create: "block_createVolume os (gs_RoundUpToGiB os (vo_Request options)) name cfg' st0 = Some (Inr v, st5)"
    and pv: "pv = block_PV p options cfg' (block_modeAnn os cfg' st1) iscsi' secretRef"
    by (rule block_Provision_Inr [OF assms(1)])
  have same: "cfg' = cfg" using cfg assms(3) by simp
  from create assms(4) obtain cli where cli: "bo_NewClient os (bc_url cfg) (bc_user cfg) (bc_restSecretValue cfg) = Some cli"
    by (auto simp: same block_createVolume_def heketiBlockVolCreate_def split: option.splits)
  note sec = block_parse_secret [OF assms(3,4)]
  have anns: "fmlookup (pv_Annotations pv) block_provisionerIDAnn = Some (bp_identity p)"
    "map_get (pv_Annotations pv) creatorAnn = heketiOpmode"
    "fmlookup (pv_Annotations pv) shareIDAnn = Some (is_BlockVolName iscsi')"
    "map_get (pv_Annotations pv) ''Blockstring'' =
       serverAnn (bc_url cfg) (bc_user cfg) (bc_restSecretName cfg) (bc_restSecretNamespace cfg)"
    using assms(4) by (simp_all add: pv block_PV_fields same block_modeAnn_def)
  have secret: "block_restSecret os True
      (fmupd ''secretnamespace'' (bc_restSecretNamespace cfg) (fmupd ''secret'' (bc_restSecretName cfg)
         (fmupd ''user'' (bc_user cfg) (fmupd ''url'' (bc_url cfg) fmempty)))) st2 = Inr (bc_restSecretValue cfg)"
    using sec assms(6) by (auto simp: block_restSecret_def)
  have "block_Delete os pv' (p1, st2) = map_option (\<lambda>(err, st). (err, p1, st)) (block_deleteSecret os True pv' st3)"
    if "bo_BlockVolumeDelete os cli vid st2 = (e, st3)" and "e = None \<or> e = Some errIDNotFound" for e st3
  proof -
    have "TrimSpace errIDNotFound = errIDNotFound" by code_simp
    then have "block_deleteVolume os True pv' (is_BlockVolName iscsi') st2 = Some (None, st3)"
      using that assms(5,8,9) secret cli
      by (auto simp: block_deleteVolume_def anns serverArgs_serverAnn plain_server_def block_deleteHeketi_def
          block_getVolumeID_def assms(7) Let_def)
    then show ?thesis using assms(2) by (simp add: block_Delete_def p anns assms(7))
  qed
  with cli show ?thesis by blast
qed

section \<open>The contract of a marking provisioner\<close>

interpretation gblock: marking_provisioner
  "block_Provision os" "block_Delete os" "\<lambda>(p, st). (block_provisionerIDAnn, bp_identity p)"
  for os :: "'o blockOS"
proof unfold_locales
  fix options and s :: "glusterBlockProvisioner \<times> 'o" and pv s'
  assume "block_Provision os options s = Some (Inr pv, s')"
  then show "fmlookup (pv_Annotations pv) (fst (case s of (p, st) \<Rightarrow> (block_provisionerIDAnn, bp_identity p))) =
      Some (snd (case s of (p, st) \<Rightarrow> (block_provisionerIDAnn, bp_identity p)))"
    by (cases s; cases s') (auto simp: block_PV_fields elim!: block_Provision_Inr)
next
  fix options and s :: "glusterBlockProvisioner \<times> 'o" and r s'
  assume "block_Provision os options s = Some (r, s')"
  then show "(case s' of (p, st) \<Rightarrow> (block_provisionerIDAnn, bp_identity p)) =
      (case s of (p, st) \<Rightarrow> (block_provisionerIDAnn, bp_identity p))"
    by (cases s; cases s') (auto simp: block_Provision_def split: if_splits option.splits sum.splits prod.splits)
next
  fix pv and s :: "glusterBlockProvisioner \<times> 'o" and e s'
  assume "block_Delete os pv s = Some (e, s')"
  then show "(case s' of (p, st) \<Rightarrow> (block_provisionerIDAnn, bp_identity p)) =
      (case s of (p, st) \<Rightarrow> (block_provisionerIDAnn, bp_identity p))"
    by (cases s; cases s') (auto simp: block_Delete_def split: if_splits option.splits sum.splits prod.splits)
next
  fix pv :: PersistentVolume and s :: "glusterBlockProvisioner \<times> 'o"
  assume "fmlookup (pv_Annotations pv) (fst (case s of (p, st) \<Rightarrow> (block_provisionerIDAnn, bp_identity p))) \<noteq>
      Some (snd (case s of (p, st) \<Rightarrow> (block_provisionerIDAnn, bp_identity p)))"
  then show "\<exists>err. block_Delete os pv s = Some (Some err, s)"
    by (cases s) (auto simp: block_Delete_def split: option.split)
qed

text \<open>Whatever was asked of the provisioner before, a volume of another one is refused and nothing changes.\<close>

lemma block_foreign_refused:
  assumes "gblock.requests os rs (p, st) = Some s"
    and "fmlookup (pv_Annotations pv) block_provisionerIDAnn \<noteq> Some (bp_identity p)"
  shows "\<exists>err. block_Delete os pv s = Some (Some err, s)"
  using assms(2) by (intro gblock.foreign_refused [OF assms(1)]) simp

section \<open>Witnesses\<close>

text \<open>A world whose state lists the calls that changed it.\<close>

definition demo_block :: "string list list blockOS" where
  "demo_block = glusterOS.extend
     \<lparr>gs_range = (\<lambda>m st. sorted_keys m),
      gs_GetSecret = (\<lambda>ns n st. Inr \<lparr>sec_Namespace = ns, sec_Name = n, sec_Data = fmupd ''key'' ''pw'' fmempty,
                                  sec_Type = block_provisionerName\<rparr>),
      gs_CreateEndpoints = (\<lambda>ep st. (None, st)),
      gs_CreateService = (\<lambda>s st. (None, st)),
      gs_DeleteService = (\<lambda>ns n st. (None, st)),
      gs_AllocateNext = (\<lambda>_ st. (Inr 2000, st)),
      gs_Release = (\<lambda>pv st. (None, st)),
      gs_NewUUID = (\<lambda>st. (''u'', st)),
      gs_RoundUpToGiB = (\<lambda>s. (s + GiB - 1) div GiB),
      gs_AccessModesContainedInAll = (\<lambda>allowed ms. set ms \<subseteq> set allowed)\<rparr>
    (blockOS.fields
      (\<lambda>url user key. Some \<lparr>hc_url = url, hc_user = user, hc_key = key\<rparr>)
      (\<lambda>cli r st. (Inr (Some \<lparr>hb_ID = ''v1'', hb_Portals = [''10.0.0.1'', ''10.0.0.2''], hb_Iqn = ''iqn.1'',
                            hb_User = ''chap'', hb_AuthKey = ''pw''\<rparr>), [''create'', ''v1''] # st))
      (\<lambda>cli vid st. (Some errIDNotFound, [''delete'', vid] # st))
      (\<lambda>cmd args st. ((''{}'', None), args # st))
      (\<lambda>out r. Inr (Some \<lparr>ge_Portals = [''10.0.0.3''], ge_Iqn = ''iqn.2'', ge_User = ''chap'', ge_AuthKey = ''pw''\<rparr>))
      (\<lambda>s st. (None, [''secret'', sec_Namespace s, sec_Name s] # st))
      (\<lambda>ns n st. (None, [''delete secret'', ns, n] # st)))"

lemmas demo_block_simps = demo_block_def glusterOS.defs blockOS.defs

lemma demo_block_fields:
  "gs_range demo_block m st = sorted_keys m"
  "gs_NewUUID demo_block st = (''u'', st)"
  "gs_RoundUpToGiB demo_block sz = (sz + GiB - 1) div GiB"
  "gs_AccessModesContainedInAll demo_block allowed ms = (set ms \<subseteq> set allowed)"
  "bo_NewClient demo_block url user key = Some \<lparr>hc_url = url, hc_user = user, hc_key = key\<rparr>"
  "bo_BlockVolumeCreate demo_block cli r st =
     (Inr (Some \<lparr>hb_ID = ''v1'', hb_Portals = [''10.0.0.1'', ''10.0.0.2''], hb_Iqn = ''iqn.1'',
        hb_User = ''chap'', hb_AuthKey = ''pw''\<rparr>), [''create'', ''v1''] # st)"
  "bo_BlockVolumeDelete demo_block cli vid st = (Some errIDNotFound, [''delete'', vid] # st)"
  "bo_exec demo_block cmd args st = ((''{}'', None), args # st)"
  "bo_Unmarshal demo_block out old =
     Inr (Some \<lparr>ge_Portals = [''10.0.0.3''], ge_Iqn = ''iqn.2'', ge_User = ''chap'', ge_AuthKey = ''pw''\<rparr>)"
  "bo_CreateSecret demo_block sec st = (None, [''secret'', sec_Namespace sec, sec_Name sec] # st)"
  "bo_DeleteSecret demo_block ns n st = (None, [''delete secret'', ns, n] # st)"
  by (simp_all add: demo_block_simps)

lemma demo_block_legal: "legal_gluster_ranges demo_block"
  by (simp add: legal_gluster_ranges_def demo_block_fields sorted_keys_legal)

definition demo_heketi_params :: "string gomap" where
  "demo_heketi_params = fmupd ''restauthenabled'' ''false'' (fmupd ''resturl'' ''http://h:8081'' fmempty)"

definition demo_exec_params :: "string gomap" where
  "demo_exec_params = fmupd ''blockmodeargs'' ''glustervol=g,hosts=h'' (fmupd ''opmode'' ''gluster-block'' fmempty)"

definition demo_block_claim :: "string gomap \<Rightarrow> VolumeOptions" where
  "demo_block_claim params =
     \<lparr>vo_PVName = ''pv1'', vo_Parameters = params, vo_ReclaimPolicy = ''Delete'', vo_MountOptions = None,
      vo_Selector = False, vo_AccessModes = [''ReadWriteOnce''], vo_Request = GiB, vo_VolumeMode = None,
      vo_PVCName = ''c1'', vo_PVCNamespace = ''default'', vo_PVCAnnotations = fmempty\<rparr>"

lemma demo_block_keys:
  "sorted_keys demo_heketi_params = [''restauthenabled'', ''resturl'']"
  "sorted_keys demo_exec_params = [''blockmodeargs'', ''opmode'']"
  by code_simp+

lemma demo_block_lower:
  "ToLower ''restauthenabled'' = ''restauthenabled''" "ToLower ''resturl'' = ''resturl''"
  "ToLower ''blockmodeargs'' = ''blockmodeargs''" "ToLower ''opmode'' = ''opmode''" "ToLower ''false'' = ''false''"
  by code_simp+

definition demo_block_cfg :: blockConfig where
  "demo_block_cfg = blockConfig.truncate (block_defaults\<lparr>bc_chapAuthEnabled := True\<rparr>)"

lemmas demo_block_cfg_simps = demo_block_cfg_def block_defaults_def blockConfig.defs

lemma demo_heketi_parse:
  "block_parseClassParameters demo_block client demo_heketi_params st =
     Some (Inr (demo_block_cfg\<lparr>bc_url := ''http://h:8081'', bc_opMode := heketiOpmode\<rparr>))"
proof -
  have "range_loop block_param (sorted_keys demo_heketi_params) demo_heketi_params block_defaults =
      Inr (block_defaults\<lparr>bc_url := ''http://h:8081'', bm_authEnabled := False\<rparr>)"
    unfolding demo_block_keys by (simp add: demo_heketi_params_def block_param_def demo_block_lower)
  then show ?thesis
    by (simp add: block_parseClassParameters_def demo_block_fields)
      (simp add: block_credentials_def block_finish_def demo_block_cfg_simps)
qed

lemma demo_exec_parse:
  "block_parseClassParameters demo_block client demo_exec_params st =
     Some (Inr (demo_block_cfg\<lparr>bc_restAuthEnabled := True, bc_opMode := glusterBlockOpmode,
        bc_blockModeArgs := fmupd ''hosts'' ''h'' (fmupd ''glustervol'' ''g'' fmempty)\<rparr>))"
proof -
  have "range_loop block_param (sorted_keys demo_exec_params) demo_exec_params block_defaults =
      Inr (block_defaults\<lparr>bm_blkmodeArgs := ''glustervol=g,hosts=h'', bm_Opmode := ''gluster-block''\<rparr>)"
    unfolding demo_block_keys by (simp add: demo_exec_params_def block_param_def demo_block_lower)
  then show ?thesis
    by (simp add: block_parseClassParameters_def demo_block_fields)
      (simp add: parseOpmodeArgs_def block_credentials_def block_finish_def demo_block_cfg_simps)
qed

lemma demo_heketi_run:
  "block_Provision demo_block (demo_block_claim demo_heketi_params) (NewGlusterBlockProvisioner True ''x'', []) =
     Some (Inr (block_PV (NewGlusterBlockProvisioner True ''x'') (demo_block_claim demo_heketi_params)
         (demo_block_cfg\<lparr>bc_url := ''http://h:8081'', bc_opMode := heketiOpmode\<rparr>)
         (serverAnn ''http://h:8081'' '''' '''' '''')
         \<lparr>is_TargetPortal = ''10.0.0.1'', is_Portals = [''10.0.0.2''], is_User = ''chap'', is_AuthKey = ''pw'', is_Iqn = ''iqn.1'',
          is_SessionCHAPAuth = True, is_BlockSecret = ''glusterblk-chap-secret'', is_BlockSecretNs = ''default'',
          is_BlockVolName = ''blockvol_v1'', is_VolumeID = ''v1''\<rparr>
         (Some \<lparr>sr_Name = ''glusterblk-chap-secret'', sr_Namespace = ''''\<rparr>)),
       NewGlusterBlockProvisioner True ''x'', [[''secret'', ''default'', ''glusterblk-chap-secret''], [''create'', ''v1'']])"
proof -
  have claim: "\<not> vo_Selector (demo_block_claim m)" "vo_AccessModes (demo_block_claim m) = [''ReadWriteOnce'']"
    "vo_Parameters (demo_block_claim m) = m" "vo_PVCNamespace (demo_block_claim m) = ''default''" for m
    by (simp_all add: demo_block_claim_def)
  have "bc_volumeNamePrefix demo_block_cfg = ''''" "bc_clusterID demo_block_cfg = ''''" "bc_chapAuthEnabled demo_block_cfg"
    "bc_user demo_block_cfg = ''''" "bc_restSecretValue demo_block_cfg = ''''" "bc_restSecretName demo_block_cfg = ''''"
    "bc_restSecretNamespace demo_block_cfg = ''''"
    by (simp_all add: demo_block_cfg_simps)
  then show ?thesis
    by (simp add: block_Provision_def claim demo_block_fields block_GetAccessModes_def demo_heketi_parse block_provisionWith_def
        block_volName_def block_createVolume_def heketiBlockVolCreate_def block_iscsi_def storeFieldsFromResponse_def
        zero_iscsiSpec_def sortTargetPortal_def block_chap_def block_createSecretRef_def tolerate_existing_def block_modeAnn_def
        NewGlusterBlockProvisioner_def Let_def)
qed

theorem portals_are_kept_witness:
  "\<exists>iscsi. block_iscsi ''n'' (demo_block_cfg\<lparr>bc_opMode := glusterBlockOpmode\<rparr>)
       \<lparr>gv_exec = Some \<lparr>ge_Portals = [''a'', ''b''], ge_Iqn = ''iqn'', ge_User = '''', ge_AuthKey = ''''\<rparr>, gv_heketi = None\<rparr> = Inr iscsi \<and>
     is_TargetPortal iscsi \<noteq> ''''"
proof -
  have "\<exists>iscsi. block_iscsi ''n'' (demo_block_cfg\<lparr>bc_opMode := glusterBlockOpmode\<rparr>)
       \<lparr>gv_exec = Some \<lparr>ge_Portals = [''a'', ''b''], ge_Iqn = ''iqn'', ge_User = '''', ge_AuthKey = ''''\<rparr>, gv_heketi = None\<rparr> = Inr iscsi"
    by (simp add: block_iscsi_def storeFieldsFromResponse_def zero_iscsiSpec_def sortTargetPortal_def)
  then show ?thesis using portals_are_kept by blast
qed

theorem chap_volume_has_secret_witness:
  "\<exists>pv p1 st1 i. block_Provision demo_block (demo_block_claim demo_heketi_params) (NewGlusterBlockProvisioner True ''x'', []) =
     Some (Inr pv, p1, st1) \<and> pv_ISCSI pv = Some i \<and> iscsi_TargetPortal i \<noteq> ''''"
  using chap_volume_has_secret [OF demo_heketi_run] demo_heketi_run by blast

theorem hacount_default_is_lost_witness:
  "bc_haCount (demo_block_cfg\<lparr>bc_url := ''http://h:8081'', bc_opMode := heketiOpmode\<rparr>) = 0"
  by (rule hacount_default_is_lost [OF demo_heketi_parse]) (auto simp: demo_heketi_params_def demo_block_lower split: if_splits)

theorem block_delete_undoes_provision_witness:
  "\<exists>pv p1 st1. block_Provision demo_block (demo_block_claim demo_heketi_params) (NewGlusterBlockProvisioner True ''x'', []) =
     Some (Inr pv, p1, st1) \<and>
   block_Delete demo_block pv (p1, []) =
     Some (None, p1, [[''delete secret'', ''default'', ''glusterblk-chap-secret''], [''delete'', ''v1'']])"
proof -
  have plain: "plain_server (demo_block_cfg\<lparr>bc_url := ''http://h:8081'', bc_opMode := heketiOpmode\<rparr>)"
    by (simp add: plain_server_def no_char_def demo_block_cfg_simps)
  have client: "bp_client (NewGlusterBlockProvisioner True ''x'')" by (simp add: NewGlusterBlockProvisioner_def)
  have claim: "vo_Parameters (demo_block_claim m) = m" for m by (simp add: demo_block_claim_def)
  have parse: "block_parseClassParameters demo_block (bp_client (NewGlusterBlockProvisioner True ''x''))
      (vo_Parameters (demo_block_claim demo_heketi_params)) [] =
    Some (Inr (demo_block_cfg\<lparr>bc_url := ''http://h:8081'', bc_opMode := heketiOpmode\<rparr>))"
    by (simp add: claim demo_heketi_parse)
  show ?thesis
    using block_delete_undoes_provision [OF demo_heketi_run client parse _ plain _ refl refl, where ?st2.0 = "[]"]
      demo_heketi_run
    by (simp add: block_PV_fields demo_block_fields block_deleteSecret_def demo_block_cfg_simps)
qed

lemma demo_exec_run:
  "\<exists>pv st1. block_Provision demo_block (demo_block_claim demo_exec_params) (NewGlusterBlockProvisioner True ''x'', []) =
     Some (Inr pv, NewGlusterBlockProvisioner True ''x'', st1) \<and> map_get (pv_Annotations pv) ''AccessKey'' = ''glusterblk-chap-secret'' \<and>
     map_get (pv_Annotations pv) ''AccessKeyNs'' = ''default''"
proof -
  have claim: "\<not> vo_Selector (demo_block_claim m)" "vo_AccessModes (demo_block_claim m) = [''ReadWriteOnce'']"
    "vo_Parameters (demo_block_claim m) = m" "vo_PVCNamespace (demo_block_claim m) = ''default''" for m
    by (simp_all add: demo_block_claim_def)
  have "bc_volumeNamePrefix demo_block_cfg = ''''" "bc_chapAuthEnabled demo_block_cfg" by (simp_all add: demo_block_cfg_simps)
  then show ?thesis
    by (simp add: block_Provision_def claim demo_block_fields block_GetAccessModes_def demo_exec_parse block_provisionWith_def
        block_volName_def block_createVolume_def glusterBlockExecCreate_def block_iscsi_def storeFieldsFromResponse_def
        zero_iscsiSpec_def sortTargetPortal_def block_chap_def block_createSecretRef_def tolerate_existing_def
        NewGlusterBlockProvisioner_def Let_def block_PV_fields)
qed

theorem block_exec_delete_undoes_create_witness:
  "\<exists>pv p1 st1 name. block_Provision demo_block (demo_block_claim demo_exec_params) (NewGlusterBlockProvisioner True ''x'', []) =
     Some (Inr pv, p1, st1) \<and>
   block_Delete demo_block pv (p1, []) =
     Some (None, p1, [[''delete secret'', ''default'', ''glusterblk-chap-secret''], [''delete'', ''g/'' @ name, ''--json'']])"
proof -
  have plain: "plain_args (fmupd ''hosts'' ''h'' (fmupd ''glustervol'' ''g'' fmempty))"
    by (auto simp: plain_args_def no_char_def split: if_splits)
  have claim: "vo_Parameters (demo_block_claim m) = m" for m by (simp add: demo_block_claim_def)
  have parse: "block_parseClassParameters demo_block (bp_client (NewGlusterBlockProvisioner True ''x''))
      (vo_Parameters (demo_block_claim demo_exec_params)) [] =
    Some (Inr (demo_block_cfg\<lparr>bc_restAuthEnabled := True, bc_opMode := glusterBlockOpmode,
        bc_blockModeArgs := fmupd ''hosts'' ''h'' (fmupd ''glustervol'' ''g'' fmempty)\<rparr>))"
    by (simp add: claim demo_exec_parse)
  obtain pv st1 where run: "block_Provision demo_block (demo_block_claim demo_exec_params) (NewGlusterBlockProvisioner True ''x'', []) =
     Some (Inr pv, NewGlusterBlockProvisioner True ''x'', st1)"
    and key: "map_get (pv_Annotations pv) ''AccessKey'' = ''glusterblk-chap-secret''" "map_get (pv_Annotations pv) ''AccessKeyNs'' = ''default''"
    using demo_exec_run by blast
  have client: "bp_client (NewGlusterBlockProvisioner True ''x'')" by (simp add: NewGlusterBlockProvisioner_def)
  have secret: "block_deleteSecret demo_block True pv st = Some (None, [''delete secret'', ''default'', ''glusterblk-chap-secret''] # st)" for st
    by (simp add: block_deleteSecret_def key demo_block_fields)
  let ?cfg = "demo_block_cfg\<lparr>bc_restAuthEnabled := True, bc_opMode := glusterBlockOpmode,
        bc_blockModeArgs := fmupd ''hosts'' ''h'' (fmupd ''glustervol'' ''g'' fmempty)\<rparr>"
  have "bc_opMode ?cfg = glusterBlockOpmode" "plain_args (bc_blockModeArgs ?cfg)" using plain by simp_all
  from block_exec_delete_undoes_create [OF run demo_block_legal parse this refl]
  obtain name where "\<forall>st3 out st4. bo_exec demo_block glusterBlockOpmode
         [''delete'', map_get (bc_blockModeArgs ?cfg) ''glustervol'' @ ''/'' @ name, ''--json''] st3 = ((out, None), st4) \<longrightarrow>
       block_Delete demo_block pv (NewGlusterBlockProvisioner True ''x'', st3) = map_option (\<lambda>(err, st).
         (err, NewGlusterBlockProvisioner True ''x'', st)) (block_deleteSecret demo_block (bp_client (NewGlusterBlockProvisioner True ''x'')) pv st4)"
    by blast
  then have "block_Delete demo_block pv (NewGlusterBlockProvisioner True ''x'', []) = Some (None, NewGlusterBlockProvisioner True ''x'',
      [[''delete secret'', ''default'', ''glusterblk-chap-secret''], [''delete'', ''g/'' @ name, ''--json'']])"
    by (simp add: demo_block_fields client secret)
  with run show ?thesis by blast
qed

end
