(* ===== verification/GlusterSimple.thy ===== *)
theory GlusterSimple
  imports GlusterLib GoPath
begin

text \<open>
  \<open>gluster/glusterfs/pkg/volume\<close> (\<open>config.go\<close>, \<open>provision.go\<close>, \<open>delete.go\<close>, \<open>exec.go\<close>, \<open>util.go\<close>) and the
  command's \<open>main.go\<close>: Gluster volumes made by running the command line in the pods of the Gluster nodes. \<open>simpleOS\<close> adds
  the list of pods, the execution of a command in a container and the storage classes to the common
  world. A panic and \<open>Fatalf\<close> are \<open>None\<close>.
\<close>

abbreviation simple_epSvcPrefix :: string where
  "simple_epSvcPrefix \<equiv> ''glusterfs-simple-''"

record gPod =
  gpod_Name :: string
  gpod_Namespace :: string
  gpod_PodIP :: string
  gpod_Containers :: "string list"

record execRequest =
  xr_Pod :: string
  xr_Namespace :: string
  xr_Container :: string
  xr_Command :: "string list"

record 'o simpleOS = "'o glusterOS" +
  so_ListPods :: "string \<Rightarrow> string \<Rightarrow> 'o \<Rightarrow> gPod list result"
  so_NewExecutor :: "execRequest \<Rightarrow> 'o \<Rightarrow> error option"
  so_Stream :: "execRequest \<Rightarrow> 'o \<Rightarrow> error option \<times> 'o"
  so_PVClass :: "PersistentVolume \<Rightarrow> string"
  so_GetClass :: "string \<Rightarrow> 'o \<Rightarrow> string gomap result"

section \<open>Configuration\<close>

record BrickRootPath =
  brp_Host :: string
  brp_Path :: string

record ProvisionerConfig =
  pc_ForceCreate :: bool
  pc_Namespace :: string
  pc_LabelSelector :: string
  pc_BrickRootPaths :: "BrickRootPath list"
  pc_VolumeName :: string
  pc_VolumeType :: string

fun brickRootPaths :: "string \<Rightarrow> string list \<Rightarrow> BrickRootPath list result" where
  "brickRootPaths param [] = Inr []"
| "brickRootPaths param (path # pairs) =
     (let rawBrickPath = split_on (CHR '':'') (TrimSpace path)
      in if length rawBrickPath < 2 then
           Inl (Errorf ''BrickRootPath is invalid (format is `host:/path/to/root,host2:/path/to/root2`): %s'' [param])
         else
           and_then (brickRootPaths param pairs)
             (\<lambda>rest. Inr (\<lparr>brp_Host = rawBrickPath ! 0, brp_Path = rawBrickPath ! 1\<rparr> # rest)))"

definition parseBrickRootPaths :: "string \<Rightarrow> BrickRootPath list result" where
  "parseBrickRootPaths param = brickRootPaths param (split_on (CHR '','') param)"

definition pc_validate :: "ProvisionerConfig \<Rightarrow> error option" where
  "pc_validate config =
     (if length (pc_BrickRootPaths config) = 0 then Some (Errorf ''brickRootPaths are not specified'' []) else None)"

definition simple_param :: "string \<Rightarrow> string \<Rightarrow> ProvisionerConfig \<Rightarrow> error + ProvisionerConfig" where
  "simple_param k v c =
     (if ToLower k = ''brickrootpaths'' then
        (case parseBrickRootPaths v of Inl err \<Rightarrow> Inl err | Inr paths \<Rightarrow> Inr (c\<lparr>pc_BrickRootPaths := paths\<rparr>))
      else if ToLower k = ''volumetype'' then Inr (c\<lparr>pc_VolumeType := TrimSpace v\<rparr>)
      else if ToLower k = ''namespace'' then Inr (c\<lparr>pc_Namespace := TrimSpace v\<rparr>)
      else if ToLower k = ''selector'' then Inr (c\<lparr>pc_LabelSelector := TrimSpace v\<rparr>)
      else if ToLower k = ''forcecreate'' then Inr (c\<lparr>pc_ForceCreate := (ToLower (TrimSpace v) = ''true'')\<rparr>)
      else Inr c)"

definition NewProvisionerConfig ::
  "'o simpleOS \<Rightarrow> string \<Rightarrow> string gomap \<Rightarrow> 'o \<Rightarrow> ProvisionerConfig result" where
  "NewProvisionerConfig os pvName params st =
     and_then
       (range_loop simple_param (gs_range os params st) params
          \<lparr>pc_ForceCreate = False, pc_Namespace = ''default'', pc_LabelSelector = ''glusterfs-node==pod'',
           pc_BrickRootPaths = [], pc_VolumeName = pvName, pc_VolumeType = ''''\<rparr>)
       (\<lambda>config. case pc_validate config of Some err \<Rightarrow> Inl err | None \<Rightarrow> Inr config)"

section \<open>Running commands\<close>

definition selectPod :: "'o simpleOS \<Rightarrow> string \<Rightarrow> ProvisionerConfig \<Rightarrow> 'o \<Rightarrow> gPod result" where
  "selectPod os host config st =
     (case so_ListPods os (pc_Namespace config) (pc_LabelSelector config) st of
        Inl err \<Rightarrow> Inl err
      | Inr pods \<Rightarrow>
          if length pods = 0 then Inl (Errorf ''No pods found for glusterfs, LabelSelector: %v'' [pc_LabelSelector config])
          else
            (case List.find (\<lambda>pod. gpod_PodIP pod = host) pods of
               Some pod \<Rightarrow> Inr pod
             | None \<Rightarrow> Inl (Errorf ''No pod found to match NodeName == %s'' [host])))"

definition ExecuteCommand :: "'o simpleOS \<Rightarrow> string \<Rightarrow> gPod \<Rightarrow> 'o \<Rightarrow> (error option \<times> 'o) option" where
  "ExecuteCommand os command pod st =
     (case gpod_Containers pod of
        [] \<Rightarrow> None
      | containerName # _ \<Rightarrow>
          (let req = \<lparr>xr_Pod = gpod_Name pod, xr_Namespace = gpod_Namespace pod, xr_Container = containerName,
                      xr_Command = [''/bin/bash'', ''-c'', command]\<rparr>
           in (case so_NewExecutor os req st of
                 Some err \<Rightarrow> None
               | None \<Rightarrow> Some (so_Stream os req st))))"

fun executeAll :: "'o simpleOS \<Rightarrow> string list \<Rightarrow> gPod \<Rightarrow> 'o \<Rightarrow> (error option \<times> 'o) option" where
  "executeAll os [] pod st = Some (None, st)"
| "executeAll os (command # commands) pod st =
     (case ExecuteCommand os command pod st of
        None \<Rightarrow> None
      | Some (Some err, st) \<Rightarrow> Some (Some err, st)
      | Some (None, st) \<Rightarrow> executeAll os commands pod st)"

definition ExecuteCommands ::
  "'o simpleOS \<Rightarrow> string \<Rightarrow> string list \<Rightarrow> ProvisionerConfig \<Rightarrow> 'o \<Rightarrow> (error option \<times> 'o) option" where
  "ExecuteCommands os host commands config st =
     (case selectPod os host config st of
        Inl err \<Rightarrow> Some (Some err, st)
      | Inr pod \<Rightarrow> executeAll os commands pod st)"

section \<open>Deleting\<close>

definition simple_deleteEndpointService ::
  "'o simpleOS \<Rightarrow> bool \<Rightarrow> string \<Rightarrow> string \<Rightarrow> 'o \<Rightarrow> error option \<times> 'o" where
  "simple_deleteEndpointService os client ns epServiceName st =
     (if \<not> client then (Some (Errorf ''glusterfs: failed to get kube client when deleting endpoint service'' []), st)
      else (case gs_DeleteService os ns epServiceName st of (err, st) \<Rightarrow> (None, st)))"

definition brickPath :: "BrickRootPath \<Rightarrow> string \<Rightarrow> string \<Rightarrow> ProvisionerConfig \<Rightarrow> string" where
  "brickPath root ns pvcName cfg = Join [brp_Path root, ns, join_with ''-'' [pvcName, pc_VolumeName cfg]]"

fun deleteBricks ::
  "'o simpleOS \<Rightarrow> string \<Rightarrow> string \<Rightarrow> ProvisionerConfig \<Rightarrow> BrickRootPath list \<Rightarrow> 'o \<Rightarrow> 'o option" where
  "deleteBricks os ns pvcName cfg [] st = Some st"
| "deleteBricks os ns pvcName cfg (root # roots) st =
     (case ExecuteCommands os (brp_Host root) [''rm -rf '' @ brickPath root ns pvcName cfg] cfg st of
        None \<Rightarrow> None
      | Some (err, st) \<Rightarrow> deleteBricks os ns pvcName cfg roots st)"

definition deleteGlusterVolume :: "'o simpleOS \<Rightarrow> ProvisionerConfig \<Rightarrow> 'o \<Rightarrow> 'o option" where
  "deleteGlusterVolume os cfg st =
     (case pc_BrickRootPaths cfg of
        [] \<Rightarrow> None
      | root # _ \<Rightarrow>
          (case ExecuteCommands os (brp_Host root) [''gluster --mode=script volume stop '' @ pc_VolumeName cfg @ '' force''] cfg st of
             None \<Rightarrow> None
           | Some (Some err, st) \<Rightarrow> Some st
           | Some (None, st) \<Rightarrow>
               map_option snd
                 (ExecuteCommands os (brp_Host root) [''gluster --mode=script volume delete '' @ pc_VolumeName cfg] cfg st)))"

text \<open>Whatever fails on the way is logged only.\<close>

definition simple_deleteVolume ::
  "'o simpleOS \<Rightarrow> bool \<Rightarrow> string \<Rightarrow> string \<Rightarrow> ProvisionerConfig \<Rightarrow> 'o \<Rightarrow> 'o option" where
  "simple_deleteVolume os client ns name cfg st =
     do {
       st \<leftarrow> deleteGlusterVolume os cfg st;
       st \<leftarrow> deleteBricks os ns name cfg (pc_BrickRootPaths cfg) st;
       Some (snd (simple_deleteEndpointService os client ns (simple_epSvcPrefix @ name) st))
     }"

definition simple_GetClassForVolume :: "'o simpleOS \<Rightarrow> bool \<Rightarrow> PersistentVolume \<Rightarrow> 'o \<Rightarrow> string gomap result" where
  "simple_GetClassForVolume os client pv st =
     (if \<not> client then Inl (Errorf ''Cannot get kube client'' [])
      else
        (let className = so_PVClass os pv
         in if className = '''' then Inl (Errorf ''Volume has no storage class'' [])
            else so_GetClass os className st))"

definition simple_Delete :: "'o simpleOS \<Rightarrow> bool \<Rightarrow> PersistentVolume \<Rightarrow> 'o \<Rightarrow> (error option \<times> 'o) option" where
  "simple_Delete os client volume st =
     (case simple_GetClassForVolume os client volume st of
        Inl err \<Rightarrow> Some (Some err, st)
      | Inr parameters \<Rightarrow>
          (case NewProvisionerConfig os (pv_Name volume) parameters st of
             Inl err \<Rightarrow> Some (Some (Wrapf ''Parameter is invalid: %s'' [] err), st)
           | Inr cfg \<Rightarrow>
               (case pv_ClaimRef volume of
                  None \<Rightarrow> Some (Some (Errorf ''glusterfs: ClaimRef is nil'' []), st)
                | Some (ns, name) \<Rightarrow>
                    if ns = '''' then Some (Some (Errorf ''glusterfs: namespace is nil'' []), st)
                    else
                      (case simple_deleteVolume os client ns name cfg st of
                         None \<Rightarrow> None
                       | Some st \<Rightarrow> (case gs_Release os volume st of (err, st) \<Rightarrow> Some (None, st))))))"

section \<open>Provisioning\<close>

definition simple_createEndpointService ::
  "'o simpleOS \<Rightarrow> bool \<Rightarrow> string \<Rightarrow> string \<Rightarrow> string list \<Rightarrow> string \<Rightarrow> 'o \<Rightarrow> (Endpoints \<times> Service) result \<times> 'o" where
  "simple_createEndpointService os client ns epServiceName hostips pvcname st =
     (let labels = fmupd ''gluster.kubernetes.io/provisioned-for-pvc'' pvcname fmempty;
          endpoint = \<lparr>ep_Namespace = ns, ep_Name = epServiceName, ep_Labels = labels, ep_Addresses = hostips,
                      ep_Ports = [(1, ''TCP'')]\<rparr>;
          service = \<lparr>svc_Namespace = ns, svc_Name = epServiceName, svc_Labels = labels, svc_Ports = [(1, ''TCP'')]\<rparr>
      in if \<not> client then
           (Inl (Errorf ''glusterfs: failed to get kube client when creating endpoint service'' []), st)
         else
           (case gs_CreateEndpoints os endpoint st of
              (err, st) \<Rightarrow>
                (case tolerate_existing err of
                   Some e \<Rightarrow> (Inl (Wrapf ''error creating endpoint: %v'' [] e), st)
                 | None \<Rightarrow>
                     (case gs_CreateService os service st of
                        (err, st) \<Rightarrow>
                          (case tolerate_existing err of
                             Some e \<Rightarrow> (Inl (Wrapf ''error creating service: %v'' [] e), st)
                           | None \<Rightarrow> (Inr (endpoint, service), st))))))"

definition simple_getClusterNodes :: "ProvisionerConfig \<Rightarrow> string list" where
  "simple_getClusterNodes cfg = map brp_Host (pc_BrickRootPaths cfg)"

record glusterBrick =
  gb_Host :: string
  gb_Path :: string

definition brickCommands :: "int \<Rightarrow> string \<Rightarrow> string list" where
  "brickCommands gid path = [''mkdir -p '' @ path, ''chown :'' @ FormatInt gid @ '' '' @ path, ''chmod 0771 '' @ path]"

fun createBricks ::
  "'o simpleOS \<Rightarrow> string \<Rightarrow> string \<Rightarrow> ProvisionerConfig \<Rightarrow> int \<Rightarrow> BrickRootPath list \<Rightarrow> 'o \<Rightarrow>
     (glusterBrick list result \<times> 'o) option" where
  "createBricks os ns pvcName cfg gid [] st = Some (Inr [], st)"
| "createBricks os ns pvcName cfg gid (root # roots) st =
     (let path = brickPath root ns pvcName cfg
      in (case ExecuteCommands os (brp_Host root) (brickCommands gid path) cfg st of
            None \<Rightarrow> None
          | Some (Some err, st) \<Rightarrow> Some (Inl err, st)
          | Some (None, st) \<Rightarrow>
              (case createBricks os ns pvcName cfg gid roots st of
                 None \<Rightarrow> None
               | Some (Inl err, st) \<Rightarrow> Some (Inl err, st)
               | Some (Inr bricks, st) \<Rightarrow> Some (Inr (\<lparr>gb_Host = brp_Host root, gb_Path = path\<rparr> # bricks), st))))"

definition createCommand :: "glusterBrick list \<Rightarrow> ProvisionerConfig \<Rightarrow> string" where
  "createCommand bricks cfg =
     ''gluster --mode=script volume create '' @ pc_VolumeName cfg @ '' '' @ pc_VolumeType cfg @
     concat (map (\<lambda>b. '' '' @ gb_Host b @ '':'' @ gb_Path b) bricks) @
     (if pc_ForceCreate cfg then '' force'' else '''')"

definition createGlusterVolume :: "'o simpleOS \<Rightarrow> glusterBrick list \<Rightarrow> ProvisionerConfig \<Rightarrow> 'o \<Rightarrow> (error option \<times> 'o) option" where
  "createGlusterVolume os bricks cfg st =
     (case bricks of
        [] \<Rightarrow> None
      | b # _ \<Rightarrow>
          ExecuteCommands os (gb_Host b)
            [createCommand bricks cfg, ''gluster --mode=script volume start '' @ pc_VolumeName cfg] cfg st)"

text \<open>The three stages of a creation; a failure of any of them is undone by \<open>deleteVolume\<close>.\<close>

definition simple_stages ::
  "'o simpleOS \<Rightarrow> bool \<Rightarrow> string \<Rightarrow> string \<Rightarrow> ProvisionerConfig \<Rightarrow> int \<Rightarrow> 'o \<Rightarrow> (GlusterfsVolumeSource result \<times> 'o) option" where
  "simple_stages os client ns name cfg gid st =
     (case createBricks os ns name cfg gid (pc_BrickRootPaths cfg) st of
        None \<Rightarrow> None
      | Some (Inl err, st) \<Rightarrow> Some (Inl err, st)
      | Some (Inr bricks, st) \<Rightarrow>
          (case createGlusterVolume os bricks cfg st of
             None \<Rightarrow> None
           | Some (Some err, st) \<Rightarrow> Some (Inl err, st)
           | Some (None, st) \<Rightarrow>
               (case simple_createEndpointService os client ns (simple_epSvcPrefix @ name) (simple_getClusterNodes cfg) name st of
                  (Inl err, st) \<Rightarrow> Some (Inl err, st)
                | (Inr (endpoint, service), st) \<Rightarrow>
                    Some (Inr \<lparr>glfs_EndpointsName = ep_Name endpoint, glfs_Path = pc_VolumeName cfg, glfs_ReadOnly = False\<rparr>, st))))"

definition simple_createVolume ::
  "'o simpleOS \<Rightarrow> bool \<Rightarrow> string \<Rightarrow> string \<Rightarrow> ProvisionerConfig \<Rightarrow> int \<Rightarrow> 'o \<Rightarrow> (GlusterfsVolumeSource result \<times> 'o) option" where
  "simple_createVolume os client ns name cfg gid st =
     (case simple_stages os client ns name cfg gid st of
        None \<Rightarrow> None
      | Some (Inr source, st) \<Rightarrow> Some (Inr source, st)
      | Some (Inl err, st) \<Rightarrow>
          map_option (\<lambda>st. (Inl err, st)) (simple_deleteVolume os client ns name cfg st))"

definition simple_Provision ::
  "'o simpleOS \<Rightarrow> bool \<Rightarrow> VolumeOptions \<Rightarrow> 'o \<Rightarrow> (PersistentVolume result \<times> 'o) option" where
  "simple_Provision os client options st =
     (if vo_Selector options then Some (Inl (Errorf ''claim Selector is not supported'' []), st)
      else
        (case gs_AllocateNext os options st of
           (Inl err, st) \<Rightarrow> Some (Inl err, st)
         | (Inr gid, st) \<Rightarrow>
             (case NewProvisionerConfig os (vo_PVName options) (vo_Parameters options) st of
                Inl err \<Rightarrow> Some (Inl (Wrapf ''Parameter is invalid: %s'' [] err), st)
              | Inr cfg \<Rightarrow>
                  (case simple_createVolume os client (vo_PVCNamespace options) (vo_PVCName options) cfg gid st of
                     None \<Rightarrow> None
                   | Some (Inl err, st) \<Rightarrow> Some (Inl err, st)
                   | Some (Inr r, st) \<Rightarrow>
                       Some (Inr (zero_PV
                         \<lparr>pv_Name := vo_PVName options,
                          pv_Annotations := fmupd ''pv.beta.kubernetes.io/gid'' (FormatInt gid)
                            (fmupd ''kubernetes.io/createdby'' ''glusterfs-simple-provisioner'' fmempty),
                          pv_ReclaimPolicy := vo_ReclaimPolicy options,
                          pv_AccessModes := vo_AccessModes options,
                          pv_Capacity := Some (vo_Request options),
                          pv_Glusterfs := Some r\<rparr>), st)))))"

section \<open>The command\<close>

text \<open>\<open>IsQualifiedName\<close> is the API machinery's; it answers a list of messages.\<close>

datatype fieldError = Required string | Invalid string string

definition validateProvisioner :: "(string \<Rightarrow> string list) \<Rightarrow> string \<Rightarrow> fieldError list" where
  "validateProvisioner IsQualifiedName provisioner =
     (if length provisioner = 0 then [Required provisioner] else []) @
     (if length provisioner > 0 then map (Invalid provisioner) (IsQualifiedName (ToLower provisioner)) else [])"

text \<open>\<open>main\<close>, up to the library's controller: the name it serves and the provisioner's client, if it starts.\<close>

definition simple_main ::
  "(string \<Rightarrow> string list) \<Rightarrow> ('cfg, 'client) kubeLib \<Rightarrow> string \<Rightarrow> string \<Rightarrow> string \<Rightarrow> (string \<times> 'client \<times> string) option" where
  "simple_main IsQualifiedName kl provisioner master kubeconfig =
     (if validateProvisioner IsQualifiedName provisioner \<noteq> [] then None
      else
        do {
          client \<leftarrow> kube_connect kl master kubeconfig;
          version \<leftarrow> ok (kl_ServerVersion kl client);
          Some (provisioner, client, version)
        })"

section \<open>Parsing\<close>

lemma simple_key_cases:
  "ToLower k = ''brickrootpaths'' \<or> ToLower k = ''volumetype'' \<or> ToLower k = ''namespace'' \<or> ToLower k = ''selector'' \<or>
   ToLower k = ''forcecreate'' \<or>
   ToLower k \<notin> {''brickrootpaths'', ''volumetype'', ''namespace'', ''selector'', ''forcecreate''}"
  by blast

lemma simple_param_simps:
  "ToLower k = ''brickrootpaths'' \<Longrightarrow> simple_param k v c =
     (case parseBrickRootPaths v of Inl err \<Rightarrow> Inl err | Inr paths \<Rightarrow> Inr (c\<lparr>pc_BrickRootPaths := paths\<rparr>))"
  "ToLower k = ''volumetype'' \<Longrightarrow> simple_param k v c = Inr (c\<lparr>pc_VolumeType := TrimSpace v\<rparr>)"
  "ToLower k = ''namespace'' \<Longrightarrow> simple_param k v c = Inr (c\<lparr>pc_Namespace := TrimSpace v\<rparr>)"
  "ToLower k = ''selector'' \<Longrightarrow> simple_param k v c = Inr (c\<lparr>pc_LabelSelector := TrimSpace v\<rparr>)"
  "ToLower k = ''forcecreate'' \<Longrightarrow> simple_param k v c = Inr (c\<lparr>pc_ForceCreate := (ToLower (TrimSpace v) = ''true'')\<rparr>)"
  "ToLower k \<notin> {''brickrootpaths'', ''volumetype'', ''namespace'', ''selector'', ''forcecreate''} \<Longrightarrow> simple_param k v c = Inr c"
  by (simp_all add: simple_param_def)

lemma simple_param_commuting:
  assumes "distinct_params m"
  shows "commuting simple_param m"
  unfolding commuting_def
proof (intro allI impI)
  fix k k' v v' and c :: ProvisionerConfig
  assume "fmlookup m k = Some v" "fmlookup m k' = Some v'" "k \<noteq> k'"
  with assms have "ToLower k \<noteq> ToLower k'" by (auto simp: distinct_params_def)
  then show "agree (and_then (simple_param k v c) (simple_param k' v')) (and_then (simple_param k' v' c) (simple_param k v))"
    using simple_key_cases [of k] simple_key_cases [of k']
    by (elim disjE) (simp_all add: simple_param_simps split: sum.split)
qed

lemma NewProvisionerConfig_order:
  assumes "distinct_params params" and "legal_gluster_ranges os" and "NewProvisionerConfig os name params st = Inr cfg"
  shows "NewProvisionerConfig os name params st' = Inr cfg"
proof -
  have ranges: "enumerates (gs_range os params s) params" for s
    using assms(2) by (simp add: legal_gluster_ranges_def)
  obtain c where c: "range_loop simple_param (gs_range os params st) params
          \<lparr>pc_ForceCreate = False, pc_Namespace = ''default'', pc_LabelSelector = ''glusterfs-node==pod'',
           pc_BrickRootPaths = [], pc_VolumeName = name, pc_VolumeType = ''''\<rparr> = Inr c"
    using assms(3) unfolding NewProvisionerConfig_def and_then_def by (simp split: sum.splits)
  with assms(3) show ?thesis
    using agree_Inr [OF range_loop_order [OF simple_param_commuting [OF assms(1)] ranges ranges] c]
    by (simp add: NewProvisionerConfig_def)
qed

section \<open>Bricks\<close>

text \<open>
  A brick lies two levels below its root: when the root is absolute and the names of the claim's
  namespace and of the brick are plain, \<open>rm -rf\<close> never gets the root or a path outside it.
\<close>

theorem brick_below_root:
  assumes "rooted (brp_Path root)" and "plain_name ns" and "plain_name (pvcName @ ''-'' @ pc_VolumeName cfg)"
  shows "inside (brp_Path root) (brickPath root ns pvcName cfg) \<and>
    comps (brickPath root ns pvcName cfg) = comps (brp_Path root) @ [ns, pvcName @ ''-'' @ pc_VolumeName cfg]"
proof -
  let ?brick = "pvcName @ ''-'' @ pc_VolumeName cfg"
  have "brp_Path root \<noteq> []" "ns \<noteq> []" "?brick \<noteq> []"
    using assms by (auto dest: rooted_not_Nil)
  then have "brickPath root ns pvcName cfg = Clean ((brp_Path root @ slash # ns) @ slash # ?brick)"
    by (simp add: brickPath_def Join_def)
  moreover have "comps ((brp_Path root @ slash # ns) @ slash # ?brick) = comps (brp_Path root) @ [ns, ?brick]"
    using assms comps_append_plain [of "brp_Path root @ slash # ns" ?brick] comps_append_plain [of "brp_Path root" ns]
    by (auto dest: rooted_not_Nil)
  ultimately have "comps (brickPath root ns pvcName cfg) = comps (brp_Path root) @ [ns, ?brick]"
    and "rooted (brickPath root ns pvcName cfg)"
    using assms(1) comps_Clean [of "(brp_Path root @ slash # ns) @ slash # ?brick"] by simp_all
  then show ?thesis using assms(1) by (simp add: inside_def)
qed

text \<open>
  The commands the world has run, and a cluster whose pods can be reached: then a command is run
  whatever became of those before it.
\<close>

definition logs_commands :: "('o \<Rightarrow> string list) \<Rightarrow> 'o simpleOS \<Rightarrow> bool" where
  "logs_commands commands os \<longleftrightarrow>
     (\<forall>req st. commands (snd (so_Stream os req st)) = commands st @ [last (xr_Command req)]) \<and>
     (\<forall>ns n st. commands (snd (gs_DeleteService os ns n st)) = commands st)"

definition pods_ready :: "'o simpleOS \<Rightarrow> ProvisionerConfig \<Rightarrow> bool" where
  "pods_ready os cfg \<longleftrightarrow>
     (\<forall>root \<in> set (pc_BrickRootPaths cfg). \<forall>st. \<exists>pod. selectPod os (brp_Host root) cfg st = Inr pod \<and> gpod_Containers pod \<noteq> []) \<and>
     (\<forall>req st. so_NewExecutor os req st = None)"

lemma ExecuteCommands_one:
  assumes "logs_commands commands os" and "pods_ready os cfg" and "root \<in> set (pc_BrickRootPaths cfg)"
  shows "\<exists>err st'. ExecuteCommands os (brp_Host root) [command] cfg st = Some (err, st') \<and>
    commands st' = commands st @ [command]"
proof -
  obtain pod c cs where pod: "selectPod os (brp_Host root) cfg st = Inr pod" "gpod_Containers pod = c # cs"
    using assms(2,3) unfolding pods_ready_def by (metis list.exhaust)
  obtain err st' where run: "so_Stream os \<lparr>xr_Pod = gpod_Name pod, xr_Namespace = gpod_Namespace pod, xr_Container = c,
      xr_Command = [''/bin/bash'', ''-c'', command]\<rparr> st = (err, st')" by fastforce
  then have "commands st' = commands st @ [command]"
    using assms(1) unfolding logs_commands_def by (metis execRequest.select_convs(4) last.simps list.distinct(1) snd_conv)
  then show ?thesis
    using assms(2) pod run by (cases err) (simp_all add: ExecuteCommands_def ExecuteCommand_def pods_ready_def)
qed

lemma deleteBricks_commands:
  assumes "logs_commands commands os" and "pods_ready os cfg" and "set roots \<subseteq> set (pc_BrickRootPaths cfg)"
  shows "\<exists>st'. deleteBricks os ns name cfg roots st = Some st' \<and>
    commands st' = commands st @ map (\<lambda>root. ''rm -rf '' @ brickPath root ns name cfg) roots"
  using assms(3)
proof (induction roots arbitrary: st)
  case (Cons root roots)
  then have "root \<in> set (pc_BrickRootPaths cfg)" by simp
  then obtain err st1 where step: "ExecuteCommands os (brp_Host root) [''rm -rf '' @ brickPath root ns name cfg] cfg st = Some (err, st1)"
    "commands st1 = commands st @ [''rm -rf '' @ brickPath root ns name cfg]"
    using ExecuteCommands_one [OF assms(1,2)] by blast
  moreover obtain st2 where "deleteBricks os ns name cfg roots st1 = Some st2"
    "commands st2 = commands st1 @ map (\<lambda>root. ''rm -rf '' @ brickPath root ns name cfg) roots"
    using Cons by auto
  ultimately show ?case by simp
qed simp

lemma simple_deleteVolume_commands:
  assumes "logs_commands commands os" and "pods_ready os cfg" and "pc_BrickRootPaths cfg \<noteq> []"
  shows "\<exists>st' pre. simple_deleteVolume os client ns name cfg st = Some st' \<and>
    commands st' = commands st @ pre @ map (\<lambda>root. ''rm -rf '' @ brickPath root ns name cfg) (pc_BrickRootPaths cfg)"
proof -
  obtain root roots where roots: "pc_BrickRootPaths cfg = root # roots" using assms(3) by (cases "pc_BrickRootPaths cfg") auto
  then have "root \<in> set (pc_BrickRootPaths cfg)" by simp
  note one = ExecuteCommands_one [OF assms(1,2) this]
  obtain err st1 where stop: "ExecuteCommands os (brp_Host root)
      [''gluster --mode=script volume stop '' @ pc_VolumeName cfg @ '' force''] cfg st = Some (err, st1)"
    "commands st1 = commands st @ [''gluster --mode=script volume stop '' @ pc_VolumeName cfg @ '' force'']"
    using one by blast
  obtain err' st2 where del: "ExecuteCommands os (brp_Host root) [''gluster --mode=script volume delete '' @ pc_VolumeName cfg] cfg st1 =
      Some (err', st2)" "commands st2 = commands st1 @ [''gluster --mode=script volume delete '' @ pc_VolumeName cfg]"
    using one by blast
  obtain st3 pre where vol: "deleteGlusterVolume os cfg st = Some st3" "commands st3 = commands st @ pre"
    using stop del roots by (cases err) (auto simp: deleteGlusterVolume_def)
  obtain st4 where bricks: "deleteBricks os ns name cfg (pc_BrickRootPaths cfg) st3 = Some st4"
    "commands st4 = commands st3 @ map (\<lambda>root. ''rm -rf '' @ brickPath root ns name cfg) (pc_BrickRootPaths cfg)"
    using deleteBricks_commands [OF assms(1,2) order_refl] by blast
  have "commands (snd (simple_deleteEndpointService os client ns ep st4)) = commands st4" for ep
    using assms(1) by (simp add: simple_deleteEndpointService_def logs_commands_def case_prod_unfold)
  with vol bricks show ?thesis by (simp add: simple_deleteVolume_def)
qed

text \<open>
  A creation that fails, at whatever stage, ends with the removal of every brick: the last commands are
  one \<open>rm -rf\<close> for each of them, even if commands before failed.
\<close>

theorem failed_creation_removes_bricks:
  assumes "logs_commands commands os" and "pods_ready os cfg" and "pc_BrickRootPaths cfg \<noteq> []"
    and "simple_createVolume os client ns name cfg gid st = Some (Inl err, st')"
  shows "\<exists>pre. commands st' = pre @ map (\<lambda>root. ''rm -rf '' @ brickPath root ns name cfg) (pc_BrickRootPaths cfg)"
proof -
  obtain st1 where "simple_deleteVolume os client ns name cfg st1 = Some st'"
    using assms(4) by (auto simp: simple_createVolume_def split: option.splits sum.splits prod.splits)
  with simple_deleteVolume_commands [OF assms(1-3), of client ns name st1] show ?thesis
    by (metis append.assoc option.inject)
qed

lemma simple_Provision_Inr:
  assumes "simple_Provision os client options st = Some (Inr pv, st1)"
  obtains gid sta cfg where "gs_AllocateNext os options st = (Inr gid, sta)"
    "NewProvisionerConfig os (vo_PVName options) (vo_Parameters options) sta = Inr cfg"
    "\<exists>r. simple_createVolume os client (vo_PVCNamespace options) (vo_PVCName options) cfg gid sta = Some (Inr r, st1)"
    "pv_Name pv = vo_PVName options"
  using assms by (auto simp: simple_Provision_def split: if_splits option.splits sum.splits prod.splits)

lemma createBricks_paths:
  "createBricks os ns name cfg gid roots st = Some (Inr bricks, st') \<Longrightarrow>
     map gb_Path bricks = map (\<lambda>root. brickPath root ns name cfg) roots \<and> map gb_Host bricks = map brp_Host roots"
  by (induction roots arbitrary: st bricks)
    (auto simp: Let_def split: option.splits sum.splits prod.splits)

text \<open>
  Deleting a bound volume removes what the provisioning made: while the class keeps its parameters, the configuration
  is read again as it was (in whatever order), so the volume, the bricks and the endpoints deleted
  are the ones created; then the GID is released.
\<close>

theorem simple_delete_undoes_provision:
  assumes "simple_Provision os True options st = Some (Inr pv, st1)"
    and "legal_gluster_ranges os" and "distinct_params (vo_Parameters options)"
    and "pv_Name pv' = pv_Name pv" and "pv_ClaimRef pv' = Some (vo_PVCNamespace options, vo_PVCName options)"
    and "vo_PVCNamespace options \<noteq> ''''"
    and "so_PVClass os pv' \<noteq> ''''" and "so_GetClass os (so_PVClass os pv') st2 = Inr (vo_Parameters options)"
  shows "\<exists>cfg gid bricks sta stb.
    NewProvisionerConfig os (vo_PVName options) (vo_Parameters options) st2 = Inr cfg \<and>
    createBricks os (vo_PVCNamespace options) (vo_PVCName options) cfg gid (pc_BrickRootPaths cfg) sta = Some (Inr bricks, stb) \<and>
    map gb_Path bricks = map (\<lambda>root. brickPath root (vo_PVCNamespace options) (vo_PVCName options) cfg) (pc_BrickRootPaths cfg) \<and>
    simple_Delete os True pv' st2 =
      map_option (\<lambda>st. (None, snd (gs_Release os pv' st)))
        (simple_deleteVolume os True (vo_PVCNamespace options) (vo_PVCName options) cfg st2)"
proof -
  obtain gid sta cfg r where cfg: "NewProvisionerConfig os (vo_PVName options) (vo_Parameters options) sta = Inr cfg"
    and create: "simple_createVolume os True (vo_PVCNamespace options) (vo_PVCName options) cfg gid sta = Some (Inr r, st1)"
    and name: "pv_Name pv = vo_PVName options"
    by (rule simple_Provision_Inr [OF assms(1)]) blast
  obtain bricks stb where bricks:
    "createBricks os (vo_PVCNamespace options) (vo_PVCName options) cfg gid (pc_BrickRootPaths cfg) sta = Some (Inr bricks, stb)"
    using create by (auto simp: simple_createVolume_def simple_stages_def split: option.splits sum.splits prod.splits)
  have again: "NewProvisionerConfig os (vo_PVName options) (vo_Parameters options) st2 = Inr cfg"
    by (rule NewProvisionerConfig_order [OF assms(3,2) cfg])
  then have "simple_Delete os True pv' st2 =
      map_option (\<lambda>st. (None, snd (gs_Release os pv' st)))
        (simple_deleteVolume os True (vo_PVCNamespace options) (vo_PVCName options) cfg st2)"
    using assms(4-8) name
    by (simp add: simple_Delete_def simple_GetClassForVolume_def case_prod_unfold split: option.split)
  with again bricks createBricks_paths [OF bricks] show ?thesis by blast
qed

text \<open>
  Errors on deletion are only logged: while no pod can be listed, nothing of the volume is removed, and the deletion is
  reported as done; only the service and the GID go.
\<close>

theorem failed_deletion_reported_done:
  assumes "simple_GetClassForVolume os True volume st = Inr parameters"
    and "NewProvisionerConfig os (pv_Name volume) parameters st = Inr cfg"
    and "pv_ClaimRef volume = Some (ns, name)" and "ns \<noteq> ''''"
    and "\<And>n sel st. isl (so_ListPods os n sel st)"
  shows "simple_Delete os True volume st =
    Some (None, snd (gs_Release os volume (snd (gs_DeleteService os ns (simple_epSvcPrefix @ name) st))))"
proof -
  have unreachable: "\<exists>err. ExecuteCommands os host commands cfg st = Some (Some err, st)" for host commands st
    using assms(5) [of "pc_Namespace cfg" "pc_LabelSelector cfg" st]
    by (auto simp: ExecuteCommands_def selectPod_def isl_def)
  have bricks: "deleteBricks os ns name cfg roots st = Some st" for roots
  proof (induction roots)
    case (Cons root roots)
    then show ?case
      using unreachable [of "brp_Host root" "[''rm -rf '' @ brickPath root ns name cfg]" st] by auto
  qed simp
  obtain root roots where "pc_BrickRootPaths cfg = root # roots"
    using assms(2) by (cases "pc_BrickRootPaths cfg")
      (auto simp: NewProvisionerConfig_def and_then_Inr pc_validate_def split: option.splits if_splits)
  then have "deleteGlusterVolume os cfg st = Some st"
    using unreachable [of "brp_Host root" "[''gluster --mode=script volume stop '' @ pc_VolumeName cfg @ '' force'']" st]
    by (auto simp: deleteGlusterVolume_def)
  with bricks show ?thesis
    using assms(1-4)
    by (simp add: simple_Delete_def simple_deleteVolume_def simple_deleteEndpointService_def case_prod_unfold)
qed

text \<open>
  The GID is allocated before the parameters are read, and is not given back: a class that does not
  name its bricks uses up an identifier with every attempt.
\<close>

theorem bad_class_leaks_gid:
  assumes "\<not> vo_Selector options" and "gs_AllocateNext os options st = (Inr gid, st1)"
    and "\<forall>k. fmlookup (vo_Parameters options) k \<noteq> None \<longrightarrow> ToLower k \<noteq> ''brickrootpaths''"
  shows "\<exists>err. simple_Provision os client options st = Some (Inl err, st1)"
proof -
  have "isl (NewProvisionerConfig os (vo_PVName options) (vo_Parameters options) st1)"
  proof (rule ccontr)
    assume "\<not> ?thesis"
    then obtain cfg c where range: "range_loop simple_param (gs_range os (vo_Parameters options) st1) (vo_Parameters options)
          \<lparr>pc_ForceCreate = False, pc_Namespace = ''default'', pc_LabelSelector = ''glusterfs-node==pod'',
           pc_BrickRootPaths = [], pc_VolumeName = vo_PVName options, pc_VolumeType = ''''\<rparr> = Inr c"
      and "pc_BrickRootPaths c \<noteq> []"
      by (auto simp: NewProvisionerConfig_def and_then_def pc_validate_def split: sum.splits option.splits if_splits)
    moreover have "pc_BrickRootPaths c = []"
      by (rule range_loop_invariant [OF range, where P = "\<lambda>c. pc_BrickRootPaths c = []"])
        (use assms(3) in \<open>auto simp: simple_param_def split: if_splits sum.splits\<close>)
    ultimately show False by simp
  qed
  then show ?thesis using assms(1,2) by (auto simp: simple_Provision_def isl_def)
qed

section \<open>Witnesses\<close>

text \<open>A world whose state lists the commands that were run; \<open>start\<close> of a volume fails if asked to.\<close>

definition demo_simple :: "(string \<Rightarrow> bool) \<Rightarrow> string list simpleOS" where
  "demo_simple fails = glusterOS.extend
     \<lparr>gs_range = (\<lambda>m st. sorted_keys m),
      gs_GetSecret = (\<lambda>ns n st. Inl (NotFound n)),
      gs_CreateEndpoints = (\<lambda>ep st. (None, st)),
      gs_CreateService = (\<lambda>s st. (None, st)),
      gs_DeleteService = (\<lambda>ns n st. (None, st)),
      gs_AllocateNext = (\<lambda>_ st. (Inr 2000, st)),
      gs_Release = (\<lambda>pv st. (None, st)),
      gs_NewUUID = (\<lambda>st. (''u'', st)),
      gs_RoundUpToGiB = (\<lambda>s. (s + GiB - 1) div GiB),
      gs_AccessModesContainedInAll = (\<lambda>allowed ms. True)\<rparr>
    (simpleOS.fields
      (\<lambda>ns sel st. Inr [\<lparr>gpod_Name = ''p'', gpod_Namespace = ns, gpod_PodIP = ''h'', gpod_Containers = [''c'']\<rparr>])
      (\<lambda>req st. None)
      (\<lambda>req st. (if fails (last (xr_Command req)) then Some (ExtErr ''exit 1'') else None, st @ [last (xr_Command req)]))
      (\<lambda>pv. ''gluster'')
      (\<lambda>c st. Inr (fmupd ''brickRootPaths'' ''h:/b'' fmempty)))"

lemmas demo_simple_simps = demo_simple_def glusterOS.defs simpleOS.defs

lemma demo_simple_fields:
  "gs_range (demo_simple fails) m st = sorted_keys m"
  "gs_CreateEndpoints (demo_simple fails) ep st = (None, st)"
  "gs_CreateService (demo_simple fails) svc st = (None, st)"
  "gs_DeleteService (demo_simple fails) ns n st = (None, st)"
  "gs_AllocateNext (demo_simple fails) opts st = (Inr 2000, st)"
  "gs_Release (demo_simple fails) pv st = (None, st)"
  "so_ListPods (demo_simple fails) ns sel st =
     Inr [\<lparr>gpod_Name = ''p'', gpod_Namespace = ns, gpod_PodIP = ''h'', gpod_Containers = [''c'']\<rparr>]"
  "so_NewExecutor (demo_simple fails) req st = None"
  "so_Stream (demo_simple fails) req st =
     (if fails (last (xr_Command req)) then Some (ExtErr ''exit 1'') else None, st @ [last (xr_Command req)])"
  "so_PVClass (demo_simple fails) pv = ''gluster''"
  "so_GetClass (demo_simple fails) c st = Inr (fmupd ''brickRootPaths'' ''h:/b'' fmempty)"
  by (simp_all add: demo_simple_simps)

definition demo_simple_cfg :: ProvisionerConfig where
  "demo_simple_cfg =
     \<lparr>pc_ForceCreate = False, pc_Namespace = ''default'', pc_LabelSelector = ''glusterfs-node==pod'',
      pc_BrickRootPaths = [\<lparr>brp_Host = ''h'', brp_Path = ''/b''\<rparr>], pc_VolumeName = ''pv1'', pc_VolumeType = ''''\<rparr>"

definition demo_simple_claim :: VolumeOptions where
  "demo_simple_claim =
     \<lparr>vo_PVName = ''pv1'', vo_Parameters = fmupd ''brickRootPaths'' ''h:/b'' fmempty, vo_ReclaimPolicy = ''Delete'',
      vo_MountOptions = None, vo_Selector = False, vo_AccessModes = [''ReadWriteMany''], vo_Request = GiB,
      vo_VolumeMode = None, vo_PVCName = ''c1'', vo_PVCNamespace = ''default'', vo_PVCAnnotations = fmempty\<rparr>"

lemma demo_simple_world:
  "logs_commands (\<lambda>st. st) (demo_simple fails)" "pods_ready (demo_simple fails) demo_simple_cfg" "pc_BrickRootPaths demo_simple_cfg \<noteq> []"
  by (simp_all add: logs_commands_def pods_ready_def demo_simple_fields demo_simple_cfg_def selectPod_def)

lemma demo_simple_parse:
  "NewProvisionerConfig (demo_simple fails) ''pv1'' (fmupd ''brickRootPaths'' ''h:/b'' fmempty) st = Inr demo_simple_cfg"
proof -
  have "sorted_keys (fmupd ''brickRootPaths'' ''h:/b'' fmempty) = [''brickRootPaths'']"
    "ToLower ''brickRootPaths'' = ''brickrootpaths''" "TrimSpace ''h:/b'' = ''h:/b''"
    by code_simp+
  then show ?thesis
    by (simp add: NewProvisionerConfig_def demo_simple_fields simple_param_def parseBrickRootPaths_def pc_validate_def
        demo_simple_cfg_def)
qed

lemma demo_execute:
  "ExecuteCommands (demo_simple fails) ''h'' [c] demo_simple_cfg st =
     Some (if fails c then Some (ExtErr ''exit 1'') else None, st @ [c])"
  "ExecuteCommands (demo_simple fails) ''h'' [c, d] demo_simple_cfg st =
     (if fails c then Some (Some (ExtErr ''exit 1''), st @ [c])
      else Some (if fails d then Some (ExtErr ''exit 1'') else None, st @ [c, d]))"
  "ExecuteCommands (demo_simple fails) ''h'' [c, d, e] demo_simple_cfg st =
     (if fails c then Some (Some (ExtErr ''exit 1''), st @ [c])
      else if fails d then Some (Some (ExtErr ''exit 1''), st @ [c, d])
      else Some (if fails e then Some (ExtErr ''exit 1'') else None, st @ [c, d, e]))"
  by (simp_all add: ExecuteCommands_def selectPod_def ExecuteCommand_def demo_simple_fields)

lemma demo_brick: "brickPath \<lparr>brp_Host = ''h'', brp_Path = ''/b''\<rparr> ''default'' ''c1'' demo_simple_cfg = ''/b/default/c1-pv1''"
  by code_simp

lemma demo_simple_fields_cfg:
  "pc_BrickRootPaths demo_simple_cfg = [\<lparr>brp_Host = ''h'', brp_Path = ''/b''\<rparr>]" "pc_VolumeName demo_simple_cfg = ''pv1''"
  "pc_VolumeType demo_simple_cfg = ''''" "\<not> pc_ForceCreate demo_simple_cfg"
  by (simp_all add: demo_simple_cfg_def)

theorem brick_below_root_witness:
  "inside ''/b'' (brickPath \<lparr>brp_Host = ''h'', brp_Path = ''/b''\<rparr> ''default'' ''c1'' demo_simple_cfg)"
proof -
  have "rooted ''/b''" "plain_name ''default''" "plain_name (''c1'' @ ''-'' @ pc_VolumeName demo_simple_cfg)"
    by code_simp+
  then show ?thesis using brick_below_root [of "\<lparr>brp_Host = ''h'', brp_Path = ''/b''\<rparr>"] by simp
qed

theorem failed_creation_removes_bricks_witness:
  "\<exists>err st' pre. simple_createVolume (demo_simple (\<lambda>c. c = ''chmod 0771 /b/default/c1-pv1'')) True ''default'' ''c1'' demo_simple_cfg 2000 [] =
     Some (Inl err, st') \<and> st' = pre @ [''rm -rf /b/default/c1-pv1'']"
proof -
  have "\<exists>err st'. simple_createVolume (demo_simple (\<lambda>c. c = ''chmod 0771 /b/default/c1-pv1'')) True ''default'' ''c1'' demo_simple_cfg 2000 [] =
     Some (Inl err, st')"
    by (simp add: simple_createVolume_def simple_stages_def demo_simple_fields_cfg brickCommands_def demo_brick
        demo_execute simple_deleteVolume_def deleteGlusterVolume_def Let_def)
  then show ?thesis
    using failed_creation_removes_bricks [OF demo_simple_world] by (fastforce simp: demo_simple_fields_cfg demo_brick)
qed

lemma demo_simple_run:
  "\<exists>pv st1. simple_Provision (demo_simple (\<lambda>c. False)) True demo_simple_claim [] = Some (Inr pv, st1) \<and> pv_Name pv = ''pv1''"
  by (simp add: simple_Provision_def demo_simple_claim_def demo_simple_fields demo_simple_parse simple_createVolume_def
      simple_stages_def demo_simple_fields_cfg brickCommands_def demo_brick demo_execute createGlusterVolume_def
      simple_createEndpointService_def tolerate_existing_def Let_def)

theorem simple_delete_undoes_provision_witness:
  "\<exists>pv st1. simple_Provision (demo_simple (\<lambda>c. False)) True demo_simple_claim [] = Some (Inr pv, st1) \<and>
     (\<exists>st2. simple_Delete (demo_simple (\<lambda>c. False)) True (pv\<lparr>pv_ClaimRef := Some (''default'', ''c1'')\<rparr>) [] = Some (None, st2))"
proof -
  obtain pv st1 where run: "simple_Provision (demo_simple (\<lambda>c. False)) True demo_simple_claim [] = Some (Inr pv, st1)"
    "pv_Name pv = ''pv1''"
    using demo_simple_run by blast
  have legal: "legal_gluster_ranges (demo_simple (\<lambda>c. False))"
    by (simp add: legal_gluster_ranges_def demo_simple_fields sorted_keys_legal)
  have params: "distinct_params (vo_Parameters demo_simple_claim)" "vo_PVCNamespace demo_simple_claim \<noteq> ''''"
    by (auto simp: demo_simple_claim_def distinct_params_def split: if_splits)
  have claim: "vo_PVCNamespace demo_simple_claim = ''default''" "vo_PVCName demo_simple_claim = ''c1''"
    "vo_Parameters demo_simple_claim = fmupd ''brickRootPaths'' ''h:/b'' fmempty"
    by (simp_all add: demo_simple_claim_def)
  have "\<exists>st2. simple_Delete (demo_simple (\<lambda>c. False)) True (pv\<lparr>pv_ClaimRef := Some (''default'', ''c1'')\<rparr>) [] = Some (None, st2)"
  proof -
    obtain cfg where cfg: "NewProvisionerConfig (demo_simple (\<lambda>c. False)) (vo_PVName demo_simple_claim) (vo_Parameters demo_simple_claim) [] = Inr cfg"
      and del: "simple_Delete (demo_simple (\<lambda>c. False)) True (pv\<lparr>pv_ClaimRef := Some (''default'', ''c1'')\<rparr>) [] =
        map_option (\<lambda>st. (None, snd (gs_Release (demo_simple (\<lambda>c. False)) (pv\<lparr>pv_ClaimRef := Some (''default'', ''c1'')\<rparr>) st)))
        (simple_deleteVolume (demo_simple (\<lambda>c. False)) True ''default'' ''c1'' cfg [])"
      using simple_delete_undoes_provision [OF run(1) legal params(1), of "pv\<lparr>pv_ClaimRef := Some (''default'', ''c1'')\<rparr>" "[]"]
        run(2) params(2) by (auto simp: demo_simple_fields claim)
    have "cfg = demo_simple_cfg"
      using cfg by (simp add: claim demo_simple_claim_def demo_simple_parse)
    then show ?thesis
      by (simp add: del simple_deleteVolume_def deleteGlusterVolume_def demo_simple_fields_cfg demo_execute)
  qed
  with run(1) show ?thesis by blast
qed

theorem failed_deletion_reported_done_witness:
  "simple_Delete (demo_simple (\<lambda>c. False)\<lparr>so_ListPods := \<lambda>ns sel st. Inl (ExtErr ''down'')\<rparr>) True
     (zero_PV\<lparr>pv_Name := ''pv1'', pv_ClaimRef := Some (''default'', ''c1'')\<rparr>) [] = Some (None, [])"
proof -
  let ?os = "demo_simple (\<lambda>c. False)\<lparr>so_ListPods := \<lambda>ns sel st. Inl (ExtErr ''down'')\<rparr>"
  let ?pv = "zero_PV\<lparr>pv_Name := ''pv1'', pv_ClaimRef := Some (''default'', ''c1'')\<rparr>"
  have "NewProvisionerConfig ?os n m st = NewProvisionerConfig (demo_simple (\<lambda>c. False)) n m st" for n m st
    by (simp add: NewProvisionerConfig_def)
  then have "NewProvisionerConfig ?os (pv_Name ?pv) (fmupd ''brickRootPaths'' ''h:/b'' fmempty) [] = Inr demo_simple_cfg"
    by (simp add: demo_simple_parse)
  from failed_deletion_reported_done [OF _ this, of "''default''" "''c1''"]
  show ?thesis by (simp add: simple_GetClassForVolume_def demo_simple_fields)
qed

theorem bad_class_leaks_gid_witness:
  "\<exists>err. simple_Provision (demo_simple (\<lambda>c. False)) True (demo_simple_claim\<lparr>vo_Parameters := fmempty\<rparr>) [] = Some (Inl err, [])"
  by (rule bad_class_leaks_gid) (simp_all add: demo_simple_claim_def demo_simple_fields)

end
